(* ===== verification/Fin_Decimal.thy ===== *)
theory Fin_Decimal
  imports Main
begin

text \<open>
  Python's \<^verbatim>\<open>decimal.Decimal\<close> as the money code uses it: finite numbers
  \<open>coef * 10 ^ dexp\<close>, exact comparison, and addition and subtraction in the default
  context (28 significant digits, round half even).  NaN, infinities, signed zero and the
  exponent limits of the context are outside the model.  The theory ends with the fixed-point
  view: on amounts of a common scale the context arithmetic is exact as long as the result has
  at most 28 digits, and never falls below \<open>10 ^ 28\<close> units when the exact result does not.
\<close>

section \<open>Decimals and the default context\<close>

datatype decimal = Dec (coef: int) (dexp: int)

abbreviation dec_zero :: decimal where
  "dec_zero \<equiv> Dec 0 0"

definition ctx_prec :: nat where
  "ctx_prec = 28"

fun ndigits :: "nat \<Rightarrow> nat" where
  "ndigits n = (if n < 10 then 1 else Suc (ndigits (n div 10)))"

declare ndigits.simps [simp del]

definition half_even_div :: "nat \<Rightarrow> nat \<Rightarrow> nat" where
  "half_even_div n d =
     (let q = n div d; r = n mod d
      in if 2 * r < d then q else if d < 2 * r then q + 1 else if even q then q else q + 1)"

definition ctx_fix :: "int \<Rightarrow> int \<Rightarrow> decimal" where
  "ctx_fix n e =
     (let a = nat \<bar>n\<bar>; d = ndigits a
      in if d \<le> ctx_prec then Dec n e
         else let k = d - ctx_prec; q = half_even_div a (10 ^ k)
              in if q = 10 ^ ctx_prec
                 then Dec (sgn n * 10 ^ (ctx_prec - 1)) (e + int k + 1)
                 else Dec (sgn n * int q) (e + int k))"

definition scale_to :: "int \<Rightarrow> decimal \<Rightarrow> int" where
  "scale_to m x = coef x * 10 ^ nat (dexp x - m)"

definition dec_add :: "decimal \<Rightarrow> decimal \<Rightarrow> decimal" where
  "dec_add x y =
     (let m = min (dexp x) (dexp y) in ctx_fix (scale_to m x + scale_to m y) m)"

definition dec_sub :: "decimal \<Rightarrow> decimal \<Rightarrow> decimal" where
  "dec_sub x y =
     (let m = min (dexp x) (dexp y) in ctx_fix (scale_to m x - scale_to m y) m)"

definition dec_le :: "decimal \<Rightarrow> decimal \<Rightarrow> bool" where
  "dec_le x y = (let m = min (dexp x) (dexp y) in scale_to m x \<le> scale_to m y)"

definition dec_less :: "decimal \<Rightarrow> decimal \<Rightarrow> bool" where
  "dec_less x y = (\<not> dec_le y x)"

definition dec_is_zero :: "decimal \<Rightarrow> bool" where
  "dec_is_zero x = (coef x = 0)"

definition dec_sum :: "decimal list \<Rightarrow> decimal" where
  "dec_sum xs = foldl dec_add dec_zero xs"

section \<open>Comparison is the order of the values\<close>

lemma scale_to_shift: "m \<le> n \<Longrightarrow> n \<le> dexp x \<Longrightarrow> scale_to m x = scale_to n x * 10 ^ nat (n - m)"
proof -
  assume mn: "m \<le> n" and nx: "n \<le> dexp x"
  have "nat (dexp x - m) = nat (dexp x - n) + nat (n - m)"
    using mn nx by simp
  then show ?thesis by (simp add: scale_to_def power_add)
qed

lemma dec_le_at:
  assumes "m \<le> dexp x" and "m \<le> dexp y"
  shows "dec_le x y \<longleftrightarrow> scale_to m x \<le> scale_to m y"
proof -
  let ?n = "min (dexp x) (dexp y)"
  have "scale_to m x = scale_to ?n x * 10 ^ nat (?n - m)"
    by (rule scale_to_shift) (use assms in auto)
  moreover have "scale_to m y = scale_to ?n y * 10 ^ nat (?n - m)"
    by (rule scale_to_shift) (use assms in auto)
  ultimately show ?thesis by (simp add: dec_le_def Let_def)
qed

lemma dec_less_at:
  "m \<le> dexp x \<Longrightarrow> m \<le> dexp y \<Longrightarrow> dec_less x y \<longleftrightarrow> scale_to m x < scale_to m y"
  by (auto simp: dec_less_def dec_le_at)

lemma dec_le_refl [simp]: "dec_le x x"
  by (simp add: dec_le_def)

lemma dec_le_total: "dec_le x y \<or> dec_le y x"
  by (auto simp: dec_le_def Let_def min.commute)

lemma dec_le_trans:
  assumes "dec_le x y" and "dec_le y z"
  shows "dec_le x z"
proof -
  let ?m = "min (dexp x) (min (dexp y) (dexp z))"
  from assms have "scale_to ?m x \<le> scale_to ?m y" and "scale_to ?m y \<le> scale_to ?m z"
    by (simp_all add: dec_le_at [of ?m])
  then have "scale_to ?m x \<le> scale_to ?m z" by (rule order_trans)
  then show ?thesis by (subst dec_le_at [of ?m]) simp_all
qed

section \<open>Digits and rounding\<close>

lemma ndigits_pos: "0 < ndigits n"
  by (subst ndigits.simps) simp

lemma ndigits_less: "n < 10 ^ ndigits n"
proof (induction n rule: ndigits.induct)
  case (1 n)
  show ?case
  proof (cases "n < 10")
    case True
    then show ?thesis by (simp add: ndigits.simps)
  next
    case False
    with "1.IH" have "n div 10 < 10 ^ ndigits (n div 10)" by simp
    then have "n < 10 * 10 ^ ndigits (n div 10)" by linarith
    with False show ?thesis by (simp add: ndigits.simps [of n])
  qed
qed

lemma ndigits_ge: "0 < n \<Longrightarrow> 10 ^ (ndigits n - 1) \<le> n"
proof (induction n rule: ndigits.induct)
  case (1 n)
  show ?case
  proof (cases "n < 10")
    case True
    with "1.prems" show ?thesis by (simp add: ndigits.simps)
  next
    case False
    with "1.IH" have IH: "10 ^ (ndigits (n div 10) - 1) \<le> n div 10" by simp
    have "(10::nat) ^ ndigits (n div 10) = 10 * 10 ^ (ndigits (n div 10) - 1)"
      using ndigits_pos [of "n div 10"] by (metis power_eq_if less_not_refl2)
    with IH have "10 ^ ndigits (n div 10) \<le> n" by linarith
    with False show ?thesis by (simp add: ndigits.simps [of n])
  qed
qed

lemma ndigits_le_iff: "0 < k \<Longrightarrow> ndigits n \<le> k \<longleftrightarrow> n < 10 ^ k"
proof
  assume "ndigits n \<le> k"
  then have "(10::nat) ^ ndigits n \<le> 10 ^ k" by simp
  with ndigits_less [of n] show "n < 10 ^ k" by linarith
next
  assume k: "0 < k" and n: "n < 10 ^ k"
  show "ndigits n \<le> k"
  proof (cases "n = 0")
    case True
    with k show ?thesis by (simp add: ndigits.simps)
  next
    case False
    then have "10 ^ (ndigits n - 1) \<le> n" by (intro ndigits_ge) simp
    with n have "(10::nat) ^ (ndigits n - 1) < 10 ^ k" by linarith
    then have "ndigits n - 1 < k" by simp
    then show ?thesis by linarith
  qed
qed

lemma half_even_div_ge: "n div d \<le> half_even_div n d"
  by (simp add: half_even_div_def Let_def)

lemma ctx_fix_exact: "\<bar>n\<bar> < 10 ^ ctx_prec \<Longrightarrow> ctx_fix n e = Dec n e"
proof -
  assume "\<bar>n\<bar> < 10 ^ ctx_prec"
  then have "nat \<bar>n\<bar> < 10 ^ ctx_prec" by (simp add: nat_less_iff)
  then have "ndigits (nat \<bar>n\<bar>) \<le> ctx_prec" by (simp add: ndigits_le_iff ctx_prec_def)
  then show ?thesis by (simp add: ctx_fix_def Let_def)
qed

lemma ctx_fix_dexp: "e \<le> dexp (ctx_fix n e)"
  by (simp add: ctx_fix_def Let_def)

text \<open>The rounding never takes a number with more than 28 digits below \<open>10 ^ 28\<close>.\<close>

lemma ctx_fix_large:
  assumes "10 ^ ctx_prec \<le> n"
  shows "10 ^ ctx_prec \<le> scale_to e (ctx_fix n e)"
proof -
  let ?a = "nat n"
  let ?d = "ndigits ?a"
  let ?k = "?d - ctx_prec"
  let ?q = "half_even_div ?a (10 ^ ?k)"
  have n0: "0 < n" using assms by (simp add: ctx_prec_def)
  then have nabs: "nat \<bar>n\<bar> = ?a" and sgn: "sgn n = 1" by simp_all
  have "10 ^ ctx_prec \<le> ?a" using assms by (simp add: le_nat_iff)
  then have "\<not> ?d \<le> ctx_prec" by (simp add: ndigits_le_iff ctx_prec_def)
  then have d: "ctx_prec < ?d" and k: "?k + ctx_prec = ?d" by simp_all
  have "10 ^ (?d - 1) \<le> ?a" using n0 by (intro ndigits_ge) simp
  moreover have split: "?d - 1 = (ctx_prec - 1) + ?k" using d k by (simp add: ctx_prec_def)
  ultimately have "(10 ^ (ctx_prec - 1) * 10 ^ ?k :: nat) \<le> ?a" by (metis power_add)
  then have "10 ^ (ctx_prec - 1) \<le> ?a div 10 ^ ?k" by (simp add: less_eq_div_iff_mult_less_eq)
  then have "10 ^ (ctx_prec - 1) \<le> ?q" using half_even_div_ge by (rule order_trans)
  then have "(10 ^ (ctx_prec - 1) * 10 ^ ?k :: int) \<le> int ?q * 10 ^ ?k"
    by (metis mult_right_mono numeral_power_le_of_nat_cancel_iff zero_le_numeral zero_le_power)
  moreover have "(10 ^ ctx_prec :: int) \<le> 10 ^ ((ctx_prec - 1) + ?k)"
    using d by (intro power_increasing) (auto simp: ctx_prec_def)
  then have "(10 ^ ctx_prec :: int) \<le> 10 ^ (ctx_prec - 1) * 10 ^ ?k" by (simp only: power_add)
  ultimately have q: "(10 ^ ctx_prec :: int) \<le> int ?q * 10 ^ ?k" by linarith
  show ?thesis
  proof (cases "?q = 10 ^ ctx_prec")
    case True
    have e: "nat (e + int ?k + 1 - e) = ?k + 1" by simp
    have "ctx_fix n e = Dec (10 ^ (ctx_prec - 1)) (e + int ?k + 1)"
      using True d by (simp add: ctx_fix_def Let_def nabs sgn)
    then have "scale_to e (ctx_fix n e) = 10 ^ (ctx_prec - 1) * 10 ^ (?k + 1)"
      by (simp only: scale_to_def decimal.sel e)
    moreover have "(10::int) ^ ctx_prec \<le> 10 ^ ((ctx_prec - 1) + (?k + 1))"
      by (intro power_increasing) (auto simp: ctx_prec_def)
    ultimately show ?thesis by (simp only: power_add)
  next
    case False
    with q d show ?thesis
      by (simp add: ctx_fix_def Let_def nabs sgn scale_to_def nat_diff_distrib)
  qed
qed

section \<open>The fixed-point view\<close>

definition fixed_at :: "nat \<Rightarrow> decimal \<Rightarrow> int \<Rightarrow> bool" where
  "fixed_at k x n \<longleftrightarrow> - int k \<le> dexp x \<and> scale_to (- int k) x = n"

lemma fixed_at_zero [simp]: "fixed_at k dec_zero 0"
  by (simp add: fixed_at_def scale_to_def)

lemma fixed_at_le: "fixed_at k x a \<Longrightarrow> fixed_at k y b \<Longrightarrow> dec_le x y \<longleftrightarrow> a \<le> b"
  by (auto simp: fixed_at_def dec_le_at)

lemma fixed_at_less: "fixed_at k x a \<Longrightarrow> fixed_at k y b \<Longrightarrow> dec_less x y \<longleftrightarrow> a < b"
  by (auto simp: fixed_at_def dec_less_at)

lemma fixed_at_common:
  assumes "fixed_at k x a" and "m = min (dexp x) (dexp y)" and "fixed_at k y b"
  shows "scale_to m x * 10 ^ nat (m + int k) = a" and "scale_to m y * 10 ^ nat (m + int k) = b"
    and "- int k \<le> m"
  using assms scale_to_shift [of "- int k" m x] scale_to_shift [of "- int k" m y]
  by (auto simp: fixed_at_def)

lemma abs_le_mult_power: "\<bar>n\<bar> \<le> \<bar>n * 10 ^ j\<bar>" for n :: int
proof -
  have "\<bar>n\<bar> * 1 \<le> \<bar>n\<bar> * 10 ^ j" by (intro mult_left_mono) auto
  then show ?thesis by (simp add: abs_mult)
qed

lemma fixed_at_add:
  assumes x: "fixed_at k x a" and y: "fixed_at k y b" and small: "\<bar>a + b\<bar> < 10 ^ ctx_prec"
  shows "fixed_at k (dec_add x y) (a + b)"
proof -
  let ?m = "min (dexp x) (dexp y)"
  let ?n = "scale_to ?m x + scale_to ?m y"
  note c = fixed_at_common [OF x refl y]
  have ab: "?n * 10 ^ nat (?m + int k) = a + b"
    using c(1,2) by (simp add: distrib_right)
  have "\<bar>?n\<bar> \<le> \<bar>?n * 10 ^ nat (?m + int k)\<bar>" by (rule abs_le_mult_power)
  with ab small have "\<bar>?n\<bar> < 10 ^ ctx_prec" by simp
  then have "dec_add x y = Dec ?n ?m" by (simp add: dec_add_def Let_def ctx_fix_exact)
  with c(3) ab show ?thesis by (simp add: fixed_at_def scale_to_def)
qed

lemma fixed_at_sub:
  assumes x: "fixed_at k x a" and y: "fixed_at k y b" and small: "\<bar>a - b\<bar> < 10 ^ ctx_prec"
  shows "fixed_at k (dec_sub x y) (a - b)"
proof -
  let ?m = "min (dexp x) (dexp y)"
  let ?n = "scale_to ?m x - scale_to ?m y"
  note c = fixed_at_common [OF x refl y]
  have ab: "?n * 10 ^ nat (?m + int k) = a - b"
    using c(1,2) by (simp add: left_diff_distrib)
  have "\<bar>?n\<bar> \<le> \<bar>?n * 10 ^ nat (?m + int k)\<bar>" by (rule abs_le_mult_power)
  with ab small have "\<bar>?n\<bar> < 10 ^ ctx_prec" by simp
  then have "dec_sub x y = Dec ?n ?m" by (simp add: dec_sub_def Let_def ctx_fix_exact)
  with c(3) ab show ?thesis by (simp add: fixed_at_def scale_to_def)
qed

lemma fixed_at_add_large:
  assumes x: "fixed_at k x a" and y: "fixed_at k y b" and large: "10 ^ ctx_prec \<le> a + b"
  shows "\<exists>c. fixed_at k (dec_add x y) c \<and> 10 ^ ctx_prec \<le> c"
proof -
  let ?m = "min (dexp x) (dexp y)"
  let ?j = "nat (?m + int k)"
  let ?n = "scale_to ?m x + scale_to ?m y"
  note c = fixed_at_common [OF x refl y]
  have ab: "?n * 10 ^ ?j = a + b" using c(1,2) by (simp add: distrib_right)
  have f: "dec_add x y = ctx_fix ?n ?m" by (simp add: dec_add_def Let_def)
  show ?thesis
  proof (cases "\<bar>?n\<bar> < 10 ^ ctx_prec")
    case True
    then have "dec_add x y = Dec ?n ?m" by (simp add: f ctx_fix_exact)
    with c(3) ab have "fixed_at k (dec_add x y) (a + b)"
      by (simp add: fixed_at_def scale_to_def)
    with large show ?thesis by blast
  next
    case False
    have "0 < ?n"
    proof (rule ccontr)
      assume "\<not> 0 < ?n"
      then have "?n * 10 ^ ?j \<le> 0" by (simp add: mult_le_0_iff)
      with ab large show False by (simp add: ctx_prec_def)
    qed
    with False have "10 ^ ctx_prec \<le> ?n" by simp
    then have l: "10 ^ ctx_prec \<le> scale_to ?m (ctx_fix ?n ?m)" by (rule ctx_fix_large)
    have "scale_to (- int k) (ctx_fix ?n ?m) = scale_to ?m (ctx_fix ?n ?m) * 10 ^ ?j"
      using c(3) ctx_fix_dexp [of ?m ?n] scale_to_shift [of "- int k" ?m "ctx_fix ?n ?m"]
      by (metis diff_minus_eq_add)
    moreover have "scale_to ?m (ctx_fix ?n ?m) * 1 \<le> scale_to ?m (ctx_fix ?n ?m) * 10 ^ ?j"
      using l by (intro mult_left_mono) (auto simp: ctx_prec_def)
    ultimately have "10 ^ ctx_prec \<le> scale_to (- int k) (ctx_fix ?n ?m)" using l by simp
    moreover have "fixed_at k (dec_add x y) (scale_to (- int k) (ctx_fix ?n ?m))"
      unfolding fixed_at_def f using order_trans [OF c(3) ctx_fix_dexp] by blast
    ultimately show ?thesis by blast
  qed
qed

text \<open>
  A bound that fits the context decides the exact sum: the test on the rounded sum is the
  test on the exact one.
\<close>

lemma dec_add_le_bound_iff:
  assumes x: "fixed_at k x a" and y: "fixed_at k y b" and m: "fixed_at k u M"
    and nonneg: "0 \<le> a + b" and M: "M < 10 ^ ctx_prec"
  shows "dec_le (dec_add x y) u \<longleftrightarrow> a + b \<le> M"
proof (cases "a + b < 10 ^ ctx_prec")
  case True
  with nonneg have "fixed_at k (dec_add x y) (a + b)" by (intro fixed_at_add [OF x y]) simp
  then show ?thesis using m by (rule fixed_at_le)
next
  case False
  then obtain c where c: "fixed_at k (dec_add x y) c" "10 ^ ctx_prec \<le> c"
    using fixed_at_add_large [OF x y] by fastforce
  from c(1) m have "dec_le (dec_add x y) u \<longleftrightarrow> c \<le> M" by (rule fixed_at_le)
  with c(2) M False show ?thesis by linarith
qed

lemma fixed_at_sum:
  assumes "list_all2 (fixed_at k) xs ns" and "list_all (\<lambda>n. 0 \<le> n) ns"
    and "fixed_at k x a" and "0 \<le> a" and "a + sum_list ns < 10 ^ ctx_prec"
  shows "fixed_at k (foldl dec_add x xs) (a + sum_list ns)"
  using assms
proof (induction xs ns arbitrary: x a rule: list_all2_induct)
  case Nil
  then show ?case by simp
next
  case (Cons y ys n ns)
  from Cons.prems(1) have n: "0 \<le> n" and ns: "list_all (\<lambda>n. 0 \<le> n) ns" by simp_all
  from ns have "0 \<le> sum_list ns" by (intro sum_list_nonneg) (auto simp: list_all_iff)
  with Cons.prems n have "\<bar>a + n\<bar> < 10 ^ ctx_prec" by simp
  with Cons.prems(2) Cons.hyps(1) have "fixed_at k (dec_add x y) (a + n)"
    by (intro fixed_at_add)
  then have "fixed_at k (foldl dec_add (dec_add x y) ys) ((a + n) + sum_list ns)"
    using Cons.prems n by (intro Cons.IH [OF ns]) (simp_all add: add.assoc)
  then show ?case by (simp add: add.assoc)
qed

lemma fixed_at_dec_sum:
  assumes "list_all2 (fixed_at k) xs ns" and "list_all (\<lambda>n. 0 \<le> n) ns"
    and "sum_list ns < 10 ^ ctx_prec"
  shows "fixed_at k (dec_sum xs) (sum_list ns)"
  using fixed_at_sum [OF assms(1,2) fixed_at_zero] assms(3) by (simp add: dec_sum_def)

lemma dec_sum_snoc: "dec_sum (xs @ [x]) = dec_add (dec_sum xs) x"
  by (simp add: dec_sum_def)

lemma fixed_at_sum_bound:
  assumes "list_all2 (fixed_at k) xs ns" and "list_all (\<lambda>n. 0 \<le> n) ns"
    and "fixed_at k x c" and "0 \<le> a" and "c = a \<or> 10 ^ ctx_prec \<le> c"
  shows "\<exists>d. fixed_at k (foldl dec_add x xs) d \<and> (d = a + sum_list ns \<or> 10 ^ ctx_prec \<le> d)"
  using assms
proof (induction xs ns arbitrary: x a c rule: list_all2_induct)
  case Nil
  then show ?case by auto
next
  case (Cons y ys n ns)
  from Cons.prems(1) have n: "0 \<le> n" and ns: "list_all (\<lambda>n. 0 \<le> n) ns" by simp_all
  have c0: "0 \<le> c" using Cons.prems by (auto simp: ctx_prec_def)
  obtain d where d: "fixed_at k (dec_add x y) d" "d = a + n \<or> 10 ^ ctx_prec \<le> d"
  proof (cases "c + n < 10 ^ ctx_prec")
    case True
    with n c0 have "fixed_at k (dec_add x y) (c + n)"
      by (intro fixed_at_add [OF Cons.prems(2) Cons.hyps(1)]) simp
    with Cons.prems(4) n that show ?thesis by fastforce
  next
    case False
    then show ?thesis
      using fixed_at_add_large [OF Cons.prems(2) Cons.hyps(1)] that by fastforce
  qed
  from Cons.IH [OF ns d(1) _ d(2)] Cons.prems(3) n show ?case by (simp add: add.assoc)
qed

text \<open>A running total below a bound that fits the context is exact.\<close>

lemma dec_sum_le_bound:
  assumes "list_all2 (fixed_at k) xs ns" and "\<forall>n\<in>set ns. 0 \<le> n"
    and "fixed_at k u M" and "M < 10 ^ ctx_prec" and "dec_le (dec_sum xs) u"
  shows "sum_list ns \<le> M"
proof -
  obtain d where d: "fixed_at k (dec_sum xs) d" "d = sum_list ns \<or> 10 ^ ctx_prec \<le> d"
    using fixed_at_sum_bound [OF assms(1) _ fixed_at_zero, of 0] assms(2)
    by (auto simp: dec_sum_def list_all_iff)
  from d(1) assms(3,5) have "d \<le> M" by (simp add: fixed_at_le)
  with d(2) assms(4) show ?thesis by linarith
qed

lemma dec_nonneg_iff: "dec_le dec_zero x \<longleftrightarrow> 0 \<le> coef x"
  by (simp add: dec_le_def scale_to_def zero_le_mult_iff power_le_zero_eq)

lemma dec_sub_nonneg:
  assumes "dec_le x y"
  shows "dec_le dec_zero (dec_sub y x)"
proof -
  have "0 \<le> coef (ctx_fix n e)" if "0 \<le> n" for n e
    using that by (auto simp: ctx_fix_def Let_def sgn_if)
  moreover have "scale_to (min (dexp y) (dexp x)) x \<le> scale_to (min (dexp y) (dexp x)) y"
    using assms by (simp add: dec_le_def Let_def min.commute)
  ultimately show ?thesis by (simp add: dec_nonneg_iff dec_sub_def Let_def)
qed

end
