(* ===== verification/Fin_Prelude.thy ===== *)
theory Fin_Prelude
  imports Fin_Decimal
begin

text \<open>
  What every component shares: the Python string operations on \<open>string\<close> (characters are
  code points below 256), the Python values that travel as JSON, exceptions as values, the
  environment of one call (clock, identifiers, paths, faults, library coercions), keyed SQL
  tables as row lists, \<open>max\<close> with a key, and the two interface locales: a keyed row store and
  a transition system with an invariant.
\<close>

named_theorems py_defs \<open>definitions of the Python string helpers\<close>
named_theorems table_simps \<open>lookup laws of keyed row lists\<close>

section \<open>Python strings\<close>

definition py_isspace :: "char \<Rightarrow> bool" where
  "py_isspace c =
     (let n = (of_char c :: nat)
      in (9 \<le> n \<and> n \<le> 13) \<or> (28 \<le> n \<and> n \<le> 32) \<or> n = 133 \<or> n = 160)"

definition py_strip :: "string \<Rightarrow> string" where
  "py_strip s = rev (dropWhile py_isspace (rev (dropWhile py_isspace s)))"

definition py_isalnum :: "char \<Rightarrow> bool" where
  "py_isalnum c =
     (let n = (of_char c :: nat)
      in (48 \<le> n \<and> n \<le> 57) \<or> (65 \<le> n \<and> n \<le> 90) \<or> (97 \<le> n \<and> n \<le> 122)
         \<or> n = 170 \<or> n = 178 \<or> n = 179 \<or> n = 181 \<or> n = 185 \<or> n = 186
         \<or> (188 \<le> n \<and> n \<le> 190) \<or> (192 \<le> n \<and> n \<le> 214) \<or> (216 \<le> n \<and> n \<le> 246)
         \<or> (248 \<le> n \<and> n \<le> 255))"

definition py_lower_char :: "char \<Rightarrow> char" where
  "py_lower_char c =
     (let n = (of_char c :: nat)
      in if (65 \<le> n \<and> n \<le> 90) \<or> (192 \<le> n \<and> n \<le> 214) \<or> (216 \<le> n \<and> n \<le> 222)
         then char_of (n + 32) else c)"

definition py_lower :: "string \<Rightarrow> string" where
  "py_lower s = map py_lower_char s"

definition safe_id :: "string \<Rightarrow> string" where
  "safe_id s =
     map (\<lambda>c. if py_isalnum c \<or> c = CHR ''_'' \<or> c = CHR ''-'' then c else CHR ''_'') s"

fun py_join :: "string \<Rightarrow> string list \<Rightarrow> string" where
  "py_join sep [] = []"
| "py_join sep [x] = x"
| "py_join sep (x # y # zs) = x @ sep @ py_join sep (y # zs)"

definition py_quote :: "string \<Rightarrow> string" where
  "py_quote s = CHR 0x27 # s @ [CHR 0x27]"

fun nat_str :: "nat \<Rightarrow> string" where
  "nat_str n =
     (if n < 10 then [char_of (48 + n)] else nat_str (n div 10) @ [char_of (48 + n mod 10)])"

declare nat_str.simps [simp del]

definition int_str :: "int \<Rightarrow> string" where
  "int_str n = (if n < 0 then CHR ''-'' # nat_str (nat (- n)) else nat_str (nat n))"

definition truthy :: "string option \<Rightarrow> string option" where
  "truthy x = (if x = Some [] then None else x)"

definition or_else :: "string option \<Rightarrow> string \<Rightarrow> string" where
  "or_else x d = (case x of None \<Rightarrow> d | Some s \<Rightarrow> if s = [] then d else s)"

fun dedupe_by :: "string list \<Rightarrow> string list \<Rightarrow> string list" where
  "dedupe_by seen [] = []"
| "dedupe_by seen (x # xs) =
     (if x \<in> set seen then dedupe_by seen xs else x # dedupe_by (x # seen) xs)"

lemmas py_string_defs [py_defs] =
  py_isspace_def py_strip_def py_isalnum_def py_lower_char_def py_lower_def safe_id_def
  or_else_def

lemma py_strip_prefix: "\<exists>zs. dropWhile py_isspace s = py_strip s @ zs"
proof -
  let ?t = "dropWhile py_isspace s"
  have "rev ?t = takeWhile py_isspace (rev ?t) @ dropWhile py_isspace (rev ?t)" by simp
  then have "?t = py_strip s @ rev (takeWhile py_isspace (rev ?t))"
    unfolding py_strip_def by (metis rev_append rev_rev_ident)
  then show ?thesis by blast
qed

lemma py_strip_hd: "py_strip s \<noteq> [] \<Longrightarrow> \<not> py_isspace (hd (py_strip s))"
proof -
  assume ne: "py_strip s \<noteq> []"
  obtain zs where z: "dropWhile py_isspace s = py_strip s @ zs" using py_strip_prefix by blast
  with ne have "dropWhile py_isspace s \<noteq> []" by simp
  then have "\<not> py_isspace (hd (dropWhile py_isspace s))" by (rule hd_dropWhile)
  with z ne show ?thesis by simp
qed

lemma py_strip_idem [simp]: "py_strip (py_strip s) = py_strip s"
proof -
  have "dropWhile py_isspace (py_strip s) = py_strip s"
    using py_strip_hd by (auto simp: dropWhile_eq_self_iff)
  then show ?thesis by (simp add: py_strip_def [of "py_strip s"]) (simp add: py_strip_def)
qed

lemma py_strip_Nil [simp]: "py_strip [] = []"
  by (simp add: py_strip_def)

lemma set_dedupe_by: "set (dedupe_by seen xs) = set xs - set seen"
  by (induction xs arbitrary: seen) auto

lemma distinct_dedupe_by: "distinct (dedupe_by seen xs)"
  by (induction xs arbitrary: seen) (auto simp: set_dedupe_by)

section \<open>Values, exceptions, money\<close>

record monetary_amount =
  amount :: decimal
  currency :: string

datatype pyval =
    PNone
  | PBool bool
  | PInt int
  | PFloat string
  | PStr string
  | PMoney monetary_amount
  | PList "pyval list"
  | PDict "(string \<times> pyval) list"

text \<open>
  Exceptions the modelled code raises.  A subclass of \<^verbatim>\<open>ValueError\<close> has a constructor of its
  own; \<open>DbError\<close> is a raw SQLAlchemy error, \<open>StoreError\<close> the wrapped \<^verbatim>\<open>StateCoreStoreError\<close>.
\<close>

datatype exn =
    ValueError string
  | KeyError string
  | OsError string
  | DbError string
  | StoreError string
  | ReceiptPathError
  | NoResultFound
  | AdminDenied string string
  | MandateError string
  | GrantError string
  | CapabilityDenied string
  | TypeError string
  | AttributeError string
  | IntegrityError string
  | MutationError string
  | BindingError string
  | VersionError string string
  | RuntimeError string
  | ArtifactError string string

type_synonym 'a res = "exn + 'a"

definition rbind :: "'a res \<Rightarrow> ('a \<Rightarrow> 'b res) \<Rightarrow> 'b res" where
  "rbind m f = (case m of Inl x \<Rightarrow> Inl x | Inr v \<Rightarrow> f v)"

lemma rbind_simps [simp]: "rbind (Inl x) f = Inl x" "rbind (Inr v) f = f v"
  by (simp_all add: rbind_def)

lemma rbind_Inr_iff: "rbind m f = Inr r \<longleftrightarrow> (\<exists>v. m = Inr v \<and> f v = Inr r)"
  by (cases m) simp_all

fun map_res :: "('a \<Rightarrow> 'b res) \<Rightarrow> 'a list \<Rightarrow> 'b list res" where
  "map_res f [] = Inr []"
| "map_res f (x # xs) = rbind (f x) (\<lambda>y. rbind (map_res f xs) (\<lambda>ys. Inr (y # ys)))"

lemma map_res_Inr_iff: "map_res f xs = Inr ys \<longleftrightarrow> list_all2 (\<lambda>x y. f x = Inr y) xs ys"
  by (induction xs arbitrary: ys) (auto simp: rbind_Inr_iff list_all2_Cons1)

text \<open>
  A call continues with the result of a first call or fails with its exception: a successful
  outcome goes through both.
\<close>

lemma bind_okE:
  assumes "(case m of (Inl x, s) \<Rightarrow> (Inl x, s) | (Inr v, s) \<Rightarrow> g v s) = (Inr r, s')"
  obtains v s1 where "m = (Inr v, s1)" and "g v s1 = (Inr r, s')"
  using assms by (auto split: prod.splits sum.splits)

lemma guard_okE:
  assumes "(case m of Inl x \<Rightarrow> (Inl x, s) | Inr v \<Rightarrow> g v) = (Inr r, s')"
  obtains v where "m = Inr v" and "g v = (Inr r, s')"
  using assms by (auto split: sum.splits)

definition dict_get :: "(string \<times> pyval) list \<Rightarrow> string \<Rightarrow> pyval" where
  "dict_get d k = (case map_of d k of None \<Rightarrow> PNone | Some v \<Rightarrow> v)"

definition dict_get_or :: "(string \<times> pyval) list \<Rightarrow> string \<Rightarrow> pyval \<Rightarrow> pyval" where
  "dict_get_or d k v0 = (case map_of d k of None \<Rightarrow> v0 | Some v \<Rightarrow> v)"

section \<open>The environment of a call\<close>

text \<open>
  Everything a call reads besides its arguments and the store.  The numbered fields are the
  successive readings a call takes: the wall clock (\<open>clock\<close>, an ISO text), the second-resolution
  stamp and the eight random hex digits that make identifiers.  \<open>fromisoformat\<close> parses an ISO
  text into microseconds of the written clock time and the UTC offset (\<open>None\<close>: naive), \<open>isoformat\<close>
  prints a UTC instant.  \<open>resolve_path\<close> is \<^verbatim>\<open>resolve_under\<close> on one receipt root (\<open>None\<close>: escapes
  it), \<open>display_path\<close> the project-relative form.  \<open>write_fails\<close> and \<open>commit_fails\<close> say which file
  writes and which numbered commits of the call the operating system or SQLite refuses.
  \<open>coerce_money\<close> is pydantic's field coercion of a money value before the declared bounds, and
  \<open>py_repr\<close> is \<^verbatim>\<open>str\<close> on a value that is not a string.  \<open>pick_row\<close> is SQLite's choice for a
  \<^verbatim>\<open>first()\<close> without an order, one choice per query of the call: an index into a result of
  the given length.
\<close>

record env =
  clock :: "nat \<Rightarrow> string"
  stamp :: "nat \<Rightarrow> string"
  uuid8 :: "nat \<Rightarrow> string"
  fromisoformat :: "string \<Rightarrow> (int \<times> int option) option"
  isoformat :: "int \<Rightarrow> string"
  resolve_path :: "string list \<Rightarrow> string option"
  display_path :: "string \<Rightarrow> string"
  write_fails :: "string \<Rightarrow> bool"
  commit_fails :: "nat \<Rightarrow> bool"
  coerce_money :: "pyval \<Rightarrow> (decimal \<times> string) option"
  py_repr :: "pyval \<Rightarrow> string"
  pick_row :: "nat \<Rightarrow> nat \<Rightarrow> nat"

definition replace_Z :: "string \<Rightarrow> string" where
  "replace_Z s = concat (map (\<lambda>c. if c = CHR ''Z'' then ''+00:00'' else [c]) s)"

definition py_str :: "'e env_scheme \<Rightarrow> pyval \<Rightarrow> string" where
  "py_str e v = (case v of PStr s \<Rightarrow> s | _ \<Rightarrow> py_repr e v)"

definition first_row :: "'e env_scheme \<Rightarrow> nat \<Rightarrow> 'r list \<Rightarrow> 'r option" where
  "first_row e i rs =
     (if rs = [] then None else Some (rs ! (pick_row e i (length rs) mod length rs)))"

lemma first_row_None [simp]: "first_row e i rs = None \<longleftrightarrow> rs = []"
  by (simp add: first_row_def)

lemma first_row_mem: "first_row e i rs = Some r \<Longrightarrow> r \<in> set rs"
  by (auto simp: first_row_def split: if_splits)

section \<open>Keyed tables\<close>

definition tbl_get :: "('r \<Rightarrow> 'k) \<Rightarrow> 'r list \<Rightarrow> 'k \<Rightarrow> 'r option" where
  "tbl_get key t k = find (\<lambda>r. key r = k) t"

definition tbl_has :: "('r \<Rightarrow> 'k) \<Rightarrow> 'r list \<Rightarrow> 'k \<Rightarrow> bool" where
  "tbl_has key t k = list_ex (\<lambda>r. key r = k) t"

definition tbl_update :: "('r \<Rightarrow> 'k) \<Rightarrow> 'k \<Rightarrow> ('r \<Rightarrow> 'r) \<Rightarrow> 'r list \<Rightarrow> 'r list" where
  "tbl_update key k f t = map (\<lambda>r. if key r = k then f r else r) t"

definition tbl_merge :: "('r \<Rightarrow> 'k) \<Rightarrow> 'r \<Rightarrow> 'r list \<Rightarrow> 'r list" where
  "tbl_merge key r t =
     (if tbl_has key t (key r) then tbl_update key (key r) (\<lambda>_. r) t else t @ [r])"

definition keyed :: "('r \<Rightarrow> 'k) \<Rightarrow> 'r list \<Rightarrow> bool" where
  "keyed key t = distinct (map key t)"

lemma tbl_has_iff: "tbl_has key t k \<longleftrightarrow> (\<exists>r\<in>set t. key r = k)"
  by (simp add: tbl_has_def list_ex_iff)

lemma tbl_has_snoc [table_simps]: "tbl_has key (t @ [r]) k \<longleftrightarrow> tbl_has key t k \<or> key r = k"
  by (auto simp: tbl_has_iff)

lemma tbl_get_None_iff: "tbl_get key t k = None \<longleftrightarrow> \<not> tbl_has key t k"
  by (auto simp: tbl_get_def find_None_iff tbl_has_iff)

lemma tbl_get_absent: "\<not> tbl_has key t k \<Longrightarrow> tbl_get key t k = None"
  by (simp add: tbl_get_None_iff)

lemma tbl_get_SomeD: "tbl_get key t k = Some r \<Longrightarrow> r \<in> set t \<and> key r = k"
  by (auto simp: tbl_get_def find_Some_iff in_set_conv_nth)

lemma tbl_get_mem: "keyed key t \<Longrightarrow> r \<in> set t \<Longrightarrow> tbl_get key t (key r) = Some r"
  unfolding keyed_def tbl_get_def by (induction t) force+

lemma tbl_get_append:
  "tbl_get key (t @ u) k = (case tbl_get key t k of None \<Rightarrow> tbl_get key u k | Some r \<Rightarrow> Some r)"
  by (induction t) (auto simp: tbl_get_def)

lemma tbl_get_snoc [table_simps]:
  "tbl_get key (t @ [r]) k =
     (if tbl_has key t k then tbl_get key t k else if key r = k then Some r else None)"
proof (cases "tbl_get key t k")
  case None
  then have "\<not> tbl_has key t k" by (simp add: tbl_get_None_iff)
  with None show ?thesis by (simp add: tbl_get_append) (simp add: tbl_get_def)
next
  case (Some x)
  then have "tbl_has key t k" by (metis tbl_get_None_iff option.distinct(1))
  with Some show ?thesis by (simp add: tbl_get_append)
qed

lemma tbl_get_update [table_simps]:
  "(\<And>r. key (f r) = key r) \<Longrightarrow>
   tbl_get key (tbl_update key k f t) j =
     (if j = k then map_option f (tbl_get key t j) else tbl_get key t j)"
  by (induction t) (auto simp: tbl_get_def tbl_update_def)

lemma tbl_has_update [table_simps]:
  "(\<And>r. key (f r) = key r) \<Longrightarrow> tbl_has key (tbl_update key k f t) j = tbl_has key t j"
  by (auto simp: tbl_has_iff tbl_update_def)

lemma map_key_update:
  "(\<And>r. key (f r) = key r) \<Longrightarrow> map key (tbl_update key k f t) = map key t"
  by (simp add: tbl_update_def)

lemma map_key_update_const: "map key (tbl_update key (key r) (\<lambda>_. r) t) = map key t"
  by (simp add: tbl_update_def)

lemma keyed_snoc: "keyed key (t @ [r]) \<longleftrightarrow> keyed key t \<and> \<not> tbl_has key t (key r)"
  by (auto simp: keyed_def tbl_has_iff image_iff)

lemma keyed_update: "(\<And>r. key (f r) = key r) \<Longrightarrow> keyed key (tbl_update key k f t) = keyed key t"
  by (simp add: keyed_def map_key_update)

lemma keyed_merge: "keyed key t \<Longrightarrow> keyed key (tbl_merge key r t)"
  by (auto simp: tbl_merge_def keyed_snoc) (simp add: keyed_def map_key_update_const)

lemma set_tbl_merge:
  "set (tbl_merge key r t) = insert r {x \<in> set t. key x \<noteq> key r}"
  by (auto simp: tbl_merge_def tbl_update_def tbl_has_iff image_iff)

lemma set_tbl_update_subset:
  "r \<in> set (tbl_update key k f t) \<Longrightarrow> r \<in> set t \<or> (\<exists>q\<in>set t. key q = k \<and> r = f q)"
  by (auto simp: tbl_update_def)

lemma bex_tbl_update:
  "(\<exists>r\<in>set (tbl_update key k f t). P r) \<longleftrightarrow> (\<exists>r\<in>set t. P (if key r = k then f r else r))"
  by (auto simp: tbl_update_def)

lemma ball_tbl_update:
  "(\<forall>r\<in>set (tbl_update key k f t). P r) \<longleftrightarrow> (\<forall>r\<in>set t. P (if key r = k then f r else r))"
  by (auto simp: tbl_update_def)

lemma tbl_get_update_const:
  "tbl_get key (tbl_update key (key r) (\<lambda>_. r) t) k =
     (if k = key r \<and> tbl_has key t k then Some r else tbl_get key t k)"
  by (induction t) (auto simp: tbl_get_def tbl_update_def tbl_has_def)

lemma tbl_get_merge:
  "tbl_get key (tbl_merge key r t) k = (if k = key r then Some r else tbl_get key t k)"
proof (cases "tbl_has key t (key r)")
  case True
  then show ?thesis by (simp add: tbl_merge_def tbl_get_update_const)
next
  case False
  then show ?thesis by (auto simp: tbl_merge_def tbl_get_snoc tbl_get_absent)
qed

section \<open>Maximum with a key\<close>

text \<open>
  Python's \<^verbatim>\<open>max(xs, key=k, default=None)\<close>: the first element that is maximal.
\<close>

fun max_from :: "('a \<Rightarrow> 'b::linorder) \<Rightarrow> 'a \<Rightarrow> 'a list \<Rightarrow> 'a" where
  "max_from k x [] = x"
| "max_from k x (y # ys) = (if k x < k y then max_from k y ys else max_from k x ys)"

definition max_by :: "('a \<Rightarrow> 'b::linorder) \<Rightarrow> 'a list \<Rightarrow> 'a option" where
  "max_by k xs = (case xs of [] \<Rightarrow> None | x # ys \<Rightarrow> Some (max_from k x ys))"

lemma max_from_mem: "max_from k x ys \<in> insert x (set ys)"
  by (induction ys arbitrary: x) (auto split: if_splits)

lemma max_from_ge: "z \<in> insert x (set ys) \<Longrightarrow> k z \<le> k (max_from k x ys)"
proof (induction ys arbitrary: x z)
  case Nil
  then show ?case by simp
next
  case (Cons y ys)
  show ?case
  proof (cases "k x < k y")
    case True
    have y: "k y \<le> k (max_from k y ys)" by (rule Cons.IH) simp
    from Cons.prems consider "z = x" | "z = y" | "z \<in> set ys" by auto
    then have "k z \<le> k (max_from k y ys)"
      using y True Cons.IH [of z y] by cases auto
    with True show ?thesis by simp
  next
    case False
    have x: "k x \<le> k (max_from k x ys)" by (rule Cons.IH) simp
    from Cons.prems consider "z = x" | "z = y" | "z \<in> set ys" by auto
    then have "k z \<le> k (max_from k x ys)"
      using x False Cons.IH [of z x] by cases auto
    with False show ?thesis by simp
  qed
qed

lemma max_by_None [simp]: "max_by k xs = None \<longleftrightarrow> xs = []"
  by (simp add: max_by_def split: list.splits)

lemma max_by_SomeD: "max_by k xs = Some x \<Longrightarrow> x \<in> set xs \<and> (\<forall>y\<in>set xs. k y \<le> k x)"
proof (cases xs)
  case (Cons y ys)
  assume "max_by k xs = Some x"
  with Cons have x: "x = max_from k y ys" by (simp add: max_by_def)
  have "max_from k y ys \<in> set xs" using max_from_mem [of k y ys] Cons by simp
  moreover have "\<forall>z\<in>set xs. k z \<le> k (max_from k y ys)"
    using max_from_ge [of _ y ys k] Cons by simp
  ultimately show ?thesis by (simp add: x)
qed (simp add: max_by_def)

lemma max_by_unique:
  "x \<in> set xs \<Longrightarrow> (\<And>y. y \<in> set xs \<Longrightarrow> y \<noteq> x \<Longrightarrow> k y < k x) \<Longrightarrow> max_by k xs = Some x"
proof -
  assume x: "x \<in> set xs" and uniq: "\<And>y. y \<in> set xs \<Longrightarrow> y \<noteq> x \<Longrightarrow> k y < k x"
  show ?thesis
  proof (cases "max_by k xs")
    case None
    with x show ?thesis by simp
  next
    case (Some m)
    with max_by_SomeD [OF Some] x uniq show ?thesis by (metis leD)
  qed
qed

text \<open>With a key that separates the elements the choice does not depend on the order.\<close>

lemma max_by_set_eq:
  assumes "set xs = set ys" and "inj_on k (set xs)"
  shows "max_by k xs = max_by k ys"
proof (cases "max_by k xs")
  case None
  with assms(1) show ?thesis by (auto simp: max_by_def split: list.splits)
next
  case (Some x)
  note x = max_by_SomeD [OF Some]
  have "max_by k ys = Some x"
  proof (rule max_by_unique)
    show "x \<in> set ys" using x assms(1) by simp
    fix y assume y: "y \<in> set ys" "y \<noteq> x"
    with x assms have "k y \<le> k x" and "k y \<noteq> k x" by (auto simp: inj_on_def)
    then show "k y < k x" by simp
  qed
  with Some show ?thesis by simp
qed

section \<open>Interface locales\<close>

text \<open>
  A keyed row store: what the services rely on when they look a row up by primary key, insert a
  new one, or change a row in place.
\<close>

locale row_store =
  fixes lookup :: "'s \<Rightarrow> 'k \<Rightarrow> 'r option"
    and insert_row :: "'r \<Rightarrow> 's \<Rightarrow> 's"
    and key_of :: "'r \<Rightarrow> 'k"
    and store_inv :: "'s \<Rightarrow> bool"
  assumes lookup_insert:
      "store_inv s \<Longrightarrow> lookup s (key_of r) = None \<Longrightarrow>
       lookup (insert_row r s) k = (if k = key_of r then Some r else lookup s k)"
    and inv_insert:
      "store_inv s \<Longrightarrow> lookup s (key_of r) = None \<Longrightarrow> store_inv (insert_row r s)"
    and lookup_key: "lookup s k = Some r \<Longrightarrow> key_of r = k"
begin

lemma insert_monotone:
  assumes "store_inv s" and "lookup s (key_of r) = None" and "lookup s k = Some q"
  shows "lookup (insert_row r s) k = Some q"
  using assms lookup_insert [OF assms(1,2)] by auto

lemma insert_two:
  assumes "store_inv s" and "lookup s (key_of r) = None" and "lookup s (key_of q) = None"
    and "key_of q \<noteq> key_of r"
  shows "lookup (insert_row q (insert_row r s)) (key_of r) = Some r"
    and "lookup (insert_row q (insert_row r s)) (key_of q) = Some q"
proof -
  have inv: "store_inv (insert_row r s)" using assms(1,2) by (rule inv_insert)
  have q: "lookup (insert_row r s) (key_of q) = None"
    using lookup_insert [OF assms(1,2)] assms(3,4) by simp
  show "lookup (insert_row q (insert_row r s)) (key_of r) = Some r"
    using lookup_insert [OF inv q] lookup_insert [OF assms(1,2)] assms(4) by simp
  show "lookup (insert_row q (insert_row r s)) (key_of q) = Some q"
    using lookup_insert [OF inv q] by simp
qed

end

lemma row_store_table:
  "row_store (tbl_get key) (\<lambda>r t. t @ [r]) key (keyed key)"
  by unfold_locales
     (auto simp: tbl_get_snoc tbl_get_None_iff tbl_get_absent keyed_snoc dest: tbl_get_SomeD)

text \<open>
  A service as a transition system: calls (failed ones included) move the store, and an
  invariant kept by every call holds in every reachable store.
\<close>

inductive reach :: "('s \<Rightarrow> bool) \<Rightarrow> ('s \<Rightarrow> 's \<Rightarrow> bool) \<Rightarrow> 's \<Rightarrow> bool"
  for start :: "'s \<Rightarrow> bool" and step :: "'s \<Rightarrow> 's \<Rightarrow> bool" where
  reach_start: "start s \<Longrightarrow> reach start step s"
| reach_step: "reach start step s \<Longrightarrow> step s t \<Longrightarrow> reach start step t"

locale guarded_system =
  fixes start :: "'s \<Rightarrow> bool"
    and step :: "'s \<Rightarrow> 's \<Rightarrow> bool"
    and inv :: "'s \<Rightarrow> bool"
  assumes inv_start: "start s \<Longrightarrow> inv s"
    and inv_step: "inv s \<Longrightarrow> step s t \<Longrightarrow> inv t"
begin

lemma reach_inv: "reach start step s \<Longrightarrow> inv s"
  by (induction rule: reach.induct) (auto intro: inv_start inv_step)

lemma reach_inv_step: "reach start step s \<Longrightarrow> step s t \<Longrightarrow> inv t"
  by (blast intro: reach_inv inv_step)

end

end
