(* ===== verification/State_Base.thy ===== *)
theory State_Base
  imports Fin_Prelude
begin

text \<open>
  What the bounded contexts of the state core share (\<^verbatim>\<open>statecore/model_base.py\<close>,
  \<^verbatim>\<open>statecore/models.py\<close>, \<^verbatim>\<open>statecore/store.py\<close>): the schema version, the receipt index row and
  the kinds of receipts that the generic writers refuse.
\<close>

definition STATE_CORE_SCHEMA_VERSION :: string where
  "STATE_CORE_SCHEMA_VERSION = ''finharness.state_core.v1''"

record receipt_index_row =
  ri_receipt_id :: string
  ri_kind :: string
  ri_path :: string
  ri_created_at_utc :: string
  ri_source_refs :: "string list"
  ri_refs :: "string list"

definition PRODUCTION_IMPORT_KINDS :: "string list" where
  "PRODUCTION_IMPORT_KINDS =
     [''personal_finance_export'', ''beancount_ledger'', ''broker_read'', ''broker_read_import'']"

end
