(* ===== verification/Execution_Models.thy ===== *)
theory Execution_Models
  imports State_Base
begin

text \<open>
  The rows of the execution kernel (\<^verbatim>\<open>statecore/execution_models.py\<close>), the constraints their
  tables declare (primary keys, foreign keys, \<^verbatim>\<open>CHECK\<close>), the receipt index, and the store as one
  record of tables plus the receipt files.  Field names carry a prefix for their table because
  several tables share column names.  \<open>exec_env\<close> adds what this component takes from libraries:
  the microsecond stamp of the simulated adapter, how SQLite evaluates \<^verbatim>\<open>quantity > 0\<close> on the
  text column, and the texts of decimals and JSON.
\<close>

section \<open>Closed vocabularies\<close>

definition EXECUTION_ENVIRONMENTS :: "string list" where
  "EXECUTION_ENVIRONMENTS = [''paper'', ''live'']"

definition ORDER_DRAFT_STATUSES :: "string list" where
  "ORDER_DRAFT_STATUSES =
     [''draft'', ''pretrade_check_pending'', ''pretrade_check_passed'', ''pretrade_check_blocked'',
      ''approval_pending'', ''approved'', ''rejected'', ''staged'', ''cancelled'']"

definition ORDER_SIDES :: "string list" where
  "ORDER_SIDES = [''buy'', ''sell'']"

definition ORDER_TYPES :: "string list" where
  "ORDER_TYPES = [''market'', ''limit'', ''stop'', ''stop_limit'']"

definition ORDER_TIFS :: "string list" where
  "ORDER_TIFS = [''day'', ''gtc'', ''ioc'', ''fok'']"

definition EXECUTION_ORDER_STATUSES :: "string list" where
  "EXECUTION_ORDER_STATUSES =
     [''staged'', ''submit_pending'', ''submitted'', ''acknowledged'', ''partial_fill'', ''filled'',
      ''rejected'', ''cancelled'', ''expired'']"

definition EXECUTION_REPORT_TYPES :: "string list" where
  "EXECUTION_REPORT_TYPES =
     [''submit_ack'', ''cancel_ack'', ''fill'', ''partial_fill'', ''reject'', ''cancel_reject'',
      ''simulated_submit_ack'', ''simulated_fill'', ''simulated_reject'']"

definition FILL_STATUSES :: "string list" where
  "FILL_STATUSES = [''none'', ''partial'', ''filled'', ''rejected'', ''cancelled'']"

definition PRETRADE_CHECK_STATUSES :: "string list" where
  "PRETRADE_CHECK_STATUSES = [''pass'', ''warn'', ''block'', ''pending'']"

definition APPROVAL_DECISIONS :: "string list" where
  "APPROVAL_DECISIONS = [''approved'', ''rejected'', ''deferred'']"

definition RECONCILIATION_STATUSES :: "string list" where
  "RECONCILIATION_STATUSES = [''matched'', ''unmatched'', ''pending'']"

lemmas exec_vocab_defs =
  EXECUTION_ENVIRONMENTS_def ORDER_DRAFT_STATUSES_def ORDER_SIDES_def ORDER_TYPES_def
  ORDER_TIFS_def EXECUTION_ORDER_STATUSES_def EXECUTION_REPORT_TYPES_def FILL_STATUSES_def
  PRETRADE_CHECK_STATUSES_def APPROVAL_DECISIONS_def RECONCILIATION_STATUSES_def

section \<open>Rows\<close>

record broker_connection =
  bc_broker_connection_id :: string
  bc_environment :: string
  bc_broker_name :: string
  bc_adapter_kind :: string
  bc_enabled :: bool
  bc_network_enabled :: bool
  bc_credential_ref :: "string option"
  bc_schema_version :: string
  bc_created_at_utc :: string

record execution_account =
  ea_execution_account_id :: string
  ea_broker_connection_id :: string
  ea_environment :: string
  ea_account_label :: string
  ea_base_currency :: string
  ea_funded :: bool
  ea_external_account_ref :: "string option"
  ea_schema_version :: string
  ea_created_at_utc :: string

record order_draft =
  od_order_draft_id :: string
  od_proposal_id :: "string option"
  od_environment :: string
  od_execution_account_id :: string
  od_instrument_ref :: string
  od_symbol :: string
  od_side :: string
  od_order_type :: string
  od_quantity :: decimal
  od_limit_price :: "decimal option"
  od_stop_price :: "decimal option"
  od_time_in_force :: string
  od_currency :: string
  od_rationale :: string
  od_source_kind :: string
  od_source_ref :: string
  od_draft_status :: string
  od_validation_findings :: pyval
  od_schema_version :: string
  od_receipt_ref :: "string option"
  od_created_at_utc :: string

record pretrade_check =
  ptc_pretrade_check_id :: string
  ptc_order_draft_id :: string
  ptc_check_status :: string
  ptc_findings_json :: string
  ptc_required_approval_level :: string
  ptc_schema_version :: string
  ptc_receipt_ref :: "string option"
  ptc_created_at_utc :: string

record approval_record =
  ap_approval_id :: string
  ap_order_draft_id :: string
  ap_decision :: string
  ap_reviewer_id :: string
  ap_rationale :: string
  ap_schema_version :: string
  ap_receipt_ref :: "string option"
  ap_created_at_utc :: string

record execution_order =
  eo_execution_order_id :: string
  eo_order_draft_id :: string
  eo_broker_connection_id :: string
  eo_environment :: string
  eo_broker_order_ref :: "string option"
  eo_execution_status :: string
  eo_submitted_at_utc :: "string option"
  eo_schema_version :: string
  eo_receipt_ref :: "string option"
  eo_created_at_utc :: string

record execution_report =
  er_execution_report_id :: string
  er_execution_order_id :: string
  er_report_type :: string
  er_fill_status :: string
  er_filled_quantity :: decimal
  er_average_fill_price :: "decimal option"
  er_broker_event_ref :: "string option"
  er_schema_version :: string
  er_receipt_ref :: "string option"
  er_created_at_utc :: string

record position_delta =
  pd_position_delta_id :: string
  pd_execution_report_id :: string
  pd_execution_account_id :: string
  pd_symbol :: string
  pd_delta_quantity :: decimal
  pd_post_execution_quantity :: decimal
  pd_schema_version :: string
  pd_receipt_ref :: "string option"
  pd_created_at_utc :: string

record reconciliation_report =
  rc_reconciliation_id :: string
  rc_execution_account_id :: string
  rc_reconciliation_status :: string
  rc_expected_positions_json :: string
  rc_actual_positions_json :: string
  rc_discrepancies_json :: string
  rc_schema_version :: string
  rc_receipt_ref :: "string option"
  rc_created_at_utc :: string

record exec_receipt =
  xr_receipt_id :: string
  xr_kind :: string
  xr_artifact_id :: string
  xr_created_at_utc :: string
  xr_refs :: "string list"
  xr_payload :: "(string \<times> pyval) list"

record exec_db =
  broker_connections :: "broker_connection list"
  execution_accounts :: "execution_account list"
  order_drafts :: "order_draft list"
  pretrade_checks :: "pretrade_check list"
  approval_records :: "approval_record list"
  execution_orders :: "execution_order list"
  execution_reports :: "execution_report list"
  position_deltas :: "position_delta list"
  reconciliation_reports :: "reconciliation_report list"
  receipt_index :: "receipt_index_row list"
  receipt_files :: "string \<rightharpoonup> exec_receipt"

record exec_env = env +
  stamp_us :: "nat \<Rightarrow> string"
  sql_positive :: "decimal \<Rightarrow> bool"
  dec_str :: "decimal \<Rightarrow> string"
  json_dumps :: "pyval \<Rightarrow> string"

section \<open>Declared constraints\<close>

definition order_draft_ck :: "exec_env \<Rightarrow> order_draft \<Rightarrow> bool" where
  "order_draft_ck e d \<longleftrightarrow>
     od_environment d \<in> set EXECUTION_ENVIRONMENTS \<and> od_side d \<in> set ORDER_SIDES \<and>
     od_order_type d \<in> set ORDER_TYPES \<and> od_time_in_force d \<in> set ORDER_TIFS \<and>
     od_draft_status d \<in> set ORDER_DRAFT_STATUSES \<and> sql_positive e (od_quantity d)"

definition pretrade_check_ck :: "pretrade_check \<Rightarrow> bool" where
  "pretrade_check_ck c \<longleftrightarrow> ptc_check_status c \<in> set PRETRADE_CHECK_STATUSES"

definition approval_record_ck :: "approval_record \<Rightarrow> bool" where
  "approval_record_ck a \<longleftrightarrow> ap_decision a \<in> set APPROVAL_DECISIONS"

definition execution_order_ck :: "execution_order \<Rightarrow> bool" where
  "execution_order_ck q \<longleftrightarrow>
     eo_environment q \<in> set EXECUTION_ENVIRONMENTS \<and>
     eo_execution_status q \<in> set EXECUTION_ORDER_STATUSES"

definition execution_report_ck :: "execution_report \<Rightarrow> bool" where
  "execution_report_ck r \<longleftrightarrow>
     er_report_type r \<in> set EXECUTION_REPORT_TYPES \<and> er_fill_status r \<in> set FILL_STATUSES"

definition reconciliation_report_ck :: "reconciliation_report \<Rightarrow> bool" where
  "reconciliation_report_ck r \<longleftrightarrow> rc_reconciliation_status r \<in> set RECONCILIATION_STATUSES"

lemmas exec_ck_defs =
  order_draft_ck_def pretrade_check_ck_def approval_record_ck_def execution_order_ck_def
  execution_report_ck_def reconciliation_report_ck_def

section \<open>Inserting rows, one transaction per write\<close>

text \<open>
  A record handed to \<^verbatim>\<open>write_records\<close>.  \<open>RDetachedOrder\<close> is an order row loaded by an earlier
  session and changed since: adding it again emits an \<^verbatim>\<open>UPDATE\<close> of the changed \<^verbatim>\<open>receipt_ref\<close>.
\<close>

datatype exec_record =
    RDraft order_draft
  | RCheck pretrade_check
  | RApproval approval_record
  | ROrder execution_order
  | RDetachedOrder execution_order
  | RReport execution_report
  | RDelta position_delta
  | RRecon reconciliation_report
  | RIndex receipt_index_row

fun insert_record :: "exec_env \<Rightarrow> exec_record \<Rightarrow> exec_db \<Rightarrow> exec_db option" where
  "insert_record e (RDraft d) db =
     (if order_draft_ck e d \<and>
         \<not> tbl_has od_order_draft_id (order_drafts db) (od_order_draft_id d) \<and>
         tbl_has ea_execution_account_id (execution_accounts db) (od_execution_account_id d)
      then Some (db\<lparr>order_drafts := order_drafts db @ [d]\<rparr>) else None)"
| "insert_record e (RCheck c) db =
     (if pretrade_check_ck c \<and>
         \<not> tbl_has ptc_pretrade_check_id (pretrade_checks db) (ptc_pretrade_check_id c) \<and>
         tbl_has od_order_draft_id (order_drafts db) (ptc_order_draft_id c)
      then Some (db\<lparr>pretrade_checks := pretrade_checks db @ [c]\<rparr>) else None)"
| "insert_record e (RApproval a) db =
     (if approval_record_ck a \<and>
         \<not> tbl_has ap_approval_id (approval_records db) (ap_approval_id a) \<and>
         tbl_has od_order_draft_id (order_drafts db) (ap_order_draft_id a)
      then Some (db\<lparr>approval_records := approval_records db @ [a]\<rparr>) else None)"
| "insert_record e (ROrder q) db =
     (if execution_order_ck q \<and>
         \<not> tbl_has eo_execution_order_id (execution_orders db) (eo_execution_order_id q) \<and>
         tbl_has od_order_draft_id (order_drafts db) (eo_order_draft_id q) \<and>
         tbl_has bc_broker_connection_id (broker_connections db) (eo_broker_connection_id q)
      then Some (db\<lparr>execution_orders := execution_orders db @ [q]\<rparr>) else None)"
| "insert_record e (RDetachedOrder q) db =
     (if tbl_has eo_execution_order_id (execution_orders db) (eo_execution_order_id q)
      then Some (db\<lparr>execution_orders :=
             tbl_update eo_execution_order_id (eo_execution_order_id q)
               (\<lambda>r. r\<lparr>eo_receipt_ref := eo_receipt_ref q\<rparr>) (execution_orders db)\<rparr>)
      else None)"
| "insert_record e (RReport r) db =
     (if execution_report_ck r \<and>
         \<not> tbl_has er_execution_report_id (execution_reports db) (er_execution_report_id r) \<and>
         tbl_has eo_execution_order_id (execution_orders db) (er_execution_order_id r)
      then Some (db\<lparr>execution_reports := execution_reports db @ [r]\<rparr>) else None)"
| "insert_record e (RDelta p) db =
     (if \<not> tbl_has pd_position_delta_id (position_deltas db) (pd_position_delta_id p) \<and>
         tbl_has er_execution_report_id (execution_reports db) (pd_execution_report_id p) \<and>
         tbl_has ea_execution_account_id (execution_accounts db) (pd_execution_account_id p)
      then Some (db\<lparr>position_deltas := position_deltas db @ [p]\<rparr>) else None)"
| "insert_record e (RRecon r) db =
     (if reconciliation_report_ck r \<and>
         \<not> tbl_has rc_reconciliation_id (reconciliation_reports db) (rc_reconciliation_id r) \<and>
         tbl_has ea_execution_account_id (execution_accounts db) (rc_execution_account_id r)
      then Some (db\<lparr>reconciliation_reports := reconciliation_reports db @ [r]\<rparr>) else None)"
| "insert_record e (RIndex x) db =
     (if \<not> tbl_has ri_receipt_id (receipt_index db) (ri_receipt_id x)
      then Some (db\<lparr>receipt_index := receipt_index db @ [x]\<rparr>) else None)"

fun insert_records :: "exec_env \<Rightarrow> exec_record list \<Rightarrow> exec_db \<Rightarrow> exec_db option" where
  "insert_records e [] db = Some db"
| "insert_records e (r # rs) db =
     (case insert_record e r db of None \<Rightarrow> None | Some db' \<Rightarrow> insert_records e rs db')"

fun is_production_import :: "exec_record \<Rightarrow> bool" where
  "is_production_import (RIndex x) = (ri_kind x \<in> set PRODUCTION_IMPORT_KINDS)"
| "is_production_import _ = False"

definition write_records :: "exec_env \<Rightarrow> nat \<Rightarrow> exec_record list \<Rightarrow> exec_db \<Rightarrow> unit res \<times> exec_db" where
  "write_records e i rs db =
     (if list_ex is_production_import rs
      then (Inl (StoreError ''production import receipts require materialize_import_batch''), db)
      else case insert_records e rs db of
             None \<Rightarrow> (Inl (StoreError ''state-core atomic write failed''), db)
           | Some db' \<Rightarrow>
               if commit_fails e i then (Inl (StoreError ''state-core atomic write failed''), db)
               else (Inr (), db'))"

text \<open>Every table that a service looks up by primary key is a keyed row store.\<close>

interpretation drafts: row_store
  "tbl_get od_order_draft_id" "\<lambda>r t. t @ [r]" od_order_draft_id "keyed od_order_draft_id"
  by (rule row_store_table)

interpretation orders: row_store
  "tbl_get eo_execution_order_id" "\<lambda>r t. t @ [r]" eo_execution_order_id
  "keyed eo_execution_order_id"
  by (rule row_store_table)

interpretation indexes: row_store
  "tbl_get ri_receipt_id" "\<lambda>r t. t @ [r]" ri_receipt_id "keyed ri_receipt_id"
  by (rule row_store_table)

text \<open>A write is all or nothing, and never touches the receipt files or the broker tables.\<close>

lemma write_records_error: "write_records e i rs db = (Inl x, db') \<Longrightarrow> db' = db"
  by (auto simp: write_records_def split: if_splits option.splits)

lemma write_records_ok:
  "write_records e i rs db = (Inr u, db') \<Longrightarrow>
   insert_records e rs db = Some db' \<and> \<not> commit_fails e i"
  by (auto simp: write_records_def split: if_splits option.splits)

lemma insert_record_frame:
  "insert_record e r db = Some db' \<Longrightarrow>
   receipt_files db' = receipt_files db \<and> broker_connections db' = broker_connections db \<and>
   execution_accounts db' = execution_accounts db"
  by (cases r) (auto split: if_splits)

lemma insert_records_frame:
  "insert_records e rs db = Some db' \<Longrightarrow>
   receipt_files db' = receipt_files db \<and> broker_connections db' = broker_connections db \<and>
   execution_accounts db' = execution_accounts db"
proof (induction rs arbitrary: db)
  case (Cons r rs)
  then obtain db1 where "insert_record e r db = Some db1" "insert_records e rs db1 = Some db'"
    by (auto split: option.splits)
  with Cons.IH insert_record_frame show ?case by metis
qed simp

end
