(* ===== verification/Execution_Services.thy ===== *)
theory Execution_Services
  imports Execution_Models
begin

text \<open>
  The execution services (\<^verbatim>\<open>execution/capabilities.py\<close>, \<^verbatim>\<open>receipts.py\<close>, \<^verbatim>\<open>services.py\<close>), one
  definition per service function.  A call takes the environment, its arguments and the store
  and returns the result or the exception together with the store it leaves behind: a failing
  call keeps whatever it had committed or written before it failed.
\<close>

section \<open>Capabilities\<close>

record execution_capabilities =
  cap_create_order_draft :: bool
  cap_run_pretrade_check :: bool
  cap_record_approval :: bool
  cap_stage_execution_order :: bool
  cap_submit_simulated_order :: bool
  cap_submit_live_order :: bool
  cap_manage_broker_credentials :: bool

definition DEFAULT_EXECUTION_CAPABILITIES :: execution_capabilities where
  "DEFAULT_EXECUTION_CAPABILITIES =
     \<lparr>cap_create_order_draft = True, cap_run_pretrade_check = True, cap_record_approval = True,
      cap_stage_execution_order = True, cap_submit_simulated_order = True,
      cap_submit_live_order = False, cap_manage_broker_credentials = False\<rparr>"

definition DENY_ALL_EXECUTION_CAPABILITIES :: execution_capabilities where
  "DENY_ALL_EXECUTION_CAPABILITIES =
     \<lparr>cap_create_order_draft = False, cap_run_pretrade_check = False, cap_record_approval = False,
      cap_stage_execution_order = False, cap_submit_simulated_order = False,
      cap_submit_live_order = False, cap_manage_broker_credentials = False\<rparr>"

datatype capability_name =
    CreateOrderDraft | RunPretradeCheck | RecordApproval | StageExecutionOrder
  | SubmitSimulatedOrder | SubmitLiveOrder | ManageBrokerCredentials

fun capability_flag :: "execution_capabilities \<Rightarrow> capability_name \<Rightarrow> bool" where
  "capability_flag c CreateOrderDraft = cap_create_order_draft c"
| "capability_flag c RunPretradeCheck = cap_run_pretrade_check c"
| "capability_flag c RecordApproval = cap_record_approval c"
| "capability_flag c StageExecutionOrder = cap_stage_execution_order c"
| "capability_flag c SubmitSimulatedOrder = cap_submit_simulated_order c"
| "capability_flag c SubmitLiveOrder = cap_submit_live_order c"
| "capability_flag c ManageBrokerCredentials = cap_manage_broker_credentials c"

fun capability_text :: "capability_name \<Rightarrow> string" where
  "capability_text CreateOrderDraft = ''create_order_draft''"
| "capability_text RunPretradeCheck = ''run_pretrade_check''"
| "capability_text RecordApproval = ''record_approval''"
| "capability_text StageExecutionOrder = ''stage_execution_order''"
| "capability_text SubmitSimulatedOrder = ''submit_simulated_order''"
| "capability_text SubmitLiveOrder = ''submit_live_order''"
| "capability_text ManageBrokerCredentials = ''manage_broker_credentials''"

definition require_execution_capability ::
  "execution_capabilities \<Rightarrow> capability_name \<Rightarrow> unit res" where
  "require_execution_capability c n =
     (if \<not> capability_flag c n then Inl (CapabilityDenied (capability_text n)) else Inr ())"

section \<open>Identifiers and receipts\<close>

definition new_id :: "'e env_scheme \<Rightarrow> nat \<Rightarrow> string \<Rightarrow> string" where
  "new_id e i prefix = prefix @ ''_'' @ stamp e i @ ''_'' @ uuid8 e i"

definition kind_tail :: "string \<Rightarrow> string" where
  "kind_tail kind = rev (takeWhile (\<lambda>c. c \<noteq> CHR ''.'') (rev kind))"

definition execution_receipt_id :: "'e env_scheme \<Rightarrow> nat \<Rightarrow> string \<Rightarrow> string \<Rightarrow> string" where
  "execution_receipt_id e i kind artifact_id =
     (let short = (if artifact_id \<noteq> [] then take 8 (filter (\<lambda>c. c \<noteq> CHR ''-'') artifact_id)
                   else uuid8 e i)
      in ''exec_'' @ kind_tail kind @ ''_'' @ stamp e i @ ''_'' @ short)"

definition write_execution_receipt ::
  "exec_env \<Rightarrow> nat \<Rightarrow> string \<Rightarrow> string \<Rightarrow> (string \<times> pyval) list \<Rightarrow> exec_db \<Rightarrow>
   (string \<times> string) res \<times> exec_db" where
  "write_execution_receipt e i kind artifact_id payload db =
     (let receipt_id = execution_receipt_id e i kind artifact_id;
          doc = \<lparr>xr_receipt_id = receipt_id, xr_kind = kind, xr_artifact_id = artifact_id,
                 xr_created_at_utc = clock e i, xr_refs = [], xr_payload = payload\<rparr>
      in case resolve_path e [''receipts'', receipt_id @ ''.json''] of
           None \<Rightarrow> (Inl ReceiptPathError, db)
         | Some target \<Rightarrow>
             if write_fails e target then (Inl (OsError target), db)
             else (Inr (receipt_id, target),
                   db\<lparr>receipt_files := (receipt_files db)(target \<mapsto> doc)\<rparr>))"

definition mk_index :: "exec_env \<Rightarrow> string \<Rightarrow> string \<Rightarrow> string \<Rightarrow> string \<Rightarrow> string list \<Rightarrow> receipt_index_row" where
  "mk_index e receipt_id kind path created refs =
     \<lparr>ri_receipt_id = receipt_id, ri_kind = kind, ri_path = display_path e path,
      ri_created_at_utc = created, ri_source_refs = [], ri_refs = refs\<rparr>"

definition execution_environment_of :: "string \<Rightarrow> string res" where
  "execution_environment_of s =
     (if s \<in> set EXECUTION_ENVIRONMENTS then Inr s
      else Inl (ValueError (py_quote s @ '' is not a valid ExecutionEnvironment'')))"

definition shift_env :: "nat \<Rightarrow> exec_env \<Rightarrow> exec_env" where
  "shift_env k e =
     e\<lparr>clock := \<lambda>i. clock e (i + k), stamp := \<lambda>i. stamp e (i + k),
       uuid8 := \<lambda>i. uuid8 e (i + k), stamp_us := \<lambda>i. stamp_us e (i + k),
       commit_fails := \<lambda>i. commit_fails e (i + k), pick_row := \<lambda>i. pick_row e (i + k)\<rparr>"

section \<open>Drafting, checking, approving\<close>

record draft_args =
  da_execution_account_id :: string
  da_instrument_ref :: string
  da_symbol :: string
  da_side :: string
  da_order_type :: string
  da_quantity :: decimal
  da_rationale :: string
  da_environment :: string
  da_time_in_force :: string
  da_limit_price :: "decimal option"
  da_stop_price :: "decimal option"
  da_proposal_id :: "string option"
  da_source_kind :: string
  da_source_ref :: string

definition create_order_draft ::
  "exec_env \<Rightarrow> execution_capabilities \<Rightarrow> draft_args \<Rightarrow> exec_db \<Rightarrow> order_draft res \<times> exec_db" where
  "create_order_draft e caps a db =
     (case require_execution_capability caps CreateOrderDraft of Inl x \<Rightarrow> (Inl x, db) | Inr _ \<Rightarrow>
      case execution_environment_of (da_environment a) of Inl x \<Rightarrow> (Inl x, db) | Inr env_value \<Rightarrow>
      let draft_id = new_id e 0 ''od''; created = clock e 0;
          draft = \<lparr>od_order_draft_id = draft_id, od_proposal_id = da_proposal_id a,
                   od_environment = env_value,
                   od_execution_account_id = da_execution_account_id a,
                   od_instrument_ref = da_instrument_ref a, od_symbol = da_symbol a,
                   od_side = da_side a, od_order_type = da_order_type a,
                   od_quantity = da_quantity a, od_limit_price = da_limit_price a,
                   od_stop_price = da_stop_price a, od_time_in_force = da_time_in_force a,
                   od_currency = ''USD'', od_rationale = da_rationale a,
                   od_source_kind = da_source_kind a, od_source_ref = da_source_ref a,
                   od_draft_status = ''draft'', od_validation_findings = PNone,
                   od_schema_version = STATE_CORE_SCHEMA_VERSION, od_receipt_ref = None,
                   od_created_at_utc = created\<rparr>
      in case write_execution_receipt e 1 ''execution.order_draft.created'' draft_id
                [(''side'', PStr (da_side a)), (''symbol'', PStr (da_symbol a)),
                 (''order_type'', PStr (da_order_type a)),
                 (''quantity'', PStr (dec_str e (da_quantity a))),
                 (''environment'', PStr (da_environment a))] db of
           (Inl x, db1) \<Rightarrow> (Inl x, db1)
         | (Inr (receipt_id, path), db1) \<Rightarrow>
             let draft' = draft\<lparr>od_receipt_ref := Some receipt_id\<rparr>;
                 index = mk_index e receipt_id ''execution.order_draft.created'' path created [draft_id]
             in case write_records e 0 [RDraft draft', RIndex index] db1 of
                  (Inl x, db2) \<Rightarrow> (Inl x, db2)
                | (Inr _, db2) \<Rightarrow> (Inr draft', db2))"

fun check_status_of :: "(string \<times> pyval) list list \<Rightarrow> string \<Rightarrow> string" where
  "check_status_of [] st = st"
| "check_status_of (f # fs) st =
     (if dict_get f ''severity'' = PStr ''block'' then ''block''
      else if dict_get f ''severity'' = PStr ''warn'' then check_status_of fs ''warn''
      else check_status_of fs st)"

text \<open>
  The session that changes a draft's status: a missing draft is left alone, a refused commit
  raises and changes nothing.
\<close>

definition set_draft_status ::
  "exec_env \<Rightarrow> nat \<Rightarrow> string \<Rightarrow> string \<Rightarrow> exec_db \<Rightarrow> unit res \<times> exec_db" where
  "set_draft_status e i order_draft_id st db =
     (case tbl_get od_order_draft_id (order_drafts db) order_draft_id of
        None \<Rightarrow> (Inr (), db)
      | Some _ \<Rightarrow>
          if commit_fails e i then (Inl (DbError ''commit''), db)
          else (Inr (), db\<lparr>order_drafts :=
                  tbl_update od_order_draft_id order_draft_id
                    (\<lambda>d. d\<lparr>od_draft_status := st\<rparr>) (order_drafts db)\<rparr>))"

definition run_pretrade_check ::
  "exec_env \<Rightarrow> execution_capabilities \<Rightarrow> string \<Rightarrow> (string \<times> pyval) list list \<Rightarrow> string \<Rightarrow>
   exec_db \<Rightarrow> pretrade_check res \<times> exec_db" where
  "run_pretrade_check e caps order_draft_id findings level db =
     (case require_execution_capability caps RunPretradeCheck of Inl x \<Rightarrow> (Inl x, db) | Inr _ \<Rightarrow>
      let check_id = new_id e 0 ''ptc''; created = clock e 0;
          status = check_status_of findings ''pass'';
          check = \<lparr>ptc_pretrade_check_id = check_id, ptc_order_draft_id = order_draft_id,
                   ptc_check_status = status,
                   ptc_findings_json = json_dumps e (PList (map PDict findings)),
                   ptc_required_approval_level = level,
                   ptc_schema_version = STATE_CORE_SCHEMA_VERSION,
                   ptc_receipt_ref = None, ptc_created_at_utc = created\<rparr>
      in case write_execution_receipt e 1 ''execution.pretrade_check.recorded'' check_id
                [(''order_draft_id'', PStr order_draft_id), (''status'', PStr status)] db of
           (Inl x, db1) \<Rightarrow> (Inl x, db1)
         | (Inr (receipt_id, path), db1) \<Rightarrow>
             let check' = check\<lparr>ptc_receipt_ref := Some receipt_id\<rparr>;
                 index = mk_index e receipt_id ''execution.pretrade_check.recorded'' path created
                           [check_id, order_draft_id]
             in case set_draft_status e 0 order_draft_id
                       (if status = ''pass'' then ''pretrade_check_passed''
                        else ''pretrade_check_blocked'') db1 of
                  (Inl x, db2) \<Rightarrow> (Inl x, db2)
                | (Inr _, db2) \<Rightarrow>
                    case write_records e 1 [RCheck check', RIndex index] db2 of
                      (Inl x, db3) \<Rightarrow> (Inl x, db3)
                    | (Inr _, db3) \<Rightarrow> (Inr check', db3))"

definition record_approval ::
  "exec_env \<Rightarrow> execution_capabilities \<Rightarrow> string \<Rightarrow> string \<Rightarrow> string \<Rightarrow> string \<Rightarrow>
   exec_db \<Rightarrow> approval_record res \<times> exec_db" where
  "record_approval e caps order_draft_id decision reviewer_id rationale db =
     (case require_execution_capability caps RecordApproval of Inl x \<Rightarrow> (Inl x, db) | Inr _ \<Rightarrow>
      let approval_id = new_id e 0 ''appr''; created = clock e 0;
          approval = \<lparr>ap_approval_id = approval_id, ap_order_draft_id = order_draft_id,
                      ap_decision = decision, ap_reviewer_id = reviewer_id,
                      ap_rationale = rationale, ap_schema_version = STATE_CORE_SCHEMA_VERSION,
                      ap_receipt_ref = None, ap_created_at_utc = created\<rparr>
      in case write_execution_receipt e 1 ''execution.approval.recorded'' approval_id
                [(''order_draft_id'', PStr order_draft_id), (''decision'', PStr decision),
                 (''reviewer_id'', PStr reviewer_id)] db of
           (Inl x, db1) \<Rightarrow> (Inl x, db1)
         | (Inr (receipt_id, path), db1) \<Rightarrow>
             let approval' = approval\<lparr>ap_receipt_ref := Some receipt_id\<rparr>;
                 index = mk_index e receipt_id ''execution.approval.recorded'' path created
                           [approval_id, order_draft_id]
             in case set_draft_status e 0 order_draft_id
                       (if decision = ''approved'' then ''approved'' else ''rejected'') db1 of
                  (Inl x, db2) \<Rightarrow> (Inl x, db2)
                | (Inr _, db2) \<Rightarrow>
                    case write_records e 1 [RApproval approval', RIndex index] db2 of
                      (Inl x, db3) \<Rightarrow> (Inl x, db3)
                    | (Inr _, db3) \<Rightarrow> (Inr approval', db3))"

section \<open>Staging and submitting\<close>

definition stage_preconditions :: "exec_env \<Rightarrow> string \<Rightarrow> exec_db \<Rightarrow> string res" where
  "stage_preconditions e order_draft_id db =
     (case tbl_get od_order_draft_id (order_drafts db) order_draft_id of
        None \<Rightarrow> Inl (ValueError (''order draft not found: '' @ order_draft_id))
      | Some draft \<Rightarrow>
          if od_draft_status draft = ''rejected'' \<or> od_draft_status draft = ''cancelled''
          then Inl (ValueError (''cannot stage '' @ od_draft_status draft @ '' draft: '' @ order_draft_id))
          else if od_draft_status draft \<noteq> ''approved''
          then Inl (ValueError (''draft must be approved before staging: current status='' @
                                od_draft_status draft))
          else case first_row e 0 (filter (\<lambda>c. ptc_order_draft_id c = order_draft_id)
                                  (pretrade_checks db)) of
                 None \<Rightarrow> Inl (ValueError (''no PreTradeCheck found for draft: '' @ order_draft_id))
               | Some ptc \<Rightarrow>
                   if ptc_check_status ptc = ''block''
                   then Inl (ValueError (''cannot stage blocked pretrade check: '' @ order_draft_id))
                   else case first_row e 1 (filter (\<lambda>a. ap_order_draft_id a = order_draft_id)
                                           (approval_records db)) of
                          None \<Rightarrow> Inl (ValueError (''no ApprovalRecord found for draft: '' @
                                                   order_draft_id))
                        | Some _ \<Rightarrow> Inr (od_environment draft))"

definition stage_execution_order ::
  "exec_env \<Rightarrow> execution_capabilities \<Rightarrow> string \<Rightarrow> string \<Rightarrow> string \<Rightarrow>
   exec_db \<Rightarrow> execution_order res \<times> exec_db" where
  "stage_execution_order e caps order_draft_id broker_connection_id environment db =
     (case require_execution_capability caps StageExecutionOrder of Inl x \<Rightarrow> (Inl x, db) | Inr _ \<Rightarrow>
      case stage_preconditions e order_draft_id db of Inl x \<Rightarrow> (Inl x, db) | Inr actual_env \<Rightarrow>
      case execution_environment_of actual_env of Inl x \<Rightarrow> (Inl x, db) | Inr env_value \<Rightarrow>
      let order_id = new_id e 0 ''eo''; created = clock e 0;
          order = \<lparr>eo_execution_order_id = order_id, eo_order_draft_id = order_draft_id,
                   eo_broker_connection_id = broker_connection_id, eo_environment = env_value,
                   eo_broker_order_ref = None, eo_execution_status = ''staged'',
                   eo_submitted_at_utc = None, eo_schema_version = STATE_CORE_SCHEMA_VERSION,
                   eo_receipt_ref = None, eo_created_at_utc = created\<rparr>
      in case write_execution_receipt e 1 ''execution.order.staged'' order_id
                [(''order_draft_id'', PStr order_draft_id),
                 (''broker_connection_id'', PStr broker_connection_id),
                 (''environment'', PStr environment)] db of
           (Inl x, db1) \<Rightarrow> (Inl x, db1)
         | (Inr (receipt_id, path), db1) \<Rightarrow>
             let order' = order\<lparr>eo_receipt_ref := Some receipt_id\<rparr>;
                 index = mk_index e receipt_id ''execution.order.staged'' path created
                           [order_id, order_draft_id]
             in case set_draft_status e 0 order_draft_id ''staged'' db1 of
                  (Inl x, db2) \<Rightarrow> (Inl x, db2)
                | (Inr _, db2) \<Rightarrow>
                    case write_records e 1 [ROrder order', RIndex index] db2 of
                      (Inl x, db3) \<Rightarrow> (Inl x, db3)
                    | (Inr _, db3) \<Rightarrow> (Inr order', db3))"

definition submit_execution_order ::
  "exec_env \<Rightarrow> execution_capabilities \<Rightarrow> string \<Rightarrow> string \<Rightarrow>
   exec_db \<Rightarrow> execution_order res \<times> exec_db" where
  "submit_execution_order e caps execution_order_id broker_connection_id db =
     (case require_execution_capability caps SubmitSimulatedOrder of Inl x \<Rightarrow> (Inl x, db) | Inr _ \<Rightarrow>
      case tbl_get eo_execution_order_id (execution_orders db) execution_order_id of
        None \<Rightarrow> (Inl (ValueError (''execution order not found: '' @ execution_order_id)), db)
      | Some order_check \<Rightarrow>
          if eo_execution_status order_check \<noteq> ''staged''
          then (Inl (ValueError (''cannot submit order with status '' @
                       py_quote (eo_execution_status order_check) @ '': must be '' @
                       py_quote ''staged'' @ '', got '' @
                       py_quote (eo_execution_status order_check))), db)
          else
            let created = clock e 0 in
            case write_execution_receipt e 1 ''execution.order.submit_attempted'' execution_order_id
                   [(''broker_connection_id'', PStr broker_connection_id),
                    (''attempted_at_utc'', PStr created)] db of
              (Inl x, db1) \<Rightarrow> (Inl x, db1)
            | (Inr (attempted_id, attempted_path), db1) \<Rightarrow>
                let attempted_index = mk_index e attempted_id ''execution.order.submit_attempted''
                                        attempted_path created [execution_order_id]
                in if commit_fails e 0 then (Inl (DbError ''commit''), db1)
                   else
                     let mark = (\<lambda>q. q\<lparr>eo_execution_status := ''submitted'',
                                       eo_submitted_at_utc := Some created\<rparr>);
                         order = mark order_check;
                         db2 = db1\<lparr>execution_orders :=
                                 tbl_update eo_execution_order_id execution_order_id mark
                                   (execution_orders db1)\<rparr>
                     in case write_execution_receipt e 2 ''execution.order.submitted'' execution_order_id
                               [(''broker_connection_id'', PStr broker_connection_id),
                                (''submitted_at_utc'', PStr created)] db2 of
                          (Inl x, db3) \<Rightarrow> (Inl x, db3)
                        | (Inr (submitted_id, submitted_path), db3) \<Rightarrow>
                            let submitted_index = mk_index e submitted_id ''execution.order.submitted''
                                                    submitted_path created [execution_order_id];
                                order' = order\<lparr>eo_receipt_ref := Some submitted_id\<rparr>
                            in case write_records e 1 [RDetachedOrder order', RIndex attempted_index,
                                                       RIndex submitted_index] db3 of
                                 (Inl x, db4) \<Rightarrow> (Inl x, db4)
                               | (Inr _, db4) \<Rightarrow> (Inr order', db4))"

section \<open>Reports, position deltas, reconciliation\<close>

definition dec_or_zero :: "decimal option \<Rightarrow> decimal" where
  "dec_or_zero q = (case q of None \<Rightarrow> dec_zero | Some d \<Rightarrow> if dec_is_zero d then dec_zero else d)"

definition report_status :: "string \<Rightarrow> execution_order \<Rightarrow> execution_order" where
  "report_status fill_status q =
     (if fill_status = ''filled'' then q\<lparr>eo_execution_status := ''filled''\<rparr>
      else if fill_status = ''partial'' then q\<lparr>eo_execution_status := ''partial_fill''\<rparr>
      else q)"

definition record_execution_report ::
  "exec_env \<Rightarrow> string \<Rightarrow> string \<Rightarrow> string \<Rightarrow> decimal option \<Rightarrow> decimal option \<Rightarrow> string option \<Rightarrow>
   exec_db \<Rightarrow> execution_report res \<times> exec_db" where
  "record_execution_report e execution_order_id report_type fill_status filled_quantity
       average_fill_price broker_event_ref db =
     (let report_id = new_id e 0 ''er''; created = clock e 0;
          report = \<lparr>er_execution_report_id = report_id,
                    er_execution_order_id = execution_order_id, er_report_type = report_type,
                    er_fill_status = fill_status, er_filled_quantity = dec_or_zero filled_quantity,
                    er_average_fill_price = average_fill_price,
                    er_broker_event_ref = broker_event_ref,
                    er_schema_version = STATE_CORE_SCHEMA_VERSION, er_receipt_ref = None,
                    er_created_at_utc = created\<rparr>
      in case write_execution_receipt e 1 ''execution.report.recorded'' report_id
                [(''execution_order_id'', PStr execution_order_id),
                 (''report_type'', PStr report_type), (''fill_status'', PStr fill_status),
                 (''filled_quantity'', PStr (dec_str e (er_filled_quantity report)))] db of
           (Inl x, db1) \<Rightarrow> (Inl x, db1)
         | (Inr (receipt_id, path), db1) \<Rightarrow>
             let report' = report\<lparr>er_receipt_ref := Some receipt_id\<rparr>;
                 index = mk_index e receipt_id ''execution.report.recorded'' path created
                           [report_id, execution_order_id]
             in case (case tbl_get eo_execution_order_id (execution_orders db1) execution_order_id of
                        None \<Rightarrow> (Inr (), db1)
                      | Some _ \<Rightarrow>
                          if commit_fails e 0 then (Inl (DbError ''commit''), db1)
                          else (Inr (), db1\<lparr>execution_orders :=
                                  tbl_update eo_execution_order_id execution_order_id
                                    (report_status fill_status) (execution_orders db1)\<rparr>)) of
                  (Inl x, db2) \<Rightarrow> (Inl x, db2)
                | (Inr _, db2) \<Rightarrow>
                    case write_records e 1 [RReport report', RIndex index] db2 of
                      (Inl x, db3) \<Rightarrow> (Inl x, db3)
                    | (Inr _, db3) \<Rightarrow> (Inr report', db3))"

definition record_position_delta ::
  "exec_env \<Rightarrow> string \<Rightarrow> string \<Rightarrow> string \<Rightarrow> decimal \<Rightarrow> decimal \<Rightarrow>
   exec_db \<Rightarrow> position_delta res \<times> exec_db" where
  "record_position_delta e execution_report_id execution_account_id symbol delta_quantity
       post_execution_quantity db =
     (let delta_id = new_id e 0 ''pd''; created = clock e 0;
          delta = \<lparr>pd_position_delta_id = delta_id, pd_execution_report_id = execution_report_id,
                   pd_execution_account_id = execution_account_id, pd_symbol = symbol,
                   pd_delta_quantity = delta_quantity,
                   pd_post_execution_quantity = post_execution_quantity,
                   pd_schema_version = STATE_CORE_SCHEMA_VERSION, pd_receipt_ref = None,
                   pd_created_at_utc = created\<rparr>
      in case write_execution_receipt e 1 ''execution.position_delta.recorded'' delta_id
                [(''symbol'', PStr symbol), (''delta_quantity'', PStr (dec_str e delta_quantity)),
                 (''post_execution_quantity'', PStr (dec_str e post_execution_quantity))] db of
           (Inl x, db1) \<Rightarrow> (Inl x, db1)
         | (Inr (receipt_id, path), db1) \<Rightarrow>
             let delta' = delta\<lparr>pd_receipt_ref := Some receipt_id\<rparr>;
                 index = mk_index e receipt_id ''execution.position_delta.recorded'' path created
                           [delta_id, execution_report_id]
             in case write_records e 0 [RDelta delta', RIndex index] db1 of
                  (Inl x, db2) \<Rightarrow> (Inl x, db2)
                | (Inr _, db2) \<Rightarrow> (Inr delta', db2))"

definition record_reconciliation ::
  "exec_env \<Rightarrow> string \<Rightarrow> pyval list \<Rightarrow> pyval list \<Rightarrow> pyval list \<Rightarrow>
   exec_db \<Rightarrow> reconciliation_report res \<times> exec_db" where
  "record_reconciliation e execution_account_id expected actual discrepancies db =
     (let rec_id = new_id e 0 ''rec''; created = clock e 0;
          status = (if discrepancies = [] then ''matched'' else ''unmatched'');
          rc = \<lparr>rc_reconciliation_id = rec_id, rc_execution_account_id = execution_account_id,
                 rc_reconciliation_status = status,
                 rc_expected_positions_json = json_dumps e (PList expected),
                 rc_actual_positions_json = json_dumps e (PList actual),
                 rc_discrepancies_json = json_dumps e (PList discrepancies),
                 rc_schema_version = STATE_CORE_SCHEMA_VERSION, rc_receipt_ref = None,
                 rc_created_at_utc = created\<rparr>
      in case write_execution_receipt e 1 ''execution.reconciliation.recorded'' rec_id
                [(''execution_account_id'', PStr execution_account_id), (''status'', PStr status)] db of
           (Inl x, db1) \<Rightarrow> (Inl x, db1)
         | (Inr (receipt_id, path), db1) \<Rightarrow>
             let rc' = rc\<lparr>rc_receipt_ref := Some receipt_id\<rparr>;
                 index = mk_index e receipt_id ''execution.reconciliation.recorded'' path created
                           [rec_id, execution_account_id]
             in case write_records e 0 [RRecon rc', RIndex index] db1 of
                  (Inl x, db2) \<Rightarrow> (Inl x, db2)
                | (Inr _, db2) \<Rightarrow> (Inr rc', db2))"

end
