(* ===== verification/Execution_Commands.thy ===== *)
theory Execution_Commands
  imports Execution_Services
begin

text \<open>
  The broker port and its registry (\<^verbatim>\<open>execution/broker.py\<close>), the simulated adapter
  (\<^verbatim>\<open>execution/adapters/simulated_broker.py\<close>) and the command that submits through an adapter
  (\<^verbatim>\<open>execution/commands.py\<close>).  An adapter is a value with the two operations of the protocol;
  the locale \<open>broker_port\<close> states what the command relies on, and the simulated adapter is its
  interpretation.
\<close>

section \<open>The port and the registry\<close>

record broker_adapter =
  ba_environment :: string
  ba_adapter_kind :: string
  ba_submit_order :: "exec_env \<Rightarrow> execution_order \<Rightarrow> order_draft \<Rightarrow> execution_report res"
  ba_cancel_order :: "exec_env \<Rightarrow> execution_order \<Rightarrow> execution_report option res"

type_synonym broker_registry = "string \<rightharpoonup> broker_adapter"

definition register_broker_adapter ::
  "string \<Rightarrow> broker_adapter \<Rightarrow> broker_registry \<Rightarrow> unit res \<times> broker_registry" where
  "register_broker_adapter broker_connection_id adapter reg =
     (if ba_adapter_kind adapter \<noteq> ''simulated''
      then (Inl (ValueError (''Only simulated broker adapters are supported, got adapter_kind='' @
                             py_quote (ba_adapter_kind adapter))), reg)
      else (Inr (), reg(broker_connection_id \<mapsto> adapter)))"

definition resolve_broker_adapter :: "string \<Rightarrow> broker_registry \<Rightarrow> broker_adapter option" where
  "resolve_broker_adapter broker_connection_id reg = reg broker_connection_id"

definition clear_broker_registry :: "broker_registry \<Rightarrow> broker_registry" where
  "clear_broker_registry reg = Map.empty"

section \<open>The simulated adapter\<close>

record simulated_broker_adapter =
  sb_environment :: string
  sb_simulate_fill :: bool
  sb_fill_price_offset :: "decimal option"

definition sim_new_id :: "exec_env \<Rightarrow> string \<Rightarrow> string" where
  "sim_new_id e prefix = prefix @ ''_'' @ stamp_us e 0 @ ''_'' @ uuid8 e 0"

definition sim_fill_price :: "simulated_broker_adapter \<Rightarrow> order_draft \<Rightarrow> decimal" where
  "sim_fill_price b draft =
     (case od_limit_price draft of
        Some p \<Rightarrow> p
      | None \<Rightarrow> dec_add (Dec 10000 (- 2)) (dec_or_zero (sb_fill_price_offset b)))"

definition sim_submit_order ::
  "simulated_broker_adapter \<Rightarrow> exec_env \<Rightarrow> execution_order \<Rightarrow> order_draft \<Rightarrow> execution_report res" where
  "sim_submit_order b e order draft =
     (let report_id = sim_new_id e ''er_sim''; now = clock e 0
      in if sb_simulate_fill b
         then Inr \<lparr>er_execution_report_id = report_id,
                   er_execution_order_id = eo_execution_order_id order,
                   er_report_type = ''simulated_fill'', er_fill_status = ''filled'',
                   er_filled_quantity = od_quantity draft,
                   er_average_fill_price = Some (sim_fill_price b draft),
                   er_broker_event_ref = Some (''simulated:fill:'' @ eo_execution_order_id order),
                   er_schema_version = STATE_CORE_SCHEMA_VERSION, er_receipt_ref = None,
                   er_created_at_utc = now\<rparr>
         else Inr \<lparr>er_execution_report_id = report_id,
                   er_execution_order_id = eo_execution_order_id order,
                   er_report_type = ''simulated_submit_ack'', er_fill_status = ''none'',
                   er_filled_quantity = dec_zero, er_average_fill_price = None,
                   er_broker_event_ref = Some (''simulated:ack:'' @ eo_execution_order_id order),
                   er_schema_version = STATE_CORE_SCHEMA_VERSION, er_receipt_ref = None,
                   er_created_at_utc = now\<rparr>)"

definition sim_cancel_order ::
  "simulated_broker_adapter \<Rightarrow> exec_env \<Rightarrow> execution_order \<Rightarrow> execution_report option res" where
  "sim_cancel_order b e order =
     Inr (Some \<lparr>er_execution_report_id = sim_new_id e ''er_sim_cxl'',
                er_execution_order_id = eo_execution_order_id order,
                er_report_type = ''simulated_submit_ack'', er_fill_status = ''cancelled'',
                er_filled_quantity = dec_zero, er_average_fill_price = None,
                er_broker_event_ref = Some (''simulated:cxl:'' @ eo_execution_order_id order),
                er_schema_version = STATE_CORE_SCHEMA_VERSION, er_receipt_ref = None,
                er_created_at_utc = clock e 0\<rparr>)"

definition simulated_adapter :: "simulated_broker_adapter \<Rightarrow> broker_adapter" where
  "simulated_adapter b =
     \<lparr>ba_environment = sb_environment b, ba_adapter_kind = ''simulated'',
      ba_submit_order = sim_submit_order b, ba_cancel_order = sim_cancel_order b\<rparr>"

section \<open>The submit command\<close>

definition submit_order ::
  "exec_env \<Rightarrow> execution_capabilities \<Rightarrow> broker_registry \<Rightarrow> string \<Rightarrow>
   exec_db \<Rightarrow> execution_report res \<times> exec_db" where
  "submit_order e caps reg execution_order_id db =
     (case require_execution_capability caps SubmitSimulatedOrder of Inl x \<Rightarrow> (Inl x, db) | Inr _ \<Rightarrow>
      case tbl_get eo_execution_order_id (execution_orders db) execution_order_id of
        None \<Rightarrow> (Inl NoResultFound, db)
      | Some order \<Rightarrow>
          case tbl_get od_order_draft_id (order_drafts db) (eo_order_draft_id order) of
            None \<Rightarrow> (Inl NoResultFound, db)
          | Some draft \<Rightarrow>
              let broker_id = eo_broker_connection_id order in
              case resolve_broker_adapter broker_id reg of
                None \<Rightarrow>
                  (case submit_execution_order e caps execution_order_id broker_id db of
                     (Inl x, db1) \<Rightarrow> (Inl x, db1)
                   | (Inr _, db1) \<Rightarrow>
                       record_execution_report (shift_env 4 e) execution_order_id
                         ''simulated_submit_ack'' ''none'' None None
                         (Some (''no_adapter:'' @ execution_order_id)) db1)
              | Some adapter \<Rightarrow>
                  (case submit_execution_order e caps execution_order_id broker_id db of
                     (Inl x, db1) \<Rightarrow> (Inl x, db1)
                   | (Inr _, db1) \<Rightarrow>
                       case ba_submit_order adapter (shift_env 3 e) order draft of
                         Inl x \<Rightarrow> (Inl x, db1)
                       | Inr report \<Rightarrow>
                           record_execution_report (shift_env 4 e) execution_order_id
                             (er_report_type report) (er_fill_status report)
                             (Some (er_filled_quantity report)) (er_average_fill_price report)
                             (er_broker_event_ref report) db1))"

section \<open>What the command relies on\<close>

text \<open>
  The contract of an adapter: it answers for the order it was given, and in the closed
  vocabulary of reports, so that the answer can be recorded.
\<close>

locale broker_port =
  fixes submit :: "exec_env \<Rightarrow> execution_order \<Rightarrow> order_draft \<Rightarrow> execution_report res"
  assumes answers_order:
      "submit e q d = Inr r \<Longrightarrow> er_execution_order_id r = eo_execution_order_id q"
    and closed_report: "submit e q d = Inr r \<Longrightarrow> execution_report_ck r"
begin

lemma recorded_vocabulary:
  assumes "submit e q d = Inr r"
  shows "er_report_type r \<in> set EXECUTION_REPORT_TYPES" and "er_fill_status r \<in> set FILL_STATUSES"
  using closed_report [OF assms] by (simp_all add: execution_report_ck_def)

lemma recordable:
  assumes "submit e q d = Inr r"
    and "\<not> tbl_has er_execution_report_id (execution_reports db) i"
    and "tbl_has eo_execution_order_id (execution_orders db) (eo_execution_order_id q)"
  shows "insert_record e' (RReport (r\<lparr>er_execution_report_id := i,
           er_execution_order_id := eo_execution_order_id q\<rparr>)) db \<noteq> None"
  using assms closed_report [OF assms(1)] by (simp add: execution_report_ck_def)

end

interpretation sim: broker_port "sim_submit_order b" for b
  by unfold_locales
     (auto simp: sim_submit_order_def Let_def execution_report_ck_def exec_vocab_defs
       split: if_splits)

lemma simulated_submit_total: "\<exists>r. sim_submit_order b e q d = Inr r"
  by (simp add: sim_submit_order_def Let_def)

text \<open>The registry only ever holds simulated adapters.\<close>

lemma register_keeps_simulated:
  assumes "\<forall>k a. reg k = Some a \<longrightarrow> ba_adapter_kind a = ''simulated''"
    and "register_broker_adapter i a reg = (r, reg')"
  shows "\<forall>k b. reg' k = Some b \<longrightarrow> ba_adapter_kind b = ''simulated''"
  using assms by (auto simp: register_broker_adapter_def split: if_splits)

end
