(* ===== verification/Execution_Invariants.thy ===== *)
theory Execution_Invariants
  imports Execution_Commands
begin

text \<open>
  The execution kernel as a transition system.  Every service call, successful or not, is a
  sequence of four kinds of small changes of the store (\<open>micro\<close>): a receipt file, a draft's
  status, an order's status, an inserted row, where an order row is only inserted when the
  evidence that staging demands is in the store.  Facts about the small changes give the
  invariants of every reachable store and the history properties of orders.
\<close>

section \<open>Evidence and small changes\<close>

definition staging_evidence :: "exec_db \<Rightarrow> string \<Rightarrow> string \<Rightarrow> bool" where
  "staging_evidence db did ev \<longleftrightarrow>
     (\<exists>d\<in>set (order_drafts db). od_order_draft_id d = did \<and> od_environment d = ev) \<and>
     (\<exists>c\<in>set (pretrade_checks db). ptc_order_draft_id c = did \<and> ptc_check_status c \<noteq> ''block'') \<and>
     (\<exists>a\<in>set (approval_records db). ap_order_draft_id a = did)"

definition order_edit :: "(execution_order \<Rightarrow> execution_order) \<Rightarrow> bool" where
  "order_edit f \<longleftrightarrow>
     (\<forall>q. eo_execution_order_id (f q) = eo_execution_order_id q \<and>
          eo_order_draft_id (f q) = eo_order_draft_id q \<and>
          eo_environment (f q) = eo_environment q \<and>
          eo_broker_connection_id (f q) = eo_broker_connection_id q \<and>
          (eo_execution_status (f q) = eo_execution_status q \<or>
           eo_execution_status (f q) \<in> {''submitted'', ''partial_fill'', ''filled''}))"

inductive micro :: "exec_db \<Rightarrow> exec_db \<Rightarrow> bool" where
  m_file: "micro db (db\<lparr>receipt_files := f\<rparr>)"
| m_draft: "st \<in> set ORDER_DRAFT_STATUSES \<Longrightarrow>
    micro db (db\<lparr>order_drafts :=
      tbl_update od_order_draft_id k (\<lambda>d. d\<lparr>od_draft_status := st\<rparr>) (order_drafts db)\<rparr>)"
| m_order: "order_edit f \<Longrightarrow>
    micro db (db\<lparr>execution_orders :=
      tbl_update eo_execution_order_id k f (execution_orders db)\<rparr>)"
| m_insert: "insert_record e r db = Some db' \<Longrightarrow>
    (\<And>q. r = ROrder q \<Longrightarrow> staging_evidence db (eo_order_draft_id q) (eo_environment q)) \<Longrightarrow>
    micro db db'"

abbreviation micros :: "exec_db \<Rightarrow> exec_db \<Rightarrow> bool" where
  "micros \<equiv> micro\<^sup>*\<^sup>*"

lemmas micros_trans = rtranclp_trans [of micro]

lemma micro_micros: "micro a b \<Longrightarrow> micros a b"
  by (rule r_into_rtranclp)

subsection \<open>Every service is a sequence of small changes\<close>

lemma receipt_micros:
  "write_execution_receipt e i k a p db = (r, db') \<Longrightarrow> micros db db'"
  by (auto simp: write_execution_receipt_def Let_def split: option.splits if_splits
      intro: micro_micros m_file)

lemma receipt_tables:
  "write_execution_receipt e i k a p db = (r, db') \<Longrightarrow>
   db' = db\<lparr>receipt_files := receipt_files db'\<rparr>"
  by (auto simp: write_execution_receipt_def Let_def split: option.splits if_splits)

lemma receipt_frame:
  assumes "write_execution_receipt e i k a p db = (r, db')"
  shows "execution_orders db' = execution_orders db" and "order_drafts db' = order_drafts db"
    and "receipt_index db' = receipt_index db" and "execution_reports db' = execution_reports db"
    and "execution_accounts db' = execution_accounts db"
    and "broker_connections db' = broker_connections db"
    and "pretrade_checks db' = pretrade_checks db"
    and "approval_records db' = approval_records db"
  using assms by (auto simp: write_execution_receipt_def Let_def split: option.splits if_splits)

lemma status_micros:
  "set_draft_status e i k st db = (r, db') \<Longrightarrow> st \<in> set ORDER_DRAFT_STATUSES \<Longrightarrow> micros db db'"
  by (auto simp: set_draft_status_def split: option.splits if_splits
      intro: micro_micros m_draft)

lemma draft_status_frame [simp]:
  "od_order_draft_id (if b then d\<lparr>od_draft_status := st\<rparr> else d) = od_order_draft_id d"
  "od_environment (if b then d\<lparr>od_draft_status := st\<rparr> else d) = od_environment d"
  by simp_all

lemma evidence_micro: "micro db db' \<Longrightarrow> staging_evidence db d ev \<Longrightarrow> staging_evidence db' d ev"
proof (induction rule: micro.induct)
  case (m_draft st db k)
  then show ?case by (simp add: staging_evidence_def bex_tbl_update)
next
  case (m_insert e r db db')
  then show ?case by (cases r) (auto simp: staging_evidence_def split: if_splits)
qed (simp_all add: staging_evidence_def)

lemma evidence_micros: "micros db db' \<Longrightarrow> staging_evidence db d ev \<Longrightarrow> staging_evidence db' d ev"
  by (induction rule: rtranclp_induct) (auto intro: evidence_micro)

lemma insert_records_micros:
  "insert_records e rs db = Some db' \<Longrightarrow>
   (\<And>q. ROrder q \<in> set rs \<Longrightarrow> staging_evidence db (eo_order_draft_id q) (eo_environment q)) \<Longrightarrow>
   micros db db'"
proof (induction rs arbitrary: db)
  case (Cons r rs)
  from Cons.prems(1) obtain db1
    where r: "insert_record e r db = Some db1" and rs: "insert_records e rs db1 = Some db'"
    by (auto split: option.splits)
  have m: "micro db db1" using r Cons.prems(2) by (intro m_insert) auto
  have "micros db1 db'"
    using rs Cons.prems(2) by (intro Cons.IH) (auto intro: evidence_micro [OF m])
  with m show ?case by (rule converse_rtranclp_into_rtranclp)
qed simp

lemma write_micros:
  assumes "write_records e i rs db = (r, db')"
    and "\<And>q. ROrder q \<in> set rs \<Longrightarrow> staging_evidence db (eo_order_draft_id q) (eo_environment q)"
  shows "micros db db'"
proof (cases r)
  case (Inl x)
  with assms(1) have "db' = db" by (auto dest: write_records_error)
  then show ?thesis by simp
next
  case (Inr u)
  with assms show ?thesis by (auto dest!: write_records_ok intro: insert_records_micros)
qed

lemmas service_micros = receipt_micros status_micros write_micros

lemma create_order_draft_micros: "create_order_draft e c a db = (r, db') \<Longrightarrow> micros db db'"
  by (auto simp: create_order_draft_def Let_def split: sum.splits prod.splits
      dest!: receipt_micros write_micros intro: micros_trans)

lemma run_pretrade_check_micros:
  "run_pretrade_check e c k fs l db = (r, db') \<Longrightarrow> micros db db'"
  by (auto simp: run_pretrade_check_def Let_def ORDER_DRAFT_STATUSES_def
      split: sum.splits prod.splits if_splits
      dest!: receipt_micros status_micros write_micros intro: micros_trans)

lemma record_approval_micros: "record_approval e c k d v w db = (r, db') \<Longrightarrow> micros db db'"
  by (auto simp: record_approval_def Let_def ORDER_DRAFT_STATUSES_def
      split: sum.splits prod.splits if_splits
      dest!: receipt_micros status_micros write_micros intro: micros_trans)

lemma stage_preconditions_evidence:
  "stage_preconditions e k db = Inr ev \<Longrightarrow> staging_evidence db k ev"
  by (auto simp: stage_preconditions_def staging_evidence_def
      split: option.splits if_splits dest!: tbl_get_SomeD first_row_mem)

lemma environment_of_same [simp]: "execution_environment_of s = Inr t \<Longrightarrow> t = s"
  by (auto simp: execution_environment_of_def split: if_splits)

lemma stage_execution_order_micros:
  assumes "stage_execution_order e c k b v db = (r, db')"
  shows "micros db db'"
proof (cases "\<exists>ev. require_execution_capability c StageExecutionOrder = Inr () \<and>
                   stage_preconditions e k db = Inr ev \<and> execution_environment_of ev = Inr ev")
  case False
  with assms show ?thesis
    by (auto simp: stage_execution_order_def Let_def split: sum.splits dest: environment_of_same)
next
  case True
  then obtain ev where ev: "require_execution_capability c StageExecutionOrder = Inr ()"
      "stage_preconditions e k db = Inr ev" "execution_environment_of ev = Inr ev" by blast
  note E = evidence_micros [OF micros_trans stage_preconditions_evidence [OF ev(2)]]
  from assms ev show ?thesis
    by (auto simp: stage_execution_order_def Let_def ORDER_DRAFT_STATUSES_def
        split: sum.splits prod.splits
        dest!: receipt_micros status_micros intro: micros_trans E
        elim!: micros_trans [OF _ write_micros, rotated])
qed

lemma order_edit_submitted: "order_edit (\<lambda>q. q\<lparr>eo_execution_status := ''submitted'',
    eo_submitted_at_utc := t\<rparr>)"
  by (simp add: order_edit_def)

lemma order_edit_report: "order_edit (report_status fs)"
  by (simp add: order_edit_def report_status_def)

lemma order_micros:
  "micros (db\<lparr>execution_orders := tbl_update eo_execution_order_id k f (execution_orders db)\<rparr>) db'
   \<Longrightarrow> order_edit f \<Longrightarrow> micros db db'"
  by (rule converse_rtranclp_into_rtranclp [of micro]) (auto intro: m_order)

lemmas submitted_micros = order_micros [OF _ order_edit_submitted]
lemmas reported_micros = order_micros [OF _ order_edit_report]

lemma submit_execution_order_micros:
  assumes "submit_execution_order e c k b db = (r, db')"
  shows "micros db db'"
  using assms
  by (auto simp: submit_execution_order_def Let_def
      split: sum.splits prod.splits option.splits if_splits
      dest!: receipt_micros write_micros submitted_micros intro: micros_trans)

lemma record_execution_report_micros:
  assumes "record_execution_report e k t fs fq p br db = (r, db')"
  shows "micros db db'"
  using assms
  by (auto simp: record_execution_report_def Let_def
      split: sum.splits prod.splits option.splits if_splits
      dest!: receipt_micros write_micros
      intro: micros_trans m_order [OF order_edit_report, THEN micro_micros] reported_micros)

lemma record_position_delta_micros:
  "record_position_delta e k a s d p db = (r, db') \<Longrightarrow> micros db db'"
  by (auto simp: record_position_delta_def Let_def split: sum.splits prod.splits
      dest!: receipt_micros write_micros intro: micros_trans)

lemma record_reconciliation_micros:
  "record_reconciliation e k x y z db = (r, db') \<Longrightarrow> micros db db'"
  by (auto simp: record_reconciliation_def Let_def split: sum.splits prod.splits
      dest!: receipt_micros write_micros intro: micros_trans)

lemma submit_order_micros:
  "submit_order e c reg k db = (r, db') \<Longrightarrow> micros db db'"
  by (auto simp: submit_order_def Let_def split: sum.splits prod.splits option.splits
      dest!: submit_execution_order_micros record_execution_report_micros intro: micros_trans)

section \<open>Calls as steps\<close>

inductive exec_step :: "exec_db \<Rightarrow> exec_db \<Rightarrow> bool" where
  st_create: "create_order_draft e c a db = (r1, db') \<Longrightarrow> exec_step db db'"
| st_check: "run_pretrade_check e c k fs l db = (r2, db') \<Longrightarrow> exec_step db db'"
| st_approve: "record_approval e c k d v w db = (r3, db') \<Longrightarrow> exec_step db db'"
| st_stage: "stage_execution_order e c k b ev db = (r4, db') \<Longrightarrow> exec_step db db'"
| st_submit: "submit_execution_order e c k b db = (r5, db') \<Longrightarrow> exec_step db db'"
| st_command: "submit_order e c reg k db = (r6, db') \<Longrightarrow> exec_step db db'"
| st_report: "record_execution_report e k t fl q p br db = (r7, db') \<Longrightarrow> exec_step db db'"
| st_delta: "record_position_delta e k a s dq pq db = (r8, db') \<Longrightarrow> exec_step db db'"
| st_recon: "record_reconciliation e k x y z db = (r9, db') \<Longrightarrow> exec_step db db'"

lemma exec_step_micros: "exec_step db db' \<Longrightarrow> micros db db'"
  by (erule exec_step.cases)
     (simp_all add: create_order_draft_micros run_pretrade_check_micros record_approval_micros
       stage_execution_order_micros submit_execution_order_micros submit_order_micros
       record_execution_report_micros record_position_delta_micros record_reconciliation_micros)

lemma exec_steps_micros: "exec_step\<^sup>*\<^sup>* db db' \<Longrightarrow> micros db db'"
  by (induction rule: rtranclp_induct) (auto dest: exec_step_micros intro: micros_trans)

definition exec_start :: "exec_db \<Rightarrow> bool" where
  "exec_start db \<longleftrightarrow>
     order_drafts db = [] \<and> pretrade_checks db = [] \<and> approval_records db = [] \<and>
     execution_orders db = [] \<and> execution_reports db = [] \<and> position_deltas db = [] \<and>
     reconciliation_reports db = [] \<and> receipt_index db = []"

section \<open>The invariant\<close>

definition exec_keys :: "exec_db \<Rightarrow> bool" where
  "exec_keys db \<longleftrightarrow>
     keyed od_order_draft_id (order_drafts db) \<and>
     keyed ptc_pretrade_check_id (pretrade_checks db) \<and>
     keyed ap_approval_id (approval_records db) \<and>
     keyed eo_execution_order_id (execution_orders db) \<and>
     keyed er_execution_report_id (execution_reports db) \<and>
     keyed ri_receipt_id (receipt_index db)"

definition exec_refs :: "exec_db \<Rightarrow> bool" where
  "exec_refs db \<longleftrightarrow>
     (\<forall>d\<in>set (order_drafts db). od_draft_status d \<in> set ORDER_DRAFT_STATUSES \<and>
        od_environment d \<in> set EXECUTION_ENVIRONMENTS) \<and>
     (\<forall>q\<in>set (execution_orders db).
        staging_evidence db (eo_order_draft_id q) (eo_environment q) \<and>
        eo_execution_status q \<in> set EXECUTION_ORDER_STATUSES) \<and>
     (\<forall>r\<in>set (execution_reports db).
        tbl_has eo_execution_order_id (execution_orders db) (er_execution_order_id r))"

definition exec_inv :: "exec_db \<Rightarrow> bool" where
  "exec_inv db \<longleftrightarrow> exec_keys db \<and> exec_refs db"

lemma order_editD:
  assumes "order_edit f"
  shows "eo_execution_order_id (f q) = eo_execution_order_id q"
    and "eo_order_draft_id (f q) = eo_order_draft_id q"
    and "eo_environment (f q) = eo_environment q"
    and "eo_execution_status q \<in> set EXECUTION_ORDER_STATUSES \<Longrightarrow>
         eo_execution_status (f q) \<in> set EXECUTION_ORDER_STATUSES"
    and "eo_execution_status q \<noteq> ''staged'' \<Longrightarrow> eo_execution_status (f q) \<noteq> ''staged''"
proof -
  from assms have f: "eo_execution_order_id (f q) = eo_execution_order_id q \<and>
      eo_order_draft_id (f q) = eo_order_draft_id q \<and> eo_environment (f q) = eo_environment q \<and>
      (eo_execution_status (f q) = eo_execution_status q \<or>
       eo_execution_status (f q) \<in> {''submitted'', ''partial_fill'', ''filled''})"
    by (simp add: order_edit_def)
  then show "eo_execution_order_id (f q) = eo_execution_order_id q"
    and "eo_order_draft_id (f q) = eo_order_draft_id q"
    and "eo_environment (f q) = eo_environment q" by simp_all
  show "eo_execution_status (f q) \<in> set EXECUTION_ORDER_STATUSES"
    if "eo_execution_status q \<in> set EXECUTION_ORDER_STATUSES"
    using f that by (auto simp: EXECUTION_ORDER_STATUSES_def)
  show "eo_execution_status (f q) \<noteq> ''staged''" if "eo_execution_status q \<noteq> ''staged''"
    using f that by auto
qed

lemma exec_keys_micro: "micro db db' \<Longrightarrow> exec_keys db \<Longrightarrow> exec_keys db'"
proof (induction rule: micro.induct)
  case (m_draft st db k)
  then show ?case by (simp add: exec_keys_def keyed_update)
next
  case (m_order f db k)
  then show ?case by (simp add: exec_keys_def keyed_update order_editD(1))
next
  case (m_insert e r db db')
  then show ?case
    by (cases r) (auto simp: exec_keys_def keyed_snoc keyed_update split: if_splits)
qed (simp add: exec_keys_def)

lemma exec_refs_micro:
  assumes "micro db db'" and "exec_refs db"
  shows "exec_refs db'"
proof -
  note E = evidence_micro [OF assms(1)]
  from assms show ?thesis
  proof (cases rule: micro.cases)
    case (m_file f)
    with assms(2) E show ?thesis by (auto simp: exec_refs_def)
  next
    case (m_draft st k)
    with assms(2) E show ?thesis by (auto simp: exec_refs_def ball_tbl_update)
  next
    case (m_order f k)
    with assms(2) E show ?thesis
      by (auto simp: exec_refs_def ball_tbl_update tbl_has_update order_editD)
  next
    case (m_insert e r)
    then show ?thesis
    proof (cases r)
      case (ROrder q)
      with m_insert assms(2) E show ?thesis
        by (auto simp: exec_refs_def execution_order_ck_def tbl_has_iff split: if_splits)
    next
      case (RDetachedOrder q)
      with m_insert assms(2) E show ?thesis
        by (auto simp: exec_refs_def tbl_has_update split: if_splits
            dest!: set_tbl_update_subset)
    next
      case (RDraft d)
      with m_insert assms(2) E show ?thesis
        by (auto simp: exec_refs_def order_draft_ck_def split: if_splits)
    qed (use m_insert assms(2) E in \<open>auto simp: exec_refs_def split: if_splits\<close>)
  qed
qed

lemma exec_inv_micro: "micro db db' \<Longrightarrow> exec_inv db \<Longrightarrow> exec_inv db'"
  by (simp add: exec_inv_def exec_keys_micro exec_refs_micro)

lemma exec_inv_micros: "micros db db' \<Longrightarrow> exec_inv db \<Longrightarrow> exec_inv db'"
  by (induction rule: rtranclp_induct) (auto intro: exec_inv_micro)

interpretation kernel: guarded_system exec_start exec_step exec_inv
proof unfold_locales
  show "exec_start db \<Longrightarrow> exec_inv db" for db
    by (simp add: exec_start_def exec_inv_def exec_keys_def exec_refs_def keyed_def)
  show "exec_inv db \<Longrightarrow> exec_step db db' \<Longrightarrow> exec_inv db'" for db db'
    using exec_inv_micros exec_step_micros by blast
qed

section \<open>Order histories\<close>

lemma order_history_micro:
  assumes "micro db db'"
    and "tbl_get eo_execution_order_id (execution_orders db) k = Some q"
  shows "\<exists>q'. tbl_get eo_execution_order_id (execution_orders db') k = Some q' \<and>
           eo_order_draft_id q' = eo_order_draft_id q \<and> eo_environment q' = eo_environment q \<and>
           (eo_execution_status q \<noteq> ''staged'' \<longrightarrow> eo_execution_status q' \<noteq> ''staged'')"
  using assms
proof (induction rule: micro.induct)
  case (m_order f db j)
  then show ?case by (auto simp: tbl_get_update order_editD)
next
  case (m_insert e r db db')
  have has: "tbl_has eo_execution_order_id (execution_orders db) k"
    using m_insert.prems by (metis tbl_get_None_iff option.distinct(1))
  from m_insert show ?case
  proof (cases r)
    case (ROrder p)
    with m_insert has show ?thesis by (auto simp: tbl_get_snoc split: if_splits)
  next
    case (RDetachedOrder p)
    with m_insert show ?thesis by (auto simp: tbl_get_update split: if_splits)
  qed (auto split: if_splits)
qed auto

lemma order_history_micros:
  assumes "micros db db'"
    and "tbl_get eo_execution_order_id (execution_orders db) k = Some q"
  shows "\<exists>q'. tbl_get eo_execution_order_id (execution_orders db') k = Some q' \<and>
           eo_order_draft_id q' = eo_order_draft_id q \<and> eo_environment q' = eo_environment q \<and>
           (eo_execution_status q \<noteq> ''staged'' \<longrightarrow> eo_execution_status q' \<noteq> ''staged'')"
  using assms
proof (induction rule: rtranclp_induct)
  case base
  then show ?case by auto
next
  case (step y z)
  then obtain p where p: "tbl_get eo_execution_order_id (execution_orders y) k = Some p"
      "eo_order_draft_id p = eo_order_draft_id q" "eo_environment p = eo_environment q"
      "eo_execution_status q \<noteq> ''staged'' \<longrightarrow> eo_execution_status p \<noteq> ''staged''" by blast
  from order_history_micro [OF step.hyps(2) p(1)] p show ?case by fastforce
qed

end
