(* ===== verification/Execution_Approvals.thy ===== *)
theory Execution_Approvals
  imports Execution_Invariants
begin

text \<open>
  Histories of the execution kernel that remember the decisions on drafts: which calls of
  \<^verbatim>\<open>record_approval\<close> were made and how they ended.  Only such a call makes a draft approved, and only
  a draft that is approved when it is staged gets an order.
\<close>

section \<open>Approved drafts and their orders\<close>

definition approved_drafts :: "exec_db \<Rightarrow> string set" where
  "approved_drafts db = od_order_draft_id ` {d \<in> set (order_drafts db). od_draft_status d = ''approved''}"

definition ordered_drafts :: "exec_db \<Rightarrow> string set" where
  "ordered_drafts db = eo_order_draft_id ` set (execution_orders db)"

text \<open>A change that approves at most the drafts \<open>A\<close>, gives orders at most to the drafts \<open>D\<close> and keeps the records.\<close>

definition moved :: "string set \<Rightarrow> string set \<Rightarrow> exec_db \<Rightarrow> exec_db \<Rightarrow> bool" where
  "moved A D db db' \<longleftrightarrow>
     approved_drafts db' \<subseteq> approved_drafts db \<union> A \<and> ordered_drafts db' \<subseteq> ordered_drafts db \<union> D \<and>
     set (approval_records db) \<subseteq> set (approval_records db')"

lemma moved_refl [simp]: "moved A D db db"
  by (simp add: moved_def)

lemma moved_trans: "moved A D db1 db2 \<Longrightarrow> moved A D db2 db3 \<Longrightarrow> moved A D db1 db3"
  by (auto simp: moved_def)

definition plain_insert :: "string set \<Rightarrow> exec_record \<Rightarrow> bool" where
  "plain_insert D r \<longleftrightarrow>
     (case r of RDraft d \<Rightarrow> od_draft_status d \<noteq> ''approved'' | ROrder q \<Rightarrow> eo_order_draft_id q \<in> D | _ \<Rightarrow> True)"

lemma insert_moved: "insert_record e r db = Some db' \<Longrightarrow> plain_insert D r \<Longrightarrow> moved A D db db'"
  by (cases r) (auto simp: moved_def plain_insert_def approved_drafts_def ordered_drafts_def
      split: if_splits dest!: set_tbl_update_subset)

lemma inserts_moved: "insert_records e rs db = Some db' \<Longrightarrow> list_all (plain_insert D) rs \<Longrightarrow> moved A D db db'"
proof (induction rs arbitrary: db)
  case (Cons r rs)
  then obtain db1 where "insert_record e r db = Some db1" "insert_records e rs db1 = Some db'"
    by (auto split: option.splits)
  with Cons show ?case by (auto intro: moved_trans insert_moved)
qed simp

lemma write_moved:
  assumes "write_records e i rs db = (r, db')" and "list_all (plain_insert D) rs"
  shows "moved A D db db'"
proof (cases r)
  case (Inl x)
  with assms(1) show ?thesis by (auto dest: write_records_error)
next
  case (Inr u)
  with assms show ?thesis by (auto dest!: write_records_ok intro: inserts_moved)
qed

lemma receipt_moved: "write_execution_receipt e i k a p db = (r, db') \<Longrightarrow> moved A D db db'"
  using receipt_frame [of e i k a p db r db'] by (auto simp: moved_def approved_drafts_def ordered_drafts_def)

lemma status_moved:
  assumes "set_draft_status e i k st db = (r, db')" and "st = ''approved'' \<Longrightarrow> k \<in> A"
  shows "moved A D db db'"
proof -
  let ?db = "db\<lparr>order_drafts := tbl_update od_order_draft_id k (\<lambda>d. d\<lparr>od_draft_status := st\<rparr>) (order_drafts db)\<rparr>"
  have "approved_drafts ?db \<subseteq> approved_drafts db \<union> A"
    using assms(2) by (fastforce simp: tbl_update_def approved_drafts_def split: if_splits)
  then have "moved A D db ?db" by (simp add: moved_def ordered_drafts_def)
  with assms(1) show ?thesis by (auto simp: set_draft_status_def split: option.splits if_splits)
qed

lemma order_moved:
  assumes "order_edit f"
  shows "moved A D db (db\<lparr>execution_orders := tbl_update eo_execution_order_id k f (execution_orders db)\<rparr>)"
    and "moved A D (db\<lparr>execution_orders := tbl_update eo_execution_order_id k f (execution_orders db)\<rparr>) db' \<Longrightarrow> moved A D db db'"
proof -
  show edit: "moved A D db (db\<lparr>execution_orders := tbl_update eo_execution_order_id k f (execution_orders db)\<rparr>)"
    using order_editD(2) [OF assms]
    by (auto simp: moved_def approved_drafts_def ordered_drafts_def dest!: set_tbl_update_subset)
  show "moved A D (db\<lparr>execution_orders := tbl_update eo_execution_order_id k f (execution_orders db)\<rparr>) db' \<Longrightarrow> moved A D db db'"
    by (rule moved_trans [OF edit])
qed

lemmas submitted_moved = order_moved [OF order_edit_submitted]
lemmas reported_moved = order_moved [OF order_edit_report]

section \<open>The services\<close>

lemma create_moved: "create_order_draft e c a db = (r, db') \<Longrightarrow> moved A D db db'"
  by (auto simp: create_order_draft_def Let_def plain_insert_def split: sum.splits prod.splits
      dest!: receipt_moved [where A = A and D = D] write_moved [where A = A and D = D] intro: moved_trans)

lemma check_moved: "run_pretrade_check e c k fs l db = (r, db') \<Longrightarrow> moved A D db db'"
  by (auto simp: run_pretrade_check_def Let_def plain_insert_def split: sum.splits prod.splits if_splits
      dest!: receipt_moved [where A = A and D = D] write_moved [where A = A and D = D] status_moved [where A = A and D = D]
      intro: moved_trans)

lemma staged_approved: "stage_preconditions e k db = Inr ev \<Longrightarrow> k \<in> approved_drafts db"
  by (auto simp: stage_preconditions_def approved_drafts_def split: option.splits if_splits dest!: tbl_get_SomeD)

lemma stage_moved:
  assumes "stage_execution_order e c k b v db = (r, db')"
  shows "moved A (approved_drafts db) db db'"
proof (cases "stage_preconditions e k db")
  case (Inl x)
  with assms show ?thesis by (auto simp: stage_execution_order_def split: sum.splits)
next
  case (Inr ev)
  note k = staged_approved [OF Inr]
  let ?D = "approved_drafts db"
  from assms Inr k show ?thesis
    by (auto simp: stage_execution_order_def Let_def plain_insert_def split: sum.splits prod.splits
        dest!: receipt_moved [where A = A and D = ?D] write_moved [where A = A and D = ?D] status_moved [where A = A and D = ?D]
        intro: moved_trans)
qed

lemma submit_moved: "submit_execution_order e c k b db = (r, db') \<Longrightarrow> moved A D db db'"
  by (auto simp: submit_execution_order_def Let_def plain_insert_def split: sum.splits prod.splits option.splits if_splits
      dest!: receipt_moved [where A = A and D = D] write_moved [where A = A and D = D]
      submitted_moved(2) intro: moved_trans submitted_moved(1))

lemma report_moved: "record_execution_report e k t fs fq p br db = (r, db') \<Longrightarrow> moved A D db db'"
  by (auto simp: record_execution_report_def Let_def plain_insert_def split: sum.splits prod.splits option.splits if_splits
      dest!: receipt_moved [where A = A and D = D] write_moved [where A = A and D = D]
      reported_moved(2) intro: moved_trans reported_moved(1))

lemma delta_moved: "record_position_delta e k a s d p db = (r, db') \<Longrightarrow> moved A D db db'"
  by (auto simp: record_position_delta_def Let_def plain_insert_def split: sum.splits prod.splits
      dest!: receipt_moved [where A = A and D = D] write_moved [where A = A and D = D] intro: moved_trans)

lemma recon_moved: "record_reconciliation e k x y z db = (r, db') \<Longrightarrow> moved A D db db'"
  by (auto simp: record_reconciliation_def Let_def plain_insert_def split: sum.splits prod.splits
      dest!: receipt_moved [where A = A and D = D] write_moved [where A = A and D = D] intro: moved_trans)

lemma command_moved: "submit_order e c reg k db = (r, db') \<Longrightarrow> moved A D db db'"
  by (auto simp: submit_order_def Let_def split: sum.splits prod.splits option.splits
      dest!: submit_moved [where A = A and D = D] report_moved [where A = A and D = D] intro: moved_trans)

text \<open>
  A decision can approve only its own draft, only when it says so and only when the caller may
  decide; when it returns, its record is stored.
\<close>

lemma denial_origin:
  "write_execution_receipt e i kd ad p db = (Inl x, db') \<Longrightarrow> x \<noteq> CapabilityDenied n"
  "set_draft_status e i k st db = (Inl x, db') \<Longrightarrow> x \<noteq> CapabilityDenied n"
  "write_records e i rs db = (Inl x, db') \<Longrightarrow> x \<noteq> CapabilityDenied n"
  by (auto simp: write_execution_receipt_def set_draft_status_def write_records_def Let_def split: option.splits if_splits)

lemma decision_denied:
  assumes "record_approval e c k d v w db = (Inl (CapabilityDenied n), db')"
  shows "db' = db"
proof (cases "require_execution_capability c RecordApproval")
  case (Inl x)
  with assms show ?thesis by (simp add: record_approval_def)
next
  case (Inr u)
  with assms denial_origin show ?thesis
    by (auto simp: record_approval_def Let_def split: sum.splits prod.splits)
qed

lemma decision_moved: "record_approval e c k d v w db = (r, db') \<Longrightarrow> moved (if d = ''approved'' then {k} else {}) {} db db'"
  by (auto simp: record_approval_def Let_def plain_insert_def split: sum.splits prod.splits
      dest!: receipt_moved [where A = "if d = ''approved'' then {k} else {}" and D = "{}"]
        write_moved [where A = "if d = ''approved'' then {k} else {}" and D = "{}"]
        status_moved [where A = "if d = ''approved'' then {k} else {}" and D = "{}"])
     (blast intro: moved_trans)+

lemma decision_stored:
  assumes "record_approval e c k d v w db = (Inr a, db')"
  shows "a \<in> set (approval_records db') \<and> ap_order_draft_id a = k \<and> ap_decision a = d"
  using assms
  by (auto simp: record_approval_def Let_def split: sum.splits prod.splits dest!: write_records_ok split: if_splits option.splits)

section \<open>Histories with decisions\<close>

inductive desk_step :: "exec_db \<Rightarrow> exec_db \<Rightarrow> bool" where
  ds_create: "create_order_draft e c a db = (r1, db') \<Longrightarrow> desk_step db db'"
| ds_check: "run_pretrade_check e c k fs l db = (r2, db') \<Longrightarrow> desk_step db db'"
| ds_stage: "stage_execution_order e c k b ev db = (r4, db') \<Longrightarrow> desk_step db db'"
| ds_submit: "submit_execution_order e c k b db = (r5, db') \<Longrightarrow> desk_step db db'"
| ds_command: "submit_order e c reg k db = (r6, db') \<Longrightarrow> desk_step db db'"
| ds_report: "record_execution_report e k t fl q p br db = (r7, db') \<Longrightarrow> desk_step db db'"
| ds_delta: "record_position_delta e k a s dq pq db = (r8, db') \<Longrightarrow> desk_step db db'"
| ds_recon: "record_reconciliation e k x y z db = (r9, db') \<Longrightarrow> desk_step db db'"

inductive decision_log :: "(string \<times> string \<times> approval_record res) list \<Rightarrow> exec_db \<Rightarrow> bool" where
  log_start: "exec_start db \<Longrightarrow> decision_log [] db"
| log_decision: "decision_log h db \<Longrightarrow> record_approval e c k d v w db = (r, db') \<Longrightarrow> decision_log ((k, d, r) # h) db'"
| log_call: "decision_log h db \<Longrightarrow> desk_step db db' \<Longrightarrow> decision_log h db'"

lemma desk_step_exec: "desk_step db db' \<Longrightarrow> exec_step db db'"
  by (erule desk_step.cases) (blast intro: exec_step.intros)+

lemma exec_step_cases: "exec_step db db' \<Longrightarrow> desk_step db db' \<or> (\<exists>e c k d v w r. record_approval e c k d v w db = (r, db'))"
  by (erule exec_step.cases) (blast intro: desk_step.intros)+

text \<open>The histories are those of all reachable stores.\<close>

lemma log_reach: "decision_log h db \<Longrightarrow> reach exec_start exec_step db"
  by (induction rule: decision_log.induct) (auto intro: reach_start reach_step st_approve desk_step_exec)

lemma reach_log: "reach exec_start exec_step db \<Longrightarrow> \<exists>h. decision_log h db"
  by (induction rule: reach.induct) (auto dest!: exec_step_cases intro: log_start log_decision log_call)

lemma desk_moved: "desk_step db db' \<Longrightarrow> moved {} (approved_drafts db) db db'"
  by (erule desk_step.cases)
     (auto intro: create_moved check_moved stage_moved submit_moved command_moved report_moved delta_moved recon_moved)

text \<open>
  The history approves a draft: a decision of its log took effect, and unless an approving decision
  broke off half-way an approving record is stored.
\<close>

definition approved_by :: "(string \<times> string \<times> approval_record res) list \<Rightarrow> exec_db \<Rightarrow> string \<Rightarrow> bool" where
  "approved_by h db k \<longleftrightarrow>
     (\<exists>r. (k, ''approved'', r) \<in> set h \<and> (\<forall>n. r \<noteq> Inl (CapabilityDenied n))) \<and>
     ((\<forall>x. (k, ''approved'', Inl x) \<in> set h \<longrightarrow> (\<exists>n. x = CapabilityDenied n)) \<longrightarrow>
      (\<exists>a\<in>set (approval_records db). ap_order_draft_id a = k \<and> ap_decision a = ''approved''))"

lemma approved_by_mono:
  "approved_by h db k \<Longrightarrow> set h \<subseteq> set h' \<Longrightarrow> set (approval_records db) \<subseteq> set (approval_records db') \<Longrightarrow> approved_by h' db' k"
  unfolding approved_by_def by blast

lemma approvals_logged:
  "decision_log h db \<Longrightarrow> k \<in> approved_drafts db \<union> ordered_drafts db \<Longrightarrow> approved_by h db k"
proof (induction arbitrary: k rule: decision_log.induct)
  case (log_start db)
  then show ?case by (simp add: exec_start_def approved_drafts_def ordered_drafts_def)
next
  case (log_call h db db')
  from desk_moved [OF log_call.hyps(2)] log_call.prems have "k \<in> approved_drafts db \<union> ordered_drafts db"
    and "set (approval_records db) \<subseteq> set (approval_records db')" by (auto simp: moved_def)
  with log_call.IH show ?case by (blast intro: approved_by_mono)
next
  case (log_decision h db e c j d v w r db')
  note m = decision_moved [OF log_decision.hyps(2)]
  show ?case
  proof (cases "k \<in> approved_drafts db \<union> ordered_drafts db")
    case True
    from log_decision.IH [OF True] m show ?thesis by (auto simp: moved_def intro: approved_by_mono)
  next
    case False
    with m log_decision.prems have new: "k = j" "d = ''approved''" by (auto simp: moved_def split: if_splits)
    have "r \<noteq> Inl (CapabilityDenied n)" for n
      using decision_denied log_decision.hyps(2) log_decision.prems False by blast
    with new log_decision.hyps(2) show ?thesis by (cases r) (auto simp: approved_by_def dest!: decision_stored)
  qed
qed

end
