(* ===== verification/Execution_Properties.thy ===== *)
theory Execution_Properties
  imports Execution_Approvals
begin

text \<open>
  The properties of the execution kernel: what backs every order, that an order is submitted
  once, that a staged order is filled through a simulated adapter, what staging and the pre-trade
  verdict compute, and what failing calls leave behind.  A concrete store and environment
  (\<open>demo_\<dots>\<close>) serve the witnesses.
\<close>

section \<open>A concrete kernel\<close>

definition demo_env :: "nat \<Rightarrow> exec_env" where
  "demo_env n =
     \<lparr>clock = (\<lambda>i. ''2026-01-01T00:00:00+00:00''),
      stamp = (\<lambda>i. ''20260101T00000'' @ [char_of (48 + n)] @ ''Z''),
      uuid8 = (\<lambda>i. ''0a1b2c3d''),
      fromisoformat = (\<lambda>s. Some (0, Some 0)), isoformat = (\<lambda>t. ''2026-01-01T00:00:00+00:00''),
      resolve_path = (\<lambda>ps. Some (py_join ''/'' ps)), display_path = (\<lambda>p. p),
      write_fails = (\<lambda>p. False), commit_fails = (\<lambda>i. False),
      coerce_money = (\<lambda>v. None), py_repr = (\<lambda>v. []), pick_row = (\<lambda>i n. 0),
      stamp_us = (\<lambda>i. ''20260101T000000000000Z''), sql_positive = (\<lambda>d. 0 < coef d),
      dec_str = (\<lambda>d. ''5''), json_dumps = (\<lambda>v. ''[]'')\<rparr>"

definition demo_db :: exec_db where
  "demo_db =
     \<lparr>broker_connections =
        [\<lparr>bc_broker_connection_id = ''b1'', bc_environment = ''paper'', bc_broker_name = ''sim'',
          bc_adapter_kind = ''simulated'', bc_enabled = True, bc_network_enabled = False,
          bc_credential_ref = None, bc_schema_version = STATE_CORE_SCHEMA_VERSION,
          bc_created_at_utc = ''t''\<rparr>],
      execution_accounts =
        [\<lparr>ea_execution_account_id = ''a1'', ea_broker_connection_id = ''b1'',
          ea_environment = ''paper'', ea_account_label = ''x'', ea_base_currency = ''USD'',
          ea_funded = False, ea_external_account_ref = None,
          ea_schema_version = STATE_CORE_SCHEMA_VERSION, ea_created_at_utc = ''t''\<rparr>],
      order_drafts = [], pretrade_checks = [], approval_records = [], execution_orders = [],
      execution_reports = [], position_deltas = [], reconciliation_reports = [],
      receipt_index = [], receipt_files = Map.empty\<rparr>"

definition demo_args :: draft_args where
  "demo_args =
     \<lparr>da_execution_account_id = ''a1'', da_instrument_ref = ''i'', da_symbol = ''ABC'',
      da_side = ''buy'', da_order_type = ''market'', da_quantity = Dec 5 0, da_rationale = ''r'',
      da_environment = ''paper'', da_time_in_force = ''day'', da_limit_price = None,
      da_stop_price = None, da_proposal_id = None, da_source_kind = [], da_source_ref = []\<rparr>"

abbreviation demo_caps :: execution_capabilities where
  "demo_caps \<equiv> DEFAULT_EXECUTION_CAPABILITIES"

abbreviation demo_draft_id :: string where
  "demo_draft_id \<equiv> ''od_20260101T000001Z_0a1b2c3d''"

abbreviation demo_order_id :: string where
  "demo_order_id \<equiv> ''eo_20260101T000004Z_0a1b2c3d''"

definition demo_db1 :: exec_db where
  "demo_db1 = snd (create_order_draft (demo_env 1) demo_caps demo_args demo_db)"

definition demo_db2 :: exec_db where
  "demo_db2 = snd (run_pretrade_check (demo_env 2) demo_caps demo_draft_id [] ''human'' demo_db1)"

definition demo_db3 :: exec_db where
  "demo_db3 = snd (record_approval (demo_env 3) demo_caps demo_draft_id ''approved'' ''h'' ''ok'' demo_db2)"

definition demo_db4 :: exec_db where
  "demo_db4 = snd (stage_execution_order (demo_env 4) demo_caps demo_draft_id ''b1'' ''paper'' demo_db3)"

lemma demo_drafts1: "map od_order_draft_id (order_drafts demo_db1) = [demo_draft_id]"
  by code_simp

lemma demo_orders4: "map eo_execution_order_id (execution_orders demo_db4) = [demo_order_id]"
  by code_simp

section \<open>What backs an order\<close>

text \<open>
  Claim C1. In every store reachable by any sequence of calls, successful or failing, every
  execution order has a draft in the same environment, a pre-trade check of that draft that does
  not block, and an approval: some call of \<^verbatim>\<open>record_approval\<close> that the caller was allowed to make
  decided \<open>approved\<close> on that draft.  (This holds of the store that staging produced, so the
  decision came before it.)  Unless such a call broke off after marking the draft, the approving record itself is stored; a record of some decision is stored in any case.
\<close>

theorem order_backed:
  assumes "decision_log h db" and "q \<in> set (execution_orders db)"
  shows "(\<exists>d\<in>set (order_drafts db). od_order_draft_id d = eo_order_draft_id q \<and>
            od_environment d = eo_environment q) \<and>
         (\<exists>c\<in>set (pretrade_checks db). ptc_order_draft_id c = eo_order_draft_id q \<and>
            ptc_check_status c \<noteq> ''block'') \<and>
         (\<exists>a\<in>set (approval_records db). ap_order_draft_id a = eo_order_draft_id q) \<and>
         (\<exists>r. (eo_order_draft_id q, ''approved'', r) \<in> set h \<and> (\<forall>n. r \<noteq> Inl (CapabilityDenied n))) \<and>
         ((\<forall>x. (eo_order_draft_id q, ''approved'', Inl x) \<in> set h \<longrightarrow> (\<exists>n. x = CapabilityDenied n)) \<longrightarrow>
          (\<exists>a\<in>set (approval_records db). ap_order_draft_id a = eo_order_draft_id q \<and> ap_decision a = ''approved''))"
proof -
  have inv: "exec_inv db" using log_reach [OF assms(1)] by (rule kernel.reach_inv)
  have "eo_order_draft_id q \<in> ordered_drafts db" using assms(2) by (simp add: ordered_drafts_def)
  then have "approved_by h db (eo_order_draft_id q)" using approvals_logged [OF assms(1)] by blast
  with inv assms(2) show ?thesis by (auto simp: exec_inv_def exec_refs_def staging_evidence_def approved_by_def)
qed

definition demo_order :: execution_order where
  "demo_order = hd (execution_orders demo_db4)"

lemma demo_order_mem: "demo_order \<in> set (execution_orders demo_db4)"
proof -
  have "execution_orders demo_db4 \<noteq> []" using demo_orders4 by auto
  then show ?thesis by (simp add: demo_order_def)
qed

definition demo_decision :: "approval_record res" where
  "demo_decision = fst (record_approval (demo_env 3) demo_caps demo_draft_id ''approved'' ''h'' ''ok'' demo_db2)"

lemma demo_decided: "\<not> isl demo_decision"
  by code_simp

lemma demo_log: "decision_log [(demo_draft_id, ''approved'', demo_decision)] demo_db4"
proof -
  have "decision_log [] demo_db" by (rule log_start) (simp add: exec_start_def demo_db_def)
  then have "decision_log [] demo_db1"
    unfolding demo_db1_def by (rule log_call) (rule ds_create [OF prod.collapse [symmetric]])
  then have "decision_log [] demo_db2"
    unfolding demo_db2_def by (rule log_call) (rule ds_check [OF prod.collapse [symmetric]])
  then have "decision_log [(demo_draft_id, ''approved'', demo_decision)] demo_db3"
    unfolding demo_db3_def demo_decision_def by (rule log_decision) (rule prod.collapse [symmetric])
  then show ?thesis
    unfolding demo_db4_def by (rule log_call) (rule ds_stage [OF prod.collapse [symmetric]])
qed

theorem order_backed_witness:
  "\<exists>a\<in>set (approval_records demo_db4). ap_order_draft_id a = eo_order_draft_id demo_order \<and> ap_decision a = ''approved''"
proof -
  have "Inl x \<noteq> demo_decision" for x using demo_decided by (metis sum.disc(1))
  then have "\<forall>x. (eo_order_draft_id demo_order, ''approved'', Inl x) \<in> set [(demo_draft_id, ''approved'', demo_decision)] \<longrightarrow>
      (\<exists>n. x = CapabilityDenied n)"
    by simp
  with order_backed [OF demo_log demo_order_mem] show ?thesis by blast
qed

text \<open>
  The condition is needed.  A draft is rejected on record; an approving call then marks it approved
  and fails before its record is stored; staging finds an approved draft and a record, the rejecting
  one, and gives it an order.
\<close>

definition demo_rejected :: exec_db where
  "demo_rejected = snd (record_approval (demo_env 3) demo_caps demo_draft_id ''rejected'' ''h'' ''no'' demo_db2)"

definition demo_half_approved :: exec_db where
  "demo_half_approved =
     snd (record_approval (demo_env 4\<lparr>commit_fails := \<lambda>i. i = 1\<rparr>) demo_caps demo_draft_id ''approved'' ''h'' ''ok'' demo_rejected)"

definition demo_half_staged :: exec_db where
  "demo_half_staged = snd (stage_execution_order (demo_env 5) demo_caps demo_draft_id ''b1'' ''paper'' demo_half_approved)"

lemma rejected_record_staged:
  "map ap_decision (approval_records demo_half_staged) = [''rejected''] \<and>
   map eo_order_draft_id (execution_orders demo_half_staged) = [demo_draft_id]"
  by code_simp

section \<open>Submission\<close>

lemma submit_ok_status:
  assumes "submit_execution_order e c k b db = (Inr q, db1)"
  shows "\<exists>p. tbl_get eo_execution_order_id (execution_orders db1) k = Some p \<and>
             eo_execution_status p \<noteq> ''staged''"
proof -
  let ?mark = "\<lambda>q. q\<lparr>eo_execution_status := ''submitted'',
                       eo_submitted_at_utc := Some (clock e 0)\<rparr>"
  from assms obtain oc where oc: "tbl_get eo_execution_order_id (execution_orders db) k = Some oc"
    by (auto simp: submit_execution_order_def split: sum.splits option.splits)
  obtain a dba where a: "write_execution_receipt e 1 ''execution.order.submit_attempted'' k
      [(''broker_connection_id'', PStr b), (''attempted_at_utc'', PStr (clock e 0))] db = (a, dba)"
    by fastforce
  let ?dbs = "dba\<lparr>execution_orders := tbl_update eo_execution_order_id k ?mark (execution_orders dba)\<rparr>"
  obtain b' dbb where b': "write_execution_receipt e 2 ''execution.order.submitted'' k
      [(''broker_connection_id'', PStr b), (''submitted_at_utc'', PStr (clock e 0))] ?dbs = (b', dbb)"
    by fastforce
  from assms a b' oc have "\<exists>rs. write_records e 1 rs dbb = (Inr (), db1) \<and>
      list_all (\<lambda>r. case r of ROrder _ \<Rightarrow> False | _ \<Rightarrow> True) rs"
    by (cases a; cases b')
       (simp_all add: submit_execution_order_def Let_def
          split: sum.split_asm prod.split_asm if_split_asm,
        (rule exI, erule conjI, simp)+)
  then obtain rs where w: "write_records e 1 rs dbb = (Inr (), db1)"
    and rs: "list_all (\<lambda>r. case r of ROrder _ \<Rightarrow> False | _ \<Rightarrow> True) rs" by blast
  have "tbl_get eo_execution_order_id (execution_orders dba) k = Some oc"
    using oc receipt_frame(1) [OF a] by simp
  moreover have "micros dbb db1" using w by (rule write_micros) (use rs in \<open>auto simp: list_all_iff\<close>)
  ultimately show ?thesis
    using order_history_micros [OF micros_trans [OF receipt_micros [OF b']], of db1 k]
    by (fastforce simp: tbl_get_update)
qed

text \<open>
  Claim C2. Once an order was submitted, no later call of any kind makes it submittable again:
  a second submission of the same order is refused and leaves the store as it is.
\<close>

theorem submitted_once:
  assumes "submit_execution_order e c k b db = (Inr q, db1)" and "exec_step\<^sup>*\<^sup>* db1 db2"
  shows "\<exists>x. submit_execution_order e' c' k b' db2 = (Inl x, db2)"
proof -
  obtain p where p: "tbl_get eo_execution_order_id (execution_orders db1) k = Some p"
      "eo_execution_status p \<noteq> ''staged''" using submit_ok_status [OF assms(1)] by blast
  from order_history_micros [OF exec_steps_micros [OF assms(2)] p(1)] p(2)
  obtain p' where "tbl_get eo_execution_order_id (execution_orders db2) k = Some p'"
      "eo_execution_status p' \<noteq> ''staged''" by blast
  then show ?thesis by (auto simp: submit_execution_order_def split: sum.splits)
qed


definition demo_db5 :: exec_db where
  "demo_db5 = snd (submit_execution_order (demo_env 5) demo_caps demo_order_id ''b1'' demo_db4)"

lemma demo_submit_ok:
  "\<exists>q. submit_execution_order (demo_env 5) demo_caps demo_order_id ''b1'' demo_db4 = (Inr q, demo_db5)"
proof -
  have "\<not> isl (fst (submit_execution_order (demo_env 5) demo_caps demo_order_id ''b1'' demo_db4))"
    by code_simp
  then show ?thesis unfolding demo_db5_def by (metis prod.collapse sum.collapse(2))
qed

theorem submitted_once_witness:
  "\<exists>x. submit_execution_order (demo_env 6) demo_caps demo_order_id ''b1'' demo_db5
       = (Inl x, demo_db5)"
proof -
  obtain q where "submit_execution_order (demo_env 5) demo_caps demo_order_id ''b1'' demo_db4
      = (Inr q, demo_db5)" using demo_submit_ok by blast
  then show ?thesis by (rule submitted_once) simp
qed

section \<open>Staging\<close>

lemma write_order_index:
  assumes "write_records e i [ROrder q, RIndex x] db = (Inr u, db')"
  shows "db' = db\<lparr>execution_orders := execution_orders db @ [q], receipt_index := receipt_index db @ [x]\<rparr>"
    and "\<not> tbl_has eo_execution_order_id (execution_orders db) (eo_execution_order_id q)"
  using write_records_ok [OF assms] by (auto split: if_splits option.splits)

lemma set_draft_status_ok:
  assumes "set_draft_status e i k st db = (Inr u, db')"
    and "tbl_get od_order_draft_id (order_drafts db) k = Some d"
  shows "tbl_get od_order_draft_id (order_drafts db') k = Some (d\<lparr>od_draft_status := st\<rparr>)"
    and "execution_orders db' = execution_orders db"
  using assms by (auto simp: set_draft_status_def tbl_get_update split: if_splits)

lemma stage_preconditions_draft:
  "stage_preconditions e k db = Inr ev \<Longrightarrow>
   \<exists>d. tbl_get od_order_draft_id (order_drafts db) k = Some d \<and> od_draft_status d = ''approved'' \<and>
       od_environment d = ev"
  by (auto simp: stage_preconditions_def split: option.splits if_splits)

text \<open>
  A successful staging went through an approved draft with a non-blocking check and an
  approval record; the new order is stored with status \<open>staged\<close>, in the environment of the
  draft whatever environment the caller names, and the draft is marked \<open>staged\<close>.
\<close>

theorem staging_result:
  assumes "stage_execution_order e c k b caller_env db = (Inr q, db')"
  shows "\<exists>d. tbl_get od_order_draft_id (order_drafts db) k = Some d \<and>
           od_draft_status d = ''approved'' \<and> staging_evidence db k (od_environment d) \<and>
           eo_environment q = od_environment d \<and> eo_execution_status q = ''staged'' \<and>
           eo_order_draft_id q = k \<and> eo_broker_connection_id q = b \<and>
           execution_orders db' = execution_orders db @ [q] \<and>
           tbl_get od_order_draft_id (order_drafts db') k = Some (d\<lparr>od_draft_status := ''staged''\<rparr>)"
proof -
  from assms obtain ev where pre: "stage_preconditions e k db = Inr ev"
    and ev: "execution_environment_of ev = Inr ev"
    unfolding stage_execution_order_def by (elim guard_okE) (metis environment_of_same)
  obtain d where d: "tbl_get od_order_draft_id (order_drafts db) k = Some d"
      "od_draft_status d = ''approved''" "od_environment d = ev"
    using stage_preconditions_draft [OF pre] by blast
  obtain a dba where a: "write_execution_receipt e 1 ''execution.order.staged'' (new_id e 0 ''eo'')
      [(''order_draft_id'', PStr k), (''broker_connection_id'', PStr b),
       (''environment'', PStr caller_env)] db = (a, dba)" by fastforce
  obtain s dbb where s: "set_draft_status e 0 k ''staged'' dba = (s, dbb)" by fastforce
  from assms a s pre ev obtain x where q: "eo_environment q = ev" "eo_execution_status q = ''staged''"
      "eo_order_draft_id q = k" "eo_broker_connection_id q = b"
    and s': "s = Inr ()" and w: "write_records e 1 [ROrder q, RIndex x] dbb = (Inr (), db')"
    by (cases a; cases s)
       (simp_all add: stage_execution_order_def Let_def
          split: sum.split_asm prod.split_asm, auto)
  have dba: "tbl_get od_order_draft_id (order_drafts dba) k = Some d"
    using d receipt_frame(2) [OF a] by simp
  note st = set_draft_status_ok [OF s [unfolded s'] dba]
  show ?thesis
    using d q st write_order_index(1) [OF w] receipt_frame(1) [OF a]
      stage_preconditions_evidence [OF pre] by simp
qed

theorem staging_result_witness:
  "\<exists>q. eo_environment q = ''paper'' \<and>
     fst (stage_execution_order (demo_env 4) demo_caps demo_draft_id ''b1'' ''live'' demo_db3) = Inr q"
proof -
  let ?call = "stage_execution_order (demo_env 4) demo_caps demo_draft_id ''b1'' ''live'' demo_db3"
  have "\<not> isl (fst ?call)" by code_simp
  then obtain q where q: "?call = (Inr q, snd ?call)" by (metis prod.collapse sum.collapse(2))
  have "map od_environment (order_drafts demo_db3) = [''paper'']" by code_simp
  moreover from staging_result [OF q] obtain d where
    "tbl_get od_order_draft_id (order_drafts demo_db3) demo_draft_id = Some d"
    "eo_environment q = od_environment d" by blast
  ultimately have "eo_environment q = ''paper''" by (auto dest!: tbl_get_SomeD)
  with q show ?thesis by (metis fst_conv)
qed

section \<open>The pre-trade verdict\<close>

lemma check_status_of_eq:
  "check_status_of fs st =
     (if \<exists>f\<in>set fs. dict_get f ''severity'' = PStr ''block'' then ''block''
      else if \<exists>f\<in>set fs. dict_get f ''severity'' = PStr ''warn'' then ''warn'' else st)"
  by (induction fs st rule: check_status_of.induct) auto

text \<open>
  A pre-trade check that is recorded carries the verdict of its findings: \<open>block\<close>
  exactly when some finding blocks, else \<open>warn\<close> exactly when some finding warns, else \<open>pass\<close>;
  and the draft leaves the call as \<open>pretrade_check_passed\<close> exactly on \<open>pass\<close>.
\<close>

theorem pretrade_verdict:
  assumes "run_pretrade_check e c k fs l db = (Inr r, db')"
  shows "ptc_check_status r =
           (if \<exists>f\<in>set fs. dict_get f ''severity'' = PStr ''block'' then ''block''
            else if \<exists>f\<in>set fs. dict_get f ''severity'' = PStr ''warn'' then ''warn'' else ''pass'') \<and>
         r \<in> set (pretrade_checks db') \<and>
         (\<exists>d. tbl_get od_order_draft_id (order_drafts db') k = Some d \<and>
              (od_draft_status d = ''pretrade_check_passed'' \<longleftrightarrow> ptc_check_status r = ''pass''))"
proof -
  let ?st = "check_status_of fs ''pass''"
  let ?ds = "if ?st = ''pass'' then ''pretrade_check_passed'' else ''pretrade_check_blocked''"
  obtain a dba where a: "write_execution_receipt e 1 ''execution.pretrade_check.recorded''
      (new_id e 0 ''ptc'') [(''order_draft_id'', PStr k), (''status'', PStr ?st)] db = (a, dba)"
    by fastforce
  obtain s dbb where s: "set_draft_status e 0 k ?ds dba = (s, dbb)" by fastforce
  from assms a s obtain x where r: "ptc_check_status r = ?st" "ptc_order_draft_id r = k"
    and s': "s = Inr ()" and w: "write_records e 1 [RCheck r, RIndex x] dbb = (Inr (), db')"
    unfolding run_pretrade_check_def
    by (elim guard_okE, cases a; cases s)
       (simp_all add: Let_def split: sum.split_asm prod.split_asm, auto)
  have w': "db' = dbb\<lparr>pretrade_checks := pretrade_checks dbb @ [r],
        receipt_index := receipt_index dbb @ [x]\<rparr>" "tbl_has od_order_draft_id (order_drafts dbb) k"
    using write_records_ok [OF w] r(2) by (auto split: if_splits option.splits)
  have "tbl_has od_order_draft_id (order_drafts dba) k"
    using w'(2) s by (auto simp: set_draft_status_def tbl_has_update split: option.splits if_splits)
  then obtain d where d: "tbl_get od_order_draft_id (order_drafts dba) k = Some d"
    by (metis tbl_get_None_iff option.exhaust)
  show ?thesis
    using r w' set_draft_status_ok(1) [OF s [unfolded s'] d] by (simp add: check_status_of_eq)
qed

theorem pretrade_verdict_witness:
  "\<exists>r. fst (run_pretrade_check (demo_env 2) demo_caps demo_draft_id
         [[(''severity'', PStr ''warn'')], [(''severity'', PStr ''info'')]] ''human'' demo_db1) = Inr r
     \<and> ptc_check_status r = ''warn''"
proof -
  let ?call = "run_pretrade_check (demo_env 2) demo_caps demo_draft_id
         [[(''severity'', PStr ''warn'')], [(''severity'', PStr ''info'')]] ''human'' demo_db1"
  have "\<not> isl (fst ?call)" by code_simp
  then obtain r where r: "?call = (Inr r, snd ?call)" by (metis prod.collapse sum.collapse(2))
  from pretrade_verdict [OF r] have "ptc_check_status r = ''warn''" by (simp add: dict_get_def)
  with r show ?thesis by (metis fst_conv)
qed

section \<open>Filling through a simulated adapter\<close>

definition quiet_env :: "exec_env \<Rightarrow> bool" where
  "quiet_env e \<longleftrightarrow> (\<forall>p. resolve_path e p \<noteq> None) \<and> (\<forall>t. \<not> write_fails e t) \<and> (\<forall>i. \<not> commit_fails e i)"

lemma quiet_receipt:
  assumes "quiet_env e"
  shows "\<exists>t f. write_execution_receipt e i kind a p db
           = (Inr (execution_receipt_id e i kind a, t), db\<lparr>receipt_files := f\<rparr>)"
proof -
  from assms obtain t where "resolve_path e [''receipts'', execution_receipt_id e i kind a @ ''.json''] = Some t"
    unfolding quiet_env_def by blast
  with assms show ?thesis by (auto simp: write_execution_receipt_def Let_def quiet_env_def)
qed

lemma quiet_shift: "quiet_env (shift_env n e) \<longleftrightarrow> quiet_env e" if "quiet_env e"
  using that by (simp add: quiet_env_def shift_env_def)

lemma receipt_ids_differ:
  "execution_receipt_id e i ''execution.order.submit_attempted'' a \<noteq>
   execution_receipt_id e j ''execution.order.submitted'' b"
  "execution_receipt_id e i ''execution.order.submit_attempted'' a \<noteq>
   execution_receipt_id f j ''execution.report.recorded'' b"
  "execution_receipt_id e i ''execution.order.submitted'' a \<noteq>
   execution_receipt_id f j ''execution.report.recorded'' b"
  by (simp_all add: execution_receipt_id_def Let_def kind_tail_def)

lemma submit_service_quiet:
  assumes "quiet_env e" and "capability_flag c SubmitSimulatedOrder"
    and q: "tbl_get eo_execution_order_id (execution_orders db) k = Some q"
    and "eo_execution_status q = ''staged''"
    and "\<not> tbl_has ri_receipt_id (receipt_index db)
           (execution_receipt_id e 1 ''execution.order.submit_attempted'' k)"
    and "\<not> tbl_has ri_receipt_id (receipt_index db)
           (execution_receipt_id e 2 ''execution.order.submitted'' k)"
  shows "\<exists>q' db1 x y. submit_execution_order e c k b db = (Inr q', db1) \<and>
           execution_reports db1 = execution_reports db \<and>
           receipt_index db1 = receipt_index db @ [x, y] \<and>
           ri_receipt_id x = execution_receipt_id e 1 ''execution.order.submit_attempted'' k \<and>
           ri_receipt_id y = execution_receipt_id e 2 ''execution.order.submitted'' k \<and>
           (\<exists>p. tbl_get eo_execution_order_id (execution_orders db1) k = Some p)"
proof -
  let ?kinds = "\<lambda>w. [(''broker_connection_id'', PStr b), (w, PStr (clock e 0))]"
  obtain t f where a: "write_execution_receipt e 1 ''execution.order.submit_attempted'' k
      (?kinds ''attempted_at_utc'') db =
      (Inr (execution_receipt_id e 1 ''execution.order.submit_attempted'' k, t), db\<lparr>receipt_files := f\<rparr>)"
    using quiet_receipt [OF assms(1)] by blast
  let ?dbs = "db\<lparr>receipt_files := f, execution_orders := tbl_update eo_execution_order_id k
      (\<lambda>q. q\<lparr>eo_execution_status := ''submitted'', eo_submitted_at_utc := Some (clock e 0)\<rparr>)
      (execution_orders db)\<rparr>"
  obtain u g where b': "write_execution_receipt e 2 ''execution.order.submitted'' k
      (?kinds ''submitted_at_utc'') ?dbs =
      (Inr (execution_receipt_id e 2 ''execution.order.submitted'' k, u), ?dbs\<lparr>receipt_files := g\<rparr>)"
    using quiet_receipt [OF assms(1)] by blast
  have k: "eo_execution_order_id q = k" using tbl_get_SomeD [OF q] by simp
  have has: "tbl_has eo_execution_order_id (execution_orders db) k"
    using q by (metis tbl_get_None_iff option.distinct(1))
  have "\<not> commit_fails e 0" "\<not> commit_fails e (Suc 0)" using assms(1) by (simp_all add: quiet_env_def)
  then show ?thesis
    using assms(2-6) a b' k has
    by (simp add: submit_execution_order_def require_execution_capability_def Let_def
        write_records_def mk_index_def PRODUCTION_IMPORT_KINDS_def tbl_has_update tbl_get_update
        tbl_has_snoc receipt_ids_differ)
qed

lemma report_service_quiet:
  assumes "quiet_env e"
    and q: "tbl_get eo_execution_order_id (execution_orders db) k = Some q"
    and "t \<in> set EXECUTION_REPORT_TYPES" and "fs \<in> set FILL_STATUSES"
    and "\<not> tbl_has ri_receipt_id (receipt_index db)
           (execution_receipt_id e 1 ''execution.report.recorded'' (new_id e 0 ''er''))"
    and "\<not> tbl_has er_execution_report_id (execution_reports db) (new_id e 0 ''er'')"
  shows "\<exists>r db1. record_execution_report e k t fs fq p br db = (Inr r, db1) \<and>
           er_execution_order_id r = k \<and> er_fill_status r = fs \<and>
           er_filled_quantity r = dec_or_zero fq \<and> er_average_fill_price r = p \<and>
           execution_reports db1 = execution_reports db @ [r] \<and>
           tbl_get eo_execution_order_id (execution_orders db1) k = Some (report_status fs q)"
proof -
  let ?k = "''execution.report.recorded''" and ?i = "new_id e 0 ''er''"
  let ?pl = "[(''execution_order_id'', PStr k), (''report_type'', PStr t), (''fill_status'', PStr fs),
      (''filled_quantity'', PStr (dec_str e (dec_or_zero fq)))]"
  obtain u f where a: "write_execution_receipt e 1 ?k ?i ?pl db =
      (Inr (execution_receipt_id e 1 ?k ?i, u), db\<lparr>receipt_files := f\<rparr>)"
    using quiet_receipt [OF assms(1)] by blast
  have has: "tbl_has eo_execution_order_id (execution_orders db) k"
    using q by (metis tbl_get_None_iff option.distinct(1))
  have key: "\<And>r. eo_execution_order_id (report_status fs r) = eo_execution_order_id r"
    by (simp add: report_status_def)
  have "\<not> commit_fails e 0" "\<not> commit_fails e (Suc 0)" using assms(1) by (simp_all add: quiet_env_def)
  then show ?thesis
    using assms(2-6) a has key
    by (simp add: record_execution_report_def Let_def write_records_def mk_index_def
        PRODUCTION_IMPORT_KINDS_def tbl_has_update tbl_get_update execution_report_ck_def)
qed

text \<open>
  Submitting a staged order through a registered simulated adapter that fills always
  succeeds when nothing faults and the generated identifiers are fresh: the recorded report says
  \<open>filled\<close> for the draft's quantity at the limit price or the adapter's market price, and the
  order ends up \<open>filled\<close>.
\<close>

theorem simulated_fill:
  assumes "quiet_env e" and "capability_flag c SubmitSimulatedOrder"
    and "tbl_get eo_execution_order_id (execution_orders db) k = Some q"
    and "eo_execution_status q = ''staged''"
    and "tbl_get od_order_draft_id (order_drafts db) (eo_order_draft_id q) = Some d"
    and "resolve_broker_adapter (eo_broker_connection_id q) reg = Some (simulated_adapter b)"
    and "sb_simulate_fill b"
    and "\<not> tbl_has ri_receipt_id (receipt_index db)
           (execution_receipt_id e 1 ''execution.order.submit_attempted'' k)"
    and "\<not> tbl_has ri_receipt_id (receipt_index db)
           (execution_receipt_id e 2 ''execution.order.submitted'' k)"
    and "\<not> tbl_has ri_receipt_id (receipt_index db) (execution_receipt_id (shift_env 4 e) 1
           ''execution.report.recorded'' (new_id (shift_env 4 e) 0 ''er''))"
    and "\<not> tbl_has er_execution_report_id (execution_reports db) (new_id (shift_env 4 e) 0 ''er'')"
  shows "\<exists>r db' q'. submit_order e c reg k db = (Inr r, db') \<and> r \<in> set (execution_reports db') \<and>
           er_fill_status r = ''filled'' \<and>
           er_filled_quantity r = dec_or_zero (Some (od_quantity d)) \<and>
           er_average_fill_price r = Some (sim_fill_price b d) \<and>
           tbl_get eo_execution_order_id (execution_orders db') k = Some q' \<and>
           eo_execution_status q' = ''filled''"
proof -
  obtain q1 db1 x y p where s: "submit_execution_order e c k (eo_broker_connection_id q) db = (Inr q1, db1)"
    and r1: "execution_reports db1 = execution_reports db"
    and i1: "receipt_index db1 = receipt_index db @ [x, y]"
    and xy: "ri_receipt_id x = execution_receipt_id e 1 ''execution.order.submit_attempted'' k"
      "ri_receipt_id y = execution_receipt_id e 2 ''execution.order.submitted'' k"
    and p: "tbl_get eo_execution_order_id (execution_orders db1) k = Some p"
    using submit_service_quiet [OF assms(1-4,8,9)] by blast
  obtain rep where rep: "sim_submit_order b (shift_env 3 e) q d = Inr rep"
    using simulated_submit_total by blast
  then have rep': "er_fill_status rep = ''filled''" "er_filled_quantity rep = od_quantity d"
      "er_average_fill_price rep = Some (sim_fill_price b d)"
    using assms(7) by (auto simp: sim_submit_order_def Let_def)
  have fresh: "\<not> tbl_has ri_receipt_id (receipt_index db1) (execution_receipt_id (shift_env 4 e) 1
      ''execution.report.recorded'' (new_id (shift_env 4 e) 0 ''er''))"
    "\<not> tbl_has er_execution_report_id (execution_reports db1) (new_id (shift_env 4 e) 0 ''er'')"
    using assms(10,11) r1 i1 xy by (auto simp: tbl_has_iff receipt_ids_differ)
  have quiet: "quiet_env (shift_env 4 e)" using assms(1) by (simp add: quiet_shift)
  from report_service_quiet [OF quiet p sim.recorded_vocabulary [OF rep] fresh,
      of "Some (er_filled_quantity rep)" "er_average_fill_price rep" "er_broker_event_ref rep"]
  show ?thesis
    using assms(2,3,5,6) s rep rep'
    by (force simp: submit_order_def require_execution_capability_def Let_def
        simulated_adapter_def report_status_def)
qed

definition demo_broker :: simulated_broker_adapter where
  "demo_broker = \<lparr>sb_environment = ''paper'', sb_simulate_fill = True, sb_fill_price_offset = None\<rparr>"

definition demo_registry :: broker_registry where
  "demo_registry = snd (register_broker_adapter ''b1'' (simulated_adapter demo_broker) Map.empty)"

lemma demo_quiet: "quiet_env (demo_env n)"
  by (simp add: quiet_env_def demo_env_def)

lemma demo_order_lookup:
  "tbl_get eo_execution_order_id (execution_orders demo_db4) demo_order_id = Some demo_order"
  using demo_orders4 unfolding demo_order_def tbl_get_def by (cases "execution_orders demo_db4") auto

theorem simulated_fill_witness:
  "\<exists>r db' q'. submit_order (demo_env 5) demo_caps demo_registry demo_order_id demo_db4 = (Inr r, db') \<and>
     er_fill_status r = ''filled'' \<and>
     tbl_get eo_execution_order_id (execution_orders db') demo_order_id = Some q' \<and>
     eo_execution_status q' = ''filled''"
proof -
  have st: "eo_execution_status demo_order = ''staged''" by code_simp
  have "tbl_has od_order_draft_id (order_drafts demo_db4) (eo_order_draft_id demo_order)" by code_simp
  then obtain d where d: "tbl_get od_order_draft_id (order_drafts demo_db4)
      (eo_order_draft_id demo_order) = Some d" by (metis tbl_get_None_iff option.exhaust)
  have bk: "eo_broker_connection_id demo_order = ''b1''" by code_simp
  have reg: "resolve_broker_adapter (eo_broker_connection_id demo_order) demo_registry =
      Some (simulated_adapter demo_broker)"
    unfolding bk by (simp add: resolve_broker_adapter_def demo_registry_def
        register_broker_adapter_def simulated_adapter_def)
  have f: "\<not> tbl_has ri_receipt_id (receipt_index demo_db4)
      (execution_receipt_id (demo_env 5) 1 ''execution.order.submit_attempted'' demo_order_id)"
    "\<not> tbl_has ri_receipt_id (receipt_index demo_db4)
      (execution_receipt_id (demo_env 5) 2 ''execution.order.submitted'' demo_order_id)"
    "\<not> tbl_has ri_receipt_id (receipt_index demo_db4) (execution_receipt_id (shift_env 4 (demo_env 5)) 1
      ''execution.report.recorded'' (new_id (shift_env 4 (demo_env 5)) 0 ''er''))"
    "\<not> tbl_has er_execution_report_id (execution_reports demo_db4)
      (new_id (shift_env 4 (demo_env 5)) 0 ''er'')" by code_simp+
  have c: "capability_flag demo_caps SubmitSimulatedOrder" and s: "sb_simulate_fill demo_broker"
    by (simp_all add: DEFAULT_EXECUTION_CAPABILITIES_def demo_broker_def)
  show ?thesis
    using simulated_fill [OF demo_quiet c demo_order_lookup st d reg s f] by blast
qed

section \<open>Refused and failing calls\<close>

text \<open>
  A call whose capability is switched off raises the denial and leaves tables and
  receipt files exactly as they were; with every capability denied no gated call changes anything.
\<close>

theorem denied_calls_change_nothing:
  "create_order_draft e DENY_ALL_EXECUTION_CAPABILITIES a db =
     (Inl (CapabilityDenied ''create_order_draft''), db) \<and>
   run_pretrade_check e DENY_ALL_EXECUTION_CAPABILITIES k fs l db =
     (Inl (CapabilityDenied ''run_pretrade_check''), db) \<and>
   record_approval e DENY_ALL_EXECUTION_CAPABILITIES k dcs v w db =
     (Inl (CapabilityDenied ''record_approval''), db) \<and>
   stage_execution_order e DENY_ALL_EXECUTION_CAPABILITIES k b ev db =
     (Inl (CapabilityDenied ''stage_execution_order''), db) \<and>
   submit_order e DENY_ALL_EXECUTION_CAPABILITIES reg k db =
     (Inl (CapabilityDenied ''submit_simulated_order''), db)"
  by (simp add: create_order_draft_def run_pretrade_check_def record_approval_def
      stage_execution_order_def submit_order_def require_execution_capability_def
      DENY_ALL_EXECUTION_CAPABILITIES_def)

text \<open>
  A failing staging is not free of effects: when everything is approved but the broker
  connection is unknown, the call raises, no order exists, and the draft is left \<open>staged\<close>, so a
  second attempt with the right connection is refused.
\<close>

theorem stage_unknown_broker_burns_draft:
  assumes "quiet_env e" and "capability_flag c StageExecutionOrder"
    and "stage_preconditions e k db = Inr ev" and "ev \<in> set EXECUTION_ENVIRONMENTS"
    and "\<not> tbl_has bc_broker_connection_id (broker_connections db) b"
  shows "\<exists>x db'. stage_execution_order e c k b v db = (Inl x, db') \<and>
           execution_orders db' = execution_orders db \<and>
           (\<forall>e' c' b' v'. \<exists>y. stage_execution_order e' c' k b' v' db' = (Inl y, db'))"
proof -
  from stage_preconditions_draft [OF assms(3)] obtain d where
    d: "tbl_get od_order_draft_id (order_drafts db) k = Some d" by blast
  let ?o = "new_id e 0 ''eo''"
  let ?p = "[(''order_draft_id'', PStr k), (''broker_connection_id'', PStr b), (''environment'', PStr v)]"
  obtain t f where a: "write_execution_receipt e 1 ''execution.order.staged'' ?o ?p db =
      (Inr (execution_receipt_id e 1 ''execution.order.staged'' ?o, t), db\<lparr>receipt_files := f\<rparr>)"
    using quiet_receipt [OF assms(1)] by blast
  let ?db' = "db\<lparr>receipt_files := f, order_drafts := tbl_update od_order_draft_id k
      (\<lambda>d. d\<lparr>od_draft_status := ''staged''\<rparr>) (order_drafts db)\<rparr>"
  have "\<not> commit_fails e 0" using assms(1) by (simp add: quiet_env_def)
  then have s: "set_draft_status e 0 k ''staged'' (db\<lparr>receipt_files := f\<rparr>) = (Inr (), ?db')"
    using d by (simp add: set_draft_status_def)
  have "\<exists>x. stage_execution_order e c k b v db = (Inl x, ?db')"
    using assms(2-5) a s
    by (simp add: stage_execution_order_def require_execution_capability_def Let_def
        execution_environment_of_def write_records_def mk_index_def PRODUCTION_IMPORT_KINDS_def)
  moreover have "\<exists>y. stage_execution_order e' c' k b' v' ?db' = (Inl y, ?db')" for e' c' b' v'
    using d by (auto simp: stage_execution_order_def stage_preconditions_def tbl_get_update
        split: sum.splits)
  ultimately show ?thesis by fastforce
qed

theorem stage_unknown_broker_burns_draft_witness:
  "\<exists>x db'. stage_execution_order (demo_env 4) demo_caps demo_draft_id ''nope'' ''paper'' demo_db3
     = (Inl x, db') \<and> execution_orders db' = []"
proof -
  have p: "stage_preconditions (demo_env 4) demo_draft_id demo_db3 = Inr ''paper''" by code_simp
  have b: "\<not> tbl_has bc_broker_connection_id (broker_connections demo_db3) ''nope''" by code_simp
  have o: "map eo_execution_order_id (execution_orders demo_db3) = []" by code_simp
  have c: "capability_flag demo_caps StageExecutionOrder"
    by (simp add: DEFAULT_EXECUTION_CAPABILITIES_def)
  have ev: "''paper'' \<in> set EXECUTION_ENVIRONMENTS" by (simp add: EXECUTION_ENVIRONMENTS_def)
  from stage_unknown_broker_burns_draft [OF demo_quiet c p ev b] o show ?thesis by fastforce
qed

section \<open>Drafts and their receipts\<close>

lemma create_okE:
  assumes "create_order_draft e c a db = (Inr d, db')"
  obtains t x where
      "resolve_path e [''receipts'', execution_receipt_id e 1 ''execution.order_draft.created''
         (od_order_draft_id d) @ ''.json''] = Some t"
    and "\<not> write_fails e t"
    and "od_order_draft_id d = new_id e 0 ''od''"
    and "od_receipt_ref d = Some (ri_receipt_id x)" and "ri_refs x = [od_order_draft_id d]"
    and "ri_receipt_id x = execution_receipt_id e 1 ''execution.order_draft.created'' (od_order_draft_id d)"
    and "order_drafts db' = order_drafts db @ [d]" and "receipt_index db' = receipt_index db @ [x]"
    and "\<not> tbl_has od_order_draft_id (order_drafts db) (od_order_draft_id d)"
    and "\<not> tbl_has ri_receipt_id (receipt_index db) (ri_receipt_id x)"
    and "map_option xr_artifact_id (receipt_files db' t) = Some (od_order_draft_id d)"
    and "order_draft_ck e d"
proof -
  from assms obtain t where t: "resolve_path e [''receipts'', execution_receipt_id e 1
      ''execution.order_draft.created'' (new_id e 0 ''od'') @ ''.json''] = Some t" "\<not> write_fails e t"
    unfolding create_order_draft_def Let_def write_execution_receipt_def
    by (elim guard_okE) (auto split: option.splits if_splits)
  with assms show ?thesis
    unfolding create_order_draft_def Let_def write_execution_receipt_def
    by (elim guard_okE, intro that)
       (auto simp: write_records_def mk_index_def split: if_splits option.splits prod.splits sum.splits)
qed


text \<open>
  A created draft can be looked up by its identifier, is in status \<open>draft\<close>, satisfies
  the declared constraints and has a receipt: the index row it names exists and refers back to
  it, and the receipt file names it. Every draft that was there before is still found unchanged.
\<close>

theorem created_draft_stored:
  assumes "reach exec_start exec_step db" and "create_order_draft e c a db = (Inr d, db')"
  shows "tbl_get od_order_draft_id (order_drafts db') (od_order_draft_id d) = Some d \<and>
         order_draft_ck e d \<and>
         (\<exists>x. tbl_get ri_receipt_id (receipt_index db') (ri_receipt_id x) = Some x \<and>
              od_receipt_ref d = Some (ri_receipt_id x) \<and> ri_refs x = [od_order_draft_id d]) \<and>
         (\<exists>t doc. receipt_files db' t = Some doc \<and> xr_artifact_id doc = od_order_draft_id d) \<and>
         (\<forall>k p. tbl_get od_order_draft_id (order_drafts db) k = Some p \<longrightarrow>
                tbl_get od_order_draft_id (order_drafts db') k = Some p)"
proof -
  have inv: "keyed od_order_draft_id (order_drafts db)" "keyed ri_receipt_id (receipt_index db)"
    using kernel.reach_inv [OF assms(1)] by (simp_all add: exec_inv_def exec_keys_def)
  from assms(2) show ?thesis
  proof (rule create_okE)
    fix t x
    assume new: "order_drafts db' = order_drafts db @ [d]" "receipt_index db' = receipt_index db @ [x]"
      and fresh: "\<not> tbl_has od_order_draft_id (order_drafts db) (od_order_draft_id d)"
        "\<not> tbl_has ri_receipt_id (receipt_index db) (ri_receipt_id x)"
      and rest: "od_receipt_ref d = Some (ri_receipt_id x)" "ri_refs x = [od_order_draft_id d]"
        "map_option xr_artifact_id (receipt_files db' t) = Some (od_order_draft_id d)"
        "order_draft_ck e d"
    have f: "tbl_get od_order_draft_id (order_drafts db) (od_order_draft_id d) = None"
      "tbl_get ri_receipt_id (receipt_index db) (ri_receipt_id x) = None"
      using fresh by (simp_all add: tbl_get_None_iff)
    show ?thesis
      using rest new drafts.lookup_insert [OF inv(1) f(1)] indexes.lookup_insert [OF inv(2) f(2)]
        drafts.insert_monotone [OF inv(1) f(1)] by auto
  qed
qed

lemma demo_start: "reach exec_start exec_step demo_db"
  by (rule reach_start) (simp add: exec_start_def demo_db_def)

theorem created_draft_stored_witness:
  "\<exists>d. create_order_draft (demo_env 1) demo_caps demo_args demo_db = (Inr d, demo_db1) \<and>
     tbl_get od_order_draft_id (order_drafts demo_db1) (od_order_draft_id d) = Some d"
proof -
  have "\<not> isl (fst (create_order_draft (demo_env 1) demo_caps demo_args demo_db))" by code_simp
  then obtain d where d: "create_order_draft (demo_env 1) demo_caps demo_args demo_db = (Inr d, demo_db1)"
    unfolding demo_db1_def by (metis prod.collapse sum.collapse(2))
  with created_draft_stored [OF demo_start d] show ?thesis by blast
qed

lemma create_receipt_written:
  assumes "resolve_path e [''receipts'', execution_receipt_id e 1 ''execution.order_draft.created''
             (new_id e 0 ''od'') @ ''.json''] = Some t"
    and "\<not> write_fails e t" and "capability_flag c CreateOrderDraft"
    and "da_environment a \<in> set EXECUTION_ENVIRONMENTS"
    and "tbl_has ri_receipt_id (receipt_index db)
           (execution_receipt_id e 1 ''execution.order_draft.created'' (new_id e 0 ''od''))"
  shows "\<exists>x doc. create_order_draft e c a db = (Inl x, db\<lparr>receipt_files := (receipt_files db)(t \<mapsto> doc)\<rparr>) \<and>
           xr_artifact_id doc = new_id e 0 ''od''"
proof -
  have "write_records e 0 [RDraft d, RIndex x] db' = (Inl (StoreError ''state-core atomic write failed''), db')"
    if "tbl_has ri_receipt_id (receipt_index db') (ri_receipt_id x)"
      "ri_kind x \<notin> set PRODUCTION_IMPORT_KINDS" for d x db'
    using that by (simp add: write_records_def)
  then show ?thesis
    using assms
    by (simp add: create_order_draft_def Let_def write_execution_receipt_def
        require_execution_capability_def execution_environment_of_def mk_index_def
        PRODUCTION_IMPORT_KINDS_def fun_upd_def) (auto simp: fun_eq_iff)
qed

lemma draft_receipt_id_collides:
  assumes "stamp e1 0 = stamp e2 0" and "stamp e1 1 = stamp e2 1"
    and "5 \<le> length (filter (\<lambda>c. c \<noteq> CHR ''-'') (stamp e1 0))"
  shows "execution_receipt_id e1 1 k (new_id e1 0 ''od'') = execution_receipt_id e2 1 k (new_id e2 0 ''od'')"
  using assms by (simp add: execution_receipt_id_def new_id_def)

text \<open>
  Receipt identifiers do not separate artifacts: they are made from the second-resolution
  stamp and the first eight characters of the artifact identifier, which is its prefix and the
  start of the same stamp. A second draft created in the same second therefore fails with a store
  error, whatever its random part, adds no draft, and its receipt replaces the file of the first.
\<close>

theorem same_second_draft_fails:
  assumes "create_order_draft e1 c1 a1 db = (Inr d, db1)"
    and "stamp e2 0 = stamp e1 0" and "stamp e2 1 = stamp e1 1"
    and "5 \<le> length (filter (\<lambda>c. c \<noteq> CHR ''-'') (stamp e1 0))"
    and "resolve_path e2 = resolve_path e1" and "write_fails e2 = write_fails e1"
    and "capability_flag c2 CreateOrderDraft" and "da_environment a2 \<in> set EXECUTION_ENVIRONMENTS"
  shows "\<exists>x db2 t. create_order_draft e2 c2 a2 db1 = (Inl x, db2) \<and> order_drafts db2 = order_drafts db1 \<and>
           map_option xr_artifact_id (receipt_files db1 t) = Some (od_order_draft_id d) \<and>
           map_option xr_artifact_id (receipt_files db2 t) = Some (new_id e2 0 ''od'')"
  using assms(1)
proof (rule create_okE)
  fix t x
  let ?k = "''execution.order_draft.created''"
  assume t: "resolve_path e1 [''receipts'', execution_receipt_id e1 1 ?k (od_order_draft_id d) @ ''.json''] = Some t"
      "\<not> write_fails e1 t"
    and d: "od_order_draft_id d = new_id e1 0 ''od''"
    and x: "ri_receipt_id x = execution_receipt_id e1 1 ?k (od_order_draft_id d)"
      "receipt_index db1 = receipt_index db @ [x]"
    and f: "map_option xr_artifact_id (receipt_files db1 t) = Some (od_order_draft_id d)"
  have same: "execution_receipt_id e2 1 ?k (new_id e2 0 ''od'') = execution_receipt_id e1 1 ?k (new_id e1 0 ''od'')"
    using draft_receipt_id_collides [of e2 e1] assms(2-4) by simp
  have "\<exists>x doc. create_order_draft e2 c2 a2 db1 = (Inl x, db1\<lparr>receipt_files := (receipt_files db1)(t \<mapsto> doc)\<rparr>) \<and>
           xr_artifact_id doc = new_id e2 0 ''od''"
    using t d x same assms(5-8) by (intro create_receipt_written) (simp_all add: tbl_has_iff)
  then show ?thesis using f by fastforce
qed

theorem same_second_draft_fails_witness:
  "\<exists>x db2. create_order_draft ((demo_env 1)\<lparr>uuid8 := \<lambda>i. ''ffffffff''\<rparr>) demo_caps demo_args demo_db1
     = (Inl x, db2) \<and> order_drafts db2 = order_drafts demo_db1"
proof -
  have "\<not> isl (fst (create_order_draft (demo_env 1) demo_caps demo_args demo_db))" by code_simp
  then obtain d where d: "create_order_draft (demo_env 1) demo_caps demo_args demo_db = (Inr d, demo_db1)"
    unfolding demo_db1_def by (metis prod.collapse sum.collapse(2))
  let ?e = "(demo_env 1)\<lparr>uuid8 := \<lambda>i. ''ffffffff''\<rparr>"
  have "5 \<le> length (filter (\<lambda>c. c \<noteq> CHR ''-'') (stamp (demo_env 1) 0))" by code_simp
  moreover have "capability_flag demo_caps CreateOrderDraft" "da_environment demo_args \<in> set EXECUTION_ENVIRONMENTS"
    by code_simp+
  moreover have "stamp ?e 0 = stamp (demo_env 1) 0" "stamp ?e 1 = stamp (demo_env 1) 1"
    "resolve_path ?e = resolve_path (demo_env 1)" "write_fails ?e = write_fails (demo_env 1)" by simp_all
  ultimately show ?thesis
    using same_second_draft_fails [OF d, of ?e demo_caps demo_args] by blast
qed

end
