(* ===== verification/Authority_Admin.thy ===== *)
theory Authority_Admin
  imports State_Base
begin

text \<open>
  Authenticated identities (\<^verbatim>\<open>identity.py\<close>) and the guard of every authority mutation
  (\<^verbatim>\<open>authority_administration.py\<close>).  A frozen model is a record together with the function that
  builds it and runs its validators; a validation failure is a \<open>ValueError\<close>.  Instants are
  microseconds since the epoch; \<open>instant\<close> is the UTC instant of a parsed text.
\<close>

section \<open>Timestamps\<close>

definition utc_instant :: "int \<times> int option \<Rightarrow> int option" where
  "utc_instant p = (case p of (t, None) \<Rightarrow> None | (t, Some off) \<Rightarrow> Some (t - off))"

text \<open>The strict parser of both modules: an offset of zero is required.\<close>

definition parse_strict_utc :: "'e env_scheme \<Rightarrow> string \<Rightarrow> string \<Rightarrow> string \<Rightarrow> int res" where
  "parse_strict_utc e bad_form bad_zone s =
     (case fromisoformat e s of
        None \<Rightarrow> Inl (ValueError bad_form)
      | Some (t, off) \<Rightarrow> if off = Some 0 then Inr t else Inl (ValueError bad_zone))"

definition admin_parse_utc :: "'e env_scheme \<Rightarrow> string \<Rightarrow> int res" where
  "admin_parse_utc e s =
     parse_strict_utc e ''authority administration timestamp must be ISO-8601''
       ''authority administration timestamp must be UTC'' s"

definition parse_utc_timestamp :: "'e env_scheme \<Rightarrow> string option \<Rightarrow> string \<Rightarrow> int res" where
  "parse_utc_timestamp e v field_name =
     (case v of
        None \<Rightarrow> Inl (ValueError (field_name @ '' must be an ISO-8601 UTC timestamp''))
      | Some s \<Rightarrow> parse_strict_utc e (field_name @ '' must be an ISO-8601 UTC timestamp'')
                    (field_name @ '' must be UTC'') s)"

section \<open>Identities\<close>

record authority_assertion =
  aa_assertion_id :: string
  aa_principal_id :: string
  aa_provider_id :: string
  aa_capability :: string
  aa_policy_version :: string
  aa_authentication_assurance :: string
  aa_issued_at_utc :: string
  aa_expires_at_utc :: string

record principal_identity =
  pi_principal_id :: string
  pi_provider_id :: string
  pi_principal_kind :: string
  pi_display_label :: "string option"
  pi_legacy_label :: "string option"
  pi_legacy_label_verified :: bool

record agent_runtime_identity =
  ar_agent_runtime_id :: string
  ar_principal_id :: string
  ar_provider_id :: string
  ar_agent_profile :: "string option"

record operator_context =
  oc_principal :: principal_identity
  oc_agent_runtime :: "agent_runtime_identity option"
  oc_authority_administration :: "authority_assertion option"
  oc_authentication_method :: string
  oc_authenticated_at_utc :: string
  oc_authentication_epoch_id :: "string option"
  oc_authentication_expires_at_utc :: "string option"

definition require_nonblank :: "string \<Rightarrow> string \<Rightarrow> string res" where
  "require_nonblank msg s = (if py_strip s = [] then Inl (ValueError msg) else Inr (py_strip s))"

text \<open>The field validators of an assertion run before the check of its validity window.\<close>

definition require_utc_timestamp :: "'e env_scheme \<Rightarrow> string \<Rightarrow> string res" where
  "require_utc_timestamp e s =
     (case parse_strict_utc e ''authority assertion timestamps must be ISO-8601''
             ''authority assertion timestamps must be UTC'' s of
        Inl x \<Rightarrow> Inl x | Inr t \<Rightarrow> Inr (isoformat e t))"

definition instant_of :: "'e env_scheme \<Rightarrow> string \<Rightarrow> int res" where
  "instant_of e s =
     (case fromisoformat e s of
        None \<Rightarrow> Inl (ValueError ''Invalid isoformat string'')
      | Some p \<Rightarrow> (case utc_instant p of
                    None \<Rightarrow> Inl (ValueError ''naive timestamp'') | Some t \<Rightarrow> Inr t))"

definition mk_authority_assertion ::
  "'e env_scheme \<Rightarrow> authority_assertion \<Rightarrow> authority_assertion res" where
  "mk_authority_assertion e a =
     (let nonblank = require_nonblank ''authority administration assertion fields must be non-empty'' in
      if aa_capability a \<noteq> ''authority_administrator'' \<or>
         aa_authentication_assurance a \<notin> {''standard'', ''elevated''}
      then Inl (ValueError ''literal_error'')
      else
        rbind (nonblank (aa_assertion_id a)) (\<lambda>i.
        rbind (nonblank (aa_principal_id a)) (\<lambda>p.
        rbind (nonblank (aa_provider_id a)) (\<lambda>v.
        rbind (nonblank (aa_policy_version a)) (\<lambda>pv.
        rbind (rbind (nonblank (aa_issued_at_utc a)) (require_utc_timestamp e)) (\<lambda>issued.
        rbind (rbind (nonblank (aa_expires_at_utc a)) (require_utc_timestamp e)) (\<lambda>expires.
        rbind (instant_of e issued) (\<lambda>issued_at.
        rbind (instant_of e expires) (\<lambda>expires_at.
          if expires_at \<le> issued_at
          then Inl (ValueError ''authority assertion expiry must follow issuance'')
          else Inr \<lparr>aa_assertion_id = i, aa_principal_id = p, aa_provider_id = v,
                    aa_capability = aa_capability a, aa_policy_version = pv,
                    aa_authentication_assurance = aa_authentication_assurance a,
                    aa_issued_at_utc = issued, aa_expires_at_utc = expires\<rparr>)))))))))"

definition mk_principal_identity :: "principal_identity \<Rightarrow> principal_identity res" where
  "mk_principal_identity p =
     (if pi_principal_kind p \<notin> {''human'', ''service'', ''legacy_unknown''}
      then Inl (ValueError ''literal_error'')
      else case require_nonblank ''identity ids must be non-empty'' (pi_principal_id p) of
        Inl x \<Rightarrow> Inl x | Inr i \<Rightarrow>
      case require_nonblank ''identity ids must be non-empty'' (pi_provider_id p) of
        Inl x \<Rightarrow> Inl x | Inr v \<Rightarrow> Inr (p\<lparr>pi_principal_id := i, pi_provider_id := v\<rparr>))"

definition mk_agent_runtime_identity :: "agent_runtime_identity \<Rightarrow> agent_runtime_identity res" where
  "mk_agent_runtime_identity a =
     (case require_nonblank ''identity ids must be non-empty'' (ar_agent_runtime_id a) of
        Inl x \<Rightarrow> Inl x | Inr i \<Rightarrow>
      case require_nonblank ''identity ids must be non-empty'' (ar_principal_id a) of
        Inl x \<Rightarrow> Inl x | Inr p \<Rightarrow>
      case require_nonblank ''identity ids must be non-empty'' (ar_provider_id a) of
        Inl x \<Rightarrow> Inl x | Inr v \<Rightarrow>
        Inr (a\<lparr>ar_agent_runtime_id := i, ar_principal_id := p, ar_provider_id := v\<rparr>))"

definition mk_operator_context :: "'e env_scheme \<Rightarrow> operator_context \<Rightarrow> operator_context res" where
  "mk_operator_context e c =
     (if (case oc_agent_runtime c of None \<Rightarrow> False
          | Some r \<Rightarrow> ar_principal_id r \<noteq> pi_principal_id (oc_principal c))
      then Inl (ValueError ''agent runtime principal binding mismatch'')
      else if (case oc_authority_administration c of None \<Rightarrow> False
               | Some a \<Rightarrow> aa_principal_id a \<noteq> pi_principal_id (oc_principal c))
      then Inl (ValueError ''authority assertion principal binding mismatch'')
      else if (case oc_authority_administration c of None \<Rightarrow> False
               | Some a \<Rightarrow> aa_provider_id a \<noteq> pi_provider_id (oc_principal c))
      then Inl (ValueError ''authority assertion provider binding mismatch'')
      else if (oc_authentication_epoch_id c = None) \<noteq> (oc_authentication_expires_at_utc c = None)
      then Inl (ValueError ''authentication epoch fields must be present together'')
      else case oc_authentication_epoch_id c of
             None \<Rightarrow> Inr c
           | Some epoch \<Rightarrow>
               if py_strip epoch = []
               then Inl (ValueError ''authentication epoch id must be non-empty'')
               else case parse_utc_timestamp e (Some (oc_authenticated_at_utc c))
                           ''authenticated_at_utc'' of Inl x \<Rightarrow> Inl x | Inr at \<Rightarrow>
               case parse_utc_timestamp e (oc_authentication_expires_at_utc c)
                      ''authentication_expires_at_utc'' of Inl x \<Rightarrow> Inl x | Inr ex \<Rightarrow>
               if ex \<le> at
               then Inl (ValueError ''authentication epoch expiry must follow authentication'')
               else Inr c)"

definition authoritative_actor_id :: "operator_context \<Rightarrow> string" where
  "authoritative_actor_id c =
     (case oc_agent_runtime c of
        Some r \<Rightarrow> ar_agent_runtime_id r
      | None \<Rightarrow> pi_principal_id (oc_principal c))"

definition reject_identity_substitution ::
  "operator_context \<Rightarrow> string option \<Rightarrow> string option \<Rightarrow> unit res" where
  "reject_identity_substitution c claimed_principal claimed_agent =
     (if (case claimed_principal of None \<Rightarrow> False
          | Some p \<Rightarrow> p \<noteq> [] \<and> p \<noteq> pi_principal_id (oc_principal c))
      then Inl (ValueError ''cross-principal substitution denied'')
      else if (case claimed_agent of None \<Rightarrow> False
               | Some a \<Rightarrow> a \<noteq> [] \<and> Some a \<noteq> map_option ar_agent_runtime_id (oc_agent_runtime c))
      then Inl (ValueError ''cross-agent substitution denied'')
      else Inr ())"

section \<open>The administration guard\<close>

definition AUTHORITY_ADMINISTRATION_POLICY_VERSION :: string where
  "AUTHORITY_ADMINISTRATION_POLICY_VERSION = ''finharness.authority-administration.v1''"

definition AUTHORITY_ADMINISTRATION_OPERATION_POLICY :: "(string \<times> string) list" where
  "AUTHORITY_ADMINISTRATION_OPERATION_POLICY =
     [(''mandate_create_or_replace'', ''elevated''), (''mandate_resume'', ''elevated''),
      (''mandate_suspend'', ''standard''), (''mandate_revoke'', ''standard''),
      (''grant_create'', ''elevated''), (''grant_revoke'', ''standard'')]"

definition AUTHORITY_ADMINISTRATION_OPERATION_EFFECT :: "(string \<times> string) list" where
  "AUTHORITY_ADMINISTRATION_OPERATION_EFFECT =
     [(''mandate_create_or_replace'', ''expanding''), (''mandate_resume'', ''expanding''),
      (''mandate_suspend'', ''reducing''), (''mandate_revoke'', ''reducing''),
      (''grant_create'', ''expanding''), (''grant_revoke'', ''reducing'')]"

record administration_decision =
  ad_operation :: string
  ad_operation_effect :: string
  ad_required_assurance :: string
  ad_administrator_principal_id :: string
  ad_assertion_id :: string
  ad_identity_provider_id :: string
  ad_authentication_method :: string
  ad_authentication_assurance :: string
  ad_authenticated_at_utc :: string
  ad_policy_version :: string
  ad_assertion_issued_at_utc :: string
  ad_assertion_expires_at_utc :: string
  ad_checked_at_utc :: string

definition require_authority_administration ::
  "'e env_scheme \<Rightarrow> nat \<Rightarrow> operator_context \<Rightarrow> string \<Rightarrow> string option \<Rightarrow>
   administration_decision res" where
  "require_authority_administration e i c operation checked_at =
     (case (map_of AUTHORITY_ADMINISTRATION_OPERATION_POLICY operation,
            map_of AUTHORITY_ADMINISTRATION_OPERATION_EFFECT operation) of
        (Some required, Some effect) \<Rightarrow>
          if oc_agent_runtime c \<noteq> None
          then Inl (AdminDenied ''agent_runtime_forbidden'' operation)
          else if pi_principal_kind (oc_principal c) \<noteq> ''human''
          then Inl (AdminDenied ''human_principal_required'' operation)
          else (case oc_authority_administration c of
            None \<Rightarrow> Inl (AdminDenied ''authority_administrator_required'' operation)
          | Some a \<Rightarrow>
              if aa_principal_id a \<noteq> pi_principal_id (oc_principal c)
              then Inl (AdminDenied ''assertion_subject_mismatch'' operation)
              else if aa_provider_id a \<noteq> pi_provider_id (oc_principal c)
              then Inl (AdminDenied ''assertion_provider_mismatch'' operation)
              else if aa_policy_version a \<noteq> AUTHORITY_ADMINISTRATION_POLICY_VERSION
              then Inl (AdminDenied ''authority_policy_version_mismatch'' operation)
              else
                case admin_parse_utc e (or_else checked_at (clock e i)) of
                  Inl x \<Rightarrow> Inl x | Inr checked \<Rightarrow>
                case admin_parse_utc e (aa_issued_at_utc a) of Inl x \<Rightarrow> Inl x | Inr issued \<Rightarrow>
                case admin_parse_utc e (aa_expires_at_utc a) of Inl x \<Rightarrow> Inl x | Inr expires \<Rightarrow>
                if checked < issued
                then Inl (AdminDenied ''authority_assertion_not_yet_valid'' operation)
                else if expires \<le> checked
                then Inl (AdminDenied ''authority_assertion_expired'' operation)
                else if required = ''elevated'' \<and> aa_authentication_assurance a \<noteq> ''elevated''
                then Inl (AdminDenied ''elevated_authentication_required'' operation)
                else Inr \<lparr>ad_operation = operation, ad_operation_effect = effect,
                          ad_required_assurance = required,
                          ad_administrator_principal_id = pi_principal_id (oc_principal c),
                          ad_assertion_id = aa_assertion_id a,
                          ad_identity_provider_id = pi_provider_id (oc_principal c),
                          ad_authentication_method = oc_authentication_method c,
                          ad_authentication_assurance = aa_authentication_assurance a,
                          ad_authenticated_at_utc = oc_authenticated_at_utc c,
                          ad_policy_version = aa_policy_version a,
                          ad_assertion_issued_at_utc = aa_issued_at_utc a,
                          ad_assertion_expires_at_utc = aa_expires_at_utc a,
                          ad_checked_at_utc = isoformat e checked\<rparr>)
      | _ \<Rightarrow> Inl (AdminDenied ''unknown_authority_administration_operation'' operation))"

section \<open>Facts about the guard\<close>

lemmas admin_policy_defs =
  AUTHORITY_ADMINISTRATION_OPERATION_POLICY_def AUTHORITY_ADMINISTRATION_OPERATION_EFFECT_def

lemma admin_operations_same:
  "map_of AUTHORITY_ADMINISTRATION_OPERATION_POLICY op = None \<longleftrightarrow>
   map_of AUTHORITY_ADMINISTRATION_OPERATION_EFFECT op = None"
  by (simp add: admin_policy_defs)

lemma admin_expanding_iff:
  "map_of AUTHORITY_ADMINISTRATION_OPERATION_EFFECT op = Some ''expanding'' \<longleftrightarrow>
   map_of AUTHORITY_ADMINISTRATION_OPERATION_POLICY op = Some ''elevated''"
  by (simp add: admin_policy_defs)

text \<open>
  The guard admits exactly the commands of the policy matrix that a human administrator issues
  inside the validity window of a matching assertion of sufficient strength.
\<close>

definition admin_window :: "'e env_scheme \<Rightarrow> authority_assertion \<Rightarrow> string \<Rightarrow> bool" where
  "admin_window e a now \<longleftrightarrow>
     (\<exists>checked issued expires. admin_parse_utc e now = Inr checked \<and>
        admin_parse_utc e (aa_issued_at_utc a) = Inr issued \<and>
        admin_parse_utc e (aa_expires_at_utc a) = Inr expires \<and>
        issued \<le> checked \<and> checked < expires)"

lemma admin_guard_elim:
  assumes "require_authority_administration e i c op at = Inr d"
  obtains a required effect where
      "oc_authority_administration c = Some a" and "oc_agent_runtime c = None"
    and "map_of AUTHORITY_ADMINISTRATION_OPERATION_POLICY op = Some required"
    and "map_of AUTHORITY_ADMINISTRATION_OPERATION_EFFECT op = Some effect"
    and "pi_principal_kind (oc_principal c) = ''human''"
    and "aa_principal_id a = pi_principal_id (oc_principal c)"
    and "aa_provider_id a = pi_provider_id (oc_principal c)"
    and "aa_policy_version a = AUTHORITY_ADMINISTRATION_POLICY_VERSION"
    and "admin_window e a (or_else at (clock e i))"
    and "required = ''elevated'' \<longrightarrow> aa_authentication_assurance a = ''elevated''"
    and "ad_administrator_principal_id d = pi_principal_id (oc_principal c)"
    and "ad_operation d = op"
proof -
  obtain required effect where m: "map_of AUTHORITY_ADMINISTRATION_OPERATION_POLICY op = Some required"
      "map_of AUTHORITY_ADMINISTRATION_OPERATION_EFFECT op = Some effect"
    using assms by (auto simp: require_authority_administration_def split: option.split_asm)
  obtain a where a: "oc_authority_administration c = Some a"
    using assms m by (auto simp: require_authority_administration_def split: option.split_asm if_split_asm)
  have r: "oc_agent_runtime c = None" and h: "pi_principal_kind (oc_principal c) = ''human''"
    and ids: "aa_principal_id a = pi_principal_id (oc_principal c)"
      "aa_provider_id a = pi_provider_id (oc_principal c)"
      "aa_policy_version a = AUTHORITY_ADMINISTRATION_POLICY_VERSION"
    using assms m a by (simp_all add: require_authority_administration_def split: if_split_asm)
  note rest = assms [unfolded require_authority_administration_def m a r h ids option.case prod.case, simplified]
  show ?thesis
    by (rule that [OF a r m h ids])
       (use rest in \<open>simp_all add: admin_window_def split: sum.split_asm if_split_asm, auto\<close>)
qed

end
