(* ===== verification/Authority_Models.thy ===== *)
theory Authority_Models
  imports Authority_Admin "HOL-Library.Monad_Syntax"
begin

text \<open>
  The rows of the authority context (\<^verbatim>\<open>statecore/models.py\<close>, \<^verbatim>\<open>statecore/money.py\<close>), the typed
  limit book with its validators (\<^verbatim>\<open>statecore/capital_mandates.py\<close>), the receipts the services
  write, and the store with its declared constraints.  Table models do not run their field
  validators, so the constraints of the tables are what the store enforces; the frozen models
  (money, limits, scopes) are built by functions that run theirs.

  \<open>auth_env\<close> adds what this context takes from libraries: the SHA-256 of canonical JSON,
  pydantic's lax coercions to int and bool, the JSON text of a decimal, and which file removals
  the operating system refuses.
\<close>

type_synonym pydict = "(string \<times> pyval) list"

record auth_env = env +
  content_hash :: "pyval \<Rightarrow> string"
  coerce_int :: "pyval \<Rightarrow> int option"
  coerce_bool :: "pyval \<Rightarrow> bool option"
  money_str :: "decimal \<Rightarrow> string"
  unlink_fails :: "string \<Rightarrow> bool"

section \<open>Money\<close>

text \<open>
  \<^verbatim>\<open>str.upper\<close> on code points below 256.  The two letters whose capital lies above 255 are kept:
  both are outside ASCII before and after.
\<close>

definition py_upper_char :: "char \<Rightarrow> string" where
  "py_upper_char c =
     (let n = (of_char c :: nat)
      in if n = 223 then ''SS''
         else if (97 \<le> n \<and> n \<le> 122) \<or> (224 \<le> n \<and> n \<le> 246) \<or> (248 \<le> n \<and> n \<le> 254)
         then [char_of (n - 32)] else [c])"

definition py_upper :: "string \<Rightarrow> string" where
  "py_upper s = concat (map py_upper_char s)"

definition ascii_alpha :: "char \<Rightarrow> bool" where
  "ascii_alpha c = (let n = (of_char c :: nat) in (65 \<le> n \<and> n \<le> 90) \<or> (97 \<le> n \<and> n \<le> 122))"

definition normalize_currency_code :: "string \<Rightarrow> string res" where
  "normalize_currency_code value =
     (let normalized = py_upper (py_strip value)
      in if length normalized \<noteq> 3 \<or> \<not> list_all ascii_alpha normalized
         then Inl (ValueError ''currency must be a three-letter ASCII alphabetic code'')
         else Inr normalized)"

definition mk_money :: "decimal \<Rightarrow> string \<Rightarrow> monetary_amount res" where
  "mk_money a c =
     (if \<not> dec_le dec_zero a then Inl (ValueError ''greater_than_equal'')
      else rbind (normalize_currency_code c) (\<lambda>c'. Inr \<lparr>amount = a, currency = c'\<rparr>))"

definition money_validate :: "auth_env \<Rightarrow> pyval \<Rightarrow> monetary_amount option" where
  "money_validate e v =
     (case v of
        PMoney m \<Rightarrow> Some m
      | _ \<Rightarrow> do {
          (a, c) \<leftarrow> coerce_money e v;
          case mk_money a c of Inl _ \<Rightarrow> None | Inr m \<Rightarrow> Some m })"

definition money_positive :: "monetary_amount \<Rightarrow> bool" where
  "money_positive m = dec_less dec_zero (amount m)"

definition money_dump :: "auth_env \<Rightarrow> monetary_amount \<Rightarrow> pyval" where
  "money_dump e m =
     PDict [(''amount'', PStr (money_str e (amount m))), (''currency'', PStr (currency m))]"

section \<open>The typed limit book\<close>

record mandate_string_scope =
  ms_mode :: string
  ms_values :: "string list"

record capital_mandate_limits =
  cl_product_ids :: "string list"
  cl_instrument_ids :: "string list"
  cl_action_types :: "string list"
  cl_max_notional :: "monetary_amount option"
  cl_max_actions_per_period :: "int option"
  cl_period_seconds :: "int option"
  cl_max_loss :: "monetary_amount option"
  cl_direction_scope :: mandate_string_scope
  cl_broker_scope :: mandate_string_scope

record kill_switch_scope =
  ks_global_scope :: bool
  ks_product_ids :: "string list"
  ks_instrument_ids :: "string list"
  ks_action_types :: "string list"

definition explicit_value :: "string \<Rightarrow> bool" where
  "explicit_value v \<longleftrightarrow> py_strip v \<noteq> [] \<and> v = py_strip v \<and> v \<noteq> ''*''"

definition string_scope_ok :: "mandate_string_scope \<Rightarrow> bool" where
  "string_scope_ok s \<longleftrightarrow>
     \<not> (ms_mode s = ''wildcard'' \<and> ms_values s \<noteq> []) \<and>
     list_all explicit_value (ms_values s) \<and> distinct (ms_values s)"

definition limits_post_init :: "capital_mandate_limits \<Rightarrow> bool" where
  "limits_post_init l \<longleftrightarrow>
     (cl_max_actions_per_period l = None \<longleftrightarrow> cl_period_seconds l = None) \<and>
     (case cl_max_notional l of None \<Rightarrow> True | Some m \<Rightarrow> money_positive m) \<and>
     (case cl_max_loss l of None \<Rightarrow> True | Some m \<Rightarrow> money_positive m)"

definition keys_within :: "pydict \<Rightarrow> string list \<Rightarrow> bool" where
  "keys_within d ks = list_all (\<lambda>(k, v). k \<in> set ks) d"

fun str_items :: "pyval list \<Rightarrow> string list option" where
  "str_items [] = Some []"
| "str_items (PStr s # vs) = map_option ((#) s) (str_items vs)"
| "str_items (_ # vs) = None"

fun str_tuple :: "pyval \<Rightarrow> string list option" where
  "str_tuple (PList vs) = str_items vs"
| "str_tuple _ = None"

definition opt_field :: "(pyval \<Rightarrow> 'a option) \<Rightarrow> pyval \<Rightarrow> 'a option option" where
  "opt_field f v = (if v = PNone then Some None else map_option Some (f v))"

definition positive_int :: "auth_env \<Rightarrow> pyval \<Rightarrow> int option" where
  "positive_int e v = do { n \<leftarrow> coerce_int e v; if 0 < n then Some n else None }"

definition string_scope_validate :: "pyval \<Rightarrow> mandate_string_scope option" where
  "string_scope_validate v =
     (case v of
        PDict d \<Rightarrow>
          if \<not> keys_within d [''mode'', ''values''] then None
          else (case dict_get_or d ''mode'' (PStr ''bounded'') of
                  PStr m \<Rightarrow>
                    if m \<notin> {''bounded'', ''wildcard''} then None
                    else do {
                      vs \<leftarrow> str_tuple (dict_get_or d ''values'' (PList []));
                      let s = \<lparr>ms_mode = m, ms_values = vs\<rparr>;
                      if string_scope_ok s then Some s else None }
                | _ \<Rightarrow> None)
      | _ \<Rightarrow> None)"

definition LIMIT_FIELDS :: "string list" where
  "LIMIT_FIELDS =
     [''product_ids'', ''instrument_ids'', ''action_types'', ''max_notional'',
      ''max_actions_per_period'', ''period_seconds'', ''max_loss'', ''direction_scope'', ''broker_scope'']"

definition limits_validate :: "auth_env \<Rightarrow> pydict \<Rightarrow> capital_mandate_limits option" where
  "limits_validate e d =
     (if \<not> keys_within d LIMIT_FIELDS then None
      else do {
        ps \<leftarrow> str_tuple (dict_get_or d ''product_ids'' (PList []));
        is \<leftarrow> str_tuple (dict_get_or d ''instrument_ids'' (PList []));
        acts \<leftarrow> str_tuple (dict_get_or d ''action_types'' (PList []));
        mn \<leftarrow> opt_field (money_validate e) (dict_get d ''max_notional'');
        ma \<leftarrow> opt_field (positive_int e) (dict_get d ''max_actions_per_period'');
        sec \<leftarrow> opt_field (positive_int e) (dict_get d ''period_seconds'');
        ml \<leftarrow> opt_field (money_validate e) (dict_get d ''max_loss'');
        ds \<leftarrow> string_scope_validate (dict_get_or d ''direction_scope'' (PDict []));
        bs \<leftarrow> string_scope_validate (dict_get_or d ''broker_scope'' (PDict []));
        let l = \<lparr>cl_product_ids = ps, cl_instrument_ids = is, cl_action_types = acts,
                 cl_max_notional = mn, cl_max_actions_per_period = ma, cl_period_seconds = sec,
                 cl_max_loss = ml, cl_direction_scope = ds, cl_broker_scope = bs\<rparr>;
        if limits_post_init l then Some l else None })"

definition kill_switch_validate :: "auth_env \<Rightarrow> pydict \<Rightarrow> kill_switch_scope option" where
  "kill_switch_validate e d =
     (if \<not> keys_within d [''global_scope'', ''product_ids'', ''instrument_ids'', ''action_types'']
      then None
      else do {
        g \<leftarrow> coerce_bool e (dict_get_or d ''global_scope'' (PBool False));
        ps \<leftarrow> str_tuple (dict_get_or d ''product_ids'' (PList []));
        is \<leftarrow> str_tuple (dict_get_or d ''instrument_ids'' (PList []));
        acts \<leftarrow> str_tuple (dict_get_or d ''action_types'' (PList []));
        Some \<lparr>ks_global_scope = g, ks_product_ids = ps, ks_instrument_ids = is,
              ks_action_types = acts\<rparr> })"

definition strs :: "string list \<Rightarrow> pyval" where
  "strs xs = PList (map PStr xs)"

definition opt_dump :: "('a \<Rightarrow> pyval) \<Rightarrow> 'a option \<Rightarrow> pyval" where
  "opt_dump f x = (case x of None \<Rightarrow> PNone | Some v \<Rightarrow> f v)"

definition string_scope_dump :: "mandate_string_scope \<Rightarrow> pyval" where
  "string_scope_dump s = PDict [(''mode'', PStr (ms_mode s)), (''values'', strs (ms_values s))]"

definition limits_dump :: "auth_env \<Rightarrow> capital_mandate_limits \<Rightarrow> pydict" where
  "limits_dump e l =
     [(''product_ids'', strs (cl_product_ids l)), (''instrument_ids'', strs (cl_instrument_ids l)),
      (''action_types'', strs (cl_action_types l)),
      (''max_notional'', opt_dump (money_dump e) (cl_max_notional l)),
      (''max_actions_per_period'', opt_dump PInt (cl_max_actions_per_period l)),
      (''period_seconds'', opt_dump PInt (cl_period_seconds l)),
      (''max_loss'', opt_dump (money_dump e) (cl_max_loss l)),
      (''direction_scope'', string_scope_dump (cl_direction_scope l)),
      (''broker_scope'', string_scope_dump (cl_broker_scope l))]"

definition kill_switch_dump :: "kill_switch_scope \<Rightarrow> pydict" where
  "kill_switch_dump k =
     [(''global_scope'', PBool (ks_global_scope k)), (''product_ids'', strs (ks_product_ids k)),
      (''instrument_ids'', strs (ks_instrument_ids k)), (''action_types'', strs (ks_action_types k))]"

section \<open>Rows\<close>

definition CAPITAL_MANDATE_STATUSES :: "string list" where
  "CAPITAL_MANDATE_STATUSES = [''active'', ''superseded'']"

definition CAPITAL_MANDATE_LIFECYCLE_EVENTS :: "string list" where
  "CAPITAL_MANDATE_LIFECYCLE_EVENTS = [''activated'', ''suspended'', ''resumed'', ''revoked'']"

definition CAPITAL_MANDATE_AUTONOMY_LEVELS :: "string list" where
  "CAPITAL_MANDATE_AUTONOMY_LEVELS =
     [''L0_read_only'', ''L1_candidate_only'', ''L2_human_confirmed_apply'',
      ''L3_bounded_delegation_candidate'']"

definition AGENT_AUTHORITY_GRANT_STATUSES :: "string list" where
  "AGENT_AUTHORITY_GRANT_STATUSES = [''active'', ''revoked'', ''suspended'']"

record investment_policy_statement =
  ip_ips_id :: string
  ip_status :: string
  ip_base_currency :: string
  ip_liquidity_floor_months :: decimal
  ip_max_single_holding_pct :: decimal
  ip_cash_overweight_pct :: "decimal option"
  ip_high_interest_rate_pct :: "decimal option"
  ip_allowed_asset_classes :: "string list"
  ip_restricted_actions :: "string list"
  ip_review_cadence :: string
  ip_source_refs :: "string list"
  ip_receipt_ref :: "string option"
  ip_created_at_utc :: string

record capital_mandate =
  cm_capital_mandate_id :: string
  cm_status :: string
  cm_source_ips_id :: "string option"
  cm_profile_snapshot :: pydict
  cm_investment_objectives :: pydict
  cm_risk_profile :: pydict
  cm_allowed_asset_classes :: "string list"
  cm_restricted_asset_classes :: "string list"
  cm_allowed_action_types :: "string list"
  cm_restricted_action_types :: "string list"
  cm_autonomy_level :: string
  cm_limit_book :: pydict
  cm_kill_switch_rules :: "pydict list"
  cm_review_cadence :: pydict
  cm_human_attester :: string
  cm_human_reason :: string
  cm_explicit_confirmation :: bool
  cm_source_refs :: "string list"
  cm_receipt_refs :: "string list"
  cm_non_claims :: "string list"
  cm_receipt_ref :: "string option"
  cm_execution_allowed :: bool
  cm_authority_transition :: bool
  cm_created_at_utc :: string
  cm_as_of_utc :: string

record capital_mandate_version =
  mv_mandate_version_id :: string
  mv_capital_mandate_id :: string
  mv_principal_id :: string
  mv_version_number :: int
  mv_mandate_content_hash :: string
  mv_effective_at_utc :: string
  mv_expires_at_utc :: "string option"
  mv_supersedes_version_id :: "string option"
  mv_policy_payload :: pydict
  mv_typed_limits :: pydict
  mv_kill_switch_scope :: pydict
  mv_source_refs :: "string list"
  mv_receipt_refs :: "string list"
  mv_receipt_ref :: "string option"
  mv_authenticated_actor_receipt_ref :: "string option"
  mv_legacy_actor_label :: "string option"
  mv_legacy_actor_label_verified :: bool
  mv_execution_allowed :: bool
  mv_authority_transition :: bool
  mv_created_at_utc :: string
  mv_as_of_utc :: string

record lifecycle_event =
  le_mandate_lifecycle_event_id :: string
  le_capital_mandate_id :: string
  le_mandate_version_id :: string
  le_principal_id :: string
  le_event_type :: string
  le_effective_at_utc :: string
  le_authenticated_actor_principal_id :: string
  le_reason :: string
  le_receipt_ref :: string
  le_source_refs :: "string list"
  le_execution_allowed :: bool
  le_created_at_utc :: string
  le_as_of_utc :: string

record agent_authority_grant =
  ag_agent_authority_grant_id :: string
  ag_capital_mandate_id :: string
  ag_mandate_version_id :: "string option"
  ag_principal_id :: "string option"
  ag_agent_runtime_id :: "string option"
  ag_agent_id :: string
  ag_agent_profile_name :: "string option"
  ag_status :: string
  ag_grant_scope :: pydict
  ag_issued_by :: string
  ag_issued_reason :: string
  ag_issued_against_mandate_receipt_ref :: "string option"
  ag_expires_at_utc :: "string option"
  ag_max_uses :: "int option"
  ag_max_total_notional :: "decimal option"
  ag_notional_currency :: "string option"
  ag_revoked_at_utc :: "string option"
  ag_revoked_reason :: "string option"
  ag_source_refs :: "string list"
  ag_receipt_refs :: "string list"
  ag_non_claims :: "string list"
  ag_receipt_ref :: "string option"
  ag_execution_allowed :: bool
  ag_authority_transition :: bool
  ag_created_at_utc :: string
  ag_as_of_utc :: string

record grant_consumption =
  gc_grant_consumption_id :: string
  gc_agent_authority_grant_id :: string
  gc_principal_id :: string
  gc_agent_runtime_id :: string
  gc_mandate_version_id :: string
  gc_nonce :: string
  gc_requested_scope :: pydict
  gc_requested_notional :: decimal
  gc_requested_notional_currency :: "string option"
  gc_receipt_ref :: string
  gc_execution_allowed :: bool
  gc_authority_transition :: bool
  gc_created_at_utc :: string
  gc_as_of_utc :: string

record resolved_mandate =
  rm_principal_id :: string
  rm_at_utc :: string
  rm_status :: string
  rm_version :: "capital_mandate_version option"
  rm_lifecycle_event :: "lifecycle_event option"
  rm_deny_reasons :: "string list"

text \<open>
  Why a grant is denied, in the canonical order of the code.
\<close>

datatype deny_reason =
    Grant_not_found | Grant_not_active | Grant_expired | Principal_mismatch
  | Agent_runtime_mismatch | Legacy_currency_unbound_grant | Currency_mismatch
  | Mandate_series_owner_conflict | Mandate_version_changed | Grant_exhausted
  | Grant_notional_exhausted | Nonce_replayed | Capital_mandate_not_found
  | Capital_mandate_not_active | Grant_scope_exceeds_mandate | Requested_scope_exceeds_grant
  | Forbidden_execution_semantics | Forbidden_approval_semantics | Forbidden_broker_semantics
  | Forbidden_preflight_bypass_semantics

record grant_validation =
  gv_allowed :: bool
  gv_grant_id :: string
  gv_capital_mandate_id :: "string option"
  gv_agent_id :: "string option"
  gv_deny_reasons :: "deny_reason list"
  gv_warnings :: "string list"
  gv_requested_scope_within_grant :: bool
  gv_grant_scope_within_mandate :: bool

datatype auth_receipt =
    MandateReceipt string string capital_mandate capital_mandate_version lifecycle_event
      administration_decision "investment_policy_statement option"
  | LifecycleReceipt string string capital_mandate_version lifecycle_event resolved_mandate
      administration_decision
  | GrantReceipt string string agent_authority_grant capital_mandate capital_mandate_version
      grant_validation administration_decision
  | ConsumptionReceipt string string grant_consumption grant_validation int monetary_amount
  | RevocationReceipt string string agent_authority_grant agent_authority_grant string
      administration_decision string

section \<open>The store\<close>

record auth_db =
  mandates :: "capital_mandate list"
  versions :: "capital_mandate_version list"
  events :: "lifecycle_event list"
  ips_rows :: "investment_policy_statement list"
  grants :: "agent_authority_grant list"
  consumptions :: "grant_consumption list"
  auth_index :: "receipt_index_row list"
  auth_files :: "string \<rightharpoonup> auth_receipt"

datatype auth_row =
    AMandate capital_mandate
  | AVersion capital_mandate_version
  | AEvent lifecycle_event
  | AGrant agent_authority_grant
  | AConsumption grant_consumption
  | AIndex receipt_index_row

text \<open>The \<^verbatim>\<open>CHECK\<close>, \<^verbatim>\<open>UNIQUE\<close> and foreign-key constraints a row has to meet.\<close>

fun row_ok :: "auth_row \<Rightarrow> auth_db \<Rightarrow> bool" where
  "row_ok (AMandate m) db \<longleftrightarrow>
     cm_status m \<in> set CAPITAL_MANDATE_STATUSES \<and>
     cm_autonomy_level m \<in> set CAPITAL_MANDATE_AUTONOMY_LEVELS \<and>
     cm_explicit_confirmation m \<and> \<not> cm_execution_allowed m \<and> \<not> cm_authority_transition m \<and>
     (case cm_source_ips_id m of None \<Rightarrow> True | Some i \<Rightarrow> tbl_has ip_ips_id (ips_rows db) i)"
| "row_ok (AVersion v) db \<longleftrightarrow>
     0 < mv_version_number v \<and> \<not> mv_execution_allowed v \<and> \<not> mv_authority_transition v"
| "row_ok (AEvent x) db \<longleftrightarrow>
     le_event_type x \<in> set CAPITAL_MANDATE_LIFECYCLE_EVENTS \<and> \<not> le_execution_allowed x \<and>
     tbl_has mv_mandate_version_id (versions db) (le_mandate_version_id x)"
| "row_ok (AGrant g) db \<longleftrightarrow>
     ag_status g \<in> set AGENT_AUTHORITY_GRANT_STATUSES \<and> \<not> ag_execution_allowed g \<and>
     \<not> ag_authority_transition g \<and>
     tbl_has cm_capital_mandate_id (mandates db) (ag_capital_mandate_id g)"
| "row_ok (AConsumption c) db \<longleftrightarrow>
     \<not> gc_execution_allowed c \<and>
     tbl_has ag_agent_authority_grant_id (grants db) (gc_agent_authority_grant_id c) \<and>
     \<not> list_ex (\<lambda>x. gc_agent_authority_grant_id x = gc_agent_authority_grant_id c \<and>
                   gc_nonce x = gc_nonce c) (consumptions db)"
| "row_ok (AIndex x) db \<longleftrightarrow> True"

text \<open>\<^verbatim>\<open>session.add\<close> of a new row, and \<^verbatim>\<open>session.merge\<close> by primary key.\<close>

fun add_row :: "auth_row \<Rightarrow> auth_db \<Rightarrow> auth_db option" where
  "add_row (AMandate m) db =
     (if row_ok (AMandate m) db \<and> \<not> tbl_has cm_capital_mandate_id (mandates db) (cm_capital_mandate_id m)
      then Some (db\<lparr>mandates := mandates db @ [m]\<rparr>) else None)"
| "add_row (AVersion v) db =
     (if row_ok (AVersion v) db \<and> \<not> tbl_has mv_mandate_version_id (versions db) (mv_mandate_version_id v)
      then Some (db\<lparr>versions := versions db @ [v]\<rparr>) else None)"
| "add_row (AEvent x) db =
     (if row_ok (AEvent x) db \<and>
         \<not> tbl_has le_mandate_lifecycle_event_id (events db) (le_mandate_lifecycle_event_id x)
      then Some (db\<lparr>events := events db @ [x]\<rparr>) else None)"
| "add_row (AGrant g) db =
     (if row_ok (AGrant g) db \<and>
         \<not> tbl_has ag_agent_authority_grant_id (grants db) (ag_agent_authority_grant_id g)
      then Some (db\<lparr>grants := grants db @ [g]\<rparr>) else None)"
| "add_row (AConsumption c) db =
     (if row_ok (AConsumption c) db \<and>
         \<not> tbl_has gc_grant_consumption_id (consumptions db) (gc_grant_consumption_id c)
      then Some (db\<lparr>consumptions := consumptions db @ [c]\<rparr>) else None)"
| "add_row (AIndex x) db =
     (if \<not> tbl_has ri_receipt_id (auth_index db) (ri_receipt_id x)
      then Some (db\<lparr>auth_index := auth_index db @ [x]\<rparr>) else None)"

text \<open>Only these four kinds of rows are ever merged.\<close>

fun merge_row :: "auth_row \<Rightarrow> auth_db \<Rightarrow> auth_db option" where
  "merge_row (AMandate m) db =
     (if row_ok (AMandate m) db
      then Some (db\<lparr>mandates := tbl_merge cm_capital_mandate_id m (mandates db)\<rparr>) else None)"
| "merge_row (AVersion v) db =
     (if row_ok (AVersion v) db
      then Some (db\<lparr>versions := tbl_merge mv_mandate_version_id v (versions db)\<rparr>) else None)"
| "merge_row (AEvent x) db =
     (if row_ok (AEvent x) db
      then Some (db\<lparr>events := tbl_merge le_mandate_lifecycle_event_id x (events db)\<rparr>) else None)"
| "merge_row (AIndex x) db = Some (db\<lparr>auth_index := tbl_merge ri_receipt_id x (auth_index db)\<rparr>)"
| "merge_row _ db = None"

fun apply_rows :: "(auth_row \<Rightarrow> auth_db \<Rightarrow> auth_db option) \<Rightarrow> auth_row list \<Rightarrow> auth_db \<Rightarrow> auth_db option" where
  "apply_rows f [] db = Some db"
| "apply_rows f (r # rs) db = do { db' \<leftarrow> f r db; apply_rows f rs db' }"

definition add_rows :: "auth_row list \<Rightarrow> auth_db \<Rightarrow> auth_db option" where
  "add_rows = apply_rows add_row"

fun is_production_row :: "auth_row \<Rightarrow> bool" where
  "is_production_row (AIndex x) = (ri_kind x \<in> set PRODUCTION_IMPORT_KINDS)"
| "is_production_row _ = False"

definition write_auth_records :: "auth_env \<Rightarrow> nat \<Rightarrow> auth_row list \<Rightarrow> auth_db \<Rightarrow> unit res \<times> auth_db" where
  "write_auth_records e i rs db =
     (if list_ex is_production_row rs
      then (Inl (StoreError ''production import receipts require materialize_import_batch''), db)
      else case add_rows rs db of
             None \<Rightarrow> (Inl (StoreError ''state-core atomic write failed''), db)
           | Some db' \<Rightarrow> if commit_fails e i
                         then (Inl (StoreError ''state-core atomic write failed''), db)
                         else (Inr (), db'))"

definition upsert_records :: "auth_env \<Rightarrow> nat \<Rightarrow> auth_row list \<Rightarrow> auth_db \<Rightarrow> unit res \<times> auth_db" where
  "upsert_records e i rs db =
     (if list_ex is_production_row rs
      then (Inl (StoreError ''production import receipts require materialize_import_batch''), db)
      else case apply_rows merge_row rs db of
             None \<Rightarrow> (Inl (StoreError ''state-core atomic upsert failed''), db)
           | Some db' \<Rightarrow> if commit_fails e i
                         then (Inl (StoreError ''state-core atomic upsert failed''), db)
                         else (Inr (), db'))"

section \<open>Receipt files\<close>

definition write_auth_file :: "string \<Rightarrow> auth_receipt \<Rightarrow> auth_db \<Rightarrow> auth_db" where
  "write_auth_file t doc db = db\<lparr>auth_files := (auth_files db)(t \<mapsto> doc)\<rparr>"

definition remove_file_best_effort :: "auth_env \<Rightarrow> string \<Rightarrow> auth_db \<Rightarrow> auth_db" where
  "remove_file_best_effort e t db =
     (if unlink_fails e t then db else db\<lparr>auth_files := (auth_files db)(t := None)\<rparr>)"

definition auth_index_row ::
  "auth_env \<Rightarrow> string \<Rightarrow> string \<Rightarrow> string \<Rightarrow> string \<Rightarrow> string list \<Rightarrow> string list \<Rightarrow> receipt_index_row" where
  "auth_index_row e receipt_id kind path created srcs refs =
     \<lparr>ri_receipt_id = receipt_id, ri_kind = kind, ri_path = display_path e path,
      ri_created_at_utc = created, ri_source_refs = display_path e path # srcs, ri_refs = refs\<rparr>"

end
