(* ===== verification/Capital_Mandates.thy ===== *)
theory Capital_Mandates
  imports Authority_Models "HOL-Library.Product_Lexorder" "HOL-Library.List_Lexorder"
    "HOL-Library.Char_ord"
begin

text \<open>
  The capital mandate policy domain (\<^verbatim>\<open>statecore/capital_mandates.py\<close>): writing a mandate with its
  version and activation event, resolving the mandate of a principal at an instant, and the
  suspend, resume and revoke commands.  Python compares tuples lexicographically and strings by
  code point, which is the order the product, list and character order theories give.
\<close>

section \<open>Time\<close>

definition mandate_parse_utc :: "'e env_scheme \<Rightarrow> string \<Rightarrow> int res" where
  "mandate_parse_utc e s =
     (case fromisoformat e (replace_Z s) of
        None \<Rightarrow> Inl (ValueError ''Invalid isoformat string'')
      | Some p \<Rightarrow> (case utc_instant p of
                    None \<Rightarrow> Inl (MandateError ''mandate timestamps require timezone'')
                  | Some t \<Rightarrow> Inr t))"

definition require_ordered_time :: "'e env_scheme \<Rightarrow> string \<Rightarrow> string option \<Rightarrow> unit res" where
  "require_ordered_time e effective_at expires_at =
     rbind (mandate_parse_utc e effective_at) (\<lambda>effective.
       case expires_at of
         None \<Rightarrow> Inr ()
       | Some x \<Rightarrow> rbind (mandate_parse_utc e x) (\<lambda>expires.
           if expires \<le> effective
           then Inl (MandateError ''mandate expiry must be after effective time'') else Inr ()))"

section \<open>Vocabulary\<close>

definition CAPITAL_MANDATE_NON_CLAIMS :: "string list" where
  "CAPITAL_MANDATE_NON_CLAIMS =
     [''CapitalMandate is a human-attested policy domain, not investment advice.'',
      ''CapitalMandate does not grant an Agent identity or delegated authority.'',
      ''CapitalMandate is not an AuthorityContract, order ticket, or broker instruction.'',
      ''CapitalMandate does not authorize execution or live capital movement.'']"

definition CAPITAL_MANDATE_LIFECYCLE_COMMANDS :: "(string \<times> string \<times> string list) list" where
  "CAPITAL_MANDATE_LIFECYCLE_COMMANDS =
     [(''mandate_suspend'', ''suspended'', [''active'']),
      (''mandate_resume'', ''resumed'', [''suspended'']),
      (''mandate_revoke'', ''revoked'', [''active'', ''suspended''])]"

definition event_status :: "string \<Rightarrow> string res" where
  "event_status t =
     (case map_of [(''activated'', ''active''), (''resumed'', ''active''),
                   (''suspended'', ''suspended''), (''revoked'', ''revoked'')] t of
        None \<Rightarrow> Inl (KeyError t) | Some s \<Rightarrow> Inr s)"

section \<open>Reading the store\<close>

text \<open>
  A query with \<^verbatim>\<open>ORDER BY k DESC LIMIT 1\<close>: some row with the largest key.
\<close>

definition pick_latest :: "'e env_scheme \<Rightarrow> nat \<Rightarrow> ('r \<Rightarrow> 'k::linorder) \<Rightarrow> 'r list \<Rightarrow> 'r option" where
  "pick_latest e i k rows = first_row e i (filter (\<lambda>r. list_all (\<lambda>s. k s \<le> k r) rows) rows)"

definition current_ips :: "auth_env \<Rightarrow> auth_db \<Rightarrow> investment_policy_statement option" where
  "current_ips e db =
     pick_latest e 0 ip_created_at_utc (filter (\<lambda>r. ip_status r = ''active'') (ips_rows db))"

definition current_capital_mandate :: "auth_env \<Rightarrow> auth_db \<Rightarrow> capital_mandate option" where
  "current_capital_mandate e db =
     pick_latest e 0 cm_created_at_utc (filter (\<lambda>r. cm_status r = ''active'') (mandates db))"

definition resolve_source_ips ::
  "auth_env \<Rightarrow> string option \<Rightarrow> auth_db \<Rightarrow> investment_policy_statement option res" where
  "resolve_source_ips e source_ips_id db =
     (case source_ips_id of
        None \<Rightarrow> Inr (current_ips e db)
      | Some i \<Rightarrow> (case tbl_get ip_ips_id (ips_rows db) i of
                    None \<Rightarrow> Inl (KeyError i) | Some r \<Rightarrow> Inr (Some r)))"

definition capital_mandate_series_owner :: "auth_db \<Rightarrow> string \<Rightarrow> string option res" where
  "capital_mandate_series_owner db capital_mandate_id =
     (let owners = remdups (map mv_principal_id
                     (filter (\<lambda>v. mv_capital_mandate_id v = capital_mandate_id) (versions db)))
      in if 1 < length owners
         then Inl (MandateError ''capital mandate series has multiple durable principal owners'')
         else Inr (case owners of [] \<Rightarrow> None | x # _ \<Rightarrow> Some x))"

text \<open>
  A mandate write opens a session of its own for every read, so another call may commit between
  two of them.  The operations below take the stores their sessions see: \<^verbatim>\<open>reads i\<close> is the store of
  the \<^verbatim>\<open>i\<close>-th session of the call.  Session 0 looks up the owner of the series, 1 the legacy row, 2
  the policy statement, 3 the previous version, 4 the active mandates, and \<^verbatim>\<open>5 + i\<close> the owner of the
  \<^verbatim>\<open>i\<close>-th active mandate.
\<close>

type_synonym mandate_reads = "nat \<Rightarrow> auth_db"

definition require_mandate_series_owner :: "mandate_reads \<Rightarrow> string \<Rightarrow> string \<Rightarrow> unit res" where
  "require_mandate_series_owner reads capital_mandate_id principal_id =
     rbind (capital_mandate_series_owner (reads 0) capital_mandate_id) (\<lambda>ow.
       case ow of
         Some p \<Rightarrow> if p \<noteq> principal_id
                   then Inl (MandateError ''capital mandate ID is owned by another principal'')
                   else Inr ()
       | None \<Rightarrow> if tbl_has cm_capital_mandate_id (mandates (reads 1)) capital_mandate_id
                 then Inl (MandateError
                   ''legacy capital mandate durable owner unavailable; unverified labels cannot claim it'')
                 else Inr ())"

fun supersede_rows ::
  "mandate_reads \<Rightarrow> nat \<Rightarrow> string \<Rightarrow> string \<Rightarrow> capital_mandate list \<Rightarrow> capital_mandate list res" where
  "supersede_rows reads i keep principal_id [] = Inr []"
| "supersede_rows reads i keep principal_id (row # rows) =
     (if cm_capital_mandate_id row = keep then supersede_rows reads (Suc i) keep principal_id rows
      else rbind (capital_mandate_series_owner (reads i) (cm_capital_mandate_id row)) (\<lambda>ow.
        if ow \<noteq> Some principal_id then supersede_rows reads (Suc i) keep principal_id rows
        else rbind (supersede_rows reads (Suc i) keep principal_id rows) (\<lambda>rs.
          Inr (row\<lparr>cm_status := ''superseded''\<rparr> # rs))))"

definition supersede_active_mandates ::
  "mandate_reads \<Rightarrow> string \<Rightarrow> string \<Rightarrow> capital_mandate list res" where
  "supersede_active_mandates reads keep principal_id =
     supersede_rows reads 5 keep principal_id
       (filter (\<lambda>r. cm_status r = ''active'') (mandates (reads 4)))"

section \<open>Resolution\<close>

type_synonym resolution_key = "int \<times> int \<times> int \<times> string \<times> string"
type_synonym lifecycle_key = "int \<times> int \<times> string"

definition mandate_resolution_order_key ::
  "'e env_scheme \<Rightarrow> capital_mandate_version \<Rightarrow> resolution_key res" where
  "mandate_resolution_order_key e v =
     rbind (mandate_parse_utc e (mv_effective_at_utc v)) (\<lambda>effective.
     rbind (mandate_parse_utc e (mv_created_at_utc v)) (\<lambda>created.
       Inr (effective, created, mv_version_number v, mv_capital_mandate_id v,
            mv_mandate_version_id v)))"

definition mandate_lifecycle_order_key ::
  "'e env_scheme \<Rightarrow> lifecycle_event \<Rightarrow> lifecycle_key res" where
  "mandate_lifecycle_order_key e x =
     rbind (mandate_parse_utc e (le_effective_at_utc x)) (\<lambda>effective.
     rbind (mandate_parse_utc e (le_created_at_utc x)) (\<lambda>created.
       Inr (effective, created, le_mandate_lifecycle_event_id x)))"

text \<open>\<^verbatim>\<open>[row for row in rows if parse(time row) <= at]\<close>, and \<^verbatim>\<open>max\<close> with a key that may raise.\<close>

fun effective_rows :: "('r \<Rightarrow> int res) \<Rightarrow> int \<Rightarrow> 'r list \<Rightarrow> 'r list res" where
  "effective_rows tm at [] = Inr []"
| "effective_rows tm at (r # rs) =
     rbind (tm r) (\<lambda>t. rbind (effective_rows tm at rs) (\<lambda>qs. Inr (if t \<le> at then r # qs else qs)))"

definition max_keyed :: "('r \<Rightarrow> ('k::linorder) res) \<Rightarrow> 'r list \<Rightarrow> 'r option res" where
  "max_keyed key rows =
     rbind (map_res key rows) (\<lambda>ks. Inr (map_option snd (max_by fst (zip ks rows))))"

fun owners_ok :: "auth_db \<Rightarrow> string \<Rightarrow> capital_mandate_version list \<Rightarrow> bool" where
  "owners_ok db principal_id [] = True"
| "owners_ok db principal_id (v # vs) =
     (capital_mandate_series_owner db (mv_capital_mandate_id v) = Inr (Some principal_id) \<and>
      owners_ok db principal_id vs)"

definition resolved :: "string \<Rightarrow> string \<Rightarrow> string \<Rightarrow> string list \<Rightarrow> resolved_mandate" where
  "resolved principal_id at_utc status reasons =
     \<lparr>rm_principal_id = principal_id, rm_at_utc = at_utc, rm_status = status, rm_version = None,
      rm_lifecycle_event = None, rm_deny_reasons = reasons\<rparr>"

definition version_status ::
  "auth_env \<Rightarrow> int \<Rightarrow> capital_mandate_version \<Rightarrow> lifecycle_event option \<Rightarrow> string res" where
  "version_status e at_dt version latest_event =
     rbind (case mv_expires_at_utc version of
              None \<Rightarrow> Inr False
            | Some x \<Rightarrow> if x = [] then Inr False
                        else rbind (mandate_parse_utc e x) (\<lambda>t. Inr (t \<le> at_dt))) (\<lambda>expired.
       if expired then Inr ''expired''
       else case latest_event of
              None \<Rightarrow> Inr ''unavailable''
            | Some x \<Rightarrow> event_status (le_event_type x))"

definition resolve_in_session ::
  "auth_env \<Rightarrow> string \<Rightarrow> string \<Rightarrow> auth_db \<Rightarrow> resolved_mandate res" where
  "resolve_in_session e principal_id at_utc db =
     rbind (mandate_parse_utc e at_utc) (\<lambda>at_dt.
     rbind (effective_rows (\<lambda>v. mandate_parse_utc e (mv_effective_at_utc v)) at_dt
              (filter (\<lambda>v. mv_principal_id v = principal_id) (versions db))) (\<lambda>effective_versions.
     if \<not> owners_ok db principal_id effective_versions
     then Inr (resolved principal_id at_utc ''invalid'' [''mandate_series_owner_conflict''])
     else
     rbind (max_keyed (mandate_resolution_order_key e) effective_versions) (\<lambda>best.
     case best of
       None \<Rightarrow> Inr (resolved principal_id at_utc ''unavailable'' [''no_effective_mandate''])
     | Some version \<Rightarrow>
         rbind (effective_rows (\<lambda>x. mandate_parse_utc e (le_effective_at_utc x)) at_dt
                  (filter (\<lambda>x. le_mandate_version_id x = mv_mandate_version_id version)
                     (events db))) (\<lambda>effective_events.
         rbind (max_keyed (mandate_lifecycle_order_key e) effective_events) (\<lambda>latest_event.
         rbind (version_status e at_dt version latest_event) (\<lambda>status.
           Inr \<lparr>rm_principal_id = principal_id, rm_at_utc = at_utc, rm_status = status,
                rm_version = Some version, rm_lifecycle_event = latest_event,
                rm_deny_reasons = (if status = ''active'' then [] else [''mandate_'' @ status])\<rparr>))))))"

definition resolve_capital_mandate ::
  "auth_env \<Rightarrow> nat \<Rightarrow> string \<Rightarrow> string option \<Rightarrow> auth_db \<Rightarrow> resolved_mandate res" where
  "resolve_capital_mandate e i principal_id at_utc db =
     (if py_strip principal_id = []
      then Inl (MandateError ''principal_id is required for mandate resolution'')
      else resolve_in_session e principal_id (or_else at_utc (clock e i)) db)"

section \<open>Writing a mandate\<close>

record mandate_args =
  ma_profile_snapshot :: pydict
  ma_investment_objectives :: pydict
  ma_risk_profile :: pydict
  ma_human_reason :: string
  ma_explicit_confirmation :: bool
  ma_allowed_asset_classes :: "string list"
  ma_restricted_asset_classes :: "string list"
  ma_allowed_action_types :: "string list"
  ma_restricted_action_types :: "string list"
  ma_autonomy_level :: string
  ma_limit_book :: pydict
  ma_kill_switch_rules :: "pydict list"
  ma_review_cadence :: pydict
  ma_source_ips_id :: "string option"
  ma_source_refs :: "string list"
  ma_receipt_refs :: "string list"
  ma_capital_mandate_id :: "string option"
  ma_created_at_utc :: "string option"
  ma_typed_limits :: "capital_mandate_limits + pydict"
  ma_kill_switch_scope :: "kill_switch_scope + pydict"
  ma_effective_at_utc :: "string option"
  ma_expires_at_utc :: "string option"
  ma_authenticated_actor_receipt_ref :: "string option"

definition require_attestation :: "string \<Rightarrow> string \<Rightarrow> bool \<Rightarrow> unit res" where
  "require_attestation human_attester human_reason explicit_confirmation =
     (if py_strip human_attester = [] then Inl (MandateError ''human_attester is required'')
      else if py_strip human_reason = [] then Inl (MandateError ''human_reason is required'')
      else if \<not> explicit_confirmation then Inl (MandateError ''explicit_confirmation must be true'')
      else Inr ())"

definition normalized_time :: "'e env_scheme \<Rightarrow> string \<Rightarrow> string res" where
  "normalized_time e s = rbind (mandate_parse_utc e s) (\<lambda>t. Inr (isoformat e t))"

definition parse_limits_arg :: "auth_env \<Rightarrow> capital_mandate_limits + pydict \<Rightarrow> capital_mandate_limits res" where
  "parse_limits_arg e a =
     (case a of
        Inl l \<Rightarrow> Inr l
      | Inr d \<Rightarrow> (case limits_validate e d of
                    None \<Rightarrow> Inl (ValueError ''CapitalMandateLimits'') | Some l \<Rightarrow> Inr l))"

definition parse_kill_arg :: "auth_env \<Rightarrow> kill_switch_scope + pydict \<Rightarrow> kill_switch_scope res" where
  "parse_kill_arg e a =
     (case a of
        Inl k \<Rightarrow> Inr k
      | Inr d \<Rightarrow> (case kill_switch_validate e d of
                    None \<Rightarrow> Inl (ValueError ''CapitalMandateKillSwitchScope'') | Some k \<Rightarrow> Inr k))"

definition policy_payload_of :: "capital_mandate \<Rightarrow> pydict" where
  "policy_payload_of m =
     [(''source_ips_id'', opt_dump PStr (cm_source_ips_id m)),
      (''profile_snapshot'', PDict (cm_profile_snapshot m)),
      (''investment_objectives'', PDict (cm_investment_objectives m)),
      (''risk_profile'', PDict (cm_risk_profile m)),
      (''allowed_asset_classes'', strs (cm_allowed_asset_classes m)),
      (''restricted_asset_classes'', strs (cm_restricted_asset_classes m)),
      (''allowed_action_types'', strs (cm_allowed_action_types m)),
      (''restricted_action_types'', strs (cm_restricted_action_types m)),
      (''autonomy_level'', PStr (cm_autonomy_level m)),
      (''limit_book'', PDict (cm_limit_book m)),
      (''kill_switch_rules'', PList (map PDict (cm_kill_switch_rules m))),
      (''review_cadence'', PDict (cm_review_cadence m))]"

definition build_mandate_version ::
  "auth_env \<Rightarrow> capital_mandate \<Rightarrow> string \<Rightarrow> capital_mandate_limits \<Rightarrow> kill_switch_scope \<Rightarrow> string \<Rightarrow>
   string option \<Rightarrow> string option \<Rightarrow> string option \<Rightarrow> auth_db \<Rightarrow> capital_mandate_version" where
  "build_mandate_version e m principal_id typed_limits kill effective_at expires_at actor_ref
       legacy_label db =
     (let previous = pick_latest e 1 mv_version_number
                       (filter (\<lambda>v. mv_capital_mandate_id v = cm_capital_mandate_id m \<and>
                                    mv_principal_id v = principal_id) (versions db));
          version_number = (case previous of None \<Rightarrow> 1 | Some p \<Rightarrow> mv_version_number p + 1);
          policy_payload = policy_payload_of m;
          typed_payload = limits_dump e typed_limits;
          kill_payload = kill_switch_dump kill;
          hash = content_hash e (PDict
            [(''capital_mandate_id'', PStr (cm_capital_mandate_id m)),
             (''principal_id'', PStr principal_id), (''version_number'', PInt version_number),
             (''policy_payload'', PDict policy_payload), (''typed_limits'', PDict typed_payload),
             (''kill_switch_scope'', PDict kill_payload),
             (''effective_at_utc'', PStr effective_at),
             (''expires_at_utc'', opt_dump PStr expires_at)])
      in \<lparr>mv_mandate_version_id =
            cm_capital_mandate_id m @ '':v'' @ int_str version_number @ '':'' @ take 12 hash,
          mv_capital_mandate_id = cm_capital_mandate_id m, mv_principal_id = principal_id,
          mv_version_number = version_number, mv_mandate_content_hash = hash,
          mv_effective_at_utc = effective_at, mv_expires_at_utc = expires_at,
          mv_supersedes_version_id = map_option mv_mandate_version_id previous,
          mv_policy_payload = policy_payload, mv_typed_limits = typed_payload,
          mv_kill_switch_scope = kill_payload, mv_source_refs = cm_source_refs m,
          mv_receipt_refs = cm_receipt_refs m, mv_receipt_ref = cm_receipt_ref m,
          mv_authenticated_actor_receipt_ref = actor_ref, mv_legacy_actor_label = legacy_label,
          mv_legacy_actor_label_verified = False, mv_execution_allowed = False,
          mv_authority_transition = False, mv_created_at_utc = cm_created_at_utc m,
          mv_as_of_utc = cm_as_of_utc m\<rparr>)"

definition mk_lifecycle_event ::
  "auth_env \<Rightarrow> nat \<Rightarrow> capital_mandate_version \<Rightarrow> string \<Rightarrow> string \<Rightarrow> string \<Rightarrow> string \<Rightarrow> string \<Rightarrow>
   string option \<Rightarrow> lifecycle_event" where
  "mk_lifecycle_event e i v event_type actor reason receipt_ref effective_at created_at =
     \<lparr>le_mandate_lifecycle_event_id = ''mandate_event_'' @ stamp e i @ ''_'' @ uuid8 e i,
      le_capital_mandate_id = mv_capital_mandate_id v,
      le_mandate_version_id = mv_mandate_version_id v, le_principal_id = mv_principal_id v,
      le_event_type = event_type, le_effective_at_utc = effective_at,
      le_authenticated_actor_principal_id = actor, le_reason = py_strip reason,
      le_receipt_ref = receipt_ref, le_source_refs = mv_source_refs v,
      le_execution_allowed = False, le_created_at_utc = or_else created_at (clock e i),
      le_as_of_utc = effective_at\<rparr>"

definition mk_capital_mandate ::
  "auth_env \<Rightarrow> mandate_args \<Rightarrow> operator_context \<Rightarrow> string \<Rightarrow> investment_policy_statement option \<Rightarrow>
   string \<Rightarrow> string \<Rightarrow> capital_mandate" where
  "mk_capital_mandate e a c resolved_id source_ips receipt_ref created_at =
     (let ips_ref = (case source_ips of None \<Rightarrow> None | Some s \<Rightarrow> truthy (ip_receipt_ref s));
          refs = (case ips_ref of
                    None \<Rightarrow> ma_receipt_refs a
                  | Some r \<Rightarrow> if r \<in> set (ma_receipt_refs a) then ma_receipt_refs a
                              else ma_receipt_refs a @ [r])
      in \<lparr>cm_capital_mandate_id = resolved_id, cm_status = ''active'',
          cm_source_ips_id = map_option ip_ips_id source_ips,
          cm_profile_snapshot = ma_profile_snapshot a,
          cm_investment_objectives = ma_investment_objectives a,
          cm_risk_profile = ma_risk_profile a,
          cm_allowed_asset_classes = ma_allowed_asset_classes a,
          cm_restricted_asset_classes = ma_restricted_asset_classes a,
          cm_allowed_action_types = ma_allowed_action_types a,
          cm_restricted_action_types = ma_restricted_action_types a,
          cm_autonomy_level = ma_autonomy_level a, cm_limit_book = ma_limit_book a,
          cm_kill_switch_rules = ma_kill_switch_rules a, cm_review_cadence = ma_review_cadence a,
          cm_human_attester = py_strip (pi_principal_id (oc_principal c)),
          cm_human_reason = py_strip (ma_human_reason a), cm_explicit_confirmation = True,
          cm_source_refs = ma_source_refs a, cm_receipt_refs = refs,
          cm_non_claims = CAPITAL_MANDATE_NON_CLAIMS, cm_receipt_ref = Some receipt_ref,
          cm_execution_allowed = False, cm_authority_transition = False,
          cm_created_at_utc = created_at, cm_as_of_utc = created_at\<rparr>)"

text \<open>
  Everything the write decides before it touches a file or a table, from what its sessions read.
\<close>

record mandate_plan =
  mp_administration :: administration_decision
  mp_source_ips :: "investment_policy_statement option"
  mp_receipt_id :: string
  mp_path :: string
  mp_mandate :: capital_mandate
  mp_version :: capital_mandate_version
  mp_activation :: lifecycle_event
  mp_superseded :: "capital_mandate list"

definition plan_capital_mandate ::
  "auth_env \<Rightarrow> operator_context \<Rightarrow> mandate_args \<Rightarrow> mandate_reads \<Rightarrow> mandate_plan res" where
  "plan_capital_mandate e c a reads =
     (let principal_id = pi_principal_id (oc_principal c) in
      rbind (require_authority_administration e 0 c ''mandate_create_or_replace'' None) (\<lambda>administration.
      rbind (require_attestation principal_id (ma_human_reason a) (ma_explicit_confirmation a)) (\<lambda>_.
      rbind (case truthy (ma_created_at_utc a) of None \<Rightarrow> Inr (clock e 1) | Some s \<Rightarrow> normalized_time e s) (\<lambda>created_at.
      rbind (normalized_time e (or_else (ma_effective_at_utc a) created_at)) (\<lambda>effective_at.
      rbind (case truthy (ma_expires_at_utc a) of None \<Rightarrow> Inr None
             | Some s \<Rightarrow> rbind (normalized_time e s) (\<lambda>x. Inr (Some x))) (\<lambda>expires_at.
      rbind (require_ordered_time e effective_at expires_at) (\<lambda>_.
      rbind (parse_limits_arg e (ma_typed_limits a)) (\<lambda>limits.
      rbind (parse_kill_arg e (ma_kill_switch_scope a)) (\<lambda>kill.
      let resolved_id = (case truthy (ma_capital_mandate_id a) of
                           Some i \<Rightarrow> safe_id i
                         | None \<Rightarrow> ''capital_mandate_'' @ stamp e 1 @ ''_'' @ uuid8 e 1) in
      rbind (require_mandate_series_owner reads resolved_id principal_id) (\<lambda>_.
      rbind (resolve_source_ips e (ma_source_ips_id a) (reads 2)) (\<lambda>source_ips.
      let receipt_id = ''receipt_capital_mandate_'' @ stamp e 2 @ ''_'' @ uuid8 e 2 in
      rbind (case resolve_path e [''capital-mandates'', receipt_id @ ''.json''] of
               None \<Rightarrow> Inl ReceiptPathError | Some t \<Rightarrow> Inr t) (\<lambda>path.
      let mandate = mk_capital_mandate e a c resolved_id source_ips (display_path e path) created_at;
          version = build_mandate_version e mandate principal_id limits kill effective_at expires_at
                      (ma_authenticated_actor_receipt_ref a)
                      (pi_legacy_label (oc_principal c)) (reads 3);
          activation = mk_lifecycle_event e 3 version ''activated'' principal_id (ma_human_reason a)
                         (display_path e path) effective_at None in
      rbind (supersede_active_mandates reads resolved_id principal_id) (\<lambda>superseded.
        Inr \<lparr>mp_administration = administration, mp_source_ips = source_ips,
             mp_receipt_id = receipt_id, mp_path = path, mp_mandate = mandate,
             mp_version = version, mp_activation = activation, mp_superseded = superseded\<rparr>)))))))))))))"

definition mandate_rows :: "auth_env \<Rightarrow> mandate_plan \<Rightarrow> auth_row list" where
  "mandate_rows e p =
     (let m = mp_mandate p in
      map AMandate (mp_superseded p) @
      [AMandate m, AVersion (mp_version p), AEvent (mp_activation p),
       AIndex (auth_index_row e (mp_receipt_id p) ''state_core_capital_mandate'' (mp_path p)
                 (cm_created_at_utc m) (cm_source_refs m)
                 (cm_capital_mandate_id m #
                  (case truthy (cm_source_ips_id m) of None \<Rightarrow> [] | Some i \<Rightarrow> [i]) @
                  cm_receipt_refs m))])"

text \<open>
  The two writes of the call: the receipt file, then one transaction for the rows, after whose
  failure a receipt that was not there before is removed.
\<close>

definition write_mandate_receipt :: "mandate_plan \<Rightarrow> auth_db \<Rightarrow> auth_db" where
  "write_mandate_receipt p db =
     write_auth_file (mp_path p)
       (MandateReceipt (mp_receipt_id p) (cm_created_at_utc (mp_mandate p)) (mp_mandate p)
          (mp_version p) (mp_activation p) (mp_administration p) (mp_source_ips p)) db"

definition store_capital_mandate ::
  "auth_env \<Rightarrow> bool \<Rightarrow> mandate_plan \<Rightarrow> auth_db \<Rightarrow> capital_mandate res \<times> auth_db" where
  "store_capital_mandate e receipt_existed p db =
     (case upsert_records e 0 (mandate_rows e p) db of
        (Inl x, db2) \<Rightarrow> (Inl x, if receipt_existed then db2
                                else remove_file_best_effort e (mp_path p) db2)
      | (Inr _, db2) \<Rightarrow> (Inr (mp_mandate p), db2))"

text \<open>The whole call when no other call runs between its sessions: every session sees one store.\<close>

definition record_capital_mandate ::
  "auth_env \<Rightarrow> operator_context \<Rightarrow> mandate_args \<Rightarrow> auth_db \<Rightarrow> capital_mandate res \<times> auth_db" where
  "record_capital_mandate e c a db =
     (case plan_capital_mandate e c a (\<lambda>_. db) of
        Inl x \<Rightarrow> (Inl x, db)
      | Inr p \<Rightarrow>
          let receipt_existed = auth_files db (mp_path p) \<noteq> None in
          if write_fails e (mp_path p) then (Inl (OsError (mp_path p)), db)
          else store_capital_mandate e receipt_existed p (write_mandate_receipt p db))"

section \<open>Lifecycle commands\<close>

text \<open>
  A command runs in one write transaction (commit 0 stands for acquiring the lock, commit 1 for
  its end).  Once the receipt path is known every failure removes the file at that path.
\<close>

definition check_lifecycle_state ::
  "string \<Rightarrow> string \<Rightarrow> string list \<Rightarrow> resolved_mandate \<Rightarrow> capital_mandate_version res" where
  "check_lifecycle_state capital_mandate_id event_type allowed_from r =
     (if ''mandate_series_owner_conflict'' \<in> set (rm_deny_reasons r)
      then Inl (MandateError ''mandate_series_owner_conflict'')
      else case rm_version r of
             None \<Rightarrow> Inl (MandateError ''current principal mandate does not match command'')
           | Some version \<Rightarrow>
               if mv_capital_mandate_id version \<noteq> capital_mandate_id
               then Inl (MandateError ''current principal mandate does not match command'')
               else if rm_status r \<notin> set allowed_from
               then Inl (MandateError (''cannot apply '' @ event_type @ '' to mandate in '' @
                                       rm_status r @ '' state''))
               else Inr version)"

definition record_lifecycle_command ::
  "auth_env \<Rightarrow> operator_context \<Rightarrow> string \<Rightarrow> string \<Rightarrow> string \<Rightarrow> string option \<Rightarrow>
   auth_db \<Rightarrow> lifecycle_event res \<times> auth_db" where
  "record_lifecycle_command e c capital_mandate_id operation reason effective_at_utc db =
     (case map_of CAPITAL_MANDATE_LIFECYCLE_COMMANDS operation of
        None \<Rightarrow> (Inl (MandateError ''unsupported mandate lifecycle operation''), db)
      | Some (event_type, allowed_from) \<Rightarrow>
          let principal_id = pi_principal_id (oc_principal c) in
          if py_strip reason = []
          then (Inl (MandateError ''mandate lifecycle reason is required''), db)
          else if commit_fails e 0
          then (Inl (StoreError ''mandate lifecycle atomic write failed''), db)
          else
            let checked_at = clock e 0 in
            case rbind (require_authority_administration e 0 c operation (Some checked_at)) (\<lambda>administration.
                 rbind (if map_of AUTHORITY_ADMINISTRATION_OPERATION_EFFECT operation = Some ''reducing''
                        then Inr checked_at
                        else normalized_time e (or_else effective_at_utc checked_at)) (\<lambda>resolved_at.
                 rbind (resolve_in_session e principal_id resolved_at db) (\<lambda>r.
                 rbind (check_lifecycle_state capital_mandate_id event_type allowed_from r) (\<lambda>version.
                 let receipt_id = ''receipt_capital_mandate_'' @ event_type @ ''_'' @ stamp e 1 @ ''_'' @ uuid8 e 1 in
                 rbind (case resolve_path e [''capital-mandates'', ''lifecycle'', receipt_id @ ''.json''] of
                          None \<Rightarrow> Inl ReceiptPathError | Some t \<Rightarrow> Inr t) (\<lambda>path.
                   Inr (administration, resolved_at, r, version, receipt_id, path)))))) of
              Inl x \<Rightarrow> (Inl x, db)
            | Inr (administration, resolved_at, r, version, receipt_id, path) \<Rightarrow>
                let event = mk_lifecycle_event e 2 version event_type principal_id reason
                              (display_path e path) resolved_at (Some checked_at);
                    failed = (\<lambda>s. (Inl (StoreError ''mandate lifecycle atomic write failed''),
                                   remove_file_best_effort e path s))
                in if write_fails e path then failed db
                   else
                     let db1 = write_auth_file path
                                 (LifecycleReceipt receipt_id checked_at version event r administration) db;
                         index = auth_index_row e receipt_id ''capital_mandate_lifecycle'' path checked_at
                                   (le_source_refs event)
                                   [capital_mandate_id, mv_mandate_version_id version, principal_id]
                     in case add_rows [AEvent event, AIndex index] db1 of
                          None \<Rightarrow> failed db1
                        | Some db2 \<Rightarrow> if commit_fails e 1 then failed db1 else (Inr event, db2))"

definition suspend_capital_mandate ::
  "auth_env \<Rightarrow> operator_context \<Rightarrow> string \<Rightarrow> string \<Rightarrow> auth_db \<Rightarrow> lifecycle_event res \<times> auth_db" where
  "suspend_capital_mandate e c capital_mandate_id reason db =
     record_lifecycle_command e c capital_mandate_id ''mandate_suspend'' reason None db"

definition resume_capital_mandate ::
  "auth_env \<Rightarrow> operator_context \<Rightarrow> string \<Rightarrow> string \<Rightarrow> string option \<Rightarrow> auth_db \<Rightarrow> lifecycle_event res \<times> auth_db" where
  "resume_capital_mandate e c capital_mandate_id reason effective_at db =
     record_lifecycle_command e c capital_mandate_id ''mandate_resume'' reason effective_at db"

definition revoke_capital_mandate ::
  "auth_env \<Rightarrow> operator_context \<Rightarrow> string \<Rightarrow> string \<Rightarrow> auth_db \<Rightarrow> lifecycle_event res \<times> auth_db" where
  "revoke_capital_mandate e c capital_mandate_id reason db =
     record_lifecycle_command e c capital_mandate_id ''mandate_revoke'' reason None db"

end
