(* ===== verification/Authority_Grants.thy ===== *)
theory Authority_Grants
  imports Capital_Mandates
begin

text \<open>
  Agent authority grants (\<^verbatim>\<open>statecore/agent_authority_grants.py\<close>): the closed scope contract and
  scope attenuation, the forbidden-token screen, the money contract with the mandate, dynamic
  validation, and the four operations: create, validate, consume and revoke.
\<close>

section \<open>Vocabulary\<close>

definition AGENT_AUTHORITY_GRANT_NON_CLAIMS :: "string list" where
  "AGENT_AUTHORITY_GRANT_NON_CLAIMS =
     [''AgentAuthorityGrant is a mandate-bound authority credential, not authentication.'',
      ''AgentAuthorityGrant does not approve trade plans or investment decisions.'',
      ''AgentAuthorityGrant does not submit orders or create broker authority.'',
      ''AgentAuthorityGrant does not bypass preflight or authorize execution.'']"

definition AGENT_AUTHORITY_GRANT_DENY_REASONS :: "deny_reason list" where
  "AGENT_AUTHORITY_GRANT_DENY_REASONS =
     [Grant_not_found, Grant_not_active, Grant_expired, Principal_mismatch, Agent_runtime_mismatch,
      Legacy_currency_unbound_grant, Currency_mismatch, Mandate_series_owner_conflict,
      Mandate_version_changed, Grant_exhausted, Grant_notional_exhausted, Nonce_replayed,
      Capital_mandate_not_found, Capital_mandate_not_active, Grant_scope_exceeds_mandate,
      Requested_scope_exceeds_grant, Forbidden_execution_semantics, Forbidden_approval_semantics,
      Forbidden_broker_semantics, Forbidden_preflight_bypass_semantics]"

fun reason_text :: "deny_reason \<Rightarrow> string" where
  "reason_text Grant_not_found = ''grant_not_found''"
| "reason_text Grant_not_active = ''grant_not_active''"
| "reason_text Grant_expired = ''grant_expired''"
| "reason_text Principal_mismatch = ''principal_mismatch''"
| "reason_text Agent_runtime_mismatch = ''agent_runtime_mismatch''"
| "reason_text Legacy_currency_unbound_grant = ''legacy_currency_unbound_grant''"
| "reason_text Currency_mismatch = ''currency_mismatch''"
| "reason_text Mandate_series_owner_conflict = ''mandate_series_owner_conflict''"
| "reason_text Mandate_version_changed = ''mandate_version_changed''"
| "reason_text Grant_exhausted = ''grant_exhausted''"
| "reason_text Grant_notional_exhausted = ''grant_notional_exhausted''"
| "reason_text Nonce_replayed = ''nonce_replayed''"
| "reason_text Capital_mandate_not_found = ''capital_mandate_not_found''"
| "reason_text Capital_mandate_not_active = ''capital_mandate_not_active''"
| "reason_text Grant_scope_exceeds_mandate = ''grant_scope_exceeds_mandate''"
| "reason_text Requested_scope_exceeds_grant = ''requested_scope_exceeds_grant''"
| "reason_text Forbidden_execution_semantics = ''forbidden_execution_semantics''"
| "reason_text Forbidden_approval_semantics = ''forbidden_approval_semantics''"
| "reason_text Forbidden_broker_semantics = ''forbidden_broker_semantics''"
| "reason_text Forbidden_preflight_bypass_semantics = ''forbidden_preflight_bypass_semantics''"

definition GRANT_SCOPE_FIELDS :: "string list" where
  "GRANT_SCOPE_FIELDS =
     [''allowed_asset_classes'', ''allowed_action_types'', ''autonomy_level'', ''product_ids'',
      ''instrument_ids'', ''action_types'', ''directions'', ''broker_ids'', ''max_notional'']"

definition GRANT_SCOPE_SET_FIELDS :: "string list" where
  "GRANT_SCOPE_SET_FIELDS =
     filter (\<lambda>k. k \<noteq> ''autonomy_level'' \<and> k \<noteq> ''max_notional'') GRANT_SCOPE_FIELDS"

definition FORBIDDEN_SCOPE_TOKENS :: "(string \<times> deny_reason) list" where
  "FORBIDDEN_SCOPE_TOKENS =
     [(''execute'', Forbidden_execution_semantics), (''execution'', Forbidden_execution_semantics),
      (''live_execution'', Forbidden_execution_semantics),
      (''execution_authorization'', Forbidden_execution_semantics),
      (''approve'', Forbidden_approval_semantics), (''approval'', Forbidden_approval_semantics),
      (''approve_trade_plan'', Forbidden_approval_semantics),
      (''trade_plan_approval'', Forbidden_approval_semantics),
      (''submit_order'', Forbidden_broker_semantics), (''order_submit'', Forbidden_broker_semantics),
      (''order_ticket'', Forbidden_broker_semantics), (''broker'', Forbidden_broker_semantics),
      (''broker_submit'', Forbidden_broker_semantics),
      (''broker_submission'', Forbidden_broker_semantics),
      (''broker_authority'', Forbidden_broker_semantics),
      (''bypass_preflight'', Forbidden_preflight_bypass_semantics),
      (''preflight_bypass'', Forbidden_preflight_bypass_semantics),
      (''override_preflight'', Forbidden_preflight_bypass_semantics),
      (''override_policy'', Forbidden_preflight_bypass_semantics)]"

section \<open>Scopes\<close>

fun string_set :: "auth_env \<Rightarrow> pyval \<Rightarrow> string list" where
  "string_set e (PStr s) = [s]"
| "string_set e (PList vs) = map (py_str e) vs"
| "string_set e _ = []"

fun scope_values :: "pyval \<Rightarrow> pyval list option" where
  "scope_values (PStr s) = Some [PStr s]"
| "scope_values (PList vs) = Some vs"
| "scope_values _ = None"

fun explicit_item :: "pyval \<Rightarrow> bool" where
  "explicit_item (PStr s) = explicit_value s"
| "explicit_item _ = False"

definition scope_set_field_ok :: "pyval \<Rightarrow> bool" where
  "scope_set_field_ok v =
     (v = PNone \<or>
      (case scope_values v of None \<Rightarrow> False | Some vs \<Rightarrow> list_all explicit_item vs \<and> distinct vs))"

definition money_value :: "auth_env \<Rightarrow> pyval \<Rightarrow> monetary_amount option" where
  "money_value e v = (if v = PNone then None else money_validate e v)"

definition scope_contract_valid :: "auth_env \<Rightarrow> pydict \<Rightarrow> bool" where
  "scope_contract_valid e scope \<longleftrightarrow>
     keys_within scope GRANT_SCOPE_FIELDS \<and>
     list_all (\<lambda>k. scope_set_field_ok (dict_get scope k)) GRANT_SCOPE_SET_FIELDS \<and>
     (case dict_get scope ''autonomy_level'' of PNone \<Rightarrow> True | PStr _ \<Rightarrow> True | _ \<Rightarrow> False) \<and>
     (dict_get scope ''max_notional'' = PNone \<or>
      money_value e (dict_get scope ''max_notional'') \<noteq> None)"

definition autonomy_rank :: "string \<Rightarrow> nat option" where
  "autonomy_rank level = map_of (zip CAPITAL_MANDATE_AUTONOMY_LEVELS [0..<4]) level"

text \<open>
  The scope a request is compared with: a grant's own dictionary, or the dictionary assembled
  from a mandate version.  \<open>sl_max_notional\<close> is what \<^verbatim>\<open>_money_value\<close> makes of the entry.
\<close>

record scope_limit =
  sl_field :: "string \<Rightarrow> pyval"
  sl_max_notional :: "monetary_amount option"

definition autonomy_within :: "pyval \<Rightarrow> pyval \<Rightarrow> bool" where
  "autonomy_within requested allowed =
     (requested = PNone \<or>
      (case (requested, allowed) of
         (PStr r, PStr a) \<Rightarrow>
           (case (autonomy_rank r, autonomy_rank a) of (Some i, Some j) \<Rightarrow> i \<le> j | _ \<Rightarrow> False)
       | _ \<Rightarrow> False))"

definition notional_within :: "auth_env \<Rightarrow> pyval \<Rightarrow> monetary_amount option \<Rightarrow> bool" where
  "notional_within e requested_value allowed =
     (case money_value e requested_value of
        None \<Rightarrow> requested_value = PNone
      | Some r \<Rightarrow>
          (case allowed of None \<Rightarrow> False
           | Some a \<Rightarrow> currency r = currency a \<and> dec_le (amount r) (amount a)))"

definition scope_within_limit ::
  "auth_env \<Rightarrow> pydict \<Rightarrow> scope_limit \<Rightarrow> string list \<Rightarrow> string list \<Rightarrow> string list \<Rightarrow> bool" where
  "scope_within_limit e requested allowed restricted_asset_classes restricted_action_types unbounded_keys \<longleftrightarrow>
     scope_contract_valid e requested \<and>
     (let assets = set (string_set e (dict_get requested ''allowed_asset_classes''));
          actions = set (string_set e (dict_get requested ''allowed_action_types''))
      in assets \<subseteq> set (string_set e (sl_field allowed ''allowed_asset_classes'')) \<and>
         assets \<inter> set restricted_asset_classes = {} \<and>
         actions \<subseteq> set (string_set e (sl_field allowed ''allowed_action_types'')) \<and>
         actions \<inter> set restricted_action_types = {}) \<and>
     list_all (\<lambda>k. k \<in> set unbounded_keys \<or>
                  set (string_set e (dict_get requested k)) \<subseteq> set (string_set e (sl_field allowed k)))
       [''product_ids'', ''instrument_ids'', ''action_types'', ''directions'', ''broker_ids''] \<and>
     notional_within e (dict_get requested ''max_notional'') (sl_max_notional allowed) \<and>
     autonomy_within (dict_get requested ''autonomy_level'') (sl_field allowed ''autonomy_level'')"

definition grant_limit :: "auth_env \<Rightarrow> pydict \<Rightarrow> scope_limit" where
  "grant_limit e scope =
     \<lparr>sl_field = dict_get scope, sl_max_notional = money_value e (dict_get scope ''max_notional'')\<rparr>"

definition scope_within_scope :: "auth_env \<Rightarrow> pydict \<Rightarrow> pydict \<Rightarrow> bool" where
  "scope_within_scope e requested allowed = scope_within_limit e requested (grant_limit e allowed) [] [] []"

definition validated_mandate_limits :: "auth_env \<Rightarrow> capital_mandate_version \<Rightarrow> capital_mandate_limits option" where
  "validated_mandate_limits e v = limits_validate e (mv_typed_limits v)"

definition mandate_limit :: "capital_mandate_limits \<Rightarrow> pydict \<Rightarrow> scope_limit" where
  "mandate_limit l policy =
     \<lparr>sl_field = dict_get
        [(''allowed_asset_classes'', dict_get_or policy ''allowed_asset_classes'' (PList [])),
         (''allowed_action_types'', dict_get_or policy ''allowed_action_types'' (PList [])),
         (''autonomy_level'', dict_get_or policy ''autonomy_level'' (PStr ''L0_observe_only'')),
         (''product_ids'', strs (cl_product_ids l)), (''instrument_ids'', strs (cl_instrument_ids l)),
         (''action_types'', strs (cl_action_types l)),
         (''directions'', strs (ms_values (cl_direction_scope l))),
         (''broker_ids'', strs (ms_values (cl_broker_scope l)))],
      sl_max_notional = cl_max_notional l\<rparr>"

definition unbounded_scope_keys :: "capital_mandate_limits \<Rightarrow> string list" where
  "unbounded_scope_keys l =
     (if ms_mode (cl_direction_scope l) = ''wildcard'' then [''directions''] else []) @
     (if ms_mode (cl_broker_scope l) = ''wildcard'' then [''broker_ids''] else [])"

definition scope_within_mandate :: "auth_env \<Rightarrow> pydict \<Rightarrow> capital_mandate_version \<Rightarrow> bool" where
  "scope_within_mandate e scope v =
     (case validated_mandate_limits e v of
        None \<Rightarrow> False
      | Some l \<Rightarrow>
          scope_within_limit e scope (mandate_limit l (mv_policy_payload v))
            (string_set e (dict_get_or (mv_policy_payload v) ''restricted_asset_classes'' (PList [])))
            (string_set e (dict_get_or (mv_policy_payload v) ''restricted_action_types'' (PList [])))
            (unbounded_scope_keys l))"

section \<open>Forbidden tokens\<close>

definition token_char :: "char \<Rightarrow> bool" where
  "token_char c =
     (let n = (of_char c :: nat) in (97 \<le> n \<and> n \<le> 122) \<or> (48 \<le> n \<and> n \<le> 57))"

fun token_parts :: "string \<Rightarrow> string \<Rightarrow> string list" where
  "token_parts acc [] = (if acc = [] then [] else [rev acc])"
| "token_parts acc (c # cs) =
     (if token_char c then token_parts (c # acc) cs
      else (if acc = [] then [] else [rev acc]) @ token_parts [] cs)"

definition normalize_token :: "string \<Rightarrow> string" where
  "normalize_token s = py_join ''_'' (token_parts [] (py_lower s))"

definition str_tokens :: "string \<Rightarrow> string list" where
  "str_tokens s = (let t = normalize_token s in if t = [] then [] else [t])"

fun scope_tokens :: "pyval \<Rightarrow> string list" where
  "scope_tokens (PStr s) = str_tokens s"
| "scope_tokens (PList vs) = concat (map scope_tokens vs)"
| "scope_tokens (PDict d) = concat (map (\<lambda>kv. str_tokens (fst kv) @ scope_tokens (snd kv)) d)"
| "scope_tokens _ = []"

fun forbidden_of :: "string list \<Rightarrow> deny_reason list \<Rightarrow> deny_reason list" where
  "forbidden_of [] reasons = reasons"
| "forbidden_of (t # ts) reasons =
     (case map_of FORBIDDEN_SCOPE_TOKENS t of
        None \<Rightarrow> forbidden_of ts reasons
      | Some r \<Rightarrow> forbidden_of ts (if r \<in> set reasons then reasons else reasons @ [r]))"

definition forbidden_scope_reasons :: "pydict \<Rightarrow> deny_reason list" where
  "forbidden_scope_reasons payload = forbidden_of (scope_tokens (PDict payload)) []"

definition dedupe_reasons :: "deny_reason list \<Rightarrow> deny_reason list" where
  "dedupe_reasons reasons = filter (\<lambda>r. r \<in> set reasons) AGENT_AUTHORITY_GRANT_DENY_REASONS"

section \<open>Time and money\<close>

definition grant_parse_utc :: "'e env_scheme \<Rightarrow> string \<Rightarrow> int res" where
  "grant_parse_utc e s =
     (case fromisoformat e (replace_Z s) of
        None \<Rightarrow> Inl (GrantError (''invalid UTC timestamp: '' @ s))
      | Some (t, off) \<Rightarrow> Inr (case off of None \<Rightarrow> t | Some o' \<Rightarrow> t - o'))"

definition validate_expiry :: "'e env_scheme \<Rightarrow> string option \<Rightarrow> string \<Rightarrow> unit res" where
  "validate_expiry e expires_at created_at =
     (case expires_at of
        None \<Rightarrow> Inr ()
      | Some x \<Rightarrow> rbind (grant_parse_utc e x) (\<lambda>expires.
                  rbind (grant_parse_utc e created_at) (\<lambda>created.
                    if expires \<le> created then Inl (GrantError ''expires_at_utc must be after creation'')
                    else Inr ())))"

definition is_expired :: "auth_env \<Rightarrow> nat \<Rightarrow> string option \<Rightarrow> string option \<Rightarrow> bool res" where
  "is_expired e i expires_at now_utc =
     (case expires_at of
        None \<Rightarrow> Inr False
      | Some x \<Rightarrow> rbind (grant_parse_utc e x) (\<lambda>expires.
                  rbind (grant_parse_utc e (or_else now_utc (clock e i))) (\<lambda>now. Inr (expires \<le> now))))"

definition require_written_context :: "string \<Rightarrow> string \<Rightarrow> string \<Rightarrow> unit res" where
  "require_written_context capital_mandate_id agent_id issued_reason =
     (if py_strip capital_mandate_id = [] then Inl (GrantError ''capital_mandate_id is required'')
      else if py_strip agent_id = [] then Inl (GrantError ''agent_id is required'')
      else if py_strip issued_reason = [] then Inl (GrantError ''issued_reason is required'')
      else Inr ())"

definition require_money :: "auth_env \<Rightarrow> pyval \<Rightarrow> string \<Rightarrow> bool \<Rightarrow> monetary_amount option res" where
  "require_money e v field_name required =
     (if v = PNone
      then (if required then Inl (GrantError (field_name @ '' is required'')) else Inr None)
      else case money_value e v of
             None \<Rightarrow> Inl (GrantError (field_name @ '' must contain an exact amount and currency''))
           | Some m \<Rightarrow> Inr (Some m))"

definition mandate_money_contract_reasons ::
  "auth_env \<Rightarrow> agent_authority_grant \<Rightarrow> capital_mandate_version \<Rightarrow> monetary_amount option \<Rightarrow>
   deny_reason list" where
  "mandate_money_contract_reasons e g v requested =
     (case validated_mandate_limits e v of
        None \<Rightarrow> [Grant_scope_exceeds_mandate]
      | Some l \<Rightarrow> (case cl_max_notional l of
          None \<Rightarrow> [Grant_scope_exceeds_mandate]
        | Some cap \<Rightarrow>
            let scope_value = dict_get (ag_grant_scope g) ''max_notional'';
                scope_cap = money_value e scope_value;
                per_use = (case scope_cap of None \<Rightarrow> cap | Some s \<Rightarrow> s)
            in dedupe_reasons (
                 (case ag_notional_currency g of
                    None \<Rightarrow> [Legacy_currency_unbound_grant]
                  | Some cur \<Rightarrow> if cur \<noteq> currency cap then [Currency_mismatch] else []) @
                 (case ag_max_total_notional g of
                    None \<Rightarrow> []
                  | Some t \<Rightarrow> if dec_le t dec_zero \<or> \<not> dec_le t (amount cap)
                              then [Grant_scope_exceeds_mandate] else []) @
                 (case scope_cap of
                    None \<Rightarrow> if scope_value \<noteq> PNone then [Grant_scope_exceeds_mandate] else []
                  | Some s \<Rightarrow> if currency s \<noteq> currency cap \<or> \<not> dec_le (amount s) (amount cap)
                              then [Grant_scope_exceeds_mandate] else []) @
                 (case requested of
                    None \<Rightarrow> []
                  | Some r \<Rightarrow> if currency r \<noteq> currency per_use then [Currency_mismatch]
                              else if \<not> dec_le (amount r) (amount per_use)
                              then [Requested_scope_exceeds_grant] else []))))"

section \<open>Validation\<close>

record validation_args =
  va_requested_scope :: pydict
  va_now_utc :: "string option"
  va_principal_id :: "string option"
  va_agent_runtime_id :: "string option"
  va_nonce :: "string option"
  va_requested_notional :: pyval

definition get_mandate_version :: "auth_db \<Rightarrow> string option \<Rightarrow> capital_mandate_version option" where
  "get_mandate_version db mandate_version_id =
     (case mandate_version_id of
        None \<Rightarrow> None | Some i \<Rightarrow> tbl_get mv_mandate_version_id (versions db) i)"

definition grant_consumptions :: "auth_db \<Rightarrow> string \<Rightarrow> grant_consumption list" where
  "grant_consumptions db grant_id =
     filter (\<lambda>c. gc_agent_authority_grant_id c = grant_id) (consumptions db)"

definition used_notional :: "grant_consumption list \<Rightarrow> decimal" where
  "used_notional cs = dec_sum (map gc_requested_notional cs)"

definition when_deny :: "bool \<Rightarrow> deny_reason \<Rightarrow> deny_reason list" where
  "when_deny b r = (if b then [r] else [])"

definition resolution_reasons ::
  "agent_authority_grant \<Rightarrow> resolved_mandate option \<Rightarrow> capital_mandate_version option \<Rightarrow> deny_reason list" where
  "resolution_reasons g resolution mandate_version =
     when_deny (ag_principal_id g = None) Principal_mismatch @
     (case resolution of
        None \<Rightarrow> [Capital_mandate_not_found]
      | Some r \<Rightarrow>
          if ''mandate_series_owner_conflict'' \<in> set (rm_deny_reasons r)
          then [Mandate_series_owner_conflict]
          else if rm_version r = None then [Capital_mandate_not_found]
          else when_deny (rm_status r \<noteq> ''active'') Capital_mandate_not_active) @
     when_deny (case mandate_version of
                  None \<Rightarrow> True
                | Some v \<Rightarrow> Some (mv_principal_id v) \<noteq> ag_principal_id g \<or>
                            mv_capital_mandate_id v \<noteq> ag_capital_mandate_id g)
       Mandate_version_changed @
     when_deny (case resolution of
                  None \<Rightarrow> False
                | Some r \<Rightarrow> (case rm_version r of
                    None \<Rightarrow> False
                  | Some v \<Rightarrow> Some (mv_principal_id v) \<noteq> ag_principal_id g \<or>
                              mv_capital_mandate_id v \<noteq> ag_capital_mandate_id g \<or>
                              Some (mv_mandate_version_id v) \<noteq> ag_mandate_version_id g))
       Mandate_version_changed"

definition usage_reasons ::
  "agent_authority_grant \<Rightarrow> grant_consumption list \<Rightarrow> monetary_amount option \<Rightarrow> string option \<Rightarrow>
   deny_reason list" where
  "usage_reasons g cs requested nonce =
     (let currency_valid = (ag_notional_currency g \<noteq> None \<and>
            list_all (\<lambda>c. gc_requested_notional_currency c = ag_notional_currency g) cs);
          used = used_notional cs
      in when_deny (ag_notional_currency g = None) Legacy_currency_unbound_grant @
         when_deny (\<not> currency_valid \<and> cs \<noteq> []) Currency_mismatch @
         when_deny (case ag_max_uses g of None \<Rightarrow> False | Some n \<Rightarrow> n \<le> int (length cs)) Grant_exhausted @
         when_deny (case requested of None \<Rightarrow> False
                    | Some r \<Rightarrow> Some (currency r) \<noteq> ag_notional_currency g) Currency_mismatch @
         when_deny (case ag_max_total_notional g of
                      None \<Rightarrow> False
                    | Some cap \<Rightarrow> currency_valid \<and>
                        (dec_le cap used \<or>
                         (case requested of None \<Rightarrow> False
                          | Some r \<Rightarrow> Some (currency r) = ag_notional_currency g \<and>
                                      \<not> dec_le (dec_add used (amount r)) cap)))
           Grant_notional_exhausted @
         when_deny (case nonce of None \<Rightarrow> False | Some n \<Rightarrow> list_ex (\<lambda>c. gc_nonce c = n) cs)
           Nonce_replayed)"

definition deny_reasons_of ::
  "auth_env \<Rightarrow> validation_args \<Rightarrow> bool \<Rightarrow> agent_authority_grant \<Rightarrow> bool \<Rightarrow> resolved_mandate option \<Rightarrow>
   auth_db \<Rightarrow> deny_reason list" where
  "deny_reasons_of e a candidate g expired resolution db =
     (let mandate_version = get_mandate_version db (ag_mandate_version_id g);
          requested = money_value e (va_requested_notional a)
      in when_deny (ag_status g \<noteq> ''active'') Grant_not_active @
         when_deny expired Grant_expired @
         when_deny (va_principal_id a \<noteq> None \<and> ag_principal_id g \<noteq> va_principal_id a) Principal_mismatch @
         when_deny (va_agent_runtime_id a \<noteq> None \<and> ag_agent_runtime_id g \<noteq> va_agent_runtime_id a)
           Agent_runtime_mismatch @
         resolution_reasons g resolution mandate_version @
         when_deny (va_requested_notional a \<noteq> PNone \<and> requested = None) Currency_mismatch @
         (case mandate_version of None \<Rightarrow> [] | Some v \<Rightarrow> mandate_money_contract_reasons e g v requested) @
         (if candidate then []
          else usage_reasons g (grant_consumptions db (ag_agent_authority_grant_id g)) requested (va_nonce a)) @
         forbidden_scope_reasons (ag_grant_scope g) @
         forbidden_scope_reasons (va_requested_scope a) @
         (case mandate_version of None \<Rightarrow> []
          | Some v \<Rightarrow> when_deny (\<not> scope_within_mandate e (ag_grant_scope g) v) Grant_scope_exceeds_mandate) @
         when_deny (\<not> scope_within_scope e (va_requested_scope a) (ag_grant_scope g))
           Requested_scope_exceeds_grant)"

definition validate_agent_authority_grant ::
  "auth_env \<Rightarrow> nat \<Rightarrow> string \<Rightarrow> validation_args \<Rightarrow> agent_authority_grant option \<Rightarrow> auth_db \<Rightarrow>
   grant_validation res" where
  "validate_agent_authority_grant e i grant_id a candidate db =
     (case (case candidate of Some g \<Rightarrow> Some g
            | None \<Rightarrow> tbl_get ag_agent_authority_grant_id (grants db) grant_id) of
        None \<Rightarrow> Inr \<lparr>gv_allowed = False, gv_grant_id = grant_id, gv_capital_mandate_id = None,
                     gv_agent_id = None, gv_deny_reasons = [Grant_not_found], gv_warnings = [],
                     gv_requested_scope_within_grant = False, gv_grant_scope_within_mandate = False\<rparr>
      | Some g \<Rightarrow>
          rbind (is_expired e i (ag_expires_at_utc g) (va_now_utc a)) (\<lambda>expired.
          rbind (case ag_principal_id g of
                   None \<Rightarrow> Inr None
                 | Some p \<Rightarrow> rbind (resolve_capital_mandate e (i + 1) p (va_now_utc a) db)
                               (\<lambda>r. Inr (Some r))) (\<lambda>resolution.
          let reasons = dedupe_reasons
                (deny_reasons_of e a (candidate \<noteq> None) g expired resolution db)
          in Inr \<lparr>gv_allowed = (reasons = []), gv_grant_id = ag_agent_authority_grant_id g,
                  gv_capital_mandate_id = Some (ag_capital_mandate_id g),
                  gv_agent_id = Some (ag_agent_id g), gv_deny_reasons = reasons, gv_warnings = [],
                  gv_requested_scope_within_grant =
                    scope_within_scope e (va_requested_scope a) (ag_grant_scope g),
                  gv_grant_scope_within_mandate =
                    (case get_mandate_version db (ag_mandate_version_id g) of None \<Rightarrow> False
                     | Some v \<Rightarrow> scope_within_mandate e (ag_grant_scope g) v)\<rparr>)))"

definition join_reasons :: "deny_reason list \<Rightarrow> string" where
  "join_reasons rs = py_join '', '' (map reason_text rs)"

section \<open>Creating a grant\<close>

record grant_args =
  ga_capital_mandate_id :: string
  ga_agent_id :: string
  ga_issued_reason :: string
  ga_grant_scope :: pydict
  ga_agent_profile_name :: "string option"
  ga_expires_at_utc :: "string option"
  ga_source_refs :: "string list"
  ga_receipt_refs :: "string list"
  ga_agent_authority_grant_id :: "string option"
  ga_created_at_utc :: "string option"
  ga_agent_runtime_id :: "string option"
  ga_max_uses :: "int option"
  ga_max_total_notional :: pyval

text \<open>The linked mandate: it exists, the administrator owns its series, it resolves active and covers the scope.\<close>

definition grant_mandate ::
  "auth_env \<Rightarrow> string \<Rightarrow> grant_args \<Rightarrow> string \<Rightarrow> auth_db \<Rightarrow>
   (capital_mandate \<times> capital_mandate_version) res" where
  "grant_mandate e principal_id a created_at db =
     (case tbl_get cm_capital_mandate_id (mandates db) (ga_capital_mandate_id a) of
        None \<Rightarrow> Inl (KeyError (ga_capital_mandate_id a))
      | Some mandate \<Rightarrow>
          (case capital_mandate_series_owner db (ga_capital_mandate_id a) of
             Inl _ \<Rightarrow> Inl (GrantError ''mandate_series_owner_conflict'')
           | Inr None \<Rightarrow> Inl (GrantError ''capital mandate version is required'')
           | Inr (Some durable_owner) \<Rightarrow>
               if principal_id \<noteq> durable_owner
               then Inl (GrantError ''grant principal must own mandate series'')
               else
                 rbind (resolve_capital_mandate e 1 principal_id (Some created_at) db) (\<lambda>r.
                   case rm_version r of
                     None \<Rightarrow> Inl (GrantError ''capital mandate must resolve active'')
                   | Some v \<Rightarrow>
                       if rm_status r \<noteq> ''active'' \<or> mv_principal_id v \<noteq> principal_id \<or>
                          mv_capital_mandate_id v \<noteq> ga_capital_mandate_id a
                       then Inl (GrantError ''capital mandate must resolve active'')
                       else if \<not> scope_within_mandate e (ga_grant_scope a) v
                       then Inl (GrantError ''grant_scope exceeds capital mandate scope'')
                       else Inr (mandate, v))))"

definition grant_money ::
  "auth_env \<Rightarrow> grant_args \<Rightarrow> capital_mandate_version \<Rightarrow> (monetary_amount option \<times> string) res" where
  "grant_money e a v =
     rbind (require_money e (ga_max_total_notional a) ''max_total_notional'' False) (\<lambda>parsed.
     if (case parsed of None \<Rightarrow> False | Some m \<Rightarrow> dec_le (amount m) dec_zero)
     then Inl (GrantError ''max_total_notional amount must be positive'')
     else case money_value e (dict_get (mv_typed_limits v) ''max_notional'') of
            None \<Rightarrow> Inl (GrantError ''capital mandate max_notional must carry amount and currency'')
          | Some cap \<Rightarrow>
              if (case parsed of None \<Rightarrow> False
                  | Some m \<Rightarrow> currency m \<noteq> currency cap \<or> \<not> dec_le (amount m) (amount cap))
              then Inl (GrantError ''max_total_notional exceeds or crosses capital mandate currency'')
              else Inr (parsed,
                        case parsed of
                          Some m \<Rightarrow> currency m
                        | None \<Rightarrow> (case money_value e (dict_get (ga_grant_scope a) ''max_notional'') of
                                    Some s \<Rightarrow> currency s | None \<Rightarrow> currency cap)))"

definition mk_grant ::
  "auth_env \<Rightarrow> string \<Rightarrow> grant_args \<Rightarrow> string \<Rightarrow> string \<Rightarrow> capital_mandate \<Rightarrow> capital_mandate_version \<Rightarrow>
   monetary_amount option \<Rightarrow> string \<Rightarrow> string \<Rightarrow> agent_authority_grant" where
  "mk_grant e principal_id a created_at runtime m v parsed cur receipt_ref =
     (let mandate_receipt_ref = (case truthy (mv_receipt_ref v) of Some r \<Rightarrow> Some r | None \<Rightarrow> cm_receipt_ref m);
          refs = (case truthy mandate_receipt_ref of
                    None \<Rightarrow> ga_receipt_refs a
                  | Some r \<Rightarrow> if r \<in> set (ga_receipt_refs a) then ga_receipt_refs a
                              else ga_receipt_refs a @ [r])
      in \<lparr>ag_agent_authority_grant_id =
            (case truthy (ga_agent_authority_grant_id a) of
               Some i \<Rightarrow> safe_id i
             | None \<Rightarrow> ''agent_authority_grant_'' @ stamp e 0 @ ''_'' @ uuid8 e 0),
          ag_capital_mandate_id = cm_capital_mandate_id m,
          ag_mandate_version_id = Some (mv_mandate_version_id v), ag_principal_id = Some principal_id,
          ag_agent_runtime_id = Some runtime, ag_agent_id = py_strip (ga_agent_id a),
          ag_agent_profile_name = ga_agent_profile_name a, ag_status = ''active'',
          ag_grant_scope = ga_grant_scope a, ag_issued_by = py_strip principal_id,
          ag_issued_reason = py_strip (ga_issued_reason a),
          ag_issued_against_mandate_receipt_ref = mandate_receipt_ref,
          ag_expires_at_utc = ga_expires_at_utc a, ag_max_uses = ga_max_uses a,
          ag_max_total_notional = map_option amount parsed, ag_notional_currency = Some cur,
          ag_revoked_at_utc = None, ag_revoked_reason = None, ag_source_refs = ga_source_refs a,
          ag_receipt_refs = refs, ag_non_claims = AGENT_AUTHORITY_GRANT_NON_CLAIMS,
          ag_receipt_ref = Some receipt_ref, ag_execution_allowed = False,
          ag_authority_transition = False, ag_created_at_utc = created_at,
          ag_as_of_utc = created_at\<rparr>)"

record grant_plan =
  gp_administration :: administration_decision
  gp_mandate :: capital_mandate
  gp_version :: capital_mandate_version
  gp_receipt_id :: string
  gp_path :: string
  gp_grant :: agent_authority_grant
  gp_validation :: grant_validation

definition creation_args :: "pydict \<Rightarrow> string \<Rightarrow> validation_args" where
  "creation_args scope created_at =
     \<lparr>va_requested_scope = scope, va_now_utc = Some created_at, va_principal_id = None,
      va_agent_runtime_id = None, va_nonce = None, va_requested_notional = PNone\<rparr>"

definition plan_agent_authority_grant ::
  "auth_env \<Rightarrow> operator_context \<Rightarrow> grant_args \<Rightarrow> auth_db \<Rightarrow> grant_plan res" where
  "plan_agent_authority_grant e c a db =
     (let principal_id = pi_principal_id (oc_principal c);
          created_at = or_else (ga_created_at_utc a) (clock e 1);
          scope = ga_grant_scope a in
      rbind (require_authority_administration e 0 c ''grant_create'' None) (\<lambda>administration.
      rbind (require_written_context (ga_capital_mandate_id a) (ga_agent_id a) (ga_issued_reason a)) (\<lambda>_.
      rbind (validate_expiry e (ga_expires_at_utc a) created_at) (\<lambda>_.
      if \<not> scope_contract_valid e scope
      then Inl (GrantError ''grant_scope violates the closed structured scope contract'')
      else if forbidden_scope_reasons scope \<noteq> []
      then Inl (GrantError ''grant_scope contains forbidden semantics'')
      else
      rbind (grant_mandate e principal_id a created_at db) (\<lambda>(mandate, version).
      let runtime = py_strip (or_else (ga_agent_runtime_id a) (ga_agent_id a)) in
      if runtime = [] then Inl (GrantError ''agent_runtime_id is required'')
      else if (case ga_max_uses a of None \<Rightarrow> False | Some n \<Rightarrow> n \<le> 0)
      then Inl (GrantError ''max_uses must be positive'')
      else
      rbind (grant_money e a version) (\<lambda>(parsed, cur).
      let receipt_id = ''receipt_agent_authority_grant_'' @ stamp e 2 @ ''_'' @ uuid8 e 2 in
      rbind (case resolve_path e [''agent-authority-grants'', receipt_id @ ''.json''] of
               None \<Rightarrow> Inl ReceiptPathError | Some t \<Rightarrow> Inr t) (\<lambda>path.
      let grant = mk_grant e principal_id a created_at runtime mandate version parsed cur (display_path e path) in
      rbind (validate_agent_authority_grant e 3 (ag_agent_authority_grant_id grant)
               (creation_args scope created_at) (Some grant) db) (\<lambda>validation.
      if \<not> gv_allowed validation
      then Inl (GrantError (''grant creation validation failed: '' @ join_reasons (gv_deny_reasons validation)))
      else Inr \<lparr>gp_administration = administration, gp_mandate = mandate, gp_version = version,
                gp_receipt_id = receipt_id, gp_path = path, gp_grant = grant,
                gp_validation = validation\<rparr>))))))))"

definition record_agent_authority_grant ::
  "auth_env \<Rightarrow> operator_context \<Rightarrow> grant_args \<Rightarrow> auth_db \<Rightarrow> agent_authority_grant res \<times> auth_db" where
  "record_agent_authority_grant e c a db =
     (case plan_agent_authority_grant e c a db of
        Inl x \<Rightarrow> (Inl x, db)
      | Inr p \<Rightarrow>
          let path = gp_path p; existed = auth_files db path \<noteq> None; g = gp_grant p in
          if write_fails e path then (Inl (OsError path), db)
          else
            let db1 = write_auth_file path
                        (GrantReceipt (gp_receipt_id p) (ag_created_at_utc g) g (gp_mandate p)
                           (gp_version p) (gp_validation p) (gp_administration p)) db;
                index = auth_index_row e (gp_receipt_id p) ''state_core_agent_authority_grant'' path
                          (ag_created_at_utc g) (ag_source_refs g)
                          ([ag_agent_authority_grant_id g, ag_capital_mandate_id g, ag_agent_id g] @
                           ag_receipt_refs g)
            in case write_auth_records e 0 [AGrant g, AIndex index] db1 of
                 (Inl x, db2) \<Rightarrow> (Inl x, if existed then db2 else remove_file_best_effort e path db2)
               | (Inr _, db2) \<Rightarrow> (Inr g, db2))"

section \<open>Consuming a grant\<close>

record consume_args =
  ca_grant_id :: string
  ca_principal_id :: string
  ca_agent_runtime_id :: string
  ca_nonce :: string
  ca_requested_scope :: pydict
  ca_requested_notional :: pyval
  ca_now_utc :: "string option"

record consumption_result =
  cr_consumption :: grant_consumption
  cr_usage_count :: int
  cr_used_notional :: monetary_amount
  cr_remaining_uses :: "int option"
  cr_remaining_notional :: "monetary_amount option"

definition consume_validation_args :: "consume_args \<Rightarrow> monetary_amount \<Rightarrow> validation_args" where
  "consume_validation_args a notional =
     \<lparr>va_requested_scope = ca_requested_scope a, va_now_utc = ca_now_utc a,
      va_principal_id = Some (ca_principal_id a), va_agent_runtime_id = Some (ca_agent_runtime_id a),
      va_nonce = Some (ca_nonce a), va_requested_notional = PMoney notional\<rparr>"

definition consume_validated ::
  "auth_env \<Rightarrow> nat \<Rightarrow> string \<Rightarrow> consume_args \<Rightarrow> monetary_amount \<Rightarrow> auth_db \<Rightarrow> grant_validation res" where
  "consume_validated e i msg a notional db =
     rbind (validate_agent_authority_grant e i (ca_grant_id a) (consume_validation_args a notional) None db)
       (\<lambda>validation. if \<not> gv_allowed validation
                      then Inl (GrantError (msg @ join_reasons (gv_deny_reasons validation)))
                      else Inr validation)"

text \<open>The checks before any lock is taken; the store they see may be older than the locked one.\<close>

definition consume_precheck :: "auth_env \<Rightarrow> consume_args \<Rightarrow> auth_db \<Rightarrow> monetary_amount res" where
  "consume_precheck e a db =
     (if py_strip (ca_nonce a) = [] then Inl (GrantError ''nonce is required'')
      else
        rbind (require_money e (ca_requested_notional a) ''requested_notional'' True) (\<lambda>m.
        case m of
          None \<Rightarrow> Inl (GrantError ''requested_notional is required'')
        | Some notional \<Rightarrow>
            rbind (consume_validated e 0 ''grant consumption denied: '' a notional db)
              (\<lambda>_. Inr notional)))"

text \<open>The checks under the lock, ending with the grant, its currency, its version id and past uses.\<close>

definition consume_locked_checks ::
  "auth_env \<Rightarrow> consume_args \<Rightarrow> monetary_amount \<Rightarrow> auth_db \<Rightarrow>
   (agent_authority_grant \<times> string \<times> string \<times> grant_validation \<times> grant_consumption list) res" where
  "consume_locked_checks e a notional db =
     (case tbl_get ag_agent_authority_grant_id (grants db) (ca_grant_id a) of
        None \<Rightarrow> Inl (GrantError ''grant is not AUTH-03 bound'')
      | Some g \<Rightarrow> (case ag_mandate_version_id g of
          None \<Rightarrow> Inl (GrantError ''grant is not AUTH-03 bound'')
        | Some version_id \<Rightarrow> (case tbl_get mv_mandate_version_id (versions db) version_id of
            None \<Rightarrow> Inl (GrantError ''mandate_version_changed'')
          | Some v \<Rightarrow>
              rbind (consume_validated e 2 ''grant consumption denied under lock: '' a notional db) (\<lambda>validation.
              let money_reasons = mandate_money_contract_reasons e g v (Some notional);
                  existing = grant_consumptions db (ca_grant_id a);
                  used = used_notional existing in
              if money_reasons \<noteq> []
              then Inl (GrantError (''grant money contract denied under lock: '' @
                                    join_reasons (dedupe_reasons money_reasons)))
              else if list_ex (\<lambda>c. gc_nonce c = ca_nonce a) existing
              then Inl (GrantError ''nonce_replayed'')
              else case ag_notional_currency g of
                     None \<Rightarrow> Inl (GrantError ''legacy_currency_unbound_grant'')
                   | Some cur \<Rightarrow>
                       if currency notional \<noteq> cur \<or>
                          list_ex (\<lambda>c. gc_requested_notional_currency c \<noteq> Some cur) existing
                       then Inl (GrantError ''currency_mismatch'')
                       else if (case ag_max_uses g of None \<Rightarrow> False | Some n \<Rightarrow> n \<le> int (length existing))
                       then Inl (GrantError ''grant_exhausted'')
                       else if (case ag_max_total_notional g of None \<Rightarrow> False
                                | Some cap \<Rightarrow> \<not> dec_le (dec_add used (amount notional)) cap)
                       then Inl (GrantError ''grant_notional_exhausted'')
                       else Inr (g, cur, version_id, validation, existing)))))"

definition mk_consumption ::
  "auth_env \<Rightarrow> consume_args \<Rightarrow> monetary_amount \<Rightarrow> string \<Rightarrow> string \<Rightarrow> string \<Rightarrow> grant_consumption" where
  "mk_consumption e a notional version_id receipt_ref created_at =
     \<lparr>gc_grant_consumption_id = ''grant_consumption_'' @ stamp e 1 @ ''_'' @ uuid8 e 1,
      gc_agent_authority_grant_id = ca_grant_id a, gc_principal_id = ca_principal_id a,
      gc_agent_runtime_id = ca_agent_runtime_id a, gc_mandate_version_id = version_id,
      gc_nonce = py_strip (ca_nonce a), gc_requested_scope = ca_requested_scope a,
      gc_requested_notional = amount notional,
      gc_requested_notional_currency = Some (currency notional), gc_receipt_ref = receipt_ref,
      gc_execution_allowed = False, gc_authority_transition = False,
      gc_created_at_utc = created_at, gc_as_of_utc = created_at\<rparr>"

definition consumption_result_of ::
  "agent_authority_grant \<Rightarrow> string \<Rightarrow> grant_consumption \<Rightarrow> int \<Rightarrow> monetary_amount \<Rightarrow> consumption_result res" where
  "consumption_result_of g cur c next_count next_money =
     rbind (case ag_max_total_notional g of
              None \<Rightarrow> Inr None
            | Some cap \<Rightarrow> rbind (mk_money (dec_sub cap (amount next_money)) cur) (\<lambda>m. Inr (Some m)))
       (\<lambda>remaining.
          Inr \<lparr>cr_consumption = c, cr_usage_count = next_count, cr_used_notional = next_money,
               cr_remaining_uses = map_option (\<lambda>n. n - next_count) (ag_max_uses g),
               cr_remaining_notional = remaining\<rparr>)"

text \<open>
  The transaction (commit 0 acquires the lock, commit 1 ends it).  An exception, also one raised
  while the result is built after the commit, removes the receipt unless it was there before.
\<close>

definition consume_locked ::
  "auth_env \<Rightarrow> consume_args \<Rightarrow> monetary_amount \<Rightarrow> string \<Rightarrow> string \<Rightarrow> auth_db \<Rightarrow>
   consumption_result res \<times> auth_db" where
  "consume_locked e a notional receipt_id path db =
     (let created_at = or_else (ca_now_utc a) (clock e 4);
          existed = auth_files db path \<noteq> None;
          cleanup = (\<lambda>s. if existed then s else remove_file_best_effort e path s) in
      if commit_fails e 0 then (Inl (DbError ''BEGIN IMMEDIATE''), cleanup db)
      else case consume_locked_checks e a notional db of
        Inl x \<Rightarrow> (Inl x, cleanup db)
      | Inr (g, cur, version_id, validation, existing) \<Rightarrow>
          let c = mk_consumption e a notional version_id (display_path e path) created_at;
              next_count = int (length existing) + 1;
              next_notional = dec_add (used_notional existing) (amount notional) in
          case mk_money next_notional cur of
            Inl x \<Rightarrow> (Inl x, cleanup db)
          | Inr next_money \<Rightarrow>
              if write_fails e path then (Inl (OsError path), cleanup db)
              else
                let db1 = write_auth_file path
                            (ConsumptionReceipt receipt_id created_at c validation next_count next_money) db;
                    index = auth_index_row e receipt_id ''state_core_agent_authority_grant_consumption''
                              path created_at []
                              [ca_grant_id a, version_id, ca_principal_id a, ca_agent_runtime_id a]
                in case add_rows [AConsumption c, AIndex index] db1 of
                     None \<Rightarrow> (Inl (DbError ''flush''), cleanup db1)
                   | Some db2 \<Rightarrow>
                       if commit_fails e 1 then (Inl (DbError ''commit''), cleanup db1)
                       else case consumption_result_of g cur c next_count next_money of
                              Inl x \<Rightarrow> (Inl x, cleanup db2)
                            | Inr r \<Rightarrow> (Inr r, db2))"

text \<open>\<open>seen\<close> is the store the first validation reads, \<open>db\<close> the store once the lock is held.\<close>

definition consume_agent_authority_grant ::
  "auth_env \<Rightarrow> consume_args \<Rightarrow> auth_db \<Rightarrow> auth_db \<Rightarrow> consumption_result res \<times> auth_db" where
  "consume_agent_authority_grant e a seen db =
     (case consume_precheck e a seen of
        Inl x \<Rightarrow> (Inl x, db)
      | Inr notional \<Rightarrow>
          let receipt_id = ''receipt_agent_authority_grant_consumption_'' @ stamp e 0 @ ''_'' @ uuid8 e 0 in
          case resolve_path e [''agent-authority-grant-consumptions'', receipt_id @ ''.json''] of
            None \<Rightarrow> (Inl ReceiptPathError, db)
          | Some path \<Rightarrow> consume_locked e a notional receipt_id path db)"

section \<open>Revoking and listing\<close>

definition revoked_grant ::
  "string \<Rightarrow> string \<Rightarrow> string \<Rightarrow> agent_authority_grant \<Rightarrow> agent_authority_grant" where
  "revoked_grant timestamp reason receipt_ref g =
     g\<lparr>ag_status := ''revoked'', ag_revoked_at_utc := Some timestamp,
       ag_revoked_reason := Some (py_strip reason),
       ag_receipt_refs := ag_receipt_refs g @ [receipt_ref]\<rparr>"

definition revoke_checks ::
  "auth_env \<Rightarrow> operator_context \<Rightarrow> string \<Rightarrow> auth_db \<Rightarrow>
   (administration_decision \<times> agent_authority_grant) res" where
  "revoke_checks e c grant_id db =
     rbind (require_authority_administration e 0 c ''grant_revoke'' (Some (clock e 0))) (\<lambda>administration.
       case tbl_get ag_agent_authority_grant_id (grants db) grant_id of
         None \<Rightarrow> Inl (KeyError grant_id)
       | Some g \<Rightarrow>
           if ag_principal_id g \<noteq> Some (pi_principal_id (oc_principal c))
           then Inl (GrantError ''grant revocation principal mismatch'')
           else if ag_status g \<notin> {''active'', ''suspended''}
           then Inl (GrantError (''cannot revoke grant in '' @ ag_status g @ '' state''))
           else Inr (administration, g))"

definition revoke_agent_authority_grant ::
  "auth_env \<Rightarrow> operator_context \<Rightarrow> string \<Rightarrow> string \<Rightarrow> auth_db \<Rightarrow> agent_authority_grant res \<times> auth_db" where
  "revoke_agent_authority_grant e c grant_id reason db =
     (if py_strip reason = [] then (Inl (GrantError ''revocation reason is required''), db)
      else
        let principal_id = pi_principal_id (oc_principal c); timestamp = clock e 0;
            receipt_id = ''receipt_agent_authority_grant_revoked_'' @ stamp e 0 @ ''_'' @ uuid8 e 0 in
        case resolve_path e [''agent-authority-grants'', ''lifecycle'', receipt_id @ ''.json''] of
          None \<Rightarrow> (Inl ReceiptPathError, db)
        | Some path \<Rightarrow>
            let existed = auth_files db path \<noteq> None;
                cleanup = (\<lambda>s. if existed then s else remove_file_best_effort e path s) in
            if commit_fails e 0 then (Inl (DbError ''BEGIN IMMEDIATE''), cleanup db)
            else case revoke_checks e c grant_id db of
              Inl x \<Rightarrow> (Inl x, cleanup db)
            | Inr (administration, g) \<Rightarrow>
                let g' = revoked_grant timestamp reason (display_path e path) g in
                if write_fails e path then (Inl (OsError path), cleanup db)
                else
                  let db1 = write_auth_file path
                              (RevocationReceipt receipt_id timestamp g g' principal_id administration
                                 (py_strip reason)) db;
                      db2 = db1\<lparr>grants := tbl_update ag_agent_authority_grant_id grant_id (\<lambda>_. g') (grants db1)\<rparr>;
                      index = auth_index_row e receipt_id ''state_core_agent_authority_grant_revoked'' path
                                timestamp [] [grant_id, ag_capital_mandate_id g, principal_id]
                  in case add_rows [AIndex index] db2 of
                       None \<Rightarrow> (Inl (DbError ''flush''), cleanup db1)
                     | Some db3 \<Rightarrow> if commit_fails e 1 then (Inl (DbError ''commit''), cleanup db1)
                                   else (Inr g', db3))"

definition list_agent_authority_grants :: "string option \<Rightarrow> auth_db \<Rightarrow> agent_authority_grant list" where
  "list_agent_authority_grants agent_id db =
     sort_key ag_created_at_utc
       (filter (\<lambda>g. case agent_id of None \<Rightarrow> True | Some a \<Rightarrow> ag_agent_id g = a) (grants db))"

end
