(* ===== verification/Mandate_Resolution.thy ===== *)
theory Mandate_Resolution
  imports Capital_Mandates
begin

text \<open>
  What resolution computes: an abstract specification of the mandate in force at an instant, the
  refinement of the code to it, and its consequences (independence of row order, the effect of a
  lifecycle command).
\<close>

section \<open>The list helpers\<close>

lemma effective_rows_Inr:
  "effective_rows tm at rs = Inr qs \<longleftrightarrow>
   (\<forall>r\<in>set rs. \<exists>t. tm r = Inr t) \<and> qs = filter (\<lambda>r. projr (tm r) \<le> at) rs"
  by (induction rs arbitrary: qs) (auto simp: rbind_Inr_iff)

lemma max_from_map: "max_from k (f x) (map f ys) = f (max_from (k \<circ> f) x ys)"
  by (induction ys arbitrary: x) auto

lemma max_by_map: "max_by k (map f xs) = map_option f (max_by (k \<circ> f) xs)"
  by (cases xs) (auto simp: max_by_def max_from_map)

lemma max_keyed_Inr:
  "max_keyed key rs = Inr x \<longleftrightarrow>
   (\<forall>r\<in>set rs. \<exists>k. key r = Inr k) \<and> x = max_by (\<lambda>r. projr (key r)) rs"
proof -
  have ks: "map_res key rs = Inr ks \<longleftrightarrow> (\<forall>r\<in>set rs. \<exists>k. key r = Inr k) \<and> ks = map (\<lambda>r. projr (key r)) rs"
    for ks
    unfolding map_res_Inr_iff by (induction rs arbitrary: ks) (auto simp: list_all2_Cons1)
  have "zip (map f rs) rs = map (\<lambda>r. (f r, r)) rs" for f :: "'a \<Rightarrow> 'b"
    by (simp add: zip_map1 zip_same_conv_map)
  then have "map_option snd (max_by fst (zip (map f rs) rs)) = max_by f rs" for f :: "'a \<Rightarrow> 'b"
    by (simp add: max_by_map option.map_comp comp_def option.map_ident)
  then show ?thesis by (auto simp: max_keyed_def rbind_Inr_iff ks)
qed

lemma owners_ok_iff:
  "owners_ok db p vs \<longleftrightarrow>
   (\<forall>v\<in>set vs. capital_mandate_series_owner db (mv_capital_mandate_id v) = Inr (Some p))"
  by (induction vs) auto

section \<open>Series ownership\<close>

lemma series_owner_iff:
  "capital_mandate_series_owner db i = Inr (Some p) \<longleftrightarrow>
   (\<exists>v\<in>set (versions db). mv_capital_mandate_id v = i) \<and>
   (\<forall>v\<in>set (versions db). mv_capital_mandate_id v = i \<longrightarrow> mv_principal_id v = p)"
proof -
  let ?os = "map mv_principal_id (filter (\<lambda>v. mv_capital_mandate_id v = i) (versions db))"
  have "capital_mandate_series_owner db i = Inr (Some p) \<longleftrightarrow> remdups ?os = [p]"
    by (auto simp: capital_mandate_series_owner_def Let_def split: list.splits)
  also have "\<dots> \<longleftrightarrow> set ?os = {p}"
  proof
    assume "remdups ?os = [p]"
    then have "set (remdups ?os) = set [p]" by simp
    then show "set ?os = {p}" by simp
  next
    assume s: "set ?os = {p}"
    have "length (remdups ?os) = card (set ?os)" by (simp add: length_remdups_card_conv)
    with s obtain y where y: "remdups ?os = [y]" by (auto simp: length_Suc_conv)
    then have "set ?os = {y}" by (metis list.set(1) list.set(2) set_remdups)
    with s y show "remdups ?os = [p]" by auto
  qed
  also have "\<dots> \<longleftrightarrow> (\<exists>v\<in>set (versions db). mv_capital_mandate_id v = i) \<and>
     (\<forall>v\<in>set (versions db). mv_capital_mandate_id v = i \<longrightarrow> mv_principal_id v = p)" by auto
  finally show ?thesis .
qed

lemma series_owner_None_iff:
  "capital_mandate_series_owner db i = Inr None \<longleftrightarrow>
   (\<forall>v\<in>set (versions db). mv_capital_mandate_id v \<noteq> i)"
proof -
  let ?os = "map mv_principal_id (filter (\<lambda>v. mv_capital_mandate_id v = i) (versions db))"
  have "capital_mandate_series_owner db i = Inr None \<longleftrightarrow> remdups ?os = []"
    by (auto simp: capital_mandate_series_owner_def Let_def simp del: remdups_eq_nil_iff split: list.splits)
  then show ?thesis by (auto simp: filter_empty_conv)
qed

section \<open>The specification of resolution\<close>

definition version_key :: "auth_env \<Rightarrow> capital_mandate_version \<Rightarrow> resolution_key" where
  "version_key e v = projr (mandate_resolution_order_key e v)"

definition event_key :: "auth_env \<Rightarrow> lifecycle_event \<Rightarrow> lifecycle_key" where
  "event_key e x = projr (mandate_lifecycle_order_key e x)"

definition effective_versions :: "auth_env \<Rightarrow> string \<Rightarrow> int \<Rightarrow> auth_db \<Rightarrow> capital_mandate_version list" where
  "effective_versions e p at db =
     filter (\<lambda>v. projr (mandate_parse_utc e (mv_effective_at_utc v)) \<le> at)
       (filter (\<lambda>v. mv_principal_id v = p) (versions db))"

definition effective_events :: "auth_env \<Rightarrow> string \<Rightarrow> int \<Rightarrow> auth_db \<Rightarrow> lifecycle_event list" where
  "effective_events e vid at db =
     filter (\<lambda>x. projr (mandate_parse_utc e (le_effective_at_utc x)) \<le> at)
       (filter (\<lambda>x. le_mandate_version_id x = vid) (events db))"

definition version_times_ok :: "auth_env \<Rightarrow> string \<Rightarrow> auth_db \<Rightarrow> bool" where
  "version_times_ok e p db \<longleftrightarrow>
     (\<forall>v\<in>set (versions db). mv_principal_id v = p \<longrightarrow> (\<exists>t. mandate_parse_utc e (mv_effective_at_utc v) = Inr t))"

definition event_times_ok :: "auth_env \<Rightarrow> string \<Rightarrow> auth_db \<Rightarrow> bool" where
  "event_times_ok e vid db \<longleftrightarrow>
     (\<forall>x\<in>set (events db). le_mandate_version_id x = vid \<longrightarrow> (\<exists>t. mandate_parse_utc e (le_effective_at_utc x) = Inr t))"

text \<open>
  The mandate in force: of the versions of the principal that are effective, the greatest in the
  resolution order, with the latest of its effective lifecycle events.
\<close>

definition in_force ::
  "auth_env \<Rightarrow> string \<Rightarrow> int \<Rightarrow> auth_db \<Rightarrow> capital_mandate_version \<Rightarrow> lifecycle_event option \<Rightarrow> bool" where
  "in_force e p at db v x \<longleftrightarrow>
     max_by (version_key e) (effective_versions e p at db) = Some v \<and>
     max_by (event_key e) (effective_events e (mv_mandate_version_id v) at db) = x"

definition resolution_ok :: "auth_env \<Rightarrow> string \<Rightarrow> int \<Rightarrow> auth_db \<Rightarrow> capital_mandate_version \<Rightarrow> bool" where
  "resolution_ok e p at db v \<longleftrightarrow>
     version_times_ok e p db \<and> event_times_ok e (mv_mandate_version_id v) db \<and>
     owners_ok db p (effective_versions e p at db) \<and>
     (\<forall>w\<in>set (effective_versions e p at db). \<exists>k. mandate_resolution_order_key e w = Inr k) \<and>
     (\<forall>x\<in>set (effective_events e (mv_mandate_version_id v) at db).
        \<exists>k. mandate_lifecycle_order_key e x = Inr k)"

definition resolved_version ::
  "string \<Rightarrow> string \<Rightarrow> capital_mandate_version \<Rightarrow> lifecycle_event option \<Rightarrow> string \<Rightarrow> resolved_mandate" where
  "resolved_version p at_utc v x st =
     \<lparr>rm_principal_id = p, rm_at_utc = at_utc, rm_status = st, rm_version = Some v,
      rm_lifecycle_event = x, rm_deny_reasons = (if st = ''active'' then [] else [''mandate_'' @ st])\<rparr>"

lemma effective_versions_Inr:
  "effective_rows (\<lambda>v. mandate_parse_utc e (mv_effective_at_utc v)) at
     (filter (\<lambda>v. mv_principal_id v = p) (versions db)) = Inr vs \<longleftrightarrow>
   version_times_ok e p db \<and> vs = effective_versions e p at db"
  by (auto simp: effective_rows_Inr version_times_ok_def effective_versions_def)

lemma effective_events_Inr:
  "effective_rows (\<lambda>x. mandate_parse_utc e (le_effective_at_utc x)) at
     (filter (\<lambda>x. le_mandate_version_id x = vid) (events db)) = Inr xs \<longleftrightarrow>
   event_times_ok e vid db \<and> xs = effective_events e vid at db"
  by (auto simp: effective_rows_Inr event_times_ok_def effective_events_def)

text \<open>The code refines the specification: it answers with a version exactly when that one is in force.\<close>

lemma resolve_version_iff:
  "resolve_in_session e p at_utc db = Inr (resolved_version p at_utc v x st) \<longleftrightarrow>
   (\<exists>at. mandate_parse_utc e at_utc = Inr at \<and> resolution_ok e p at db v \<and> in_force e p at db v x \<and>
         version_status e at v x = Inr st)" (is "?L \<longleftrightarrow> ?R")
proof
  assume ?L
  then obtain at where at: "mandate_parse_utc e at_utc = Inr at"
    by (auto simp: resolve_in_session_def rbind_Inr_iff)
  let ?vs = "effective_versions e p at db"
  from \<open>?L\<close> at have vt: "version_times_ok e p db"
    by (auto simp: resolve_in_session_def rbind_Inr_iff effective_versions_Inr)
  then have vs: "effective_rows (\<lambda>v. mandate_parse_utc e (mv_effective_at_utc v)) at
     (filter (\<lambda>v. mv_principal_id v = p) (versions db)) = Inr ?vs" by (simp add: effective_versions_Inr)
  from \<open>?L\<close> at vs have ow: "owners_ok db p ?vs"
    by (auto simp: resolve_in_session_def resolved_def resolved_version_def split: if_splits)
  from \<open>?L\<close> at vs ow obtain best where
    best: "max_keyed (mandate_resolution_order_key e) ?vs = Inr best"
    by (auto simp: resolve_in_session_def rbind_Inr_iff)
  from \<open>?L\<close> at vs ow best obtain w where w: "best = Some w"
    by (cases best) (auto simp: resolve_in_session_def resolved_def resolved_version_def)
  from \<open>?L\<close> at vs ow best w obtain le where et: "event_times_ok e (mv_mandate_version_id w) db"
    and le: "max_keyed (mandate_lifecycle_order_key e) (effective_events e (mv_mandate_version_id w) at db) = Inr le"
    and st: "version_status e at w le = Inr st" and eq: "w = v" "le = x"
    by (auto simp: resolve_in_session_def rbind_Inr_iff effective_events_Inr resolved_version_def)
  show ?R
    using at vt et ow best le st eq w
    by (auto simp: resolution_ok_def in_force_def max_keyed_Inr version_key_def [abs_def] event_key_def [abs_def])
next
  assume ?R
  then obtain at where at: "mandate_parse_utc e at_utc = Inr at" and ok: "resolution_ok e p at db v"
    and f: "in_force e p at db v x" and st: "version_status e at v x = Inr st" by blast
  let ?vs = "effective_versions e p at db"
  have vs: "effective_rows (\<lambda>v. mandate_parse_utc e (mv_effective_at_utc v)) at
     (filter (\<lambda>v. mv_principal_id v = p) (versions db)) = Inr ?vs"
    using ok by (simp add: effective_versions_Inr resolution_ok_def)
  have best: "max_keyed (mandate_resolution_order_key e) ?vs = Inr (Some v)"
    using ok f by (simp add: max_keyed_Inr resolution_ok_def in_force_def version_key_def [abs_def])
  have es: "effective_rows (\<lambda>x. mandate_parse_utc e (le_effective_at_utc x)) at
     (filter (\<lambda>x. le_mandate_version_id x = mv_mandate_version_id v) (events db)) =
     Inr (effective_events e (mv_mandate_version_id v) at db)"
    using ok by (simp add: effective_events_Inr resolution_ok_def)
  have le: "max_keyed (mandate_lifecycle_order_key e) (effective_events e (mv_mandate_version_id v) at db) = Inr x"
    using ok f by (simp add: max_keyed_Inr resolution_ok_def in_force_def event_key_def [abs_def])
  show ?L
    using at vs best es le st ok
    by (simp add: resolve_in_session_def resolution_ok_def resolved_version_def)
qed

lemma resolve_Inr_cases:
  assumes L: "resolve_in_session e p at_utc db = Inr r"
  obtains (conflict) at where "mandate_parse_utc e at_utc = Inr at" and "version_times_ok e p db"
      and "\<not> owners_ok db p (effective_versions e p at db)"
      and "r = resolved p at_utc ''invalid'' [''mandate_series_owner_conflict'']"
    | (unavailable) at where "mandate_parse_utc e at_utc = Inr at" and "version_times_ok e p db"
      and "owners_ok db p (effective_versions e p at db)" and "effective_versions e p at db = []"
      and "r = resolved p at_utc ''unavailable'' [''no_effective_mandate'']"
    | (version) v x st where "r = resolved_version p at_utc v x st"
proof -
  obtain at where at: "mandate_parse_utc e at_utc = Inr at"
    using L by (auto simp: resolve_in_session_def rbind_Inr_iff)
  let ?vs = "effective_versions e p at db"
  from L at have vt: "version_times_ok e p db"
    by (auto simp: resolve_in_session_def rbind_Inr_iff effective_versions_Inr)
  then have vs: "effective_rows (\<lambda>v. mandate_parse_utc e (mv_effective_at_utc v)) at
     (filter (\<lambda>v. mv_principal_id v = p) (versions db)) = Inr ?vs" by (simp add: effective_versions_Inr)
  show thesis
  proof (cases "owners_ok db p ?vs")
    case False
    with L at vs have "r = resolved p at_utc ''invalid'' [''mandate_series_owner_conflict'']"
      by (simp add: resolve_in_session_def)
    with False at vt show thesis by (intro conflict)
  next
    case True
    from L at vs True obtain best where
      best: "max_keyed (mandate_resolution_order_key e) ?vs = Inr best"
      by (auto simp: resolve_in_session_def rbind_Inr_iff)
    show thesis
    proof (cases best)
      case None
      with best have "?vs = []" using max_by_None by (metis max_keyed_Inr)
      moreover from L at vs True best None
      have "r = resolved p at_utc ''unavailable'' [''no_effective_mandate'']"
        by (simp add: resolve_in_session_def)
      ultimately show thesis using at vt True by (intro unavailable)
    next
      case (Some v)
      from L at vs True best Some obtain x st where "r = resolved_version p at_utc v x st"
        by (simp add: resolve_in_session_def rbind_Inr_iff resolved_version_def) blast
      then show thesis by (rule version)
    qed
  qed
qed

lemma resolve_shape:
  assumes "resolve_in_session e p at_utc db = Inr r" and "rm_version r = Some v"
  shows "r = resolved_version p at_utc v (rm_lifecycle_event r) (rm_status r)"
  using assms(1)
  by (cases rule: resolve_Inr_cases) (use assms(2) in \<open>auto simp: resolved_def resolved_version_def\<close>)

lemma resolve_NoneI:
  assumes "mandate_parse_utc e at_utc = Inr at" and "version_times_ok e p db"
  shows "\<not> owners_ok db p (effective_versions e p at db) \<Longrightarrow>
           resolve_in_session e p at_utc db = Inr (resolved p at_utc ''invalid'' [''mandate_series_owner_conflict''])"
    and "effective_versions e p at db = [] \<Longrightarrow>
           resolve_in_session e p at_utc db = Inr (resolved p at_utc ''unavailable'' [''no_effective_mandate''])"
proof -
  have vs: "effective_rows (\<lambda>v. mandate_parse_utc e (mv_effective_at_utc v)) at
     (filter (\<lambda>v. mv_principal_id v = p) (versions db)) = Inr (effective_versions e p at db)"
    using assms(2) by (simp add: effective_versions_Inr)
  show "\<not> owners_ok db p (effective_versions e p at db) \<Longrightarrow>
      resolve_in_session e p at_utc db = Inr (resolved p at_utc ''invalid'' [''mandate_series_owner_conflict''])"
    using assms(1) vs by (simp add: resolve_in_session_def)
  show "effective_versions e p at db = [] \<Longrightarrow>
      resolve_in_session e p at_utc db = Inr (resolved p at_utc ''unavailable'' [''no_effective_mandate''])"
    using assms(1) vs by (simp add: resolve_in_session_def max_keyed_def max_by_def)
qed

section \<open>Row order does not matter\<close>

definition same_rows :: "auth_db \<Rightarrow> auth_db \<Rightarrow> bool" where
  "same_rows db db' \<longleftrightarrow>
     set (versions db') = set (versions db) \<and> set (events db') = set (events db) \<and>
     keyed mv_mandate_version_id (versions db) \<and> keyed le_mandate_lifecycle_event_id (events db)"

lemma keyed_inj: "keyed k t \<Longrightarrow> x \<in> set t \<Longrightarrow> y \<in> set t \<Longrightarrow> k x = k y \<Longrightarrow> x = y"
  by (auto simp: keyed_def distinct_map inj_on_def)

lemma same_rows_effective:
  assumes "same_rows db db'"
  shows "set (effective_versions e p at db') = set (effective_versions e p at db)"
    and "set (effective_events e vid at db') = set (effective_events e vid at db)"
    and "version_times_ok e p db' = version_times_ok e p db"
    and "event_times_ok e vid db' = event_times_ok e vid db"
    and "owners_ok db' p (effective_versions e p at db') = owners_ok db p (effective_versions e p at db)"
  using assms
  by (auto simp: same_rows_def effective_versions_def effective_events_def version_times_ok_def
      event_times_ok_def owners_ok_iff series_owner_iff)

lemma version_key_inj:
  assumes "same_rows db db'" and "resolution_ok e p at db v"
  shows "inj_on (version_key e) (set (effective_versions e p at db))"
proof (rule inj_onI)
  fix x y assume xy: "x \<in> set (effective_versions e p at db)" "y \<in> set (effective_versions e p at db)"
    and k: "version_key e x = version_key e y"
  from xy assms(2) obtain a b where "mandate_resolution_order_key e x = Inr a"
      "mandate_resolution_order_key e y = Inr b" unfolding resolution_ok_def by blast
  with k have "mv_mandate_version_id x = mv_mandate_version_id y"
    by (auto simp: version_key_def mandate_resolution_order_key_def rbind_Inr_iff)
  with xy assms(1) show "x = y"
    by (auto simp: same_rows_def effective_versions_def intro: keyed_inj)
qed

lemma event_key_inj:
  assumes "same_rows db db'" and "resolution_ok e p at db v"
  shows "inj_on (event_key e) (set (effective_events e (mv_mandate_version_id v) at db))"
proof (rule inj_onI)
  fix x y assume xy: "x \<in> set (effective_events e (mv_mandate_version_id v) at db)"
      "y \<in> set (effective_events e (mv_mandate_version_id v) at db)"
    and k: "event_key e x = event_key e y"
  from xy assms(2) obtain a b where "mandate_lifecycle_order_key e x = Inr a"
      "mandate_lifecycle_order_key e y = Inr b" unfolding resolution_ok_def by blast
  with k have "le_mandate_lifecycle_event_id x = le_mandate_lifecycle_event_id y"
    by (auto simp: event_key_def mandate_lifecycle_order_key_def rbind_Inr_iff)
  with xy assms(1) show "x = y"
    by (auto simp: same_rows_def effective_events_def intro: keyed_inj)
qed

lemma in_force_same_rows:
  assumes "same_rows db db'" and "resolution_ok e p at db v"
  shows "in_force e p at db' v x \<longleftrightarrow> in_force e p at db v x" and "resolution_ok e p at db' v"
proof -
  note S = same_rows_effective [OF assms(1)]
  have "max_by (version_key e) (effective_versions e p at db) =
        max_by (version_key e) (effective_versions e p at db')"
    using S(1) version_key_inj [OF assms] by (intro max_by_set_eq) simp_all
  moreover have "max_by (event_key e) (effective_events e (mv_mandate_version_id v) at db) =
        max_by (event_key e) (effective_events e (mv_mandate_version_id v) at db')"
    using S(2) event_key_inj [OF assms] by (intro max_by_set_eq) simp_all
  ultimately show "in_force e p at db' v x \<longleftrightarrow> in_force e p at db v x" by (simp add: in_force_def)
  show "resolution_ok e p at db' v" using assms(2) S by (simp add: resolution_ok_def)
qed

lemma resolve_same_rows:
  assumes "same_rows db db'" and "resolve_in_session e p at_utc db = Inr r"
  shows "resolve_in_session e p at_utc db' = Inr r"
  using assms(2)
proof (cases rule: resolve_Inr_cases)
  case (conflict at)
  with same_rows_effective [OF assms(1)] show ?thesis by (simp add: resolve_NoneI)
next
  case (unavailable at)
  with same_rows_effective [OF assms(1)] have "effective_versions e p at db' = []"
    by (metis set_empty)
  with unavailable same_rows_effective [OF assms(1)] show ?thesis by (simp add: resolve_NoneI)
next
  case (version v x st)
  with assms(2) have "resolve_in_session e p at_utc db = Inr (resolved_version p at_utc v x st)" by simp
  then have "resolve_in_session e p at_utc db' = Inr (resolved_version p at_utc v x st)"
    unfolding resolve_version_iff using in_force_same_rows [OF assms(1)] by blast
  with version show ?thesis by simp
qed

section \<open>Lifecycle commands\<close>

lemma add_event_rows:
  assumes "add_rows [AEvent x, AIndex i] db = Some db'"
  shows "db' = db\<lparr>events := events db @ [x], auth_index := auth_index db @ [i]\<rparr>"
    and "le_event_type x \<in> set CAPITAL_MANDATE_LIFECYCLE_EVENTS"
    and "\<not> tbl_has le_mandate_lifecycle_event_id (events db) (le_mandate_lifecycle_event_id x)"
    and "\<not> tbl_has ri_receipt_id (auth_index db) (ri_receipt_id i)"
  using assms by (auto simp: add_rows_def split: if_splits)

definition same_tables :: "auth_db \<Rightarrow> auth_db \<Rightarrow> bool" where
  "same_tables db db' \<longleftrightarrow>
     mandates db' = mandates db \<and> versions db' = versions db \<and> events db' = events db \<and>
     ips_rows db' = ips_rows db \<and> grants db' = grants db \<and> consumptions db' = consumptions db \<and>
     auth_index db' = auth_index db"

lemma same_tables_simps [simp]:
  "same_tables db db" "same_tables db (write_auth_file t doc db)"
  "same_tables db (remove_file_best_effort e t db')  \<longleftrightarrow> same_tables db db'"
  by (simp_all add: same_tables_def write_auth_file_def remove_file_best_effort_def)

lemma same_tables_trans: "same_tables a b \<Longrightarrow> same_tables b c \<Longrightarrow> same_tables a c"
  by (simp add: same_tables_def)

definition lifecycle_guards ::
  "auth_env \<Rightarrow> operator_context \<Rightarrow> string \<Rightarrow> string \<Rightarrow> string \<Rightarrow> string option \<Rightarrow> auth_db \<Rightarrow>
   string \<Rightarrow> resolved_mandate \<Rightarrow> capital_mandate_version \<Rightarrow> bool" where
  "lifecycle_guards e c capital_mandate_id operation reason effective_at db at_utc r v \<longleftrightarrow>
     (\<exists>d. require_authority_administration e 0 c operation (Some (clock e 0)) = Inr d) \<and>
     py_strip reason \<noteq> [] \<and>
     (if map_of AUTHORITY_ADMINISTRATION_OPERATION_EFFECT operation = Some ''reducing''
      then at_utc = clock e 0
      else normalized_time e (or_else effective_at (clock e 0)) = Inr at_utc) \<and>
     resolve_in_session e (pi_principal_id (oc_principal c)) at_utc db = Inr r \<and>
     rm_version r = Some v \<and> mv_capital_mandate_id v = capital_mandate_id \<and>
     ''mandate_series_owner_conflict'' \<notin> set (rm_deny_reasons r) \<and>
     (\<exists>et allowed. map_of CAPITAL_MANDATE_LIFECYCLE_COMMANDS operation = Some (et, allowed) \<and>
                   rm_status r \<in> set allowed)"

lemma check_lifecycle_state_Inr:
  "check_lifecycle_state i et allowed r = Inr v \<longleftrightarrow>
   ''mandate_series_owner_conflict'' \<notin> set (rm_deny_reasons r) \<and> rm_version r = Some v \<and>
   mv_capital_mandate_id v = i \<and> rm_status r \<in> set allowed"
  by (auto simp: check_lifecycle_state_def split: option.splits)

lemma lifecycle_okE:
  assumes L: "record_lifecycle_command e c i op reason ef db = (Inr x, db')"
  obtains et allowed at_utc r v path where
      "map_of CAPITAL_MANDATE_LIFECYCLE_COMMANDS op = Some (et, allowed)"
    and "lifecycle_guards e c i op reason ef db at_utc r v"
    and "x = mk_lifecycle_event e 2 v et (pi_principal_id (oc_principal c)) reason
               (display_path e path) at_utc (Some (clock e 0))"
    and "events db' = events db @ [x]" and "versions db' = versions db"
    and "mandates db' = mandates db" and "grants db' = grants db"
    and "consumptions db' = consumptions db"
    and "\<not> tbl_has le_mandate_lifecycle_event_id (events db) (le_mandate_lifecycle_event_id x)"
    and "\<exists>y. auth_index db' = auth_index db @ [y] \<and> \<not> tbl_has ri_receipt_id (auth_index db) (ri_receipt_id y)"
proof -
  obtain et allowed where m: "map_of CAPITAL_MANDATE_LIFECYCLE_COMMANDS op = Some (et, allowed)"
    using L by (cases "map_of CAPITAL_MANDATE_LIFECYCLE_COMMANDS op")
               (auto simp: record_lifecycle_command_def)
  have nb: "py_strip reason \<noteq> []" "\<not> commit_fails e 0"
    using L m by (auto simp: record_lifecycle_command_def Let_def split: if_splits)
  let ?p = "pi_principal_id (oc_principal c)"
  let ?rid = "''receipt_capital_mandate_'' @ et @ ''_'' @ stamp e 1 @ ''_'' @ uuid8 e 1"
  let ?checks = "rbind (require_authority_administration e 0 c op (Some (clock e 0))) (\<lambda>administration.
      rbind (if map_of AUTHORITY_ADMINISTRATION_OPERATION_EFFECT op = Some ''reducing''
             then Inr (clock e 0)
             else normalized_time e (or_else ef (clock e 0))) (\<lambda>resolved_at.
      rbind (resolve_in_session e ?p resolved_at db) (\<lambda>r.
      rbind (check_lifecycle_state i et allowed r) (\<lambda>version.
      rbind (case resolve_path e [''capital-mandates'', ''lifecycle'', ?rid @ ''.json''] of
               None \<Rightarrow> Inl ReceiptPathError | Some t \<Rightarrow> Inr t) (\<lambda>path.
        Inr (administration, resolved_at, r, version, ?rid, path))))))"
  obtain d at_utc r v rid path where ch: "?checks = Inr (d, at_utc, r, v, rid, path)"
  proof (cases ?checks)
    case (Inl y)
    with L m nb show ?thesis by (simp add: record_lifecycle_command_def Let_def)
  next
    case (Inr q)
    then show ?thesis by (cases q) (rule that, simp)
  qed
  let ?x = "mk_lifecycle_event e 2 v et ?p reason (display_path e path) at_utc (Some (clock e 0))"
  let ?db1 = "write_auth_file path (LifecycleReceipt rid (clock e 0) v ?x r d) db"
  let ?i = "auth_index_row e rid ''capital_mandate_lifecycle'' path (clock e 0) (le_source_refs ?x)
      [i, mv_mandate_version_id v, ?p]"
  have nw: "\<not> write_fails e path"
    using L m nb ch by (auto simp: record_lifecycle_command_def Let_def split: if_splits)
  obtain db2 where add: "add_rows [AEvent ?x, AIndex ?i] ?db1 = Some db2"
    using L m nb ch nw
    by (cases "add_rows [AEvent ?x, AIndex ?i] ?db1") (auto simp: record_lifecycle_command_def Let_def)
  have res: "x = ?x" "db' = db2"
    using L m nb ch nw add by (auto simp: record_lifecycle_command_def Let_def split: if_splits)
  have g: "lifecycle_guards e c i op reason ef db at_utc r v"
    using ch m nb
    by (auto simp: lifecycle_guards_def rbind_Inr_iff check_lifecycle_state_Inr split: if_splits)
  show thesis
    by (rule that [OF m g res(1)])
       (use res add_event_rows [OF add] in \<open>simp_all add: write_auth_file_def\<close>)
qed

text \<open>A failing command leaves every table as it was.\<close>

lemma lifecycle_error_tables:
  assumes "record_lifecycle_command e c i op reason ef db = (Inl y, db')"
  shows "same_tables db db'"
  using assms
  by (auto simp: record_lifecycle_command_def Let_def split: option.splits if_splits sum.splits prod.splits)

lemma version_status_cases:
  assumes "version_status e at v x = Inr st" and "st \<noteq> ''expired''"
  shows "version_status e at v (Some y) = event_status (le_event_type y)"
  using assms by (auto simp: version_status_def rbind_Inr_iff split: option.splits if_splits)

lemma effective_events_snoc:
  assumes "events db' = events db @ [x]" and "le_mandate_version_id x = vid"
    and "mandate_parse_utc e (le_effective_at_utc x) = Inr t" and "t \<le> at"
  shows "effective_events e vid at db' = effective_events e vid at db @ [x]"
    and "event_times_ok e vid db' = event_times_ok e vid db"
  using assms by (auto simp: effective_events_def event_times_ok_def)

lemma lifecycle_command_event:
  "map_of CAPITAL_MANDATE_LIFECYCLE_COMMANDS op = Some (et, allowed) \<Longrightarrow>
   ''expired'' \<notin> set allowed \<and> ''unavailable'' \<notin> set allowed \<and>
   (\<exists>st. event_status et = Inr st \<and>
         (map_of AUTHORITY_ADMINISTRATION_OPERATION_EFFECT op = Some ''reducing'' \<longrightarrow>
          st \<noteq> ''active''))"
  by (auto simp: CAPITAL_MANDATE_LIFECYCLE_COMMANDS_def AUTHORITY_ADMINISTRATION_OPERATION_EFFECT_def
      event_status_def split: if_splits)

lemma reducing_command_resolves:
  assumes ok: "record_lifecycle_command e c i op reason ef db = (Inr x, db')"
    and red: "map_of AUTHORITY_ADMINISTRATION_OPERATION_EFFECT op = Some ''reducing''"
    and clk: "clock e 0 \<noteq> []"
    and newest: "\<And>y t. mandate_parse_utc e (clock e 0) = Inr t \<Longrightarrow>
        y \<in> set (effective_events e (le_mandate_version_id x) t db) \<Longrightarrow> event_key e y < event_key e x"
  shows "\<exists>v st. resolve_in_session e (pi_principal_id (oc_principal c)) (clock e 0) db' =
             Inr (resolved_version (pi_principal_id (oc_principal c)) (clock e 0) v (Some x) st) \<and>
           event_status (le_event_type x) = Inr st \<and> st \<noteq> ''active'' \<and> mv_capital_mandate_id v = i"
  using ok
proof (rule lifecycle_okE)
  fix et allowed at_utc r v path
  assume m: "map_of CAPITAL_MANDATE_LIFECYCLE_COMMANDS op = Some (et, allowed)"
    and g: "lifecycle_guards e c i op reason ef db at_utc r v"
    and x: "x = mk_lifecycle_event e 2 v et (pi_principal_id (oc_principal c)) reason
               (display_path e path) at_utc (Some (clock e 0))"
    and db': "events db' = events db @ [x]" "versions db' = versions db"
  let ?p = "pi_principal_id (oc_principal c)"
  from g red have at: "at_utc = clock e 0" and res: "resolve_in_session e ?p (clock e 0) db = Inr r"
    and v: "rm_version r = Some v" "mv_capital_mandate_id v = i" and st: "rm_status r \<in> set allowed"
    using m by (auto simp: lifecycle_guards_def)
  note r = resolve_shape [OF res v(1)]
  obtain t where t: "mandate_parse_utc e (clock e 0) = Inr t" and rok: "resolution_ok e ?p t db v"
    and inf: "in_force e ?p t db v (rm_lifecycle_event r)"
    and vst: "version_status e t v (rm_lifecycle_event r) = Inr (rm_status r)"
    using res r resolve_version_iff [of e ?p "clock e 0" db v] by metis
  from lifecycle_command_event [OF m] red obtain st' where st': "event_status et = Inr st'" "st' \<noteq> ''active''"
    by blast
  have "rm_status r \<noteq> ''expired''" using lifecycle_command_event [OF m] st by metis
  with st' have vs': "version_status e t v (Some x) = Inr st'"
    using version_status_cases [OF vst] x by (simp add: mk_lifecycle_event_def)
  have xf: "le_mandate_version_id x = mv_mandate_version_id v" "le_effective_at_utc x = clock e 0"
      "le_created_at_utc x = clock e 0" "le_event_type x = et"
    using x at clk by (simp_all add: mk_lifecycle_event_def or_else_def)
  have xt: "mandate_parse_utc e (le_effective_at_utc x) = Inr t" using xf t by simp
  note E = effective_events_snoc [OF db'(1) xf(1) xt order_refl]
  have key: "\<exists>k. mandate_lifecycle_order_key e x = Inr k"
    using xf t by (simp add: mandate_lifecycle_order_key_def)
  have same: "effective_versions e ?p t db' = effective_versions e ?p t db"
    "version_times_ok e ?p db' = version_times_ok e ?p db"
    "owners_ok db' ?p vs = owners_ok db ?p vs" for vs
    using db'(2) by (simp_all add: effective_versions_def version_times_ok_def owners_ok_iff series_owner_iff)
  have rok': "resolution_ok e ?p t db' v" using rok E same key by (auto simp: resolution_ok_def)
  have "max_by (event_key e) (effective_events e (mv_mandate_version_id v) t db') = Some x"
    unfolding E(1) by (rule max_by_unique) (use newest [OF t] xf(1) in auto)
  then have "in_force e ?p t db' v (Some x)" using inf same by (simp add: in_force_def)
  then show ?thesis using t rok' vs' st' v(2) xf(4) resolve_version_iff by blast
qed

end
