(* ===== verification/Grant_Validation.thy ===== *)
theory Grant_Validation
  imports Authority_Grants Mandate_Resolution
begin

text \<open>
  What a positive answer of the grant validator means, and why scopes only ever shrink: the
  reasons are complete, a request inside a grant inside a mandate is inside the mandate.
\<close>

section \<open>Reasons\<close>

lemma reason_listed: "r \<in> set AGENT_AUTHORITY_GRANT_DENY_REASONS"
  by (cases r) (simp_all add: AGENT_AUTHORITY_GRANT_DENY_REASONS_def)

lemma set_dedupe_reasons [simp]: "set (dedupe_reasons rs) = set rs"
  using reason_listed by (auto simp: dedupe_reasons_def)

lemma dedupe_reasons_Nil [simp]: "dedupe_reasons rs = [] \<longleftrightarrow> rs = []"
  by (metis set_dedupe_reasons set_empty)

lemma when_deny_Nil [simp]: "when_deny b r = [] \<longleftrightarrow> \<not> b"
  by (simp add: when_deny_def)

lemma forbidden_of_set:
  "set (forbidden_of ts rs) = set rs \<union> {r. \<exists>t\<in>set ts. map_of FORBIDDEN_SCOPE_TOKENS t = Some r}"
  by (induction ts rs rule: forbidden_of.induct) (auto split: option.splits)

lemma forbidden_scope_reasons_Nil:
  "forbidden_scope_reasons d = [] \<longleftrightarrow>
   (\<forall>t\<in>set (scope_tokens (PDict d)). map_of FORBIDDEN_SCOPE_TOKENS t = None)"
proof -
  have "forbidden_scope_reasons d = [] \<longleftrightarrow> set (forbidden_scope_reasons d) = {}" by simp
  also have "\<dots> \<longleftrightarrow> (\<forall>t\<in>set (scope_tokens (PDict d)). \<forall>r. map_of FORBIDDEN_SCOPE_TOKENS t \<noteq> Some r)"
    unfolding forbidden_scope_reasons_def forbidden_of_set list.set Un_empty_left Collect_empty_eq by metis
  finally show ?thesis by simp
qed

section \<open>Attenuation\<close>

text \<open>
  The contract between request, grant and mandate: what a request may ask within a grant is
  covered by every mandate that covers the grant.
\<close>

locale attenuation =
  fixes within :: "'r \<Rightarrow> 'g \<Rightarrow> bool"
    and covers :: "'g \<Rightarrow> 'm \<Rightarrow> bool"
    and permits :: "'r \<Rightarrow> 'm \<Rightarrow> bool"
  assumes attenuate: "within r g \<Longrightarrow> covers g m \<Longrightarrow> permits r m"
begin

lemma escalation_refused: "\<not> permits r m \<Longrightarrow> covers g m \<Longrightarrow> \<not> within r g"
  using attenuate by blast

end

lemma notional_within_trans:
  assumes "notional_within e r (money_value e g)" and "notional_within e g c"
  shows "notional_within e r c"
  using assms by (auto simp: notional_within_def split: option.splits intro: dec_le_trans)

lemma autonomy_within_trans:
  assumes "autonomy_within r g" and "autonomy_within g c"
  shows "autonomy_within r c"
  using assms by (auto simp: autonomy_within_def split: pyval.splits option.splits)

lemma scope_within_limit_trans:
  assumes "scope_within_limit e r (grant_limit e g) [] [] []"
    and "scope_within_limit e g c ra rt u"
  shows "scope_within_limit e r c ra rt u"
proof -
  have "notional_within e (dict_get r ''max_notional'') (sl_max_notional c)"
    using assms by (auto simp: scope_within_limit_def grant_limit_def intro: notional_within_trans)
  moreover have "autonomy_within (dict_get r ''autonomy_level'') (sl_field c ''autonomy_level'')"
    using assms by (auto simp: scope_within_limit_def grant_limit_def intro: autonomy_within_trans)
  moreover have "list_all (\<lambda>k. k \<in> set u \<or>
       set (string_set e (dict_get r k)) \<subseteq> set (string_set e (sl_field c k)))
     [''product_ids'', ''instrument_ids'', ''action_types'', ''directions'', ''broker_ids'']"
    using assms by (simp add: scope_within_limit_def grant_limit_def) blast
  moreover note a = assms [unfolded scope_within_limit_def Let_def]
  have "set (string_set e (dict_get r ''allowed_asset_classes'')) \<subseteq>
      set (string_set e (dict_get g ''allowed_asset_classes''))"
    "set (string_set e (dict_get r ''allowed_action_types'')) \<subseteq>
      set (string_set e (dict_get g ''allowed_action_types''))"
    using a(1) unfolding grant_limit_def scope_limit.simps by blast+
  moreover have "set (string_set e (dict_get g ''allowed_asset_classes'')) \<subseteq>
      set (string_set e (sl_field c ''allowed_asset_classes''))"
    "set (string_set e (dict_get g ''allowed_asset_classes'')) \<inter> set ra = {}"
    "set (string_set e (dict_get g ''allowed_action_types'')) \<subseteq>
      set (string_set e (sl_field c ''allowed_action_types''))"
    "set (string_set e (dict_get g ''allowed_action_types'')) \<inter> set rt = {}"
    using a(2) by blast+
  moreover have "scope_contract_valid e r" using a(1) by blast
  ultimately show ?thesis unfolding scope_within_limit_def Let_def by blast
qed

interpretation scopes: attenuation "scope_within_scope e" "scope_within_mandate e" "scope_within_mandate e"
  for e
  by unfold_locales
     (auto simp: scope_within_scope_def scope_within_mandate_def split: option.splits
       intro: scope_within_limit_trans)

section \<open>What an allowed use means\<close>

definition usage_ok ::
  "agent_authority_grant \<Rightarrow> grant_consumption list \<Rightarrow> monetary_amount option \<Rightarrow> string option \<Rightarrow> bool" where
  "usage_ok g cs requested nonce \<longleftrightarrow>
     (\<exists>cur. ag_notional_currency g = Some cur \<and>
        (\<forall>c\<in>set cs. gc_requested_notional_currency c = Some cur) \<and>
        (\<forall>n. ag_max_uses g = Some n \<longrightarrow> int (length cs) < n) \<and>
        (\<forall>r. requested = Some r \<longrightarrow> currency r = cur) \<and>
        (\<forall>cap. ag_max_total_notional g = Some cap \<longrightarrow>
           dec_less (used_notional cs) cap \<and>
           (\<forall>r. requested = Some r \<longrightarrow> dec_le (dec_add (used_notional cs) (amount r)) cap)) \<and>
        (\<forall>n. nonce = Some n \<longrightarrow> (\<forall>c\<in>set cs. gc_nonce c \<noteq> n)))"

lemma usage_reasons_Nil: "usage_reasons g cs requested nonce = [] \<longleftrightarrow> usage_ok g cs requested nonce"
proof (cases "ag_notional_currency g")
  case None
  then show ?thesis by (simp add: usage_reasons_def usage_ok_def Let_def)
next
  case (Some cur)
  then show ?thesis
    by (cases "ag_max_uses g"; cases requested; cases "ag_max_total_notional g"; cases nonce)
       (auto simp: usage_reasons_def usage_ok_def Let_def dec_less_def list_all_iff list_ex_iff)
qed

definition grant_usable ::
  "auth_env \<Rightarrow> nat \<Rightarrow> validation_args \<Rightarrow> agent_authority_grant \<Rightarrow> auth_db \<Rightarrow>
   capital_mandate_version \<Rightarrow> capital_mandate_version \<Rightarrow> bool" where
  "grant_usable e i a g db v w \<longleftrightarrow>
     ag_status g = ''active'' \<and> is_expired e i (ag_expires_at_utc g) (va_now_utc a) = Inr False \<and>
     (va_principal_id a = None \<or> ag_principal_id g = va_principal_id a) \<and>
     (va_agent_runtime_id a = None \<or> ag_agent_runtime_id g = va_agent_runtime_id a) \<and>
     (\<exists>p r. ag_principal_id g = Some p \<and> resolve_capital_mandate e (i + 1) p (va_now_utc a) db = Inr r \<and>
        rm_status r = ''active'' \<and> rm_version r = Some v \<and>
        ''mandate_series_owner_conflict'' \<notin> set (rm_deny_reasons r) \<and>
        mv_principal_id v = p \<and> mv_principal_id w = p) \<and>
     mv_capital_mandate_id v = ag_capital_mandate_id g \<and>
     mv_capital_mandate_id w = ag_capital_mandate_id g \<and>
     ag_mandate_version_id g = Some (mv_mandate_version_id v) \<and>
     tbl_get mv_mandate_version_id (versions db) (mv_mandate_version_id v) = Some w \<and>
     (va_requested_notional a = PNone \<or> money_value e (va_requested_notional a) \<noteq> None) \<and>
     mandate_money_contract_reasons e g w (money_value e (va_requested_notional a)) = [] \<and>
     forbidden_scope_reasons (ag_grant_scope g) = [] \<and>
     forbidden_scope_reasons (va_requested_scope a) = [] \<and>
     scope_within_mandate e (ag_grant_scope g) w \<and>
     scope_within_scope e (va_requested_scope a) (ag_grant_scope g)"

lemma resolution_reasons_Nil:
  "resolution_reasons g resolution mv = [] \<longleftrightarrow>
   (\<exists>p r v w. ag_principal_id g = Some p \<and> resolution = Some r \<and> mv = Some w \<and> rm_version r = Some v \<and>
      ''mandate_series_owner_conflict'' \<notin> set (rm_deny_reasons r) \<and> rm_status r = ''active'' \<and>
      mv_principal_id v = p \<and> mv_principal_id w = p \<and>
      mv_capital_mandate_id v = ag_capital_mandate_id g \<and>
      mv_capital_mandate_id w = ag_capital_mandate_id g \<and>
      ag_mandate_version_id g = Some (mv_mandate_version_id v))"
  by (cases resolution; cases mv; cases "ag_principal_id g")
     (auto simp: resolution_reasons_def split: option.splits if_splits)

lemma deny_reasons_of_Nil:
  "deny_reasons_of e a candidate g expired resolution db = [] \<longleftrightarrow>
   ag_status g = ''active'' \<and> \<not> expired \<and>
   (va_principal_id a = None \<or> ag_principal_id g = va_principal_id a) \<and>
   (va_agent_runtime_id a = None \<or> ag_agent_runtime_id g = va_agent_runtime_id a) \<and>
   resolution_reasons g resolution (get_mandate_version db (ag_mandate_version_id g)) = [] \<and>
   (va_requested_notional a = PNone \<or> money_value e (va_requested_notional a) \<noteq> None) \<and>
   (\<forall>w. get_mandate_version db (ag_mandate_version_id g) = Some w \<longrightarrow>
      mandate_money_contract_reasons e g w (money_value e (va_requested_notional a)) = [] \<and>
      scope_within_mandate e (ag_grant_scope g) w) \<and>
   (candidate \<or> usage_ok g (grant_consumptions db (ag_agent_authority_grant_id g))
      (money_value e (va_requested_notional a)) (va_nonce a)) \<and>
   forbidden_scope_reasons (ag_grant_scope g) = [] \<and> forbidden_scope_reasons (va_requested_scope a) = [] \<and>
   scope_within_scope e (va_requested_scope a) (ag_grant_scope g)"
  by (cases "get_mandate_version db (ag_mandate_version_id g)")
     (auto simp: deny_reasons_of_def Let_def usage_reasons_Nil)

lemma validate_some:
  assumes "(case candidate of Some g \<Rightarrow> Some g
            | None \<Rightarrow> tbl_get ag_agent_authority_grant_id (grants db) grant_id) = Some g"
  shows "(\<exists>val. validate_agent_authority_grant e i grant_id a candidate db = Inr val \<and> gv_allowed val) \<longleftrightarrow>
    (\<exists>v w. grant_usable e i a g db v w) \<and>
    (candidate \<noteq> None \<or> usage_ok g (grant_consumptions db (ag_agent_authority_grant_id g))
       (money_value e (va_requested_notional a)) (va_nonce a))" (is "?L \<longleftrightarrow> ?R")
proof
  assume ?L
  then obtain expired resolution where
      ex: "is_expired e i (ag_expires_at_utc g) (va_now_utc a) = Inr expired"
    and res: "(case ag_principal_id g of None \<Rightarrow> Inr None
        | Some p \<Rightarrow> rbind (resolve_capital_mandate e (i + 1) p (va_now_utc a) db) (\<lambda>r. Inr (Some r))) = Inr resolution"
    and dn: "deny_reasons_of e a (candidate \<noteq> None) g expired resolution db = []"
    using assms by (auto simp: validate_agent_authority_grant_def rbind_Inr_iff Let_def)
  from dn show ?R
    unfolding deny_reasons_of_Nil resolution_reasons_Nil
    using ex res
    by (auto simp: grant_usable_def get_mandate_version_def rbind_Inr_iff split: option.splits)
next
  assume ?R
  then obtain v w where u: "grant_usable e i a g db v w" by blast
  then obtain p r where p: "ag_principal_id g = Some p"
      "resolve_capital_mandate e (i + 1) p (va_now_utc a) db = Inr r"
    unfolding grant_usable_def by blast
  have "deny_reasons_of e a (candidate \<noteq> None) g False (Some r) db = []"
    using \<open>?R\<close> u p unfolding deny_reasons_of_Nil resolution_reasons_Nil
    by (auto simp: grant_usable_def get_mandate_version_def)
  then show ?L
    using assms u p by (simp add: validate_agent_authority_grant_def grant_usable_def Let_def)
qed

end
