(* ===== verification/Authority_Invariants.thy ===== *)
theory Authority_Invariants
  imports Grant_Validation
begin

text \<open>
  The authority services as a transition system: what each call does to the tables, and the
  invariants of every reachable store (one durable owner per series, strictly numbered versions,
  at most one active mandate per principal, nonce-unique consumptions, budgets never exceeded).
\<close>

section \<open>Merging rows\<close>

lemma fold_merge_set:
  "r \<in> set (fold (tbl_merge key) rs t) \<Longrightarrow> r \<in> set rs \<or> (r \<in> set t \<and> key r \<notin> key ` set rs)"
  by (induction rs arbitrary: t) (fastforce simp: set_tbl_merge)+

lemma tbl_has_merge: "tbl_has key (tbl_merge key r t) k \<longleftrightarrow> k = key r \<or> tbl_has key t k"
  by (auto simp: tbl_has_iff set_tbl_merge)

lemma fold_merge_has: "tbl_has key t k \<Longrightarrow> tbl_has key (fold (tbl_merge key) rs t) k"
  by (induction rs arbitrary: t) (auto simp: tbl_has_merge)

lemma fold_merge_keyed: "keyed key t \<Longrightarrow> keyed key (fold (tbl_merge key) rs t)"
  by (induction rs arbitrary: t) (auto simp: keyed_merge)

lemma apply_rows_append:
  "apply_rows f (rs @ qs) db = do { db1 \<leftarrow> apply_rows f rs db; apply_rows f qs db1 }"
  by (induction rs arbitrary: db) (auto split: option.splits bind_splits)

lemma merge_mandates:
  "apply_rows merge_row (map AMandate ms) db = Some db' \<Longrightarrow>
   db' = db\<lparr>mandates := fold (tbl_merge cm_capital_mandate_id) ms (mandates db)\<rparr>"
proof (induction ms arbitrary: db)
  case (Cons a ms)
  then have "apply_rows merge_row (map AMandate ms)
      (db\<lparr>mandates := tbl_merge cm_capital_mandate_id a (mandates db)\<rparr>) = Some db'"
    by (auto split: if_splits bind_splits)
  from Cons.IH [OF this] show ?case by simp
qed simp

section \<open>What a mandate write does\<close>

lemma supersede_rows_Inr:
  "supersede_rows reads i keep p rows = Inr qs \<Longrightarrow>
   (\<forall>r\<in>set qs. \<exists>q\<in>set rows. r = q\<lparr>cm_status := ''superseded''\<rparr> \<and> cm_capital_mandate_id q \<noteq> keep) \<and>
   (\<forall>q\<in>set rows. cm_capital_mandate_id q \<noteq> keep \<longrightarrow>
      (\<forall>j\<ge>i. capital_mandate_series_owner (reads j) (cm_capital_mandate_id q) = Inr (Some p)) \<longrightarrow>
      q\<lparr>cm_status := ''superseded''\<rparr> \<in> set qs)"
proof (induction rows arbitrary: i qs)
  case (Cons row rows)
  then show ?case
    by (cases "cm_capital_mandate_id row = keep")
       (fastforce simp: rbind_Inr_iff split: if_splits)+
qed simp

lemma pick_latest_Some:
  assumes "pick_latest e i k rows = Some r"
  shows "r \<in> set rows" and "\<forall>s\<in>set rows. k s \<le> k r"
  using first_row_mem [OF assms [unfolded pick_latest_def]] by (auto simp: list_all_iff)

lemma pick_latest_None:
  fixes k :: "'r \<Rightarrow> 'k::linorder"
  assumes "pick_latest e i k rows = None"
  shows "rows = []"
proof (rule ccontr)
  assume ne: "rows \<noteq> []"
  then obtain x where x: "max_by k rows = Some x" by (metis max_by_None option.exhaust)
  from max_by_SomeD [OF x] have "x \<in> set (filter (\<lambda>r. list_all (\<lambda>s. k s \<le> k r) rows) rows)"
    by (simp add: list_all_iff)
  with assms show False unfolding pick_latest_def by (metis first_row_None empty_iff list.set(1))
qed

lemma build_mandate_version_fields:
  fixes e m p lim ks ef ex ar ll db
  defines "v \<equiv> build_mandate_version e m p lim ks ef ex ar ll db"
  shows "mv_capital_mandate_id v = cm_capital_mandate_id m" and "mv_principal_id v = p"
    and "mv_effective_at_utc v = ef" and "mv_expires_at_utc v = ex"
    and "mv_created_at_utc v = cm_created_at_utc m" and "mv_typed_limits v = limits_dump e lim"
    and "mv_policy_payload v = policy_payload_of m"
    and "\<And>w. w \<in> set (versions db) \<Longrightarrow> mv_capital_mandate_id w = cm_capital_mandate_id m \<Longrightarrow>
              mv_principal_id w = p \<Longrightarrow> mv_version_number w < mv_version_number v"
proof -
  let ?rows = "filter (\<lambda>v. mv_capital_mandate_id v = cm_capital_mandate_id m \<and> mv_principal_id v = p) (versions db)"
  show "mv_version_number w < mv_version_number v"
    if w: "w \<in> set (versions db)" "mv_capital_mandate_id w = cm_capital_mandate_id m" "mv_principal_id w = p" for w
  proof (cases "pick_latest e 1 mv_version_number ?rows")
    case None
    from pick_latest_None [OF None] w show ?thesis by (auto simp: filter_empty_conv)
  next
    case (Some q)
    have "mv_version_number w \<le> mv_version_number q"
      using pick_latest_Some(2) [OF Some] w by simp
    with Some show ?thesis by (simp add: v_def build_mandate_version_def Let_def)
  qed
qed (simp_all add: v_def build_mandate_version_def Let_def)

definition mandate_planned ::
  "auth_env \<Rightarrow> operator_context \<Rightarrow> mandate_args \<Rightarrow> mandate_reads \<Rightarrow> mandate_plan \<Rightarrow> bool" where
  "mandate_planned e c a reads pl \<longleftrightarrow>
     (let p = pi_principal_id (oc_principal c); m = mp_mandate pl; v = mp_version pl in
      (\<exists>d. require_authority_administration e 0 c ''mandate_create_or_replace'' None = Inr d) \<and>
      cm_status m = ''active'' \<and> mv_capital_mandate_id v = cm_capital_mandate_id m \<and>
      mv_principal_id v = p \<and>
      require_mandate_series_owner reads (cm_capital_mandate_id m) p = Inr () \<and>
      supersede_active_mandates reads (cm_capital_mandate_id m) p = Inr (mp_superseded pl) \<and>
      (\<forall>w\<in>set (versions (reads 3)). mv_capital_mandate_id w = cm_capital_mandate_id m \<longrightarrow>
         mv_principal_id w = p \<longrightarrow> mv_version_number w < mv_version_number v) \<and>
      le_mandate_version_id (mp_activation pl) = mv_mandate_version_id v)"

lemma plan_okD:
  assumes "plan_capital_mandate e c a reads = Inr pl"
  shows "mandate_planned e c a reads pl"
  using assms
  by (auto simp: plan_capital_mandate_def Let_def rbind_Inr_iff mandate_planned_def
      build_mandate_version_fields mk_capital_mandate_def mk_lifecycle_event_def)

definition mandate_stored :: "mandate_plan \<Rightarrow> auth_db \<Rightarrow> auth_db \<Rightarrow> bool" where
  "mandate_stored pl db db' \<longleftrightarrow>
     mandates db' = fold (tbl_merge cm_capital_mandate_id) (mp_superseded pl @ [mp_mandate pl]) (mandates db) \<and>
     versions db' = tbl_merge mv_mandate_version_id (mp_version pl) (versions db) \<and>
     events db' = tbl_merge le_mandate_lifecycle_event_id (mp_activation pl) (events db) \<and>
     grants db' = grants db \<and> consumptions db' = consumptions db \<and> ips_rows db' = ips_rows db \<and>
     (\<exists>x. auth_index db' = tbl_merge ri_receipt_id x (auth_index db))"

lemma mandate_stored_same:
  "same_tables db0 db \<Longrightarrow> ips_rows db0 = ips_rows db \<Longrightarrow> mandate_stored pl db db' \<Longrightarrow> mandate_stored pl db0 db'"
  by (auto simp: mandate_stored_def same_tables_def)

lemma write_mandate_receipt_tables [simp]:
  "same_tables db (write_mandate_receipt pl db)" "ips_rows (write_mandate_receipt pl db) = ips_rows db"
  by (simp_all add: write_mandate_receipt_def write_auth_file_def same_tables_def)

lemma store_capital_mandate_ok:
  assumes "store_capital_mandate e existed pl db = (Inr m, db')"
  shows "m = mp_mandate pl" and "mandate_stored pl db db'"
proof -
  obtain db2 where ap: "apply_rows merge_row (mandate_rows e pl) db = Some db2"
    using assms by (cases "apply_rows merge_row (mandate_rows e pl) db")
       (auto simp: store_capital_mandate_def upsert_records_def split: if_splits)
  have res: "m = mp_mandate pl" "db' = db2"
    using assms ap by (auto simp: store_capital_mandate_def upsert_records_def split: if_splits)
  from ap obtain db3 where "apply_rows merge_row (map AMandate (mp_superseded pl)) db = Some db3"
    and rest: "apply_rows merge_row (drop (length (mp_superseded pl)) (mandate_rows e pl)) db3 = Some db2"
    by (auto simp: mandate_rows_def Let_def apply_rows_append split: bind_splits)
  then have db3: "db3 = db\<lparr>mandates := fold (tbl_merge cm_capital_mandate_id) (mp_superseded pl) (mandates db)\<rparr>"
    by (intro merge_mandates)
  show "m = mp_mandate pl" by (fact res)
  show "mandate_stored pl db db'"
    using rest db3 res by (auto simp: mandate_stored_def mandate_rows_def Let_def split: if_splits)
qed

lemma store_capital_mandate_error:
  assumes "store_capital_mandate e existed pl db = (Inl x, db')"
  shows "same_tables db db'"
  using assms
  by (auto simp: store_capital_mandate_def upsert_records_def split: if_splits option.splits prod.splits)

lemma record_capital_mandate_ok:
  assumes "record_capital_mandate e c a db = (Inr m, db')"
  obtains pl where "plan_capital_mandate e c a (\<lambda>_. db) = Inr pl" and "m = mp_mandate pl"
    and "mandate_stored pl db db'"
proof -
  obtain pl where pl: "plan_capital_mandate e c a (\<lambda>_. db) = Inr pl"
    using assms by (cases "plan_capital_mandate e c a (\<lambda>_. db)") (auto simp: record_capital_mandate_def)
  have st: "store_capital_mandate e (auth_files db (mp_path pl) \<noteq> None) pl (write_mandate_receipt pl db) = (Inr m, db')"
    using assms pl by (auto simp: record_capital_mandate_def Let_def split: if_splits)
  show thesis
    by (rule that [OF pl store_capital_mandate_ok(1) [OF st]])
       (rule mandate_stored_same [OF _ _ store_capital_mandate_ok(2) [OF st]]; simp)
qed

lemma record_capital_mandate_error:
  assumes "record_capital_mandate e c a db = (Inl x, db')"
  shows "same_tables db db'"
  using assms
  by (auto simp: record_capital_mandate_def Let_def split: sum.splits if_splits
      dest!: store_capital_mandate_error)
     (auto simp: same_tables_def write_mandate_receipt_def write_auth_file_def)

section \<open>What the grant operations do\<close>

lemma record_grant_ok:
  assumes "record_agent_authority_grant e c a db = (Inr g, db')"
  obtains pl where "plan_agent_authority_grant e c a db = Inr pl" and "g = gp_grant pl"
    and "grants db' = grants db @ [g]" and "mandates db' = mandates db"
    and "versions db' = versions db" and "events db' = events db"
    and "consumptions db' = consumptions db" and "\<exists>x. auth_index db' = auth_index db @ [x] \<and>
          \<not> tbl_has ri_receipt_id (auth_index db) (ri_receipt_id x)"
    and "\<not> tbl_has ag_agent_authority_grant_id (grants db) (ag_agent_authority_grant_id g)"
    and "tbl_has cm_capital_mandate_id (mandates db) (ag_capital_mandate_id g)"
proof -
  obtain pl where pl: "plan_agent_authority_grant e c a db = Inr pl"
    using assms by (cases "plan_agent_authority_grant e c a db") (auto simp: record_agent_authority_grant_def)
  show thesis
    by (rule that [OF pl])
       (use assms pl in \<open>auto simp: record_agent_authority_grant_def Let_def write_auth_records_def
          add_rows_def write_auth_file_def split: if_splits option.splits prod.splits sum.splits\<close>)
qed

lemma record_grant_error:
  assumes "record_agent_authority_grant e c a db = (Inl x, db')"
  shows "same_tables db db'"
  using assms
  by (auto simp: record_agent_authority_grant_def Let_def write_auth_records_def
      split: sum.splits if_splits option.splits prod.splits)

lemma revoke_ok:
  assumes "revoke_agent_authority_grant e c i reason db = (Inr g', db')"
  obtains g path where
      "tbl_get ag_agent_authority_grant_id (grants db) i = Some g"
    and "ag_principal_id g = Some (pi_principal_id (oc_principal c))"
    and "ag_status g \<in> {''active'', ''suspended''}"
    and "g' = revoked_grant (clock e 0) reason (display_path e path) g"
    and "grants db' = tbl_update ag_agent_authority_grant_id i (\<lambda>_. g') (grants db)"
    and "mandates db' = mandates db" and "versions db' = versions db" and "events db' = events db"
    and "consumptions db' = consumptions db"
    and "\<exists>x. auth_index db' = auth_index db @ [x] \<and>
          \<not> tbl_has ri_receipt_id (auth_index db) (ri_receipt_id x)"
proof -
  let ?rid = "''receipt_agent_authority_grant_revoked_'' @ stamp e 0 @ ''_'' @ uuid8 e 0"
  obtain path where p: "resolve_path e [''agent-authority-grants'', ''lifecycle'', ?rid @ ''.json''] = Some path"
    using assms by (auto simp: revoke_agent_authority_grant_def Let_def split: if_splits option.splits)
  obtain d g where ch: "revoke_checks e c i db = Inr (d, g)"
    using assms p by (cases "revoke_checks e c i db")
      (auto simp: revoke_agent_authority_grant_def Let_def split: if_splits)
  have g: "tbl_get ag_agent_authority_grant_id (grants db) i = Some g"
      "ag_principal_id g = Some (pi_principal_id (oc_principal c))" "ag_status g \<in> {''active'', ''suspended''}"
    using ch by (auto simp: revoke_checks_def rbind_Inr_iff split: option.splits if_splits)
  show thesis
    by (rule that [OF g, of path])
       (use assms p ch in \<open>auto simp: revoke_agent_authority_grant_def Let_def add_rows_def write_auth_file_def
          split: if_splits option.splits\<close>)
qed

lemma revoke_error:
  assumes "revoke_agent_authority_grant e c i reason db = (Inl x, db')"
  shows "same_tables db db'"
proof (cases "revoke_checks e c i db")
  case (Inl y)
  with assms show ?thesis
    by (auto simp: revoke_agent_authority_grant_def Let_def split: if_splits option.splits)
next
  case (Inr q)
  with assms show ?thesis
    by (cases q) (auto simp: revoke_agent_authority_grant_def Let_def add_rows_def
        split: if_splits option.splits)
qed

definition consumed ::
  "auth_env \<Rightarrow> consume_args \<Rightarrow> auth_db \<Rightarrow> auth_db \<Rightarrow> monetary_amount \<Rightarrow> agent_authority_grant \<Rightarrow> string \<Rightarrow>
   grant_consumption \<Rightarrow> bool" where
  "consumed e a db db' notional g cur c \<longleftrightarrow>
     (\<exists>vid val path created.
        consume_locked_checks e a notional db =
          Inr (g, cur, vid, val, grant_consumptions db (ca_grant_id a)) \<and>
        c = mk_consumption e a notional vid (display_path e path) created) \<and>
     row_ok (AConsumption c) db \<and>
     \<not> tbl_has gc_grant_consumption_id (consumptions db) (gc_grant_consumption_id c) \<and>
     consumptions db' = consumptions db @ [c] \<and> grants db' = grants db \<and>
     mandates db' = mandates db \<and> versions db' = versions db \<and> events db' = events db \<and>
     (\<exists>x. auth_index db' = auth_index db @ [x] \<and>
          \<not> tbl_has ri_receipt_id (auth_index db) (ri_receipt_id x))"

lemma locked_checks_okE:
  assumes "consume_locked_checks e a notional db = Inr (g, cur, vid, val, existing)"
  obtains v where "tbl_get ag_agent_authority_grant_id (grants db) (ca_grant_id a) = Some g"
    and "ag_mandate_version_id g = Some vid"
    and "tbl_get mv_mandate_version_id (versions db) vid = Some v"
    and "consume_validated e 2 ''grant consumption denied under lock: '' a notional db = Inr val"
    and "mandate_money_contract_reasons e g v (Some notional) = []"
    and "ag_notional_currency g = Some cur" and "currency notional = cur"
    and "existing = grant_consumptions db (ca_grant_id a)"
    and "\<forall>c\<in>set existing. gc_requested_notional_currency c = Some cur"
    and "\<forall>n. ag_max_uses g = Some n \<longrightarrow> int (length existing) < n"
    and "\<forall>cap. ag_max_total_notional g = Some cap \<longrightarrow>
           dec_le (dec_add (used_notional existing) (amount notional)) cap"
proof -
  obtain g0 where g0: "tbl_get ag_agent_authority_grant_id (grants db) (ca_grant_id a) = Some g0"
    using assms by (cases "tbl_get ag_agent_authority_grant_id (grants db) (ca_grant_id a)")
      (simp_all add: consume_locked_checks_def)
  obtain vid0 where vid0: "ag_mandate_version_id g0 = Some vid0"
    using assms g0 by (cases "ag_mandate_version_id g0") (simp_all add: consume_locked_checks_def)
  obtain v where v: "tbl_get mv_mandate_version_id (versions db) vid0 = Some v"
    using assms g0 vid0 by (cases "tbl_get mv_mandate_version_id (versions db) vid0")
      (simp_all add: consume_locked_checks_def)
  obtain val0 where val0: "consume_validated e 2 ''grant consumption denied under lock: '' a notional db = Inr val0"
    using assms g0 vid0 v
    by (cases "consume_validated e 2 ''grant consumption denied under lock: '' a notional db")
       (simp_all add: consume_locked_checks_def)
  obtain cur0 where cur0: "ag_notional_currency g0 = Some cur0"
    using assms g0 vid0 v val0
    by (cases "ag_notional_currency g0") (simp_all add: consume_locked_checks_def Let_def split: if_split_asm)
  have eqs: "g0 = g" "vid0 = vid" "val0 = val" "cur0 = cur" "existing = grant_consumptions db (ca_grant_id a)"
    and mr: "mandate_money_contract_reasons e g0 v (Some notional) = []"
    and cur: "currency notional = cur0"
    and cs: "\<not> list_ex (\<lambda>c. gc_requested_notional_currency c \<noteq> Some cur0) (grant_consumptions db (ca_grant_id a))"
    and mu: "\<not> (case ag_max_uses g0 of None \<Rightarrow> False
              | Some n \<Rightarrow> n \<le> int (length (grant_consumptions db (ca_grant_id a))))"
    and mt: "\<not> (case ag_max_total_notional g0 of None \<Rightarrow> False
              | Some cap \<Rightarrow> \<not> dec_le (dec_add (used_notional (grant_consumptions db (ca_grant_id a))) (amount notional)) cap)"
    using assms g0 vid0 v val0 cur0
    by (simp_all add: consume_locked_checks_def Let_def split: if_split_asm)
  show thesis
    by (rule that [of v])
       (use g0 vid0 v val0 cur0 eqs mr cur cs mu mt in \<open>simp_all add: list_ex_iff split: option.splits\<close>)
qed

lemma locked_checks_existing:
  "consume_locked_checks e a notional db = Inr (g, cur, vid, val, existing) \<Longrightarrow>
   existing = grant_consumptions db (ca_grant_id a)"
  by (erule locked_checks_okE) simp

lemma add_consumption_rows:
  assumes "add_rows [AConsumption c, AIndex x] db = Some db'"
  shows "row_ok (AConsumption c) db"
    and "\<not> tbl_has gc_grant_consumption_id (consumptions db) (gc_grant_consumption_id c)"
    and "\<not> tbl_has ri_receipt_id (auth_index db) (ri_receipt_id x)"
    and "db' = db\<lparr>consumptions := consumptions db @ [c], auth_index := auth_index db @ [x]\<rparr>"
  using assms by (auto simp: add_rows_def split: if_splits)

lemma consume_locked_cases:
  assumes "consume_locked e a notional rid path db = (res, db')"
  shows "same_tables db db' \<or> (\<exists>g cur c. consumed e a db db' notional g cur c)"
proof (cases "consume_locked_checks e a notional db")
  case (Inl x)
  with assms show ?thesis by (auto simp: consume_locked_def Let_def split: if_splits)
next
  case (Inr q)
  obtain g cur vid val existing where q: "q = (g, cur, vid, val, existing)" by (cases q)
  let ?created = "or_else (ca_now_utc a) (clock e 4)"
  let ?c = "mk_consumption e a notional vid (display_path e path) ?created"
  have ex: "existing = grant_consumptions db (ca_grant_id a)"
    using Inr q by (auto intro: locked_checks_existing)
  let ?n = "int (length existing) + 1"
  let ?x = "auth_index_row e rid ''state_core_agent_authority_grant_consumption'' path ?created []
      [ca_grant_id a, vid, ca_principal_id a, ca_agent_runtime_id a]"
  show ?thesis
  proof (cases "mk_money (dec_add (used_notional existing) (amount notional)) cur")
    case (Inl y)
    with assms Inr q show ?thesis by (auto simp: consume_locked_def Let_def split: if_splits)
  next
    case mm: (Inr money)
    let ?db1 = "write_auth_file path (ConsumptionReceipt rid ?created ?c val ?n money) db"
    show ?thesis
    proof (cases "add_rows [AConsumption ?c, AIndex ?x] ?db1")
      case None
      with assms Inr q mm show ?thesis by (auto simp: consume_locked_def Let_def split: if_splits)
    next
      case (Some db2)
      note ad = add_consumption_rows [OF Some]
      have "same_tables db db' \<or> same_tables db2 db'"
        using assms Inr q mm Some
        by (auto simp: consume_locked_def Let_def split: if_splits sum.splits)
      moreover have "consumed e a db db' notional g cur ?c" if "same_tables db2 db'"
        using that ad Inr q ex
        by (fastforce simp: consumed_def same_tables_def write_auth_file_def)
      ultimately show ?thesis by blast
    qed
  qed
qed

lemma consume_cases:
  assumes "consume_agent_authority_grant e a seen db = (res, db')"
  shows "same_tables db db' \<or> (\<exists>notional g cur c. consumed e a db db' notional g cur c)"
  using assms
  by (auto simp: consume_agent_authority_grant_def Let_def split: sum.splits option.splits
      dest!: consume_locked_cases)

end
