(* ===== verification/Authority_System.thy ===== *)
theory Authority_System
  imports Authority_Invariants
begin

text \<open>
  The transition system of the authority services and its invariant.  Every call is a step, the
  failing ones included; a consumption may have validated against any earlier store.  Here calls
  follow one another; \<open>Mandate_Sessions\<close> takes mandate writes apart into their sessions.
\<close>

inductive auth_step :: "auth_db \<Rightarrow> auth_db \<Rightarrow> bool" where
  as_mandate: "record_capital_mandate e c a db = (r1, db') \<Longrightarrow> auth_step db db'"
| as_lifecycle: "record_lifecycle_command e c i op reason ef db = (r2, db') \<Longrightarrow> auth_step db db'"
| as_grant: "record_agent_authority_grant e c ga db = (r3, db') \<Longrightarrow> auth_step db db'"
| as_consume: "consume_agent_authority_grant e ca seen db = (r4, db') \<Longrightarrow> auth_step db db'"
| as_revoke: "revoke_agent_authority_grant e c i reason db = (r5, db') \<Longrightarrow> auth_step db db'"

definition auth_start :: "auth_db \<Rightarrow> bool" where
  "auth_start db \<longleftrightarrow>
     mandates db = [] \<and> versions db = [] \<and> events db = [] \<and> grants db = [] \<and> consumptions db = [] \<and>
     auth_index db = []"

section \<open>The invariant\<close>

definition auth_keys :: "auth_db \<Rightarrow> bool" where
  "auth_keys db \<longleftrightarrow>
     keyed cm_capital_mandate_id (mandates db) \<and> keyed mv_mandate_version_id (versions db) \<and>
     keyed le_mandate_lifecycle_event_id (events db) \<and>
     keyed ag_agent_authority_grant_id (grants db) \<and>
     keyed gc_grant_consumption_id (consumptions db) \<and> keyed ri_receipt_id (auth_index db)"

definition one_owner :: "auth_db \<Rightarrow> bool" where
  "one_owner db \<longleftrightarrow>
     (\<forall>v\<in>set (versions db). \<forall>w\<in>set (versions db).
        mv_capital_mandate_id v = mv_capital_mandate_id w \<longrightarrow> mv_principal_id v = mv_principal_id w)"

definition numbered :: "auth_db \<Rightarrow> bool" where
  "numbered db \<longleftrightarrow>
     (\<forall>v\<in>set (versions db). \<forall>w\<in>set (versions db).
        mv_capital_mandate_id v = mv_capital_mandate_id w \<longrightarrow>
        mv_version_number v = mv_version_number w \<longrightarrow> v = w)"

definition one_active :: "auth_db \<Rightarrow> bool" where
  "one_active db \<longleftrightarrow>
     (\<forall>m\<in>set (mandates db). \<forall>n\<in>set (mandates db). \<forall>v\<in>set (versions db). \<forall>w\<in>set (versions db).
        cm_status m = ''active'' \<longrightarrow> cm_status n = ''active'' \<longrightarrow>
        mv_capital_mandate_id v = cm_capital_mandate_id m \<longrightarrow>
        mv_capital_mandate_id w = cm_capital_mandate_id n \<longrightarrow>
        mv_principal_id v = mv_principal_id w \<longrightarrow> m = n)"

definition nonces_unique :: "auth_db \<Rightarrow> bool" where
  "nonces_unique db \<longleftrightarrow>
     keyed (\<lambda>c. (gc_agent_authority_grant_id c, gc_nonce c)) (consumptions db) \<and>
     (\<forall>c\<in>set (consumptions db).
        tbl_has ag_agent_authority_grant_id (grants db) (gc_agent_authority_grant_id c))"

definition within_budget :: "agent_authority_grant \<Rightarrow> grant_consumption list \<Rightarrow> bool" where
  "within_budget g cs \<longleftrightarrow>
     (\<forall>n. ag_max_uses g = Some n \<longrightarrow> int (length cs) \<le> n) \<and>
     (\<forall>cap. ag_max_total_notional g = Some cap \<longrightarrow> cs \<noteq> [] \<longrightarrow> dec_le (used_notional cs) cap) \<and>
     (\<forall>c\<in>set cs. gc_requested_notional_currency c = ag_notional_currency g)"

definition budgets :: "auth_db \<Rightarrow> bool" where
  "budgets db \<longleftrightarrow>
     (\<forall>g\<in>set (grants db). within_budget g (grant_consumptions db (ag_agent_authority_grant_id g)))"

definition auth_inv :: "auth_db \<Rightarrow> bool" where
  "auth_inv db \<longleftrightarrow>
     auth_keys db \<and> one_owner db \<and> numbered db \<and> one_active db \<and> nonces_unique db \<and> budgets db"

lemmas auth_inv_defs =
  auth_inv_def auth_keys_def one_owner_def numbered_def one_active_def nonces_unique_def budgets_def
  grant_consumptions_def

lemma same_tables_inv: "same_tables db db' \<Longrightarrow> auth_inv db \<Longrightarrow> auth_inv db'"
  unfolding same_tables_def auth_inv_defs by (elim conjE) (simp only: simp_thms)

lemma usage_same:
  assumes "grants db' = grants db" and "consumptions db' = consumptions db"
  shows "nonces_unique db' = nonces_unique db" and "budgets db' = budgets db"
  using assms by (simp_all add: nonces_unique_def budgets_def grant_consumptions_def)

lemma series_same:
  assumes "versions db' = versions db" and "mandates db' = mandates db"
  shows "one_owner db' = one_owner db" and "numbered db' = numbered db" and "one_active db' = one_active db"
  using assms by (simp_all only: one_owner_def numbered_def one_active_def)

section \<open>Mandate writes\<close>

lemma series_principal:
  assumes "require_mandate_series_owner reads i p = Inr ()" and "v \<in> set (versions (reads 0))"
    and "mv_capital_mandate_id v = i"
  shows "mv_principal_id v = p"
proof -
  from assms(1) obtain ow where "capital_mandate_series_owner (reads 0) i = Inr ow"
      "ow = Some p \<or> ow = None"
    by (auto simp: require_mandate_series_owner_def rbind_Inr_iff split: option.splits if_splits)
  with assms(2,3) show ?thesis by (auto simp: series_owner_iff series_owner_None_iff)
qed

text \<open>The active rows after the write: the new mandate, and those of other principals.\<close>

lemma superseded_others:
  assumes sup: "supersede_active_mandates reads (cm_capital_mandate_id m) p = Inr qs"
    and n: "n \<in> set (fold (tbl_merge cm_capital_mandate_id) (qs @ [m]) ms)" "cm_status n = ''active''"
      "n \<noteq> m"
  shows "n \<in> set ms" and "cm_capital_mandate_id n \<noteq> cm_capital_mandate_id m"
    and "n \<in> set (mandates (reads 4)) \<Longrightarrow>
         \<exists>j. capital_mandate_series_owner (reads j) (cm_capital_mandate_id n) \<noteq> Inr (Some p)"
proof -
  note S = supersede_rows_Inr [OF sup [unfolded supersede_active_mandates_def]]
  have "n \<notin> set qs" using S n(2) by fastforce
  with fold_merge_set [OF n(1)] n(3)
  have d: "n \<in> set ms" "cm_capital_mandate_id n \<noteq> cm_capital_mandate_id m"
    "cm_capital_mandate_id n \<notin> cm_capital_mandate_id ` set qs" by auto
  then show "n \<in> set ms" "cm_capital_mandate_id n \<noteq> cm_capital_mandate_id m" by simp_all
  show "\<exists>j. capital_mandate_series_owner (reads j) (cm_capital_mandate_id n) \<noteq> Inr (Some p)"
    if "n \<in> set (mandates (reads 4))"
  proof (rule ccontr)
    assume "\<not> ?thesis"
    with S d n(2) that have "n\<lparr>cm_status := ''superseded''\<rparr> \<in> set qs" by simp
    from imageI [OF this, of cm_capital_mandate_id] d(3) show False by simp
  qed
qed

text \<open>
  Storing a plan keeps the invariant when, in the store it is written to, the versions of its
  series are the writer's and have smaller numbers, and every other row left active belongs to
  another principal.
\<close>

definition plan_fits :: "mandate_plan \<Rightarrow> auth_db \<Rightarrow> auth_db \<Rightarrow> bool" where
  "plan_fits pl db db' \<longleftrightarrow>
     (let m = mp_mandate pl; v = mp_version pl in
      mv_capital_mandate_id v = cm_capital_mandate_id m \<and>
      (\<forall>w\<in>set (versions db). mv_capital_mandate_id w = cm_capital_mandate_id m \<longrightarrow>
         mv_principal_id w = mv_principal_id v \<and> mv_version_number w < mv_version_number v) \<and>
      (\<forall>n\<in>set (mandates db'). cm_status n = ''active'' \<longrightarrow> n \<noteq> m \<longrightarrow>
         n \<in> set (mandates db) \<and> cm_capital_mandate_id n \<noteq> cm_capital_mandate_id m \<and>
         (\<forall>w\<in>set (versions db). mv_capital_mandate_id w = cm_capital_mandate_id n \<longrightarrow>
            mv_principal_id w \<noteq> mv_principal_id v)))"

lemma one_active_step:
  assumes oa: "one_active db" and fits: "plan_fits pl db db'"
    and new: "\<And>w. w \<in> set (versions db') \<Longrightarrow> w = mp_version pl \<or> w \<in> set (versions db)"
  shows "one_active db'"
proof -
  let ?m = "mp_mandate pl" and ?p = "mv_principal_id (mp_version pl)"
  note F = fits [unfolded plan_fits_def Let_def]
  have foreign: "n \<in> set (mandates db) \<and> w \<in> set (versions db) \<and> mv_principal_id w \<noteq> ?p"
    if n: "n \<in> set (mandates db')" "cm_status n = ''active''" "n \<noteq> ?m"
      and w: "w \<in> set (versions db')" "mv_capital_mandate_id w = cm_capital_mandate_id n" for n w
    using F n w new [OF w(1)] by metis
  have mine: "mv_principal_id w = ?p"
    if "w \<in> set (versions db')" "mv_capital_mandate_id w = cm_capital_mandate_id ?m" for w
    using new [OF that(1)] F that(2) by blast
  show ?thesis
    unfolding one_active_def
  proof (intro ballI impI)
    fix n n' v w
    assume a: "n \<in> set (mandates db')" "n' \<in> set (mandates db')" "v \<in> set (versions db')"
      "w \<in> set (versions db')" "cm_status n = ''active''" "cm_status n' = ''active''"
      "mv_capital_mandate_id v = cm_capital_mandate_id n" "mv_capital_mandate_id w = cm_capital_mandate_id n'"
      "mv_principal_id v = mv_principal_id w"
    then show "n = n'"
      using mine foreign oa unfolding one_active_def by metis
  qed
qed

lemma stored_inv:
  assumes inv: "auth_inv db" and st: "mandate_stored pl db db'" and fits: "plan_fits pl db db'"
  shows "auth_inv db'"
proof -
  let ?v = "mp_version pl"
  note S = st [unfolded mandate_stored_def] and F = fits [unfolded plan_fits_def Let_def]
  have new: "w = ?v \<or> (w \<in> set (versions db) \<and> w \<noteq> ?v)" if "w \<in> set (versions db')" for w
    using that S by (auto simp: set_tbl_merge)
  have keys: "auth_keys db'"
    using inv S unfolding auth_keys_def auth_inv_def by (metis keyed_merge fold_merge_keyed)
  have owner: "one_owner db'"
    using inv F unfolding one_owner_def auth_inv_def by (metis new)
  have num: "numbered db'"
    using inv F unfolding numbered_def auth_inv_def by (metis new order_less_irrefl)
  have act: "one_active db'"
    using inv new by (intro one_active_step [OF _ fits]) (auto simp: auth_inv_def)
  have "nonces_unique db'" "budgets db'"
    using inv S usage_same [of db' db] unfolding auth_inv_def by blast+
  with keys owner num act show ?thesis by (simp add: auth_inv_def)
qed

lemma mandate_inv:
  assumes inv: "auth_inv db" and ok: "record_capital_mandate e c a db = (Inr m, db')"
  shows "auth_inv db'"
  using ok
proof (rule record_capital_mandate_ok)
  fix pl
  assume pl: "plan_capital_mandate e c a (\<lambda>_. db) = Inr pl" and st: "mandate_stored pl db db'"
  note P = plan_okD [OF pl, unfolded mandate_planned_def Let_def]
  have oo: "one_owner db" using inv by (simp add: auth_inv_def)
  have "plan_fits pl db db'"
    unfolding plan_fits_def Let_def
  proof (intro conjI ballI impI)
    fix n w
    assume n: "n \<in> set (mandates db')" "cm_status n = ''active''" "n \<noteq> mp_mandate pl"
    note O = superseded_others [of "\<lambda>_. db", OF _ _ n(2,3), of _ _ "mandates db"]
    show "n \<in> set (mandates db)" "cm_capital_mandate_id n \<noteq> cm_capital_mandate_id (mp_mandate pl)"
      using O(1,2) P n(1) st unfolding mandate_stored_def by metis+
    then have "capital_mandate_series_owner db (cm_capital_mandate_id n) \<noteq> Inr (Some (pi_principal_id (oc_principal c)))"
      using O(3) P n(1) st unfolding mandate_stored_def by metis
    then show "mv_principal_id w \<noteq> mv_principal_id (mp_version pl)"
      if "w \<in> set (versions db)" "mv_capital_mandate_id w = cm_capital_mandate_id n"
      using P oo that unfolding series_owner_iff one_owner_def by metis
  qed (use P series_principal [of "\<lambda>_. db"] in \<open>auto\<close>)
  with inv st show "auth_inv db'" by (rule stored_inv)
qed

lemma lifecycle_inv:
  assumes inv: "auth_inv db" and ok: "record_lifecycle_command e c i op reason ef db = (Inr x, db')"
  shows "auth_inv db'"
  using ok
proof (rule lifecycle_okE)
  assume "events db' = events db @ [x]" and same: "versions db' = versions db"
    "mandates db' = mandates db" "grants db' = grants db" "consumptions db' = consumptions db"
    and "\<not> tbl_has le_mandate_lifecycle_event_id (events db) (le_mandate_lifecycle_event_id x)"
    and "\<exists>y. auth_index db' = auth_index db @ [y] \<and> \<not> tbl_has ri_receipt_id (auth_index db) (ri_receipt_id y)"
  with inv have "auth_keys db'" unfolding auth_inv_def auth_keys_def by (metis keyed_snoc)
  with inv show ?thesis
    unfolding auth_inv_def series_same [OF same(1,2)] usage_same [OF same(3,4)] by blast
qed

section \<open>Grants\<close>

lemma no_consumptions:
  assumes "nonces_unique db" and "\<not> tbl_has ag_agent_authority_grant_id (grants db) i"
  shows "grant_consumptions db i = []"
  using assms by (auto simp: nonces_unique_def grant_consumptions_def filter_empty_conv)

lemma plan_grant_uses:
  assumes "plan_agent_authority_grant e c a db = Inr pl"
  shows "\<forall>n. ag_max_uses (gp_grant pl) = Some n \<longrightarrow> 0 < n"
  using assms
  by (auto simp: plan_agent_authority_grant_def Let_def rbind_Inr_iff mk_grant_def
      split: if_splits prod.splits option.splits)

lemma grant_inv:
  assumes inv: "auth_inv db" and ok: "record_agent_authority_grant e c a db = (Inr g, db')"
  shows "auth_inv db'"
  using ok
proof (rule record_grant_ok)
  fix pl
  assume pl: "plan_agent_authority_grant e c a db = Inr pl" "g = gp_grant pl"
    and gs: "grants db' = grants db @ [g]"
    and same: "mandates db' = mandates db" "versions db' = versions db" "events db' = events db"
      "consumptions db' = consumptions db"
    and ix: "\<exists>x. auth_index db' = auth_index db @ [x] \<and> \<not> tbl_has ri_receipt_id (auth_index db) (ri_receipt_id x)"
    and fresh: "\<not> tbl_has ag_agent_authority_grant_id (grants db) (ag_agent_authority_grant_id g)"
  have keys: "auth_keys db'"
    using inv gs same ix fresh unfolding auth_inv_def auth_keys_def by (metis keyed_snoc)
  have cs: "grant_consumptions db' i = grant_consumptions db i" for i
    using same by (simp add: grant_consumptions_def)
  have none: "grant_consumptions db (ag_agent_authority_grant_id g) = []"
    using inv fresh by (auto simp: auth_inv_def intro: no_consumptions)
  have "within_budget g []" using plan_grant_uses [OF pl(1)] pl(2) by (auto simp: within_budget_def)
  then have "budgets db'"
    using inv gs none by (auto simp: budgets_def auth_inv_def cs)
  moreover have "nonces_unique db'"
    using inv gs same by (auto simp: nonces_unique_def auth_inv_def tbl_has_iff)
  ultimately show ?thesis
    using inv keys unfolding auth_inv_def series_same [OF same(2,1)] by blast
qed

lemma revoke_inv:
  assumes inv: "auth_inv db" and ok: "revoke_agent_authority_grant e c i reason db = (Inr g', db')"
  shows "auth_inv db'"
  using ok
proof (rule revoke_ok)
  fix g path
  assume g: "tbl_get ag_agent_authority_grant_id (grants db) i = Some g"
    and g': "g' = revoked_grant (clock e 0) reason (display_path e path) g"
    and gs: "grants db' = tbl_update ag_agent_authority_grant_id i (\<lambda>_. g') (grants db)"
    and same: "mandates db' = mandates db" "versions db' = versions db" "events db' = events db"
      "consumptions db' = consumptions db"
    and ix: "\<exists>x. auth_index db' = auth_index db @ [x] \<and> \<not> tbl_has ri_receipt_id (auth_index db) (ri_receipt_id x)"
  have gi: "g \<in> set (grants db)" "ag_agent_authority_grant_id g = i" using tbl_get_SomeD [OF g] by auto
  have g'i: "ag_agent_authority_grant_id g' = i" using gi g' by (simp add: revoked_grant_def)
  have map: "map ag_agent_authority_grant_id (grants db') = map ag_agent_authority_grant_id (grants db)"
    using gs g'i map_key_update_const [of ag_agent_authority_grant_id g' "grants db"] by simp
  have keys: "auth_keys db'"
    using inv same ix map unfolding auth_inv_def auth_keys_def keyed_def [of ag_agent_authority_grant_id]
    by (metis keyed_snoc)
  have has: "tbl_has ag_agent_authority_grant_id (grants db') k = tbl_has ag_agent_authority_grant_id (grants db) k" for k
    using arg_cong [OF map, of set] by (auto simp: tbl_has_iff image_iff) (metis image_iff)+
  have cs: "grant_consumptions db' k = grant_consumptions db k" for k
    using same by (simp add: grant_consumptions_def)
  have "within_budget g' (grant_consumptions db i)"
    using inv gi g' by (auto simp: auth_inv_def budgets_def within_budget_def revoked_grant_def)
  then have "budgets db'"
    using inv gs g'i by (auto simp: budgets_def auth_inv_def cs dest!: set_tbl_update_subset)
  moreover have "nonces_unique db'"
    using inv same by (simp add: nonces_unique_def auth_inv_def has)
  ultimately show ?thesis
    using inv keys unfolding auth_inv_def series_same [OF same(2,1)] by blast
qed

lemma consumed_inv:
  assumes inv: "auth_inv db" and ok: "consumed e a db db' notional g cur c"
  shows "auth_inv db'"
proof -
  from ok obtain vid val path created where
      ch: "consume_locked_checks e a notional db = Inr (g, cur, vid, val, grant_consumptions db (ca_grant_id a))"
    and c: "c = mk_consumption e a notional vid (display_path e path) created"
    and row: "row_ok (AConsumption c) db"
      "\<not> tbl_has gc_grant_consumption_id (consumptions db) (gc_grant_consumption_id c)"
    and cons: "consumptions db' = consumptions db @ [c]"
    and same: "grants db' = grants db" "mandates db' = mandates db" "versions db' = versions db" "events db' = events db"
    and ix: "\<exists>x. auth_index db' = auth_index db @ [x] \<and> \<not> tbl_has ri_receipt_id (auth_index db) (ri_receipt_id x)"
    unfolding consumed_def by blast
  have keys: "auth_keys db'"
    using inv cons same row(2) ix unfolding auth_inv_def auth_keys_def by (metis keyed_snoc)
  have nonce: "nonces_unique db'"
    using inv row(1) cons same
    by (auto simp: nonces_unique_def auth_inv_def keyed_snoc tbl_has_iff list_ex_iff)
  have ci: "gc_agent_authority_grant_id c = ca_grant_id a" "gc_requested_notional c = amount notional"
      "gc_requested_notional_currency c = Some (currency notional)"
    using c by (simp_all add: mk_consumption_def)
  from ch have gi: "tbl_get ag_agent_authority_grant_id (grants db) (ca_grant_id a) = Some g"
    by (rule locked_checks_okE)
  from ch have b: "within_budget g (grant_consumptions db (ca_grant_id a) @ [c])"
    by (rule locked_checks_okE) (auto simp: within_budget_def used_notional_def dec_sum_snoc ci)
  have "budgets db'"
    unfolding budgets_def
  proof
    fix h assume "h \<in> set (grants db')"
    then have h: "h \<in> set (grants db)" using same by simp
    show "within_budget h (grant_consumptions db' (ag_agent_authority_grant_id h))"
    proof (cases "ag_agent_authority_grant_id h = ca_grant_id a")
      case True
      have "h = g"
        using h True tbl_get_SomeD [OF gi] inv unfolding auth_inv_def auth_keys_def by (metis keyed_inj)
      with True b ci cons show ?thesis by (simp add: grant_consumptions_def)
    next
      case False
      with h ci cons inv show ?thesis by (auto simp: grant_consumptions_def auth_inv_def budgets_def)
    qed
  qed
  with nonce keys inv show ?thesis
    unfolding auth_inv_def series_same [OF same(3,2)] by blast
qed

section \<open>The system\<close>

lemma auth_step_inv:
  assumes "auth_inv db" and "auth_step db db'"
  shows "auth_inv db'"
  using assms(2)
proof cases
  case (as_mandate e c a r)
  with assms(1) show ?thesis
    by (cases r) (auto dest: record_capital_mandate_error intro: same_tables_inv mandate_inv)
next
  case (as_lifecycle e c i op reason ef r)
  with assms(1) show ?thesis
    by (cases r) (auto dest: lifecycle_error_tables intro: same_tables_inv lifecycle_inv)
next
  case (as_grant e c ga r)
  with assms(1) show ?thesis
    by (cases r) (auto dest: record_grant_error intro: same_tables_inv grant_inv)
next
  case (as_consume e ca seen r)
  with assms(1) show ?thesis by (auto dest!: consume_cases intro: same_tables_inv consumed_inv)
next
  case (as_revoke e c i reason r)
  with assms(1) show ?thesis
    by (cases r) (auto dest: revoke_error intro: same_tables_inv revoke_inv)
qed

interpretation authority: guarded_system auth_start auth_step auth_inv
proof unfold_locales
  show "auth_start db \<Longrightarrow> auth_inv db" for db
    by (simp add: auth_start_def auth_inv_defs keyed_def)
  show "auth_inv db \<Longrightarrow> auth_step db db' \<Longrightarrow> auth_inv db'" for db db'
    by (rule auth_step_inv)
qed

end
