(* ===== verification/Authority_Usage.thy ===== *)
theory Authority_Usage
  imports Authority_System
begin

text \<open>
  What the uses of a grant add up to over a whole history: a use either takes place completely
  or not at all, recorded uses and revocations are never undone, and a grant that was just
  created can be used.
\<close>

section \<open>A use is all or nothing\<close>

lemma mk_money_Inr:
  "mk_money a c = Inr m \<longleftrightarrow>
   dec_le dec_zero a \<and> (\<exists>c'. normalize_currency_code c = Inr c' \<and> m = \<lparr>amount = a, currency = c'\<rparr>)"
  by (auto simp: mk_money_def rbind_Inr_iff)

lemma consumption_result_Inr:
  assumes "mk_money n cur = Inr next" and "\<forall>cap. ag_max_total_notional g = Some cap \<longrightarrow> dec_le n cap"
  shows "\<exists>r. consumption_result_of g cur c k next = Inr r \<and> cr_consumption r = c \<and> cr_usage_count r = k \<and>
    cr_used_notional r = next"
proof (cases "ag_max_total_notional g")
  case None
  then show ?thesis by (simp add: consumption_result_of_def)
next
  case (Some cap)
  with assms have "dec_le dec_zero (dec_sub cap n)" by (intro dec_sub_nonneg) simp
  with assms(1) obtain m where "mk_money (dec_sub cap (amount next)) cur = Inr m"
    by (auto simp: mk_money_Inr)
  with Some show ?thesis by (simp add: consumption_result_of_def)
qed

lemma consume_locked_outcome:
  assumes "consume_locked e a notional rid path db = (res, db')"
  shows "(isl res \<and> same_tables db db') \<or>
    (\<exists>r g cur c. res = Inr r \<and> consumed e a db db' notional g cur c \<and> cr_consumption r = c \<and>
       cr_usage_count r = int (length (grant_consumptions db (ca_grant_id a))) + 1)"
proof (cases "consume_locked_checks e a notional db")
  case (Inl x)
  with assms show ?thesis by (auto simp: consume_locked_def Let_def split: if_splits)
next
  case (Inr q)
  obtain g cur vid val existing where q: "q = (g, cur, vid, val, existing)" by (cases q)
  let ?created = "or_else (ca_now_utc a) (clock e 4)"
  let ?c = "mk_consumption e a notional vid (display_path e path) ?created"
  let ?n = "int (length existing) + 1" and ?sum = "dec_add (used_notional existing) (amount notional)"
  have ex: "existing = grant_consumptions db (ca_grant_id a)"
    using Inr q by (auto intro: locked_checks_existing)
  have cap: "\<forall>cap. ag_max_total_notional g = Some cap \<longrightarrow> dec_le ?sum cap"
    using Inr unfolding q by (rule locked_checks_okE)
  let ?x = "auth_index_row e rid ''state_core_agent_authority_grant_consumption'' path ?created []
      [ca_grant_id a, vid, ca_principal_id a, ca_agent_runtime_id a]"
  show ?thesis
  proof (cases "mk_money ?sum cur")
    case (Inl y)
    with assms Inr q show ?thesis by (auto simp: consume_locked_def Let_def split: if_splits)
  next
    case mm: (Inr money)
    let ?db1 = "write_auth_file path (ConsumptionReceipt rid ?created ?c val ?n money) db"
    obtain r where r: "consumption_result_of g cur ?c ?n money = Inr r" "cr_consumption r = ?c"
        "cr_usage_count r = ?n"
      using consumption_result_Inr [OF mm cap] by blast
    show ?thesis
    proof (cases "add_rows [AConsumption ?c, AIndex ?x] ?db1")
      case None
      with assms Inr q mm show ?thesis by (auto simp: consume_locked_def Let_def split: if_splits)
    next
      case (Some db2)
      note ad = add_consumption_rows [OF Some]
      have "(isl res \<and> same_tables db db') \<or> (res = Inr r \<and> db' = db2)"
        using assms Inr q mm Some r(1)
        by (auto simp: consume_locked_def Let_def split: if_splits)
      moreover have "consumed e a db db2 notional g cur ?c"
        using ad Inr q ex by (fastforce simp: consumed_def write_auth_file_def)
      ultimately show ?thesis using r ex by blast
    qed
  qed
qed

lemma consume_outcome:
  assumes "consume_agent_authority_grant e a seen db = (res, db')"
  shows "(isl res \<and> same_tables db db') \<or>
    (\<exists>r notional g cur c. res = Inr r \<and> consumed e a db db' notional g cur c \<and> cr_consumption r = c \<and>
       cr_usage_count r = int (length (grant_consumptions db (ca_grant_id a))) + 1)"
proof (cases "consume_precheck e a seen")
  case (Inl x)
  with assms show ?thesis by (auto simp: consume_agent_authority_grant_def)
next
  case (Inr notional)
  let ?rid = "''receipt_agent_authority_grant_consumption_'' @ stamp e 0 @ ''_'' @ uuid8 e 0"
  show ?thesis
  proof (cases "resolve_path e [''agent-authority-grant-consumptions'', ?rid @ ''.json'']")
    case None
    with assms Inr show ?thesis by (auto simp: consume_agent_authority_grant_def Let_def)
  next
    case (Some path)
    with assms Inr have "consume_locked e a notional ?rid path db = (res, db')"
      by (simp add: consume_agent_authority_grant_def Let_def)
    from consume_locked_outcome [OF this] show ?thesis by blast
  qed
qed

lemma consume_nonce_used:
  assumes "c \<in> set (consumptions db)" and "gc_agent_authority_grant_id c = ca_grant_id a"
    and "gc_nonce c = py_strip (ca_nonce a)"
    and "consume_agent_authority_grant e a seen db = (res, db')"
  shows "isl res \<and> same_tables db db'"
proof (rule ccontr)
  assume "\<not> (isl res \<and> same_tables db db')"
  with consume_outcome [OF assms(4)] obtain notional g cur d where "consumed e a db db' notional g cur d" by blast
  then obtain vid path created where d: "d = mk_consumption e a notional vid (display_path e path) created"
      and "row_ok (AConsumption d) db" unfolding consumed_def by blast
  then show False using assms(1-3) by (auto simp: mk_consumption_def list_ex_iff)
qed

section \<open>What no later call undoes\<close>

lemma tables_of_step:
  assumes "auth_step db db'"
  obtains (kept) "consumptions db' = consumptions db" and "grants db' = grants db"
    | (used) c where "consumptions db' = consumptions db @ [c]" and "grants db' = grants db"
    | (granted) g where "consumptions db' = consumptions db" and "grants db' = grants db @ [g]"
        and "\<not> tbl_has ag_agent_authority_grant_id (grants db) (ag_agent_authority_grant_id g)"
    | (revoked) i g g' where "consumptions db' = consumptions db"
        and "tbl_get ag_agent_authority_grant_id (grants db) i = Some g"
        and "ag_status g \<in> {''active'', ''suspended''}" and "ag_agent_authority_grant_id g' = i"
        and "grants db' = tbl_update ag_agent_authority_grant_id i (\<lambda>_. g') (grants db)"
  using assms
proof cases
  case (as_mandate e c a r)
  then show ?thesis
    by (cases r) (auto dest: record_capital_mandate_error simp: same_tables_def mandate_stored_def intro!: kept
        elim: record_capital_mandate_ok)
next
  case (as_lifecycle e c i op reason ef r)
  then show ?thesis
    by (cases r) (auto dest: lifecycle_error_tables simp: same_tables_def intro!: kept elim: lifecycle_okE)
next
  case (as_grant e c ga r)
  show ?thesis
  proof (cases r)
    case (Inl x)
    with as_grant show ?thesis by (auto dest: record_grant_error simp: same_tables_def intro!: kept)
  next
    case (Inr g)
    from as_grant [unfolded Inr] show ?thesis by (rule record_grant_ok) (rule granted)
  qed
next
  case (as_consume e ca seen r)
  from consume_cases [OF this] show ?thesis
    by (auto simp: same_tables_def consumed_def intro: kept used)
next
  case (as_revoke e c i reason r)
  show ?thesis
  proof (cases r)
    case (Inl x)
    with as_revoke show ?thesis by (auto dest: revoke_error simp: same_tables_def intro!: kept)
  next
    case (Inr g')
    from as_revoke [unfolded Inr] show ?thesis
    proof (rule revoke_ok)
      fix g path
      assume "tbl_get ag_agent_authority_grant_id (grants db) i = Some g"
        and "ag_status g \<in> {''active'', ''suspended''}"
        and "g' = revoked_grant (clock e 0) reason (display_path e path) g"
        and "grants db' = tbl_update ag_agent_authority_grant_id i (\<lambda>_. g') (grants db)"
        and "consumptions db' = consumptions db"
      then show ?thesis
        by (intro revoked [of i g g']) (auto simp: revoked_grant_def dest: tbl_get_SomeD)
    qed
  qed
qed

lemma consumptions_grow:
  assumes "auth_step\<^sup>*\<^sup>* db db'" and "c \<in> set (consumptions db)"
  shows "c \<in> set (consumptions db')"
  using assms
proof (induction rule: rtranclp_induct)
  case (step y z)
  from step.hyps(2) step.IH [OF step.prems] show ?case by (cases rule: tables_of_step) auto
qed simp

lemma closed_grant_kept:
  assumes "auth_step\<^sup>*\<^sup>* db db'" and "tbl_get ag_agent_authority_grant_id (grants db) i = Some g"
    and "ag_status g \<notin> {''active'', ''suspended''}"
  shows "tbl_get ag_agent_authority_grant_id (grants db') i = Some g"
  using assms
proof (induction rule: rtranclp_induct)
  case (step y z)
  from step.IH [OF step.prems] have g: "tbl_get ag_agent_authority_grant_id (grants y) i = Some g" .
  from step.hyps(2) show ?case
  proof (cases rule: tables_of_step)
    case (revoked j h h')
    with g step.prems(2) have "i \<noteq> j" by auto
    with g revoked show ?thesis
      using tbl_get_update_const [of ag_agent_authority_grant_id h' "grants y" i] by simp
  qed (use g in \<open>simp_all add: tbl_get_append\<close>)
qed simp

section \<open>Resolved versions\<close>

lemma resolved_member:
  assumes "resolve_in_session e p at_utc db = Inr r" and "rm_version r = Some v"
  shows "v \<in> set (versions db)"
proof -
  have "resolve_in_session e p at_utc db = Inr (resolved_version p at_utc v (rm_lifecycle_event r) (rm_status r))"
    using assms resolve_shape [OF assms] by simp
  then obtain at where "max_by (version_key e) (effective_versions e p at db) = Some v"
    unfolding resolve_version_iff in_force_def by blast
  from max_by_SomeD [OF this] show ?thesis by (auto simp: effective_versions_def)
qed

lemma grant_usable_version:
  assumes "grant_usable e i a g db v w" and "keyed mv_mandate_version_id (versions db)"
  shows "w = v"
proof -
  from assms(1) obtain p r where "resolve_capital_mandate e (i + 1) p (va_now_utc a) db = Inr r" "rm_version r = Some v"
    and w: "tbl_get mv_mandate_version_id (versions db) (mv_mandate_version_id v) = Some w"
    unfolding grant_usable_def by blast
  then have "v \<in> set (versions db)"
    by (auto simp: resolve_capital_mandate_def split: if_splits intro: resolved_member)
  with tbl_get_mem [OF assms(2) this] w show ?thesis by simp
qed

section \<open>A fresh grant\<close>

lemma plan_grant_okE:
  assumes "plan_agent_authority_grant e c a db = Inr pl"
  obtains m v parsed cur runtime path val where "grant_money e a v = Inr (parsed, cur)"
    and "gp_grant pl = mk_grant e (pi_principal_id (oc_principal c)) a
           (or_else (ga_created_at_utc a) (clock e 1)) runtime m v parsed cur (display_path e path)"
    and "validate_agent_authority_grant e 3 (ag_agent_authority_grant_id (gp_grant pl))
           (creation_args (ga_grant_scope a) (or_else (ga_created_at_utc a) (clock e 1)))
           (Some (gp_grant pl)) db = Inr val" and "gv_allowed val"
  using assms unfolding plan_agent_authority_grant_def Let_def rbind_Inr_iff
  by (fastforce simp: rbind_Inr_iff split: if_split_asm prod.split_asm option.split_asm)

lemma grant_money_positive:
  "grant_money e a v = Inr (parsed, cur) \<Longrightarrow> parsed = Some m \<Longrightarrow> \<not> dec_le (amount m) dec_zero"
  by (auto simp: grant_money_def rbind_Inr_iff split: if_splits option.splits)

lemma plan_grant_facts:
  assumes "plan_agent_authority_grant e c a db = Inr pl"
  shows "\<exists>cur. ag_notional_currency (gp_grant pl) = Some cur"
    and "\<forall>cap. ag_max_total_notional (gp_grant pl) = Some cap \<longrightarrow> \<not> dec_le cap dec_zero"
    and "ag_grant_scope (gp_grant pl) = ga_grant_scope a"
    and "ag_created_at_utc (gp_grant pl) = or_else (ga_created_at_utc a) (clock e 1)"
    and "\<exists>val. validate_agent_authority_grant e 3 (ag_agent_authority_grant_id (gp_grant pl))
           (creation_args (ga_grant_scope a) (or_else (ga_created_at_utc a) (clock e 1)))
           (Some (gp_grant pl)) db = Inr val \<and> gv_allowed val"
  by (rule plan_grant_okE [OF assms]; force simp: mk_grant_def Let_def dest: grant_money_positive)+

lemma owners_ok_same:
  assumes "versions db' = versions db"
  shows "owners_ok db' p vs = owners_ok db p vs"
  using assms by (simp add: owners_ok_iff series_owner_iff)

lemma grant_usable_tables:
  assumes "versions db' = versions db" and "events db' = events db"
    and "va_now_utc a = Some t" and "t \<noteq> []"
  shows "grant_usable e i a g db' v w = grant_usable e j a g db v w"
proof -
  have r: "resolve_capital_mandate e (i + 1) p (Some t) db' = resolve_capital_mandate e (j + 1) p (Some t) db" for p
    using assms(4) unfolding resolve_capital_mandate_def resolve_in_session_def
      owners_ok_same [OF assms(1)] assms(1,2) by (simp only: or_else_def option.case if_False)
  have x: "is_expired e i x (Some t) = is_expired e j x (Some t)" for x
    using assms(4) by (cases x) (simp_all add: is_expired_def or_else_def)
  show ?thesis unfolding grant_usable_def assms(1,3) r x ..
qed

lemma created_grant_usable:
  assumes inv: "auth_inv db" and ok: "record_agent_authority_grant e c a db = (Inr g, db')"
    and t: "ag_created_at_utc g \<noteq> []"
  shows "\<exists>val. validate_agent_authority_grant e j (ag_agent_authority_grant_id g)
           (creation_args (ag_grant_scope g) (ag_created_at_utc g)) None db' = Inr val \<and> gv_allowed val"
  using ok
proof (rule record_grant_ok)
  fix pl
  let ?va = "creation_args (ag_grant_scope g) (ag_created_at_utc g)"
  assume pl: "plan_agent_authority_grant e c a db = Inr pl" "g = gp_grant pl"
    and gs: "grants db' = grants db @ [g]"
    and same: "versions db' = versions db" "events db' = events db" "consumptions db' = consumptions db"
    and fresh: "\<not> tbl_has ag_agent_authority_grant_id (grants db) (ag_agent_authority_grant_id g)"
  note F = plan_grant_facts [OF pl(1), folded pl(2)]
  have "(\<exists>v w. grant_usable e 3 ?va g db v w)"
    using F validate_some [of db _ "Some g" g] by auto
  then have u: "\<exists>v w. grant_usable e j ?va g db' v w"
    using grant_usable_tables [OF same(1,2) _ t, of ?va e j g _ _ 3] by (simp add: creation_args_def)
  have none: "grant_consumptions db' (ag_agent_authority_grant_id g) = []"
    using inv fresh same(3) no_consumptions [of db] by (simp add: auth_inv_def grant_consumptions_def)
  have mv: "money_value e (va_requested_notional ?va) = None"
    by (simp add: creation_args_def money_value_def)
  have "usage_ok g [] None None"
    using F(1,2) plan_grant_uses [OF pl(1), folded pl(2)]
    by (auto simp: usage_ok_def used_notional_def dec_sum_def dec_less_def)
  moreover have "tbl_get ag_agent_authority_grant_id (grants db') (ag_agent_authority_grant_id g) = Some g"
    using gs fresh by (simp add: tbl_get_snoc)
  ultimately show ?thesis
    using u none mv validate_some [of db' "ag_agent_authority_grant_id g" None g e j ?va]
    by (simp add: creation_args_def)
qed

end
