(* ===== verification/Mandate_Sessions.thy ===== *)
theory Mandate_Sessions
  imports Authority_System
begin

text \<open>
  Mandate writes at the granularity of their database sessions.  \<^verbatim>\<open>record_capital_mandate\<close> reads the
  owner of the series, the previous version, the active mandates and their owners in sessions of
  their own and stores its rows in a later transaction, so other calls commit in between.  A
  history is the list of the stores a database has been through, the newest first; a store that a
  mandate write produced carries the series and the principal of the write.  A write may read each
  of its sessions in any store since the call began, and the writes committed meanwhile are those
  of other series and other principals: neither a lock nor a constraint of the tables enforces
  this, and \<^verbatim>\<open>overlapping_writes\<close> in the property theory shows what happens without it.
\<close>

inductive other_step :: "auth_db \<Rightarrow> auth_db \<Rightarrow> bool" where
  os_lifecycle: "record_lifecycle_command e c i op reason ef db = (r2, db') \<Longrightarrow> other_step db db'"
| os_grant: "record_agent_authority_grant e c ga db = (r3, db') \<Longrightarrow> other_step db db'"
| os_consume: "consume_agent_authority_grant e ca seen db = (r4, db') \<Longrightarrow> other_step db db'"
| os_revoke: "revoke_agent_authority_grant e c i reason db = (r5, db') \<Longrightarrow> other_step db db'"

type_synonym history = "(auth_db \<times> (string \<times> string) option) list"

definition plan_label :: "mandate_plan \<Rightarrow> string \<times> string" where
  "plan_label pl = (mv_capital_mandate_id (mp_version pl), mv_principal_id (mp_version pl))"

text \<open>The stores since the call began; the writes that produced all but the first are foreign.\<close>

definition foreign_since :: "history \<Rightarrow> string \<times> string \<Rightarrow> bool" where
  "foreign_since win k \<longleftrightarrow>
     (\<forall>x\<in>set (butlast win). \<forall>s p. snd x = Some (s, p) \<longrightarrow> s \<noteq> fst k \<and> p \<noteq> snd k)"

inductive session_step :: "history \<Rightarrow> history \<Rightarrow> bool" where
  ss_other: "other_step db db' \<Longrightarrow> session_step ((db, l) # h) ((db', None) # (db, l) # h)"
| ss_receipt: "session_step ((db, l) # h) ((write_mandate_receipt pl db, None) # (db, l) # h)"
| ss_store: "(db, l) # h = win @ older \<Longrightarrow> win \<noteq> [] \<Longrightarrow> (\<And>i. reads i \<in> fst ` set win) \<Longrightarrow>
     plan_capital_mandate e c a reads = Inr pl \<Longrightarrow> foreign_since win (plan_label pl) \<Longrightarrow>
     store_capital_mandate e existed pl db = (r, db') \<Longrightarrow>
     session_step ((db, l) # h)
       ((db', case r of Inl _ \<Rightarrow> None | Inr _ \<Rightarrow> Some (plan_label pl)) # (db, l) # h)"

definition session_start :: "history \<Rightarrow> bool" where
  "session_start h \<longleftrightarrow> (\<exists>db. h = [(db, None)] \<and> auth_start db)"

section \<open>What one step adds\<close>

definition follows :: "auth_db \<times> (string \<times> string) option \<Rightarrow> auth_db \<times> (string \<times> string) option \<Rightarrow> bool" where
  "follows x y \<longleftrightarrow>
     (\<forall>w\<in>set (versions (fst x)). w \<in> set (versions (fst y)) \<or>
        snd x = Some (mv_capital_mandate_id w, mv_principal_id w)) \<and>
     (\<forall>n\<in>set (mandates (fst x)). cm_status n = ''active'' \<longrightarrow> n \<in> set (mandates (fst y)) \<or>
        (\<exists>v\<in>set (versions (fst x)). mv_capital_mandate_id v = cm_capital_mandate_id n \<and>
           snd x = Some (cm_capital_mandate_id n, mv_principal_id v)))"

definition history_inv :: "history \<Rightarrow> bool" where
  "history_inv h \<longleftrightarrow> h \<noteq> [] \<and> (\<forall>x\<in>set h. auth_inv (fst x)) \<and> successively follows h"

lemma history_inv_extend:
  "history_inv (y # h) \<Longrightarrow> auth_inv (fst x) \<Longrightarrow> follows x y \<Longrightarrow> history_inv (x # y # h)"
  by (auto simp: history_inv_def)

lemma history_inv_prefix: "history_inv (win @ older) \<Longrightarrow> win \<noteq> [] \<Longrightarrow> history_inv win"
  by (auto simp: history_inv_def successively_append_iff)

lemma follows_same: "versions db' = versions db \<Longrightarrow> mandates db' = mandates db \<Longrightarrow> follows (db', k) (db, l)"
  by (auto simp: follows_def)

lemma other_step_keeps:
  assumes "other_step db db'"
  shows "versions db' = versions db \<and> mandates db' = mandates db"
  using assms
proof cases
  case (os_lifecycle e c i op reason ef r)
  then show ?thesis by (cases r) (auto dest: lifecycle_error_tables simp: same_tables_def elim: lifecycle_okE)
next
  case (os_grant e c ga r)
  then show ?thesis by (cases r) (auto dest: record_grant_error simp: same_tables_def elim: record_grant_ok)
next
  case (os_consume e ca seen r)
  from consume_cases [OF this] show ?thesis by (auto simp: same_tables_def consumed_def)
next
  case (os_revoke e c i reason r)
  then show ?thesis by (cases r) (auto dest: revoke_error simp: same_tables_def elim: revoke_ok)
qed

lemma other_step_inv: "other_step db db' \<Longrightarrow> auth_inv db \<Longrightarrow> auth_inv db'"
  by (erule other_step.cases) (blast intro: auth_step_inv auth_step.intros)+

section \<open>What a window of the history keeps\<close>

text \<open>
  A version of the newest store that no write of the window produced is in every store of the
  window; so is an active mandate of a principal who wrote nothing in the window.
\<close>

lemma window_version:
  assumes "successively follows win" and "x \<in> set win" and "w \<in> set (versions (fst (hd win)))"
    and "Some (mv_capital_mandate_id w, mv_principal_id w) \<notin> snd ` set (butlast win)"
  shows "w \<in> set (versions (fst x))"
  using assms
proof (induction win rule: induct_list012)
  case (3 y z h)
  then have "w \<in> set (versions (fst z))" by (auto simp: follows_def)
  with 3 show ?case by auto
qed auto

lemma window_mandate:
  assumes "history_inv win" and "x \<in> set win" and "n \<in> set (mandates (fst (hd win)))"
    and "cm_status n = ''active''" and "w \<in> set (versions (fst (hd win)))"
    and "mv_capital_mandate_id w = cm_capital_mandate_id n"
    and "\<And>y s p. y \<in> set (butlast win) \<Longrightarrow> snd y = Some (s, p) \<Longrightarrow> p \<noteq> mv_principal_id w"
  shows "n \<in> set (mandates (fst x))"
  using assms
proof (induction win rule: induct_list012)
  case (3 y z h)
  have f: "follows y z" and inv: "auth_inv (fst y)" using 3(3) by (auto simp: history_inv_def)
  have y: "snd y \<noteq> Some (s, mv_principal_id w)" for s using 3(9) [of y] by auto
  have "w \<in> set (versions (fst z))" using f y 3(7) by (auto simp: follows_def)
  moreover have "n \<in> set (mandates (fst z))"
  proof (rule ccontr)
    assume "n \<notin> set (mandates (fst z))"
    with f 3(5,6) obtain v where v: "v \<in> set (versions (fst y))" "mv_capital_mandate_id v = cm_capital_mandate_id n"
      "snd y = Some (cm_capital_mandate_id n, mv_principal_id v)" by (auto simp: follows_def)
    have "one_owner (fst y)" using inv by (simp add: auth_inv_def)
    with v(1,2) 3(7,8) have "mv_principal_id v = mv_principal_id w"
      unfolding one_owner_def list.sel by metis
    with v(3) y show False by simp
  qed
  ultimately show ?case using 3 by (auto simp: history_inv_def)
qed auto

lemma foreign_sinceD:
  assumes "foreign_since win (s, p)" and "y \<in> set (butlast win)" and "snd y = Some (s', p')"
  shows "s' \<noteq> s" and "p' \<noteq> p"
  using assms by (auto simp: foreign_since_def)

section \<open>A write over a window\<close>

lemma window_plan_fits:
  assumes inv: "history_inv win" and hd: "fst (hd win) = db" and rd: "\<And>i. reads i \<in> fst ` set win"
    and pl: "plan_capital_mandate e c a reads = Inr pl" and fs: "foreign_since win (plan_label pl)"
    and st: "mandate_stored pl db db'"
  shows "plan_fits pl db db'"
proof -
  let ?m = "mp_mandate pl" and ?p = "pi_principal_id (oc_principal c)"
  note P = plan_okD [OF pl, unfolded mandate_planned_def Let_def]
  have label: "plan_label pl = (cm_capital_mandate_id ?m, ?p)" using P by (simp add: plan_label_def)
  note fD = foreign_sinceD [OF fs [unfolded label]]
  have succ: "successively follows win" using inv by (simp add: history_inv_def)
  have seen: "w \<in> set (versions (reads i))"
    if "w \<in> set (versions db)" "mv_capital_mandate_id w = cm_capital_mandate_id ?m \<or> mv_principal_id w = ?p" for w i
  proof -
    obtain x where x: "x \<in> set win" "reads i = fst x" using rd [of i] by auto
    have "Some (mv_capital_mandate_id w, mv_principal_id w) \<notin> snd ` set (butlast win)"
    proof
      assume "Some (mv_capital_mandate_id w, mv_principal_id w) \<in> snd ` set (butlast win)"
      then obtain y where "y \<in> set (butlast win)" "snd y = Some (mv_capital_mandate_id w, mv_principal_id w)"
        by auto
      from fD [OF this] that(2) show False by blast
    qed
    with window_version [OF succ x(1)] that(1) hd x(2) show ?thesis by simp
  qed
  show ?thesis
    unfolding plan_fits_def Let_def
  proof (intro conjI ballI impI)
    fix w assume w: "w \<in> set (versions db)" "mv_capital_mandate_id w = cm_capital_mandate_id ?m"
    have p: "mv_principal_id w = ?p"
      using P w seen [OF w(1)] by (blast intro: series_principal [of reads])
    then show "mv_principal_id w = mv_principal_id (mp_version pl)" using P by simp
    show "mv_version_number w < mv_version_number (mp_version pl)"
      using P w p seen [OF w(1), of 3] by blast
  next
    fix n assume n: "n \<in> set (mandates db')" "cm_status n = ''active''" "n \<noteq> ?m"
    note O = superseded_others [of reads, OF _ _ n(2,3), of ?p _ "mandates db"]
    show nd: "n \<in> set (mandates db)" "cm_capital_mandate_id n \<noteq> cm_capital_mandate_id ?m"
      using O(1,2) P n(1) st unfolding mandate_stored_def by metis+
    fix w assume w: "w \<in> set (versions db)" "mv_capital_mandate_id w = cm_capital_mandate_id n"
    show "mv_principal_id w \<noteq> mv_principal_id (mp_version pl)"
    proof
      assume "mv_principal_id w = mv_principal_id (mp_version pl)"
      then have p: "mv_principal_id w = ?p" using P by simp
      have "n \<in> set (mandates (fst x))" if "x \<in> set win" for x
        using window_mandate [OF inv that, of n w] nd n(2) w hd p fD(2) by blast
      then have n4: "n \<in> set (mandates (reads 4))" using rd [of 4] by auto
      have "capital_mandate_series_owner (reads j) (cm_capital_mandate_id n) = Inr (Some ?p)" for j
      proof -
        have "one_owner (reads j)" using rd [of j] inv by (auto simp: history_inv_def auth_inv_def)
        then show ?thesis
          using seen [OF w(1), of j] p w(2) unfolding series_owner_iff one_owner_def by metis
      qed
      with O(3) [OF _ _ n4] P n(1) st show False unfolding mandate_stored_def by metis
    qed
  qed (use P in simp)
qed

lemma stored_follows:
  assumes "mandate_stored pl db db'" and "plan_fits pl db db'"
  shows "follows (db', Some (plan_label pl)) (db, l)"
proof -
  let ?v = "mp_version pl"
  have v: "?v \<in> set (versions db')"
    using assms(1) by (simp add: mandate_stored_def set_tbl_merge)
  have new: "w = ?v \<or> w \<in> set (versions db)" if "w \<in> set (versions db')" for w
    using assms(1) that by (auto simp: mandate_stored_def set_tbl_merge)
  note F = assms(2) [unfolded plan_fits_def Let_def]
  have "n \<in> set (mandates db) \<or> n = mp_mandate pl"
    if "n \<in> set (mandates db')" "cm_status n = ''active''" for n
    using F that by blast
  with v new F show ?thesis
    unfolding follows_def plan_label_def fst_conv snd_conv by metis
qed

lemma session_step_inv:
  assumes "history_inv h" and "session_step h h'"
  shows "history_inv h'"
  using assms(2)
proof cases
  case (ss_other db db' l t)
  with assms(1) show ?thesis
    by (auto intro!: history_inv_extend follows_same dest: other_step_keeps other_step_inv simp: history_inv_def)
next
  case (ss_receipt db l t pl)
  have "same_tables db (write_mandate_receipt pl db)" by simp
  with ss_receipt assms(1) show ?thesis
    by (auto intro!: history_inv_extend follows_same intro: same_tables_inv simp: same_tables_def history_inv_def)
next
  case (ss_store db l t win older reads e c a pl existed r db')
  have hd: "fst (hd win) = db" using ss_store(3,4) by (cases win) auto
  have inv: "history_inv win" "auth_inv db"
  proof -
    from assms(1) ss_store(1,3) have h: "history_inv (win @ older)" by simp
    then show "history_inv win" using ss_store(4) by (rule history_inv_prefix)
    from h have "\<forall>x\<in>set ((db, l) # t). auth_inv (fst x)" unfolding ss_store(3) history_inv_def by blast
    then show "auth_inv db" by simp
  qed
  show ?thesis
  proof (cases r)
    case (Inl x)
    with ss_store(8) have same: "same_tables db db'" by (blast dest: store_capital_mandate_error)
    then have "follows (db', None) (db, l)" by (auto intro: follows_same simp: same_tables_def)
    with same inv assms(1) ss_store(1,2) Inl show ?thesis
      by (auto intro!: history_inv_extend intro: same_tables_inv)
  next
    case (Inr m)
    note st = store_capital_mandate_ok(2) [OF ss_store(8) [unfolded Inr]]
    note fits = window_plan_fits [OF inv(1) hd ss_store(5,6,7) st]
    from stored_inv [OF inv(2) st fits] stored_follows [OF st fits] assms(1) ss_store(1,2) Inr
    show ?thesis by (auto intro!: history_inv_extend)
  qed
qed

interpretation sessions: guarded_system session_start session_step history_inv
proof unfold_locales
  show "session_start h \<Longrightarrow> history_inv h" for h
    by (auto simp: session_start_def history_inv_def auth_start_def auth_inv_defs keyed_def)
  show "history_inv h \<Longrightarrow> session_step h h' \<Longrightarrow> history_inv h'" for h h'
    by (rule session_step_inv)
qed

section \<open>Whole calls as sessions\<close>

text \<open>A call that nothing interrupts is one of the runs: its sessions all read the newest store.\<close>

lemma whole_write_runs:
  assumes "reach session_start session_step ((db, l) # h)" and "record_capital_mandate e c a db = (r, db')"
  shows "\<exists>l' h'. reach session_start session_step ((db', l') # h')"
proof (cases "plan_capital_mandate e c a (\<lambda>_. db)")
  case (Inr pl)
  show ?thesis
  proof (cases "write_fails e (mp_path pl)")
    case False
    let ?db1 = "write_mandate_receipt pl db"
    let ?h1 = "(?db1, None) # (db, l) # h"
    from assms(1) have r1: "reach session_start session_step ?h1" by (rule reach_step) (rule ss_receipt)
    from assms(2) Inr False have st: "store_capital_mandate e (auth_files db (mp_path pl) \<noteq> None) pl ?db1 = (r, db')"
      by (simp add: record_capital_mandate_def Let_def)
    have "session_step ?h1 ((db', case r of Inl _ \<Rightarrow> None | Inr _ \<Rightarrow> Some (plan_label pl)) # ?h1)"
      by (rule ss_store [of _ _ _ "[(?db1, None), (db, l)]" h, OF _ _ _ Inr _ st]) (auto simp: foreign_since_def)
    with r1 show ?thesis by (blast intro: reach_step)
  qed (use assms Inr in \<open>auto simp: record_capital_mandate_def\<close>)
qed (use assms in \<open>auto simp: record_capital_mandate_def\<close>)

lemma calls_run:
  assumes "reach auth_start auth_step db"
  shows "\<exists>l h. reach session_start session_step ((db, l) # h)"
  using assms
proof (induction rule: reach.induct)
  case (reach_start db)
  then have "session_start [(db, None)]" by (simp add: session_start_def)
  then show ?case by (blast intro: reach.intros)
next
  case (reach_step db db')
  then obtain l h where h: "reach session_start session_step ((db, l) # h)" by blast
  from reach_step(2) show ?case
  proof cases
    case as_mandate
    with h show ?thesis by (rule whole_write_runs)
  qed (blast intro: h reach.reach_step ss_other other_step.intros)+
qed

end
