(* ===== verification/Mandate_Specification.thy ===== *)
theory Mandate_Specification
  imports Mandate_Resolution
begin

text \<open>
  What the mandate of a principal at an instant is, said without the code: the latest version in
  an order written out field by field, the latest of its lifecycle events, and a status read off
  the expiry and the event type.  The code's resolution is proved to compute it.
\<close>

section \<open>Instants and orders\<close>

definition instant :: "auth_env \<Rightarrow> string \<Rightarrow> int option" where
  "instant e s = Option.bind (fromisoformat e (replace_Z s)) utc_instant"

definition effective_by :: "auth_env \<Rightarrow> int \<Rightarrow> string \<Rightarrow> bool" where
  "effective_by e at s \<longleftrightarrow> (\<exists>t\<le>at. instant e s = Some t)"

text \<open>
  A version is not later than another: effective earlier, or then created earlier, or then with
  the smaller number, and for two versions that agree in all three the one with the smaller
  mandate and version identifier.
\<close>

definition version_not_later ::
  "auth_env \<Rightarrow> capital_mandate_version \<Rightarrow> capital_mandate_version \<Rightarrow> bool" where
  "version_not_later e v w \<longleftrightarrow>
     (\<exists>ev ew cv cw.
        instant e (mv_effective_at_utc v) = Some ev \<and> instant e (mv_effective_at_utc w) = Some ew \<and>
        instant e (mv_created_at_utc v) = Some cv \<and> instant e (mv_created_at_utc w) = Some cw \<and>
        (ev < ew \<or> ev = ew \<and>
        (cv < cw \<or> cv = cw \<and>
        (mv_version_number v < mv_version_number w \<or> mv_version_number v = mv_version_number w \<and>
        (mv_capital_mandate_id v < mv_capital_mandate_id w \<or>
         mv_capital_mandate_id v = mv_capital_mandate_id w \<and>
         mv_mandate_version_id v \<le> mv_mandate_version_id w)))))"

definition event_not_later :: "auth_env \<Rightarrow> lifecycle_event \<Rightarrow> lifecycle_event \<Rightarrow> bool" where
  "event_not_later e x y \<longleftrightarrow>
     (\<exists>ex ey cx cy.
        instant e (le_effective_at_utc x) = Some ex \<and> instant e (le_effective_at_utc y) = Some ey \<and>
        instant e (le_created_at_utc x) = Some cx \<and> instant e (le_created_at_utc y) = Some cy \<and>
        (ex < ey \<or> ex = ey \<and>
        (cx < cy \<or> cx = cy \<and> le_mandate_lifecycle_event_id x \<le> le_mandate_lifecycle_event_id y)))"

section \<open>The mandate of a principal at an instant\<close>

definition effective_version :: "auth_env \<Rightarrow> string \<Rightarrow> int \<Rightarrow> auth_db \<Rightarrow> capital_mandate_version \<Rightarrow> bool" where
  "effective_version e p at db v \<longleftrightarrow>
     v \<in> set (versions db) \<and> mv_principal_id v = p \<and> effective_by e at (mv_effective_at_utc v)"

definition effective_event ::
  "auth_env \<Rightarrow> capital_mandate_version \<Rightarrow> int \<Rightarrow> auth_db \<Rightarrow> lifecycle_event \<Rightarrow> bool" where
  "effective_event e v at db x \<longleftrightarrow>
     x \<in> set (events db) \<and> le_mandate_version_id x = mv_mandate_version_id v \<and>
     effective_by e at (le_effective_at_utc x)"

definition latest_version :: "auth_env \<Rightarrow> string \<Rightarrow> int \<Rightarrow> auth_db \<Rightarrow> capital_mandate_version \<Rightarrow> bool" where
  "latest_version e p at db v \<longleftrightarrow>
     effective_version e p at db v \<and>
     (\<forall>w. effective_version e p at db w \<longrightarrow> version_not_later e w v)"

definition latest_event ::
  "auth_env \<Rightarrow> capital_mandate_version \<Rightarrow> int \<Rightarrow> auth_db \<Rightarrow> lifecycle_event option \<Rightarrow> bool" where
  "latest_event e v at db x \<longleftrightarrow>
     (case x of
        None \<Rightarrow> (\<forall>y. \<not> effective_event e v at db y)
      | Some y \<Rightarrow> effective_event e v at db y \<and>
                  (\<forall>z. effective_event e v at db z \<longrightarrow> event_not_later e z y))"

text \<open>No series of an effective version of the principal has a version of another principal.\<close>

definition sole_owner :: "auth_env \<Rightarrow> string \<Rightarrow> int \<Rightarrow> auth_db \<Rightarrow> bool" where
  "sole_owner e p at db \<longleftrightarrow>
     (\<forall>v w. effective_version e p at db v \<longrightarrow> w \<in> set (versions db) \<longrightarrow>
        mv_capital_mandate_id w = mv_capital_mandate_id v \<longrightarrow> mv_principal_id w = p)"

definition unexpired :: "auth_env \<Rightarrow> int \<Rightarrow> capital_mandate_version \<Rightarrow> bool" where
  "unexpired e at v \<longleftrightarrow>
     (case mv_expires_at_utc v of
        None \<Rightarrow> True | Some s \<Rightarrow> s = [] \<or> (\<exists>t>at. instant e s = Some t))"

inductive mandate_status ::
  "auth_env \<Rightarrow> int \<Rightarrow> capital_mandate_version \<Rightarrow> lifecycle_event option \<Rightarrow> string \<Rightarrow> bool"
  for e at v where
  ms_expired: "mv_expires_at_utc v = Some s \<Longrightarrow> s \<noteq> [] \<Longrightarrow> instant e s = Some t \<Longrightarrow> t \<le> at \<Longrightarrow>
     mandate_status e at v x ''expired''"
| ms_no_event: "unexpired e at v \<Longrightarrow> mandate_status e at v None ''unavailable''"
| ms_active: "unexpired e at v \<Longrightarrow> le_event_type y \<in> {''activated'', ''resumed''} \<Longrightarrow>
     mandate_status e at v (Some y) ''active''"
| ms_suspended: "unexpired e at v \<Longrightarrow> le_event_type y = ''suspended'' \<Longrightarrow>
     mandate_status e at v (Some y) ''suspended''"
| ms_revoked: "unexpired e at v \<Longrightarrow> le_event_type y = ''revoked'' \<Longrightarrow>
     mandate_status e at v (Some y) ''revoked''"

inductive_simps mandate_status_simps: "mandate_status e at v x st"

text \<open>
  The stored times resolution has to read: the effective times of the principal's versions, and
  those of the events of the version it chose.
\<close>

definition times_readable :: "auth_env \<Rightarrow> string \<Rightarrow> auth_db \<Rightarrow> bool" where
  "times_readable e p db \<longleftrightarrow>
     (\<forall>v\<in>set (versions db). mv_principal_id v = p \<longrightarrow> instant e (mv_effective_at_utc v) \<noteq> None)"

definition event_times_readable :: "auth_env \<Rightarrow> capital_mandate_version \<Rightarrow> auth_db \<Rightarrow> bool" where
  "event_times_readable e v db \<longleftrightarrow>
     (\<forall>x\<in>set (events db). le_mandate_version_id x = mv_mandate_version_id v \<longrightarrow>
        instant e (le_effective_at_utc x) \<noteq> None)"

section \<open>The code computes the specification\<close>

lemma parse_instant: "mandate_parse_utc e s = Inr t \<longleftrightarrow> instant e s = Some t"
  by (auto simp: mandate_parse_utc_def instant_def split: option.splits bind_splits)

lemma parse_projr: "instant e s = Some t \<Longrightarrow> projr (mandate_parse_utc e s) = t"
  using parse_instant [of e s t] by simp

lemma times_readable_iff:
  "version_times_ok e p db \<longleftrightarrow> times_readable e p db"
  "event_times_ok e (mv_mandate_version_id v) db \<longleftrightarrow> event_times_readable e v db"
  by (auto simp: version_times_ok_def times_readable_def event_times_ok_def event_times_readable_def
      parse_instant)

lemma effective_version_iff:
  "times_readable e p db \<Longrightarrow> v \<in> set (effective_versions e p at db) \<longleftrightarrow> effective_version e p at db v"
  by (auto simp: effective_versions_def effective_version_def effective_by_def times_readable_def parse_projr)

lemma effective_event_iff:
  "event_times_readable e v db \<Longrightarrow>
   x \<in> set (effective_events e (mv_mandate_version_id v) at db) \<longleftrightarrow> effective_event e v at db x"
  by (auto simp: effective_events_def effective_event_def effective_by_def event_times_readable_def parse_projr)

lemma version_not_later_iff:
  "version_not_later e v w \<longleftrightarrow>
   (\<exists>k l. mandate_resolution_order_key e v = Inr k \<and> mandate_resolution_order_key e w = Inr l \<and>
          version_key e v \<le> version_key e w)"
  by (auto simp: version_not_later_def mandate_resolution_order_key_def rbind_Inr_iff parse_instant
      version_key_def parse_instant [THEN iffD2])

lemma event_not_later_iff:
  "event_not_later e x y \<longleftrightarrow>
   (\<exists>k l. mandate_lifecycle_order_key e x = Inr k \<and> mandate_lifecycle_order_key e y = Inr l \<and>
          event_key e x \<le> event_key e y)"
  by (auto simp: event_not_later_def mandate_lifecycle_order_key_def rbind_Inr_iff parse_instant
      event_key_def parse_instant [THEN iffD2])

lemma max_by_iff:
  assumes "inj_on k (set xs)"
  shows "max_by k xs = Some x \<longleftrightarrow> x \<in> set xs \<and> (\<forall>y\<in>set xs. k y \<le> k x)"
proof
  assume "x \<in> set xs \<and> (\<forall>y\<in>set xs. k y \<le> k x)"
  with assms show "max_by k xs = Some x"
    by (intro max_by_unique) (auto simp: inj_on_def order.strict_iff_order)
qed (rule max_by_SomeD)

lemma version_key_id:
  "mandate_resolution_order_key e v = Inr k \<Longrightarrow> mandate_resolution_order_key e w = Inr l \<Longrightarrow>
   version_key e v = version_key e w \<Longrightarrow> mv_mandate_version_id v = mv_mandate_version_id w"
  by (auto simp: version_key_def mandate_resolution_order_key_def rbind_Inr_iff)

lemma event_key_id:
  "mandate_lifecycle_order_key e x = Inr k \<Longrightarrow> mandate_lifecycle_order_key e y = Inr l \<Longrightarrow>
   event_key e x = event_key e y \<Longrightarrow> le_mandate_lifecycle_event_id x = le_mandate_lifecycle_event_id y"
  by (auto simp: event_key_def mandate_lifecycle_order_key_def rbind_Inr_iff)

lemma latest_version_iff:
  assumes "times_readable e p db" and "keyed mv_mandate_version_id (versions db)"
  shows "latest_version e p at db v \<longleftrightarrow>
     (\<forall>w\<in>set (effective_versions e p at db). \<exists>k. mandate_resolution_order_key e w = Inr k) \<and>
     max_by (version_key e) (effective_versions e p at db) = Some v" (is "_ \<longleftrightarrow> ?keys \<and> _")
proof -
  let ?vs = "set (effective_versions e p at db)"
  have iff: "max_by (version_key e) (effective_versions e p at db) = Some v \<longleftrightarrow>
      v \<in> ?vs \<and> (\<forall>w\<in>?vs. version_key e w \<le> version_key e v)" if ?keys
  proof (rule max_by_iff, rule inj_onI)
    fix x y assume xy: "x \<in> ?vs" "y \<in> ?vs" "version_key e x = version_key e y"
    with that have "mv_mandate_version_id x = mv_mandate_version_id y" by (meson version_key_id)
    with xy assms(2) show "x = y" by (auto simp: effective_versions_def intro: keyed_inj)
  qed
  have "latest_version e p at db v \<longleftrightarrow> v \<in> ?vs \<and> (\<forall>w\<in>?vs. version_not_later e w v)"
    using effective_version_iff [OF assms(1)] by (auto simp: latest_version_def)
  then show ?thesis using iff unfolding version_not_later_iff by meson
qed

lemma latest_event_iff:
  assumes "event_times_readable e v db" and "keyed le_mandate_lifecycle_event_id (events db)"
  shows "latest_event e v at db x \<longleftrightarrow>
     (\<forall>y\<in>set (effective_events e (mv_mandate_version_id v) at db). \<exists>k. mandate_lifecycle_order_key e y = Inr k) \<and>
     max_by (event_key e) (effective_events e (mv_mandate_version_id v) at db) = x" (is "_ \<longleftrightarrow> ?keys \<and> ?max = x")
proof -
  let ?xs = "set (effective_events e (mv_mandate_version_id v) at db)"
  note eff = effective_event_iff [OF assms(1)]
  have iff: "?max = Some y \<longleftrightarrow> y \<in> ?xs \<and> (\<forall>z\<in>?xs. event_key e z \<le> event_key e y)" if ?keys for y
  proof (rule max_by_iff, rule inj_onI)
    fix y z assume yz: "y \<in> ?xs" "z \<in> ?xs" "event_key e y = event_key e z"
    with that have "le_mandate_lifecycle_event_id y = le_mandate_lifecycle_event_id z" by (meson event_key_id)
    with yz assms(2) show "y = z" by (auto simp: effective_events_def intro: keyed_inj)
  qed
  show ?thesis
  proof (cases x)
    case None
    have "latest_event e v at db None \<longleftrightarrow> ?xs = {}"
      unfolding latest_event_def option.case eff [symmetric] by (rule all_not_in_conv)
    with None show ?thesis by auto
  next
    case (Some y)
    have "latest_event e v at db (Some y) \<longleftrightarrow> y \<in> ?xs \<and> (\<forall>z\<in>?xs. event_not_later e z y)"
      using eff by (auto simp: latest_event_def)
    with Some iff show ?thesis unfolding event_not_later_iff by meson
  qed
qed

lemma sole_owner_iff:
  assumes "times_readable e p db"
  shows "owners_ok db p (effective_versions e p at db) \<longleftrightarrow> sole_owner e p at db"
proof -
  have "effective_version e p at db v \<Longrightarrow> v \<in> set (versions db)" for v by (simp add: effective_version_def)
  then show ?thesis
    unfolding owners_ok_iff series_owner_iff sole_owner_def
    using effective_version_iff [OF assms, of _ at] by blast
qed

lemma event_status_iff:
  "event_status t = Inr st \<longleftrightarrow>
   t \<in> {''activated'', ''resumed''} \<and> st = ''active'' \<or> t = ''suspended'' \<and> st = ''suspended'' \<or>
   t = ''revoked'' \<and> st = ''revoked''"
  by (cases "t = ''activated''"; cases "t = ''resumed''"; cases "t = ''suspended''"; cases "t = ''revoked''";
      simp add: event_status_def eq_commute [of st])

lemma unexpired_status:
  assumes "unexpired e at v"
  shows "version_status e at v x = (case x of None \<Rightarrow> Inr ''unavailable'' | Some y \<Rightarrow> event_status (le_event_type y))"
  using assms
  by (auto simp: unexpired_def version_status_def dest!: parse_instant [THEN iffD2] split: option.splits)

lemma mandate_status_iff: "version_status e at v x = Inr st \<longleftrightarrow> mandate_status e at v x st"
proof (cases "unexpired e at v")
  case True
  show ?thesis
    unfolding unexpired_status [OF True]
  proof
    assume "(case x of None \<Rightarrow> Inr ''unavailable'' | Some y \<Rightarrow> event_status (le_event_type y)) = Inr st"
    with True show "mandate_status e at v x st"
      by (cases x) (auto simp: event_status_iff intro: mandate_status.intros)
  next
    assume "mandate_status e at v x st"
    then show "(case x of None \<Rightarrow> Inr ''unavailable'' | Some y \<Rightarrow> event_status (le_event_type y)) = Inr st"
    proof cases
      case (ms_expired s t)
      with True show ?thesis by (auto simp: unexpired_def)
    qed (simp_all add: event_status_iff)
  qed
next
  case False
  then obtain s where s: "mv_expires_at_utc v = Some s" "s \<noteq> []" "\<nexists>t. t > at \<and> instant e s = Some t"
    by (auto simp: unexpired_def split: option.splits)
  show ?thesis
  proof (cases "instant e s")
    case None
    then obtain y where "mandate_parse_utc e s = Inl y"
      using parse_instant [of e s] by (cases "mandate_parse_utc e s") auto
    with s False None show ?thesis by (auto simp: version_status_def mandate_status_simps)
  next
    case (Some t)
    with s(3) have "t \<le> at" by auto
    with s False Some parse_instant [of e s t] show ?thesis
      by (auto simp: version_status_def mandate_status_simps)
  qed
qed

section \<open>The three answers\<close>

lemma version_answer_iff:
  assumes "keyed mv_mandate_version_id (versions db)" and "keyed le_mandate_lifecycle_event_id (events db)"
  shows "resolve_in_session e p at_utc db = Inr (resolved_version p at_utc v x st) \<longleftrightarrow>
   (\<exists>at. instant e at_utc = Some at \<and> times_readable e p db \<and> event_times_readable e v db \<and>
         sole_owner e p at db \<and> latest_version e p at db v \<and> latest_event e v at db x \<and>
         mandate_status e at v x st)"
proof -
  have "resolution_ok e p at db v \<and> in_force e p at db v x \<longleftrightarrow>
      times_readable e p db \<and> event_times_readable e v db \<and> sole_owner e p at db \<and>
      latest_version e p at db v \<and> latest_event e v at db x" for at
    using assms latest_version_iff latest_event_iff sole_owner_iff
    unfolding resolution_ok_def in_force_def times_readable_iff by blast
  then show ?thesis unfolding resolve_version_iff parse_instant mandate_status_iff by metis
qed

lemma conflict_answer_iff:
  "resolve_in_session e p at_utc db = Inr (resolved p at_utc ''invalid'' [''mandate_series_owner_conflict'']) \<longleftrightarrow>
   (\<exists>at. instant e at_utc = Some at \<and> times_readable e p db \<and> \<not> sole_owner e p at db)" (is "?L \<longleftrightarrow> ?R")
proof
  assume ?L
  then show ?R
  proof (cases rule: resolve_Inr_cases)
    case (conflict at)
    then show ?thesis using sole_owner_iff [of e p db at] by (auto simp: times_readable_iff parse_instant)
  qed (auto simp: resolved_def resolved_version_def)
next
  assume ?R
  then show ?L
    using sole_owner_iff [of e p db] resolve_NoneI(1) unfolding parse_instant times_readable_iff by metis
qed

lemma unavailable_answer_iff:
  "resolve_in_session e p at_utc db = Inr (resolved p at_utc ''unavailable'' [''no_effective_mandate'']) \<longleftrightarrow>
   (\<exists>at. instant e at_utc = Some at \<and> times_readable e p db \<and> (\<nexists>v. effective_version e p at db v))" (is "?L \<longleftrightarrow> ?R")
proof
  assume ?L
  then show ?R
  proof (cases rule: resolve_Inr_cases)
    case (unavailable at)
    then show ?thesis using effective_version_iff [of e p db _ at] by (auto simp: times_readable_iff parse_instant)
  qed (auto simp: resolved_def resolved_version_def)
next
  assume ?R
  then obtain at where "instant e at_utc = Some at" "times_readable e p db" "set (effective_versions e p at db) = {}"
    using effective_version_iff by (metis equals0I)
  then show ?L by (intro resolve_NoneI(2)) (auto simp: parse_instant times_readable_iff)
qed

end
