(* ===== verification/Authority_Demo.thy ===== *)
theory Authority_Demo
  imports Authority_Usage Mandate_Sessions Mandate_Specification
begin

text \<open>
  A concrete environment and a short history of the authority services (a mandate, a grant, two
  uses) that serve the witnesses.  Texts of instants and amounts are written in unary, so that
  printing and parsing are inverse on all values.
\<close>

definition demo_int :: "int \<Rightarrow> string" where
  "demo_int n = (if n < 0 then CHR ''-'' else CHR ''+'') # replicate (nat \<bar>n\<bar>) (CHR ''1'')"

definition demo_unint :: "string \<Rightarrow> int option" where
  "demo_unint s =
     (case s of
        [] \<Rightarrow> None
      | c # r \<Rightarrow> if \<not> list_all (\<lambda>x. x = CHR ''1'') r then None
                 else if c = CHR ''+'' then Some (int (length r))
                 else if c = CHR ''-'' then Some (- int (length r)) else None)"

lemma demo_unint_int [simp]: "demo_unint (demo_int n) = Some n"
  by (simp add: demo_unint_def demo_int_def list_all_iff)

definition demo_money_str :: "decimal \<Rightarrow> string" where
  "demo_money_str d = demo_int (coef d) @ ''e'' @ demo_int (dexp d)"

definition demo_unmoney :: "string \<Rightarrow> decimal option" where
  "demo_unmoney s =
     (case (demo_unint (takeWhile (\<lambda>c. c \<noteq> CHR ''e'') s),
            demo_unint (tl (dropWhile (\<lambda>c. c \<noteq> CHR ''e'') s))) of
        (Some c, Some x) \<Rightarrow> Some (Dec c x) | _ \<Rightarrow> None)"

lemma demo_int_no_e: "c \<in> set (demo_int n) \<Longrightarrow> c \<noteq> CHR ''e''"
  by (auto simp: demo_int_def split: if_splits)

lemma demo_unmoney_str [simp]: "demo_unmoney (demo_money_str d) = Some d"
proof -
  have "takeWhile (\<lambda>c. c \<noteq> CHR ''e'') (demo_money_str d) = demo_int (coef d)"
    "dropWhile (\<lambda>c. c \<noteq> CHR ''e'') (demo_money_str d) = ''e'' @ demo_int (dexp d)"
    using demo_int_no_e by (auto simp: demo_money_str_def takeWhile_append2 dropWhile_append2)
  then show ?thesis by (simp add: demo_unmoney_def)
qed

definition demo_coerce_money :: "pyval \<Rightarrow> (decimal \<times> string) option" where
  "demo_coerce_money v =
     (case v of
        PDict d \<Rightarrow>
          (case (dict_get d ''amount'', dict_get d ''currency'') of
             (PStr a, PStr c) \<Rightarrow> map_option (\<lambda>x. (x, c)) (demo_unmoney a)
           | _ \<Rightarrow> None)
      | _ \<Rightarrow> None)"

definition demo_auth_env :: "nat \<Rightarrow> auth_env" where
  "demo_auth_env n =
     \<lparr>clock = (\<lambda>i. demo_int (int n)), stamp = (\<lambda>i. nat_str n @ ''_'' @ nat_str i),
      uuid8 = (\<lambda>i. ''0a1b2c3d''),
      fromisoformat = (\<lambda>s. map_option (\<lambda>t. (t, Some 0)) (demo_unint s)), isoformat = demo_int,
      resolve_path = (\<lambda>ps. Some (py_join ''/'' ps)), display_path = (\<lambda>p. p),
      write_fails = (\<lambda>p. False), commit_fails = (\<lambda>i. False),
      coerce_money = demo_coerce_money, py_repr = (\<lambda>v. []), pick_row = (\<lambda>i n. 0),
      content_hash = (\<lambda>v. ''h''), coerce_int = (\<lambda>v. case v of PInt n \<Rightarrow> Some n | _ \<Rightarrow> None),
      coerce_bool = (\<lambda>v. case v of PBool b \<Rightarrow> Some b | _ \<Rightarrow> None),
      money_str = demo_money_str, unlink_fails = (\<lambda>p. False)\<rparr>"

definition demo_operator :: operator_context where
  "demo_operator =
     \<lparr>oc_principal = \<lparr>pi_principal_id = ''alice'', pi_provider_id = ''idp'', pi_principal_kind = ''human'',
                      pi_display_label = None, pi_legacy_label = None, pi_legacy_label_verified = False\<rparr>,
      oc_agent_runtime = None,
      oc_authority_administration = Some
        \<lparr>aa_assertion_id = ''as1'', aa_principal_id = ''alice'', aa_provider_id = ''idp'',
         aa_capability = ''authority_administrator'',
         aa_policy_version = AUTHORITY_ADMINISTRATION_POLICY_VERSION,
         aa_authentication_assurance = ''elevated'', aa_issued_at_utc = demo_int 0,
         aa_expires_at_utc = demo_int 50\<rparr>,
      oc_authentication_method = ''passkey'', oc_authenticated_at_utc = demo_int 0,
      oc_authentication_epoch_id = None, oc_authentication_expires_at_utc = None\<rparr>"

definition demo_limits :: capital_mandate_limits where
  "demo_limits =
     \<lparr>cl_product_ids = [''p1''], cl_instrument_ids = [], cl_action_types = [''buy''],
      cl_max_notional = Some \<lparr>amount = Dec 10 0, currency = ''USD''\<rparr>,
      cl_max_actions_per_period = None, cl_period_seconds = None, cl_max_loss = None,
      cl_direction_scope = \<lparr>ms_mode = ''wildcard'', ms_values = []\<rparr>,
      cl_broker_scope = \<lparr>ms_mode = ''bounded'', ms_values = []\<rparr>\<rparr>"

definition demo_mandate_args :: mandate_args where
  "demo_mandate_args =
     \<lparr>ma_profile_snapshot = [], ma_investment_objectives = [], ma_risk_profile = [],
      ma_human_reason = ''policy'', ma_explicit_confirmation = True,
      ma_allowed_asset_classes = [''cash''], ma_restricted_asset_classes = [],
      ma_allowed_action_types = [''rebalance''], ma_restricted_action_types = [],
      ma_autonomy_level = ''L2_human_confirmed_apply'', ma_limit_book = [], ma_kill_switch_rules = [],
      ma_review_cadence = [], ma_source_ips_id = None, ma_source_refs = [], ma_receipt_refs = [],
      ma_capital_mandate_id = Some ''m1'', ma_created_at_utc = None,
      ma_typed_limits = Inl demo_limits,
      ma_kill_switch_scope = Inr [], ma_effective_at_utc = None, ma_expires_at_utc = None,
      ma_authenticated_actor_receipt_ref = None\<rparr>"

definition demo_scope :: pydict where
  "demo_scope = [(''action_types'', strs [''buy''])]"

definition demo_grant_args :: grant_args where
  "demo_grant_args =
     \<lparr>ga_capital_mandate_id = ''m1'', ga_agent_id = ''agent'', ga_issued_reason = ''delegate'',
      ga_grant_scope = demo_scope, ga_agent_profile_name = None, ga_expires_at_utc = None,
      ga_source_refs = [], ga_receipt_refs = [], ga_agent_authority_grant_id = Some ''g1'',
      ga_created_at_utc = None, ga_agent_runtime_id = Some ''rt'', ga_max_uses = Some 2,
      ga_max_total_notional = PMoney \<lparr>amount = Dec 9 0, currency = ''USD''\<rparr>\<rparr>"

definition demo_use :: "string \<Rightarrow> int \<Rightarrow> consume_args" where
  "demo_use nonce n =
     \<lparr>ca_grant_id = ''g1'', ca_principal_id = ''alice'', ca_agent_runtime_id = ''rt'', ca_nonce = nonce,
      ca_requested_scope = [],
      ca_requested_notional = PMoney \<lparr>amount = Dec n 0, currency = ''USD''\<rparr>, ca_now_utc = None\<rparr>"

definition demo_auth0 :: auth_db where
  "demo_auth0 =
     \<lparr>mandates = [], versions = [], events = [], ips_rows = [], grants = [], consumptions = [],
      auth_index = [], auth_files = Map.empty\<rparr>"

definition demo_auth1 :: auth_db where
  "demo_auth1 = snd (record_capital_mandate (demo_auth_env 1) demo_operator demo_mandate_args demo_auth0)"

definition demo_mandate1 :: capital_mandate where
  "demo_mandate1 =
    \<lparr>cm_capital_mandate_id = ''m1'', cm_status = ''active'',
     cm_source_ips_id = None, cm_profile_snapshot = [],
     cm_investment_objectives = [], cm_risk_profile = [],
     cm_allowed_asset_classes = [''cash''],
     cm_restricted_asset_classes = [],
     cm_allowed_action_types = [''rebalance''],
     cm_restricted_action_types = [],
     cm_autonomy_level = ''L2_human_confirmed_apply'', cm_limit_book = [],
     cm_kill_switch_rules = [], cm_review_cadence = [],
     cm_human_attester = ''alice'', cm_human_reason = ''policy'',
     cm_explicit_confirmation = True, cm_source_refs = [],
     cm_receipt_refs = [],
     cm_non_claims =
       [''CapitalMandate is a human-attested policy domain, not investment advice.'',
        ''CapitalMandate does not grant an Agent identity or delegated authority.'',
        ''CapitalMandate is not an AuthorityContract, order ticket, or broker instruction.'',
        ''CapitalMandate does not authorize execution or live capital movement.''],
     cm_receipt_ref =
       Some ''capital-mandates/receipt_capital_mandate_1_2_0a1b2c3d.json'',
     cm_execution_allowed = False, cm_authority_transition = False,
     cm_created_at_utc = ''+1'', cm_as_of_utc = ''+1''\<rparr>"

definition demo_version1 :: capital_mandate_version where
  "demo_version1 =
    \<lparr>mv_mandate_version_id = ''m1:v1:h'', mv_capital_mandate_id = ''m1'',
     mv_principal_id = ''alice'', mv_version_number = 1,
     mv_mandate_content_hash = ''h'', mv_effective_at_utc = ''+1'',
     mv_expires_at_utc = None, mv_supersedes_version_id = None,
     mv_policy_payload =
       [(''source_ips_id'', PNone), (''profile_snapshot'', PDict []),
        (''investment_objectives'', PDict []), (''risk_profile'', PDict []),
        (''allowed_asset_classes'', PList [PStr ''cash'']),
        (''restricted_asset_classes'', PList []),
        (''allowed_action_types'', PList [PStr ''rebalance'']),
        (''restricted_action_types'', PList []),
        (''autonomy_level'', PStr ''L2_human_confirmed_apply''),
        (''limit_book'', PDict []), (''kill_switch_rules'', PList []),
        (''review_cadence'', PDict [])],
     mv_typed_limits =
       [(''product_ids'', PList [PStr ''p1'']),
        (''instrument_ids'', PList []),
        (''action_types'', PList [PStr ''buy'']),
        (''max_notional'',
         PDict
          [(''amount'', PStr ''+1111111111e+''),
           (''currency'', PStr ''USD'')]),
        (''max_actions_per_period'', PNone), (''period_seconds'', PNone),
        (''max_loss'', PNone),
        (''direction_scope'',
         PDict [(''mode'', PStr ''wildcard''), (''values'', PList [])]),
        (''broker_scope'',
         PDict [(''mode'', PStr ''bounded''), (''values'', PList [])])],
     mv_kill_switch_scope =
       [(''global_scope'', PBool False), (''product_ids'', PList []),
        (''instrument_ids'', PList []), (''action_types'', PList [])],
     mv_source_refs = [], mv_receipt_refs = [],
     mv_receipt_ref =
       Some ''capital-mandates/receipt_capital_mandate_1_2_0a1b2c3d.json'',
     mv_authenticated_actor_receipt_ref = None,
     mv_legacy_actor_label = None, mv_legacy_actor_label_verified = False,
     mv_execution_allowed = False, mv_authority_transition = False,
     mv_created_at_utc = ''+1'', mv_as_of_utc = ''+1''\<rparr>"

definition demo_event1 :: lifecycle_event where
  "demo_event1 =
    \<lparr>le_mandate_lifecycle_event_id = ''mandate_event_1_3_0a1b2c3d'',
     le_capital_mandate_id = ''m1'', le_mandate_version_id = ''m1:v1:h'',
     le_principal_id = ''alice'', le_event_type = ''activated'',
     le_effective_at_utc = ''+1'',
     le_authenticated_actor_principal_id = ''alice'',
     le_reason = ''policy'',
     le_receipt_ref =
       ''capital-mandates/receipt_capital_mandate_1_2_0a1b2c3d.json'',
     le_source_refs = [], le_execution_allowed = False,
     le_created_at_utc = ''+1'', le_as_of_utc = ''+1''\<rparr>"

definition demo_index1 :: receipt_index_row where
  "demo_index1 =
    \<lparr>ri_receipt_id = ''receipt_capital_mandate_1_2_0a1b2c3d'',
     ri_kind = ''state_core_capital_mandate'',
     ri_path =
       ''capital-mandates/receipt_capital_mandate_1_2_0a1b2c3d.json'',
     ri_created_at_utc = ''+1'',
     ri_source_refs =
       [''capital-mandates/receipt_capital_mandate_1_2_0a1b2c3d.json''],
     ri_refs = [''m1'']\<rparr>"

text \<open>
  The store after the first call in explicit form.  Its receipt files stay a parameter of the
  explicit form, which keeps evaluation away from them.
\<close>

lemma demo_tables1:
  "mandates demo_auth1 = [demo_mandate1]" "versions demo_auth1 = [demo_version1]"
  "events demo_auth1 = [demo_event1]" "ips_rows demo_auth1 = []" "grants demo_auth1 = []"
  "consumptions demo_auth1 = []" "auth_index demo_auth1 = [demo_index1]"
  by code_simp+

definition demo_store1 :: "(string \<Rightarrow> auth_receipt option) \<Rightarrow> auth_db" where
  "demo_store1 files =
     \<lparr>mandates = [demo_mandate1], versions = [demo_version1], events = [demo_event1], ips_rows = [],
      grants = [], consumptions = [], auth_index = [demo_index1], auth_files = files\<rparr>"

lemma demo_auth1_store: "demo_auth1 = demo_store1 (auth_files demo_auth1)"
  by (rule auth_db.equality) (simp_all add: demo_store1_def demo_tables1)

definition demo_auth2 :: auth_db where
  "demo_auth2 = snd (record_agent_authority_grant (demo_auth_env 2) demo_operator demo_grant_args demo_auth1)"

definition demo_grant1 :: agent_authority_grant where
  "demo_grant1 =
    \<lparr>ag_agent_authority_grant_id = ''g1'', ag_capital_mandate_id = ''m1'',
     ag_mandate_version_id = Some ''m1:v1:h'',
     ag_principal_id = Some ''alice'', ag_agent_runtime_id = Some ''rt'',
     ag_agent_id = ''agent'', ag_agent_profile_name = None,
     ag_status = ''active'',
     ag_grant_scope = [(''action_types'', PList [PStr ''buy''])],
     ag_issued_by = ''alice'', ag_issued_reason = ''delegate'',
     ag_issued_against_mandate_receipt_ref =
       Some ''capital-mandates/receipt_capital_mandate_1_2_0a1b2c3d.json'',
     ag_expires_at_utc = None, ag_max_uses = Some 2,
     ag_max_total_notional = Some (Dec 9 0),
     ag_notional_currency = Some ''USD'', ag_revoked_at_utc = None,
     ag_revoked_reason = None, ag_source_refs = [],
     ag_receipt_refs =
       [''capital-mandates/receipt_capital_mandate_1_2_0a1b2c3d.json''],
     ag_non_claims =
       [''AgentAuthorityGrant is a mandate-bound authority credential, not authentication.'',
        ''AgentAuthorityGrant does not approve trade plans or investment decisions.'',
        ''AgentAuthorityGrant does not submit orders or create broker authority.'',
        ''AgentAuthorityGrant does not bypass preflight or authorize execution.''],
     ag_receipt_ref =
       Some
        ''agent-authority-grants/receipt_agent_authority_grant_2_2_0a1b2c3d.json'',
     ag_execution_allowed = False, ag_authority_transition = False,
     ag_created_at_utc = ''+11'', ag_as_of_utc = ''+11''\<rparr>"

definition demo_index2 :: receipt_index_row where
  "demo_index2 =
    \<lparr>ri_receipt_id = ''receipt_agent_authority_grant_2_2_0a1b2c3d'',
     ri_kind = ''state_core_agent_authority_grant'',
     ri_path =
       ''agent-authority-grants/receipt_agent_authority_grant_2_2_0a1b2c3d.json'',
     ri_created_at_utc = ''+11'',
     ri_source_refs =
       [''agent-authority-grants/receipt_agent_authority_grant_2_2_0a1b2c3d.json''],
     ri_refs =
       [''g1'', ''m1'', ''agent'',
        ''capital-mandates/receipt_capital_mandate_1_2_0a1b2c3d.json'']\<rparr>"

lemma demo_grants2: "grants demo_auth2 = [demo_grant1]"
proof -
  have "grants (snd (record_agent_authority_grant (demo_auth_env 2) demo_operator demo_grant_args
      (demo_store1 files))) = [demo_grant1]" for files by code_simp
  from this [of "auth_files demo_auth1"] show ?thesis by (simp only: demo_auth2_def demo_auth1_store [symmetric])
qed

lemma demo_index_rows2: "auth_index demo_auth2 = [demo_index1, demo_index2]"
proof -
  have "auth_index (snd (record_agent_authority_grant (demo_auth_env 2) demo_operator demo_grant_args
      (demo_store1 files))) = [demo_index1, demo_index2]" for files by code_simp
  from this [of "auth_files demo_auth1"] show ?thesis by (simp only: demo_auth2_def demo_auth1_store [symmetric])
qed

lemma demo_ips2: "ips_rows demo_auth2 = []"
proof -
  have "ips_rows (snd (record_agent_authority_grant (demo_auth_env 2) demo_operator demo_grant_args
      (demo_store1 files))) = []" for files by code_simp
  from this [of "auth_files demo_auth1"] show ?thesis by (simp only: demo_auth2_def demo_auth1_store [symmetric])
qed

lemma demo_grant_recorded:
  "record_agent_authority_grant (demo_auth_env 2) demo_operator demo_grant_args demo_auth1 =
     (Inr demo_grant1, demo_auth2)"
proof -
  have "grants demo_auth1 \<noteq> grants demo_auth2" by (simp add: demo_tables1 demo_grants2)
  then have ne: "\<not> same_tables demo_auth1 demo_auth2" by (auto simp: same_tables_def)
  obtain r where r: "record_agent_authority_grant (demo_auth_env 2) demo_operator demo_grant_args demo_auth1
      = (r, demo_auth2)" unfolding demo_auth2_def by (metis prod.collapse)
  then obtain g where g: "record_agent_authority_grant (demo_auth_env 2) demo_operator demo_grant_args demo_auth1
      = (Inr g, demo_auth2)"
    using ne by (cases r) (auto dest: record_grant_error)
  then have "grants demo_auth2 = grants demo_auth1 @ [g]" by (rule record_grant_ok)
  with g show ?thesis by (simp add: demo_tables1 demo_grants2)
qed

lemma demo_other2:
  "mandates demo_auth2 = [demo_mandate1]" "versions demo_auth2 = [demo_version1]"
  "events demo_auth2 = [demo_event1]" "ips_rows demo_auth2 = []" "consumptions demo_auth2 = []"
proof -
  have same: "mandates demo_auth2 = mandates demo_auth1" "versions demo_auth2 = versions demo_auth1"
    "events demo_auth2 = events demo_auth1" "consumptions demo_auth2 = consumptions demo_auth1"
    using demo_grant_recorded by (auto elim: record_grant_ok)
  show "mandates demo_auth2 = [demo_mandate1]" "versions demo_auth2 = [demo_version1]"
    "events demo_auth2 = [demo_event1]" "consumptions demo_auth2 = []"
    using same by (simp_all add: demo_tables1)
  show "ips_rows demo_auth2 = []" by (rule demo_ips2)
qed

definition demo_store2 :: "(string \<Rightarrow> auth_receipt option) \<Rightarrow> auth_db" where
  "demo_store2 files =
     \<lparr>mandates = [demo_mandate1], versions = [demo_version1], events = [demo_event1], ips_rows = [],
      grants = [demo_grant1], consumptions = [], auth_index = [demo_index1, demo_index2],
      auth_files = files\<rparr>"

lemma demo_auth2_store: "demo_auth2 = demo_store2 (auth_files demo_auth2)"
  by (rule auth_db.equality)
     (simp_all add: demo_store2_def demo_grants2 demo_index_rows2 demo_other2)

definition demo_auth3 :: auth_db where
  "demo_auth3 = snd (consume_agent_authority_grant (demo_auth_env 3) (demo_use ''n1'' 4) demo_auth2 demo_auth2)"

lemma demo_uses3:
  "map (\<lambda>c. (gc_agent_authority_grant_id c, gc_nonce c, gc_requested_notional c)) (consumptions demo_auth3) =
     [(''g1'', ''n1'', Dec 4 0)]"
proof -
  have "map (\<lambda>c. (gc_agent_authority_grant_id c, gc_nonce c, gc_requested_notional c))
      (consumptions (snd (consume_agent_authority_grant (demo_auth_env 3) (demo_use ''n1'' 4)
        (demo_store2 files) (demo_store2 files)))) = [(''g1'', ''n1'', Dec 4 0)]" for files by code_simp
  from this [of "auth_files demo_auth2"] show ?thesis by (simp only: demo_auth3_def demo_auth2_store [symmetric])
qed

lemma demo_use_recorded:
  obtains r where "consume_agent_authority_grant (demo_auth_env 3) (demo_use ''n1'' 4) demo_auth2 demo_auth2 =
    (Inr r, demo_auth3)"
proof -
  obtain res where res: "consume_agent_authority_grant (demo_auth_env 3) (demo_use ''n1'' 4) demo_auth2 demo_auth2 =
      (res, demo_auth3)" unfolding demo_auth3_def by (metis prod.collapse)
  have "consumptions demo_auth3 \<noteq> consumptions demo_auth2" using demo_uses3 by (auto simp: demo_other2)
  then have "\<not> same_tables demo_auth2 demo_auth3" by (auto simp: same_tables_def)
  with consume_outcome [OF res] res that show thesis by blast
qed

lemma demo_grants3: "grants demo_auth3 = [demo_grant1]"
proof -
  obtain r where "consume_agent_authority_grant (demo_auth_env 3) (demo_use ''n1'' 4) demo_auth2 demo_auth2 =
    (Inr r, demo_auth3)" by (rule demo_use_recorded)
  from consume_cases [OF this] show ?thesis by (auto simp: same_tables_def consumed_def demo_grants2)
qed

lemma demo_reach1: "reach auth_start auth_step demo_auth1"
proof -
  have "reach auth_start auth_step demo_auth0"
    by (rule reach_start) (simp add: auth_start_def demo_auth0_def)
  then show ?thesis
    unfolding demo_auth1_def by (rule reach_step) (rule as_mandate [OF prod.collapse [symmetric]])
qed

lemma demo_reach2: "reach auth_start auth_step demo_auth2"
  using demo_reach1 unfolding demo_auth2_def
  by (rule reach_step) (rule as_grant [OF prod.collapse [symmetric]])

lemma demo_reach3: "reach auth_start auth_step demo_auth3"
  using demo_reach2 unfolding demo_auth3_def
  by (rule reach_step) (rule as_consume [OF prod.collapse [symmetric]])

end
