(* ===== verification/Authority_Properties.thy ===== *)
theory Authority_Properties
  imports Authority_Demo
begin

text \<open>
  The properties of the authority services: who may administer, what is in force, that scopes,
  budgets and nonces are respected by every reachable store, and what failing calls leave behind.
\<close>

section \<open>Administration\<close>

text \<open>
  Claim C3. An authority mutation is admitted exactly when its operation is in the policy matrix, no
  agent runtime is involved, the principal is human and presents an administrator assertion for
  itself, its provider and the current policy version, the check falls inside the validity window
  of the assertion, and, for every operation that expands authority, the authentication is
  elevated.
\<close>

theorem administration_admits_iff:
  "(\<exists>d. require_authority_administration e i c op at = Inr d) \<longleftrightarrow>
     op \<in> {''mandate_create_or_replace'', ''mandate_resume'', ''mandate_suspend'', ''mandate_revoke'',
           ''grant_create'', ''grant_revoke''} \<and>
     oc_agent_runtime c = None \<and> pi_principal_kind (oc_principal c) = ''human'' \<and>
     (\<exists>a. oc_authority_administration c = Some a \<and>
        aa_principal_id a = pi_principal_id (oc_principal c) \<and>
        aa_provider_id a = pi_provider_id (oc_principal c) \<and>
        aa_policy_version a = AUTHORITY_ADMINISTRATION_POLICY_VERSION \<and>
        admin_window e a (or_else at (clock e i)) \<and>
        (map_of AUTHORITY_ADMINISTRATION_OPERATION_EFFECT op = Some ''expanding'' \<longrightarrow>
         aa_authentication_assurance a = ''elevated''))" (is "?L \<longleftrightarrow> ?ops \<and> ?R")
proof
  have ops: "?ops \<longleftrightarrow> (\<exists>r f. map_of AUTHORITY_ADMINISTRATION_OPERATION_POLICY op = Some r \<and>
      map_of AUTHORITY_ADMINISTRATION_OPERATION_EFFECT op = Some f)"
    by (simp add: admin_policy_defs)
  {
    assume ?L
    then obtain d where d: "require_authority_administration e i c op at = Inr d" by blast
    then show "?ops \<and> ?R"
      unfolding admin_expanding_iff by (rule admin_guard_elim) (unfold ops, auto)
  }
  assume R: "?ops \<and> ?R"
  then obtain a r f where a: "oc_authority_administration c = Some a"
      "aa_principal_id a = pi_principal_id (oc_principal c)"
      "aa_provider_id a = pi_provider_id (oc_principal c)"
      "aa_policy_version a = AUTHORITY_ADMINISTRATION_POLICY_VERSION"
    and w: "admin_window e a (or_else at (clock e i))"
    and m: "map_of AUTHORITY_ADMINISTRATION_OPERATION_POLICY op = Some r"
      "map_of AUTHORITY_ADMINISTRATION_OPERATION_EFFECT op = Some f"
    and s: "r = ''elevated'' \<longrightarrow> aa_authentication_assurance a = ''elevated''"
    unfolding admin_expanding_iff ops by auto
  from w s show ?L
    unfolding admin_window_def
    using a m R by (auto simp: require_authority_administration_def not_less)
qed

theorem administration_admits_iff_witness:
  "(\<exists>d. require_authority_administration (demo_auth_env 3) 0 demo_operator ''mandate_resume'' None = Inr d) \<and>
   \<not> (\<exists>d. require_authority_administration (demo_auth_env 60) 0 demo_operator ''mandate_resume'' None = Inr d)"
  unfolding administration_admits_iff
  by (simp add: admin_window_def admin_parse_utc_def parse_strict_utc_def demo_operator_def
      demo_auth_env_def or_else_def)

section \<open>The limit book\<close>

definition json_faithful :: "auth_env \<Rightarrow> bool" where
  "json_faithful e \<longleftrightarrow>
     (\<forall>n. coerce_int e (PInt n) = Some n) \<and>
     (\<forall>a c. coerce_money e (PDict [(''amount'', PStr (money_str e a)), (''currency'', PStr c)]) = Some (a, c))"

definition money_ok :: "monetary_amount \<Rightarrow> bool" where
  "money_ok m \<longleftrightarrow> money_positive m \<and> normalize_currency_code (currency m) = Inr (currency m)"

definition limits_ok :: "capital_mandate_limits \<Rightarrow> bool" where
  "limits_ok l \<longleftrightarrow>
     limits_post_init l \<and> (\<forall>m. cl_max_notional l = Some m \<longrightarrow> money_ok m) \<and>
     (\<forall>m. cl_max_loss l = Some m \<longrightarrow> money_ok m) \<and>
     (\<forall>n. cl_max_actions_per_period l = Some n \<longrightarrow> 0 < n) \<and>
     (\<forall>n. cl_period_seconds l = Some n \<longrightarrow> 0 < n) \<and>
     (\<forall>s\<in>{cl_direction_scope l, cl_broker_scope l}.
        ms_mode s \<in> {''bounded'', ''wildcard''} \<and> string_scope_ok s)"

lemma str_tuple_strs [simp]: "str_tuple (strs xs) = Some xs"
proof -
  have "str_items (map PStr xs) = Some xs" by (induction xs) auto
  then show ?thesis by (simp add: strs_def)
qed

lemma money_validate_dump:
  assumes "json_faithful e" and "money_ok m"
  shows "money_validate e (money_dump e m) = Some m"
proof -
  have "dec_le dec_zero (amount m)"
    using assms(2) dec_le_total by (auto simp: money_ok_def money_positive_def dec_less_def)
  with assms show ?thesis
    by (simp add: money_validate_def money_dump_def json_faithful_def money_ok_def mk_money_def)
qed

lemma opt_field_dump:
  assumes "\<And>x. v = Some x \<Longrightarrow> f (g x) = Some x" and "\<And>x. g x \<noteq> PNone"
  shows "opt_field f (opt_dump g v) = Some v"
  using assms by (cases v) (auto simp: opt_field_def opt_dump_def)

lemma string_scope_roundtrip:
  assumes "ms_mode s \<in> {''bounded'', ''wildcard''}" and "string_scope_ok s"
  shows "string_scope_validate (string_scope_dump s) = Some s"
  using assms
  by (cases s) (auto simp: string_scope_validate_def string_scope_dump_def keys_within_def dict_get_or_def Let_def)

text \<open>
  The limit book of a mandate survives storage: revalidating the JSON dump of any
  valid limit book, as every use of a grant does, gives the same limits, provided JSON keeps
  integers and the text of a decimal parses back to it.
\<close>

theorem limits_roundtrip:
  assumes "json_faithful e" and "limits_ok l"
  shows "limits_validate e (limits_dump e l) = Some l"
proof -
  have s: "string_scope_validate (string_scope_dump (cl_direction_scope l)) = Some (cl_direction_scope l)"
    "string_scope_validate (string_scope_dump (cl_broker_scope l)) = Some (cl_broker_scope l)"
    using assms(2) by (auto simp: limits_ok_def intro: string_scope_roundtrip)
  have m: "opt_field (money_validate e) (opt_dump (money_dump e) (cl_max_notional l)) = Some (cl_max_notional l)"
    "opt_field (money_validate e) (opt_dump (money_dump e) (cl_max_loss l)) = Some (cl_max_loss l)"
    using assms by (auto simp: limits_ok_def money_dump_def [symmetric] intro!: opt_field_dump money_validate_dump)
      (auto simp: money_dump_def)
  have n: "opt_field (positive_int e) (opt_dump PInt (cl_max_actions_per_period l)) = Some (cl_max_actions_per_period l)"
    "opt_field (positive_int e) (opt_dump PInt (cl_period_seconds l)) = Some (cl_period_seconds l)"
    using assms by (auto simp: limits_ok_def json_faithful_def positive_int_def intro!: opt_field_dump)
  have p: "limits_post_init l" using assms(2) by (simp add: limits_ok_def)
  have k: "keys_within (limits_dump e l) LIMIT_FIELDS"
    by (simp add: keys_within_def limits_dump_def LIMIT_FIELDS_def)
  show ?thesis
    unfolding limits_validate_def
    using k s m n p
    by (cases l) (simp add: limits_dump_def dict_get_def dict_get_or_def Let_def)
qed

lemma demo_json_faithful: "json_faithful (demo_auth_env n)"
  by (simp add: json_faithful_def demo_auth_env_def demo_coerce_money_def dict_get_def)

theorem limits_roundtrip_witness:
  "limits_validate (demo_auth_env 1) (limits_dump (demo_auth_env 1) demo_limits) = Some demo_limits"
proof -
  have "limits_ok demo_limits"
    unfolding limits_ok_def by (simp add: demo_limits_def) code_simp
  with demo_json_faithful show ?thesis by (rule limits_roundtrip)
qed

section \<open>What is in force\<close>

lemma demo_replace_Z: "replace_Z (demo_int n) = demo_int n"
proof -
  have "replace_Z s = s" if "CHR ''Z'' \<notin> set s" for s
    using that by (induction s) (auto simp: replace_Z_def)
  moreover have "CHR ''Z'' \<notin> set (demo_int n)" by (auto simp: demo_int_def)
  ultimately show ?thesis by blast
qed

text \<open>
  Resolution is a function of the stored rows, not of the order in which the database
  returns them: two stores with the same versions and lifecycle events, in any order, resolve to
  the same answer for every principal and instant.
\<close>

theorem resolution_order_independent:
  assumes "set (versions db') = set (versions db)" and "set (events db') = set (events db)"
    and "keyed mv_mandate_version_id (versions db)" and "keyed le_mandate_lifecycle_event_id (events db)"
    and "resolve_in_session e p at_utc db = Inr r"
  shows "resolve_in_session e p at_utc db' = Inr r"
  by (rule resolve_same_rows [OF _ assms(5)]) (use assms(1-4) in \<open>unfold same_rows_def, blast\<close>)

theorem resolution_order_independent_witness:
  "resolve_in_session (demo_auth_env 2) ''alice'' (demo_int 2)
     (demo_auth1\<lparr>versions := rev (versions demo_auth1) @ versions demo_auth1\<rparr>) =
   resolve_in_session (demo_auth_env 2) ''alice'' (demo_int 2) demo_auth1"
proof -
  have "\<not> isl (resolve_in_session (demo_auth_env 2) ''alice'' (demo_int 2) (demo_store1 files))" for files by code_simp
  from this [of "auth_files demo_auth1", folded demo_auth1_store] obtain r where r: "resolve_in_session (demo_auth_env 2) ''alice'' (demo_int 2) demo_auth1 = Inr r"
    by (metis sum.collapse(2))
  have "resolve_in_session (demo_auth_env 2) ''alice'' (demo_int 2)
      (demo_auth1\<lparr>versions := rev (versions demo_auth1) @ versions demo_auth1\<rparr>) = Inr r"
  proof (rule resolution_order_independent [OF _ _ _ _ r])
    show "set (versions (demo_auth1\<lparr>versions := rev (versions demo_auth1) @ versions demo_auth1\<rparr>)) =
        set (versions demo_auth1)" by simp
  qed (simp_all add: demo_tables1 keyed_def)
  with r show ?thesis by simp
qed

text \<open>
  Claim C4. Resolution answers exactly what its specification says, in a store whose versions and
  events have distinct identifiers (as every reachable store has).  It answers with a version
  exactly when the principal owns alone every series it has an effective version of, the version
  is the latest effective one (by effective time, then creation time, number and identifiers), the
  event is the latest effective one of that version, and the status is \<open>expired\<close> from the expiry
  on, and before it what the event says: \<open>active\<close> after an activation or a resumption,
  \<open>suspended\<close>, \<open>revoked\<close>, and \<open>unavailable\<close> with no event.  It answers \<open>invalid\<close> exactly when
  such a series has a version of another principal, and \<open>unavailable\<close> without a version exactly
  when no version is effective.  The stored times it reads have to be readable.
\<close>

theorem resolution_refines_spec:
  assumes "keyed mv_mandate_version_id (versions db)" and "keyed le_mandate_lifecycle_event_id (events db)"
  shows "(resolve_in_session e p at_utc db =
            Inr \<lparr>rm_principal_id = p, rm_at_utc = at_utc, rm_status = st, rm_version = Some v,
                 rm_lifecycle_event = x,
                 rm_deny_reasons = (if st = ''active'' then [] else [''mandate_'' @ st])\<rparr> \<longleftrightarrow>
          (\<exists>at. instant e at_utc = Some at \<and> times_readable e p db \<and> event_times_readable e v db \<and>
             sole_owner e p at db \<and> latest_version e p at db v \<and> latest_event e v at db x \<and>
             mandate_status e at v x st)) \<and>
         (resolve_in_session e p at_utc db =
            Inr \<lparr>rm_principal_id = p, rm_at_utc = at_utc, rm_status = ''invalid'', rm_version = None,
                 rm_lifecycle_event = None, rm_deny_reasons = [''mandate_series_owner_conflict'']\<rparr> \<longleftrightarrow>
          (\<exists>at. instant e at_utc = Some at \<and> times_readable e p db \<and> \<not> sole_owner e p at db)) \<and>
         (resolve_in_session e p at_utc db =
            Inr \<lparr>rm_principal_id = p, rm_at_utc = at_utc, rm_status = ''unavailable'', rm_version = None,
                 rm_lifecycle_event = None, rm_deny_reasons = [''no_effective_mandate'']\<rparr> \<longleftrightarrow>
          (\<exists>at. instant e at_utc = Some at \<and> times_readable e p db \<and>
             (\<nexists>v. effective_version e p at db v)))"
  using version_answer_iff [OF assms] conflict_answer_iff unavailable_answer_iff
  unfolding resolved_version_def resolved_def by blast

lemma demo_resolution:
  "resolve_in_session (demo_auth_env 2) ''alice'' ''+11'' demo_auth1 =
     Inr \<lparr>rm_principal_id = ''alice'', rm_at_utc = ''+11'', rm_status = ''active'',
          rm_version = Some demo_version1, rm_lifecycle_event = Some demo_event1, rm_deny_reasons = []\<rparr>"
  "resolve_in_session (demo_auth_env 2) ''alice'' ''+'' demo_auth1 =
     Inr \<lparr>rm_principal_id = ''alice'', rm_at_utc = ''+'', rm_status = ''unavailable'', rm_version = None,
          rm_lifecycle_event = None, rm_deny_reasons = [''no_effective_mandate'']\<rparr>"
proof -
  have "resolve_in_session (demo_auth_env 2) ''alice'' ''+11'' (demo_store1 files) =
     Inr \<lparr>rm_principal_id = ''alice'', rm_at_utc = ''+11'', rm_status = ''active'',
          rm_version = Some demo_version1, rm_lifecycle_event = Some demo_event1, rm_deny_reasons = []\<rparr>"
    for files by code_simp
  from this [of "auth_files demo_auth1", folded demo_auth1_store]
  show "resolve_in_session (demo_auth_env 2) ''alice'' ''+11'' demo_auth1 =
     Inr \<lparr>rm_principal_id = ''alice'', rm_at_utc = ''+11'', rm_status = ''active'',
          rm_version = Some demo_version1, rm_lifecycle_event = Some demo_event1, rm_deny_reasons = []\<rparr>" .
  have "resolve_in_session (demo_auth_env 2) ''alice'' ''+'' (demo_store1 files) =
     Inr \<lparr>rm_principal_id = ''alice'', rm_at_utc = ''+'', rm_status = ''unavailable'', rm_version = None,
          rm_lifecycle_event = None, rm_deny_reasons = [''no_effective_mandate'']\<rparr>"
    for files by code_simp
  from this [of "auth_files demo_auth1", folded demo_auth1_store]
  show "resolve_in_session (demo_auth_env 2) ''alice'' ''+'' demo_auth1 =
     Inr \<lparr>rm_principal_id = ''alice'', rm_at_utc = ''+'', rm_status = ''unavailable'', rm_version = None,
          rm_lifecycle_event = None, rm_deny_reasons = [''no_effective_mandate'']\<rparr>" .
qed

theorem resolution_refines_spec_witness:
  "latest_version (demo_auth_env 2) ''alice'' 2 demo_auth1 demo_version1 \<and>
   latest_event (demo_auth_env 2) demo_version1 2 demo_auth1 (Some demo_event1) \<and>
   mandate_status (demo_auth_env 2) 2 demo_version1 (Some demo_event1) ''active'' \<and>
   \<not> effective_version (demo_auth_env 2) ''alice'' 0 demo_auth1 demo_version1"
proof -
  have k: "keyed mv_mandate_version_id (versions demo_auth1)" "keyed le_mandate_lifecycle_event_id (events demo_auth1)"
    by (simp_all add: demo_tables1 keyed_def)
  have i: "instant (demo_auth_env 2) ''+11'' = Some 2" "instant (demo_auth_env 2) ''+'' = Some 0"
    by code_simp+
  note R = resolution_refines_spec [OF k, of "demo_auth_env 2" "''alice''"]
  from R [of "''+11''" "''active''" demo_version1 "Some demo_event1"] demo_resolution(1) i(1)
  have "latest_version (demo_auth_env 2) ''alice'' 2 demo_auth1 demo_version1 \<and>
    latest_event (demo_auth_env 2) demo_version1 2 demo_auth1 (Some demo_event1) \<and>
    mandate_status (demo_auth_env 2) 2 demo_version1 (Some demo_event1) ''active''" by simp
  moreover from R [of "''+''"] demo_resolution(2) i(2)
  have "\<not> effective_version (demo_auth_env 2) ''alice'' 0 demo_auth1 demo_version1" by simp
  ultimately show ?thesis by blast
qed

section \<open>Mandate series\<close>

text \<open>
  Claim C5. Take any run in which the sessions of mandate writes interleave with lifecycle
  commands, grants, uses, revocations and with one another, where no mandate write commits between
  the first session and the commit of another that shares its series or its principal.  In every
  store of the run each mandate series has one durable owner, its versions carry distinct numbers,
  and every principal has at most one active mandate.
\<close>

theorem mandate_series_invariant:
  assumes "reach session_start session_step h" and "(db, l) \<in> set h"
    and "v \<in> set (versions db)" and "w \<in> set (versions db)"
  shows "(mv_capital_mandate_id v = mv_capital_mandate_id w \<longrightarrow>
            mv_principal_id v = mv_principal_id w \<and>
            (mv_version_number v = mv_version_number w \<longrightarrow> v = w)) \<and>
         (mv_principal_id v = mv_principal_id w \<longrightarrow>
            (\<forall>m\<in>set (mandates db). \<forall>n\<in>set (mandates db).
               cm_status m = ''active'' \<and> cm_status n = ''active'' \<and>
               cm_capital_mandate_id m = mv_capital_mandate_id v \<and>
               cm_capital_mandate_id n = mv_capital_mandate_id w \<longrightarrow> m = n))"
proof -
  have "auth_inv db" using sessions.reach_inv [OF assms(1)] assms(2) by (auto simp: history_inv_def)
  then have "one_owner db" "numbered db" "one_active db" by (simp_all add: auth_inv_def)
  with assms(3,4) show ?thesis unfolding one_owner_def numbered_def one_active_def by metis
qed

text \<open>
  Two overlapping writes: alice replaces her mandate, her last sessions already seeing the grant of
  the demonstration; bob's write of a series of his own reads every session before alice's commit
  and commits after it.
\<close>

definition demo_bob :: operator_context where
  "demo_bob =
     demo_operator\<lparr>oc_principal := (oc_principal demo_operator)\<lparr>pi_principal_id := ''bob''\<rparr>,
       oc_authority_administration :=
         map_option (\<lambda>x. x\<lparr>aa_principal_id := ''bob''\<rparr>) (oc_authority_administration demo_operator)\<rparr>"

definition demo_series :: "string \<Rightarrow> mandate_args" where
  "demo_series i = demo_mandate_args\<lparr>ma_capital_mandate_id := Some i\<rparr>"

definition demo_alice_plan :: "auth_db \<Rightarrow> auth_db \<Rightarrow> mandate_plan res" where
  "demo_alice_plan s1 s2 =
     plan_capital_mandate (demo_auth_env 6) demo_operator (demo_series ''m2'') (\<lambda>i. if i < 4 then s1 else s2)"

definition demo_bob_plan :: "auth_db \<Rightarrow> mandate_plan res" where
  "demo_bob_plan s = plan_capital_mandate (demo_auth_env 7) demo_bob (demo_series ''m3'') (\<lambda>_. s)"

definition demo_stored :: "nat \<Rightarrow> mandate_plan res \<Rightarrow> auth_db \<Rightarrow> capital_mandate res \<times> auth_db" where
  "demo_stored n pl db = store_capital_mandate (demo_auth_env n) False (projr pl) db"

definition demo_auth6 :: auth_db where
  "demo_auth6 = snd (demo_stored 6 (demo_alice_plan demo_auth1 demo_auth2) demo_auth2)"

definition demo_auth7 :: auth_db where
  "demo_auth7 = snd (demo_stored 7 (demo_bob_plan demo_auth1) demo_auth6)"

definition demo_labels :: "mandate_plan res \<Rightarrow> (string \<times> string) option" where
  "demo_labels pl = (case pl of Inl _ \<Rightarrow> None | Inr p \<Rightarrow> Some (plan_label p))"

definition demo_mandate_view :: "auth_db \<Rightarrow> (string \<times> string) list" where
  "demo_mandate_view db = map (\<lambda>m. (cm_capital_mandate_id m, cm_status m)) (mandates db)"

definition demo_version_view :: "auth_db \<Rightarrow> (string \<times> string \<times> int) list" where
  "demo_version_view db =
     map (\<lambda>v. (mv_capital_mandate_id v, mv_principal_id v, mv_version_number v)) (versions db)"

lemma demo_overlap_plans:
  "demo_labels (demo_alice_plan demo_auth1 demo_auth2) = Some (''m2'', ''alice'')"
  "demo_labels (demo_bob_plan demo_auth1) = Some (''m3'', ''bob'')"
proof -
  have "demo_labels (demo_alice_plan (demo_store1 f) (demo_store2 g)) = Some (''m2'', ''alice'')" for f g
    by code_simp
  from this [of "auth_files demo_auth1" "auth_files demo_auth2"]
  show "demo_labels (demo_alice_plan demo_auth1 demo_auth2) = Some (''m2'', ''alice'')"
    by (simp only: demo_auth1_store [symmetric] demo_auth2_store [symmetric])
  have "demo_labels (demo_bob_plan (demo_store1 f)) = Some (''m3'', ''bob'')" for f by code_simp
  from this [of "auth_files demo_auth1"]
  show "demo_labels (demo_bob_plan demo_auth1) = Some (''m3'', ''bob'')"
    by (simp only: demo_auth1_store [symmetric])
qed

lemma demo_overlap_tables:
  "\<not> isl (fst (demo_stored 6 (demo_alice_plan demo_auth1 demo_auth2) demo_auth2))"
  "demo_version_view demo_auth7 = [(''m1'', ''alice'', 1), (''m2'', ''alice'', 1), (''m3'', ''bob'', 1)]"
  "demo_mandate_view demo_auth7 =
     [(''m1'', ''superseded''), (''m2'', ''active''), (''m3'', ''active'')]"
proof -
  have e: "\<not> isl (fst (demo_stored 6 (demo_alice_plan (demo_store1 f) (demo_store2 g)) (demo_store2 g)))"
    "demo_version_view (snd (demo_stored 7 (demo_bob_plan (demo_store1 f))
       (snd (demo_stored 6 (demo_alice_plan (demo_store1 f) (demo_store2 g)) (demo_store2 g))))) =
       [(''m1'', ''alice'', 1), (''m2'', ''alice'', 1), (''m3'', ''bob'', 1)]"
    "demo_mandate_view (snd (demo_stored 7 (demo_bob_plan (demo_store1 f))
       (snd (demo_stored 6 (demo_alice_plan (demo_store1 f) (demo_store2 g)) (demo_store2 g))))) =
       [(''m1'', ''superseded''), (''m2'', ''active''), (''m3'', ''active'')]" for f g
    by code_simp+
  note E = e [of "auth_files demo_auth1" "auth_files demo_auth2", folded demo_auth1_store demo_auth2_store]
  show "\<not> isl (fst (demo_stored 6 (demo_alice_plan demo_auth1 demo_auth2) demo_auth2))"
    "demo_version_view demo_auth7 = [(''m1'', ''alice'', 1), (''m2'', ''alice'', 1), (''m3'', ''bob'', 1)]"
    "demo_mandate_view demo_auth7 =
       [(''m1'', ''superseded''), (''m2'', ''active''), (''m3'', ''active'')]"
    using E unfolding demo_auth7_def demo_auth6_def by blast+
qed

lemma demo_overlap_run: "\<exists>l h. reach session_start session_step ((demo_auth7, l) # h)"
proof -
  obtain l h where "reach session_start session_step ((demo_auth1, l) # h)"
    using calls_run [OF demo_reach1] by blast
  then have r2: "reach session_start session_step ((demo_auth2, None) # (demo_auth1, l) # h)"
    by (rule reach_step) (rule ss_other [OF os_grant [OF demo_grant_recorded]])
  obtain p where p: "demo_alice_plan demo_auth1 demo_auth2 = Inr p" "plan_label p = (''m2'', ''alice'')"
    using demo_overlap_plans(1) by (cases "demo_alice_plan demo_auth1 demo_auth2") (auto simp: demo_labels_def)
  obtain m where "demo_stored 6 (Inr p) demo_auth2 = (Inr m, demo_auth6)"
    using demo_overlap_tables(1) unfolding demo_auth6_def p(1) by (metis prod.collapse sum.collapse(2))
  then have st: "store_capital_mandate (demo_auth_env 6) False p demo_auth2 = (Inr m, demo_auth6)"
    by (simp add: demo_stored_def)
  have "session_step ((demo_auth2, None) # (demo_auth1, l) # h)
      ((demo_auth6, Some (''m2'', ''alice'')) # (demo_auth2, None) # (demo_auth1, l) # h)"
    using ss_store [of _ _ _ "[(demo_auth2, None), (demo_auth1, l)]" h, OF _ _ _ p(1) [unfolded demo_alice_plan_def] _ st]
    by (simp add: foreign_since_def p(2))
  with r2 have r6: "reach session_start session_step
      ((demo_auth6, Some (''m2'', ''alice'')) # (demo_auth2, None) # (demo_auth1, l) # h)" by (rule reach_step)
  obtain q where q: "demo_bob_plan demo_auth1 = Inr q" "plan_label q = (''m3'', ''bob'')"
    using demo_overlap_plans(2) by (cases "demo_bob_plan demo_auth1") (auto simp: demo_labels_def)
  obtain r where st': "store_capital_mandate (demo_auth_env 7) False q demo_auth6 = (r, demo_auth7)"
    unfolding demo_auth7_def q(1) demo_stored_def sum.sel by (metis prod.collapse)
  have "\<exists>k. session_step ((demo_auth6, Some (''m2'', ''alice'')) # (demo_auth2, None) # (demo_auth1, l) # h)
      ((demo_auth7, k) # (demo_auth6, Some (''m2'', ''alice'')) # (demo_auth2, None) # (demo_auth1, l) # h)"
    using ss_store [of _ _ _ "[(demo_auth6, Some (''m2'', ''alice'')), (demo_auth2, None), (demo_auth1, l)]" h,
        OF _ _ _ q(1) [unfolded demo_bob_plan_def] _ st']
    by (fastforce simp: foreign_since_def q(2))
  with r6 show ?thesis by (blast intro: reach_step)
qed

theorem mandate_series_invariant_witness:
  "demo_version_view demo_auth7 = [(''m1'', ''alice'', 1), (''m2'', ''alice'', 1), (''m3'', ''bob'', 1)] \<and>
   cm_status (mandates demo_auth7 ! 1) = ''active'' \<and> cm_status (mandates demo_auth7 ! 0) \<noteq> ''active''"
proof -
  obtain l h where r: "reach session_start session_step ((demo_auth7, l) # h)"
    using demo_overlap_run by blast
  obtain v w u where vs: "versions demo_auth7 = [v, w, u]" and
    vw: "mv_capital_mandate_id v = ''m1''" "mv_capital_mandate_id w = ''m2''"
      "mv_principal_id v = ''alice''" "mv_principal_id w = ''alice''"
    using demo_overlap_tables(2) by (auto simp: demo_version_view_def map_eq_Cons_conv)
  obtain m n k where ms: "mandates demo_auth7 = [m, n, k]" and
    mn: "cm_capital_mandate_id m = ''m1''" "cm_capital_mandate_id n = ''m2''" "cm_status n = ''active''"
    using demo_overlap_tables(3) by (auto simp: demo_mandate_view_def map_eq_Cons_conv)
  from mandate_series_invariant [OF r, of demo_auth7 l v w] vs ms vw mn
  have "cm_status m \<noteq> ''active''" by auto
  with ms mn(3) demo_overlap_tables(2) show ?thesis by simp
qed

text \<open>
  The condition on overlapping writes cannot be dropped, and nothing in the code enforces it: two
  writes of alice that both read the store of the first mandate leave her two active mandates, and
  two principals who both find the series \<open>m2\<close> unused both become its owners, each with a version
  number 1.
\<close>

definition demo_race :: "nat \<Rightarrow> operator_context \<Rightarrow> string \<Rightarrow> auth_db \<Rightarrow> mandate_plan res" where
  "demo_race n c i s =
     plan_capital_mandate
       ((demo_auth_env n)\<lparr>content_hash := (\<lambda>v. case v of PDict d \<Rightarrow>
            (case dict_get d ''principal_id'' of PStr p \<Rightarrow> p | _ \<Rightarrow> []) | _ \<Rightarrow> [])\<rparr>)
       c (demo_series i) (\<lambda>_. s)"

lemma overlapping_writes:
  "demo_mandate_view (snd (demo_stored 7 (demo_race 7 demo_operator ''m4'' demo_auth1)
      (snd (demo_stored 6 (demo_race 6 demo_operator ''m2'' demo_auth1) demo_auth1)))) =
     [(''m1'', ''superseded''), (''m2'', ''active''), (''m4'', ''active'')]"
  "demo_version_view (snd (demo_stored 7 (demo_race 7 demo_bob ''m2'' demo_auth1)
      (snd (demo_stored 6 (demo_race 6 demo_operator ''m2'' demo_auth1) demo_auth1)))) =
     [(''m1'', ''alice'', 1), (''m2'', ''alice'', 1), (''m2'', ''bob'', 1)]"
proof -
  have e: "demo_mandate_view (snd (demo_stored 7 (demo_race 7 demo_operator ''m4'' (demo_store1 f))
      (snd (demo_stored 6 (demo_race 6 demo_operator ''m2'' (demo_store1 f)) (demo_store1 f))))) =
     [(''m1'', ''superseded''), (''m2'', ''active''), (''m4'', ''active'')]"
    "demo_version_view (snd (demo_stored 7 (demo_race 7 demo_bob ''m2'' (demo_store1 f))
      (snd (demo_stored 6 (demo_race 6 demo_operator ''m2'' (demo_store1 f)) (demo_store1 f))))) =
     [(''m1'', ''alice'', 1), (''m2'', ''alice'', 1), (''m2'', ''bob'', 1)]" for f by code_simp+
  note E = e [of "auth_files demo_auth1", folded demo_auth1_store]
  show "demo_mandate_view (snd (demo_stored 7 (demo_race 7 demo_operator ''m4'' demo_auth1)
      (snd (demo_stored 6 (demo_race 6 demo_operator ''m2'' demo_auth1) demo_auth1)))) =
     [(''m1'', ''superseded''), (''m2'', ''active''), (''m4'', ''active'')]" by (rule E)
  show "demo_version_view (snd (demo_stored 7 (demo_race 7 demo_bob ''m2'' demo_auth1)
      (snd (demo_stored 6 (demo_race 6 demo_operator ''m2'' demo_auth1) demo_auth1)))) =
     [(''m1'', ''alice'', 1), (''m2'', ''alice'', 1), (''m2'', ''bob'', 1)]" by (rule E)
qed

lemma reducing_status:
  assumes "record_lifecycle_command e c i op reason ef db = (Inr x, db')"
    and "op = ''mandate_suspend'' \<or> op = ''mandate_revoke''"
    and "clock e 0 \<noteq> []"
    and "\<And>y t. mandate_parse_utc e (clock e 0) = Inr t \<Longrightarrow>
        y \<in> set (effective_events e (le_mandate_version_id x) t db) \<Longrightarrow> event_key e y < event_key e x"
  shows "\<exists>r. resolve_in_session e (pi_principal_id (oc_principal c)) (clock e 0) db' = Inr r \<and>
           rm_status r = (if op = ''mandate_suspend'' then ''suspended'' else ''revoked'') \<and>
           rm_lifecycle_event r = Some x"
proof -
  have red: "map_of AUTHORITY_ADMINISTRATION_OPERATION_EFFECT op = Some ''reducing''"
    using assms(2) by (auto simp: AUTHORITY_ADMINISTRATION_OPERATION_EFFECT_def)
  obtain v st where r: "resolve_in_session e (pi_principal_id (oc_principal c)) (clock e 0) db' =
      Inr (resolved_version (pi_principal_id (oc_principal c)) (clock e 0) v (Some x) st)"
    and st: "event_status (le_event_type x) = Inr st"
    using reducing_command_resolves [OF assms(1) red assms(3)] assms(4) by blast
  from assms(1) have "st = (if op = ''mandate_suspend'' then ''suspended'' else ''revoked'')"
    by (rule lifecycle_okE)
       (use assms(2) st in \<open>auto simp: CAPITAL_MANDATE_LIFECYCLE_COMMANDS_def mk_lifecycle_event_def event_status_def\<close>)
  with r show ?thesis by (simp add: resolved_version_def)
qed

text \<open>A suspension of the demonstration mandate, newer than its activation.\<close>

definition demo_suspended :: auth_db where
  "demo_suspended = snd (suspend_capital_mandate (demo_auth_env 5) demo_operator ''m1'' ''stop'' demo_auth2)"

lemma demo_suspend_ok:
  obtains x where "record_lifecycle_command (demo_auth_env 5) demo_operator ''m1'' ''mandate_suspend'' ''stop''
      None demo_auth2 = (Inr x, demo_suspended)"
proof -
  have "\<not> isl (fst (suspend_capital_mandate (demo_auth_env 5) demo_operator ''m1'' ''stop'' (demo_store2 files)))"
    for files by code_simp
  from this [of "auth_files demo_auth2", folded demo_auth2_store] show thesis
    using that unfolding demo_suspended_def suspend_capital_mandate_def by (metis prod.collapse sum.collapse(2))
qed

lemma demo_clock [simp]: "clock (demo_auth_env n) i = demo_int (int n)"
  by (simp add: demo_auth_env_def)

lemma demo_int_nonempty [simp]: "demo_int n \<noteq> []"
  by (simp add: demo_int_def)

lemma demo_time: "mandate_parse_utc (demo_auth_env m) (demo_int n) = Inr n"
  by (simp add: mandate_parse_utc_def demo_auth_env_def demo_replace_Z utc_instant_def)

lemma demo_suspend_newest:
  assumes x: "record_lifecycle_command (demo_auth_env 5) demo_operator ''m1'' ''mandate_suspend'' ''stop''
      None demo_auth2 = (Inr x, demo_suspended)"
    and y: "y \<in> set (effective_events (demo_auth_env 5) (le_mandate_version_id x) t demo_auth2)"
  shows "event_key (demo_auth_env 5) y < event_key (demo_auth_env 5) x"
proof -
  have cx: "le_effective_at_utc x = demo_int 5 \<and> le_created_at_utc x = demo_int 5"
    using x by (rule lifecycle_okE)
      (simp_all add: mk_lifecycle_event_def lifecycle_guards_def or_else_def
        AUTHORITY_ADMINISTRATION_OPERATION_EFFECT_def)
  have y1: "y = demo_event1" using y by (simp add: effective_events_def demo_other2 split: if_splits)
  have "le_effective_at_utc demo_event1 = demo_int 1" "le_created_at_utc demo_event1 = demo_int 1"
    by (simp_all add: demo_event1_def demo_int_def)
  then have "event_key (demo_auth_env 5) y = (1, 1, le_mandate_lifecycle_event_id demo_event1)"
    using y1 by (simp add: event_key_def mandate_lifecycle_order_key_def demo_time)
  moreover have "event_key (demo_auth_env 5) x = (5, 5, le_mandate_lifecycle_event_id x)"
    using cx by (simp add: event_key_def mandate_lifecycle_order_key_def demo_time)
  ultimately show ?thesis by simp
qed

text \<open>
  A suspension or revocation takes effect at the instant it is recorded: when it is
  newer than every event of the version in effect, resolving the principal at that instant gives
  a status other than \<open>active\<close>, with the new event as the reason.
\<close>

theorem reducing_takes_effect:
  assumes "record_lifecycle_command e c i op reason ef db = (Inr x, db')"
    and "op = ''mandate_suspend'' \<or> op = ''mandate_revoke''"
    and "clock e 0 \<noteq> []"
    and "\<And>y t. mandate_parse_utc e (clock e 0) = Inr t \<Longrightarrow>
        y \<in> set (effective_events e (le_mandate_version_id x) t db) \<Longrightarrow> event_key e y < event_key e x"
  shows "\<exists>r. resolve_in_session e (pi_principal_id (oc_principal c)) (clock e 0) db' = Inr r \<and>
           rm_status r = (if op = ''mandate_suspend'' then ''suspended'' else ''revoked'') \<and>
           rm_lifecycle_event r = Some x"
  by (rule reducing_status [OF assms(1-3)]) (rule assms(4))

theorem reducing_takes_effect_witness:
  "\<exists>r. resolve_in_session (demo_auth_env 5) ''alice'' (demo_int 5) demo_suspended = Inr r \<and>
       rm_status r = ''suspended''"
proof -
  obtain x where x: "record_lifecycle_command (demo_auth_env 5) demo_operator ''m1'' ''mandate_suspend'' ''stop''
      None demo_auth2 = (Inr x, demo_suspended)" by (rule demo_suspend_ok)
  have "\<exists>r. resolve_in_session (demo_auth_env 5) (pi_principal_id (oc_principal demo_operator))
           (clock (demo_auth_env 5) 0) demo_suspended = Inr r \<and>
         rm_status r = (if ''mandate_suspend'' = ''mandate_suspend'' then ''suspended'' else ''revoked'') \<and>
         rm_lifecycle_event r = Some x"
    by (rule reducing_takes_effect [OF x]) (simp_all add: demo_suspend_newest [OF x])
  then show ?thesis by (auto simp: demo_operator_def)
qed

section \<open>Grants and their uses\<close>

text \<open>
  Claim C6. Authority only ever shrinks on its way down: when a use is allowed, its requested
  scope lies within the mandate version that is in force for the principal of the grant at that
  instant, is bound by identifier to the grant, and resolves \<open>active\<close>.
\<close>

theorem allowed_use_within_mandate:
  assumes "reach auth_start auth_step db"
    and "validate_agent_authority_grant e i grant_id a None db = Inr val" and "gv_allowed val"
  shows "\<exists>g p r v. tbl_get ag_agent_authority_grant_id (grants db) grant_id = Some g \<and>
           ag_status g = ''active'' \<and> ag_principal_id g = Some p \<and>
           resolve_capital_mandate e (i + 1) p (va_now_utc a) db = Inr r \<and>
           rm_status r = ''active'' \<and> rm_version r = Some v \<and>
           ag_mandate_version_id g = Some (mv_mandate_version_id v) \<and>
           scope_within_mandate e (ag_grant_scope g) v \<and>
           scope_within_mandate e (va_requested_scope a) v"
proof -
  obtain g where g: "tbl_get ag_agent_authority_grant_id (grants db) grant_id = Some g"
    using assms(2,3) by (cases "tbl_get ag_agent_authority_grant_id (grants db) grant_id")
      (auto simp: validate_agent_authority_grant_def)
  with assms(2,3) obtain v w where u: "grant_usable e i a g db v w"
    using validate_some [of db grant_id None g e i a] by auto
  have "auth_inv db" using assms(1) by (rule authority.reach_inv)
  then have "w = v" using grant_usable_version [OF u] by (simp add: auth_inv_def auth_keys_def)
  with u have "scope_within_scope e (va_requested_scope a) (ag_grant_scope g)"
    "scope_within_mandate e (ag_grant_scope g) v" by (simp_all add: grant_usable_def)
  then have "scope_within_mandate e (va_requested_scope a) v" by (rule scopes.attenuate)
  with g u \<open>w = v\<close> show ?thesis unfolding grant_usable_def by blast
qed

lemma demo_lookup2: "tbl_get ag_agent_authority_grant_id (grants demo_auth2) ''g1'' = Some demo_grant1"
  by (simp add: demo_grants2 tbl_get_def demo_grant1_def)

lemma demo_grant_valid:
  obtains val where "validate_agent_authority_grant (demo_auth_env 2) 0 ''g1''
    (creation_args demo_scope (demo_int 2)) None demo_auth2 = Inr val" and "gv_allowed val"
proof -
  have "auth_inv demo_auth1" using demo_reach1 by (rule authority.reach_inv)
  have two: "demo_int 2 = ''+11''" by (simp add: demo_int_def numeral_2_eq_2)
  from created_grant_usable [OF \<open>auth_inv demo_auth1\<close> demo_grant_recorded, of 0] that show thesis
    by (auto simp: demo_grant1_def demo_scope_def strs_def two)
qed

theorem allowed_use_within_mandate_witness:
  "\<exists>v. scope_within_mandate (demo_auth_env 2) demo_scope v"
proof -
  obtain val where "validate_agent_authority_grant (demo_auth_env 2) 0 ''g1''
    (creation_args demo_scope (demo_int 2)) None demo_auth2 = Inr val" and "gv_allowed val"
    by (rule demo_grant_valid)
  from allowed_use_within_mandate [OF demo_reach2 this] show ?thesis by (auto simp: creation_args_def)
qed

text \<open>
  Claim C7. The validator of a stored grant says yes exactly when the grant is active and not
  expired, principal and runtime match, the bound mandate version is the one in force and
  active, the money contract holds, no forbidden semantics occur, the scopes nest, the budget
  has room for the request and the nonce is new; nothing else denies and nothing else is needed.
\<close>

theorem use_allowed_iff:
  assumes "tbl_get ag_agent_authority_grant_id (grants db) grant_id = Some g"
  shows "(\<exists>val. validate_agent_authority_grant e i grant_id a None db = Inr val \<and> gv_allowed val) \<longleftrightarrow>
    (\<exists>v w. grant_usable e i a g db v w) \<and>
    usage_ok g (grant_consumptions db (ag_agent_authority_grant_id g))
      (money_value e (va_requested_notional a)) (va_nonce a)"
  using validate_some [of db grant_id None g e i a] assms by simp

theorem use_allowed_iff_witness:
  "usage_ok demo_grant1 [] None None"
proof -
  obtain val where "validate_agent_authority_grant (demo_auth_env 2) 0 ''g1''
    (creation_args demo_scope (demo_int 2)) None demo_auth2 = Inr val" and "gv_allowed val"
    by (rule demo_grant_valid)
  with use_allowed_iff [OF demo_lookup2, of "demo_auth_env 2" 0 "creation_args demo_scope (demo_int 2)"]
  show ?thesis
    by (auto simp: creation_args_def money_value_def grant_consumptions_def demo_other2)
qed

text \<open>
  Claim C8. No history overspends a grant: in every reachable store the recorded uses of a grant
  are at most \<open>max_uses\<close>, and, read as fixed-point numbers of any common scale in which the cap
  fits the 28 digits of the decimal context, the exact sum of their amounts is at most
  \<open>max_total_notional\<close>; rounding in the running total cannot hide an overrun.
\<close>

theorem budget_never_exceeded:
  assumes "reach auth_start auth_step db" and "g \<in> set (grants db)"
    and "cs = grant_consumptions db (ag_agent_authority_grant_id g)" and "cs \<noteq> []"
  shows "(\<forall>n. ag_max_uses g = Some n \<longrightarrow> int (length cs) \<le> n) \<and>
    (\<forall>cap k M ns. ag_max_total_notional g = Some cap \<and> fixed_at k cap M \<and> M < 10 ^ ctx_prec \<and>
       list_all2 (fixed_at k) (map gc_requested_notional cs) ns \<and> (\<forall>n\<in>set ns. 0 \<le> n) \<longrightarrow>
       sum_list ns \<le> M)"
proof -
  have "auth_inv db" using assms(1) by (rule authority.reach_inv)
  with assms(2,3) have b: "within_budget g cs" by (simp add: auth_inv_def budgets_def)
  show ?thesis
  proof (intro conjI allI impI; (elim conjE)?)
    fix n assume "ag_max_uses g = Some n"
    with b show "int (length cs) \<le> n" by (simp add: within_budget_def)
  next
    fix cap k M ns
    assume cap: "ag_max_total_notional g = Some cap" "fixed_at k cap M" "M < 10 ^ ctx_prec"
      and ns: "list_all2 (fixed_at k) (map gc_requested_notional cs) ns" "\<forall>n\<in>set ns. 0 \<le> n"
    from b cap(1) assms(4) have "dec_le (dec_sum (map gc_requested_notional cs)) cap"
      by (simp add: within_budget_def used_notional_def)
    with ns cap(2,3) show "sum_list ns \<le> M" by (intro dec_sum_le_bound)
  qed
qed

lemma demo_uses_of_g1:
  "map gc_requested_notional (grant_consumptions demo_auth3 ''g1'') = [Dec 4 0]"
  using demo_uses3 by (auto simp: grant_consumptions_def)

theorem budget_never_exceeded_witness:
  "ag_max_total_notional demo_grant1 = Some (Dec 9 0) \<and>
   map gc_requested_notional (grant_consumptions demo_auth3 ''g1'') = [Dec 4 0] \<and>
   sum_list [4] \<le> (9::int)"
proof -
  have id: "ag_agent_authority_grant_id demo_grant1 = ''g1''" "ag_max_total_notional demo_grant1 = Some (Dec 9 0)"
    by (simp_all add: demo_grant1_def)
  have ne: "grant_consumptions demo_auth3 (ag_agent_authority_grant_id demo_grant1) \<noteq> []"
    using demo_uses_of_g1 unfolding id by auto
  have "fixed_at 0 (Dec 9 0) 9" "fixed_at 0 (Dec 4 0) 4" "(9::int) < 10 ^ ctx_prec"
    by (simp_all add: fixed_at_def scale_to_def ctx_prec_def)
  with budget_never_exceeded [OF demo_reach3 _ refl ne] id demo_uses_of_g1 show ?thesis
    by (auto simp: demo_grants3 id dest!: spec [of _ "Dec 9 0"] spec [of _ 0] spec [of _ "[4]"])
qed

text \<open>
  Claim C9. A nonce buys one use: after a recorded use, and whatever calls follow, every later
  call that consumes the same grant with that nonce, also with other surrounding whitespace,
  another request or a validation made against an older store, raises and changes no table.
\<close>

theorem nonce_replay_refused:
  assumes "consume_agent_authority_grant e a seen db = (Inr r, db1)" and "auth_step\<^sup>*\<^sup>* db1 db2"
    and "ca_grant_id a' = ca_grant_id a" and "py_strip (ca_nonce a') = py_strip (ca_nonce a)"
    and "consume_agent_authority_grant e' a' seen' db2 = (res, db3)"
  shows "isl res \<and> same_tables db2 db3"
proof -
  from consume_outcome [OF assms(1)] obtain notional g cur c where
      cons: "consumed e a db db1 notional g cur c" by auto
  then have "c \<in> set (consumptions db1)" by (simp add: consumed_def)
  with assms(2) have c: "c \<in> set (consumptions db2)" by (rule consumptions_grow)
  from cons have "gc_agent_authority_grant_id c = ca_grant_id a" "gc_nonce c = py_strip (ca_nonce a)"
    by (auto simp: consumed_def mk_consumption_def)
  with c assms(3-5) show ?thesis by (metis consume_nonce_used)
qed

theorem nonce_replay_refused_witness:
  "isl (fst (consume_agent_authority_grant (demo_auth_env 4) (demo_use '' n1'' 1) demo_auth2 demo_auth3))"
proof -
  obtain r where r: "consume_agent_authority_grant (demo_auth_env 3) (demo_use ''n1'' 4) demo_auth2 demo_auth2 =
    (Inr r, demo_auth3)" by (rule demo_use_recorded)
  have "py_strip '' n1'' = py_strip ''n1''" by code_simp
  with nonce_replay_refused [OF r rtranclp.rtrancl_refl _ _ prod.collapse [symmetric], of "demo_use '' n1'' 1"]
  show ?thesis by (simp add: demo_use_def)
qed

lemma revoked_lookup:
  assumes "revoke_agent_authority_grant e c grant_id reason db = (Inr g, db1)"
  shows "tbl_get ag_agent_authority_grant_id (grants db1) grant_id = Some g \<and> ag_status g = ''revoked''"
  using assms
proof (rule revoke_ok)
  fix h path
  assume h: "tbl_get ag_agent_authority_grant_id (grants db) grant_id = Some h"
    and g: "g = revoked_grant (clock e 0) reason (display_path e path) h"
    and gs: "grants db1 = tbl_update ag_agent_authority_grant_id grant_id (\<lambda>_. g) (grants db)"
  from tbl_get_SomeD [OF h] have "ag_agent_authority_grant_id g = grant_id"
    by (simp add: g revoked_grant_def)
  moreover have "tbl_has ag_agent_authority_grant_id (grants db) grant_id"
    using h by (metis tbl_get_None_iff option.distinct(1))
  ultimately show ?thesis
    using tbl_get_update_const [of ag_agent_authority_grant_id g "grants db" grant_id] gs
    by (simp add: g revoked_grant_def)
qed

text \<open>
  Claim C10. Revocation is final: once a grant was revoked, then after any further calls its row
  is still the revoked one, every validation denies it, and every attempt to consume it raises
  without changing a table.
\<close>

theorem revocation_is_final:
  assumes "revoke_agent_authority_grant e c grant_id reason db = (Inr g, db1)" and "auth_step\<^sup>*\<^sup>* db1 db2"
  shows "tbl_get ag_agent_authority_grant_id (grants db2) grant_id = Some g \<and> ag_status g = ''revoked'' \<and>
    (\<forall>e' i a val. validate_agent_authority_grant e' i grant_id a None db2 = Inr val \<longrightarrow> \<not> gv_allowed val) \<and>
    (\<forall>e' a seen res db3. ca_grant_id a = grant_id \<longrightarrow>
       consume_agent_authority_grant e' a seen db2 = (res, db3) \<longrightarrow> isl res \<and> same_tables db2 db3)"
proof -
  have g: "tbl_get ag_agent_authority_grant_id (grants db1) grant_id = Some g" "ag_status g = ''revoked''"
    using revoked_lookup [OF assms(1)] by blast+
  have "ag_status g \<notin> {''active'', ''suspended''}" using g(2) by simp
  with assms(2) g(1) have g2: "tbl_get ag_agent_authority_grant_id (grants db2) grant_id = Some g"
    by (rule closed_grant_kept)
  have deny: "\<not> (\<exists>val. validate_agent_authority_grant e' i grant_id a None db2 = Inr val \<and> gv_allowed val)"
    for e' i a
    using validate_some [of db2 grant_id None g e' i a] g2 g(2) by (simp add: grant_usable_def)
  have "isl res \<and> same_tables db2 db3"
    if a: "ca_grant_id a = grant_id" and "consume_agent_authority_grant e' a seen db2 = (res, db3)" for e' a seen res db3
  proof (rule ccontr)
    assume "\<not> (isl res \<and> same_tables db2 db3)"
    with consume_outcome [OF that(2)] obtain notional h cur d where "consumed e' a db2 db3 notional h cur d" by blast
    then obtain vid val where "consume_locked_checks e' a notional db2 =
        Inr (h, cur, vid, val, grant_consumptions db2 (ca_grant_id a))" unfolding consumed_def by blast
    then have "consume_validated e' 2 ''grant consumption denied under lock: '' a notional db2 = Inr val"
      by (rule locked_checks_okE)
    with deny show False by (auto simp: consume_validated_def rbind_Inr_iff a split: if_splits)
  qed
  with g g2 deny show ?thesis by blast
qed

theorem revocation_is_final_witness:
  "tbl_get ag_agent_authority_grant_id
     (grants (snd (revoke_agent_authority_grant (demo_auth_env 6) demo_operator ''g1'' ''done'' demo_auth2))) ''g1''
   = Some (revoked_grant (demo_int 6) ''done''
       ''agent-authority-grants/lifecycle/receipt_agent_authority_grant_revoked_6_0_0a1b2c3d.json'' demo_grant1)"
proof -
  let ?call = "revoke_agent_authority_grant (demo_auth_env 6) demo_operator ''g1'' ''done'' demo_auth2"
  have "fst (revoke_agent_authority_grant (demo_auth_env 6) demo_operator ''g1'' ''done'' (demo_store2 files)) =
      Inr (revoked_grant (demo_int 6) ''done''
       ''agent-authority-grants/lifecycle/receipt_agent_authority_grant_revoked_6_0_0a1b2c3d.json'' demo_grant1)"
    for files by code_simp
  from this [of "auth_files demo_auth2", folded demo_auth2_store] have "?call = (Inr (revoked_grant (demo_int 6) ''done''
       ''agent-authority-grants/lifecycle/receipt_agent_authority_grant_revoked_6_0_0a1b2c3d.json'' demo_grant1), snd ?call)"
    by (metis prod.collapse)
  from revocation_is_final [OF this rtranclp.rtrancl_refl] show ?thesis by blast
qed

text \<open>
  A grant that was just issued is usable at once: validating it in the new store at
  its creation instant, for its own scope, says yes.
\<close>

theorem fresh_grant_usable:
  assumes "reach auth_start auth_step db" and "record_agent_authority_grant e c a db = (Inr g, db')"
    and "ag_created_at_utc g \<noteq> []"
  shows "\<exists>val. validate_agent_authority_grant e j (ag_agent_authority_grant_id g)
           (creation_args (ag_grant_scope g) (ag_created_at_utc g)) None db' = Inr val \<and> gv_allowed val"
  using authority.reach_inv [OF assms(1)] assms(2,3) by (rule created_grant_usable)

theorem fresh_grant_usable_witness:
  "\<exists>val. validate_agent_authority_grant (demo_auth_env 2) 7 ''g1''
      (creation_args (ag_grant_scope demo_grant1) ''+11'') None demo_auth2 = Inr val \<and> gv_allowed val"
proof -
  have "ag_created_at_utc demo_grant1 = ''+11''" "ag_agent_authority_grant_id demo_grant1 = ''g1''"
    by (simp_all add: demo_grant1_def)
  with fresh_grant_usable [OF demo_reach1 demo_grant_recorded, of 7] show ?thesis by simp
qed

text \<open>
  Consuming is atomic: a call that returns has added exactly one consumption row, with
  the count after it, and a call that raises has changed no table; in particular building the
  result, which happens after the commit, never fails.
\<close>

theorem consume_atomic:
  "case consume_agent_authority_grant e a seen db of
     (Inl x, db') \<Rightarrow> same_tables db db'
   | (Inr r, db') \<Rightarrow>
       consumptions db' = consumptions db @ [cr_consumption r] \<and>
       gc_agent_authority_grant_id (cr_consumption r) = ca_grant_id a \<and>
       cr_usage_count r = int (length (grant_consumptions db' (ca_grant_id a))) \<and>
       grants db' = grants db \<and> versions db' = versions db \<and> events db' = events db \<and>
       mandates db' = mandates db"
proof -
  obtain res db' where c: "consume_agent_authority_grant e a seen db = (res, db')" by fastforce
  from consume_outcome [OF c] show ?thesis
  proof (elim disjE exE conjE)
    assume "isl res" and "same_tables db db'"
    with c show ?thesis by (cases res) auto
  next
    fix r notional g cur d
    assume r: "res = Inr r" "cr_consumption r = d"
      "cr_usage_count r = int (length (grant_consumptions db (ca_grant_id a))) + 1"
      and d: "consumed e a db db' notional g cur d"
    from d have "gc_agent_authority_grant_id d = ca_grant_id a" "consumptions db' = consumptions db @ [d]"
      by (auto simp: consumed_def mk_consumption_def)
    with c r d show ?thesis by (simp add: consumed_def grant_consumptions_def)
  qed
qed

text \<open>
  A failing authority call leaves every table as it was: recording a mandate, changing
  its life cycle, issuing, revoking and consuming a grant all roll back on every error path.
\<close>

theorem failing_calls_keep_tables:
  "(fst (record_capital_mandate e c ma db) = Inl x \<longrightarrow> same_tables db (snd (record_capital_mandate e c ma db))) \<and>
   (fst (record_lifecycle_command e c i op reason ef db) = Inl x \<longrightarrow>
      same_tables db (snd (record_lifecycle_command e c i op reason ef db))) \<and>
   (fst (record_agent_authority_grant e c ga db) = Inl x \<longrightarrow>
      same_tables db (snd (record_agent_authority_grant e c ga db))) \<and>
   (fst (revoke_agent_authority_grant e c i reason db) = Inl x \<longrightarrow>
      same_tables db (snd (revoke_agent_authority_grant e c i reason db))) \<and>
   (fst (consume_agent_authority_grant e ca seen db) = Inl x \<longrightarrow>
      same_tables db (snd (consume_agent_authority_grant e ca seen db)))"
proof (intro conjI impI)
  assume "fst (consume_agent_authority_grant e ca seen db) = Inl x"
  with consume_outcome [OF prod.collapse [symmetric], of e ca seen db]
  show "same_tables db (snd (consume_agent_authority_grant e ca seen db))" by auto
qed (metis prod.collapse record_capital_mandate_error lifecycle_error_tables record_grant_error revoke_error)+

theorem failing_calls_keep_tables_witness:
  "same_tables demo_auth1 (snd (record_agent_authority_grant (demo_auth_env 60) demo_operator demo_grant_args demo_auth1))"
proof -
  have "isl (fst (record_agent_authority_grant (demo_auth_env 60) demo_operator demo_grant_args (demo_store1 files)))"
    for files by code_simp
  from this [of "auth_files demo_auth1", folded demo_auth1_store] obtain x where "fst (record_agent_authority_grant (demo_auth_env 60) demo_operator demo_grant_args demo_auth1) = Inl x"
    by (metis sum.collapse(1))
  with failing_calls_keep_tables show ?thesis by blast
qed

text \<open>
  Suspending or revoking a mandate stops every grant under it: with the new event the
  newest, no grant of that principal validates at that instant, whatever is requested.
\<close>

theorem suspension_stops_grants:
  assumes "record_lifecycle_command e c i op reason ef db = (Inr x, db')"
    and "op = ''mandate_suspend'' \<or> op = ''mandate_revoke''" and "clock e 0 \<noteq> []"
    and "\<And>y t. mandate_parse_utc e (clock e 0) = Inr t \<Longrightarrow>
        y \<in> set (effective_events e (le_mandate_version_id x) t db) \<Longrightarrow> event_key e y < event_key e x"
    and "tbl_get ag_agent_authority_grant_id (grants db') grant_id = Some g"
    and "ag_principal_id g = Some (pi_principal_id (oc_principal c))"
    and "va_now_utc a = Some (clock e 0)"
  shows "\<not> (\<exists>val. validate_agent_authority_grant e j grant_id a None db' = Inr val \<and> gv_allowed val)"
proof
  assume "\<exists>val. validate_agent_authority_grant e j grant_id a None db' = Inr val \<and> gv_allowed val"
  then obtain v w where "grant_usable e j a g db' v w"
    using validate_some [of db' grant_id None g e j a] assms(5) by auto
  then obtain r where "resolve_in_session e (pi_principal_id (oc_principal c)) (clock e 0) db' = Inr r"
      "rm_status r = ''active''"
    using assms(3,6,7) by (auto simp: grant_usable_def resolve_capital_mandate_def or_else_def split: if_splits)
  moreover have "\<exists>r. resolve_in_session e (pi_principal_id (oc_principal c)) (clock e 0) db' = Inr r \<and>
      rm_status r = (if op = ''mandate_suspend'' then ''suspended'' else ''revoked'') \<and> rm_lifecycle_event r = Some x"
    by (rule reducing_status [OF assms(1-3)]) (rule assms(4))
  ultimately show False by (auto split: if_splits)
qed

theorem suspension_stops_grants_witness:
  "\<not> (\<exists>val. validate_agent_authority_grant (demo_auth_env 5) 0 ''g1''
      (creation_args demo_scope (demo_int 5)) None demo_suspended = Inr val \<and> gv_allowed val)"
proof -
  obtain x where x: "record_lifecycle_command (demo_auth_env 5) demo_operator ''m1'' ''mandate_suspend'' ''stop''
      None demo_auth2 = (Inr x, demo_suspended)" by (rule demo_suspend_ok)
  from x have "grants demo_suspended = grants demo_auth2" by (rule lifecycle_okE)
  then have g: "tbl_get ag_agent_authority_grant_id (grants demo_suspended) ''g1'' = Some demo_grant1"
    using demo_lookup2 by simp
  show ?thesis
    by (rule suspension_stops_grants [OF x _ _ _ g])
       (simp_all add: demo_suspend_newest [OF x] creation_args_def demo_grant1_def demo_operator_def)
qed

end
