(* ===== verification/Fin_Json.thy ===== *)
theory Fin_Json
  imports Fin_Prelude "HOL-Library.List_Lexorder" "HOL-Library.Char_ord"
begin

text \<open>
  JSON values as the receipts use them: the canonical compact text of \<^verbatim>\<open>json.dumps\<close> with
  \<^verbatim>\<open>sort_keys=True, default=str\<close>, the value that \<^verbatim>\<open>json.load\<close> gives back for a written payload,
  Python's equality of such values, dictionary updates, UTF-8 and base64.
\<close>

section \<open>Dictionaries\<close>

definition dict_set :: "(string \<times> pyval) list \<Rightarrow> string \<Rightarrow> pyval \<Rightarrow> (string \<times> pyval) list" where
  "dict_set d k v =
     (if k \<in> fst ` set d then map (\<lambda>(k', v'). if k' = k then (k, v) else (k', v')) d
      else d @ [(k, v)])"

definition dict_merge :: "(string \<times> pyval) list \<Rightarrow> (string \<times> pyval) list \<Rightarrow> (string \<times> pyval) list" where
  "dict_merge d kvs = fold (\<lambda>(k, v) d. dict_set d k v) kvs d"

definition dict_without :: "(string \<times> pyval) list \<Rightarrow> string \<Rightarrow> (string \<times> pyval) list" where
  "dict_without d k = filter (\<lambda>(k', v). k' \<noteq> k) d"

lemma map_of_dict_set: "map_of (dict_set d k v) = (map_of d)(k \<mapsto> v)"
proof
  fix j
  have in_place: "map_of (map (\<lambda>(k', v'). if k' = k then (k, v) else (k', v')) d) j =
      (if j = k then map_option (\<lambda>_. v) (map_of d j) else map_of d j)" for d
    by (induction d) auto
  have "k \<in> fst ` set d \<longleftrightarrow> (\<exists>x. map_of d k = Some x)"
    by (metis map_of_eq_None_iff not_None_eq)
  then show "map_of (dict_set d k v) j = ((map_of d)(k \<mapsto> v)) j"
    unfolding dict_set_def
    by (cases "k \<in> fst ` set d") (simp_all only: if_True if_False in_place map_of_append,
        auto simp: map_add_def split: option.splits)
qed

lemma dict_get_set [simp]: "dict_get (dict_set d k v) j = (if j = k then v else dict_get d j)"
  by (simp add: dict_get_def map_of_dict_set)

lemma dict_keys_set: "fst ` set (dict_set d k v) = insert k (fst ` set d)"
  by (simp add: dom_map_of_conv_image_fst [symmetric] map_of_dict_set)

lemma dict_merge_simps [simp]:
  "dict_merge d [] = d" "dict_merge d ((k, v) # kvs) = dict_merge (dict_set d k v) kvs"
  by (simp_all add: dict_merge_def)

lemma dict_get_without [simp]: "dict_get (dict_without d k) j = (if j = k then PNone else dict_get d j)"
  by (induction d) (auto simp: dict_get_def dict_without_def)

lemma dict_without_absent: "k \<notin> fst ` set d \<Longrightarrow> dict_without d k = d"
  unfolding dict_without_def by (force intro: filter_True)

lemma dict_keys_without: "fst ` set (dict_without d k) = fst ` set d - {k}"
  by (auto simp: dict_without_def)

lemma dict_without_set_fresh: "k \<notin> fst ` set d \<Longrightarrow> dict_without (dict_set d k v) k = d"
  using dict_without_absent [of k d] by (simp add: dict_set_def dict_without_def)

text \<open>Python's truth value of a JSON value.\<close>

definition pyval_truthy :: "pyval \<Rightarrow> bool" where
  "pyval_truthy v =
     (case v of
        PNone \<Rightarrow> False | PBool b \<Rightarrow> b | PInt n \<Rightarrow> n \<noteq> 0 | PFloat s \<Rightarrow> s \<noteq> ''0.0'' \<and> s \<noteq> ''-0.0''
      | PStr s \<Rightarrow> s \<noteq> [] | PMoney m \<Rightarrow> True | PList xs \<Rightarrow> xs \<noteq> [] | PDict d \<Rightarrow> d \<noteq> [])"

section \<open>Text and bytes\<close>

text \<open>Bytes are characters too, so an encoded text is again a \<open>string\<close>.\<close>

definition utf8 :: "string \<Rightarrow> string" where
  "utf8 s = concat (map (\<lambda>c. let n = (of_char c :: nat) in
     if n < 128 then [c] else [char_of (192 + n div 64), char_of (128 + n mod 64)]) s)"

definition hex_digit :: "nat \<Rightarrow> char" where
  "hex_digit n = char_of (if n < 10 then 48 + n else 87 + n)"

definition json_escape :: "char \<Rightarrow> string" where
  "json_escape c =
     (let n = (of_char c :: nat); b = CHR 0x5C in
      if n = 34 \<or> n = 92 then [b, c]
      else if n = 10 then [b, CHR ''n''] else if n = 13 then [b, CHR ''r'']
      else if n = 9 then [b, CHR ''t''] else if n = 8 then [b, CHR ''b'']
      else if n = 12 then [b, CHR ''f'']
      else if n < 32 \<or> 126 < n
      then [b, CHR ''u'', CHR ''0'', CHR ''0'', hex_digit (n div 16), hex_digit (n mod 16)]
      else [c])"

definition json_str :: "string \<Rightarrow> string" where
  "json_str s = CHR 0x22 # concat (map json_escape s) @ [CHR 0x22]"

section \<open>Writing and reading back\<close>

text \<open>
  A payload written with sorted keys reads back with its keys sorted; a value that JSON has no
  form for is written through \<^verbatim>\<open>str\<close>.
\<close>

primrec json_norm :: "'e env_scheme \<Rightarrow> pyval \<Rightarrow> pyval" where
  "json_norm e PNone = PNone"
| "json_norm e (PBool b) = PBool b"
| "json_norm e (PInt n) = PInt n"
| "json_norm e (PFloat s) = PFloat s"
| "json_norm e (PStr s) = PStr s"
| "json_norm e (PMoney m) = PStr (py_repr e (PMoney m))"
| "json_norm e (PList xs) = PList (map (json_norm e) xs)"
| "json_norm e (PDict d) = PDict (sort_key fst (map (map_prod id (json_norm e)) d))"

definition json_object :: "'e env_scheme \<Rightarrow> (string \<times> pyval) list \<Rightarrow> (string \<times> pyval) list" where
  "json_object e d = sort_key fst (map (map_prod id (json_norm e)) d)"

primrec json_text :: "pyval \<Rightarrow> string" where
  "json_text PNone = ''null''"
| "json_text (PBool b) = (if b then ''true'' else ''false'')"
| "json_text (PInt n) = int_str n"
| "json_text (PFloat s) = s"
| "json_text (PStr s) = json_str s"
| "json_text (PMoney m) = []"
| "json_text (PList xs) = CHR ''['' # py_join '','' (map json_text xs) @ '']''"
| "json_text (PDict d) =
     CHR 0x7B # py_join '','' (map (\<lambda>(k, t). json_str k @ '':'' @ t) (map (map_prod id json_text) d)) @
     [CHR 0x7D]"

definition canonical_json :: "'e env_scheme \<Rightarrow> pyval \<Rightarrow> string" where
  "canonical_json e v = json_text (json_norm e v)"

text \<open>
  Python's \<^verbatim>\<open>==\<close>: booleans are integers and dictionaries compare without regard to order.  Floats
  compare by their shortest text.
\<close>

primrec eq_norm :: "pyval \<Rightarrow> pyval" where
  "eq_norm PNone = PNone"
| "eq_norm (PBool b) = PInt (if b then 1 else 0)"
| "eq_norm (PInt n) = PInt n"
| "eq_norm (PFloat s) = PFloat s"
| "eq_norm (PStr s) = PStr s"
| "eq_norm (PMoney m) = PMoney m"
| "eq_norm (PList xs) = PList (map eq_norm xs)"
| "eq_norm (PDict d) = PDict (sort_key fst (map (map_prod id eq_norm) d))"

definition py_eq :: "pyval \<Rightarrow> pyval \<Rightarrow> bool" where
  "py_eq a b \<longleftrightarrow> eq_norm a = eq_norm b"

lemma py_eq_refl [simp]: "py_eq a a"
  by (simp add: py_eq_def)

lemma sort_key_map: "sort_key g (map f xs) = map f (sort_key (\<lambda>x. g (f x)) xs)"
proof (induction xs)
  case (Cons x xs)
  have "insort_key g (f x) (map f ys) = map f (insort_key (\<lambda>x. g (f x)) x ys)" for ys
    by (induction ys) auto
  with Cons show ?case by simp
qed simp

lemma sort_norm_twice:
  assumes "\<And>kv. kv \<in> set d \<Longrightarrow> h (f (snd kv)) = g (snd kv)"
  shows "sort_key fst (map (map_prod id h) (sort_key fst (map (map_prod id f) d))) =
         sort_key fst (map (map_prod id g) (d :: (string \<times> 'a) list))"
proof -
  have "map (map_prod id h) (map (map_prod id f) (sort_key fst d)) = map (map_prod id g) (sort_key fst d)"
    using assms by (auto simp: prod.map_comp)
  then show ?thesis
    by (simp add: sort_key_map sort_key_id_if_sorted)
qed

lemma json_norm_idem [simp]: "json_norm e (json_norm e v) = json_norm e v"
proof (induction v)
  case (PDict d)
  then have "json_norm e (json_norm e (snd kv)) = json_norm e (snd kv)" if "kv \<in> set d" for kv
    using that by (cases kv) (auto simp: snds.simps)
  then show ?case using sort_norm_twice [of d "json_norm e" "json_norm e" "json_norm e"] by simp
qed simp_all

lemma json_object_PDict: "json_norm e (PDict d) = PDict (json_object e d)"
  by (simp add: json_object_def)

lemma json_object_idem [simp]: "json_object e (json_object e d) = json_object e d"
  using json_norm_idem [of e "PDict d"] by (simp only: json_object_PDict pyval.inject)

lemma canonical_object [simp]: "canonical_json e (PDict (json_object e d)) = canonical_json e (PDict d)"
  using json_norm_idem [of e "PDict d"] by (simp only: canonical_json_def json_object_PDict)

lemma map_of_insort: "map_of (insort_key fst x xs) = (map_of xs)(fst x \<mapsto> snd x)"
  by (induction xs) (auto simp: fun_eq_iff)

lemma map_of_sort [simp]: "map_of (sort_key fst xs) = map_of xs"
  by (induction xs) (auto simp: map_of_insort fun_eq_iff)

lemma map_of_json_object: "map_of (json_object e d) k = map_option (json_norm e) (map_of d k)"
  unfolding json_object_def map_of_sort by (induction d) auto

lemma dict_get_json_object: "dict_get (json_object e d) k = json_norm e (dict_get d k)"
  by (simp add: dict_get_def map_of_json_object split: option.splits)

lemma dict_keys_json_object [simp]: "fst ` set (json_object e d) = fst ` set d"
  by (force simp: json_object_def)

lemma dict_without_json_object: "dict_without (json_object e d) k = json_object e (dict_without d k)"
  unfolding dict_without_def json_object_def
  by (simp add: filter_sort filter_map o_def case_prod_unfold)


text \<open>On values without amounts, writing and reading back is invisible to equality.\<close>

primrec json_plain :: "pyval \<Rightarrow> bool" where
  "json_plain PNone = True"
| "json_plain (PBool b) = True"
| "json_plain (PInt n) = True"
| "json_plain (PFloat s) = True"
| "json_plain (PStr s) = True"
| "json_plain (PMoney m) = False"
| "json_plain (PList xs) = list_all id (map json_plain xs)"
| "json_plain (PDict d) = list_all snd (map (map_prod id json_plain) d)"

lemma eq_norm_json: "json_plain v \<Longrightarrow> eq_norm (json_norm e v) = eq_norm v"
proof (induction v)
  case (PDict d)
  then have "eq_norm (json_norm e (snd kv)) = eq_norm (snd kv)" if "kv \<in> set d" for kv
    using that by (cases kv) (auto simp: snds.simps list_all_iff)
  then show ?case using sort_norm_twice [of d eq_norm "json_norm e" eq_norm] by simp
qed (simp_all add: list_all_iff)

lemma py_eq_json: "json_plain v \<Longrightarrow> py_eq (json_norm e v) v"
  by (simp add: py_eq_def eq_norm_json)

section \<open>Base64\<close>

definition b64_alphabet :: string where
  "b64_alphabet = ''ABCDEFGHIJKLMNOPQRSTUVWXYZabcdefghijklmnopqrstuvwxyz0123456789+/''"

definition b64_char :: "nat \<Rightarrow> char" where
  "b64_char n = b64_alphabet ! n"

definition b64_index :: "char \<Rightarrow> nat option" where
  "b64_index c = find (\<lambda>n. b64_alphabet ! n = c) [0..<64]"

fun b64encode :: "string \<Rightarrow> string" where
  "b64encode [] = []"
| "b64encode [a] =
     (let x = (of_char a :: nat) in [b64_char (x div 4), b64_char (x mod 4 * 16), CHR ''='', CHR ''=''])"
| "b64encode [a, b] =
     (let x = (of_char a :: nat); y = (of_char b :: nat) in
      [b64_char (x div 4), b64_char (x mod 4 * 16 + y div 16), b64_char (y mod 16 * 4), CHR ''=''])"
| "b64encode (a # b # c # r) =
     (let x = (of_char a :: nat); y = (of_char b :: nat); z = (of_char c :: nat) in
      [b64_char (x div 4), b64_char (x mod 4 * 16 + y div 16),
       b64_char (y mod 16 * 4 + z div 64), b64_char (z mod 64)] @ b64encode r)"

text \<open>\<^verbatim>\<open>b64decode(..., validate=True)\<close>: only the alphabet, padding only at the end.\<close>

fun b64decode :: "string \<Rightarrow> string option" where
  "b64decode [] = Some []"
| "b64decode (p # q # r # s # rest) =
     (case (b64_index p, b64_index q) of
        (Some i, Some j) \<Rightarrow>
          if rest = [] \<and> s = CHR ''='' \<and> r = CHR ''='' then Some [char_of (i * 4 + j div 16)]
          else (case b64_index r of
                  None \<Rightarrow> None
                | Some k \<Rightarrow>
                    if rest = [] \<and> s = CHR ''=''
                    then Some [char_of (i * 4 + j div 16), char_of (j mod 16 * 16 + k div 4)]
                    else (case (b64_index s, b64decode rest) of
                            (Some l, Some bs) \<Rightarrow>
                              Some (char_of (i * 4 + j div 16) # char_of (j mod 16 * 16 + k div 4) #
                                    char_of (k mod 4 * 64 + l) # bs)
                          | _ \<Rightarrow> None))
      | _ \<Rightarrow> None)"
| "b64decode _ = None"

lemma b64_index_char [simp]: "n < 64 \<Longrightarrow> b64_index (b64_char n) = Some n"
proof -
  assume n: "n < 64"
  have "list_all (\<lambda>n. b64_index (b64_char n) = Some n) [0..<64]" by code_simp
  with n show ?thesis by (simp add: list_all_iff)
qed

lemma b64_char_pad [simp]: "n < 64 \<Longrightarrow> b64_char n \<noteq> CHR ''=''"
proof -
  assume n: "n < 64"
  have "list_all (\<lambda>n. b64_char n \<noteq> CHR ''='') [0..<64]" by code_simp
  with n show ?thesis by (simp add: list_all_iff)
qed

lemma b64_join:
  fixes x y z :: nat
  assumes "x < 256" and "y < 256" and "z < 256"
  shows "x div 4 < 64" and "x mod 4 * 16 + y div 16 < 64" and "y mod 16 * 4 + z div 64 < 64"
    and "x div 4 * 4 + (x mod 4 * 16 + y div 16) div 16 = x"
    and "(x mod 4 * 16 + y div 16) mod 16 * 16 + (y mod 16 * 4 + z div 64) div 4 = y"
    and "(y mod 16 * 4 + z div 64) mod 4 * 64 + z mod 64 = z"
proof -
  have small: "y div 16 < 16" "z div 64 < 4" using assms by simp_all
  have bound: "x mod 4 < 4" "y mod 16 < 16" by simp_all
  show "x div 4 < 64" using assms(1) by simp
  show "x mod 4 * 16 + y div 16 < 64" using small bound by linarith
  show "y mod 16 * 4 + z div 64 < 64" using small bound by linarith
  show "x div 4 * 4 + (x mod 4 * 16 + y div 16) div 16 = x" using small by simp
  show "(x mod 4 * 16 + y div 16) mod 16 * 16 + (y mod 16 * 4 + z div 64) div 4 = y"
    using small by simp
  show "(y mod 16 * 4 + z div 64) mod 4 * 64 + z mod 64 = z" using small by simp
qed

theorem b64_roundtrip: "b64decode (b64encode s) = Some s"
proof (induction s rule: b64encode.induct)
  case (2 a)
  then show ?case using b64_join [of "of_char a" 0 0] by (simp add: Let_def)
next
  case (3 a b)
  then show ?case using b64_join [of "of_char a" "of_char b" 0] by (simp add: Let_def)
next
  case (4 a b c r)
  define i j k l :: nat where "i = of_char a div 4" and "j = of_char a mod 4 * 16 + of_char b div 16"
    and "k = of_char b mod 16 * 4 + of_char c div 64" and "l = of_char c mod 64"
  note defs = this
  have parts: "i < 64" "j < 64" "k < 64" "i * 4 + j div 16 = of_char a"
      "j mod 16 * 16 + k div 4 = of_char b" "k mod 4 * 64 + l = of_char c" "l < 64"
    unfolding defs by ((rule b64_join [of "of_char a" "of_char b" "of_char c"]; simp)+, simp)
  have "b64encode (a # b # c # r) = [b64_char i, b64_char j, b64_char k, b64_char l] @ b64encode r"
    by (simp add: Let_def defs)
  with parts 4 show ?case by simp
qed simp

end
