(* ===== verification/Autonomy_Control.thy ===== *)
theory Autonomy_Control
  imports Authority_Admin Fin_Json
begin

text \<open>
  The admission gate of the agent runtime (\<^verbatim>\<open>autonomy_control.py\<close>): the ordered vocabularies of
  world fidelity and autonomy, the mandate, request and runtime contracts with their validators,
  the deterministic evaluation of a request, and the report it leaves.  A \<^verbatim>\<open>StrEnum\<close> is a
  datatype with a text function; the rank tables are the linear orders of the datatypes.
\<close>

section \<open>Vocabularies\<close>

datatype world_fidelity =
    W0_CAPITAL_FACTS | W1_VERSIONED_DECISIONS | W2_SCENARIO_WORLD | W3_OUTCOME_RECONCILIATION
  | W4_LEARNING_POLICY

datatype agent_autonomy =
    AUT0_CONTEXT_ASSISTANT | AUT1_TOOL_REVIEWER | AUT2_DURABLE_LOOP | AUT3_DELEGATED_REVIEW
  | AUT4_PAPER_MANAGER | AUT5_REAL_OPERATOR | AUT6_CONTINUOUS_AGENT

datatype human_control =
    IN_THE_LOOP | IN_OR_ON_THE_LOOP | ON_THE_LOOP | ON_OR_OVER_THE_LOOP | OVER_THE_LOOP

datatype agent_action_class =
    OBSERVE_STATE | GATHER_EVIDENCE | PREPARE_REVIEW_PACKET | MAKE_PLANNING_DECISION
  | TAKE_PAPER_ACTION | TAKE_REAL_ACTION | CHANGE_CAPITAL_CONSTITUTION

datatype disposition = EFFECTIVE | CANDIDATE | ESCALATE | BLOCKED

datatype finding_code =
    MANDATE_REQUIRED | MANDATE_NOT_ACTIVE | MANDATE_EXPIRED | KILL_SWITCH_ENGAGED
  | AUTONOMY_EXCEEDS_MANDATE | AUTONOMY_EXCEEDS_RUNTIME | ACTION_OUTSIDE_MANDATE
  | FINANCIAL_ACTION_OUTSIDE_MANDATE | ASSET_CLASS_OUTSIDE_MANDATE | TOOL_OUTSIDE_MANDATE
  | WORLD_FIDELITY_INSUFFICIENT | REQUESTED_AUTONOMY_INSUFFICIENT
  | EXTERNAL_EFFECT_CLASS_MISMATCH | CONSTITUTIONAL_CHANGE_REQUIRES_HUMAN

primrec world_text :: "world_fidelity \<Rightarrow> string" where
  "world_text W0_CAPITAL_FACTS = ''W0_capital_facts''"
| "world_text W1_VERSIONED_DECISIONS = ''W1_versioned_decisions''"
| "world_text W2_SCENARIO_WORLD = ''W2_scenario_world''"
| "world_text W3_OUTCOME_RECONCILIATION = ''W3_outcome_reconciliation''"
| "world_text W4_LEARNING_POLICY = ''W4_learning_policy''"

primrec autonomy_text :: "agent_autonomy \<Rightarrow> string" where
  "autonomy_text AUT0_CONTEXT_ASSISTANT = ''AUT0_context_assistant''"
| "autonomy_text AUT1_TOOL_REVIEWER = ''AUT1_tool_reviewer''"
| "autonomy_text AUT2_DURABLE_LOOP = ''AUT2_durable_loop''"
| "autonomy_text AUT3_DELEGATED_REVIEW = ''AUT3_delegated_review''"
| "autonomy_text AUT4_PAPER_MANAGER = ''AUT4_paper_manager''"
| "autonomy_text AUT5_REAL_OPERATOR = ''AUT5_real_operator''"
| "autonomy_text AUT6_CONTINUOUS_AGENT = ''AUT6_continuous_agent''"

primrec action_class_text :: "agent_action_class \<Rightarrow> string" where
  "action_class_text OBSERVE_STATE = ''observe_state''"
| "action_class_text GATHER_EVIDENCE = ''gather_evidence''"
| "action_class_text PREPARE_REVIEW_PACKET = ''prepare_review_packet''"
| "action_class_text MAKE_PLANNING_DECISION = ''make_planning_decision''"
| "action_class_text TAKE_PAPER_ACTION = ''take_paper_action''"
| "action_class_text TAKE_REAL_ACTION = ''take_real_action''"
| "action_class_text CHANGE_CAPITAL_CONSTITUTION = ''change_capital_constitution''"

primrec world_rank :: "world_fidelity \<Rightarrow> nat" where
  "world_rank W0_CAPITAL_FACTS = 0"
| "world_rank W1_VERSIONED_DECISIONS = 1"
| "world_rank W2_SCENARIO_WORLD = 2"
| "world_rank W3_OUTCOME_RECONCILIATION = 3"
| "world_rank W4_LEARNING_POLICY = 4"

primrec agent_autonomy_rank :: "agent_autonomy \<Rightarrow> nat" where
  "agent_autonomy_rank AUT0_CONTEXT_ASSISTANT = 0"
| "agent_autonomy_rank AUT1_TOOL_REVIEWER = 1"
| "agent_autonomy_rank AUT2_DURABLE_LOOP = 2"
| "agent_autonomy_rank AUT3_DELEGATED_REVIEW = 3"
| "agent_autonomy_rank AUT4_PAPER_MANAGER = 4"
| "agent_autonomy_rank AUT5_REAL_OPERATOR = 5"
| "agent_autonomy_rank AUT6_CONTINUOUS_AGENT = 6"

lemma world_rank_inj: "world_rank a = world_rank b \<Longrightarrow> a = b"
  by (cases a; cases b) simp_all

lemma agent_autonomy_rank_inj: "agent_autonomy_rank a = agent_autonomy_rank b \<Longrightarrow> a = b"
  by (cases a; cases b) simp_all

instantiation world_fidelity :: linorder
begin

definition less_eq_world_fidelity :: "world_fidelity \<Rightarrow> world_fidelity \<Rightarrow> bool" where
  "a \<le> b \<longleftrightarrow> world_rank a \<le> world_rank b"

definition less_world_fidelity :: "world_fidelity \<Rightarrow> world_fidelity \<Rightarrow> bool" where
  "a < b \<longleftrightarrow> world_rank a < world_rank b"

instance
  by standard (auto simp: less_eq_world_fidelity_def less_world_fidelity_def dest: world_rank_inj)

end

instantiation agent_autonomy :: linorder
begin

definition less_eq_agent_autonomy :: "agent_autonomy \<Rightarrow> agent_autonomy \<Rightarrow> bool" where
  "a \<le> b \<longleftrightarrow> agent_autonomy_rank a \<le> agent_autonomy_rank b"

definition less_agent_autonomy :: "agent_autonomy \<Rightarrow> agent_autonomy \<Rightarrow> bool" where
  "a < b \<longleftrightarrow> agent_autonomy_rank a < agent_autonomy_rank b"

instance
  by standard
     (auto simp: less_eq_agent_autonomy_def less_agent_autonomy_def dest: agent_autonomy_rank_inj)

end

lemmas rank_order_defs =
  less_eq_world_fidelity_def less_world_fidelity_def less_eq_agent_autonomy_def less_agent_autonomy_def

section \<open>Contracts\<close>

record autonomy_mandate =
  am_mandate_id :: string
  am_authority_grant_id :: "string option"
  am_principal_id :: string
  am_agent_id :: string
  am_status :: string
  am_granted_autonomy :: agent_autonomy
  am_allowed_action_classes :: "agent_action_class list"
  am_allowed_financial_action_types :: "string list"
  am_allowed_asset_classes :: "string list"
  am_allowed_tools :: "string list"
  am_constraints :: "(string \<times> pyval) list"
  am_kill_switch_engaged :: bool
  am_expires_at_utc :: "string option"
  am_source_refs :: "string list"

text \<open>The status is a \<^verbatim>\<open>Literal\<close>; the three identities are validated.\<close>

definition mk_autonomy_mandate :: "autonomy_mandate \<Rightarrow> autonomy_mandate res" where
  "mk_autonomy_mandate m =
     (if list_ex (\<lambda>s. py_strip s = []) [am_mandate_id m, am_principal_id m, am_agent_id m]
      then Inl (ValueError ''autonomy mandate identities must be non-blank'')
      else if am_status m \<notin> {''active'', ''suspended'', ''revoked'', ''expired''}
      then Inl (ValueError ''literal_error'')
      else Inr m)"

record agent_action_request =
  rq_action_id :: string
  rq_work_id :: string
  rq_agent_id :: string
  rq_objective :: string
  rq_action_class :: agent_action_class
  rq_requested_autonomy :: agent_autonomy
  rq_tool_name :: "string option"
  rq_arguments :: "(string \<times> pyval) list"
  rq_target_scope :: "(string \<times> pyval) list"
  rq_external_effect :: bool
  rq_reversible :: bool
  rq_source_refs :: "string list"

definition mk_agent_action_request :: "agent_action_request \<Rightarrow> agent_action_request res" where
  "mk_agent_action_request r =
     (if list_ex (\<lambda>s. py_strip s = []) [rq_work_id r, rq_agent_id r, rq_objective r]
      then Inl (ValueError ''agent action context must be non-blank'')
      else if rq_external_effect r \<noteq> (rq_action_class r = TAKE_REAL_ACTION)
      then Inl (ValueError ''external_effect must be true exactly for take_real_action requests'')
      else Inr r)"

record autonomy_runtime =
  rt_world_fidelity :: world_fidelity
  rt_autonomy_ceiling :: agent_autonomy
  rt_world_state_ref :: "string option"
  rt_now_utc :: string

record finding =
  af_code :: finding_code
  af_detail :: string

record admission_report =
  rp_action_id :: string
  rp_work_id :: string
  rp_disposition :: disposition
  rp_effective :: bool
  rp_human_control_mode :: human_control
  rp_requested_autonomy :: agent_autonomy
  rp_required_autonomy :: agent_autonomy
  rp_granted_autonomy :: "agent_autonomy option"
  rp_runtime_autonomy_ceiling :: agent_autonomy
  rp_current_world_fidelity :: world_fidelity
  rp_required_world_fidelity :: world_fidelity
  rp_mandate_id :: "string option"
  rp_world_state_ref :: "string option"
  rp_findings :: "finding list"
  rp_effect_admitted :: bool
  rp_external_effect_admitted :: bool
  rp_execution_allowed :: bool
  rp_authority_transition :: bool

definition mk_admission_report :: "admission_report \<Rightarrow> admission_report res" where
  "mk_admission_report r =
     (if rp_effective r \<noteq> (rp_disposition r = EFFECTIVE)
      then Inl (ValueError ''effective must match the admission disposition'')
      else if rp_external_effect_admitted r \<and> \<not> rp_effect_admitted r
      then Inl (ValueError ''external effect admission requires effect admission'')
      else if rp_execution_allowed r \<or> rp_authority_transition r
      then Inl (ValueError ''admission reports are evidence, not execution or authority transitions'')
      else Inr r)"

section \<open>Requirements\<close>

primrec action_requirements :: "agent_action_class \<Rightarrow> world_fidelity \<times> agent_autonomy" where
  "action_requirements OBSERVE_STATE = (W0_CAPITAL_FACTS, AUT0_CONTEXT_ASSISTANT)"
| "action_requirements GATHER_EVIDENCE = (W0_CAPITAL_FACTS, AUT1_TOOL_REVIEWER)"
| "action_requirements PREPARE_REVIEW_PACKET = (W1_VERSIONED_DECISIONS, AUT2_DURABLE_LOOP)"
| "action_requirements MAKE_PLANNING_DECISION = (W2_SCENARIO_WORLD, AUT3_DELEGATED_REVIEW)"
| "action_requirements TAKE_PAPER_ACTION = (W3_OUTCOME_RECONCILIATION, AUT4_PAPER_MANAGER)"
| "action_requirements TAKE_REAL_ACTION = (W4_LEARNING_POLICY, AUT5_REAL_OPERATOR)"
| "action_requirements CHANGE_CAPITAL_CONSTITUTION = (W4_LEARNING_POLICY, AUT6_CONTINUOUS_AGENT)"

definition human_control_mode :: "agent_autonomy \<Rightarrow> human_control" where
  "human_control_mode level =
     (if level \<le> AUT2_DURABLE_LOOP then IN_THE_LOOP
      else if level = AUT3_DELEGATED_REVIEW then IN_OR_ON_THE_LOOP
      else if level = AUT4_PAPER_MANAGER then ON_THE_LOOP
      else if level = AUT5_REAL_OPERATOR then ON_OR_OVER_THE_LOOP
      else OVER_THE_LOOP)"

definition legacy_autonomy_level :: "string \<Rightarrow> agent_autonomy res" where
  "legacy_autonomy_level level =
     (case map_of [(''L0_read_only'', AUT0_CONTEXT_ASSISTANT),
                   (''L1_candidate_only'', AUT1_TOOL_REVIEWER),
                   (''L2_human_confirmed_apply'', AUT2_DURABLE_LOOP),
                   (''L3_bounded_delegation_candidate'', AUT3_DELEGATED_REVIEW)] level of
        Some a \<Rightarrow> Inr a
      | None \<Rightarrow> Inl (ValueError (''unknown legacy autonomy level: '' @ py_quote level)))"

definition autonomy_parse_utc :: "'e env_scheme \<Rightarrow> string \<Rightarrow> int res" where
  "autonomy_parse_utc e s =
     (case fromisoformat e (replace_Z s) of
        None \<Rightarrow> Inl (ValueError ''Invalid isoformat string'')
      | Some p \<Rightarrow> (case utc_instant p of
                    None \<Rightarrow> Inl (ValueError ''autonomy timestamps must be timezone-aware'')
                  | Some t \<Rightarrow> Inr t))"

section \<open>Admission\<close>

definition finding_when :: "bool \<Rightarrow> finding_code \<Rightarrow> string \<Rightarrow> finding list" where
  "finding_when b c d = (if b then [\<lparr>af_code = c, af_detail = d\<rparr>] else [])"

text \<open>A requested value outside a non-empty list of allowed texts; an empty list restricts nothing.\<close>

definition value_outside :: "pyval \<Rightarrow> string list \<Rightarrow> bool" where
  "value_outside v allowed \<longleftrightarrow> pyval_truthy v \<and> allowed \<noteq> [] \<and> v \<notin> PStr ` set allowed"

definition mandate_expired ::
  "'e env_scheme \<Rightarrow> autonomy_runtime \<Rightarrow> autonomy_mandate \<Rightarrow> bool res" where
  "mandate_expired e runtime mandate =
     (case truthy (am_expires_at_utc mandate) of
        None \<Rightarrow> Inr False
      | Some x \<Rightarrow>
          rbind (autonomy_parse_utc e (rt_now_utc runtime)) (\<lambda>now.
          rbind (autonomy_parse_utc e x) (\<lambda>expires. Inr (expires \<le> now))))"

definition check_mandate ::
  "'e env_scheme \<Rightarrow> agent_action_request \<Rightarrow> autonomy_runtime \<Rightarrow> autonomy_mandate \<Rightarrow> finding list res" where
  "check_mandate e request runtime mandate =
     rbind (mandate_expired e runtime mandate) (\<lambda>expired.
     let financial = dict_get (rq_target_scope request) ''action_type'';
         asset = dict_get (rq_target_scope request) ''asset_class'';
         tool = (case truthy (rq_tool_name request) of None \<Rightarrow> PNone | Some t \<Rightarrow> PStr t) in
     Inr (finding_when (am_status mandate \<noteq> ''active'') MANDATE_NOT_ACTIVE
            (''mandate status is '' @ am_status mandate) @
          finding_when expired MANDATE_EXPIRED ''mandate has expired'' @
          finding_when (am_kill_switch_engaged mandate) KILL_SWITCH_ENGAGED
            ''mandate kill switch is engaged'' @
          finding_when (am_agent_id mandate \<noteq> rq_agent_id request) ACTION_OUTSIDE_MANDATE
            ''request agent does not match mandate agent'' @
          finding_when (am_granted_autonomy mandate < rq_requested_autonomy request)
            AUTONOMY_EXCEEDS_MANDATE
            (''requested '' @ autonomy_text (rq_requested_autonomy request) @
             '' exceeds mandate grant '' @ autonomy_text (am_granted_autonomy mandate)) @
          finding_when (rq_action_class request \<notin> set (am_allowed_action_classes mandate))
            ACTION_OUTSIDE_MANDATE
            (action_class_text (rq_action_class request) @ '' is not allowed by the mandate'') @
          finding_when (value_outside financial (am_allowed_financial_action_types mandate))
            FINANCIAL_ACTION_OUTSIDE_MANDATE
            (''financial action '' @ py_repr e financial @ '' is not allowed by the mandate'') @
          finding_when (value_outside asset (am_allowed_asset_classes mandate))
            ASSET_CLASS_OUTSIDE_MANDATE
            (''asset class '' @ py_repr e asset @ '' is not allowed by the mandate'') @
          finding_when (value_outside tool (am_allowed_tools mandate)) TOOL_OUTSIDE_MANDATE
            (''tool '' @ py_repr e tool @ '' is not allowed by the mandate'')))"

definition report_of ::
  "agent_action_request \<Rightarrow> autonomy_runtime \<Rightarrow> autonomy_mandate option \<Rightarrow> disposition \<Rightarrow> finding list \<Rightarrow>
   admission_report res" where
  "report_of request runtime mandate disp findings =
     (let effective = (disp = EFFECTIVE);
          effect_admitted = (effective \<and> rq_action_class request \<in> {TAKE_PAPER_ACTION, TAKE_REAL_ACTION})
      in mk_admission_report
           \<lparr>rp_action_id = rq_action_id request, rp_work_id = rq_work_id request,
            rp_disposition = disp, rp_effective = effective,
            rp_human_control_mode = human_control_mode (rq_requested_autonomy request),
            rp_requested_autonomy = rq_requested_autonomy request,
            rp_required_autonomy = snd (action_requirements (rq_action_class request)),
            rp_granted_autonomy = map_option am_granted_autonomy mandate,
            rp_runtime_autonomy_ceiling = rt_autonomy_ceiling runtime,
            rp_current_world_fidelity = rt_world_fidelity runtime,
            rp_required_world_fidelity = fst (action_requirements (rq_action_class request)),
            rp_mandate_id = map_option am_mandate_id mandate,
            rp_world_state_ref = rt_world_state_ref runtime, rp_findings = findings,
            rp_effect_admitted = effect_admitted,
            rp_external_effect_admitted =
              (effect_admitted \<and> rq_action_class request = TAKE_REAL_ACTION),
            rp_execution_allowed = False, rp_authority_transition = False\<rparr>)"

text \<open>The findings that block before any mandate is looked at.\<close>

definition hard_findings :: "agent_action_request \<Rightarrow> autonomy_runtime \<Rightarrow> finding list" where
  "hard_findings request runtime =
     (let (required_world, required_autonomy) = action_requirements (rq_action_class request) in
      finding_when (rq_requested_autonomy request < required_autonomy) REQUESTED_AUTONOMY_INSUFFICIENT
        (action_class_text (rq_action_class request) @ '' requires at least '' @
         autonomy_text required_autonomy) @
      finding_when (rt_world_fidelity runtime < required_world) WORLD_FIDELITY_INSUFFICIENT
        (action_class_text (rq_action_class request) @ '' requires at least '' @ world_text required_world) @
      finding_when (rt_autonomy_ceiling runtime < rq_requested_autonomy request) AUTONOMY_EXCEEDS_RUNTIME
        (''requested '' @ autonomy_text (rq_requested_autonomy request) @ '' exceeds runtime ceiling '' @
         autonomy_text (rt_autonomy_ceiling runtime)))"

definition evaluate_autonomy_admission ::
  "'e env_scheme \<Rightarrow> agent_action_request \<Rightarrow> autonomy_runtime \<Rightarrow> autonomy_mandate option \<Rightarrow>
   admission_report res" where
  "evaluate_autonomy_admission e request runtime mandate =
     (if rq_action_class request = CHANGE_CAPITAL_CONSTITUTION
      then report_of request runtime mandate ESCALATE
             [\<lparr>af_code = CONSTITUTIONAL_CHANGE_REQUIRES_HUMAN,
               af_detail = ''capital-constitution changes remain with the Human Principal''\<rparr>]
      else let findings = hard_findings request runtime in
        if findings \<noteq> [] then report_of request runtime mandate BLOCKED findings
        else case mandate of
          None \<Rightarrow>
            if rq_action_class request \<in> {OBSERVE_STATE, GATHER_EVIDENCE}
            then report_of request runtime None EFFECTIVE []
            else report_of request runtime None CANDIDATE
                   [\<lparr>af_code = MANDATE_REQUIRED,
                     af_detail = ''effective review, decision, and action require an active mandate''\<rparr>]
        | Some m \<Rightarrow>
            rbind (check_mandate e request runtime m) (\<lambda>checked.
              if checked \<noteq> []
              then report_of request runtime mandate
                     (if list_ex (\<lambda>f. af_code f \<in> {MANDATE_NOT_ACTIVE, MANDATE_EXPIRED, KILL_SWITCH_ENGAGED})
                           checked
                      then BLOCKED else CANDIDATE) checked
              else report_of request runtime mandate EFFECTIVE []))"

text \<open>
  The receipt of a report: its path comes from the first twenty digits of the digest of the
  action identifier, so admitting the same action again replaces the file.
\<close>

definition write_autonomy_admission_report ::
  "'e env_scheme \<Rightarrow> (string \<Rightarrow> string) \<Rightarrow> admission_report \<Rightarrow> (string \<rightharpoonup> admission_report) \<Rightarrow>
   string res \<times> (string \<rightharpoonup> admission_report)" where
  "write_autonomy_admission_report e sha256_hex report files =
     (let relative = ''autonomy-admissions/admission_'' @ take 20 (sha256_hex (rp_action_id report)) @ ''.json'' in
      case resolve_path e [relative] of
        None \<Rightarrow> (Inl ReceiptPathError, files)
      | Some target \<Rightarrow>
          if write_fails e target then (Inl (OsError target), files)
          else (Inr relative, files(target \<mapsto> report)))"

end
