(* ===== verification/Autonomy_Adapter.thy ===== *)
theory Autonomy_Adapter
  imports Autonomy_Control Grant_Validation
begin

text \<open>
  From stored authority to the runtime mandate of an agent (\<^verbatim>\<open>agent_autonomy_adapter.py\<close>) with
  the tool postures it consults (\<^verbatim>\<open>agent_capabilities.py\<close>).
\<close>

section \<open>Capability profiles\<close>

datatype agent_capability =
    CAPITAL_READ | CAPITAL_EXPLAIN | CAPITAL_PROPOSE | CAPITAL_REVIEW_NOTE
  | CAPITAL_SCAFFOLD_REVISION | CAPITAL_SIMULATE | CAPITAL_ATTEST | CAPITAL_EXECUTE

record capability_profile =
  pf_name :: string
  pf_description :: string
  pf_capabilities :: "agent_capability list"
  pf_planned_capabilities :: "agent_capability list"
  pf_tool_names :: "string list"
  pf_non_claims :: "string list"
  pf_execution_allowed :: bool

definition AGENT_CAPABILITY_NON_CLAIMS :: "string list" where
  "AGENT_CAPABILITY_NON_CLAIMS =
     [''Agent capability profiles select visible tools; they do not grant authority.'',
      ''Future append-only capabilities require explicit tools, tests, and receipts.'',
      ''Not execution authorization.'', ''Not investment advice.'']"

definition mk_capability_profile ::
  "string \<Rightarrow> string \<Rightarrow> agent_capability list \<Rightarrow> agent_capability list \<Rightarrow> string list \<Rightarrow> capability_profile" where
  "mk_capability_profile name description capabilities planned tools =
     \<lparr>pf_name = name, pf_description = description, pf_capabilities = capabilities,
      pf_planned_capabilities = planned, pf_tool_names = tools,
      pf_non_claims = AGENT_CAPABILITY_NON_CLAIMS, pf_execution_allowed = False\<rparr>"

definition CAPITAL_CONTEXT_TOOL_NAMES :: "string list" where
  "CAPITAL_CONTEXT_TOOL_NAMES =
     [''get_capital_context_projection'', ''get_capital_summary_context'', ''get_current_ips_context'',
      ''get_ips_check_context'', ''get_open_proposals_context'', ''get_proposal_timeline_context'']"

definition CURRENT_AGENT_TOOL_NAMES :: "string list" where
  "CURRENT_AGENT_TOOL_NAMES =
     [''get_quote_snapshot'', ''get_historical_risk_metrics'', ''evaluate_latest_risk_note''] @
     CAPITAL_CONTEXT_TOOL_NAMES"

definition AGENT_PROFILES :: "capability_profile list" where
  "AGENT_PROFILES =
     [mk_capability_profile ''default''
        (''Default read/explain posture with current read-only context, market-data, '' @
         ''risk-metric, and eval tools.'')
        [CAPITAL_READ, CAPITAL_EXPLAIN] [] CURRENT_AGENT_TOOL_NAMES,
      mk_capability_profile ''review-draft''
        (''Append-only proposal draft posture. It exposes the existing read/explain '' @
         ''tools plus a receipt-backed governed proposal draft tool.'')
        [CAPITAL_READ, CAPITAL_EXPLAIN, CAPITAL_PROPOSE] []
        (CURRENT_AGENT_TOOL_NAMES @ [''draft_governed_proposal_from_context'']),
      mk_capability_profile ''review-note''
        (''Append-only proposal review-note posture. It exposes existing read/explain '' @
         ''tools plus a receipt-backed AgentReviewNoteDraft tool for existing proposals.'')
        [CAPITAL_READ, CAPITAL_EXPLAIN, CAPITAL_REVIEW_NOTE] []
        (CURRENT_AGENT_TOOL_NAMES @ [''draft_agent_review_note_from_context'']),
      mk_capability_profile ''scaffold-candidate''
        (''Apply-candidate scaffold revision posture. It exposes existing read/explain '' @
         ''tools plus a receipt-backed AgentScaffoldRevisionApplyCandidate tool for '' @
         ''human-confirmed apply.'')
        [CAPITAL_READ, CAPITAL_EXPLAIN, CAPITAL_SCAFFOLD_REVISION] []
        (CURRENT_AGENT_TOOL_NAMES @ [''draft_agent_scaffold_revision_apply_candidate_from_context'']),
      mk_capability_profile ''simulation''
        (''Future simulation posture. Today it exposes only existing read/explain tools; '' @
         ''EffectIntent and simulated execution tools are not exposed by this profile.'')
        [CAPITAL_READ, CAPITAL_EXPLAIN] [CAPITAL_SIMULATE] CURRENT_AGENT_TOOL_NAMES]"

definition get_agent_profile :: "string \<Rightarrow> capability_profile res" where
  "get_agent_profile name =
     (case tbl_get pf_name AGENT_PROFILES name of
        Some p \<Rightarrow> Inr p
      | None \<Rightarrow> Inl (ValueError (''unknown agent capability profile '' @ py_quote name @
          ''; expected one of default, review-draft, review-note, scaffold-candidate, simulation'')))"

definition tool_names_for_profile :: "string \<Rightarrow> string list res" where
  "tool_names_for_profile name = rbind (get_agent_profile name) (\<lambda>p. Inr (pf_tool_names p))"

definition profile_allows_capability :: "string \<Rightarrow> agent_capability \<Rightarrow> bool res" where
  "profile_allows_capability name c =
     rbind (get_agent_profile name) (\<lambda>p. Inr (c \<in> set (pf_capabilities p)))"

section \<open>Reading stored values\<close>

definition action_classes_for :: "agent_autonomy \<Rightarrow> agent_action_class list res" where
  "action_classes_for level =
     (case level of
        AUT0_CONTEXT_ASSISTANT \<Rightarrow> Inr [OBSERVE_STATE]
      | AUT1_TOOL_REVIEWER \<Rightarrow> Inr [OBSERVE_STATE, GATHER_EVIDENCE]
      | AUT2_DURABLE_LOOP \<Rightarrow> Inr [OBSERVE_STATE, GATHER_EVIDENCE, PREPARE_REVIEW_PACKET]
      | AUT3_DELEGATED_REVIEW \<Rightarrow>
          Inr [OBSERVE_STATE, GATHER_EVIDENCE, PREPARE_REVIEW_PACKET, MAKE_PLANNING_DECISION]
      | _ \<Rightarrow> Inl (KeyError (autonomy_text level)))"

definition profile_tools :: "string option \<Rightarrow> string list" where
  "profile_tools profile_name =
     (case profile_name of
        None \<Rightarrow> []
      | Some n \<Rightarrow> (case tool_names_for_profile n of Inl _ \<Rightarrow> [] | Inr ts \<Rightarrow> ts))"

definition string_tuple :: "'e env_scheme \<Rightarrow> pyval \<Rightarrow> string list" where
  "string_tuple e raw =
     (case raw of PList xs \<Rightarrow> filter (\<lambda>s. py_strip s \<noteq> []) (map (py_str e) xs) | _ \<Rightarrow> [])"

definition effective_scope :: "'e env_scheme \<Rightarrow> pyval \<Rightarrow> string list \<Rightarrow> string list" where
  "effective_scope e raw fallback =
     (let scoped = string_tuple e raw in if scoped \<noteq> [] then scoped else fallback)"

fun kill_switch_engaged :: "pyval list \<Rightarrow> bool res" where
  "kill_switch_engaged [] = Inr False"
| "kill_switch_engaged (PDict rule # rules) =
     (if dict_get rule ''engaged'' = PBool True then Inr True else kill_switch_engaged rules)"
| "kill_switch_engaged (_ # rules) = Inl (AttributeError ''get'')"

text \<open>
  \<^verbatim>\<open>dict(x)\<close> and \<^verbatim>\<open>list(x)\<close> on the fields of a policy payload, which the payload builder fills
  with mappings and lists; other shapes are refused here.
\<close>

definition as_dict :: "pyval \<Rightarrow> pydict res" where
  "as_dict v = (case v of PDict d \<Rightarrow> Inr d | _ \<Rightarrow> Inl (TypeError ''dict''))"

definition as_list :: "pyval \<Rightarrow> pyval list res" where
  "as_list v = (case v of PList xs \<Rightarrow> Inr xs | _ \<Rightarrow> Inl (TypeError ''list''))"

section \<open>The runtime mandate\<close>

record runtime_resolution =
  rr_resolved :: bool
  rr_mandate :: "autonomy_mandate option"
  rr_deny_reasons :: "string list"
  rr_warnings :: "string list"

definition mandate_constraints :: "pydict \<Rightarrow> pydict \<Rightarrow> pydict res" where
  "mandate_constraints policy scope =
     rbind (as_dict (dict_get_or policy ''limit_book'' (PDict []))) (\<lambda>book.
     rbind (as_list (dict_get_or policy ''kill_switch_rules'' (PList []))) (\<lambda>rules.
     rbind (as_list (dict_get_or policy ''restricted_action_types'' (PList []))) (\<lambda>actions.
     rbind (as_list (dict_get_or policy ''restricted_asset_classes'' (PList []))) (\<lambda>assets.
       Inr [(''limit_book'', PDict book), (''grant_scope'', PDict scope),
            (''kill_switch_rules'', PList rules), (''restricted_action_types'', PList actions),
            (''restricted_asset_classes'', PList assets)]))))"

definition requested_level :: "'e env_scheme \<Rightarrow> pydict \<Rightarrow> pydict \<Rightarrow> string" where
  "requested_level e scope policy =
     py_str e (dict_get_or scope ''autonomy_level''
       (dict_get_or policy ''autonomy_level'' (PStr ''L0_observe_only'')))"

definition runtime_mandate ::
  "auth_env \<Rightarrow> agent_authority_grant \<Rightarrow> capital_mandate_version \<Rightarrow> autonomy_mandate res" where
  "runtime_mandate e g v =
     (let policy = mv_policy_payload v; scope = ag_grant_scope g in
      rbind (legacy_autonomy_level (requested_level e scope policy)) (\<lambda>autonomy.
      let tools = profile_tools (ag_agent_profile_name g);
          scoped_tools = string_tuple e (dict_get scope ''allowed_tools'');
          effective_tools = (if scoped_tools \<noteq> [] then filter (\<lambda>t. t \<in> set scoped_tools) tools else tools);
          financial_actions = effective_scope e (dict_get scope ''allowed_action_types'')
            (string_tuple e (dict_get policy ''allowed_action_types''));
          asset_classes = effective_scope e (dict_get scope ''allowed_asset_classes'')
            (string_tuple e (dict_get policy ''allowed_asset_classes''));
          refs = dedupe_by [] (mv_source_refs v @ mv_receipt_refs v @ ag_source_refs g @ ag_receipt_refs g @
            (case truthy (mv_receipt_ref v) of None \<Rightarrow> [] | Some r \<Rightarrow> [r]) @
            (case truthy (ag_receipt_ref g) of None \<Rightarrow> [] | Some r \<Rightarrow> [r])) in
      rbind (action_classes_for autonomy) (\<lambda>classes.
      rbind (mandate_constraints policy scope) (\<lambda>constraints.
      rbind (as_list (dict_get_or policy ''kill_switch_rules'' (PList []))) (\<lambda>rules.
      rbind (kill_switch_engaged rules) (\<lambda>engaged.
      case ag_principal_id g of
        None \<Rightarrow> Inl (ValueError ''string_type'')
      | Some principal_id \<Rightarrow>
          mk_autonomy_mandate
            \<lparr>am_mandate_id = mv_capital_mandate_id v,
             am_authority_grant_id = Some (ag_agent_authority_grant_id g),
             am_principal_id = principal_id, am_agent_id = ag_agent_id g, am_status = ''active'',
             am_granted_autonomy = autonomy, am_allowed_action_classes = classes,
             am_allowed_financial_action_types = financial_actions,
             am_allowed_asset_classes = asset_classes, am_allowed_tools = effective_tools,
             am_constraints = constraints, am_kill_switch_engaged = engaged,
             am_expires_at_utc = ag_expires_at_utc g, am_source_refs = refs\<rparr>))))))"

definition adapter_args :: "pydict \<Rightarrow> string option \<Rightarrow> validation_args" where
  "adapter_args scope now_utc =
     \<lparr>va_requested_scope = scope, va_now_utc = now_utc, va_principal_id = None,
      va_agent_runtime_id = None, va_nonce = None, va_requested_notional = PNone\<rparr>"

definition resolve_runtime_autonomy_mandate ::
  "auth_env \<Rightarrow> string \<Rightarrow> string option \<Rightarrow> auth_db \<Rightarrow> runtime_resolution res" where
  "resolve_runtime_autonomy_mandate e grant_id now_utc db =
     (case tbl_get ag_agent_authority_grant_id (grants db) grant_id of
        None \<Rightarrow> Inr \<lparr>rr_resolved = False, rr_mandate = None, rr_deny_reasons = [''grant_not_found''],
                    rr_warnings = []\<rparr>
      | Some g \<Rightarrow>
          let mandate_version = get_mandate_version db (ag_mandate_version_id g) in
          rbind (validate_agent_authority_grant e 0 grant_id
                   (adapter_args (ag_grant_scope g) now_utc) None db) (\<lambda>validation.
            case (gv_allowed validation, mandate_version) of
              (True, Some v) \<Rightarrow>
                rbind (runtime_mandate e g v) (\<lambda>m.
                  Inr \<lparr>rr_resolved = True, rr_mandate = Some m, rr_deny_reasons = [],
                       rr_warnings = gv_warnings validation\<rparr>)
            | _ \<Rightarrow>
                let reasons = map reason_text (gv_deny_reasons validation) in
                Inr \<lparr>rr_resolved = False, rr_mandate = None,
                     rr_deny_reasons =
                       (if mandate_version = None \<and> ''mandate_version_changed'' \<notin> set reasons
                        then reasons @ [''mandate_version_changed''] else reasons),
                     rr_warnings = gv_warnings validation\<rparr>))"

end
