(* ===== verification/Authority_Transition.thy ===== *)
theory Authority_Transition
  imports State_Base
begin

text \<open>
  Eligibility records (\<^verbatim>\<open>authority_transition.py\<close>) and the policy that derives eligibility from an
  evaluation (\<^verbatim>\<open>authority_eligibility_policy.py\<close>).
\<close>

definition eligibility_from_evaluation_status :: "string \<Rightarrow> string" where
  "eligibility_from_evaluation_status status =
     (if status = ''pass'' then ''eligible'' else if status = ''warn'' then ''deferred''
      else ''not_eligible'')"

record authority_transition_record =
  tr_schema_version :: string
  tr_transition_id :: string
  tr_subject_type :: string
  tr_subject_id :: string
  tr_from_state :: string
  tr_to_state :: string
  tr_eligibility :: string
  tr_receipt_ref :: "string option"
  tr_evaluation_report_refs :: "string list"
  tr_human_attester :: string
  tr_human_reason :: string
  tr_explicit_confirmation :: bool
  tr_capital_mandate_id :: "string option"
  tr_agent_authority_grant_id :: "string option"
  tr_receipt_refs :: "string list"
  tr_execution_allowed :: bool
  tr_authority_transition :: bool

fun dedupe_refs_from :: "string list \<Rightarrow> string list \<Rightarrow> string list" where
  "dedupe_refs_from seen [] = []"
| "dedupe_refs_from seen (x # xs) =
     (let s = py_strip x in
      if s = [] \<or> s \<in> set seen then dedupe_refs_from seen xs
      else s # dedupe_refs_from (s # seen) xs)"

definition dedupe_refs :: "string list \<Rightarrow> string list" where
  "dedupe_refs values = dedupe_refs_from [] values"

record transition_args =
  ta_subject_type :: string
  ta_subject_id :: string
  ta_from_state :: string
  ta_to_state :: string
  ta_eligibility :: string
  ta_evaluation_report_refs :: "string list"
  ta_human_attester :: string
  ta_human_reason :: string
  ta_explicit_confirmation :: bool
  ta_capital_mandate_id :: "string option"
  ta_agent_authority_grant_id :: "string option"
  ta_supporting_receipt_refs :: "string list"

text \<open>\<open>dir\<close> is \<^verbatim>\<open>receipt_root / "authority-transitions"\<close>; creating it may fail like writing a file.\<close>

definition record_authority_transition ::
  "'e env_scheme \<Rightarrow> string \<Rightarrow> transition_args \<Rightarrow> (string \<rightharpoonup> authority_transition_record) \<Rightarrow>
   authority_transition_record res \<times> (string \<rightharpoonup> authority_transition_record)" where
  "record_authority_transition e dir a files =
     (if py_strip (ta_human_attester a) = []
      then (Inl (ValueError ''AuthorityTransitionRecord requires a non-blank human_attester''), files)
      else if py_strip (ta_human_reason a) = []
      then (Inl (ValueError ''AuthorityTransitionRecord requires a non-blank human_reason''), files)
      else if \<not> ta_explicit_confirmation a
      then (Inl (ValueError ''AuthorityTransitionRecord requires explicit_confirmation=True''), files)
      else
        let report_refs = dedupe_refs (ta_evaluation_report_refs a) in
        if report_refs = []
        then (Inl (ValueError ''AuthorityTransitionRecord requires at least one evaluation_report_ref''), files)
        else
          let eligibility = py_lower (py_strip (ta_eligibility a)) in
          if eligibility \<notin> {''eligible'', ''not_eligible'', ''deferred''}
          then (Inl (ValueError ''eligibility must be one of deferred, eligible, not_eligible''), files)
          else
            let transition_id = ''at_'' @ stamp e 0 @ ''_'' @ uuid8 e 0;
                receipt_ref = dir @ ''/'' @ transition_id @ ''.json'' in
            if write_fails e dir then (Inl (OsError dir), files)
            else
              let r = \<lparr>tr_schema_version = ''finharness.authority_transition.v1'',
                       tr_transition_id = transition_id,
                       tr_subject_type = py_strip (ta_subject_type a),
                       tr_subject_id = py_strip (ta_subject_id a),
                       tr_from_state = py_strip (ta_from_state a),
                       tr_to_state = py_strip (ta_to_state a), tr_eligibility = eligibility,
                       tr_receipt_ref = Some receipt_ref,
                       tr_evaluation_report_refs = report_refs,
                       tr_human_attester = py_strip (ta_human_attester a),
                       tr_human_reason = py_strip (ta_human_reason a),
                       tr_explicit_confirmation = True,
                       tr_capital_mandate_id = map_option py_strip (truthy (ta_capital_mandate_id a)),
                       tr_agent_authority_grant_id =
                         map_option py_strip (truthy (ta_agent_authority_grant_id a)),
                       tr_receipt_refs = dedupe_refs (ta_supporting_receipt_refs a),
                       tr_execution_allowed = False, tr_authority_transition = True\<rparr>
              in if write_fails e receipt_ref then (Inl (OsError receipt_ref), files)
                 else (Inr r, files(receipt_ref \<mapsto> r)))"

end
