(* ===== verification/Autonomy_Properties.thy ===== *)
theory Autonomy_Properties
  imports Autonomy_Adapter Authority_Transition Authority_Demo
begin

text \<open>
  The properties of the admission gate and of the runtime mandates that feed it.
\<close>

section \<open>The gate\<close>

definition delegation_covers ::
  "'e env_scheme \<Rightarrow> agent_action_request \<Rightarrow> autonomy_runtime \<Rightarrow> autonomy_mandate \<Rightarrow> bool" where
  "delegation_covers e q rt m \<longleftrightarrow>
     am_status m = ''active'' \<and> mandate_expired e rt m = Inr False \<and> \<not> am_kill_switch_engaged m \<and>
     am_agent_id m = rq_agent_id q \<and> rq_requested_autonomy q \<le> am_granted_autonomy m \<and>
     rq_action_class q \<in> set (am_allowed_action_classes m) \<and>
     \<not> value_outside (dict_get (rq_target_scope q) ''action_type'') (am_allowed_financial_action_types m) \<and>
     \<not> value_outside (dict_get (rq_target_scope q) ''asset_class'') (am_allowed_asset_classes m) \<and>
     (\<forall>t. truthy (rq_tool_name q) = Some t \<longrightarrow> am_allowed_tools m = [] \<or> t \<in> set (am_allowed_tools m))"

lemma finding_when_Nil [simp]: "finding_when b c d = [] \<longleftrightarrow> \<not> b"
  by (simp add: finding_when_def)

lemma truthy_nonempty: "truthy x = Some t \<Longrightarrow> t \<noteq> []"
  by (auto simp: truthy_def split: option.splits if_splits)

lemma check_mandate_Nil: "check_mandate e q rt m = Inr [] \<longleftrightarrow> delegation_covers e q rt m"
proof (cases "mandate_expired e rt m")
  case (Inl x)
  then show ?thesis by (simp add: check_mandate_def delegation_covers_def)
next
  case (Inr b)
  have "value_outside (case truthy (rq_tool_name q) of None \<Rightarrow> PNone | Some t \<Rightarrow> PStr t) (am_allowed_tools m) \<longleftrightarrow>
      \<not> (\<forall>t. truthy (rq_tool_name q) = Some t \<longrightarrow> am_allowed_tools m = [] \<or> t \<in> set (am_allowed_tools m))"
    using truthy_nonempty by (cases "truthy (rq_tool_name q)") (auto simp: value_outside_def pyval_truthy_def)
  with Inr show ?thesis by (auto simp: check_mandate_def delegation_covers_def Let_def not_less)
qed

lemma hard_findings_Nil:
  "hard_findings q rt = [] \<longleftrightarrow>
   snd (action_requirements (rq_action_class q)) \<le> rq_requested_autonomy q \<and>
   fst (action_requirements (rq_action_class q)) \<le> rt_world_fidelity rt \<and>
   rq_requested_autonomy q \<le> rt_autonomy_ceiling rt"
  by (auto simp: hard_findings_def not_less split: prod.splits)

lemma report_of_Inr:
  "report_of q rt m d fs = Inr r \<longleftrightarrow>
   r = \<lparr>rp_action_id = rq_action_id q, rp_work_id = rq_work_id q,
        rp_disposition = d, rp_effective = (d = EFFECTIVE),
        rp_human_control_mode = human_control_mode (rq_requested_autonomy q),
        rp_requested_autonomy = rq_requested_autonomy q,
        rp_required_autonomy = snd (action_requirements (rq_action_class q)),
        rp_granted_autonomy = map_option am_granted_autonomy m,
        rp_runtime_autonomy_ceiling = rt_autonomy_ceiling rt,
        rp_current_world_fidelity = rt_world_fidelity rt,
        rp_required_world_fidelity = fst (action_requirements (rq_action_class q)),
        rp_mandate_id = map_option am_mandate_id m,
        rp_world_state_ref = rt_world_state_ref rt, rp_findings = fs,
        rp_effect_admitted = (d = EFFECTIVE \<and> rq_action_class q \<in> {TAKE_PAPER_ACTION, TAKE_REAL_ACTION}),
        rp_external_effect_admitted = (d = EFFECTIVE \<and> rq_action_class q = TAKE_REAL_ACTION),
        rp_execution_allowed = False, rp_authority_transition = False\<rparr>"
  by (auto simp: report_of_def mk_admission_report_def Let_def)

definition gate_disposition ::
  "'e env_scheme \<Rightarrow> agent_action_request \<Rightarrow> autonomy_runtime \<Rightarrow> autonomy_mandate option \<Rightarrow> disposition \<Rightarrow> bool" where
  "gate_disposition e q rt m d \<longleftrightarrow> (\<exists>r. evaluate_autonomy_admission e q rt m = Inr r \<and> rp_disposition r = d)"

lemma effective_cases:
  "gate_disposition e q rt m EFFECTIVE \<longleftrightarrow>
   rq_action_class q \<noteq> CHANGE_CAPITAL_CONSTITUTION \<and> hard_findings q rt = [] \<and>
   (case m of None \<Rightarrow> rq_action_class q \<in> {OBSERVE_STATE, GATHER_EVIDENCE}
    | Some a \<Rightarrow> delegation_covers e q rt a)"
proof (cases m)
  case None
  then show ?thesis
    by (auto simp: gate_disposition_def evaluate_autonomy_admission_def Let_def report_of_Inr)
next
  case (Some a)
  then show ?thesis
    by (cases "check_mandate e q rt a")
       (auto simp: gate_disposition_def evaluate_autonomy_admission_def Let_def report_of_Inr
         check_mandate_Nil [symmetric])
qed

text \<open>
  Claim C11. An agent action is effective exactly when it is not a change of the capital
  constitution, the requested autonomy reaches what its class needs and stays under the runtime
  ceiling, the world model is good enough, and either it only observes or gathers evidence
  without a mandate, or a mandate covers it: active, unexpired, no kill switch, same agent,
  enough granted autonomy, class, financial action, asset class and tool inside its lists.
\<close>

theorem effective_iff:
  "(\<exists>r. evaluate_autonomy_admission e q rt m = Inr r \<and> rp_disposition r = EFFECTIVE) \<longleftrightarrow>
   rq_action_class q \<noteq> CHANGE_CAPITAL_CONSTITUTION \<and>
   snd (action_requirements (rq_action_class q)) \<le> rq_requested_autonomy q \<and>
   rq_requested_autonomy q \<le> rt_autonomy_ceiling rt \<and>
   fst (action_requirements (rq_action_class q)) \<le> rt_world_fidelity rt \<and>
   (case m of None \<Rightarrow> rq_action_class q \<in> {OBSERVE_STATE, GATHER_EVIDENCE}
    | Some a \<Rightarrow> delegation_covers e q rt a)"
  using effective_cases [of e q rt m] unfolding gate_disposition_def hard_findings_Nil by blast

text \<open>
  A report is evidence and nothing more: whatever the gate answers, the report never
  allows execution or moves authority, its effect flags say exactly that an effective paper or
  real action was requested, a capital effect is never admitted without a mandate, and a change
  of the capital constitution always escalates to the human; the only way not to get a report
  is a mandate whose expiry cannot be compared.
\<close>

theorem report_is_evidence:
  "case evaluate_autonomy_admission e q rt m of
     Inl x \<Rightarrow> (\<exists>a. m = Some a \<and> mandate_expired e rt a = Inl x)
   | Inr r \<Rightarrow>
       \<not> rp_execution_allowed r \<and> \<not> rp_authority_transition r \<and>
       rp_effective r = (rp_disposition r = EFFECTIVE) \<and>
       rp_effect_admitted r = (rp_effective r \<and> rq_action_class q \<in> {TAKE_PAPER_ACTION, TAKE_REAL_ACTION}) \<and>
       rp_external_effect_admitted r = (rp_effective r \<and> rq_action_class q = TAKE_REAL_ACTION) \<and>
       \<not> (rp_effect_admitted r \<and> m = None) \<and>
       (rq_action_class q = CHANGE_CAPITAL_CONSTITUTION) = (rp_disposition r = ESCALATE)"
proof (cases "evaluate_autonomy_admission e q rt m")
  case (Inl x)
  then show ?thesis
    by (auto simp: evaluate_autonomy_admission_def Let_def report_of_def mk_admission_report_def
        check_mandate_def rbind_def split: if_splits option.splits sum.splits)
next
  case (Inr r)
  then obtain d fs where r: "report_of q rt m d fs = Inr r"
    and esc: "(rq_action_class q = CHANGE_CAPITAL_CONSTITUTION) = (d = ESCALATE)"
    and none: "d = EFFECTIVE \<Longrightarrow> m = None \<Longrightarrow> rq_action_class q \<in> {OBSERVE_STATE, GATHER_EVIDENCE}"
    by (fastforce simp: evaluate_autonomy_admission_def Let_def rbind_Inr_iff
        split: if_splits option.splits)
  from r none esc Inr show ?thesis by (auto simp: report_of_Inr)
qed

text \<open>
  The gate is monotone: an action that is effective stays effective when the world
  model gets better, the runtime ceiling is raised or the mandate grants more autonomy; put the
  other way, tightening any of the three never lets an action through.
\<close>

theorem admission_monotone:
  assumes "\<exists>r. evaluate_autonomy_admission e q rt m = Inr r \<and> rp_disposition r = EFFECTIVE"
    and "rt_world_fidelity rt \<le> rt_world_fidelity rt'" and "rt_autonomy_ceiling rt \<le> rt_autonomy_ceiling rt'"
    and "rt_now_utc rt' = rt_now_utc rt"
    and "rel_option (\<lambda>a b. b = a\<lparr>am_granted_autonomy := am_granted_autonomy b\<rparr> \<and>
           am_granted_autonomy a \<le> am_granted_autonomy b) m m'"
  shows "\<exists>r. evaluate_autonomy_admission e q rt' m' = Inr r \<and> rp_disposition r = EFFECTIVE"
proof -
  have "gate_disposition e q rt m EFFECTIVE" using assms(1) by (simp add: gate_disposition_def)
  note E = this [unfolded effective_cases hard_findings_Nil]
  have covers: "delegation_covers e q rt' b"
    if c: "delegation_covers e q rt a" and ab: "b = a\<lparr>am_granted_autonomy := am_granted_autonomy b\<rparr>"
      and le: "am_granted_autonomy a \<le> am_granted_autonomy b" for a b
  proof -
    obtain k where b: "b = a\<lparr>am_granted_autonomy := k\<rparr>" using ab by blast
    have "mandate_expired e rt' b = mandate_expired e rt a" unfolding mandate_expired_def assms(4) b by simp
    with b c le show ?thesis by (auto simp: delegation_covers_def)
  qed
  have "gate_disposition e q rt' m' EFFECTIVE"
    unfolding effective_cases hard_findings_Nil
  proof (intro conjI)
    show "case m' of None \<Rightarrow> rq_action_class q \<in> {OBSERVE_STATE, GATHER_EVIDENCE}
        | Some a \<Rightarrow> delegation_covers e q rt' a"
      using E assms(5) covers by (cases m; cases m') auto
  qed (use E assms(2,3) order_trans in \<open>blast\<close>)+
  then show ?thesis by (simp add: gate_disposition_def)
qed

definition demo_request :: agent_action_request where
  "demo_request =
     \<lparr>rq_action_id = ''a1'', rq_work_id = ''w1'', rq_agent_id = ''agent'', rq_objective = ''look'',
      rq_action_class = GATHER_EVIDENCE, rq_requested_autonomy = AUT1_TOOL_REVIEWER,
      rq_tool_name = None, rq_arguments = [], rq_target_scope = [], rq_external_effect = False,
      rq_reversible = True, rq_source_refs = []\<rparr>"

definition demo_runtime :: "world_fidelity \<Rightarrow> agent_autonomy \<Rightarrow> autonomy_runtime" where
  "demo_runtime w c =
     \<lparr>rt_world_fidelity = w, rt_autonomy_ceiling = c, rt_world_state_ref = None, rt_now_utc = demo_int 2\<rparr>"

theorem admission_monotone_witness:
  "\<exists>r. evaluate_autonomy_admission (demo_auth_env 2) demo_request
         (demo_runtime W4_LEARNING_POLICY AUT6_CONTINUOUS_AGENT) None = Inr r \<and> rp_disposition r = EFFECTIVE"
proof (rule admission_monotone)
  show "\<exists>r. evaluate_autonomy_admission (demo_auth_env 2) demo_request
      (demo_runtime W0_CAPITAL_FACTS AUT1_TOOL_REVIEWER) None = Inr r \<and> rp_disposition r = EFFECTIVE"
    unfolding gate_disposition_def [symmetric] effective_cases hard_findings_Nil
    by (simp add: demo_request_def demo_runtime_def)
qed (simp_all add: demo_runtime_def rank_order_defs)

section \<open>Runtime mandates\<close>

lemma mk_autonomy_mandate_Inr: "mk_autonomy_mandate x = Inr m \<Longrightarrow> m = x"
  by (simp add: mk_autonomy_mandate_def split: if_split_asm)

lemma runtime_mandate_fields:
  assumes "runtime_mandate e g v = Inr m"
  shows "legacy_autonomy_level (requested_level e (ag_grant_scope g) (mv_policy_payload v)) = Inr (am_granted_autonomy m) \<and>
    action_classes_for (am_granted_autonomy m) = Inr (am_allowed_action_classes m) \<and>
    am_allowed_asset_classes m = effective_scope e (dict_get (ag_grant_scope g) ''allowed_asset_classes'')
      (string_tuple e (dict_get (mv_policy_payload v) ''allowed_asset_classes'')) \<and>
    am_allowed_financial_action_types m =
      effective_scope e (dict_get (ag_grant_scope g) ''allowed_action_types'')
      (string_tuple e (dict_get (mv_policy_payload v) ''allowed_action_types'')) \<and>
    am_agent_id m = ag_agent_id g"
proof (cases "ag_principal_id g")
  case None
  with assms show ?thesis by (auto simp: runtime_mandate_def Let_def rbind_Inr_iff)
next
  case (Some p)
  from assms show ?thesis
    unfolding runtime_mandate_def Let_def rbind_Inr_iff Some option.case
    by (elim exE conjE) (drule mk_autonomy_mandate_Inr, simp only: autonomy_mandate.select_convs simp_thms)
qed

lemmas runtime_mandate_Inr = runtime_mandate_fields [THEN conjunct1]
  runtime_mandate_fields [THEN conjunct2, THEN conjunct1]
  runtime_mandate_fields [THEN conjunct2, THEN conjunct2, THEN conjunct1]
  runtime_mandate_fields [THEN conjunct2, THEN conjunct2, THEN conjunct2, THEN conjunct1]
  runtime_mandate_fields [THEN conjunct2, THEN conjunct2, THEN conjunct2, THEN conjunct2]

lemma resolve_runtime_Some:
  assumes "resolve_runtime_autonomy_mandate e grant_id now db = Inr r" and "rr_mandate r = Some m"
  obtains g v w where "tbl_get ag_agent_authority_grant_id (grants db) grant_id = Some g"
    and "get_mandate_version db (ag_mandate_version_id g) = Some w"
    and "grant_usable e 0 (adapter_args (ag_grant_scope g) now) g db v w"
    and "runtime_mandate e g w = Inr m"
proof -
  obtain g where g: "tbl_get ag_agent_authority_grant_id (grants db) grant_id = Some g"
    using assms by (cases "tbl_get ag_agent_authority_grant_id (grants db) grant_id")
      (auto simp: resolve_runtime_autonomy_mandate_def)
  let ?a = "adapter_args (ag_grant_scope g) now"
  from assms g obtain val where val: "validate_agent_authority_grant e 0 grant_id ?a None db = Inr val"
    by (auto simp: resolve_runtime_autonomy_mandate_def rbind_Inr_iff Let_def)
  with assms g have al: "gv_allowed val"
    by (cases "gv_allowed val") (auto simp: resolve_runtime_autonomy_mandate_def Let_def)
  obtain x where x: "get_mandate_version db (ag_mandate_version_id g) = Some x"
    using assms g val al by (cases "get_mandate_version db (ag_mandate_version_id g)")
      (auto simp: resolve_runtime_autonomy_mandate_def Let_def)
  from val al g obtain v w where u: "grant_usable e 0 ?a g db v w"
    using validate_some [of db grant_id None g e 0 ?a] by auto
  then have "x = w" using x by (auto simp: grant_usable_def get_mandate_version_def)
  moreover have "runtime_mandate e g x = Inr m"
    using assms g val al x by (auto simp: resolve_runtime_autonomy_mandate_def Let_def rbind_Inr_iff)
  ultimately show thesis using that [OF g _ u] x by blast
qed

lemma action_classes_bounded:
  "action_classes_for a = Inr cs \<Longrightarrow>
   set cs \<inter> {TAKE_PAPER_ACTION, TAKE_REAL_ACTION, CHANGE_CAPITAL_CONSTITUTION} = {} \<and> a \<le> AUT3_DELEGATED_REVIEW"
  by (cases a) (auto simp: action_classes_for_def rank_order_defs)

text \<open>
  Claim C12. No stored grant can move capital through the agent runtime: whatever the world
  model, the ceiling and the request, a runtime mandate resolved from the authority tables never
  makes a paper action, a real action or a change of the capital constitution effective, so no
  report on it admits an effect.
\<close>

theorem resolved_mandates_admit_no_effect:
  assumes "resolve_runtime_autonomy_mandate e grant_id now db = Inr r" and "rr_mandate r = Some m"
    and "evaluate_autonomy_admission e' q rt (Some m) = Inr rep"
  shows "\<not> rp_effect_admitted rep \<and> \<not> rp_external_effect_admitted rep \<and>
    (rq_action_class q \<in> {TAKE_PAPER_ACTION, TAKE_REAL_ACTION, CHANGE_CAPITAL_CONSTITUTION} \<longrightarrow>
       rp_disposition rep \<noteq> EFFECTIVE)"
proof -
  from assms(1,2) obtain g w where "runtime_mandate e g w = Inr m" by (rule resolve_runtime_Some)
  from action_classes_bounded [OF runtime_mandate_Inr(2) [OF this]]
  have out: "\<not> delegation_covers e' q rt m"
    if "rq_action_class q \<in> {TAKE_PAPER_ACTION, TAKE_REAL_ACTION, CHANGE_CAPITAL_CONSTITUTION}"
    using that by (auto simp: delegation_covers_def)
  have flags: "rp_effect_admitted rep = (rp_disposition rep = EFFECTIVE \<and>
        rq_action_class q \<in> {TAKE_PAPER_ACTION, TAKE_REAL_ACTION}) \<and>
      rp_external_effect_admitted rep = (rp_disposition rep = EFFECTIVE \<and> rq_action_class q = TAKE_REAL_ACTION)"
    using assms(3)
    by (auto simp: evaluate_autonomy_admission_def Let_def rbind_Inr_iff report_of_Inr split: if_splits)
  have "\<not> gate_disposition e' q rt (Some m) EFFECTIVE"
    if "rq_action_class q \<in> {TAKE_PAPER_ACTION, TAKE_REAL_ACTION, CHANGE_CAPITAL_CONSTITUTION}"
    using out [OF that] by (simp add: effective_cases)
  then have "rp_disposition rep \<noteq> EFFECTIVE"
    if "rq_action_class q \<in> {TAKE_PAPER_ACTION, TAKE_REAL_ACTION, CHANGE_CAPITAL_CONSTITUTION}"
    using that assms(3) by (auto simp: gate_disposition_def)
  with flags show ?thesis by blast
qed

definition demo_adapter_env :: auth_env where
  "demo_adapter_env = (demo_auth_env 2)\<lparr>py_repr := (\<lambda>v. ''None'')\<rparr>"

definition demo_trade :: agent_action_request where
  "demo_trade = demo_request\<lparr>rq_action_class := TAKE_REAL_ACTION, rq_requested_autonomy := AUT5_REAL_OPERATOR,
     rq_external_effect := True\<rparr>"

lemma demo_runtime_mandate:
  obtains r m rep where "resolve_runtime_autonomy_mandate demo_adapter_env ''g1'' None demo_auth2 = Inr r"
    and "rr_mandate r = Some m"
    and "evaluate_autonomy_admission demo_adapter_env demo_trade
           (demo_runtime W4_LEARNING_POLICY AUT6_CONTINUOUS_AGENT) (Some m) = Inr rep"
proof -
  have "(case resolve_runtime_autonomy_mandate demo_adapter_env ''g1'' None (demo_store2 files) of
      Inl _ \<Rightarrow> False
    | Inr r \<Rightarrow> (case rr_mandate r of None \<Rightarrow> False
        | Some m \<Rightarrow> \<not> isl (evaluate_autonomy_admission demo_adapter_env demo_trade
            (demo_runtime W4_LEARNING_POLICY AUT6_CONTINUOUS_AGENT) (Some m))))" for files
    by code_simp
  from this [of "auth_files demo_auth2", folded demo_auth2_store] that show thesis
    by (auto split: sum.splits option.splits) (metis sum.collapse(2))
qed

theorem resolved_mandates_admit_no_effect_witness:
  "\<exists>m rep. evaluate_autonomy_admission demo_adapter_env demo_trade
     (demo_runtime W4_LEARNING_POLICY AUT6_CONTINUOUS_AGENT) (Some m) = Inr rep \<and>
     \<not> rp_external_effect_admitted rep \<and> rp_disposition rep \<noteq> EFFECTIVE"
proof -
  obtain r m rep where r: "resolve_runtime_autonomy_mandate demo_adapter_env ''g1'' None demo_auth2 = Inr r"
    "rr_mandate r = Some m" and ev: "evaluate_autonomy_admission demo_adapter_env demo_trade
       (demo_runtime W4_LEARNING_POLICY AUT6_CONTINUOUS_AGENT) (Some m) = Inr rep" by (rule demo_runtime_mandate)
  from resolved_mandates_admit_no_effect [OF r ev] ev show ?thesis by (auto simp: demo_trade_def)
qed

lemma legacy_monotone:
  assumes "autonomy_rank r = Some i" and "autonomy_rank a = Some j" and "i \<le> j"
    and "legacy_autonomy_level r = Inr x"
  shows "\<exists>y. legacy_autonomy_level a = Inr y \<and> x \<le> y"
  using assms
  by (auto simp: autonomy_rank_def CAPITAL_MANDATE_AUTONOMY_LEVELS_def legacy_autonomy_level_def
      rank_order_defs upt_rec split: if_splits)

lemma string_tuple_set: "set (string_tuple e v) \<subseteq> set (string_set e v)"
  by (cases v) (auto simp: string_tuple_def)

lemma within_mandate_fields:
  assumes "scope_within_mandate e scope v"
  shows "set (string_set e (dict_get scope ''allowed_asset_classes'')) \<subseteq>
           set (string_set e (dict_get_or (mv_policy_payload v) ''allowed_asset_classes'' (PList [])))"
    and "set (string_set e (dict_get scope ''allowed_action_types'')) \<subseteq>
           set (string_set e (dict_get_or (mv_policy_payload v) ''allowed_action_types'' (PList [])))"
    and "autonomy_within (dict_get scope ''autonomy_level'')
           (dict_get_or (mv_policy_payload v) ''autonomy_level'' (PStr ''L0_observe_only''))"
  using assms
  by (auto simp: scope_within_mandate_def scope_within_limit_def mandate_limit_def Let_def dict_get_def
      split: option.splits)

lemma effective_scope_within:
  assumes "set (string_set e (dict_get scope k)) \<subseteq> set (string_set e (dict_get_or policy k (PList [])))"
  shows "set (effective_scope e (dict_get scope k) (string_tuple e (dict_get policy k))) \<subseteq>
    set (string_set e (dict_get_or policy k (PList [])))"
proof -
  have "set (string_tuple e (dict_get policy k)) \<subseteq> set (string_set e (dict_get_or policy k (PList [])))"
    using string_tuple_set [of e "dict_get policy k"]
    by (auto simp: dict_get_def dict_get_or_def string_tuple_def split: option.splits)
  then show ?thesis
    using assms string_tuple_set [of e "dict_get scope k"] by (auto simp: effective_scope_def Let_def)
qed

text \<open>
  A runtime mandate never exceeds the mandate it comes from: it belongs to a stored,
  active grant that is bound to an existing mandate version, its autonomy is at most the level
  of that version, and its asset classes and financial actions are among those of its policy.
\<close>

theorem runtime_mandate_grounded:
  assumes "resolve_runtime_autonomy_mandate e grant_id now db = Inr r" and "rr_mandate r = Some m"
    and "py_repr e PNone = ''None''"
  shows "\<exists>g v y. tbl_get ag_agent_authority_grant_id (grants db) grant_id = Some g \<and> ag_status g = ''active'' \<and>
    ag_agent_id g = am_agent_id m \<and> get_mandate_version db (ag_mandate_version_id g) = Some v \<and>
    legacy_autonomy_level (py_str e (dict_get_or (mv_policy_payload v) ''autonomy_level'' (PStr ''L0_observe_only''))) = Inr y \<and>
    am_granted_autonomy m \<le> y \<and> am_granted_autonomy m \<le> AUT3_DELEGATED_REVIEW \<and>
    set (am_allowed_asset_classes m) \<subseteq>
      set (string_set e (dict_get_or (mv_policy_payload v) ''allowed_asset_classes'' (PList []))) \<and>
    set (am_allowed_financial_action_types m) \<subseteq>
      set (string_set e (dict_get_or (mv_policy_payload v) ''allowed_action_types'' (PList [])))"
proof -
  obtain g v w where g: "tbl_get ag_agent_authority_grant_id (grants db) grant_id = Some g"
    and w: "get_mandate_version db (ag_mandate_version_id g) = Some w"
    and u: "grant_usable e 0 (adapter_args (ag_grant_scope g) now) g db v w" and m: "runtime_mandate e g w = Inr m"
    using assms(1,2) by (rule resolve_runtime_Some)
  note M = runtime_mandate_Inr [OF m]
  from u have "scope_within_mandate e (ag_grant_scope g) w" and st: "ag_status g = ''active''"
    by (simp_all add: grant_usable_def)
  note F = within_mandate_fields [OF this(1)]
  let ?p = "dict_get_or (mv_policy_payload w) ''autonomy_level'' (PStr ''L0_observe_only'')"
  have "\<exists>y. legacy_autonomy_level (py_str e ?p) = Inr y \<and> am_granted_autonomy m \<le> y"
  proof (cases "map_of (ag_grant_scope g) ''autonomy_level''")
    case None
    then show ?thesis using M(1) by (simp add: requested_level_def dict_get_or_def [of "ag_grant_scope g"])
  next
    case (Some l)
    then have req: "requested_level e (ag_grant_scope g) (mv_policy_payload w) = py_str e l"
      by (simp add: requested_level_def dict_get_or_def [of "ag_grant_scope g"])
    have "l \<noteq> PNone"
      using M(1) assms(3) unfolding req by (auto simp: py_str_def legacy_autonomy_level_def)
    with F(3) Some obtain s t i j where "l = PStr s" "?p = PStr t" "autonomy_rank s = Some i"
        "autonomy_rank t = Some j" "i \<le> j"
      by (auto simp: dict_get_def autonomy_within_def split: pyval.splits option.splits)
    with M(1) req show ?thesis by (auto simp: py_str_def dest: legacy_monotone)
  qed
  then show ?thesis
    using g w st M action_classes_bounded [OF M(2)] effective_scope_within [OF F(1)] effective_scope_within [OF F(2)]
    by metis
qed

theorem runtime_mandate_grounded_witness:
  "\<exists>r m. resolve_runtime_autonomy_mandate demo_adapter_env ''g1'' None demo_auth2 = Inr r \<and>
     rr_mandate r = Some m \<and> am_granted_autonomy m \<le> AUT3_DELEGATED_REVIEW \<and>
     ag_agent_id demo_grant1 = am_agent_id m"
proof -
  obtain r m where r: "resolve_runtime_autonomy_mandate demo_adapter_env ''g1'' None demo_auth2 = Inr r"
    "rr_mandate r = Some m" by (rule demo_runtime_mandate)
  have "py_repr demo_adapter_env PNone = ''None''" by (simp add: demo_adapter_env_def)
  from runtime_mandate_grounded [OF r this] obtain g where
      g: "tbl_get ag_agent_authority_grant_id (grants demo_auth2) ''g1'' = Some g"
      "ag_agent_id g = am_agent_id m" "am_granted_autonomy m \<le> AUT3_DELEGATED_REVIEW" by blast
  have "tbl_get ag_agent_authority_grant_id (grants demo_auth2) ''g1'' = Some demo_grant1"
    by (simp add: demo_grants2 tbl_get_def demo_grant1_def)
  with g have "g = demo_grant1" by simp
  with g(2,3) r show ?thesis by blast
qed

section \<open>Eligibility records\<close>

lemma dedupe_refs_from_set:
  "set (dedupe_refs_from seen xs) = (py_strip ` set xs - {[]}) - set seen \<and> distinct (dedupe_refs_from seen xs)"
  by (induction seen xs rule: dedupe_refs_from.induct) (auto simp: Let_def)

lemma eligibility_recordable:
  "py_lower (py_strip (eligibility_from_evaluation_status st)) = eligibility_from_evaluation_status st"
proof -
  have "py_lower (py_strip ''eligible'') = ''eligible''" "py_lower (py_strip ''deferred'') = ''deferred''"
    "py_lower (py_strip ''not_eligible'') = ''not_eligible''" by code_simp+
  then show ?thesis by (simp add: eligibility_from_evaluation_status_def)
qed

text \<open>
  Human confirmation cannot upgrade an evaluation: recording the eligibility that the
  policy derives from an evaluation status either raises and writes nothing, or stores, under the
  receipt path the record names, a record whose eligibility is \<open>eligible\<close> exactly for \<open>pass\<close>, that
  was explicitly confirmed by a named human with a reason, cites the distinct non-blank
  evaluation reports it was given, at least one, and never allows execution.
\<close>

theorem eligibility_not_upgraded:
  assumes "ta_eligibility a = eligibility_from_evaluation_status st"
    and "record_authority_transition e dir a files = (res, files')"
  shows "(isl res \<and> files' = files) \<or>
    (\<exists>r path. res = Inr r \<and> tr_receipt_ref r = Some path \<and> files' = files(path \<mapsto> r) \<and>
       (tr_eligibility r = ''eligible'') = (st = ''pass'') \<and>
       ta_explicit_confirmation a \<and> tr_human_attester r \<noteq> [] \<and> tr_human_reason r \<noteq> [] \<and>
       tr_evaluation_report_refs r \<noteq> [] \<and> distinct (tr_evaluation_report_refs r) \<and>
       set (tr_evaluation_report_refs r) = py_strip ` set (ta_evaluation_report_refs a) - {[]} \<and>
       \<not> tr_execution_allowed r)"
proof -
  have refs: "set (dedupe_refs xs) = py_strip ` set xs - {[]} \<and> distinct (dedupe_refs xs)" for xs
    using dedupe_refs_from_set [of "[]" xs] by (simp add: dedupe_refs_def)
  have el: "(eligibility_from_evaluation_status st = ''eligible'') = (st = ''pass'')"
    by (simp add: eligibility_from_evaluation_status_def)
  note call = assms(2) [unfolded record_authority_transition_def Let_def assms(1) eligibility_recordable]
  show ?thesis
  proof (cases res)
    case (Inl x)
    with call have "files' = files" by (simp only: prod.inject sum.simps simp_thms split: if_split_asm)
    with Inl show ?thesis by simp
  next
    case (Inr r)
    let ?refs = "dedupe_refs (ta_evaluation_report_refs a)"
    let ?path = "dir @ ''/'' @ ''at_'' @ stamp e 0 @ ''_'' @ uuid8 e 0 @ ''.json''"
    from call Inr have "py_strip (ta_human_attester a) \<noteq> []" "py_strip (ta_human_reason a) \<noteq> []"
      "ta_explicit_confirmation a" "?refs \<noteq> []" "files' = files(?path \<mapsto> r)" "tr_receipt_ref r = Some ?path"
      "tr_eligibility r = eligibility_from_evaluation_status st" "tr_evaluation_report_refs r = ?refs"
      "tr_human_attester r = py_strip (ta_human_attester a)" "tr_human_reason r = py_strip (ta_human_reason a)"
      "\<not> tr_execution_allowed r"
      by (auto split: if_split_asm)
    with Inr el refs [of "ta_evaluation_report_refs a"] show ?thesis by simp
  qed
qed

definition demo_transition :: transition_args where
  "demo_transition =
     \<lparr>ta_subject_type = ''plan'', ta_subject_id = ''p1'', ta_from_state = ''draft'', ta_to_state = ''review'',
      ta_eligibility = eligibility_from_evaluation_status ''warn'',
      ta_evaluation_report_refs = ['' r1'', ''r1'', []], ta_human_attester = ''alice'',
      ta_human_reason = ''ok'', ta_explicit_confirmation = True, ta_capital_mandate_id = None,
      ta_agent_authority_grant_id = None, ta_supporting_receipt_refs = []\<rparr>"

theorem eligibility_not_upgraded_witness:
  "\<exists>r. fst (record_authority_transition (demo_auth_env 1) ''d'' demo_transition Map.empty) = Inr r \<and>
     tr_eligibility r \<noteq> ''eligible''"
proof -
  let ?call = "record_authority_transition (demo_auth_env 1) ''d'' demo_transition Map.empty"
  have "\<not> isl (fst ?call)" by code_simp
  moreover have "ta_eligibility demo_transition = eligibility_from_evaluation_status ''warn''"
    by (simp add: demo_transition_def)
  ultimately show ?thesis
    using eligibility_not_upgraded [of demo_transition "''warn''", OF _ prod.collapse [symmetric]] by fastforce
qed

end
