(* ===== verification/Receipt_IO.thy ===== *)
theory Receipt_IO
  imports Fin_Json
begin

text \<open>
  The durable receipt files (\<^verbatim>\<open>statecore/receipt_io.py\<close>): path containment, atomic replacement,
  exclusive creation and compare-and-swap of JSON receipts.  A directory tree is a map from
  resolved paths to what reading the file gives.  Each call has its own environment, whose
  \<open>io_fault\<close> says at which points of the call the operating system refuses; a fault after a link
  or a rename leaves the new file behind although the call raises.  Locks and links are atomic, so
  an interleaving of processes is a sequence of these calls.
\<close>

type_synonym jdict = "(string \<times> pyval) list"

datatype json_file = JsonObject jdict | JsonOther | NotJson | NotUtf8 | NotReadable | NotAFile

type_synonym json_fs = "string \<rightharpoonup> json_file"

datatype io_point =
    EnsureDirectory | TempWrite | LinkTarget | SyncAfterLink | RemoveTemp | SyncAfterRemove
  | OpenLock | ReplaceTarget | SyncAfterReplace | ReleaseLock

text \<open>
  \<open>realpath\<close> is \<^verbatim>\<open>os.path.realpath\<close>, \<open>sha256\<close> the hexadecimal digest of a byte sequence, \<open>py_int\<close>
  Python's \<^verbatim>\<open>int()\<close> on texts and floats, \<open>is_symlink\<close> the file-system test, \<open>utc_now\<close> the instant
  of \<^verbatim>\<open>datetime.now(UTC)\<close> and \<open>uuid_hex\<close> the thirty-two digits of a fresh \<^verbatim>\<open>uuid4\<close>.
\<close>

record io_env = env +
  realpath :: "string \<Rightarrow> string"
  sha256 :: "string \<Rightarrow> string"
  py_int :: "pyval \<Rightarrow> int option"
  is_symlink :: "string \<Rightarrow> bool"
  utc_now :: int
  uuid_hex :: string
  io_fault :: "io_point \<Rightarrow> bool"

definition path_join :: "string \<Rightarrow> string \<Rightarrow> string" where
  "path_join a b =
     (if b \<noteq> [] \<and> hd b = CHR ''/'' then b
      else if a \<noteq> [] \<and> last a = CHR ''/'' then a @ b else a @ ''/'' @ b)"

definition starts_with :: "string \<Rightarrow> string \<Rightarrow> bool" where
  "starts_with s p \<longleftrightarrow> take (length p) s = p"

definition resolve_under :: "'e io_env_scheme \<Rightarrow> string \<Rightarrow> string list \<Rightarrow> string res" where
  "resolve_under e root parts =
     (let root_real = realpath e root;
          candidate = realpath e (foldl path_join root_real parts) in
      if candidate \<noteq> root_real \<and> \<not> starts_with candidate (root_real @ ''/'')
      then Inl ReceiptPathError else Inr candidate)"

section \<open>Content hashes\<close>

definition canonical_json_sha256 :: "'e io_env_scheme \<Rightarrow> jdict \<Rightarrow> string" where
  "canonical_json_sha256 e payload = sha256 e (utf8 (canonical_json e (PDict payload)))"

definition content_hash_ok :: "'e io_env_scheme \<Rightarrow> jdict \<Rightarrow> bool" where
  "content_hash_ok e payload \<longleftrightarrow>
     dict_get payload ''content_sha256'' =
       PStr (canonical_json_sha256 e (dict_without payload ''content_sha256''))"

definition require_valid_json_content_hash ::
  "'e io_env_scheme \<Rightarrow> string \<Rightarrow> jdict \<Rightarrow> string res" where
  "require_valid_json_content_hash e label payload =
     (if content_hash_ok e payload
      then Inr (canonical_json_sha256 e (dict_without payload ''content_sha256''))
      else Inl (IntegrityError (label @ '' content hash mismatch'')))"

section \<open>Replacing a file\<close>

text \<open>
  The three \<^verbatim>\<open>atomic_write_*\<close> helpers differ in the content only; the JSON helper stores what reading
  the text back gives.
\<close>

definition atomic_replace ::
  "'e io_env_scheme \<Rightarrow> string \<Rightarrow> 'f \<Rightarrow> (string \<rightharpoonup> 'f) \<Rightarrow> unit res \<times> (string \<rightharpoonup> 'f)" where
  "atomic_replace e path content fs =
     (if io_fault e EnsureDirectory \<or> io_fault e TempWrite \<or> io_fault e ReplaceTarget
      then (Inl (OsError path), fs) else (Inr (), fs(path \<mapsto> content)))"

definition atomic_write_json ::
  "'e io_env_scheme \<Rightarrow> string \<Rightarrow> jdict \<Rightarrow> json_fs \<Rightarrow> unit res \<times> json_fs" where
  "atomic_write_json e path payload fs = atomic_replace e path (JsonObject (json_object e payload)) fs"

definition durable_atomic_write_json ::
  "'e io_env_scheme \<Rightarrow> string \<Rightarrow> jdict \<Rightarrow> json_fs \<Rightarrow> unit res \<times> json_fs" where
  "durable_atomic_write_json e path payload fs =
     (if io_fault e EnsureDirectory \<or> io_fault e TempWrite \<or> io_fault e ReplaceTarget
      then (Inl (OsError path), fs)
      else let fs' = fs(path \<mapsto> JsonObject (json_object e payload)) in
        if io_fault e SyncAfterReplace then (Inl (OsError path), fs') else (Inr (), fs'))"

section \<open>Claiming and swapping\<close>

text \<open>
  The temporary file is removed on every way out; when that removal worked, the directory is
  synchronised once more, which may raise after the claim was made.
\<close>

definition removal_fails :: "'e io_env_scheme \<Rightarrow> bool" where
  "removal_fails e \<longleftrightarrow> \<not> io_fault e RemoveTemp \<and> io_fault e SyncAfterRemove"

definition durable_create_json_exclusive ::
  "'e io_env_scheme \<Rightarrow> string \<Rightarrow> jdict \<Rightarrow> json_fs \<Rightarrow> bool res \<times> json_fs" where
  "durable_create_json_exclusive e path payload fs =
     (if io_fault e EnsureDirectory \<or> io_fault e TempWrite \<or> io_fault e LinkTarget
      then (Inl (OsError path), fs)
      else if fs path \<noteq> None
      then (if removal_fails e then Inl (OsError path) else Inr False, fs)
      else let fs' = fs(path \<mapsto> JsonObject (json_object e payload)) in
        (if io_fault e SyncAfterLink \<or> removal_fails e then Inl (OsError path) else Inr True, fs'))"

definition read_json_object_no_follow :: "string \<Rightarrow> json_fs \<Rightarrow> jdict res" where
  "read_json_object_no_follow path fs =
     (case fs path of
        Some (JsonObject d) \<Rightarrow> Inr d
      | Some JsonOther \<Rightarrow> Inl (IntegrityError ''locked receipt is not a JSON object'')
      | _ \<Rightarrow> Inl (IntegrityError (''locked receipt is unreadable: '' @ path)))"

definition swap_locked ::
  "'e io_env_scheme \<Rightarrow> string \<Rightarrow> string \<Rightarrow> string \<Rightarrow> jdict \<Rightarrow> json_fs \<Rightarrow> bool res \<times> json_fs" where
  "swap_locked e path expected_content_sha256 expected_state payload fs =
     (case rbind (read_json_object_no_follow path fs) (\<lambda>current.
             rbind (require_valid_json_content_hash e ''locked receipt'' current) (\<lambda>h. Inr (current, h))) of
        Inl x \<Rightarrow> (Inl x, fs)
      | Inr (current, current_hash) \<Rightarrow>
          if current_hash \<noteq> expected_content_sha256 \<or>
             dict_get current ''state'' \<noteq> PStr expected_state
          then (Inr False, fs)
          else case durable_atomic_write_json e path payload fs of
            (Inl x, fs') \<Rightarrow> (Inl x, fs')
          | (Inr _, fs') \<Rightarrow> (Inr True, fs'))"

definition durable_compare_and_swap_json ::
  "'e io_env_scheme \<Rightarrow> string \<Rightarrow> string \<Rightarrow> string \<Rightarrow> jdict \<Rightarrow> json_fs \<Rightarrow> bool res \<times> json_fs" where
  "durable_compare_and_swap_json e path expected_content_sha256 expected_state payload fs =
     (if io_fault e EnsureDirectory then (Inl (OsError path), fs)
      else case require_valid_json_content_hash e ''replacement receipt'' payload of
        Inl x \<Rightarrow> (Inl x, fs)
      | Inr _ \<Rightarrow>
          if io_fault e OpenLock then (Inl (OsError path), fs)
          else let (r, fs') = swap_locked e path expected_content_sha256 expected_state payload fs in
            (if io_fault e ReleaseLock then Inl (OsError path) else r, fs'))"

section \<open>Laws\<close>

text \<open>A hash that is right for a payload is right for the file written from it.\<close>

lemma canonical_sha_json [simp]: "canonical_json_sha256 e (json_object e d) = canonical_json_sha256 e d"
  by (simp add: canonical_json_sha256_def)

lemma content_hash_written: "content_hash_ok e d \<Longrightarrow> content_hash_ok e (json_object e d)"
  by (simp add: content_hash_ok_def dict_get_json_object dict_without_json_object)

lemma create_exclusive_cases:
  assumes "durable_create_json_exclusive e path payload fs = (r, fs')"
  shows "fs' = fs \<and> r \<noteq> Inr True \<or>
    fs path = None \<and> fs' = fs(path \<mapsto> JsonObject (json_object e payload)) \<and> r \<noteq> Inr False"
  using assms unfolding durable_create_json_exclusive_def Let_def
  by (clarsimp split: if_splits)

lemma swap_locked_cases:
  assumes "swap_locked e path h st payload fs = (r, fs')"
  shows "fs' = fs \<and> r \<noteq> Inr True \<or>
    (\<exists>current. fs path = Some (JsonObject current) \<and> content_hash_ok e current \<and>
       dict_get current ''content_sha256'' = PStr h \<and> dict_get current ''state'' = PStr st \<and>
       fs' = fs(path \<mapsto> JsonObject (json_object e payload)) \<and> r \<noteq> Inr False)"
proof (cases "rbind (read_json_object_no_follow path fs) (\<lambda>current.
    rbind (require_valid_json_content_hash e ''locked receipt'' current) (\<lambda>h. Inr (current, h)))")
  case (Inl x)
  with assms show ?thesis by (clarsimp simp: swap_locked_def)
next
  case (Inr ch)
  then obtain current where cur: "fs path = Some (JsonObject current)" "content_hash_ok e current"
      "ch = (current, canonical_json_sha256 e (dict_without current ''content_sha256''))"
    by (auto simp: rbind_Inr_iff read_json_object_no_follow_def require_valid_json_content_hash_def
        split: option.splits json_file.splits if_splits)
  show ?thesis
  proof (cases "snd ch = h \<and> dict_get current ''state'' = PStr st")
    case True
    with cur have h: "dict_get current ''content_sha256'' = PStr h" by (simp add: content_hash_ok_def)
    from True assms Inr cur h show ?thesis
      by (clarsimp simp: swap_locked_def durable_atomic_write_json_def Let_def split: if_splits)
  next
    case False
    with assms Inr cur show ?thesis by (auto simp: swap_locked_def)
  qed
qed

lemma swap_cases:
  assumes "durable_compare_and_swap_json e path h st payload fs = (r, fs')"
  shows "fs' = fs \<and> r \<noteq> Inr True \<or>
    (\<exists>current. fs path = Some (JsonObject current) \<and> content_hash_ok e current \<and>
       dict_get current ''content_sha256'' = PStr h \<and> dict_get current ''state'' = PStr st \<and>
       content_hash_ok e payload \<and>
       fs' = fs(path \<mapsto> JsonObject (json_object e payload)) \<and> r \<noteq> Inr False)"
proof (cases "io_fault e EnsureDirectory \<or> \<not> content_hash_ok e payload \<or> io_fault e OpenLock")
  case True
  with assms show ?thesis
    by (clarsimp simp: durable_compare_and_swap_json_def require_valid_json_content_hash_def
        split: if_splits)
next
  case False
  obtain q gs where sw: "swap_locked e path h st payload fs = (q, gs)" by (rule prod.exhaust)
  from False assms sw have "fs' = gs" "r = q \<or> (\<exists>x. r = Inl x)"
    by (auto simp: durable_compare_and_swap_json_def require_valid_json_content_hash_def split: if_splits)
  with swap_locked_cases [OF sw] False show ?thesis by auto
qed

end
