(* ===== verification/Identity_Mutations.thy ===== *)
theory Identity_Mutations
  imports Receipt_IO Authority_Models
begin

text \<open>
  Identity-bound, idempotent mutations (\<^verbatim>\<open>identity.py\<close>): the actor binding of receipts, the browser
  retry binding, and the durable claim that is created before a keyed mutation runs, closed by one
  terminal transition and replayed on retries.
\<close>

section \<open>Actor bindings\<close>

definition py_opt :: "string option \<Rightarrow> pyval" where
  "py_opt x = (case x of None \<Rightarrow> PNone | Some s \<Rightarrow> PStr s)"

definition receipt_binding :: "operator_context \<Rightarrow> jdict" where
  "receipt_binding c =
     [(''principal_id'', PStr (pi_principal_id (oc_principal c))),
      (''agent_runtime_id'', py_opt (map_option ar_agent_runtime_id (oc_agent_runtime c))),
      (''identity_provider_id'', PStr (pi_provider_id (oc_principal c))),
      (''principal_kind'', PStr (pi_principal_kind (oc_principal c))),
      (''authentication_method'', PStr (oc_authentication_method c)),
      (''capital_authority'', PNone),
      (''legacy_actor_label'', py_opt (pi_legacy_label (oc_principal c))),
      (''legacy_actor_label_verified'', PBool (pi_legacy_label_verified (oc_principal c)))]"

definition IDENTITY_MUTATION_SOURCE_PREFIX :: string where
  "IDENTITY_MUTATION_SOURCE_PREFIX = ''identity-mutation:''"

definition identity_mutation_source_ref :: "string \<Rightarrow> string" where
  "identity_mutation_source_ref receipt_id = IDENTITY_MUTATION_SOURCE_PREFIX @ receipt_id"

definition authoritative_actor_id_from_binding :: "pyval \<Rightarrow> string res" where
  "authoritative_actor_id_from_binding binding =
     (case binding of
        PDict d \<Rightarrow>
          (case dict_get d ''principal_id'' of
             PStr p \<Rightarrow>
               if py_strip p = [] then Inl (MutationError ''authenticated actor principal is missing'')
               else (case dict_get d ''agent_runtime_id'' of
                       PNone \<Rightarrow> Inr p
                     | PStr a \<Rightarrow>
                         if py_strip a = [] then Inl (MutationError ''authenticated agent runtime is invalid'')
                         else Inr a
                     | _ \<Rightarrow> Inl (MutationError ''authenticated agent runtime is invalid''))
           | _ \<Rightarrow> Inl (MutationError ''authenticated actor principal is missing''))
      | _ \<Rightarrow> Inl (MutationError ''authenticated actor binding is missing''))"

section \<open>Browser retry bindings\<close>

definition BROWSER_MUTATION_BINDING_SCHEMA :: string where
  "BROWSER_MUTATION_BINDING_SCHEMA = ''finharness.browser_mutation_identity_binding.v1''"

record browser_binding =
  bb_binding_id :: string
  bb_principal_id :: string
  bb_identity_provider_id :: string
  bb_principal_kind :: string
  bb_agent_runtime_id :: "string option"
  bb_authentication_method :: string
  bb_authentication_epoch_id :: string
  bb_authentication_expires_at_utc :: string
  bb_server_time_utc :: string
  bb_execution_allowed :: bool

definition browser_identity :: "operator_context \<Rightarrow> string \<Rightarrow> jdict" where
  "browser_identity c epoch_id =
     [(''schema'', PStr BROWSER_MUTATION_BINDING_SCHEMA),
      (''principal_id'', PStr (pi_principal_id (oc_principal c))),
      (''identity_provider_id'', PStr (pi_provider_id (oc_principal c))),
      (''principal_kind'', PStr (pi_principal_kind (oc_principal c))),
      (''agent_runtime_id'', py_opt (map_option ar_agent_runtime_id (oc_agent_runtime c))),
      (''authentication_method'', PStr (oc_authentication_method c)),
      (''authentication_epoch_id'', PStr epoch_id)]"

definition browser_mutation_identity_binding ::
  "'e io_env_scheme \<Rightarrow> operator_context \<Rightarrow> int option \<Rightarrow> browser_binding res" where
  "browser_mutation_identity_binding e c server_time =
     (if py_strip (oc_authentication_method c) = []
      then Inl (BindingError ''browser_mutation_binding_unavailable'')
      else case (oc_authentication_epoch_id c, oc_authentication_expires_at_utc c) of
        (Some epoch_id, Some expires) \<Rightarrow>
          let now = (case server_time of Some t \<Rightarrow> t | None \<Rightarrow> utc_now e) in
          rbind (parse_utc_timestamp e (Some expires) ''authentication_expires_at_utc'') (\<lambda>expires_at.
            if expires_at \<le> now then Inl (BindingError ''browser_mutation_binding_expired'')
            else Inr \<lparr>bb_binding_id = canonical_json_sha256 e (browser_identity c epoch_id),
                      bb_principal_id = pi_principal_id (oc_principal c),
                      bb_identity_provider_id = pi_provider_id (oc_principal c),
                      bb_principal_kind = pi_principal_kind (oc_principal c),
                      bb_agent_runtime_id = map_option ar_agent_runtime_id (oc_agent_runtime c),
                      bb_authentication_method = oc_authentication_method c,
                      bb_authentication_epoch_id = epoch_id,
                      bb_authentication_expires_at_utc = isoformat e expires_at,
                      bb_server_time_utc = isoformat e now, bb_execution_allowed = False\<rparr>)
      | _ \<Rightarrow> Inl (BindingError ''browser_mutation_binding_unavailable''))"

definition is_lower_hex :: "char \<Rightarrow> bool" where
  "is_lower_hex c = (let n = (of_char c :: nat) in (48 \<le> n \<and> n \<le> 57) \<or> (97 \<le> n \<and> n \<le> 102))"

definition validate_browser_mutation_binding_header ::
  "'e io_env_scheme \<Rightarrow> operator_context \<Rightarrow> string \<Rightarrow> int option \<Rightarrow> browser_binding res" where
  "validate_browser_mutation_binding_header e c claimed server_time =
     rbind (browser_mutation_identity_binding e c server_time) (\<lambda>binding.
       if length claimed \<noteq> 64 \<or> \<not> list_all is_lower_hex claimed
       then Inl (BindingError ''browser_mutation_binding_invalid'')
       else if bb_binding_id binding \<noteq> claimed
       then Inl (BindingError ''browser_mutation_binding_mismatch'')
       else Inr binding)"

section \<open>Receipt integrity\<close>

definition with_content_hash :: "'e io_env_scheme \<Rightarrow> jdict \<Rightarrow> jdict" where
  "with_content_hash e payload =
     dict_set payload ''content_sha256'' (PStr (canonical_json_sha256 e payload))"

definition require_valid_content_hash :: "'e io_env_scheme \<Rightarrow> jdict \<Rightarrow> unit res" where
  "require_valid_content_hash e payload =
     (if content_hash_ok e payload then Inr ()
      else Inl (MutationError ''mutation identity receipt content hash mismatch''))"

definition ROUTE_CAPABILITY_BINDING_FIELDS :: "string list" where
  "ROUTE_CAPABILITY_BINDING_FIELDS =
     [''capability_id'', ''registry_version'', ''method'', ''canonical_path_template'', ''mode'',
      ''owning_domain'', ''request_identity_policy_id'', ''max_request_bytes'', ''max_response_bytes'',
      ''resolver_id'', ''no_ambiguous_effect_contract'', ''execution_allowed'', ''capability_sha256'']"

definition MUTATION_V1 :: pyval where "MUTATION_V1 = PStr ''finharness.api_mutation_identity_receipt.v1''"
definition MUTATION_V2 :: pyval where "MUTATION_V2 = PStr ''finharness.api_mutation_identity_receipt.v2''"

definition capability_ok :: "'e io_env_scheme \<Rightarrow> jdict \<Rightarrow> bool" where
  "capability_ok e b \<longleftrightarrow>
     dict_get b ''capability_sha256'' =
       PStr (canonical_json_sha256 e (dict_without b ''capability_sha256''))"

definition require_valid_route_capability_binding :: "'e io_env_scheme \<Rightarrow> jdict \<Rightarrow> unit res" where
  "require_valid_route_capability_binding e payload =
     (if dict_get payload ''schema'' = MUTATION_V1
      then (if ''route_capability'' \<in> fst ` set payload
            then Inl (MutationError ''v1 mutation receipt cannot claim route capability'') else Inr ())
      else if dict_get payload ''schema'' \<noteq> MUTATION_V2
      then Inl (MutationError ''invalid mutation identity receipt schema'')
      else case dict_get payload ''route_capability'' of
        PDict binding \<Rightarrow>
          if fst ` set binding \<noteq> set ROUTE_CAPABILITY_BINDING_FIELDS
          then Inl (MutationError ''mutation route capability binding is invalid'')
          else if \<not> capability_ok e binding
          then Inl (MutationError ''mutation route capability hash mismatch'')
          else Inr ()
      | _ \<Rightarrow> Inl (MutationError ''mutation route capability binding is invalid''))"

definition load_identity_mutation_receipt ::
  "'e io_env_scheme \<Rightarrow> string \<Rightarrow> json_fs \<Rightarrow> jdict res" where
  "load_identity_mutation_receipt e path fs =
     (case fs path of
        Some (JsonObject payload) \<Rightarrow>
          rbind (require_valid_content_hash e payload) (\<lambda>_.
          rbind (require_valid_route_capability_binding e payload) (\<lambda>_. Inr payload))
      | Some JsonOther \<Rightarrow> Inl (AttributeError ''get'')
      | Some NotUtf8 \<Rightarrow> Inl (ValueError ''UnicodeDecodeError'')
      | _ \<Rightarrow> Inl (MutationError (''existing mutation receipt is unreadable: '' @ path)))"

definition require_identity_mutation_receipt_id :: "pyval \<Rightarrow> string res" where
  "require_identity_mutation_receipt_id receipt_id =
     (case receipt_id of
        PStr s \<Rightarrow>
          if starts_with s ''identity_mutation_'' \<and> length (drop 18 s) = 32 \<and>
             list_all is_lower_hex (drop 18 s)
          then Inr s else Inl (MutationError ''invalid mutation identity receipt id'')
      | _ \<Rightarrow> Inl (MutationError ''invalid mutation identity receipt id''))"

text \<open>
  \<^verbatim>\<open>resolve_under\<close> returns a real path below the real root, so the second resolution and the second
  containment test of the source change nothing and are left out.
\<close>

definition load_identity_mutation_receipt_by_id ::
  "'e io_env_scheme \<Rightarrow> string \<Rightarrow> pyval \<Rightarrow> json_fs \<Rightarrow> jdict res" where
  "load_identity_mutation_receipt_by_id e root receipt_id fs =
     rbind (require_identity_mutation_receipt_id receipt_id) (\<lambda>canonical_id.
     case resolve_under e root [canonical_id @ ''.json''] of
       Inl _ \<Rightarrow> Inl (MutationError ''mutation identity receipt path is invalid'')
     | Inr path \<Rightarrow>
         if is_symlink e (path_join (realpath e root) (canonical_id @ ''.json''))
         then Inl (MutationError ''mutation identity receipt cannot be a symlink'')
         else if fs path = None
         then Inl (MutationError ''mutation identity receipt is missing or unreadable'')
         else if fs path = Some NotAFile
         then Inl (MutationError ''mutation identity receipt is not a regular file'')
         else rbind (load_identity_mutation_receipt e path fs) (\<lambda>payload.
           if dict_get payload ''schema'' \<notin> {MUTATION_V1, MUTATION_V2}
           then Inl (MutationError ''invalid mutation identity receipt schema'')
           else if dict_get payload ''receipt_id'' \<noteq> PStr canonical_id
           then Inl (MutationError ''mutation identity receipt id mismatch'')
           else Inr payload))"

section \<open>Claiming a mutation\<close>

datatype claim_disposition = Execute | Ambiguous | Replay | Conflict

record mutation_claim =
  mc_disposition :: claim_disposition
  mc_receipt_id :: string
  mc_receipt_path :: string
  mc_payload :: jdict

record begin_args =
  ba_context :: operator_context
  ba_method :: string
  ba_path :: string
  ba_request_target :: string
  ba_semantic_headers :: "(string \<times> string) list"
  ba_idempotency_key :: string
  ba_body_sha256 :: string
  ba_route_capability :: "jdict option"

definition is_key_char :: "char \<Rightarrow> bool" where
  "is_key_char c =
     (let n = (of_char c :: nat) in
      (48 \<le> n \<and> n \<le> 57) \<or> (65 \<le> n \<and> n \<le> 90) \<or> (97 \<le> n \<and> n \<le> 122) \<or> n = 46 \<or> n = 95 \<or> n = 58 \<or> n = 45)"

definition valid_idempotency_key :: "string \<Rightarrow> bool" where
  "valid_idempotency_key k \<longleftrightarrow> 8 \<le> length k \<and> length k \<le> 128 \<and> list_all is_key_char k"

definition IDEMPOTENCY_SEMANTIC_HEADERS :: "string list" where
  "IDEMPOTENCY_SEMANTIC_HEADERS = [''content-type'', ''if-match'']"

definition mutation_receipt_id ::
  "'e io_env_scheme \<Rightarrow> operator_context \<Rightarrow> string \<Rightarrow> string \<Rightarrow> string \<Rightarrow> string" where
  "mutation_receipt_id e c method path key =
     (let agent_id = (case oc_agent_runtime c of None \<Rightarrow> [] | Some r \<Rightarrow> ar_agent_runtime_id r);
          canonical = py_join [CHR 0x0A] [pi_principal_id (oc_principal c), agent_id, py_upper method, path, key]
      in ''identity_mutation_'' @ take 32 (sha256 e (utf8 canonical)))"

definition normalized_headers :: "(string \<times> string) list \<Rightarrow> jdict" where
  "normalized_headers headers =
     sort_key fst (fold (\<lambda>(name, value) d.
       if py_lower name \<in> set IDEMPOTENCY_SEMANTIC_HEADERS
       then dict_set d (py_lower name) (PStr (py_strip value)) else d) headers [])"

definition request_binding :: "'e io_env_scheme \<Rightarrow> begin_args \<Rightarrow> jdict" where
  "request_binding e a =
     [(''method'', PStr (py_upper (ba_method a))), (''path'', PStr (ba_path a)),
      (''target'', PStr (ba_request_target a)),
      (''semantic_headers'', PDict (normalized_headers (ba_semantic_headers a))),
      (''body_sha256'', PStr (ba_body_sha256 a)),
      (''idempotency_key_sha256'', PStr (sha256 e (utf8 (ba_idempotency_key a))))]"

definition pending_payload :: "'e io_env_scheme \<Rightarrow> begin_args \<Rightarrow> string \<Rightarrow> string \<Rightarrow> jdict" where
  "pending_payload e a trace_id receipt_id =
     [(''schema'', if ba_route_capability a = None then MUTATION_V1 else MUTATION_V2),
      (''receipt_id'', PStr receipt_id), (''state'', PStr ''pending''),
      (''created_at_utc'', PStr (clock e 0)),
      (''request'', PDict (request_binding e a @ [(''trace_ids'', PList [PStr trace_id])]))] @
     (case ba_route_capability a of None \<Rightarrow> [] | Some b \<Rightarrow> [(''route_capability'', PDict b)]) @
     [(''actor'', PDict (receipt_binding (ba_context a))),
      (''durability'', PStr ''power_loss_durable''), (''execution_allowed'', PBool False),
      (''non_claims'', PList
         [PStr ''Authentication identity is not capital authority.'',
          PStr ''Pending means the mutation outcome may be ambiguous; automatic retry is denied.'',
          PStr ''This receipt does not authorize execution.''])]"

definition same_request :: "'e io_env_scheme \<Rightarrow> begin_args \<Rightarrow> jdict \<Rightarrow> jdict \<Rightarrow> bool" where
  "same_request e a existing existing_request \<longleftrightarrow>
     list_all (\<lambda>(k, v). py_eq (dict_get existing_request k) v) (request_binding e a) \<and>
     (dict_get existing ''schema'' = MUTATION_V2 \<longrightarrow>
      py_eq (dict_get existing ''route_capability'')
        (case ba_route_capability a of None \<Rightarrow> PNone | Some b \<Rightarrow> PDict b))"

text \<open>Looking a list or a dictionary up in a set raises; any other unknown state is refused.\<close>

definition unsupported_state :: "'e io_env_scheme \<Rightarrow> pyval \<Rightarrow> exn" where
  "unsupported_state e state =
     (case state of
        PList _ \<Rightarrow> TypeError ''unhashable type'' | PDict _ \<Rightarrow> TypeError ''unhashable type''
      | _ \<Rightarrow> MutationError (''unsupported mutation receipt state: '' @ py_repr e state))"

definition existing_claim ::
  "'e io_env_scheme \<Rightarrow> begin_args \<Rightarrow> string \<Rightarrow> string \<Rightarrow> json_fs \<Rightarrow> mutation_claim res" where
  "existing_claim e a receipt_id target fs =
     rbind (load_identity_mutation_receipt e target fs) (\<lambda>existing.
     let claim = (\<lambda>disp. \<lparr>mc_disposition = disp, mc_receipt_id = receipt_id, mc_receipt_path = target,
                          mc_payload = existing\<rparr>);
         state = dict_get existing ''state'' in
     case dict_get_or existing ''request'' (PDict []) of
       PDict existing_request \<Rightarrow>
         if \<not> same_request e a existing existing_request then Inr (claim Conflict)
         else if state = PStr ''pending'' then Inr (claim Ambiguous)
         else if state \<in> PStr ` {''committed'', ''rejected'', ''reconciled_applied''}
         then Inr (claim Replay)
         else Inl (unsupported_state e state)
     | _ \<Rightarrow> Inl (AttributeError ''get''))"

text \<open>
  \<open>later\<close> is the directory as it is when an existing receipt is read: other processes may have moved
  between the failed exclusive creation and the read.
\<close>

definition begin_identity_mutation ::
  "'e io_env_scheme \<Rightarrow> string \<Rightarrow> begin_args \<Rightarrow> string \<Rightarrow> json_fs \<Rightarrow> json_fs \<Rightarrow> mutation_claim res \<times> json_fs" where
  "begin_identity_mutation e root a trace_id later fs =
     (if \<not> valid_idempotency_key (ba_idempotency_key a)
      then (Inl (MutationError ''Idempotency-Key must be 8-128 characters from A-Z, a-z, 0-9, . _ : -''), fs)
      else
        let receipt_id = mutation_receipt_id e (ba_context a) (ba_method a) (ba_path a) (ba_idempotency_key a)
        in case resolve_under e root [receipt_id @ ''.json''] of
          Inl x \<Rightarrow> (Inl x, fs)
        | Inr target \<Rightarrow>
            case (case ba_route_capability a of
                    None \<Rightarrow> Inr ()
                  | Some b \<Rightarrow> require_valid_route_capability_binding e
                      [(''schema'', MUTATION_V2), (''route_capability'', PDict b)]) of
              Inl x \<Rightarrow> (Inl x, fs)
            | Inr _ \<Rightarrow>
                let pending = with_content_hash e (pending_payload e a trace_id receipt_id) in
                case durable_create_json_exclusive e target pending fs of
                  (Inl x, fs') \<Rightarrow> (Inl x, fs')
                | (Inr True, fs') \<Rightarrow>
                    (Inr \<lparr>mc_disposition = Execute, mc_receipt_id = receipt_id,
                          mc_receipt_path = target, mc_payload = pending\<rparr>, fs')
                | (Inr False, fs') \<Rightarrow> (existing_claim e a receipt_id target later, fs'))"

definition bind_authenticated_actor_to_mutation ::
  "mutation_claim option \<Rightarrow> operator_context \<Rightarrow> (string \<times> jdict) option res" where
  "bind_authenticated_actor_to_mutation claim context =
     (case claim of
        None \<Rightarrow> Inr None
      | Some c \<Rightarrow>
          if mc_disposition c \<noteq> Execute \<or> dict_get (mc_payload c) ''state'' \<noteq> PStr ''pending''
          then Inl (MutationError ''authenticated actor requires an executing mutation claim'')
          else if \<not> py_eq (dict_get (mc_payload c) ''actor'') (PDict (receipt_binding context))
          then Inl (MutationError ''mutation claim actor differs from OperatorContext'')
          else Inr (Some (identity_mutation_source_ref (mc_receipt_id c), receipt_binding context)))"

section \<open>Terminal transitions\<close>

definition transition_identity_mutation ::
  "'e io_env_scheme \<Rightarrow> string \<Rightarrow> jdict \<Rightarrow> jdict \<Rightarrow> json_fs \<Rightarrow> unit res \<times> json_fs" where
  "transition_identity_mutation e path expected next_payload fs =
     (case (dict_get expected ''state'' = PStr ''pending'', dict_get expected ''content_sha256'') of
        (True, PStr expected_hash) \<Rightarrow>
          (case durable_compare_and_swap_json e path expected_hash ''pending'' next_payload fs of
             (Inl x, fs') \<Rightarrow> (Inl x, fs')
           | (Inr swapped, fs') \<Rightarrow>
               (if swapped then Inr ()
                else Inl (MutationError ''mutation receipt changed before terminal transition''), fs'))
      | _ \<Rightarrow> (Inl (MutationError ''terminal transition requires an integrity-bound pending receipt''), fs))"

definition response_binding :: "'e io_env_scheme \<Rightarrow> int \<Rightarrow> string option \<Rightarrow> string \<Rightarrow> jdict" where
  "response_binding e status_code content_type body =
     [(''status_code'', PInt status_code), (''content_type'', py_opt content_type),
      (''body_base64'', PStr (b64encode body)), (''body_sha256'', PStr (sha256 e body))]"

definition add_trace :: "string \<Rightarrow> jdict \<Rightarrow> jdict res" where
  "add_trace trace_id request =
     (case dict_get_or request ''trace_ids'' (PList []) of
        PList ids \<Rightarrow> Inr (dict_set request ''trace_ids''
          (PList (if PStr trace_id \<in> set ids then ids else ids @ [PStr trace_id])))
      | _ \<Rightarrow> Inl (TypeError ''list''))"

definition completed_payload ::
  "'e io_env_scheme \<Rightarrow> jdict \<Rightarrow> jdict \<Rightarrow> int \<Rightarrow> string option \<Rightarrow> string \<Rightarrow> jdict" where
  "completed_payload e payload request status_code content_type body =
     with_content_hash e (dict_merge (dict_without payload ''content_sha256'')
       [(''state'', PStr (if status_code < 400 then ''committed'' else ''rejected'')),
        (''completed_at_utc'', PStr (clock e 0)),
        (''previous_content_sha256'', dict_get payload ''content_sha256''),
        (''request'', PDict request),
        (''response'', PDict (response_binding e status_code content_type body))])"

definition complete_identity_mutation ::
  "'e io_env_scheme \<Rightarrow> mutation_claim \<Rightarrow> string \<Rightarrow> int \<Rightarrow> string \<Rightarrow> string option \<Rightarrow> json_fs \<Rightarrow>
   jdict res \<times> json_fs" where
  "complete_identity_mutation e claim trace_id status_code body content_type fs =
     (if mc_disposition claim \<noteq> Execute \<or> dict_get (mc_payload claim) ''state'' \<noteq> PStr ''pending''
      then (Inl (MutationError ''only a newly claimed pending mutation can complete''), fs)
      else case (case dict_get (mc_payload claim) ''request'' of
                   PDict request \<Rightarrow> add_trace trace_id request
                 | _ \<Rightarrow> Inl (if ''request'' \<in> fst ` set (mc_payload claim) then TypeError ''dict''
                            else KeyError ''request'')) of
        Inl x \<Rightarrow> (Inl x, fs)
      | Inr request \<Rightarrow>
          if ''content_sha256'' \<notin> fst ` set (mc_payload claim) then (Inl (KeyError ''content_sha256''), fs)
          else let completed = completed_payload e (mc_payload claim) request status_code content_type body in
            case transition_identity_mutation e (mc_receipt_path claim) (mc_payload claim) completed fs of
              (Inl x, fs') \<Rightarrow> (Inl x, fs')
            | (Inr _, fs') \<Rightarrow> (Inr completed, fs'))"

record reconciliation_args =
  rc_reconciled_by :: string
  rc_reason :: string
  rc_resolver_id :: string
  rc_evidence_refs :: "pyval list"
  rc_domain_effect :: jdict
  rc_status_code :: int
  rc_response_body :: string
  rc_content_type :: string

definition is_text :: "pyval \<Rightarrow> bool" where
  "is_text v = (case v of PStr _ \<Rightarrow> True | _ \<Rightarrow> False)"

definition cleaned_evidence :: "pyval list \<Rightarrow> string list" where
  "cleaned_evidence refs =
     dedupe_by [] (concat (map (\<lambda>v. case v of
       PStr s \<Rightarrow> if py_strip s = [] then [] else [py_strip s] | _ \<Rightarrow> []) refs))"

definition reconciliation_checks :: "'e io_env_scheme \<Rightarrow> jdict \<Rightarrow> reconciliation_args \<Rightarrow> unit res" where
  "reconciliation_checks e expected a =
     rbind (require_valid_content_hash e expected) (\<lambda>_.
       if dict_get expected ''state'' \<noteq> PStr ''pending''
       then Inl (MutationError ''only a pending mutation can be reconciled'')
       else if py_strip (rc_reconciled_by a) = [] \<or> py_strip (rc_reason a) = []
       then Inl (MutationError ''reconciliation requires an operator and written reason'')
       else if py_strip (rc_resolver_id a) = []
       then Inl (MutationError ''reconciliation requires a typed resolver id'')
       else if \<not> (200 \<le> rc_status_code a \<and> rc_status_code a < 300)
       then Inl (MutationError ''applied reconciliation requires a successful canonical response'')
       else if 1048576 < length (rc_response_body a)
       then Inl (MutationError ''canonical reconciliation response exceeds the supported size'')
       else if \<not> starts_with (py_lower (rc_content_type a)) ''application/json''
       then Inl (MutationError ''canonical reconciliation response must be JSON'')
       else if cleaned_evidence (rc_evidence_refs a) = []
       then Inl (MutationError ''reconciliation requires verified domain evidence refs'')
       else if \<not> is_text (dict_get (rc_domain_effect a) ''kind'') \<or>
               \<not> is_text (dict_get (rc_domain_effect a) ''canonical_resource'')
       then Inl (MutationError ''reconciliation domain effect is incomplete'')
       else Inr ())"

definition reconciled_payload :: "'e io_env_scheme \<Rightarrow> jdict \<Rightarrow> reconciliation_args \<Rightarrow> jdict" where
  "reconciled_payload e expected a =
     with_content_hash e (dict_merge (dict_without expected ''content_sha256'')
       [(''state'', PStr ''reconciled_applied''), (''completed_at_utc'', PStr (clock e 0)),
        (''previous_content_sha256'', dict_get expected ''content_sha256''),
        (''response'', PDict (response_binding e (rc_status_code a) (Some (rc_content_type a))
                                (rc_response_body a))),
        (''reconciliation'', PDict
           [(''resolver_id'', PStr (py_strip (rc_resolver_id a))),
            (''response_source'', PStr ''canonical_route_reconstruction''),
            (''reconciled_by'', PStr (py_strip (rc_reconciled_by a))),
            (''reason'', PStr (py_strip (rc_reason a))),
            (''evidence_refs'', PList (map PStr (cleaned_evidence (rc_evidence_refs a)))),
            (''domain_effect'', PDict (rc_domain_effect a))])])"

definition record_verified_identity_mutation_reconciliation ::
  "'e io_env_scheme \<Rightarrow> string \<Rightarrow> jdict \<Rightarrow> reconciliation_args \<Rightarrow> json_fs \<Rightarrow> jdict res \<times> json_fs" where
  "record_verified_identity_mutation_reconciliation e path expected a fs =
     (case reconciliation_checks e expected a of
        Inl x \<Rightarrow> (Inl x, fs)
      | Inr _ \<Rightarrow>
          let reconciled = reconciled_payload e expected a in
          case transition_identity_mutation e path expected reconciled fs of
            (Inl x, fs') \<Rightarrow> (Inl x, fs')
          | (Inr _, fs') \<Rightarrow> (Inr reconciled, fs'))"

section \<open>Replay and plain identity receipts\<close>

definition int_of :: "'e io_env_scheme \<Rightarrow> pyval \<Rightarrow> int option" where
  "int_of e v =
     (case v of
        PInt n \<Rightarrow> Some n | PBool b \<Rightarrow> Some (if b then 1 else 0)
      | PStr _ \<Rightarrow> py_int e v | PFloat _ \<Rightarrow> py_int e v | _ \<Rightarrow> None)"

definition replay_identity_mutation ::
  "'e io_env_scheme \<Rightarrow> jdict \<Rightarrow> (int \<times> string \<times> string option) res" where
  "replay_identity_mutation e payload =
     rbind (require_valid_content_hash e payload) (\<lambda>_.
     case dict_get payload ''response'' of
       PDict response \<Rightarrow>
         (case (case dict_get response ''body_base64'' of PStr s \<Rightarrow> b64decode s | _ \<Rightarrow> None,
                int_of e (dict_get response ''status_code'')) of
            (Some body, Some status_code) \<Rightarrow>
              if dict_get response ''body_sha256'' \<noteq> PStr (sha256 e body)
              then Inl (MutationError ''mutation response body hash mismatch'')
              else Inr (status_code, body,
                        case dict_get response ''content_type'' of PStr t \<Rightarrow> Some t | _ \<Rightarrow> None)
          | _ \<Rightarrow> Inl (MutationError ''mutation response binding is invalid''))
     | _ \<Rightarrow> Inl (MutationError ''completed mutation receipt has no response binding''))"

definition write_identity_receipt ::
  "'e io_env_scheme \<Rightarrow> string \<Rightarrow> operator_context \<Rightarrow> string \<Rightarrow> string \<Rightarrow> string \<Rightarrow> int \<Rightarrow> json_fs \<Rightarrow>
   string res \<times> json_fs" where
  "write_identity_receipt e root context method path trace_id status_code fs =
     (let receipt_id = ''identity_receipt_'' @ uuid_hex e;
          payload = with_content_hash e
            [(''schema'', PStr ''finharness.authenticated_actor_receipt.v1''),
             (''receipt_id'', PStr receipt_id), (''created_at_utc'', PStr (clock e 0)),
             (''request'', PDict [(''method'', PStr method), (''path'', PStr path),
                                (''trace_id'', PStr trace_id)]),
             (''response_status_code'', PInt status_code),
             (''actor'', PDict (receipt_binding context)),
             (''durability'', PStr ''power_loss_durable''),
             (''non_claims'', PList
                [PStr ''Authentication identity is not capital authority.'',
                 PStr ''This receipt does not authorize execution.''])]
      in case resolve_under e root [receipt_id @ ''.json''] of
        Inl x \<Rightarrow> (Inl x, fs)
      | Inr target \<Rightarrow>
          (case durable_atomic_write_json e target payload fs of
             (Inl x, fs') \<Rightarrow> (Inl x, fs') | (Inr _, fs') \<Rightarrow> (Inr target, fs')))"

end
