(* ===== verification/Identity_Claims.thy ===== *)
theory Identity_Claims
  imports Identity_Mutations
begin

text \<open>
  The claims of many processes as one transition system: every call may be interleaved with every
  other and may stop at any fault point.  The invariant ties each executing claim to its receipt
  file, which moves once, from pending to one terminal state.
\<close>

section \<open>Shared library functions\<close>

text \<open>The clock and the faults differ from call to call; digests and path resolution do not.\<close>

definition shares :: "io_env \<Rightarrow> io_env \<Rightarrow> bool" where
  "shares lib e \<longleftrightarrow> sha256 e = sha256 lib \<and> realpath e = realpath lib \<and> py_repr e = py_repr lib"

lemma json_norm_cong: "py_repr e = py_repr e' \<Longrightarrow> json_norm e v = json_norm e' v"
  by (induction v) (auto simp: snds.simps intro!: arg_cong [where f = "sort_key fst"])

lemma shares_json:
  assumes "shares lib e"
  shows "json_norm e = json_norm lib" and "json_object e = json_object lib"
    and "canonical_json_sha256 e = canonical_json_sha256 lib"
    and "content_hash_ok e = content_hash_ok lib" and "with_content_hash e = with_content_hash lib"
proof -
  show norm: "json_norm e = json_norm lib"
    using assms json_norm_cong by (auto simp: shares_def fun_eq_iff)
  then show "json_object e = json_object lib" by (intro ext) (simp only: json_object_def)
  show sha: "canonical_json_sha256 e = canonical_json_sha256 lib"
    using assms by (intro ext) (simp only: canonical_json_sha256_def canonical_json_def norm shares_def)
  show "content_hash_ok e = content_hash_ok lib" using sha by (simp add: content_hash_ok_def fun_eq_iff)
  show "with_content_hash e = with_content_hash lib" using sha by (simp add: with_content_hash_def fun_eq_iff)
qed

lemma shares_names:
  assumes "shares lib e"
  shows "request_binding e = request_binding lib"
    and "mutation_receipt_id e = mutation_receipt_id lib" and "resolve_under e = resolve_under lib"
    and "require_valid_route_capability_binding e = require_valid_route_capability_binding lib"
  using assms [unfolded shares_def]
  by (intro ext, simp only: request_binding_def mutation_receipt_id_def resolve_under_def
      require_valid_route_capability_binding_def capability_ok_def shares_json [OF assms])+

lemma shares_load:
  assumes "shares lib e"
  shows "load_identity_mutation_receipt e = load_identity_mutation_receipt lib"
  by (intro ext) (simp only: load_identity_mutation_receipt_def require_valid_content_hash_def
      shares_json [OF assms] shares_names [OF assms])

section \<open>One transition\<close>

lemma content_hash_with:
  "''content_sha256'' \<notin> fst ` set p \<Longrightarrow> content_hash_ok e (with_content_hash e p)"
  by (simp add: content_hash_ok_def with_content_hash_def dict_without_set_fresh)

lemma transition_cases:
  assumes "transition_identity_mutation e path E N fs = (r, fs')"
  shows "fs' = fs \<and> r \<noteq> Inr () \<or>
    (\<exists>d. fs path = Some (JsonObject d) \<and> dict_get d ''state'' = PStr ''pending'' \<and>
       content_hash_ok e d \<and> dict_get E ''content_sha256'' = dict_get d ''content_sha256'' \<and>
       dict_get E ''state'' = PStr ''pending'' \<and>
       fs' = fs(path \<mapsto> JsonObject (json_object e N)))"
proof (cases "dict_get E ''state'' = PStr ''pending'' \<and> (\<exists>h. dict_get E ''content_sha256'' = PStr h)")
  case True
  then obtain h where h: "dict_get E ''content_sha256'' = PStr h" and E: "dict_get E ''state'' = PStr ''pending''"
    by blast
  obtain q gs where sw: "durable_compare_and_swap_json e path h ''pending'' N fs = (q, gs)"
    by (rule prod.exhaust)
  from assms sw h E have res: "fs' = gs" "q \<noteq> Inr True \<Longrightarrow> r \<noteq> Inr ()"
    by (auto simp: transition_identity_mutation_def split: sum.splits if_splits)
  from swap_cases [OF sw] show ?thesis
  proof (elim disjE exE)
    assume "gs = fs \<and> q \<noteq> Inr True"
    with res show ?thesis by simp
  next
    fix d
    assume "fs path = Some (JsonObject d) \<and> content_hash_ok e d \<and>
       dict_get d ''content_sha256'' = PStr h \<and> dict_get d ''state'' = PStr ''pending'' \<and>
       content_hash_ok e N \<and> gs = fs(path \<mapsto> JsonObject (json_object e N)) \<and> q \<noteq> Inr False"
    with res h E show ?thesis by simp
  qed
next
  case False
  with assms show ?thesis
    by (auto simp: transition_identity_mutation_def split: bool.splits pyval.splits)
qed

definition terminal_state :: "pyval \<Rightarrow> bool" where
  "terminal_state s \<longleftrightarrow> s \<in> PStr ` {''committed'', ''rejected'', ''reconciled_applied''}"

lemma terminal_not_pending [simp]: "terminal_state s \<Longrightarrow> s \<noteq> PStr ''pending''"
  by (auto simp: terminal_state_def)

text \<open>
  What a receipt may become: itself, or a terminal receipt that names its hash and keeps the schema,
  the actor, the route capability and the request up to its trace list.
\<close>

definition KEPT_FIELDS :: "string list" where
  "KEPT_FIELDS = [''schema'', ''receipt_id'', ''created_at_utc'', ''route_capability'', ''actor'']"

definition closed_from :: "io_env \<Rightarrow> jdict \<Rightarrow> jdict \<Rightarrow> bool" where
  "closed_from lib d d' \<longleftrightarrow>
     dict_get d ''state'' = PStr ''pending'' \<and> terminal_state (dict_get d' ''state'') \<and>
     dict_get d' ''previous_content_sha256'' = json_norm lib (dict_get d ''content_sha256'') \<and>
     content_hash_ok lib d' \<and>
     (\<forall>k\<in>set KEPT_FIELDS. dict_get d' k = json_norm lib (dict_get d k) \<and>
        (k \<in> fst ` set d' \<longleftrightarrow> k \<in> fst ` set d)) \<and>
     (\<forall>r. dict_get d ''request'' = PDict r \<longrightarrow>
        (\<exists>r'. dict_get d' ''request'' = PDict r' \<and>
           (\<forall>k. k \<noteq> ''trace_ids'' \<longrightarrow> dict_get r' k = json_norm lib (dict_get r k))))"

lemma shares_closed: "shares lib e \<Longrightarrow> closed_from e = closed_from lib"
  by (intro ext) (simp only: closed_from_def shares_json)

lemma dict_keys_merge: "fst ` set (dict_merge d kvs) = fst ` set d \<union> fst ` set kvs"
proof (induction kvs arbitrary: d)
  case (Cons kv kvs)
  then show ?case by (cases kv) (simp add: dict_keys_set)
qed simp


text \<open>Both terminal writers extend the expected payload and rehash it.\<close>

definition closing :: "jdict \<Rightarrow> jdict \<Rightarrow> bool" where
  "closing E kvs \<longleftrightarrow>
     set KEPT_FIELDS \<inter> fst ` set kvs = {} \<and> ''content_sha256'' \<notin> fst ` set kvs \<and>
     terminal_state (dict_get (dict_merge (dict_without E ''content_sha256'') kvs) ''state'') \<and>
     dict_get (dict_merge (dict_without E ''content_sha256'') kvs) ''previous_content_sha256'' =
       dict_get E ''content_sha256'' \<and>
     (\<forall>r. dict_get E ''request'' = PDict r \<longrightarrow>
        (\<exists>r'. dict_get (dict_merge (dict_without E ''content_sha256'') kvs) ''request'' = PDict r' \<and>
           (\<forall>k. k \<noteq> ''trace_ids'' \<longrightarrow> dict_get r' k = dict_get r k)))"

lemma dict_get_merge_other: "k \<notin> fst ` set kvs \<Longrightarrow> dict_get (dict_merge d kvs) k = dict_get d k"
  by (induction kvs arbitrary: d) auto

lemma content_not_kept: "''content_sha256'' \<notin> set KEPT_FIELDS"
  by (simp add: KEPT_FIELDS_def)

lemma closing_closed:
  assumes E: "dict_get E ''state'' = PStr ''pending''" and c: "closing E kvs"
  shows "closed_from lib E
    (json_object lib (with_content_hash lib (dict_merge (dict_without E ''content_sha256'') kvs)))"
proof -
  let ?base = "dict_merge (dict_without E ''content_sha256'') kvs"
  let ?N = "with_content_hash lib ?base"
  have fresh: "''content_sha256'' \<notin> fst ` set ?base"
    using c by (simp add: closing_def dict_keys_merge dict_keys_without)
  have get: "dict_get ?N k = dict_get ?base k" if "k \<noteq> ''content_sha256''" for k
    using that by (simp add: with_content_hash_def)
  have "terminal_state (dict_get (json_object lib ?N) ''state'')"
    using c by (auto simp: dict_get_json_object get closing_def terminal_state_def)
  moreover have "dict_get (json_object lib ?N) ''previous_content_sha256'' =
      json_norm lib (dict_get E ''content_sha256'')"
    using c by (simp add: dict_get_json_object get closing_def)
  moreover have "content_hash_ok lib (json_object lib ?N)"
    by (rule content_hash_written [OF content_hash_with [OF fresh]])
  moreover have "dict_get (json_object lib ?N) k = json_norm lib (dict_get E k)"
      "k \<in> fst ` set (json_object lib ?N) \<longleftrightarrow> k \<in> fst ` set E" if k: "k \<in> set KEPT_FIELDS" for k
  proof -
    have ne: "k \<noteq> ''content_sha256''" using k content_not_kept by blast
    have other: "k \<notin> fst ` set kvs" using k c unfolding closing_def by blast
    show "dict_get (json_object lib ?N) k = json_norm lib (dict_get E k)"
      using ne other by (simp add: dict_get_json_object get dict_get_merge_other)
    show "k \<in> fst ` set (json_object lib ?N) \<longleftrightarrow> k \<in> fst ` set E"
      using ne other by (simp add: with_content_hash_def dict_keys_set dict_keys_merge dict_keys_without)
  qed
  moreover have "\<exists>r'. dict_get (json_object lib ?N) ''request'' = PDict r' \<and>
      (\<forall>k. k \<noteq> ''trace_ids'' \<longrightarrow> dict_get r' k = json_norm lib (dict_get r k))"
    if r: "dict_get E ''request'' = PDict r" for r
  proof -
    obtain r' where "dict_get ?base ''request'' = PDict r'"
        "\<forall>k. k \<noteq> ''trace_ids'' \<longrightarrow> dict_get r' k = dict_get r k"
      using c r unfolding closing_def by blast
    then show ?thesis by (simp add: dict_get_json_object get json_object_PDict del: json_norm.simps)
  qed
  ultimately show ?thesis using E unfolding closed_from_def by blast
qed

lemma completed_closed:
  assumes "dict_get E ''state'' = PStr ''pending''"
    and "dict_get E ''request'' = PDict r" and "add_trace tr r = Inr request"
  shows "closed_from lib E (json_object lib (completed_payload lib E request st ct body))"
  unfolding completed_payload_def
proof (rule closing_closed [OF assms(1)])
  have "dict_get request k = dict_get r k" if "k \<noteq> ''trace_ids''" for k
    using assms(3) that by (auto simp: add_trace_def split: pyval.splits)
  with assms(2) show "closing E
     [(''state'', PStr (if st < 400 then ''committed'' else ''rejected'')),
      (''completed_at_utc'', PStr (clock lib 0)),
      (''previous_content_sha256'', dict_get E ''content_sha256''), (''request'', PDict request),
      (''response'', PDict (response_binding lib st ct body))]"
    by (auto simp: closing_def KEPT_FIELDS_def terminal_state_def)
qed

lemma reconciled_closed:
  assumes "dict_get E ''state'' = PStr ''pending''"
  shows "closed_from lib E (json_object lib (reconciled_payload lib E a))"
  unfolding reconciled_payload_def
  by (rule closing_closed [OF assms]) (simp add: closing_def KEPT_FIELDS_def terminal_state_def)

section \<open>The system of claims\<close>

record mutation_world =
  mw_files :: json_fs
  mw_claims :: "mutation_claim set"
  mw_loaded :: "(string \<times> jdict) set"

text \<open>
  Claims come from \<^verbatim>\<open>begin\<close>, the payload a reconciliation expects comes from a load, and a plain identity
  receipt goes to a path of its own (its name is a fresh \<^verbatim>\<open>uuid4\<close>).
\<close>

inductive mutation_step :: "io_env \<Rightarrow> mutation_world \<Rightarrow> mutation_world \<Rightarrow> bool" for lib :: io_env where
  step_begin:
    "shares lib e \<Longrightarrow> begin_identity_mutation e root a trace_id later (mw_files w) = (r, fs') \<Longrightarrow>
     mutation_step lib w (w\<lparr>mw_files := fs',
       mw_claims := (case r of Inl _ \<Rightarrow> mw_claims w | Inr c \<Rightarrow> insert c (mw_claims w))\<rparr>)"
| step_load:
    "shares lib e \<Longrightarrow> load_identity_mutation_receipt e path (mw_files w) = Inr d \<Longrightarrow>
     mutation_step lib w (w\<lparr>mw_loaded := insert (path, d) (mw_loaded w)\<rparr>)"
| step_complete:
    "shares lib e \<Longrightarrow> claim \<in> mw_claims w \<Longrightarrow>
     complete_identity_mutation e claim trace_id status_code body content_type (mw_files w) = (q, fs') \<Longrightarrow>
     mutation_step lib w (w\<lparr>mw_files := fs'\<rparr>)"
| step_reconcile:
    "shares lib e \<Longrightarrow> (path, d) \<in> mw_loaded w \<Longrightarrow>
     record_verified_identity_mutation_reconciliation e path d ra (mw_files w) = (q, fs') \<Longrightarrow>
     mutation_step lib w (w\<lparr>mw_files := fs'\<rparr>)"
| step_identity_receipt:
    "shares lib e \<Longrightarrow>
     write_identity_receipt e root context method path trace_id status_code (mw_files w) = (t, fs') \<Longrightarrow>
     (\<And>target. resolve_under e root [''identity_receipt_'' @ uuid_hex e @ ''.json''] = Inr target \<Longrightarrow>
        mw_files w target = None) \<Longrightarrow>
     mutation_step lib w (w\<lparr>mw_files := fs'\<rparr>)"

definition mutation_start :: "mutation_world \<Rightarrow> bool" where
  "mutation_start w \<longleftrightarrow> mw_claims w = {} \<and> mw_loaded w = {}"

definition held :: "io_env \<Rightarrow> json_fs \<Rightarrow> string \<Rightarrow> jdict \<Rightarrow> bool" where
  "held lib fs p d \<longleftrightarrow>
     fs p = Some (JsonObject d) \<or> (\<exists>d'. fs p = Some (JsonObject d') \<and> closed_from lib d d')"

definition claims_inv :: "io_env \<Rightarrow> mutation_world \<Rightarrow> bool" where
  "claims_inv lib w \<longleftrightarrow>
     (\<forall>c\<in>mw_claims w. mc_disposition c = Execute \<longrightarrow>
        held lib (mw_files w) (mc_receipt_path c) (json_object lib (mc_payload c))) \<and>
     (\<forall>(p, d)\<in>mw_loaded w. dict_get d ''state'' = PStr ''pending'' \<longrightarrow> held lib (mw_files w) p d)"

text \<open>How one file may move in one step.\<close>

definition file_move :: "io_env \<Rightarrow> json_file option \<Rightarrow> json_file option \<Rightarrow> bool" where
  "file_move lib x y \<longleftrightarrow>
     y = x \<or> x = None \<or>
     (\<exists>d d'. x = Some (JsonObject d) \<and> y = Some (JsonObject d') \<and> closed_from lib d d')"

lemma file_move_refl [simp]: "file_move lib x x"
  by (simp add: file_move_def)

lemma file_move_closed:
  "fs q = Some (JsonObject d) \<Longrightarrow> closed_from lib d d' \<Longrightarrow>
   file_move lib (fs p) ((fs(q \<mapsto> JsonObject d')) p)"
  by (simp add: file_move_def)

lemma file_move_new: "fs q = None \<Longrightarrow> file_move lib (fs p) ((fs(q \<mapsto> f)) p)"
  by (simp add: file_move_def)

lemma closed_from_states:
  "closed_from lib d d' \<Longrightarrow> dict_get d ''state'' = PStr ''pending''"
  "closed_from lib d d' \<Longrightarrow> dict_get d' ''state'' \<noteq> PStr ''pending''"
  using terminal_not_pending unfolding closed_from_def by blast+

lemma json_norm_PDictD: "json_norm e v = PDict r \<Longrightarrow> \<exists>r0. v = PDict r0 \<and> r = json_object e r0"
  by (cases v) (auto simp: json_object_def)

lemma closed_from_written: "closed_from lib E d \<Longrightarrow> closed_from lib (json_object lib E) d"
  unfolding closed_from_def dict_get_json_object
  by (auto simp: dict_get_json_object dest!: json_norm_PDictD)

lemma held_move:
  assumes "held lib fs p d" and "file_move lib (fs p) (fs' p)"
  shows "held lib fs' p d"
proof (cases "fs' p = fs p")
  case True
  with assms(1) show ?thesis by (simp add: held_def)
next
  case False
  with assms obtain c c' where c: "fs p = Some (JsonObject c)" "fs' p = Some (JsonObject c')" "closed_from lib c c'"
    by (auto simp: file_move_def held_def)
  with assms(1) have "c = d" using closed_from_states unfolding held_def by fastforce
  with c show ?thesis by (simp add: held_def)
qed

definition existing_disposition :: "io_env \<Rightarrow> begin_args \<Rightarrow> jdict \<Rightarrow> jdict \<Rightarrow> claim_disposition" where
  "existing_disposition e a d r =
     (if \<not> same_request e a d r then Conflict
      else if dict_get d ''state'' = PStr ''pending'' then Ambiguous else Replay)"

lemma existing_claim_eq:
  assumes "load_identity_mutation_receipt e target fs = Inr d"
    and "dict_get_or d ''request'' (PDict []) = PDict r"
    and "dict_get d ''state'' = PStr ''pending'' \<or> terminal_state (dict_get d ''state'')"
  shows "existing_claim e a rid target fs =
    Inr \<lparr>mc_disposition = existing_disposition e a d r, mc_receipt_id = rid, mc_receipt_path = target,
         mc_payload = d\<rparr>"
  using assms by (auto simp: existing_claim_def existing_disposition_def terminal_state_def Let_def)

lemma existing_claim_no_execute:
  assumes "existing_claim e a rid target fs = Inr c"
  shows "mc_disposition c \<noteq> Execute"
proof -
  obtain d where d: "load_identity_mutation_receipt e target fs = Inr d"
    using assms by (auto simp: existing_claim_def rbind_Inr_iff)
  show ?thesis
    using assms d by (cases "dict_get_or d ''request'' (PDict [])")
      (auto simp: existing_claim_def Let_def split: if_splits)
qed

lemma begin_cases:
  assumes "begin_identity_mutation e root a trace_id later fs = (r, fs')"
  defines "rid \<equiv> mutation_receipt_id e (ba_context a) (ba_method a) (ba_path a) (ba_idempotency_key a)"
  defines "P \<equiv> with_content_hash e (pending_payload e a trace_id rid)"
  shows "fs' = fs \<and> (\<forall>c. r = Inr c \<longrightarrow> mc_disposition c \<noteq> Execute) \<or>
    (\<exists>target. resolve_under e root [rid @ ''.json''] = Inr target \<and> fs target = None \<and>
       fs' = fs(target \<mapsto> JsonObject (json_object e P)) \<and>
       (\<forall>c. r = Inr c \<longrightarrow> c = \<lparr>mc_disposition = Execute, mc_receipt_id = rid, mc_receipt_path = target,
                              mc_payload = P\<rparr>))"
proof (cases "\<exists>target. valid_idempotency_key (ba_idempotency_key a) \<and>
    resolve_under e root [rid @ ''.json''] = Inr target \<and>
    (\<forall>b. ba_route_capability a = Some b \<longrightarrow>
       require_valid_route_capability_binding e [(''schema'', MUTATION_V2), (''route_capability'', PDict b)] = Inr ())")
  case False
  with assms show ?thesis
    by (auto simp: begin_identity_mutation_def Let_def split: if_splits sum.splits option.splits)
next
  case True
  then obtain target where t: "valid_idempotency_key (ba_idempotency_key a)"
      "resolve_under e root [rid @ ''.json''] = Inr target"
      "\<forall>b. ba_route_capability a = Some b \<longrightarrow>
        require_valid_route_capability_binding e [(''schema'', MUTATION_V2), (''route_capability'', PDict b)] = Inr ()"
    by blast
  obtain q gs where cr: "durable_create_json_exclusive e target P fs = (q, gs)" by (rule prod.exhaust)
  from t cr have eq: "begin_identity_mutation e root a trace_id later fs =
      (case q of Inl x \<Rightarrow> Inl x
       | Inr new \<Rightarrow> if new then Inr \<lparr>mc_disposition = Execute, mc_receipt_id = rid, mc_receipt_path = target,
                              mc_payload = P\<rparr>
                   else existing_claim e a rid target later, gs)"
    by (auto simp: begin_identity_mutation_def rid_def P_def Let_def split: option.splits sum.splits bool.splits)
  from create_exclusive_cases [OF cr] show ?thesis
  proof (elim disjE conjE)
    assume "gs = fs" "q \<noteq> Inr True"
    with eq assms(1) have "fs' = fs" "r = Inr c \<Longrightarrow> mc_disposition c \<noteq> Execute" for c
      by (auto split: sum.splits if_splits dest: existing_claim_no_execute [OF sym])
    then show ?thesis by blast
  next
    assume "fs target = None" "gs = fs(target \<mapsto> JsonObject (json_object e P))" "q \<noteq> Inr False"
    with eq assms(1) t(2) show ?thesis by (auto split: sum.splits if_splits)
  qed
qed

lemma complete_outcome:
  assumes run: "complete_identity_mutation e c tr st body ct fs = (q, fs')"
  obtains (refused) "fs' = fs" and "isl q"
    | (tried) r request u where "mc_disposition c = Execute"
        and "dict_get (mc_payload c) ''state'' = PStr ''pending''"
        and "dict_get (mc_payload c) ''request'' = PDict r" and "add_trace tr r = Inr request"
        and "transition_identity_mutation e (mc_receipt_path c) (mc_payload c)
               (completed_payload e (mc_payload c) request st ct body) fs = (u, fs')"
        and "q = (case u of Inl x \<Rightarrow> Inl x
               | Inr _ \<Rightarrow> Inr (completed_payload e (mc_payload c) request st ct body))"
proof (cases "mc_disposition c = Execute \<and> dict_get (mc_payload c) ''state'' = PStr ''pending'' \<and>
    (\<exists>r request. dict_get (mc_payload c) ''request'' = PDict r \<and> add_trace tr r = Inr request) \<and>
    ''content_sha256'' \<in> fst ` set (mc_payload c)")
  case False
  with run have "fs' = fs \<and> isl q"
    by (auto simp: complete_identity_mutation_def split: if_splits sum.splits pyval.splits)
  with refused show thesis by blast
next
  case True
  then obtain r request where pre: "mc_disposition c = Execute"
      "dict_get (mc_payload c) ''state'' = PStr ''pending''"
      "dict_get (mc_payload c) ''request'' = PDict r" "add_trace tr r = Inr request"
      "''content_sha256'' \<in> fst ` set (mc_payload c)"
    by blast
  obtain u gs where tr: "transition_identity_mutation e (mc_receipt_path c) (mc_payload c)
      (completed_payload e (mc_payload c) request st ct body) fs = (u, gs)"
    by (rule prod.exhaust)
  with run pre have "fs' = gs" "q = (case u of Inl x \<Rightarrow> Inl x
      | Inr _ \<Rightarrow> Inr (completed_payload e (mc_payload c) request st ct body))"
    by (auto simp: complete_identity_mutation_def Let_def split: sum.splits)
  with tried [OF pre(1-4)] tr show thesis by blast
qed

lemma reconcile_outcome:
  assumes run: "record_verified_identity_mutation_reconciliation e path E a fs = (q, fs')"
  obtains (refused) "fs' = fs" and "isl q"
    | (tried) u where "transition_identity_mutation e path E (reconciled_payload e E a) fs = (u, fs')"
        and "q = (case u of Inl x \<Rightarrow> Inl x | Inr _ \<Rightarrow> Inr (reconciled_payload e E a))"
proof (cases "reconciliation_checks e E a")
  case (Inl x)
  with run refused show thesis by (auto simp: record_verified_identity_mutation_reconciliation_def)
next
  case (Inr v)
  obtain u gs where "transition_identity_mutation e path E (reconciled_payload e E a) fs = (u, gs)"
    by (rule prod.exhaust)
  with run Inr tried show thesis
    by (auto simp: record_verified_identity_mutation_reconciliation_def Let_def split: sum.splits)
qed

lemma complete_move:
  assumes sh: "shares lib e" and c: "claim \<in> mw_claims w" and inv: "claims_inv lib w"
    and run: "complete_identity_mutation e claim tr st body ct (mw_files w) = (q, fs')"
  shows "fs' = mw_files w \<or>
    (\<exists>d d'. fs' = (mw_files w)(mc_receipt_path claim \<mapsto> JsonObject d') \<and>
       mw_files w (mc_receipt_path claim) = Some (JsonObject d) \<and> closed_from lib d d')"
  using run
proof (cases rule: complete_outcome)
  case (tried r request u)
  let ?E = "mc_payload claim" and ?p = "mc_receipt_path claim"
  let ?N = "completed_payload e ?E request st ct body"
  from transition_cases [OF tried(5)] show ?thesis
  proof (elim disjE exE conjE)
    fix d
    assume d: "mw_files w ?p = Some (JsonObject d)" "dict_get d ''state'' = PStr ''pending''"
      "fs' = (mw_files w)(?p \<mapsto> JsonObject (json_object e ?N))"
    have "held lib (mw_files w) ?p (json_object lib ?E)"
      using inv c tried(1) by (simp add: claims_inv_def)
    with d have cur: "d = json_object lib ?E"
      using closed_from_states(2) unfolding held_def by fastforce
    have "closed_from e ?E (json_object e ?N)" using tried(2-4) by (rule completed_closed)
    then have "closed_from lib d (json_object e ?N)"
      unfolding shares_closed [OF sh] cur by (rule closed_from_written)
    with d show ?thesis by blast
  qed simp
qed simp

lemma reconcile_move:
  assumes sh: "shares lib e" and l: "(path, E) \<in> mw_loaded w" and inv: "claims_inv lib w"
    and run: "record_verified_identity_mutation_reconciliation e path E a (mw_files w) = (q, fs')"
  shows "fs' = mw_files w \<or>
    (\<exists>N. fs' = (mw_files w)(path \<mapsto> JsonObject N) \<and> mw_files w path = Some (JsonObject E) \<and>
       closed_from lib E N)"
  using run
proof (cases rule: reconcile_outcome)
  case (tried u)
  let ?N = "reconciled_payload e E a"
  from transition_cases [OF tried(1)] show ?thesis
  proof (elim disjE exE conjE)
    fix d
    assume d: "mw_files w path = Some (JsonObject d)" "dict_get d ''state'' = PStr ''pending''"
      "dict_get E ''state'' = PStr ''pending''"
      "fs' = (mw_files w)(path \<mapsto> JsonObject (json_object e ?N))"
    have "held lib (mw_files w) path E" using inv l d(3) by (auto simp: claims_inv_def)
    with d have "d = E" using closed_from_states(2) unfolding held_def by fastforce
    moreover have "closed_from e E (json_object e ?N)" using d(3) by (rule reconciled_closed)
    then have "closed_from lib E (json_object e ?N)" unfolding shares_closed [OF sh] .
    ultimately show ?thesis using d by blast
  qed simp
qed simp

lemma mutation_step_move:
  assumes "mutation_step lib w w'" and inv: "claims_inv lib w"
  shows "file_move lib (mw_files w p) (mw_files w' p)"
  using assms(1)
proof cases
  case (step_begin e root a trace_id later r fs')
  from begin_cases [OF step_begin(3)] have "file_move lib (mw_files w p) (fs' p)"
    by (elim disjE exE conjE) (simp_all only: file_move_new file_move_refl)
  with step_begin(1) show ?thesis by simp
next
  case (step_complete e claim trace_id status_code body content_type q fs')
  from complete_move [OF step_complete(2,3) inv step_complete(4)]
  have "file_move lib (mw_files w p) (fs' p)"
    by (elim disjE exE conjE) (simp_all only: file_move_closed file_move_refl)
  with step_complete(1) show ?thesis by simp
next
  case (step_reconcile e path d ra q fs')
  from reconcile_move [OF step_reconcile(2,3) inv step_reconcile(4)]
  have "file_move lib (mw_files w p) (fs' p)"
    by (elim disjE exE conjE) (simp_all only: file_move_closed file_move_refl)
  with step_reconcile(1) show ?thesis by simp
next
  case (step_identity_receipt e root ctx meth path trace_id status_code t fs')
  show ?thesis
  proof (cases "resolve_under e root [''identity_receipt_'' @ uuid_hex e @ ''.json'']")
    case (Inr target)
    with step_identity_receipt(3) have "fs' = mw_files w \<or> (\<exists>f. fs' = (mw_files w)(target \<mapsto> f))"
      by (auto simp: write_identity_receipt_def durable_atomic_write_json_def Let_def split: if_splits)
    then have "file_move lib (mw_files w p) (fs' p)"
      using step_identity_receipt(4) [OF Inr]
      by (elim disjE exE) (simp_all only: file_move_new file_move_refl)
    with step_identity_receipt(1) show ?thesis by simp
  qed (use step_identity_receipt in \<open>auto simp: write_identity_receipt_def Let_def\<close>)
qed simp

lemma claims_inv_step:
  assumes step: "mutation_step lib w w'" and inv: "claims_inv lib w"
  shows "claims_inv lib w'"
proof -
  have keep: "held lib (mw_files w) p d \<Longrightarrow> held lib (mw_files w') p d" for p d
    using held_move mutation_step_move [OF step inv] by blast
  have old_claims: "held lib (mw_files w') (mc_receipt_path c) (json_object lib (mc_payload c))"
    if "c \<in> mw_claims w" "mc_disposition c = Execute" for c
    using that inv keep by (simp add: claims_inv_def)
  have old_loaded: "held lib (mw_files w') p d"
    if "(p, d) \<in> mw_loaded w" "dict_get d ''state'' = PStr ''pending''" for p d
    using that inv keep by (auto simp: claims_inv_def)
  from step show ?thesis
  proof cases
    case (step_begin e root a trace_id later r fs')
    have "held lib fs' (mc_receipt_path c) (json_object lib (mc_payload c))"
      if "r = Inr c" "mc_disposition c = Execute" for c
      using begin_cases [OF step_begin(3)] that
      by (auto simp: held_def shares_json [OF step_begin(2)])
    with step_begin(1) old_claims old_loaded show ?thesis
      by (auto simp: claims_inv_def split: sum.splits)
  next
    case (step_load e path d)
    then have "mw_files w path = Some (JsonObject d)"
      by (auto simp: load_identity_mutation_receipt_def rbind_Inr_iff split: option.splits json_file.splits)
    with step_load(1) old_claims old_loaded show ?thesis by (auto simp: claims_inv_def held_def)
  qed (use old_claims old_loaded in \<open>auto simp: claims_inv_def\<close>)
qed

interpretation claims: guarded_system mutation_start "mutation_step lib" "claims_inv lib" for lib
proof
  show "claims_inv lib w" if "mutation_start w" for w
    using that by (simp add: mutation_start_def claims_inv_def)
qed (rule claims_inv_step)

lemma steps_inv: "(mutation_step lib)\<^sup>*\<^sup>* w w' \<Longrightarrow> claims_inv lib w \<Longrightarrow> claims_inv lib w'"
  by (induction rule: rtranclp_induct) (auto intro: claims_inv_step)

lemma steps_held:
  assumes "(mutation_step lib)\<^sup>*\<^sup>* w w'" and "claims_inv lib w" and "held lib (mw_files w) p d"
  shows "held lib (mw_files w') p d"
  using assms
proof (induction rule: rtranclp_induct)
  case (step u v)
  then have "claims_inv lib u" using steps_inv by blast
  with step show ?case using held_move mutation_step_move by blast
qed

lemma steps_final:
  assumes "(mutation_step lib)\<^sup>*\<^sup>* w w'" and "claims_inv lib w"
    and "mw_files w p = Some f" and "\<And>d. f = JsonObject d \<Longrightarrow> dict_get d ''state'' \<noteq> PStr ''pending''"
  shows "mw_files w' p = Some f"
  using assms
proof (induction rule: rtranclp_induct)
  case (step u v)
  then have f: "mw_files u p = Some f" and "claims_inv lib u" using steps_inv by blast+
  with step have "file_move lib (Some f) (mw_files v p)" using mutation_step_move [of lib u v p] by simp
  with step.prems(3) show ?case using closed_from_states(1) by (auto simp: file_move_def)
qed

lemma steps_present:
  assumes "(mutation_step lib)\<^sup>*\<^sup>* w w'" and "claims_inv lib w" and "mw_files w p \<noteq> None"
  shows "mw_files w' p \<noteq> None"
  using assms
proof (induction rule: rtranclp_induct)
  case (step u v)
  then have "mw_files u p \<noteq> None" and "claims_inv lib u" using steps_inv by blast+
  with step(2) show ?case using mutation_step_move [of lib u v p] by (auto simp: file_move_def)
qed

lemma steps_claims:
  assumes "(mutation_step lib)\<^sup>*\<^sup>* w w'"
  shows "mw_claims w \<subseteq> mw_claims w'"
  using assms
proof (induction rule: rtranclp_induct)
  case (step u v)
  from step(2) have "mw_claims u \<subseteq> mw_claims v" by cases (auto split: sum.splits)
  with step(3) show ?case by blast
qed simp

end
