(* ===== verification/Identity_Properties.thy ===== *)
theory Identity_Properties
  imports Identity_Claims
begin

text \<open>
  What the idempotent mutation receipts guarantee: one execution per key, one terminal transition,
  a faithful replay, a decision table for retries, and the browser binding.
\<close>

section \<open>Keys and requests\<close>

definition same_mutation_key :: "begin_args \<Rightarrow> begin_args \<Rightarrow> bool" where
  "same_mutation_key a b \<longleftrightarrow>
     pi_principal_id (oc_principal (ba_context a)) = pi_principal_id (oc_principal (ba_context b)) \<and>
     map_option ar_agent_runtime_id (oc_agent_runtime (ba_context a)) =
       map_option ar_agent_runtime_id (oc_agent_runtime (ba_context b)) \<and>
     py_upper (ba_method a) = py_upper (ba_method b) \<and> ba_path a = ba_path b \<and>
     ba_idempotency_key a = ba_idempotency_key b"

text \<open>A receipt of the first schema names no capability, and a retry is not asked for one.\<close>

definition same_mutation_request :: "begin_args \<Rightarrow> begin_args \<Rightarrow> bool" where
  "same_mutation_request a b \<longleftrightarrow>
     ba_request_target a = ba_request_target b \<and> ba_body_sha256 a = ba_body_sha256 b \<and>
     py_eq (PDict (normalized_headers (ba_semantic_headers a)))
       (PDict (normalized_headers (ba_semantic_headers b))) \<and>
     (case ba_route_capability a of
        None \<Rightarrow> True
      | Some x \<Rightarrow> py_eq (PDict x) (case ba_route_capability b of None \<Rightarrow> PNone | Some y \<Rightarrow> PDict y))"

definition capability_accepted :: "io_env \<Rightarrow> begin_args \<Rightarrow> bool" where
  "capability_accepted lib a \<longleftrightarrow>
     (case ba_route_capability a of
        None \<Rightarrow> True
      | Some b \<Rightarrow> json_plain (PDict b) \<and> fst ` set b = set ROUTE_CAPABILITY_BINDING_FIELDS \<and>
                  capability_ok lib b)"

definition quiet :: "io_env \<Rightarrow> bool" where
  "quiet e \<longleftrightarrow> \<not> (io_fault e EnsureDirectory \<or> io_fault e TempWrite \<or> io_fault e LinkTarget \<or>
     io_fault e SyncAfterLink \<or> removal_fails e)"

lemma same_key_receipt:
  assumes "same_mutation_key a b"
  shows "mutation_receipt_id e (ba_context a) (ba_method a) (ba_path a) (ba_idempotency_key a) =
         mutation_receipt_id e (ba_context b) (ba_method b) (ba_path b) (ba_idempotency_key b)"
  using assms
  by (cases "oc_agent_runtime (ba_context a)"; cases "oc_agent_runtime (ba_context b)")
     (simp_all add: mutation_receipt_id_def same_mutation_key_def)

section \<open>What a receipt remembers of its request\<close>

definition origin :: "io_env \<Rightarrow> begin_args \<Rightarrow> jdict \<Rightarrow> bool" where
  "origin lib a d \<longleftrightarrow>
     content_hash_ok lib d \<and>
     (dict_get d ''state'' = PStr ''pending'' \<or> terminal_state (dict_get d ''state'')) \<and>
     dict_get d ''schema'' = (if ba_route_capability a = None then MUTATION_V1 else MUTATION_V2) \<and>
     (''route_capability'' \<in> fst ` set d \<longleftrightarrow> ba_route_capability a \<noteq> None) \<and>
     dict_get d ''route_capability'' =
       (case ba_route_capability a of None \<Rightarrow> PNone | Some b \<Rightarrow> PDict (json_object lib b)) \<and>
     (\<exists>r. dict_get d ''request'' = PDict r \<and>
        (\<forall>(k, v)\<in>set (request_binding lib a). dict_get r k = json_norm lib v))"

lemma pending_origin:
  assumes "shares lib e"
  shows "origin lib a (json_object lib (with_content_hash e (pending_payload e a tr rid)))"
proof -
  let ?P = "pending_payload e a tr rid"
  let ?d = "json_object lib (with_content_hash lib ?P)"
  have fresh: "''content_sha256'' \<notin> fst ` set ?P"
    by (cases "ba_route_capability a") (simp_all add: pending_payload_def)
  have get: "dict_get ?d k = json_norm lib (dict_get ?P k)" if "k \<noteq> ''content_sha256''" for k
    using that by (simp add: dict_get_json_object with_content_hash_def)
  have "content_hash_ok lib ?d" by (rule content_hash_written [OF content_hash_with [OF fresh]])
  moreover have "dict_get ?d ''state'' = PStr ''pending''"
    by (simp add: get) (simp add: pending_payload_def dict_get_def)
  moreover have "dict_get ?d ''schema'' = (if ba_route_capability a = None then MUTATION_V1 else MUTATION_V2)"
    by (simp add: get) (simp add: pending_payload_def dict_get_def MUTATION_V1_def MUTATION_V2_def)
  moreover have "''route_capability'' \<in> fst ` set ?d \<longleftrightarrow> ba_route_capability a \<noteq> None"
    by (cases "ba_route_capability a")
       (simp_all add: with_content_hash_def dict_keys_set pending_payload_def)
  moreover have "dict_get ?d ''route_capability'' =
      (case ba_route_capability a of None \<Rightarrow> PNone | Some b \<Rightarrow> PDict (json_object lib b))"
    by (cases "ba_route_capability a")
       (simp_all add: get, simp_all add: pending_payload_def dict_get_def json_object_def)
  moreover have "\<exists>r. dict_get ?d ''request'' = PDict r \<and>
      (\<forall>(k, v)\<in>set (request_binding lib a). dict_get r k = json_norm lib v)"
  proof -
    have "dict_get ?d ''request'' =
        PDict (json_object lib (request_binding lib a @ [(''trace_ids'', PList [PStr tr])]))"
      by (simp add: get)
         (simp add: pending_payload_def dict_get_def json_object_def shares_names [OF assms])
    moreover have "dict_get (request_binding lib a @ x) k = v" if "(k, v) \<in> set (request_binding lib a)"
      for k v x
      using that by (auto simp: request_binding_def dict_get_def)
    ultimately show ?thesis by (auto simp: dict_get_json_object)
  qed
  ultimately show ?thesis unfolding origin_def shares_json [OF assms] by blast
qed

lemma closed_origin:
  assumes "origin lib a d" and "closed_from lib d d'"
  shows "origin lib a d'"
proof -
  have kept: "dict_get d' k = json_norm lib (dict_get d k)" "k \<in> fst ` set d' \<longleftrightarrow> k \<in> fst ` set d"
    if "k \<in> set KEPT_FIELDS" for k
    using assms(2) that unfolding closed_from_def by blast+
  have cap: "dict_get d' ''route_capability'' =
      (case ba_route_capability a of None \<Rightarrow> PNone | Some b \<Rightarrow> PDict (json_object lib b))"
    using kept [of "''route_capability''"] assms(1)
    by (auto simp: KEPT_FIELDS_def origin_def json_object_PDict simp del: json_norm.simps(8)
        split: option.splits)
  obtain r where r: "dict_get d ''request'' = PDict r"
      "\<forall>(k, v)\<in>set (request_binding lib a). dict_get r k = json_norm lib v"
    using assms(1) unfolding origin_def by blast
  obtain r' where r': "dict_get d' ''request'' = PDict r'"
      "\<forall>k. k \<noteq> ''trace_ids'' \<longrightarrow> dict_get r' k = json_norm lib (dict_get r k)"
    using assms(2) r(1) unfolding closed_from_def by blast
  have "k \<noteq> ''trace_ids''" if "(k, v) \<in> set (request_binding lib a)" for k v
    using that by (auto simp: request_binding_def)
  with r r' have req: "\<forall>(k, v)\<in>set (request_binding lib a). dict_get r' k = json_norm lib v" by auto
  have "dict_get d' ''schema'' = (if ba_route_capability a = None then MUTATION_V1 else MUTATION_V2)"
    using kept [of "''schema''"] assms(1)
    by (simp add: KEPT_FIELDS_def origin_def MUTATION_V1_def MUTATION_V2_def)
  moreover have "''route_capability'' \<in> fst ` set d' \<longleftrightarrow> ba_route_capability a \<noteq> None"
    using kept [of "''route_capability''"] assms(1) by (simp add: KEPT_FIELDS_def origin_def)
  moreover have "content_hash_ok lib d'" "terminal_state (dict_get d' ''state'')"
    using assms(2) unfolding closed_from_def by simp_all
  ultimately show ?thesis
    unfolding origin_def using cap req r'(1) by (intro conjI exI [of _ r']) simp_all
qed

lemma origin_load:
  assumes "origin lib a d" and "capability_accepted lib a" and "fs p = Some (JsonObject d)"
  shows "load_identity_mutation_receipt lib p fs = Inr d"
proof -
  have "require_valid_route_capability_binding lib d = Inr ()"
  proof (cases "ba_route_capability a")
    case None
    with assms(1) show ?thesis by (simp add: require_valid_route_capability_binding_def origin_def)
  next
    case (Some b)
    have "capability_ok lib (json_object lib b)"
      using assms(2) Some
      by (simp add: capability_accepted_def capability_ok_def dict_get_json_object dict_without_json_object)
    with assms Some show ?thesis
      by (simp add: require_valid_route_capability_binding_def origin_def capability_accepted_def
          MUTATION_V1_def MUTATION_V2_def)
  qed
  with assms show ?thesis
    by (simp add: load_identity_mutation_receipt_def require_valid_content_hash_def origin_def)
qed

lemma headers_plain: "json_plain (PDict (normalized_headers hs))"
proof -
  let ?f = "\<lambda>(name, value) d. if py_lower name \<in> set IDEMPOTENCY_SEMANTIC_HEADERS
      then dict_set d (py_lower name) (PStr (py_strip value)) else d"
  have set_plain: "\<forall>kv\<in>set (dict_set d k (PStr s)). json_plain (snd kv)"
    if "\<forall>kv\<in>set d. json_plain (snd kv)" for d k s
    using that by (auto simp: dict_set_def split: if_splits)
  have "\<forall>kv\<in>set (fold ?f hs []). json_plain (snd kv)"
    by (rule fold_invariant [where Q = "\<lambda>_. True"]) (auto simp: set_plain split: prod.splits)
  then show ?thesis by (simp add: normalized_headers_def list_all_iff)
qed

lemma origin_same_request:
  assumes o: "origin lib a d" and c: "capability_accepted lib a" and k: "same_mutation_key a b"
    and r: "dict_get_or d ''request'' (PDict []) = PDict r"
  shows "same_request lib b d r \<longleftrightarrow> same_mutation_request a b"
proof -
  have "dict_get d ''request'' = PDict r"
  proof -
    obtain r0 where "dict_get d ''request'' = PDict r0" using o unfolding origin_def by blast
    with r show ?thesis by (auto simp: dict_get_def dict_get_or_def split: option.splits)
  qed
  then have vals: "\<forall>(k, v)\<in>set (request_binding lib a). dict_get r k = json_norm lib v"
    using o unfolding origin_def by (metis pyval.inject(7))
  have heads: "py_eq (json_norm lib (PDict (normalized_headers h))) v \<longleftrightarrow> py_eq (PDict (normalized_headers h)) v"
    for h v
    using eq_norm_json [OF headers_plain] unfolding py_eq_def by metis
  have "list_all (\<lambda>(k, v). py_eq (dict_get r k) v) (request_binding lib b) \<longleftrightarrow>
      ba_request_target a = ba_request_target b \<and> ba_body_sha256 a = ba_body_sha256 b \<and>
      py_eq (PDict (normalized_headers (ba_semantic_headers a)))
        (PDict (normalized_headers (ba_semantic_headers b)))"
    using vals k heads [of "ba_semantic_headers a"]
    by (auto simp: request_binding_def same_mutation_key_def py_eq_def)
  moreover have "(dict_get d ''schema'' = MUTATION_V2 \<longrightarrow> py_eq (dict_get d ''route_capability'') v) \<longleftrightarrow>
      (case ba_route_capability a of None \<Rightarrow> True | Some x \<Rightarrow> py_eq (PDict x) v)" for v
  proof (cases "ba_route_capability a")
    case None
    with o show ?thesis by (simp add: origin_def MUTATION_V1_def MUTATION_V2_def)
  next
    case (Some x)
    with c have "eq_norm (json_norm lib (PDict x)) = eq_norm (PDict x)"
      by (intro eq_norm_json) (simp add: capability_accepted_def)
    with o Some show ?thesis
      by (simp add: origin_def py_eq_def json_object_PDict del: json_norm.simps(8))
  qed
  ultimately show ?thesis unfolding same_request_def same_mutation_request_def by blast
qed

section \<open>Retries\<close>

abbreviation after_claim :: "mutation_world \<Rightarrow> mutation_claim \<Rightarrow> json_fs \<Rightarrow> mutation_world" where
  "after_claim w c fs \<equiv> w\<lparr>mw_files := fs, mw_claims := insert c (mw_claims w)\<rparr>"

lemma executing_claim:
  assumes sh: "shares lib e" and inv: "claims_inv lib w"
    and run: "begin_identity_mutation e root a tr later (mw_files w) = (Inr c, fs)"
    and ex: "mc_disposition c = Execute"
    and steps: "(mutation_step lib)\<^sup>*\<^sup>* (after_claim w c fs) w2"
  shows "resolve_under lib root [mutation_receipt_id lib (ba_context a) (ba_method a) (ba_path a)
           (ba_idempotency_key a) @ ''.json''] = Inr (mc_receipt_path c)"
    and "\<exists>d. mw_files w2 (mc_receipt_path c) = Some (JsonObject d) \<and> origin lib a d"
proof -
  let ?rid = "mutation_receipt_id e (ba_context a) (ba_method a) (ba_path a) (ba_idempotency_key a)"
  let ?P = "with_content_hash e (pending_payload e a tr ?rid)"
  from begin_cases [OF run] ex have t: "resolve_under e root [?rid @ ''.json''] = Inr (mc_receipt_path c)"
      "mc_payload c = ?P"
    by auto
  then show "resolve_under lib root [mutation_receipt_id lib (ba_context a) (ba_method a) (ba_path a)
      (ba_idempotency_key a) @ ''.json''] = Inr (mc_receipt_path c)"
    by (simp add: shares_names [OF sh])
  have inv1: "claims_inv lib (after_claim w c fs)"
    using claims_inv_step [OF step_begin [OF sh run] inv] by simp
  then have "held lib fs (mc_receipt_path c) (json_object lib ?P)"
    using ex t by (simp add: claims_inv_def)
  then have "held lib (mw_files w2) (mc_receipt_path c) (json_object lib ?P)"
    using steps_held [OF steps inv1] by simp
  then show "\<exists>d. mw_files w2 (mc_receipt_path c) = Some (JsonObject d) \<and> origin lib a d"
    using pending_origin [OF sh, of a tr ?rid] closed_origin unfolding held_def by blast
qed

text \<open>
  Claim C13. A mutation is executed at most once: after some process was told to execute the mutation
  of an actor, method, path and idempotency key, no later call with that key, in whatever
  interleaving of claims, completions, reconciliations and faults, is told to execute it again.
\<close>

theorem single_execution:
  assumes "reach mutation_start (mutation_step lib) w" and "shares lib e" and "shares lib e2"
    and "begin_identity_mutation e root a tr later (mw_files w) = (Inr c, fs)"
    and "mc_disposition c = Execute"
    and "(mutation_step lib)\<^sup>*\<^sup>* (after_claim w c fs) w2"
    and "same_mutation_key a a2"
    and "begin_identity_mutation e2 root a2 tr2 later2 (mw_files w2) = (Inr c2, fs2)"
  shows "mc_disposition c2 \<noteq> Execute"
proof
  assume "mc_disposition c2 = Execute"
  with begin_cases [OF assms(8)] have
    t: "resolve_under e2 root [mutation_receipt_id e2 (ba_context a2) (ba_method a2) (ba_path a2)
          (ba_idempotency_key a2) @ ''.json''] = Inr (mc_receipt_path c2)"
      "mw_files w2 (mc_receipt_path c2) = None"
    by auto
  note first = executing_claim [OF assms(2) claims.reach_inv [OF assms(1)] assms(4-6)]
  from t(1) first(1) have "mc_receipt_path c2 = mc_receipt_path c"
    by (simp add: shares_names [OF assms(3)] same_key_receipt [OF assms(7)])
  with t(2) first(2) show False by auto
qed

lemma capability_checked:
  assumes sh: "shares lib e" and cap: "capability_accepted lib a"
  shows "(case ba_route_capability a of None \<Rightarrow> Inr ()
      | Some b \<Rightarrow> require_valid_route_capability_binding e
          [(''schema'', MUTATION_V2), (''route_capability'', PDict b)]) = Inr ()"
  using cap unfolding shares_names(4) [OF sh]
  by (cases "ba_route_capability a")
     (simp_all add: capability_accepted_def require_valid_route_capability_binding_def dict_get_def
      MUTATION_V1_def MUTATION_V2_def)

lemma retry_claim:
  assumes sh: "shares lib e2" and q: "quiet e2" and key: "valid_idempotency_key (ba_idempotency_key a2)"
    and t: "resolve_under lib root [mutation_receipt_id lib (ba_context a2) (ba_method a2) (ba_path a2)
             (ba_idempotency_key a2) @ ''.json''] = Inr p"
    and cap: "capability_accepted lib a2" and f: "fs p \<noteq> None"
  shows "begin_identity_mutation e2 root a2 tr2 later fs =
    (existing_claim e2 a2 (mutation_receipt_id lib (ba_context a2) (ba_method a2) (ba_path a2)
       (ba_idempotency_key a2)) p later, fs)"
proof -
  have create: "durable_create_json_exclusive e2 p N fs = (Inr False, fs)" for N
    using q f by (simp add: durable_create_json_exclusive_def quiet_def)
  show ?thesis
    unfolding begin_identity_mutation_def Let_def
    by (simp add: key shares_names(1-3) [OF sh] t capability_checked [OF sh cap] create)
qed

lemma claimed_retry:
  assumes "claims_inv lib w" and "shares lib e" and "shares lib e2"
    and "begin_identity_mutation e root a tr later (mw_files w) = (Inr c, fs)"
    and "mc_disposition c = Execute"
    and "(mutation_step lib)\<^sup>*\<^sup>* (after_claim w c fs) w2" and "(mutation_step lib)\<^sup>*\<^sup>* w2 w3"
    and "same_mutation_key a a2" and "quiet e2"
    and "capability_accepted lib a" and "capability_accepted lib a2"
  shows "\<exists>d. mw_files w3 (mc_receipt_path c) = Some (JsonObject d) \<and>
    begin_identity_mutation e2 root a2 tr2 (mw_files w3) (mw_files w2) =
      (Inr \<lparr>mc_disposition =
              (if \<not> same_mutation_request a a2 then Conflict
               else if dict_get d ''state'' = PStr ''pending'' then Ambiguous else Replay),
            mc_receipt_id = mc_receipt_id c, mc_receipt_path = mc_receipt_path c, mc_payload = d\<rparr>,
       mw_files w2)"
proof -
  let ?rid = "mutation_receipt_id lib (ba_context a) (ba_method a) (ba_path a) (ba_idempotency_key a)"
  note inv = assms(1)
  from assms(6,7) have steps: "(mutation_step lib)\<^sup>*\<^sup>* (after_claim w c fs) w3" by (rule rtranclp_trans)
  note then_path = executing_claim(1) [OF assms(2) inv assms(4-6)]
  obtain d where d: "mw_files w3 (mc_receipt_path c) = Some (JsonObject d)" "origin lib a d"
    using executing_claim(2) [OF assms(2) inv assms(4,5) steps] by blast
  have present: "mw_files w2 (mc_receipt_path c) \<noteq> None"
    using executing_claim(2) [OF assms(2) inv assms(4-6)] by auto
  have rid: "mc_receipt_id c = ?rid"
    using begin_cases [OF assms(4)] assms(5) by (auto simp: shares_names [OF assms(2)])
  have key: "valid_idempotency_key (ba_idempotency_key a2)"
    using assms(4,8) by (auto simp: begin_identity_mutation_def same_mutation_key_def split: if_splits)
  obtain r where r: "dict_get_or d ''request'' (PDict []) = PDict r"
    using d(2) by (auto simp: origin_def dict_get_def dict_get_or_def split: option.splits)
  have "existing_claim e2 a2 ?rid (mc_receipt_path c) (mw_files w3) =
      Inr \<lparr>mc_disposition = existing_disposition e2 a2 d r, mc_receipt_id = ?rid,
           mc_receipt_path = mc_receipt_path c, mc_payload = d\<rparr>"
    using d origin_load [OF d(2) assms(10), where fs = "mw_files w3" and p = "mc_receipt_path c"] r
    by (intro existing_claim_eq) (simp_all add: shares_load [OF assms(3)] origin_def)
  moreover have "existing_disposition e2 a2 d r =
      (if \<not> same_mutation_request a a2 then Conflict
       else if dict_get d ''state'' = PStr ''pending'' then Ambiguous else Replay)"
    using origin_same_request [OF d(2) assms(10,8) r]
    by (simp add: existing_disposition_def same_request_def shares_names [OF assms(3)])
  ultimately show ?thesis
    using retry_claim [where p = "mc_receipt_path c" and fs = "mw_files w2" and root = root and ?tr2.0 = tr2
        and later = "mw_files w3", OF assms(3,9) key _ assms(11) present] then_path d(1) rid
    by (simp add: same_key_receipt [OF assms(8)])
qed

text \<open>
  What a retry is told: once a mutation is claimed, a later call with the same key finds
  the receipt and is told of a conflict exactly when its request differs, that the outcome is
  ambiguous exactly when the request is the same and the receipt still pending, and to replay
  otherwise; the directory stays as it was.
\<close>

theorem retry_decision:
  assumes "reach mutation_start (mutation_step lib) w" and "shares lib e" and "shares lib e2"
    and "begin_identity_mutation e root a tr later (mw_files w) = (Inr c, fs)"
    and "mc_disposition c = Execute"
    and "(mutation_step lib)\<^sup>*\<^sup>* (after_claim w c fs) w2" and "(mutation_step lib)\<^sup>*\<^sup>* w2 w3"
    and "same_mutation_key a a2" and "quiet e2"
    and "capability_accepted lib a" and "capability_accepted lib a2"
  shows "\<exists>d. mw_files w3 (mc_receipt_path c) = Some (JsonObject d) \<and>
    begin_identity_mutation e2 root a2 tr2 (mw_files w3) (mw_files w2) =
      (Inr \<lparr>mc_disposition =
              (if \<not> same_mutation_request a a2 then Conflict
               else if dict_get d ''state'' = PStr ''pending'' then Ambiguous else Replay),
            mc_receipt_id = mc_receipt_id c, mc_receipt_path = mc_receipt_path c, mc_payload = d\<rparr>,
       mw_files w2)"
  using claimed_retry [OF claims.reach_inv [OF assms(1)] assms(2-11)] .

section \<open>Terminal receipts\<close>

lemma complete_ok:
  assumes sh: "shares lib e" and inv: "claims_inv lib w" and c: "c \<in> mw_claims w"
    and run: "complete_identity_mutation e c tr st body ct (mw_files w) = (Inr p, fs)"
  shows "fs (mc_receipt_path c) = Some (JsonObject (json_object lib p))"
    and "closed_from lib (json_object lib (mc_payload c)) (json_object lib p)"
    and "\<exists>request. p = completed_payload e (mc_payload c) request st ct body"
  using run
proof (atomize (full), cases rule: complete_outcome)
  case (tried r request u)
  let ?N = "completed_payload e (mc_payload c) request st ct body"
  from tried(6) have u: "u = Inr ()" "p = ?N" by (auto split: sum.splits)
  have "closed_from e (mc_payload c) (json_object e ?N)" using tried(2-4) by (rule completed_closed)
  then have "closed_from lib (json_object lib (mc_payload c)) (json_object lib p)"
    unfolding shares_closed [OF sh] shares_json [OF sh] u by (rule closed_from_written)
  with transition_cases [OF tried(5)] u show "fs (mc_receipt_path c) = Some (JsonObject (json_object lib p)) \<and>
      closed_from lib (json_object lib (mc_payload c)) (json_object lib p) \<and>
      (\<exists>request. p = completed_payload e (mc_payload c) request st ct body)"
    by (auto simp: shares_json [OF sh])
qed simp

text \<open>Nothing moves a receipt that is no longer pending.\<close>

lemma closed_receipt_refuses:
  assumes f: "fs p = Some (JsonObject d)" and d: "dict_get d ''state'' \<noteq> PStr ''pending''"
  shows "transition_identity_mutation e p E N fs = (u, fs') \<Longrightarrow> u \<noteq> Inr () \<and> fs' = fs"
    and "mc_receipt_path c = p \<Longrightarrow> complete_identity_mutation e c tr st body ct fs = (q, fs') \<Longrightarrow>
         isl q \<and> fs' = fs"
    and "record_verified_identity_mutation_reconciliation e p E a fs = (q, fs') \<Longrightarrow> isl q \<and> fs' = fs"
proof -
  show refuse: "transition_identity_mutation e p E N fs = (u, fs') \<Longrightarrow> u \<noteq> Inr () \<and> fs' = fs" for E N u fs'
    using f d transition_cases [of e p E N fs u fs'] by auto
  show "isl q \<and> fs' = fs"
    if "mc_receipt_path c = p" "complete_identity_mutation e c tr st body ct fs = (q, fs')"
    using that(2) by (cases rule: complete_outcome) (use refuse that(1) in \<open>auto split: sum.splits\<close>)
  show "isl q \<and> fs' = fs"
    if "record_verified_identity_mutation_reconciliation e p E a fs = (q, fs')"
    using that by (cases rule: reconcile_outcome) (use refuse in \<open>auto split: sum.splits\<close>)
qed

text \<open>
  Claim C14. A receipt is closed once: after a completion succeeds, the receipt file holds the
  completed payload for good, through any interleaving of further calls; its state is terminal,
  it names the hash of the pending receipt it closed, its own hash is right, and every further
  completion or reconciliation of that receipt fails and writes nothing.
\<close>

theorem receipt_closed_once:
  assumes "reach mutation_start (mutation_step lib) w" and "shares lib e" and "c \<in> mw_claims w"
    and "complete_identity_mutation e c tr st body ct (mw_files w) = (Inr p, fs)"
    and "(mutation_step lib)\<^sup>*\<^sup>* (w\<lparr>mw_files := fs\<rparr>) w2"
  shows "mw_files w2 (mc_receipt_path c) = Some (JsonObject (json_object lib p)) \<and>
    dict_get p ''state'' = PStr (if st < 400 then ''committed'' else ''rejected'') \<and>
    dict_get p ''previous_content_sha256'' = dict_get (mc_payload c) ''content_sha256'' \<and>
    content_hash_ok lib (json_object lib p) \<and>
    (\<forall>(e'::io_env) c' tr' st' body' ct' r fs'. mc_receipt_path c' = mc_receipt_path c \<longrightarrow>
       complete_identity_mutation e' c' tr' st' body' ct' (mw_files w2) = (r, fs') \<longrightarrow>
       isl r \<and> fs' = mw_files w2) \<and>
    (\<forall>(e'::io_env) d ra r fs'.
       record_verified_identity_mutation_reconciliation e' (mc_receipt_path c) d ra (mw_files w2) = (r, fs') \<longrightarrow>
       isl r \<and> fs' = mw_files w2)"
proof -
  let ?d = "json_object lib p"
  note inv = claims.reach_inv [OF assms(1)]
  note fin = complete_ok [OF assms(2) inv assms(3,4)]
  have inv1: "claims_inv lib (w\<lparr>mw_files := fs\<rparr>)"
    using claims_inv_step [OF step_complete [OF assms(2,3,4)] inv] .
  have closed: "dict_get ?d ''state'' \<noteq> PStr ''pending''" using fin(2) by (rule closed_from_states)
  have stored: "mw_files w2 (mc_receipt_path c) = Some (JsonObject ?d)"
    using steps_final [OF assms(5) inv1, of "mc_receipt_path c"] fin(1) closed by simp
  obtain request where ok: "p = completed_payload e (mc_payload c) request st ct body" using fin(3) by blast
  have get: "dict_get p ''state'' = PStr (if st < 400 then ''committed'' else ''rejected'')"
      "dict_get p ''previous_content_sha256'' = dict_get (mc_payload c) ''content_sha256''"
    unfolding ok completed_payload_def with_content_hash_def by simp_all
  note refuse = closed_receipt_refuses(2,3) [where fs = "mw_files w2" and p = "mc_receipt_path c", OF stored closed]
  have "content_hash_ok lib ?d" using fin(2) unfolding closed_from_def by blast
  then show ?thesis using stored get refuse by blast
qed

section \<open>Replay\<close>

lemma response_of_completed:
  "dict_get (completed_payload e E request st ct body) ''response'' = PDict (response_binding e st ct body)"
  by (simp add: completed_payload_def with_content_hash_def)

lemma replay_completed:
  assumes sh: "shares lib e" and sh4: "shares lib e4"
    and p: "p = completed_payload e E request st ct body"
    and h: "content_hash_ok lib (json_object lib p)"
  shows "replay_identity_mutation e4 (json_object lib p) = Inr (st, body, ct)"
proof -
  let ?r = "json_object lib (response_binding e st ct body)"
  have resp: "dict_get (json_object lib p) ''response'' = PDict ?r"
    unfolding p by (simp only: dict_get_json_object response_of_completed json_object_PDict)
  have hash: "require_valid_content_hash e4 (json_object lib p) = Inr ()"
    using h by (simp add: require_valid_content_hash_def shares_json [OF sh4])
  have get: "dict_get ?r k = json_norm lib (dict_get (response_binding e st ct body) k)" for k
    by (rule dict_get_json_object)
  have fields: "dict_get ?r ''body_base64'' = PStr (b64encode body)"
      "dict_get ?r ''status_code'' = PInt st" "dict_get ?r ''body_sha256'' = PStr (sha256 e4 body)"
      "dict_get ?r ''content_type'' = py_opt ct"
    unfolding get using sh sh4
    by (simp_all add: response_binding_def dict_get_def shares_def py_opt_def split: option.splits)
  show ?thesis
    unfolding replay_identity_mutation_def hash resp
    by (simp add: fields b64_roundtrip int_of_def py_opt_def split: option.splits)
qed

text \<open>
  Claim C15. A retry gets the response of the execution: when the process that was told to execute
  completes with a status, a body and a content type, every later retry of the same request, in
  whatever interleaving, is told to replay, and replaying its claim gives exactly that status,
  body and content type.
\<close>

theorem replay_returns_response:
  assumes "reach mutation_start (mutation_step lib) w" and "shares lib e" and "shares lib e1"
    and "shares lib e2" and "shares lib e3"
    and "begin_identity_mutation e root a tr later (mw_files w) = (Inr c, fs)"
    and "mc_disposition c = Execute"
    and "(mutation_step lib)\<^sup>*\<^sup>* (after_claim w c fs) w1"
    and "complete_identity_mutation e1 c tr1 st body ct (mw_files w1) = (Inr p, fs1)"
    and "(mutation_step lib)\<^sup>*\<^sup>* (w1\<lparr>mw_files := fs1\<rparr>) w2" and "(mutation_step lib)\<^sup>*\<^sup>* w2 w3"
    and "same_mutation_key a a2" and "same_mutation_request a a2" and "quiet e2"
    and "capability_accepted lib a" and "capability_accepted lib a2"
  shows "\<exists>c2. begin_identity_mutation e2 root a2 tr2 (mw_files w3) (mw_files w2) = (Inr c2, mw_files w2) \<and>
    mc_disposition c2 = Replay \<and>
    replay_identity_mutation e3 (mc_payload c2) = Inr (st, body, ct)"
proof -
  note begun = assms(2) claims.reach_inv [OF assms(1)] assms(6,7)
  have inv1: "claims_inv lib (after_claim w c fs)"
    using claims_inv_step [OF step_begin [OF assms(2,6)]] begun(2) by simp
  have inv_w1: "claims_inv lib w1" using steps_inv [OF assms(8) inv1] .
  have c: "c \<in> mw_claims w1" using steps_claims [OF assms(8)] by auto
  note fin = complete_ok [OF assms(3) inv_w1 c assms(9)]
  have closed: "dict_get (json_object lib p) ''state'' \<noteq> PStr ''pending''"
    using fin(2) by (rule closed_from_states)
  have step: "mutation_step lib w1 (w1\<lparr>mw_files := fs1\<rparr>)"
    using assms(3) c assms(9) by (rule step_complete)
  have stored: "mw_files w3 (mc_receipt_path c) = Some (JsonObject (json_object lib p))"
    using steps_final [OF rtranclp_trans [OF assms(10,11)] claims_inv_step [OF step inv_w1],
        of "mc_receipt_path c"] fin(1) closed by simp
  from assms(8) step assms(10) have all_steps: "(mutation_step lib)\<^sup>*\<^sup>* (after_claim w c fs) w2" by simp
  obtain request where ok: "p = completed_payload e1 (mc_payload c) request st ct body"
    using fin(3) by blast
  have "content_hash_ok lib (json_object lib p)" using fin(2) unfolding closed_from_def by simp
  then have replay: "replay_identity_mutation e3 (json_object lib p) = Inr (st, body, ct)"
    using replay_completed [OF assms(3,5) ok] by blast
  obtain d where d: "mw_files w3 (mc_receipt_path c) = Some (JsonObject d)"
      "begin_identity_mutation e2 root a2 tr2 (mw_files w3) (mw_files w2) =
        (Inr \<lparr>mc_disposition =
                (if \<not> same_mutation_request a a2 then Conflict
                 else if dict_get d ''state'' = PStr ''pending'' then Ambiguous else Replay),
              mc_receipt_id = mc_receipt_id c, mc_receipt_path = mc_receipt_path c, mc_payload = d\<rparr>,
         mw_files w2)"
    using claimed_retry [OF begun(2) assms(2,4) begun(3,4) all_steps assms(11,12,14-16)] by blast
  with stored closed assms(13) replay show ?thesis by simp
qed

section \<open>Undisturbed calls\<close>

definition quiet_swap :: "io_env \<Rightarrow> bool" where
  "quiet_swap e \<longleftrightarrow> \<not> (io_fault e EnsureDirectory \<or> io_fault e OpenLock \<or> io_fault e TempWrite \<or>
     io_fault e ReplaceTarget \<or> io_fault e SyncAfterReplace \<or> io_fault e ReleaseLock)"

lemma fresh_key_executes:
  assumes sh: "shares lib e" and q: "quiet e" and key: "valid_idempotency_key (ba_idempotency_key a)"
    and t: "resolve_under lib root [mutation_receipt_id lib (ba_context a) (ba_method a) (ba_path a)
             (ba_idempotency_key a) @ ''.json''] = Inr p"
    and cap: "capability_accepted lib a" and f: "fs p = None"
  shows "begin_identity_mutation e root a tr later fs =
    (Inr \<lparr>mc_disposition = Execute,
          mc_receipt_id = mutation_receipt_id lib (ba_context a) (ba_method a) (ba_path a) (ba_idempotency_key a),
          mc_receipt_path = p,
          mc_payload = with_content_hash lib (pending_payload e a tr
            (mutation_receipt_id lib (ba_context a) (ba_method a) (ba_path a) (ba_idempotency_key a)))\<rparr>,
     fs(p \<mapsto> JsonObject (json_object lib (with_content_hash lib (pending_payload e a tr
            (mutation_receipt_id lib (ba_context a) (ba_method a) (ba_path a) (ba_idempotency_key a)))))))"
proof -
  have create: "durable_create_json_exclusive e p N fs = (Inr True, fs(p \<mapsto> JsonObject (json_object lib N)))" for N
    using q f by (simp add: durable_create_json_exclusive_def quiet_def shares_json [OF sh] Let_def)
  show ?thesis
    unfolding begin_identity_mutation_def Let_def
    by (simp add: key shares_names(1-3) [OF sh] shares_json(5) [OF sh] t capability_checked [OF sh cap] create)
qed

lemma undisturbed_completion:
  assumes sh: "shares lib e" and q: "quiet_swap e" and ex: "mc_disposition c = Execute"
    and c: "mc_payload c = with_content_hash lib (pending_payload e0 a tr0 rid)"
    and f: "fs (mc_receipt_path c) = Some (JsonObject (json_object lib (mc_payload c)))"
  shows "\<exists>p. complete_identity_mutation e c tr st body ct fs =
    (Inr p, fs(mc_receipt_path c \<mapsto> JsonObject (json_object lib p)))"
proof -
  let ?P = "pending_payload e0 a tr0 rid"
  let ?req = "request_binding e0 a @ [(''trace_ids'', PList [PStr tr0])]"
  have fresh: "''content_sha256'' \<notin> fst ` set ?P"
    by (cases "ba_route_capability a") (simp_all add: pending_payload_def)
  have get: "dict_get (mc_payload c) ''state'' = PStr ''pending''"
      "dict_get (mc_payload c) ''request'' = PDict ?req"
      "dict_get (mc_payload c) ''content_sha256'' = PStr (canonical_json_sha256 lib ?P)"
    unfolding c with_content_hash_def by (simp_all add: pending_payload_def dict_get_def [of "(_ # _)"])
  have keys: "''content_sha256'' \<in> fst ` set (mc_payload c)"
    unfolding c with_content_hash_def by (simp add: dict_keys_set)
  have ok: "content_hash_ok lib (json_object lib (mc_payload c))"
    unfolding c by (rule content_hash_written [OF content_hash_with [OF fresh]])
  have trace: "dict_get_or ?req ''trace_ids'' (PList []) = PList [PStr tr0]"
    by (simp add: dict_get_or_def request_binding_def)
  then obtain request where request: "add_trace tr ?req = Inr request" by (simp add: add_trace_def)
  let ?N = "completed_payload e (mc_payload c) request st ct body"
  have N: "content_hash_ok lib ?N"
    unfolding completed_payload_def shares_json [OF sh]
    by (rule content_hash_with) (simp add: dict_keys_set dict_keys_without)
  have "durable_compare_and_swap_json e (mc_receipt_path c) (canonical_json_sha256 lib ?P) ''pending'' ?N fs =
      (Inr True, fs(mc_receipt_path c \<mapsto> JsonObject (json_object lib ?N)))"
    using q f ok N get unfolding durable_compare_and_swap_json_def swap_locked_def durable_atomic_write_json_def
    by (simp add: quiet_swap_def require_valid_json_content_hash_def read_json_object_no_follow_def
        shares_json [OF sh] content_hash_ok_def dict_get_json_object Let_def)
  then have "transition_identity_mutation e (mc_receipt_path c) (mc_payload c) ?N fs =
      (Inr (), fs(mc_receipt_path c \<mapsto> JsonObject (json_object lib ?N)))"
    by (simp add: transition_identity_mutation_def get)
  then show ?thesis
    using ex get keys request by (auto simp: complete_identity_mutation_def Let_def)
qed

section \<open>Browser bindings\<close>

text \<open>
  The server accepts a browser retry binding exactly when the context has an
  authentication method, an epoch that parses and is not over, and the claimed text is the
  hexadecimal digest of the current actor, method and epoch; what it accepts never allows
  execution.
\<close>

theorem browser_binding_iff:
  "(\<exists>b. validate_browser_mutation_binding_header e c claimed (Some now) = Inr b \<and>
       bb_binding_id b = claimed \<and> \<not> bb_execution_allowed b) \<longleftrightarrow>
     py_strip (oc_authentication_method c) \<noteq> [] \<and>
     (\<exists>epoch expires t. oc_authentication_epoch_id c = Some epoch \<and>
        oc_authentication_expires_at_utc c = Some expires \<and>
        fromisoformat e expires = Some (t, Some 0) \<and> now < t \<and>
        claimed = canonical_json_sha256 e (browser_identity c epoch) \<and>
        length claimed = 64 \<and> list_all is_lower_hex claimed)"
proof (cases "py_strip (oc_authentication_method c) = [] \<or> oc_authentication_epoch_id c = None \<or>
    oc_authentication_expires_at_utc c = None")
  case True
  then show ?thesis
    by (auto simp: validate_browser_mutation_binding_header_def browser_mutation_identity_binding_def
        rbind_Inr_iff split: option.splits)
next
  case False
  then obtain epoch expires where c: "py_strip (oc_authentication_method c) \<noteq> []"
      "oc_authentication_epoch_id c = Some epoch" "oc_authentication_expires_at_utc c = Some expires"
    by auto
  obtain u where u: "fromisoformat e expires = u" by blast
  have "(\<exists>b. validate_browser_mutation_binding_header e c claimed (Some now) = Inr b \<and>
      bb_binding_id b = claimed \<and> \<not> bb_execution_allowed b) \<longleftrightarrow>
      (\<exists>t. u = Some (t, Some 0) \<and> now < t \<and>
         claimed = canonical_json_sha256 e (browser_identity c epoch) \<and>
         length claimed = 64 \<and> list_all is_lower_hex claimed)"
  proof (cases "\<exists>t. u = Some (t, Some 0) \<and> now < t")
    case True
    with u show ?thesis
      by (auto simp: validate_browser_mutation_binding_header_def browser_mutation_identity_binding_def c
          parse_utc_timestamp_def parse_strict_utc_def split: if_splits)
  next
    case False
    with u show ?thesis
      by (auto simp: validate_browser_mutation_binding_header_def browser_mutation_identity_binding_def c
          parse_utc_timestamp_def parse_strict_utc_def rbind_Inr_iff split: option.splits prod.splits if_splits)
  qed
  with c u show ?thesis by auto
qed

section \<open>A concrete history\<close>

definition demo_sha :: "string \<Rightarrow> string" where
  "demo_sha s = take 64 (map (\<lambda>c. if is_lower_hex c then c else CHR ''0'') (rev s) @ replicate 64 (CHR ''0''))"

definition demo_io :: io_env where
  "demo_io =
     \<lparr>clock = (\<lambda>i. ''2026-01-01T00:00:00+00:00''), stamp = (\<lambda>i. ''20260101T000000Z''),
      uuid8 = (\<lambda>i. ''0a1b2c3d''), fromisoformat = (\<lambda>s. Some (int (length s), Some 0)),
      isoformat = int_str, resolve_path = (\<lambda>ps. Some (py_join ''/'' ps)), display_path = (\<lambda>p. p),
      write_fails = (\<lambda>p. False), commit_fails = (\<lambda>i. False), coerce_money = (\<lambda>v. None),
      py_repr = (\<lambda>v. ''value''), pick_row = (\<lambda>i n. 0),
      realpath = (\<lambda>p. p), sha256 = demo_sha, py_int = (\<lambda>v. None), is_symlink = (\<lambda>p. False),
      utc_now = 0, uuid_hex = ''0123456789abcdef0123456789abcdef'', io_fault = (\<lambda>p. False)\<rparr>"

definition demo_context :: operator_context where
  "demo_context =
     \<lparr>oc_principal = \<lparr>pi_principal_id = ''owner'', pi_provider_id = ''idp'', pi_principal_kind = ''human'',
                      pi_display_label = None, pi_legacy_label = None, pi_legacy_label_verified = False\<rparr>,
      oc_agent_runtime = None, oc_authority_administration = None, oc_authentication_method = ''token'',
      oc_authenticated_at_utc = ''t'', oc_authentication_epoch_id = Some ''epoch1'',
      oc_authentication_expires_at_utc = Some ''tt''\<rparr>"

definition demo_begin :: begin_args where
  "demo_begin =
     \<lparr>ba_context = demo_context, ba_method = ''post'', ba_path = ''/proposals'',
      ba_request_target = ''/proposals'', ba_semantic_headers = [(''Content-Type'', ''application/json '')],
      ba_idempotency_key = ''key-0001'', ba_body_sha256 = ''00ff'',
      ba_route_capability = None\<rparr>"

definition demo_world :: mutation_world where
  "demo_world = \<lparr>mw_files = Map.empty, mw_claims = {}, mw_loaded = {}\<rparr>"

definition demo_receipt_id :: string where
  "demo_receipt_id = mutation_receipt_id demo_io demo_context ''post'' ''/proposals'' ''key-0001''"

definition demo_claim :: mutation_claim where
  "demo_claim =
     \<lparr>mc_disposition = Execute, mc_receipt_id = demo_receipt_id,
      mc_receipt_path = ''r/'' @ demo_receipt_id @ ''.json'',
      mc_payload = with_content_hash demo_io (pending_payload demo_io demo_begin ''t1'' demo_receipt_id)\<rparr>"

definition demo_files1 :: json_fs where
  "demo_files1 = [mc_receipt_path demo_claim \<mapsto> JsonObject (json_object demo_io (mc_payload demo_claim))]"

lemma demo_key: "valid_idempotency_key ''key-0001''"
  by code_simp

lemma demo_resolve: "resolve_under demo_io ''r'' [x @ ''.json''] = Inr (''r/'' @ x @ ''.json'')"
  if "x = CHR ''i'' # y" for x y
  by (simp add: that resolve_under_def demo_io_def path_join_def starts_with_def)

lemma demo_facts:
  "quiet demo_io" "quiet_swap demo_io" "shares demo_io demo_io" "capability_accepted demo_io demo_begin"
  by (simp_all add: quiet_def quiet_swap_def removal_fails_def demo_io_def shares_def
      capability_accepted_def demo_begin_def)

lemma demo_claimed:
  "begin_identity_mutation demo_io ''r'' demo_begin ''t1'' Map.empty (mw_files demo_world) =
     (Inr demo_claim, demo_files1)"
proof -
  have "resolve_under demo_io ''r'' [demo_receipt_id @ ''.json''] = Inr (''r/'' @ demo_receipt_id @ ''.json'')"
    by (rule demo_resolve) (simp add: demo_receipt_id_def mutation_receipt_id_def Let_def)
  then show ?thesis
    using fresh_key_executes [OF demo_facts(3,1), of demo_begin "''r''" "''r/'' @ demo_receipt_id @ ''.json''"
        "mw_files demo_world" "''t1''" Map.empty] demo_key demo_facts(4)
    by (simp add: demo_claim_def demo_files1_def demo_world_def demo_begin_def demo_receipt_id_def)
qed

lemma demo_executes: "mc_disposition demo_claim = Execute"
  by (simp add: demo_claim_def)

lemma demo_reached: "reach mutation_start (mutation_step demo_io) demo_world"
  by (rule reach_start) (simp add: mutation_start_def demo_world_def)

definition demo_retry :: begin_args where
  "demo_retry = demo_begin\<lparr>ba_method := ''POST'', ba_semantic_headers := [(''content-type'', '' application/json'')]\<rparr>"

lemma demo_same: "same_mutation_key demo_begin demo_retry" "same_mutation_request demo_begin demo_retry"
  by code_simp+

lemma demo_accepted: "capability_accepted demo_io demo_retry"
  by (simp add: capability_accepted_def demo_retry_def demo_begin_def)

abbreviation demo_world1 :: mutation_world where
  "demo_world1 \<equiv> after_claim demo_world demo_claim demo_files1"

lemma demo_retried:
  "\<exists>c. begin_identity_mutation demo_io ''r'' demo_retry ''t2'' demo_files1 demo_files1 = (Inr c, demo_files1) \<and>
     mc_disposition c = Ambiguous"
proof -
  obtain d where d: "mw_files demo_world1 (mc_receipt_path demo_claim) = Some (JsonObject d)"
      "begin_identity_mutation demo_io ''r'' demo_retry ''t2'' (mw_files demo_world1) (mw_files demo_world1) =
        (Inr \<lparr>mc_disposition = (if \<not> same_mutation_request demo_begin demo_retry then Conflict
              else if dict_get d ''state'' = PStr ''pending'' then Ambiguous else Replay),
            mc_receipt_id = mc_receipt_id demo_claim, mc_receipt_path = mc_receipt_path demo_claim,
            mc_payload = d\<rparr>, mw_files demo_world1)"
    using claimed_retry [OF claims.reach_inv [OF demo_reached] demo_facts(3) demo_facts(3) demo_claimed
        demo_executes rtranclp.rtrancl_refl rtranclp.rtrancl_refl demo_same(1) demo_facts(1,4) demo_accepted,
        of "''t2''"]
    by blast
  have "dict_get d ''state'' = PStr ''pending''"
  proof -
    have d_eq: "d = json_object demo_io (mc_payload demo_claim)" using d(1) by (simp add: demo_files1_def)
    show ?thesis
      unfolding d_eq dict_get_json_object
      by (simp add: demo_claim_def with_content_hash_def) (simp add: pending_payload_def dict_get_def)
  qed
  with d(2) demo_same(2) show ?thesis by simp
qed

theorem single_execution_witness:
  "\<exists>c fs. begin_identity_mutation demo_io ''r'' demo_retry ''t2'' demo_files1 demo_files1 = (Inr c, fs) \<and>
     mc_disposition c \<noteq> Execute"
proof -
  obtain c where c: "begin_identity_mutation demo_io ''r'' demo_retry ''t2'' demo_files1 (mw_files demo_world1) =
      (Inr c, demo_files1)"
    using demo_retried by auto
  then have "mc_disposition c \<noteq> Execute"
    by (rule single_execution [OF demo_reached demo_facts(3) demo_facts(3) demo_claimed demo_executes
          rtranclp.rtrancl_refl demo_same(1)])
  with c show ?thesis by auto
qed

theorem retry_decision_witness:
  "\<exists>d. mw_files demo_world1 (mc_receipt_path demo_claim) = Some (JsonObject d) \<and>
    begin_identity_mutation demo_io ''r'' demo_retry ''t2'' (mw_files demo_world1) (mw_files demo_world1) =
      (Inr \<lparr>mc_disposition =
              (if \<not> same_mutation_request demo_begin demo_retry then Conflict
               else if dict_get d ''state'' = PStr ''pending'' then Ambiguous else Replay),
            mc_receipt_id = mc_receipt_id demo_claim, mc_receipt_path = mc_receipt_path demo_claim,
            mc_payload = d\<rparr>, mw_files demo_world1)"
  by (rule retry_decision [OF demo_reached demo_facts(3) demo_facts(3) demo_claimed demo_executes
        rtranclp.rtrancl_refl rtranclp.rtrancl_refl demo_same(1) demo_facts(1,4) demo_accepted])

lemma demo_step1: "mutation_step demo_io demo_world demo_world1"
  using step_begin [OF demo_facts(3) demo_claimed] by simp

lemma demo_completes:
  "\<exists>p. complete_identity_mutation demo_io demo_claim ''t1'' 201 ''ok'' (Some ''text/plain'') demo_files1 =
     (Inr p, demo_files1(mc_receipt_path demo_claim \<mapsto> JsonObject (json_object demo_io p)))"
  by (rule undisturbed_completion [OF demo_facts(3,2) demo_executes])
     (simp_all add: demo_claim_def demo_files1_def)

theorem receipt_closed_once_witness:
  "\<exists>p fs. complete_identity_mutation demo_io demo_claim ''t1'' 201 ''ok'' (Some ''text/plain'') demo_files1 =
       (Inr p, fs) \<and>
     fs (mc_receipt_path demo_claim) = Some (JsonObject (json_object demo_io p)) \<and>
     dict_get p ''state'' = PStr ''committed'' \<and>
     isl (fst (complete_identity_mutation demo_io demo_claim ''t1'' 500 ''no'' None fs))"
proof -
  obtain p fs where p: "complete_identity_mutation demo_io demo_claim ''t1'' 201 ''ok'' (Some ''text/plain'')
      (mw_files demo_world1) = (Inr p, fs)"
    using demo_completes by auto
  have reached: "reach mutation_start (mutation_step demo_io) demo_world1"
    using demo_reached demo_step1 by (rule reach_step)
  note once = receipt_closed_once [OF reached demo_facts(3) _ p rtranclp.rtrancl_refl]
  obtain r fs' where r: "complete_identity_mutation demo_io demo_claim ''t1'' 500 ''no'' None fs = (r, fs')"
    by (rule prod.exhaust)
  with once have "isl r" by auto
  with once p r show ?thesis by auto
qed

theorem replay_returns_response_witness:
  "\<exists>p fs c2. complete_identity_mutation demo_io demo_claim ''t1'' 201 ''ok'' (Some ''text/plain'') demo_files1 =
       (Inr p, fs) \<and>
     begin_identity_mutation demo_io ''r'' demo_retry ''t2'' fs fs = (Inr c2, fs) \<and>
     mc_disposition c2 = Replay \<and>
     replay_identity_mutation demo_io (mc_payload c2) = Inr (201, ''ok'', Some ''text/plain'')"
proof -
  obtain p fs where p: "complete_identity_mutation demo_io demo_claim ''t1'' 201 ''ok'' (Some ''text/plain'')
      (mw_files demo_world1) = (Inr p, fs)"
    using demo_completes by auto
  note replay = replay_returns_response [OF demo_reached demo_facts(3) demo_facts(3) demo_facts(3) demo_facts(3)
      demo_claimed demo_executes rtranclp.rtrancl_refl p rtranclp.rtrancl_refl rtranclp.rtrancl_refl
      demo_same demo_facts(1,4) demo_accepted, of "''t2''"]
  then show ?thesis using p by auto
qed

end
