(* ===== verification/Decision_Scaffold.thy ===== *)
theory Decision_Scaffold
  imports Receipt_IO
begin

text \<open>
  The written brakes of a governed proposal: the decision scaffold required at creation
  (\<^verbatim>\<open>statecore/decision_scaffold.py\<close>) and the counter-evidence required before a high-risk
  proposal is approved (\<^verbatim>\<open>statecore/risk_classification.py\<close>).
\<close>

section \<open>The scaffold\<close>

definition REQUIRED_FIELDS :: "string list" where
  "REQUIRED_FIELDS = [''decision_intent'', ''thesis'', ''do_nothing_case'', ''risk_if_wrong'']"

definition OPTIONAL_FIELDS :: "string list" where
  "OPTIONAL_FIELDS = [''counter_evidence'', ''alternatives'', ''position_impact'', ''tax_consideration'',
     ''review_date'', ''emotion'']"

definition ALL_FIELDS :: "string list" where
  "ALL_FIELDS = REQUIRED_FIELDS @ OPTIONAL_FIELDS"

definition clean :: "pyval \<Rightarrow> pyval" where
  "clean v = (case v of PStr s \<Rightarrow> if py_strip s = [] then PNone else PStr (py_strip s) | _ \<Rightarrow> v)"

definition normalize :: "jdict \<Rightarrow> jdict" where
  "normalize data =
     filter (\<lambda>(k, v). v \<noteq> PNone) (map (\<lambda>field. (field, clean (dict_get data field))) ALL_FIELDS)"

definition missing_required :: "jdict \<Rightarrow> string list" where
  "missing_required scaffold =
     filter (\<lambda>field. field \<notin> fst ` set (normalize scaffold)) REQUIRED_FIELDS"

definition is_complete :: "jdict \<Rightarrow> bool" where
  "is_complete scaffold \<longleftrightarrow> missing_required scaffold = []"

definition is_str :: "pyval \<Rightarrow> bool" where
  "is_str v = (case v of PStr _ \<Rightarrow> True | _ \<Rightarrow> False)"

text \<open>
  \<^verbatim>\<open>DecisionScaffold.model_validate\<close>: after cleaning, a required field must be a text and an optional
  one a text or absent; the stored form has the known fields in order.
\<close>

definition ensure_forcing :: "jdict \<Rightarrow> jdict res" where
  "ensure_forcing scaffold =
     (let bad = filter (\<lambda>field. \<not> is_str (clean (dict_get scaffold field))) REQUIRED_FIELDS in
      if bad \<noteq> []
      then Inl (ValueError (''governed proposal missing required decision-scaffold field(s): '' @
             py_join '', '' bad))
      else if list_ex (\<lambda>field. let v = clean (dict_get scaffold field) in \<not> is_str v \<and> v \<noteq> PNone)
                OPTIONAL_FIELDS
      then Inl (ValueError ''string_type'')
      else Inr (normalize scaffold))"

section \<open>Risk\<close>

text \<open>\<open>float_gt_one\<close> compares a float, given by its text, with one.\<close>

record prop_env = io_env +
  float_gt_one :: "string \<Rightarrow> bool"
  parse_bool :: "pyval \<Rightarrow> bool option"
  project_root :: string
  revision_stamp :: "nat \<Rightarrow> string"
  unlink_refused :: "string \<Rightarrow> bool"

definition HIGH_RISK_KINDS :: "string list" where
  "HIGH_RISK_KINDS = [''concentration_high'', ''rate_exposure_high'']"

definition evidence_signals_leverage :: "prop_env \<Rightarrow> jdict \<Rightarrow> bool" where
  "evidence_signals_leverage e evidence \<longleftrightarrow>
     evidence \<noteq> [] \<and>
     ((case dict_get evidence ''leverage'' of PInt n \<Rightarrow> 1 < n | PFloat s \<Rightarrow> float_gt_one e s | _ \<Rightarrow> False) \<or>
      pyval_truthy (dict_get evidence ''margin_used'') \<or>
      pyval_truthy (dict_get evidence ''liquidation_risk''))"

definition is_high_risk :: "prop_env \<Rightarrow> string \<Rightarrow> jdict \<Rightarrow> bool" where
  "is_high_risk e kind evidence \<longleftrightarrow>
     kind \<in> set HIGH_RISK_KINDS \<or> evidence_signals_leverage e evidence"

definition has_counter_evidence :: "jdict \<Rightarrow> bool" where
  "has_counter_evidence scaffold \<longleftrightarrow>
     (case dict_get scaffold ''counter_evidence'' of
        PStr s \<Rightarrow> py_strip s \<noteq> [] | v \<Rightarrow> v \<noteq> PNone)"

definition ensure_confirmable :: "prop_env \<Rightarrow> string \<Rightarrow> jdict \<Rightarrow> jdict \<Rightarrow> unit res" where
  "ensure_confirmable e kind evidence scaffold =
     (if is_high_risk e kind evidence \<and> \<not> has_counter_evidence scaffold
      then Inl (ValueError ''high-risk proposal cannot be approved without counter_evidence'')
      else Inr ())"

section \<open>Laws\<close>

lemma ALL_FIELDS_distinct: "distinct ALL_FIELDS"
  by (simp add: ALL_FIELDS_def REQUIRED_FIELDS_def OPTIONAL_FIELDS_def)

lemma clean_idem [simp]: "clean (clean v) = clean v"
  by (cases v) (simp_all add: clean_def)

lemma clean_None [simp]: "clean PNone = PNone"
  by (simp add: clean_def)

lemma dict_get_normalize:
  "dict_get (normalize d) k = (if k \<in> set ALL_FIELDS then clean (dict_get d k) else PNone)"
proof -
  have "dict_get (filter (\<lambda>(k, v). v \<noteq> PNone) (map (\<lambda>f. (f, g f)) fs)) k =
      (if k \<in> set fs then g k else PNone)" for g and fs :: "string list"
    by (induction fs) (auto simp: dict_get_def split: if_splits)
  then show ?thesis by (simp add: normalize_def)
qed

lemma normalize_idem [simp]: "normalize (normalize d) = normalize d"
  unfolding normalize_def [of "normalize d"] dict_get_normalize
  by (simp add: normalize_def cong: map_cong)

end
