(* ===== verification/Proposal_Revisions.thy ===== *)
theory Proposal_Revisions
  imports Decision_Scaffold State_Base
begin

text \<open>
  Governed proposals and their receipt chains: the rows (\<^verbatim>\<open>statecore/models.py\<close>), the canonical
  content hash and the walk of a revision chain (\<^verbatim>\<open>statecore/proposal_revisions.py\<close>), and the
  resolution of the current version from row and chain (\<^verbatim>\<open>statecore/proposal_version.py\<close>).
\<close>

section \<open>Proposal rows\<close>

record proposal =
  pr_schema_version :: string
  pr_as_of_utc :: string
  pr_authority_level :: string
  pr_proposal_id :: string
  pr_kind :: string
  pr_claim :: string
  pr_evidence :: jdict
  pr_assumptions :: jdict
  pr_limitations :: jdict
  pr_non_claims :: "string list"
  pr_source_refs :: "string list"
  pr_decision_scaffold :: jdict
  pr_execution_allowed :: bool
  pr_receipt_ref :: "string option"
  pr_created_at_utc :: string

definition py_optional :: "string option \<Rightarrow> pyval" where
  "py_optional x = (case x of None \<Rightarrow> PNone | Some s \<Rightarrow> PStr s)"

definition py_strs :: "string list \<Rightarrow> pyval" where
  "py_strs xs = PList (map PStr xs)"

definition proposal_json :: "proposal \<Rightarrow> jdict" where
  "proposal_json p =
     [(''schema_version'', PStr (pr_schema_version p)), (''as_of_utc'', PStr (pr_as_of_utc p)),
      (''authority_level'', PStr (pr_authority_level p)), (''proposal_id'', PStr (pr_proposal_id p)),
      (''kind'', PStr (pr_kind p)), (''claim'', PStr (pr_claim p)), (''evidence'', PDict (pr_evidence p)),
      (''assumptions'', PDict (pr_assumptions p)), (''limitations'', PDict (pr_limitations p)),
      (''non_claims'', py_strs (pr_non_claims p)), (''source_refs'', py_strs (pr_source_refs p)),
      (''decision_scaffold'', PDict (pr_decision_scaffold p)),
      (''execution_allowed'', PBool (pr_execution_allowed p)),
      (''receipt_ref'', py_optional (pr_receipt_ref p)), (''created_at_utc'', PStr (pr_created_at_utc p))]"

text \<open>\<^verbatim>\<open>Proposal.model_validate\<close>: types, defaults and the refusal of execution authority.\<close>

definition parse_str :: "jdict \<Rightarrow> string \<Rightarrow> string option \<Rightarrow> string option" where
  "parse_str d k dflt =
     (case map_of d k of None \<Rightarrow> dflt | Some (PStr s) \<Rightarrow> Some s | Some _ \<Rightarrow> None)"

definition parse_dict :: "jdict \<Rightarrow> string \<Rightarrow> jdict option" where
  "parse_dict d k = (case map_of d k of None \<Rightarrow> Some [] | Some (PDict x) \<Rightarrow> Some x | Some _ \<Rightarrow> None)"

definition parse_strs :: "jdict \<Rightarrow> string \<Rightarrow> string list option" where
  "parse_strs d k =
     (case map_of d k of
        None \<Rightarrow> Some []
      | Some (PList xs) \<Rightarrow>
          if list_all is_str xs then Some (map (\<lambda>v. case v of PStr s \<Rightarrow> s | _ \<Rightarrow> []) xs) else None
      | Some _ \<Rightarrow> None)"

definition parse_opt :: "jdict \<Rightarrow> string \<Rightarrow> string option option" where
  "parse_opt d k =
     (case map_of d k of
        None \<Rightarrow> Some None | Some PNone \<Rightarrow> Some None | Some (PStr s) \<Rightarrow> Some (Some s) | Some _ \<Rightarrow> None)"

definition parse_flag :: "prop_env \<Rightarrow> jdict \<Rightarrow> string \<Rightarrow> bool option" where
  "parse_flag e d k =
     (case map_of d k of None \<Rightarrow> Some False | Some (PBool b) \<Rightarrow> Some b | Some v \<Rightarrow> parse_bool e v)"

definition parse_proposal :: "prop_env \<Rightarrow> jdict \<Rightarrow> proposal option" where
  "parse_proposal e d =
     (case (parse_str d ''schema_version'' (Some STATE_CORE_SCHEMA_VERSION),
            parse_str d ''as_of_utc'' (Some (clock e 9)),
            parse_str d ''authority_level'' (Some ''needs_human_confirm''),
            parse_str d ''proposal_id'' None, parse_str d ''kind'' None, parse_str d ''claim'' None,
            parse_dict d ''evidence'', parse_dict d ''assumptions'') of
        (Some schema, Some as_of, Some level, Some pid, Some kind, Some claim, Some evidence, Some assumptions) \<Rightarrow>
          (case (parse_dict d ''limitations'', parse_strs d ''non_claims'', parse_strs d ''source_refs'',
                 parse_dict d ''decision_scaffold'', parse_flag e d ''execution_allowed'',
                 parse_opt d ''receipt_ref'', parse_str d ''created_at_utc'' (Some (clock e 9))) of
             (Some limitations, Some non_claims, Some refs, Some scaffold, Some False, Some receipt_ref,
              Some created) \<Rightarrow>
               Some \<lparr>pr_schema_version = schema, pr_as_of_utc = as_of, pr_authority_level = level,
                     pr_proposal_id = pid, pr_kind = kind, pr_claim = claim, pr_evidence = evidence,
                     pr_assumptions = assumptions, pr_limitations = limitations,
                     pr_non_claims = non_claims, pr_source_refs = refs, pr_decision_scaffold = scaffold,
                     pr_execution_allowed = False, pr_receipt_ref = receipt_ref,
                     pr_created_at_utc = created\<rparr>
           | _ \<Rightarrow> None)
      | _ \<Rightarrow> None)"

section \<open>Content hash\<close>

text \<open>\<^verbatim>\<open>json.dumps(..., ensure_ascii=False)\<close> with the default separators.\<close>

definition raw_escape :: "char \<Rightarrow> string" where
  "raw_escape c = (if 126 < (of_char c :: nat) then [c] else json_escape c)"

definition raw_str :: "string \<Rightarrow> string" where
  "raw_str s = CHR 0x22 # concat (map raw_escape s) @ [CHR 0x22]"

primrec spaced_text :: "pyval \<Rightarrow> string" where
  "spaced_text PNone = ''null''"
| "spaced_text (PBool b) = (if b then ''true'' else ''false'')"
| "spaced_text (PInt n) = int_str n"
| "spaced_text (PFloat s) = s"
| "spaced_text (PStr s) = raw_str s"
| "spaced_text (PMoney m) = []"
| "spaced_text (PList xs) = CHR ''['' # py_join '', '' (map spaced_text xs) @ '']''"
| "spaced_text (PDict d) =
     CHR 0x7B # py_join '', '' (map (\<lambda>(k, t). raw_str k @ '': '' @ t) (map (map_prod id spaced_text) d)) @
     [CHR 0x7D]"

definition proposal_content_fields :: "proposal \<Rightarrow> jdict" where
  "proposal_content_fields p =
     [(''kind'', PStr (pr_kind p)), (''claim'', PStr (pr_claim p)), (''evidence'', PDict (pr_evidence p)),
      (''assumptions'', PDict (pr_assumptions p)), (''limitations'', PDict (pr_limitations p)),
      (''non_claims'', py_strs (pr_non_claims p)), (''source_refs'', py_strs (pr_source_refs p)),
      (''decision_scaffold'', PDict (pr_decision_scaffold p))]"

definition proposal_content_hash :: "prop_env \<Rightarrow> proposal \<Rightarrow> string" where
  "proposal_content_hash e p =
     sha256 e (utf8 (spaced_text (json_norm e (PDict (proposal_content_fields p)))))"

section \<open>Walking the chain\<close>

datatype anomaly_code =
    No_receipt_ref | Outside_allowed_roots | Missing | Unreadable | Wrong_kind | No_proposal_payload
  | Wrong_proposal_id | Invalid_supersedes | Cycle | Too_many

record revision_record =
  rv_receipt_id :: string
  rv_receipt_ref :: string
  rv_created_at_utc :: string
  rv_content_hash :: pyval
  rv_supersedes :: "string option"
  rv_proposal :: jdict
  rv_revision_context :: jdict

record revision_anomaly =
  an_code :: anomaly_code
  an_proposal_id :: string
  an_receipt_ref :: string
  an_path :: string
  an_detail :: string

record revision_walk =
  wk_revisions :: "revision_record list"
  wk_anomalies :: "revision_anomaly list"

definition is_relative_to :: "string \<Rightarrow> string \<Rightarrow> bool" where
  "is_relative_to p root \<longleftrightarrow>
     p = root \<or> starts_with p (if root \<noteq> [] \<and> last root = CHR ''/'' then root else root @ ''/'')"

definition resolve_receipt_path :: "prop_env \<Rightarrow> string list option \<Rightarrow> string \<Rightarrow> string option" where
  "resolve_receipt_path e allowed_roots receipt_ref =
     (let resolved = realpath e (path_join (project_root e) receipt_ref) in
      case allowed_roots of
        None \<Rightarrow> Some resolved
      | Some roots \<Rightarrow> if list_ex (is_relative_to resolved) roots then Some resolved else None)"

definition or_empty :: "prop_env \<Rightarrow> pyval \<Rightarrow> string" where
  "or_empty e v = (if pyval_truthy v then py_str e v else [])"

definition revision_of :: "prop_env \<Rightarrow> string \<Rightarrow> jdict \<Rightarrow> jdict \<Rightarrow> revision_record" where
  "revision_of e receipt_ref payload payload_proposal =
     \<lparr>rv_receipt_id = or_empty e (dict_get payload ''receipt_id''), rv_receipt_ref = receipt_ref,
      rv_created_at_utc = or_empty e (dict_get payload ''created_at_utc''),
      rv_content_hash = dict_get payload ''content_hash'',
      rv_supersedes = (case dict_get payload ''supersedes'' of PStr s \<Rightarrow> Some s | _ \<Rightarrow> None),
      rv_proposal = payload_proposal,
      rv_revision_context = (case dict_get payload ''revision_context'' of PDict d \<Rightarrow> d | _ \<Rightarrow> [])\<rparr>"

definition read_revision ::
  "prop_env \<Rightarrow> string list option \<Rightarrow> json_fs \<Rightarrow> string \<Rightarrow> string \<Rightarrow>
   (revision_record option \<times> revision_anomaly option) res" where
  "read_revision e allowed_roots fs proposal_id receipt_ref =
     (let fault = (\<lambda>code path detail.
            \<lparr>an_code = code, an_proposal_id = proposal_id, an_receipt_ref = receipt_ref, an_path = path,
             an_detail = ''proposal '' @ proposal_id @ '' revision receipt '' @ detail @ path\<rparr>) in
      case resolve_receipt_path e allowed_roots receipt_ref of
        None \<Rightarrow> Inr (None, Some (fault Outside_allowed_roots receipt_ref ''outside allowed roots: ''))
      | Some resolved \<Rightarrow>
          let shown = display_path e resolved in
          (case fs resolved of
             None \<Rightarrow> Inr (None, Some (fault Missing shown ''missing: ''))
           | Some NotUtf8 \<Rightarrow> Inl (ValueError ''UnicodeDecodeError'')
           | Some JsonOther \<Rightarrow> Inl (AttributeError ''get'')
           | Some (JsonObject payload) \<Rightarrow>
               if dict_get payload ''kind'' \<noteq> PStr ''state_core_proposal''
               then Inr (None, Some (fault Wrong_kind shown ''has unexpected kind: ''))
               else (case dict_get payload ''proposal'' of
                 PDict payload_proposal \<Rightarrow>
                   if dict_get payload_proposal ''proposal_id'' \<noteq> PStr proposal_id
                   then Inr (None, Some (fault Wrong_proposal_id shown
                          (''points to '' @ py_str e (dict_get payload_proposal ''proposal_id'') @ '': '')))
                   else
                     let r = revision_of e receipt_ref payload payload_proposal;
                         supersedes_raw = dict_get payload ''supersedes'' in
                     if supersedes_raw \<noteq> PNone \<and> \<not> is_str supersedes_raw
                     then Inr (Some r, Some (fault Invalid_supersedes shown ''has invalid supersedes: ''))
                     else Inr (Some r, None)
               | _ \<Rightarrow> Inr (None, Some (fault No_proposal_payload shown ''lacks proposal payload: '')))
           | Some _ \<Rightarrow> Inr (None, Some (fault Unreadable shown ''unreadable: ''))))"

definition chain_anomaly :: "anomaly_code \<Rightarrow> string \<Rightarrow> string \<Rightarrow> string \<Rightarrow> revision_anomaly" where
  "chain_anomaly code proposal_id receipt_ref detail =
     \<lparr>an_code = code, an_proposal_id = proposal_id, an_receipt_ref = receipt_ref, an_path = receipt_ref,
      an_detail = ''proposal '' @ proposal_id @ detail\<rparr>"

text \<open>The loop: it ends because every round either stops or reads one more of at most \<open>max_revisions\<close>.\<close>

function walk_loop ::
  "prop_env \<Rightarrow> string list option \<Rightarrow> json_fs \<Rightarrow> string \<Rightarrow> nat \<Rightarrow> string list \<Rightarrow> revision_record list \<Rightarrow>
   string option \<Rightarrow> revision_walk res" where
  "walk_loop e roots fs pid max_revisions seen revisions current =
     (case truthy current of
        None \<Rightarrow> Inr \<lparr>wk_revisions = revisions, wk_anomalies = []\<rparr>
      | Some ref \<Rightarrow>
          if ref \<in> set seen
          then Inr \<lparr>wk_revisions = revisions,
                    wk_anomalies = [chain_anomaly Cycle pid ref ('' revision chain cycle at '' @ ref)]\<rparr>
          else if max_revisions \<le> length revisions
          then Inr \<lparr>wk_revisions = revisions,
                    wk_anomalies = [chain_anomaly Too_many pid ref
                      ('' revision chain exceeds '' @ nat_str max_revisions)]\<rparr>
          else (case read_revision e roots fs pid ref of
                  Inl x \<Rightarrow> Inl x
                | Inr (Some r, None) \<Rightarrow>
                    walk_loop e roots fs pid max_revisions (ref # seen) (revisions @ [r]) (rv_supersedes r)
                | Inr (r, a) \<Rightarrow>
                    Inr \<lparr>wk_revisions = revisions @ (case r of None \<Rightarrow> [] | Some x \<Rightarrow> [x]),
                         wk_anomalies = (case a of None \<Rightarrow> [] | Some x \<Rightarrow> [x])\<rparr>))"
  by pat_completeness auto

termination
  by (relation "measure (\<lambda>(e, roots, fs, pid, m, seen, revs, cur). m - length revs)") auto

declare walk_loop.simps [simp del]

definition walk_proposal_revisions ::
  "prop_env \<Rightarrow> string list option \<Rightarrow> json_fs \<Rightarrow> string \<Rightarrow> string option \<Rightarrow> nat \<Rightarrow> revision_walk res" where
  "walk_proposal_revisions e roots fs proposal_id receipt_ref max_revisions =
     (case truthy receipt_ref of
        None \<Rightarrow> Inr \<lparr>wk_revisions = [], wk_anomalies =
          [\<lparr>an_code = No_receipt_ref, an_proposal_id = proposal_id, an_receipt_ref = [], an_path = [],
            an_detail = ''proposal '' @ proposal_id @ '' has no receipt_ref''\<rparr>]\<rparr>
      | Some ref \<Rightarrow> walk_loop e roots fs proposal_id max_revisions [] [] (Some ref))"

section \<open>The current version\<close>

record version_lineage =
  vl_proposal_version_id :: string
  vl_receipt_ref :: string
  vl_content_hash :: string
  vl_supersedes_version_id :: "string option"

record current_version =
  cv_proposal_id :: string
  cv_proposal_version_id :: string
  cv_receipt_ref :: string
  cv_content_hash :: string
  cv_lineage :: "version_lineage list"

record version_expectation =
  ex_proposal_id :: string
  ex_proposal_version_id :: string
  ex_receipt_ref :: string

definition validated_proposal :: "prop_env \<Rightarrow> revision_record \<Rightarrow> proposal res" where
  "validated_proposal e r =
     (case parse_proposal e (rv_proposal r) of
        None \<Rightarrow> Inl (VersionError ''receipt_payload_invalid''
          (''proposal receipt '' @ rv_receipt_ref r @ '' has an invalid Proposal payload''))
      | Some p \<Rightarrow>
          if rv_content_hash r \<noteq> PStr (proposal_content_hash e p)
          then Inl (VersionError ''receipt_content_hash_invalid''
            (''proposal receipt '' @ rv_receipt_ref r @ '' content hash does not match its payload''))
          else if rv_receipt_id r = []
          then Inl (VersionError ''receipt_payload_invalid''
            (''proposal receipt '' @ rv_receipt_ref r @ '' has no unique receipt/version identity''))
          else Inr p)"

fun lineage_of :: "prop_env \<Rightarrow> revision_record list \<Rightarrow> version_lineage list" where
  "lineage_of e [] = []"
| "lineage_of e (r # rs) =
     \<lparr>vl_proposal_version_id = rv_receipt_id r, vl_receipt_ref = rv_receipt_ref r,
      vl_content_hash = py_str e (rv_content_hash r),
      vl_supersedes_version_id = (case rs of [] \<Rightarrow> None | q # _ \<Rightarrow> Some (rv_receipt_id q))\<rparr> #
     lineage_of e rs"

definition MAX_REVISIONS :: nat where
  "MAX_REVISIONS = 100"

definition resolve_version_from_row ::
  "prop_env \<Rightarrow> string \<Rightarrow> proposal \<Rightarrow> json_fs \<Rightarrow> current_version res" where
  "resolve_version_from_row e receipt_root row fs =
     (case truthy (pr_receipt_ref row) of
        None \<Rightarrow> Inl (VersionError ''proposal_not_found''
          (''proposal '' @ pr_proposal_id row @ '' has no receipt_ref''))
      | Some ref \<Rightarrow>
          rbind (walk_proposal_revisions e (Some [realpath e receipt_root]) fs (pr_proposal_id row)
                   (pr_receipt_ref row) MAX_REVISIONS) (\<lambda>walk.
          case (wk_anomalies walk, wk_revisions walk) of
            ([], latest_record # rest) \<Rightarrow>
              rbind (map_res (validated_proposal e) (wk_revisions walk)) (\<lambda>validated.
                if ref \<noteq> rv_receipt_ref latest_record \<or>
                   \<not> py_eq (PDict (proposal_json row)) (PDict (proposal_json (hd validated)))
                then Inl (VersionError ''row_receipt_divergence''
                  (''proposal row '' @ pr_proposal_id row @ '' does not match current receipt payload''))
                else Inr \<lparr>cv_proposal_id = pr_proposal_id row,
                          cv_proposal_version_id = rv_receipt_id latest_record,
                          cv_receipt_ref = rv_receipt_ref latest_record,
                          cv_content_hash = py_str e (rv_content_hash latest_record),
                          cv_lineage = lineage_of e (wk_revisions walk)\<rparr>)
          | _ \<Rightarrow> Inl (VersionError ''receipt_chain_invalid''
              (case wk_anomalies walk of a # _ \<Rightarrow> an_detail a | [] \<Rightarrow> ''proposal receipt chain is empty''))))"

end
