(* ===== verification/Proposals.thy ===== *)
theory Proposals
  imports Proposal_Revisions "HOL-Library.Product_Lexorder"
begin

text \<open>
  The governed proposal writes (\<^verbatim>\<open>statecore/proposals.py\<close>): creation, scaffold revision, review
  events and attestations.  The tables and the receipt directory form one store; the tables roll
  back when a call raises, the directory does not.  In the environment of a call the first
  numbered commit is \<^verbatim>\<open>BEGIN IMMEDIATE\<close>, the second the commit itself.
\<close>

section \<open>Rows and store\<close>

record attestation =
  at_schema_version :: string
  at_as_of_utc :: string
  at_authority_level :: string
  at_attestation_id :: string
  at_proposal_id :: string
  at_attester :: string
  at_reason :: string
  at_decision :: string
  at_source_refs :: "string list"
  at_bound_proposal_version_id :: "string option"
  at_bound_proposal_receipt_ref :: "string option"
  at_created_at_utc :: string

definition attestation_json :: "attestation \<Rightarrow> jdict" where
  "attestation_json a =
     [(''schema_version'', PStr (at_schema_version a)), (''as_of_utc'', PStr (at_as_of_utc a)),
      (''authority_level'', PStr (at_authority_level a)), (''attestation_id'', PStr (at_attestation_id a)),
      (''proposal_id'', PStr (at_proposal_id a)), (''attester'', PStr (at_attester a)),
      (''reason'', PStr (at_reason a)), (''decision'', PStr (at_decision a)),
      (''source_refs'', py_strs (at_source_refs a)),
      (''bound_proposal_version_id'', py_optional (at_bound_proposal_version_id a)),
      (''bound_proposal_receipt_ref'', py_optional (at_bound_proposal_receipt_ref a)),
      (''created_at_utc'', PStr (at_created_at_utc a))]"

definition attestation_closes_current_review :: "attestation \<Rightarrow> proposal \<Rightarrow> bool" where
  "attestation_closes_current_review a p \<longleftrightarrow>
     at_decision a \<in> {''approved'', ''rejected''} \<and>
     (case pr_receipt_ref p of None \<Rightarrow> True | Some r \<Rightarrow> r \<in> set (at_source_refs a))"

definition REVIEW_EVENT_KINDS :: "string list" where
  "REVIEW_EVENT_KINDS = [''annotation'', ''archive'', ''reopen'', ''compare_mark'', ''agent_review_note'',
     ''agent_scaffold_revision_apply_candidate'']"

record review_event =
  re_schema_version :: string
  re_as_of_utc :: string
  re_authority_level :: string
  re_review_event_id :: string
  re_proposal_id :: string
  re_kind :: string
  re_attester :: string
  re_reason :: string
  re_text :: "string option"
  re_attestation_ref :: "string option"
  re_compare_with :: "string option"
  re_source_refs :: "string list"
  re_bound_proposal_version_id :: "string option"
  re_bound_proposal_receipt_ref :: "string option"
  re_content_hash :: string
  re_execution_allowed :: bool
  re_created_at_utc :: string

definition review_event_json :: "review_event \<Rightarrow> jdict" where
  "review_event_json x =
     [(''schema_version'', PStr (re_schema_version x)), (''as_of_utc'', PStr (re_as_of_utc x)),
      (''authority_level'', PStr (re_authority_level x)), (''review_event_id'', PStr (re_review_event_id x)),
      (''proposal_id'', PStr (re_proposal_id x)), (''kind'', PStr (re_kind x)),
      (''attester'', PStr (re_attester x)), (''reason'', PStr (re_reason x)),
      (''text'', py_optional (re_text x)), (''attestation_ref'', py_optional (re_attestation_ref x)),
      (''compare_with'', py_optional (re_compare_with x)), (''source_refs'', py_strs (re_source_refs x)),
      (''bound_proposal_version_id'', py_optional (re_bound_proposal_version_id x)),
      (''bound_proposal_receipt_ref'', py_optional (re_bound_proposal_receipt_ref x)),
      (''content_hash'', PStr (re_content_hash x)), (''execution_allowed'', PBool (re_execution_allowed x)),
      (''created_at_utc'', PStr (re_created_at_utc x))]"

record prop_db =
  pd_proposals :: "proposal list"
  pd_attestations :: "attestation list"
  pd_review_events :: "review_event list"
  pd_index :: "receipt_index_row list"
  pd_files :: json_fs

definition prop_index_row ::
  "prop_env \<Rightarrow> string \<Rightarrow> string \<Rightarrow> string \<Rightarrow> string \<Rightarrow> string list \<Rightarrow> receipt_index_row" where
  "prop_index_row e receipt_id kind path created refs =
     \<lparr>ri_receipt_id = receipt_id, ri_kind = kind, ri_path = display_path e path,
      ri_created_at_utc = created, ri_source_refs = [display_path e path], ri_refs = refs\<rparr>"

definition add_index :: "receipt_index_row \<Rightarrow> prop_db \<Rightarrow> prop_db option" where
  "add_index x db =
     (if tbl_has ri_receipt_id (pd_index db) (ri_receipt_id x) then None
      else Some (db\<lparr>pd_index := pd_index db @ [x]\<rparr>))"

text \<open>A row whose JSON columns hold an amount cannot be bound: the column has no form for a decimal.\<close>

definition bindable :: "proposal \<Rightarrow> bool" where
  "bindable p \<longleftrightarrow> list_all (\<lambda>(k, v). json_plain v) (proposal_json p)"

definition add_proposal :: "proposal \<Rightarrow> prop_db \<Rightarrow> prop_db option" where
  "add_proposal p db =
     (if pr_execution_allowed p \<or> \<not> bindable p \<or> tbl_has pr_proposal_id (pd_proposals db) (pr_proposal_id p) then None
      else Some (db\<lparr>pd_proposals := pd_proposals db @ [p]\<rparr>))"

definition merge_proposal :: "proposal \<Rightarrow> prop_db \<Rightarrow> prop_db option" where
  "merge_proposal p db =
     (if pr_execution_allowed p \<or> \<not> bindable p then None
      else Some (db\<lparr>pd_proposals := tbl_merge pr_proposal_id p (pd_proposals db)\<rparr>))"

definition add_attestation :: "attestation \<Rightarrow> prop_db \<Rightarrow> prop_db option" where
  "add_attestation a db =
     (if tbl_has at_attestation_id (pd_attestations db) (at_attestation_id a) \<or>
         \<not> tbl_has pr_proposal_id (pd_proposals db) (at_proposal_id a) then None
      else Some (db\<lparr>pd_attestations := pd_attestations db @ [a]\<rparr>))"

definition add_review_event :: "review_event \<Rightarrow> prop_db \<Rightarrow> prop_db option" where
  "add_review_event x db =
     (if tbl_has re_review_event_id (pd_review_events db) (re_review_event_id x) \<or>
         \<not> tbl_has pr_proposal_id (pd_proposals db) (re_proposal_id x) \<or>
         re_kind x \<notin> set REVIEW_EVENT_KINDS \<or> re_execution_allowed x then None
      else Some (db\<lparr>pd_review_events := pd_review_events db @ [x]\<rparr>))"

definition unlink_best_effort :: "prop_env \<Rightarrow> string \<Rightarrow> prop_db \<Rightarrow> prop_db" where
  "unlink_best_effort e path db =
     (if unlink_refused e path then db else db\<lparr>pd_files := (pd_files db)(path := None)\<rparr>)"

section \<open>Transactions\<close>

text \<open>
  The end of every governed write inside \<^verbatim>\<open>immediate_state_core_session\<close>: the receipt file, the rows,
  the commit.  A failing file write is an \<^verbatim>\<open>OSError\<close>, which the session turns into a store error;
  after the file was written every failure removes it again.
\<close>

definition governed_write ::
  "prop_env \<Rightarrow> string \<Rightarrow> jdict \<Rightarrow> (prop_db \<Rightarrow> prop_db option) \<Rightarrow> 'v \<Rightarrow> prop_db \<Rightarrow> 'v res \<times> prop_db" where
  "governed_write e path payload rows v db =
     (case atomic_write_json e path payload (pd_files db) of
        (Inl x, fs) \<Rightarrow> (Inl (StoreError ''state-core immediate transaction failed''), db\<lparr>pd_files := fs\<rparr>)
      | (Inr _, fs) \<Rightarrow>
          let written = db\<lparr>pd_files := fs\<rparr> in
          (case rows written of
             None \<Rightarrow> (Inl (StoreError ''state-core immediate transaction failed''),
                      unlink_best_effort e path written)
           | Some db' \<Rightarrow>
               if commit_fails e 1
               then (Inl (StoreError ''state-core immediate transaction failed''),
                     unlink_best_effort e path written)
               else (Inr v, db')))"

definition resolve_current_proposal_version ::
  "prop_env \<Rightarrow> string \<Rightarrow> string \<Rightarrow> prop_db \<Rightarrow> current_version res" where
  "resolve_current_proposal_version e receipt_root proposal_id db =
     (case tbl_get pr_proposal_id (pd_proposals db) proposal_id of
        None \<Rightarrow> Inl (VersionError ''proposal_not_found'' (''proposal not found: '' @ proposal_id))
      | Some row \<Rightarrow> resolve_version_from_row e receipt_root row (pd_files db))"

definition require_current_proposal_version ::
  "prop_env \<Rightarrow> string \<Rightarrow> string \<Rightarrow> string \<Rightarrow> string \<Rightarrow> prop_db \<Rightarrow> current_version res" where
  "require_current_proposal_version e receipt_root proposal_id expected_version_id expected_receipt_ref db =
     rbind (resolve_current_proposal_version e receipt_root proposal_id db) (\<lambda>current.
       if expected_version_id \<noteq> cv_proposal_version_id current
       then Inl (VersionError ''proposal_version_conflict''
         (''expected ProposalVersion '' @ expected_version_id @ '' is not current''))
       else if expected_receipt_ref \<noteq> cv_receipt_ref current
       then Inl (VersionError ''proposal_version_conflict''
         (''expected proposal receipt '' @ expected_receipt_ref @ '' is not current''))
       else Inr current)"

definition require_current_proposal_version_in_session ::
  "prop_env \<Rightarrow> string \<Rightarrow> version_expectation \<Rightarrow> string \<Rightarrow> prop_db \<Rightarrow> current_version res" where
  "require_current_proposal_version_in_session e receipt_root expectation proposal_id db =
     (if ex_proposal_id expectation \<noteq> proposal_id
      then Inl (VersionError ''expectation_proposal_id_mismatch''
        (''expectation targets proposal '' @ ex_proposal_id expectation @ '' but route targets '' @ proposal_id))
      else rbind (resolve_current_proposal_version e receipt_root proposal_id db) (\<lambda>current.
        if ex_proposal_version_id expectation \<noteq> cv_proposal_version_id current \<or>
           ex_receipt_ref expectation \<noteq> cv_receipt_ref current
        then Inl (VersionError ''proposal_version_conflict''
          (''expected ProposalVersion '' @ ex_proposal_version_id expectation @ '' / '' @
           ex_receipt_ref expectation @ '' is not current; current is '' @
           cv_proposal_version_id current @ '' / '' @ cv_receipt_ref current))
        else Inr current))"

text \<open>The admitted version and the row, read in the session of the write.\<close>

definition admit ::
  "prop_env \<Rightarrow> string \<Rightarrow> version_expectation \<Rightarrow> string \<Rightarrow> prop_db \<Rightarrow> (current_version \<times> proposal) res" where
  "admit e receipt_root expectation proposal_id db =
     (if commit_fails e 0 then Inl (StoreError ''state-core immediate transaction failed'')
      else rbind (require_current_proposal_version_in_session e receipt_root expectation proposal_id db)
        (\<lambda>admitted. case tbl_get pr_proposal_id (pd_proposals db) proposal_id of
           None \<Rightarrow> Inl (KeyError proposal_id) | Some p \<Rightarrow> Inr (admitted, p)))"

section \<open>Receipts\<close>

definition proposal_receipt_payload ::
  "proposal \<Rightarrow> string \<Rightarrow> string \<Rightarrow> string option \<Rightarrow> jdict option \<Rightarrow> jdict" where
  "proposal_receipt_payload p receipt_id content_hash supersedes revision_context =
     [(''receipt_id'', PStr receipt_id), (''kind'', PStr ''state_core_proposal''),
      (''created_at_utc'', PStr (pr_created_at_utc p)), (''content_hash'', PStr content_hash),
      (''supersedes'', py_optional supersedes), (''proposal'', PDict (proposal_json p)),
      (''governance'', PDict
         [(''execution_allowed'', PBool False), (''human_review_required'', PBool True),
          (''not_execution_authorization'', PBool True), (''not_investment_advice'', PBool True),
          (''non_claims'', py_strs
             [''This proposal is not trading authorization.'',
              ''This proposal cannot place orders or transfer funds.'',
              ''Any approval records human review only.''])])] @
     (case revision_context of None \<Rightarrow> [] | Some c \<Rightarrow> [(''revision_context'', PDict c)])"

definition optional_context :: "jdict option \<Rightarrow> jdict" where
  "optional_context x = (case x of None \<Rightarrow> [] | Some c \<Rightarrow> [(''mutation_context'', PDict c)])"

definition attestation_receipt_payload ::
  "attestation \<Rightarrow> proposal \<Rightarrow> string \<Rightarrow> current_version \<Rightarrow> jdict option \<Rightarrow> jdict" where
  "attestation_receipt_payload a p receipt_id admitted mutation_context =
     [(''receipt_id'', PStr receipt_id), (''kind'', PStr ''state_core_attestation''),
      (''created_at_utc'', PStr (at_created_at_utc a)), (''proposal_id'', PStr (pr_proposal_id p)),
      (''proposal_receipt_ref'', py_optional (pr_receipt_ref p)),
      (''admitted_proposal_version_id'', PStr (cv_proposal_version_id admitted)),
      (''admitted_proposal_receipt_ref'', PStr (cv_receipt_ref admitted)),
      (''attestation'', PDict (attestation_json a)),
      (''governance'', PDict
         [(''execution_allowed'', PBool False), (''approved_is_not_execution_authorization'', PBool True),
          (''not_execution_authorization'', PBool True), (''not_investment_advice'', PBool True)])] @
     optional_context mutation_context"

definition review_event_receipt_payload ::
  "review_event \<Rightarrow> proposal \<Rightarrow> current_version \<Rightarrow> jdict option \<Rightarrow> jdict" where
  "review_event_receipt_payload x p admitted mutation_context =
     [(''receipt_id'', PStr (''receipt_'' @ re_review_event_id x)), (''kind'', PStr ''state_core_review_event''),
      (''created_at_utc'', PStr (re_created_at_utc x)), (''proposal_id'', PStr (pr_proposal_id p)),
      (''proposal_receipt_ref'', py_optional (pr_receipt_ref p)),
      (''admitted_proposal_version_id'', PStr (cv_proposal_version_id admitted)),
      (''admitted_proposal_receipt_ref'', PStr (cv_receipt_ref admitted)),
      (''review_event'', PDict (review_event_json x)),
      (''governance'', PDict
         [(''execution_allowed'', PBool False), (''not_execution_authorization'', PBool True),
          (''not_investment_advice'', PBool True)])] @
     optional_context mutation_context"

section \<open>Creation\<close>

record new_proposal =
  np_kind :: string
  np_claim :: string
  np_evidence :: jdict
  np_assumptions :: jdict
  np_limitations :: jdict
  np_non_claims :: "string list"
  np_source_refs :: "string list"
  np_decision_scaffold :: jdict
  np_proposal_id :: "string option"
  np_created_at_utc :: "string option"
  np_idempotent :: bool
  np_revision_context :: "jdict option"

record proposal_write =
  pw_proposal :: proposal
  pw_receipt_ref :: string
  pw_execution_allowed :: bool

text \<open>The row of a proposal; its authority level is the model's default.\<close>

definition proposal_row ::
  "string \<Rightarrow> string \<Rightarrow> string \<Rightarrow> jdict \<Rightarrow> jdict \<Rightarrow> jdict \<Rightarrow> string list \<Rightarrow> string list \<Rightarrow> jdict \<Rightarrow> string option \<Rightarrow>
   string \<Rightarrow> proposal" where
  "proposal_row proposal_id kind claim evidence assumptions limitations non_claims source_refs scaffold
     receipt_ref created_at =
     \<lparr>pr_schema_version = STATE_CORE_SCHEMA_VERSION, pr_as_of_utc = created_at,
      pr_authority_level = ''needs_human_confirm'', pr_proposal_id = proposal_id, pr_kind = kind,
      pr_claim = claim, pr_evidence = evidence, pr_assumptions = assumptions, pr_limitations = limitations,
      pr_non_claims = non_claims, pr_source_refs = source_refs, pr_decision_scaffold = scaffold,
      pr_execution_allowed = False, pr_receipt_ref = receipt_ref, pr_created_at_utc = created_at\<rparr>"

definition new_row :: "prop_env \<Rightarrow> new_proposal \<Rightarrow> jdict \<Rightarrow> string option \<Rightarrow> proposal" where
  "new_row e a scaffold receipt_ref =
     proposal_row (safe_id (or_else (np_proposal_id a) (''prop_'' @ stamp e 0 @ ''_'' @ uuid8 e 0)))
       (py_strip (np_kind a)) (py_strip (np_claim a)) (np_evidence a) (np_assumptions a) (np_limitations a)
       (dedupe_by [] (np_non_claims a @ [''Not execution authorization.'', ''Not investment advice.'']))
       (np_source_refs a) scaffold receipt_ref (or_else (np_created_at_utc a) (clock e 0))"

definition store_proposal :: "prop_env \<Rightarrow> bool \<Rightarrow> proposal \<Rightarrow> receipt_index_row \<Rightarrow> prop_db \<Rightarrow> prop_db option" where
  "store_proposal e idempotent p x db =
     (case (if idempotent then merge_proposal p db else add_proposal p db) of
        None \<Rightarrow> None
      | Some db' \<Rightarrow>
          (case (if idempotent then Some (db'\<lparr>pd_index := tbl_merge ri_receipt_id x (pd_index db')\<rparr>)
                 else add_index x db') of
             None \<Rightarrow> None | Some db'' \<Rightarrow> if commit_fails e 1 then None else Some db''))"

definition revision_receipt_id :: "prop_env \<Rightarrow> string \<Rightarrow> string \<Rightarrow> string" where
  "revision_receipt_id e proposal_id content_hash =
     ''receipt_'' @ proposal_id @ ''_'' @ revision_stamp e 0 @ ''_'' @ take 8 content_hash"

definition write_new ::
  "prop_env \<Rightarrow> string \<Rightarrow> new_proposal \<Rightarrow> proposal \<Rightarrow> string \<Rightarrow> string option \<Rightarrow> prop_db \<Rightarrow>
   proposal_write res \<times> prop_db" where
  "write_new e receipt_root a draft content_hash supersedes db =
     (let receipt_id = revision_receipt_id e (pr_proposal_id draft) content_hash in
      case resolve_under e receipt_root [''proposals'', receipt_id @ ''.json''] of
        Inl x \<Rightarrow> (Inl x, db)
      | Inr path \<Rightarrow>
          let p = draft\<lparr>pr_receipt_ref := Some (display_path e path)\<rparr>;
              existed = (pd_files db path \<noteq> None);
              payload = proposal_receipt_payload p receipt_id content_hash supersedes (np_revision_context a);
              index = prop_index_row e receipt_id ''state_core_proposal'' path (pr_created_at_utc p)
                        (pr_proposal_id p # np_source_refs a) in
          (case atomic_write_json e path payload (pd_files db) of
             (Inl x, fs) \<Rightarrow> (Inl x, db\<lparr>pd_files := fs\<rparr>)
           | (Inr _, fs) \<Rightarrow>
               let written = db\<lparr>pd_files := fs\<rparr> in
               (case store_proposal e (np_idempotent a) p index written of
                  None \<Rightarrow> (Inl (StoreError ''state-core atomic write failed''),
                           if existed then written else unlink_best_effort e path written)
                | Some db' \<Rightarrow>
                    (Inr \<lparr>pw_proposal = p, pw_receipt_ref = display_path e path,
                          pw_execution_allowed = False\<rparr>, db'))))"

definition create_governed_proposal ::
  "prop_env \<Rightarrow> string \<Rightarrow> new_proposal \<Rightarrow> prop_db \<Rightarrow> proposal_write res \<times> prop_db" where
  "create_governed_proposal e receipt_root a db =
     (case ensure_forcing (np_decision_scaffold a) of
        Inl x \<Rightarrow> (Inl x, db)
      | Inr scaffold \<Rightarrow>
          let draft = new_row e a scaffold None;
              content_hash = proposal_content_hash e draft;
              existing = (if np_idempotent a
                          then tbl_get pr_proposal_id (pd_proposals db) (pr_proposal_id draft) else None) in
          case existing of
            Some p \<Rightarrow>
              if proposal_content_hash e p = content_hash
              then (Inr \<lparr>pw_proposal = p, pw_receipt_ref = or_else (pr_receipt_ref p) [],
                         pw_execution_allowed = False\<rparr>, db)
              else write_new e receipt_root a draft content_hash (pr_receipt_ref p) db
          | None \<Rightarrow> write_new e receipt_root a draft content_hash None db)"

section \<open>Scaffold revisions\<close>

record revise_args =
  rs_scaffold_patch :: jdict
  rs_attester :: string
  rs_reason :: string
  rs_expectation :: version_expectation
  rs_source_refs :: "string list"
  rs_revision_context_extra :: jdict

record revision_write =
  rw_proposal :: proposal
  rw_receipt_ref :: string
  rw_previous_receipt_ref :: "string option"
  rw_changed_scaffold_fields :: "string list"
  rw_admitted_proposal_version_id :: string
  rw_admitted_proposal_receipt_ref :: string
  rw_resulting_proposal_version_id :: string
  rw_resulting_proposal_receipt_ref :: string
  rw_execution_allowed :: bool

definition revise_checks :: "revise_args \<Rightarrow> jdict res" where
  "revise_checks a =
     (let unknown = sort (remdups (filter (\<lambda>k. k \<notin> set ALL_FIELDS) (map fst (rs_scaffold_patch a))));
          patch = normalize (rs_scaffold_patch a) in
      if py_strip (rs_attester a) = [] \<or> py_strip (rs_reason a) = []
      then Inl (ValueError ''proposal scaffold revision requires a named human and written reason'')
      else if unknown \<noteq> []
      then Inl (ValueError (''unknown decision-scaffold field(s): '' @ py_join '', '' unknown @
             ''. Allowed fields: '' @ py_join '', '' ALL_FIELDS @ ''.''))
      else if patch = []
      then Inl (ValueError ''proposal scaffold revision requires at least one non-blank field'')
      else Inr patch)"

definition revision_context ::
  "revise_args \<Rightarrow> proposal \<Rightarrow> string list \<Rightarrow> current_version \<Rightarrow> jdict" where
  "revision_context a existing changed admitted =
     fold (\<lambda>(k, v) d.
         if k \<in> {''kind'', ''attester'', ''reason'', ''execution_allowed'', ''admitted_proposal_version_id'',
                ''admitted_proposal_receipt_ref''} then d else dict_set d k v)
       (rs_revision_context_extra a)
       [(''kind'', PStr ''decision_scaffold_revision''), (''attester'', PStr (py_strip (rs_attester a))),
        (''reason'', PStr (py_strip (rs_reason a))),
        (''previous_receipt_ref'', py_optional (pr_receipt_ref existing)),
        (''changed_scaffold_fields'', py_strs changed), (''execution_allowed'', PBool False),
        (''admitted_proposal_version_id'', PStr (cv_proposal_version_id admitted)),
        (''admitted_proposal_receipt_ref'', PStr (cv_receipt_ref admitted))]"

definition changed_fields :: "jdict \<Rightarrow> jdict \<Rightarrow> string list" where
  "changed_fields previous merged =
     filter (\<lambda>field. \<not> py_eq (dict_get previous field) (dict_get merged field)) ALL_FIELDS"

definition revision_refs :: "proposal \<Rightarrow> string list \<Rightarrow> string list" where
  "revision_refs existing refs =
     dedupe_by [] (pr_source_refs existing @
       (case truthy (pr_receipt_ref existing) of None \<Rightarrow> [] | Some r \<Rightarrow> [r]) @ refs)"

definition revised_row :: "prop_env \<Rightarrow> proposal \<Rightarrow> jdict \<Rightarrow> string list \<Rightarrow> string option \<Rightarrow> proposal" where
  "revised_row e existing merged refs receipt_ref =
     proposal_row (pr_proposal_id existing) (pr_kind existing) (pr_claim existing) (pr_evidence existing)
       (pr_assumptions existing) (pr_limitations existing) (pr_non_claims existing) refs merged receipt_ref
       (clock e 0)"

definition revise_governed_proposal_scaffold ::
  "prop_env \<Rightarrow> string \<Rightarrow> string \<Rightarrow> revise_args \<Rightarrow> prop_db \<Rightarrow> revision_write res \<times> prop_db" where
  "revise_governed_proposal_scaffold e receipt_root proposal_id a db =
     (case revise_checks a of
        Inl x \<Rightarrow> (Inl x, db)
      | Inr patch \<Rightarrow>
      case admit e receipt_root (rs_expectation a) proposal_id db of
        Inl x \<Rightarrow> (Inl x, db)
      | Inr (admitted, existing) \<Rightarrow>
      let previous = normalize (pr_decision_scaffold existing) in
      case ensure_forcing (dict_merge previous patch) of
        Inl x \<Rightarrow> (Inl x, db)
      | Inr merged \<Rightarrow>
      let changed = changed_fields previous merged in
      if changed = []
      then (Inl (ValueError ''proposal scaffold revision does not change any stored field''), db)
      else
        let refs = revision_refs existing (rs_source_refs a);
            content_hash = proposal_content_hash e (revised_row e existing merged refs None);
            receipt_id = revision_receipt_id e (pr_proposal_id existing) content_hash in
        case resolve_under e receipt_root [''proposals'', receipt_id @ ''.json''] of
          Inl x \<Rightarrow> (Inl x, db)
        | Inr path \<Rightarrow>
            let p = revised_row e existing merged refs (Some (display_path e path));
                payload = proposal_receipt_payload p receipt_id content_hash (pr_receipt_ref existing)
                  (Some (revision_context a existing changed admitted));
                index = prop_index_row e receipt_id ''state_core_proposal'' path (clock e 0)
                  (pr_proposal_id existing # refs) in
            governed_write e path payload
              (\<lambda>db. case merge_proposal p db of None \<Rightarrow> None | Some db' \<Rightarrow> add_index index db')
              \<lparr>rw_proposal = p, rw_receipt_ref = display_path e path,
               rw_previous_receipt_ref = pr_receipt_ref existing, rw_changed_scaffold_fields = changed,
               rw_admitted_proposal_version_id = cv_proposal_version_id admitted,
               rw_admitted_proposal_receipt_ref = cv_receipt_ref admitted,
               rw_resulting_proposal_version_id = receipt_id,
               rw_resulting_proposal_receipt_ref = display_path e path, rw_execution_allowed = False\<rparr> db)"

section \<open>Review events\<close>

record review_args =
  rg_kind :: string
  rg_attester :: string
  rg_reason :: string
  rg_expectation :: version_expectation
  rg_text :: "string option"
  rg_attestation_ref :: "string option"
  rg_compare_with :: "string option"
  rg_source_refs :: "string list"
  rg_mutation_context :: "jdict option"

record review_event_write =
  ew_review_event :: review_event
  ew_receipt_ref :: string
  ew_admitted_proposal_version_id :: string
  ew_admitted_proposal_receipt_ref :: string
  ew_execution_allowed :: bool

definition review_event_content_hash ::
  "prop_env \<Rightarrow> string \<Rightarrow> review_args \<Rightarrow> string option \<Rightarrow> string \<Rightarrow> string" where
  "review_event_content_hash e proposal_id a compare_with created_at =
     sha256 e (utf8 (spaced_text (json_norm e (PDict
       [(''proposal_id'', PStr proposal_id), (''kind'', PStr (rg_kind a)),
        (''attester'', PStr (py_strip (rg_attester a))), (''reason'', PStr (py_strip (rg_reason a))),
        (''text'', py_optional (rg_text a)), (''attestation_ref'', py_optional (rg_attestation_ref a)),
        (''compare_with'', py_optional compare_with), (''source_refs'', py_strs (rg_source_refs a)),
        (''created_at_utc'', PStr created_at)]))))"

definition make_review_event ::
  "prop_env \<Rightarrow> string \<Rightarrow> review_args \<Rightarrow> current_version \<Rightarrow> string option \<Rightarrow> review_event" where
  "make_review_event e proposal_id a admitted compare_with =
     \<lparr>re_schema_version = STATE_CORE_SCHEMA_VERSION, re_as_of_utc = clock e 0,
      re_authority_level = ''needs_human_confirm'',
      re_review_event_id = safe_id (''rev_'' @ rg_kind a @ ''_'' @ revision_stamp e 0 @ ''_'' @ uuid8 e 0),
      re_proposal_id = proposal_id, re_kind = rg_kind a, re_attester = py_strip (rg_attester a),
      re_reason = py_strip (rg_reason a), re_text = rg_text a, re_attestation_ref = rg_attestation_ref a,
      re_compare_with = compare_with, re_source_refs = rg_source_refs a,
      re_bound_proposal_version_id = Some (cv_proposal_version_id admitted),
      re_bound_proposal_receipt_ref = Some (cv_receipt_ref admitted),
      re_content_hash = review_event_content_hash e proposal_id a compare_with (clock e 0),
      re_execution_allowed = False, re_created_at_utc = clock e 0\<rparr>"

definition compare_target :: "review_args \<Rightarrow> proposal \<Rightarrow> prop_db \<Rightarrow> string option res" where
  "compare_target a p db =
     (if rg_kind a \<noteq> ''compare_mark'' then Inr (rg_compare_with a)
      else let target = py_strip (or_else (rg_compare_with a) []) in
        if target = [] then Inl (ValueError ''compare_mark requires a compare_with proposal id'')
        else if target = pr_proposal_id p
        then Inl (ValueError ''compare_mark cannot compare a proposal with itself'')
        else if \<not> tbl_has pr_proposal_id (pd_proposals db) target then Inl (KeyError target)
        else Inr (Some target))"

definition nonempty_refs :: "string option \<Rightarrow> string list \<Rightarrow> string list" where
  "nonempty_refs r rs = filter (\<lambda>x. x \<noteq> []) ((case r of None \<Rightarrow> [] | Some x \<Rightarrow> [x]) @ rs)"

definition create_governed_review_event ::
  "prop_env \<Rightarrow> string \<Rightarrow> string \<Rightarrow> review_args \<Rightarrow> prop_db \<Rightarrow> review_event_write res \<times> prop_db" where
  "create_governed_review_event e receipt_root proposal_id a db =
     (if rg_kind a \<notin> set REVIEW_EVENT_KINDS
      then (Inl (ValueError (''unknown review event kind: '' @ rg_kind a)), db)
      else if py_strip (rg_attester a) = [] \<or> py_strip (rg_reason a) = []
      then (Inl (ValueError ''review event requires a named human and written reason''), db)
      else case admit e receipt_root (rg_expectation a) proposal_id db of
        Inl x \<Rightarrow> (Inl x, db)
      | Inr (admitted, p) \<Rightarrow>
      case compare_target a p db of
        Inl x \<Rightarrow> (Inl x, db)
      | Inr compare_with \<Rightarrow>
      let event = make_review_event e (pr_proposal_id p) a admitted compare_with;
          receipt_id = ''receipt_'' @ re_review_event_id event in
      case resolve_under e receipt_root [''review-events'', receipt_id @ ''.json''] of
        Inl x \<Rightarrow> (Inl x, db)
      | Inr path \<Rightarrow>
          let bound = event\<lparr>re_source_refs :=
                nonempty_refs (pr_receipt_ref p) (display_path e path # rg_source_refs a)\<rparr>;
              index = prop_index_row e receipt_id ''state_core_review_event'' path (re_created_at_utc bound)
                (nonempty_refs (pr_receipt_ref p) (pr_proposal_id p # re_source_refs bound)) in
          governed_write e path (review_event_receipt_payload bound p admitted (rg_mutation_context a))
            (\<lambda>db. case add_review_event bound db of None \<Rightarrow> None | Some db' \<Rightarrow> add_index index db')
            \<lparr>ew_review_event = bound, ew_receipt_ref = display_path e path,
             ew_admitted_proposal_version_id = cv_proposal_version_id admitted,
             ew_admitted_proposal_receipt_ref = cv_receipt_ref admitted, ew_execution_allowed = False\<rparr> db)"

text \<open>Archiving is a toggle: the latest archive or reopen event decides.\<close>

definition latest_archive_event :: "review_event list \<Rightarrow> review_event option" where
  "latest_archive_event events =
     (let toggles = sort_key (\<lambda>x. (re_created_at_utc x, re_review_event_id x))
            (filter (\<lambda>x. re_kind x = ''archive'' \<or> re_kind x = ''reopen'') events) in
      if toggles = [] then None else Some (last toggles))"

definition is_archived :: "string \<Rightarrow> prop_db \<Rightarrow> bool" where
  "is_archived proposal_id db \<longleftrightarrow>
     (case latest_archive_event (filter (\<lambda>x. re_proposal_id x = proposal_id) (pd_review_events db)) of
        None \<Rightarrow> False | Some x \<Rightarrow> re_kind x = ''archive'')"

definition archived_proposal_ids :: "prop_db \<Rightarrow> string list" where
  "archived_proposal_ids db =
     filter (\<lambda>i. is_archived i db) (remdups (map re_proposal_id (pd_review_events db)))"

section \<open>Attestations\<close>

record attest_args =
  tg_decision :: string
  tg_attester :: string
  tg_reason :: string
  tg_expectation :: version_expectation
  tg_source_refs :: "string list"
  tg_mutation_context :: "jdict option"

record attestation_write =
  aw_attestation :: attestation
  aw_proposal :: proposal
  aw_receipt_ref :: string
  aw_admitted_proposal_version_id :: string
  aw_admitted_proposal_receipt_ref :: string
  aw_approved_is_not_execution_authorization :: bool
  aw_execution_allowed :: bool

definition make_attestation ::
  "prop_env \<Rightarrow> attest_args \<Rightarrow> proposal \<Rightarrow> current_version \<Rightarrow> string \<Rightarrow> string \<Rightarrow> attestation" where
  "make_attestation e a p admitted attestation_id receipt_ref =
     \<lparr>at_schema_version = STATE_CORE_SCHEMA_VERSION, at_as_of_utc = clock e 0,
      at_authority_level = ''needs_human_confirm'', at_attestation_id = attestation_id,
      at_proposal_id = pr_proposal_id p, at_attester = py_strip (tg_attester a),
      at_reason = py_strip (tg_reason a), at_decision = tg_decision a,
      at_source_refs = nonempty_refs (pr_receipt_ref p) (receipt_ref # tg_source_refs a),
      at_bound_proposal_version_id = Some (cv_proposal_version_id admitted),
      at_bound_proposal_receipt_ref = Some (cv_receipt_ref admitted), at_created_at_utc = clock e 0\<rparr>"

definition create_governed_attestation ::
  "prop_env \<Rightarrow> string \<Rightarrow> string \<Rightarrow> attest_args \<Rightarrow> prop_db \<Rightarrow> attestation_write res \<times> prop_db" where
  "create_governed_attestation e receipt_root proposal_id a db =
     (case admit e receipt_root (tg_expectation a) proposal_id db of
        Inl x \<Rightarrow> (Inl x, db)
      | Inr (admitted, p) \<Rightarrow>
      case (if tg_decision a = ''approved''
            then ensure_confirmable e (pr_kind p) (pr_evidence p) (pr_decision_scaffold p) else Inr ()) of
        Inl x \<Rightarrow> (Inl x, db)
      | Inr _ \<Rightarrow>
      let attestation_id = safe_id (''att_'' @ stamp e 0 @ ''_'' @ uuid8 e 0);
          receipt_id = ''receipt_'' @ attestation_id in
      case resolve_under e receipt_root [''attestations'', receipt_id @ ''.json''] of
        Inl x \<Rightarrow> (Inl x, db)
      | Inr path \<Rightarrow>
          let att = make_attestation e a p admitted attestation_id (display_path e path);
              index = prop_index_row e receipt_id ''state_core_attestation'' path (clock e 0)
                (nonempty_refs (pr_receipt_ref p) [pr_proposal_id p]) in
          governed_write e path
            (attestation_receipt_payload att p receipt_id admitted (tg_mutation_context a))
            (\<lambda>db. case add_attestation att db of None \<Rightarrow> None | Some db' \<Rightarrow> add_index index db')
            \<lparr>aw_attestation = att, aw_proposal = p, aw_receipt_ref = display_path e path,
             aw_admitted_proposal_version_id = cv_proposal_version_id admitted,
             aw_admitted_proposal_receipt_ref = cv_receipt_ref admitted,
             aw_approved_is_not_execution_authorization = True, aw_execution_allowed = False\<rparr> db)"

end
