(* ===== verification/Proposal_Chains.thy ===== *)
theory Proposal_Chains
  imports Proposals
begin

text \<open>
  Receipt chains as an inductive reading of the directory, and what the walk, the version resolver
  and the governed writes do to them.
\<close>

section \<open>The receipt chain\<close>

text \<open>
  A chain read off the directory: receipt after receipt, each naming the one it supersedes, down
  to the first version.
\<close>

inductive receipt_chain ::
  "prop_env \<Rightarrow> string list option \<Rightarrow> json_fs \<Rightarrow> string \<Rightarrow> string option \<Rightarrow> revision_record list \<Rightarrow> bool"
  for e roots fs pid where
  chain_end: "truthy ref = None \<Longrightarrow> receipt_chain e roots fs pid ref []"
| chain_step: "truthy ref = Some s \<Longrightarrow> read_revision e roots fs pid s = Inr (Some r, None) \<Longrightarrow>
    receipt_chain e roots fs pid (rv_supersedes r) rs \<Longrightarrow> receipt_chain e roots fs pid ref (r # rs)"

inductive_simps receipt_chain_Nil: "receipt_chain e roots fs pid ref []"
inductive_simps receipt_chain_Cons: "receipt_chain e roots fs pid ref (r # rs)"

lemma read_revision_ref:
  "read_revision e roots fs pid s = Inr (Some r, a) \<Longrightarrow> rv_receipt_ref r = s"
  by (auto simp: read_revision_def Let_def revision_of_def
      split: option.splits json_file.splits if_splits pyval.splits)

lemma read_revision_some: "read_revision e roots fs pid s \<noteq> Inr (None, None)"
  by (auto simp: read_revision_def Let_def split: option.splits json_file.splits pyval.splits)

lemma walk_loop_ok_iff:
  "walk_loop e roots fs pid m seen revs cur = Inr \<lparr>wk_revisions = out, wk_anomalies = []\<rparr> \<longleftrightarrow>
   (\<exists>rs. out = revs @ rs \<and> receipt_chain e roots fs pid cur rs \<and> length rs \<le> m - length revs \<and>
      distinct (map rv_receipt_ref rs) \<and> set (map rv_receipt_ref rs) \<inter> set seen = {})"
proof (induction e roots fs pid m seen revs cur rule: walk_loop.induct)
  case (1 e roots fs pid m seen revs cur)
  show ?case
  proof (cases "truthy cur")
    case None
    then have "receipt_chain e roots fs pid cur rs \<longleftrightarrow> rs = []" for rs
      by (cases rs) (auto simp: receipt_chain_Nil receipt_chain_Cons)
    with None show ?thesis by (subst walk_loop.simps) auto
  next
    case (Some ref)
    have no_end: "\<not> receipt_chain e roots fs pid cur []" using Some by (simp add: receipt_chain_Nil)
    show ?thesis
    proof (cases "ref \<in> set seen \<or> m \<le> length revs")
      case True
      have "\<not> (receipt_chain e roots fs pid cur rs \<and> length rs \<le> m - length revs \<and>
          set (map rv_receipt_ref rs) \<inter> set seen = {})" for rs
        using True Some no_end
        by (cases rs) (auto simp: receipt_chain_Cons dest: read_revision_ref)
      moreover have "walk_loop e roots fs pid m seen revs cur \<noteq> Inr \<lparr>wk_revisions = out, wk_anomalies = []\<rparr>"
        using True Some by (subst walk_loop.simps) auto
      ultimately show ?thesis by blast
    next
      case False
      show ?thesis
      proof (cases "\<exists>r. read_revision e roots fs pid ref = Inr (Some r, None)")
        case True
        then obtain r where r: "read_revision e roots fs pid ref = Inr (Some r, None)" by blast
        have step: "walk_loop e roots fs pid m seen revs cur =
            walk_loop e roots fs pid m (ref # seen) (revs @ [r]) (rv_supersedes r)"
          using Some False r by (subst walk_loop.simps) simp
        have IH: "walk_loop e roots fs pid m (ref # seen) (revs @ [r]) (rv_supersedes r) =
              Inr \<lparr>wk_revisions = out, wk_anomalies = []\<rparr> \<longleftrightarrow>
            (\<exists>rs. out = (revs @ [r]) @ rs \<and> receipt_chain e roots fs pid (rv_supersedes r) rs \<and>
               length rs \<le> m - length (revs @ [r]) \<and>
               distinct (map rv_receipt_ref rs) \<and> set (map rv_receipt_ref rs) \<inter> set (ref # seen) = {})"
          using 1 [OF Some _ _ r refl refl refl] False by simp
        have ref: "rv_receipt_ref r = ref" using r by (rule read_revision_ref)
        have cons: "receipt_chain e roots fs pid cur rs \<longleftrightarrow>
            (\<exists>ts. rs = r # ts \<and> receipt_chain e roots fs pid (rv_supersedes r) ts)" for rs
          using Some r no_end by (cases rs) (auto simp: receipt_chain_Cons)
        show ?thesis unfolding step IH cons using False ref by auto
      next
        case bad: False
        then have "\<not> receipt_chain e roots fs pid cur rs" for rs
          using Some no_end by (cases rs) (auto simp: receipt_chain_Cons)
        moreover have "walk_loop e roots fs pid m seen revs cur \<noteq>
            Inr \<lparr>wk_revisions = out, wk_anomalies = []\<rparr>"
          using Some False bad read_revision_some [of e roots fs pid ref]
          by (subst walk_loop.simps) (auto split: sum.splits option.splits)
        ultimately show ?thesis by blast
      qed
    qed
  qed
qed

lemma walk_ok_iff:
  "walk_proposal_revisions e roots fs pid ref m = Inr \<lparr>wk_revisions = out, wk_anomalies = []\<rparr> \<longleftrightarrow>
   out \<noteq> [] \<and> receipt_chain e roots fs pid ref out \<and> length out \<le> m \<and> distinct (map rv_receipt_ref out)"
proof (cases "truthy ref")
  case None
  then have "receipt_chain e roots fs pid ref out \<Longrightarrow> out = []"
    by (cases out) (auto simp: receipt_chain_Cons)
  with None show ?thesis by (auto simp: walk_proposal_revisions_def)
next
  case (Some s)
  then have "ref = Some s" by (simp add: truthy_def split: if_splits)
  moreover have "receipt_chain e roots fs pid ref out \<Longrightarrow> out \<noteq> []"
    using Some by (cases out) (simp_all add: receipt_chain_Nil)
  ultimately show ?thesis using Some by (auto simp: walk_proposal_revisions_def walk_loop_ok_iff)
qed

text \<open>A chain is not disturbed by a new file, and its receipts are files of the directory.\<close>

lemma read_revision_frame:
  assumes "read_revision e roots fs pid s = Inr (Some r, a)" and "fs path = None"
  shows "read_revision e roots (fs(path \<mapsto> c)) pid s = Inr (Some r, a)"
proof -
  from assms(1) obtain q where q: "resolve_receipt_path e roots s = Some q" "fs q \<noteq> None"
    by (auto simp: read_revision_def Let_def split: option.splits)
  with assms(2) have "(fs(path \<mapsto> c)) q = fs q" by auto
  with assms(1) q(1) show ?thesis by (simp add: read_revision_def)
qed

lemma chain_frame:
  "receipt_chain e roots fs pid ref rs \<Longrightarrow> fs path = None \<Longrightarrow> receipt_chain e roots (fs(path \<mapsto> c)) pid ref rs"
  by (induction rule: receipt_chain.induct) (auto intro: receipt_chain.intros read_revision_frame)

lemma chain_files:
  "receipt_chain e roots fs pid ref rs \<Longrightarrow> r \<in> set rs \<Longrightarrow>
   \<exists>q. resolve_receipt_path e roots (rv_receipt_ref r) = Some q \<and> fs q \<noteq> None"
proof (induction rule: receipt_chain.induct)
  case (chain_step ref s r' rs)
  from chain_step.hyps(2) have "\<exists>q. resolve_receipt_path e roots s = Some q \<and> fs q \<noteq> None"
    by (auto simp: read_revision_def Let_def split: option.splits)
  with chain_step read_revision_ref [OF chain_step.hyps(2)] show ?case by auto
qed simp

section \<open>The resolver\<close>

definition current_of :: "prop_env \<Rightarrow> string \<Rightarrow> revision_record list \<Rightarrow> current_version" where
  "current_of e pid revs =
     \<lparr>cv_proposal_id = pid, cv_proposal_version_id = rv_receipt_id (hd revs),
      cv_receipt_ref = rv_receipt_ref (hd revs), cv_content_hash = py_str e (rv_content_hash (hd revs)),
      cv_lineage = lineage_of e revs\<rparr>"

text \<open>What the resolver accepts: a chain of valid receipts whose head is the row.\<close>

definition version_chain :: "prop_env \<Rightarrow> string \<Rightarrow> proposal \<Rightarrow> json_fs \<Rightarrow> revision_record list \<Rightarrow> bool" where
  "version_chain e root row fs revs \<longleftrightarrow>
     revs \<noteq> [] \<and> receipt_chain e (Some [realpath e root]) fs (pr_proposal_id row) (pr_receipt_ref row) revs \<and>
     distinct (map rv_receipt_ref revs) \<and>
     (\<forall>r\<in>set revs. \<exists>p. validated_proposal e r = Inr p) \<and>
     (\<exists>p. validated_proposal e (hd revs) = Inr p \<and>
        py_eq (PDict (proposal_json row)) (PDict (proposal_json p)))"

lemma map_res_total: "(\<exists>ys. map_res f xs = Inr ys) \<longleftrightarrow> (\<forall>x\<in>set xs. \<exists>y. f x = Inr y)"
  by (induction xs) (auto simp: rbind_Inr_iff)

lemma resolve_row_iff:
  "resolve_version_from_row e root row fs = Inr cur \<longleftrightarrow>
   (\<exists>revs. version_chain e root row fs revs \<and> length revs \<le> MAX_REVISIONS \<and>
      cur = current_of e (pr_proposal_id row) revs)"
proof (cases "truthy (pr_receipt_ref row)")
  case None
  then have "\<not> version_chain e root row fs revs" for revs
    by (cases revs) (auto simp: version_chain_def receipt_chain_Cons)
  with None show ?thesis by (simp add: resolve_version_from_row_def)
next
  case (Some ref)
  let ?walk = "walk_proposal_revisions e (Some [realpath e root]) fs (pr_proposal_id row)
    (pr_receipt_ref row) MAX_REVISIONS"
  show ?thesis
  proof (cases "\<exists>revs. ?walk = Inr \<lparr>wk_revisions = revs, wk_anomalies = []\<rparr>")
    case True
    then obtain revs where walk: "?walk = Inr \<lparr>wk_revisions = revs, wk_anomalies = []\<rparr>" by blast
    then obtain r rs where revs: "revs = r # rs" by (cases revs) (auto simp: walk_ok_iff)
    from walk have chain: "receipt_chain e (Some [realpath e root]) fs (pr_proposal_id row)
        (pr_receipt_ref row) revs" "length revs \<le> MAX_REVISIONS" "distinct (map rv_receipt_ref revs)"
      by (simp_all only: walk_ok_iff)
    have only: "version_chain e root row fs rs' \<and> length rs' \<le> MAX_REVISIONS \<Longrightarrow> rs' = revs" for rs'
      using walk walk_ok_iff [of e "Some [realpath e root]" fs "pr_proposal_id row" "pr_receipt_ref row"
          MAX_REVISIONS rs']
      by (simp add: version_chain_def)
    have ref: "ref = rv_receipt_ref r"
      using chain(1) Some by (auto simp: revs receipt_chain_Cons dest: read_revision_ref)
    have "resolve_version_from_row e root row fs = Inr cur \<longleftrightarrow>
        (\<exists>p ps. validated_proposal e r = Inr p \<and> map_res (validated_proposal e) rs = Inr ps \<and>
           py_eq (PDict (proposal_json row)) (PDict (proposal_json p)) \<and>
           cur = current_of e (pr_proposal_id row) revs)"
      unfolding resolve_version_from_row_def Some walk
      by (cases "validated_proposal e r"; cases "map_res (validated_proposal e) rs")
         (auto simp: revs ref current_of_def)
    also have "\<dots> \<longleftrightarrow> version_chain e root row fs revs \<and> cur = current_of e (pr_proposal_id row) revs"
      using chain(1,3) map_res_total [of "validated_proposal e" rs] by (auto simp: version_chain_def revs)
    finally show ?thesis using only chain(2) by metis
  next
    case False
    then have "\<not> (version_chain e root row fs revs \<and> length revs \<le> MAX_REVISIONS)" for revs
      by (auto simp: version_chain_def walk_ok_iff)
    moreover have "resolve_version_from_row e root row fs \<noteq> Inr cur"
    proof (cases ?walk)
      case (Inr w)
      with False have "wk_anomalies w \<noteq> []" by (cases w) auto
      with Inr Some show ?thesis
        by (cases "wk_anomalies w") (simp_all add: resolve_version_from_row_def)
    qed (simp add: resolve_version_from_row_def Some)
    ultimately show ?thesis by blast
  qed
qed

section \<open>Receipts read back\<close>

text \<open>The row that a written receipt validates to: its documents come back with sorted keys.\<close>

definition stored_row :: "prop_env \<Rightarrow> proposal \<Rightarrow> proposal" where
  "stored_row e p = p\<lparr>pr_evidence := json_object e (pr_evidence p),
     pr_assumptions := json_object e (pr_assumptions p), pr_limitations := json_object e (pr_limitations p),
     pr_decision_scaffold := json_object e (pr_decision_scaffold p)\<rparr>"

lemma py_strs_norm [simp]: "json_norm e (py_strs xs) = py_strs xs"
  by (simp add: py_strs_def)

lemma py_optional_norm [simp]: "json_norm e (py_optional x) = py_optional x"
  by (simp add: py_optional_def split: option.splits)

lemma parse_strs_written: "map_of d k = Some (py_strs xs) \<Longrightarrow> parse_strs d k = Some xs"
  by (simp add: parse_strs_def py_strs_def list_all_iff is_str_def o_def)

lemma parse_opt_written: "map_of d k = Some (py_optional x) \<Longrightarrow> parse_opt d k = Some x"
  by (simp add: parse_opt_def py_optional_def split: option.splits)

lemma parse_written:
  assumes "\<not> pr_execution_allowed p"
  shows "parse_proposal e (json_object e (proposal_json p)) = Some (stored_row e p)"
proof -
  let ?d = "json_object e (proposal_json p)"
  have refs: "parse_strs ?d ''non_claims'' = Some (pr_non_claims p)"
      "parse_strs ?d ''source_refs'' = Some (pr_source_refs p)"
      "parse_opt ?d ''receipt_ref'' = Some (pr_receipt_ref p)"
    by (rule parse_strs_written parse_opt_written; simp add: map_of_json_object proposal_json_def)+
  have strs: "parse_str ?d ''schema_version'' x = Some (pr_schema_version p)"
      "parse_str ?d ''as_of_utc'' x = Some (pr_as_of_utc p)"
      "parse_str ?d ''authority_level'' x = Some (pr_authority_level p)"
      "parse_str ?d ''proposal_id'' x = Some (pr_proposal_id p)"
      "parse_str ?d ''kind'' x = Some (pr_kind p)" "parse_str ?d ''claim'' x = Some (pr_claim p)"
      "parse_str ?d ''created_at_utc'' x = Some (pr_created_at_utc p)" for x
    by (simp_all add: parse_str_def map_of_json_object proposal_json_def)
  have docs: "parse_dict ?d ''evidence'' = Some (json_object e (pr_evidence p))"
      "parse_dict ?d ''assumptions'' = Some (json_object e (pr_assumptions p))"
      "parse_dict ?d ''limitations'' = Some (json_object e (pr_limitations p))"
      "parse_dict ?d ''decision_scaffold'' = Some (json_object e (pr_decision_scaffold p))"
      "parse_flag e ?d ''execution_allowed'' = Some False"
    using assms
    by (simp_all add: parse_dict_def parse_flag_def map_of_json_object)
       (simp_all add: proposal_json_def json_object_def)
  show ?thesis
    using assms by (simp add: parse_proposal_def refs strs docs stored_row_def)
qed

lemma content_hash_stored [simp]: "proposal_content_hash e (stored_row e p) = proposal_content_hash e p"
proof -
  have "json_norm e (PDict (proposal_content_fields (stored_row e p))) =
      json_norm e (PDict (proposal_content_fields p))"
    unfolding json_norm.simps(8) [of e "proposal_content_fields p"]
      json_norm.simps(8) [of e "proposal_content_fields (stored_row e p)"]
    by (simp add: proposal_content_fields_def stored_row_def json_object_PDict del: json_norm.simps(8))
  then show ?thesis by (simp only: proposal_content_hash_def)
qed

lemma stored_row_eq:
  assumes "bindable p"
  shows "py_eq (PDict (proposal_json p)) (PDict (proposal_json (stored_row e p)))"
proof -
  have doc: "json_plain (PDict d) \<Longrightarrow> eq_norm (PDict (json_object e d)) = eq_norm (PDict d)" for d
    using eq_norm_json [of "PDict d" e] by (simp only: json_object_PDict)
  have "map (map_prod id eq_norm) (proposal_json (stored_row e p)) =
      map (map_prod id eq_norm) (proposal_json p)"
    using assms
    by (simp add: bindable_def proposal_json_def stored_row_def doc del: eq_norm.simps(8) json_plain.simps(8))
  then show ?thesis by (simp add: py_eq_def)
qed

lemma receipt_reads_back:
  assumes "resolve_receipt_path e roots (display_path e path) = Some path"
  shows "\<exists>r. read_revision e roots
      (fs(path \<mapsto> JsonObject (json_object e (proposal_receipt_payload p rid h prev ctx))))
      (pr_proposal_id p) (display_path e path) = Inr (Some r, None) \<and>
    rv_receipt_id r = rid \<and> rv_receipt_ref r = display_path e path \<and> rv_content_hash r = PStr h \<and>
    rv_supersedes r = prev \<and> rv_proposal r = json_object e (proposal_json p)"
proof -
  let ?payload = "proposal_receipt_payload p rid h prev ctx"
  let ?d = "json_object e ?payload"
  have fields: "dict_get ?d ''receipt_id'' = PStr rid" "dict_get ?d ''kind'' = PStr ''state_core_proposal''"
      "dict_get ?d ''content_hash'' = PStr h" "dict_get ?d ''supersedes'' = py_optional prev"
      "dict_get ?d ''proposal'' = PDict (json_object e (proposal_json p))"
    by (simp_all add: dict_get_json_object) (simp_all add: dict_get_def proposal_receipt_payload_def json_object_def)
  have id: "dict_get (json_object e (proposal_json p)) ''proposal_id'' = PStr (pr_proposal_id p)"
    by (simp add: dict_get_json_object) (simp add: dict_get_def proposal_json_def)
  have "py_optional prev \<noteq> PNone \<longrightarrow> is_str (py_optional prev)"
    by (simp add: py_optional_def is_str_def split: option.splits)
  then show ?thesis
    by (simp add: read_revision_def assms fields id revision_of_def or_empty_def py_str_def
        pyval_truthy_def py_optional_def split: option.splits)
qed

section \<open>Governed writes\<close>

lemma governed_write_Inr:
  "governed_write e path payload rows v db = (Inr v', db') \<Longrightarrow>
   v' = v \<and> rows (db\<lparr>pd_files := (pd_files db)(path \<mapsto> JsonObject (json_object e payload))\<rparr>) = Some db'"
  by (auto simp: governed_write_def atomic_write_json_def atomic_replace_def Let_def
      split: if_splits option.splits)

lemma governed_write_Inl:
  "governed_write e path payload rows v db = (Inl x, db') \<Longrightarrow> db' = db\<lparr>pd_files := pd_files db'\<rparr>"
  by (cases db) (auto simp: governed_write_def atomic_write_json_def atomic_replace_def unlink_best_effort_def Let_def
      split: if_splits option.splits)

text \<open>A version expectation that does not name the current version.\<close>

definition stale :: "prop_env \<Rightarrow> string \<Rightarrow> string \<Rightarrow> version_expectation \<Rightarrow> prop_db \<Rightarrow> bool" where
  "stale e root pid x db \<longleftrightarrow>
     (\<forall>cur. resolve_current_proposal_version e root pid db = Inr cur \<longrightarrow>
        x \<noteq> \<lparr>ex_proposal_id = pid, ex_proposal_version_id = cv_proposal_version_id cur,
              ex_receipt_ref = cv_receipt_ref cur\<rparr>)"

lemma admit_Inr_iff:
  "admit e root x pid db = Inr (cur, p) \<longleftrightarrow>
   \<not> commit_fails e 0 \<and> tbl_get pr_proposal_id (pd_proposals db) pid = Some p \<and>
   resolve_version_from_row e root p (pd_files db) = Inr cur \<and>
   x = \<lparr>ex_proposal_id = pid, ex_proposal_version_id = cv_proposal_version_id cur,
        ex_receipt_ref = cv_receipt_ref cur\<rparr>"
  by (cases x)
     (auto simp: admit_def require_current_proposal_version_in_session_def resolve_current_proposal_version_def
      rbind_Inr_iff split: option.splits if_splits)

lemma admit_stale: "stale e root pid x db \<Longrightarrow> \<exists>err. admit e root x pid db = Inl err"
  by (cases "admit e root x pid db")
     (auto simp: admit_Inr_iff stale_def resolve_current_proposal_version_def)

text \<open>
  What every governed operation on an existing proposal promises: it is admitted first, under the
  expectation of its caller, and whatever fails keeps the tables.
\<close>

locale governed_operation =
  fixes operation :: "prop_env \<Rightarrow> string \<Rightarrow> string \<Rightarrow> 'a \<Rightarrow> prop_db \<Rightarrow> 'v res \<times> prop_db"
    and expectation :: "'a \<Rightarrow> version_expectation"
  assumes admitted_first:
      "admit e root (expectation a) pid db = Inl err \<Longrightarrow> \<exists>x. operation e root pid a db = (Inl x, db)"
    and failure_keeps_tables:
      "operation e root pid a db = (Inl x, db') \<Longrightarrow> db' = db\<lparr>pd_files := pd_files db'\<rparr>"
begin

lemma stale_refused:
  "stale e root pid (expectation a) db \<Longrightarrow> \<exists>x. operation e root pid a db = (Inl x, db)"
  using admit_stale admitted_first by blast

lemma success_current:
  assumes "operation e root pid a db = (Inr v, db')"
  shows "\<not> stale e root pid (expectation a) db"
  using assms stale_refused [of e root pid a db] by auto

end

interpretation revising: governed_operation revise_governed_proposal_scaffold rs_expectation
proof
  show "\<exists>x. revise_governed_proposal_scaffold e root pid a db = (Inl x, db)"
    if "admit e root (rs_expectation a) pid db = Inl err" for e root a pid db err
    using that by (simp add: revise_governed_proposal_scaffold_def split: sum.split)
  show "db' = db\<lparr>pd_files := pd_files db'\<rparr>"
    if "revise_governed_proposal_scaffold e root pid a db = (Inl x, db')" for e root pid a db x db'
    using that
    by (auto simp: revise_governed_proposal_scaffold_def Let_def split: sum.splits prod.splits if_splits
        dest: governed_write_Inl)
qed

interpretation reviewing: governed_operation create_governed_review_event rg_expectation
proof
  show "\<exists>x. create_governed_review_event e root pid a db = (Inl x, db)"
    if "admit e root (rg_expectation a) pid db = Inl err" for e root a pid db err
    using that by (simp add: create_governed_review_event_def)
  show "db' = db\<lparr>pd_files := pd_files db'\<rparr>"
    if "create_governed_review_event e root pid a db = (Inl x, db')" for e root pid a db x db'
    using that
    by (auto simp: create_governed_review_event_def Let_def split: sum.splits prod.splits if_splits
        dest: governed_write_Inl)
qed

interpretation attesting: governed_operation create_governed_attestation tg_expectation
proof
  show "\<exists>x. create_governed_attestation e root pid a db = (Inl x, db)"
    if "admit e root (tg_expectation a) pid db = Inl err" for e root a pid db err
    using that by (simp add: create_governed_attestation_def)
  show "db' = db\<lparr>pd_files := pd_files db'\<rparr>"
    if "create_governed_attestation e root pid a db = (Inl x, db')" for e root pid a db x db'
    using that
    by (auto simp: create_governed_attestation_def Let_def split: sum.splits prod.splits if_splits
        dest: governed_write_Inl)
qed

text \<open>What a successful revision did.\<close>

lemma revise_Inr:
  assumes "revise_governed_proposal_scaffold e root pid a db = (Inr w, db')"
  obtains cur old merged refs path h where
    "admit e root (rs_expectation a) pid db = Inr (cur, old)"
    "ensure_forcing (dict_merge (normalize (pr_decision_scaffold old)) (normalize (rs_scaffold_patch a))) = Inr merged"
    "rw_changed_scaffold_fields w = changed_fields (normalize (pr_decision_scaffold old)) merged"
    "rw_changed_scaffold_fields w \<noteq> []"
    "refs = revision_refs old (rs_source_refs a)"
    "h = proposal_content_hash e (revised_row e old merged refs None)"
    "rw_resulting_proposal_version_id w = revision_receipt_id e (pr_proposal_id old) h"
    "resolve_under e root [''proposals'', rw_resulting_proposal_version_id w @ ''.json''] = Inr path"
    "rw_receipt_ref w = display_path e path" "rw_resulting_proposal_receipt_ref w = display_path e path"
    "rw_proposal w = revised_row e old merged refs (Some (display_path e path))"
    "bindable (rw_proposal w)"
    "pd_proposals db' = tbl_merge pr_proposal_id (rw_proposal w) (pd_proposals db)"
    "pd_attestations db' = pd_attestations db" "pd_review_events db' = pd_review_events db"
    "pd_files db' = (pd_files db)(path \<mapsto> JsonObject (json_object e
       (proposal_receipt_payload (rw_proposal w) (rw_resulting_proposal_version_id w) h (pr_receipt_ref old)
         (Some (revision_context a old (rw_changed_scaffold_fields w) cur)))))"
proof -
  from assms obtain patch where patch: "revise_checks a = Inr patch"
    by (cases "revise_checks a") (auto simp: revise_governed_proposal_scaffold_def)
  then have norm: "patch = normalize (rs_scaffold_patch a)"
    by (auto simp: revise_checks_def Let_def split: if_splits)
  from assms patch obtain cur old where adm: "admit e root (rs_expectation a) pid db = Inr (cur, old)"
    by (cases "admit e root (rs_expectation a) pid db") (auto simp: revise_governed_proposal_scaffold_def)
  let ?prev = "normalize (pr_decision_scaffold old)"
  from assms patch adm obtain merged where forced: "ensure_forcing (dict_merge ?prev patch) = Inr merged"
    by (cases "ensure_forcing (dict_merge ?prev patch)") (auto simp: revise_governed_proposal_scaffold_def)
  define refs where "refs = revision_refs old (rs_source_refs a)"
  define h where "h = proposal_content_hash e (revised_row e old merged refs None)"
  let ?rid = "revision_receipt_id e (pr_proposal_id old) h"
  from assms patch adm forced have chg: "changed_fields ?prev merged \<noteq> []"
    by (auto simp: revise_governed_proposal_scaffold_def split: if_splits)
  with assms patch adm forced obtain path where
    path: "resolve_under e root [''proposals'', ?rid @ ''.json''] = Inr path"
    by (cases "resolve_under e root [''proposals'', ?rid @ ''.json'']")
       (auto simp: revise_governed_proposal_scaffold_def refs_def h_def Let_def)
  note written = assms [unfolded revise_governed_proposal_scaffold_def patch adm forced sum.case prod.case Let_def
      refs_def [symmetric] h_def [symmetric] if_not_P [OF chg] path]
  show thesis
    using governed_write_Inr [OF written] patch adm forced chg path norm
    by (intro that [of cur old merged refs h path])
       (auto simp: refs_def h_def merge_proposal_def add_index_def split: if_splits option.splits)
qed

text \<open>The current version of any row is the one its own receipt reference names.\<close>

lemma resolved_receipt_ref:
  assumes "resolve_version_from_row e root p fs = Inr cur"
  shows "pr_receipt_ref p = Some (cv_receipt_ref cur) \<and> cv_receipt_ref cur \<noteq> []"
proof -
  from assms obtain r rs where "version_chain e root p fs (r # rs)" "cur = current_of e (pr_proposal_id p) (r # rs)"
    unfolding resolve_row_iff by (metis list.exhaust version_chain_def)
  then show ?thesis
    by (auto simp: version_chain_def receipt_chain_Cons current_of_def truthy_def
        dest!: read_revision_ref split: if_splits)
qed

lemma under_root_resolves:
  assumes "resolve_under e root parts = Inr path"
    and "realpath e (path_join (project_root e) (display_path e path)) = path"
  shows "resolve_receipt_path e (Some [realpath e root]) (display_path e path) = Some path"
proof -
  let ?root = "realpath e root"
  from assms(1) have under: "path = ?root \<or> starts_with path (?root @ ''/'')"
    by (auto simp: resolve_under_def Let_def split: if_splits)
  have "starts_with path (?root @ ''/'') \<Longrightarrow> starts_with path ?root"
    unfolding starts_with_def using take_take [of "length ?root" "length (?root @ ''/'')" path] by simp
  with under have "is_relative_to path ?root" by (auto simp: is_relative_to_def)
  with assms(2) show ?thesis by (simp add: resolve_receipt_path_def Let_def)
qed

text \<open>Writing the receipt of a row and storing the row puts one more version on top of the chain.\<close>

lemma write_extends_chain:
  assumes path: "resolve_receipt_path e (Some [realpath e root]) (display_path e path) = Some path"
    and new: "fs path = None"
    and row: "pr_receipt_ref p = Some (display_path e path)" "display_path e path \<noteq> []"
      "\<not> pr_execution_allowed p" "bindable p" "rid \<noteq> []" "h = proposal_content_hash e p"
    and tail: "receipt_chain e (Some [realpath e root]) fs (pr_proposal_id p) prev revs"
      "distinct (map rv_receipt_ref revs)" "\<forall>r\<in>set revs. \<exists>q. validated_proposal e r = Inr q"
  obtains r where
    "version_chain e root p
       (fs(path \<mapsto> JsonObject (json_object e (proposal_receipt_payload p rid h prev ctx)))) (r # revs)"
    "rv_receipt_id r = rid" "rv_receipt_ref r = display_path e path" "rv_content_hash r = PStr h"
proof -
  let ?fs = "fs(path \<mapsto> JsonObject (json_object e (proposal_receipt_payload p rid h prev ctx)))"
  from receipt_reads_back [OF path, of fs p rid h prev ctx] obtain r where
    r: "read_revision e (Some [realpath e root]) ?fs (pr_proposal_id p) (display_path e path) = Inr (Some r, None)"
      "rv_receipt_id r = rid" "rv_receipt_ref r = display_path e path" "rv_content_hash r = PStr h"
      "rv_supersedes r = prev" "rv_proposal r = json_object e (proposal_json p)"
    by blast
  have valid: "validated_proposal e r = Inr (stored_row e p)"
    using row r by (simp add: validated_proposal_def parse_written)
  have "receipt_chain e (Some [realpath e root]) ?fs (pr_proposal_id p) (pr_receipt_ref p) (r # revs)"
    using row r chain_frame [OF tail(1) new] by (auto simp: receipt_chain_Cons truthy_def)
  moreover have "rv_receipt_ref r \<notin> set (map rv_receipt_ref revs)"
    using chain_files [OF tail(1)] path new r(3) by fastforce
  ultimately have "version_chain e root p ?fs (r # revs)"
    using tail valid stored_row_eq [OF row(4), of e] by (simp add: version_chain_def)
  with r that show thesis by blast
qed

end
