(* ===== verification/Proposal_Properties.thy ===== *)
theory Proposal_Properties
  imports Proposal_Chains
begin

text \<open>
  Properties of governed proposals: the walk of a receipt chain against its declarative meaning,
  version admission, the effect of a revision on the lineage, lost-update safety and the binding
  of approvals.
\<close>

section \<open>Supporting facts\<close>

lemma walk_loop_bounds:
  "length revs \<le> m \<Longrightarrow> walk_loop e roots fs pid m seen revs cur = Inr w \<Longrightarrow>
   length (wk_anomalies w) \<le> 1 \<and> length (wk_revisions w) \<le> m"
proof (induction e roots fs pid m seen revs cur rule: walk_loop.induct)
  case (1 e roots fs pid m seen revs cur)
  note IH = 1(1) and prems = 1(2,3)
  show ?case
  proof (cases "\<exists>ref r. truthy cur = Some ref \<and> ref \<notin> set seen \<and> length revs < m \<and>
      read_revision e roots fs pid ref = Inr (Some r, None)")
    case True
    then obtain ref r where go: "truthy cur = Some ref" "ref \<notin> set seen" "\<not> m \<le> length revs"
        "read_revision e roots fs pid ref = Inr (Some r, None)"
      by auto
    from prems(2) go have "walk_loop e roots fs pid m (ref # seen) (revs @ [r]) (rv_supersedes r) = Inr w"
      by (subst (asm) walk_loop.simps) simp
    with IH [OF go refl refl refl] go(3) show ?thesis by simp
  next
    case False
    with prems show ?thesis
      by (subst (asm) walk_loop.simps) (auto split: option.splits if_splits sum.splits)
  qed
qed

lemma walk_bounds:
  "case walk_proposal_revisions e roots fs pid ref m of
     Inl x \<Rightarrow> True | Inr w \<Rightarrow> length (wk_anomalies w) \<le> 1 \<and> length (wk_revisions w) \<le> m"
  using walk_loop_bounds [of "[]" m e roots fs pid "[]" "Some (the (truthy ref))"]
  by (auto simp: walk_proposal_revisions_def split: option.splits sum.splits)

lemma content_hash_ref:
  "proposal_content_hash e (revised_row e old merged refs r) =
   proposal_content_hash e (revised_row e old merged refs s)"
  by (simp add: proposal_content_hash_def proposal_content_fields_def revised_row_def proposal_row_def)

lemma chain_unique:
  "receipt_chain e roots fs pid ref rs \<Longrightarrow> receipt_chain e roots fs pid ref ts \<Longrightarrow> ts = rs"
proof (induction arbitrary: ts rule: receipt_chain.induct)
  case (chain_end ref)
  then show ?case by (cases ts) (auto simp: receipt_chain_Cons)
next
  case (chain_step ref s r rs)
  then obtain q us where ts: "ts = q # us" by (cases ts) (auto simp: receipt_chain_Nil)
  with chain_step.prems chain_step.hyps(1,2) have "q = r" "receipt_chain e roots fs pid (rv_supersedes r) us"
    by (auto simp: receipt_chain_Cons)
  with ts chain_step.IH show ?case by simp
qed

lemma length_lineage [simp]: "length (lineage_of e rs) = length rs"
  by (induction rs) simp_all

lemma version_chain_frame:
  "version_chain e root p fs revs \<Longrightarrow> fs path = None \<Longrightarrow> version_chain e root p (fs(path \<mapsto> c)) revs"
  by (auto simp: version_chain_def intro: chain_frame)

lemma too_long_unresolved:
  assumes "version_chain e root p fs revs" and "MAX_REVISIONS < length revs"
  shows "\<exists>x. resolve_version_from_row e root p fs = Inl x"
proof (cases "resolve_version_from_row e root p fs")
  case (Inr cur)
  then obtain ts where "version_chain e root p fs ts" "length ts \<le> MAX_REVISIONS"
    by (auto simp: resolve_row_iff)
  with assms(1) have "ts = revs" using chain_unique [of e "Some [realpath e root]" fs "pr_proposal_id p" "pr_receipt_ref p"]
    by (simp add: version_chain_def)
  with assms(2) \<open>length ts \<le> MAX_REVISIONS\<close> show ?thesis by simp
qed simp

lemma resolve_frame:
  assumes "resolve_version_from_row e root p fs = Inr v" and "fs path = None"
  shows "resolve_version_from_row e root p (fs(path \<mapsto> c)) = Inr v"
proof -
  from assms(1) obtain revs where "version_chain e root p fs revs" "length revs \<le> MAX_REVISIONS"
      "v = current_of e (pr_proposal_id p) revs"
    by (auto simp: resolve_row_iff)
  moreover have "version_chain e root p (fs(path \<mapsto> c)) revs"
    using calculation(1) assms(2) by (rule version_chain_frame)
  ultimately show ?thesis unfolding resolve_row_iff by blast
qed

text \<open>The chain, the row and the file that a successful revision leaves behind.\<close>

lemma revision_step:
  assumes "revise_governed_proposal_scaffold e root pid a db = (Inr w, db')"
    and "resolve_current_proposal_version e root pid db = Inr cur"
    and "resolve_under e root [''proposals'', rw_resulting_proposal_version_id w @ ''.json''] = Inr path"
    and "realpath e (path_join (project_root e) (display_path e path)) = path" and "display_path e path \<noteq> []"
    and "pd_files db path = None"
  obtains r revs c where "version_chain e root (rw_proposal w) (pd_files db') (r # revs)"
    "cur = current_of e pid revs" "revs \<noteq> []" "rv_receipt_id r = rw_resulting_proposal_version_id w"
    "rv_receipt_ref r = rw_receipt_ref w" "rv_content_hash r = PStr (proposal_content_hash e (rw_proposal w))"
    "pr_proposal_id (rw_proposal w) = pid"
    "pd_proposals db' = tbl_merge pr_proposal_id (rw_proposal w) (pd_proposals db)"
    "pd_files db' = (pd_files db)(path \<mapsto> c)"
  using assms(1)
proof (rule revise_Inr)
  fix cur1 old merged refs path1 h
  let ?p = "rw_proposal w" and ?rid = "rw_resulting_proposal_version_id w"
  let ?ctx = "Some (revision_context a old (rw_changed_scaffold_fields w) cur1)"
  assume adm: "admit e root (rs_expectation a) pid db = Inr (cur1, old)"
    and refs: "h = proposal_content_hash e (revised_row e old merged refs None)"
      "?rid = revision_receipt_id e (pr_proposal_id old) h"
    and path1: "resolve_under e root [''proposals'', ?rid @ ''.json''] = Inr path1"
    and out: "rw_receipt_ref w = display_path e path1"
      "?p = revised_row e old merged refs (Some (display_path e path1))" "bindable ?p"
    and rows: "pd_proposals db' = tbl_merge pr_proposal_id ?p (pd_proposals db)"
    and files: "pd_files db' = (pd_files db)(path1 \<mapsto> JsonObject (json_object e
       (proposal_receipt_payload ?p ?rid h (pr_receipt_ref old) ?ctx)))"
  from path1 assms(3) have path1: "path1 = path" by simp
  from adm have old: "tbl_get pr_proposal_id (pd_proposals db) pid = Some old" "pr_proposal_id old = pid"
    by (auto simp: admit_Inr_iff dest: tbl_get_SomeD)
  have p: "pr_proposal_id ?p = pid" "pr_receipt_ref ?p = Some (display_path e path)" "\<not> pr_execution_allowed ?p"
    by (simp_all add: out revised_row_def proposal_row_def old path1)
  have h: "h = proposal_content_hash e ?p" unfolding refs out by (rule content_hash_ref)
  have rid: "?rid \<noteq> []" by (simp add: refs revision_receipt_id_def)
  from assms(2) old obtain revs where revs: "version_chain e root old (pd_files db) revs"
      "cur = current_of e pid revs"
    by (auto simp: resolve_row_iff resolve_current_proposal_version_def)
  then have tail: "receipt_chain e (Some [realpath e root]) (pd_files db) (pr_proposal_id ?p) (pr_receipt_ref old) revs"
      "distinct (map rv_receipt_ref revs)" "\<forall>r\<in>set revs. \<exists>q. validated_proposal e r = Inr q" "revs \<noteq> []"
    by (simp_all add: version_chain_def old p)
  show thesis
    by (rule write_extends_chain [OF under_root_resolves [OF assms(3,4)] assms(6) p(2) assms(5) p(3)
          out(3) rid h tail(1-3), of ?ctx])
       (rule that [OF _ revs(2) tail(4) _ _ _ p(1) rows];
        simp add: files path1 out(1) h)
qed

lemma attest_Inr:
  assumes "create_governed_attestation e root pid a db = (Inr w, db')"
  obtains cur p path rid where
    "admit e root (tg_expectation a) pid db = Inr (cur, p)"
    "tg_decision a \<noteq> ''approved'' \<or>
       ensure_confirmable e (pr_kind p) (pr_evidence p) (pr_decision_scaffold p) = Inr ()"
    "aw_attestation w = make_attestation e a p cur rid (display_path e path)"
    "pd_attestations db' = pd_attestations db @ [aw_attestation w]"
    "pd_proposals db' = pd_proposals db" "pd_review_events db' = pd_review_events db"
    "pd_files db' path = Some (JsonObject (json_object e
       (attestation_receipt_payload (aw_attestation w) p (''receipt_'' @ rid) cur (tg_mutation_context a))))"
proof -
  from assms obtain cur p where adm: "admit e root (tg_expectation a) pid db = Inr (cur, p)"
    by (cases "admit e root (tg_expectation a) pid db") (auto simp: create_governed_attestation_def)
  let ?check = "if tg_decision a = ''approved''
    then ensure_confirmable e (pr_kind p) (pr_evidence p) (pr_decision_scaffold p) else Inr ()"
  from assms adm have check: "?check = Inr ()"
    by (cases ?check) (auto simp: create_governed_attestation_def)
  define rid where "rid = safe_id (''att_'' @ stamp e 0 @ ''_'' @ uuid8 e 0)"
  let ?under = "resolve_under e root [''attestations'', (''receipt_'' @ rid) @ ''.json'']"
  from assms adm check obtain path where path: "?under = Inr path"
    by (cases ?under) (auto simp: create_governed_attestation_def rid_def Let_def)
  note written = assms [unfolded create_governed_attestation_def adm check sum.case prod.case Let_def
      rid_def [symmetric] path]
  show thesis
    using governed_write_Inr [OF written] adm check
    by (intro that [of cur p rid path])
       (auto simp: add_attestation_def add_index_def split: if_splits option.splits)
qed

section \<open>Demonstration\<close>

text \<open>A high-risk proposal with one version in the directory, and a second writer's environment.\<close>

definition demo_prop_env :: prop_env where
  "demo_prop_env =
     \<lparr>clock = (\<lambda>i. ''2026-01-02T00:00:00+00:00''), stamp = (\<lambda>i. ''20260102T000000Z''),
      uuid8 = (\<lambda>i. ''0a1b2c3d''), fromisoformat = (\<lambda>s. Some (int (length s), Some 0)),
      isoformat = int_str, resolve_path = (\<lambda>ps. Some (py_join ''/'' ps)), display_path = (\<lambda>p. p),
      write_fails = (\<lambda>p. False), commit_fails = (\<lambda>i. False), coerce_money = (\<lambda>v. None),
      py_repr = (\<lambda>v. ''value''), pick_row = (\<lambda>i n. 0),
      realpath = (\<lambda>p. p), sha256 = (\<lambda>s. ''5feceb66ffc86f38''), py_int = (\<lambda>v. None),
      is_symlink = (\<lambda>p. False), utc_now = 0, uuid_hex = ''0123456789abcdef0123456789abcdef'',
      io_fault = (\<lambda>p. False), float_gt_one = (\<lambda>s. False), parse_bool = (\<lambda>v. None),
      project_root = ''/srv'', revision_stamp = (\<lambda>i. ''S2''), unlink_refused = (\<lambda>p. False)\<rparr>"

definition demo_receipt :: string where
  "demo_receipt = ''/r/proposals/receipt_p_S1_5feceb66.json''"

definition demo_scaffold :: jdict where
  "demo_scaffold =
     [(''decision_intent'', PStr ''trim''), (''thesis'', PStr ''too concentrated''),
      (''do_nothing_case'', PStr ''drift''), (''risk_if_wrong'', PStr ''missed upside''),
      (''counter_evidence'', PStr ''strong earnings'')]"

definition demo_row :: proposal where
  "demo_row = proposal_row ''p'' ''concentration_high'' ''trim position'' [] [] [] [] [] demo_scaffold
     (Some demo_receipt) ''2026-01-01T00:00:00+00:00''"

definition demo_store :: prop_db where
  "demo_store =
     \<lparr>pd_proposals = [demo_row], pd_attestations = [], pd_review_events = [], pd_index = [],
      pd_files = Map.empty(demo_receipt \<mapsto> JsonObject (json_object demo_prop_env
        (proposal_receipt_payload demo_row ''receipt_p_S1_5feceb66'' ''5feceb66ffc86f38'' None None)))\<rparr>"

definition demo_expectation :: version_expectation where
  "demo_expectation =
     \<lparr>ex_proposal_id = ''p'', ex_proposal_version_id = ''receipt_p_S1_5feceb66'', ex_receipt_ref = demo_receipt\<rparr>"

definition demo_revise :: revise_args where
  "demo_revise =
     \<lparr>rs_scaffold_patch = [(''thesis'', PStr ''still too concentrated'')], rs_attester = ''owner'',
      rs_reason = ''new data'', rs_expectation = demo_expectation, rs_source_refs = [],
      rs_revision_context_extra = []\<rparr>"

definition demo_review :: review_args where
  "demo_review =
     \<lparr>rg_kind = ''annotation'', rg_attester = ''owner'', rg_reason = ''note'', rg_expectation = demo_expectation,
      rg_text = Some ''see notes'', rg_attestation_ref = None, rg_compare_with = None, rg_source_refs = [],
      rg_mutation_context = None\<rparr>"

definition demo_attest :: attest_args where
  "demo_attest =
     \<lparr>tg_decision = ''approved'', tg_attester = ''owner'', tg_reason = ''agreed'',
      tg_expectation = demo_expectation, tg_source_refs = [], tg_mutation_context = None\<rparr>"

lemma demo_env_simps [simp]:
  "realpath demo_prop_env p = p" "display_path demo_prop_env p = p" "sha256 demo_prop_env s = ''5feceb66ffc86f38''"
  "\<not> commit_fails demo_prop_env i" "\<not> io_fault demo_prop_env pt" "project_root demo_prop_env = ''/srv''"
  "revision_stamp demo_prop_env i = ''S2''" "stamp demo_prop_env i = ''20260102T000000Z''"
  "uuid8 demo_prop_env i = ''0a1b2c3d''"
  by (simp_all add: demo_prop_env_def)

lemma demo_hash [simp]: "proposal_content_hash demo_prop_env p = ''5feceb66ffc86f38''"
  by (simp add: proposal_content_hash_def del: json_norm.simps)

lemma demo_row_simps [simp]:
  "pr_proposal_id demo_row = ''p''" "pr_receipt_ref demo_row = Some demo_receipt" "\<not> pr_execution_allowed demo_row"
  "pr_kind demo_row = ''concentration_high''" "pr_evidence demo_row = []"
  "pr_decision_scaffold demo_row = demo_scaffold" "pr_source_refs demo_row = []"
  by (simp_all add: demo_row_def proposal_row_def)

lemma demo_rows_bindable: "bindable demo_row"
  by (simp add: bindable_def proposal_json_def demo_row_def proposal_row_def demo_scaffold_def py_strs_def
      py_optional_def)

lemma demo_path:
  "resolve_receipt_path demo_prop_env (Some [''/r'']) (CHR ''/'' # CHR ''r'' # CHR ''/'' # x) =
     Some (CHR ''/'' # CHR ''r'' # CHR ''/'' # x)"
  by (simp add: resolve_receipt_path_def path_join_def is_relative_to_def starts_with_def Let_def)

lemma demo_current:
  "\<exists>cur. resolve_version_from_row demo_prop_env ''/r'' demo_row (pd_files demo_store) = Inr cur \<and>
     cv_proposal_version_id cur = ''receipt_p_S1_5feceb66'' \<and> cv_receipt_ref cur = demo_receipt \<and>
     length (cv_lineage cur) = 1"
proof -
  have path: "resolve_receipt_path demo_prop_env (Some [realpath demo_prop_env ''/r''])
      (display_path demo_prop_env demo_receipt) = Some demo_receipt"
    by (simp add: demo_receipt_def demo_path)
  obtain r where r: "version_chain demo_prop_env ''/r'' demo_row (pd_files demo_store) [r]"
      "rv_receipt_id r = ''receipt_p_S1_5feceb66''" "rv_receipt_ref r = demo_receipt"
    by (rule write_extends_chain [where fs = Map.empty and revs = "[]" and prev = None and p = demo_row and
          rid = "''receipt_p_S1_5feceb66''" and h = "''5feceb66ffc86f38''" and ctx = None, OF path])
       (simp_all add: demo_receipt_def demo_rows_bindable receipt_chain_Nil truthy_def demo_store_def)
  then have "resolve_version_from_row demo_prop_env ''/r'' demo_row (pd_files demo_store) =
      Inr (current_of demo_prop_env ''p'' [r])"
    by (auto simp: resolve_row_iff MAX_REVISIONS_def intro!: exI [of _ "[r]"])
  with r show ?thesis by (simp add: current_of_def)
qed

lemma demo_admitted:
  obtains cur where "admit demo_prop_env ''/r'' demo_expectation ''p'' demo_store = Inr (cur, demo_row)"
    "resolve_current_proposal_version demo_prop_env ''/r'' ''p'' demo_store = Inr cur"
    "length (cv_lineage cur) = 1" "cv_proposal_version_id cur = ''receipt_p_S1_5feceb66''"
proof -
  have get: "tbl_get pr_proposal_id (pd_proposals demo_store) ''p'' = Some demo_row"
    by (simp add: demo_store_def tbl_get_def)
  from demo_current obtain cur where
    "resolve_version_from_row demo_prop_env ''/r'' demo_row (pd_files demo_store) = Inr cur"
    "cv_proposal_version_id cur = ''receipt_p_S1_5feceb66''" "cv_receipt_ref cur = demo_receipt"
    "length (cv_lineage cur) = 1"
    by blast
  with get show thesis
    by (intro that [of cur])
       (auto simp: admit_Inr_iff demo_expectation_def resolve_current_proposal_version_def)
qed

lemma demo_revision:
  obtains w db' where "revise_governed_proposal_scaffold demo_prop_env ''/r'' ''p'' demo_revise demo_store = (Inr w, db')"
    "rw_resulting_proposal_version_id w = ''receipt_p_S2_5feceb66''"
    "rw_receipt_ref w = ''/r/proposals/receipt_p_S2_5feceb66.json''"
proof (rule demo_admitted)
  fix cur
  assume adm: "admit demo_prop_env ''/r'' demo_expectation ''p'' demo_store = Inr (cur, demo_row)"
  have checks: "revise_checks demo_revise = Inr [(''thesis'', PStr ''still too concentrated'')]" by code_simp
  let ?merged = "[(''decision_intent'', PStr ''trim''), (''thesis'', PStr ''still too concentrated''),
      (''do_nothing_case'', PStr ''drift''), (''risk_if_wrong'', PStr ''missed upside''),
      (''counter_evidence'', PStr ''strong earnings'')]"
  have merged: "ensure_forcing (dict_merge (normalize demo_scaffold) [(''thesis'', PStr ''still too concentrated'')]) =
      Inr ?merged" by code_simp
  have changed: "changed_fields (normalize demo_scaffold) ?merged = [''thesis'']" by code_simp
  have rid: "revision_receipt_id demo_prop_env ''p'' ''5feceb66ffc86f38'' = ''receipt_p_S2_5feceb66''"
    by (simp add: revision_receipt_id_def)
  have path: "resolve_under demo_prop_env ''/r'' [''proposals'', ''receipt_p_S2_5feceb66'' @ ''.json''] =
      Inr ''/r/proposals/receipt_p_S2_5feceb66.json''"
    by (simp add: resolve_under_def path_join_def starts_with_def)
  let ?p = "revised_row demo_prop_env demo_row ?merged (revision_refs demo_row [])
    (Some ''/r/proposals/receipt_p_S2_5feceb66.json'')"
  have row: "bindable ?p" "\<not> pr_execution_allowed ?p"
    by (simp_all add: bindable_def proposal_json_def revised_row_def proposal_row_def demo_row_def py_strs_def
        py_optional_def list_all_iff)
  have args: "rs_expectation demo_revise = demo_expectation" "rs_source_refs demo_revise = []"
    by (simp_all add: demo_revise_def)
  have "\<exists>db'. revise_governed_proposal_scaffold demo_prop_env ''/r'' ''p'' demo_revise demo_store =
      (Inr \<lparr>rw_proposal = ?p, rw_receipt_ref = ''/r/proposals/receipt_p_S2_5feceb66.json'',
           rw_previous_receipt_ref = Some demo_receipt, rw_changed_scaffold_fields = [''thesis''],
           rw_admitted_proposal_version_id = cv_proposal_version_id cur,
           rw_admitted_proposal_receipt_ref = cv_receipt_ref cur,
           rw_resulting_proposal_version_id = ''receipt_p_S2_5feceb66'',
           rw_resulting_proposal_receipt_ref = ''/r/proposals/receipt_p_S2_5feceb66.json'',
           rw_execution_allowed = False\<rparr>, db')"
    unfolding revise_governed_proposal_scaffold_def checks args adm sum.case prod.case Let_def
      demo_row_simps merged changed demo_hash rid path governed_write_def atomic_write_json_def atomic_replace_def
    by (simp add: merge_proposal_def row add_index_def demo_store_def tbl_has_def)
  then show thesis by (auto intro: that)
qed

lemma demo_attestation:
  "\<exists>w db'. create_governed_attestation demo_prop_env ''/r'' ''p'' demo_attest demo_store = (Inr w, db')"
proof (rule demo_admitted)
  fix cur
  assume adm: "admit demo_prop_env ''/r'' demo_expectation ''p'' demo_store = Inr (cur, demo_row)"
  have args: "tg_expectation demo_attest = demo_expectation" "tg_decision demo_attest = ''approved''"
    by (simp_all add: demo_attest_def)
  have ok: "ensure_confirmable demo_prop_env ''concentration_high'' [] demo_scaffold = Inr ()" by code_simp
  have sid: "safe_id (''att_'' @ ''20260102T000000Z'' @ ''_'' @ ''0a1b2c3d'') = ''att_20260102T000000Z_0a1b2c3d''"
    by code_simp
  have path: "resolve_under demo_prop_env ''/r'' [''attestations'',
      (''receipt_'' @ ''att_20260102T000000Z_0a1b2c3d'') @ ''.json''] =
      Inr ''/r/attestations/receipt_att_20260102T000000Z_0a1b2c3d.json''"
    by (simp add: resolve_under_def path_join_def starts_with_def)
  show ?thesis
    unfolding create_governed_attestation_def args adm sum.case prod.case Let_def demo_row_simps
      if_P [OF refl] ok demo_env_simps sid path governed_write_def atomic_write_json_def atomic_replace_def
    by (simp add: add_attestation_def add_index_def demo_store_def tbl_has_def make_attestation_def)
qed

definition demo_stale :: version_expectation where
  "demo_stale = demo_expectation\<lparr>ex_receipt_ref := ''/r/proposals/older.json''\<rparr>"

lemma demo_stale: "stale demo_prop_env ''/r'' ''p'' demo_stale demo_store"
proof -
  have "demo_receipt \<noteq> ''/r/proposals/older.json''" by (simp add: demo_receipt_def)
  then show ?thesis
    by (auto simp: stale_def resolve_current_proposal_version_def demo_store_def tbl_get_def demo_stale_def
        demo_expectation_def dest!: resolved_receipt_ref)
qed

section \<open>Properties\<close>

text \<open>
  Claim C16.  Walking a proposal's receipts ends without an anomaly exactly when the directory
  holds a chain of valid receipts from the given reference down to a first version, without a
  repeated reference and of at most the allowed length, and then returns that chain.  Whatever the
  directory holds, the walk ends, reports at most one anomaly and returns at most the allowed
  number of revisions.
\<close>

theorem walk_returns_chain:
  "(walk_proposal_revisions e roots fs pid ref m = Inr \<lparr>wk_revisions = out, wk_anomalies = []\<rparr> \<longleftrightarrow>
    out \<noteq> [] \<and> receipt_chain e roots fs pid ref out \<and> length out \<le> m \<and>
    distinct (map rv_receipt_ref out)) \<and>
   (case walk_proposal_revisions e roots fs pid ref m of
      Inl x \<Rightarrow> True | Inr w \<Rightarrow> length (wk_anomalies w) \<le> 1 \<and> length (wk_revisions w) \<le> m)"
  by (intro conjI walk_ok_iff walk_bounds)

text \<open>
  Claim C17.  A revision, a review event or an attestation whose caller expects a version that is
  not the current one (or names another proposal, or whose proposal cannot be resolved) fails and
  changes neither a table nor a receipt file.
\<close>

theorem stale_expectation_refused:
  assumes "stale e root pid x db"
    and "rs_expectation a = x" and "rg_expectation b = x" and "tg_expectation c = x"
  shows "(\<exists>err. revise_governed_proposal_scaffold e root pid a db = (Inl err, db)) \<and>
    (\<exists>err. create_governed_review_event e root pid b db = (Inl err, db)) \<and>
    (\<exists>err. create_governed_attestation e root pid c db = (Inl err, db))"
  using revising.stale_refused [of e root pid a db] reviewing.stale_refused [of e root pid b db]
    attesting.stale_refused [of e root pid c db] assms by simp

theorem stale_expectation_refused_witness:
  "(\<exists>err. revise_governed_proposal_scaffold demo_prop_env ''/r'' ''p'' (demo_revise\<lparr>rs_expectation := demo_stale\<rparr>)
      demo_store = (Inl err, demo_store)) \<and>
   (\<exists>err. create_governed_review_event demo_prop_env ''/r'' ''p'' (demo_review\<lparr>rg_expectation := demo_stale\<rparr>)
      demo_store = (Inl err, demo_store)) \<and>
   (\<exists>err. create_governed_attestation demo_prop_env ''/r'' ''p'' (demo_attest\<lparr>tg_expectation := demo_stale\<rparr>)
      demo_store = (Inl err, demo_store))"
  by (rule stale_expectation_refused [OF demo_stale]) simp_all

text \<open>
  Claim C18.  After a successful revision whose receipt file is new, the proposal resolves to the
  new version and its lineage is the old lineage with the new version, superseding the old one,
  on top; every other proposal resolves as before.  A proposal that already had the greatest
  allowed number of versions can no longer be resolved afterwards.
\<close>

theorem revision_extends_lineage:
  assumes "revise_governed_proposal_scaffold e root pid a db = (Inr w, db')"
    and "resolve_current_proposal_version e root pid db = Inr cur"
    and "resolve_under e root [''proposals'', rw_resulting_proposal_version_id w @ ''.json''] = Inr path"
    and "realpath e (path_join (project_root e) (display_path e path)) = path" and "display_path e path \<noteq> []"
    and "pd_files db path = None"
  shows "(if length (cv_lineage cur) < MAX_REVISIONS
      then resolve_current_proposal_version e root pid db' =
        Inr \<lparr>cv_proposal_id = pid, cv_proposal_version_id = rw_resulting_proposal_version_id w,
             cv_receipt_ref = rw_receipt_ref w, cv_content_hash = proposal_content_hash e (rw_proposal w),
             cv_lineage =
               \<lparr>vl_proposal_version_id = rw_resulting_proposal_version_id w, vl_receipt_ref = rw_receipt_ref w,
                vl_content_hash = proposal_content_hash e (rw_proposal w),
                vl_supersedes_version_id = Some (cv_proposal_version_id cur)\<rparr> # cv_lineage cur\<rparr>
      else \<exists>err. resolve_current_proposal_version e root pid db' = Inl err) \<and>
    (\<forall>q v. q \<noteq> pid \<longrightarrow> resolve_current_proposal_version e root q db = Inr v \<longrightarrow>
       resolve_current_proposal_version e root q db' = Inr v)"
proof (rule revision_step [OF assms])
  fix r revs c
  let ?p = "rw_proposal w" and ?rid = "rw_resulting_proposal_version_id w"
  assume chain: "version_chain e root ?p (pd_files db') (r # revs)" "cur = current_of e pid revs" "revs \<noteq> []"
    and r: "rv_receipt_id r = ?rid" "rv_receipt_ref r = rw_receipt_ref w"
      "rv_content_hash r = PStr (proposal_content_hash e ?p)"
    and p: "pr_proposal_id ?p = pid"
    and rows: "pd_proposals db' = tbl_merge pr_proposal_id ?p (pd_proposals db)"
    and files: "pd_files db' = (pd_files db)(path \<mapsto> c)"
  have get: "tbl_get pr_proposal_id (pd_proposals db') q =
      (if q = pid then Some ?p else tbl_get pr_proposal_id (pd_proposals db) q)" for q
    by (simp add: rows tbl_get_merge p)
  have new: "current_of e pid (r # revs) =
      \<lparr>cv_proposal_id = pid, cv_proposal_version_id = ?rid, cv_receipt_ref = rw_receipt_ref w,
       cv_content_hash = proposal_content_hash e ?p,
       cv_lineage = \<lparr>vl_proposal_version_id = ?rid, vl_receipt_ref = rw_receipt_ref w,
         vl_content_hash = proposal_content_hash e ?p,
         vl_supersedes_version_id = Some (cv_proposal_version_id cur)\<rparr> # cv_lineage cur\<rparr>"
    using chain(3) by (cases revs) (simp_all add: current_of_def r py_str_def chain(2))
  have short: "length (cv_lineage cur) = length revs" by (simp add: chain(2) current_of_def)
  have others: "resolve_current_proposal_version e root q db' = Inr v"
    if "q \<noteq> pid" "resolve_current_proposal_version e root q db = Inr v" for q v
    using that resolve_frame [where fs = "pd_files db" and path = path, OF _ assms(6)]
    by (simp add: resolve_current_proposal_version_def get files split: option.splits)
  have "resolve_current_proposal_version e root pid db' = resolve_version_from_row e root ?p (pd_files db')"
    by (simp add: resolve_current_proposal_version_def get)
  moreover have "length revs < MAX_REVISIONS \<Longrightarrow>
      resolve_version_from_row e root ?p (pd_files db') = Inr (current_of e pid (r # revs))"
    using chain(1) p by (auto simp: resolve_row_iff intro!: exI [of _ "r # revs"])
  moreover have "\<not> length revs < MAX_REVISIONS \<Longrightarrow> \<exists>x. resolve_version_from_row e root ?p (pd_files db') = Inl x"
    using too_long_unresolved [OF chain(1)] by simp
  ultimately show ?thesis unfolding short new [symmetric] using others by simp
qed

theorem revision_extends_lineage_witness:
  "\<exists>w db' cur. revise_governed_proposal_scaffold demo_prop_env ''/r'' ''p'' demo_revise demo_store = (Inr w, db') \<and>
     resolve_current_proposal_version demo_prop_env ''/r'' ''p'' db' = Inr cur \<and>
     cv_proposal_version_id cur = ''receipt_p_S2_5feceb66'' \<and> length (cv_lineage cur) = 2"
proof (rule demo_admitted, rule demo_revision)
  fix cur w db'
  assume cur: "resolve_current_proposal_version demo_prop_env ''/r'' ''p'' demo_store = Inr cur"
      "length (cv_lineage cur) = 1"
    and rev: "revise_governed_proposal_scaffold demo_prop_env ''/r'' ''p'' demo_revise demo_store = (Inr w, db')"
      "rw_resulting_proposal_version_id w = ''receipt_p_S2_5feceb66''"
  have path: "resolve_under demo_prop_env ''/r'' [''proposals'', rw_resulting_proposal_version_id w @ ''.json''] =
      Inr ''/r/proposals/receipt_p_S2_5feceb66.json''"
    by (simp add: rev resolve_under_def path_join_def starts_with_def)
  have "pd_files demo_store ''/r/proposals/receipt_p_S2_5feceb66.json'' = None"
    by (simp add: demo_store_def demo_receipt_def)
  then show ?thesis
    using revision_extends_lineage [OF rev(1) cur(1) path] cur(2) rev
    by (simp add: path_join_def MAX_REVISIONS_def)
qed

text \<open>
   A successful attestation adds one row, to no other table, bound to the version and
  receipt that are current at that moment; when it approves or rejects it closes the current
  review, and an approval of a high-risk proposal implies written counter-evidence.
\<close>

theorem attestation_bound_to_current:
  assumes "create_governed_attestation e root pid a db = (Inr w, db')"
  shows "\<exists>cur p. resolve_current_proposal_version e root pid db = Inr cur \<and>
    tbl_get pr_proposal_id (pd_proposals db) pid = Some p \<and>
    at_proposal_id (aw_attestation w) = pid \<and>
    at_bound_proposal_version_id (aw_attestation w) = Some (cv_proposal_version_id cur) \<and>
    at_bound_proposal_receipt_ref (aw_attestation w) = Some (cv_receipt_ref cur) \<and>
    ex_proposal_version_id (tg_expectation a) = cv_proposal_version_id cur \<and>
    ex_receipt_ref (tg_expectation a) = cv_receipt_ref cur \<and>
    attestation_closes_current_review (aw_attestation w) p =
      (tg_decision a \<in> {''approved'', ''rejected''}) \<and>
    (tg_decision a = ''approved'' \<longrightarrow> is_high_risk e (pr_kind p) (pr_evidence p) \<longrightarrow>
       has_counter_evidence (pr_decision_scaffold p)) \<and>
    pd_attestations db' = pd_attestations db @ [aw_attestation w] \<and>
    pd_proposals db' = pd_proposals db \<and> pd_review_events db' = pd_review_events db"
  using assms
proof (rule attest_Inr)
  fix cur p path rid
  assume adm: "admit e root (tg_expectation a) pid db = Inr (cur, p)"
    and ok: "tg_decision a \<noteq> ''approved'' \<or>
       ensure_confirmable e (pr_kind p) (pr_evidence p) (pr_decision_scaffold p) = Inr ()"
    and att: "aw_attestation w = make_attestation e a p cur rid (display_path e path)"
    and rows: "pd_attestations db' = pd_attestations db @ [aw_attestation w]"
      "pd_proposals db' = pd_proposals db" "pd_review_events db' = pd_review_events db"
  from adm have got: "tbl_get pr_proposal_id (pd_proposals db) pid = Some p"
      "resolve_version_from_row e root p (pd_files db) = Inr cur"
      "tg_expectation a = \<lparr>ex_proposal_id = pid, ex_proposal_version_id = cv_proposal_version_id cur,
         ex_receipt_ref = cv_receipt_ref cur\<rparr>"
    by (simp_all add: admit_Inr_iff)
  have closes: "attestation_closes_current_review (aw_attestation w) p =
      (tg_decision a \<in> {''approved'', ''rejected''})"
    using resolved_receipt_ref [OF got(2)]
    by (simp add: att make_attestation_def attestation_closes_current_review_def nonempty_refs_def)
  show ?thesis
    using got rows ok tbl_get_SomeD [OF got(1)] closes
    by (intro exI [of _ cur] exI [of _ p])
       (auto simp: att make_attestation_def resolve_current_proposal_version_def ensure_confirmable_def
        split: if_splits)
qed

theorem attestation_bound_to_current_witness:
  "\<exists>w db'. create_governed_attestation demo_prop_env ''/r'' ''p'' demo_attest demo_store = (Inr w, db') \<and>
     at_bound_proposal_version_id (aw_attestation w) = Some ''receipt_p_S1_5feceb66'' \<and>
     attestation_closes_current_review (aw_attestation w) demo_row \<and> length (pd_attestations db') = 1"
proof (rule demo_admitted)
  fix cur
  assume cur: "resolve_current_proposal_version demo_prop_env ''/r'' ''p'' demo_store = Inr cur"
      "cv_proposal_version_id cur = ''receipt_p_S1_5feceb66''"
  from demo_attestation obtain w db' where
    att: "create_governed_attestation demo_prop_env ''/r'' ''p'' demo_attest demo_store = (Inr w, db')"
    by blast
  have "tbl_get pr_proposal_id (pd_proposals demo_store) ''p'' = Some demo_row" "pd_attestations demo_store = []"
      "tg_decision demo_attest = ''approved''"
    by (simp_all add: demo_store_def tbl_get_def demo_attest_def)
  with attestation_bound_to_current [OF att] cur att show ?thesis by auto
qed

text \<open>
   Two writers that saw the same version cannot both write: once a revision has
  succeeded under an expectation (and its receipt got a name of its own), every revision, review
  event and attestation under the same expectation fails and changes nothing, whatever the
  environment of the later call.
\<close>

theorem no_lost_update:
  assumes "revise_governed_proposal_scaffold e root pid a db = (Inr w, db')"
    and "rw_receipt_ref w \<noteq> ex_receipt_ref (rs_expectation a)"
    and "rs_expectation a' = rs_expectation a" and "rg_expectation b = rs_expectation a"
    and "tg_expectation c = rs_expectation a"
  shows "(\<exists>err. revise_governed_proposal_scaffold e' root' pid a' db' = (Inl err, db')) \<and>
    (\<exists>err. create_governed_review_event e' root' pid b db' = (Inl err, db')) \<and>
    (\<exists>err. create_governed_attestation e' root' pid c db' = (Inl err, db'))"
proof -
  have "stale e' root' pid (rs_expectation a) db'"
    using assms(1)
  proof (rule revise_Inr)
    fix cur old merged refs path h
    assume adm: "admit e root (rs_expectation a) pid db = Inr (cur, old)"
      and row: "rw_proposal w = revised_row e old merged refs (Some (display_path e path))"
        "rw_receipt_ref w = display_path e path"
        "pd_proposals db' = tbl_merge pr_proposal_id (rw_proposal w) (pd_proposals db)"
    from adm have "pr_proposal_id old = pid" by (auto simp: admit_Inr_iff dest: tbl_get_SomeD)
    then have "tbl_get pr_proposal_id (pd_proposals db') pid = Some (rw_proposal w)"
        "pr_receipt_ref (rw_proposal w) = Some (rw_receipt_ref w)"
      by (simp_all add: row tbl_get_merge revised_row_def proposal_row_def)
    with assms(2) show ?thesis
      by (auto simp: stale_def resolve_current_proposal_version_def dest!: resolved_receipt_ref)
  qed
  then show ?thesis
    using revising.stale_refused [of e' root' pid a'] reviewing.stale_refused [of e' root' pid b]
      attesting.stale_refused [of e' root' pid c] assms(3-5) by simp
qed

theorem no_lost_update_witness:
  "\<exists>w db'. revise_governed_proposal_scaffold demo_prop_env ''/r'' ''p'' demo_revise demo_store = (Inr w, db') \<and>
     (\<exists>err. revise_governed_proposal_scaffold demo_prop_env ''/r'' ''p'' demo_revise db' = (Inl err, db')) \<and>
     (\<exists>err. create_governed_review_event demo_prop_env ''/r'' ''p'' demo_review db' = (Inl err, db')) \<and>
     (\<exists>err. create_governed_attestation demo_prop_env ''/r'' ''p'' demo_attest db' = (Inl err, db'))"
proof (rule demo_revision)
  fix w db'
  assume rev: "revise_governed_proposal_scaffold demo_prop_env ''/r'' ''p'' demo_revise demo_store = (Inr w, db')"
      "rw_receipt_ref w = ''/r/proposals/receipt_p_S2_5feceb66.json''"
  have "rw_receipt_ref w \<noteq> ex_receipt_ref (rs_expectation demo_revise)"
      "rg_expectation demo_review = rs_expectation demo_revise" "tg_expectation demo_attest = rs_expectation demo_revise"
    by (simp_all add: rev demo_revise_def demo_review_def demo_attest_def demo_expectation_def demo_receipt_def)
  with no_lost_update [OF rev(1) _ refl] rev(1) show ?thesis by blast
qed

end
