(* ===== verification/Agent_Context.thy ===== *)
theory Agent_Context
  imports Receipt_IO Autonomy_Adapter
begin

text \<open>
  What a tool result becomes before an agent sees it: the evidence envelope
  (\<^verbatim>\<open>agent_evidence.py\<close>) and the projection of a context pack under the budget of the active
  profile (\<^verbatim>\<open>agent_context_projection.py\<close>).  Payloads are JSON objects; their size is the length
  of the text \<^verbatim>\<open>json.dumps\<close> gives with its default separators.  The packs themselves come from
  the read models of the state store and are arguments here.
\<close>

section \<open>Texts and references\<close>

primrec json_dumps_text :: "pyval \<Rightarrow> string" where
  "json_dumps_text PNone = ''null''"
| "json_dumps_text (PBool b) = (if b then ''true'' else ''false'')"
| "json_dumps_text (PInt n) = int_str n"
| "json_dumps_text (PFloat s) = s"
| "json_dumps_text (PStr s) = json_str s"
| "json_dumps_text (PMoney m) = []"
| "json_dumps_text (PList xs) = CHR ''['' # py_join '', '' (map json_dumps_text xs) @ '']''"
| "json_dumps_text (PDict d) =
     CHR 0x7B # py_join '', '' (map (\<lambda>(k, t). json_str k @ '': '' @ t) (map (map_prod id json_dumps_text) d)) @
     [CHR 0x7D]"

definition json_dumps :: "'e env_scheme \<Rightarrow> jdict \<Rightarrow> string" where
  "json_dumps e d = json_dumps_text (json_norm e (PDict d))"

definition json_chars :: "'e env_scheme \<Rightarrow> jdict \<Rightarrow> nat" where
  "json_chars e d = length (json_dumps e d)"

definition field_values :: "'e env_scheme \<Rightarrow> jdict \<Rightarrow> string \<Rightarrow> string list" where
  "field_values e result key =
     (case dict_get result key of
        PNone \<Rightarrow> []
      | PStr s \<Rightarrow> [s]
      | PList xs \<Rightarrow> filter (\<lambda>s. py_strip s \<noteq> []) (map (py_str e) xs)
      | v \<Rightarrow> [py_str e v])"

definition refs_of :: "string list \<Rightarrow> string list" where
  "refs_of values = dedupe_by [] (filter (\<lambda>t. t \<noteq> []) (map py_strip values))"

abbreviation PStrs :: "string list \<Rightarrow> pyval" where
  "PStrs xs \<equiv> PList (map PStr xs)"

lemma refs_of_distinct [simp]: "distinct (refs_of xs)"
  by (simp add: refs_of_def distinct_dedupe_by)

lemma set_refs_of: "set (refs_of xs) = {py_strip x | x. x \<in> set xs \<and> py_strip x \<noteq> []}"
  by (auto simp: refs_of_def set_dedupe_by)

section \<open>Evidence envelopes\<close>

record evidence_provider =
  ep_provider_id :: string
  ep_kind :: string
  ep_description :: string
  ep_source_ref_prefixes :: "string list"
  ep_max_source_refs :: nat

record evidence_envelope =
  ev_provider_ids :: "string list"
  ev_provider_kinds :: "string list"
  ev_source_refs :: "string list"
  ev_receipt_refs :: "string list"
  ev_context_pack_refs :: "string list"
  ev_data_gaps :: "string list"
  ev_non_claims :: "string list"
  ev_execution_allowed :: bool
  ev_authority_transition :: bool

definition AGENT_EVIDENCE_NON_CLAIMS :: "string list" where
  "AGENT_EVIDENCE_NON_CLAIMS =
     [''Agent evidence envelopes describe source lineage; they do not approve a proposal.'',
      ''Evidence provider availability is diagnostic metadata, not execution authority.'',
      ''Not execution authorization.'', ''Not investment advice.'']"

definition AGENT_EVIDENCE_PROVIDERS :: "evidence_provider list" where
  "AGENT_EVIDENCE_PROVIDERS =
     [\<lparr>ep_provider_id = ''market_data.yfinance'', ep_kind = ''market_data'',
       ep_description = ''Read-only Yahoo Finance/yfinance market data used as descriptive '' @
         ''historical or quote evidence.'',
       ep_source_ref_prefixes = [''market_data://''], ep_max_source_refs = 24\<rparr>,
      \<lparr>ep_provider_id = ''capital_context.state_core'', ep_kind = ''capital_context'',
       ep_description = ''Read-only StateCore-derived Capital OS context packs for Agent '' @
         ''explanation and review.'',
       ep_source_ref_prefixes = [''statecore://'', ''receipt://'', ''context_pack://''],
       ep_max_source_refs = 24\<rparr>,
      \<lparr>ep_provider_id = ''local_eval.promptfoo'', ep_kind = ''local_eval'',
       ep_description = ''Local promptfoo evaluation evidence for generated risk notes.'',
       ep_source_ref_prefixes = [''eval://'', ''cache://''], ep_max_source_refs = 24\<rparr>,
      \<lparr>ep_provider_id = ''proposal_receipt.state_core'', ep_kind = ''proposal_receipt'',
       ep_description = ''Append-only StateCore proposal receipt evidence for Agent-created '' @
         ''review drafts.'',
       ep_source_ref_prefixes = [''receipt://'', ''proposal://'', ''context_pack://''],
       ep_max_source_refs = 24\<rparr>]"

definition resolve_evidence_providers :: "string list \<Rightarrow> evidence_provider list res" where
  "resolve_evidence_providers provider_ids =
     (let missing = filter (\<lambda>i. tbl_get ep_provider_id AGENT_EVIDENCE_PROVIDERS i = None) provider_ids in
      if missing \<noteq> []
      then Inl (ValueError (''unknown agent evidence providers: '' @ py_join '', '' (sort missing)))
      else Inr (List.map_filter (tbl_get ep_provider_id AGENT_EVIDENCE_PROVIDERS) provider_ids))"

definition evidence_pack_refs :: "'e env_scheme \<Rightarrow> string list \<Rightarrow> jdict \<Rightarrow> string list" where
  "evidence_pack_refs e provider_kinds result =
     field_values e result ''context_pack_refs'' @
     (case dict_get result ''name'' of
        PStr name \<Rightarrow>
          if ''capital_context'' \<in> set provider_kinds \<and> py_strip name \<noteq> []
          then [''context_pack://'' @ py_strip name] else []
      | _ \<Rightarrow> [])"

definition build_agent_evidence_envelope ::
  "'e env_scheme \<Rightarrow> string list \<Rightarrow> jdict \<Rightarrow> evidence_envelope res" where
  "build_agent_evidence_envelope e provider_ids result =
     rbind (resolve_evidence_providers provider_ids) (\<lambda>providers.
     let max_refs = foldr (\<lambda>p m. max (ep_max_source_refs p) m) providers 0;
         provider_kinds = map ep_kind providers;
         source_refs = refs_of (field_values e result ''source_refs'');
         receipt_refs = refs_of (field_values e result ''receipt_refs'' @ field_values e result ''receipt_ref'');
         data_gaps = refs_of (field_values e result ''data_gaps'');
         over = (max_refs \<noteq> 0 \<and> max_refs < length source_refs) in
     Inr \<lparr>ev_provider_ids = map ep_provider_id providers, ev_provider_kinds = provider_kinds,
          ev_source_refs = (if over then take max_refs source_refs else source_refs),
          ev_receipt_refs = receipt_refs,
          ev_context_pack_refs = refs_of (evidence_pack_refs e provider_kinds result),
          ev_data_gaps =
            (if over then data_gaps @ [''source refs truncated to '' @ nat_str max_refs @ '' items''] else data_gaps),
          ev_non_claims = refs_of (AGENT_EVIDENCE_NON_CLAIMS @ field_values e result ''non_claims''),
          ev_execution_allowed = False, ev_authority_transition = False\<rparr>)"

section \<open>Projection profiles\<close>

record pack_spec =
  ps_pack_name :: string
  ps_priority :: int
  ps_max_chars :: nat
  ps_max_items :: nat
  ps_max_source_refs :: nat
  ps_summary_keys :: "string list"

record projection_profile =
  pp_profile_name :: string
  pp_total_max_chars :: nat
  pp_pack_specs :: "pack_spec list"

definition pack_spec_of :: "string \<Rightarrow> int \<Rightarrow> nat \<Rightarrow> nat \<Rightarrow> nat \<Rightarrow> string list \<Rightarrow> pack_spec" where
  "pack_spec_of name priority chars items refs keys =
     \<lparr>ps_pack_name = name, ps_priority = priority, ps_max_chars = chars, ps_max_items = items,
      ps_max_source_refs = refs, ps_summary_keys = keys\<rparr>"

definition CONTEXT_PACK_TOP_LEVEL_ALLOWLIST :: "string list" where
  "CONTEXT_PACK_TOP_LEVEL_ALLOWLIST =
     [''name'', ''available'', ''summary'', ''source_refs'', ''receipt_ref'', ''receipt_refs'',
      ''context_pack_refs'', ''data_gaps'', ''non_claims'', ''execution_allowed'']"

definition AGENT_CONTEXT_PROJECTION_NON_CLAIMS :: "string list" where
  "AGENT_CONTEXT_PROJECTION_NON_CLAIMS =
     [''Agent context projections are budgeted read models, not source-of-truth storage.'',
      ''Projection priority expands usable Agent context; it does not approve actions.'',
      ''Not execution authorization.'', ''Not investment advice.'']"

definition CAPITAL_ADMISSION_SUMMARY_KEYS :: "string list" where
  "CAPITAL_ADMISSION_SUMMARY_KEYS =
     [''world_id'', ''basis_digest'', ''world_status'', ''selected_batch_ids'', ''trust'', ''capital_truth'',
      ''asset_valuation_admitted'', ''net_worth_admitted'', ''per_currency_totals'',
      ''liability_per_currency_totals'', ''asset_valuation_blockers'', ''net_worth_blockers'',
      ''concentration_flagged'']"

definition DEFAULT_CAPITAL_SUMMARY_KEYS :: "string list" where
  "DEFAULT_CAPITAL_SUMMARY_KEYS =
     [''world_id'', ''basis_digest'', ''world_status'', ''selected_batch_ids'', ''trust'', ''capital_truth'',
      ''as_of_date'', ''base_currency'', ''asset_valuation_admitted'', ''net_worth_admitted'',
      ''per_currency_totals'', ''liability_per_currency_totals'', ''asset_valuation_blockers'',
      ''net_worth_blockers'', ''net_worth'', ''cash_runway_months'', ''monthly_net_cashflow'',
      ''holding_count'', ''top_holding'', ''top_holding_weight'', ''top5_weight'',
      ''concentration_flagged'', ''insurance_review_gaps'', ''tax_review_gaps'']"

definition REVIEW_CAPITAL_SUMMARY_KEYS :: "string list" where
  "REVIEW_CAPITAL_SUMMARY_KEYS = DEFAULT_CAPITAL_SUMMARY_KEYS @
     [''total_assets'', ''total_liabilities'', ''cash_total'', ''cash_total_verified'',
      ''interest_bearing_debt_total'', ''weighted_avg_interest_rate'', ''holdings'', ''upcoming_obligations'']"

definition CURRENT_IPS_KEYS :: "string list" where
  "CURRENT_IPS_KEYS =
     [''ips_id'', ''status'', ''base_currency'', ''created_at_utc'', ''receipt_ref'', ''thresholds'',
      ''allowed_asset_classes'', ''restricted_actions'', ''review_cadence'']"

definition IPS_CHECK_KEYS :: "string list" where
  "IPS_CHECK_KEYS = [''ips_id'', ''as_of_date'', ''violations'', ''blocked'', ''results'']"

definition OPEN_PROPOSALS_KEYS :: "string list" where
  "OPEN_PROPOSALS_KEYS = [''open_count'', ''returned_count'', ''items'', ''trust'']"

definition default_projection :: projection_profile where
  "default_projection =
     \<lparr>pp_profile_name = ''default'', pp_total_max_chars = 18000, pp_pack_specs =
        [pack_spec_of ''capital_summary'' 10 6000 8 10 DEFAULT_CAPITAL_SUMMARY_KEYS,
         pack_spec_of ''current_ips'' 20 4000 8 8 CURRENT_IPS_KEYS,
         pack_spec_of ''ips_check'' 30 5000 10 8 IPS_CHECK_KEYS,
         pack_spec_of ''open_proposals'' 40 5000 5 8 OPEN_PROPOSALS_KEYS,
         pack_spec_of ''proposal_timeline'' 50 6000 8 8 [],
         pack_spec_of ''planning_policy'' 60 4000 10 8 []]\<rparr>"

definition CONTEXT_PROJECTION_PROFILES :: "projection_profile list" where
  "CONTEXT_PROJECTION_PROFILES =
     [default_projection,
      \<lparr>pp_profile_name = ''review-draft'', pp_total_max_chars = 28000, pp_pack_specs =
         [pack_spec_of ''capital_summary'' 10 8000 12 16 REVIEW_CAPITAL_SUMMARY_KEYS,
          pack_spec_of ''current_ips'' 20 5000 10 12 CURRENT_IPS_KEYS,
          pack_spec_of ''ips_check'' 30 7000 16 12 IPS_CHECK_KEYS,
          pack_spec_of ''open_proposals'' 35 9000 10 16 OPEN_PROPOSALS_KEYS,
          pack_spec_of ''proposal_timeline'' 40 10000 20 16 [],
          pack_spec_of ''planning_policy'' 45 5000 15 12 []]\<rparr>,
      \<lparr>pp_profile_name = ''simulation'', pp_total_max_chars = 24000, pp_pack_specs =
         [pack_spec_of ''capital_summary'' 10 8000 12 14 REVIEW_CAPITAL_SUMMARY_KEYS,
          pack_spec_of ''current_ips'' 20 5000 10 10 CURRENT_IPS_KEYS,
          pack_spec_of ''ips_check'' 30 7000 14 10 IPS_CHECK_KEYS,
          pack_spec_of ''open_proposals'' 50 5000 5 8 OPEN_PROPOSALS_KEYS]\<rparr>]"

definition get_context_projection_profile :: "string \<Rightarrow> projection_profile res" where
  "get_context_projection_profile profile_name =
     rbind (get_agent_profile profile_name) (\<lambda>_.
       Inr (case tbl_get pp_profile_name CONTEXT_PROJECTION_PROFILES profile_name of
              Some p \<Rightarrow> p | None \<Rightarrow> default_projection))"

definition spec_for :: "projection_profile \<Rightarrow> string \<Rightarrow> pack_spec" where
  "spec_for p pack_name =
     (case tbl_get ps_pack_name (pp_pack_specs p) pack_name of
        Some s \<Rightarrow> s | None \<Rightarrow> pack_spec_of pack_name 100 4000 6 8 [])"

section \<open>Bounding a summary\<close>

definition py_rstrip :: "string \<Rightarrow> string" where
  "py_rstrip s = rev (dropWhile py_isspace (rev s))"

primrec bounded_value :: "nat \<Rightarrow> nat \<Rightarrow> pyval \<Rightarrow> pyval" where
  "bounded_value max_items max_string PNone = PNone"
| "bounded_value max_items max_string (PBool b) = PBool b"
| "bounded_value max_items max_string (PInt n) = PInt n"
| "bounded_value max_items max_string (PFloat s) = PFloat s"
| "bounded_value max_items max_string (PStr s) =
     (if max_string < length s then PStr (py_rstrip (take (max_string - 15) s) @ ''... [truncated]'')
      else PStr s)"
| "bounded_value max_items max_string (PMoney m) = PMoney m"
| "bounded_value max_items max_string (PList xs) =
     PList (take max_items (map (bounded_value max_items max_string) xs))"
| "bounded_value max_items max_string (PDict d) =
     PDict (take max_items (map (map_prod id (bounded_value max_items max_string)) d))"

definition bounded_summary :: "nat \<Rightarrow> nat \<Rightarrow> pyval \<Rightarrow> jdict" where
  "bounded_summary max_items max_string v =
     (case v of PDict d \<Rightarrow> map (map_prod id (bounded_value max_items max_string)) d | _ \<Rightarrow> [])"

definition select_summary :: "jdict \<Rightarrow> string list \<Rightarrow> jdict \<times> string list" where
  "select_summary summary keys =
     (if keys = [] then (summary, [])
      else (List.map_filter (\<lambda>k. map_option (Pair k) (map_of summary k)) keys,
            filter (\<lambda>k. k \<notin> set keys) (map fst summary)))"

definition summary_compact_marker :: "string \<Rightarrow> pyval \<Rightarrow> jdict" where
  "summary_compact_marker pack_name summary =
     (''compacted'', PBool True) #
     (case summary of
        PDict d \<Rightarrow>
          if pack_name = ''capital_summary''
          then List.map_filter (\<lambda>k. map_option (Pair k) (map_of d k)) CAPITAL_ADMISSION_SUMMARY_KEYS
          else []
      | _ \<Rightarrow> [])"

section \<open>Projecting one pack\<close>

text \<open>
  What the projection records about a payload besides its content: the keys it dropped and the
  references it had.
\<close>

record projection_facts =
  pj_profile_name :: string
  pj_tool_name :: "string option"
  pj_original_chars :: nat
  pj_dropped_keys :: "string list"
  pj_dropped_top_level_keys :: "string list"
  pj_original_source_ref_count :: nat
  pj_source_refs_truncated :: bool

definition popt :: "string option \<Rightarrow> pyval" where
  "popt x = (case x of None \<Rightarrow> PNone | Some s \<Rightarrow> PStr s)"

definition pack_projection :: "projection_facts \<Rightarrow> pack_spec \<Rightarrow> nat \<Rightarrow> bool \<Rightarrow> jdict" where
  "pack_projection facts spec projected_chars truncated =
     [(''profile_name'', PStr (pj_profile_name facts)),
      (''tool_name'', popt (pj_tool_name facts)),
      (''projection_kind'', PStr ''context_pack''),
      (''pack_name'', PStr (ps_pack_name spec)),
      (''context_pack_ref'', PStr (''context_pack://'' @ ps_pack_name spec)),
      (''priority'', PInt (ps_priority spec)),
      (''max_chars'', PInt (int (ps_max_chars spec))),
      (''max_items'', PInt (int (ps_max_items spec))),
      (''max_source_refs'', PInt (int (ps_max_source_refs spec))),
      (''summary_keys'', PStrs (ps_summary_keys spec)),
      (''dropped_summary_keys'', PStrs (pj_dropped_keys facts)),
      (''dropped_top_level_keys'', PStrs (pj_dropped_top_level_keys facts)),
      (''original_source_ref_count'', PInt (int (pj_original_source_ref_count facts))),
      (''source_refs_truncated'', PBool (pj_source_refs_truncated facts)),
      (''original_chars'', PInt (int (pj_original_chars facts))),
      (''projected_chars'', PInt (int projected_chars)),
      (''truncated'', PBool truncated),
      (''execution_allowed'', PBool False),
      (''authority_transition'', PBool False)]"

text \<open>
  The projection record is shared with the payload it is put into: the size is measured with a
  zero in \<^verbatim>\<open>projected_chars\<close> and then written there.
\<close>

definition with_projection ::
  "'e env_scheme \<Rightarrow> projection_facts \<Rightarrow> pack_spec \<Rightarrow> bool \<Rightarrow> jdict \<Rightarrow> jdict" where
  "with_projection e facts spec truncated out =
     dict_set out ''projection'' (PDict (pack_projection facts spec
       (json_chars e (dict_set out ''projection'' (PDict (pack_projection facts spec 0 truncated)))) truncated))"

definition fit_compact ::
  "'e env_scheme \<Rightarrow> projection_facts \<Rightarrow> pack_spec \<Rightarrow> jdict \<Rightarrow> jdict" where
  "fit_compact e facts spec out =
     (let summary = bounded_summary (max 1 (ps_max_items spec div 2)) 240 (dict_get_or out ''summary'' (PDict []));
          gaps = field_values e out ''data_gaps'' @
            [''context projection compacted '' @ ps_pack_name spec @ '' to fit '' @
             nat_str (ps_max_chars spec) @ '' chars''] in
      with_projection e facts spec True
        (dict_set (dict_set out ''summary'' (PDict summary)) ''data_gaps'' (PStrs gaps)))"

definition fit_marker ::
  "'e env_scheme \<Rightarrow> projection_facts \<Rightarrow> pack_spec \<Rightarrow> jdict \<Rightarrow> jdict" where
  "fit_marker e facts spec compact =
     (let source_refs = field_values e compact ''source_refs'';
          gaps = field_values e compact ''data_gaps'' @
            [''context projection replaced '' @ ps_pack_name spec @ '' summary with compact marker''];
          marker = dict_set (dict_set (dict_set compact
            ''summary'' (PDict (summary_compact_marker (ps_pack_name spec)
                                  (dict_get_or compact ''summary'' (PDict [])))))
            ''source_refs'' (PStrs (take 1 source_refs)))
            ''data_gaps'' (PStrs gaps) in
      with_projection e
        (facts\<lparr>pj_source_refs_truncated := pj_source_refs_truncated facts \<or> 1 < length source_refs\<rparr>)
        spec True marker)"

definition fit_pack_to_budget ::
  "'e env_scheme \<Rightarrow> projection_facts \<Rightarrow> pack_spec \<Rightarrow> jdict \<Rightarrow> jdict" where
  "fit_pack_to_budget e facts spec projected =
     (let out = with_projection e facts spec False
            (dict_set projected ''context_pack_refs'' (PStrs [''context_pack://'' @ ps_pack_name spec])) in
      if json_chars e out \<le> ps_max_chars spec then out
      else let compact = fit_compact e facts spec out in
        if json_chars e compact \<le> ps_max_chars spec then compact
        else fit_marker e facts spec compact)"

definition projection_gaps ::
  "pack_spec \<Rightarrow> string list \<Rightarrow> string list \<Rightarrow> nat \<Rightarrow> string list \<Rightarrow> string list" where
  "projection_gaps spec dropped_keys dropped_top ref_count data_gaps =
     take (ps_max_items spec) data_gaps @
     (if dropped_keys = [] then []
      else [''context projection omitted summary keys: '' @ py_join '', '' dropped_keys]) @
     (if dropped_top = [] then []
      else [''context projection omitted top-level keys: '' @ py_join '', '' dropped_top]) @
     (if ps_max_source_refs spec < ref_count
      then [''context projection truncated source refs to '' @ nat_str (ps_max_source_refs spec)] else []) @
     (if ps_max_items spec < length data_gaps
      then [''context projection truncated data gaps to '' @ nat_str (ps_max_items spec)] else [])"

definition pack_name_of :: "'e env_scheme \<Rightarrow> jdict \<Rightarrow> string" where
  "pack_name_of e payload =
     (let v = dict_get payload ''name'' in if pyval_truthy v then py_str e v else ''unknown'')"

definition project_context_pack_payload ::
  "'e env_scheme \<Rightarrow> string \<Rightarrow> string option \<Rightarrow> jdict \<Rightarrow> jdict res" where
  "project_context_pack_payload e profile_name tool_name payload =
     rbind (get_context_projection_profile profile_name) (\<lambda>profile.
     let pack_name = pack_name_of e payload;
         spec = spec_for profile pack_name;
         summary = (case dict_get payload ''summary'' of PDict d \<Rightarrow> d | _ \<Rightarrow> []);
         (selected, dropped_keys) = select_summary summary (ps_summary_keys spec);
         source_refs = refs_of (field_values e payload ''source_refs'');
         data_gaps = refs_of (field_values e payload ''data_gaps'');
         receipt_refs = refs_of (field_values e payload ''receipt_refs'');
         receipt_ref = refs_of (field_values e payload ''receipt_ref'');
         context_pack_refs = refs_of (field_values e payload ''context_pack_refs'');
         dropped_top = sort (filter (\<lambda>k. k \<notin> set CONTEXT_PACK_TOP_LEVEL_ALLOWLIST) (map fst payload));
         facts = \<lparr>pj_profile_name = profile_name, pj_tool_name = tool_name,
                  pj_original_chars = json_chars e payload, pj_dropped_keys = dropped_keys,
                  pj_dropped_top_level_keys = dropped_top,
                  pj_original_source_ref_count = length source_refs,
                  pj_source_refs_truncated = (ps_max_source_refs spec < length source_refs)\<rparr>;
         projected =
           [(''name'', PStr pack_name),
            (''available'', case dict_get_or payload ''available'' (PBool True) of
                             PBool b \<Rightarrow> PBool b | _ \<Rightarrow> PBool True),
            (''summary'', PDict (bounded_summary (ps_max_items spec) 500 (PDict selected))),
            (''source_refs'', PStrs (take (ps_max_source_refs spec) source_refs)),
            (''data_gaps'', PStrs (projection_gaps spec dropped_keys dropped_top (length source_refs) data_gaps)),
            (''non_claims'', PStrs (refs_of (AGENT_CONTEXT_PROJECTION_NON_CLAIMS @
               field_values e payload ''non_claims''))),
            (''execution_allowed'', PBool False)] @
           (if context_pack_refs = [] then [] else [(''context_pack_refs'', PStrs context_pack_refs)]) @
           (if receipt_refs = [] then [] else [(''receipt_refs'', PStrs receipt_refs)]) @
           (case receipt_ref of [] \<Rightarrow> [] | r # _ \<Rightarrow> [(''receipt_ref'', PStr r)]) in
     Inr (fit_pack_to_budget e facts spec projected))"

definition known_context_pack_names :: "string list" where
  "known_context_pack_names =
     concat (map (\<lambda>p. map ps_pack_name (pp_pack_specs p)) CONTEXT_PROJECTION_PROFILES)"

definition is_context_pack_payload :: "jdict \<Rightarrow> bool" where
  "is_context_pack_payload result \<longleftrightarrow>
     (case (dict_get result ''summary'', dict_get result ''name'') of
        (PDict _, PStr n) \<Rightarrow> n \<in> set known_context_pack_names
      | _ \<Rightarrow> False)"

definition project_agent_context_result ::
  "'e env_scheme \<Rightarrow> string \<Rightarrow> string \<Rightarrow> jdict \<Rightarrow> jdict res" where
  "project_agent_context_result e profile_name tool_name result =
     (if is_context_pack_payload result
      then project_context_pack_payload e profile_name (Some tool_name) result
      else Inr result)"

section \<open>The bundle of packs\<close>

definition pack_priority :: "'e io_env_scheme \<Rightarrow> jdict \<Rightarrow> int res" where
  "pack_priority e pack =
     (case dict_get pack ''projection'' of
        PDict projection \<Rightarrow>
          (case dict_get_or projection ''priority'' (PInt 100) of
             PInt n \<Rightarrow> Inr n
           | v \<Rightarrow> (case py_int e v of Some n \<Rightarrow> Inr n | None \<Rightarrow> Inl (ValueError ''invalid literal for int()'')))
      | _ \<Rightarrow> Inr 100)"

definition pack_refs :: "'e env_scheme \<Rightarrow> jdict list \<Rightarrow> string \<Rightarrow> string list" where
  "pack_refs e packs key = concat (map (\<lambda>p. field_values e p key) packs)"

definition bundle_projection :: "projection_profile \<Rightarrow> nat \<Rightarrow> bool \<Rightarrow> jdict" where
  "bundle_projection profile original_pack_count truncated =
     [(''profile_name'', PStr (pp_profile_name profile)),
      (''projection_kind'', PStr ''capital_context_bundle''),
      (''total_max_chars'', PInt (int (pp_total_max_chars profile))),
      (''original_pack_count'', PInt (int original_pack_count)),
      (''truncated'', PBool truncated),
      (''execution_allowed'', PBool False), (''authority_transition'', PBool False)]"

definition bundle_payload ::
  "'e env_scheme \<Rightarrow> projection_profile \<Rightarrow> nat \<Rightarrow> bool \<Rightarrow> jdict list \<Rightarrow> string list \<Rightarrow> jdict" where
  "bundle_payload e profile original_pack_count truncated included gaps =
     [(''name'', PStr ''capital_context_projection''), (''available'', PBool True),
      (''profile_name'', PStr (pp_profile_name profile)),
      (''packs'', PList (map PDict included)),
      (''projection'', PDict (bundle_projection profile original_pack_count truncated)),
      (''source_refs'', PStrs (refs_of (pack_refs e included ''source_refs''))),
      (''receipt_refs'', PStrs (refs_of (pack_refs e included ''receipt_refs'' @
                                         pack_refs e included ''receipt_ref''))),
      (''context_pack_refs'', PStrs (refs_of (pack_refs e included ''context_pack_refs''))),
      (''data_gaps'', PStrs gaps),
      (''non_claims'', PStrs AGENT_CONTEXT_PROJECTION_NON_CLAIMS),
      (''execution_allowed'', PBool False)]"

definition omitted_pack_gap :: "'e env_scheme \<Rightarrow> projection_profile \<Rightarrow> jdict \<Rightarrow> string" where
  "omitted_pack_gap e profile pack =
     ''context projection omitted pack '' @ py_str e (dict_get pack ''name'') @ '' to stay under '' @
     nat_str (pp_total_max_chars profile) @ '' chars''"

fun include_packs ::
  "'e env_scheme \<Rightarrow> projection_profile \<Rightarrow> nat \<Rightarrow> jdict list \<Rightarrow> jdict list \<Rightarrow> string list \<Rightarrow>
   jdict list \<times> string list" where
  "include_packs e profile n [] included gaps = (included, gaps)"
| "include_packs e profile n (pack # packs) included gaps =
     (if json_chars e (bundle_payload e profile n False (included @ [pack]) gaps) \<le> pp_total_max_chars profile
      then include_packs e profile n packs (included @ [pack]) gaps
      else include_packs e profile n packs included (gaps @ [omitted_pack_gap e profile pack]))"

definition projection_bundle ::
  "'e io_env_scheme \<Rightarrow> projection_profile \<Rightarrow> jdict list \<Rightarrow> nat \<Rightarrow> string list \<Rightarrow> jdict res" where
  "projection_bundle e profile packs original_pack_count data_gaps =
     rbind (map_res (\<lambda>p. rbind (pack_priority e p) (\<lambda>k. Inr (k, p))) packs) (\<lambda>keyed.
     let ordered = map snd (sort_key fst keyed);
         (included, gaps) = include_packs e profile original_pack_count ordered [] data_gaps in
     Inr (bundle_payload e profile original_pack_count (gaps \<noteq> []) included (refs_of gaps)))"

text \<open>
  The office brief.  \<open>opened\<close> is the outcome of opening the state store and \<open>read_packs\<close> that of
  reading the five packs from it; a store that cannot be opened gives one unavailable pack.
\<close>

definition AGENT_CONTEXT_NON_CLAIMS :: "string list" where
  "AGENT_CONTEXT_NON_CLAIMS =
     [''Agent context packs are bounded read models, not source-of-truth storage.'',
      ''Context packs support explanation and review; they are not recommendations.'',
      ''Not execution authorization.'', ''Not investment advice.'']"

definition unavailable_context_pack :: "string \<Rightarrow> string \<Rightarrow> jdict" where
  "unavailable_context_pack name data_gap =
     [(''name'', PStr name), (''available'', PBool False), (''summary'', PDict []), (''source_refs'', PList []),
      (''data_gaps'', PStrs [data_gap]), (''non_claims'', PStrs AGENT_CONTEXT_NON_CLAIMS),
      (''execution_allowed'', PBool False)]"

definition build_capital_context_projection_payload ::
  "'e io_env_scheme \<Rightarrow> string \<Rightarrow> unit res \<Rightarrow> jdict list res \<Rightarrow> jdict res" where
  "build_capital_context_projection_payload e profile_name opened read_packs =
     rbind (get_context_projection_profile profile_name) (\<lambda>profile.
     case opened of
       Inl (StoreError message) \<Rightarrow>
         projection_bundle e profile
           [unavailable_context_pack ''capital_context_projection'' message] 0 [message]
     | Inl x \<Rightarrow> Inl x
     | Inr _ \<Rightarrow>
         rbind read_packs (\<lambda>packs.
         rbind (map_res (project_context_pack_payload e (pp_profile_name profile)
                  (Some ''get_capital_context_projection'')) packs) (\<lambda>projected.
         projection_bundle e profile projected (length packs) [])))"

end
