(* ===== verification/Agent_Runtime.thy ===== *)
theory Agent_Runtime
  imports Agent_Context
begin

text \<open>
  Tool dispatch for agents (\<^verbatim>\<open>agent_runtime.py\<close>) over the tool entries of
  \<^verbatim>\<open>agent_tool_entries.py\<close> and \<^verbatim>\<open>agent_tools.py\<close>, the registry projection
  (\<^verbatim>\<open>agent_tool_registry.py\<close>), the typed result envelope (\<^verbatim>\<open>agent_tool_result_envelope.py\<close>), and
  the run receipt with its trace sink (\<^verbatim>\<open>agent_run_receipts.py\<close>, \<^verbatim>\<open>agent_runtime_receipts.py\<close>).
  An entry carries its availability check and its handler as functions on the world \<open>'w\<close> that
  tools read and change, exactly as the Python entry carries two callables.
\<close>

section \<open>Tool entries\<close>

record tool_availability =
  ta_available :: bool
  ta_reason :: "string option"

record 'w tool_entry =
  te_name :: string
  te_params_json_schema :: jdict
  te_capability :: agent_capability
  te_toolset :: string
  te_description :: string
  te_side_effect :: string
  te_check_fn :: "'w \<Rightarrow> tool_availability"
  te_dispatch_handler :: "jdict \<Rightarrow> 'w \<Rightarrow> jdict res \<times> 'w"
  te_evidence_provider_ids :: "string list"
  te_unavailable_policy :: string
  te_max_result_chars :: nat
  te_requires_human_review :: bool
  te_execution_allowed :: bool
  te_authority_transition :: bool

definition mk_tool_entry :: "string \<Rightarrow> 'w tool_entry \<Rightarrow> 'w tool_entry res" where
  "mk_tool_entry sdk_name t =
     (if te_name t \<noteq> sdk_name
      then Inl (ValueError (''agent tool entry name mismatch: '' @ te_name t @ '' != '' @ sdk_name))
      else if te_execution_allowed t then Inl (ValueError ''agent tool entries never grant execution authority'')
      else if te_authority_transition t
      then Inl (ValueError ''agent tool entries never grant authority transitions'')
      else rbind (resolve_evidence_providers (te_evidence_provider_ids t)) (\<lambda>_. Inr t))"

text \<open>
  The twelve entries.  \<open>schema\<close>, \<open>check\<close> and \<open>handler\<close> give, per tool name, the parameter schema the
  SDK derives from the tool function, the availability check and the handler.
\<close>

definition agent_tool ::
  "(string \<Rightarrow> jdict) \<Rightarrow> (string \<Rightarrow> 'w \<Rightarrow> tool_availability) \<Rightarrow> (string \<Rightarrow> jdict \<Rightarrow> 'w \<Rightarrow> jdict res \<times> 'w) \<Rightarrow>
   string \<Rightarrow> agent_capability \<Rightarrow> string \<Rightarrow> string \<Rightarrow> string \<Rightarrow> string list \<Rightarrow> string \<Rightarrow> nat \<Rightarrow> bool \<Rightarrow> 'w tool_entry" where
  "agent_tool schema check handler name capability toolset description side_effect providers policy chars review =
     \<lparr>te_name = name, te_params_json_schema = schema name, te_capability = capability, te_toolset = toolset,
      te_description = description, te_side_effect = side_effect, te_check_fn = check name,
      te_dispatch_handler = handler name, te_evidence_provider_ids = providers,
      te_unavailable_policy = policy, te_max_result_chars = chars, te_requires_human_review = review,
      te_execution_allowed = False, te_authority_transition = False\<rparr>"

definition AGENT_TOOL_ENTRIES ::
  "(string \<Rightarrow> jdict) \<Rightarrow> (string \<Rightarrow> 'w \<Rightarrow> tool_availability) \<Rightarrow> (string \<Rightarrow> jdict \<Rightarrow> 'w \<Rightarrow> jdict res \<times> 'w) \<Rightarrow>
   'w tool_entry list" where
  "AGENT_TOOL_ENTRIES schema check handler =
     (let tool = agent_tool schema check handler;
          context_tool = (\<lambda>name description chars. tool name CAPITAL_READ ''capital_context'' description ''read''
            [''capital_context.state_core''] ''diagnostic_stub'' chars False);
          draft_tool = (\<lambda>name capability toolset description chars.
            tool name capability toolset description ''append_only_review_write''
              [''capital_context.state_core'', ''proposal_receipt.state_core''] ''fail_closed'' chars True) in
      [tool ''get_quote_snapshot'' CAPITAL_READ ''market_data''
         ''Read one quote snapshot through the configured market-data adapter.'' ''read''
         [''market_data.yfinance''] ''hide'' 12000 False,
       tool ''get_historical_risk_metrics'' CAPITAL_READ ''market_data''
         ''Fetch historical prices and compute descriptive risk metrics.'' ''read''
         [''market_data.yfinance''] ''hide'' 12000 False,
       tool ''evaluate_latest_risk_note'' CAPITAL_EXPLAIN ''eval''
         ''Run local promptfoo assertions against the latest generated risk note.'' ''local_eval''
         [''local_eval.promptfoo''] ''hide'' 12000 False,
       context_tool ''get_capital_context_projection''
         ''Read the profile-budgeted Capital OS office context projection.'' 20000,
       context_tool ''get_capital_summary_context'' ''Read the bounded Capital OS exposure context pack.'' 12000,
       context_tool ''get_current_ips_context'' ''Read the active IPS context pack when one exists.'' 12000,
       context_tool ''get_ips_check_context'' ''Read the IPS compliance context pack for current exposure.'' 12000,
       context_tool ''get_open_proposals_context'' ''Read open governed proposals awaiting human review.'' 12000,
       context_tool ''get_proposal_timeline_context'' (''Read a governed proposal'' @ [CHR 0x27] @ ''s bounded review timeline.'')
         12000,
       draft_tool ''draft_governed_proposal_from_context'' CAPITAL_PROPOSE ''proposal_draft''
         ''Create an append-only governed proposal draft for human review.'' 12000,
       draft_tool ''draft_agent_review_note_from_context'' CAPITAL_REVIEW_NOTE ''proposal_review''
         (''Create an append-only AgentReviewNoteDraft on an existing proposal '' @ ''for human review.'') 12000,
       draft_tool ''draft_agent_scaffold_revision_apply_candidate_from_context'' CAPITAL_SCAFFOLD_REVISION
         ''proposal_review''
         (''Create an append-only AgentScaffoldRevisionApplyCandidate for '' @
          ''human-confirmed scaffold revision apply.'') 20000])"

definition find_entry :: "'w tool_entry list \<Rightarrow> string \<Rightarrow> 'w tool_entry option" where
  "find_entry entries name = tbl_get te_name entries name"

section \<open>Results\<close>

datatype runtime_error_code =
    PROFILE_NOT_ALLOWED | TOOL_UNREGISTERED | TOOL_UNAVAILABLE | SCHEMA_VALIDATION_FAILED
  | RESULT_TOO_LARGE | STATECORE_UNAVAILABLE | RECEIPT_WRITE_FAILED | EXECUTION_UNSUPPORTED
  | HANDLER_FAILED

primrec error_code_text :: "runtime_error_code \<Rightarrow> string" where
  "error_code_text PROFILE_NOT_ALLOWED = ''PROFILE_NOT_ALLOWED''"
| "error_code_text TOOL_UNREGISTERED = ''TOOL_UNREGISTERED''"
| "error_code_text TOOL_UNAVAILABLE = ''TOOL_UNAVAILABLE''"
| "error_code_text SCHEMA_VALIDATION_FAILED = ''SCHEMA_VALIDATION_FAILED''"
| "error_code_text RESULT_TOO_LARGE = ''RESULT_TOO_LARGE''"
| "error_code_text STATECORE_UNAVAILABLE = ''STATECORE_UNAVAILABLE''"
| "error_code_text RECEIPT_WRITE_FAILED = ''RECEIPT_WRITE_FAILED''"
| "error_code_text EXECUTION_UNSUPPORTED = ''EXECUTION_UNSUPPORTED''"
| "error_code_text HANDLER_FAILED = ''HANDLER_FAILED''"

record runtime_error =
  er_code :: runtime_error_code
  er_message :: string
  er_recoverable :: bool
  er_reason :: "string option"

record runtime_result =
  tr_ok :: bool
  tr_tool_name :: string
  tr_side_effect :: "string option"
  tr_result :: "jdict option"
  tr_evidence :: "evidence_envelope option"
  tr_error :: "runtime_error option"
  tr_truncated :: bool
  tr_original_result_chars :: "nat option"
  tr_execution_allowed :: bool
  tr_authority_transition :: bool

definition error_result ::
  "string \<Rightarrow> string option \<Rightarrow> runtime_error_code \<Rightarrow> string \<Rightarrow> bool \<Rightarrow> string option \<Rightarrow> runtime_result" where
  "error_result tool_name side_effect code message recoverable reason =
     \<lparr>tr_ok = False, tr_tool_name = tool_name, tr_side_effect = side_effect, tr_result = None,
      tr_evidence = None,
      tr_error = Some \<lparr>er_code = code, er_message = message, er_recoverable = recoverable, er_reason = reason\<rparr>,
      tr_truncated = False, tr_original_result_chars = None,
      tr_execution_allowed = False, tr_authority_transition = False\<rparr>"

definition success_result ::
  "'e env_scheme \<Rightarrow> string \<Rightarrow> 'w tool_entry \<Rightarrow> jdict \<Rightarrow> runtime_result res" where
  "success_result e profile_name t raw =
     rbind (project_agent_context_result e profile_name (te_name t) raw) (\<lambda>result.
     rbind (build_agent_evidence_envelope e (te_evidence_provider_ids t) result) (\<lambda>evidence.
     let encoded = json_dumps e result;
         fits = (length encoded \<le> te_max_result_chars t) in
     Inr \<lparr>tr_ok = True, tr_tool_name = te_name t, tr_side_effect = Some (te_side_effect t),
          tr_result = Some (if fits then result
            else [(''preview'', PStr (take (te_max_result_chars t) encoded)), (''truncated'', PBool True),
                  (''original_result_chars'', PInt (int (length encoded)))]),
          tr_evidence = Some evidence,
          tr_error = (if fits then None
            else Some \<lparr>er_code = RESULT_TOO_LARGE,
                       er_message = ''agent tool result exceeded its runtime result budget'',
                       er_recoverable = True, er_reason = None\<rparr>),
          tr_truncated = (\<not> fits),
          tr_original_result_chars = (if fits then None else Some (length encoded)),
          tr_execution_allowed = False, tr_authority_transition = False\<rparr>))"

section \<open>Dispatch\<close>

definition PROFILE_BOUND_TOOL_NAMES :: "string list" where
  "PROFILE_BOUND_TOOL_NAMES =
     [''get_capital_context_projection'', ''draft_governed_proposal_from_context'',
      ''draft_agent_review_note_from_context'', ''draft_agent_scaffold_revision_apply_candidate_from_context'']"

definition missing_required_arguments ::
  "'e env_scheme \<Rightarrow> 'w tool_entry \<Rightarrow> jdict \<Rightarrow> string list" where
  "missing_required_arguments e t arguments =
     (case dict_get_or (te_params_json_schema t) ''required'' (PList []) of
        PList required \<Rightarrow> filter (\<lambda>n. dict_get arguments n = PNone) (map (py_str e) required)
      | _ \<Rightarrow> [])"

text \<open>
  The arguments a handler gets: a profile-bound tool always acts under the active profile, and a
  caller that names another one is refused (\<open>None\<close>).
\<close>

definition bind_profile :: "'e env_scheme \<Rightarrow> string \<Rightarrow> string \<Rightarrow> jdict \<Rightarrow> jdict option" where
  "bind_profile e profile_name tool_name arguments =
     (if tool_name \<in> set PROFILE_BOUND_TOOL_NAMES
      then let requested = dict_get arguments ''profile_name'' in
        if requested \<noteq> PNone \<and> py_str e requested \<noteq> profile_name then None
        else Some (dict_set (dict_without arguments ''profile_name'') ''profile_name'' (PStr profile_name))
      else Some arguments)"

text \<open>How an exception of a handler is reported.  The paths of an escaped receipt are not kept by the model,
  so that message is a fixed text.\<close>

fun exn_text :: "exn \<Rightarrow> string" where
  "exn_text (ValueError m) = m"
| "exn_text (KeyError m) = py_quote m"
| "exn_text (OsError m) = m"
| "exn_text (DbError m) = m"
| "exn_text (StoreError m) = m"
| "exn_text ReceiptPathError = ''receipt path escapes its root''"
| "exn_text NoResultFound = ''No row was found when one was required''"
| "exn_text (AdminDenied c m) = m"
| "exn_text (MandateError m) = m"
| "exn_text (GrantError m) = m"
| "exn_text (CapabilityDenied m) = m"
| "exn_text (TypeError m) = m"
| "exn_text (AttributeError m) = m"
| "exn_text (IntegrityError m) = m"
| "exn_text (MutationError m) = m"
| "exn_text (BindingError m) = m"
| "exn_text (VersionError c m) = m"
| "exn_text (RuntimeError m) = m"
| "exn_text (ArtifactError c m) = m"

fun is_value_error :: "exn \<Rightarrow> bool" where
  "is_value_error (ValueError m) = True"
| "is_value_error ReceiptPathError = True"
| "is_value_error (AdminDenied c m) = True"
| "is_value_error (MandateError m) = True"
| "is_value_error (GrantError m) = True"
| "is_value_error (IntegrityError m) = True"
| "is_value_error (BindingError m) = True"
| "is_value_error x = False"

fun is_os_error :: "exn \<Rightarrow> bool" where
  "is_os_error (OsError m) = True"
| "is_os_error (CapabilityDenied m) = True"
| "is_os_error x = False"

definition handler_error :: "'w tool_entry \<Rightarrow> string \<Rightarrow> exn \<Rightarrow> runtime_result" where
  "handler_error t tool_name x =
     (let side = Some (te_side_effect t) in
      case x of
        StoreError m \<Rightarrow> error_result tool_name side STATECORE_UNAVAILABLE
          ''state-core is unavailable for this Agent tool'' True (Some m)
      | _ \<Rightarrow>
          if is_value_error x then error_result tool_name side SCHEMA_VALIDATION_FAILED (exn_text x) True None
          else error_result tool_name side HANDLER_FAILED ''agent tool handler failed'' (is_os_error x)
                 (Some (exn_text x)))"

definition dispatch_agent_tool ::
  "'e env_scheme \<Rightarrow> 'w tool_entry list \<Rightarrow> string \<Rightarrow> string \<Rightarrow> jdict \<Rightarrow> 'w \<Rightarrow> runtime_result res \<times> 'w" where
  "dispatch_agent_tool e entries profile_name tool_name arguments w =
     (case find_entry entries tool_name of
        None \<Rightarrow>
          (Inr (error_result tool_name None TOOL_UNREGISTERED
             (''agent tool is not registered: '' @ tool_name) False None), w)
      | Some t \<Rightarrow>
          let side = Some (te_side_effect t) in
          case tool_names_for_profile profile_name of
            Inl x \<Rightarrow> (Inr (error_result tool_name side PROFILE_NOT_ALLOWED (exn_text x) False None), w)
          | Inr names \<Rightarrow>
              if tool_name \<notin> set names
              then (Inr (error_result tool_name side PROFILE_NOT_ALLOWED
                      (''agent profile '' @ py_quote profile_name @ '' cannot dispatch tool '' @ py_quote tool_name)
                      False None), w)
              else let availability = te_check_fn t w in
                if \<not> ta_available availability
                then (Inr (error_result tool_name side TOOL_UNAVAILABLE
                        (''agent tool is unavailable: '' @ tool_name)
                        (te_unavailable_policy t \<noteq> ''fail_closed'') (ta_reason availability)), w)
                else let missing = missing_required_arguments e t arguments in
                  if missing \<noteq> []
                  then (Inr (error_result tool_name side SCHEMA_VALIDATION_FAILED
                          (''missing required arguments: '' @ py_join '', '' missing) True None), w)
                  else case bind_profile e profile_name tool_name arguments of
                    None \<Rightarrow>
                      (Inr (error_result tool_name side PROFILE_NOT_ALLOWED
                         (''agent tool profile is selected by the active runtime profile '' @
                          py_quote profile_name @ '', not by tool arguments'') False None), w)
                  | Some runtime_arguments \<Rightarrow>
                      (case te_dispatch_handler t runtime_arguments w of
                         (Inl x, w') \<Rightarrow> (Inr (handler_error t tool_name x), w')
                       | (Inr result, w') \<Rightarrow> (success_result e profile_name t result, w')))"

section \<open>Visibility and the registry\<close>

record 'w resolved_entry =
  re_entry :: "'w tool_entry"
  re_availability :: tool_availability
  re_model_visible :: bool
  re_hidden_reason :: "string option"
  re_degraded :: bool

definition resolve_entry :: "'w tool_entry \<Rightarrow> 'w \<Rightarrow> 'w resolved_entry" where
  "resolve_entry t w =
     (let availability = te_check_fn t w; stub = (te_unavailable_policy t = ''diagnostic_stub'') in
      if ta_available availability
      then \<lparr>re_entry = t, re_availability = availability, re_model_visible = True, re_hidden_reason = None,
            re_degraded = False\<rparr>
      else \<lparr>re_entry = t, re_availability = availability, re_model_visible = stub,
            re_hidden_reason = ta_reason availability, re_degraded = stub\<rparr>)"

definition resolve_agent_tool_entries ::
  "'w tool_entry list \<Rightarrow> string \<Rightarrow> 'w \<Rightarrow> 'w resolved_entry list res" where
  "resolve_agent_tool_entries entries profile_name w =
     rbind (get_agent_profile profile_name) (\<lambda>profile.
       map_res (\<lambda>name.
         case find_entry entries name of
           None \<Rightarrow> Inl (ValueError (''agent profile '' @ py_quote (pf_name profile) @
                        '' references unregistered tools: '' @ name))
         | Some t \<Rightarrow> Inr (resolve_entry t w)) (pf_tool_names profile))"

record tool_registration =
  rg_name :: string
  rg_toolset :: string
  rg_description :: string
  rg_capability :: agent_capability
  rg_side_effect :: string
  rg_output_kind :: string
  rg_evidence_provider_ids :: "string list"
  rg_profile_allowlist :: "string list"
  rg_requires_human_review :: bool
  rg_execution_allowed :: bool
  rg_authority_transition :: bool

definition classify_output_kind :: "string \<Rightarrow> string" where
  "classify_output_kind side_effect =
     (case map_of [(''read'', ''context''), (''local_eval'', ''evidence''),
                   (''append_only_review_write'', ''artifact'')] side_effect of
        Some k \<Rightarrow> k | None \<Rightarrow> ''diagnostic'')"

definition registry_profile_names :: "string list" where
  "registry_profile_names = [''default'', ''review-draft'', ''review-note'', ''scaffold-candidate'']"

definition profile_allowlist_for_entry :: "'w tool_entry \<Rightarrow> string list" where
  "profile_allowlist_for_entry t =
     filter (\<lambda>p. profile_allows_capability p (te_capability t) = Inr True) registry_profile_names"

definition from_agent_tool_entry :: "'w tool_entry \<Rightarrow> tool_registration" where
  "from_agent_tool_entry t =
     \<lparr>rg_name = te_name t, rg_toolset = te_toolset t, rg_description = te_description t,
      rg_capability = te_capability t, rg_side_effect = te_side_effect t,
      rg_output_kind = classify_output_kind (te_side_effect t),
      rg_evidence_provider_ids = te_evidence_provider_ids t,
      rg_profile_allowlist = profile_allowlist_for_entry t,
      rg_requires_human_review = te_requires_human_review t,
      rg_execution_allowed = False, rg_authority_transition = False\<rparr>"

text \<open>The conversion of an entry of the model cannot fail, so a strict registry has no findings.\<close>

definition build_registry :: "'w tool_entry list \<Rightarrow> (string \<times> tool_registration) list" where
  "build_registry entries =
     map (\<lambda>t. (te_name t, from_agent_tool_entry t)) (sort_key te_name entries)"

definition tools_by_toolset :: "(string \<times> tool_registration) list \<Rightarrow> string \<Rightarrow> tool_registration list" where
  "tools_by_toolset registry toolset = filter (\<lambda>r. rg_toolset r = toolset) (map snd registry)"

definition tools_by_output_kind :: "(string \<times> tool_registration) list \<Rightarrow> string \<Rightarrow> tool_registration list" where
  "tools_by_output_kind registry kind = filter (\<lambda>r. rg_output_kind r = kind) (map snd registry)"

definition tools_exposed_to_profile :: "(string \<times> tool_registration) list \<Rightarrow> string \<Rightarrow> tool_registration list" where
  "tools_exposed_to_profile registry profile_name =
     filter (\<lambda>r. profile_name \<in> set (rg_profile_allowlist r)) (map snd registry)"

section \<open>Laws\<close>

text \<open>
  The path a dispatch takes to a handler: everything that has to hold before the world is touched.
\<close>

definition dispatch_ready ::
  "'e env_scheme \<Rightarrow> 'w tool_entry list \<Rightarrow> string \<Rightarrow> string \<Rightarrow> jdict \<Rightarrow> 'w \<Rightarrow> 'w tool_entry \<Rightarrow> jdict \<Rightarrow> bool" where
  "dispatch_ready e entries profile_name tool_name arguments w t runtime_arguments \<longleftrightarrow>
     find_entry entries tool_name = Some t \<and>
     (\<exists>names. tool_names_for_profile profile_name = Inr names \<and> tool_name \<in> set names) \<and>
     ta_available (te_check_fn t w) \<and>
     missing_required_arguments e t arguments = [] \<and>
     bind_profile e profile_name tool_name arguments = Some runtime_arguments"

lemma dispatch_ready_call:
  assumes "dispatch_ready e entries profile_name tool_name arguments w t runtime_arguments"
  shows "dispatch_agent_tool e entries profile_name tool_name arguments w =
    (case te_dispatch_handler t runtime_arguments w of
       (Inl x, w') \<Rightarrow> (Inr (handler_error t tool_name x), w')
     | (Inr result, w') \<Rightarrow> (success_result e profile_name t result, w'))"
  using assms by (auto simp: dispatch_ready_def dispatch_agent_tool_def Let_def)

definition refused_before_handler :: "runtime_result \<Rightarrow> bool" where
  "refused_before_handler r \<longleftrightarrow> \<not> tr_ok r \<and> tr_result r = None \<and>
     (\<exists>er. tr_error r = Some er \<and>
        er_code er \<in> {TOOL_UNREGISTERED, PROFILE_NOT_ALLOWED, TOOL_UNAVAILABLE, SCHEMA_VALIDATION_FAILED})"

lemma refused_error_result:
  "refused_before_handler (error_result tool_name side code message recoverable reason) \<longleftrightarrow>
     code \<in> {TOOL_UNREGISTERED, PROFILE_NOT_ALLOWED, TOOL_UNAVAILABLE, SCHEMA_VALIDATION_FAILED}"
  by (simp add: refused_before_handler_def error_result_def)

lemma dispatch_not_ready:
  assumes "\<nexists>t ra. dispatch_ready e entries profile_name tool_name arguments w t ra"
  shows "\<exists>r. dispatch_agent_tool e entries profile_name tool_name arguments w = (Inr r, w) \<and>
    refused_before_handler r"
proof (cases "find_entry entries tool_name")
  case None
  then show ?thesis by (simp add: dispatch_agent_tool_def refused_error_result)
next
  case (Some t)
  note fnd = this
  show ?thesis
  proof (cases "tool_names_for_profile profile_name")
    case (Inl x)
    with fnd show ?thesis by (simp add: dispatch_agent_tool_def refused_error_result Let_def)
  next
    case (Inr names)
    consider "tool_name \<notin> set names" | "tool_name \<in> set names" "\<not> ta_available (te_check_fn t w)"
      | "tool_name \<in> set names" "ta_available (te_check_fn t w)" "missing_required_arguments e t arguments \<noteq> []"
      | "tool_name \<in> set names" "ta_available (te_check_fn t w)" "missing_required_arguments e t arguments = []"
        "bind_profile e profile_name tool_name arguments = None"
      using assms fnd Inr unfolding dispatch_ready_def by fastforce
    then show ?thesis
      using fnd Inr by cases (simp_all add: dispatch_agent_tool_def refused_error_result Let_def)
  qed
qed

lemma bind_profile_active:
  assumes "bind_profile e profile_name tool_name arguments = Some ra"
    and "tool_name \<in> set PROFILE_BOUND_TOOL_NAMES"
  shows "dict_get ra ''profile_name'' = PStr profile_name"
  using assms by (auto simp: bind_profile_def Let_def split: if_splits)

lemma bind_profile_others:
  assumes "bind_profile e profile_name tool_name arguments = Some ra" and "k \<noteq> ''profile_name''"
  shows "dict_get ra k = dict_get arguments k"
  using assms by (auto simp: bind_profile_def Let_def split: if_splits)

end
