(* ===== verification/Agent_Receipts.thy ===== *)
theory Agent_Receipts
  imports Agent_Runtime
begin

text \<open>
  What a dispatch leaves behind: the typed envelope of a tool result
  (\<^verbatim>\<open>agent_tool_result_envelope.py\<close>), the run receipt (\<^verbatim>\<open>agent_run_receipts.py\<close>) and the trace
  sink that records results and writes the receipt at the end (\<^verbatim>\<open>agent_runtime_receipts.py\<close>).
\<close>

section \<open>Result envelopes\<close>

fun first_some :: "('a \<Rightarrow> 'b option) \<Rightarrow> 'a list \<Rightarrow> 'b option" where
  "first_some f [] = None"
| "first_some f (x # xs) = (case f x of None \<Rightarrow> first_some f xs | Some y \<Rightarrow> Some y)"

lemma first_some_cong [fundef_cong]:
  "xs = ys \<Longrightarrow> (\<And>x. x \<in> set ys \<Longrightarrow> f x = g x) \<Longrightarrow> first_some f xs = first_some g ys"
  by (induction ys arbitrary: xs) (auto split: option.splits)

lemma dict_get_size: "dict_get d k = PList xs \<Longrightarrow> x \<in> set xs \<Longrightarrow> size x < size (PDict d)"
proof -
  assume "dict_get d k = PList xs" and x: "x \<in> set xs"
  then have "(k, PList xs) \<in> set d"
    by (auto simp: dict_get_def split: option.splits dest: map_of_SomeD)
  then have "size (PList xs) < Suc (size_list (size_prod (\<lambda>_. 0) size) d)"
    by (induction d) auto
  moreover have "size x < size (PList xs)"
    using x by (simp add: less_Suc_eq_le size_list_estimation')
  ultimately show ?thesis by simp
qed

function find_capital_summary :: "pyval \<Rightarrow> jdict option" where
  "find_capital_summary (PDict d) =
     (if dict_get d ''name'' = PStr ''capital_summary''
      then (case dict_get d ''summary'' of PDict s \<Rightarrow> Some s | _ \<Rightarrow> None)
      else (case dict_get d ''packs'' of PList packs \<Rightarrow> first_some find_capital_summary packs | _ \<Rightarrow> None))"
| "find_capital_summary PNone = None"
| "find_capital_summary (PBool b) = None"
| "find_capital_summary (PInt n) = None"
| "find_capital_summary (PFloat s) = None"
| "find_capital_summary (PStr s) = None"
| "find_capital_summary (PMoney m) = None"
| "find_capital_summary (PList xs) = None"
  by pat_completeness auto
termination
  by (relation "measure size") (auto dest: dict_get_size)

definition optional_text :: "'e env_scheme \<Rightarrow> pyval \<Rightarrow> string option" where
  "optional_text e v = (if v = PNone then None else truthy (Some (py_strip (py_str e v))))"

definition envelope_dedupe :: "string list \<Rightarrow> string list" where
  "envelope_dedupe values = dedupe_by [] (filter (\<lambda>v. v \<noteq> []) values)"

record result_envelope =
  en_tool_name :: string
  en_toolset :: string
  en_ok :: bool
  en_result_summary :: "string option"
  en_observation_payload :: "jdict option"
  en_observation_sha256 :: "string option"
  en_world_id :: "string option"
  en_basis_digest :: "string option"
  en_world_status :: "string option"
  en_trust :: "jdict option"
  en_capital_truth :: "jdict option"
  en_source_refs :: "string list"
  en_evidence_refs :: "string list"
  en_provider_refs :: "string list"
  en_receipt_refs :: "string list"
  en_context_refs :: "string list"
  en_data_gaps :: "string list"
  en_side_effect :: string
  en_output_kind :: string
  en_error_code :: "string option"
  en_truncated :: bool
  en_request_argument_keys :: "string list"
  en_request_arguments_sha256 :: "string option"
  en_autonomy_admission_ref :: "string option"
  en_autonomy_disposition :: "string option"
  en_artifact_ref :: "string option"
  en_agent_run_receipt_ref :: "string option"

definition sub_dict :: "jdict option \<Rightarrow> string \<Rightarrow> jdict option" where
  "sub_dict capital key =
     (case capital of
        Some d \<Rightarrow> (case dict_get d key of PDict x \<Rightarrow> Some x | _ \<Rightarrow> None)
      | None \<Rightarrow> None)"

definition result_summary_of :: "'e env_scheme \<Rightarrow> runtime_result \<Rightarrow> string option \<Rightarrow> string option" where
  "result_summary_of e r world_status =
     (case (tr_ok r, tr_result r, tr_error r) of
        (True, Some d, _) \<Rightarrow>
          if d = [] then None
          else (case truthy world_status of
                  Some s \<Rightarrow> Some s
                | None \<Rightarrow> let status = dict_get_or d ''status'' (PStr []) in
                    if pyval_truthy status then Some (py_str e status) else None)
      | (False, _, Some er) \<Rightarrow> Some (error_code_text (er_code er))
      | _ \<Rightarrow> None)"

definition build_tool_result_envelope ::
  "'e io_env_scheme \<Rightarrow> 'w tool_entry list \<Rightarrow> runtime_result \<Rightarrow> result_envelope" where
  "build_tool_result_envelope e entries r =
     (let capital = (case tr_result r of None \<Rightarrow> None | Some d \<Rightarrow> find_capital_summary (PDict d));
          text = (\<lambda>key. case capital of None \<Rightarrow> None | Some d \<Rightarrow> optional_text e (dict_get d key));
          side = or_else (tr_side_effect r) ''read'';
          receipt_refs = (case tr_evidence r of None \<Rightarrow> [] | Some v \<Rightarrow> envelope_dedupe (ev_receipt_refs v));
          code = map_option (\<lambda>er. error_code_text (er_code er)) (tr_error r) in
      \<lparr>en_tool_name = tr_tool_name r,
       en_toolset = (case find_entry entries (tr_tool_name r) of Some t \<Rightarrow> te_toolset t | None \<Rightarrow> ''unknown''),
       en_ok = tr_ok r,
       en_result_summary = result_summary_of e r (text ''world_status''),
       en_observation_payload = tr_result r,
       en_observation_sha256 =
         map_option (\<lambda>d. sha256 e (utf8 (canonical_json e (PDict d)))) (tr_result r),
       en_world_id = text ''world_id'', en_basis_digest = text ''basis_digest'',
       en_world_status = text ''world_status'',
       en_trust = sub_dict capital ''trust'', en_capital_truth = sub_dict capital ''capital_truth'',
       en_source_refs = (case tr_evidence r of None \<Rightarrow> [] | Some v \<Rightarrow> envelope_dedupe (ev_source_refs v)),
       en_evidence_refs = receipt_refs,
       en_provider_refs =
         (case tr_evidence r of None \<Rightarrow> [] | Some v \<Rightarrow> envelope_dedupe (map (\<lambda>p. ''provider:'' @ p) (ev_provider_ids v))),
       en_receipt_refs = receipt_refs,
       en_context_refs = (case tr_evidence r of None \<Rightarrow> [] | Some v \<Rightarrow> envelope_dedupe (ev_context_pack_refs v)),
       en_data_gaps = envelope_dedupe ((case tr_evidence r of None \<Rightarrow> [] | Some v \<Rightarrow> ev_data_gaps v) @
         (case code of None \<Rightarrow> [] | Some c \<Rightarrow> [tr_tool_name r @ '': '' @ c])),
       en_side_effect = side, en_output_kind = classify_output_kind side, en_error_code = code,
       en_truncated = tr_truncated r, en_request_argument_keys = [], en_request_arguments_sha256 = None,
       en_autonomy_admission_ref = None, en_autonomy_disposition = None, en_artifact_ref = None,
       en_agent_run_receipt_ref = None\<rparr>)"

definition pdict_opt :: "jdict option \<Rightarrow> pyval" where
  "pdict_opt x = (case x of None \<Rightarrow> PNone | Some d \<Rightarrow> PDict d)"

definition envelope_dump :: "result_envelope \<Rightarrow> jdict" where
  "envelope_dump n =
     [(''tool_name'', PStr (en_tool_name n)), (''toolset'', PStr (en_toolset n)), (''ok'', PBool (en_ok n)),
      (''result_summary'', popt (en_result_summary n)),
      (''observation_payload'', pdict_opt (en_observation_payload n)),
      (''observation_sha256'', popt (en_observation_sha256 n)), (''world_id'', popt (en_world_id n)),
      (''basis_digest'', popt (en_basis_digest n)), (''world_status'', popt (en_world_status n)),
      (''trust'', pdict_opt (en_trust n)), (''capital_truth'', pdict_opt (en_capital_truth n)),
      (''source_refs'', PStrs (en_source_refs n)), (''evidence_refs'', PStrs (en_evidence_refs n)),
      (''provider_refs'', PStrs (en_provider_refs n)), (''observation_refs'', PList []),
      (''artifact_refs'', PList []), (''receipt_refs'', PStrs (en_receipt_refs n)),
      (''context_refs'', PStrs (en_context_refs n)), (''data_gaps'', PStrs (en_data_gaps n)),
      (''side_effect'', PStr (en_side_effect n)), (''output_kind'', PStr (en_output_kind n)),
      (''error_code'', popt (en_error_code n)), (''truncated'', PBool (en_truncated n)),
      (''request_argument_keys'', PStrs (en_request_argument_keys n)),
      (''request_arguments_sha256'', popt (en_request_arguments_sha256 n)),
      (''autonomy_admission_ref'', popt (en_autonomy_admission_ref n)),
      (''autonomy_disposition'', popt (en_autonomy_disposition n)),
      (''artifact_ref'', popt (en_artifact_ref n)),
      (''agent_run_receipt_ref'', popt (en_agent_run_receipt_ref n)),
      (''execution_allowed'', PBool False), (''authority_transition'', PBool False)]"

section \<open>Run receipts\<close>

record tool_call_summary =
  tc_tool_name :: string
  tc_side_effect :: "string option"
  tc_ok :: bool
  tc_evidence_refs :: "string list"
  tc_receipt_refs :: "string list"
  tc_error_code :: "string option"
  tc_result_truncated :: bool

record agent_run_receipt =
  ru_receipt_id :: string
  ru_agent_run_id :: string
  ru_created_at_utc :: string
  ru_goal :: string
  ru_profile_name :: string
  ru_context_refs :: "string list"
  ru_tool_calls :: "tool_call_summary list"
  ru_artifact_refs :: "string list"
  ru_evidence_refs :: "string list"
  ru_data_gaps :: "string list"
  ru_outcome :: string
  ru_stop_reason :: string
  ru_execution_allowed :: bool
  ru_authority_transition :: bool

definition opt_text_field :: "string \<Rightarrow> string option \<Rightarrow> jdict" where
  "opt_text_field key x = (case x of None \<Rightarrow> [] | Some s \<Rightarrow> [(key, PStr s)])"

definition tool_call_dump :: "tool_call_summary \<Rightarrow> jdict" where
  "tool_call_dump c =
     [(''tool_name'', PStr (tc_tool_name c))] @ opt_text_field ''side_effect'' (tc_side_effect c) @
     [(''ok'', PBool (tc_ok c)), (''evidence_refs'', PStrs (tc_evidence_refs c)),
      (''receipt_refs'', PStrs (tc_receipt_refs c))] @ opt_text_field ''error_code'' (tc_error_code c) @
     [(''result_truncated'', PBool (tc_result_truncated c))]"

definition RUN_NON_CLAIMS :: "string list" where
  "RUN_NON_CLAIMS =
     [''AgentRunReceipt records agent activity, not business state.'', ''Not execution authorization.'',
      ''Not investment advice.'']"

definition run_receipt_dump :: "agent_run_receipt \<Rightarrow> jdict" where
  "run_receipt_dump r =
     [(''schema_version'', PStr ''finharness.agent_run_receipt.v1''), (''receipt_id'', PStr (ru_receipt_id r)),
      (''agent_run_id'', PStr (ru_agent_run_id r)), (''created_at_utc'', PStr (ru_created_at_utc r)),
      (''goal'', PStr (ru_goal r)), (''profile_name'', PStr (ru_profile_name r)),
      (''context_refs'', PStrs (ru_context_refs r)),
      (''tool_calls'', PList (map (\<lambda>c. PDict (tool_call_dump c)) (ru_tool_calls r))),
      (''artifact_refs'', PStrs (ru_artifact_refs r)), (''evidence_refs'', PStrs (ru_evidence_refs r)),
      (''data_gaps'', PStrs (ru_data_gaps r)), (''outcome'', PStr (ru_outcome r)),
      (''stop_reason'', PStr (ru_stop_reason r)), (''non_claims'', PStrs RUN_NON_CLAIMS),
      (''execution_allowed'', PBool False), (''authority_transition'', PBool False)]"

text \<open>
  The file is written in place, not through a temporary file, so a write that fails may leave a
  truncated one.
\<close>

definition new_run_id :: "'e env_scheme \<Rightarrow> nat \<Rightarrow> string \<Rightarrow> string" where
  "new_run_id e i prefix = prefix @ ''_'' @ stamp e i @ ''_'' @ uuid8 e i"

definition run_receipt_path :: "'e io_env_scheme \<Rightarrow> string \<Rightarrow> string \<Rightarrow> string" where
  "run_receipt_path e root receipt_id =
     realpath e (path_join (path_join root ''agent-runs'') (receipt_id @ ''.json''))"

record run_lists =
  rl_context_refs :: "string list"
  rl_artifact_refs :: "string list"
  rl_evidence_refs :: "string list"
  rl_data_gaps :: "string list"

definition write_agent_run_receipt ::
  "'e io_env_scheme \<Rightarrow> string \<Rightarrow> string \<Rightarrow> tool_call_summary list \<Rightarrow> string \<Rightarrow> string \<Rightarrow> string \<Rightarrow> run_lists \<Rightarrow>
   json_fs \<Rightarrow> agent_run_receipt res \<times> json_fs" where
  "write_agent_run_receipt e goal profile_name tool_calls outcome stop_reason root rl fs =
     (if py_strip goal = [] then (Inl (ValueError ''AgentRunReceipt requires a non-blank goal''), fs)
      else let r = \<lparr>ru_receipt_id = new_run_id e 0 ''ar'', ru_agent_run_id = new_run_id e 1 ''agrun'',
                   ru_created_at_utc = clock e 0, ru_goal = py_strip goal, ru_profile_name = profile_name,
                   ru_context_refs = refs_of (rl_context_refs rl), ru_tool_calls = tool_calls,
                   ru_artifact_refs = refs_of (rl_artifact_refs rl),
                   ru_evidence_refs = refs_of (rl_evidence_refs rl),
                   ru_data_gaps = refs_of (rl_data_gaps rl), ru_outcome = outcome,
                   ru_stop_reason = py_strip stop_reason, ru_execution_allowed = False,
                   ru_authority_transition = False\<rparr>;
               path = run_receipt_path e root (ru_receipt_id r) in
        if io_fault e EnsureDirectory then (Inl (OsError path), fs)
        else if io_fault e TempWrite then (Inl (OsError path), fs(path \<mapsto> NotJson))
        else (Inr r, fs(path \<mapsto> JsonObject (run_receipt_dump r))))"

section \<open>The trace sink\<close>

record trace_sink =
  sk_goal :: string
  sk_profile_name :: string
  sk_receipt_root :: string
  sk_context_refs :: "string list"
  sk_results :: "runtime_result list"
  sk_finalized :: bool

definition mk_trace_sink :: "string \<Rightarrow> string \<Rightarrow> string \<Rightarrow> string list \<Rightarrow> trace_sink res" where
  "mk_trace_sink goal profile_name root context_refs =
     (if py_strip goal = [] then Inl (ValueError ''goal must not be empty'')
      else Inr \<lparr>sk_goal = py_strip goal, sk_profile_name = profile_name, sk_receipt_root = root,
                sk_context_refs = context_refs, sk_results = [], sk_finalized = False\<rparr>)"

definition record_result :: "runtime_result \<Rightarrow> trace_sink \<Rightarrow> trace_sink res" where
  "record_result r k =
     (if sk_finalized k then Inl (RuntimeError ''cannot record_result after finalize()'')
      else Inr (k\<lparr>sk_results := sk_results k @ [r]\<rparr>))"

definition to_tool_call_summary :: "runtime_result \<Rightarrow> tool_call_summary" where
  "to_tool_call_summary r =
     \<lparr>tc_tool_name = tr_tool_name r, tc_side_effect = tr_side_effect r, tc_ok = tr_ok r,
      tc_evidence_refs = (case tr_evidence r of None \<Rightarrow> [] | Some v \<Rightarrow> ev_source_refs v),
      tc_receipt_refs = (case tr_evidence r of None \<Rightarrow> [] | Some v \<Rightarrow> ev_receipt_refs v),
      tc_error_code = map_option (\<lambda>er. error_code_text (er_code er)) (tr_error r),
      tc_result_truncated = tr_truncated r\<rparr>"

definition result_gaps :: "runtime_result \<Rightarrow> string list" where
  "result_gaps r =
     (case tr_error r of None \<Rightarrow> [] | Some er \<Rightarrow> [tr_tool_name r @ '': '' @ error_code_text (er_code er)]) @
     (case tr_evidence r of None \<Rightarrow> [] | Some v \<Rightarrow> ev_data_gaps v)"

definition result_sources :: "runtime_result \<Rightarrow> string list" where
  "result_sources r = (case tr_evidence r of None \<Rightarrow> [] | Some v \<Rightarrow> ev_source_refs v)"

definition derive_outcome :: "runtime_result list \<Rightarrow> string" where
  "derive_outcome results =
     (let ok_count = length (filter tr_ok results) in
      if ok_count = 0 then ''failed'' else if ok_count = length results then ''succeeded'' else ''partial'')"

definition derive_stop_reason :: "runtime_result list \<Rightarrow> string \<Rightarrow> string" where
  "derive_stop_reason results outcome =
     (let codes = List.map_filter (\<lambda>r. map_option (\<lambda>er. error_code_text (er_code er)) (tr_error r))
                    (filter (\<lambda>r. \<not> tr_ok r) results) in
      if outcome = ''succeeded'' then ''runtime_dispatch_complete''
      else if outcome = ''failed'' then ''dispatch_failed: '' @ py_join '', '' codes
      else ''partial_dispatch: '' @ py_join '', '' codes)"

definition build_agent_run_receipt_from_runtime_results ::
  "'e io_env_scheme \<Rightarrow> string \<Rightarrow> string \<Rightarrow> runtime_result list \<Rightarrow> string \<Rightarrow> string list \<Rightarrow> json_fs \<Rightarrow>
   agent_run_receipt res \<times> json_fs" where
  "build_agent_run_receipt_from_runtime_results e goal profile_name results root context_refs fs =
     (if results = [] then (Inl (ValueError ''runtime_results must not be empty''), fs)
      else let outcome = derive_outcome results in
        write_agent_run_receipt e goal profile_name (map to_tool_call_summary results) outcome
          (derive_stop_reason results outcome) root
          \<lparr>rl_context_refs = context_refs, rl_artifact_refs = [],
           rl_evidence_refs = dedupe_by [] (concat (map result_sources results)),
           rl_data_gaps = dedupe_by [] (concat (map result_gaps results))\<rparr> fs)"

definition finalize_sink ::
  "'e io_env_scheme \<Rightarrow> trace_sink \<Rightarrow> json_fs \<Rightarrow> (agent_run_receipt res \<times> trace_sink) \<times> json_fs" where
  "finalize_sink e k fs =
     (if sk_finalized k then ((Inl (RuntimeError ''finalize() already called''), k), fs)
      else let k' = k\<lparr>sk_finalized := True\<rparr> in
        if sk_results k = []
        then ((Inl (ValueError ''no dispatch results recorded, cannot finalize''), k'), fs)
        else let (r, fs') = build_agent_run_receipt_from_runtime_results e (sk_goal k) (sk_profile_name k)
               (sk_results k) (sk_receipt_root k) (sk_context_refs k) fs in ((r, k'), fs'))"

end
