(* ===== verification/Agent_Work_Loop.thy ===== *)
theory Agent_Work_Loop
  imports Agent_Receipts
begin

text \<open>
  The bounded work loop of an agent (\<^verbatim>\<open>agent_work_loop.py\<close>): requests, decisions and observations,
  one iteration of the dispatch loop with its budget, repetition and admission guards, the loop
  itself and the closing run receipt.  The decision port is a function with a state of its own, or
  absent, in which case the queue of requested tools decides.  An iteration either continues, stops
  with a reason, or raises.  \<open>wc_env n k\<close> is the environment of the \<open>k\<close>-th effect of step \<open>n\<close>; step
  0 is the closing of the loop.
\<close>

section \<open>Requests, decisions, observations\<close>

record tool_request =
  tq_tool_name :: string
  tq_arguments :: jdict

definition mk_tool_request :: "string \<Rightarrow> jdict \<Rightarrow> tool_request res" where
  "mk_tool_request tool_name arguments =
     (if py_strip tool_name = [] then Inl (ValueError ''tool_name must not be blank'')
      else Inr \<lparr>tq_tool_name = py_strip tool_name, tq_arguments = arguments\<rparr>)"

record work_request =
  wq_work_id :: string
  wq_agent_id :: string
  wq_goal :: string
  wq_profile_name :: string
  wq_objective :: string
  wq_work_type :: string
  wq_playbook_name :: "string option"
  wq_requested_tools :: "string list"
  wq_tool_requests :: "tool_request list"
  wq_context_pack_names :: "string list"
  wq_max_tool_calls :: int
  wq_max_steps :: int
  wq_receipt_root :: string
  wq_requested_autonomy :: agent_autonomy
  wq_world_fidelity :: world_fidelity
  wq_capital_mandate_id :: "string option"
  wq_agent_authority_grant_id :: "string option"

definition mk_work_request :: "work_request \<Rightarrow> work_request res" where
  "mk_work_request q =
     (if wq_work_type q \<notin> {''research_review'', ''ips_drift_review'', ''proposal_review'', ''evidence_triage'',
           ''planning_review''}
      then Inl (ValueError ''literal_error'')
      else if wq_max_tool_calls q < 1 \<or> wq_max_steps q < 1 then Inl (ValueError ''greater_than_equal'')
      else if wq_requested_tools q \<noteq> [] \<and> wq_tool_requests q \<noteq> []
      then Inl (ValueError ''use requested_tools or tool_requests, not both'')
      else Inr q)"

definition normalized_tool_requests :: "work_request \<Rightarrow> tool_request list res" where
  "normalized_tool_requests q =
     (if wq_tool_requests q \<noteq> [] then Inr (wq_tool_requests q)
      else map_res (\<lambda>name. mk_tool_request name []) (wq_requested_tools q))"

record observation =
  ob_sequence :: nat
  ob_kind :: string
  ob_tool_name :: "string option"
  ob_ok :: "bool option"
  ob_error_code :: "string option"
  ob_artifact_ref :: "string option"
  ob_autonomy_admission_ref :: "string option"
  ob_observation_sha256 :: "string option"
  ob_world_id :: "string option"
  ob_basis_digest :: "string option"
  ob_world_status :: "string option"
  ob_data_gaps :: "string list"

definition work_started :: observation where
  "work_started =
     \<lparr>ob_sequence = 0, ob_kind = ''work_started'', ob_tool_name = None, ob_ok = None, ob_error_code = None,
      ob_artifact_ref = None, ob_autonomy_admission_ref = None, ob_observation_sha256 = None,
      ob_world_id = None, ob_basis_digest = None, ob_world_status = None, ob_data_gaps = []\<rparr>"

record decision_state =
  ds_work_id :: string
  ds_goal :: string
  ds_objective :: string
  ds_step_count :: nat
  ds_tool_call_count :: nat
  ds_max_steps :: int
  ds_max_tool_calls :: int
  ds_observation :: observation

record decision =
  dn_action :: string
  dn_tool_request :: "tool_request option"

definition mk_decision :: "decision \<Rightarrow> decision res" where
  "mk_decision d =
     (if dn_action d \<notin> {''dispatch'', ''complete''} then Inl (ValueError ''literal_error'')
      else if (dn_action d = ''dispatch'') \<noteq> (dn_tool_request d \<noteq> None)
      then Inl (ValueError ''dispatch requires one tool_request; complete requires none'')
      else Inr d)"

section \<open>The state of the loop\<close>

record 'w work_world =
  ww_files :: json_fs
  ww_admissions :: "string \<rightharpoonup> admission_report"
  ww_tools :: 'w

record ('w, 'p) work_ctx =
  wc_env :: "nat \<Rightarrow> nat \<Rightarrow> io_env"
  wc_entries :: "'w work_world tool_entry list"
  wc_request :: work_request
  wc_snapshot_id :: string
  wc_port :: "('p \<Rightarrow> decision_state \<Rightarrow> decision res \<times> 'p) option"
  wc_mandate :: "autonomy_mandate option"
  wc_autonomy_ceiling :: agent_autonomy
  wc_world_fidelity :: world_fidelity

record ('w, 'p) loop_state =
  ls_world :: "'w work_world"
  ls_sink :: trace_sink
  ls_envelopes :: "jdict list"
  ls_data_gaps :: "string list"
  ls_tool_count :: nat
  ls_step_count :: nat
  ls_pending :: "tool_request list"
  ls_port_state :: 'p
  ls_fingerprints :: "string \<Rightarrow> nat"
  ls_observation :: observation

datatype 's step_result = Continue 's | Stop string 's | Raise exn 's

section \<open>One iteration\<close>

definition drained_reason :: "('w, 'p) work_ctx \<Rightarrow> ('w, 'p) loop_state \<Rightarrow> string \<Rightarrow> string" where
  "drained_reason c s reason =
     (if wc_port c = None \<and> ls_pending s = []
      then (if ls_data_gaps s \<noteq> [] then ''data_gap_unresolved'' else ''completed'') else reason)"

definition budget_stop :: "('w, 'p) work_ctx \<Rightarrow> ('w, 'p) loop_state \<Rightarrow> string option" where
  "budget_stop c s =
     (if wq_max_steps (wc_request c) \<le> int (ls_step_count s)
      then Some (drained_reason c s ''max_steps_reached'')
      else if wq_max_tool_calls (wc_request c) \<le> int (ls_tool_count s)
      then Some (drained_reason c s ''max_tool_calls_reached'')
      else None)"

definition decision_state_of :: "('w, 'p) work_ctx \<Rightarrow> ('w, 'p) loop_state \<Rightarrow> decision_state" where
  "decision_state_of c s =
     (let q = wc_request c in
      \<lparr>ds_work_id = wq_work_id q, ds_goal = wq_goal q, ds_objective = wq_objective q,
       ds_step_count = ls_step_count s, ds_tool_call_count = ls_tool_count s,
       ds_max_steps = wq_max_steps q, ds_max_tool_calls = wq_max_tool_calls q,
       ds_observation = ls_observation s\<rparr>)"

definition queued_port :: "tool_request list \<Rightarrow> decision \<times> tool_request list" where
  "queued_port pending =
     (case pending of
        [] \<Rightarrow> (\<lparr>dn_action = ''complete'', dn_tool_request = None\<rparr>, [])
      | q # rest \<Rightarrow> (\<lparr>dn_action = ''dispatch'', dn_tool_request = Some q\<rparr>, rest))"

definition consult_port ::
  "('w, 'p) work_ctx \<Rightarrow> ('w, 'p) loop_state \<Rightarrow> decision res \<times> ('w, 'p) loop_state" where
  "consult_port c s =
     (case wc_port c of
        None \<Rightarrow> let (d, rest) = queued_port (ls_pending s) in (Inr d, s\<lparr>ls_pending := rest\<rparr>)
      | Some port \<Rightarrow>
          let (d, p) = port (ls_port_state s) (decision_state_of c s) in (d, s\<lparr>ls_port_state := p\<rparr>))"

fun exn_name :: "exn \<Rightarrow> string" where
  "exn_name (ValueError m) = ''ValueError''"
| "exn_name (KeyError m) = ''KeyError''"
| "exn_name (OsError m) = ''OSError''"
| "exn_name (DbError m) = ''SQLAlchemyError''"
| "exn_name (StoreError m) = ''StateCoreStoreError''"
| "exn_name ReceiptPathError = ''ReceiptPathError''"
| "exn_name NoResultFound = ''NoResultFound''"
| "exn_name (AdminDenied c m) = ''AuthorityAdministrationDeniedError''"
| "exn_name (MandateError m) = ''CapitalMandateValidationError''"
| "exn_name (GrantError m) = ''AgentAuthorityGrantValidationError''"
| "exn_name (CapabilityDenied m) = ''ExecutionCapabilityDeniedError''"
| "exn_name (TypeError m) = ''TypeError''"
| "exn_name (AttributeError m) = ''AttributeError''"
| "exn_name (IntegrityError m) = ''ReceiptIntegrityError''"
| "exn_name (MutationError m) = ''IdentityMutationError''"
| "exn_name (BindingError m) = ''BrowserMutationBindingError''"
| "exn_name (VersionError c m) = ''ProposalVersionResolutionError''"
| "exn_name (RuntimeError m) = ''RuntimeError''"
| "exn_name (ArtifactError c m) = c"

text \<open>The digest under which a repeated request is recognised.\<close>

definition request_fingerprint :: "'e io_env_scheme \<Rightarrow> tool_request \<Rightarrow> string" where
  "request_fingerprint e q =
     sha256 e (utf8 (canonical_json e (PDict [(''tool_name'', PStr (tq_tool_name q)),
       (''arguments'', PDict (tq_arguments q))])))"

definition action_request_of ::
  "('w, 'p) work_ctx \<Rightarrow> io_env \<Rightarrow> tool_request \<Rightarrow> agent_action_request res" where
  "action_request_of c e q =
     (let r = wc_request c in
      mk_agent_action_request
        \<lparr>rq_action_id = ''agent_action_'' @ uuid_hex e, rq_work_id = wq_work_id r, rq_agent_id = wq_agent_id r,
         rq_objective = wq_objective r,
         rq_action_class =
           (case find_entry (wc_entries c) (tq_tool_name q) of
              Some t \<Rightarrow> if te_side_effect t = ''append_only_review_write'' then PREPARE_REVIEW_PACKET
                        else GATHER_EVIDENCE
            | None \<Rightarrow> GATHER_EVIDENCE),
         rq_requested_autonomy = wq_requested_autonomy r, rq_tool_name = Some (tq_tool_name q),
         rq_arguments = tq_arguments q,
         rq_target_scope =
           List.map_filter (\<lambda>k. map_option (Pair k) (map_of (tq_arguments q) k)) [''action_type'', ''asset_class''],
         rq_external_effect = False, rq_reversible = True, rq_source_refs = []\<rparr>)"

definition admit_request ::
  "('w, 'p) work_ctx \<Rightarrow> io_env \<Rightarrow> tool_request \<Rightarrow> admission_report res" where
  "admit_request c e q =
     rbind (action_request_of c e q) (\<lambda>request.
       evaluate_autonomy_admission e request
         \<lparr>rt_world_fidelity = wc_world_fidelity c, rt_autonomy_ceiling = wc_autonomy_ceiling c,
          rt_world_state_ref = Some (wc_snapshot_id c), rt_now_utc = clock e 0\<rparr>
         (wc_mandate c))"

primrec disposition_text :: "disposition \<Rightarrow> string" where
  "disposition_text EFFECTIVE = ''effective''"
| "disposition_text CANDIDATE = ''candidate''"
| "disposition_text ESCALATE = ''escalate''"
| "disposition_text BLOCKED = ''blocked''"

primrec finding_code_text :: "finding_code \<Rightarrow> string" where
  "finding_code_text MANDATE_REQUIRED = ''mandate_required''"
| "finding_code_text MANDATE_NOT_ACTIVE = ''mandate_not_active''"
| "finding_code_text MANDATE_EXPIRED = ''mandate_expired''"
| "finding_code_text KILL_SWITCH_ENGAGED = ''kill_switch_engaged''"
| "finding_code_text AUTONOMY_EXCEEDS_MANDATE = ''autonomy_exceeds_mandate''"
| "finding_code_text AUTONOMY_EXCEEDS_RUNTIME = ''autonomy_exceeds_runtime''"
| "finding_code_text ACTION_OUTSIDE_MANDATE = ''action_outside_mandate''"
| "finding_code_text FINANCIAL_ACTION_OUTSIDE_MANDATE = ''financial_action_outside_mandate''"
| "finding_code_text ASSET_CLASS_OUTSIDE_MANDATE = ''asset_class_outside_mandate''"
| "finding_code_text TOOL_OUTSIDE_MANDATE = ''tool_outside_mandate''"
| "finding_code_text WORLD_FIDELITY_INSUFFICIENT = ''world_fidelity_insufficient''"
| "finding_code_text REQUESTED_AUTONOMY_INSUFFICIENT = ''requested_autonomy_insufficient''"
| "finding_code_text EXTERNAL_EFFECT_CLASS_MISMATCH = ''external_effect_class_mismatch''"
| "finding_code_text CONSTITUTIONAL_CHANGE_REQUIRES_HUMAN = ''constitutional_change_requires_human''"

definition artifact_name :: "('w, 'p) work_ctx \<Rightarrow> io_env \<Rightarrow> nat \<Rightarrow> string \<Rightarrow> string" where
  "artifact_name c e n suffix =
     ''agent-tool-results/work-'' @ take 16 (sha256 e (utf8 (wq_work_id (wc_request c)))) @ ''-step-'' @
     nat_str n @ suffix @ ''.json''"

definition write_artifact ::
  "('w, 'p) work_ctx \<Rightarrow> io_env \<Rightarrow> string \<Rightarrow> jdict \<Rightarrow> 'w work_world \<Rightarrow> unit res \<times> 'w work_world" where
  "write_artifact c e relative payload w =
     (case resolve_under e (wq_receipt_root (wc_request c)) [relative] of
        Inl x \<Rightarrow> (Inl x, w)
      | Inr path \<Rightarrow> let (r, fs) = atomic_write_json e path payload (ww_files w) in (r, w\<lparr>ww_files := fs\<rparr>))"

definition denied_envelope ::
  "('w, 'p) work_ctx \<Rightarrow> tool_request \<Rightarrow> admission_report \<Rightarrow> string \<Rightarrow> string \<Rightarrow> string list \<Rightarrow> jdict" where
  "denied_envelope c q report admission_ref artifact gaps =
     (let t = find_entry (wc_entries c) (tq_tool_name q) in
      [(''tool_name'', PStr (tq_tool_name q)),
       (''toolset'', PStr (case t of Some t \<Rightarrow> te_toolset t | None \<Rightarrow> ''unknown'')),
       (''ok'', PBool False), (''error_code'', PStr ''AUTONOMY_ADMISSION_DENIED''),
       (''side_effect'', PStr (case t of Some t \<Rightarrow> te_side_effect t | None \<Rightarrow> ''unknown'')),
       (''output_kind'', PStr ''diagnostic''), (''data_gaps'', PStrs gaps),
       (''request_argument_keys'', PStrs (sort (map fst (tq_arguments q)))),
       (''autonomy_admission_ref'', PStr admission_ref),
       (''autonomy_disposition'', PStr (disposition_text (rp_disposition report))),
       (''artifact_ref'', PStr artifact), (''execution_allowed'', PBool False),
       (''authority_transition'', PBool False)])"

definition deny_step ::
  "('w, 'p) work_ctx \<Rightarrow> tool_request \<Rightarrow> admission_report \<Rightarrow> string \<Rightarrow> ('w, 'p) loop_state \<Rightarrow>
   ('w, 'p) loop_state step_result" where
  "deny_step c q report admission_ref s =
     (let n = ls_step_count s; e = wc_env c n 2;
          codes = py_join '','' (map (\<lambda>f. finding_code_text (af_code f)) (rp_findings report));
          gaps = ls_data_gaps s @
            [''autonomy_admission_'' @ disposition_text (rp_disposition report) @ '': '' @ tq_tool_name q @ '' ('' @
             (if codes = [] then ''no_finding'' else codes) @ '')''];
          artifact = artifact_name c e n ''-denied'';
          envelope = denied_envelope c q report admission_ref artifact gaps;
          s1 = s\<lparr>ls_data_gaps := gaps,
                 ls_observation := work_started\<lparr>ob_sequence := n, ob_kind := ''admission_denied'',
                   ob_tool_name := Some (tq_tool_name q), ob_ok := Some False,
                   ob_autonomy_admission_ref := Some admission_ref, ob_data_gaps := gaps\<rparr>\<rparr> in
      case write_artifact c e artifact envelope (ls_world s) of
        (Inl x, w) \<Rightarrow> Raise x (s1\<lparr>ls_world := w\<rparr>)
      | (Inr _, w) \<Rightarrow>
          Stop (if rp_disposition report = BLOCKED then ''evaluation_blocked'' else ''human_review_required'')
            (s1\<lparr>ls_world := w, ls_envelopes := ls_envelopes s @ [envelope]\<rparr>))"

definition request_envelope ::
  "('w, 'p) work_ctx \<Rightarrow> io_env \<Rightarrow> tool_request \<Rightarrow> admission_report \<Rightarrow> string \<Rightarrow> string \<Rightarrow> runtime_result \<Rightarrow>
   result_envelope" where
  "request_envelope c e q report admission_ref artifact r =
     (build_tool_result_envelope e (wc_entries c) r)
       \<lparr>en_request_argument_keys := sort (map fst (tq_arguments q)),
        en_request_arguments_sha256 := Some (sha256 e (utf8 (canonical_json e (PDict (tq_arguments q))))),
        en_autonomy_admission_ref := Some admission_ref,
        en_autonomy_disposition := Some (disposition_text (rp_disposition report)),
        en_artifact_ref := Some artifact\<rparr>"

definition envelope_unavailable :: "result_envelope \<Rightarrow> bool" where
  "envelope_unavailable n \<longleftrightarrow> en_error_code n \<in> {Some ''TOOL_UNAVAILABLE'', Some ''TOOL_UNREGISTERED''}"

definition record_step ::
  "('w, 'p) work_ctx \<Rightarrow> tool_request \<Rightarrow> admission_report \<Rightarrow> string \<Rightarrow> runtime_result \<Rightarrow> ('w, 'p) loop_state \<Rightarrow>
   ('w, 'p) loop_state step_result" where
  "record_step c q report admission_ref r s =
     (let n = ls_step_count s; e = wc_env c n 2;
          artifact = artifact_name c e n [];
          envelope = request_envelope c e q report admission_ref artifact r in
      case write_artifact c e artifact (envelope_dump envelope) (ls_world s) of
        (Inl x, w) \<Rightarrow> Raise x (s\<lparr>ls_world := w\<rparr>)
      | (Inr _, w) \<Rightarrow>
          let s1 = s\<lparr>ls_world := w, ls_envelopes := ls_envelopes s @ [envelope_dump envelope],
                     ls_data_gaps := ls_data_gaps s @ en_data_gaps envelope,
                     ls_tool_count := ls_tool_count s + 1,
                     ls_observation :=
                       \<lparr>ob_sequence = n,
                        ob_kind = (if envelope_unavailable envelope then ''tool_unavailable'' else ''tool_result''),
                        ob_tool_name = Some (tq_tool_name q), ob_ok = Some (en_ok envelope),
                        ob_error_code = en_error_code envelope, ob_artifact_ref = Some artifact,
                        ob_autonomy_admission_ref = Some admission_ref,
                        ob_observation_sha256 = en_observation_sha256 envelope,
                        ob_world_id = en_world_id envelope, ob_basis_digest = en_basis_digest envelope,
                        ob_world_status = en_world_status envelope, ob_data_gaps = en_data_gaps envelope\<rparr>\<rparr> in
          if envelope_unavailable envelope then Stop ''tool_unavailable'' s1 else Continue s1)"

definition sink_dispatch ::
  "('w, 'p) work_ctx \<Rightarrow> tool_request \<Rightarrow> ('w, 'p) loop_state \<Rightarrow> runtime_result res \<times> ('w, 'p) loop_state" where
  "sink_dispatch c q s =
     (case dispatch_agent_tool (wc_env c (ls_step_count s) 1) (wc_entries c) (wq_profile_name (wc_request c))
             (tq_tool_name q) (tq_arguments q) (ls_world s) of
        (Inl x, w) \<Rightarrow> (Inl x, s\<lparr>ls_world := w\<rparr>)
      | (Inr r, w) \<Rightarrow>
          (case record_result r (ls_sink s) of
             Inl x \<Rightarrow> (Inl x, s\<lparr>ls_world := w\<rparr>)
           | Inr k \<Rightarrow> (Inr r, s\<lparr>ls_world := w, ls_sink := k\<rparr>)))"

definition admitted_step ::
  "('w, 'p) work_ctx \<Rightarrow> tool_request \<Rightarrow> ('w, 'p) loop_state \<Rightarrow> ('w, 'p) loop_state step_result" where
  "admitted_step c q s =
     (let e = wc_env c (ls_step_count s) 0 in
      case admit_request c e q of
        Inl x \<Rightarrow> Raise x s
      | Inr report \<Rightarrow>
          (case write_autonomy_admission_report e (\<lambda>t. sha256 e (utf8 t)) report (ww_admissions (ls_world s)) of
             (Inl x, files) \<Rightarrow> Raise x (s\<lparr>ls_world := (ls_world s)\<lparr>ww_admissions := files\<rparr>\<rparr>)
           | (Inr admission_ref, files) \<Rightarrow>
               let s1 = s\<lparr>ls_world := (ls_world s)\<lparr>ww_admissions := files\<rparr>\<rparr> in
               if rp_disposition report \<noteq> EFFECTIVE then deny_step c q report admission_ref s1
               else case sink_dispatch c q s1 of
                 (Inl x, s2) \<Rightarrow> Raise x s2
               | (Inr r, s2) \<Rightarrow> record_step c q report admission_ref r s2))"

definition requested_step ::
  "('w, 'p) work_ctx \<Rightarrow> tool_request \<Rightarrow> ('w, 'p) loop_state \<Rightarrow> ('w, 'p) loop_state step_result" where
  "requested_step c q s =
     (let f = request_fingerprint (wc_env c 0 0) q; prior = ls_fingerprints s f in
      if 2 \<le> prior
      then Stop ''no_progress_detected''
             (s\<lparr>ls_data_gaps := ls_data_gaps s @
               [''no_progress_detected: repeated '' @ tq_tool_name q @ '' with identical arguments'']\<rparr>)
      else admitted_step c q
             (s\<lparr>ls_fingerprints := (ls_fingerprints s)(f := prior + 1), ls_step_count := ls_step_count s + 1\<rparr>))"

definition work_step ::
  "('w, 'p) work_ctx \<Rightarrow> ('w, 'p) loop_state \<Rightarrow> ('w, 'p) loop_state step_result" where
  "work_step c s =
     (case budget_stop c s of
        Some reason \<Rightarrow> Stop reason s
      | None \<Rightarrow>
          (case consult_port c s of
             (Inl x, s1) \<Rightarrow>
               Stop ''internal_error''
                 (s1\<lparr>ls_data_gaps := ls_data_gaps s1 @
                   [''decision_port_error: '' @ exn_name x @ '': '' @ exn_text x]\<rparr>)
           | (Inr d, s1) \<Rightarrow>
               if dn_action d = ''complete''
               then Stop (if ls_data_gaps s1 \<noteq> [] then ''data_gap_unresolved'' else ''completed'') s1
               else case dn_tool_request d of
                 None \<Rightarrow>
                   Stop ''internal_error''
                     (s1\<lparr>ls_data_gaps := ls_data_gaps s1 @
                       [''decision_port_error: dispatch decision omitted tool_request'']\<rparr>)
               | Some q \<Rightarrow> requested_step c q s1))"

section \<open>Every iteration that continues takes one step\<close>

lemmas iteration_defs =
  work_step_def requested_step_def admitted_step_def deny_step_def record_step_def sink_dispatch_def Let_def

lemma record_step_Continue:
  assumes "record_step c q report ref r s = Continue s'"
  shows "ls_step_count s' = ls_step_count s \<and> ls_tool_count s' = ls_tool_count s + 1 \<and>
    ls_fingerprints s' = ls_fingerprints s \<and> ls_sink s' = ls_sink s"
  using assms unfolding record_step_def Let_def by (auto split: prod.splits sum.splits if_splits)

lemma sink_dispatch_counts:
  assumes "sink_dispatch c q s = (r, s')"
  shows "ls_step_count s' = ls_step_count s \<and> ls_tool_count s' = ls_tool_count s \<and>
    ls_fingerprints s' = ls_fingerprints s"
  using assms unfolding sink_dispatch_def by (auto split: prod.splits sum.splits)

lemma deny_step_not_Continue: "deny_step c q report ref s \<noteq> Continue s'"
  unfolding deny_step_def Let_def by (auto split: prod.splits sum.splits)

lemma admitted_step_ContinueE:
  assumes "admitted_step c q s = Continue s'"
  obtains report ref files r s2 where
    "admit_request c (wc_env c (ls_step_count s) 0) q = Inr report" and "rp_disposition report = EFFECTIVE"
    and "sink_dispatch c q (s\<lparr>ls_world := (ls_world s)\<lparr>ww_admissions := files\<rparr>\<rparr>) = (Inr r, s2)"
    and "record_step c q report ref r s2 = Continue s'"
  using assms that unfolding admitted_step_def Let_def
  by (auto simp: deny_step_not_Continue split: sum.splits prod.splits if_splits)

lemma admitted_step_counts:
  assumes "admitted_step c q s = Continue s'"
  shows "ls_step_count s' = ls_step_count s \<and> ls_tool_count s' = ls_tool_count s + 1 \<and>
    ls_fingerprints s' = ls_fingerprints s"
  using assms by (auto elim!: admitted_step_ContinueE dest!: record_step_Continue sink_dispatch_counts)

lemma consult_port_counts:
  assumes "consult_port c s = (d, s')"
  shows "ls_step_count s' = ls_step_count s \<and> ls_tool_count s' = ls_tool_count s \<and>
    ls_fingerprints s' = ls_fingerprints s \<and> ls_world s' = ls_world s \<and> ls_sink s' = ls_sink s \<and>
    ls_envelopes s' = ls_envelopes s \<and> ls_data_gaps s' = ls_data_gaps s"
  using assms unfolding consult_port_def by (auto simp: Let_def split: option.splits prod.splits)

lemma work_step_ContinueE:
  assumes "work_step c s = Continue s'"
  obtains d s1 q where "budget_stop c s = None" and "consult_port c s = (Inr d, s1)"
    and "dn_tool_request d = Some q" and "ls_fingerprints s (request_fingerprint (wc_env c 0 0) q) < 2"
    and "admitted_step c q (s1\<lparr>ls_fingerprints := (ls_fingerprints s1)
           (request_fingerprint (wc_env c 0 0) q := ls_fingerprints s1 (request_fingerprint (wc_env c 0 0) q) + 1),
           ls_step_count := ls_step_count s1 + 1\<rparr>) = Continue s'"
  using assms that unfolding work_step_def requested_step_def Let_def
  by (auto dest!: consult_port_counts split: option.splits prod.splits sum.splits if_splits)

lemma budget_stop_None_iff:
  "budget_stop c s = None \<longleftrightarrow>
     int (ls_step_count s) < wq_max_steps (wc_request c) \<and> int (ls_tool_count s) < wq_max_tool_calls (wc_request c)"
  by (auto simp: budget_stop_def)

lemma work_step_Continue:
  assumes "work_step c s = Continue s'"
  shows "int (ls_step_count s) < wq_max_steps (wc_request c)"
    and "int (ls_tool_count s) < wq_max_tool_calls (wc_request c)"
    and "ls_step_count s' = ls_step_count s + 1" and "ls_tool_count s' = ls_tool_count s + 1"
  using assms by (auto elim!: work_step_ContinueE dest!: admitted_step_counts consult_port_counts
      simp: budget_stop_None_iff)

section \<open>The loop\<close>

function run_loop ::
  "('w, 'p) work_ctx \<Rightarrow> ('w, 'p) loop_state \<Rightarrow> string res \<times> ('w, 'p) loop_state" where
  "run_loop c s =
     (case work_step c s of
        Continue s' \<Rightarrow> run_loop c s'
      | Stop reason s' \<Rightarrow> (Inr reason, s')
      | Raise x s' \<Rightarrow> (Inl x, s'))"
  by pat_completeness auto
termination
proof (relation "measure (\<lambda>(c, s). nat (wq_max_steps (wc_request c) - int (ls_step_count s)))")
  fix c :: "('w, 'p) work_ctx" and s s' :: "('w, 'p) loop_state"
  assume "work_step c s = Continue s'"
  from work_step_Continue [OF this]
  show "((c, s'), (c, s)) \<in> measure (\<lambda>(c, s). nat (wq_max_steps (wc_request c) - int (ls_step_count s)))"
    by auto
qed simp

declare run_loop.simps [simp del]

definition start_loop ::
  "('w, 'p) work_ctx \<Rightarrow> string list \<Rightarrow> observation option \<Rightarrow> 'p \<Rightarrow> 'w work_world \<Rightarrow> ('w, 'p) loop_state res" where
  "start_loop c context_refs observation p w =
     (let q = wc_request c in
      rbind (mk_trace_sink (wq_goal q) (wq_profile_name q) (wq_receipt_root q) context_refs) (\<lambda>sink.
      rbind (normalized_tool_requests q) (\<lambda>pending.
        Inr \<lparr>ls_world = w, ls_sink = sink, ls_envelopes = [], ls_data_gaps = [], ls_tool_count = 0,
             ls_step_count = 0, ls_pending = pending, ls_port_state = p, ls_fingerprints = (\<lambda>_. 0),
             ls_observation = (case observation of None \<Rightarrow> work_started | Some x \<Rightarrow> x)\<rparr>)))"

text \<open>
  The closing: with at least one dispatch the run receipt is written and its reference is put into
  every envelope, whose files are rewritten one after the other.
\<close>

fun rewrite_envelopes ::
  "('w, 'p) work_ctx \<Rightarrow> string \<Rightarrow> nat \<Rightarrow> jdict list \<Rightarrow> 'w work_world \<Rightarrow> jdict list res \<times> 'w work_world" where
  "rewrite_envelopes c run_ref i [] w = (Inr [], w)"
| "rewrite_envelopes c run_ref i (d # ds) w =
     (let updated = dict_set d ''agent_run_receipt_ref'' (PStr run_ref) in
      case (case dict_get updated ''artifact_ref'' of
              PStr a \<Rightarrow> write_artifact c (wc_env c 0 i) a updated w
            | _ \<Rightarrow> (Inr (), w)) of
        (Inl x, w1) \<Rightarrow> (Inl x, w1)
      | (Inr _, w1) \<Rightarrow>
          (case rewrite_envelopes c run_ref (i + 1) ds w1 of
             (Inl x, w2) \<Rightarrow> (Inl x, w2)
           | (Inr rest, w2) \<Rightarrow> (Inr (updated # rest), w2)))"

definition close_loop ::
  "('w, 'p) work_ctx \<Rightarrow> ('w, 'p) loop_state \<Rightarrow> jdict list res \<times> 'w work_world" where
  "close_loop c s =
     (if sk_results (ls_sink s) = [] then (Inr (ls_envelopes s), ls_world s)
      else let ((r, k), fs) = finalize_sink (wc_env c 0 0) (ls_sink s) (ww_files (ls_world s));
               w = (ls_world s)\<lparr>ww_files := fs\<rparr> in
        case r of
          Inl x \<Rightarrow> (Inl x, w)
        | Inr receipt \<Rightarrow>
            rewrite_envelopes c (''agent-runs/'' @ ru_receipt_id receipt @ ''.json'') 1 (ls_envelopes s) w)"

definition run_bounded_tool_dispatch_loop ::
  "('w, 'p) work_ctx \<Rightarrow> string list \<Rightarrow> observation option \<Rightarrow> 'p \<Rightarrow> 'w work_world \<Rightarrow>
   (jdict list \<times> string \<times> string list) res \<times> 'w work_world" where
  "run_bounded_tool_dispatch_loop c context_refs observation p w =
     (case start_loop c context_refs observation p w of
        Inl x \<Rightarrow> (Inl x, w)
      | Inr s \<Rightarrow>
          (case run_loop c s of
             (Inl x, s') \<Rightarrow> (Inl x, ls_world s')
           | (Inr stop_reason, s') \<Rightarrow>
               (case close_loop c s' of
                  (Inl x, w') \<Rightarrow> (Inl x, w')
                | (Inr envelopes, w') \<Rightarrow> (Inr (envelopes, stop_reason, ls_data_gaps s'), w'))))"

end
