(* ===== verification/Agent_Work.thy ===== *)
theory Agent_Work
  imports Agent_Work_Loop "HOL-Library.AList"
begin

text \<open>
  One unit of agent work from request to persisted result (\<^verbatim>\<open>run_agent_work_loop\<close>): authority and
  playbook preflight, the frozen context with its trust map (\<^verbatim>\<open>agent_context_trust_map.py\<close>), the
  dispatch loop, the semantic reduction of the stop reason and the terminal result file.  Loading a
  playbook, the cognition flow, the review workspace and the search index are services of the call:
  arguments that act on the same world.
\<close>

section \<open>Context trust\<close>

record context_trust =
  ct_source_type :: string
  ct_trust_level :: string
  ct_verification_status :: string
  ct_allowed_uses :: "string list"
  ct_source_refs :: "string list"
  ct_receipt_refs :: "string list"

definition literal_field :: "string list \<Rightarrow> pyval \<Rightarrow> string option" where
  "literal_field allowed v = (case v of PStr s \<Rightarrow> if s \<in> set allowed then Some s else None | _ \<Rightarrow> None)"

fun string_elements :: "pyval list \<Rightarrow> string list option" where
  "string_elements [] = Some []"
| "string_elements (PStr s # vs) = map_option ((#) s) (string_elements vs)"
| "string_elements (_ # vs) = None"

definition string_list_field :: "pyval \<Rightarrow> string list option" where
  "string_list_field v = (case v of PList vs \<Rightarrow> string_elements vs | _ \<Rightarrow> None)"

definition mk_context_trust :: "jdict \<Rightarrow> context_trust option" where
  "mk_context_trust d =
     (case (literal_field [''receipt_backed_state'', ''system_computed'', ''human_attested'', ''agent_draft'',
              ''user_supplied'', ''external_provider'', ''unknown''] (dict_get d ''source_type''),
            literal_field [''high'', ''medium'', ''low'', ''untrusted''] (dict_get d ''trust_level''),
            literal_field [''verified'', ''derived'', ''unverified'', ''stale'', ''unknown'']
              (dict_get d ''verification_status''),
            string_list_field (dict_get d ''allowed_uses''), string_list_field (dict_get d ''source_refs''),
            string_list_field (dict_get d ''receipt_refs'')) of
        (Some st, Some level, Some vs, Some uses, Some srcs, Some recs) \<Rightarrow>
          Some \<lparr>ct_source_type = st, ct_trust_level = level, ct_verification_status = vs, ct_allowed_uses = uses,
                ct_source_refs = srcs, ct_receipt_refs = recs\<rparr>
      | _ \<Rightarrow> None)"

record trust_finding =
  tf_severity :: string
  tf_code :: string
  tf_message :: string

type_synonym trust_map = "(string \<times> context_trust) list"
type_synonym trust_acc = "trust_map \<times> trust_finding list"

definition warn_finding :: "string \<Rightarrow> string \<Rightarrow> trust_finding" where
  "warn_finding code message = \<lparr>tf_severity = ''warn'', tf_code = code, tf_message = message\<rparr>"

primrec py_type_name :: "pyval \<Rightarrow> string" where
  "py_type_name PNone = ''NoneType''"
| "py_type_name (PBool b) = ''bool''"
| "py_type_name (PInt n) = ''int''"
| "py_type_name (PFloat s) = ''float''"
| "py_type_name (PStr s) = ''str''"
| "py_type_name (PMoney m) = ''MonetaryAmount''"
| "py_type_name (PList xs) = ''list''"
| "py_type_name (PDict d) = ''dict''"

text \<open>\<open>message\<close> is the text of pydantic's validation error for a malformed trust object.\<close>

definition extract_trust_entry ::
  "(jdict \<Rightarrow> string) \<Rightarrow> pyval \<Rightarrow> string \<Rightarrow> context_trust option \<times> trust_finding list" where
  "extract_trust_entry message data location =
     (case data of
        PDict d \<Rightarrow>
          (case dict_get d ''trust'' of
             PDict t \<Rightarrow>
               (case mk_context_trust t of
                  Some ct \<Rightarrow> (Some ct, [])
                | None \<Rightarrow> (None, [warn_finding ''malformed_trust''
                                  (''Malformed trust at '' @ location @ '': '' @ message t)]))
           | _ \<Rightarrow> (None, []))
      | _ \<Rightarrow> (None, []))"

definition extract_string_list :: "'e env_scheme \<Rightarrow> jdict \<Rightarrow> string \<Rightarrow> string list" where
  "extract_string_list e data key =
     (case dict_get data key of
        PStr s \<Rightarrow> [s]
      | PList xs \<Rightarrow> filter (\<lambda>s. py_strip s \<noteq> []) (map (py_str e) xs)
      | _ \<Rightarrow> [])"

definition item_refs_of :: "'e env_scheme \<Rightarrow> jdict \<Rightarrow> string list" where
  "item_refs_of e item =
     extract_string_list e item ''source_refs'' @
     (case dict_get item ''receipt_ref'' of PStr r \<Rightarrow> if py_strip r \<noteq> [] then [py_strip r] else [] | _ \<Rightarrow> [])"

definition extract_item_trust ::
  "'e env_scheme \<Rightarrow> (jdict \<Rightarrow> string) \<Rightarrow> nat \<Rightarrow> pyval \<Rightarrow> trust_acc \<Rightarrow> trust_acc" where
  "extract_item_trust e message i item acc =
     (let (tm, fs) = acc in
      case item of
        PDict d \<Rightarrow>
          (case extract_trust_entry message item (''items['' @ nat_str i @ '']'') of
             (None, new) \<Rightarrow> (tm, fs @ new)
           | (Some t, new) \<Rightarrow>
               let refs = item_refs_of e d in
               (fold (\<lambda>r m. AList.update r t m) refs tm,
                fs @ new @ (if refs = []
                  then [warn_finding ''item_trust_without_ref''
                          (''Item at index '' @ nat_str i @ '' has trust but no source_refs or receipt_ref'')]
                  else [])))
      | v \<Rightarrow> (tm, fs @ [warn_finding ''malformed_pack''
               (''Item at index '' @ nat_str i @ '' is not a dict: '' @ py_type_name v)]))"

fun indexed :: "nat \<Rightarrow> 'a list \<Rightarrow> (nat \<times> 'a) list" where
  "indexed n [] = []"
| "indexed n (x # xs) = (n, x) # indexed (n + 1) xs"

definition extract_pack_trust ::
  "'e env_scheme \<Rightarrow> (jdict \<Rightarrow> string) \<Rightarrow> nat \<Rightarrow> jdict \<Rightarrow> trust_acc \<Rightarrow> trust_acc" where
  "extract_pack_trust e message i pack acc =
     (let (tm, fs) = acc;
          summary = dict_get pack ''summary'';
          (pack_trust, new) = extract_trust_entry message summary (''pack['' @ nat_str i @ ''].summary'');
          refs = extract_string_list e pack ''source_refs'' @ extract_string_list e pack ''receipt_refs'' @
                 extract_string_list e pack ''context_pack_refs'';
          fs1 = fs @ new @ (if refs = [] \<and> pack_trust \<noteq> None
            then [warn_finding ''pack_trust_without_refs''
                    (''Pack at index '' @ nat_str i @ '' has trust metadata but no '' @
                     ''source_refs, receipt_refs, or context_pack_refs'')] else []);
          tm1 = (case pack_trust of
                   None \<Rightarrow> tm
                 | Some t \<Rightarrow> fold (\<lambda>r m. if r \<in> fst ` set m then m else AList.update r t m) refs tm) in
      case summary of
        PDict d \<Rightarrow>
          (case dict_get d ''items'' of
             PList items \<Rightarrow> fold (\<lambda>(j, item). extract_item_trust e message j item) (indexed 0 items) (tm1, fs1)
           | _ \<Rightarrow> (tm1, fs1))
      | _ \<Rightarrow> (tm1, fs1))"

definition extract_context_trust_map ::
  "'e env_scheme \<Rightarrow> (jdict \<Rightarrow> string) \<Rightarrow> jdict \<Rightarrow> trust_acc" where
  "extract_context_trust_map e message payload =
     (case dict_get payload ''packs'' of
        PList packs \<Rightarrow>
          fold (\<lambda>(i, pack) acc.
            case pack of
              PDict d \<Rightarrow> extract_pack_trust e message i d acc
            | v \<Rightarrow> (fst acc, snd acc @ [warn_finding ''malformed_pack''
                     (''Pack at index '' @ nat_str i @ '' is not a dict: '' @ py_type_name v)]))
            (indexed 0 packs) ([], [])
      | _ \<Rightarrow> ([], []))"

section \<open>The frozen context\<close>

record context_snapshot =
  cs_snapshot_id :: string
  cs_work_id :: string
  cs_profile_name :: string
  cs_context_projection_payload :: jdict
  cs_context_trust_by_ref :: trust_map
  cs_context_refs :: "string list"
  cs_source_refs :: "string list"
  cs_created_at_utc :: string
  cs_findings :: "trust_finding list"

definition pack_ref_list :: "'e env_scheme \<Rightarrow> jdict \<Rightarrow> string \<Rightarrow> string list" where
  "pack_ref_list e payload key =
     (case dict_get payload ''packs'' of
        PList packs \<Rightarrow>
          concat (map (\<lambda>p. case p of
            PDict d \<Rightarrow> (case dict_get d key of PList xs \<Rightarrow> map (py_str e) xs | _ \<Rightarrow> []) | _ \<Rightarrow> []) packs)
      | _ \<Rightarrow> [])"

definition freeze_work_context ::
  "'e env_scheme \<Rightarrow> (jdict \<Rightarrow> string) \<Rightarrow> string \<Rightarrow> string \<Rightarrow> jdict \<Rightarrow> context_snapshot" where
  "freeze_work_context e message work_id profile_name payload =
     (let (tm, fs) = extract_context_trust_map e message payload in
      \<lparr>cs_snapshot_id = new_run_id e 0 ''ctxsnap'', cs_work_id = work_id, cs_profile_name = profile_name,
       cs_context_projection_payload = payload, cs_context_trust_by_ref = tm,
       cs_context_refs = dedupe_by [] (pack_ref_list e payload ''context_pack_refs''),
       cs_source_refs = dedupe_by [] (pack_ref_list e payload ''source_refs''),
       cs_created_at_utc = clock e 0, cs_findings = fs\<rparr>)"

section \<open>Playbooks\<close>

record playbook =
  pb_version :: string
  pb_required_context_packs :: "string list"
  pb_recommended_evaluators :: "string list"

record playbook_binding =
  pk_playbook_name :: string
  pk_version :: string
  pk_required_context_packs :: "string list"
  pk_recommended_evaluators :: "string list"
  pk_findings :: "string list"
  pk_bound :: bool

definition evaluator_ids :: "string list" where
  "evaluator_ids = [''plan_draft_evaluator'', ''research_evidence_quality'']"

definition bind_playbook_to_work :: "(string \<Rightarrow> playbook option) \<Rightarrow> string \<Rightarrow> playbook_binding" where
  "bind_playbook_to_work load_playbook name =
     (case load_playbook name of
        None \<Rightarrow> \<lparr>pk_playbook_name = name, pk_version = ''unknown'', pk_required_context_packs = [],
                 pk_recommended_evaluators = [],
                 pk_findings = [''playbook '' @ [CHR 0x27] @ name @ [CHR 0x27] @ '' not found''], pk_bound = False\<rparr>
      | Some pb \<Rightarrow>
          let unknown = filter (\<lambda>i. i \<notin> set evaluator_ids) (pb_recommended_evaluators pb) in
          \<lparr>pk_playbook_name = name, pk_version = pb_version pb,
           pk_required_context_packs = pb_required_context_packs pb,
           pk_recommended_evaluators = pb_recommended_evaluators pb,
           pk_findings = map (\<lambda>i. ''recommended evaluator '' @ [CHR 0x27] @ i @ [CHR 0x27] @ '' not registered'') unknown,
           pk_bound = (unknown = [])\<rparr>)"

definition missing_context_packs :: "playbook_binding \<Rightarrow> string list \<Rightarrow> string list" where
  "missing_context_packs b names =
     sort (filter (\<lambda>n. n \<notin> set names) (remdups (pk_required_context_packs b)))"

section \<open>Results\<close>

record work_result =
  wr_work_id :: string
  wr_agent_id :: string
  wr_goal :: string
  wr_profile_name :: string
  wr_work_type :: string
  wr_outcome :: string
  wr_stop_reason :: string
  wr_created_at_utc :: string
  wr_work_result_ref :: "string option"
  wr_tool_result_refs :: "string list"
  wr_agent_run_receipt_ref :: "string option"
  wr_evaluation_report_ref :: "string option"
  wr_authority_transition_ref :: "string option"
  wr_capital_world_audit_ref :: "string option"
  wr_audit_disposition :: "string option"
  wr_review_workspace_ref :: "string option"
  wr_search_index_ref :: "string option"
  wr_data_gaps :: "string list"
  wr_findings :: "string list"
  wr_autonomy_admission_refs :: "string list"
  wr_requested_autonomy :: agent_autonomy
  wr_world_fidelity :: world_fidelity
  wr_capital_mandate_id :: "string option"
  wr_agent_authority_grant_id :: "string option"

definition work_result_dump :: "work_result \<Rightarrow> jdict" where
  "work_result_dump r =
     [(''work_id'', PStr (wr_work_id r)), (''agent_id'', PStr (wr_agent_id r)), (''goal'', PStr (wr_goal r)),
      (''profile_name'', PStr (wr_profile_name r)), (''work_type'', PStr (wr_work_type r)),
      (''outcome'', PStr (wr_outcome r)), (''stop_reason'', PStr (wr_stop_reason r)),
      (''created_at_utc'', PStr (wr_created_at_utc r)), (''work_result_ref'', popt (wr_work_result_ref r)),
      (''tool_result_refs'', PStrs (wr_tool_result_refs r)),
      (''agent_run_receipt_ref'', popt (wr_agent_run_receipt_ref r)),
      (''evaluation_report_ref'', popt (wr_evaluation_report_ref r)),
      (''authority_transition_ref'', popt (wr_authority_transition_ref r)),
      (''capital_world_audit_ref'', popt (wr_capital_world_audit_ref r)),
      (''audit_disposition'', popt (wr_audit_disposition r)),
      (''review_workspace_ref'', popt (wr_review_workspace_ref r)),
      (''search_index_ref'', popt (wr_search_index_ref r)), (''data_gaps'', PStrs (wr_data_gaps r)),
      (''findings'', PStrs (wr_findings r)), (''autonomy_admission_refs'', PStrs (wr_autonomy_admission_refs r)),
      (''requested_autonomy'', PStr (autonomy_text (wr_requested_autonomy r))),
      (''world_fidelity'', PStr (world_text (wr_world_fidelity r))),
      (''capital_mandate_id'', popt (wr_capital_mandate_id r)),
      (''agent_authority_grant_id'', popt (wr_agent_authority_grant_id r)),
      (''execution_allowed'', PBool False)]"

definition work_result_ref :: "'e io_env_scheme \<Rightarrow> string \<Rightarrow> string" where
  "work_result_ref e work_id =
     ''agent-work-results/work-result-'' @ take 20 (sha256 e (utf8 work_id)) @ ''.json''"

definition write_agent_work_result ::
  "'e io_env_scheme \<Rightarrow> work_result \<Rightarrow> string \<Rightarrow> 'w work_world \<Rightarrow> string res \<times> 'w work_world" where
  "write_agent_work_result e r root w =
     (let relative = work_result_ref e (wr_work_id r) in
      case resolve_under e root [relative] of
        Inl x \<Rightarrow> (Inl x, w)
      | Inr path \<Rightarrow>
          (case atomic_write_json e path (work_result_dump r) (ww_files w) of
             (Inl x, fs) \<Rightarrow> (Inl x, w\<lparr>ww_files := fs\<rparr>)
           | (Inr _, fs) \<Rightarrow> (Inr relative, w\<lparr>ww_files := fs\<rparr>)))"

definition reduce_semantic_stop_reason :: "string \<Rightarrow> jdict \<Rightarrow> string" where
  "reduce_semantic_stop_reason current flow =
     (if dict_get flow ''audit_disposition'' = PStr ''stopped'' then ''semantic_stop''
      else if dict_get flow ''audit_disposition'' = PStr ''partial'' then ''semantic_partial''
      else current)"

definition derive_work_outcome :: "string \<Rightarrow> bool \<Rightarrow> bool \<Rightarrow> string" where
  "derive_work_outcome stop_reason has_envelopes has_data_gaps =
     (if stop_reason \<in> {''evaluation_blocked'', ''human_review_required'', ''semantic_stop'', ''internal_error''}
      then ''stopped''
      else if stop_reason = ''tool_unavailable'' then ''failed''
      else if has_data_gaps \<or> stop_reason \<in> {''max_steps_reached'', ''max_tool_calls_reached'',
                ''semantic_partial'', ''no_progress_detected''}
      then (if has_envelopes then ''partial'' else ''failed'')
      else ''succeeded'')"

section \<open>A unit of work\<close>

record workspace_input =
  wi_flow :: jdict
  wi_tool_result_refs :: "string list"
  wi_admission_refs :: "string list"
  wi_agent_run_receipt_ref :: "string option"
  wi_data_gaps :: "string list"

record 'w work_services =
  sv_load_playbook :: "string \<Rightarrow> playbook option"
  sv_cognition_flow ::
    "context_snapshot \<Rightarrow> jdict list \<Rightarrow> 'w work_world \<Rightarrow> jdict res \<times> 'w work_world"
  sv_review_workspace :: "workspace_input \<Rightarrow> 'w work_world \<Rightarrow> string res \<times> 'w work_world"
  sv_update_index :: "string list \<Rightarrow> 'w work_world \<Rightarrow> unit res \<times> 'w work_world"
  sv_trust_message :: "jdict \<Rightarrow> string"

text \<open>The effects outside the loop have environments of their own: \<open>es 0\<close>, \<open>es 1\<close>, and so on.\<close>

type_synonym work_envs = "nat \<Rightarrow> io_env"

definition wbind ::
  "'a res \<times> 's \<Rightarrow> ('a \<Rightarrow> 's \<Rightarrow> 'b res \<times> 's) \<Rightarrow> 'b res \<times> 's" where
  "wbind m f = (case m of (Inl x, s) \<Rightarrow> (Inl x, s) | (Inr v, s) \<Rightarrow> f v s)"

lemma wbind_simps [simp]: "wbind (Inl x, s) f = (Inl x, s)" "wbind (Inr v, s) f = f v s"
  by (simp_all add: wbind_def)

lemma wbind_InrE:
  assumes "wbind m f = (Inr r, s')"
  obtains v s1 where "m = (Inr v, s1)" and "f v s1 = (Inr r, s')"
  using assms by (auto simp: wbind_def split: prod.splits sum.splits)

definition base_result :: "io_env \<Rightarrow> work_request \<Rightarrow> world_fidelity \<Rightarrow> work_result" where
  "base_result e q world_fidelity =
     \<lparr>wr_work_id = wq_work_id q, wr_agent_id = wq_agent_id q, wr_goal = wq_goal q,
      wr_profile_name = wq_profile_name q, wr_work_type = wq_work_type q, wr_outcome = ''stopped'',
      wr_stop_reason = [], wr_created_at_utc = clock e 0,
      wr_work_result_ref = Some (work_result_ref e (wq_work_id q)),
      wr_tool_result_refs = [], wr_agent_run_receipt_ref = None, wr_evaluation_report_ref = None,
      wr_authority_transition_ref = None, wr_capital_world_audit_ref = None, wr_audit_disposition = None,
      wr_review_workspace_ref = None,
      wr_search_index_ref = Some (path_join (wq_receipt_root q) ''receipt-index.jsonl''),
      wr_data_gaps = [], wr_findings = [], wr_autonomy_admission_refs = [],
      wr_requested_autonomy = wq_requested_autonomy q, wr_world_fidelity = world_fidelity,
      wr_capital_mandate_id = wq_capital_mandate_id q,
      wr_agent_authority_grant_id = wq_agent_authority_grant_id q\<rparr>"

definition write_work_run_receipt ::
  "io_env \<Rightarrow> work_request \<Rightarrow> string \<Rightarrow> string \<Rightarrow> run_lists \<Rightarrow> 'w work_world \<Rightarrow> string res \<times> 'w work_world" where
  "write_work_run_receipt e q outcome stop_reason rl w =
     (case write_agent_run_receipt e (wq_goal q) (wq_profile_name q) [] outcome stop_reason (wq_receipt_root q)
             rl (ww_files w) of
        (Inl x, fs) \<Rightarrow> (Inl x, w\<lparr>ww_files := fs\<rparr>)
      | (Inr r, fs) \<Rightarrow> (Inr (''agent-runs/'' @ ru_receipt_id r @ ''.json''), w\<lparr>ww_files := fs\<rparr>))"

definition persist_preflight_stop ::
  "work_envs \<Rightarrow> 'w work_services \<Rightarrow> work_request \<Rightarrow> world_fidelity \<Rightarrow> string \<Rightarrow> string list \<Rightarrow> string list \<Rightarrow>
   'w work_world \<Rightarrow> work_result res \<times> 'w work_world" where
  "persist_preflight_stop es sv q world_fidelity stop_reason data_gaps findings w =
     wbind (write_work_run_receipt (es 0) q (if stop_reason = ''internal_error'' then ''failed'' else ''blocked'')
              stop_reason
              \<lparr>rl_context_refs = [], rl_artifact_refs = [], rl_evidence_refs = [], rl_data_gaps = data_gaps\<rparr> w)
       (\<lambda>run_ref w.
     wbind (sv_review_workspace sv
              \<lparr>wi_flow = [], wi_tool_result_refs = [], wi_admission_refs = [],
               wi_agent_run_receipt_ref = Some run_ref, wi_data_gaps = data_gaps\<rparr> w) (\<lambda>workspace_ref w.
     let result = (base_result (es 1) q world_fidelity)
           \<lparr>wr_outcome := ''stopped'', wr_stop_reason := stop_reason, wr_agent_run_receipt_ref := Some run_ref,
            wr_review_workspace_ref := Some workspace_ref, wr_data_gaps := data_gaps, wr_findings := findings\<rparr> in
     wbind (write_agent_work_result (es 1) result (wq_receipt_root q) w) (\<lambda>ref w.
     wbind (sv_update_index sv [run_ref, workspace_ref, ref] w) (\<lambda>_ w. (Inr result, w)))))"

text \<open>
  The mandate the loop runs under: one that was passed in, or the one resolved from the stored
  grant; \<open>Inl\<close> stops the work before it starts.
\<close>

definition resolve_work_mandate ::
  "work_request \<Rightarrow> autonomy_mandate option \<Rightarrow> (auth_env \<times> auth_db) option \<Rightarrow>
   ((string \<times> string list \<times> string list) + (autonomy_mandate option \<times> string list)) res" where
  "resolve_work_mandate q mandate authority =
     (case (mandate, truthy (wq_agent_authority_grant_id q)) of
        (None, Some grant_id) \<Rightarrow>
          (case authority of
             None \<Rightarrow> Inr (Inl (''missing_required_context'',
                       [''authority_engine is required to resolve agent_authority_grant_id''], []))
           | Some (ae, db) \<Rightarrow>
               rbind (resolve_runtime_autonomy_mandate ae grant_id None db) (\<lambda>resolution.
                 case (rr_resolved resolution, rr_mandate resolution) of
                   (True, Some m) \<Rightarrow> Inr (Inr (Some m, rr_warnings resolution))
                 | _ \<Rightarrow> Inr (Inl (''evaluation_blocked'',
                          map (\<lambda>r. ''authority_resolution_denied: '' @ r) (rr_deny_reasons resolution),
                          rr_warnings resolution))))
      | _ \<Rightarrow> Inr (Inr (mandate, [])))"

definition playbook_gaps :: "'w work_services \<Rightarrow> work_request \<Rightarrow> string list option" where
  "playbook_gaps sv q =
     (case truthy (wq_playbook_name q) of
        None \<Rightarrow> None
      | Some name \<Rightarrow>
          let binding = bind_playbook_to_work (sv_load_playbook sv) name;
              missing = missing_context_packs binding (wq_context_pack_names q) in
          if \<not> pk_bound binding \<or> missing \<noteq> []
          then Some (pk_findings binding @ map (\<lambda>n. ''missing_required_context_pack: '' @ n) missing)
          else None)"

definition dict_text :: "jdict \<Rightarrow> string \<Rightarrow> string option" where
  "dict_text d k = (case dict_get d k of PStr s \<Rightarrow> Some s | _ \<Rightarrow> None)"

definition string_refs :: "jdict list \<Rightarrow> string \<Rightarrow> string list" where
  "string_refs envelopes key = List.map_filter (\<lambda>d. dict_text d key) envelopes"

definition trust_finding_json :: "io_env \<Rightarrow> trust_finding \<Rightarrow> string" where
  "trust_finding_json e f =
     json_dumps e [(''severity'', PStr (tf_severity f)), (''code'', PStr (tf_code f)), (''message'', PStr (tf_message f))]"

definition finish_work ::
  "work_envs \<Rightarrow> 'w work_services \<Rightarrow> work_request \<Rightarrow> world_fidelity \<Rightarrow> string list \<Rightarrow> context_snapshot \<Rightarrow>
   jdict list \<Rightarrow> string \<Rightarrow> string list \<Rightarrow> jdict \<Rightarrow> 'w work_world \<Rightarrow> work_result res \<times> 'w work_world" where
  "finish_work es sv q world_fidelity authority_findings snap envelopes stop_reason data_gaps flow w =
     (let outcome = derive_work_outcome stop_reason (envelopes \<noteq> []) (data_gaps \<noteq> []);
          tool_result_refs = string_refs envelopes ''artifact_ref'';
          admission_refs = dedupe_by [] (string_refs envelopes ''autonomy_admission_ref'') in
      wbind (case string_refs envelopes ''agent_run_receipt_ref'' of
               ref # _ \<Rightarrow> (Inr ref, w)
             | [] \<Rightarrow>
                 write_work_run_receipt (es 3) q
                   (if stop_reason \<in> {''internal_error'', ''tool_unavailable''} then ''failed'' else ''blocked'')
                   stop_reason
                   \<lparr>rl_context_refs = [], rl_artifact_refs = tool_result_refs, rl_evidence_refs = admission_refs,
                    rl_data_gaps = data_gaps\<rparr> w) (\<lambda>run_ref w.
      wbind (sv_review_workspace sv
               \<lparr>wi_flow = flow, wi_tool_result_refs = tool_result_refs, wi_admission_refs = admission_refs,
                wi_agent_run_receipt_ref = Some run_ref, wi_data_gaps = data_gaps\<rparr> w) (\<lambda>workspace_ref w.
      let result = (base_result (es 4) q world_fidelity)
            \<lparr>wr_outcome := outcome, wr_stop_reason := stop_reason, wr_tool_result_refs := tool_result_refs,
             wr_agent_run_receipt_ref := Some run_ref,
             wr_evaluation_report_ref := dict_text flow ''evaluation_report_ref'',
             wr_authority_transition_ref := dict_text flow ''authority_transition_ref'',
             wr_capital_world_audit_ref := dict_text flow ''capital_world_audit_ref'',
             wr_audit_disposition := dict_text flow ''audit_disposition'',
             wr_review_workspace_ref := Some workspace_ref, wr_data_gaps := data_gaps,
             wr_findings := authority_findings @ map (trust_finding_json (es 4)) (cs_findings snap),
             wr_autonomy_admission_refs := admission_refs\<rparr> in
      wbind (write_agent_work_result (es 4) result (wq_receipt_root q) w) (\<lambda>ref w.
      wbind (sv_update_index sv
               (dedupe_by [] (tool_result_refs @ admission_refs @
                  List.map_filter (dict_text flow)
                    [''option_set_ref'', ''plan_draft_ref'', ''evaluation_report_ref'', ''authority_transition_ref'',
                     ''agent_run_receipt_ref'', ''capital_world_audit_ref''] @
                  [run_ref, workspace_ref, ref])) w) (\<lambda>_ w. (Inr result, w))))))"

definition stops_before_cognition :: "string \<Rightarrow> bool" where
  "stops_before_cognition stop_reason \<longleftrightarrow>
     stop_reason \<in> {''tool_unavailable'', ''missing_required_context'', ''evaluation_blocked'',
       ''human_review_required'', ''internal_error''}"

text \<open>
  The context \<open>c\<close> holds the request, the tools, the port, the ceilings and a mandate passed in by the
  caller; the loop runs with the resolved mandate and the fresh snapshot.
\<close>

definition run_agent_work_loop ::
  "work_envs \<Rightarrow> 'w work_services \<Rightarrow> ('w, 'p) work_ctx \<Rightarrow> (auth_env \<times> auth_db) option \<Rightarrow> jdict \<Rightarrow> 'p \<Rightarrow>
   'w work_world \<Rightarrow> work_result res \<times> 'w work_world" where
  "run_agent_work_loop es sv c authority payload p w =
     (let q = wc_request c; stop = persist_preflight_stop es sv q (wc_world_fidelity c) in
      case resolve_work_mandate q (wc_mandate c) authority of
        Inl x \<Rightarrow> (Inl x, w)
      | Inr (Inl (stop_reason, gaps, findings)) \<Rightarrow> stop stop_reason gaps findings w
      | Inr (Inr (mandate, findings)) \<Rightarrow>
          (case playbook_gaps sv q of
             Some gaps \<Rightarrow> stop ''missing_required_context'' gaps findings w
           | None \<Rightarrow>
               let snap = freeze_work_context (es 2) (sv_trust_message sv) (wq_work_id q) (wq_profile_name q) payload;
                   c' = c\<lparr>wc_mandate := mandate, wc_snapshot_id := cs_snapshot_id snap\<rparr> in
               wbind (run_bounded_tool_dispatch_loop c' (cs_context_refs snap) None p w)
                 (\<lambda>(envelopes, stop_reason, data_gaps) w.
               wbind (if stops_before_cognition stop_reason then (Inr [], w)
                      else sv_cognition_flow sv snap envelopes w) (\<lambda>flow w.
               finish_work es sv q (wc_world_fidelity c) findings snap envelopes
                 (if stops_before_cognition stop_reason then stop_reason
                  else reduce_semantic_stop_reason stop_reason flow) data_gaps flow w))))"

end
