(* ===== verification/Agent_Work_Laws.thy ===== *)
theory Agent_Work_Laws
  imports Agent_Work
begin

text \<open>
  Laws of the work loop: the trace of dispatched requests, the shape of the final state, a rule for
  invariants of the world that only admitted handlers can touch, and the reasons a loop stops with.
\<close>

section \<open>Traces\<close>

definition step_request :: "('w, 'p) work_ctx \<Rightarrow> ('w, 'p) loop_state \<Rightarrow> tool_request option" where
  "step_request c s = (case fst (consult_port c s) of Inr d \<Rightarrow> dn_tool_request d | Inl _ \<Rightarrow> None)"

inductive loop_trace ::
  "('w, 'p) work_ctx \<Rightarrow> ('w, 'p) loop_state \<Rightarrow> tool_request list \<Rightarrow> ('w, 'p) loop_state \<Rightarrow> bool" for c where
  trace_Nil: "loop_trace c s [] s"
| trace_Cons: "work_step c s = Continue s1 \<Longrightarrow> step_request c s = Some q \<Longrightarrow> loop_trace c s1 qs s2 \<Longrightarrow>
    loop_trace c s (q # qs) s2"

inductive_cases loop_trace_ConsE: "loop_trace c s (q # qs) s'"

lemma work_step_request:
  assumes "work_step c s = Continue s'"
  obtains q where "step_request c s = Some q"
    and "ls_fingerprints s (request_fingerprint (wc_env c 0 0) q) < 2"
    and "ls_fingerprints s' =
      (ls_fingerprints s)(request_fingerprint (wc_env c 0 0) q :=
         ls_fingerprints s (request_fingerprint (wc_env c 0 0) q) + 1)"
  using assms
proof (elim work_step_ContinueE)
  fix d s1 q
  assume port: "consult_port c s = (Inr d, s1)" and q: "dn_tool_request d = Some q"
    and small: "ls_fingerprints s (request_fingerprint (wc_env c 0 0) q) < 2"
    and step: "admitted_step c q (s1\<lparr>ls_fingerprints := (ls_fingerprints s1)
      (request_fingerprint (wc_env c 0 0) q := ls_fingerprints s1 (request_fingerprint (wc_env c 0 0) q) + 1),
      ls_step_count := ls_step_count s1 + 1\<rparr>) = Continue s'"
  show thesis
    using consult_port_counts [OF port] admitted_step_counts [OF step] port q small
    by (intro that [of q]) (simp_all add: step_request_def)
qed

text \<open>The loop runs through a trace and ends with the outcome of its last iteration.\<close>

lemma run_loop_trace:
  "\<exists>qs s1. loop_trace c s qs s1 \<and> (\<forall>s2. work_step c s1 \<noteq> Continue s2) \<and> run_loop c s = run_loop c s1"
proof (induction c s rule: run_loop.induct)
  case (1 c s)
  show ?case
  proof (cases "work_step c s")
    case (Continue s')
    from 1 [OF Continue] obtain qs s1 where ih: "loop_trace c s' qs s1" "\<forall>s2. work_step c s1 \<noteq> Continue s2"
        "run_loop c s' = run_loop c s1" by blast
    from Continue obtain q where "step_request c s = Some q" by (rule work_step_request)
    with Continue ih have "loop_trace c s (q # qs) s1" by (auto intro: trace_Cons)
    moreover have "run_loop c s = run_loop c s1" using Continue ih(3) by (simp add: run_loop.simps [of c s])
    ultimately show ?thesis using ih(2) by blast
  qed (use trace_Nil in fastforce)+
qed

lemma loop_trace_counts:
  assumes "loop_trace c s qs s'"
  shows "ls_step_count s' = ls_step_count s + length qs \<and> ls_tool_count s' = ls_tool_count s + length qs"
  using assms by induction (auto dest: work_step_Continue(3,4))

lemma loop_trace_budget:
  assumes "loop_trace c s qs s'" and "qs \<noteq> []"
  shows "int (ls_step_count s') \<le> wq_max_steps (wc_request c) \<and>
    int (ls_tool_count s') \<le> wq_max_tool_calls (wc_request c)"
  using assms
proof (induction)
  case (trace_Cons s s1 q qs s2)
  show ?case
  proof (cases "qs = []")
    case True
    with trace_Cons.hyps(3) have "s2 = s1" by (auto elim: loop_trace.cases)
    with work_step_Continue [OF trace_Cons.hyps(1)] show ?thesis by simp
  qed (rule trace_Cons.IH)
qed simp

lemma loop_trace_fingerprints:
  assumes "loop_trace c s qs s'"
  shows "ls_fingerprints s' f =
    ls_fingerprints s f + count_list (map (request_fingerprint (wc_env c 0 0)) qs) f"
  using assms by induction (auto elim!: work_step_request)

lemma loop_trace_fingerprints_le:
  assumes "loop_trace c s qs s'" and "\<And>f. ls_fingerprints s f \<le> 2"
  shows "ls_fingerprints s' f \<le> 2"
  using assms
proof (induction arbitrary: f)
  case (trace_Cons s s1 q qs s2)
  from trace_Cons.hyps(1) show ?case
  proof (rule work_step_request)
    fix r
    assume lt: "ls_fingerprints s (request_fingerprint (wc_env c 0 0) r) < 2"
      and upd: "ls_fingerprints s1 = (ls_fingerprints s)(request_fingerprint (wc_env c 0 0) r :=
         ls_fingerprints s (request_fingerprint (wc_env c 0 0) r) + 1)"
    have "ls_fingerprints s1 g \<le> 2" for g using lt upd trace_Cons.prems [of g] by auto
    then show ?thesis by (rule trace_Cons.IH)
  qed
qed

section \<open>Invariants of the world\<close>

text \<open>
  The loop changes the world in three ways: it writes receipt files, it writes admission reports, and
  it calls the handler of a tool that was admitted as effective and passed every guard of dispatch.
\<close>

definition handler_call_allowed ::
  "('w, 'p) work_ctx \<Rightarrow> 'w work_world \<Rightarrow> 'w work_world tool_entry \<Rightarrow> jdict \<Rightarrow> bool" where
  "handler_call_allowed c w t ra \<longleftrightarrow>
     (\<exists>e e' q report. admit_request c e q = Inr report \<and> rp_disposition report = EFFECTIVE \<and>
        dispatch_ready (e' :: io_env) (wc_entries c) (wq_profile_name (wc_request c)) (tq_tool_name q)
          (tq_arguments q) w t ra)"

primrec step_state :: "'s step_result \<Rightarrow> 's" where
  "step_state (Continue s) = s"
| "step_state (Stop x s) = s"
| "step_state (Raise x s) = s"

lemma run_loop_terminal:
  "\<forall>s2. work_step c s \<noteq> Continue s2 \<Longrightarrow> snd (run_loop c s) = step_state (work_step c s)"
  by (cases "work_step c s") (simp_all add: run_loop.simps [of c s])

lemma run_loop_rule:
  assumes step: "\<And>s. P s \<Longrightarrow> P (step_state (work_step c s))" and "P s"
  shows "P (snd (run_loop c s))"
proof -
  obtain qs s1 where tr: "loop_trace c s qs s1" and end1: "\<forall>s2. work_step c s1 \<noteq> Continue s2"
      and eq: "run_loop c s = run_loop c s1" using run_loop_trace by blast
  from tr assms(2) have "P s1" by induction (metis step step_state.simps(1))+
  with step have "P (step_state (work_step c s1))" by blast
  then show ?thesis using run_loop_terminal [OF end1] eq by simp
qed

lemma start_loop_world: "start_loop c refs ob p w = Inr s \<Longrightarrow> ls_world s = w"
  by (auto simp: start_loop_def Let_def rbind_Inr_iff)

locale work_invariant =
  fixes c :: "('w, 'p) work_ctx" and I :: "'w work_world \<Rightarrow> bool"
  assumes files_kept: "I w \<Longrightarrow> I (w\<lparr>ww_files := fs\<rparr>)"
    and admissions_kept: "I w \<Longrightarrow> I (w\<lparr>ww_admissions := adm\<rparr>)"
    and handler_kept: "I w \<Longrightarrow> handler_call_allowed c w t ra \<Longrightarrow> I (snd (te_dispatch_handler t ra w))"
begin

lemma write_artifact_kept: "write_artifact c e a d w = (r, w') \<Longrightarrow> I w \<Longrightarrow> I w'"
  by (auto simp: write_artifact_def files_kept split: sum.splits prod.splits)

lemma dispatch_kept:
  assumes "I w" and "admit_request c e q = Inr report" and "rp_disposition report = EFFECTIVE"
  shows "I (snd (dispatch_agent_tool (e' :: io_env) (wc_entries c) (wq_profile_name (wc_request c))
    (tq_tool_name q) (tq_arguments q) w))"
proof (cases "\<exists>t ra. dispatch_ready e' (wc_entries c) (wq_profile_name (wc_request c)) (tq_tool_name q)
    (tq_arguments q) w t ra")
  case True
  then obtain t ra where ready: "dispatch_ready e' (wc_entries c) (wq_profile_name (wc_request c))
      (tq_tool_name q) (tq_arguments q) w t ra" by blast
  with assms have "handler_call_allowed c w t ra" unfolding handler_call_allowed_def by blast
  from handler_kept [OF assms(1) this] show ?thesis
    by (auto simp: dispatch_ready_call [OF ready] split: prod.splits sum.splits)
next
  case False
  with dispatch_not_ready [of e' "wc_entries c"] assms(1) show ?thesis by fastforce
qed

lemma record_step_kept: "I (ls_world s) \<Longrightarrow> I (ls_world (step_state (record_step c q report ref r s)))"
  unfolding record_step_def Let_def
  by (auto dest: write_artifact_kept split: prod.splits sum.splits if_splits)

lemma deny_step_kept: "I (ls_world s) \<Longrightarrow> I (ls_world (step_state (deny_step c q report ref s)))"
  unfolding deny_step_def Let_def
  by (auto dest: write_artifact_kept split: prod.splits sum.splits if_splits)

lemma sink_dispatch_kept:
  assumes "sink_dispatch c q s = (r, s')" and "I (ls_world s)"
    and "admit_request c e q = Inr report" and "rp_disposition report = EFFECTIVE"
  shows "I (ls_world s')"
  using assms(1) dispatch_kept [OF assms(2-4), of "wc_env c (ls_step_count s) 1"]
  unfolding sink_dispatch_def by (auto split: prod.splits sum.splits)

lemma admitted_step_kept:
  assumes "I (ls_world s)"
  shows "I (ls_world (step_state (admitted_step c q s)))"
proof (cases "admit_request c (wc_env c (ls_step_count s) 0) q")
  case (Inl x)
  with assms show ?thesis by (simp add: admitted_step_def)
next
  case (Inr report)
  note adm = this
  obtain r files where wr: "write_autonomy_admission_report (wc_env c (ls_step_count s) 0)
      (\<lambda>t. sha256 (wc_env c (ls_step_count s) 0) (utf8 t)) report (ww_admissions (ls_world s)) = (r, files)"
    by (rule prod.exhaust)
  let ?s = "s\<lparr>ls_world := (ls_world s)\<lparr>ww_admissions := files\<rparr>\<rparr>"
  have I1: "I (ls_world ?s)" using admissions_kept [OF assms] by simp
  show ?thesis
  proof (cases r)
    case (Inl x)
    with adm wr I1 show ?thesis by (simp add: admitted_step_def)
  next
    case (Inr ref)
    show ?thesis
    proof (cases "rp_disposition report = EFFECTIVE")
      case False
      with adm wr Inr deny_step_kept [OF I1] show ?thesis by (simp add: admitted_step_def)
    next
      case True
      obtain v s2 where sd: "sink_dispatch c q ?s = (v, s2)" by (rule prod.exhaust)
      have "I (ls_world s2)" using sink_dispatch_kept [OF sd I1 adm True] .
      with adm wr Inr True sd record_step_kept show ?thesis
        by (cases v) (simp_all add: admitted_step_def)
    qed
  qed
qed

lemma work_step_kept: "I (ls_world s) \<Longrightarrow> I (ls_world (step_state (work_step c s)))"
  unfolding work_step_def requested_step_def Let_def
  by (auto dest!: consult_port_counts simp: admitted_step_kept split: option.splits prod.splits sum.splits)

lemma run_loop_kept: "run_loop c s = (r, s') \<Longrightarrow> I (ls_world s) \<Longrightarrow> I (ls_world s')"
  using run_loop_rule [of "\<lambda>s. I (ls_world s)" c s] work_step_kept by simp

lemma rewrite_envelopes_kept: "rewrite_envelopes c run_ref i ds w = (r, w') \<Longrightarrow> I w \<Longrightarrow> I w'"
proof (induction ds arbitrary: i w r w')
  case (Cons d ds)
  let ?u = "dict_set d ''agent_run_receipt_ref'' (PStr run_ref)"
  obtain v w1 where wa: "(case dict_get ?u ''artifact_ref'' of
      PStr a \<Rightarrow> write_artifact c (wc_env c 0 i) a ?u w | _ \<Rightarrow> (Inr (), w)) = (v, w1)" by (rule prod.exhaust)
  then have "I w1" using Cons.prems(2) by (auto dest: write_artifact_kept split: pyval.splits)
  with Cons.prems(1) wa Cons.IH show ?case
    by (auto simp del: dict_get_set split: sum.splits prod.splits)
qed simp

lemma close_loop_kept: "close_loop c s = (r, w') \<Longrightarrow> I (ls_world s) \<Longrightarrow> I w'"
  unfolding close_loop_def Let_def
  by (auto dest!: rewrite_envelopes_kept simp: files_kept split: if_splits prod.splits sum.splits)

lemma dispatch_loop_kept:
  "run_bounded_tool_dispatch_loop c refs ob p w = (r, w') \<Longrightarrow> I w \<Longrightarrow> I w'"
  unfolding run_bounded_tool_dispatch_loop_def
  by (auto dest!: start_loop_world run_loop_kept close_loop_kept split: sum.splits prod.splits)

end

end
