(* ===== verification/Agent_Work_Properties.thy ===== *)
theory Agent_Work_Properties
  imports Agent_Work_Laws Autonomy_Properties
begin

text \<open>
  The properties of agent work: the loop ends within its budgets, a request is not repeated without
  end, only permitted tools are called, what dispatch guards, and what a succeeded outcome means.
\<close>

section \<open>The loop ends\<close>

lemma start_loop_counts:
  "start_loop c refs ob p w = Inr s \<Longrightarrow>
   ls_step_count s = 0 \<and> ls_tool_count s = 0 \<and> ls_fingerprints s = (\<lambda>_. 0) \<and> ls_envelopes s = [] \<and>
   ls_data_gaps s = [] \<and> sk_results (ls_sink s) = [] \<and> \<not> sk_finalized (ls_sink s)"
  by (auto simp: start_loop_def Let_def rbind_Inr_iff mk_trace_sink_def split: if_splits)

text \<open>
  Claim C36. The dispatch loop ends whatever the decision port answers and whatever the tools do: from
  a started loop there is a finite run of iterations, at most as many as the step budget and the
  tool-call budget allow, after which an iteration stops or raises, and that outcome is what the
  loop returns.
\<close>

theorem work_loop_ends:
  assumes "mk_work_request (wc_request c) = Inr q" and "start_loop c refs ob p w = Inr s"
  shows "\<exists>qs s1. loop_trace c s qs s1 \<and>
    int (length qs) \<le> wq_max_steps (wc_request c) \<and> int (length qs) \<le> wq_max_tool_calls (wc_request c) \<and>
    ((\<exists>reason s2. work_step c s1 = Stop reason s2 \<and> run_loop c s = (Inr reason, s2)) \<or>
     (\<exists>x s2. work_step c s1 = Raise x s2 \<and> run_loop c s = (Inl x, s2)))"
proof -
  obtain qs s1 where tr: "loop_trace c s qs s1" and last: "\<forall>s2. work_step c s1 \<noteq> Continue s2"
      and eq: "run_loop c s = run_loop c s1" using run_loop_trace by blast
  have zero: "ls_step_count s = 0" "ls_tool_count s = 0" using start_loop_counts [OF assms(2)] by simp_all
  have "0 \<le> wq_max_steps (wc_request c)" "0 \<le> wq_max_tool_calls (wc_request c)"
    using assms(1) by (auto simp: mk_work_request_def split: if_splits)
  then have "int (length qs) \<le> wq_max_steps (wc_request c) \<and> int (length qs) \<le> wq_max_tool_calls (wc_request c)"
    using loop_trace_budget [OF tr] loop_trace_counts [OF tr] zero by (cases "qs = []") simp_all
  moreover have "(\<exists>reason s2. work_step c s1 = Stop reason s2 \<and> run_loop c s = (Inr reason, s2)) \<or>
     (\<exists>x s2. work_step c s1 = Raise x s2 \<and> run_loop c s = (Inl x, s2))"
    using last by (cases "work_step c s1") (simp_all add: eq run_loop.simps [of c s1])
  ultimately show ?thesis using tr by blast
qed

text \<open>
  Claim C37. No request is dispatched a third time: along any run of a started loop, requests with the
  same tool and arguments up to the order of keys occur at most twice, so a decision port that keeps
  answering with the same request is stopped on its third answer.
\<close>

theorem request_repeated_at_most_once:
  assumes "start_loop c refs ob p w = Inr s" and "loop_trace c s qs s'"
  shows "count_list (map (request_fingerprint (wc_env c 0 0)) qs) (request_fingerprint (wc_env c 0 0) q) \<le> 2 \<and>
    (ls_fingerprints s' (request_fingerprint (wc_env c 0 0) q) = 2 \<longrightarrow>
       requested_step c q s' = Stop ''no_progress_detected'' (s'\<lparr>ls_data_gaps := ls_data_gaps s' @
         [''no_progress_detected: repeated '' @ tq_tool_name q @ '' with identical arguments'']\<rparr>))"
proof -
  let ?f = "request_fingerprint (wc_env c 0 0) q"
  have zero: "ls_fingerprints s g = 0" for g using start_loop_counts [OF assms(1)] by simp
  have "ls_fingerprints s' ?f \<le> 2" using loop_trace_fingerprints_le [OF assms(2)] zero by simp
  then have "count_list (map (request_fingerprint (wc_env c 0 0)) qs) ?f \<le> 2"
    using loop_trace_fingerprints [OF assms(2), of ?f] zero by simp
  then show ?thesis by (simp add: requested_step_def)
qed

section \<open>Only permitted tools are called\<close>

text \<open>
  The worlds that can come about by calling handlers of certain tools, in any order and with any
  arguments, and by writing receipt and admission files.
\<close>

inductive tool_reach ::
  "('w work_world tool_entry \<Rightarrow> bool) \<Rightarrow> 'w work_world \<Rightarrow> 'w work_world \<Rightarrow> bool" for P w0 where
  reach_start: "tool_reach P w0 w0"
| reach_files: "tool_reach P w0 w \<Longrightarrow> tool_reach P w0 (w\<lparr>ww_files := fs\<rparr>)"
| reach_admissions: "tool_reach P w0 w \<Longrightarrow> tool_reach P w0 (w\<lparr>ww_admissions := adm\<rparr>)"
| reach_call: "tool_reach P w0 w \<Longrightarrow> P t \<Longrightarrow> tool_reach P w0 (snd (te_dispatch_handler t ra w))"

definition tool_action_class :: "'w tool_entry \<Rightarrow> agent_action_class" where
  "tool_action_class t =
     (if te_side_effect t = ''append_only_review_write'' then PREPARE_REVIEW_PACKET else GATHER_EVIDENCE)"

definition permitted_tool :: "('w, 'p) work_ctx \<Rightarrow> 'w work_world tool_entry \<Rightarrow> bool" where
  "permitted_tool c t \<longleftrightarrow>
     (let q = wc_request c; cls = tool_action_class t in
      t \<in> set (wc_entries c) \<and>
      (\<exists>names. tool_names_for_profile (wq_profile_name q) = Inr names \<and> te_name t \<in> set names) \<and>
      snd (action_requirements cls) \<le> wq_requested_autonomy q \<and>
      wq_requested_autonomy q \<le> wc_autonomy_ceiling c \<and>
      fst (action_requirements cls) \<le> wc_world_fidelity c \<and>
      (case wc_mandate c of
         None \<Rightarrow> cls = GATHER_EVIDENCE
       | Some m \<Rightarrow> am_status m = ''active'' \<and> \<not> am_kill_switch_engaged m \<and> am_agent_id m = wq_agent_id q \<and>
           wq_requested_autonomy q \<le> am_granted_autonomy m \<and> cls \<in> set (am_allowed_action_classes m) \<and>
           (am_allowed_tools m = [] \<or> te_name t \<in> set (am_allowed_tools m))))"

lemma mk_agent_action_request_Inr: "mk_agent_action_request r = Inr r' \<Longrightarrow> r' = r"
  by (simp add: mk_agent_action_request_def split: if_splits)

lemma profile_names_nonblank: "tool_names_for_profile p = Inr names \<Longrightarrow> [] \<notin> set names"
proof -
  assume "tool_names_for_profile p = Inr names"
  then obtain f where "tbl_get pf_name AGENT_PROFILES p = Some f" and names: "names = pf_tool_names f"
    by (auto simp: tool_names_for_profile_def get_agent_profile_def rbind_Inr_iff split: option.splits)
  then have "f \<in> set AGENT_PROFILES" by (auto dest: tbl_get_SomeD)
  moreover have "list_all (\<lambda>f. [] \<notin> set (pf_tool_names f)) AGENT_PROFILES" by code_simp
  ultimately show ?thesis by (simp add: names list_all_iff)
qed

lemma allowed_call_permitted:
  assumes "handler_call_allowed c w t ra"
  shows "permitted_tool c t"
proof -
  from assms obtain e e' q report names where adm: "admit_request c e q = Inr report"
      and eff: "rp_disposition report = EFFECTIVE"
      and fnd: "find_entry (wc_entries c) (tq_tool_name q) = Some t"
      and names: "tool_names_for_profile (wq_profile_name (wc_request c)) = Inr names" "tq_tool_name q \<in> set names"
    unfolding handler_call_allowed_def dispatch_ready_def by blast
  have t: "t \<in> set (wc_entries c)" "te_name t = tq_tool_name q"
    using tbl_get_SomeD [of te_name "wc_entries c" "tq_tool_name q" t] fnd by (simp_all add: find_entry_def)
  have nonblank: "tq_tool_name q \<noteq> []" using profile_names_nonblank [OF names(1)] names(2) by auto
  from adm obtain req where req: "action_request_of c e q = Inr req"
      and ev: "evaluate_autonomy_admission e req
         \<lparr>rt_world_fidelity = wc_world_fidelity c, rt_autonomy_ceiling = wc_autonomy_ceiling c,
          rt_world_state_ref = Some (wc_snapshot_id c), rt_now_utc = clock e 0\<rparr> (wc_mandate c) = Inr report"
    by (auto simp: admit_request_def rbind_Inr_iff)
  have fields: "rq_action_class req = tool_action_class t" "rq_agent_id req = wq_agent_id (wc_request c)"
      "rq_requested_autonomy req = wq_requested_autonomy (wc_request c)" "rq_tool_name req = Some (tq_tool_name q)"
    using req unfolding action_request_of_def Let_def
    by (auto dest!: mk_agent_action_request_Inr simp: fnd tool_action_class_def)
  from ev eff have gate: "gate_disposition e req
      \<lparr>rt_world_fidelity = wc_world_fidelity c, rt_autonomy_ceiling = wc_autonomy_ceiling c,
       rt_world_state_ref = Some (wc_snapshot_id c), rt_now_utc = clock e 0\<rparr> (wc_mandate c) EFFECTIVE"
    unfolding gate_disposition_def by blast
  have tool: "truthy (rq_tool_name req) = Some (te_name t)" using fields(4) t(2) nonblank by (simp add: truthy_def)
  have cls: "tool_action_class t \<noteq> OBSERVE_STATE" by (simp add: tool_action_class_def)
  show ?thesis
    unfolding permitted_tool_def Let_def
    using gate [unfolded effective_cases hard_findings_Nil fields] t names tool fields(1-3) cls
    by (auto simp: delegation_covers_def split: option.splits)
qed

interpretation permitted: work_invariant c "tool_reach (permitted_tool c) w0" for c w0
  by unfold_locales (auto intro: tool_reach.intros allowed_call_permitted)

text \<open>
  Claim C35. Agent work calls only tools it is permitted to call: the world a dispatch loop leaves
  behind is reached from the world before by receipt writes and by handlers of registered tools of
  the active profile, at a requested autonomy and world fidelity that suffice for the tool's action
  class and stay under the runtime ceiling, and either the tool only reads and no mandate was given,
  or the mandate is active, has no kill switch, names this agent, grants the autonomy, and lists the
  action class and the tool.
\<close>

theorem work_calls_only_permitted_tools:
  "tool_reach (permitted_tool c) w (snd (run_bounded_tool_dispatch_loop c refs ob p w))"
  using permitted.dispatch_loop_kept [of c refs ob p w _ _ w] reach_start
  by (metis prod.exhaust_sel)

lemma tool_reach_tools:
  assumes "tool_reach P w0 w"
    and "\<And>t ra w. P t \<Longrightarrow> ww_tools (snd (te_dispatch_handler t ra w)) = ww_tools w"
  shows "ww_tools w = ww_tools w0"
  using assms(1) by induction (simp_all add: assms(2))

definition draft_tool_names :: "string list" where
  "draft_tool_names =
     [''draft_governed_proposal_from_context'', ''draft_agent_review_note_from_context'',
      ''draft_agent_scaffold_revision_apply_candidate_from_context'']"

lemma entry_classes:
  assumes "t \<in> set (AGENT_TOOL_ENTRIES schema check handler)"
  shows "te_dispatch_handler t = handler (te_name t)"
    and "tool_action_class t = PREPARE_REVIEW_PACKET \<longleftrightarrow> te_name t \<in> set draft_tool_names"
  using assms by (auto simp: AGENT_TOOL_ENTRIES_def agent_tool_def Let_def tool_action_class_def
      draft_tool_names_def)

text \<open>
  Without a mandate agent work drafts nothing: if the read tools leave the tools' world as it
  is, so does every run of the loop over the registered tools, whatever the port asks for, which
  includes the three tools that write proposals, review notes and scaffold candidates.
\<close>

theorem unmandated_work_drafts_nothing:
  assumes "wc_mandate c = None" and "wc_entries c = AGENT_TOOL_ENTRIES schema check handler"
    and "\<And>name ra w. name \<notin> set draft_tool_names \<Longrightarrow> ww_tools (snd (handler name ra w)) = ww_tools w"
  shows "ww_tools (snd (run_bounded_tool_dispatch_loop c refs ob p w)) = ww_tools w"
proof (rule tool_reach_tools [OF permitted.dispatch_loop_kept [OF surjective_pairing reach_start]])
  fix t ra v
  assume "permitted_tool c t"
  with assms(1,2) have "t \<in> set (AGENT_TOOL_ENTRIES schema check handler)" "tool_action_class t = GATHER_EVIDENCE"
    by (simp_all add: permitted_tool_def Let_def)
  with entry_classes [OF this(1)] assms(3)
  show "ww_tools (snd (te_dispatch_handler t ra v)) = ww_tools v" by auto
qed

section \<open>Dispatch\<close>

text \<open>
  Claim C39. Dispatch never reaches a handler by accident: either the tool is registered, belongs to the
  active profile, is available, has its required arguments and was not asked to act under another
  profile, and then its handler is called with the caller's arguments, a profile-bound tool under
  the active profile; or the answer is one of the four refusals and the world is untouched.
\<close>

theorem dispatch_guarded:
  "(\<exists>t ra. dispatch_ready e entries profile_name tool_name arguments w t ra \<and>
      (tool_name \<in> set PROFILE_BOUND_TOOL_NAMES \<longrightarrow> dict_get ra ''profile_name'' = PStr profile_name) \<and>
      (\<forall>k. k \<noteq> ''profile_name'' \<longrightarrow> dict_get ra k = dict_get arguments k) \<and>
      dispatch_agent_tool e entries profile_name tool_name arguments w =
        (case te_dispatch_handler t ra w of
           (Inl x, w') \<Rightarrow> (Inr (handler_error t tool_name x), w')
         | (Inr result, w') \<Rightarrow> (success_result e profile_name t result, w'))) \<or>
   (\<exists>r. dispatch_agent_tool e entries profile_name tool_name arguments w = (Inr r, w) \<and> refused_before_handler r)"
proof (cases "\<exists>t ra. dispatch_ready e entries profile_name tool_name arguments w t ra")
  case True
  then obtain t ra where ready: "dispatch_ready e entries profile_name tool_name arguments w t ra" by blast
  then have bp: "bind_profile e profile_name tool_name arguments = Some ra" by (simp add: dispatch_ready_def)
  show ?thesis
    by (rule disjI1, intro exI conjI allI impI, rule ready, erule bind_profile_active [OF bp],
        erule bind_profile_others [OF bp], rule dispatch_ready_call [OF ready])
next
  case False
  then have "\<nexists>t ra. dispatch_ready e entries profile_name tool_name arguments w t ra" .
  from dispatch_not_ready [OF this] show ?thesis by (rule disjI2)
qed

section \<open>The registry\<close>

definition tool_capabilities :: "(string \<times> agent_capability) list" where
  "tool_capabilities =
     [(''get_quote_snapshot'', CAPITAL_READ), (''get_historical_risk_metrics'', CAPITAL_READ),
      (''evaluate_latest_risk_note'', CAPITAL_EXPLAIN), (''get_capital_context_projection'', CAPITAL_READ),
      (''get_capital_summary_context'', CAPITAL_READ), (''get_current_ips_context'', CAPITAL_READ),
      (''get_ips_check_context'', CAPITAL_READ), (''get_open_proposals_context'', CAPITAL_READ),
      (''get_proposal_timeline_context'', CAPITAL_READ),
      (''draft_governed_proposal_from_context'', CAPITAL_PROPOSE),
      (''draft_agent_review_note_from_context'', CAPITAL_REVIEW_NOTE),
      (''draft_agent_scaffold_revision_apply_candidate_from_context'', CAPITAL_SCAFFOLD_REVISION)]"

lemma entry_capabilities:
  "map (\<lambda>t. (te_name t, te_capability t)) (AGENT_TOOL_ENTRIES schema check handler) = tool_capabilities"
  by (simp add: AGENT_TOOL_ENTRIES_def agent_tool_def Let_def tool_capabilities_def)

lemma profile_tools_by_capability:
  assumes "p \<in> set registry_profile_names" and "t \<in> set (AGENT_TOOL_ENTRIES schema check handler)"
  shows "p \<in> set (profile_allowlist_for_entry t) \<longleftrightarrow>
    (\<exists>names. tool_names_for_profile p = Inr names \<and> te_name t \<in> set names)"
proof -
  have "(te_name t, te_capability t) \<in> set tool_capabilities"
    using assms(2) by (auto simp: entry_capabilities [of schema check handler, symmetric])
  moreover have "list_all (\<lambda>p. list_all (\<lambda>(n, cap). profile_allows_capability p cap = Inr True \<longleftrightarrow>
      (case tool_names_for_profile p of Inr names \<Rightarrow> n \<in> set names | Inl _ \<Rightarrow> False))
      tool_capabilities) registry_profile_names" by code_simp
  ultimately have "profile_allows_capability p (te_capability t) = Inr True \<longleftrightarrow>
      (case tool_names_for_profile p of Inr names \<Rightarrow> te_name t \<in> set names | Inl _ \<Rightarrow> False)"
    using assms(1) unfolding list_all_iff by fastforce
  with assms(1) show ?thesis by (auto simp: profile_allowlist_for_entry_def split: sum.splits)
qed

lemma exposed_names:
  "te_name t \<in> rg_name ` set (tools_exposed_to_profile (build_registry entries) p) \<longleftrightarrow>
   (\<exists>u\<in>set entries. te_name u = te_name t \<and> p \<in> set (profile_allowlist_for_entry u))"
  by (force simp: tools_exposed_to_profile_def build_registry_def from_agent_tool_entry_def image_iff)

text \<open>
  The tool registry tells the truth about the four profiles it knows: it lists a registered
  tool as exposed to one of them exactly when the runtime lets that profile dispatch it.  The
  simulation profile, which may dispatch nine tools, is not among the four: the registry lists
  nothing for it.
\<close>

theorem registry_agrees_with_profiles:
  assumes "p \<in> set registry_profile_names" and "t \<in> set (AGENT_TOOL_ENTRIES schema check handler)"
  shows "(te_name t \<in> rg_name ` set (tools_exposed_to_profile
            (build_registry (AGENT_TOOL_ENTRIES schema check handler)) p) \<longleftrightarrow>
          (\<exists>names. tool_names_for_profile p = Inr names \<and> te_name t \<in> set names)) \<and>
    tools_exposed_to_profile (build_registry (AGENT_TOOL_ENTRIES schema check handler)) ''simulation'' = [] \<and>
    (\<exists>names. tool_names_for_profile ''simulation'' = Inr names \<and> length names = 9)"
proof (intro conjI)
  show "te_name t \<in> rg_name ` set (tools_exposed_to_profile
            (build_registry (AGENT_TOOL_ENTRIES schema check handler)) p) \<longleftrightarrow>
          (\<exists>names. tool_names_for_profile p = Inr names \<and> te_name t \<in> set names)"
    unfolding exposed_names using profile_tools_by_capability [OF assms(1)] assms(2) by metis
  show "tools_exposed_to_profile (build_registry (AGENT_TOOL_ENTRIES schema check handler)) ''simulation'' = []"
    by (auto simp: tools_exposed_to_profile_def build_registry_def from_agent_tool_entry_def
        profile_allowlist_for_entry_def registry_profile_names_def filter_empty_conv)
  show "\<exists>names. tool_names_for_profile ''simulation'' = Inr names \<and> length names = 9"
    by (simp add: tool_names_for_profile_def get_agent_profile_def AGENT_PROFILES_def tbl_get_def
        mk_capability_profile_def CURRENT_AGENT_TOOL_NAMES_def CAPITAL_CONTEXT_TOOL_NAMES_def)
qed

section \<open>What an outcome means\<close>

definition stop_sound :: "string \<Rightarrow> string list \<Rightarrow> bool" where
  "stop_sound reason gaps \<longleftrightarrow>
     reason \<in> {''completed'', ''data_gap_unresolved'', ''max_steps_reached'', ''max_tool_calls_reached'',
       ''internal_error'', ''no_progress_detected'', ''evaluation_blocked'', ''human_review_required'',
       ''tool_unavailable''} \<and>
     (reason = ''completed'' \<longrightarrow> gaps = []) \<and> (reason = ''data_gap_unresolved'' \<longrightarrow> gaps \<noteq> [])"

lemma admitted_step_Stop:
  assumes "admitted_step c q s = Stop reason s'"
  shows "reason \<in> {''evaluation_blocked'', ''human_review_required'', ''tool_unavailable''}"
  using assms unfolding admitted_step_def deny_step_def record_step_def Let_def
  by (auto split: sum.splits prod.splits if_splits)

lemma work_step_Stop: "work_step c s = Stop reason s' \<Longrightarrow> stop_sound reason (ls_data_gaps s')"
  unfolding work_step_def requested_step_def Let_def stop_sound_def
  by (auto dest!: admitted_step_Stop simp: budget_stop_def drained_reason_def
      split: option.splits prod.splits sum.splits if_splits)

lemma run_loop_reason: "run_loop c s = (Inr reason, s') \<Longrightarrow> stop_sound reason (ls_data_gaps s')"
proof -
  assume run: "run_loop c s = (Inr reason, s')"
  obtain qs s1 where "\<forall>s2. work_step c s1 \<noteq> Continue s2" "run_loop c s = run_loop c s1"
    using run_loop_trace by blast
  with run have "work_step c s1 = Stop reason s'"
    by (cases "work_step c s1") (simp_all add: run_loop.simps [of c s1])
  then show ?thesis by (rule work_step_Stop)
qed

lemma dispatch_loop_reason:
  "run_bounded_tool_dispatch_loop c refs ob p w = (Inr (envelopes, reason, gaps), w') \<Longrightarrow> stop_sound reason gaps"
  unfolding run_bounded_tool_dispatch_loop_def
  by (auto dest!: run_loop_reason split: sum.splits prod.splits)

lemma outcome_succeeded:
  assumes "stop_sound reason gaps"
  shows "derive_work_outcome (reduce_semantic_stop_reason reason flow) b (gaps \<noteq> []) = ''succeeded'' \<longleftrightarrow>
      reduce_semantic_stop_reason reason flow = ''completed''"
    and "reduce_semantic_stop_reason reason flow = ''completed'' \<Longrightarrow> gaps = []"
    and "derive_work_outcome reason b (gaps \<noteq> []) = ''succeeded'' \<longleftrightarrow> reason = ''completed''"
  using assms
  by (auto simp: stop_sound_def reduce_semantic_stop_reason_def derive_work_outcome_def split: if_splits)

lemma persist_preflight_stop_Inr:
  assumes "persist_preflight_stop es sv q fid reason gaps findings w = (Inr r, w')"
  shows "wr_outcome r = ''stopped'' \<and> wr_stop_reason r = reason"
  using assms unfolding persist_preflight_stop_def Let_def by (auto elim!: wbind_InrE)

lemma finish_work_Inr:
  assumes "finish_work es sv q fid findings snap envelopes reason gaps flow w = (Inr r, w')"
  shows "wr_outcome r = derive_work_outcome reason (envelopes \<noteq> []) (gaps \<noteq> []) \<and>
    wr_stop_reason r = reason \<and> wr_data_gaps r = gaps"
  using assms unfolding finish_work_def Let_def by (auto elim!: wbind_InrE)

text \<open>
  Claim C38. A unit of work that returns a result says succeeded exactly when it ran to completion: the
  outcome is succeeded if and only if the stop reason is completed, and then no data gap was left
  open; every other way to end, from a denied admission to an exhausted budget or a semantic stop,
  is reported as partial, failed or stopped.
\<close>

theorem succeeded_iff_completed:
  assumes "run_agent_work_loop es sv c authority payload p w = (Inr r, w')"
  shows "(wr_outcome r = ''succeeded'' \<longleftrightarrow> wr_stop_reason r = ''completed'') \<and>
    (wr_outcome r = ''succeeded'' \<longrightarrow> wr_data_gaps r = []) \<and>
    wr_outcome r \<in> {''succeeded'', ''partial'', ''failed'', ''stopped''}"
proof -
  let ?stop = "persist_preflight_stop es sv (wc_request c) (wc_world_fidelity c)"
  consider (pre) reason gaps findings where "reason \<in> {''missing_required_context'', ''evaluation_blocked''}"
      "?stop reason gaps findings w = (Inr r, w')"
    | (run) c' refs envelopes reason gaps flow findings snap w1 w2 where
      "run_bounded_tool_dispatch_loop c' refs None p w = (Inr (envelopes, reason, gaps), w1)"
      "finish_work es sv (wc_request c) (wc_world_fidelity c) findings snap envelopes
         (if stops_before_cognition reason then reason else reduce_semantic_stop_reason reason flow)
         gaps flow w2 = (Inr r, w')"
    using assms unfolding run_agent_work_loop_def resolve_work_mandate_def Let_def
    by (auto elim!: wbind_InrE simp: rbind_def split: option.splits sum.splits prod.splits if_splits bool.splits)
  then show ?thesis
  proof cases
    case pre
    from persist_preflight_stop_Inr [OF pre(2)] pre(1) show ?thesis by auto
  next
    case run
    note sound = dispatch_loop_reason [OF run(1)] and fin = finish_work_Inr [OF run(2)]
    have four: "derive_work_outcome x b g \<in> {''succeeded'', ''partial'', ''failed'', ''stopped''}" for x b g
      by (simp add: derive_work_outcome_def)
    show ?thesis using fin outcome_succeeded [OF sound] four sound
      by (auto simp: stop_sound_def)
  qed
qed

section \<open>A concrete run\<close>

text \<open>
  An agent of the review-draft profile whose port keeps asking for the same draft, over a world that
  counts the drafts: read tools leave the counter alone, the draft tools increment it.
\<close>

definition demo_work_env :: io_env where
  "demo_work_env =
     \<lparr>clock = (\<lambda>i. ''2026-01-01T00:00:00+00:00''), stamp = (\<lambda>i. ''20260101T000000Z''),
      uuid8 = (\<lambda>i. ''0a1b2c3d''), fromisoformat = (\<lambda>s. Some (int (length s), Some 0)),
      isoformat = int_str, resolve_path = (\<lambda>ps. Some (py_join ''/'' ps)), display_path = (\<lambda>p. p),
      write_fails = (\<lambda>p. False), commit_fails = (\<lambda>i. False), coerce_money = (\<lambda>v. None),
      py_repr = (\<lambda>v. ''value''), pick_row = (\<lambda>i n. 0),
      realpath = (\<lambda>p. p), sha256 = (\<lambda>t. t), py_int = (\<lambda>v. None), is_symlink = (\<lambda>p. False),
      utc_now = 0, uuid_hex = ''0123456789abcdef0123456789abcdef'', io_fault = (\<lambda>p. False)\<rparr>"

definition demo_tool_request :: tool_request where
  "demo_tool_request =
     \<lparr>tq_tool_name = ''draft_governed_proposal_from_context'', tq_arguments = [(''title'', PStr ''Rebalance'')]\<rparr>"

definition demo_work_request :: work_request where
  "demo_work_request =
     \<lparr>wq_work_id = ''w1'', wq_agent_id = ''agent:1'', wq_goal = ''Review drift'', wq_profile_name = ''review-draft'',
      wq_objective = ''Prepare a draft'', wq_work_type = ''proposal_review'', wq_playbook_name = None,
      wq_requested_tools = [], wq_tool_requests = [demo_tool_request], wq_context_pack_names = [],
      wq_max_tool_calls = 3, wq_max_steps = 5, wq_receipt_root = ''receipts'',
      wq_requested_autonomy = AUT2_DURABLE_LOOP, wq_world_fidelity = W1_VERSIONED_DECISIONS,
      wq_capital_mandate_id = None, wq_agent_authority_grant_id = None\<rparr>"

definition demo_handler ::
  "string \<Rightarrow> jdict \<Rightarrow> nat work_world \<Rightarrow> jdict res \<times> nat work_world" where
  "demo_handler name arguments w =
     (if name \<in> set draft_tool_names then (Inr [(''status'', PStr ''drafted'')], w\<lparr>ww_tools := ww_tools w + 1\<rparr>)
      else (Inr [(''status'', PStr ''read'')], w))"

definition demo_tool_entries :: "nat work_world tool_entry list" where
  "demo_tool_entries =
     AGENT_TOOL_ENTRIES (\<lambda>_. []) (\<lambda>_ _. \<lparr>ta_available = True, ta_reason = None\<rparr>) demo_handler"

definition demo_work_ctx :: "autonomy_mandate option \<Rightarrow> (nat, unit) work_ctx" where
  "demo_work_ctx m =
     \<lparr>wc_env = (\<lambda>n k. demo_work_env), wc_entries = demo_tool_entries, wc_request = demo_work_request,
      wc_snapshot_id = ''ctxsnap_1'',
      wc_port = Some (\<lambda>p st. (Inr \<lparr>dn_action = ''dispatch'', dn_tool_request = Some demo_tool_request\<rparr>, p)),
      wc_mandate = m, wc_autonomy_ceiling = AUT2_DURABLE_LOOP, wc_world_fidelity = W1_VERSIONED_DECISIONS\<rparr>"

definition demo_work_world :: "nat work_world" where
  "demo_work_world = \<lparr>ww_files = Map.empty, ww_admissions = Map.empty, ww_tools = 0\<rparr>"

definition demo_loop_start :: "autonomy_mandate option \<Rightarrow> (nat, unit) loop_state" where
  "demo_loop_start m =
     \<lparr>ls_world = demo_work_world,
      ls_sink = \<lparr>sk_goal = ''Review drift'', sk_profile_name = ''review-draft'', sk_receipt_root = ''receipts'',
                 sk_context_refs = [], sk_results = [], sk_finalized = False\<rparr>,
      ls_envelopes = [], ls_data_gaps = [], ls_tool_count = 0, ls_step_count = 0,
      ls_pending = [demo_tool_request], ls_port_state = (), ls_fingerprints = (\<lambda>_. 0),
      ls_observation = work_started\<rparr>"

lemma demo_goal_stripped: "py_strip ''Review drift'' = ''Review drift''"
  by code_simp

lemma demo_starts: "start_loop (demo_work_ctx m) [] None () demo_work_world = Inr (demo_loop_start m)"
  by (simp add: start_loop_def demo_work_ctx_def demo_work_request_def mk_trace_sink_def demo_goal_stripped
      normalized_tool_requests_def demo_loop_start_def)

lemma demo_request_ok: "mk_work_request (wc_request (demo_work_ctx m)) = Inr demo_work_request"
  by (simp add: demo_work_ctx_def demo_work_request_def mk_work_request_def)

theorem work_loop_ends_witness:
  "\<exists>qs s1. loop_trace (demo_work_ctx None) (demo_loop_start None) qs s1 \<and>
     length qs \<le> 3 \<and> (\<forall>s2. work_step (demo_work_ctx None) s1 \<noteq> Continue s2)"
proof -
  obtain qs s1 where "loop_trace (demo_work_ctx None) (demo_loop_start None) qs s1"
      "int (length qs) \<le> wq_max_tool_calls (wc_request (demo_work_ctx None))"
      "(\<exists>reason s2. work_step (demo_work_ctx None) s1 = Stop reason s2) \<or>
       (\<exists>x s2. work_step (demo_work_ctx None) s1 = Raise x s2)"
    using work_loop_ends [OF demo_request_ok demo_starts, of None] by blast
  then show ?thesis
    by (intro exI [of _ qs] exI [of _ s1]) (auto simp: demo_work_ctx_def demo_work_request_def)
qed

lemma served_step:
  assumes "budget_stop c s = None" and "consult_port c s = (Inr d, s)" and "dn_action d = ''dispatch''"
    and "dn_tool_request d = Some q" and "ls_fingerprints s (request_fingerprint (wc_env c 0 0) q) < 2"
    and "\<not> sk_finalized (ls_sink s)"
    and "wc_env c = (\<lambda>n k. e)"
    and "admit_request c e q = Inr report" and "rp_disposition report = EFFECTIVE"
    and "write_autonomy_admission_report e (\<lambda>t. sha256 e (utf8 t)) report (ww_admissions (ls_world s)) = (Inr ref, files)"
    and "dispatch_agent_tool e (wc_entries c) (wq_profile_name (wc_request c)) (tq_tool_name q) (tq_arguments q)
           ((ls_world s)\<lparr>ww_admissions := files\<rparr>) = (Inr r, w2)"
    and "tr_ok r" and "map_option er_code (tr_error r) \<in> {None, Some RESULT_TOO_LARGE}"
    and art: "\<And>n. resolve_under e (wq_receipt_root (wc_request c)) [artifact_name c e n []] = Inr (path n)"
    and quiet: "\<And>k. \<not> io_fault e k"
  shows "\<exists>s'. work_step c s = Continue s' \<and> ww_tools (ls_world s') = ww_tools w2 \<and> \<not> sk_finalized (ls_sink s')"
proof -
  have code: "en_error_code (request_envelope c e q report ref a r) =
      map_option (\<lambda>er. error_code_text (er_code er)) (tr_error r)" for a
    by (simp add: request_envelope_def build_tool_result_envelope_def Let_def)
  have un: "\<not> envelope_unavailable (request_envelope c e q report ref a r)" for a
    using assms(13) by (cases "tr_error r") (auto simp: envelope_unavailable_def code)
  have wr: "\<exists>w3. write_artifact c e (artifact_name c e n []) payload w = (Inr (), w3) \<and> ww_tools w3 = ww_tools w"
    for n payload w
    by (simp add: write_artifact_def art atomic_write_json_def atomic_replace_def quiet)
  then obtain w3 where w3: "write_artifact c e (artifact_name c e (Suc (ls_step_count s)) [])
      (envelope_dump (request_envelope c e q report ref (artifact_name c e (Suc (ls_step_count s)) []) r)) w2 =
      (Inr (), w3)" "ww_tools w3 = ww_tools w2" by blast
  show ?thesis
    using assms(1-12) w3 un
    by (simp add: work_step_def requested_step_def admitted_step_def sink_dispatch_def record_result_def
        record_step_def Let_def)
qed

definition demo_work_mandate :: autonomy_mandate where
  "demo_work_mandate =
     \<lparr>am_mandate_id = ''m1'', am_authority_grant_id = Some ''g1'', am_principal_id = ''owner'', am_agent_id = ''agent:1'',
      am_status = ''active'', am_granted_autonomy = AUT2_DURABLE_LOOP,
      am_allowed_action_classes = [OBSERVE_STATE, GATHER_EVIDENCE, PREPARE_REVIEW_PACKET],
      am_allowed_financial_action_types = [], am_allowed_asset_classes = [], am_allowed_tools = [],
      am_constraints = [], am_kill_switch_engaged = False, am_expires_at_utc = None, am_source_refs = []\<rparr>"

abbreviation demo_mandated :: "(nat, unit) work_ctx" where
  "demo_mandated \<equiv> demo_work_ctx (Some demo_work_mandate)"

lemma demo_draft_entry:
  obtains t where "find_entry demo_tool_entries ''draft_governed_proposal_from_context'' = Some t"
    and "te_side_effect t = ''append_only_review_write''"
    and "te_dispatch_handler t = demo_handler ''draft_governed_proposal_from_context''"
    and "te_check_fn t = (\<lambda>_. \<lparr>ta_available = True, ta_reason = None\<rparr>)" and "te_params_json_schema t = []"
    and "te_evidence_provider_ids t = [''capital_context.state_core'', ''proposal_receipt.state_core'']"
  by (simp add: find_entry_def tbl_get_def demo_tool_entries_def AGENT_TOOL_ENTRIES_def agent_tool_def Let_def)

lemma demo_draft_admitted:
  obtains report where "admit_request demo_mandated demo_work_env demo_tool_request = Inr report"
    and "rp_disposition report = EFFECTIVE"
proof -
  have nonblank: "py_strip ''w1'' \<noteq> []" "py_strip ''agent:1'' \<noteq> []" "py_strip ''Prepare a draft'' \<noteq> []"
    by code_simp+
  obtain t where t: "find_entry demo_tool_entries ''draft_governed_proposal_from_context'' = Some t"
      "te_side_effect t = ''append_only_review_write''" by (rule demo_draft_entry)
  obtain req where req: "action_request_of demo_mandated demo_work_env demo_tool_request = Inr req"
      "rq_action_class req = PREPARE_REVIEW_PACKET" "rq_requested_autonomy req = AUT2_DURABLE_LOOP"
      "rq_agent_id req = ''agent:1''" "rq_target_scope req = []"
    by (simp add: action_request_of_def mk_agent_action_request_def demo_work_ctx_def demo_work_request_def
        demo_tool_request_def t nonblank List.map_filter_def)
  let ?rt = "\<lparr>rt_world_fidelity = wc_world_fidelity demo_mandated, rt_autonomy_ceiling = wc_autonomy_ceiling demo_mandated,
          rt_world_state_ref = Some (wc_snapshot_id demo_mandated), rt_now_utc = clock demo_work_env 0\<rparr>"
  have "gate_disposition demo_work_env req ?rt (Some demo_work_mandate) EFFECTIVE"
    unfolding effective_cases hard_findings_Nil
    by (simp add: req delegation_covers_def demo_work_mandate_def demo_work_ctx_def rank_order_defs
        mandate_expired_def truthy_def value_outside_def dict_get_def pyval_truthy_def)
  then obtain report where "evaluate_autonomy_admission demo_work_env req ?rt (wc_mandate demo_mandated) = Inr report"
      "rp_disposition report = EFFECTIVE"
    unfolding gate_disposition_def by (auto simp: demo_work_ctx_def)
  with req(1) show thesis by (intro that [of report]) (simp_all add: admit_request_def)
qed

lemma demo_artifact_path:
  "resolve_under demo_work_env (wq_receipt_root (wc_request demo_mandated)) [artifact_name demo_mandated demo_work_env n []] =
     Inr (''receipts/'' @ artifact_name demo_mandated demo_work_env n [])"
  by (simp add: resolve_under_def demo_work_ctx_def demo_work_request_def demo_work_env_def path_join_def
      artifact_name_def starts_with_def)

lemma demo_dispatch:
  "\<exists>r. dispatch_agent_tool demo_work_env demo_tool_entries ''review-draft'' (tq_tool_name demo_tool_request)
     (tq_arguments demo_tool_request) w = (Inr r, w\<lparr>ww_tools := ww_tools w + 1\<rparr>) \<and> tr_ok r \<and>
     map_option er_code (tr_error r) \<in> {None, Some RESULT_TOO_LARGE}"
proof -
  obtain t where t: "find_entry demo_tool_entries ''draft_governed_proposal_from_context'' = Some t"
      "te_dispatch_handler t = demo_handler ''draft_governed_proposal_from_context''"
      "te_check_fn t = (\<lambda>_. \<lparr>ta_available = True, ta_reason = None\<rparr>)" "te_params_json_schema t = []"
      "te_evidence_provider_ids t = [''capital_context.state_core'', ''proposal_receipt.state_core'']"
    by (rule demo_draft_entry)
  obtain names where names: "tool_names_for_profile ''review-draft'' = Inr names"
      "''draft_governed_proposal_from_context'' \<in> set names"
    by (simp add: tool_names_for_profile_def get_agent_profile_def AGENT_PROFILES_def mk_capability_profile_def
        tbl_get_def)
  obtain ra where ra: "bind_profile demo_work_env ''review-draft'' (tq_tool_name demo_tool_request)
      (tq_arguments demo_tool_request) = Some ra"
    by (simp add: bind_profile_def Let_def demo_tool_request_def dict_get_def PROFILE_BOUND_TOOL_NAMES_def)
  have ready: "dispatch_ready demo_work_env demo_tool_entries ''review-draft'' (tq_tool_name demo_tool_request)
      (tq_arguments demo_tool_request) w t ra"
    using t names ra by (simp add: dispatch_ready_def missing_required_arguments_def dict_get_or_def
        demo_tool_request_def)
  have call: "te_dispatch_handler t ra w = (Inr [(''status'', PStr ''drafted'')], w\<lparr>ww_tools := ww_tools w + 1\<rparr>)"
    by (simp add: t demo_handler_def draft_tool_names_def)
  have "\<exists>v. resolve_evidence_providers [''capital_context.state_core'', ''proposal_receipt.state_core''] = Inr v"
    by (simp add: resolve_evidence_providers_def AGENT_EVIDENCE_PROVIDERS_def tbl_get_def)
  then have "\<exists>r. success_result demo_work_env ''review-draft'' t [(''status'', PStr ''drafted'')] = Inr r \<and> tr_ok r \<and>
      map_option er_code (tr_error r) \<in> {None, Some RESULT_TOO_LARGE}"
    by (auto simp: success_result_def project_agent_context_result_def is_context_pack_payload_def dict_get_def
        build_agent_evidence_envelope_def t Let_def)
  then show ?thesis by (auto simp: dispatch_ready_call [OF ready] call)
qed

lemma demo_step:
  assumes "ls_step_count s < 5" and "ls_tool_count s < 3" and "\<not> sk_finalized (ls_sink s)"
    and "ls_fingerprints s (request_fingerprint demo_work_env demo_tool_request) < 2"
  shows "\<exists>s'. work_step demo_mandated s = Continue s' \<and> ww_tools (ls_world s') = ww_tools (ls_world s) + 1 \<and>
    \<not> sk_finalized (ls_sink s')"
proof -
  obtain report where adm: "admit_request demo_mandated demo_work_env demo_tool_request = Inr report"
      "rp_disposition report = EFFECTIVE" by (rule demo_draft_admitted)
  obtain ref files where rep: "write_autonomy_admission_report demo_work_env (\<lambda>t. sha256 demo_work_env (utf8 t))
      report (ww_admissions (ls_world s)) = (Inr ref, files)"
    by (simp add: write_autonomy_admission_report_def demo_work_env_def Let_def)
  obtain r where r: "dispatch_agent_tool demo_work_env demo_tool_entries ''review-draft''
      (tq_tool_name demo_tool_request) (tq_arguments demo_tool_request) ((ls_world s)\<lparr>ww_admissions := files\<rparr>) =
      (Inr r, (ls_world s)\<lparr>ww_admissions := files, ww_tools := ww_tools (ls_world s) + 1\<rparr>)" "tr_ok r"
      "map_option er_code (tr_error r) \<in> {None, Some RESULT_TOO_LARGE}"
    using demo_dispatch [of "(ls_world s)\<lparr>ww_admissions := files\<rparr>"] by auto
  have ctx: "wc_env demo_mandated = (\<lambda>n k. demo_work_env)" "wc_entries demo_mandated = demo_tool_entries"
      "wc_request demo_mandated = demo_work_request" by (simp_all add: demo_work_ctx_def)
  have quiet: "\<not> io_fault demo_work_env k" for k by (simp add: demo_work_env_def)
  have "\<exists>s'. work_step demo_mandated s = Continue s' \<and>
      ww_tools (ls_world s') = ww_tools ((ls_world s)\<lparr>ww_admissions := files, ww_tools := ww_tools (ls_world s) + 1\<rparr>) \<and>
      \<not> sk_finalized (ls_sink s')"
  proof (rule served_step [where e = demo_work_env and q = demo_tool_request and r = r and report = report
        and ref = ref and files = files and d = "\<lparr>dn_action = ''dispatch'', dn_tool_request = Some demo_tool_request\<rparr>"])
    show "consult_port demo_mandated s =
        (Inr \<lparr>dn_action = ''dispatch'', dn_tool_request = Some demo_tool_request\<rparr>, s)"
      by (simp add: consult_port_def demo_work_ctx_def)
    show "resolve_under demo_work_env (wq_receipt_root (wc_request demo_mandated))
        [artifact_name demo_mandated demo_work_env n []] =
        Inr (''receipts/'' @ artifact_name demo_mandated demo_work_env n [])" for n by (rule demo_artifact_path)
    show "dispatch_agent_tool demo_work_env (wc_entries demo_mandated) (wq_profile_name (wc_request demo_mandated))
        (tq_tool_name demo_tool_request) (tq_arguments demo_tool_request)
        ((ls_world s)\<lparr>ww_admissions := files\<rparr>) =
        (Inr r, (ls_world s)\<lparr>ww_admissions := files, ww_tools := ww_tools (ls_world s) + 1\<rparr>)"
      using r(1) by (simp add: ctx demo_work_request_def)
  qed (use assms adm rep r quiet ctx in \<open>simp_all add: budget_stop_None_iff demo_work_request_def\<close>)
  then show ?thesis by auto
qed

lemma demo_two_drafts:
  obtains s2 where "loop_trace demo_mandated (demo_loop_start (Some demo_work_mandate))
      [demo_tool_request, demo_tool_request] s2" and "ww_tools (ls_world s2) = 2"
proof -
  let ?s0 = "demo_loop_start (Some demo_work_mandate)"
  have ask: "step_request demo_mandated s = Some demo_tool_request" for s
    by (simp add: step_request_def consult_port_def demo_work_ctx_def)
  obtain s1 where s1: "work_step demo_mandated ?s0 = Continue s1" "ww_tools (ls_world s1) = 1" "\<not> sk_finalized (ls_sink s1)"
    using demo_step [of ?s0] by (auto simp: demo_loop_start_def demo_work_world_def)
  have t1: "loop_trace demo_mandated ?s0 [demo_tool_request] s1" using s1 ask by (auto intro: loop_trace.intros)
  have "ls_fingerprints s1 (request_fingerprint demo_work_env demo_tool_request) = 1"
    using loop_trace_fingerprints [OF t1, of "request_fingerprint demo_work_env demo_tool_request"]
    by (simp add: demo_loop_start_def demo_work_ctx_def)
  then obtain s2 where s2: "work_step demo_mandated s1 = Continue s2" "ww_tools (ls_world s2) = 2"
    using demo_step [of s1] s1 loop_trace_counts [OF t1] by (auto simp: demo_loop_start_def)
  then have "loop_trace demo_mandated ?s0 [demo_tool_request, demo_tool_request] s2"
    using s1 ask by (auto intro: loop_trace.intros)
  with s2 show thesis by (intro that)
qed

theorem request_repeated_at_most_once_witness:
  "\<exists>s2. ww_tools (ls_world s2) = 2 \<and>
     count_list (map (request_fingerprint demo_work_env) [demo_tool_request, demo_tool_request])
       (request_fingerprint demo_work_env demo_tool_request) = 2 \<and>
     requested_step demo_mandated demo_tool_request s2 = Stop ''no_progress_detected'' (s2\<lparr>ls_data_gaps := ls_data_gaps s2 @
         [''no_progress_detected: repeated '' @ tq_tool_name demo_tool_request @ '' with identical arguments'']\<rparr>)"
proof -
  obtain s2 where tr: "loop_trace demo_mandated (demo_loop_start (Some demo_work_mandate))
      [demo_tool_request, demo_tool_request] s2" and two: "ww_tools (ls_world s2) = 2" by (rule demo_two_drafts)
  have ctx: "wc_env demo_mandated = (\<lambda>n k. demo_work_env)" by (simp add: demo_work_ctx_def)
  have "ls_fingerprints s2 (request_fingerprint demo_work_env demo_tool_request) = 2"
    using loop_trace_fingerprints [OF tr, of "request_fingerprint demo_work_env demo_tool_request"]
    by (simp add: ctx demo_loop_start_def)
  with request_repeated_at_most_once [OF demo_starts tr, of demo_tool_request] two show ?thesis
    by (intro exI [of _ s2]) (simp add: ctx)
qed

theorem unmandated_work_drafts_nothing_witness:
  "ww_tools (snd (run_bounded_tool_dispatch_loop (demo_work_ctx None) [] None () demo_work_world)) = 0"
proof -
  have "ww_tools (snd (run_bounded_tool_dispatch_loop (demo_work_ctx None) [] None () demo_work_world)) =
      ww_tools demo_work_world"
    by (rule unmandated_work_drafts_nothing [of _ "\<lambda>_. []" "\<lambda>_ _. \<lparr>ta_available = True, ta_reason = None\<rparr>"
          demo_handler])
       (simp_all add: demo_work_ctx_def demo_tool_entries_def demo_handler_def)
  then show ?thesis by (simp add: demo_work_world_def)
qed

theorem dispatch_guarded_witness:
  "\<exists>r. dispatch_agent_tool demo_work_env demo_tool_entries ''default''
     ''draft_governed_proposal_from_context'' [] demo_work_world = (Inr r, demo_work_world) \<and>
     refused_before_handler r"
proof -
  have "list_all (\<lambda>n. n \<noteq> ''draft_governed_proposal_from_context'') CURRENT_AGENT_TOOL_NAMES" by code_simp
  then have "\<not> dispatch_ready demo_work_env demo_tool_entries ''default'' ''draft_governed_proposal_from_context'' []
      demo_work_world t ra" for t ra
    by (auto simp: dispatch_ready_def tool_names_for_profile_def get_agent_profile_def AGENT_PROFILES_def
        mk_capability_profile_def tbl_get_def list_all_iff)
  then show ?thesis
    using dispatch_guarded [of demo_work_env demo_tool_entries "''default''"
        "''draft_governed_proposal_from_context''" "[]" demo_work_world] by blast
qed

theorem registry_agrees_with_profiles_witness:
  "tools_exposed_to_profile (build_registry demo_tool_entries) ''simulation'' = []"
proof -
  obtain t where t: "t \<in> set demo_tool_entries"
    by (rule that [of "hd demo_tool_entries"]) (simp add: demo_tool_entries_def AGENT_TOOL_ENTRIES_def Let_def)
  have p: "''default'' \<in> set registry_profile_names" by (simp add: registry_profile_names_def)
  show ?thesis
    using registry_agrees_with_profiles [OF p t [unfolded demo_tool_entries_def]]
    by (simp add: demo_tool_entries_def)
qed

definition demo_services :: "nat work_services" where
  "demo_services =
     \<lparr>sv_load_playbook = (\<lambda>n. None), sv_cognition_flow = (\<lambda>snap envelopes w. (Inr [], w)),
      sv_review_workspace = (\<lambda>i w. (Inr ''review-workspaces/rwp_1.json'', w)),
      sv_update_index = (\<lambda>refs w. (Inr (), w)), sv_trust_message = (\<lambda>d. [])\<rparr>"

definition demo_idle_ctx :: "(nat, unit) work_ctx" where
  "demo_idle_ctx = (demo_work_ctx None)
     \<lparr>wc_port := Some (\<lambda>p st. (Inr \<lparr>dn_action = ''complete'', dn_tool_request = None\<rparr>, p))\<rparr>"

lemma demo_idle_loop:
  "run_bounded_tool_dispatch_loop (demo_idle_ctx\<lparr>wc_mandate := m, wc_snapshot_id := i\<rparr>) refs None () w =
     (Inr ([], ''completed'', []), w)"
  by (simp add: run_bounded_tool_dispatch_loop_def start_loop_def demo_idle_ctx_def demo_work_ctx_def
      demo_work_request_def mk_trace_sink_def demo_goal_stripped normalized_tool_requests_def
      run_loop.simps work_step_def budget_stop_def consult_port_def close_loop_def)

lemma demo_result_path:
  "resolve_under demo_work_env ''receipts'' [work_result_ref demo_work_env i] =
     Inr (''receipts/'' @ work_result_ref demo_work_env i)"
  by (simp add: resolve_under_def demo_work_env_def path_join_def work_result_ref_def starts_with_def)

theorem succeeded_iff_completed_witness:
  "\<exists>r w'. run_agent_work_loop (\<lambda>i. demo_work_env) demo_services demo_idle_ctx None [] () demo_work_world = (Inr r, w') \<and>
     wr_outcome r = ''succeeded''"
proof -
  have quiet: "\<not> io_fault demo_work_env k" for k by (simp add: demo_work_env_def)
  have q: "wc_request demo_idle_ctx = demo_work_request" "wc_mandate demo_idle_ctx = None"
    by (simp_all add: demo_idle_ctx_def demo_work_ctx_def)
  have m: "resolve_work_mandate demo_work_request None None = Inr (Inr (None, []))"
      "playbook_gaps demo_services demo_work_request = None"
    by (simp_all add: resolve_work_mandate_def playbook_gaps_def demo_work_request_def truthy_def)
  have sv: "sv_cognition_flow demo_services snap envelopes w = (Inr [], w)" for snap envelopes w
    by (simp add: demo_services_def)
  have fin: "\<exists>r w'. finish_work (\<lambda>i. demo_work_env) demo_services demo_work_request fid fs snap [] ''completed'' [] [] w =
      (Inr r, w') \<and> wr_stop_reason r = ''completed''" for fid fs snap w
    by (simp add: finish_work_def Let_def string_refs_def List.map_filter_def write_work_run_receipt_def
        write_agent_run_receipt_def demo_work_request_def demo_goal_stripped demo_services_def
        write_agent_work_result_def demo_result_path base_result_def atomic_write_json_def atomic_replace_def quiet)
  have "\<exists>r w'. run_agent_work_loop (\<lambda>i. demo_work_env) demo_services demo_idle_ctx None [] () demo_work_world =
      (Inr r, w') \<and> wr_stop_reason r = ''completed''"
    unfolding run_agent_work_loop_def Let_def q
    by (simp add: m demo_idle_loop stops_before_cognition_def sv reduce_semantic_stop_reason_def dict_get_def)
       (use fin in blast)
  then show ?thesis
    using succeeded_iff_completed [of "\<lambda>i. demo_work_env" demo_services demo_idle_ctx None "[]" "()" demo_work_world]
    by blast
qed

end
