(* ===== verification/Agent_Context_Properties.thy ===== *)
theory Agent_Context_Properties
  imports Agent_Context "HOL-Library.Multiset"
begin

text \<open>
  What a profile's budget guarantees about the context an agent is shown: an office brief that
  claims to be complete fits its budget, and one projected pack either fits its own budget or is
  reduced to a marker.
\<close>

section \<open>The brief\<close>

text \<open>
  What the loop leaves: the packs split into those it took and those it left out, in their order.
  Each taken pack fitted with those before it, each left out did not, and each left out has its gap.
\<close>

definition packed ::
  "'e env_scheme \<Rightarrow> projection_profile \<Rightarrow> nat \<Rightarrow> string list \<Rightarrow> jdict list \<Rightarrow> jdict list \<Rightarrow> bool" where
  "packed e profile n gaps included omitted \<longleftrightarrow>
     (let size = (\<lambda>packs left_out. json_chars e (bundle_payload e profile n False packs
            (gaps @ map (omitted_pack_gap e profile) left_out))) in
      (\<forall>i < length included. \<exists>j \<le> length omitted.
         size (take (Suc i) included) (take j omitted) \<le> pp_total_max_chars profile) \<and>
      (\<forall>j < length omitted. \<exists>i \<le> length included.
         pp_total_max_chars profile < size (take i included @ [omitted ! j]) (take j omitted)))"

lemma packed_take:
  assumes "packed e profile n gaps included omitted"
    and "json_chars e (bundle_payload e profile n False (included @ [pack])
           (gaps @ map (omitted_pack_gap e profile) omitted)) \<le> pp_total_max_chars profile"
  shows "packed e profile n gaps (included @ [pack]) omitted"
  unfolding packed_def Let_def
proof (intro conjI allI impI)
  fix i assume i: "i < length (included @ [pack])"
  show "\<exists>j\<le>length omitted. json_chars e (bundle_payload e profile n False (take (Suc i) (included @ [pack]))
      (gaps @ map (omitted_pack_gap e profile) (take j omitted))) \<le> pp_total_max_chars profile"
  proof (cases "i < length included")
    case True
    then have "take (Suc i) (included @ [pack]) = take (Suc i) included" by simp
    then show ?thesis using assms(1) True unfolding packed_def Let_def by simp
  next
    case False
    with i have "i = length included" by simp
    then show ?thesis using assms(2) by (intro exI [of _ "length omitted"]) simp
  qed
next
  fix j assume j: "j < length omitted"
  then obtain i where i: "i \<le> length included" "pp_total_max_chars profile < json_chars e (bundle_payload e profile n False
      (take i included @ [omitted ! j]) (gaps @ map (omitted_pack_gap e profile) (take j omitted)))"
    using assms(1) unfolding packed_def Let_def by blast
  then show "\<exists>i\<le>length (included @ [pack]). pp_total_max_chars profile < json_chars e (bundle_payload e profile n False
      (take i (included @ [pack]) @ [omitted ! j]) (gaps @ map (omitted_pack_gap e profile) (take j omitted)))"
    by (intro exI [of _ i]) simp
qed

lemma packed_omit:
  assumes "packed e profile n gaps included omitted"
    and "pp_total_max_chars profile < json_chars e (bundle_payload e profile n False (included @ [pack])
           (gaps @ map (omitted_pack_gap e profile) omitted))"
  shows "packed e profile n gaps included (omitted @ [pack])"
  unfolding packed_def Let_def
proof (intro conjI allI impI)
  fix i assume "i < length included"
  then obtain j where j: "j \<le> length omitted" "json_chars e (bundle_payload e profile n False (take (Suc i) included)
      (gaps @ map (omitted_pack_gap e profile) (take j omitted))) \<le> pp_total_max_chars profile"
    using assms(1) unfolding packed_def Let_def by blast
  then show "\<exists>j\<le>length (omitted @ [pack]). json_chars e (bundle_payload e profile n False (take (Suc i) included)
      (gaps @ map (omitted_pack_gap e profile) (take j (omitted @ [pack])))) \<le> pp_total_max_chars profile"
    by (intro exI [of _ j]) simp
next
  fix j assume j: "j < length (omitted @ [pack])"
  show "\<exists>i\<le>length included. pp_total_max_chars profile < json_chars e (bundle_payload e profile n False
      (take i included @ [(omitted @ [pack]) ! j]) (gaps @ map (omitted_pack_gap e profile) (take j (omitted @ [pack]))))"
  proof (cases "j < length omitted")
    case True
    then show ?thesis using assms(1) unfolding packed_def Let_def by (simp add: nth_append)
  next
    case False
    with j have "j = length omitted" by simp
    then show ?thesis using assms(2) by (intro exI [of _ "length included"]) simp
  qed
qed

lemma include_packs_packed:
  assumes "packed e profile n gaps included omitted"
  shows "\<exists>new rest. include_packs e profile n packs included (gaps @ map (omitted_pack_gap e profile) omitted) =
      (included @ new, gaps @ map (omitted_pack_gap e profile) (omitted @ rest)) \<and>
    packs \<in> shuffles new rest \<and> packed e profile n gaps (included @ new) (omitted @ rest)"
  using assms
proof (induction packs arbitrary: included omitted)
  case Nil
  then show ?case by (intro exI [of _ "[]"]) simp
next
  case (Cons pack packs)
  show ?case
  proof (cases "json_chars e (bundle_payload e profile n False (included @ [pack])
      (gaps @ map (omitted_pack_gap e profile) omitted)) \<le> pp_total_max_chars profile")
    case True
    from Cons.IH [OF packed_take [OF Cons.prems True]] obtain new rest where
      "include_packs e profile n packs (included @ [pack]) (gaps @ map (omitted_pack_gap e profile) omitted) =
        ((included @ [pack]) @ new, gaps @ map (omitted_pack_gap e profile) (omitted @ rest))"
      "packs \<in> shuffles new rest" "packed e profile n gaps ((included @ [pack]) @ new) (omitted @ rest)" by blast
    with True show ?thesis by (intro exI [of _ "pack # new"] exI [of _ rest]) (simp add: Cons_in_shuffles_leftI)
  next
    case False
    then have big: "pp_total_max_chars profile < json_chars e (bundle_payload e profile n False (included @ [pack])
        (gaps @ map (omitted_pack_gap e profile) omitted))" by simp
    from Cons.IH [OF packed_omit [OF Cons.prems big]] obtain new rest where
      "include_packs e profile n packs included (gaps @ map (omitted_pack_gap e profile) (omitted @ [pack])) =
        (included @ new, gaps @ map (omitted_pack_gap e profile) ((omitted @ [pack]) @ rest))"
      "packs \<in> shuffles new rest" "packed e profile n gaps (included @ new) ((omitted @ [pack]) @ rest)" by blast
    with False show ?thesis by (intro exI [of _ new] exI [of _ "pack # rest"]) (simp add: Cons_in_shuffles_rightI)
  qed
qed

lemma py_strip_Cons_nonempty: "\<not> py_isspace c \<Longrightarrow> py_strip (c # s) \<noteq> []"
  by (auto simp: py_strip_def dropWhile_append)

lemma priority_pairs:
  assumes "map_res (\<lambda>p. rbind (pack_priority e p) (\<lambda>k. Inr (k, p))) packs = Inr kps"
  shows "map snd kps = packs" and "\<forall>kp\<in>set kps. pack_priority e (snd kp) = Inr (fst kp)"
proof -
  have "map snd kps = packs \<and> (\<forall>kp\<in>set kps. pack_priority e (snd kp) = Inr (fst kp))"
    using assms
  proof (induction packs arbitrary: kps)
    case (Cons p packs)
    from Cons.prems obtain k kps' where "pack_priority e p = Inr k" "kps = (k, p) # kps'"
        "map_res (\<lambda>p. rbind (pack_priority e p) (\<lambda>k. Inr (k, p))) packs = Inr kps'"
      by (auto simp: rbind_Inr_iff)
    with Cons.IH show ?case by simp
  qed simp
  then show "map snd kps = packs" and "\<forall>kp\<in>set kps. pack_priority e (snd kp) = Inr (fst kp)" by simp_all
qed

lemma omitted_named: "py_strip (omitted_pack_gap e profile pack) \<noteq> []"
  unfolding omitted_pack_gap_def by (simp add: py_strip_Cons_nonempty py_isspace_def)

lemma refs_of_Nil_iff: "refs_of xs = [] \<longleftrightarrow> (\<forall>x\<in>set xs. py_strip x = [])"
proof -
  have "refs_of xs = [] \<longleftrightarrow> set (refs_of xs) = {}" by simp
  then show ?thesis unfolding set_refs_of by auto
qed

text \<open>
  Claim C40. A capital brief shows what fits and names what it leaves out.  The packs, in the order of
  their priorities, are split into the included ones, which are exactly the packs of the brief, and
  the omitted ones: a pack is included only if it fits the budget of the profile together with those
  included before it, and omitted only if it does not.  The gaps of the brief are the gaps it was
  given and one for every omitted pack, and it is marked as truncated when there is any.  A brief
  without a gap therefore holds every pack, and its whole text fits the budget.
\<close>

theorem brief_fits_or_names_omission:
  assumes "projection_bundle e profile packs n data_gaps = Inr out"
  shows "\<exists>ordered included omitted. mset ordered = mset packs \<and> sorted (map (\<lambda>p. projr (pack_priority e p)) ordered) \<and>
    ordered \<in> shuffles included omitted \<and> packed e profile n data_gaps included omitted \<and>
    dict_get out ''packs'' = PList (map PDict included) \<and>
    dict_get out ''data_gaps'' = PStrs (refs_of (data_gaps @ map (omitted_pack_gap e profile) omitted)) \<and>
    dict_get out ''projection'' = PDict (bundle_projection profile n (data_gaps \<noteq> [] \<or> omitted \<noteq> [])) \<and>
    (dict_get out ''data_gaps'' = PList [] \<and> list_all (\<lambda>g. py_strip g \<noteq> []) data_gaps \<longrightarrow>
      omitted = [] \<and> (packs \<noteq> [] \<longrightarrow> json_chars e out \<le> pp_total_max_chars profile))"
proof -
  from assms obtain kps where kps: "map_res (\<lambda>p. rbind (pack_priority e p) (\<lambda>k. Inr (k, p))) packs = Inr kps"
    by (auto simp: projection_bundle_def rbind_Inr_iff)
  define ordered where "ordered = map snd (sort_key fst kps)"
  have ms: "mset ordered = mset packs"
    unfolding ordered_def using priority_pairs(1) [OF kps] by (metis mset_map mset_sort)
  have srt: "sorted (map (\<lambda>p. projr (pack_priority e p)) ordered)"
  proof -
    have "map (\<lambda>p. projr (pack_priority e p)) ordered = map fst (sort_key fst kps)"
      unfolding ordered_def using priority_pairs(2) [OF kps] by simp
    then show ?thesis by simp
  qed
  have "packed e profile n data_gaps [] []" by (simp add: packed_def)
  from include_packs_packed [OF this, of ordered] obtain included omitted where
      inc: "include_packs e profile n ordered [] data_gaps = (included, data_gaps @ map (omitted_pack_gap e profile) omitted)"
      and split: "ordered \<in> shuffles included omitted" "packed e profile n data_gaps included omitted" by auto
  have out: "out = bundle_payload e profile n (data_gaps \<noteq> [] \<or> omitted \<noteq> []) included
      (refs_of (data_gaps @ map (omitted_pack_gap e profile) omitted))"
    using assms kps inc by (simp add: projection_bundle_def ordered_def)
  have complete: "omitted = [] \<and> data_gaps = []"
    if "dict_get out ''data_gaps'' = PList []" "list_all (\<lambda>g. py_strip g \<noteq> []) data_gaps"
  proof -
    have "refs_of (data_gaps @ map (omitted_pack_gap e profile) omitted) = []"
      using that(1) by (simp add: out bundle_payload_def dict_get_def)
    then have "\<forall>g\<in>set (data_gaps @ map (omitted_pack_gap e profile) omitted). py_strip g = []" by (simp only: refs_of_Nil_iff)
    with that(2) omitted_named show ?thesis by (cases data_gaps; cases omitted) auto
  qed
  moreover have "json_chars e out \<le> pp_total_max_chars profile" if "omitted = [] \<and> data_gaps = []" "packs \<noteq> []"
  proof -
    have "included = ordered" "ordered \<noteq> []" using split(1) that ms by auto
    then have "length included - 1 < length included" by simp
    with split(2) that(1) \<open>included = ordered\<close> show ?thesis
      by (auto simp: packed_def out refs_of_def dest!: spec [of _ "length included - 1"])
  qed
  ultimately show ?thesis
    using ms srt split
    by (intro exI [of _ ordered] exI [of _ included] exI [of _ omitted])
       (auto simp: out bundle_payload_def dict_get_def)
qed

text \<open>With a budget of one character the only pack is left out, and the brief says so.\<close>

definition tiny_projection :: projection_profile where
  "tiny_projection = default_projection\<lparr>pp_total_max_chars := 1\<rparr>"

lemma json_chars_two: "2 \<le> json_chars e d"
  by (simp add: json_chars_def json_dumps_def)

theorem brief_fits_or_names_omission_witness:
  "\<forall>e :: io_env. \<exists>out. projection_bundle e tiny_projection [unavailable_context_pack ''capital'' ''closed''] 1 [] = Inr out \<and>
     dict_get out ''packs'' = PList [] \<and>
     dict_get out ''data_gaps'' =
       PStrs (refs_of [omitted_pack_gap e tiny_projection (unavailable_context_pack ''capital'' ''closed'')])"
proof
  fix e :: io_env
  let ?p = "unavailable_context_pack ''capital'' ''closed''"
  have "\<exists>out. projection_bundle e tiny_projection [?p] 1 [] = Inr out"
    by (simp add: projection_bundle_def pack_priority_def unavailable_context_pack_def dict_get_def split: prod.splits)
  then obtain out where out: "projection_bundle e tiny_projection [?p] 1 [] = Inr out" by blast
  from brief_fits_or_names_omission [OF out] obtain ordered included omitted where
      ms: "mset ordered = mset [?p]" and split: "ordered \<in> shuffles included omitted" "packed e tiny_projection 1 [] included omitted"
      and dict: "dict_get out ''packs'' = PList (map PDict included)"
        "dict_get out ''data_gaps'' = PStrs (refs_of ([] @ map (omitted_pack_gap e tiny_projection) omitted))"
    by blast
  have "included = []"
  proof (rule ccontr)
    assume "included \<noteq> []"
    with split(2) obtain j where "json_chars e (bundle_payload e tiny_projection 1 False (take (Suc 0) included)
        ([] @ map (omitted_pack_gap e tiny_projection) (take j omitted))) \<le> 1"
      unfolding packed_def Let_def by (auto simp: tiny_projection_def)
    with json_chars_two show False by (metis One_nat_def Suc_1 not_less_eq_eq order_trans)
  qed
  moreover have "ordered = [?p]" using ms by (metis mset_single_iff mset.simps(1,2) add_mset_eq_single mset_zero_iff)
  ultimately have "omitted = [?p]" using split(1) by simp
  with out dict \<open>included = []\<close> show "\<exists>out. projection_bundle e tiny_projection [?p] 1 [] = Inr out \<and>
     dict_get out ''packs'' = PList [] \<and> dict_get out ''data_gaps'' = PStrs (refs_of [omitted_pack_gap e tiny_projection ?p])"
    by simp
qed

section \<open>One pack\<close>

lemma dict_get_with_projection [simp]:
  "k \<noteq> ''projection'' \<Longrightarrow> dict_get (with_projection e facts spec b out) k = dict_get out k"
  by (simp add: with_projection_def)

lemma field_values_PStrs: "dict_get d k = PStrs xs \<Longrightarrow> length (field_values e d k) \<le> length xs"
  by (simp add: field_values_def py_str_def comp_def)

text \<open>
  Within the budget or a marker: whatever the payload, a projected pack grants no execution, keeps a
  bounded number of source references and refers to itself as its only context pack.
\<close>

theorem fitted_pack_bounded:
  assumes "dict_get projected ''execution_allowed'' = PBool False"
    and "dict_get projected ''source_refs'' = PStrs refs" and "length refs \<le> n" and "1 \<le> n"
    and out: "out = fit_pack_to_budget e facts spec projected"
  shows "dict_get out ''execution_allowed'' = PBool False"
    and "dict_get out ''context_pack_refs'' = PStrs [''context_pack://'' @ ps_pack_name spec]"
    and "\<exists>rs. dict_get out ''source_refs'' = PStrs rs \<and> length rs \<le> n"
    and "json_chars e out \<le> ps_max_chars spec \<or>
      (\<exists>d. dict_get out ''summary'' = PDict ((''compacted'', PBool True) # d))"
  using assms(1-4) unfolding out fit_pack_to_budget_def fit_compact_def fit_marker_def Let_def
  by (auto simp: summary_compact_marker_def)

end
