(* ===== verification/Position_Valuation.thy ===== *)
theory Position_Valuation
  imports Authority_Models
begin

text \<open>
  The valuation of positions (\<^verbatim>\<open>position_valuation.py\<close>) and the scalar and time rules of capital
  imports it rests on (\<^verbatim>\<open>capital_import_contract.py\<close>): evidence is assessed into a status with
  findings, and totals are formed of admitted components of one currency only.  Durations are
  microseconds.
\<close>

section \<open>Findings and scalars\<close>

record import_finding =
  if_code :: string
  if_severity :: string
  if_message :: string
  if_record_type :: "string option"
  if_record_number :: "int option"
  if_field :: "string option"
  if_record_id :: "string option"

definition import_blocking :: "string \<Rightarrow> string \<Rightarrow> string option \<Rightarrow> int option \<Rightarrow> string option \<Rightarrow> import_finding" where
  "import_blocking code message record_type record_number field =
     \<lparr>if_code = code, if_severity = ''blocking'', if_message = message, if_record_type = record_type,
      if_record_number = record_number, if_field = field, if_record_id = None\<rparr>"

text \<open>
  What \<^verbatim>\<open>Decimal(text)\<close> gives: no number, an infinity or NaN, or a finite number.  The finding of a
  raised \<^verbatim>\<open>CapitalImportContractError\<close> is its left value.
\<close>

datatype decimal_reading = NoNumber | NonFinite | Finite decimal

datatype scalar_input = ScalarDecimal decimal | ScalarNonFinite | ScalarOther pyval

definition exact_decimal ::
  "'e env_scheme \<Rightarrow> (string \<Rightarrow> decimal_reading) \<Rightarrow> scalar_input \<Rightarrow> string \<Rightarrow> string option \<Rightarrow> int option \<Rightarrow>
   import_finding + decimal" where
  "exact_decimal e decimal_of v field record_type record_number =
     (let fault = (\<lambda>code message. Inl (import_blocking code message record_type record_number (Some field)));
          parsed = (case v of
             ScalarDecimal d \<Rightarrow> Inr (Finite d)
           | ScalarNonFinite \<Rightarrow> Inr NonFinite
           | ScalarOther x \<Rightarrow>
               (case x of
                  PFloat _ \<Rightarrow> Inl ()
                | PBool _ \<Rightarrow> Inl ()
                | _ \<Rightarrow> Inr (decimal_of (py_strip (py_str e x))))) in
      case parsed of
        Inl _ \<Rightarrow> fault ''monetary_float_forbidden''
                 (field @ '' must be an exact decimal string or Decimal, not float'')
      | Inr NoNumber \<Rightarrow> fault ''invalid_decimal'' (field @ '' is not a valid decimal amount'')
      | Inr NonFinite \<Rightarrow> fault ''non_finite_decimal'' (field @ '' must be finite'')
      | Inr (Finite d) \<Rightarrow> Inr d)"

definition currency_code ::
  "string option \<Rightarrow> string \<Rightarrow> string option \<Rightarrow> int option \<Rightarrow> import_finding + string" where
  "currency_code v field record_type record_number =
     (let cleaned = py_upper (py_strip (or_else v [])) in
      if length cleaned \<noteq> 3 \<or> \<not> list_all ascii_alpha cleaned
      then Inl (import_blocking ''invalid_or_missing_currency''
             (field @ '' must be an explicit three-letter currency code'') record_type record_number (Some field))
      else Inr cleaned)"

text \<open>An ISO text is no timestamp, a naive one, or an instant.\<close>

datatype clock_reading = BadClock | NaiveClock | Instant int

definition read_clock :: "'e env_scheme \<Rightarrow> string \<Rightarrow> clock_reading" where
  "read_clock e s =
     (case fromisoformat e (replace_Z (py_strip s)) of
        None \<Rightarrow> BadClock
      | Some (t, None) \<Rightarrow> NaiveClock
      | Some (t, Some off) \<Rightarrow> Instant (t - off))"

definition canonical_utc ::
  "'e env_scheme \<Rightarrow> string \<Rightarrow> string \<Rightarrow> string option \<Rightarrow> int option \<Rightarrow> import_finding + string" where
  "canonical_utc e v field record_type record_number =
     (let fault = (\<lambda>code message. Inl (import_blocking code message record_type record_number (Some field))) in
      case read_clock e v of
        BadClock \<Rightarrow> fault ''invalid_timestamp'' (field @ '' is not a valid ISO-8601 timestamp'')
      | NaiveClock \<Rightarrow> fault ''timezone_ambiguous'' (field @ '' must include a UTC offset'')
      | Instant t \<Rightarrow> Inr (isoformat e t))"

record import_time_semantics =
  ts_effective_at_utc :: string
  ts_observed_at_utc :: string
  ts_valued_at_utc :: "string option"
  ts_ingested_at_utc :: string
  ts_recorded_at_utc :: string

text \<open>The canonical texts are read once more for the order of the clocks.\<close>

definition clock_after :: "'e env_scheme \<Rightarrow> string \<Rightarrow> string \<Rightarrow> bool" where
  "clock_after e a b =
     (case (fromisoformat e a, fromisoformat e b) of
        (Some (s, Some o1), Some (t, Some o2)) \<Rightarrow> t - o2 < s - o1 | _ \<Rightarrow> False)"

definition build_time_semantics ::
  "'e env_scheme \<Rightarrow> string \<Rightarrow> string \<Rightarrow> string option \<Rightarrow> string \<Rightarrow> string option \<Rightarrow>
   import_finding + import_time_semantics \<times> import_finding list" where
  "build_time_semantics e effective_at observed_at valued_at ingested_at recorded_at =
     (let clock = (\<lambda>v field. canonical_utc e v field None None);
          order = (\<lambda>message. Inl (import_blocking ''invalid_time_order'' message None None None)) in
      case clock effective_at ''effective_at_utc'' of Inl f \<Rightarrow> Inl f | Inr effective \<Rightarrow>
      case clock observed_at ''observed_at_utc'' of Inl f \<Rightarrow> Inl f | Inr observed \<Rightarrow>
      case (case truthy valued_at of
              None \<Rightarrow> Inr None
            | Some v \<Rightarrow> (case clock v ''valued_at_utc'' of Inl f \<Rightarrow> Inl f | Inr x \<Rightarrow> Inr (Some x))) of
        Inl f \<Rightarrow> Inl f | Inr valued \<Rightarrow>
      case clock ingested_at ''ingested_at_utc'' of Inl f \<Rightarrow> Inl f | Inr ingested \<Rightarrow>
      case clock (or_else recorded_at ingested) ''recorded_at_utc'' of Inl f \<Rightarrow> Inl f | Inr recorded \<Rightarrow>
      if clock_after e effective observed then order ''effective_at_utc cannot follow observed_at_utc''
      else if clock_after e observed ingested then order ''observed_at_utc cannot follow ingested_at_utc''
      else if clock_after e ingested recorded then order ''ingested_at_utc cannot follow recorded_at_utc''
      else if (case valued of None \<Rightarrow> False | Some v \<Rightarrow> clock_after e v observed)
      then order ''valued_at_utc cannot follow observed_at_utc''
      else Inr (\<lparr>ts_effective_at_utc = effective, ts_observed_at_utc = observed, ts_valued_at_utc = valued,
                ts_ingested_at_utc = ingested, ts_recorded_at_utc = recorded\<rparr>, []))"

definition completeness_status :: "import_finding list \<Rightarrow> string" where
  "completeness_status findings =
     (if list_ex (\<lambda>f. if_severity f = ''blocking'') findings then ''blocked''
      else if findings \<noteq> [] then ''partial'' else ''complete'')"

section \<open>Evidence and policy\<close>

datatype valuation_status = Valued | ValuedConverted | Unpriced | FxMissing | Stale | UnknownLegacy

primrec status_value :: "valuation_status \<Rightarrow> string" where
  "status_value Valued = ''valued''"
| "status_value ValuedConverted = ''valued_converted''"
| "status_value Unpriced = ''unpriced''"
| "status_value FxMissing = ''fx_missing''"
| "status_value Stale = ''stale''"
| "status_value UnknownLegacy = ''unknown_legacy''"

definition ADMITTED_VALUATION_STATUSES :: "string list" where
  "ADMITTED_VALUATION_STATUSES = [status_value Valued, status_value ValuedConverted]"

record valuation_evidence =
  ve_quantity :: decimal
  ve_market_value :: "decimal option"
  ve_valuation_currency :: "string option"
  ve_unit_price :: "decimal option"
  ve_price_currency :: "string option"
  ve_valued_at_utc :: "string option"
  ve_price_source_ref :: "string option"
  ve_fx_rate :: "decimal option"
  ve_fx_as_of_utc :: "string option"
  ve_fx_source_ref :: "string option"

record valuation_policy =
  vp_policy_id :: string
  vp_max_price_age :: int
  vp_max_fx_age :: int
  vp_reconciliation_tolerance :: decimal

definition hours :: "int \<Rightarrow> int" where
  "hours n = n * 3600 * 1000000"

definition BASE_VALUATION_POLICY_V1 :: valuation_policy where
  "BASE_VALUATION_POLICY_V1 =
     \<lparr>vp_policy_id = ''finharness.position_valuation.base.v1'', vp_max_price_age = hours 24,
      vp_max_fx_age = hours 24, vp_reconciliation_tolerance = Dec 1 (- 2)\<rparr>"

record valuation_assessment =
  va_status :: valuation_status
  va_findings :: "import_finding list"
  va_policy_id :: string
  va_evaluated_at_utc :: string

definition assessment_admitted :: "valuation_assessment \<Rightarrow> bool" where
  "assessment_admitted a \<longleftrightarrow>
     status_value (va_status a) \<in> set ADMITTED_VALUATION_STATUSES \<and> va_findings a = []"

definition assessment_codes :: "valuation_assessment \<Rightarrow> string list" where
  "assessment_codes a = map if_code (va_findings a)"

definition parse_valuation_evaluation_clock :: "'e env_scheme \<Rightarrow> string \<Rightarrow> int res" where
  "parse_valuation_evaluation_clock e raw =
     (if raw = [] then Inl (ValueError ''evaluation clock is empty'')
      else case read_clock e raw of
        BadClock \<Rightarrow> Inl (ValueError ''invalid evaluation clock'')
      | NaiveClock \<Rightarrow> Inl (ValueError ''timezone-naive evaluation clock'')
      | Instant t \<Rightarrow> Inr t)"

section \<open>Assessment\<close>

definition valuation_finding ::
  "string option \<Rightarrow> int option \<Rightarrow> string \<Rightarrow> string \<Rightarrow> string \<Rightarrow> import_finding" where
  "valuation_finding record_id record_number code message field =
     \<lparr>if_code = code, if_severity = ''blocking'', if_message = message, if_record_type = Some ''position'',
      if_record_number = record_number, if_field = Some field, if_record_id = record_id\<rparr>"

type_synonym reporter = "string \<Rightarrow> string \<Rightarrow> string \<Rightarrow> import_finding"

definition report_when :: "bool \<Rightarrow> import_finding \<Rightarrow> import_finding list" where
  "report_when c f = (if c then [f] else [])"

definition has_typed_evidence :: "valuation_evidence \<Rightarrow> bool" where
  "has_typed_evidence ev \<longleftrightarrow>
     ve_unit_price ev \<noteq> None \<or> ve_fx_rate ev \<noteq> None \<or>
     list_ex (\<lambda>s. truthy s \<noteq> None)
       [ve_valuation_currency ev, ve_price_currency ev, ve_valued_at_utc ev, ve_price_source_ref ev,
        ve_fx_as_of_utc ev, ve_fx_source_ref ev]"

definition structural_findings :: "reporter \<Rightarrow> valuation_evidence \<Rightarrow> import_finding list" where
  "structural_findings miss ev =
     report_when (ve_market_value ev = None)
       (miss ''market_value_missing'' ''market_value is required'' ''market_value'') @
     report_when (ve_unit_price ev = None)
       (miss ''unit_price_missing'' ''unit_price is required'' ''unit_price'') @
     report_when (truthy (ve_valuation_currency ev) = None)
       (miss ''valuation_currency_missing'' ''valuation_currency is required'' ''valuation_currency'') @
     report_when (truthy (ve_price_currency ev) = None)
       (miss ''price_currency_missing'' ''price_currency is required'' ''price_currency'') @
     report_when (truthy (ve_valued_at_utc ev) = None)
       (miss ''valued_at_utc_missing'' ''valued_at_utc is required'' ''valued_at_utc'') @
     report_when (truthy (ve_price_source_ref ev) = None)
       (miss ''price_source_ref_missing'' ''price_source_ref is required'' ''price_source_ref'')"

definition cross_currency :: "valuation_evidence \<Rightarrow> bool" where
  "cross_currency ev \<longleftrightarrow>
     ve_price_currency ev \<noteq> None \<and> ve_valuation_currency ev \<noteq> None \<and>
     ve_price_currency ev \<noteq> ve_valuation_currency ev"

definition fx_presence_findings :: "reporter \<Rightarrow> valuation_evidence \<Rightarrow> import_finding list" where
  "fx_presence_findings report ev =
     (if \<not> cross_currency ev then []
      else (case ve_fx_rate ev of
              None \<Rightarrow> [report ''fx_rate_missing'' ''fx_rate is required for cross-currency valuation'' ''fx_rate'']
            | Some r \<Rightarrow> report_when (dec_le r dec_zero)
                (report ''fx_rate_not_positive'' ''fx_rate must be positive'' ''fx_rate'')) @
           report_when (truthy (ve_fx_as_of_utc ev) = None)
             (report ''fx_as_of_utc_missing'' ''fx_as_of_utc is required for cross-currency valuation''
                ''fx_as_of_utc'') @
           report_when (truthy (ve_fx_source_ref ev) = None)
             (report ''fx_source_ref_missing'' ''fx_source_ref is required for cross-currency valuation''
                ''fx_source_ref''))"

text \<open>
  One timestamp of the evidence: its findings and, when it has an instant, the instant (a late one
  included).  The prefix makes the codes, the field the messages.
\<close>

definition stamp_reading ::
  "'e env_scheme \<Rightarrow> reporter \<Rightarrow> string \<Rightarrow> string \<Rightarrow> string option \<Rightarrow> int \<Rightarrow> import_finding list \<times> int option" where
  "stamp_reading e report prefix field raw evaluated_at =
     (case truthy raw of
        None \<Rightarrow> ([], None)
      | Some s \<Rightarrow>
          (case read_clock e s of
             BadClock \<Rightarrow> ([report (prefix @ ''_invalid'') (field @ '' is not a valid ISO-8601 timestamp'') field], None)
           | NaiveClock \<Rightarrow>
               ([report (prefix @ ''_not_timezone_aware'') (field @ '' must include a UTC offset'') field], None)
           | Instant t \<Rightarrow>
               (report_when (evaluated_at < t)
                  (report (prefix @ ''_after_evaluation'') (field @ '' cannot follow evaluation time'') field),
                Some t)))"

definition dec_mul :: "decimal \<Rightarrow> decimal \<Rightarrow> decimal" where
  "dec_mul x y = ctx_fix (coef x * coef y) (dexp x + dexp y)"

definition dec_abs :: "decimal \<Rightarrow> decimal" where
  "dec_abs x = ctx_fix \<bar>coef x\<bar> (dexp x)"

definition fx_valid :: "valuation_evidence \<Rightarrow> bool \<Rightarrow> int option \<Rightarrow> bool" where
  "fx_valid ev fx_incomplete fx_as_of \<longleftrightarrow>
     \<not> fx_incomplete \<and> fx_as_of \<noteq> None \<and>
     (case ve_fx_rate ev of None \<Rightarrow> False | Some r \<Rightarrow> \<not> dec_le r dec_zero) \<and>
     truthy (ve_fx_as_of_utc ev) \<noteq> None \<and> truthy (ve_fx_source_ref ev) \<noteq> None"

definition expected_value :: "valuation_evidence \<Rightarrow> bool \<Rightarrow> decimal \<Rightarrow> decimal" where
  "expected_value ev use_fx price =
     (let expected = dec_mul (ve_quantity ev) price in
      if use_fx then (case ve_fx_rate ev of None \<Rightarrow> expected | Some r \<Rightarrow> dec_mul expected r) else expected)"

definition reconciliation_findings ::
  "reporter \<Rightarrow> valuation_evidence \<Rightarrow> valuation_policy \<Rightarrow> bool \<Rightarrow> import_finding list" where
  "reconciliation_findings report ev policy fx_ok =
     (case (ve_market_value ev, ve_unit_price ev, truthy (ve_valuation_currency ev), truthy (ve_price_currency ev)) of
        (Some market_value, Some price, Some _, Some _) \<Rightarrow>
          if cross_currency ev \<and> \<not> fx_ok then []
          else report_when
            (dec_less (vp_reconciliation_tolerance policy)
               (dec_abs (dec_sub (expected_value ev (cross_currency ev \<and> fx_ok) price) market_value)))
            (report ''valuation_components_do_not_reconcile''
               ''market_value does not reconcile with quantity * unit_price [* fx]'' ''market_value'')
      | _ \<Rightarrow> [])"

definition older_than :: "int option \<Rightarrow> int \<Rightarrow> int \<Rightarrow> bool" where
  "older_than stamp_at evaluated_at age =
     (case stamp_at of None \<Rightarrow> False | Some t \<Rightarrow> age < evaluated_at - t)"

definition coarse_finding :: "reporter \<Rightarrow> valuation_status \<Rightarrow> import_finding list" where
  "coarse_finding report status =
     report_when (status \<in> {Unpriced, FxMissing, Stale, UnknownLegacy})
       (report (''valuation_'' @ status_value status) (''position valuation status is '' @ status_value status)
          ''valuation_status'')"

text \<open>
  The five groups of findings and the two staleness flags; every finding on the exchange rate marks
  the rate evidence as incomplete.
\<close>

definition assess_parts ::
  "'e env_scheme \<Rightarrow> reporter \<Rightarrow> valuation_evidence \<Rightarrow> int \<Rightarrow> valuation_policy \<Rightarrow> bool \<Rightarrow>
   import_finding list \<times> import_finding list \<times> import_finding list \<times> import_finding list \<times> bool \<times> bool" where
  "assess_parts e report ev evaluated_at policy check_freshness =
     (let structural = structural_findings report ev;
          (timestamp_findings, valued_at) =
            stamp_reading e report ''valued_at'' ''valued_at_utc'' (ve_valued_at_utc ev) evaluated_at;
          (fx_stamp, fx_as_of) =
            stamp_reading e report ''fx_as_of'' ''fx_as_of_utc'' (ve_fx_as_of_utc ev) evaluated_at;
          fx_findings = fx_presence_findings report ev @ fx_stamp;
          recon = reconciliation_findings report ev policy (fx_valid ev (fx_findings \<noteq> []) fx_as_of);
          price_stale = (check_freshness \<and> older_than valued_at evaluated_at (vp_max_price_age policy));
          fx_stale = (check_freshness \<and> cross_currency ev \<and>
                      older_than fx_as_of evaluated_at (vp_max_fx_age policy)) in
      (structural, timestamp_findings, fx_findings, recon, price_stale, fx_stale))"

definition assess_position_valuation ::
  "'e env_scheme \<Rightarrow> valuation_evidence \<Rightarrow> string option \<Rightarrow> int option \<Rightarrow> string \<Rightarrow> valuation_policy \<Rightarrow> bool \<Rightarrow> bool \<Rightarrow>
   valuation_assessment res" where
  "assess_position_valuation e ev record_id record_number evaluated_at_utc policy check_freshness
     allow_unknown_legacy =
     (let report = valuation_finding record_id record_number;
          assessment = (\<lambda>status findings. Inr
            \<lparr>va_status = status, va_findings = findings, va_policy_id = vp_policy_id policy,
             va_evaluated_at_utc = evaluated_at_utc\<rparr>) in
      if \<not> has_typed_evidence ev \<and> allow_unknown_legacy
      then assessment UnknownLegacy
        [report ''valuation_unknown_legacy'' ''position lacks typed valuation evidence'' ''valuation_status'']
      else rbind (parse_valuation_evaluation_clock e evaluated_at_utc) (\<lambda>evaluated_at.
        let (structural, timestamp_findings, fx_findings, recon, price_stale, fx_stale) =
              assess_parts e report ev evaluated_at policy check_freshness;
            status =
              (if structural \<noteq> [] \<or> timestamp_findings \<noteq> [] \<or> recon \<noteq> [] then Unpriced
               else if cross_currency ev \<and> fx_findings \<noteq> [] then FxMissing
               else if price_stale \<or> fx_stale then Stale
               else if cross_currency ev then ValuedConverted else Valued);
            freshness =
              report_when price_stale
                (report ''market_price_stale'' ''market price exceeds admitted freshness window'' ''valued_at_utc'') @
              report_when fx_stale
                (report ''fx_stale'' ''FX evidence exceeds admitted freshness window'' ''fx_as_of_utc'');
            detail = structural @ timestamp_findings @ fx_findings @ recon @ freshness;
            findings = coarse_finding report status @ detail in
        if status \<in> {Valued, ValuedConverted} \<and> findings \<noteq> []
        then assessment Unpriced (coarse_finding report Unpriced @ detail)
        else assessment status findings))"

section \<open>Positions\<close>

record position =
  po_position_id :: string
  po_snapshot_id :: string
  po_account_id :: string
  po_instrument_id :: "string option"
  po_symbol :: string
  po_quantity :: decimal
  po_market_value :: "decimal option"
  po_cost_basis :: "decimal option"
  po_valuation_currency :: "string option"
  po_unit_price :: "decimal option"
  po_price_currency :: "string option"
  po_valued_at_utc :: "string option"
  po_price_source_ref :: "string option"
  po_fx_rate :: "decimal option"
  po_fx_as_of_utc :: "string option"
  po_fx_source_ref :: "string option"
  po_valuation_status :: string
  po_source_refs :: "string list"
  po_as_of_utc :: string

definition evidence_from_position :: "position \<Rightarrow> valuation_evidence" where
  "evidence_from_position p =
     \<lparr>ve_quantity = po_quantity p, ve_market_value = po_market_value p,
      ve_valuation_currency = po_valuation_currency p, ve_unit_price = po_unit_price p,
      ve_price_currency = po_price_currency p, ve_valued_at_utc = po_valued_at_utc p,
      ve_price_source_ref = po_price_source_ref p, ve_fx_rate = po_fx_rate p,
      ve_fx_as_of_utc = po_fx_as_of_utc p, ve_fx_source_ref = po_fx_source_ref p\<rparr>"

definition policy_for :: "int option \<Rightarrow> valuation_policy" where
  "policy_for max_age =
     (case max_age of
        None \<Rightarrow> BASE_VALUATION_POLICY_V1
      | Some age \<Rightarrow> BASE_VALUATION_POLICY_V1\<lparr>vp_max_price_age := age, vp_max_fx_age := age\<rparr>)"

definition valuation_blockers ::
  "'e env_scheme \<Rightarrow> position \<Rightarrow> int option \<Rightarrow> int option \<Rightarrow> string list res" where
  "valuation_blockers e p evaluated_at max_age =
     (let evaluated_at_utc = (case evaluated_at of
            Some t \<Rightarrow> isoformat e t
          | None \<Rightarrow> or_else (po_valued_at_utc p) ''1970-01-01T00:00:00+00:00'') in
      rbind (assess_position_valuation e (evidence_from_position p) (Some (po_position_id p)) None evaluated_at_utc
               (policy_for max_age) (evaluated_at \<noteq> None) True) (\<lambda>a.
        Inr (dedupe_by [] (assessment_codes a @
          (if po_valuation_status p \<noteq> status_value (va_status a) then [''valuation_status_mismatch''] else [])))))"

record valuation_totals =
  vt_base_currency :: "string option"
  vt_unified_total :: "decimal option"
  vt_per_currency_totals :: "(string \<times> decimal) list"
  vt_blockers :: "string list"

definition totals_admitted :: "valuation_totals \<Rightarrow> bool" where
  "totals_admitted t \<longleftrightarrow> vt_blockers t = [] \<and> vt_unified_total t \<noteq> None"

definition add_total :: "string \<Rightarrow> decimal \<Rightarrow> (string \<times> decimal) list \<Rightarrow> (string \<times> decimal) list" where
  "add_total c v totals =
     (case map_of totals c of
        None \<Rightarrow> totals @ [(c, dec_add dec_zero v)]
      | Some s \<Rightarrow> map (\<lambda>(k, x). if k = c then (k, dec_add s v) else (k, x)) totals)"

text \<open>The loop over the positions: totals by currency in order of appearance, and the blockers.\<close>

fun total_loop ::
  "'e env_scheme \<Rightarrow> int option \<Rightarrow> int option \<Rightarrow> position list \<Rightarrow> (string \<times> decimal) list \<Rightarrow> string list \<Rightarrow>
   ((string \<times> decimal) list \<times> string list) res" where
  "total_loop e evaluated_at max_age [] totals blockers = Inr (totals, blockers)"
| "total_loop e evaluated_at max_age (p # ps) totals blockers =
     rbind (valuation_blockers e p evaluated_at max_age) (\<lambda>row_blockers.
       let blockers' = blockers @ map (\<lambda>code. po_position_id p @ '':'' @ code) row_blockers in
       case (po_market_value p, truthy (po_valuation_currency p)) of
         (Some v, Some c) \<Rightarrow>
           total_loop e evaluated_at max_age ps
             (if row_blockers = [] then add_total c v totals else totals) blockers'
       | _ \<Rightarrow> total_loop e evaluated_at max_age ps totals blockers')"

definition reconcile_position_totals ::
  "'e env_scheme \<Rightarrow> position list \<Rightarrow> int option \<Rightarrow> int option \<Rightarrow> valuation_totals res" where
  "reconcile_position_totals e positions evaluated_at max_age =
     rbind (total_loop e evaluated_at max_age positions [] []) (\<lambda>(totals, row_blockers).
       let blockers = row_blockers @ (if 1 < length totals then [''mixed_valuation_currencies''] else []);
           base_currency = (case totals of [(c, s)] \<Rightarrow> Some c | _ \<Rightarrow> None);
           unified = (case totals of [(c, s)] \<Rightarrow> if blockers = [] then Some s else None | _ \<Rightarrow> None) in
       Inr \<lparr>vt_base_currency = base_currency, vt_unified_total = unified,
            vt_per_currency_totals = totals, vt_blockers = blockers\<rparr>)"

end
