(* ===== verification/Artifact_Store.thy ===== *)
theory Artifact_Store
  imports Receipt_IO "HOL-Library.AList"
begin

text \<open>
  The content-addressed evidence store (\<^verbatim>\<open>artifact_store.py\<close>): immutable descriptors claimed by an
  exclusive link, objects stored under the digest of their bytes, a rebuildable index, the audit and
  the recovery of the index.  A directory is an association list from file to content; descriptor
  files are keyed by their resolved path, objects by the digest in their name.  Bytes are strings.
  Every effect of a call has an environment of its own (\<open>es 0\<close>, \<open>es 1\<close>, ...), so a fault can hit any
  of them and leave the earlier ones behind.
\<close>

section \<open>Descriptors\<close>

record artifact_descriptor =
  ad_artifact_id :: string
  ad_artifact_schema :: string
  ad_artifact_schema_version :: string
  ad_content_sha256 :: string
  ad_content_length :: nat
  ad_media_type :: string
  ad_owner_domain :: string
  ad_created_at_utc :: string
  ad_source_refs :: "string list"
  ad_metadata :: jdict

definition is_sha256 :: "string \<Rightarrow> bool" where
  "is_sha256 h \<longleftrightarrow> length h = 64 \<and> list_all (\<lambda>c. c \<in> set ''0123456789abcdef'') h"

definition mk_descriptor :: "artifact_descriptor \<Rightarrow> artifact_descriptor res" where
  "mk_descriptor d =
     (if list_ex (\<lambda>s. py_strip s = [])
           [ad_artifact_id d, ad_artifact_schema d, ad_artifact_schema_version d, ad_media_type d, ad_owner_domain d]
      then Inl (ValueError ''artifact identity and schema fields must be non-empty'')
      else if \<not> is_sha256 (ad_content_sha256 d) then Inl (ValueError ''content_sha256 must be lowercase SHA-256'')
      else Inr (d\<lparr>ad_artifact_id := py_strip (ad_artifact_id d),
                  ad_artifact_schema := py_strip (ad_artifact_schema d),
                  ad_artifact_schema_version := py_strip (ad_artifact_schema_version d),
                  ad_media_type := py_strip (ad_media_type d),
                  ad_owner_domain := py_strip (ad_owner_domain d)\<rparr>))"

text \<open>Descriptors are compared as their JSON dumps.\<close>

definition descriptor_dump :: "artifact_descriptor \<Rightarrow> jdict" where
  "descriptor_dump d =
     [(''descriptor_schema'', PStr ''finharness.artifact_descriptor.v1''),
      (''artifact_id'', PStr (ad_artifact_id d)), (''artifact_schema'', PStr (ad_artifact_schema d)),
      (''artifact_schema_version'', PStr (ad_artifact_schema_version d)),
      (''content_sha256'', PStr (ad_content_sha256 d)), (''content_length'', PInt (int (ad_content_length d))),
      (''media_type'', PStr (ad_media_type d)), (''owner_domain'', PStr (ad_owner_domain d)),
      (''created_at_utc'', PStr (ad_created_at_utc d)),
      (''source_refs'', PList (map PStr (ad_source_refs d))), (''metadata'', PDict (ad_metadata d))]"

definition descriptors_compatible :: "artifact_descriptor \<Rightarrow> artifact_descriptor \<Rightarrow> bool \<Rightarrow> bool" where
  "descriptors_compatible existing candidate created_at_was_supplied =
     (let strip = (\<lambda>d. if created_at_was_supplied then descriptor_dump d
                       else dict_without (descriptor_dump d) ''created_at_utc'') in
      py_eq (PDict (strip existing)) (PDict (strip candidate)))"

section \<open>Files\<close>

record artifact_finding =
  af_code :: string
  af_artifact_id :: "string option"
  af_path :: "string option"
  af_recoverable :: bool

record audit_report =
  ar_ok :: bool
  ar_descriptor_count :: nat
  ar_indexed_count :: nat
  ar_object_count :: nat
  ar_findings :: "artifact_finding list"

record recovery_receipt =
  rr_recovery_id :: string
  rr_created_at_utc :: string
  rr_dry_run :: bool
  rr_before :: audit_report
  rr_after :: audit_report
  rr_repaired_artifact_ids :: "string list"
  rr_unresolved_findings :: "artifact_finding list"

text \<open>
  What reading an index file gives: a document of the right schema with its content, a document the
  reader refuses with an exception it handles, or JSON that is not an object, on which
  \<^verbatim>\<open>payload.get\<close> raises.
\<close>

datatype 'a index_file = ValidIndex 'a | InvalidIndex | IndexNotObject

record artifact_fs =
  fs_descriptors :: "(string \<times> artifact_descriptor option) list"
  fs_objects :: "(string \<times> string) list"
  fs_index :: "(string \<times> string) list index_file option"
  fs_entries :: "(string \<times> (string \<times> string) index_file) list"
  fs_recovery :: "(string \<times> recovery_receipt) list"

definition not_found :: "string \<Rightarrow> exn" where
  "not_found m = ArtifactError ''ArtifactNotFoundError'' m"

definition conflict :: "string \<Rightarrow> exn" where
  "conflict m = ArtifactError ''ArtifactConflictError'' m"

definition descriptor_path :: "'e io_env_scheme \<Rightarrow> string \<Rightarrow> string \<Rightarrow> string res" where
  "descriptor_path e root artifact_id = resolve_under e root [''descriptors'', artifact_id @ ''.json'']"

definition object_path :: "'e io_env_scheme \<Rightarrow> string \<Rightarrow> string \<Rightarrow> string res" where
  "object_path e root content_hash =
     resolve_under e root [''objects'', take 2 content_hash, content_hash @ ''.bin'']"

definition exclusive_link ::
  "'e io_env_scheme \<Rightarrow> 'k \<Rightarrow> 'v \<Rightarrow> ('k \<times> 'v) list \<Rightarrow> bool res \<times> ('k \<times> 'v) list" where
  "exclusive_link e k v dir =
     (if io_fault e EnsureDirectory \<or> io_fault e TempWrite \<or> io_fault e LinkTarget
      then (Inl (OsError ''link''), dir)
      else let taken = k \<in> fst ` set dir; dir' = (if taken then dir else dir @ [(k, v)]) in
        (if io_fault e RemoveTemp then Inl (OsError ''unlink'') else Inr (\<not> taken), dir'))"

section \<open>Reading\<close>

definition descriptor ::
  "'e io_env_scheme \<Rightarrow> string \<Rightarrow> string \<Rightarrow> artifact_fs \<Rightarrow> artifact_descriptor res" where
  "descriptor e root artifact_id fs =
     rbind (descriptor_path e root artifact_id) (\<lambda>path.
     case map_of (fs_descriptors fs) path of
       None \<Rightarrow> Inl (not_found (''artifact descriptor not found: '' @ artifact_id))
     | Some None \<Rightarrow> Inl (ValueError ''Invalid JSON'')
     | Some (Some d) \<Rightarrow> Inr d)"

definition read_artifact :: "'e io_env_scheme \<Rightarrow> string \<Rightarrow> string \<Rightarrow> artifact_fs \<Rightarrow> string res" where
  "read_artifact e root artifact_id fs =
     rbind (descriptor e root artifact_id fs) (\<lambda>d.
     rbind (object_path e root (ad_content_sha256 d)) (\<lambda>_.
     case map_of (fs_objects fs) (ad_content_sha256 d) of
       None \<Rightarrow> Inl (not_found (''artifact bytes not found: '' @ artifact_id))
     | Some content \<Rightarrow>
         if sha256 e content \<noteq> ad_content_sha256 d
         then Inl (ArtifactError ''ArtifactStoreError'' (''artifact content hash mismatch: '' @ artifact_id))
         else Inr content))"

section \<open>Writing\<close>

record put_args =
  pa_artifact_id :: string
  pa_content :: string
  pa_artifact_schema :: string
  pa_artifact_schema_version :: string
  pa_media_type :: string
  pa_owner_domain :: string
  pa_source_refs :: "string list"
  pa_metadata :: jdict
  pa_created_at_utc :: "string option"

definition put_descriptor :: "'e io_env_scheme \<Rightarrow> put_args \<Rightarrow> artifact_descriptor res" where
  "put_descriptor e a =
     mk_descriptor
       \<lparr>ad_artifact_id = pa_artifact_id a, ad_artifact_schema = pa_artifact_schema a,
        ad_artifact_schema_version = pa_artifact_schema_version a, ad_content_sha256 = sha256 e (pa_content a),
        ad_content_length = length (pa_content a), ad_media_type = pa_media_type a,
        ad_owner_domain = pa_owner_domain a, ad_created_at_utc = or_else (pa_created_at_utc a) (clock e 0),
        ad_source_refs = pa_source_refs a, ad_metadata = pa_metadata a\<rparr>"

definition write_bytes_once ::
  "'e io_env_scheme \<Rightarrow> string \<Rightarrow> string \<Rightarrow> (string \<times> string) list \<Rightarrow> unit res \<times> (string \<times> string) list" where
  "write_bytes_once e h content objects =
     (case map_of objects h of
        Some old \<Rightarrow>
          (if old \<noteq> content then Inl (conflict (''SHA-256 object collision for '' @ h)) else Inr (), objects)
      | None \<Rightarrow>
          (case exclusive_link e h content objects of
             (Inl x, objects') \<Rightarrow> (Inl x, objects')
           | (Inr _, objects') \<Rightarrow>
               (if map_of objects' h \<noteq> Some content
                then Inl (conflict (''SHA-256 object collision for '' @ h)) else Inr (), objects')))"

definition index_entry_name :: "'e io_env_scheme \<Rightarrow> string \<Rightarrow> string" where
  "index_entry_name e artifact_id = sha256 e (utf8 artifact_id) @ ''.json''"

definition write_index_entry ::
  "'e io_env_scheme \<Rightarrow> string \<Rightarrow> artifact_descriptor \<Rightarrow> artifact_fs \<Rightarrow> unit res \<times> artifact_fs" where
  "write_index_entry e root d fs =
     (case resolve_under e root [''index-entries'', index_entry_name e (ad_artifact_id d)] of
        Inl x \<Rightarrow> (Inl x, fs)
      | Inr path \<Rightarrow>
          if io_fault e EnsureDirectory \<or> io_fault e TempWrite \<or> io_fault e ReplaceTarget
          then (Inl (OsError path), fs)
          else (Inr (), fs\<lparr>fs_entries :=
            AList.update path (ValidIndex (ad_artifact_id d, ad_content_sha256 d)) (fs_entries fs)\<rparr>))"

definition publish_artifact ::
  "(nat \<Rightarrow> 'e io_env_scheme) \<Rightarrow> string \<Rightarrow> put_args \<Rightarrow> string \<Rightarrow> artifact_descriptor \<Rightarrow> artifact_fs \<Rightarrow>
   artifact_descriptor res \<times> artifact_fs" where
  "publish_artifact es root a h persisted fs =
     (case write_bytes_once (es 1) h (pa_content a) (fs_objects fs) of
        (Inl x, os) \<Rightarrow> (Inl x, fs\<lparr>fs_objects := os\<rparr>)
      | (Inr _, os) \<Rightarrow>
          let fs2 = fs\<lparr>fs_objects := os\<rparr> in
          case read_artifact (es 1) root (pa_artifact_id a) fs2 of
            Inl x \<Rightarrow> (Inl x, fs2)
          | Inr content \<Rightarrow>
              if content \<noteq> pa_content a
              then (Inl (conflict (''artifact bytes for '' @ py_quote (pa_artifact_id a) @ '' changed'')), fs2)
              else (case write_index_entry (es 2) root persisted fs2 of
                      (Inl x, fs3) \<Rightarrow> (Inl x, fs3)
                    | (Inr _, fs3) \<Rightarrow> (Inr persisted, fs3)))"

definition put_artifact ::
  "(nat \<Rightarrow> 'e io_env_scheme) \<Rightarrow> string \<Rightarrow> put_args \<Rightarrow> artifact_fs \<Rightarrow> artifact_descriptor res \<times> artifact_fs" where
  "put_artifact es root a fs =
     (case rbind (put_descriptor (es 0) a) (\<lambda>d.
           rbind (descriptor_path (es 0) root (pa_artifact_id a)) (\<lambda>path.
           rbind (object_path (es 0) root (ad_content_sha256 d)) (\<lambda>_. Inr (d, path)))) of
        Inl x \<Rightarrow> (Inl x, fs)
      | Inr (d, path) \<Rightarrow>
          (case exclusive_link (es 0) path (Some d) (fs_descriptors fs) of
             (Inl x, ds) \<Rightarrow> (Inl x, fs\<lparr>fs_descriptors := ds\<rparr>)
           | (Inr won, ds) \<Rightarrow>
               let fs1 = fs\<lparr>fs_descriptors := ds\<rparr> in
               case (if won then Inr d else descriptor (es 0) root (pa_artifact_id a) fs1) of
                 Inl x \<Rightarrow> (Inl x, fs1)
               | Inr persisted \<Rightarrow>
                   if \<not> descriptors_compatible persisted d (pa_created_at_utc a \<noteq> None)
                   then (Inl (conflict (''artifact id '' @ py_quote (pa_artifact_id a) @ '' is immutable'')), fs1)
                   else publish_artifact es root a (ad_content_sha256 d) persisted fs1))"

section \<open>Listing and audit\<close>

text \<open>\<^verbatim>\<open>root.glob("*.json")\<close>: the files directly in a directory, by their resolved paths.\<close>

definition globbed :: "string \<Rightarrow> string \<Rightarrow> bool" where
  "globbed dir path \<longleftrightarrow>
     starts_with path (dir @ ''/'') \<and> CHR ''/'' \<notin> set (drop (length dir + 1) path) \<and>
     drop (length path - 5) path = ''.json''"

definition glob_json :: "string \<Rightarrow> (string \<times> 'v) list \<Rightarrow> (string \<times> 'v) list" where
  "glob_json dir files = sort_key fst (filter (\<lambda>f. globbed dir (fst f)) files)"

text \<open>\<^verbatim>\<open>Path.relative_to\<close> compares the texts of the paths, so the root must be given resolved.\<close>

definition relative_to :: "string \<Rightarrow> string \<Rightarrow> string res" where
  "relative_to path root =
     (if path = root then Inr ''.''
      else if starts_with path (root @ ''/'') then Inr (drop (length root + 1) path)
      else Inl (ValueError (py_quote path @ '' is not in the subpath of '' @ py_quote root)))"

definition artifact_finding_of ::
  "string \<Rightarrow> string \<Rightarrow> string option \<Rightarrow> string option \<Rightarrow> bool \<Rightarrow> artifact_finding res" where
  "artifact_finding_of root code artifact_id path recoverable =
     rbind (case path of None \<Rightarrow> Inr None | Some p \<Rightarrow> rbind (relative_to p root) (\<lambda>r. Inr (Some r))) (\<lambda>rel.
     Inr \<lparr>af_code = code, af_artifact_id = artifact_id, af_path = rel, af_recoverable = recoverable\<rparr>)"

type_synonym descriptor_map = "(string \<times> artifact_descriptor) list"

fun load_descriptor_files ::
  "string \<Rightarrow> (string \<times> artifact_descriptor option) list \<Rightarrow> descriptor_map \<Rightarrow> artifact_finding list \<Rightarrow>
   (descriptor_map \<times> artifact_finding list) res" where
  "load_descriptor_files root [] ds fs = Inr (ds, fs)"
| "load_descriptor_files root ((path, Some d) # files) ds fs =
     load_descriptor_files root files (AList.update (ad_artifact_id d) d ds) fs"
| "load_descriptor_files root ((path, None) # files) ds fs =
     rbind (artifact_finding_of root ''invalid_descriptor'' None (Some path) False) (\<lambda>f.
       load_descriptor_files root files ds (fs @ [f]))"

definition load_descriptors ::
  "'e io_env_scheme \<Rightarrow> string \<Rightarrow> artifact_fs \<Rightarrow> (descriptor_map \<times> artifact_finding list) res" where
  "load_descriptors e root fs =
     rbind (resolve_under e root [''descriptors'']) (\<lambda>dir.
       load_descriptor_files root (glob_json dir (fs_descriptors fs)) [] [])"

definition descriptor_map_of :: "'e io_env_scheme \<Rightarrow> string \<Rightarrow> artifact_fs \<Rightarrow> descriptor_map res" where
  "descriptor_map_of e root fs =
     rbind (load_descriptors e root fs) (\<lambda>(ds, findings).
       if findings \<noteq> []
       then Inl (ArtifactError ''ArtifactStoreError'' ''invalid descriptors prevent index recovery'')
       else Inr ds)"

definition list_descriptors ::
  "'e io_env_scheme \<Rightarrow> string \<Rightarrow> string option \<Rightarrow> string option \<Rightarrow> artifact_fs \<Rightarrow> artifact_descriptor list res" where
  "list_descriptors e root owner_domain artifact_schema fs =
     rbind (descriptor_map_of e root fs) (\<lambda>ds.
       Inr (sort_key ad_artifact_id
         (filter (\<lambda>d. (owner_domain = None \<or> Some (ad_owner_domain d) = owner_domain) \<and>
                      (artifact_schema = None \<or> Some (ad_artifact_schema d) = artifact_schema)) (map snd ds))))"

type_synonym index_map = "(string \<times> string) list"

fun load_index_entries ::
  "string \<Rightarrow> (string \<times> (string \<times> string) index_file) list \<Rightarrow> index_map \<Rightarrow> artifact_finding list \<Rightarrow>
   (index_map \<times> artifact_finding list) res" where
  "load_index_entries root [] ix fs = Inr (ix, fs)"
| "load_index_entries root ((path, ValidIndex (i, h)) # files) ix fs =
     load_index_entries root files (AList.update i h ix) fs"
| "load_index_entries root ((path, InvalidIndex) # files) ix fs =
     rbind (artifact_finding_of root ''invalid_index'' None (Some path) True) (\<lambda>f.
       load_index_entries root files ix (fs @ [f]))"
| "load_index_entries root ((path, IndexNotObject) # files) ix fs = Inl (AttributeError ''get'')"

definition load_index ::
  "'e io_env_scheme \<Rightarrow> string \<Rightarrow> artifact_fs \<Rightarrow> artifact_finding list \<Rightarrow>
   (index_map \<times> artifact_finding list) res" where
  "load_index e root fs findings =
     rbind (resolve_under e root [''index.json'']) (\<lambda>path.
     rbind (case fs_index fs of
              None \<Rightarrow> Inr ([], findings)
            | Some (ValidIndex artifacts) \<Rightarrow> Inr (artifacts, findings)
            | Some InvalidIndex \<Rightarrow>
                rbind (artifact_finding_of root ''invalid_index'' None (Some path) True) (\<lambda>f.
                  Inr ([], findings @ [f]))
            | Some IndexNotObject \<Rightarrow> Inl (AttributeError ''get'')) (\<lambda>(ix, findings).
     rbind (resolve_under e root [''index-entries'']) (\<lambda>dir.
       load_index_entries root (glob_json dir (fs_entries fs)) ix findings)))"

text \<open>The findings on one descriptor.\<close>

definition content_findings ::
  "'e io_env_scheme \<Rightarrow> string \<Rightarrow> artifact_fs \<Rightarrow> string \<Rightarrow> artifact_descriptor \<Rightarrow> artifact_finding list res" where
  "content_findings e root fs artifact_id d =
     rbind (object_path e root (ad_content_sha256 d)) (\<lambda>path.
     let report = (\<lambda>code recoverable. artifact_finding_of root code (Some artifact_id) (Some path) recoverable) in
     case map_of (fs_objects fs) (ad_content_sha256 d) of
       None \<Rightarrow> rbind (report ''missing_bytes'' True) (\<lambda>f. Inr [f])
     | Some content \<Rightarrow>
         rbind (if sha256 e content \<noteq> ad_content_sha256 d
                then rbind (report ''content_hash_mismatch'' False) (\<lambda>f. Inr [f]) else Inr []) (\<lambda>f1.
         rbind (if length content \<noteq> ad_content_length d
                then rbind (report ''content_length_mismatch'' False) (\<lambda>f. Inr [f]) else Inr []) (\<lambda>f2.
         Inr (f1 @ f2))))"

definition descriptor_findings ::
  "'e io_env_scheme \<Rightarrow> string \<Rightarrow> (string \<rightharpoonup> string list) \<Rightarrow> artifact_fs \<Rightarrow> index_map \<Rightarrow>
   string \<times> artifact_descriptor \<Rightarrow> artifact_finding list res" where
  "descriptor_findings e root expected_schemas fs ix = (\<lambda>(artifact_id, d).
     rbind (content_findings e root fs artifact_id d) (\<lambda>content.
     let plain = (\<lambda>code recoverable. \<lparr>af_code = code, af_artifact_id = Some artifact_id, af_path = None,
                                     af_recoverable = recoverable\<rparr>);
         versions = (case expected_schemas (ad_artifact_schema d) of
                       Some allowed \<Rightarrow> if ad_artifact_schema_version d \<notin> set allowed
                                       then [plain ''schema_version_mismatch'' False] else []
                     | None \<Rightarrow> []);
         indexed = (case map_of ix artifact_id of
                      None \<Rightarrow> [plain ''orphan_descriptor'' True]
                    | Some h \<Rightarrow> if h \<noteq> ad_content_sha256 d then [plain ''stale_index'' True] else []) in
     Inr (content @ versions @ indexed)))"

definition audit ::
  "'e io_env_scheme \<Rightarrow> string \<Rightarrow> (string \<rightharpoonup> string list) \<Rightarrow> artifact_fs \<Rightarrow> audit_report res" where
  "audit e root expected_schemas fs =
     rbind (load_descriptors e root fs) (\<lambda>(ds, findings).
     rbind (load_index e root fs findings) (\<lambda>(ix, findings).
     rbind (map_res (descriptor_findings e root expected_schemas fs ix) ds) (\<lambda>per_descriptor.
     let stale = map (\<lambda>i. \<lparr>af_code = ''stale_index'', af_artifact_id = Some i, af_path = None, af_recoverable = True\<rparr>)
           (sort (filter (\<lambda>i. i \<notin> fst ` set ds) (remdups (map fst ix))));
         orphans = sort (filter (\<lambda>h. h \<notin> (ad_content_sha256 \<circ> snd) ` set ds) (remdups (map fst (fs_objects fs)))) in
     rbind (map_res (\<lambda>h. rbind (object_path e root h) (\<lambda>path.
              artifact_finding_of root ''orphan_bytes'' None (Some path) False)) orphans) (\<lambda>orphaned.
     let all_findings = findings @ concat per_descriptor @ stale @ orphaned in
     Inr \<lparr>ar_ok = (all_findings = []), ar_descriptor_count = length ds, ar_indexed_count = length ix,
          ar_object_count = length (remdups (map fst (fs_objects fs))), ar_findings = all_findings\<rparr>))))"

section \<open>Recovery of the index\<close>

definition write_index ::
  "'e io_env_scheme \<Rightarrow> string \<Rightarrow> descriptor_map \<Rightarrow> artifact_fs \<Rightarrow> unit res \<times> artifact_fs" where
  "write_index e root ds fs =
     (case resolve_under e root [''index.json''] of
        Inl x \<Rightarrow> (Inl x, fs)
      | Inr path \<Rightarrow>
          if io_fault e EnsureDirectory \<or> io_fault e TempWrite \<or> io_fault e ReplaceTarget
          then (Inl (OsError path), fs)
          else (Inr (), fs\<lparr>fs_index :=
            Some (ValidIndex (sort_key fst (map (\<lambda>(i, d). (i, ad_content_sha256 d)) ds)))\<rparr>))"

fun unlink_files ::
  "(nat \<Rightarrow> 'e io_env_scheme) \<Rightarrow> string list \<Rightarrow> (string \<times> 'v) list \<Rightarrow> unit res \<times> (string \<times> 'v) list" where
  "unlink_files es [] dir = (Inr (), dir)"
| "unlink_files es (path # paths) dir =
     (if io_fault (es 0) RemoveTemp then (Inl (OsError path), dir)
      else unlink_files (\<lambda>n. es (Suc n)) paths (AList.delete path dir))"

definition clear_index_entries ::
  "(nat \<Rightarrow> 'e io_env_scheme) \<Rightarrow> string \<Rightarrow> artifact_fs \<Rightarrow> unit res \<times> artifact_fs" where
  "clear_index_entries es root fs =
     (case resolve_under (es 0) root [''index-entries''] of
        Inl x \<Rightarrow> (Inl x, fs)
      | Inr dir \<Rightarrow>
          (case unlink_files es (filter (globbed dir) (map fst (fs_entries fs))) (fs_entries fs) of
             (r, entries) \<Rightarrow> (r, fs\<lparr>fs_entries := entries\<rparr>)))"

definition write_recovery ::
  "'e io_env_scheme \<Rightarrow> string \<Rightarrow> recovery_receipt \<Rightarrow> artifact_fs \<Rightarrow> unit res \<times> artifact_fs" where
  "write_recovery e root receipt fs =
     (case resolve_under e root [''recovery'', rr_recovery_id receipt @ ''.json''] of
        Inl x \<Rightarrow> (Inl x, fs)
      | Inr path \<Rightarrow>
          if io_fault e EnsureDirectory \<or> io_fault e TempWrite \<or> io_fault e ReplaceTarget
          then (Inl (OsError path), fs)
          else (Inr (), fs\<lparr>fs_recovery := AList.update path receipt (fs_recovery fs)\<rparr>))"

definition recovery_of ::
  "'e io_env_scheme \<Rightarrow> bool \<Rightarrow> audit_report \<Rightarrow> audit_report \<Rightarrow> descriptor_map \<Rightarrow> recovery_receipt" where
  "recovery_of e dry_run before after ds =
     \<lparr>rr_recovery_id = ''artifact_recovery_'' @ stamp e 0, rr_created_at_utc = clock e 0, rr_dry_run = dry_run,
      rr_before = before, rr_after = after, rr_repaired_artifact_ids = sort (map fst ds),
      rr_unresolved_findings = filter (\<lambda>f. \<not> af_recoverable f) (ar_findings after)\<rparr>"

definition recover_index ::
  "(nat \<Rightarrow> 'e io_env_scheme) \<Rightarrow> string \<Rightarrow> bool \<Rightarrow> artifact_fs \<Rightarrow> recovery_receipt res \<times> artifact_fs" where
  "recover_index es root dry_run fs =
     (case rbind (audit (es 0) root Map.empty fs) (\<lambda>before.
           rbind (descriptor_map_of (es 0) root fs) (\<lambda>ds. Inr (before, ds))) of
        Inl x \<Rightarrow> (Inl x, fs)
      | Inr (before, ds) \<Rightarrow>
          if dry_run then (Inr (recovery_of (es 0) True before before ds), fs)
          else (case write_index (es 0) root ds fs of
             (Inl x, fs1) \<Rightarrow> (Inl x, fs1)
           | (Inr _, fs1) \<Rightarrow>
               (case clear_index_entries (\<lambda>n. es (Suc (Suc n))) root fs1 of
                  (Inl x, fs2) \<Rightarrow> (Inl x, fs2)
                | (Inr _, fs2) \<Rightarrow>
                    (case audit (es 1) root Map.empty fs2 of
                       Inl x \<Rightarrow> (Inl x, fs2)
                     | Inr after \<Rightarrow>
                         let receipt = recovery_of (es 1) False before after ds in
                         case write_recovery (es 1) root receipt fs2 of
                           (Inl x, fs3) \<Rightarrow> (Inl x, fs3)
                         | (Inr _, fs3) \<Rightarrow> (Inr receipt, fs3)))))"

end
