(* ===== verification/Import_Models.thy ===== *)
theory Import_Models
  imports Position_Valuation Artifact_Store
begin

text \<open>
  The rows a capital import writes (\<^verbatim>\<open>statecore/model_base.py\<close>, \<^verbatim>\<open>statecore/import_models.py\<close>,
  \<^verbatim>\<open>statecore/personal_finance_models.py\<close>), the tables they live in with their constraints, and the
  inventory of production adapters (\<^verbatim>\<open>capital_import_registry.py\<close>).  JSON columns are JSON values.
  The six tables of source-owned rows are kept in one list of rows tagged with their model.
\<close>

section \<open>Rows\<close>

record state_core_row =
  sc_schema_version :: string
  sc_as_of_utc :: string
  sc_authority_level :: string

record sourced_row = state_core_row +
  so_source :: string
  so_source_id :: string

record liability = sourced_row +
  li_liability_id :: string
  li_name :: string
  li_liability_type :: string
  li_balance :: decimal
  li_currency :: string
  li_account_id :: "string option"
  li_interest_rate :: "decimal option"
  li_due_date :: "string option"
  li_source_refs :: "string list"

record financial_goal = sourced_row +
  fg_goal_id :: string
  fg_name :: string
  fg_target_amount :: decimal
  fg_current_amount :: decimal
  fg_currency :: string
  fg_target_date :: "string option"
  fg_status :: string
  fg_source_refs :: "string list"

record cashflow_event = sourced_row +
  cf_cashflow_id :: string
  cf_description :: string
  cf_amount :: decimal
  cf_currency :: string
  cf_event_date :: string
  cf_category :: string
  cf_account_id :: "string option"
  cf_frequency :: "string option"
  cf_source_refs :: "string list"

record tax_event = sourced_row +
  tx_tax_event_id :: string
  tx_event_type :: string
  tx_jurisdiction :: string
  tx_due_date :: string
  tx_estimated_amount :: "decimal option"
  tx_currency :: "string option"
  tx_status :: string
  tx_source_refs :: "string list"

record insurance_policy = sourced_row +
  ip_policy_id :: string
  ip_policy_type :: string
  ip_provider :: string
  ip_coverage_amount :: decimal
  ip_premium_amount :: "decimal option"
  ip_currency :: string
  ip_renewal_date :: "string option"
  ip_status :: string
  ip_source_refs :: "string list"

record document_ref = sourced_row +
  dr_document_id :: string
  dr_document_type :: string
  dr_title :: string
  dr_path :: string
  dr_related_object_id :: "string option"
  dr_source_refs :: "string list"

record account_row = state_core_row +
  ac_account_id :: string
  ac_canonical_account_id :: "string option"
  ac_kind :: string
  ac_venue :: string
  ac_display_name :: string
  ac_source_refs :: "string list"
  ac_created_at_utc :: string

record snapshot_row = state_core_row +
  sn_snapshot_id :: string
  sn_kind :: string
  sn_payload :: jdict
  sn_source_refs :: "string list"

record account_identity = state_core_row +
  ai_canonical_account_id :: string
  ai_source_namespace :: string
  ai_source_native_id :: string
  ai_identity_version :: string
  ai_source_refs :: "string list"

record instrument_identity = state_core_row +
  ii_instrument_id :: string
  ii_symbol :: string
  ii_instrument_type :: string
  ii_venue :: string
  ii_quote_currency :: string
  ii_identity_version :: string
  ii_source_refs :: "string list"

record identity_alias = state_core_row +
  al_alias_id :: string
  al_identity_kind :: string
  al_provider_namespace :: string
  al_provider_alias :: string
  al_canonical_id :: string
  al_mapping_version :: string
  al_source_refs :: "string list"

record capital_import_source = state_core_row +
  ci_source_id :: string
  ci_source_kind :: string
  ci_display_name :: string
  ci_identity_version :: string
  ci_source_refs :: "string list"
  ci_created_at_utc :: string

record capital_import_source_alias = state_core_row +
  ca_alias_id :: string
  ca_source_id :: string
  ca_alias_kind :: string
  ca_alias_value :: string
  ca_created_at_utc :: string

record import_batch = state_core_row +
  ib_batch_id :: string
  ib_source_kind :: string
  ib_source_id :: string
  ib_stable_source_id :: "string option"
  ib_coverage_mode :: string
  ib_source_sha256 :: string
  ib_source_artifact_id :: string
  ib_projection_artifact_id :: "string option"
  ib_projection_sha256 :: "string option"
  ib_projection_schema_version :: "string option"
  ib_projection_payload :: jdict
  ib_effective_at_utc :: "string option"
  ib_observed_at_utc :: "string option"
  ib_recorded_at_utc :: "string option"
  ib_adapter_version :: string
  ib_import_schema_version :: string
  ib_record_counts :: jdict
  ib_covered_domains :: "string list"
  ib_supersedes_batch_id :: "string option"
  ib_correction_reason :: "string option"
  ib_corporate_action_status :: string
  ib_corporate_action_gaps :: "string list"
  ib_completeness_status :: string
  ib_time_semantics :: jdict
  ib_findings :: "jdict list"

record import_tombstone = state_core_row +
  it_tombstone_id :: string
  it_batch_id :: string
  it_source_kind :: string
  it_stable_source_id :: "string option"
  it_record_type :: string
  it_record_id :: string
  it_reason :: string
  it_source_refs :: "string list"

record receipt_manifest = state_core_row +
  rm_manifest_id :: string
  rm_batch_id :: string
  rm_receipt_id :: string
  rm_receipt_ref :: string
  rm_receipt_sha256 :: string
  rm_receipt_artifact_id :: string
  rm_source_artifact_id :: string
  rm_snapshot_id :: string
  rm_materialization_status :: string
  rm_record_counts :: jdict
  rm_materialized_at_utc :: string

section \<open>Source-owned rows\<close>

datatype owned_row =
    OLiability liability
  | OGoal financial_goal
  | OCashflow cashflow_event
  | OTaxEvent tax_event
  | OInsurance insurance_policy
  | ODocument document_ref

datatype owned_model = MLiability | MGoal | MCashflow | MTaxEvent | MInsurance | MDocument

definition owned_models :: "owned_model list" where
  "owned_models = [MLiability, MGoal, MCashflow, MTaxEvent, MInsurance, MDocument]"

primrec model_name :: "owned_model \<Rightarrow> string" where
  "model_name MLiability = ''Liability''"
| "model_name MGoal = ''FinancialGoal''"
| "model_name MCashflow = ''CashflowEvent''"
| "model_name MTaxEvent = ''TaxEvent''"
| "model_name MInsurance = ''InsurancePolicy''"
| "model_name MDocument = ''DocumentRef''"

primrec model_domain :: "owned_model \<Rightarrow> string" where
  "model_domain MLiability = ''liability''"
| "model_domain MGoal = ''goal''"
| "model_domain MCashflow = ''cashflow''"
| "model_domain MTaxEvent = ''tax_event''"
| "model_domain MInsurance = ''insurance''"
| "model_domain MDocument = ''document''"

primrec model_of :: "owned_row \<Rightarrow> owned_model" where
  "model_of (OLiability r) = MLiability"
| "model_of (OGoal r) = MGoal"
| "model_of (OCashflow r) = MCashflow"
| "model_of (OTaxEvent r) = MTaxEvent"
| "model_of (OInsurance r) = MInsurance"
| "model_of (ODocument r) = MDocument"

primrec owned_id :: "owned_row \<Rightarrow> string" where
  "owned_id (OLiability r) = li_liability_id r"
| "owned_id (OGoal r) = fg_goal_id r"
| "owned_id (OCashflow r) = cf_cashflow_id r"
| "owned_id (OTaxEvent r) = tx_tax_event_id r"
| "owned_id (OInsurance r) = ip_policy_id r"
| "owned_id (ODocument r) = dr_document_id r"

primrec owned_source :: "owned_row \<Rightarrow> string" where
  "owned_source (OLiability r) = so_source r"
| "owned_source (OGoal r) = so_source r"
| "owned_source (OCashflow r) = so_source r"
| "owned_source (OTaxEvent r) = so_source r"
| "owned_source (OInsurance r) = so_source r"
| "owned_source (ODocument r) = so_source r"

primrec owned_source_id :: "owned_row \<Rightarrow> string" where
  "owned_source_id (OLiability r) = so_source_id r"
| "owned_source_id (OGoal r) = so_source_id r"
| "owned_source_id (OCashflow r) = so_source_id r"
| "owned_source_id (OTaxEvent r) = so_source_id r"
| "owned_source_id (OInsurance r) = so_source_id r"
| "owned_source_id (ODocument r) = so_source_id r"

primrec owned_account :: "owned_row \<Rightarrow> string option" where
  "owned_account (OLiability r) = li_account_id r"
| "owned_account (OGoal r) = None"
| "owned_account (OCashflow r) = cf_account_id r"
| "owned_account (OTaxEvent r) = None"
| "owned_account (OInsurance r) = None"
| "owned_account (ODocument r) = None"

definition owned_key :: "owned_row \<Rightarrow> owned_model \<times> string" where
  "owned_key r = (model_of r, owned_id r)"

section \<open>Tables\<close>

record import_db =
  db_batches :: "import_batch list"
  db_manifests :: "receipt_manifest list"
  db_tombstones :: "import_tombstone list"
  db_receipts :: "receipt_index_row list"
  db_snapshots :: "snapshot_row list"
  db_positions :: "position list"
  db_accounts :: "account_row list"
  db_account_identities :: "account_identity list"
  db_instrument_identities :: "instrument_identity list"
  db_aliases :: "identity_alias list"
  db_sources :: "capital_import_source list"
  db_source_aliases :: "capital_import_source_alias list"
  db_owned :: "owned_row list"

datatype import_record =
    RBatch import_batch
  | RManifest receipt_manifest
  | RTombstone import_tombstone
  | RReceipt receipt_index_row
  | RSnapshot snapshot_row
  | RPosition position
  | RAccount account_row
  | RAccountIdentity account_identity
  | RInstrumentIdentity instrument_identity
  | RAlias identity_alias
  | RSource capital_import_source
  | RSourceAlias capital_import_source_alias
  | ROwned owned_row

text \<open>\<^verbatim>\<open>session.merge\<close>: the row with this primary key is replaced, or a new row is added.\<close>

primrec merge_record :: "import_record \<Rightarrow> import_db \<Rightarrow> import_db" where
  "merge_record (RBatch r) db = db\<lparr>db_batches := tbl_merge ib_batch_id r (db_batches db)\<rparr>"
| "merge_record (RManifest r) db = db\<lparr>db_manifests := tbl_merge rm_manifest_id r (db_manifests db)\<rparr>"
| "merge_record (RTombstone r) db = db\<lparr>db_tombstones := tbl_merge it_tombstone_id r (db_tombstones db)\<rparr>"
| "merge_record (RReceipt r) db = db\<lparr>db_receipts := tbl_merge ri_receipt_id r (db_receipts db)\<rparr>"
| "merge_record (RSnapshot r) db = db\<lparr>db_snapshots := tbl_merge sn_snapshot_id r (db_snapshots db)\<rparr>"
| "merge_record (RPosition r) db = db\<lparr>db_positions := tbl_merge po_position_id r (db_positions db)\<rparr>"
| "merge_record (RAccount r) db = db\<lparr>db_accounts := tbl_merge ac_account_id r (db_accounts db)\<rparr>"
| "merge_record (RAccountIdentity r) db =
     db\<lparr>db_account_identities := tbl_merge ai_canonical_account_id r (db_account_identities db)\<rparr>"
| "merge_record (RInstrumentIdentity r) db =
     db\<lparr>db_instrument_identities := tbl_merge ii_instrument_id r (db_instrument_identities db)\<rparr>"
| "merge_record (RAlias r) db = db\<lparr>db_aliases := tbl_merge al_alias_id r (db_aliases db)\<rparr>"
| "merge_record (RSource r) db = db\<lparr>db_sources := tbl_merge ci_source_id r (db_sources db)\<rparr>"
| "merge_record (RSourceAlias r) db = db\<lparr>db_source_aliases := tbl_merge ca_alias_id r (db_source_aliases db)\<rparr>"
| "merge_record (ROwned r) db = db\<lparr>db_owned := tbl_merge owned_key r (db_owned db)\<rparr>"

text \<open>A uniqueness constraint skips rows with a missing component, as SQL does.\<close>

definition unique_on :: "('r \<Rightarrow> 'k option) \<Rightarrow> 'r list \<Rightarrow> bool" where
  "unique_on f rows \<longleftrightarrow> distinct (List.map_filter f rows)"

definition references :: "('r \<Rightarrow> string option) \<Rightarrow> 'r list \<Rightarrow> ('q \<Rightarrow> string) \<Rightarrow> 'q list \<Rightarrow> bool" where
  "references f rows key targets \<longleftrightarrow>
     list_all (\<lambda>r. case f r of None \<Rightarrow> True | Some k \<Rightarrow> tbl_has key targets k) rows"

definition batch_checks :: "import_batch \<Rightarrow> bool" where
  "batch_checks b \<longleftrightarrow>
     ib_coverage_mode b \<in> {''full'', ''delta''} \<and>
     ib_completeness_status b \<in> {''complete'', ''partial'', ''blocked'', ''legacy_unknown''} \<and>
     ib_corporate_action_status b \<in> {''not_applicable'', ''unsupported_gap''}"

definition batch_contract ::
  "import_batch \<Rightarrow> (string \<times> string \<times> string \<times> string \<times> string \<times> string \<times> string) option" where
  "batch_contract b =
     map_option (\<lambda>superseded. (ib_source_kind b, ib_source_id b, ib_source_sha256 b, ib_adapter_version b,
       ib_import_schema_version b, ib_coverage_mode b, superseded)) (ib_supersedes_batch_id b)"

definition position_checks :: "position \<Rightarrow> bool" where
  "position_checks p \<longleftrightarrow>
     po_valuation_status p \<in> {''valued'', ''valued_converted'', ''unpriced'', ''fx_missing'', ''stale'', ''unknown_legacy''}"

definition import_constraints :: "import_db \<Rightarrow> bool" where
  "import_constraints db \<longleftrightarrow>
     list_all batch_checks (db_batches db) \<and> unique_on batch_contract (db_batches db) \<and>
     list_all (\<lambda>m. rm_materialization_status m = ''materialized'') (db_manifests db) \<and>
     unique_on (Some \<circ> rm_batch_id) (db_manifests db) \<and> unique_on (Some \<circ> rm_receipt_id) (db_manifests db) \<and>
     unique_on (\<lambda>t. Some (it_batch_id t, it_record_type t, it_record_id t)) (db_tombstones db) \<and>
     list_all position_checks (db_positions db) \<and>
     unique_on (\<lambda>r. Some (ai_source_namespace r, ai_source_native_id r, ai_identity_version r)) (db_account_identities db) \<and>
     unique_on (\<lambda>r. Some (ii_symbol r, ii_instrument_type r, ii_venue r, ii_quote_currency r, ii_identity_version r))
       (db_instrument_identities db) \<and>
     unique_on (\<lambda>r. Some (al_identity_kind r, al_provider_namespace r, al_provider_alias r, al_mapping_version r))
       (db_aliases db) \<and>
     unique_on (\<lambda>r. Some (ca_alias_kind r, ca_alias_value r)) (db_source_aliases db) \<and>
     references ib_stable_source_id (db_batches db) ci_source_id (db_sources db) \<and>
     references (Some \<circ> rm_batch_id) (db_manifests db) ib_batch_id (db_batches db) \<and>
     references (Some \<circ> it_batch_id) (db_tombstones db) ib_batch_id (db_batches db) \<and>
     references (Some \<circ> po_snapshot_id) (db_positions db) sn_snapshot_id (db_snapshots db) \<and>
     references (Some \<circ> po_account_id) (db_positions db) ac_account_id (db_accounts db) \<and>
     references po_instrument_id (db_positions db) ii_instrument_id (db_instrument_identities db) \<and>
     references ac_canonical_account_id (db_accounts db) ai_canonical_account_id (db_account_identities db) \<and>
     references (Some \<circ> ca_source_id) (db_source_aliases db) ci_source_id (db_sources db) \<and>
     references owned_account (db_owned db) ac_account_id (db_accounts db)"

section \<open>The adapter inventory\<close>

record import_adapter =
  ad_adapter_id :: string
  ad_source_kind :: string
  ad_materialized_source :: string

definition PRODUCTION_CAPITAL_IMPORT_ADAPTERS :: "import_adapter list" where
  "PRODUCTION_CAPITAL_IMPORT_ADAPTERS =
     [\<lparr>ad_adapter_id = ''personal-finance-export'', ad_source_kind = ''personal_finance_export'',
       ad_materialized_source = ''personal_finance_export''\<rparr>,
      \<lparr>ad_adapter_id = ''beancount-ledger'', ad_source_kind = ''beancount_ledger'',
       ad_materialized_source = ''beancount_ledger''\<rparr>,
      \<lparr>ad_adapter_id = ''broker-read-receipt'', ad_source_kind = ''broker_read'',
       ad_materialized_source = ''broker_read_import''\<rparr>]"

definition PRODUCTION_SOURCE_KINDS :: "string list" where
  "PRODUCTION_SOURCE_KINDS = map ad_source_kind PRODUCTION_CAPITAL_IMPORT_ADAPTERS"

definition materialized_source_for :: "string \<Rightarrow> string res" where
  "materialized_source_for source_kind =
     (case map_of (map (\<lambda>a. (ad_source_kind a, ad_materialized_source a)) PRODUCTION_CAPITAL_IMPORT_ADAPTERS) source_kind of
        None \<Rightarrow> Inl (ValueError (''unregistered production import source kind: '' @ source_kind))
      | Some m \<Rightarrow> Inr m)"

record receipt_contract =
  rc_kind :: string
  rc_path :: string
  rc_created_at_utc :: string
  rc_source_refs :: "string list"
  rc_refs :: "string list"

definition receipt_index_contract_fields ::
  "string \<Rightarrow> string \<Rightarrow> string \<Rightarrow> string \<Rightarrow> string option \<Rightarrow> string \<Rightarrow> receipt_contract res" where
  "receipt_index_contract_fields source_kind receipt_ref created_at_utc source_ref upstream_receipt_id source_artifact_id =
     rbind (materialized_source_for source_kind) (\<lambda>kind.
       Inr \<lparr>rc_kind = kind, rc_path = receipt_ref, rc_created_at_utc = created_at_utc,
            rc_source_refs = [receipt_ref, source_ref],
            rc_refs = [or_else upstream_receipt_id source_ref, source_artifact_id]\<rparr>)"

end
