(* ===== verification/Import_Provenance.thy ===== *)
theory Import_Provenance
  imports Import_Models
begin

text \<open>
  The preparation of an import (\<^verbatim>\<open>import_provenance.py\<close>): the deterministic identity of a batch, the
  evidence artifacts, the receipt bound to them, and the batch and manifest rows for the database.
  \<open>json_loads\<close> of the environment is \<^verbatim>\<open>json.loads\<close> on bytes.  The effects of a call have
  environments of their own: \<open>es 0\<close> to \<open>es 2\<close> for the source artifact, \<open>es 3\<close> to \<open>es 5\<close> for the
  receipt artifact, \<open>es 6\<close> for the receipt file.
\<close>

record import_env = io_env +
  json_loads :: "string \<Rightarrow> pyval option"

definition IMPORT_MANIFEST_SCHEMA_VERSION :: string where
  "IMPORT_MANIFEST_SCHEMA_VERSION = ''finharness.import_manifest.v3''"

definition SOURCE_ARTIFACT_SCHEMA :: string where
  "SOURCE_ARTIFACT_SCHEMA = ''finharness.import_source_evidence''"

definition RECEIPT_ARTIFACT_SCHEMA :: string where
  "RECEIPT_ARTIFACT_SCHEMA = ''finharness.import_receipt''"

definition provenance_error :: "string \<Rightarrow> exn" where
  "provenance_error m = ArtifactError ''ImportProvenanceError'' m"

section \<open>Texts\<close>

definition json_raw_escape :: "char \<Rightarrow> string" where
  "json_raw_escape c = (if 126 < (of_char c :: nat) then [c] else json_escape c)"

definition json_raw_str :: "string \<Rightarrow> string" where
  "json_raw_str s = CHR 0x22 # concat (map json_raw_escape s) @ [CHR 0x22]"

definition indent_line :: "nat \<Rightarrow> string" where
  "indent_line n = CHR 0x0A # replicate n (CHR 0x20)"

primrec json_pretty :: "pyval \<Rightarrow> nat \<Rightarrow> string" where
  "json_pretty PNone n = ''null''"
| "json_pretty (PBool b) n = (if b then ''true'' else ''false'')"
| "json_pretty (PInt i) n = int_str i"
| "json_pretty (PFloat s) n = s"
| "json_pretty (PStr s) n = json_raw_str s"
| "json_pretty (PMoney m) n = []"
| "json_pretty (PList xs) n =
     (if xs = [] then ''[]''
      else CHR ''['' # indent_line (n + 2) @
        py_join (CHR '','' # indent_line (n + 2)) (map (\<lambda>f. f (n + 2)) (map json_pretty xs)) @
        indent_line n @ '']'')"
| "json_pretty (PDict d) n =
     (if d = [] then [CHR 0x7B, CHR 0x7D]
      else CHR 0x7B # indent_line (n + 2) @
        py_join (CHR '','' # indent_line (n + 2))
          (map (\<lambda>(k, f). json_raw_str k @ '': '' @ f (n + 2)) (map (map_prod id json_pretty) d)) @
        indent_line n @ [CHR 0x7D])"

definition canonical_json_bytes :: "'e env_scheme \<Rightarrow> jdict \<Rightarrow> string" where
  "canonical_json_bytes e payload = utf8 (json_pretty (json_norm e (PDict payload)) 0 @ [CHR 0x0A])"

definition safe_fragment :: "string \<Rightarrow> string" where
  "safe_fragment v =
     map (\<lambda>c. if py_isalnum c \<or> c \<in> {CHR ''_'', CHR ''-'', CHR ''.''} then c else CHR ''_'') v"

definition stable_id :: "'e io_env_scheme \<Rightarrow> string \<Rightarrow> string list \<Rightarrow> string" where
  "stable_id e prefix parts = prefix @ ''_'' @ take 24 (sha256 e (utf8 (py_join [CHR 0x00] parts)))"

definition derive_import_batch_id ::
  "'e io_env_scheme \<Rightarrow> string \<Rightarrow> string \<Rightarrow> string \<Rightarrow> string \<Rightarrow> string \<Rightarrow> string option \<Rightarrow> string option \<Rightarrow> string" where
  "derive_import_batch_id e source_kind source_id source_sha256 adapter_version coverage_mode supersedes_batch_id
     correction_reason =
     stable_id e ''import_batch''
       [source_kind, source_id, source_sha256, adapter_version, IMPORT_MANIFEST_SCHEMA_VERSION, coverage_mode,
        or_else supersedes_batch_id [], or_else correction_reason []]"

section \<open>Evidence\<close>

definition evidence_put :: "string \<Rightarrow> string \<Rightarrow> string \<Rightarrow> string \<Rightarrow> string list \<Rightarrow> jdict \<Rightarrow> put_args" where
  "evidence_put artifact_id content artifact_schema created_at_utc source_refs metadata =
     \<lparr>pa_artifact_id = artifact_id, pa_content = content, pa_artifact_schema = artifact_schema,
      pa_artifact_schema_version = IMPORT_MANIFEST_SCHEMA_VERSION,
      pa_media_type = (if content \<noteq> [] \<and> hd content \<in> {CHR 0x7B, CHR ''[''} then ''application/json''
                       else ''application/octet-stream''),
      pa_owner_domain = ''capital_imports'', pa_source_refs = source_refs, pa_metadata = metadata,
      pa_created_at_utc = Some created_at_utc\<rparr>"

definition put_or_verify ::
  "(nat \<Rightarrow> 'e io_env_scheme) \<Rightarrow> string \<Rightarrow> string \<Rightarrow> string \<Rightarrow> string \<Rightarrow> string \<Rightarrow> string list \<Rightarrow> jdict \<Rightarrow>
   artifact_fs \<Rightarrow> artifact_descriptor res \<times> artifact_fs" where
  "put_or_verify es root artifact_id content artifact_schema created_at_utc source_refs metadata fs =
     (case descriptor (es 0) root artifact_id fs of
        Inl x \<Rightarrow>
          if x = not_found (''artifact descriptor not found: '' @ artifact_id)
          then put_artifact es root (evidence_put artifact_id content artifact_schema created_at_utc source_refs metadata) fs
          else (Inl x, fs)
      | Inr existing \<Rightarrow>
          (case read_artifact (es 0) root artifact_id fs of
             Inl x \<Rightarrow> Inl x
           | Inr stored \<Rightarrow>
               if stored \<noteq> content then Inl (provenance_error (''immutable import artifact conflict: '' @ artifact_id))
               else if ad_artifact_schema existing \<noteq> artifact_schema \<or> ad_owner_domain existing \<noteq> ''capital_imports''
               then Inl (provenance_error (''import artifact descriptor mismatch: '' @ artifact_id))
               else Inr existing, fs))"

definition source_artifact_name :: "string \<Rightarrow> string \<Rightarrow> string" where
  "source_artifact_name source_kind source_sha256 =
     ''import_source_'' @ safe_fragment source_kind @ ''_'' @ take 24 source_sha256"

definition persist_source_evidence ::
  "(nat \<Rightarrow> 'e io_env_scheme) \<Rightarrow> string \<Rightarrow> string \<Rightarrow> string \<Rightarrow> string \<Rightarrow> string \<Rightarrow> artifact_fs \<Rightarrow>
   artifact_descriptor res \<times> artifact_fs" where
  "persist_source_evidence es root source_kind source_content source_sha256 created_at_utc fs =
     (if sha256 (es 0) source_content \<noteq> source_sha256
      then (Inl (provenance_error ''source evidence bytes do not match source_sha256''), fs)
      else put_or_verify es root (source_artifact_name source_kind source_sha256) source_content SOURCE_ARTIFACT_SCHEMA
             created_at_utc [] [(''source_kind'', PStr source_kind), (''source_sha256'', PStr source_sha256)] fs)"

section \<open>Preparing an import\<close>

record prepare_args =
  pr_source_kind :: string
  pr_source_id :: string
  pr_source_content :: string
  pr_source_sha256 :: string
  pr_adapter_version :: string
  pr_coverage_mode :: string
  pr_record_counts :: jdict
  pr_snapshot_id :: string
  pr_receipt_id :: string
  pr_receipt_root :: string
  pr_receipt_ref :: string
  pr_receipt_payload :: jdict
  pr_created_at_utc :: string
  pr_completeness_status :: string
  pr_time_semantics :: jdict
  pr_findings :: "jdict list"
  pr_covered_domains :: "string list option"
  pr_supersedes_batch_id :: "string option"
  pr_correction_reason :: "string option"
  pr_corporate_action_status :: string
  pr_corporate_action_gaps :: "string list option"
  pr_stable_source_id :: "string option"
  pr_projection_artifact_id :: "string option"
  pr_projection_sha256 :: "string option"
  pr_projection_schema_version :: "string option"
  pr_projection_payload :: jdict

record evidence_files =
  ef_artifacts :: artifact_fs
  ef_receipts :: "string \<rightharpoonup> string"

record prepared_import =
  pi_batch :: import_batch
  pi_manifest :: receipt_manifest
  pi_receipt_path :: string
  pi_receipt_payload :: jdict

definition REQUIRED_CLOCKS :: "string list" where
  "REQUIRED_CLOCKS =
     [''effective_at_utc'', ''observed_at_utc'', ''valued_at_utc'', ''ingested_at_utc'', ''recorded_at_utc'']"

definition check_prepare_args :: "prepare_args \<Rightarrow> unit res" where
  "check_prepare_args a =
     (if pr_coverage_mode a \<notin> {''full'', ''delta''}
      then Inl (provenance_error ''coverage_mode must be full or delta'')
      else if pr_completeness_status a \<notin> {''complete'', ''partial'', ''blocked'', ''legacy_unknown''}
      then Inl (provenance_error ''completeness_status is outside the closed set'')
      else if fst ` set (pr_time_semantics a) \<noteq> set REQUIRED_CLOCKS
      then Inl (provenance_error ''time_semantics must contain the five canonical clocks'')
      else if list_ex (\<lambda>f. dict_get f ''severity'' \<notin> {PStr ''partial'', PStr ''blocking''}) (pr_findings a)
      then Inl (provenance_error ''import finding severity is outside the closed set'')
      else if (pr_supersedes_batch_id a = None) \<noteq> (pr_correction_reason a = None)
      then Inl (provenance_error ''supersedes_batch_id and correction_reason must be supplied together'')
      else if (case pr_correction_reason a of None \<Rightarrow> False | Some r \<Rightarrow> py_strip r = [])
      then Inl (provenance_error ''correction_reason must be non-empty'')
      else if pr_corporate_action_status a \<notin> {''not_applicable'', ''unsupported_gap''}
      then Inl (provenance_error ''corporate_action_status is outside the closed set'')
      else Inr ())"

definition opt_json :: "string option \<Rightarrow> pyval" where
  "opt_json x = (case x of None \<Rightarrow> PNone | Some s \<Rightarrow> PStr s)"

definition texts_json :: "string list \<Rightarrow> pyval" where
  "texts_json xs = PList (map PStr xs)"

definition resolved_domains :: "prepare_args \<Rightarrow> string list" where
  "resolved_domains a =
     sort (remdups (case pr_covered_domains a of
       Some (d # ds) \<Rightarrow> d # ds | _ \<Rightarrow> map fst (pr_record_counts a)))"

definition resolved_action_gaps :: "prepare_args \<Rightarrow> string list" where
  "resolved_action_gaps a =
     (let gaps = sort (remdups (case pr_corporate_action_gaps a of None \<Rightarrow> [] | Some g \<Rightarrow> g)) in
      if pr_corporate_action_status a = ''unsupported_gap'' \<and> gaps = []
      then [''corporate_action_semantics_not_supported''] else gaps)"

definition batch_id_of :: "'e io_env_scheme \<Rightarrow> prepare_args \<Rightarrow> string" where
  "batch_id_of e a =
     derive_import_batch_id e (pr_source_kind a) (pr_source_id a) (pr_source_sha256 a) (pr_adapter_version a)
       (pr_coverage_mode a) (pr_supersedes_batch_id a) (pr_correction_reason a)"

definition complete_receipt :: "prepare_args \<Rightarrow> string \<Rightarrow> string \<Rightarrow> artifact_descriptor \<Rightarrow> jdict" where
  "complete_receipt a batch_id manifest_id source =
     dict_merge (pr_receipt_payload a)
       [(''import_batch_id'', PStr batch_id), (''receipt_manifest_id'', PStr manifest_id),
        (''source_artifact_id'', PStr (ad_artifact_id source)), (''coverage_mode'', PStr (pr_coverage_mode a)),
        (''import_schema_version'', PStr IMPORT_MANIFEST_SCHEMA_VERSION),
        (''completeness_status'', PStr (pr_completeness_status a)), (''time_semantics'', PDict (pr_time_semantics a)),
        (''findings'', PList (map PDict (pr_findings a))), (''covered_domains'', texts_json (resolved_domains a)),
        (''supersedes_batch_id'', opt_json (pr_supersedes_batch_id a)),
        (''correction_reason'', opt_json (pr_correction_reason a)),
        (''corporate_action_status'', PStr (pr_corporate_action_status a)),
        (''corporate_action_gaps'', texts_json (resolved_action_gaps a)),
        (''stable_source_id'', opt_json (pr_stable_source_id a)),
        (''projection_artifact_id'', opt_json (pr_projection_artifact_id a)),
        (''projection_sha256'', opt_json (pr_projection_sha256 a)),
        (''projection_schema_version'', opt_json (pr_projection_schema_version a)),
        (''created_at_utc'', PStr (ad_created_at_utc source))]"

definition clock_text :: "'e env_scheme \<Rightarrow> jdict \<Rightarrow> string \<Rightarrow> string option" where
  "clock_text e d k = (let v = dict_get d k in if pyval_truthy v then truthy (Some (py_str e v)) else None)"

definition batch_of :: "'e io_env_scheme \<Rightarrow> prepare_args \<Rightarrow> artifact_descriptor \<Rightarrow> import_batch" where
  "batch_of e a source =
     \<lparr>sc_schema_version = STATE_CORE_SCHEMA_VERSION, sc_as_of_utc = ad_created_at_utc source,
      sc_authority_level = ''read_only'', ib_batch_id = batch_id_of e a, ib_source_kind = pr_source_kind a,
      ib_source_id = pr_source_id a, ib_stable_source_id = pr_stable_source_id a,
      ib_coverage_mode = pr_coverage_mode a, ib_source_sha256 = pr_source_sha256 a,
      ib_source_artifact_id = ad_artifact_id source, ib_projection_artifact_id = pr_projection_artifact_id a,
      ib_projection_sha256 = pr_projection_sha256 a, ib_projection_schema_version = pr_projection_schema_version a,
      ib_projection_payload = pr_projection_payload a,
      ib_effective_at_utc = clock_text e (pr_time_semantics a) ''effective_at_utc'',
      ib_observed_at_utc = clock_text e (pr_time_semantics a) ''observed_at_utc'',
      ib_recorded_at_utc = clock_text e (pr_time_semantics a) ''recorded_at_utc'',
      ib_adapter_version = pr_adapter_version a, ib_import_schema_version = IMPORT_MANIFEST_SCHEMA_VERSION,
      ib_record_counts = pr_record_counts a, ib_covered_domains = resolved_domains a,
      ib_supersedes_batch_id = pr_supersedes_batch_id a, ib_correction_reason = pr_correction_reason a,
      ib_corporate_action_status = pr_corporate_action_status a, ib_corporate_action_gaps = resolved_action_gaps a,
      ib_completeness_status = pr_completeness_status a, ib_time_semantics = pr_time_semantics a,
      ib_findings = pr_findings a\<rparr>"

definition manifest_of ::
  "'e io_env_scheme \<Rightarrow> prepare_args \<Rightarrow> artifact_descriptor \<Rightarrow> string \<Rightarrow> string \<Rightarrow> receipt_manifest" where
  "manifest_of e a source receipt_sha256 receipt_artifact_id =
     \<lparr>sc_schema_version = STATE_CORE_SCHEMA_VERSION, sc_as_of_utc = ad_created_at_utc source,
      sc_authority_level = ''read_only'',
      rm_manifest_id = stable_id e ''receipt_manifest'' [batch_id_of e a, pr_receipt_id a],
      rm_batch_id = batch_id_of e a, rm_receipt_id = pr_receipt_id a, rm_receipt_ref = pr_receipt_ref a,
      rm_receipt_sha256 = receipt_sha256, rm_receipt_artifact_id = receipt_artifact_id,
      rm_source_artifact_id = ad_artifact_id source, rm_snapshot_id = pr_snapshot_id a,
      rm_materialization_status = ''materialized'', rm_record_counts = pr_record_counts a,
      rm_materialized_at_utc = ad_created_at_utc source\<rparr>"

definition prepare_import ::
  "(nat \<Rightarrow> 'e io_env_scheme) \<Rightarrow> string \<Rightarrow> prepare_args \<Rightarrow> evidence_files \<Rightarrow> prepared_import res \<times> evidence_files" where
  "prepare_import es root a fs =
     (case check_prepare_args a of
        Inl x \<Rightarrow> (Inl x, fs)
      | Inr _ \<Rightarrow>
          (case persist_source_evidence es root (pr_source_kind a) (pr_source_content a) (pr_source_sha256 a)
                  (pr_created_at_utc a) (ef_artifacts fs) of
             (Inl x, art) \<Rightarrow> (Inl x, fs\<lparr>ef_artifacts := art\<rparr>)
           | (Inr source, art) \<Rightarrow>
               let e = es 0; batch_id = batch_id_of e a;
                   manifest_id = stable_id e ''receipt_manifest'' [batch_id, pr_receipt_id a];
                   receipt = complete_receipt a batch_id manifest_id source;
                   receipt_bytes = canonical_json_bytes e receipt;
                   receipt_sha256 = sha256 e receipt_bytes;
                   receipt_artifact_id = ''import_receipt_'' @ take 24 receipt_sha256 in
               case put_or_verify (\<lambda>n. es (n + 3)) root receipt_artifact_id receipt_bytes RECEIPT_ARTIFACT_SCHEMA
                      (ad_created_at_utc source) [ad_artifact_id source]
                      [(''batch_id'', PStr batch_id), (''receipt_id'', PStr (pr_receipt_id a))] art of
                 (Inl x, art2) \<Rightarrow> (Inl x, fs\<lparr>ef_artifacts := art2\<rparr>)
               | (Inr _, art2) \<Rightarrow>
                   let fs2 = fs\<lparr>ef_artifacts := art2\<rparr> in
                   case resolve_under (es 6) (pr_receipt_root a) [pr_receipt_id a @ ''.json''] of
                     Inl x \<Rightarrow> (Inl x, fs2)
                   | Inr path \<Rightarrow>
                       (case atomic_replace (es 6) path receipt_bytes (ef_receipts fs2) of
                          (Inl x, rs) \<Rightarrow> (Inl x, fs2\<lparr>ef_receipts := rs\<rparr>)
                        | (Inr _, rs) \<Rightarrow>
                            (Inr \<lparr>pi_batch = batch_of e a source,
                                  pi_manifest = manifest_of e a source receipt_sha256 receipt_artifact_id,
                                  pi_receipt_path = path, pi_receipt_payload = receipt\<rparr>,
                             fs2\<lparr>ef_receipts := rs\<rparr>))))"

section \<open>Reading provenance\<close>

record receipt_provenance =
  rv_receipt_id :: string
  rv_status :: string
  rv_batch_id :: "string option"
  rv_manifest_id :: "string option"

text \<open>\<^verbatim>\<open>one_or_none\<close> raises on two rows; the unique receipt identifier of the table rules that out.\<close>

definition receipt_provenance_of :: "string \<Rightarrow> import_db \<Rightarrow> receipt_provenance res" where
  "receipt_provenance_of receipt_id db =
     (case filter (\<lambda>m. rm_receipt_id m = receipt_id) (db_manifests db) of
        [] \<Rightarrow> Inr \<lparr>rv_receipt_id = receipt_id, rv_status = ''legacy_unmanifested'', rv_batch_id = None, rv_manifest_id = None\<rparr>
      | [m] \<Rightarrow> Inr \<lparr>rv_receipt_id = receipt_id, rv_status = rm_materialization_status m,
                   rv_batch_id = Some (rm_batch_id m), rv_manifest_id = Some (rm_manifest_id m)\<rparr>
      | _ \<Rightarrow> Inl (DbError ''Multiple rows were found when one or none was required''))"

end
