(* ===== verification/Import_Valuation.thy ===== *)
theory Import_Valuation
  imports Import_Provenance
begin

text \<open>
  The agreement on valuation at the commit of an import (\<^verbatim>\<open>capital_import_valuation.py\<close>): every
  position is assessed again at the observed time of the batch, and the statuses, findings, counts and
  summaries of the batch, the snapshot, the receipt artifact and the manifest must all say the same.
  A \<open>ValueError\<close> stands for \<^verbatim>\<open>ValuationContractError\<close> and \<^verbatim>\<open>PositionValuationError\<close>; messages end
  before their first interpolated value.
\<close>

section \<open>Findings\<close>

definition contains_text :: "string \<Rightarrow> string \<Rightarrow> bool" where
  "contains_text sub s = list_ex (\<lambda>i. take (length sub) (drop i s) = sub) [0..<Suc (length s)]"

definition ends_with :: "string \<Rightarrow> string \<Rightarrow> bool" where
  "ends_with s suffix \<longleftrightarrow> length suffix \<le> length s \<and> drop (length s - length suffix) s = suffix"

definition VALUATION_CODE_MARKERS :: "string list" where
  "VALUATION_CODE_MARKERS =
     [''valuation_'', ''market_value_'', ''unit_price_'', ''price_currency_'', ''price_source_'', ''valued_at_'',
      ''fx_'', ''market_price_'']"

definition is_valuation_code :: "string \<Rightarrow> bool" where
  "is_valuation_code code \<longleftrightarrow>
     code \<noteq> [] \<and> (contains_text ''valuation'' code \<or> ends_with code ''_stale'' \<or>
       list_ex (starts_with code) VALUATION_CODE_MARKERS)"

definition is_valuation_finding :: "pyval \<Rightarrow> bool res" where
  "is_valuation_finding f =
     (case f of
        PDict d \<Rightarrow>
          (case dict_get d ''code'' of
             PStr code \<Rightarrow> Inr (is_valuation_code code)
           | v \<Rightarrow> if pyval_truthy v then Inl (TypeError ''code'') else Inr False)
      | _ \<Rightarrow> Inr False)"

definition or_text :: "pyval \<Rightarrow> string \<Rightarrow> pyval" where
  "or_text v d = (if pyval_truthy v then v else PStr d)"

definition normalize_tuple :: "jdict \<Rightarrow> pyval list" where
  "normalize_tuple d =
     [or_text (dict_get d ''code'') [], or_text (dict_get d ''severity'') [], dict_get d ''record_type'',
      dict_get d ''record_number'', dict_get d ''field'', dict_get d ''record_id'']"

definition int_json :: "int option \<Rightarrow> pyval" where
  "int_json x = (case x of None \<Rightarrow> PNone | Some n \<Rightarrow> PInt n)"

definition finding_dict :: "import_finding \<Rightarrow> jdict" where
  "finding_dict f =
     [(''code'', PStr (if_code f)), (''severity'', PStr (if_severity f)), (''message'', PStr (if_message f)),
      (''record_type'', opt_json (if_record_type f)), (''record_number'', int_json (if_record_number f)),
      (''field'', opt_json (if_field f)), (''record_id'', opt_json (if_record_id f))]"

text \<open>Only the severity of a stored finding matters for completeness.\<close>

definition stored_severity :: "jdict \<Rightarrow> pyval" where
  "stored_severity d = or_text (dict_get d ''severity'') ''partial''"

definition stored_completeness :: "jdict list \<Rightarrow> string" where
  "stored_completeness findings =
     (if list_ex (\<lambda>d. stored_severity d = PStr ''blocking'') findings then ''blocked''
      else if findings \<noteq> [] then ''partial'' else ''complete'')"

text \<open>\<^verbatim>\<open>list(v or [])\<close> and \<^verbatim>\<open>dict(v or {})\<close>.\<close>

definition py_list_of :: "pyval \<Rightarrow> pyval list res" where
  "py_list_of v =
     (if \<not> pyval_truthy v then Inr []
      else case v of
        PList xs \<Rightarrow> Inr xs
      | PStr s \<Rightarrow> Inr (map (\<lambda>c. PStr [c]) s)
      | PDict d \<Rightarrow> Inr (map (\<lambda>p. PStr (fst p)) d)
      | _ \<Rightarrow> Inl (TypeError ''not iterable''))"

definition py_dict_of :: "pyval \<Rightarrow> jdict res" where
  "py_dict_of v =
     (if \<not> pyval_truthy v then Inr []
      else case v of PDict d \<Rightarrow> Inr d | _ \<Rightarrow> Inl (TypeError ''not a mapping''))"

definition py_object_of :: "pyval \<Rightarrow> jdict res" where
  "py_object_of v =
     (if \<not> pyval_truthy v then Inr []
      else case v of PDict d \<Rightarrow> Inr d | _ \<Rightarrow> Inl (AttributeError ''get''))"

fun valuation_tuples :: "pyval list \<Rightarrow> pyval list list res" where
  "valuation_tuples [] = Inr []"
| "valuation_tuples (f # fs) =
     rbind (is_valuation_finding f) (\<lambda>b.
     rbind (valuation_tuples fs) (\<lambda>ts.
       Inr (case f of PDict d \<Rightarrow> if b then normalize_tuple d # ts else ts | _ \<Rightarrow> ts)))"

text \<open>Equality of two \<^verbatim>\<open>Counter\<close>s.\<close>

definition counter_eq :: "pyval list list \<Rightarrow> pyval list list \<Rightarrow> bool" where
  "counter_eq xs ys =
     (let ns = map (map eq_norm) in list_all (\<lambda>x. count_list (ns xs) x = count_list (ns ys) x) (ns xs @ ns ys))"

section \<open>Assessment\<close>

definition bump :: "string \<Rightarrow> (string \<times> int) list \<Rightarrow> (string \<times> int) list" where
  "bump k counts = AList.update k ((case map_of counts k of None \<Rightarrow> 0 | Some n \<Rightarrow> n) + 1) counts"

definition counts_json :: "(string \<times> int) list \<Rightarrow> jdict" where
  "counts_json counts = map (map_prod id PInt) counts"

definition valuation_assessment_summary :: "position list \<Rightarrow> string \<Rightarrow> jdict" where
  "valuation_assessment_summary positions evaluated_at_utc =
     [(''policy_id'', PStr (vp_policy_id BASE_VALUATION_POLICY_V1)), (''evaluated_at_utc'', PStr evaluated_at_utc),
      (''status_counts'', PDict (counts_json (foldl (\<lambda>counts p. bump (or_else (Some (po_valuation_status p)) ''unknown'') counts)
         [] positions)))]"

definition assess_one :: "'e env_scheme \<Rightarrow> string \<Rightarrow> position \<Rightarrow> valuation_assessment res" where
  "assess_one e evaluated_at_utc p =
     assess_position_valuation e (evidence_from_position p) (Some (po_position_id p)) None evaluated_at_utc
       BASE_VALUATION_POLICY_V1 True False"

definition assess_positions :: "'e env_scheme \<Rightarrow> position list \<Rightarrow> string \<Rightarrow> valuation_assessment list res" where
  "assess_positions e positions evaluated_at_utc = map_res (assess_one e evaluated_at_utc) positions"

definition apply_assessments_to_positions :: "position list \<Rightarrow> valuation_assessment list \<Rightarrow> position list res" where
  "apply_assessments_to_positions positions assessments =
     (if length positions \<noteq> length assessments then Inl (ValueError ''zip() arguments differ in length'')
      else Inr (map2 (\<lambda>p a. p\<lparr>po_valuation_status := status_value (va_status a)\<rparr>) positions assessments))"

text \<open>The findings of an adapter before the assessment are typed, as those of all three adapters.\<close>

definition merge_valuation_findings :: "import_finding list \<Rightarrow> valuation_assessment list \<Rightarrow> import_finding list" where
  "merge_valuation_findings base_findings assessments =
     map (\<lambda>f. f\<lparr>if_severity := (if if_severity f = [] then ''partial'' else if_severity f)\<rparr>)
       (filter (\<lambda>f. \<not> is_valuation_code (if_code f)) base_findings) @
     concat (map va_findings assessments)"

definition observed_at_from_batch :: "'e env_scheme \<Rightarrow> import_batch \<Rightarrow> string res" where
  "observed_at_from_batch e b =
     (let observed = dict_get (ib_time_semantics b) ''observed_at_utc'' in
      if \<not> pyval_truthy observed then Inl (ValueError ''valuation_policy_mismatch: batch missing observed_at_utc'')
      else Inr (py_str e observed))"

section \<open>The contract\<close>

definition PRODUCTION_VALUATION_SOURCES :: "string list" where
  "PRODUCTION_VALUATION_SOURCES = [''personal_finance_export'', ''beancount_ledger'', ''broker_read'']"

definition RECORD_COUNT_KEY_TO_CLASS :: "(string \<times> string) list" where
  "RECORD_COUNT_KEY_TO_CLASS =
     [(''position'', ''Position''), (''account'', ''Account''), (''snapshot'', ''Snapshot''),
      (''cashflow'', ''CashflowEvent''), (''liability'', ''Liability''), (''tax_event'', ''TaxEvent''),
      (''insurance'', ''InsurancePolicy''), (''goal'', ''FinancialGoal''), (''document'', ''DocumentRef'')]"

definition DIRECT_SOURCE_DOMAIN_KEYS :: "string list" where
  "DIRECT_SOURCE_DOMAIN_KEYS =
     [''position'', ''cashflow'', ''liability'', ''tax_event'', ''insurance'', ''goal'', ''document'']"

primrec record_class :: "import_record \<Rightarrow> string" where
  "record_class (RBatch r) = ''ImportBatch''"
| "record_class (RManifest r) = ''ReceiptManifest''"
| "record_class (RTombstone r) = ''ImportTombstone''"
| "record_class (RReceipt r) = ''ReceiptIndex''"
| "record_class (RSnapshot r) = ''Snapshot''"
| "record_class (RPosition r) = ''Position''"
| "record_class (RAccount r) = ''Account''"
| "record_class (RAccountIdentity r) = ''AccountIdentity''"
| "record_class (RInstrumentIdentity r) = ''InstrumentIdentity''"
| "record_class (RAlias r) = ''IdentityAlias''"
| "record_class (RSource r) = ''CapitalImportSource''"
| "record_class (RSourceAlias r) = ''CapitalImportSourceAlias''"
| "record_class (ROwned r) = model_name (model_of r)"

definition snapshots_of :: "import_record list \<Rightarrow> snapshot_row list" where
  "snapshots_of records = List.map_filter (\<lambda>r. case r of RSnapshot s \<Rightarrow> Some s | _ \<Rightarrow> None) records"

definition positions_of :: "import_record list \<Rightarrow> position list" where
  "positions_of records = List.map_filter (\<lambda>r. case r of RPosition p \<Rightarrow> Some p | _ \<Rightarrow> None) records"

definition require :: "bool \<Rightarrow> string \<Rightarrow> unit res" where
  "require ok message = (if ok then Inr () else Inl (ValueError message))"

text \<open>With two positions of one identifier both are compared with the assessment of the later one.\<close>

definition statuses_agree :: "position list \<Rightarrow> valuation_assessment list \<Rightarrow> bool" where
  "statuses_agree positions assessments =
     (let derived = map_of (rev (zip (map po_position_id positions) assessments)) in
      list_all (\<lambda>p. case derived (po_position_id p) of
        None \<Rightarrow> True | Some a \<Rightarrow> po_valuation_status p = status_value (va_status a)) positions)"

definition policies_agree :: "valuation_assessment list \<Rightarrow> bool" where
  "policies_agree assessments = list_all (\<lambda>a. va_policy_id a = vp_policy_id BASE_VALUATION_POLICY_V1) assessments"

definition counts_agree :: "jdict \<Rightarrow> import_record list \<Rightarrow> bool" where
  "counts_agree batch_counts records =
     list_all (\<lambda>(key, cls).
       let actual = PInt (int (length (filter (\<lambda>r. record_class r = cls) records))) in
       if key \<in> set DIRECT_SOURCE_DOMAIN_KEYS then py_eq (dict_get_or batch_counts key (PInt 0)) actual
       else key \<in> fst ` set batch_counts \<longrightarrow> py_eq (dict_get batch_counts key) actual) RECORD_COUNT_KEY_TO_CLASS"

definition canonical_status_counts :: "valuation_assessment list \<Rightarrow> jdict" where
  "canonical_status_counts assessments =
     counts_json (foldl (\<lambda>counts a. bump (status_value (va_status a)) counts) [] assessments)"

definition assessment_agrees :: "string \<Rightarrow> valuation_assessment list \<Rightarrow> jdict \<Rightarrow> unit res" where
  "assessment_agrees observed assessments source_assessment =
     rbind (require (dict_get source_assessment ''policy_id'' = PStr (vp_policy_id BASE_VALUATION_POLICY_V1))
              ''valuation_policy_mismatch: '') (\<lambda>_.
     rbind (require (dict_get source_assessment ''evaluated_at_utc'' = PStr observed) ''valuation_policy_mismatch: '') (\<lambda>_.
     require (py_eq (dict_get source_assessment ''status_counts'') (PDict (canonical_status_counts assessments)))
       ''valuation_status_counts_mismatch: ''))"

definition findings_agree ::
  "import_batch \<Rightarrow> snapshot_row \<Rightarrow> jdict \<Rightarrow> valuation_assessment list \<Rightarrow> unit res" where
  "findings_agree b snapshot receipt assessments =
     (let expected = map (normalize_tuple \<circ> finding_dict) (concat (map va_findings assessments)) in
      rbind (valuation_tuples (map PDict (ib_findings b))) (\<lambda>batch_valuation.
      rbind (py_list_of (dict_get (sn_payload snapshot) ''findings'')) (\<lambda>snap_findings.
      rbind (valuation_tuples snap_findings) (\<lambda>snap_valuation.
      rbind (py_list_of (dict_get receipt ''findings'')) (\<lambda>receipt_findings.
      rbind (valuation_tuples receipt_findings) (\<lambda>receipt_valuation.
      rbind (require (counter_eq batch_valuation expected) ''valuation_findings_mismatch: batch findings diverge from '') (\<lambda>_.
      rbind (require (counter_eq snap_valuation expected)
               ''valuation_snapshot_mismatch: snapshot findings diverge from '') (\<lambda>_.
      require (counter_eq receipt_valuation expected)
        ''valuation_receipt_mismatch: receipt findings diverge from ''))))))))"

definition surfaces_agree ::
  "import_batch \<Rightarrow> receipt_manifest \<Rightarrow> snapshot_row \<Rightarrow> jdict \<Rightarrow> import_record list \<Rightarrow> unit res" where
  "surfaces_agree b m snapshot receipt records =
     rbind (require (ib_completeness_status b = stored_completeness (ib_findings b) \<and>
                     dict_get (sn_payload snapshot) ''completeness_status'' = PStr (ib_completeness_status b) \<and>
                     dict_get receipt ''completeness_status'' = PStr (ib_completeness_status b))
              ''valuation_completeness_mismatch: '') (\<lambda>_.
     rbind (py_dict_of (dict_get (sn_payload snapshot) ''record_counts'')) (\<lambda>snap_counts.
     rbind (py_dict_of (dict_get receipt ''record_counts'')) (\<lambda>receipt_counts.
     let same = (\<lambda>counts. py_eq (PDict counts) (PDict (ib_record_counts b))) in
     rbind (require (same (rm_record_counts m) \<and> same snap_counts \<and> same receipt_counts)
              ''valuation_record_count_mismatch: '') (\<lambda>_.
     rbind (require (py_eq (dict_get_or (ib_record_counts b) ''position'' (PInt 0)) (PInt (int (length (positions_of records)))))
              ''valuation_position_count: batch declares '') (\<lambda>_.
     rbind (require (length (snapshots_of records) = 1) ''valuation_snapshot_count: expected exactly one Snapshot '') (\<lambda>_.
     rbind (require (counts_agree (ib_record_counts b) records) ''valuation_record_count_mismatch: batch.'') (\<lambda>_.
     require (list_all (\<lambda>p. po_snapshot_id p = rm_snapshot_id m) (positions_of records))
       ''valuation_snapshot_binding: positions bound to wrong snapshot '')))))))"

definition validate_import_valuation_contract ::
  "'e import_env_scheme \<Rightarrow> string \<Rightarrow> artifact_fs \<Rightarrow> string \<Rightarrow> import_batch \<Rightarrow> receipt_manifest \<Rightarrow>
   import_record list \<Rightarrow> unit res" where
  "validate_import_valuation_contract e root fs source b m records =
     (if source \<notin> set PRODUCTION_VALUATION_SOURCES then Inr ()
      else case filter (\<lambda>s. sn_snapshot_id s = rm_snapshot_id m) (snapshots_of records) of
        [snapshot] \<Rightarrow>
          rbind (observed_at_from_batch e b) (\<lambda>observed.
          rbind (assess_positions e (positions_of records) observed) (\<lambda>assessments.
          rbind (require (statuses_agree (positions_of records) assessments) ''valuation_status_mismatch: '') (\<lambda>_.
          rbind (require (policies_agree assessments) ''valuation_policy_mismatch'') (\<lambda>_.
          rbind (case read_artifact e root (rm_receipt_artifact_id m) fs of
                   Inl _ \<Rightarrow> Inl (ValueError ''valuation_receipt_mismatch: cannot read receipt artifact: '')
                 | Inr content \<Rightarrow>
                     (case json_loads e content of
                        None \<Rightarrow> Inl (ValueError ''valuation_receipt_mismatch: cannot read receipt artifact: '')
                      | Some (PDict d) \<Rightarrow> Inr d
                      | Some _ \<Rightarrow> Inl (AttributeError ''get''))) (\<lambda>receipt.
          rbind (findings_agree b snapshot receipt assessments) (\<lambda>_.
          rbind (surfaces_agree b m snapshot receipt records) (\<lambda>_.
          rbind (py_object_of (dict_get (sn_payload snapshot) ''valuation_assessment'')) (\<lambda>snap_assessment.
          rbind (py_object_of (dict_get receipt ''valuation_assessment'')) (\<lambda>receipt_assessment.
          rbind (assessment_agrees observed assessments snap_assessment) (\<lambda>_.
          assessment_agrees observed assessments receipt_assessment))))))))))
      | target \<Rightarrow> Inl (ValueError ''valuation_snapshot_mismatch: expected one snapshot for ''))"

end
