(* ===== verification/Import_Store.thy ===== *)
theory Import_Store
  imports Import_Valuation
begin

text \<open>
  The materialisation of an import (\<^verbatim>\<open>statecore/store.py\<close>): the checks of the envelope against the
  evidence store, the lineage of batches, tombstones, the replacement of source-owned rows, and the
  generic writers that refuse production imports.  A transaction works on a copy of the tables; a
  failure anywhere returns the old tables.  The constraints of the schema are checked on the tables
  about to be committed; \<open>commit_fails\<close> stands for every other refusal of the database, among them a
  foreign key that a statement inside the transaction misses.  Stored and incoming rows are compared
  by equality of the model's values; Python compares the dictionaries among their fields without
  regard to the order of keys, so the model refuses a replay that only reorders keys.
\<close>

section \<open>Generic writers\<close>

definition rejected_import :: "import_record \<Rightarrow> string option" where
  "rejected_import r =
     (case r of
        RReceipt i \<Rightarrow>
          if ri_kind i \<in> set PRODUCTION_IMPORT_KINDS
          then Some ''production import receipts require materialize_import_batch'' else None
      | RSnapshot s \<Rightarrow>
          if (case dict_get (sn_payload s) ''source'' of PStr k \<Rightarrow> k \<in> set PRODUCTION_IMPORT_KINDS | _ \<Rightarrow> False)
          then Some ''production import snapshots require materialize_import_batch'' else None
      | ROwned r \<Rightarrow>
          if owned_source r \<in> set PRODUCTION_IMPORT_KINDS
          then Some ''production import state requires materialize_import_batch'' else None
      | _ \<Rightarrow> None)"

fun reject_unmanifested_production_import :: "import_record list \<Rightarrow> unit res" where
  "reject_unmanifested_production_import [] = Inr ()"
| "reject_unmanifested_production_import (r # rs) =
     (case rejected_import r of
        Some m \<Rightarrow> Inl (StoreError m)
      | None \<Rightarrow> reject_unmanifested_production_import rs)"

definition same_alias :: "identity_alias \<Rightarrow> identity_alias \<Rightarrow> bool" where
  "same_alias a b \<longleftrightarrow>
     al_identity_kind a = al_identity_kind b \<and> al_provider_namespace a = al_provider_namespace b \<and>
     al_provider_alias a = al_provider_alias b \<and> al_canonical_id a = al_canonical_id b \<and>
     al_mapping_version a = al_mapping_version b"

definition reject_alias_retarget :: "import_record \<Rightarrow> import_db \<Rightarrow> unit res" where
  "reject_alias_retarget r db =
     (case r of
        RAlias a \<Rightarrow>
          (case tbl_get al_alias_id (db_aliases db) (al_alias_id a) of
             None \<Rightarrow> Inr ()
           | Some existing \<Rightarrow>
               if same_alias existing a then Inr () else Inl (StoreError ''identity alias mapping is immutable''))
      | _ \<Rightarrow> Inr ())"

fun merge_records :: "import_record list \<Rightarrow> import_db \<Rightarrow> import_db res" where
  "merge_records [] db = Inr db"
| "merge_records (r # rs) db = rbind (reject_alias_retarget r db) (\<lambda>_. merge_records rs (merge_record r db))"

text \<open>The generic upsert flushes after every record, so the constraints hold at every one of them.\<close>

fun upsert_each :: "import_record list \<Rightarrow> import_db \<Rightarrow> import_db res" where
  "upsert_each [] db = Inr db"
| "upsert_each (r # rs) db =
     rbind (reject_alias_retarget r db) (\<lambda>_.
       let db' = merge_record r db in
       if \<not> import_constraints db' then Inl (StoreError ''state-core atomic upsert failed: '') else upsert_each rs db')"

definition upsert_import_records ::
  "'e env_scheme \<Rightarrow> import_record list \<Rightarrow> import_db \<Rightarrow> import_record list res \<times> import_db" where
  "upsert_import_records e records db =
     (case rbind (reject_unmanifested_production_import records) (\<lambda>_. upsert_each records db) of
        Inl x \<Rightarrow> (Inl x, db)
      | Inr db' \<Rightarrow>
          if commit_fails e 0 then (Inl (StoreError ''state-core atomic upsert failed: ''), db) else (Inr records, db'))"

section \<open>The import envelope\<close>

definition check :: "bool \<Rightarrow> string \<Rightarrow> unit res" where
  "check ok message = (if ok then Inr () else Inl (StoreError message))"

definition validate_import_contract_fields :: "string \<Rightarrow> import_batch \<Rightarrow> receipt_manifest \<Rightarrow> unit res" where
  "validate_import_contract_fields source b m =
     rbind (check (ib_source_kind b = source) ''import batch source does not match materialization source'') (\<lambda>_.
     rbind (check (ib_coverage_mode b \<in> {''full'', ''delta''})
              ''import batch coverage mode is outside the closed set'') (\<lambda>_.
     rbind (check ((ib_supersedes_batch_id b = None) = (ib_correction_reason b = None))
              ''import correction requires both supersedes_batch_id and correction_reason'') (\<lambda>_.
     rbind (check (case ib_correction_reason b of None \<Rightarrow> True | Some r \<Rightarrow> py_strip r \<noteq> [])
              ''import correction reason must be non-empty'') (\<lambda>_.
     rbind (check (ib_completeness_status b \<in> {''complete'', ''partial'', ''blocked''})
              ''current import completeness status is outside the closed set'') (\<lambda>_.
     rbind (check (rm_batch_id m = ib_batch_id b) ''receipt manifest does not bind the import batch'') (\<lambda>_.
     rbind (check (rm_source_artifact_id m = ib_source_artifact_id b)
              ''receipt manifest does not bind the source evidence'') (\<lambda>_.
     check (rm_materialization_status m = ''materialized'')
       ''only a materialized receipt manifest can become current'')))))))"

definition expected_receipt_fields :: "import_batch \<Rightarrow> receipt_manifest \<Rightarrow> jdict" where
  "expected_receipt_fields b m =
     [(''import_batch_id'', PStr (ib_batch_id b)), (''receipt_manifest_id'', PStr (rm_manifest_id m)),
      (''source_artifact_id'', PStr (ib_source_artifact_id b)), (''receipt_id'', PStr (rm_receipt_id m)),
      (''source_sha256'', PStr (ib_source_sha256 b)), (''adapter_version'', PStr (ib_adapter_version b)),
      (''coverage_mode'', PStr (ib_coverage_mode b)), (''record_counts'', PDict (ib_record_counts b)),
      (''completeness_status'', PStr (ib_completeness_status b)), (''time_semantics'', PDict (ib_time_semantics b)),
      (''findings'', PList (map PDict (ib_findings b))), (''covered_domains'', texts_json (ib_covered_domains b)),
      (''supersedes_batch_id'', opt_json (ib_supersedes_batch_id b)),
      (''correction_reason'', opt_json (ib_correction_reason b)),
      (''corporate_action_status'', PStr (ib_corporate_action_status b)),
      (''corporate_action_gaps'', texts_json (ib_corporate_action_gaps b)),
      (''stable_source_id'', opt_json (ib_stable_source_id b)),
      (''projection_artifact_id'', opt_json (ib_projection_artifact_id b)),
      (''projection_sha256'', opt_json (ib_projection_sha256 b)),
      (''projection_schema_version'', opt_json (ib_projection_schema_version b))]"

definition validate_receipt_binding ::
  "'e import_env_scheme \<Rightarrow> string \<Rightarrow> string \<Rightarrow> string \<Rightarrow> import_batch \<Rightarrow> receipt_manifest \<Rightarrow> unit res" where
  "validate_receipt_binding e receipt_content source_schema receipt_schema b m =
     rbind (check (source_schema = SOURCE_ARTIFACT_SCHEMA) ''source artifact has the wrong provenance schema'') (\<lambda>_.
     rbind (check (receipt_schema = RECEIPT_ARTIFACT_SCHEMA) ''receipt artifact has the wrong provenance schema'') (\<lambda>_.
     case json_loads e receipt_content of
       None \<Rightarrow> Inl (StoreError ''receipt artifact is not valid JSON'')
     | Some (PDict payload) \<Rightarrow>
         rbind (check (list_all (\<lambda>(k, v). py_eq (dict_get payload k) v) (expected_receipt_fields b m))
                  ''receipt artifact does not bind the import envelope'') (\<lambda>_.
         check (py_eq (PDict (rm_record_counts m)) (PDict (ib_record_counts b)))
           ''manifest record counts do not match the import batch'')
     | Some _ \<Rightarrow> Inl (AttributeError ''get'')))"

definition receipt_indexes_of :: "import_record list \<Rightarrow> receipt_index_row list" where
  "receipt_indexes_of records = List.map_filter (\<lambda>r. case r of RReceipt i \<Rightarrow> Some i | _ \<Rightarrow> None) records"

definition snapshot_bindings :: "import_batch \<Rightarrow> receipt_manifest \<Rightarrow> jdict" where
  "snapshot_bindings b m =
     [(''import_batch_id'', PStr (ib_batch_id b)), (''receipt_manifest_id'', PStr (rm_manifest_id m)),
      (''import_receipt_id'', PStr (rm_receipt_id m)), (''import_receipt_ref'', PStr (rm_receipt_ref m)),
      (''source_artifact_id'', PStr (ib_source_artifact_id b)), (''record_counts'', PDict (ib_record_counts b)),
      (''completeness_status'', PStr (ib_completeness_status b)), (''findings'', PList (map PDict (ib_findings b)))]"

definition validate_snapshot_bindings ::
  "import_batch \<Rightarrow> receipt_manifest \<Rightarrow> import_record list \<Rightarrow> unit res" where
  "validate_snapshot_bindings b m records =
     (case snapshots_of records of
        [s] \<Rightarrow>
          rbind (check (sn_snapshot_id s = rm_snapshot_id m) ''snapshot id '') (\<lambda>_.
          rbind (check (list_all (\<lambda>(k, v). k \<in> fst ` set (sn_payload s) \<and> py_eq (dict_get (sn_payload s) k) v)
                          (snapshot_bindings b m)) ''snapshot payload '') (\<lambda>_. Inr ()))
      | _ \<Rightarrow> Inl (StoreError ''manifest declares snapshot_id but found ''))"

definition validate_broker_index ::
  "'e import_env_scheme \<Rightarrow> string \<Rightarrow> string \<Rightarrow> string \<Rightarrow> import_batch \<Rightarrow> receipt_manifest \<Rightarrow>
   receipt_index_row \<Rightarrow> unit res" where
  "validate_broker_index e source receipt_content created_at_utc b m i =
     (let payload = (case json_loads e receipt_content of Some (PDict d) \<Rightarrow> d | _ \<Rightarrow> []);
          source_ref = (let v = dict_get payload ''source_ref'' in
                        if pyval_truthy v then py_str e v else ib_source_id b);
          given = dict_get payload ''upstream_receipt_id'';
          upstream = (case given of PStr s \<Rightarrow> Some s | _ \<Rightarrow> None) in
      rbind (receipt_index_contract_fields source (rm_receipt_ref m) created_at_utc source_ref upstream
               (ib_source_artifact_id b)) (\<lambda>c.
      rbind (check (ri_kind i = rc_kind c) ''receipt index kind contract mismatch'') (\<lambda>_.
      rbind (check (ri_path i = rc_path c) ''receipt index path contract mismatch'') (\<lambda>_.
      rbind (check (ri_created_at_utc i = rc_created_at_utc c) ''receipt index created_at_utc contract mismatch'') (\<lambda>_.
      rbind (check (ri_source_refs i = rc_source_refs c) ''receipt index source_refs contract mismatch'') (\<lambda>_.
      check (ri_refs i = rc_refs c \<and> (upstream = None \<longrightarrow> \<not> pyval_truthy given)) ''receipt index refs contract mismatch''))))))"

text \<open>Only errors of the artifact store are wrapped.\<close>

definition wrap_artifact_error :: "'a res \<Rightarrow> 'a res" where
  "wrap_artifact_error r =
     (case r of
        Inl (ArtifactError c m) \<Rightarrow> Inl (StoreError (''import evidence failed integrity validation: '' @ m))
      | _ \<Rightarrow> r)"

definition load_evidence ::
  "'e io_env_scheme \<Rightarrow> string \<Rightarrow> artifact_fs \<Rightarrow> import_batch \<Rightarrow> receipt_manifest \<Rightarrow>
   (artifact_descriptor \<times> artifact_descriptor \<times> string) res" where
  "load_evidence e root fs b m =
     wrap_artifact_error
       (rbind (descriptor e root (ib_source_artifact_id b) fs) (\<lambda>source.
        rbind (descriptor e root (rm_receipt_artifact_id m) fs) (\<lambda>receipt.
        rbind (read_artifact e root (ib_source_artifact_id b) fs) (\<lambda>_.
        rbind (read_artifact e root (rm_receipt_artifact_id m) fs) (\<lambda>content. Inr (source, receipt, content))))))"

definition validate_import_envelope ::
  "'e import_env_scheme \<Rightarrow> string \<Rightarrow> artifact_fs \<Rightarrow> string \<Rightarrow> import_batch \<Rightarrow> receipt_manifest \<Rightarrow>
   import_record list \<Rightarrow> unit res" where
  "validate_import_envelope e root fs source b m records =
     rbind (validate_import_contract_fields source b m) (\<lambda>_.
     rbind (load_evidence e root fs b m) (\<lambda>(source_descriptor, receipt_descriptor, receipt_content).
     rbind (check (ad_content_sha256 source_descriptor = ib_source_sha256 b)
              ''source artifact hash does not match the import batch'') (\<lambda>_.
     rbind (check (ad_content_sha256 receipt_descriptor = rm_receipt_sha256 m)
              ''receipt artifact hash does not match the manifest'') (\<lambda>_.
     rbind (validate_receipt_binding e receipt_content (ad_artifact_schema source_descriptor)
              (ad_artifact_schema receipt_descriptor) b m) (\<lambda>_.
     case receipt_indexes_of records of
       [i] \<Rightarrow>
         rbind (if source \<in> set PRODUCTION_SOURCE_KINDS
                then rbind (materialized_source_for source) (\<lambda>kind. check (ri_kind i = kind) ''receipt index kind '')
                else Inr ()) (\<lambda>_.
         rbind (check (ri_receipt_id i = rm_receipt_id m \<and> ri_path i = rm_receipt_ref m)
                  ''receipt index does not match the receipt manifest'') (\<lambda>_.
         rbind (if source \<in> set PRODUCTION_SOURCE_KINDS
                then check (ri_source_refs i = [rm_receipt_ref m, ib_source_id b])
                       ''receipt index source_refs contract mismatch''
                else Inr ()) (\<lambda>_.
         rbind (if rm_snapshot_id m \<noteq> [] \<and> source = ''broker_read''
                then validate_snapshot_bindings b m records else Inr ()) (\<lambda>_.
         if source = ''broker_read''
         then validate_broker_index e source receipt_content (ad_created_at_utc receipt_descriptor) b m i else Inr ()))))
     | _ \<Rightarrow> Inl (StoreError ''production import requires exactly one receipt index''))))))"

section \<open>Tombstones and lineage\<close>

definition tombstone_id :: "'e io_env_scheme \<Rightarrow> string \<Rightarrow> string \<Rightarrow> string \<Rightarrow> string" where
  "tombstone_id e batch_id record_type record_id =
     ''import_tombstone_'' @ take 24 (sha256 e (utf8 (py_join [CHR 0x00] [batch_id, record_type, record_id])))"

definition mk_tombstone :: "'e io_env_scheme \<Rightarrow> import_batch \<Rightarrow> string \<Rightarrow> string \<Rightarrow> string \<Rightarrow> import_tombstone" where
  "mk_tombstone e b record_type record_id reason =
     \<lparr>sc_schema_version = STATE_CORE_SCHEMA_VERSION, sc_as_of_utc = sc_as_of_utc b, sc_authority_level = ''read_only'',
      it_tombstone_id = tombstone_id e (ib_batch_id b) record_type record_id, it_batch_id = ib_batch_id b,
      it_source_kind = ib_source_kind b, it_stable_source_id = ib_stable_source_id b, it_record_type = record_type,
      it_record_id = record_id, it_reason = reason, it_source_refs = [ib_source_artifact_id b]\<rparr>"

definition position_identity :: "position \<Rightarrow> string \<times> string" where
  "position_identity p =
     (po_account_id p, or_else (po_instrument_id p) (''legacy-symbol:'' @ py_upper (po_symbol p)))"

text \<open>
  The join of snapshots with the manifests and batches of the same source, newest first; ties are
  broken by the manifest identifier, which is the key of the table.
\<close>

definition previous_manifests :: "import_batch \<Rightarrow> import_db \<Rightarrow> receipt_manifest list" where
  "previous_manifests b db =
     filter (\<lambda>m. tbl_has sn_snapshot_id (db_snapshots db) (rm_snapshot_id m) \<and>
       (case tbl_get ib_batch_id (db_batches db) (rm_batch_id m) of
          None \<Rightarrow> False
        | Some old \<Rightarrow> ib_source_kind old = ib_source_kind b \<and> ib_source_id old = ib_source_id b \<and>
            ib_batch_id old \<noteq> ib_batch_id b)) (db_manifests db)"

definition previous_source_snapshot :: "import_batch \<Rightarrow> import_db \<Rightarrow> snapshot_row option" where
  "previous_source_snapshot b db =
     (case rev (sort_key rm_materialized_at_utc (sort_key rm_manifest_id (previous_manifests b db))) of
        [] \<Rightarrow> None
      | m # _ \<Rightarrow> tbl_get sn_snapshot_id (db_snapshots db) (rm_snapshot_id m))"

text \<open>A stable source owns rows by its identifier, otherwise the kind of the source owns them.\<close>

definition owned_by :: "string option \<Rightarrow> string \<Rightarrow> owned_row \<Rightarrow> bool" where
  "owned_by stable_source_id source r \<longleftrightarrow>
     (case truthy stable_source_id of Some s \<Rightarrow> owned_source_id r = s | None \<Rightarrow> owned_source r = source)"

definition owned_of :: "import_record list \<Rightarrow> owned_row list" where
  "owned_of records = List.map_filter (\<lambda>r. case r of ROwned r \<Rightarrow> Some r | _ \<Rightarrow> None) records"

definition absent_rows :: "import_batch \<Rightarrow> import_record list \<Rightarrow> owned_row list \<Rightarrow> owned_model \<Rightarrow> owned_row list" where
  "absent_rows b records rows model =
     (if model_domain model \<notin> set (ib_covered_domains b) then []
      else let incoming = map owned_id (filter (\<lambda>r. model_of r = model) (owned_of records)) in
        filter (\<lambda>r. model_of r = model \<and> owned_by (ib_stable_source_id b) (ib_source_kind b) r \<and>
                    owned_id r \<notin> set incoming) rows)"

definition absent_positions :: "import_batch \<Rightarrow> import_record list \<Rightarrow> import_db \<Rightarrow> position list" where
  "absent_positions b records db =
     (case previous_source_snapshot b db of
        None \<Rightarrow> []
      | Some s \<Rightarrow>
          if ''position'' \<notin> set (ib_covered_domains b) then []
          else filter (\<lambda>p. po_snapshot_id p = sn_snapshot_id s \<and>
                 position_identity p \<notin> set (map position_identity (positions_of records))) (db_positions db))"

definition automatic_full_tombstones ::
  "'e io_env_scheme \<Rightarrow> import_batch \<Rightarrow> import_record list \<Rightarrow> import_db \<Rightarrow> import_tombstone list" where
  "automatic_full_tombstones e b records db =
     concat (map (\<lambda>model. map (\<lambda>r. mk_tombstone e b (model_name model) (owned_id r) ''absent_from_full_import'')
       (absent_rows b records (db_owned db) model)) owned_models) @
     map (\<lambda>p. mk_tombstone e b ''Position'' (po_position_id p) ''absent_from_full_import'')
       (absent_positions b records db)"

definition model_named :: "string \<Rightarrow> owned_model option" where
  "model_named name = find (\<lambda>model. model_name model = name) owned_models"

definition tombstone_deletes :: "string \<Rightarrow> import_tombstone \<Rightarrow> owned_row \<Rightarrow> bool" where
  "tombstone_deletes source t r \<longleftrightarrow>
     model_named (it_record_type t) = Some (model_of r) \<and> owned_id r = it_record_id t \<and>
     owned_by (it_stable_source_id t) source r"

fun apply_explicit_tombstones :: "string \<Rightarrow> import_tombstone list \<Rightarrow> owned_row list \<Rightarrow> owned_row list res" where
  "apply_explicit_tombstones source [] rows = Inr rows"
| "apply_explicit_tombstones source (t # ts) rows =
     (case model_named (it_record_type t) of
        None \<Rightarrow>
          if it_record_type t = ''Position'' then apply_explicit_tombstones source ts rows
          else Inl (StoreError (''unsupported import tombstone record type: '' @ it_record_type t))
      | Some _ \<Rightarrow> apply_explicit_tombstones source ts (filter (\<lambda>r. \<not> tombstone_deletes source t r) rows))"

definition validate_existing_import_lineage ::
  "string \<Rightarrow> import_batch \<Rightarrow> receipt_manifest \<Rightarrow> import_tombstone list \<Rightarrow> import_db \<Rightarrow> unit res" where
  "validate_existing_import_lineage source b m tombstones db =
     rbind (check (list_all (\<lambda>t. it_batch_id t = ib_batch_id b \<and> it_source_kind t = source) tombstones)
              ''import tombstone does not bind the import batch'') (\<lambda>_.
     rbind (check (case tbl_get ib_batch_id (db_batches db) (ib_batch_id b) of None \<Rightarrow> True | Some old \<Rightarrow> old = b)
              ''import batch identity is immutable'') (\<lambda>_.
     rbind (check (case tbl_get rm_manifest_id (db_manifests db) (rm_manifest_id m) of None \<Rightarrow> True | Some old \<Rightarrow> old = m)
              ''receipt manifest identity is immutable'') (\<lambda>_.
     case ib_supersedes_batch_id b of
       None \<Rightarrow> Inr ()
     | Some superseded \<Rightarrow>
         (case tbl_get ib_batch_id (db_batches db) superseded of
            None \<Rightarrow> Inl (StoreError ''superseded import batch does not exist'')
          | Some old \<Rightarrow>
              check (ib_source_kind old = ib_source_kind b \<and> ib_source_id old = ib_source_id b)
                ''superseded import batch belongs to a different source''))))"

definition delete_covered_source_records ::
  "string \<Rightarrow> string option \<Rightarrow> string list \<Rightarrow> owned_row list \<Rightarrow> owned_row list" where
  "delete_covered_source_records source stable_source_id covered_domains rows =
     filter (\<lambda>r. \<not> (model_domain (model_of r) \<in> set covered_domains \<and> owned_by stable_source_id source r)) rows"

section \<open>Materialisation\<close>

definition tombstones_of :: "import_record list \<Rightarrow> import_tombstone list" where
  "tombstones_of records = List.map_filter (\<lambda>r. case r of RTombstone t \<Rightarrow> Some t | _ \<Rightarrow> None) records"

definition is_tombstone :: "import_record \<Rightarrow> bool" where
  "is_tombstone r = (case r of RTombstone _ \<Rightarrow> True | _ \<Rightarrow> False)"

text \<open>The dictionary of tombstones by identifier: a later one replaces an earlier one in its place.\<close>

definition tombstones_by_id :: "import_tombstone list \<Rightarrow> import_tombstone list" where
  "tombstones_by_id ts = foldl (\<lambda>d t. tbl_merge it_tombstone_id t d) [] ts"

definition import_transaction ::
  "'e io_env_scheme \<Rightarrow> string \<Rightarrow> import_batch \<Rightarrow> receipt_manifest \<Rightarrow> import_record list \<Rightarrow> import_db \<Rightarrow>
   (import_record list \<times> import_db) res" where
  "import_transaction e source b m records db =
     (let explicit = tombstones_of records; full = (ib_coverage_mode b = ''full'') in
      rbind (validate_existing_import_lineage source b m explicit db) (\<lambda>_.
      let automatic = (if full then automatic_full_tombstones e b records db else []);
          tombstones = tombstones_by_id (automatic @ explicit);
          rows = (if full
                  then delete_covered_source_records source (ib_stable_source_id b) (ib_covered_domains b) (db_owned db)
                  else db_owned db) in
      rbind (apply_explicit_tombstones source tombstones rows) (\<lambda>rows.
      let saved = RBatch b # RManifest m # filter (\<lambda>r. \<not> is_tombstone r) records @ map RTombstone tombstones in
      rbind (merge_records saved (db\<lparr>db_owned := rows\<rparr>)) (\<lambda>db'.
        if \<not> import_constraints db' then Inl (StoreError ''state-core atomic replace failed: '') else Inr (saved, db')))))"

definition materialize_import_batch ::
  "'e import_env_scheme \<Rightarrow> string \<Rightarrow> artifact_fs \<Rightarrow> string \<Rightarrow> import_batch \<Rightarrow> receipt_manifest \<Rightarrow>
   import_record list \<Rightarrow> import_db \<Rightarrow> import_record list res \<times> import_db" where
  "materialize_import_batch e root fs source b m records db =
     (case rbind (validate_import_envelope e root fs source b m records) (\<lambda>_.
           rbind (case validate_import_valuation_contract e root fs source b m records of
                    Inl (ValueError message) \<Rightarrow> Inl (StoreError message)
                  | r \<Rightarrow> r) (\<lambda>_.
           import_transaction e source b m records db)) of
        Inl x \<Rightarrow> (Inl x, db)
      | Inr (saved, db') \<Rightarrow>
          if commit_fails e 0 then (Inl (StoreError ''state-core atomic replace failed: ''), db) else (Inr saved, db'))"

end
