(* ===== verification/Write_Once.thy ===== *)
theory Write_Once
  imports Fin_Prelude
begin

text \<open>
  The contract that content-addressed evidence and import records share: what a lookup has once
  returned it returns in every later state.  A provider states its steps and one lookup; the
  clients use what holds along whole histories.
\<close>

locale write_once =
  fixes step :: "'s \<Rightarrow> 's \<Rightarrow> bool" and look :: "'s \<Rightarrow> 'k \<rightharpoonup> 'v"
  assumes step_keeps: "step s s' \<Longrightarrow> look s k = Some v \<Longrightarrow> look s' k = Some v"
begin

lemma kept: "step\<^sup>*\<^sup>* s s' \<Longrightarrow> look s k = Some v \<Longrightarrow> look s' k = Some v"
  by (induction rule: rtranclp_induct) (auto intro: step_keeps)

lemma agree:
  "step\<^sup>*\<^sup>* s s' \<Longrightarrow> look s k = Some v \<Longrightarrow> look s' k = Some v' \<Longrightarrow> v' = v"
  by (drule (1) kept) simp

lemma facts_kept:
  assumes "step\<^sup>*\<^sup>* s s'" and "\<forall>k v. look s k = Some v \<longrightarrow> P k v"
    and "\<And>t t' k v. step\<^sup>*\<^sup>* s t \<Longrightarrow> step t t' \<Longrightarrow> look t k = None \<Longrightarrow> look t' k = Some v \<Longrightarrow> P k v"
  shows "\<forall>k v. look s' k = Some v \<longrightarrow> P k v"
  using assms(1)
proof (induction rule: rtranclp_induct)
  case base
  show ?case by (fact assms(2))
next
  case (step t t')
  show ?case
  proof (intro allI impI)
    fix k v
    assume new: "look t' k = Some v"
    show "P k v"
    proof (cases "look t k")
      case None
      then show ?thesis using assms(3) [OF step(1,2) _ new] by blast
    next
      case (Some w)
      then show ?thesis using step.IH step_keeps [OF step(2) Some] new by simp
    qed
  qed
qed

end

text \<open>Appending to an association list never hides a binding, and binds an absent key.\<close>

lemma map_of_snoc: "map_of (xs @ [(k, v)]) j = (if j = k \<and> map_of xs j = None then Some v else map_of xs j)"
  by (auto simp: map_of_append map_add_def split: option.splits)

lemma map_of_None_keys: "map_of xs k = None \<longleftrightarrow> k \<notin> fst ` set xs"
  by (simp add: map_of_eq_None_iff)

end
