(* ===== verification/Artifact_Properties.thy ===== *)
theory Artifact_Properties
  imports Artifact_Store Write_Once
begin

text \<open>
  What the evidence store promises: descriptors and bytes are written once, whatever calls and
  faults follow; a successful put can be read back for ever; the recovery of the index leaves no
  finding about the index; and what an interrupted put leaves behind.
\<close>

section \<open>Written once\<close>

inductive artifact_call :: "string \<Rightarrow> artifact_fs \<Rightarrow> artifact_fs \<Rightarrow> bool" for root where
  call_put: "artifact_call root fs (snd (put_artifact (es :: nat \<Rightarrow> io_env) root a fs))"
| call_recover: "artifact_call root fs (snd (recover_index (es :: nat \<Rightarrow> io_env) root dry_run fs))"

lemma exclusive_link_cases:
  "snd (exclusive_link e k v dir) = dir \<or>
   (map_of dir k = None \<and> snd (exclusive_link e k v dir) = dir @ [(k, v)])"
  by (simp add: exclusive_link_def Let_def map_of_None_keys)

lemma exclusive_link_kept: "map_of dir j = Some x \<Longrightarrow> map_of (snd (exclusive_link e k v dir)) j = Some x"
  using exclusive_link_cases [of e k v dir] by (auto simp: map_of_snoc)

lemma exclusive_link_Inr:
  assumes "exclusive_link e k v dir = (Inr won, dir')"
  shows "(won \<longleftrightarrow> map_of dir k = None) \<and> map_of dir' j = (if won \<and> j = k then Some v else map_of dir j)"
proof (cases "k \<in> fst ` set dir")
  case True
  with assms show ?thesis by (auto simp: exclusive_link_def map_of_None_keys split: if_splits)
next
  case False
  with assms have "won" "dir' = dir @ [(k, v)]" by (auto simp: exclusive_link_def Let_def split: if_splits)
  with False show ?thesis by (simp add: map_of_snoc map_of_None_keys del: map_of_append)
qed

lemma write_bytes_once_kept:
  "map_of objects j = Some x \<Longrightarrow> map_of (snd (write_bytes_once e h content objects)) j = Some x"
  using exclusive_link_kept [of objects j x e h content]
  by (auto simp: write_bytes_once_def split: option.splits prod.splits sum.splits)

lemma write_bytes_once_Inr:
  "write_bytes_once e h content objects = (Inr u, objects') \<Longrightarrow> map_of objects' h = Some content"
  by (auto simp: write_bytes_once_def split: option.splits prod.splits sum.splits if_splits)

lemma write_index_entry_frame [simp]:
  "fs_descriptors (snd (write_index_entry e root d fs)) = fs_descriptors fs"
  "fs_objects (snd (write_index_entry e root d fs)) = fs_objects fs"
  by (simp_all add: write_index_entry_def split: sum.splits)

lemma publish_frame:
  "fs_descriptors (snd (publish_artifact es root a h d fs)) = fs_descriptors fs"
  "fs_objects (snd (publish_artifact es root a h d fs)) =
     snd (write_bytes_once (es 1) h (pa_content a) (fs_objects fs))"
proof -
  obtain r os where w: "write_bytes_once (es 1) h (pa_content a) (fs_objects fs) = (r, os)" by (rule prod.exhaust)
  obtain r' fs3 where i: "write_index_entry (es 2) root d (fs\<lparr>fs_objects := os\<rparr>) = (r', fs3)" by (rule prod.exhaust)
  have "fs_descriptors fs3 = fs_descriptors fs \<and> fs_objects fs3 = os"
    using write_index_entry_frame [of "es 2" root d "fs\<lparr>fs_objects := os\<rparr>"] by (simp add: i)
  then show "fs_descriptors (snd (publish_artifact es root a h d fs)) = fs_descriptors fs"
      "fs_objects (snd (publish_artifact es root a h d fs)) =
         snd (write_bytes_once (es 1) h (pa_content a) (fs_objects fs))"
    by (simp_all add: publish_artifact_def w i Let_def split: sum.splits del: One_nat_def)
qed

lemma put_frame:
  shows "fs_descriptors (snd (put_artifact es root a fs)) = fs_descriptors fs \<or>
     (\<exists>p d. fs_descriptors (snd (put_artifact es root a fs)) =
        snd (exclusive_link (es 0) p (Some d) (fs_descriptors fs)))"
    and "fs_objects (snd (put_artifact es root a fs)) = fs_objects fs \<or>
     (\<exists>h. fs_objects (snd (put_artifact es root a fs)) = snd (write_bytes_once (es 1) h (pa_content a) (fs_objects fs)))"
  unfolding put_artifact_def Let_def
  by (auto simp: publish_frame simp del: One_nat_def split: sum.splits prod.splits) (metis snd_conv)+

lemma put_kept:
  "map_of (fs_descriptors fs) p = Some x \<Longrightarrow> map_of (fs_descriptors (snd (put_artifact es root a fs))) p = Some x"
  "map_of (fs_objects fs) h = Some c \<Longrightarrow> map_of (fs_objects (snd (put_artifact es root a fs))) h = Some c"
  using put_frame [of es root a fs] by (metis exclusive_link_kept) (metis put_frame(2) write_bytes_once_kept)

lemma write_index_frame [simp]:
  "fs_descriptors (snd (write_index e root ds fs)) = fs_descriptors fs"
  "fs_objects (snd (write_index e root ds fs)) = fs_objects fs"
  by (simp_all add: write_index_def split: sum.splits)

lemma clear_index_entries_frame [simp]:
  "fs_descriptors (snd (clear_index_entries es root fs)) = fs_descriptors fs"
  "fs_objects (snd (clear_index_entries es root fs)) = fs_objects fs"
  "fs_index (snd (clear_index_entries es root fs)) = fs_index fs"
  by (simp_all add: clear_index_entries_def split: sum.splits prod.splits)

lemma write_recovery_frame [simp]:
  "fs_descriptors (snd (write_recovery e root r fs)) = fs_descriptors fs"
  "fs_objects (snd (write_recovery e root r fs)) = fs_objects fs"
  "fs_index (snd (write_recovery e root r fs)) = fs_index fs"
  "fs_entries (snd (write_recovery e root r fs)) = fs_entries fs"
  by (simp_all add: write_recovery_def split: sum.splits)

lemma recover_frame:
  "fs_descriptors (snd (recover_index es root dry_run fs)) = fs_descriptors fs \<and>
   fs_objects (snd (recover_index es root dry_run fs)) = fs_objects fs"
  unfolding recover_index_def Let_def
  by (auto split: sum.splits prod.splits dest!: arg_cong [where f = snd] simp: prod_eq_iff simp del: One_nat_def)

lemma artifact_call_kept:
  assumes "artifact_call root fs fs'"
  shows "map_of (fs_descriptors fs) p = Some x \<Longrightarrow> map_of (fs_descriptors fs') p = Some x"
    and "map_of (fs_objects fs) h = Some c \<Longrightarrow> map_of (fs_objects fs') h = Some c"
  using assms by (cases, simp_all add: put_kept recover_frame)+

interpretation descriptor_files: write_once "artifact_call root" "\<lambda>fs. map_of (fs_descriptors fs)" for root
  by unfold_locales (rule artifact_call_kept(1))

interpretation object_files: write_once "artifact_call root" "\<lambda>fs. map_of (fs_objects fs)" for root
  by unfold_locales (rule artifact_call_kept(2))

section \<open>Reading back\<close>

text \<open>Two calls see the same disk when they resolve paths and compute digests alike.\<close>

definition same_disk :: "'a io_env_scheme \<Rightarrow> 'b io_env_scheme \<Rightarrow> bool" where
  "same_disk e e' \<longleftrightarrow> realpath e = realpath e' \<and> sha256 e = sha256 e'"

lemma same_disk_resolve: "same_disk e e' \<Longrightarrow> resolve_under e root parts = resolve_under e' root parts"
  by (simp add: resolve_under_def same_disk_def)

lemma same_disk_read:
  assumes "same_disk e e'"
  shows "descriptor e root i fs = descriptor e' root i fs" and "read_artifact e root i fs = read_artifact e' root i fs"
proof -
  show d: "descriptor e root i fs = descriptor e' root i fs"
    by (simp add: descriptor_def descriptor_path_def same_disk_resolve [OF assms])
  show "read_artifact e root i fs = read_artifact e' root i fs"
    unfolding read_artifact_def object_path_def d same_disk_resolve [OF assms] using assms by (simp only: same_disk_def)
qed

lemma descriptor_Inr_iff:
  "descriptor e root i fs = Inr d \<longleftrightarrow>
   (\<exists>p. descriptor_path e root i = Inr p \<and> map_of (fs_descriptors fs) p = Some (Some d))"
  by (cases "descriptor_path e root i") (auto simp: descriptor_def split: option.splits)

lemma descriptor_kept:
  assumes "(artifact_call root)\<^sup>*\<^sup>* fs fs'" and "descriptor e root i fs = Inr d"
  shows "descriptor e root i fs' = Inr d"
  using assms(2) descriptor_files.kept [OF assms(1)] unfolding descriptor_Inr_iff by blast

lemma read_kept:
  assumes "(artifact_call root)\<^sup>*\<^sup>* fs fs'" and "read_artifact e root i fs = Inr c"
  shows "read_artifact e root i fs' = Inr c"
proof -
  from assms(2) obtain d p where "descriptor e root i fs = Inr d" "object_path e root (ad_content_sha256 d) = Inr p"
      "map_of (fs_objects fs) (ad_content_sha256 d) = Some c" "sha256 e c = ad_content_sha256 d"
    by (auto simp: read_artifact_def rbind_Inr_iff split: option.splits if_splits)
  note found = this
  from descriptor_kept [OF assms(1) found(1)] object_files.kept [OF assms(1) found(3)] found(2,4)
  show ?thesis by (simp add: read_artifact_def)
qed

lemma read_descriptor:
  "read_artifact e root i fs = Inr c \<Longrightarrow>
   \<exists>d. descriptor e root i fs = Inr d \<and> sha256 e c = ad_content_sha256 d"
  by (auto simp: read_artifact_def rbind_Inr_iff split: option.splits if_splits)

lemma publish_Inr:
  assumes "publish_artifact es root a h persisted fs = (Inr d, fs')"
  shows "d = persisted \<and> read_artifact (es 1) root (pa_artifact_id a) fs' = Inr (pa_content a)"
proof -
  obtain r os where w: "write_bytes_once (es 1) h (pa_content a) (fs_objects fs) = (r, os)" by (rule prod.exhaust)
  obtain r' fs3 where i: "write_index_entry (es 2) root persisted (fs\<lparr>fs_objects := os\<rparr>) = (r', fs3)"
    by (rule prod.exhaust)
  have "fs_descriptors fs3 = fs_descriptors fs \<and> fs_objects fs3 = os"
    using write_index_entry_frame [of "es 2" root persisted "fs\<lparr>fs_objects := os\<rparr>"] by (simp add: i)
  then have "read_artifact (es 1) root (pa_artifact_id a) fs3 =
      read_artifact (es 1) root (pa_artifact_id a) (fs\<lparr>fs_objects := os\<rparr>)"
    by (simp add: read_artifact_def descriptor_def)
  with assms show ?thesis
    by (auto simp: publish_artifact_def w i Let_def simp del: One_nat_def split: sum.splits if_splits)
qed

lemma put_Inr:
  assumes "put_artifact es root a fs = (Inr d, fs')"
  shows "descriptor (es 0) root (pa_artifact_id a) fs' = Inr d \<and>
    read_artifact (es 1) root (pa_artifact_id a) fs' = Inr (pa_content a)"
proof -
  obtain nd path hp where nd: "put_descriptor (es 0) a = Inr nd"
      and path: "descriptor_path (es 0) root (pa_artifact_id a) = Inr path"
      and hp: "object_path (es 0) root (ad_content_sha256 nd) = Inr hp"
    using assms by (auto simp: put_artifact_def rbind_def split: sum.splits)
  obtain won ds where link: "exclusive_link (es 0) path (Some nd) (fs_descriptors fs) = (Inr won, ds)"
    using assms by (auto simp: put_artifact_def nd path hp split: sum.splits prod.splits)
  obtain p where p: "(if won then Inr nd else descriptor (es 0) root (pa_artifact_id a) (fs\<lparr>fs_descriptors := ds\<rparr>)) = Inr p"
      and "publish_artifact es root a (ad_content_sha256 nd) p (fs\<lparr>fs_descriptors := ds\<rparr>) = (Inr d, fs')"
    using assms by (simp add: put_artifact_def nd path hp link Let_def split: sum.splits if_splits)
  then have publish: "publish_artifact es root a (ad_content_sha256 nd) d (fs\<lparr>fs_descriptors := ds\<rparr>) = (Inr d, fs')"
      and persisted: "(if won then Inr nd else descriptor (es 0) root (pa_artifact_id a) (fs\<lparr>fs_descriptors := ds\<rparr>)) = Inr d"
    using publish_Inr by metis+
  have "fs_descriptors fs' = ds" using publish_frame(1) [of es root a "ad_content_sha256 nd" d "fs\<lparr>fs_descriptors := ds\<rparr>"]
    by (simp only: publish) simp
  moreover have "descriptor (es 0) root (pa_artifact_id a) (fs\<lparr>fs_descriptors := ds\<rparr>) = Inr d"
    using persisted exclusive_link_Inr [OF link, of path] by (auto simp: descriptor_def path split: if_splits)
  ultimately have "descriptor (es 0) root (pa_artifact_id a) fs' = Inr d" by (simp add: descriptor_def)
  with publish_Inr [OF publish] show ?thesis by blast
qed

text \<open>
  Claim C33. Evidence is written once and stays readable: after a successful put, whatever further puts
  and recoveries run and wherever the file system interrupts them, the artifact has the same
  descriptor and the same bytes, and a later put under the same identifier succeeds only with the
  same content.
\<close>

theorem evidence_stays_readable:
  assumes "put_artifact es root a fs = (Inr d, fs1)" and "(artifact_call root)\<^sup>*\<^sup>* fs1 fs2"
    and "same_disk (es 1) (es 0)" and "same_disk e (es 0)"
  shows "descriptor e root (pa_artifact_id a) fs2 = Inr d \<and>
    read_artifact e root (pa_artifact_id a) fs2 = Inr (pa_content a) \<and>
    (\<forall>(es' :: nat \<Rightarrow> io_env) a' d' fs3. put_artifact es' root a' fs2 = (Inr d', fs3) \<and> pa_artifact_id a' = pa_artifact_id a \<and>
       same_disk (es' 1) e \<and> same_disk (es' 0) e \<longrightarrow> pa_content a' = pa_content a \<and> d' = d)"
proof (intro conjI allI impI)
  note put = put_Inr [OF assms(1)]
  show d: "descriptor e root (pa_artifact_id a) fs2 = Inr d"
    using descriptor_kept [OF assms(2)] put same_disk_read(1) [OF assms(4)] by metis
  show r: "read_artifact e root (pa_artifact_id a) fs2 = Inr (pa_content a)"
    using read_kept [OF assms(2)] put same_disk_read(2) [OF assms(3)] same_disk_read(2) [OF assms(4)] by metis
  fix es' :: "nat \<Rightarrow> io_env" and a' d' fs3
  assume again: "put_artifact es' root a' fs2 = (Inr d', fs3) \<and> pa_artifact_id a' = pa_artifact_id a \<and>
       same_disk (es' 1) e \<and> same_disk (es' 0) e"
  then have "artifact_call root fs2 fs3" using call_put [of root fs2 es' a'] by simp
  then have "(artifact_call root)\<^sup>*\<^sup>* fs2 fs3" by blast
  then have "descriptor e root (pa_artifact_id a) fs3 = Inr d"
      "read_artifact e root (pa_artifact_id a) fs3 = Inr (pa_content a)"
    using descriptor_kept d read_kept r by blast+
  with again put_Inr [of es' root a' fs2 d' fs3]
  show "pa_content a' = pa_content a" "d' = d"
    using same_disk_read [of "es' 1" e] same_disk_read [of "es' 0" e] by auto
qed

section \<open>Interrupted puts\<close>

definition undisturbed :: "io_env \<Rightarrow> bool" where
  "undisturbed e \<longleftrightarrow> (\<forall>p. \<not> io_fault e p)"

lemma put_descriptor_hash: "put_descriptor e a = Inr d \<Longrightarrow> ad_content_sha256 d = sha256 e (pa_content a)"
  by (auto simp: put_descriptor_def mk_descriptor_def split: if_splits)

lemma put_descriptor_same:
  "same_disk e e' \<Longrightarrow> pa_created_at_utc a = Some t \<Longrightarrow> t \<noteq> [] \<Longrightarrow> put_descriptor e a = put_descriptor e' a"
  by (simp add: put_descriptor_def same_disk_def or_else_def)

lemma undisturbed_link:
  "undisturbed e \<Longrightarrow> exclusive_link e k v dir =
     (Inr (map_of dir k = None), if map_of dir k = None then dir @ [(k, v)] else dir)"
  by (simp add: exclusive_link_def undisturbed_def Let_def map_of_None_keys)

lemma undisturbed_bytes:
  assumes "undisturbed e" and "map_of objects h \<in> {None, Some content}"
  shows "\<exists>os. write_bytes_once e h content objects = (Inr (), os) \<and> map_of os h = Some content"
  using assms by (auto simp: write_bytes_once_def undisturbed_link map_of_snoc simp del: map_of_append)

text \<open>The store has room for an artifact: nothing or the same descriptor, nothing or the same bytes.\<close>

definition open_for :: "string \<Rightarrow> artifact_descriptor \<Rightarrow> put_args \<Rightarrow> artifact_fs \<Rightarrow> bool" where
  "open_for path d a fs \<longleftrightarrow>
     map_of (fs_descriptors fs) path \<in> {None, Some (Some d)} \<and>
     map_of (fs_objects fs) (ad_content_sha256 d) \<in> {None, Some (pa_content a)}"

lemma undisturbed_put:
  assumes d: "put_descriptor (es 0) a = Inr d" and p: "descriptor_path (es 0) root (pa_artifact_id a) = Inr p"
    and hp: "object_path (es 0) root (ad_content_sha256 d) = Inr hp"
    and ip: "resolve_under (es 2) root [''index-entries'', index_entry_name (es 2) (ad_artifact_id d)] = Inr ip"
    and quiet: "undisturbed (es 0)" "undisturbed (es 1)" "undisturbed (es 2)"
    and disk: "same_disk (es 1) (es 0)" and free: "open_for p d a fs"
  shows "\<exists>fs'. put_artifact es root a fs = (Inr d, fs')"
proof -
  define ds where "ds = (if map_of (fs_descriptors fs) p = None then fs_descriptors fs @ [(p, Some d)] else fs_descriptors fs)"
  have link: "exclusive_link (es 0) p (Some d) (fs_descriptors fs) = (Inr (map_of (fs_descriptors fs) p = None), ds)"
    by (simp add: undisturbed_link [OF quiet(1)] ds_def)
  have bound: "map_of ds p = Some (Some d)"
    using free by (auto simp: ds_def open_for_def map_of_snoc simp del: map_of_append)
  obtain os where os: "write_bytes_once (es 1) (ad_content_sha256 d) (pa_content a) (fs_objects fs) = (Inr (), os)"
      "map_of os (ad_content_sha256 d) = Some (pa_content a)"
    using undisturbed_bytes [OF quiet(2)] free unfolding open_for_def by blast
  have p1: "descriptor_path (es 1) root (pa_artifact_id a) = Inr p" "object_path (es 1) root (ad_content_sha256 d) = Inr hp"
    using p hp by (simp_all add: descriptor_path_def object_path_def same_disk_resolve [OF disk] del: One_nat_def)
  have "read_artifact (es 1) root (pa_artifact_id a) (fs\<lparr>fs_descriptors := ds, fs_objects := os\<rparr>) = Inr (pa_content a)"
    using p1 os(2) bound put_descriptor_hash [OF d] disk
    by (simp add: read_artifact_def descriptor_def same_disk_def del: One_nat_def)
  then have "\<exists>fs'. publish_artifact es root a (ad_content_sha256 d) d (fs\<lparr>fs_descriptors := ds\<rparr>) = (Inr d, fs')"
    using quiet(3) by (simp add: publish_artifact_def os(1) Let_def write_index_entry_def ip undisturbed_def del: One_nat_def)
  moreover have "descriptor (es 0) root (pa_artifact_id a) (fs\<lparr>fs_descriptors := ds\<rparr>) = Inr d"
    using p bound by (simp add: descriptor_def)
  ultimately show ?thesis
    by (simp add: put_artifact_def d p hp link Let_def descriptors_compatible_def)
qed

lemma interrupted_open:
  assumes d: "put_descriptor (es 0) a = Inr d" and p: "descriptor_path (es 0) root (pa_artifact_id a) = Inr p"
    and hp: "object_path (es 0) root (ad_content_sha256 d) = Inr hp" and free: "open_for p d a fs"
  shows "open_for p d a (snd (put_artifact es root a fs))"
proof -
  obtain r ds where link: "exclusive_link (es 0) p (Some d) (fs_descriptors fs) = (r, ds)" by (rule prod.exhaust)
  obtain w os where bytes: "write_bytes_once (es 1) (ad_content_sha256 d) (pa_content a) (fs_objects fs) = (w, os)"
    by (rule prod.exhaust)
  have ds: "map_of ds p \<in> {None, Some (Some d)}"
    using free exclusive_link_cases [of "es 0" p "Some d" "fs_descriptors fs"]
    by (auto simp: link open_for_def map_of_snoc simp del: map_of_append)
  have os: "map_of os (ad_content_sha256 d) \<in> {None, Some (pa_content a)}"
    using free bytes exclusive_link_cases [of "es 1" "ad_content_sha256 d" "pa_content a" "fs_objects fs"]
    by (auto simp: write_bytes_once_def open_for_def map_of_snoc simp del: map_of_append split: prod.splits sum.splits)
  have pub: "open_for p d a (snd (publish_artifact es root a (ad_content_sha256 d) q (fs\<lparr>fs_descriptors := ds\<rparr>)))" for q
    using ds os by (simp add: open_for_def publish_frame bytes del: One_nat_def)
  have "open_for p d a (fs\<lparr>fs_descriptors := ds\<rparr>)" using ds free by (simp add: open_for_def)
  with pub show ?thesis by (simp add: put_artifact_def d p hp link Let_def split: sum.splits)
qed

lemma repeated_put:
  assumes "put_descriptor (es 0) a = Inr d" and "descriptor_path (es 0) root (pa_artifact_id a) = Inr p"
    and "object_path (es 0) root (ad_content_sha256 d) = Inr hp"
    and "resolve_under (es 0) root [''index-entries'', index_entry_name (es 0) (ad_artifact_id d)] = Inr ip"
    and "pa_created_at_utc a = Some t" and "t \<noteq> []" and "open_for p d a fs"
    and "\<And>i. undisturbed (es' i) \<and> same_disk (es' i) (es 0)"
  shows "\<exists>fs2. put_artifact es' root a (snd (put_artifact es root a fs)) = (Inr d, fs2)"
proof -
  have disk: "same_disk (es' i) (es 0)" and quiet: "undisturbed (es' i)" for i using assms(8) by blast+
  then have disk': "same_disk (es' 1) (es' 0)" by (simp add: same_disk_def)
  have d: "put_descriptor (es' 0) a = Inr d"
    using assms(1) put_descriptor_same [OF disk assms(5,6)] by simp
  show ?thesis
  proof (rule undisturbed_put [OF d _ _ _ quiet quiet quiet disk'])
    show "descriptor_path (es' 0) root (pa_artifact_id a) = Inr p"
      using assms(2) by (simp add: descriptor_path_def same_disk_resolve [OF disk])
    show "object_path (es' 0) root (ad_content_sha256 d) = Inr hp"
      using assms(3) by (simp add: object_path_def same_disk_resolve [OF disk])
    show "resolve_under (es' 2) root [''index-entries'', index_entry_name (es' 2) (ad_artifact_id d)] = Inr ip"
      using assms(4) disk [of 2] by (simp add: index_entry_name_def same_disk_resolve [OF disk]) (simp add: same_disk_def)
    show "open_for p d a (snd (put_artifact es root a fs))" by (rule interrupted_open [where es = es, OF assms(1-3,7)])
  qed
qed

text \<open>
  Claim C34. An interrupted put is completed by repeating it: wherever the first call was cut short,
  between the descriptor, the bytes and the index entry or inside one of them, the same call run again
  without faults returns the descriptor of the first, and the bytes can be read.
\<close>

theorem interrupted_put_completes:
  assumes "put_descriptor (es 0) a = Inr d" and "descriptor_path (es 0) root (pa_artifact_id a) = Inr p"
    and "object_path (es 0) root (ad_content_sha256 d) = Inr hp"
    and "resolve_under (es 0) root [''index-entries'', index_entry_name (es 0) (ad_artifact_id d)] = Inr ip"
    and "pa_created_at_utc a = Some t" and "t \<noteq> []" and "open_for p d a fs"
    and "\<And>i. undisturbed (es' i) \<and> same_disk (es' i) (es 0)"
  shows "\<exists>fs2. put_artifact es' root a (snd (put_artifact es root a fs)) = (Inr d, fs2) \<and>
    read_artifact (es 0) root (pa_artifact_id a) fs2 = Inr (pa_content a)"
proof -
  from repeated_put [where es = es and es' = es', OF assms] obtain fs2 where fs2: "put_artifact es' root a (snd (put_artifact es root a fs)) = (Inr d, fs2)"
    by blast
  have "same_disk (es' 1) (es 0)" using assms(8) by blast
  with fs2 put_Inr [OF fs2] show ?thesis using same_disk_read(2) [of "es' 1" "es 0"] by auto
qed

section \<open>Recovery of the index\<close>

lemma load_descriptor_files_distinct:
  "load_descriptor_files root files ds fs = Inr (ds', fs') \<Longrightarrow> distinct (map fst ds) \<Longrightarrow> distinct (map fst ds')"
proof (induction root files ds fs rule: load_descriptor_files.induct)
  case (2 root path d files ds fs)
  then show ?case by (simp add: distinct_update)
qed (auto simp: rbind_Inr_iff)

lemma load_descriptors_distinct: "load_descriptors e root fs = Inr (ds, findings) \<Longrightarrow> distinct (map fst ds)"
  by (auto simp: load_descriptors_def rbind_Inr_iff intro: load_descriptor_files_distinct)

lemma unlink_files_Inr:
  "unlink_files es paths dir = (Inr u, dir') \<Longrightarrow> set dir' = {f \<in> set dir. fst f \<notin> set paths}"
proof (induction es paths dir rule: unlink_files.induct)
  case (2 es path paths dir)
  then show ?case by (auto simp: AList.delete_eq split: if_splits)
qed simp

lemma cleared_entries:
  assumes "clear_index_entries es root fs = (Inr u, fs')" and "resolve_under (es 0) root [''index-entries''] = Inr dir"
  shows "glob_json dir (fs_entries fs') = []"
proof -
  from assms have "unlink_files es (filter (globbed dir) (map fst (fs_entries fs))) (fs_entries fs) = (Inr u, fs_entries fs')"
    by (auto simp: clear_index_entries_def split: prod.splits)
  from unlink_files_Inr [OF this] have "\<not> globbed dir (fst f)" if "f \<in> set (fs_entries fs')" for f
    using that by auto
  then have "filter (\<lambda>f. globbed dir (fst f)) (fs_entries fs') = []" by (simp add: filter_empty_conv)
  then show ?thesis by (simp add: glob_json_def)
qed

lemma recover_okE:
  assumes "recover_index es root False fs = (Inr r, fs')"
  obtains ds fs1 fs2 where "descriptor_map_of (es 0) root fs = Inr ds" and "write_index (es 0) root ds fs = (Inr (), fs1)"
    and "clear_index_entries (\<lambda>n. es (Suc (Suc n))) root fs1 = (Inr (), fs2)"
    and "audit (es 1) root Map.empty fs2 = Inr (rr_after r)"
    and "write_recovery (es 1) root r fs2 = (Inr (), fs')"
proof -
  from assms obtain before ds where pre: "audit (es 0) root Map.empty fs = Inr before"
      "descriptor_map_of (es 0) root fs = Inr ds"
    by (auto simp: recover_index_def rbind_def split: sum.splits)
  obtain fs1 where w: "write_index (es 0) root ds fs = (Inr (), fs1)"
    using assms by (auto simp: recover_index_def pre split: sum.splits prod.splits)
  obtain fs2 where c: "clear_index_entries (\<lambda>n. es (Suc (Suc n))) root fs1 = (Inr (), fs2)"
    using assms by (auto simp: recover_index_def pre w split: sum.splits prod.splits)
  obtain after where a: "audit (es 1) root Map.empty fs2 = Inr after"
    using assms by (auto simp: recover_index_def pre w c split: sum.splits prod.splits simp del: One_nat_def)
  from assms have "write_recovery (es 1) root r fs2 = (Inr (), fs') \<and> rr_after r = after"
    by (auto simp: recover_index_def pre w c a Let_def recovery_of_def simp del: One_nat_def
        split: sum.splits prod.splits)
  with that [OF pre(2) w c] a show thesis by blast
qed

lemma finding_code: "artifact_finding_of root code i path b = Inr f \<Longrightarrow> af_code f = code"
  by (auto simp: artifact_finding_of_def rbind_Inr_iff)

lemma content_finding_codes:
  "content_findings e root fs i d = Inr fl \<Longrightarrow> f \<in> set fl \<Longrightarrow>
   af_code f \<in> {''missing_bytes'', ''content_hash_mismatch'', ''content_length_mismatch''}"
  by (auto simp: content_findings_def rbind_Inr_iff Let_def dest!: finding_code split: option.splits if_splits)

lemma audit_same_disk:
  assumes "same_disk e e'"
  shows "audit e root expected fs = audit e' root expected fs"
proof -
  have "resolve_under e = resolve_under e'" using same_disk_resolve [OF assms] by blast
  moreover have "sha256 e = sha256 e'" using assms by (simp add: same_disk_def)
  ultimately show ?thesis
    by (simp only: audit_def load_descriptors_def load_index_def descriptor_findings_def content_findings_def
        object_path_def)
qed

lemma audit_cong:
  assumes "fs_descriptors fs' = fs_descriptors fs" and "fs_objects fs' = fs_objects fs" and "fs_index fs' = fs_index fs"
    and "fs_entries fs' = fs_entries fs"
  shows "audit e root expected fs' = audit e root expected fs"
  by (simp only: audit_def load_descriptors_def load_index_def descriptor_findings_def content_findings_def assms)

lemma map_res_mem: "map_res f xs = Inr ys \<Longrightarrow> y \<in> set ys \<Longrightarrow> \<exists>x\<in>set xs. f x = Inr y"
  by (induction xs arbitrary: ys) (auto simp: rbind_Inr_iff)

lemma audit_findings:
  assumes "load_descriptors e root fs = Inr (ds, [])" and "load_index e root fs [] = Inr (ix, [])"
    and "audit e root expected fs = Inr report" and "f \<in> set (ar_findings report)"
  shows "(\<exists>i d fl. (i, d) \<in> set ds \<and> descriptor_findings e root expected fs ix (i, d) = Inr fl \<and> f \<in> set fl) \<or>
    \<not> fst ` set ix \<subseteq> fst ` set ds \<or> af_code f = ''orphan_bytes''"
proof -
  from assms(1-3) obtain per orphaned orphans where
      per: "map_res (descriptor_findings e root expected fs ix) ds = Inr per"
      and orphaned: "map_res (\<lambda>h. rbind (object_path e root h) (\<lambda>path.
              artifact_finding_of root ''orphan_bytes'' None (Some path) False)) orphans = Inr orphaned"
      and findings: "ar_findings report = concat per @
         map (\<lambda>i. \<lparr>af_code = ''stale_index'', af_artifact_id = Some i, af_path = None, af_recoverable = True\<rparr>)
           (sort (filter (\<lambda>i. i \<notin> fst ` set ds) (remdups (map fst ix)))) @ orphaned"
    by (auto simp: audit_def rbind_Inr_iff Let_def)
  from assms(4) consider fl where "fl \<in> set per" "f \<in> set fl" | i where "i \<in> fst ` set ix" "i \<notin> fst ` set ds"
    | "f \<in> set orphaned" unfolding findings by auto
  then show ?thesis
  proof cases
    case 1
    with map_res_mem [OF per] show ?thesis by fastforce
  next
    case 2
    then show ?thesis by blast
  next
    case 3
    from map_res_mem [OF orphaned this] show ?thesis by (auto simp: rbind_Inr_iff dest: finding_code)
  qed
qed

text \<open>
  Recovery rebuilds the index from the descriptors: when it returns, the index lists exactly
  the artifacts that have a descriptor, each with the digest of its descriptor, an audit of the
  store finds nothing wrong with the index any more, only bytes that are missing, damaged or not
  referenced, and no descriptor and no bytes have changed.
\<close>

theorem recovery_rebuilds_index:
  assumes "recover_index es root False fs = (Inr r, fs')" and "\<And>i. same_disk (es i) (es 0)"
  shows "audit (es 0) root Map.empty fs' = Inr (rr_after r) \<and>
    (\<forall>f\<in>set (ar_findings (rr_after r)).
       af_code f \<in> {''missing_bytes'', ''content_hash_mismatch'', ''content_length_mismatch'', ''orphan_bytes''}) \<and>
    (\<exists>ds ix. descriptor_map_of (es 0) root fs = Inr ds \<and> load_index (es 0) root fs' [] = Inr (ix, []) \<and>
       map_of ix = map_option ad_content_sha256 \<circ> map_of ds) \<and>
    fs_descriptors fs' = fs_descriptors fs \<and> fs_objects fs' = fs_objects fs"
proof -
  from recover_okE [OF assms(1)] obtain ds fs1 fs2 where ds: "descriptor_map_of (es 0) root fs = Inr ds"
      and w: "write_index (es 0) root ds fs = (Inr (), fs1)"
      and c: "clear_index_entries (\<lambda>n. es (Suc (Suc n))) root fs1 = (Inr (), fs2)"
      and a: "audit (es 1) root Map.empty fs2 = Inr (rr_after r)"
      and wr: "write_recovery (es 1) root r fs2 = (Inr (), fs')" by blast
  define ix where "ix = sort_key fst (map (\<lambda>(i, d). (i, ad_content_sha256 d)) ds)"
  obtain dir where dir: "resolve_under (es 0) root [''index-entries''] = Inr dir"
    using c by (auto simp: clear_index_entries_def same_disk_resolve [OF assms(2) [of "Suc (Suc 0)"]] split: sum.splits)
  obtain ip where ip: "resolve_under (es 0) root [''index.json''] = Inr ip"
    using w by (auto simp: write_index_def split: sum.splits)
  have fs1: "fs1 = fs\<lparr>fs_index := Some (ValidIndex ix)\<rparr>"
    using w by (auto simp: write_index_def ip ix_def split: if_splits)
  have fs2: "fs_descriptors fs2 = fs_descriptors fs" "fs_objects fs2 = fs_objects fs" "fs_index fs2 = Some (ValidIndex ix)"
      "glob_json dir (fs_entries fs2) = []"
    using clear_index_entries_frame [of "\<lambda>n. es (Suc (Suc n))" root fs1, unfolded c snd_conv] cleared_entries [OF c]
    by (simp_all add: fs1 dir same_disk_resolve [OF assms(2) [of "Suc (Suc 0)"]])
  have fs': "fs_descriptors fs' = fs_descriptors fs2" "fs_objects fs' = fs_objects fs2" "fs_index fs' = fs_index fs2"
      "fs_entries fs' = fs_entries fs2"
    using write_recovery_frame [of "es 1" root r fs2, unfolded wr snd_conv] by simp_all
  have loaded: "load_descriptors (es 0) root fs = Inr (ds, [])"
    using ds by (auto simp: descriptor_map_of_def rbind_Inr_iff split: if_splits)
  have load: "load_descriptors (es 0) root fs' = Inr (ds, [])" "load_index (es 0) root fs' [] = Inr (ix, [])"
    using loaded by (simp_all add: load_descriptors_def load_index_def fs' fs2 ip dir)
  have ix: "map_of ix = map_option ad_content_sha256 \<circ> map_of ds"
    unfolding ix_def map_of_sort by (simp add: map_of_map)
  have audited: "audit (es 0) root Map.empty fs' = Inr (rr_after r)"
    using a audit_same_disk [OF assms(2) [of 1]] audit_cong [OF fs'] by metis
  have bound: "map_of ds i = Some d" if "(i, d) \<in> set ds" for i d
    using that load_descriptors_distinct [OF loaded] by simp
  have per: "af_code f \<in> {''missing_bytes'', ''content_hash_mismatch'', ''content_length_mismatch''}"
    if "(i, d) \<in> set ds" "descriptor_findings (es 0) root Map.empty fs' ix (i, d) = Inr fl" "f \<in> set fl" for i d fl f
  proof -
    have "content_findings (es 0) root fs' i d = Inr fl"
      using that(2) bound [OF that(1)] by (auto simp: descriptor_findings_def rbind_Inr_iff Let_def ix)
    from content_finding_codes [OF this that(3)] show ?thesis .
  qed
  have keys: "fst ` set ix = fst ` set ds" by (force simp: ix_def)
  have "\<forall>f\<in>set (ar_findings (rr_after r)).
       af_code f \<in> {''missing_bytes'', ''content_hash_mismatch'', ''content_length_mismatch'', ''orphan_bytes''}"
  proof
    fix f
    assume "f \<in> set (ar_findings (rr_after r))"
    from audit_findings [OF load audited this] keys per
    show "af_code f \<in> {''missing_bytes'', ''content_hash_mismatch'', ''content_length_mismatch'', ''orphan_bytes''}"
      by blast
  qed
  with audited ds load(2) ix show ?thesis by (simp add: fs' fs2)
qed

section \<open>An example store\<close>

definition demo_disk :: io_env where
  "demo_disk =
     \<lparr>clock = (\<lambda>i. ''2026-01-01T00:00:00+00:00''), stamp = (\<lambda>i. ''20260101T000000Z''),
      uuid8 = (\<lambda>i. ''0a1b2c3d''), fromisoformat = (\<lambda>s. Some (int (length s), Some 0)),
      isoformat = int_str, resolve_path = (\<lambda>ps. Some (py_join ''/'' ps)), display_path = (\<lambda>p. p),
      write_fails = (\<lambda>p. False), commit_fails = (\<lambda>i. False), coerce_money = (\<lambda>v. None),
      py_repr = (\<lambda>v. ''value''), pick_row = (\<lambda>i n. 0),
      realpath = (\<lambda>p. p), sha256 = (\<lambda>t. replicate 64 (CHR ''a'')), py_int = (\<lambda>v. None), is_symlink = (\<lambda>p. False),
      utc_now = 0, uuid_hex = ''0123456789abcdef0123456789abcdef'', io_fault = (\<lambda>p. False)\<rparr>"

definition demo_put :: put_args where
  "demo_put =
     \<lparr>pa_artifact_id = ''doc'', pa_content = ''bytes'', pa_artifact_schema = ''evidence'', pa_artifact_schema_version = ''v1'',
      pa_media_type = ''text/plain'', pa_owner_domain = ''capital'', pa_source_refs = [], pa_metadata = [],
      pa_created_at_utc = Some ''2026-01-01T00:00:00+00:00''\<rparr>"

definition demo_descriptor :: artifact_descriptor where
  "demo_descriptor =
     \<lparr>ad_artifact_id = ''doc'', ad_artifact_schema = ''evidence'', ad_artifact_schema_version = ''v1'',
      ad_content_sha256 = replicate 64 (CHR ''a''), ad_content_length = 5, ad_media_type = ''text/plain'',
      ad_owner_domain = ''capital'', ad_created_at_utc = ''2026-01-01T00:00:00+00:00'', ad_source_refs = [],
      ad_metadata = []\<rparr>"

definition empty_store :: artifact_fs where
  "empty_store = \<lparr>fs_descriptors = [], fs_objects = [], fs_index = None, fs_entries = [], fs_recovery = []\<rparr>"

lemma demo_resolve_under:
  "resolve_under demo_disk ''/store'' [''descriptors'', ''doc.json''] = Inr ''/store/descriptors/doc.json''"
  "resolve_under demo_disk ''/store'' [''objects'', take 2 (replicate 64 (CHR ''a'')), replicate 64 (CHR ''a'') @ ''.bin''] =
     Inr (''/store/objects/aa/'' @ replicate 64 (CHR ''a'') @ ''.bin'')"
  "resolve_under demo_disk ''/store'' [''index-entries'', replicate 64 (CHR ''a'') @ ''.json''] =
     Inr (''/store/index-entries/'' @ replicate 64 (CHR ''a'') @ ''.json'')"
  "resolve_under demo_disk ''/store'' [''descriptors''] = Inr ''/store/descriptors''"
  "resolve_under demo_disk ''/store'' [''index-entries''] = Inr ''/store/index-entries''"
  "resolve_under demo_disk ''/store'' [''index.json''] = Inr ''/store/index.json''"
  "resolve_under demo_disk ''/store'' [''recovery'', ''artifact_recovery_20260101T000000Z.json''] =
     Inr ''/store/recovery/artifact_recovery_20260101T000000Z.json''"
  by (simp_all add: resolve_under_def demo_disk_def path_join_def starts_with_def numeral_eq_Suc)

lemma demo_quiet_disk: "undisturbed demo_disk" "same_disk demo_disk demo_disk"
  by (simp_all add: undisturbed_def demo_disk_def same_disk_def)

lemma demo_put_descriptor:
  "put_descriptor demo_disk demo_put = Inr demo_descriptor"
  "descriptor_path demo_disk ''/store'' (pa_artifact_id demo_put) = Inr ''/store/descriptors/doc.json''"
  "object_path demo_disk ''/store'' (ad_content_sha256 demo_descriptor) =
     Inr (''/store/objects/aa/'' @ replicate 64 (CHR ''a'') @ ''.bin'')"
  "resolve_under demo_disk ''/store'' [''index-entries'', index_entry_name demo_disk (ad_artifact_id demo_descriptor)] =
     Inr (''/store/index-entries/'' @ replicate 64 (CHR ''a'') @ ''.json'')"
proof -
  show "put_descriptor demo_disk demo_put = Inr demo_descriptor"
    by (simp add: put_descriptor_def demo_put_def demo_descriptor_def demo_disk_def mk_descriptor_def is_sha256_def
        or_else_def py_strip_def py_isspace_def list_all_iff)
  show "descriptor_path demo_disk ''/store'' (pa_artifact_id demo_put) = Inr ''/store/descriptors/doc.json''"
    using demo_resolve_under(1) by (simp add: descriptor_path_def demo_put_def)
  show "object_path demo_disk ''/store'' (ad_content_sha256 demo_descriptor) =
     Inr (''/store/objects/aa/'' @ replicate 64 (CHR ''a'') @ ''.bin'')"
    using demo_resolve_under(2) by (simp only: object_path_def demo_descriptor_def artifact_descriptor.select_convs)
  show "resolve_under demo_disk ''/store'' [''index-entries'', index_entry_name demo_disk (ad_artifact_id demo_descriptor)] =
     Inr (''/store/index-entries/'' @ replicate 64 (CHR ''a'') @ ''.json'')"
    using demo_resolve_under(3) by (simp add: index_entry_name_def demo_disk_def)
qed

lemma demo_open: "open_for ''/store/descriptors/doc.json'' demo_descriptor demo_put empty_store"
  by (simp add: open_for_def empty_store_def)

theorem evidence_stays_readable_witness:
  "\<exists>fs1. put_artifact (\<lambda>_. demo_disk) ''/store'' demo_put empty_store = (Inr demo_descriptor, fs1) \<and>
     read_artifact demo_disk ''/store'' ''doc'' fs1 = Inr ''bytes''"
proof -
  obtain fs1 where put: "put_artifact (\<lambda>_. demo_disk) ''/store'' demo_put empty_store = (Inr demo_descriptor, fs1)"
    using undisturbed_put [where es = "\<lambda>_. demo_disk", OF demo_put_descriptor demo_quiet_disk(1) demo_quiet_disk(1)
      demo_quiet_disk(1) demo_quiet_disk(2) demo_open] by blast
  from evidence_stays_readable [OF put rtranclp.rtrancl_refl demo_quiet_disk(2) demo_quiet_disk(2)] put
  show ?thesis by (auto simp: demo_put_def)
qed

text \<open>The second system call of the first attempt, the link of the bytes, fails.\<close>

theorem interrupted_put_completes_witness:
  "\<exists>fs2. put_artifact (\<lambda>_. demo_disk) ''/store'' demo_put
       (snd (put_artifact (\<lambda>i. demo_disk\<lparr>io_fault := (\<lambda>p. i = 1 \<and> p = LinkTarget)\<rparr>) ''/store'' demo_put empty_store)) =
       (Inr demo_descriptor, fs2) \<and>
     read_artifact demo_disk ''/store'' ''doc'' fs2 = Inr ''bytes''"
proof -
  let ?es = "\<lambda>i :: nat. demo_disk\<lparr>io_fault := (\<lambda>p. i = 1 \<and> p = LinkTarget)\<rparr>"
  have e0: "?es 0 = demo_disk" by (simp add: demo_disk_def)
  show ?thesis
    using interrupted_put_completes [where es = ?es and es' = "\<lambda>_. demo_disk" and fs = empty_store, unfolded e0,
      OF demo_put_descriptor _ _ demo_open, of "''2026-01-01T00:00:00+00:00''"] demo_quiet_disk
    by (auto simp: demo_put_def)
qed

definition demo_unindexed :: artifact_fs where
  "demo_unindexed =
     empty_store\<lparr>fs_descriptors := [(''/store/descriptors/doc.json'', Some demo_descriptor)],
                 fs_objects := [(replicate 64 (CHR ''a''), ''bytes'')]\<rparr>"

lemma demo_loads:
  assumes "fs_descriptors fs = fs_descriptors demo_unindexed"
  shows "load_descriptors demo_disk ''/store'' fs = Inr ([(''doc'', demo_descriptor)], [])"
  using demo_resolve_under(4)
  by (simp add: load_descriptors_def assms demo_unindexed_def glob_json_def globbed_def starts_with_def)
     (simp add: demo_descriptor_def)

lemma demo_content:
  assumes "fs_objects fs = fs_objects demo_unindexed"
  shows "content_findings demo_disk ''/store'' fs ''doc'' demo_descriptor = Inr []"
  unfolding content_findings_def demo_put_descriptor(3)
  by (simp add: assms demo_unindexed_def) (simp add: demo_descriptor_def demo_disk_def)

lemma demo_audits:
  assumes "fs_descriptors fs = fs_descriptors demo_unindexed" and "fs_objects fs = fs_objects demo_unindexed"
    and "load_index demo_disk ''/store'' fs [] = Inr (ix, [])"
  shows "\<exists>report. audit demo_disk ''/store'' Map.empty fs = Inr report"
proof -
  have "ad_content_sha256 demo_descriptor = replicate 64 (CHR ''a'')" by (simp add: demo_descriptor_def)
  then show ?thesis
    using demo_loads [OF assms(1)] demo_content [OF assms(2)] assms(3)
    by (simp add: audit_def descriptor_findings_def Let_def assms(2) demo_unindexed_def)
qed

lemma demo_recovers: "\<exists>r fs'. recover_index (\<lambda>_. demo_disk) ''/store'' False demo_unindexed = (Inr r, fs')"
proof -
  have un: "fs_index demo_unindexed = None" "fs_entries demo_unindexed = []"
    by (simp_all add: demo_unindexed_def empty_store_def)
  let ?fs2 = "demo_unindexed\<lparr>fs_index := Some (ValidIndex [(''doc'', ad_content_sha256 demo_descriptor)])\<rparr>"
  have "load_index demo_disk ''/store'' demo_unindexed [] = Inr ([], [])"
    using demo_resolve_under(5,6) by (simp add: load_index_def un glob_json_def)
  from demo_audits [OF refl refl this] obtain before where b: "audit demo_disk ''/store'' Map.empty demo_unindexed = Inr before"
    by blast
  have "load_index demo_disk ''/store'' ?fs2 [] = Inr ([(''doc'', ad_content_sha256 demo_descriptor)], [])"
    using demo_resolve_under(5,6) by (simp add: load_index_def un glob_json_def)
  from demo_audits [OF _ _ this] obtain after where a: "audit demo_disk ''/store'' Map.empty ?fs2 = Inr after" by auto
  have ds: "descriptor_map_of demo_disk ''/store'' demo_unindexed = Inr [(''doc'', demo_descriptor)]"
    by (simp add: descriptor_map_of_def demo_loads)
  have w: "write_index demo_disk ''/store'' [(''doc'', demo_descriptor)] demo_unindexed = (Inr (), ?fs2)"
    using demo_resolve_under(6) by (simp add: write_index_def) (simp add: demo_disk_def)
  have c: "clear_index_entries (\<lambda>_. demo_disk) ''/store'' ?fs2 = (Inr (), ?fs2)"
    using demo_resolve_under(5) by (simp add: clear_index_entries_def un)
  have id: "rr_recovery_id (recovery_of demo_disk False before after ds) = ''artifact_recovery_20260101T000000Z''" for ds
    by (simp add: recovery_of_def demo_disk_def)
  show ?thesis
    using demo_resolve_under(7)
    by (simp add: recover_index_def b ds w c a Let_def write_recovery_def id) (simp add: demo_disk_def)
qed

theorem recovery_rebuilds_index_witness:
  "\<exists>r fs' ix. recover_index (\<lambda>_. demo_disk) ''/store'' False demo_unindexed = (Inr r, fs') \<and>
     load_index demo_disk ''/store'' fs' [] = Inr (ix, []) \<and> map_of ix ''doc'' = Some (replicate 64 (CHR ''a''))"
proof -
  obtain r fs' where r: "recover_index (\<lambda>_. demo_disk) ''/store'' False demo_unindexed = (Inr r, fs')"
    using demo_recovers by blast
  have ds: "descriptor_map_of demo_disk ''/store'' demo_unindexed = Inr [(''doc'', demo_descriptor)]"
    by (simp add: descriptor_map_of_def demo_loads)
  from recovery_rebuilds_index [OF r demo_quiet_disk(2)] obtain ix where
      "load_index demo_disk ''/store'' fs' [] = Inr (ix, [])" "map_of ix = map_option ad_content_sha256 \<circ> map_of [(''doc'', demo_descriptor)]"
    unfolding ds by auto
  with r show ?thesis by (auto simp: demo_descriptor_def)
qed

end
