(* ===== verification/Import_Laws.thy ===== *)
theory Import_Laws
  imports Import_Store Artifact_Properties
begin

text \<open>
  Laws of the import transaction: what merging a list of records does to each table, what a
  successful materialisation has checked, and the steps of a world of evidence store and database.
\<close>

section \<open>Merging\<close>

definition merge_all :: "('r \<Rightarrow> 'k) \<Rightarrow> 'r list \<Rightarrow> 'r list \<Rightarrow> 'r list" where
  "merge_all key rs t = foldl (\<lambda>t r. tbl_merge key r t) t rs"

lemma merge_all_simps [simp]:
  "merge_all key [] t = t" "merge_all key (r # rs) t = merge_all key rs (tbl_merge key r t)"
  "merge_all key (rs @ qs) t = merge_all key qs (merge_all key rs t)"
  by (simp_all add: merge_all_def)

text \<open>The last of the new rows with a key wins, else the old row stays.\<close>

lemma tbl_get_merge_all:
  "tbl_get key (merge_all key rs t) k =
     (case find (\<lambda>r. key r = k) (rev rs) of Some r \<Rightarrow> Some r | None \<Rightarrow> tbl_get key t k)"
proof (induction rs rule: rev_induct)
  case (snoc r rs)
  then show ?case by (auto simp: tbl_get_merge)
qed simp

lemma set_merge_all: "set (merge_all key rs t) \<subseteq> set rs \<union> set t"
  by (induction rs arbitrary: t) (fastforce simp: set_tbl_merge)+

lemma keyed_merge_all: "keyed key t \<Longrightarrow> keyed key (merge_all key rs t)"
  by (induction rs arbitrary: t) (simp_all add: keyed_merge)

definition batches_of :: "import_record list \<Rightarrow> import_batch list" where
  "batches_of records = List.map_filter (\<lambda>r. case r of RBatch b \<Rightarrow> Some b | _ \<Rightarrow> None) records"

definition manifests_of :: "import_record list \<Rightarrow> receipt_manifest list" where
  "manifests_of records = List.map_filter (\<lambda>r. case r of RManifest m \<Rightarrow> Some m | _ \<Rightarrow> None) records"

lemmas record_lists = batches_of_def manifests_of_def tombstones_of_def positions_of_def owned_of_def
  List.map_filter_simps

lemma merge_records_tables:
  "merge_records rs db = Inr db' \<Longrightarrow>
     db_batches db' = merge_all ib_batch_id (batches_of rs) (db_batches db) \<and>
     db_manifests db' = merge_all rm_manifest_id (manifests_of rs) (db_manifests db) \<and>
     db_tombstones db' = merge_all it_tombstone_id (tombstones_of rs) (db_tombstones db) \<and>
     db_positions db' = merge_all po_position_id (positions_of rs) (db_positions db) \<and>
     db_owned db' = merge_all owned_key (owned_of rs) (db_owned db)"
proof (induction rs arbitrary: db)
  case Nil
  then show ?case by (simp add: record_lists)
next
  case (Cons r rs)
  from Cons.prems have "merge_records rs (merge_record r db) = Inr db'" by (auto simp: rbind_Inr_iff)
  from Cons.IH [OF this] show ?case by (cases r) (simp_all add: record_lists)
qed

section \<open>Successful imports\<close>

lemma check_Inr [simp]: "check ok message = Inr () \<longleftrightarrow> ok"
  by (simp add: check_def)

lemma require_Inr [simp]: "require ok message = Inr () \<longleftrightarrow> ok"
  by (simp add: require_def)

lemma rbind_unit_iff: "rbind m f = Inr r \<longleftrightarrow> m = Inr () \<and> f () = Inr r"
  by (cases m) auto

lemma rbind_InrE:
  assumes "rbind m f = Inr r"
  obtains v where "m = Inr v" and "f v = Inr r"
  using assms by (auto simp: rbind_Inr_iff)

lemma materialize_okE:
  assumes "materialize_import_batch e root fs source b m records db = (Inr saved, db')"
  obtains "validate_import_envelope e root fs source b m records = Inr ()"
    and "validate_import_valuation_contract e root fs source b m records = Inr ()"
    and "import_transaction e source b m records db = Inr (saved, db')"
proof -
  obtain s d where t: "rbind (validate_import_envelope e root fs source b m records) (\<lambda>_.
           rbind (case validate_import_valuation_contract e root fs source b m records of
                    Inl (ValueError message) \<Rightarrow> Inl (StoreError message)
                  | r \<Rightarrow> r) (\<lambda>_.
           import_transaction e source b m records db)) = Inr (s, d)" and "s = saved" "d = db'"
    using assms by (auto simp: materialize_import_batch_def split: sum.splits if_splits)
  then show thesis
    using that by (auto simp: rbind_unit_iff split: sum.splits exn.splits)
qed

lemma materialize_error: "materialize_import_batch e root fs source b m records db = (Inl x, db') \<Longrightarrow> db' = db"
  by (auto simp: materialize_import_batch_def split: sum.splits if_splits)

definition import_tombstones ::
  "'e io_env_scheme \<Rightarrow> import_batch \<Rightarrow> import_record list \<Rightarrow> import_db \<Rightarrow> import_tombstone list" where
  "import_tombstones e b records db =
     (if ib_coverage_mode b = ''full'' then automatic_full_tombstones e b records db else []) @ tombstones_of records"

definition covered_row :: "string \<Rightarrow> import_batch \<Rightarrow> owned_row \<Rightarrow> bool" where
  "covered_row source b r \<longleftrightarrow>
     ib_coverage_mode b = ''full'' \<and> model_domain (model_of r) \<in> set (ib_covered_domains b) \<and>
     owned_by (ib_stable_source_id b) source r"

lemma apply_tombstones_Inr:
  "apply_explicit_tombstones source ts rows = Inr rows' \<Longrightarrow>
   rows' = filter (\<lambda>r. \<not> (\<exists>t\<in>set ts. tombstone_deletes source t r)) rows"
proof (induction source ts rows rule: apply_explicit_tombstones.induct)
  case (2 source t ts rows)
  then show ?case
    by (auto simp: tombstone_deletes_def split: option.splits if_splits intro!: filter_cong)
qed simp

lemma transaction_ok:
  assumes "import_transaction e source b m records db = Inr (saved, db')"
  shows "validate_existing_import_lineage source b m (tombstones_of records) db = Inr ()"
    and "saved = RBatch b # RManifest m # filter (\<lambda>r. \<not> is_tombstone r) records @
           map RTombstone (tombstones_by_id (import_tombstones e b records db))"
    and "merge_records saved (db\<lparr>db_owned := filter (\<lambda>r. \<not> covered_row source b r \<and>
           \<not> (\<exists>t\<in>set (tombstones_by_id (import_tombstones e b records db)). tombstone_deletes source t r))
             (db_owned db)\<rparr>) = Inr db'"
    and "import_constraints db'"
proof -
  let ?ts = "tombstones_by_id (import_tombstones e b records db)"
  let ?rows = "filter (\<lambda>r. \<not> covered_row source b r) (db_owned db)"
  let ?saved = "RBatch b # RManifest m # filter (\<lambda>r. \<not> is_tombstone r) records @ map RTombstone ?ts"
  have rows: "(if ib_coverage_mode b = ''full''
       then delete_covered_source_records source (ib_stable_source_id b) (ib_covered_domains b) (db_owned db)
       else db_owned db) = ?rows"
    by (auto simp: delete_covered_source_records_def covered_row_def intro!: filter_cong)
  have ts: "tombstones_by_id ((if ib_coverage_mode b = ''full'' then automatic_full_tombstones e b records db else []) @
      tombstones_of records) = ?ts"
    by (simp add: import_tombstones_def)
  obtain rows' where lin: "validate_existing_import_lineage source b m (tombstones_of records) db = Inr ()"
      and app: "apply_explicit_tombstones source ?ts ?rows = Inr rows'"
      and mer: "merge_records ?saved (db\<lparr>db_owned := rows'\<rparr>) = Inr db'" and con: "import_constraints db'"
      and sav: "saved = ?saved"
    using assms unfolding import_transaction_def Let_def rows ts
    by (elim rbind_InrE) (simp del: merge_records.simps split: if_splits)
  from apply_tombstones_Inr [OF app]
  have "rows' = filter (\<lambda>r. \<not> covered_row source b r \<and> \<not> (\<exists>t\<in>set ?ts. tombstone_deletes source t r)) (db_owned db)"
    by (simp add: filter_filter conj_commute)
  with mer sav show "merge_records saved (db\<lparr>db_owned := filter (\<lambda>r. \<not> covered_row source b r \<and>
      \<not> (\<exists>t\<in>set ?ts. tombstone_deletes source t r)) (db_owned db)\<rparr>) = Inr db'" by simp
  show "validate_existing_import_lineage source b m (tombstones_of records) db = Inr ()" by (rule lin)
  show "saved = ?saved" by (rule sav)
  show "import_constraints db'" by (rule con)
qed

end
