(* ===== verification/Import_Evidence.thy ===== *)
theory Import_Evidence
  imports Import_Laws Artifact_Properties
begin

text \<open>
  The evidence of an import between its preparation (\<^verbatim>\<open>import_provenance.py\<close>) and its acceptance
  (\<^verbatim>\<open>statecore/store.py\<close>): what \<^verbatim>\<open>prepare_import\<close> has written passes the checks of
  \<^verbatim>\<open>materialize_import_batch\<close>, and what becomes of an evidence put that was cut short.
\<close>

section \<open>Put or verify\<close>

lemma read_mono:
  assumes "\<And>p x. map_of (fs_descriptors fs) p = Some x \<Longrightarrow> map_of (fs_descriptors fs') p = Some x"
    and "\<And>h c. map_of (fs_objects fs) h = Some c \<Longrightarrow> map_of (fs_objects fs') h = Some c"
  shows "descriptor e root i fs = Inr d \<Longrightarrow> descriptor e root i fs' = Inr d"
    and "read_artifact e root i fs = Inr c \<Longrightarrow> read_artifact e root i fs' = Inr c"
proof -
  show d: "descriptor e root i fs = Inr d \<Longrightarrow> descriptor e root i fs' = Inr d" for d
    using assms(1) unfolding descriptor_Inr_iff by blast
  show "read_artifact e root i fs = Inr c \<Longrightarrow> read_artifact e root i fs' = Inr c"
    using d assms(2) by (fastforce simp: read_artifact_def rbind_Inr_iff split: option.splits if_splits)
qed

lemma put_or_verify_kept:
  assumes "put_or_verify es root i c schema t refs meta fs = (r, fs')"
  shows "descriptor e root j fs = Inr d \<Longrightarrow> descriptor e root j fs' = Inr d"
    and "read_artifact e root j fs = Inr b \<Longrightarrow> read_artifact e root j fs' = Inr b"
proof -
  let ?put = "put_artifact es root (evidence_put i c schema t refs meta) fs"
  have "fs' = fs \<or> fs' = snd ?put"
    using assms by (auto simp: put_or_verify_def split: sum.splits if_splits)
  then have kept: "\<And>p x. map_of (fs_descriptors fs) p = Some x \<Longrightarrow> map_of (fs_descriptors fs') p = Some x"
      "\<And>h x. map_of (fs_objects fs) h = Some x \<Longrightarrow> map_of (fs_objects fs') h = Some x"
    using put_kept by auto
  show "descriptor e root j fs = Inr d \<Longrightarrow> descriptor e root j fs' = Inr d"
    and "read_artifact e root j fs = Inr b \<Longrightarrow> read_artifact e root j fs' = Inr b"
    by (rule read_mono [OF kept]; assumption)+
qed

lemma put_descriptor_fields:
  "put_descriptor e a = Inr d \<Longrightarrow>
   ad_artifact_id d = py_strip (pa_artifact_id a) \<and> ad_artifact_schema d = py_strip (pa_artifact_schema a) \<and>
   is_sha256 (sha256 e (pa_content a))"
  by (auto simp: put_descriptor_def mk_descriptor_def split: if_splits)

lemma fresh_put_fields:
  assumes "put_artifact es root a fs = (Inr d, fs')" and "descriptor (es 0) root (pa_artifact_id a) fs = Inl x"
    and "x = not_found m"
  shows "ad_artifact_id d = py_strip (pa_artifact_id a) \<and> ad_artifact_schema d = py_strip (pa_artifact_schema a) \<and>
    is_sha256 (sha256 (es 0) (pa_content a))"
proof -
  obtain nd path hp where nd: "put_descriptor (es 0) a = Inr nd"
      and path: "descriptor_path (es 0) root (pa_artifact_id a) = Inr path"
      and hp: "object_path (es 0) root (ad_content_sha256 nd) = Inr hp"
    using assms(1) by (auto simp: put_artifact_def rbind_def split: sum.splits)
  have none: "map_of (fs_descriptors fs) path = None"
    using assms(2,3) by (auto simp: descriptor_def path not_found_def split: option.splits)
  obtain won ds where link: "exclusive_link (es 0) path (Some nd) (fs_descriptors fs) = (Inr won, ds)"
    using assms(1) by (auto simp: put_artifact_def nd path hp split: sum.splits prod.splits)
  have won: won using exclusive_link_Inr [OF link, of path] none by simp
  have "\<exists>fs1. publish_artifact es root a (ad_content_sha256 nd) nd fs1 = (Inr d, fs')"
    using assms(1) won by (auto simp: put_artifact_def nd path hp link Let_def split: sum.splits if_splits)
  then have "d = nd" using publish_Inr by blast
  then show ?thesis using put_descriptor_fields [OF nd] by simp
qed

lemma put_or_verify_Inr:
  assumes "put_or_verify es root i c schema t refs meta fs = (Inr d, fs')" and "same_disk (es 1) (es 0)"
    and "py_strip schema = schema"
  shows "descriptor (es 0) root i fs' = Inr d \<and> read_artifact (es 0) root i fs' = Inr c \<and>
    ad_artifact_schema d = schema \<and> 
    (descriptor (es 0) root i fs = Inr d \<or> ad_artifact_id d = py_strip i \<and> is_sha256 (sha256 (es 0) c))"
proof (cases "descriptor (es 0) root i fs")
  case (Inl x)
  then have x: "x = not_found (''artifact descriptor not found: '' @ i)"
      and put: "put_artifact es root (evidence_put i c schema t refs meta) fs = (Inr d, fs')"
    using assms(1) by (auto simp: put_or_verify_def split: if_splits)
  have args: "pa_artifact_id (evidence_put i c schema t refs meta) = i" "pa_content (evidence_put i c schema t refs meta) = c"
      "pa_artifact_schema (evidence_put i c schema t refs meta) = schema"
    by (simp_all add: evidence_put_def)
  show ?thesis
    using put_Inr [OF put] fresh_put_fields [OF put _ x] Inl same_disk_read(2) [OF assms(2)] assms(3)
    unfolding args by metis
next
  case (Inr d')
  with assms(1) show ?thesis by (auto simp: put_or_verify_def split: sum.splits if_splits)
qed

lemma py_strip_id:
  assumes "s \<noteq> []" and "\<not> py_isspace (hd s)" and "\<not> py_isspace (last s)"
  shows "py_strip s = s"
proof -
  have "dropWhile py_isspace s = s" using assms by (simp add: dropWhile_eq_self_iff)
  moreover have "dropWhile py_isspace (rev s) = rev s" using assms by (simp add: dropWhile_eq_self_iff hd_rev)
  ultimately show ?thesis by (simp add: py_strip_def)
qed

lemma hex_no_space: "is_sha256 h \<Longrightarrow> c \<in> set h \<Longrightarrow> \<not> py_isspace c"
proof -
  assume "is_sha256 h" "c \<in> set h"
  then have "c \<in> set ''0123456789abcdef''" by (simp only: is_sha256_def list_all_iff)
  moreover have "list_all (\<lambda>c. \<not> py_isspace c) ''0123456789abcdef''" by code_simp
  ultimately show ?thesis unfolding list_all_iff by blast
qed

lemma source_name_strip: "is_sha256 h \<Longrightarrow> py_strip (source_artifact_name kind h) = source_artifact_name kind h"
proof (rule py_strip_id)
  assume h: "is_sha256 h"
  then have "take 24 h \<noteq> []" by (auto simp: is_sha256_def)
  moreover from this have "last (take 24 h) \<in> set h" by (meson in_set_takeD last_in_set)
  ultimately show "\<not> py_isspace (last (source_artifact_name kind h))"
    using hex_no_space [OF h] by (simp add: source_artifact_name_def)
qed (simp_all add: source_artifact_name_def py_isspace_def)

lemma schema_strips: "py_strip SOURCE_ARTIFACT_SCHEMA = SOURCE_ARTIFACT_SCHEMA" "py_strip RECEIPT_ARTIFACT_SCHEMA = RECEIPT_ARTIFACT_SCHEMA"
  by code_simp+

section \<open>A prepared import is accepted\<close>

lemma prepare_okE:
  assumes "prepare_import es root a fs = (Inr p, fs')" and "\<And>n. same_disk (es n) (es 0)"
  obtains source rd art where "check_prepare_args a = Inr ()"
    and "sha256 (es 0) (pr_source_content a) = pr_source_sha256 a"
    and "put_or_verify es root (source_artifact_name (pr_source_kind a) (pr_source_sha256 a)) (pr_source_content a)
           SOURCE_ARTIFACT_SCHEMA (pr_created_at_utc a) [] [(''source_kind'', PStr (pr_source_kind a)),
           (''source_sha256'', PStr (pr_source_sha256 a))] (ef_artifacts fs) = (Inr source, art)"
    and "put_or_verify (\<lambda>n. es (n + 3)) root (rm_receipt_artifact_id (pi_manifest p))
           (canonical_json_bytes (es 0) (pi_receipt_payload p)) RECEIPT_ARTIFACT_SCHEMA (ad_created_at_utc source)
           [ad_artifact_id source] [(''batch_id'', PStr (batch_id_of (es 0) a)), (''receipt_id'', PStr (pr_receipt_id a))] art =
           (Inr rd, ef_artifacts fs')"
    and "pi_batch p = batch_of (es 0) a source"
    and "pi_manifest p = manifest_of (es 0) a source (sha256 (es 0) (canonical_json_bytes (es 0) (pi_receipt_payload p)))
           (rm_receipt_artifact_id (pi_manifest p))"
    and "pi_receipt_payload p = complete_receipt a (batch_id_of (es 0) a) (rm_manifest_id (pi_manifest p)) source"
  using assms(1) unfolding prepare_import_def persist_source_evidence_def Let_def
  by (auto simp: manifest_of_def intro!: that split: sum.splits prod.splits if_splits)

text \<open>
  The fields that the adapters put into the receipt themselves, and the index row they build for it.
\<close>

definition receipt_carries :: "prepare_args \<Rightarrow> bool" where
  "receipt_carries a \<longleftrightarrow>
     dict_get (pr_receipt_payload a) ''receipt_id'' = PStr (pr_receipt_id a) \<and>
     dict_get (pr_receipt_payload a) ''source_sha256'' = PStr (pr_source_sha256 a) \<and>
     dict_get (pr_receipt_payload a) ''adapter_version'' = PStr (pr_adapter_version a) \<and>
     dict_get (pr_receipt_payload a) ''record_counts'' = PDict (pr_record_counts a)"

definition indexes_receipt :: "prepare_args \<Rightarrow> receipt_index_row \<Rightarrow> bool" where
  "indexes_receipt a i \<longleftrightarrow>
     ri_receipt_id i = pr_receipt_id a \<and> ri_kind i = pr_source_kind a \<and> ri_path i = pr_receipt_ref a \<and>
     ri_source_refs i = [pr_receipt_ref a, pr_source_id a]"

lemma receipt_binds_fields:
  assumes "receipt_carries a"
  shows "list_all (\<lambda>(k, v). dict_get (complete_receipt a (batch_id_of e a) manifest_id source) k = v)
    (expected_receipt_fields (batch_of e a source) ((manifest_of e a source h i)\<lparr>rm_manifest_id := manifest_id\<rparr>))"
  using assms
  by (simp add: expected_receipt_fields_def batch_of_def manifest_of_def complete_receipt_def receipt_carries_def)

lemma dict_get_plain: "json_plain (PDict d) \<Longrightarrow> json_plain (dict_get d k)"
  by (auto simp: dict_get_def list_all_iff split: option.splits dest!: map_of_SomeD)

lemma prepared_binding:
  assumes "receipt_carries a" and "json_plain (PDict r)" and "r = complete_receipt a (batch_id_of e a) (rm_manifest_id m) source"
    and "m = manifest_of e a source h i"
  shows "list_all (\<lambda>(k, v). py_eq (dict_get (json_object e r) k) v) (expected_receipt_fields (batch_of e a source) m)"
proof -
  have m: "(manifest_of e a source h i)\<lparr>rm_manifest_id := rm_manifest_id m\<rparr> = m" using assms(4) by simp
  have "dict_get r k = v" if "(k, v) \<in> set (expected_receipt_fields (batch_of e a source) m)" for k v
    using receipt_binds_fields [OF assms(1), of e "rm_manifest_id m" source h i] that
    unfolding m assms(3) [symmetric] list_all_iff by auto
  then show ?thesis
    using py_eq_json [OF dict_get_plain [OF assms(2)]] by (fastforce simp: list_all_iff dict_get_json_object)
qed

lemma prepared_contract:
  assumes "check_prepare_args a = Inr ()" and "pr_completeness_status a \<noteq> ''legacy_unknown''"
  shows "validate_import_contract_fields (pr_source_kind a) (batch_of e a source) (manifest_of e a source h i) = Inr ()"
proof -
  have "pr_coverage_mode a \<in> {''full'', ''delta''}" "pr_completeness_status a \<in> {''complete'', ''partial'', ''blocked''}"
      "(pr_supersedes_batch_id a = None) = (pr_correction_reason a = None)"
      "case pr_correction_reason a of None \<Rightarrow> True | Some r \<Rightarrow> py_strip r \<noteq> []"
    using assms by (simp_all add: check_prepare_args_def split: if_splits option.splits)
  then show ?thesis
    by (simp add: validate_import_contract_fields_def batch_of_def manifest_of_def rbind_unit_iff)
qed

lemma prepared_envelope:
  assumes "prepare_import es root a fs = (Inr p, fs')" and "\<And>n. same_disk (es n) (es 0)" and "same_disk e (es 0)"
    and "\<And>d. descriptor (es 0) root (source_artifact_name (pr_source_kind a) (pr_source_sha256 a)) (ef_artifacts fs) = Inr d \<Longrightarrow>
           ad_artifact_id d = source_artifact_name (pr_source_kind a) (pr_source_sha256 a)"
    and "json_loads e (canonical_json_bytes (es 0) (pi_receipt_payload p)) = Some (json_norm (es 0) (PDict (pi_receipt_payload p)))"
    and "json_plain (PDict (pi_receipt_payload p))" and "receipt_carries a"
    and "pr_source_kind a \<in> {''personal_finance_export'', ''beancount_ledger''}"
    and "pr_completeness_status a \<noteq> ''legacy_unknown''"
    and "receipt_indexes_of records = [i]" and "indexes_receipt a i"
  shows "validate_import_envelope e root (ef_artifacts fs') (pr_source_kind a) (pi_batch p) (pi_manifest p) records = Inr ()"
    and "read_artifact e root (rm_receipt_artifact_id (pi_manifest p)) (ef_artifacts fs') =
      Inr (canonical_json_bytes (es 0) (pi_receipt_payload p))"
proof -
  let ?e = "es 0" and ?name = "source_artifact_name (pr_source_kind a) (pr_source_sha256 a)" and ?m = "pi_manifest p"
  let ?bytes = "canonical_json_bytes ?e (pi_receipt_payload p)"
  from prepare_okE [OF assms(1,2)] obtain source rd art where args: "check_prepare_args a = Inr ()"
      and sha: "sha256 ?e (pr_source_content a) = pr_source_sha256 a"
      and put1: "put_or_verify es root ?name (pr_source_content a) SOURCE_ARTIFACT_SCHEMA (pr_created_at_utc a) []
        [(''source_kind'', PStr (pr_source_kind a)), (''source_sha256'', PStr (pr_source_sha256 a))] (ef_artifacts fs) = (Inr source, art)"
      and put2: "put_or_verify (\<lambda>n. es (n + 3)) root (rm_receipt_artifact_id ?m) ?bytes RECEIPT_ARTIFACT_SCHEMA
        (ad_created_at_utc source) [ad_artifact_id source]
        [(''batch_id'', PStr (batch_id_of ?e a)), (''receipt_id'', PStr (pr_receipt_id a))] art = (Inr rd, ef_artifacts fs')"
      and b: "pi_batch p = batch_of ?e a source"
      and m: "?m = manifest_of ?e a source (sha256 ?e ?bytes) (rm_receipt_artifact_id ?m)"
      and r: "pi_receipt_payload p = complete_receipt a (batch_id_of ?e a) (rm_manifest_id ?m) source" .
  note one = put_or_verify_Inr [OF put1 assms(2) schema_strips(1)]
  have name: "ad_artifact_id source = ?name" using one assms(4) source_name_strip sha by auto
  have mf: "rm_receipt_sha256 ?m = sha256 ?e ?bytes" "rm_receipt_id ?m = pr_receipt_id a" "rm_receipt_ref ?m = pr_receipt_ref a"
      "rm_record_counts ?m = pr_record_counts a"
    by (subst m, simp add: manifest_of_def)+
  have disk3: "same_disk (es (1 + 3)) (es (0 + 3))" "same_disk (es 3) ?e" using assms(2) [of 4] assms(2) [of 3] by (simp_all add: same_disk_def)
  note two = put_or_verify_Inr [OF put2 disk3(1) schema_strips(2)]
  have "descriptor ?e root ?name (ef_artifacts fs') = Inr source" "read_artifact ?e root ?name (ef_artifacts fs') = Inr (pr_source_content a)"
    using put_or_verify_kept [OF put2] one by blast+
  then have reads: "descriptor e root ?name (ef_artifacts fs') = Inr source" "read_artifact e root ?name (ef_artifacts fs') = Inr (pr_source_content a)"
      "descriptor e root (rm_receipt_artifact_id ?m) (ef_artifacts fs') = Inr rd"
      "read_artifact e root (rm_receipt_artifact_id ?m) (ef_artifacts fs') = Inr ?bytes"
    using two same_disk_read [OF assms(3)] same_disk_read [OF disk3(2)]
    by simp_all
  have hashes: "ad_content_sha256 source = pr_source_sha256 a" "ad_content_sha256 rd = sha256 ?e ?bytes"
    using read_descriptor [OF reads(2)] read_descriptor [OF reads(4)] reads(1,3) sha assms(3) by (auto simp: same_disk_def)
  have "load_evidence e root (ef_artifacts fs') (pi_batch p) ?m = Inr (source, rd, ?bytes)"
    using reads by (simp add: load_evidence_def wrap_artifact_error_def b name batch_of_def)
  moreover have "validate_import_contract_fields (pr_source_kind a) (pi_batch p) ?m = Inr ()"
    unfolding b by (subst m) (rule prepared_contract [OF args assms(9)])
  moreover have "validate_receipt_binding e ?bytes (ad_artifact_schema source) (ad_artifact_schema rd) (pi_batch p) ?m = Inr ()"
    using prepared_binding [OF assms(7,6) r m] one two mf(4) unfolding b validate_receipt_binding_def assms(5) json_object_PDict
    by (simp add: rbind_unit_iff) (simp add: batch_of_def)
  moreover have "ib_source_sha256 (pi_batch p) = pr_source_sha256 a" "ib_source_id (pi_batch p) = pr_source_id a"
    by (simp_all add: b batch_of_def)
  ultimately show "validate_import_envelope e root (ef_artifacts fs') (pr_source_kind a) (pi_batch p) (pi_manifest p) records = Inr ()"
    using hashes assms(8,10,11) mf
    by (auto simp: validate_import_envelope_def indexes_receipt_def rbind_unit_iff PRODUCTION_SOURCE_KINDS_def
        PRODUCTION_CAPITAL_IMPORT_ADAPTERS_def materialized_source_for_def)
  show "read_artifact e root (rm_receipt_artifact_id ?m) (ef_artifacts fs') = Inr ?bytes" by (rule reads(4))
qed

text \<open>
  Claim C30. What is prepared is accepted: when \<^verbatim>\<open>prepare_import\<close> returns for one of the two file
  adapters, the batch and the manifest it returns, together with the evidence it wrote, pass the
  whole envelope check of \<^verbatim>\<open>materialize_import_batch\<close>: the artifacts are found and intact, their
  digests are those of the rows, and the receipt binds every field.  The adapter contributes four
  fields of the receipt and the index row, and \<^verbatim>\<open>json.loads\<close> reads back what \<^verbatim>\<open>json.dumps\<close> wrote.
\<close>

theorem prepared_import_accepted:
  fixes es :: "nat \<Rightarrow> io_env" and e :: import_env
  assumes "prepare_import es root a fs = (Inr p, fs')" and "\<And>n. same_disk (es n) (es 0)" and "same_disk e (es 0)"
    and "\<And>d. descriptor (es 0) root (source_artifact_name (pr_source_kind a) (pr_source_sha256 a)) (ef_artifacts fs) = Inr d \<Longrightarrow>
           ad_artifact_id d = source_artifact_name (pr_source_kind a) (pr_source_sha256 a)"
    and "json_loads e (canonical_json_bytes (es 0) (pi_receipt_payload p)) = Some (json_norm (es 0) (PDict (pi_receipt_payload p)))"
    and "json_plain (PDict (pi_receipt_payload p))" and "receipt_carries a"
    and "pr_source_kind a \<in> {''personal_finance_export'', ''beancount_ledger''}"
    and "pr_completeness_status a \<noteq> ''legacy_unknown''"
    and "receipt_indexes_of records = [i]" and "indexes_receipt a i"
  shows "validate_import_envelope e root (ef_artifacts fs') (pr_source_kind a) (pi_batch p) (pi_manifest p) records = Inr ()"
  using assms by (rule prepared_envelope(1))

section \<open>Interrupted evidence\<close>

lemma interrupted_files:
  fixes es :: "nat \<Rightarrow> io_env"
  assumes "put_descriptor (es 0) a = Inr d" and "descriptor_path (es 0) root (pa_artifact_id a) = Inr path"
    and "object_path (es 0) root (ad_content_sha256 d) = Inr hp"
    and "map_of (fs_descriptors fs) path = None" and "map_of (fs_objects fs) (ad_content_sha256 d) = None"
    and "undisturbed (es 0)" and "io_fault (es 1) LinkTarget"
  shows "put_artifact es root a fs =
    (Inl (OsError ''link''), fs\<lparr>fs_descriptors := fs_descriptors fs @ [(path, Some d)]\<rparr>)"
proof -
  have "exclusive_link (es 0) path (Some d) (fs_descriptors fs) = (Inr True, fs_descriptors fs @ [(path, Some d)])"
    using assms(4,6) by (simp add: undisturbed_link)
  moreover have "write_bytes_once (es 1) (ad_content_sha256 d) (pa_content a) (fs_objects fs) = (Inl (OsError ''link''), fs_objects fs)"
    using assms(5,7) by (simp add: write_bytes_once_def exclusive_link_def)
  ultimately show ?thesis
    using assms(1-3) by (simp add: put_artifact_def publish_artifact_def Let_def descriptors_compatible_def del: One_nat_def)
qed

text \<open>
  Claim C31. Evidence that was cut short stays broken: when \<^verbatim>\<open>_put_or_verify\<close> is interrupted after it has
  claimed the descriptor and before the bytes are linked, every later \<^verbatim>\<open>_put_or_verify\<close> under this
  identifier fails with \<^verbatim>\<open>ArtifactNotFoundError\<close> and changes nothing, even without any fault; the
  same put, repeated on the store directly, would complete it.
\<close>

theorem interrupted_evidence_stuck:
  fixes es es' :: "nat \<Rightarrow> io_env"
  assumes a_def: "a = evidence_put i content schema created refs meta"
    and "put_descriptor (es 0) a = Inr d" and "descriptor_path (es 0) root i = Inr path"
    and "object_path (es 0) root (ad_content_sha256 d) = Inr hp"
    and "resolve_under (es 0) root [''index-entries'', index_entry_name (es 0) (ad_artifact_id d)] = Inr ip"
    and "map_of (fs_descriptors fs) path = None" and "map_of (fs_objects fs) (ad_content_sha256 d) = None"
    and "undisturbed (es 0)" and "io_fault (es 1) LinkTarget" and "created \<noteq> []"
    and "put_or_verify es root i content schema created refs meta fs = (r, fs1)"
    and "\<And>n. undisturbed (es' n) \<and> same_disk (es' n) (es 0)"
  shows "put_or_verify es' root i content' schema' created' refs' meta' fs1 =
      (Inl (not_found (''artifact bytes not found: '' @ i)), fs1) \<and>
    (\<exists>fs2. put_artifact es' root a fs1 = (Inr d, fs2))"
proof
  have a: "pa_artifact_id a = i" "pa_created_at_utc a = Some created" by (simp_all add: a_def evidence_put_def)
  have run: "put_artifact es root a fs = (Inl (OsError ''link''), fs\<lparr>fs_descriptors := fs_descriptors fs @ [(path, Some d)]\<rparr>)"
    using interrupted_files [of es a d root path hp fs] assms a by simp
  have "descriptor (es 0) root i fs = Inl (not_found (''artifact descriptor not found: '' @ i))"
    using assms(3,6) by (simp add: descriptor_def)
  then have fs1: "fs1 = fs\<lparr>fs_descriptors := fs_descriptors fs @ [(path, Some d)]\<rparr>"
    using assms(11) run by (simp add: put_or_verify_def a_def)
  have disk: "same_disk (es' n) (es 0)" for n using assms(12) by blast
  have "descriptor (es 0) root i fs1 = Inr d"
    using assms(3,6) by (simp add: fs1 descriptor_def map_add_def)
  moreover from this have "read_artifact (es 0) root i fs1 = Inl (not_found (''artifact bytes not found: '' @ i))"
    using assms(4,7) by (simp add: read_artifact_def) (simp add: fs1)
  ultimately show "put_or_verify es' root i content' schema' created' refs' meta' fs1 =
      (Inl (not_found (''artifact bytes not found: '' @ i)), fs1)"
    by (simp add: put_or_verify_def same_disk_read [OF disk])
  have "open_for path d a fs" using assms(6,7) by (simp add: open_for_def)
  then show "\<exists>fs2. put_artifact es' root a fs1 = (Inr d, fs2)"
    using repeated_put [of es a d root path hp ip created fs es'] assms(2-5,10,12) a run fs1 by simp
qed

section \<open>An example\<close>

text \<open>A ledger is prepared on an empty store; the digest tells the source from everything else.\<close>

definition demo_source_disk :: io_env where
  "demo_source_disk = demo_disk\<lparr>sha256 := (\<lambda>c. replicate 64 (if c = ''ledger'' then CHR ''a'' else CHR ''b''))\<rparr>"

definition demo_prepare_args :: prepare_args where
  "demo_prepare_args =
     \<lparr>pr_source_kind = ''beancount_ledger'', pr_source_id = ''main.beancount'', pr_source_content = ''ledger'',
      pr_source_sha256 = replicate 64 (CHR ''a''), pr_adapter_version = ''1'', pr_coverage_mode = ''full'',
      pr_record_counts = [], pr_snapshot_id = ''s1'', pr_receipt_id = ''r1'', pr_receipt_root = ''/receipts'',
      pr_receipt_ref = ''r1.json'', pr_receipt_payload = [(''receipt_id'', PStr ''r1''),
        (''source_sha256'', PStr (replicate 64 (CHR ''a''))), (''adapter_version'', PStr ''1''), (''record_counts'', PDict [])],
      pr_created_at_utc = ''2026-01-01T00:00:00+00:00'', pr_completeness_status = ''complete'',
      pr_time_semantics = map (\<lambda>k. (k, PNone)) REQUIRED_CLOCKS, pr_findings = [], pr_covered_domains = None,
      pr_supersedes_batch_id = None, pr_correction_reason = None, pr_corporate_action_status = ''not_applicable'',
      pr_corporate_action_gaps = None, pr_stable_source_id = None, pr_projection_artifact_id = None,
      pr_projection_sha256 = None, pr_projection_schema_version = None, pr_projection_payload = []\<rparr>"

definition demo_prepare :: "prepared_import res \<times> evidence_files" where
  "demo_prepare = prepare_import (\<lambda>_. demo_source_disk) ''/store'' demo_prepare_args
     \<lparr>ef_artifacts = empty_store, ef_receipts = Map.empty\<rparr>"

lemma demo_prepared: "case fst demo_prepare of Inl _ \<Rightarrow> False | Inr p \<Rightarrow> json_plain (PDict (pi_receipt_payload p))"
  by code_simp

definition demo_receipt_payload :: jdict where
  "demo_receipt_payload = pi_receipt_payload (projr (fst demo_prepare))"

definition demo_reader :: import_env where
  "demo_reader = io_env.extend demo_source_disk
     (import_env.fields (\<lambda>c. Some (json_norm demo_source_disk (PDict demo_receipt_payload))))"

lemma demo_reader_simps: "same_disk demo_reader demo_source_disk"
  "json_loads demo_reader c = Some (json_norm demo_source_disk (PDict demo_receipt_payload))"
  unfolding same_disk_def by (simp_all add: demo_reader_def io_env.defs import_env.defs del: json_norm.simps)

definition demo_index_row :: receipt_index_row where
  "demo_index_row =
     \<lparr>ri_receipt_id = ''r1'', ri_kind = ''beancount_ledger'', ri_path = ''r1.json'', ri_created_at_utc = ''t'',
      ri_source_refs = [''r1.json'', ''main.beancount''], ri_refs = []\<rparr>"

theorem prepared_import_accepted_witness:
  "validate_import_envelope demo_reader ''/store'' (ef_artifacts (snd demo_prepare)) ''beancount_ledger''
     (pi_batch (projr (fst demo_prepare))) (pi_manifest (projr (fst demo_prepare))) [RReceipt demo_index_row] = Inr ()"
proof -
  let ?p = "projr (fst demo_prepare)"
  have run: "prepare_import (\<lambda>_. demo_source_disk) ''/store'' demo_prepare_args
      \<lparr>ef_artifacts = empty_store, ef_receipts = Map.empty\<rparr> = (Inr ?p, snd demo_prepare)"
    using demo_prepared unfolding demo_prepare_def [symmetric] by (auto simp: prod_eq_iff split: sum.splits)
  have plain: "json_plain (PDict (pi_receipt_payload ?p))" using demo_prepared by (auto split: sum.splits)
  have "validate_import_envelope demo_reader ''/store'' (ef_artifacts (snd demo_prepare)) (pr_source_kind demo_prepare_args)
     (pi_batch ?p) (pi_manifest ?p) [RReceipt demo_index_row] = Inr ()"
  proof (rule prepared_import_accepted [OF run _ demo_reader_simps(1) _ _ plain])
    show "json_loads demo_reader (canonical_json_bytes demo_source_disk (pi_receipt_payload ?p)) =
        Some (json_norm demo_source_disk (PDict (pi_receipt_payload ?p)))"
      by (simp only: demo_reader_simps demo_receipt_payload_def)
    show "receipt_indexes_of [RReceipt demo_index_row] = [demo_index_row]"
      by (simp add: receipt_indexes_of_def map_filter_simps)
  qed (simp_all add: same_disk_def descriptor_Inr_iff empty_store_def receipt_carries_def indexes_receipt_def
      demo_prepare_args_def demo_index_row_def dict_get_def)
  then show ?thesis by (simp add: demo_prepare_args_def)
qed

definition demo_claimed :: artifact_descriptor where
  "demo_claimed =
     \<lparr>ad_artifact_id = ''doc'', ad_artifact_schema = ''evidence'', ad_artifact_schema_version = IMPORT_MANIFEST_SCHEMA_VERSION,
      ad_content_sha256 = replicate 64 (CHR ''a''), ad_content_length = 5, ad_media_type = ''application/octet-stream'',
      ad_owner_domain = ''capital_imports'', ad_created_at_utc = ''2026'', ad_source_refs = [], ad_metadata = []\<rparr>"

definition demo_cut :: artifact_fs where
  "demo_cut = snd (put_or_verify (\<lambda>i. demo_disk\<lparr>io_fault := (\<lambda>p. i = 1 \<and> p = LinkTarget)\<rparr>) ''/store''
     ''doc'' ''bytes'' ''evidence'' ''2026'' [] [] empty_store)"

theorem interrupted_evidence_stuck_witness:
  "put_or_verify (\<lambda>_. demo_disk) ''/store'' ''doc'' ''bytes'' ''evidence'' ''2026'' [] [] demo_cut =
     (Inl (not_found ''artifact bytes not found: doc''), demo_cut) \<and>
   (\<exists>fs2. put_artifact (\<lambda>_. demo_disk) ''/store'' (evidence_put ''doc'' ''bytes'' ''evidence'' ''2026'' [] []) demo_cut =
     (Inr demo_claimed, fs2))"
proof -
  let ?es = "\<lambda>i :: nat. demo_disk\<lparr>io_fault := (\<lambda>p. i = 1 \<and> p = LinkTarget)\<rparr>"
  have e0: "?es 0 = demo_disk" by (simp add: demo_disk_def)
  have "put_descriptor demo_disk (evidence_put ''doc'' ''bytes'' ''evidence'' ''2026'' [] []) = Inr demo_claimed" by code_simp
  moreover have "ad_content_sha256 demo_claimed = ad_content_sha256 demo_descriptor" "ad_artifact_id demo_claimed = ad_artifact_id demo_descriptor"
    "pa_artifact_id demo_put = ''doc''"
    by (simp_all add: demo_claimed_def demo_descriptor_def demo_put_def)
  moreover have "put_or_verify ?es ''/store'' ''doc'' ''bytes'' ''evidence'' ''2026'' [] [] empty_store =
      (fst (put_or_verify ?es ''/store'' ''doc'' ''bytes'' ''evidence'' ''2026'' [] [] empty_store), demo_cut)"
    by (simp add: demo_cut_def)
  ultimately show ?thesis
    using interrupted_evidence_stuck [where es = ?es and es' = "\<lambda>_. demo_disk" and fs = empty_store and d = demo_claimed
        and root = "''/store''", unfolded e0, OF refl _ _ _ _ _ _ demo_quiet_disk(1)] demo_put_descriptor demo_quiet_disk
    by (simp add: empty_store_def)
qed

end
