(* ===== verification/Valuation_Properties.thy ===== *)
theory Valuation_Properties
  imports Position_Valuation
begin

text \<open>
  What the valuation of positions guarantees: the exact condition under which evidence is admitted,
  and totals that are formed of admitted components of one currency only.
\<close>

section \<open>The specification\<close>

definition evidence_instant :: "'e env_scheme \<Rightarrow> string option \<Rightarrow> int option" where
  "evidence_instant e raw =
     (case truthy raw of
        None \<Rightarrow> None | Some s \<Rightarrow> (case read_clock e s of Instant u \<Rightarrow> Some u | _ \<Rightarrow> None))"

definition reconciles :: "valuation_policy \<Rightarrow> decimal \<Rightarrow> decimal \<Rightarrow> bool" where
  "reconciles policy expected market_value \<longleftrightarrow>
     dec_le (dec_abs (dec_sub expected market_value)) (vp_reconciliation_tolerance policy)"

text \<open>
  Complete, dated evidence that is not from the future, reconciles and, when asked, is fresh.  In
  one currency an exchange-rate date is not needed but must be sound when given; across currencies
  the whole rate evidence is.
\<close>

definition admissible :: "'e env_scheme \<Rightarrow> valuation_evidence \<Rightarrow> int \<Rightarrow> valuation_policy \<Rightarrow> bool \<Rightarrow> bool" where
  "admissible e ev t policy fresh \<longleftrightarrow>
     truthy (ve_valuation_currency ev) \<noteq> None \<and> truthy (ve_price_currency ev) \<noteq> None \<and>
     truthy (ve_price_source_ref ev) \<noteq> None \<and>
     (\<exists>v. evidence_instant e (ve_valued_at_utc ev) = Some v \<and> v \<le> t \<and> (fresh \<longrightarrow> t - v \<le> vp_max_price_age policy)) \<and>
     (\<exists>market_value price. ve_market_value ev = Some market_value \<and> ve_unit_price ev = Some price \<and>
        (if ve_price_currency ev = ve_valuation_currency ev
         then (truthy (ve_fx_as_of_utc ev) = None \<or> (\<exists>u. evidence_instant e (ve_fx_as_of_utc ev) = Some u \<and> u \<le> t)) \<and>
              reconciles policy (dec_mul (ve_quantity ev) price) market_value
         else truthy (ve_fx_source_ref ev) \<noteq> None \<and>
              (\<exists>u. evidence_instant e (ve_fx_as_of_utc ev) = Some u \<and> u \<le> t \<and> (fresh \<longrightarrow> t - u \<le> vp_max_fx_age policy)) \<and>
              (\<exists>rate. ve_fx_rate ev = Some rate \<and> dec_less dec_zero rate \<and>
                 reconciles policy (dec_mul (dec_mul (ve_quantity ev) price) rate) market_value)))"

section \<open>The parts\<close>

lemma report_when_Nil [simp]: "report_when c f = [] \<longleftrightarrow> \<not> c"
  by (simp add: report_when_def)

lemma structural_Nil:
  "structural_findings miss ev = [] \<longleftrightarrow>
   ve_market_value ev \<noteq> None \<and> ve_unit_price ev \<noteq> None \<and> truthy (ve_valuation_currency ev) \<noteq> None \<and>
   truthy (ve_price_currency ev) \<noteq> None \<and> truthy (ve_valued_at_utc ev) \<noteq> None \<and>
   truthy (ve_price_source_ref ev) \<noteq> None"
  by (simp add: structural_findings_def)

lemma stamp_instant [simp]: "snd (stamp_reading e report prefix field raw t) = evidence_instant e raw"
  by (simp add: stamp_reading_def evidence_instant_def split: option.split clock_reading.split)

lemma stamp_Nil:
  "fst (stamp_reading e report prefix field raw t) = [] \<longleftrightarrow>
   truthy raw = None \<or> (\<exists>u. evidence_instant e raw = Some u \<and> u \<le> t)"
  by (auto simp: stamp_reading_def evidence_instant_def split: option.split clock_reading.split)

lemma fx_presence_Nil:
  "fx_presence_findings report ev = [] \<longleftrightarrow>
   \<not> cross_currency ev \<or>
   truthy (ve_fx_as_of_utc ev) \<noteq> None \<and> truthy (ve_fx_source_ref ev) \<noteq> None \<and>
   (\<exists>r. ve_fx_rate ev = Some r \<and> dec_less dec_zero r)"
  by (auto simp: fx_presence_findings_def dec_less_def split: option.split)

lemma instant_truthy: "evidence_instant e raw = Some u \<Longrightarrow> truthy raw \<noteq> None"
  by (auto simp: evidence_instant_def split: option.splits)

lemma truthy_Some: "truthy x = Some s \<Longrightarrow> x = Some s"
  by (simp add: truthy_def split: if_splits)

lemma parts_clean_iff:
  "assess_parts e report ev t policy fresh = ([], [], [], [], False, False) \<longleftrightarrow> admissible e ev t policy fresh"
proof -
  let ?v = "evidence_instant e (ve_valued_at_utc ev)" and ?u = "evidence_instant e (ve_fx_as_of_utc ev)"
  let ?fx = "fx_presence_findings report ev @ fst (stamp_reading e report ''fx_as_of'' ''fx_as_of_utc'' (ve_fx_as_of_utc ev) t)"
  have parts: "assess_parts e report ev t policy fresh =
      (structural_findings report ev, fst (stamp_reading e report ''valued_at'' ''valued_at_utc'' (ve_valued_at_utc ev) t),
       ?fx, reconciliation_findings report ev policy (fx_valid ev (?fx \<noteq> []) ?u),
       fresh \<and> older_than ?v t (vp_max_price_age policy),
       fresh \<and> cross_currency ev \<and> older_than ?u t (vp_max_fx_age policy))"
    by (simp add: assess_parts_def Let_def case_prod_unfold)
  have clean: "assess_parts e report ev t policy fresh = ([], [], [], [], False, False) \<longleftrightarrow>
      structural_findings report ev = [] \<and> (truthy (ve_valued_at_utc ev) = None \<or> (\<exists>v. ?v = Some v \<and> v \<le> t)) \<and>
      fx_presence_findings report ev = [] \<and> (truthy (ve_fx_as_of_utc ev) = None \<or> (\<exists>u. ?u = Some u \<and> u \<le> t)) \<and>
      reconciliation_findings report ev policy (fx_valid ev False ?u) = [] \<and>
      \<not> (fresh \<and> older_than ?v t (vp_max_price_age policy)) \<and>
      \<not> (fresh \<and> cross_currency ev \<and> older_than ?u t (vp_max_fx_age policy))"
  proof (cases "?fx = []")
    case True
    then show ?thesis
      unfolding parts using stamp_Nil [of e report "''valued_at''" "''valued_at_utc''" "ve_valued_at_utc ev" t]
        stamp_Nil [of e report "''fx_as_of''" "''fx_as_of_utc''" "ve_fx_as_of_utc ev" t] by simp
  next
    case False
    then have "\<not> (fx_presence_findings report ev = [] \<and>
        (truthy (ve_fx_as_of_utc ev) = None \<or> (\<exists>u. ?u = Some u \<and> u \<le> t)))"
      using stamp_Nil [of e report "''fx_as_of''" "''fx_as_of_utc''" "ve_fx_as_of_utc ev" t] by simp
    with False show ?thesis unfolding parts by (simp only: prod.inject) blast
  qed
  show ?thesis
  proof (cases "structural_findings report ev = []")
    case False
    then have "\<not> admissible e ev t policy fresh"
      by (auto simp: structural_Nil admissible_def dest: instant_truthy)
    with False show ?thesis unfolding clean by blast
  next
    case True
    then obtain mv price vc pc where ev: "ve_market_value ev = Some mv" "ve_unit_price ev = Some price"
        "truthy (ve_valuation_currency ev) = Some vc" "truthy (ve_price_currency ev) = Some pc"
        "truthy (ve_valued_at_utc ev) \<noteq> None" "truthy (ve_price_source_ref ev) \<noteq> None"
      by (auto simp: structural_Nil)
    then have cross: "cross_currency ev \<longleftrightarrow> ve_price_currency ev \<noteq> ve_valuation_currency ev"
      by (auto simp: cross_currency_def dest!: truthy_Some)
    show ?thesis
    proof (cases "cross_currency ev")
      case same: False
      then have "reconciliation_findings report ev policy (fx_valid ev False ?u) = [] \<longleftrightarrow>
          reconciles policy (dec_mul (ve_quantity ev) price) mv"
        by (simp add: reconciliation_findings_def ev expected_value_def reconciles_def dec_less_def)
      with same cross True ev show ?thesis
        unfolding clean admissible_def by (auto simp: fx_presence_Nil older_than_def)
    next
      case other: True
      have recon: "reconciliation_findings report ev policy (fx_valid ev False ?u) = [] \<longleftrightarrow>
          reconciles policy (dec_mul (dec_mul (ve_quantity ev) price) rate) mv"
        if "ve_fx_rate ev = Some rate" "dec_less dec_zero rate" "?u = Some u" "truthy (ve_fx_source_ref ev) \<noteq> None"
        for rate u
        using that instant_truthy [OF that(3)] other
        by (simp add: reconciliation_findings_def ev expected_value_def reconciles_def dec_less_def fx_valid_def)
      show ?thesis
        unfolding clean admissible_def fx_presence_Nil using other cross True ev recon
        by (auto simp: older_than_def dest: instant_truthy)
    qed
  qed
qed

section \<open>Assessments\<close>

lemma coarse_Nil [simp]: "coarse_finding report status = [] \<longleftrightarrow> status \<in> {Valued, ValuedConverted}"
  by (cases status) (simp_all add: coarse_finding_def)

lemma admitted_iff:
  "assessment_admitted a \<longleftrightarrow> va_status a \<in> {Valued, ValuedConverted} \<and> va_findings a = []"
  by (cases "va_status a") (simp_all add: assessment_admitted_def ADMITTED_VALUATION_STATUSES_def)

text \<open>What an assessment is when the evidence is not legacy, by the outcome of the parts.\<close>

lemma assessed_parts:
  assumes "assess_position_valuation e ev record_id record_number clk policy fresh legacy = Inr a"
    and "has_typed_evidence ev \<or> \<not> legacy"
    and "parse_valuation_evaluation_clock e clk = Inr t"
  shows "assessment_admitted a \<longleftrightarrow>
      assess_parts e (valuation_finding record_id record_number) ev t policy fresh = ([], [], [], [], False, False)"
    and "assessment_admitted a \<Longrightarrow> va_status a = (if cross_currency ev then ValuedConverted else Valued)"
proof -
  obtain s ts fx rc ps fs where parts:
    "assess_parts e (valuation_finding record_id record_number) ev t policy fresh = (s, ts, fx, rc, ps, fs)"
    by (metis prod.exhaust)
  note a = assms(1) [unfolded assess_position_valuation_def Let_def assms(3) rbind_simps parts prod.case]
  show "assessment_admitted a \<longleftrightarrow>
      assess_parts e (valuation_finding record_id record_number) ev t policy fresh = ([], [], [], [], False, False)"
    using a assms(2) unfolding parts admitted_iff
    by (auto split: if_splits)
  show "assessment_admitted a \<Longrightarrow> va_status a = (if cross_currency ev then ValuedConverted else Valued)"
    using a assms(2) unfolding admitted_iff by (auto split: if_splits)
qed

lemma assess_total:
  assumes "parse_valuation_evaluation_clock e clk = Inr t"
  shows "\<exists>a. assess_position_valuation e ev record_id record_number clk policy fresh legacy = Inr a"
  by (simp add: assess_position_valuation_def assms Let_def case_prod_unfold)

lemma legacy_not_admitted:
  assumes "assess_position_valuation e ev record_id record_number clk policy fresh legacy = Inr a"
    and "\<not> has_typed_evidence ev" and "legacy"
  shows "\<not> assessment_admitted a"
  using assms by (auto simp: assess_position_valuation_def admitted_iff)

lemma no_findings_admitted:
  assumes "assess_position_valuation e ev record_id record_number clk policy fresh legacy = Inr a"
    and "va_findings a = []"
  shows "assessment_admitted a"
proof (cases "\<not> has_typed_evidence ev \<and> legacy")
  case True
  with assms show ?thesis by (auto simp: assess_position_valuation_def)
next
  case False
  with assms(1) obtain t where t: "parse_valuation_evaluation_clock e clk = Inr t"
    by (cases "parse_valuation_evaluation_clock e clk") (auto simp: assess_position_valuation_def Let_def)
  obtain s ts fx rc ps fs where parts:
    "assess_parts e (valuation_finding record_id record_number) ev t policy fresh = (s, ts, fx, rc, ps, fs)"
    by (metis prod.exhaust)
  note a = assms(1) [unfolded assess_position_valuation_def Let_def t rbind_simps parts prod.case]
  from a False assms(2) show ?thesis unfolding admitted_iff by (auto split: if_splits)
qed

lemma admissible_typed: "admissible e ev t policy fresh \<Longrightarrow> has_typed_evidence ev"
  by (auto simp: admissible_def has_typed_evidence_def)

lemma assess_admitted_iff:
  "(\<exists>a. assess_position_valuation e ev record_id record_number clk policy fresh legacy = Inr a \<and>
      assessment_admitted a \<and> va_status a = (if cross_currency ev then ValuedConverted else Valued)) \<longleftrightarrow>
   (\<exists>t. parse_valuation_evaluation_clock e clk = Inr t \<and> admissible e ev t policy fresh)"
  (is "?L \<longleftrightarrow> ?R")
proof
  assume ?L
  then obtain a where a: "assess_position_valuation e ev record_id record_number clk policy fresh legacy = Inr a"
      "assessment_admitted a"
    by blast
  then have typed: "has_typed_evidence ev \<or> \<not> legacy" using legacy_not_admitted by blast
  with a(1) obtain t where t: "parse_valuation_evaluation_clock e clk = Inr t"
    by (cases "parse_valuation_evaluation_clock e clk") (auto simp: assess_position_valuation_def Let_def)
  from assessed_parts(1) [OF a(1) typed t] a(2) t show ?R by (auto simp: parts_clean_iff)
next
  assume ?R
  then obtain t where t: "parse_valuation_evaluation_clock e clk = Inr t" "admissible e ev t policy fresh" by blast
  from assess_total [OF t(1)] obtain a where
    a: "assess_position_valuation e ev record_id record_number clk policy fresh legacy = Inr a" by blast
  have typed: "has_typed_evidence ev \<or> \<not> legacy" using admissible_typed [OF t(2)] by blast
  from assessed_parts [OF a typed t(1)] t(2) a show ?L by (auto simp: parts_clean_iff)
qed

section \<open>Totals\<close>

lemma dedupe_Nil [simp]: "dedupe_by [] xs = [] \<longleftrightarrow> xs = []"
  using set_dedupe_by [of "[]" xs] by (cases xs) auto

text \<open>A position whose value may be added: admitted, and stored with the status its evidence has.\<close>

definition addable :: "'e env_scheme \<Rightarrow> int \<Rightarrow> int option \<Rightarrow> position \<Rightarrow> bool" where
  "addable e t max_age p \<longleftrightarrow>
     admissible e (evidence_from_position p) t (policy_for max_age) True \<and>
     po_valuation_status p =
       status_value (if po_price_currency p = po_valuation_currency p then Valued else ValuedConverted)"

lemma admissible_cross:
  "admissible e ev t policy fresh \<Longrightarrow> cross_currency ev \<longleftrightarrow> ve_price_currency ev \<noteq> ve_valuation_currency ev"
  by (auto simp: admissible_def cross_currency_def truthy_def split: if_splits)

lemma blockers_Nil_iff:
  assumes "parse_valuation_evaluation_clock e (isoformat e t) = Inr t"
  shows "valuation_blockers e p (Some t) max_age = Inr [] \<longleftrightarrow> addable e t max_age p"
proof -
  let ?ev = "evidence_from_position p"
  let ?assess = "assess_position_valuation e ?ev (Some (po_position_id p)) None (isoformat e t) (policy_for max_age) True True"
  obtain a where a: "?assess = Inr a" using assess_total [OF assms] by blast
  have codes: "valuation_blockers e p (Some t) max_age = Inr [] \<longleftrightarrow>
      va_findings a = [] \<and> po_valuation_status p = status_value (va_status a)"
    by (simp add: valuation_blockers_def a assessment_codes_def)
  have "va_findings a = [] \<longleftrightarrow> assessment_admitted a"
    using no_findings_admitted [OF a] by (auto simp: admitted_iff)
  moreover have "assessment_admitted a \<and> va_status a = (if cross_currency ?ev then ValuedConverted else Valued) \<longleftrightarrow>
      admissible e ?ev t (policy_for max_age) True"
    using assess_admitted_iff [of e ?ev "Some (po_position_id p)" None "isoformat e t" "policy_for max_age" True True]
      a assms by simp
  moreover have "va_status a = (if cross_currency ?ev then ValuedConverted else Valued)" if "assessment_admitted a"
  proof -
    have "has_typed_evidence ?ev \<or> \<not> True" using legacy_not_admitted [OF a] that by blast
    from assessed_parts(2) [OF a this assms that] show ?thesis .
  qed
  ultimately show ?thesis
    unfolding codes addable_def using admissible_cross [of e ?ev t "policy_for max_age" True]
    by (auto simp: evidence_from_position_def)
qed

lemma addable_fields:
  "addable e t max_age p \<Longrightarrow>
   \<exists>v c. po_market_value p = Some v \<and> po_valuation_currency p = Some c \<and> truthy (po_valuation_currency p) = Some c"
  by (auto simp: addable_def admissible_def evidence_from_position_def truthy_def split: if_splits)

definition total_key :: "position \<Rightarrow> string" where
  "total_key p = the (po_valuation_currency p)"

definition total_value :: "position \<Rightarrow> decimal" where
  "total_value p = the (po_market_value p)"

lemma loop_step:
  assumes "parse_valuation_evaluation_clock e (isoformat e t) = Inr t" and "addable e t max_age p"
  shows "total_loop e (Some t) max_age (p # ps) totals bl =
    total_loop e (Some t) max_age ps (add_total (total_key p) (total_value p) totals) bl"
  using addable_fields [OF assms(2)] blockers_Nil_iff [OF assms(1), of p max_age] assms(2)
  by (auto simp: total_key_def total_value_def)

lemma loop_blockers:
  "total_loop e (Some t) max_age ps totals bl = Inr (totals', []) \<Longrightarrow>
   bl = [] \<and> (\<forall>p\<in>set ps. valuation_blockers e p (Some t) max_age = Inr [])"
proof (induction ps arbitrary: totals bl)
  case (Cons p ps)
  from Cons.prems obtain rb where rb: "valuation_blockers e p (Some t) max_age = Inr rb"
    by (cases "valuation_blockers e p (Some t) max_age") simp_all
  let ?bl = "bl @ map (\<lambda>code. po_position_id p @ '':'' @ code) rb"
  from Cons.prems rb obtain next_totals where
    "total_loop e (Some t) max_age ps next_totals ?bl = Inr (totals', [])"
    by (auto simp: Let_def split: option.splits)
  from Cons.IH [OF this] rb show ?case by simp
qed simp

lemma keys_add_total: "fst ` set (add_total c v totals) = insert c (fst ` set totals)"
proof (cases "map_of totals c")
  case None
  then show ?thesis by (auto simp: add_total_def)
next
  case (Some s)
  then have "c \<in> fst ` set totals" by (metis domI dom_map_of_conv_image_fst)
  moreover have "fst ` set (map (\<lambda>(k, x). if k = c then (k, dec_add s v) else (k, x)) totals) = fst ` set totals"
    by (force simp: image_iff split: if_splits)
  ultimately show ?thesis using Some by (auto simp: add_total_def)
qed

lemma loop_keys:
  assumes "parse_valuation_evaluation_clock e (isoformat e t) = Inr t"
  shows "\<forall>p\<in>set ps. addable e t max_age p \<Longrightarrow>
    \<exists>totals'. total_loop e (Some t) max_age ps totals bl = Inr (totals', bl) \<and>
      fst ` set totals' = fst ` set totals \<union> total_key ` set ps"
proof (induction ps arbitrary: totals)
  case (Cons p ps)
  from Cons.IH [of "add_total (total_key p) (total_value p) totals"] Cons.prems obtain totals' where
    "total_loop e (Some t) max_age ps (add_total (total_key p) (total_value p) totals) bl = Inr (totals', bl)"
    "fst ` set totals' = insert (total_key p) (fst ` set totals) \<union> total_key ` set ps"
    by (auto simp: keys_add_total)
  with Cons.prems show ?case by (simp add: loop_step [OF assms] del: total_loop.simps(2))
qed simp

lemma loop_single:
  assumes "parse_valuation_evaluation_clock e (isoformat e t) = Inr t"
  shows "\<forall>p\<in>set ps. addable e t max_age p \<and> total_key p = c \<Longrightarrow>
    total_loop e (Some t) max_age ps [(c, s)] bl = Inr ([(c, foldl dec_add s (map total_value ps))], bl)"
proof (induction ps arbitrary: s)
  case (Cons p ps)
  then show ?case by (simp add: loop_step [OF assms] add_total_def del: total_loop.simps(2))
qed simp

lemma unified_iff:
  assumes "parse_valuation_evaluation_clock e (isoformat e t) = Inr t"
  shows "(\<exists>tot. reconcile_position_totals e ps (Some t) max_age = Inr tot \<and> totals_admitted tot \<and>
      vt_base_currency tot = Some c \<and> vt_unified_total tot = Some s) \<longleftrightarrow>
    ps \<noteq> [] \<and> (\<forall>p\<in>set ps. addable e t max_age p \<and> po_valuation_currency p = Some c) \<and>
    s = dec_sum (map total_value ps)"
  (is "?L \<longleftrightarrow> ?R")
proof
  assume ?L
  then obtain tot where tot: "reconcile_position_totals e ps (Some t) max_age = Inr tot" "totals_admitted tot"
      "vt_base_currency tot = Some c" "vt_unified_total tot = Some s"
    by blast
  then obtain totals bl where run: "total_loop e (Some t) max_age ps [] [] = Inr (totals, bl)"
    by (cases "total_loop e (Some t) max_age ps [] []") (auto simp: reconcile_position_totals_def)
  with tot have "totals = [(c, s)] \<and> bl = []"
    by (cases totals; cases "tl totals")
       (auto simp: reconcile_position_totals_def totals_admitted_def Let_def split: if_splits)
  with run have loop: "total_loop e (Some t) max_age ps [] [] = Inr (totals, [])" "totals = [(c, s)]" by simp_all
  then have ok: "\<forall>p\<in>set ps. addable e t max_age p"
    using loop_blockers blockers_Nil_iff [OF assms] by blast
  with loop_keys [OF assms this, of "[]" "[]"] loop have keys: "total_key ` set ps = {c}" by auto
  then obtain p qs where ps: "ps = p # qs" by (cases ps) auto
  from ok keys have same: "\<forall>q\<in>set ps. addable e t max_age q \<and> total_key q = c" by auto
  then have "total_loop e (Some t) max_age ps [] [] = Inr ([(c, dec_sum (map total_value ps))], [])"
    using loop_single [OF assms, of qs max_age c "dec_add dec_zero (total_value p)" "[]"] ps
    by (simp add: loop_step [OF assms] add_total_def dec_sum_def del: total_loop.simps(2))
  moreover have "\<forall>q\<in>set ps. po_valuation_currency q = Some c"
    using same addable_fields by (fastforce simp: total_key_def)
  ultimately show ?R using loop ok ps by simp
next
  assume R: ?R
  then obtain p qs where ps: "ps = p # qs" by (cases ps) auto
  from R have "\<forall>q\<in>set ps. addable e t max_age q \<and> total_key q = c" by (auto simp: total_key_def)
  then have "total_loop e (Some t) max_age ps [] [] = Inr ([(c, dec_sum (map total_value ps))], [])"
    using loop_single [OF assms, of qs max_age c "dec_add dec_zero (total_value p)" "[]"] ps
    by (simp add: loop_step [OF assms] add_total_def dec_sum_def del: total_loop.simps(2))
  with R show ?L by (simp add: reconcile_position_totals_def totals_admitted_def)
qed

text \<open>Wherever a unified total is given, it has its currency and nothing blocks it.\<close>

lemma unified_given:
  assumes "reconcile_position_totals e ps at max_age = Inr tot" and "vt_unified_total tot = Some s"
  shows "totals_admitted tot \<and> (\<exists>c. vt_base_currency tot = Some c)"
proof -
  obtain totals bl where run: "total_loop e at max_age ps [] [] = Inr (totals, bl)"
    using assms(1) by (cases "total_loop e at max_age ps [] []") (auto simp: reconcile_position_totals_def)
  with assms show ?thesis
    by (cases totals; cases "tl totals") (auto simp: reconcile_position_totals_def totals_admitted_def Let_def split: if_splits)
qed

section \<open>Demonstration\<close>

text \<open>Instants are written in unary; two positions, one converted from euros.\<close>

definition demo_val_env :: env where
  "demo_val_env =
     \<lparr>clock = (\<lambda>i. ''a''), stamp = (\<lambda>i. ''S''), uuid8 = (\<lambda>i. ''0a1b2c3d''),
      fromisoformat = (\<lambda>s. Some (int (length s), Some 0)), isoformat = (\<lambda>t. replicate (nat t) (CHR ''a'')),
      resolve_path = (\<lambda>ps. None), display_path = (\<lambda>p. p), write_fails = (\<lambda>p. False),
      commit_fails = (\<lambda>i. False), coerce_money = (\<lambda>v. None), py_repr = (\<lambda>v. ''value''),
      pick_row = (\<lambda>i n. 0)\<rparr>"

definition demo_position :: position where
  "demo_position =
     \<lparr>po_position_id = ''p1'', po_snapshot_id = ''s1'', po_account_id = ''a1'', po_instrument_id = Some ''i1'',
      po_symbol = ''AAA'', po_quantity = Dec 10 0, po_market_value = Some (Dec 100 0), po_cost_basis = None,
      po_valuation_currency = Some ''USD'', po_unit_price = Some (Dec 10 0), po_price_currency = Some ''USD'',
      po_valued_at_utc = Some ''aaa'', po_price_source_ref = Some ''feed'', po_fx_rate = None,
      po_fx_as_of_utc = None, po_fx_source_ref = None, po_valuation_status = ''valued'', po_source_refs = [],
      po_as_of_utc = ''aaa''\<rparr>"

definition demo_converted :: position where
  "demo_converted = demo_position
     \<lparr>po_position_id := ''p2'', po_quantity := Dec 3 0, po_market_value := Some (Dec 30 0),
      po_unit_price := Some (Dec 5 0), po_price_currency := Some ''EUR'', po_fx_rate := Some (Dec 2 0),
      po_fx_as_of_utc := Some ''aa'', po_fx_source_ref := Some ''ecb'',
      po_valuation_status := ''valued_converted''\<rparr>"

lemma demo_val_clock: "parse_valuation_evaluation_clock demo_val_env (isoformat demo_val_env 5) = Inr 5"
  by code_simp

lemma demo_addable:
  "addable demo_val_env 5 None demo_position" "addable demo_val_env 5 None demo_converted"
proof -
  have "valuation_blockers demo_val_env demo_position (Some 5) None = Inr []"
      "valuation_blockers demo_val_env demo_converted (Some 5) None = Inr []"
    by code_simp+
  then show "addable demo_val_env 5 None demo_position" "addable demo_val_env 5 None demo_converted"
    using blockers_Nil_iff [OF demo_val_clock] by simp_all
qed

section \<open>Properties\<close>

text \<open>
  Claim C19.  A position's evidence is admitted exactly when the evaluation clock is an instant and the
  evidence is complete, dated no later than that instant, reconciles with the market value within
  the tolerance of the policy, fresh where freshness is asked for, and, across currencies, carries
  a complete positive exchange rate; the status then says whether a conversion took place.
\<close>

theorem valuation_admitted_iff:
  "(\<exists>a. assess_position_valuation e ev record_id record_number clk policy fresh legacy = Inr a \<and>
      assessment_admitted a \<and> va_status a = (if cross_currency ev then ValuedConverted else Valued)) \<longleftrightarrow>
   (\<exists>t. parse_valuation_evaluation_clock e clk = Inr t \<and> admissible e ev t policy fresh)"
  by (rule assess_admitted_iff)

text \<open>
  Claim C20.  A unified total is given only when there is a position, every position is admissible
  at the evaluation instant and stored with the status its evidence has, and all are valued in one
  currency, and then it always is given; it is the sum of their market values, reported in that
  currency and without blockers.  One position that is blocked, or a second currency, and no total
  is given at all.  The printed instant must parse back.
\<close>

theorem unified_total_iff:
  assumes "parse_valuation_evaluation_clock e (isoformat e t) = Inr t"
  shows "((\<exists>tot. reconcile_position_totals e ps (Some t) max_age = Inr tot \<and> vt_unified_total tot = Some s) \<longleftrightarrow>
      (\<exists>c. ps \<noteq> [] \<and> (\<forall>p\<in>set ps. addable e t max_age p \<and> po_valuation_currency p = Some c) \<and>
        s = dec_sum (map total_value ps))) \<and>
    ((\<exists>tot. reconcile_position_totals e ps (Some t) max_age = Inr tot \<and> vt_unified_total tot = Some s \<and>
        vt_base_currency tot = Some c \<and> vt_blockers tot = []) \<longleftrightarrow>
      ps \<noteq> [] \<and> (\<forall>p\<in>set ps. addable e t max_age p \<and> po_valuation_currency p = Some c) \<and>
        s = dec_sum (map total_value ps))"
proof -
  let ?given = "\<lambda>c. \<exists>tot. reconcile_position_totals e ps (Some t) max_age = Inr tot \<and> totals_admitted tot \<and>
      vt_base_currency tot = Some c \<and> vt_unified_total tot = Some s"
  have "(\<exists>tot. reconcile_position_totals e ps (Some t) max_age = Inr tot \<and> vt_unified_total tot = Some s) \<longleftrightarrow> (\<exists>c. ?given c)"
    using unified_given by blast
  moreover have "(\<exists>tot. reconcile_position_totals e ps (Some t) max_age = Inr tot \<and> vt_unified_total tot = Some s \<and>
      vt_base_currency tot = Some c \<and> vt_blockers tot = []) \<longleftrightarrow> ?given c"
    by (auto simp: totals_admitted_def)
  ultimately show ?thesis unfolding unified_iff [OF assms] by blast
qed

text \<open>Two admissible positions are added; with a stale one beside them no total is given.\<close>

theorem unified_total_iff_witness:
  "(\<exists>tot. reconcile_position_totals demo_val_env [demo_position, demo_converted] (Some 5) None = Inr tot \<and>
     vt_unified_total tot = Some (Dec 130 0) \<and> vt_base_currency tot = Some ''USD'' \<and> vt_blockers tot = []) \<and>
   (\<nexists>s tot. reconcile_position_totals demo_val_env [demo_position, demo_position\<lparr>po_valuation_status := ''stale''\<rparr>] (Some 5) None =
      Inr tot \<and> vt_unified_total tot = Some s)"
proof
  have total: "Dec 130 0 = dec_sum (map total_value [demo_position, demo_converted])" by code_simp
  have "po_valuation_currency demo_position = Some ''USD''" "po_valuation_currency demo_converted = Some ''USD''"
    by (simp_all add: demo_converted_def demo_position_def)
  then show "\<exists>tot. reconcile_position_totals demo_val_env [demo_position, demo_converted] (Some 5) None = Inr tot \<and>
     vt_unified_total tot = Some (Dec 130 0) \<and> vt_base_currency tot = Some ''USD'' \<and> vt_blockers tot = []"
    using demo_addable total unified_total_iff [OF demo_val_clock, of "[demo_position, demo_converted]" None "Dec 130 0" "''USD''"]
    by simp
  let ?stale = "demo_position\<lparr>po_valuation_status := ''stale''\<rparr>"
  have "valuation_blockers demo_val_env ?stale (Some 5) None \<noteq> Inr []" by code_simp
  then have "\<not> addable demo_val_env 5 None ?stale" using blockers_Nil_iff [OF demo_val_clock] by simp
  then show "\<nexists>s tot. reconcile_position_totals demo_val_env [demo_position, ?stale] (Some 5) None =
      Inr tot \<and> vt_unified_total tot = Some s"
    using unified_total_iff [OF demo_val_clock, of "[demo_position, ?stale]" None] by (metis list.set_intros)
qed

end
