(* ===== verification/Import_Findings.thy ===== *)
theory Import_Findings
  imports Import_Valuation Valuation_Properties
begin

text \<open>
  The findings on positions between the adapters, which merge them into the findings of the batch,
  and the valuation contract, which recognises them by their codes (\<^verbatim>\<open>capital_import_valuation.py\<close>).
\<close>

lemma valuation_codes:
  "list_all is_valuation_code
     [''market_value_missing'', ''unit_price_missing'', ''valuation_currency_missing'', ''price_currency_missing'',
      ''valued_at_utc_missing'', ''price_source_ref_missing'', ''fx_rate_missing'', ''fx_rate_not_positive'',
      ''fx_as_of_utc_missing'', ''fx_source_ref_missing'', ''valued_at_invalid'', ''valued_at_not_timezone_aware'',
      ''valued_at_after_evaluation'', ''fx_as_of_invalid'', ''fx_as_of_not_timezone_aware'', ''fx_as_of_after_evaluation'',
      ''valuation_components_do_not_reconcile'', ''valuation_unknown_legacy'', ''valuation_unpriced'',
      ''valuation_fx_missing'', ''valuation_stale'', ''market_price_stale'', ''fx_stale'']"
  by code_simp

abbreviation all_recognised :: "import_finding list \<Rightarrow> bool" where
  "all_recognised fs \<equiv> list_all (\<lambda>f. is_valuation_code (if_code f)) fs"

lemma parts_recognised:
  "all_recognised (structural_findings (valuation_finding i n) ev)"
  "all_recognised (fx_presence_findings (valuation_finding i n) ev)"
  "all_recognised (reconciliation_findings (valuation_finding i n) ev policy ok)"
  "all_recognised (coarse_finding (valuation_finding i n) status)"
  "all_recognised (fst (stamp_reading e (valuation_finding i n) ''valued_at'' field raw t))"
  "all_recognised (fst (stamp_reading e (valuation_finding i n) ''fx_as_of'' field raw t))"
proof -
  show "all_recognised (coarse_finding (valuation_finding i n) status)"
    using valuation_codes by (cases status) (simp_all add: coarse_finding_def report_when_def valuation_finding_def)
qed (use valuation_codes in \<open>simp_all add: structural_findings_def fx_presence_findings_def reconciliation_findings_def
      stamp_reading_def report_when_def valuation_finding_def split: option.splits clock_reading.splits\<close>)

lemma assess_parts_recognised:
  assumes "assess_parts e (valuation_finding i n) ev t policy fresh = (st, ts, fx, rc, ps, fs)"
  shows "all_recognised st" and "all_recognised ts" and "all_recognised fx" and "all_recognised rc"
proof -
  obtain u where "stamp_reading e (valuation_finding i n) ''valued_at'' ''valued_at_utc'' (ve_valued_at_utc ev) t = (ts, u)"
    using assms by (auto simp: assess_parts_def split: prod.splits)
  from arg_cong [where f = fst, OF this] show "all_recognised ts" using parts_recognised(5) by (metis fst_conv)
  obtain v fxs where "stamp_reading e (valuation_finding i n) ''fx_as_of'' ''fx_as_of_utc'' (ve_fx_as_of_utc ev) t = (fxs, v)"
      and fx: "fx = fx_presence_findings (valuation_finding i n) ev @ fxs"
    using assms by (auto simp: assess_parts_def split: prod.splits)
  from arg_cong [where f = fst, OF this(1)] have "all_recognised fxs" using parts_recognised(6) by (metis fst_conv)
  then show "all_recognised fx" using parts_recognised(2) by (simp add: fx)
  show "all_recognised st" "all_recognised rc"
    using assms parts_recognised(1,3) by (auto simp: assess_parts_def split: prod.splits)
qed

lemma assessed_recognised:
  assumes "assess_position_valuation e ev i n at policy fresh legacy = Inr a"
  shows "all_recognised (va_findings a)"
proof -
  have stale: "all_recognised (report_when c (valuation_finding i n ''market_price_stale'' m f))"
      "all_recognised (report_when c (valuation_finding i n ''fx_stale'' m f))"
      "all_recognised [valuation_finding i n ''valuation_unknown_legacy'' m f]" for c m f
    using valuation_codes by (simp_all add: report_when_def valuation_finding_def)
  show ?thesis
  proof (cases "\<not> has_typed_evidence ev \<and> legacy")
    case True
    with assms stale(3) show ?thesis by (auto simp: assess_position_valuation_def)
  next
    case False
    with assms obtain t where clk: "parse_valuation_evaluation_clock e at = Inr t"
      by (cases "parse_valuation_evaluation_clock e at") (auto simp: assess_position_valuation_def)
    obtain st ts fx rc ps fs where parts: "assess_parts e (valuation_finding i n) ev t policy fresh = (st, ts, fx, rc, ps, fs)"
      by (rule prod_cases6)
    have "\<exists>status. va_findings a = coarse_finding (valuation_finding i n) status @ st @ ts @ fx @ rc @
        report_when ps (valuation_finding i n ''market_price_stale'' ''market price exceeds admitted freshness window''
          ''valued_at_utc'') @
        report_when fs (valuation_finding i n ''fx_stale'' ''FX evidence exceeds admitted freshness window'' ''fx_as_of_utc'')"
      using assms False unfolding assess_position_valuation_def
      by (simp only: clk rbind_simps parts prod.case Let_def if_False simp_thms split: if_splits) auto
    then show ?thesis using assess_parts_recognised [OF parts] stale parts_recognised(4) by (auto simp: list_all_append)
  qed
qed

lemma assessments_recognised:
  "assess_positions e ps observed = Inr as \<Longrightarrow> all_recognised (concat (map va_findings as))"
  unfolding assess_positions_def
proof (induction ps arbitrary: as)
  case (Cons p ps)
  then show ?case by (auto simp: rbind_Inr_iff assess_one_def dest: assessed_recognised)
qed simp

section \<open>Merging and recognising\<close>

lemma valuation_tuples_typed:
  "valuation_tuples (map (PDict \<circ> finding_dict) fs) =
     Inr (map (normalize_tuple \<circ> finding_dict) (filter (\<lambda>f. is_valuation_code (if_code f)) fs))"
proof (induction fs)
  case (Cons f fs)
  have "is_valuation_finding (PDict (finding_dict f)) = Inr (is_valuation_code (if_code f))"
    by (simp add: is_valuation_finding_def finding_dict_def dict_get_def)
  with Cons show ?case by simp
qed simp

lemma merged_tuples:
  assumes "assess_positions e positions observed = Inr assessments"
  shows "valuation_tuples (map (PDict \<circ> finding_dict) (merge_valuation_findings base assessments)) =
    Inr (map (normalize_tuple \<circ> finding_dict) (concat (map va_findings assessments)))"
proof -
  have "filter (\<lambda>f. is_valuation_code (if_code f)) (concat (map va_findings assessments)) = concat (map va_findings assessments)"
    using assessments_recognised [OF assms] by (simp only: filter_id_conv list_all_iff)
  then show ?thesis
    by (simp only: valuation_tuples_typed merge_valuation_findings_def filter_append) (simp add: filter_map o_def)
qed

text \<open>
  Claim C32. The findings that an adapter merges are the findings that the contract expects: whatever
  an adapter had found before, after \<^verbatim>\<open>merge_valuation_findings\<close> the findings of the batch that the
  contract recognises as findings on valuation are those of the assessment, one by one and in order;
  no code of an assessment is missed and none of another finding of the adapter survives among them.
\<close>

theorem merged_findings_expected:
  assumes "assess_positions e positions observed = Inr assessments"
  shows "valuation_tuples (map (PDict \<circ> finding_dict) (merge_valuation_findings base assessments)) =
    Inr (map (normalize_tuple \<circ> finding_dict) (concat (map va_findings assessments)))"
  using assms by (rule merged_tuples)

text \<open>One position has no market value; the adapter had a finding of its own and a stale valuation finding.\<close>

definition demo_base_findings :: "import_finding list" where
  "demo_base_findings =
     [valuation_finding None None ''duplicate_row'' ''row'' ''symbol'', valuation_finding None None ''fx_stale'' ''old'' ''fx'']"

theorem merged_findings_expected_witness:
  "\<exists>as. assess_positions demo_val_env [demo_position, demo_position\<lparr>po_market_value := None\<rparr>] (isoformat demo_val_env 5) = Inr as \<and>
     length (concat (map va_findings as)) = 2 \<and>
     valuation_tuples (map (PDict \<circ> finding_dict) (merge_valuation_findings demo_base_findings as)) =
       Inr (map (normalize_tuple \<circ> finding_dict) (concat (map va_findings as)))"
proof -
  have "case assess_positions demo_val_env [demo_position, demo_position\<lparr>po_market_value := None\<rparr>] (isoformat demo_val_env 5) of
      Inl _ \<Rightarrow> False | Inr as \<Rightarrow> length (concat (map va_findings as)) = 2"
    by code_simp
  then obtain as where as: "assess_positions demo_val_env [demo_position, demo_position\<lparr>po_market_value := None\<rparr>]
      (isoformat demo_val_env 5) = Inr as" "length (concat (map va_findings as)) = 2"
    by (auto split: sum.splits)
  with merged_findings_expected [OF as(1)] show ?thesis by blast
qed

end
