(* ===== verification/Import_Properties.thy ===== *)
theory Import_Properties
  imports Import_Laws Valuation_Properties
begin

text \<open>
  What holds of capital imports: a materialisation replaces exactly the rows its source owns and
  leaves a tombstone for every row that disappears, batches and manifests never change and their
  evidence can be read in every later state, and a position stored as valued has admissible evidence.
\<close>

section \<open>Replacement of source-owned rows\<close>

definition owned_map :: "import_db \<Rightarrow> owned_model \<times> string \<rightharpoonup> owned_row" where
  "owned_map db k = tbl_get owned_key (db_owned db) k"

text \<open>
  The abstract effect of an import on the map of owned rows: the rows it takes away, then the
  incoming rows, of which the last with a key counts.
\<close>

definition replace_owned ::
  "(owned_row \<Rightarrow> bool) \<Rightarrow> owned_row list \<Rightarrow> (owned_model \<times> string \<rightharpoonup> owned_row) \<Rightarrow> (owned_model \<times> string \<rightharpoonup> owned_row)" where
  "replace_owned removed incoming old =
     (\<lambda>k. case old k of Some r \<Rightarrow> if removed r then None else Some r | None \<Rightarrow> None) ++
     (\<lambda>k. find (\<lambda>r. owned_key r = k) (rev incoming))"

definition removed_by :: "string \<Rightarrow> import_batch \<Rightarrow> import_record list \<Rightarrow> owned_row \<Rightarrow> bool" where
  "removed_by source b saved r \<longleftrightarrow>
     covered_row source b r \<or> (\<exists>t. RTombstone t \<in> set saved \<and> tombstone_deletes source t r)"

lemma tbl_get_filter:
  "keyed key t \<Longrightarrow> tbl_get key (filter P t) k =
     (case tbl_get key t k of Some r \<Rightarrow> if P r then Some r else None | None \<Rightarrow> None)"
proof (induction t)
  case (Cons r t)
  then have "key r \<notin> key ` set t" by (simp add: keyed_def)
  then have "tbl_get key t (key r) = None" by (auto simp: tbl_get_None_iff tbl_has_iff intro: rev_image_eqI)
  with Cons show ?case by (auto simp: tbl_get_def keyed_def split: option.splits)
qed (simp add: tbl_get_def)

lemma kept_lists:
  "owned_of (filter (\<lambda>r. \<not> is_tombstone r) records) = owned_of records"
  "positions_of (filter (\<lambda>r. \<not> is_tombstone r) records) = positions_of records"
  "batches_of (filter (\<lambda>r. \<not> is_tombstone r) records) = batches_of records"
  "manifests_of (filter (\<lambda>r. \<not> is_tombstone r) records) = manifests_of records"
  "tombstones_of (filter (\<lambda>r. \<not> is_tombstone r) records) = []"
  by (induction records) (auto simp: record_lists is_tombstone_def split: import_record.splits)

lemma tombstone_lists:
  "owned_of (map RTombstone ts) = []" "positions_of (map RTombstone ts) = []"
  "batches_of (map RTombstone ts) = []" "manifests_of (map RTombstone ts) = []"
  "tombstones_of (map RTombstone ts) = ts"
  by (induction ts) (auto simp: record_lists)

lemma append_lists:
  "owned_of (rs @ qs) = owned_of rs @ owned_of qs" "positions_of (rs @ qs) = positions_of rs @ positions_of qs"
  "batches_of (rs @ qs) = batches_of rs @ batches_of qs" "manifests_of (rs @ qs) = manifests_of rs @ manifests_of qs"
  "tombstones_of (rs @ qs) = tombstones_of rs @ tombstones_of qs"
  by (simp_all add: owned_of_def positions_of_def batches_of_def manifests_of_def tombstones_of_def
      List.map_filter_def)

lemma head_lists:
  "owned_of (RBatch b # RManifest m # rs) = owned_of rs" "positions_of (RBatch b # RManifest m # rs) = positions_of rs"
  "batches_of (RBatch b # RManifest m # rs) = b # batches_of rs"
  "manifests_of (RBatch b # RManifest m # rs) = m # manifests_of rs"
  "tombstones_of (RBatch b # RManifest m # rs) = tombstones_of rs"
  by (simp_all add: record_lists)

text \<open>What a successful import leaves in the tables.\<close>

lemma imported_tables:
  assumes "materialize_import_batch e root fs source b m records db = (Inr saved, db')"
  defines "ts \<equiv> tombstones_by_id (import_tombstones e b records db)"
  shows "saved = RBatch b # RManifest m # filter (\<lambda>r. \<not> is_tombstone r) records @ map RTombstone ts"
    and "db_batches db' = merge_all ib_batch_id (b # batches_of records) (db_batches db)"
    and "db_manifests db' = merge_all rm_manifest_id (m # manifests_of records) (db_manifests db)"
    and "db_tombstones db' = merge_all it_tombstone_id ts (db_tombstones db)"
    and "db_positions db' = merge_all po_position_id (positions_of records) (db_positions db)"
    and "db_owned db' = merge_all owned_key (owned_of records)
           (filter (\<lambda>r. \<not> covered_row source b r \<and> \<not> (\<exists>t\<in>set ts. tombstone_deletes source t r)) (db_owned db))"
    and "import_constraints db'"
    and "validate_existing_import_lineage source b m (tombstones_of records) db = Inr ()"
proof -
  from assms(1) have "import_transaction e source b m records db = Inr (saved, db')" by (rule materialize_okE)
  note t = transaction_ok [OF this, folded ts_def]
  show "saved = RBatch b # RManifest m # filter (\<lambda>r. \<not> is_tombstone r) records @ map RTombstone ts" by (rule t(2))
  have lists: "batches_of saved = b # batches_of records" "manifests_of saved = m # manifests_of records"
      "tombstones_of saved = ts" "positions_of saved = positions_of records" "owned_of saved = owned_of records"
    by (simp_all add: t(2) head_lists append_lists kept_lists tombstone_lists)
  from merge_records_tables [OF t(3)] lists
  show "db_batches db' = merge_all ib_batch_id (b # batches_of records) (db_batches db)"
    "db_manifests db' = merge_all rm_manifest_id (m # manifests_of records) (db_manifests db)"
    "db_tombstones db' = merge_all it_tombstone_id ts (db_tombstones db)"
    "db_positions db' = merge_all po_position_id (positions_of records) (db_positions db)"
    "db_owned db' = merge_all owned_key (owned_of records)
           (filter (\<lambda>r. \<not> covered_row source b r \<and> \<not> (\<exists>t\<in>set ts. tombstone_deletes source t r)) (db_owned db))"
    by simp_all
  show "import_constraints db'" "validate_existing_import_lineage source b m (tombstones_of records) db = Inr ()"
    by (rule t)+
qed

lemma imported_owned_map:
  assumes "materialize_import_batch e root fs source b m records db = (Inr saved, db')"
    and "keyed owned_key (db_owned db)"
  shows "owned_map db' = replace_owned (removed_by source b saved) (owned_of records) (owned_map db)"
proof
  fix k
  note t = imported_tables [OF assms(1)]
  have ts: "(\<exists>t\<in>set (tombstones_by_id (import_tombstones e b records db)). tombstone_deletes source t q) \<longleftrightarrow>
      (\<exists>t. RTombstone t \<in> set saved \<and> tombstone_deletes source t q)" for q
    unfolding t(1) by (auto simp: is_tombstone_def)
  show "owned_map db' k = replace_owned (removed_by source b saved) (owned_of records) (owned_map db) k"
    unfolding owned_map_def t(6) tbl_get_merge_all tbl_get_filter [OF assms(2)]
    by (auto simp: replace_owned_def removed_by_def ts map_add_def owned_map_def split: option.splits)
qed

text \<open>
  Claim C21. An import replaces what its source owns and nothing else: on the map of source-owned rows
  a successful materialisation takes away the rows that a full import covers or that a tombstone of
  the import deletes, then puts the incoming rows, the last one for a key; every other row, of
  another source or another domain, is the row it was.  A failing import changes no table.
\<close>

theorem import_replaces_owned_rows:
  assumes "keyed owned_key (db_owned db)"
  shows "case materialize_import_batch e root fs source b m records db of
     (Inr saved, db') \<Rightarrow> owned_map db' = replace_owned (removed_by source b saved) (owned_of records) (owned_map db)
   | (Inl _, db') \<Rightarrow> db' = db"
  using imported_owned_map [OF _ assms, of e root fs source b m records]
    materialize_error [of e root fs source b m records db]
  by (auto split: prod.splits sum.splits)

section \<open>Tombstones\<close>

lemma merged_has: "r \<in> set rs \<Longrightarrow> \<exists>q. tbl_get key (merge_all key rs t) (key r) = Some q \<and> q \<in> set rs"
  by (induction rs rule: rev_induct) (auto simp: tbl_get_merge)

lemma tombstones_by_id_merge: "tombstones_by_id ts = merge_all it_tombstone_id ts []"
  by (simp add: tombstones_by_id_def merge_all_def)

lemma tombstones_by_id_subset: "set (tombstones_by_id ts) \<subseteq> set ts"
  using set_merge_all [of it_tombstone_id ts "[]"] by (simp add: tombstones_by_id_merge)

lemma tombstones_by_id_has: "t \<in> set ts \<Longrightarrow> \<exists>u\<in>set (tombstones_by_id ts). it_tombstone_id u = it_tombstone_id t"
  using merged_has [of t ts it_tombstone_id "[]"] by (auto simp: tombstones_by_id_merge dest: tbl_get_SomeD)

lemma model_name_inj: "model_name a = model_name b \<longleftrightarrow> a = b"
  by (cases a; cases b) simp_all

lemma model_named_Some: "model_named name = Some model \<longleftrightarrow> name = model_name model"
  by (cases model) (auto simp: model_named_def owned_models_def)

lemma absent_row_tombstone:
  assumes "covered_row (ib_source_kind b) b r" and "r \<in> set (db_owned db)"
    and "find (\<lambda>q. owned_key q = owned_key r) (rev (owned_of records)) = None"
  shows "mk_tombstone e b (model_name (model_of r)) (owned_id r) ''absent_from_full_import''
    \<in> set (import_tombstones e b records db)"
proof -
  have "model_of r \<in> set owned_models" by (cases r) (simp_all add: owned_models_def)
  moreover have "owned_id r \<notin> set (map owned_id (filter (\<lambda>q. model_of q = model_of r) (owned_of records)))"
    using assms(3) by (auto simp: find_None_iff owned_key_def)
  ultimately show ?thesis
    using assms(1,2)
    by (fastforce simp: import_tombstones_def automatic_full_tombstones_def absent_rows_def covered_row_def)
qed

definition tombstone_names_separate :: "import_tombstone list \<Rightarrow> bool" where
  "tombstone_names_separate ts \<longleftrightarrow>
     (\<forall>t\<in>set ts. \<forall>u\<in>set ts. it_tombstone_id t = it_tombstone_id u \<longrightarrow>
        it_record_type t = it_record_type u \<and> it_record_id t = it_record_id u)"

text \<open>
  Claim C22. No source-owned row disappears without evidence: when a row was there before a successful
  import and is gone after it, the import has stored a tombstone of this batch that names the model
  and the identifier of the row, provided the tombstones of the import do not share an identifier
  for different rows.
\<close>

theorem disappearing_rows_leave_tombstones:
  assumes "materialize_import_batch e root fs source b m records db = (Inr saved, db')"
    and "keyed owned_key (db_owned db)" and "owned_map db k = Some r" and "owned_map db' k = None"
    and "tombstone_names_separate (import_tombstones e b records db)"
  shows "\<exists>t\<in>set (db_tombstones db'). it_batch_id t = ib_batch_id b \<and> it_record_type t = model_name (fst k) \<and>
    it_record_id t = snd k"
proof -
  let ?all = "import_tombstones e b records db" and ?ts = "tombstones_by_id (import_tombstones e b records db)"
  note tb = imported_tables [OF assms(1)]
  have r: "r \<in> set (db_owned db)" "owned_key r = k" using assms(3) tbl_get_SomeD unfolding owned_map_def by metis+
  have source: "ib_source_kind b = source"
    using assms(1) by (auto elim!: materialize_okE simp: validate_import_envelope_def validate_import_contract_fields_def rbind_unit_iff)
  have gone: "find (\<lambda>q. owned_key q = k) (rev (owned_of records)) = None" "removed_by source b saved r"
    using imported_owned_map [OF assms(1,2)] assms(3,4)
    by (auto simp: replace_owned_def map_add_def split: option.splits if_splits)
  have "\<exists>t\<in>set ?all. it_record_type t = model_name (fst k) \<and> it_record_id t = snd k"
  proof (cases "covered_row source b r")
    case True
    with absent_row_tombstone [of b r db records e] r gone(1) source show ?thesis
      by (force simp: owned_key_def mk_tombstone_def)
  next
    case False
    with gone(2) obtain t where "RTombstone t \<in> set saved" "tombstone_deletes source t r" by (auto simp: removed_by_def)
    then have "t \<in> set ?ts" "it_record_type t = model_name (fst k) \<and> it_record_id t = snd k"
      using r(2) unfolding tb(1) by (auto simp: is_tombstone_def tombstone_deletes_def model_named_Some owned_key_def)
    then show ?thesis using tombstones_by_id_subset by blast
  qed
  then obtain t where t: "t \<in> set ?all" "it_record_type t = model_name (fst k) \<and> it_record_id t = snd k" by blast
  obtain u where u: "u \<in> set ?ts" "it_tombstone_id u = it_tombstone_id t" using tombstones_by_id_has [OF t(1)] by blast
  obtain v where v: "v \<in> set (db_tombstones db')" "it_tombstone_id v = it_tombstone_id u" "v \<in> set ?ts"
    using merged_has [OF u(1), of it_tombstone_id "db_tombstones db"] tb(4) by (metis tbl_get_SomeD)
  have "v \<in> set ?all" using v(3) tombstones_by_id_subset by blast
  moreover from this have "it_batch_id v = ib_batch_id b"
    using tb(8) by (auto simp: import_tombstones_def automatic_full_tombstones_def mk_tombstone_def
        validate_existing_import_lineage_def rbind_unit_iff list_all_iff split: if_splits)
  moreover have "it_tombstone_id v = it_tombstone_id t" using v(2) u(2) by simp
  ultimately show ?thesis using assms(5) t v(1) unfolding tombstone_names_separate_def by metis
qed

section \<open>Histories of evidence and database\<close>

record import_world =
  iw_files :: artifact_fs
  iw_db :: import_db

definition shares_evidence :: "import_env \<Rightarrow> import_env \<Rightarrow> bool" where
  "shares_evidence lib e \<longleftrightarrow> same_disk e lib \<and> json_loads e = json_loads lib"

definition plain_records :: "import_record list \<Rightarrow> bool" where
  "plain_records records \<longleftrightarrow> batches_of records = [] \<and> manifests_of records = []"

text \<open>
  A step puts evidence, repairs the index, or materialises an import, successfully or not.  The
  records of an import carry no batch and no manifest of their own, as those of the three adapters.
\<close>

inductive import_step :: "import_env \<Rightarrow> string \<Rightarrow> import_world \<Rightarrow> import_world \<Rightarrow> bool" for lib root where
  evidence_step: "artifact_call root (iw_files w) fs \<Longrightarrow> import_step lib root w (w\<lparr>iw_files := fs\<rparr>)"
| materialize_step:
    "shares_evidence lib e \<Longrightarrow> plain_records records \<Longrightarrow>
     materialize_import_batch e root (iw_files w) source b m records (iw_db w) = (r, db') \<Longrightarrow>
     import_step lib root w (w\<lparr>iw_db := db'\<rparr>)"

inductive_cases import_stepE: "import_step lib root w w'"

lemma lineage_checked:
  assumes "validate_existing_import_lineage source b m ts db = Inr ()"
  shows "tbl_get ib_batch_id (db_batches db) (ib_batch_id b) \<in> {None, Some b}"
    and "tbl_get rm_manifest_id (db_manifests db) (rm_manifest_id m) \<in> {None, Some m}"
  using assms by (auto simp: validate_existing_import_lineage_def rbind_unit_iff split: option.splits)

lemma import_step_db:
  assumes "import_step lib root w w'"
  obtains "iw_db w' = iw_db w"
  | e source b m records saved where "shares_evidence lib e" and "plain_records records"
      and "materialize_import_batch e root (iw_files w) source b m records (iw_db w) = (Inr saved, iw_db w')"
      and "iw_files w' = iw_files w"
  using assms
proof cases
  case (materialize_step e records source b m r db')
  show thesis
  proof (cases r)
    case (Inl x)
    from materialize_error [OF materialize_step(4) [unfolded Inl]] materialize_step(1) that(1) show thesis by simp
  next
    case (Inr saved)
    with materialize_step that(2) show thesis by simp
  qed
qed (use that(1) in simp)

lemma batch_step_kept:
  assumes "import_step lib root w w'" and "tbl_get ib_batch_id (db_batches (iw_db w)) k = Some v"
  shows "tbl_get ib_batch_id (db_batches (iw_db w')) k = Some v"
  using assms(1)
proof (cases rule: import_step_db)
  case (2 e source b m records saved)
  note t = imported_tables [OF 2(3)]
  have "batches_of records = []" using 2(2) by (simp add: plain_records_def)
  then show ?thesis using t(2) lineage_checked(1) [OF t(8)] assms(2) by (auto simp: tbl_get_merge)
qed (use assms(2) in simp)

lemma manifest_step_kept:
  assumes "import_step lib root w w'" and "tbl_get rm_manifest_id (db_manifests (iw_db w)) k = Some v"
  shows "tbl_get rm_manifest_id (db_manifests (iw_db w')) k = Some v"
  using assms(1)
proof (cases rule: import_step_db)
  case (2 e source b m records saved)
  note t = imported_tables [OF 2(3)]
  have "manifests_of records = []" using 2(2) by (simp add: plain_records_def)
  then show ?thesis using t(3) lineage_checked(2) [OF t(8)] assms(2) by (auto simp: tbl_get_merge)
qed (use assms(2) in simp)

text \<open>What an alias maps to; its other columns may be refreshed.\<close>

definition alias_target :: "import_db \<Rightarrow> string \<rightharpoonup> string \<times> string \<times> string \<times> string \<times> string" where
  "alias_target db k =
     map_option (\<lambda>a. (al_identity_kind a, al_provider_namespace a, al_provider_alias a, al_canonical_id a,
       al_mapping_version a)) (tbl_get al_alias_id (db_aliases db) k)"

lemma merge_records_aliases:
  "merge_records rs db = Inr db' \<Longrightarrow> alias_target db k = Some v \<Longrightarrow> alias_target db' k = Some v"
proof (induction rs arbitrary: db)
  case (Cons r rs)
  then have checked: "reject_alias_retarget r db = Inr ()" and rest: "merge_records rs (merge_record r db) = Inr db'"
    by (auto simp: rbind_unit_iff)
  have "alias_target (merge_record r db) k = Some v"
  proof (cases r)
    case (RAlias a)
    with checked Cons.prems(2) show ?thesis
      by (auto simp: reject_alias_retarget_def alias_target_def tbl_get_merge same_alias_def split: option.splits if_splits)
  qed (use Cons.prems(2) in \<open>simp_all add: alias_target_def\<close>)
  from Cons.IH [OF rest this] show ?case .
qed simp

lemma alias_step_kept:
  assumes "import_step lib root w w'" and "alias_target (iw_db w) k = Some v"
  shows "alias_target (iw_db w') k = Some v"
  using assms(1)
proof (cases rule: import_step_db)
  case (2 e source b m records saved)
  from 2(3) have "import_transaction e source b m records (iw_db w) = Inr (saved, iw_db w')" by (rule materialize_okE)
  from merge_records_aliases [OF transaction_ok(3) [OF this]] assms(2) show ?thesis by (simp add: alias_target_def)
qed (use assms(2) in simp)

interpretation stored_batches: write_once "import_step lib root" "\<lambda>w. tbl_get ib_batch_id (db_batches (iw_db w))" for lib root
  by unfold_locales (rule batch_step_kept)

interpretation stored_manifests: write_once "import_step lib root" "\<lambda>w. tbl_get rm_manifest_id (db_manifests (iw_db w))"
  for lib root
  by unfold_locales (rule manifest_step_kept)

interpretation stored_aliases: write_once "import_step lib root" "\<lambda>w. alias_target (iw_db w)" for lib root
  by unfold_locales (rule alias_step_kept)

text \<open>
  Claim C24. The record of an import is never rewritten: along any history of evidence puts, index
  recoveries and imports, successful or failing, a stored batch, a stored manifest and the mapping
  of an identity alias stay what they were when they were first stored.
\<close>

theorem import_records_immutable:
  assumes "(import_step lib root)\<^sup>*\<^sup>* w w'"
  shows "(\<forall>k b. tbl_get ib_batch_id (db_batches (iw_db w)) k = Some b \<longrightarrow>
            tbl_get ib_batch_id (db_batches (iw_db w')) k = Some b) \<and>
         (\<forall>k m. tbl_get rm_manifest_id (db_manifests (iw_db w)) k = Some m \<longrightarrow>
            tbl_get rm_manifest_id (db_manifests (iw_db w')) k = Some m) \<and>
         (\<forall>k t. alias_target (iw_db w) k = Some t \<longrightarrow> alias_target (iw_db w') k = Some t)"
  using stored_batches.kept [OF assms] stored_manifests.kept [OF assms] stored_aliases.kept [OF assms] by blast

section \<open>Evidence of every batch\<close>

definition evidenced :: "import_env \<Rightarrow> string \<Rightarrow> artifact_fs \<Rightarrow> import_batch \<Rightarrow> receipt_manifest \<Rightarrow> bool" where
  "evidenced lib root fs b m \<longleftrightarrow>
     (\<exists>content. read_artifact lib root (ib_source_artifact_id b) fs = Inr content \<and>
        sha256 lib content = ib_source_sha256 b) \<and>
     (\<exists>receipt payload. read_artifact lib root (rm_receipt_artifact_id m) fs = Inr receipt \<and>
        sha256 lib receipt = rm_receipt_sha256 m \<and> json_loads lib receipt = Some (PDict payload) \<and>
        list_all (\<lambda>(k, v). py_eq (dict_get payload k) v) (expected_receipt_fields b m))"

lemma wrap_Inr [simp]: "wrap_artifact_error r = Inr v \<longleftrightarrow> r = Inr v"
  by (auto simp: wrap_artifact_error_def split: sum.splits exn.splits)

lemma envelope_evidenced:
  assumes "validate_import_envelope e root fs source b m records = Inr ()" and "shares_evidence lib e"
  shows "evidenced lib root fs b m" and "rm_batch_id m = ib_batch_id b"
proof -
  have disk: "same_disk e lib" and loads: "json_loads e = json_loads lib"
    using assms(2) by (simp_all add: shares_evidence_def)
  from assms(1) obtain sd rd receipt where fields: "validate_import_contract_fields source b m = Inr ()"
      and load: "load_evidence e root fs b m = Inr (sd, rd, receipt)"
      and hashes: "ad_content_sha256 sd = ib_source_sha256 b" "ad_content_sha256 rd = rm_receipt_sha256 m"
      and binding: "validate_receipt_binding e receipt (ad_artifact_schema sd) (ad_artifact_schema rd) b m = Inr ()"
    unfolding validate_import_envelope_def by (elim rbind_InrE) (auto elim!: rbind_InrE)
  show "rm_batch_id m = ib_batch_id b"
    using fields by (auto simp: validate_import_contract_fields_def rbind_unit_iff)
  obtain content where reads: "descriptor e root (ib_source_artifact_id b) fs = Inr sd"
      "descriptor e root (rm_receipt_artifact_id m) fs = Inr rd"
      "read_artifact e root (ib_source_artifact_id b) fs = Inr content"
      "read_artifact e root (rm_receipt_artifact_id m) fs = Inr receipt"
    using load unfolding load_evidence_def wrap_Inr by (auto elim!: rbind_InrE)
  have sha: "sha256 lib content = ib_source_sha256 b" "sha256 lib receipt = rm_receipt_sha256 m"
    using read_descriptor [OF reads(3)] read_descriptor [OF reads(4)] reads(1,2) hashes disk
    by (auto simp: same_disk_def)
  from binding loads obtain payload where "json_loads lib receipt = Some (PDict payload)"
      "list_all (\<lambda>(k, v). py_eq (dict_get payload k) v) (expected_receipt_fields b m)"
    by (auto simp: validate_receipt_binding_def rbind_unit_iff split: option.splits pyval.splits)
  with reads(3,4) sha same_disk_read(2) [OF disk] show "evidenced lib root fs b m"
    unfolding evidenced_def by auto
qed

lemma evidenced_kept: "(artifact_call root)\<^sup>*\<^sup>* fs fs' \<Longrightarrow> evidenced lib root fs b m \<Longrightarrow> evidenced lib root fs' b m"
  using read_kept unfolding evidenced_def by metis

text \<open>Every batch has exactly one manifest, and both are backed by readable evidence.\<close>

definition lineage_inv :: "import_env \<Rightarrow> string \<Rightarrow> import_world \<Rightarrow> bool" where
  "lineage_inv lib root w \<longleftrightarrow>
     distinct (map rm_batch_id (db_manifests (iw_db w))) \<and> keyed rm_manifest_id (db_manifests (iw_db w)) \<and>
     (\<forall>b\<in>set (db_batches (iw_db w)). \<exists>m\<in>set (db_manifests (iw_db w)).
        rm_batch_id m = ib_batch_id b \<and> evidenced lib root (iw_files w) b m)"

lemma lineage_step:
  assumes "import_step lib root w w'" and inv: "lineage_inv lib root w"
  shows "lineage_inv lib root w'"
  using assms(1)
proof cases
  case (evidence_step fs)
  then have "(artifact_call root)\<^sup>*\<^sup>* (iw_files w) (iw_files w')" by auto
  from evidenced_kept [OF this] inv evidence_step show ?thesis by (fastforce simp: lineage_inv_def)
next
  case (materialize_step e records source b m r db')
  show ?thesis
  proof (cases r)
    case (Inl x)
    from materialize_error [OF materialize_step(4) [unfolded Inl]] materialize_step(1) inv show ?thesis
      by (simp add: lineage_inv_def)
  next
    case (Inr saved)
    note call = materialize_step(4) [unfolded Inr]
    note t = imported_tables [OF call]
    have plain: "batches_of records = []" "manifests_of records = []"
      using materialize_step(3) by (simp_all add: plain_records_def)
    from call have "validate_import_envelope e root (iw_files w) source b m records = Inr ()" by (rule materialize_okE)
    note ev = envelope_evidenced [OF this materialize_step(2)]
    have w': "iw_db w' = db'" "iw_files w' = iw_files w" using materialize_step(1) by simp_all
    have batches: "set (db_batches db') = insert b {x \<in> set (db_batches (iw_db w)). ib_batch_id x \<noteq> ib_batch_id b}"
      using t(2) by (simp add: plain set_tbl_merge)
    have unique: "distinct (map rm_batch_id (db_manifests db'))"
      using t(7) by (simp add: import_constraints_def unique_on_def List.map_filter_def comp_def)
    have keyed: "keyed rm_manifest_id (db_manifests (iw_db w))" using inv by (simp add: lineage_inv_def)
    have keep: "x \<in> set (db_manifests db')" if "x \<in> set (db_manifests (iw_db w))" "rm_batch_id x \<noteq> ib_batch_id b" for x
    proof -
      have "rm_manifest_id x \<noteq> rm_manifest_id m"
        using lineage_checked(2) [OF t(8)] tbl_get_mem [OF keyed that(1)] that(2) ev(2) by auto
      then show ?thesis using that(1) t(3) by (simp add: plain set_tbl_merge)
    qed
    have "m \<in> set (db_manifests db')" using t(3) by (simp add: plain set_tbl_merge)
    moreover have "keyed rm_manifest_id (db_manifests db')" using keyed_merge [OF keyed] t(3) by (simp add: plain)
    moreover have "\<exists>x\<in>set (db_manifests db'). rm_batch_id x = ib_batch_id c \<and> evidenced lib root (iw_files w) c x"
      if "c \<in> set (db_batches (iw_db w))" "ib_batch_id c \<noteq> ib_batch_id b" for c
      using inv that keep unfolding lineage_inv_def by metis
    ultimately show ?thesis using unique ev by (auto simp: lineage_inv_def w' batches)
  qed
qed

text \<open>
  Claim C23. Every import is backed by evidence for ever: in every state reached from an empty database
  by evidence puts, index recoveries and imports, interrupted anywhere, each stored batch has
  exactly one manifest, the source artifact it names can be read and has the digest the batch
  records, and the receipt artifact can be read, has the digest the manifest records and binds every
  field of the batch.
\<close>

theorem every_batch_evidenced:
  assumes "(import_step lib root)\<^sup>*\<^sup>* w w'" and "db_batches (iw_db w) = []" and "db_manifests (iw_db w) = []"
    and "b \<in> set (db_batches (iw_db w'))"
  shows "(\<exists>!m. m \<in> set (db_manifests (iw_db w')) \<and> rm_batch_id m = ib_batch_id b) \<and>
    (\<exists>m\<in>set (db_manifests (iw_db w')). rm_batch_id m = ib_batch_id b \<and> evidenced lib root (iw_files w') b m)"
proof -
  have "lineage_inv lib root w" using assms(2,3) by (simp add: lineage_inv_def keyed_def)
  with assms(1) have inv: "lineage_inv lib root w'"
    by (induction rule: rtranclp_induct) (auto intro: lineage_step)
  then obtain m where m: "m \<in> set (db_manifests (iw_db w'))" "rm_batch_id m = ib_batch_id b"
      "evidenced lib root (iw_files w') b m"
    using assms(4) by (auto simp: lineage_inv_def)
  have "x = m" if "x \<in> set (db_manifests (iw_db w'))" "rm_batch_id x = ib_batch_id b" for x
  proof -
    have "inj_on rm_batch_id (set (db_manifests (iw_db w')))" using inv by (simp add: lineage_inv_def distinct_map)
    from inj_onD [OF this _ that(1) m(1)] that(2) m(2) show ?thesis by simp
  qed
  with m show ?thesis by blast
qed

section \<open>Stored valuations\<close>

lemma find_Some_mem: "find P xs = Some x \<Longrightarrow> x \<in> set xs \<and> P x"
  by (induction xs) (auto split: if_splits)

lemma zip_find:
  "list_all2 R ps qs \<Longrightarrow> find (\<lambda>p. key p = k) ps = Some p \<Longrightarrow>
   \<exists>q. map_of (zip (map key ps) qs) k = Some q \<and> R p q"
  by (induction ps qs rule: list_all2_induct) (auto split: if_splits)

lemma assessed_status:
  assumes "assess_positions e ps observed = Inr as" and "statuses_agree ps as"
    and "find (\<lambda>p. po_position_id p = k) (rev ps) = Some p"
  shows "\<exists>a. assess_one e observed p = Inr a \<and> po_valuation_status p = status_value (va_status a)"
proof -
  have all: "list_all2 (\<lambda>p a. assess_one e observed p = Inr a) ps as"
    using assms(1) by (simp add: assess_positions_def map_res_Inr_iff)
  then have "length (map po_position_id ps) = length as" by (simp add: list_all2_lengthD)
  then have "rev (zip (map po_position_id ps) as) = zip (map po_position_id (rev ps)) (rev as)"
    by (simp add: zip_rev [symmetric] rev_map)
  then obtain a where a: "map_of (rev (zip (map po_position_id ps) as)) k = Some a" "assess_one e observed p = Inr a"
    using zip_find [OF _ assms(3), of "\<lambda>p a. assess_one e observed p = Inr a" "rev as"] all by auto
  have "po_position_id p = k" "p \<in> set ps" using find_Some_mem [OF assms(3)] by simp_all
  with assms(2) a show ?thesis by (auto simp: statuses_agree_def list_all_iff)
qed

lemma contract_Inr:
  assumes "validate_import_valuation_contract e root fs source b m records = Inr ()"
    and "source \<in> set PRODUCTION_VALUATION_SOURCES"
  obtains observed as where "observed_at_from_batch e b = Inr observed"
    and "assess_positions e (positions_of records) observed = Inr as" and "statuses_agree (positions_of records) as"
    and "list_all (\<lambda>p. po_snapshot_id p = rm_snapshot_id m) (positions_of records)"
proof -
  from assms obtain snapshot observed as receipt where
      o: "observed_at_from_batch e b = Inr observed" "assess_positions e (positions_of records) observed = Inr as"
      "statuses_agree (positions_of records) as" "surfaces_agree b m snapshot receipt records = Inr ()"
    unfolding validate_import_valuation_contract_def
    by (auto split: list.splits elim!: rbind_InrE)
  from o(4) have "list_all (\<lambda>p. po_snapshot_id p = rm_snapshot_id m) (positions_of records)"
    unfolding surfaces_agree_def Let_def by (auto elim!: rbind_InrE)
  with that o show thesis by blast
qed

lemma admitted_status:
  assumes "assess_position_valuation e ev record_id record_number clk policy fresh legacy = Inr a"
    and "va_status a \<in> {Valued, ValuedConverted}"
  shows "assessment_admitted a"
proof (cases "\<not> has_typed_evidence ev \<and> legacy")
  case True
  with assms show ?thesis by (auto simp: assess_position_valuation_def)
next
  case False
  with assms(1) obtain t where t: "parse_valuation_evaluation_clock e clk = Inr t"
    by (cases "parse_valuation_evaluation_clock e clk") (auto simp: assess_position_valuation_def Let_def)
  obtain s ts fx rc ps fs where parts:
    "assess_parts e (valuation_finding record_id record_number) ev t policy fresh = (s, ts, fx, rc, ps, fs)"
    by (metis prod.exhaust)
  from assms False t parts show ?thesis
    by (auto simp: assess_position_valuation_def Let_def admitted_iff split: if_splits)
qed

text \<open>
  Claim C25. A position that an import of a production source stores as valued really is: its evidence
  is complete, reconciles with its market value within the tolerance, carries a usable exchange rate
  where it crosses currencies, and was fresh at the instant the batch says it was observed; and the
  row belongs to the snapshot of the import.
\<close>

theorem imported_values_admissible:
  assumes "materialize_import_batch e root fs source b m records db = (Inr saved, db')"
    and "source \<in> set PRODUCTION_VALUATION_SOURCES" and "tbl_get po_position_id (db_positions db') k = Some p"
    and "k \<in> po_position_id ` set (positions_of records)"
    and "po_valuation_status p \<in> set ADMITTED_VALUATION_STATUSES"
  shows "po_snapshot_id p = rm_snapshot_id m \<and>
    (\<exists>observed t. observed_at_from_batch e b = Inr observed \<and> parse_valuation_evaluation_clock e observed = Inr t \<and>
       admissible e (evidence_from_position p) t BASE_VALUATION_POLICY_V1 True)"
proof -
  from assms(1) have c: "validate_import_valuation_contract e root fs source b m records = Inr ()" by (rule materialize_okE)
  from contract_Inr [OF c assms(2)] obtain observed as where o: "observed_at_from_batch e b = Inr observed"
      "assess_positions e (positions_of records) observed = Inr as" "statuses_agree (positions_of records) as"
      "list_all (\<lambda>p. po_snapshot_id p = rm_snapshot_id m) (positions_of records)" .
  have "find (\<lambda>q. po_position_id q = k) (rev (positions_of records)) \<noteq> None"
    using assms(4) by (auto simp: find_None_iff)
  then have found: "find (\<lambda>q. po_position_id q = k) (rev (positions_of records)) = Some p"
    using assms(3) imported_tables(5) [OF assms(1)] by (auto simp: tbl_get_merge_all)
  from find_Some_mem [OF this] have "p \<in> set (positions_of records)" by simp
  with o(4) have snap: "po_snapshot_id p = rm_snapshot_id m" by (simp add: list_all_iff)
  obtain a where a: "assess_one e observed p = Inr a" "po_valuation_status p = status_value (va_status a)"
    using assessed_status [OF o(2,3) found] by blast
  have "va_status a \<in> {Valued, ValuedConverted}"
    using assms(5) a(2) by (cases "va_status a") (simp_all add: ADMITTED_VALUATION_STATUSES_def)
  from admitted_status [OF a(1) [unfolded assess_one_def] this] have adm: "assessment_admitted a" .
  obtain t where t: "parse_valuation_evaluation_clock e observed = Inr t"
    using a(1) by (cases "parse_valuation_evaluation_clock e observed") (auto simp: assess_one_def assess_position_valuation_def)
  from assessed_parts(2) [OF a(1) [unfolded assess_one_def] _ t adm]
  have "admissible e (evidence_from_position p) t BASE_VALUATION_POLICY_V1 True"
    using assess_admitted_iff [of e "evidence_from_position p" "Some (po_position_id p)" None observed
      BASE_VALUATION_POLICY_V1 True False] a(1) adm t by (auto simp: assess_one_def)
  with snap o(1) t show ?thesis by blast
qed

section \<open>An example import\<close>

text \<open>
  A full import of a personal finance export over a database in which the source owned one
  liability and another source owned a second one; the new file has a third one and a position.
\<close>

definition demo_import_sha :: "string \<Rightarrow> string" where
  "demo_import_sha c = replicate 64 (if c = ''R'' then CHR ''b'' else CHR ''a'')"

definition demo_counts :: jdict where
  "demo_counts = [(''position'', PInt 1), (''liability'', PInt 1)]"

definition demo_batch :: import_batch where
  "demo_batch =
     \<lparr>sc_schema_version = ''v'', sc_as_of_utc = ''t'', sc_authority_level = ''read_only'',
      ib_batch_id = ''b1'', ib_source_kind = ''personal_finance_export'', ib_source_id = ''src'', ib_stable_source_id = None,
      ib_coverage_mode = ''full'', ib_source_sha256 = demo_import_sha ''S'', ib_source_artifact_id = ''source'',
      ib_projection_artifact_id = None, ib_projection_sha256 = None, ib_projection_schema_version = None,
      ib_projection_payload = [], ib_effective_at_utc = None, ib_observed_at_utc = Some ''aaaaa'',
      ib_recorded_at_utc = None, ib_adapter_version = ''1'', ib_import_schema_version = ''v3'',
      ib_record_counts = demo_counts, ib_covered_domains = [''liability''],
      ib_supersedes_batch_id = None, ib_correction_reason = None, ib_corporate_action_status = ''not_applicable'',
      ib_corporate_action_gaps = [], ib_completeness_status = ''complete'',
      ib_time_semantics = [(''observed_at_utc'', PStr ''aaaaa'')], ib_findings = []\<rparr>"

definition demo_manifest :: receipt_manifest where
  "demo_manifest =
     \<lparr>sc_schema_version = ''v'', sc_as_of_utc = ''t'', sc_authority_level = ''read_only'',
      rm_manifest_id = ''m1'', rm_batch_id = ''b1'', rm_receipt_id = ''r1'', rm_receipt_ref = ''r1.json'',
      rm_receipt_sha256 = demo_import_sha ''R'', rm_receipt_artifact_id = ''receipt'', rm_source_artifact_id = ''source'',
      rm_snapshot_id = ''s1'', rm_materialization_status = ''materialized'', rm_record_counts = demo_counts,
      rm_materialized_at_utc = ''t''\<rparr>"

definition demo_assessment :: pyval where
  "demo_assessment =
     PDict [(''policy_id'', PStr (vp_policy_id BASE_VALUATION_POLICY_V1)), (''evaluated_at_utc'', PStr ''aaaaa''),
            (''status_counts'', PDict [(''valued'', PInt 1)])]"

definition demo_import_env :: import_env where
  "demo_import_env =
     \<lparr>clock = (\<lambda>i. ''t''), stamp = (\<lambda>i. ''S''), uuid8 = (\<lambda>i. ''0a1b2c3d''),
      fromisoformat = (\<lambda>s. Some (int (length s), Some 0)), isoformat = (\<lambda>t. replicate (nat t) (CHR ''a'')),
      resolve_path = (\<lambda>ps. None), display_path = (\<lambda>p. p), write_fails = (\<lambda>p. False),
      commit_fails = (\<lambda>i. False), coerce_money = (\<lambda>v. None), py_repr = (\<lambda>v. ''value''), pick_row = (\<lambda>i n. 0),
      realpath = (\<lambda>p. p), sha256 = demo_import_sha, py_int = (\<lambda>v. None), is_symlink = (\<lambda>p. False),
      utc_now = 0, uuid_hex = ''0123456789abcdef0123456789abcdef'', io_fault = (\<lambda>p. False),
      json_loads = (\<lambda>c. Some (PDict ((''valuation_assessment'', demo_assessment) #
        expected_receipt_fields demo_batch demo_manifest)))\<rparr>"

definition demo_evidence :: "string \<Rightarrow> string \<Rightarrow> string \<Rightarrow> artifact_descriptor" where
  "demo_evidence i schema c =
     \<lparr>ad_artifact_id = i, ad_artifact_schema = schema, ad_artifact_schema_version = ''v3'',
      ad_content_sha256 = demo_import_sha c, ad_content_length = length c, ad_media_type = ''text/plain'',
      ad_owner_domain = ''capital_imports'', ad_created_at_utc = ''t'', ad_source_refs = [], ad_metadata = []\<rparr>"

definition demo_evidence_files :: artifact_fs where
  "demo_evidence_files =
     \<lparr>fs_descriptors = [(''/store/descriptors/source.json'', Some (demo_evidence ''source'' SOURCE_ARTIFACT_SCHEMA ''S'')),
                       (''/store/descriptors/receipt.json'', Some (demo_evidence ''receipt'' RECEIPT_ARTIFACT_SCHEMA ''R''))],
      fs_objects = [(demo_import_sha ''S'', ''S''), (demo_import_sha ''R'', ''R'')], fs_index = None, fs_entries = [], fs_recovery = []\<rparr>"

definition demo_liability :: "string \<Rightarrow> string \<Rightarrow> liability" where
  "demo_liability i source =
     \<lparr>sc_schema_version = ''v'', sc_as_of_utc = ''t'', sc_authority_level = ''read_only'', so_source = source,
      so_source_id = [], li_liability_id = i, li_name = ''loan'', li_liability_type = ''loan'', li_balance = Dec 5 0,
      li_currency = ''USD'', li_account_id = None, li_interest_rate = None, li_due_date = None, li_source_refs = []\<rparr>"

definition demo_owned :: "owned_row list" where
  "demo_owned = [OLiability (demo_liability ''L1'' ''personal_finance_export''), OLiability (demo_liability ''L9'' ''beancount_ledger'')]"

definition demo_import_db :: import_db where
  "demo_import_db =
     \<lparr>db_batches = [], db_manifests = [], db_tombstones = [], db_receipts = [], db_snapshots = [], db_positions = [],
      db_accounts = [], db_account_identities = [], db_instrument_identities = [], db_aliases = [], db_sources = [],
      db_source_aliases = [], db_owned = demo_owned\<rparr>"

definition demo_records :: "import_record list" where
  "demo_records =
     [RReceipt \<lparr>ri_receipt_id = ''r1'', ri_kind = ''personal_finance_export'', ri_path = ''r1.json'',
                ri_created_at_utc = ''t'', ri_source_refs = [''r1.json'', ''src''], ri_refs = []\<rparr>,
      RAccount \<lparr>sc_schema_version = ''v'', sc_as_of_utc = ''t'', sc_authority_level = ''read_only'', ac_account_id = ''a1'',
                ac_canonical_account_id = None, ac_kind = ''bank'', ac_venue = ''x'', ac_display_name = ''x'',
                ac_source_refs = [], ac_created_at_utc = ''t''\<rparr>,
      RSnapshot \<lparr>sc_schema_version = ''v'', sc_as_of_utc = ''t'', sc_authority_level = ''read_only'', sn_snapshot_id = ''s1'',
                 sn_kind = ''capital'', sn_payload = [(''record_counts'', PDict demo_counts),
                   (''completeness_status'', PStr ''complete''), (''valuation_assessment'', demo_assessment)],
                 sn_source_refs = []\<rparr>,
      RPosition (demo_position\<lparr>po_instrument_id := None\<rparr>),
      ROwned (OLiability (demo_liability ''L2'' ''personal_finance_export''))]"

definition demo_import :: "import_record list res \<times> import_db" where
  "demo_import = materialize_import_batch demo_import_env ''/store'' demo_evidence_files ''personal_finance_export''
     demo_batch demo_manifest demo_records demo_import_db"

definition demo_saved :: "import_record list" where
  "demo_saved = projr (fst demo_import)"

lemma demo_import_accepted: "case fst demo_import of Inl _ \<Rightarrow> False | Inr _ \<Rightarrow> True"
  by code_simp

lemma demo_imported:
  "materialize_import_batch demo_import_env ''/store'' demo_evidence_files ''personal_finance_export''
     demo_batch demo_manifest demo_records demo_import_db = (Inr demo_saved, snd demo_import)"
  using demo_import_accepted unfolding demo_import_def [symmetric] by (auto simp: demo_saved_def prod_eq_iff split: sum.splits)

lemma demo_lookups:
  "map_option owned_source (owned_map demo_import_db (MLiability, ''L1'')) = Some ''personal_finance_export''"
  "owned_map (snd demo_import) (MLiability, ''L1'') = None"
  "map_option owned_source (owned_map (snd demo_import) (MLiability, ''L9'')) = Some ''beancount_ledger''"
  "map_option owned_source (owned_map (snd demo_import) (MLiability, ''L2'')) = Some ''personal_finance_export''"
  by code_simp+

lemma demo_keyed: "keyed owned_key (db_owned demo_import_db)"
  by code_simp

lemma demo_import_step:
  "(import_step demo_import_env ''/store'')\<^sup>*\<^sup>* \<lparr>iw_files = demo_evidence_files, iw_db = db\<rparr>
     \<lparr>iw_files = demo_evidence_files, iw_db = snd (materialize_import_batch demo_import_env ''/store''
        demo_evidence_files ''personal_finance_export'' b demo_manifest demo_records db)\<rparr>"
proof -
  let ?w = "\<lparr>iw_files = demo_evidence_files, iw_db = db\<rparr>"
  obtain r db' where run: "materialize_import_batch demo_import_env ''/store'' demo_evidence_files ''personal_finance_export''
      b demo_manifest demo_records db = (r, db')" by fastforce
  have "import_step demo_import_env ''/store'' ?w (?w\<lparr>iw_db := db'\<rparr>)"
  proof (rule materialize_step)
    show "shares_evidence demo_import_env demo_import_env" by (simp add: shares_evidence_def same_disk_def)
    show "plain_records demo_records"
      by (simp add: plain_records_def demo_records_def batches_of_def manifests_of_def)
    show "materialize_import_batch demo_import_env ''/store'' (iw_files ?w) ''personal_finance_export''
      b demo_manifest demo_records (iw_db ?w) = (r, db')" by (simp add: run)
  qed
  then show ?thesis using run by auto
qed

theorem import_replaces_owned_rows_witness:
  "owned_map (snd demo_import) =
     replace_owned (removed_by ''personal_finance_export'' demo_batch demo_saved) (owned_of demo_records) (owned_map demo_import_db) \<and>
   owned_map demo_import_db (MLiability, ''L1'') \<noteq> None \<and> owned_map (snd demo_import) (MLiability, ''L1'') = None \<and>
   owned_map (snd demo_import) (MLiability, ''L9'') \<noteq> None \<and> owned_map (snd demo_import) (MLiability, ''L2'') \<noteq> None"
  using import_replaces_owned_rows [OF demo_keyed, where e = demo_import_env and root = "''/store''" and fs = demo_evidence_files
      and source = "''personal_finance_export''" and b = demo_batch and m = demo_manifest and records = demo_records] demo_lookups
  by (auto simp: demo_imported)

theorem disappearing_rows_leave_tombstones_witness:
  "\<exists>t\<in>set (db_tombstones (snd demo_import)).
     it_batch_id t = ''b1'' \<and> it_record_type t = ''Liability'' \<and> it_record_id t = ''L1''"
proof -
  obtain r where r: "owned_map demo_import_db (MLiability, ''L1'') = Some r" using demo_lookups(1) by auto
  have "tombstone_names_separate (import_tombstones demo_import_env demo_batch demo_records demo_import_db)"
    unfolding tombstone_names_separate_def by code_simp
  from disappearing_rows_leave_tombstones [OF demo_imported demo_keyed r demo_lookups(2) this]
  show ?thesis by (simp add: demo_batch_def)
qed

theorem import_records_immutable_witness:
  "tbl_get ib_batch_id (db_batches (snd demo_import)) ''b1'' = Some demo_batch \<and>
   (\<exists>db. db = snd (materialize_import_batch demo_import_env ''/store'' demo_evidence_files ''personal_finance_export''
       (demo_batch\<lparr>ib_adapter_version := ''2''\<rparr>) demo_manifest demo_records (snd demo_import)) \<and>
     tbl_get ib_batch_id (db_batches db) ''b1'' = Some demo_batch)"
proof -
  have "tbl_get ib_batch_id (db_batches (snd demo_import)) ''b1'' = Some demo_batch" by code_simp
  then show ?thesis
    using import_records_immutable [OF demo_import_step [of "snd demo_import" "demo_batch\<lparr>ib_adapter_version := ''2''\<rparr>"]] by simp
qed

theorem every_batch_evidenced_witness:
  "(\<exists>!m. m \<in> set (db_manifests (snd demo_import)) \<and> rm_batch_id m = ''b1'') \<and>
   (\<exists>m\<in>set (db_manifests (snd demo_import)). evidenced demo_import_env ''/store'' demo_evidence_files demo_batch m)"
proof -
  have "demo_batch \<in> set (db_batches (snd demo_import))" by code_simp
  then show ?thesis
    using every_batch_evidenced [OF demo_import_step [of demo_import_db demo_batch], of demo_batch]
    by (auto simp: demo_import_db_def demo_batch_def demo_import_def)
qed

theorem imported_values_admissible_witness:
  "\<exists>p. tbl_get po_position_id (db_positions (snd demo_import)) (po_position_id demo_position) = Some p \<and>
     po_snapshot_id p = ''s1'' \<and>
     (\<exists>observed t. admissible demo_import_env (evidence_from_position p) t BASE_VALUATION_POLICY_V1 True)"
proof -
  let ?get = "tbl_get po_position_id (db_positions (snd demo_import)) (po_position_id demo_position)"
  have "map_option po_valuation_status ?get = Some ''valued''" by code_simp
  then obtain p where p: "?get = Some p" "po_valuation_status p = ''valued''" by auto
  have "po_position_id demo_position \<in> po_position_id ` set (positions_of demo_records)" by code_simp
  from imported_values_admissible [OF demo_imported _ p(1) this] p(2) show ?thesis
    using p(1) by (auto simp: PRODUCTION_VALUATION_SOURCES_def ADMITTED_VALUATION_STATUSES_def demo_manifest_def)
qed

end
