(* ===== verification/Import_Sources.thy ===== *)
theory Import_Sources
  imports Import_Store "HOL-Library.Product_Lexorder"
begin

text \<open>
  Canonical identities of accounts and instruments (\<^verbatim>\<open>statecore/identities.py\<close>) and of the external
  sources of imports (\<^verbatim>\<open>statecore/capital_sources.py\<close>).
\<close>

section \<open>Accounts and instruments\<close>

record identity_finding =
  df_code :: string
  df_severity :: string
  df_message :: string
  df_record_type :: string
  df_record_id :: "string option"
  df_field :: string

definition required_text :: "string \<Rightarrow> string \<Rightarrow> bool \<Rightarrow> string res" where
  "required_text v field upper =
     (let normalized = py_strip v in
      if normalized = [] then Inl (ValueError (field @ '' must be explicit''))
      else Inr (if upper then py_upper normalized else py_lower normalized))"

definition identity_id :: "'e io_env_scheme \<Rightarrow> string \<Rightarrow> string list \<Rightarrow> string" where
  "identity_id e prefix parts = prefix @ ''_'' @ take 24 (sha256 e (utf8 (py_join [CHR 0x1F] parts)))"

definition ALIAS_MAPPING_VERSION :: string where
  "ALIAS_MAPPING_VERSION = ''finharness.identity_alias.v0''"

definition sorted_refs :: "string list \<Rightarrow> string list" where
  "sorted_refs refs = sort (remdups refs)"

definition mk_identity_alias ::
  "'e io_env_scheme \<Rightarrow> string \<Rightarrow> string \<Rightarrow> string \<Rightarrow> string \<Rightarrow> string list \<Rightarrow> identity_alias res" where
  "mk_identity_alias e identity_kind provider_namespace provider_alias canonical_id source_refs =
     rbind (required_text provider_namespace ''provider_namespace'' False) (\<lambda>namespace.
     let alias = py_strip provider_alias; target = py_strip canonical_id; version = ALIAS_MAPPING_VERSION in
     if alias = [] \<or> target = []
     then Inl (ValueError ''alias, canonical_id, and mapping_version must be explicit'')
     else Inr \<lparr>sc_schema_version = STATE_CORE_SCHEMA_VERSION, sc_as_of_utc = clock e 0, sc_authority_level = ''read_only'',
               al_alias_id = identity_id e ''alias'' [identity_kind, namespace, alias, version],
               al_identity_kind = identity_kind, al_provider_namespace = namespace, al_provider_alias = alias,
               al_canonical_id = target, al_mapping_version = version, al_source_refs = sorted_refs source_refs\<rparr>)"

definition mk_account_identity ::
  "'e io_env_scheme \<Rightarrow> string \<Rightarrow> string \<Rightarrow> string list \<Rightarrow> string option \<Rightarrow> (account_identity \<times> identity_alias) res" where
  "mk_account_identity e source_namespace source_native_id source_refs canonical_account_id =
     rbind (required_text source_namespace ''source_namespace'' False) (\<lambda>namespace.
     let native_id = py_strip source_native_id in
     if native_id = [] then Inl (ValueError ''source_native_id must be explicit'')
     else let canonical_id = or_else canonical_account_id (identity_id e ''acct'' [namespace, native_id]) in
       rbind (mk_identity_alias e ''account'' namespace native_id canonical_id source_refs) (\<lambda>alias.
       Inr (\<lparr>sc_schema_version = STATE_CORE_SCHEMA_VERSION, sc_as_of_utc = clock e 0, sc_authority_level = ''read_only'',
             ai_canonical_account_id = canonical_id, ai_source_namespace = namespace, ai_source_native_id = native_id,
             ai_identity_version = ''finharness.account_identity.v0'', ai_source_refs = sorted_refs source_refs\<rparr>, alias)))"

text \<open>\<^verbatim>\<open>str.isalpha\<close> on characters below 256; the micro sign and the two ordinals are letters.\<close>

definition py_isalpha :: "char \<Rightarrow> bool" where
  "py_isalpha c =
     (let n = (of_char c :: nat)
      in (65 \<le> n \<and> n \<le> 90) \<or> (97 \<le> n \<and> n \<le> 122) \<or> n = 170 \<or> n = 181 \<or> n = 186 \<or>
         (192 \<le> n \<and> n \<le> 214) \<or> (216 \<le> n \<and> n \<le> 246) \<or> (248 \<le> n \<and> n \<le> 255))"

definition mk_instrument_identity ::
  "'e io_env_scheme \<Rightarrow> string \<Rightarrow> string \<Rightarrow> string \<Rightarrow> string \<Rightarrow> string \<Rightarrow> string option \<Rightarrow> string list \<Rightarrow>
   (instrument_identity \<times> identity_alias) res" where
  "mk_instrument_identity e symbol instrument_type venue quote_currency provider_namespace provider_alias source_refs =
     rbind (required_text symbol ''symbol'' True) (\<lambda>normalized_symbol.
     rbind (required_text instrument_type ''instrument_type'' False) (\<lambda>normalized_type.
     rbind (required_text venue ''venue'' False) (\<lambda>normalized_venue.
     rbind (required_text quote_currency ''quote_currency'' True) (\<lambda>normalized_currency.
     if length normalized_currency \<noteq> 3 \<or> \<not> list_all py_isalpha normalized_currency
     then Inl (ValueError ''quote_currency must be an explicit three-letter code'')
     else let instrument_id = identity_id e ''instr''
                [normalized_symbol, normalized_type, normalized_venue, normalized_currency] in
       rbind (mk_identity_alias e ''instrument'' provider_namespace (or_else provider_alias symbol) instrument_id source_refs)
         (\<lambda>alias.
       Inr (\<lparr>sc_schema_version = STATE_CORE_SCHEMA_VERSION, sc_as_of_utc = clock e 0, sc_authority_level = ''read_only'',
             ii_instrument_id = instrument_id, ii_symbol = normalized_symbol, ii_instrument_type = normalized_type,
             ii_venue = normalized_venue, ii_quote_currency = normalized_currency,
             ii_identity_version = ''finharness.instrument_identity.v0'', ii_source_refs = sorted_refs source_refs\<rparr>,
            alias))))))"

definition unresolved_instrument_finding :: "string option \<Rightarrow> string list \<Rightarrow> identity_finding" where
  "unresolved_instrument_finding record_id missing_fields =
     (let missing = sort (remdups (filter (\<lambda>f. f \<noteq> []) missing_fields)) in
      \<lparr>df_code = ''instrument_identity_unresolved'', df_severity = ''blocking'',
       df_message = ''instrument identity is unresolved; missing: '' @ py_join '', '' missing,
       df_record_type = ''position'', df_record_id = record_id, df_field = ''instrument_id''\<rparr>)"

definition canonical_by_legacy :: "account_row list \<Rightarrow> string \<Rightarrow> string option" where
  "canonical_by_legacy accounts account_id =
     (case map_of (rev (map (\<lambda>a. (ac_account_id a, ac_canonical_account_id a)) accounts)) account_id of
        Some (Some c) \<Rightarrow> Some c | _ \<Rightarrow> None)"

type_synonym holding_key = "string \<times> string \<times> string"

definition holding_key_of :: "account_row list \<Rightarrow> position \<Rightarrow> holding_key option" where
  "holding_key_of accounts p =
     (case (canonical_by_legacy accounts (po_account_id p), po_instrument_id p) of
        (Some c, Some i) \<Rightarrow> Some (po_snapshot_id p, c, i) | _ \<Rightarrow> None)"

definition unresolved_holding :: "account_row list \<Rightarrow> position \<Rightarrow> identity_finding" where
  "unresolved_holding accounts p =
     unresolved_instrument_finding (Some (po_position_id p))
       [if canonical_by_legacy accounts (po_account_id p) = None then ''canonical_account_id'' else [],
        if po_instrument_id p = None then ''instrument_id'' else []]"

definition duplicate_finding :: "holding_key \<Rightarrow> position list \<Rightarrow> identity_finding list" where
  "duplicate_finding k rows =
     (let source_accounts = sort (remdups (map po_account_id rows)) in
      if length source_accounts < 2 then []
      else [\<lparr>df_code = ''cross_account_duplicate'', df_severity = ''blocking'',
             df_message = ''canonical account '' @ fst (snd k) @ '' and instrument '' @ snd (snd k) @
               '' appear through source accounts: '' @ py_join '', '' source_accounts,
             df_record_type = ''position'', df_record_id = Some (po_position_id (hd rows)), df_field = ''instrument_id''\<rparr>])"

text \<open>Groups are kept by key and visited in the order of their keys.\<close>

definition cross_account_duplicate_findings :: "account_row list \<Rightarrow> position list \<Rightarrow> identity_finding list" where
  "cross_account_duplicate_findings accounts positions =
     (let keys = sort (remdups (List.map_filter (holding_key_of accounts) positions)) in
      map (unresolved_holding accounts) (filter (\<lambda>p. holding_key_of accounts p = None) positions) @
      concat (map (\<lambda>k. duplicate_finding k (filter (\<lambda>p. holding_key_of accounts p = Some k) positions)) keys))"

section \<open>Sources\<close>

definition source_error :: "string \<Rightarrow> exn" where
  "source_error m = RuntimeError m"

definition canonical_path_alias :: "'e io_env_scheme \<Rightarrow> string \<Rightarrow> string" where
  "canonical_path_alias e path = realpath e path"

definition source_alias_id :: "'e io_env_scheme \<Rightarrow> string \<Rightarrow> string \<Rightarrow> string" where
  "source_alias_id e alias_kind alias_value =
     ''source_alias_'' @ take 24 (sha256 e (utf8 (alias_kind @ [CHR 0x00] @ alias_value)))"

definition alias_bound :: "import_db \<Rightarrow> string \<Rightarrow> string \<Rightarrow> capital_import_source_alias option" where
  "alias_bound db alias_kind alias_value =
     find (\<lambda>a. ca_alias_kind a = alias_kind \<and> ca_alias_value a = alias_value) (db_source_aliases db)"

definition registered_source ::
  "'e io_env_scheme \<Rightarrow> string \<Rightarrow> string \<Rightarrow> string \<Rightarrow> string \<Rightarrow> string option \<Rightarrow> capital_import_source" where
  "registered_source e source_id kind alias_kind alias_value display_name =
     \<lparr>sc_schema_version = STATE_CORE_SCHEMA_VERSION, sc_as_of_utc = clock e 0, sc_authority_level = ''read_only'',
      ci_source_id = source_id, ci_source_kind = kind, ci_display_name = py_strip (or_else display_name alias_value),
      ci_identity_version = ''finharness.capital_import_source.v1'', ci_source_refs = [alias_kind @ '':'' @ alias_value],
      ci_created_at_utc = clock e 0\<rparr>"

definition registered_alias :: "'e io_env_scheme \<Rightarrow> string \<Rightarrow> string \<Rightarrow> string \<Rightarrow> capital_import_source_alias" where
  "registered_alias e source_id alias_kind alias_value =
     \<lparr>sc_schema_version = STATE_CORE_SCHEMA_VERSION, sc_as_of_utc = clock e 0, sc_authority_level = ''read_only'',
      ca_alias_id = source_alias_id e alias_kind alias_value, ca_source_id = source_id, ca_alias_kind = alias_kind,
      ca_alias_value = alias_value, ca_created_at_utc = clock e 0\<rparr>"

text \<open>
  The session adds a source or an alias under a key that is taken only if the digest collides; the
  insert is then refused.  \<open>new_id\<close> is the text of \<^verbatim>\<open>uuid7()\<close>.
\<close>

definition bind_alias ::
  "'e io_env_scheme \<Rightarrow> capital_import_source_alias option \<Rightarrow> string \<Rightarrow> string \<Rightarrow> string \<Rightarrow> import_db \<Rightarrow> import_db res" where
  "bind_alias e existing source_id alias_kind alias_value db =
     (case existing of
        Some a \<Rightarrow>
          if ca_source_id a \<noteq> source_id then Inl (source_error ''source alias is already bound to another source'')
          else Inr db
      | None \<Rightarrow>
          let a = registered_alias e source_id alias_kind alias_value in
          if tbl_has ca_alias_id (db_source_aliases db) (ca_alias_id a) then Inl (DbError ''UNIQUE constraint failed'')
          else Inr (db\<lparr>db_source_aliases := db_source_aliases db @ [a]\<rparr>))"

definition register_source ::
  "'e io_env_scheme \<Rightarrow> string \<Rightarrow> string \<Rightarrow> string \<Rightarrow> string \<Rightarrow> string option \<Rightarrow>
   capital_import_source_alias option \<Rightarrow> import_db \<Rightarrow> (capital_import_source \<times> import_db) res" where
  "register_source e source_id kind alias_kind alias_value display_name existing db =
     (case tbl_get ci_source_id (db_sources db) source_id of
        Some s \<Rightarrow>
          if ci_source_kind s \<noteq> kind then Inl (source_error ''source_id belongs to another source kind'')
          else rbind (bind_alias e existing source_id alias_kind alias_value db) (\<lambda>db'. Inr (s, db'))
      | None \<Rightarrow>
          let s = registered_source e source_id kind alias_kind alias_value display_name in
          rbind (bind_alias e existing source_id alias_kind alias_value (db\<lparr>db_sources := db_sources db @ [s]\<rparr>))
            (\<lambda>db'. Inr (s, db')))"

definition resolve_or_register_import_source ::
  "'e io_env_scheme \<Rightarrow> string \<Rightarrow> string \<Rightarrow> string \<Rightarrow> string \<Rightarrow> string option \<Rightarrow> string option \<Rightarrow> import_db \<Rightarrow>
   capital_import_source res \<times> import_db" where
  "resolve_or_register_import_source e new_id source_kind alias_kind alias_value source_id display_name db =
     (let clean_kind = py_strip source_kind; clean_alias_kind = py_strip alias_kind;
          clean_alias_value = py_strip alias_value in
      if clean_kind = [] \<or> clean_alias_kind = [] \<or> clean_alias_value = []
      then (Inl (source_error ''source kind and alias must be non-empty''), db)
      else
        let existing = alias_bound db clean_alias_kind clean_alias_value in
        case (source_id, existing) of
          (None, Some a) \<Rightarrow>
            (case tbl_get ci_source_id (db_sources db) (ca_source_id a) of
               None \<Rightarrow> (Inl (source_error ''source alias points to a missing source''), db)
             | Some s \<Rightarrow>
                 if ci_source_kind s \<noteq> clean_kind
                 then (Inl (source_error ''source alias belongs to another source kind''), db)
                 else (Inr s, db))
        | _ \<Rightarrow>
            (case register_source e (or_else source_id (''source_'' @ new_id)) clean_kind clean_alias_kind
                    clean_alias_value display_name existing db of
               Inl x \<Rightarrow> (Inl x, db)
             | Inr (s, db') \<Rightarrow> if commit_fails e 1 then (Inl (DbError ''commit''), db) else (Inr s, db')))"

end
