(* ===== verification/Capital_Projection.thy ===== *)
theory Capital_Projection
  imports Import_Sources Agent_Context
begin

text \<open>
  The immutable projection of an import batch (\<^verbatim>\<open>capital_projection.py\<close>): every record with its
  columns, detached from the paths of one machine, in a canonical order.  \<open>ingest_env\<close> adds to the
  environment what the file adapter takes from outside: the rows that \<^verbatim>\<open>csv.DictReader\<close> gives for a
  file, the bytes of a file, \<^verbatim>\<open>Decimal(text)\<close> and \<^verbatim>\<open>str(Decimal)\<close>, the root of the project and \<^verbatim>\<open>uuid7()\<close>.
\<close>

type_synonym csv_row = "(string \<times> string option) list"

datatype csv_file = NoFile | Unreadable | Undecodable | CsvTable "string list" "csv_row list"

record ingest_env = import_env +
  csv_file_at :: "string \<Rightarrow> csv_file"
  file_bytes :: "string \<Rightarrow> string option"
  decimal_of :: "string \<Rightarrow> decimal_reading"
  decimal_text :: "decimal \<Rightarrow> string"
  project_root :: string
  uuid7 :: string

section \<open>Columns of the records\<close>

definition dec_json :: "'e ingest_env_scheme \<Rightarrow> decimal \<Rightarrow> pyval" where
  "dec_json e d = PStr (decimal_text e d)"

definition opt_dec_json :: "'e ingest_env_scheme \<Rightarrow> decimal option \<Rightarrow> pyval" where
  "opt_dec_json e x = (case x of None \<Rightarrow> PNone | Some d \<Rightarrow> dec_json e d)"

definition base_columns :: "'r state_core_row_scheme \<Rightarrow> jdict" where
  "base_columns r =
     [(''schema_version'', PStr (sc_schema_version r)), (''as_of_utc'', PStr (sc_as_of_utc r)),
      (''authority_level'', PStr (sc_authority_level r))]"

definition sourced_columns :: "'r sourced_row_scheme \<Rightarrow> jdict" where
  "sourced_columns r = base_columns r @ [(''source'', PStr (so_source r)), (''source_id'', PStr (so_source_id r))]"

primrec owned_columns :: "'e ingest_env_scheme \<Rightarrow> owned_row \<Rightarrow> jdict" where
  "owned_columns e (OLiability r) = sourced_columns r @
     [(''liability_id'', PStr (li_liability_id r)), (''name'', PStr (li_name r)),
      (''liability_type'', PStr (li_liability_type r)), (''balance'', dec_json e (li_balance r)),
      (''currency'', PStr (li_currency r)), (''account_id'', opt_json (li_account_id r)),
      (''interest_rate'', opt_dec_json e (li_interest_rate r)), (''due_date'', opt_json (li_due_date r)),
      (''source_refs'', texts_json (li_source_refs r))]"
| "owned_columns e (OGoal r) = sourced_columns r @
     [(''goal_id'', PStr (fg_goal_id r)), (''name'', PStr (fg_name r)),
      (''target_amount'', dec_json e (fg_target_amount r)), (''current_amount'', dec_json e (fg_current_amount r)),
      (''currency'', PStr (fg_currency r)), (''target_date'', opt_json (fg_target_date r)),
      (''status'', PStr (fg_status r)), (''source_refs'', texts_json (fg_source_refs r))]"
| "owned_columns e (OCashflow r) = sourced_columns r @
     [(''cashflow_id'', PStr (cf_cashflow_id r)), (''description'', PStr (cf_description r)),
      (''amount'', dec_json e (cf_amount r)), (''currency'', PStr (cf_currency r)),
      (''event_date'', PStr (cf_event_date r)), (''category'', PStr (cf_category r)),
      (''account_id'', opt_json (cf_account_id r)), (''frequency'', opt_json (cf_frequency r)),
      (''source_refs'', texts_json (cf_source_refs r))]"
| "owned_columns e (OTaxEvent r) = sourced_columns r @
     [(''tax_event_id'', PStr (tx_tax_event_id r)), (''event_type'', PStr (tx_event_type r)),
      (''jurisdiction'', PStr (tx_jurisdiction r)), (''due_date'', PStr (tx_due_date r)),
      (''estimated_amount'', opt_dec_json e (tx_estimated_amount r)), (''currency'', opt_json (tx_currency r)),
      (''status'', PStr (tx_status r)), (''source_refs'', texts_json (tx_source_refs r))]"
| "owned_columns e (OInsurance r) = sourced_columns r @
     [(''policy_id'', PStr (ip_policy_id r)), (''policy_type'', PStr (ip_policy_type r)),
      (''provider'', PStr (ip_provider r)), (''coverage_amount'', dec_json e (ip_coverage_amount r)),
      (''premium_amount'', opt_dec_json e (ip_premium_amount r)), (''currency'', PStr (ip_currency r)),
      (''renewal_date'', opt_json (ip_renewal_date r)), (''status'', PStr (ip_status r)),
      (''source_refs'', texts_json (ip_source_refs r))]"
| "owned_columns e (ODocument r) = sourced_columns r @
     [(''document_id'', PStr (dr_document_id r)), (''document_type'', PStr (dr_document_type r)),
      (''title'', PStr (dr_title r)), (''path'', PStr (dr_path r)),
      (''related_object_id'', opt_json (dr_related_object_id r)), (''source_refs'', texts_json (dr_source_refs r))]"

definition position_columns :: "'e ingest_env_scheme \<Rightarrow> position \<Rightarrow> jdict" where
  "position_columns e p =
     [(''schema_version'', PStr STATE_CORE_SCHEMA_VERSION), (''as_of_utc'', PStr (po_as_of_utc p)),
      (''authority_level'', PStr ''read_only''), (''position_id'', PStr (po_position_id p)),
      (''snapshot_id'', PStr (po_snapshot_id p)), (''account_id'', PStr (po_account_id p)),
      (''instrument_id'', opt_json (po_instrument_id p)), (''symbol'', PStr (po_symbol p)),
      (''quantity'', dec_json e (po_quantity p)), (''market_value'', opt_dec_json e (po_market_value p)),
      (''cost_basis'', opt_dec_json e (po_cost_basis p)), (''valuation_currency'', opt_json (po_valuation_currency p)),
      (''unit_price'', opt_dec_json e (po_unit_price p)), (''price_currency'', opt_json (po_price_currency p)),
      (''valued_at_utc'', opt_json (po_valued_at_utc p)), (''price_source_ref'', opt_json (po_price_source_ref p)),
      (''fx_rate'', opt_dec_json e (po_fx_rate p)), (''fx_as_of_utc'', opt_json (po_fx_as_of_utc p)),
      (''fx_source_ref'', opt_json (po_fx_source_ref p)), (''valuation_status'', PStr (po_valuation_status p)),
      (''source_refs'', texts_json (po_source_refs p))]"

text \<open>
  The records an adapter projects; batches, manifests, tombstones, receipts and sources never are.
\<close>

definition record_columns :: "'e ingest_env_scheme \<Rightarrow> import_record \<Rightarrow> jdict" where
  "record_columns e r =
     (case r of
        RSnapshot s \<Rightarrow> base_columns s @
          [(''snapshot_id'', PStr (sn_snapshot_id s)), (''kind'', PStr (sn_kind s)), (''payload'', PDict (sn_payload s)),
           (''source_refs'', texts_json (sn_source_refs s))]
      | RPosition p \<Rightarrow> position_columns e p
      | RAccount a \<Rightarrow> base_columns a @
          [(''account_id'', PStr (ac_account_id a)), (''canonical_account_id'', opt_json (ac_canonical_account_id a)),
           (''kind'', PStr (ac_kind a)), (''venue'', PStr (ac_venue a)), (''display_name'', PStr (ac_display_name a)),
           (''source_refs'', texts_json (ac_source_refs a)), (''created_at_utc'', PStr (ac_created_at_utc a))]
      | RAccountIdentity i \<Rightarrow> base_columns i @
          [(''canonical_account_id'', PStr (ai_canonical_account_id i)), (''source_namespace'', PStr (ai_source_namespace i)),
           (''source_native_id'', PStr (ai_source_native_id i)), (''identity_version'', PStr (ai_identity_version i)),
           (''source_refs'', texts_json (ai_source_refs i))]
      | RInstrumentIdentity i \<Rightarrow> base_columns i @
          [(''instrument_id'', PStr (ii_instrument_id i)), (''symbol'', PStr (ii_symbol i)),
           (''instrument_type'', PStr (ii_instrument_type i)), (''venue'', PStr (ii_venue i)),
           (''quote_currency'', PStr (ii_quote_currency i)), (''identity_version'', PStr (ii_identity_version i)),
           (''source_refs'', texts_json (ii_source_refs i))]
      | RAlias a \<Rightarrow> base_columns a @
          [(''alias_id'', PStr (al_alias_id a)), (''identity_kind'', PStr (al_identity_kind a)),
           (''provider_namespace'', PStr (al_provider_namespace a)), (''provider_alias'', PStr (al_provider_alias a)),
           (''canonical_id'', PStr (al_canonical_id a)), (''mapping_version'', PStr (al_mapping_version a)),
           (''source_refs'', texts_json (al_source_refs a))]
      | ROwned r \<Rightarrow> owned_columns e r
      | _ \<Rightarrow> [])"

section \<open>The projection\<close>

definition CAPITAL_PROJECTION_SCHEMA :: string where
  "CAPITAL_PROJECTION_SCHEMA = ''finharness.capital_import_projection''"

definition CAPITAL_PROJECTION_SCHEMA_VERSION :: string where
  "CAPITAL_PROJECTION_SCHEMA_VERSION = ''finharness.capital_import_projection.v1''"

definition record_payload :: "'e ingest_env_scheme \<Rightarrow> string \<Rightarrow> string \<Rightarrow> import_record \<Rightarrow> jdict" where
  "record_payload e stable_source_id observed_at_utc r =
     (let t = record_class r;
          p = dict_set (json_object e (record_columns e r)) ''source_refs'' (texts_json [stable_source_id]);
          p = (if t = ''Account'' then dict_set p ''created_at_utc'' (PStr observed_at_utc) else p);
          p = (if t \<in> {''AccountIdentity'', ''InstrumentIdentity'', ''IdentityAlias''}
               then dict_set p ''as_of_utc'' (PStr observed_at_utc) else p);
          p = (if t = ''Snapshot''
               then (case dict_get p ''payload'' of
                       PDict inner \<Rightarrow> dict_set p ''payload'' (PDict (dict_set inner ''source_ref'' (PStr stable_source_id)))
                     | _ \<Rightarrow> p)
               else p) in
      [(''record_type'', PStr t), (''payload'', PDict p)])"

definition projection_key :: "'e env_scheme \<Rightarrow> jdict \<Rightarrow> string \<times> string" where
  "projection_key e item =
     ((case dict_get item ''record_type'' of PStr t \<Rightarrow> t | _ \<Rightarrow> []),
      (case dict_get item ''payload'' of PDict p \<Rightarrow> json_dumps e p | _ \<Rightarrow> []))"

definition build_capital_projection ::
  "'e ingest_env_scheme \<Rightarrow> string \<Rightarrow> string \<Rightarrow> string \<Rightarrow> string \<Rightarrow> string list \<Rightarrow> jdict \<Rightarrow> import_record list \<Rightarrow> jdict" where
  "build_capital_projection e batch_id stable_source_id source_kind coverage_mode covered_domains time_semantics records =
     (let observed = dict_get time_semantics ''observed_at_utc'';
          observed_at_utc = (if pyval_truthy observed then py_str e observed else []);
          projected = map (record_payload e stable_source_id observed_at_utc) records in
      [(''schema'', PStr CAPITAL_PROJECTION_SCHEMA_VERSION), (''batch_id'', PStr batch_id),
       (''stable_source_id'', PStr stable_source_id), (''source_kind'', PStr source_kind),
       (''coverage_mode'', PStr coverage_mode), (''covered_domains'', texts_json (sort (remdups covered_domains))),
       (''time_semantics'', json_norm e (PDict time_semantics)),
       (''records'', PList (map PDict (sort_key (projection_key e) projected)))])"

primrec json_compact :: "pyval \<Rightarrow> string" where
  "json_compact PNone = ''null''"
| "json_compact (PBool b) = (if b then ''true'' else ''false'')"
| "json_compact (PInt n) = int_str n"
| "json_compact (PFloat s) = s"
| "json_compact (PStr s) = json_raw_str s"
| "json_compact (PMoney m) = []"
| "json_compact (PList xs) = CHR ''['' # py_join '','' (map json_compact xs) @ '']''"
| "json_compact (PDict d) =
     CHR 0x7B # py_join '','' (map (\<lambda>(k, t). json_raw_str k @ '':'' @ t) (map (map_prod id json_compact) d)) @
     [CHR 0x7D]"

definition canonical_projection_bytes :: "'e env_scheme \<Rightarrow> jdict \<Rightarrow> string" where
  "canonical_projection_bytes e payload = utf8 (json_compact (json_norm e (PDict payload)) @ [CHR 0x0A])"

definition projection_sha256 :: "'e io_env_scheme \<Rightarrow> jdict \<Rightarrow> string" where
  "projection_sha256 e projection = sha256 e (canonical_projection_bytes e projection)"

definition text_field :: "jdict \<Rightarrow> string \<Rightarrow> string" where
  "text_field d k = (case dict_get d k of PStr s \<Rightarrow> s | _ \<Rightarrow> [])"

definition persist_capital_projection ::
  "(nat \<Rightarrow> 'e io_env_scheme) \<Rightarrow> string \<Rightarrow> jdict \<Rightarrow> string \<Rightarrow> string \<Rightarrow> artifact_fs \<Rightarrow> artifact_descriptor res \<times> artifact_fs" where
  "persist_capital_projection es root projection source_artifact_id created_at_utc fs =
     put_artifact es root
       \<lparr>pa_artifact_id = ''capital_projection_'' @ take 24 (projection_sha256 (es 0) projection),
        pa_content = canonical_projection_bytes (es 0) projection, pa_artifact_schema = CAPITAL_PROJECTION_SCHEMA,
        pa_artifact_schema_version = CAPITAL_PROJECTION_SCHEMA_VERSION, pa_media_type = ''application/json'',
        pa_owner_domain = ''capital_imports'', pa_source_refs = [source_artifact_id],
        pa_metadata = [(''batch_id'', PStr (text_field projection ''batch_id'')),
          (''stable_source_id'', PStr (text_field projection ''stable_source_id''))],
        pa_created_at_utc = Some created_at_utc\<rparr> fs"

end
