(* ===== verification/Personal_Finance.thy ===== *)
theory Personal_Finance
  imports Capital_Projection
begin

text \<open>
  The adapter of personal-finance exports (\<^verbatim>\<open>personal_finance.py\<close>): rows of a file become typed records,
  a delta carries the earlier positions over, the positions are assessed, and the batch is prepared
  and materialised.  A row is a dictionary from columns to cells; a cell of a short row is missing.
  An error of the adapter is its message; the findings that it also carries for the caller are left out.
\<close>

section \<open>Columns\<close>

definition ADAPTER_VERSION :: string where
  "ADAPTER_VERSION = ''finharness.personal_finance_export.v4''"

definition EXPORT_KIND :: string where
  "EXPORT_KIND = ''personal_finance_export''"

definition POSITION_COLUMNS :: "string list" where
  "POSITION_COLUMNS = [''account_id'', ''account_name'', ''account_kind'', ''venue'', ''symbol'', ''quantity'', ''currency'',
     ''as_of_utc'']"

definition ROW_TYPE_COLUMN :: string where
  "ROW_TYPE_COLUMN = ''record_type''"

definition DEFAULT_ROW_TYPE :: string where
  "DEFAULT_ROW_TYPE = ''position''"

definition RECORD_TYPE_COLUMNS :: "(string \<times> string list) list" where
  "RECORD_TYPE_COLUMNS =
     [(''position'', POSITION_COLUMNS),
      (''liability'', [''liability_id'', ''name'', ''liability_type'', ''balance'', ''currency'', ''as_of_utc'']),
      (''goal'', [''goal_id'', ''name'', ''target_amount'', ''current_amount'', ''currency'', ''as_of_utc'']),
      (''cashflow'', [''cashflow_id'', ''description'', ''amount'', ''currency'', ''event_date'', ''category'', ''as_of_utc'']),
      (''tax_event'', [''tax_event_id'', ''event_type'', ''jurisdiction'', ''due_date'', ''as_of_utc'']),
      (''insurance'', [''policy_id'', ''policy_type'', ''provider'', ''coverage_amount'', ''currency'', ''as_of_utc'']),
      (''document'', [''document_id'', ''document_type'', ''title'', ''path'', ''as_of_utc''])]"

definition DELETION_RECORD_DOMAINS :: "(string \<times> string) list" where
  "DELETION_RECORD_DOMAINS =
     [(''Position'', ''position''), (''Liability'', ''liability''), (''FinancialGoal'', ''goal''),
      (''CashflowEvent'', ''cashflow''), (''TaxEvent'', ''tax_event''), (''InsurancePolicy'', ''insurance''),
      (''DocumentRef'', ''document'')]"

definition NON_CLAIMS :: "string list" where
  "NON_CLAIMS = [''Read-only personal finance export ingestion.'', ''Not tax, accounting, or investment advice.'',
     ''Not execution authorization.'']"

definition export_error :: "string \<Rightarrow> 'a res" where
  "export_error m = Inl (RuntimeError m)"

definition shown_path :: "'e ingest_env_scheme \<Rightarrow> string \<Rightarrow> string" where
  "shown_path e path =
     (case relative_to (realpath e path) (project_root e) of Inr r \<Rightarrow> r | Inl _ \<Rightarrow> realpath e path)"

definition import_contract_fragment ::
  "'e io_env_scheme \<Rightarrow> string \<Rightarrow> string \<Rightarrow> string \<Rightarrow> string option \<Rightarrow> string option \<Rightarrow> string" where
  "import_contract_fragment e source_id source_hash coverage_mode supersedes_batch_id correction_reason =
     take 12 (sha256 e (utf8 (py_join [CHR 0x00]
       [source_id, source_hash, coverage_mode, or_else supersedes_batch_id [], or_else correction_reason []])))"

section \<open>Cells\<close>

definition cell :: "csv_row \<Rightarrow> string \<Rightarrow> string" where
  "cell row column = (case map_of row column of Some (Some s) \<Rightarrow> s | _ \<Rightarrow> [])"

definition row_type :: "csv_row \<Rightarrow> string" where
  "row_type row =
     (let t = py_lower (py_strip (if cell row ROW_TYPE_COLUMN = [] then DEFAULT_ROW_TYPE else cell row ROW_TYPE_COLUMN)) in
      if t = [] then DEFAULT_ROW_TYPE else t)"

definition at_row :: "nat \<Rightarrow> string" where
  "at_row n = ''personal-finance export row '' @ nat_str n"

definition check_row_columns :: "'e env_scheme \<Rightarrow> string list \<Rightarrow> nat \<times> csv_row \<Rightarrow> unit res" where
  "check_row_columns e fieldnames numbered =
     (let (n, row) = numbered in
      case map_of RECORD_TYPE_COLUMNS (row_type row) of
        None \<Rightarrow> export_error (at_row n @ '' has unsupported record_type '' @ py_repr e (PStr (row_type row)) @
          ''; expected one of: '' @ py_join '', '' (sort (map fst RECORD_TYPE_COLUMNS)))
      | Some required \<Rightarrow>
          let missing = sort (filter (\<lambda>c. c \<notin> set fieldnames) required) in
          if missing \<noteq> [] then export_error (at_row n @ '' missing columns for '' @ row_type row @ '': '' @ py_join '', '' missing)
          else Inr ())"

definition validate_columns :: "'e env_scheme \<Rightarrow> string list \<Rightarrow> csv_row list \<Rightarrow> unit res" where
  "validate_columns e fieldnames rows =
     (if ROW_TYPE_COLUMN \<notin> set fieldnames
      then let missing = sort (filter (\<lambda>c. c \<notin> set fieldnames) POSITION_COLUMNS) in
        if missing \<noteq> [] then export_error (''personal-finance export missing columns: '' @ py_join '', '' missing) else Inr ()
      else if ''as_of_utc'' \<notin> set fieldnames then export_error ''personal-finance export missing columns: as_of_utc''
      else rbind (map_res (check_row_columns e fieldnames) (enumerate 1 rows)) (\<lambda>_. Inr ()))"

definition read_rows :: "'e ingest_env_scheme \<Rightarrow> string \<Rightarrow> csv_row list res" where
  "read_rows e path =
     (case csv_file_at e path of
        NoFile \<Rightarrow> export_error (''personal-finance export missing: '' @ path)
      | Unreadable \<Rightarrow> export_error ''personal-finance export unreadable: ''
      | Undecodable \<Rightarrow> Inl (ValueError ''codec'')
      | CsvTable fieldnames rows \<Rightarrow> rbind (validate_columns e fieldnames rows) (\<lambda>_. Inr rows))"

definition required_cell :: "csv_row \<Rightarrow> string \<Rightarrow> nat \<Rightarrow> string res" where
  "required_cell row column n =
     (let v = py_strip (cell row column) in if v = [] then export_error (at_row n @ '' has empty '' @ column) else Inr v)"

definition parse_decimal :: "'e ingest_env_scheme \<Rightarrow> string \<Rightarrow> string \<Rightarrow> nat \<Rightarrow> decimal res" where
  "parse_decimal e raw column n =
     (case exact_decimal e (decimal_of e) (ScalarOther (PStr raw)) column None (Some (int n)) of
        Inl _ \<Rightarrow> export_error (at_row n @ '' has invalid '' @ column @ '': '' @ raw)
      | Inr d \<Rightarrow> Inr d)"

definition decimal_cell :: "'e ingest_env_scheme \<Rightarrow> csv_row \<Rightarrow> string \<Rightarrow> nat \<Rightarrow> decimal res" where
  "decimal_cell e row column n = rbind (required_cell row column n) (\<lambda>raw. parse_decimal e raw column n)"

definition optional_decimal :: "'e ingest_env_scheme \<Rightarrow> csv_row \<Rightarrow> string \<Rightarrow> nat \<Rightarrow> decimal option res" where
  "optional_decimal e row column n =
     (let raw = py_strip (cell row column) in
      if raw = [] then Inr None else rbind (parse_decimal e raw column n) (\<lambda>d. Inr (Some d)))"

definition optional_cell :: "csv_row \<Rightarrow> string \<Rightarrow> string option" where
  "optional_cell row column = truthy (Some (py_strip (cell row column)))"

definition currency_cell :: "csv_row \<Rightarrow> nat \<Rightarrow> string res" where
  "currency_cell row n =
     (case currency_code (Some (cell row ''currency'')) ''currency'' (Some (row_type row)) (Some (int n)) of
        Inl f \<Rightarrow> export_error (if_message f) | Inr c \<Rightarrow> Inr c)"

definition optional_currency :: "csv_row \<Rightarrow> string \<Rightarrow> nat \<Rightarrow> string option res" where
  "optional_currency row column n =
     (case optional_cell row column of
        None \<Rightarrow> Inr None
      | Some v \<Rightarrow>
          (case currency_code (Some v) column (Some (row_type row)) (Some (int n)) of
             Inl f \<Rightarrow> export_error (if_message f) | Inr c \<Rightarrow> Inr (Some c)))"

section \<open>Clocks\<close>

definition single_as_of :: "csv_row list \<Rightarrow> string res" where
  "single_as_of rows =
     rbind (map_res (\<lambda>(n, row). required_cell row ''as_of_utc'' n) (enumerate 1 rows)) (\<lambda>values.
     case remdups values of
       [v] \<Rightarrow> Inr v
     | _ \<Rightarrow> export_error ''personal-finance export must contain exactly one as_of_utc value'')"

definition single_clock :: "csv_row list \<Rightarrow> string \<Rightarrow> string \<Rightarrow> string res" where
  "single_clock rows column fallback =
     (case remdups (filter (\<lambda>v. v \<noteq> []) (map (\<lambda>row. py_strip (cell row column)) rows)) of
        [] \<Rightarrow> Inr fallback
      | [v] \<Rightarrow> Inr v
      | _ \<Rightarrow> export_error (''personal-finance export must contain exactly one '' @ column @ '' value''))"

definition clock_missing :: "csv_row list \<Rightarrow> string \<Rightarrow> bool" where
  "clock_missing rows column = list_all (\<lambda>row. py_strip (cell row column) = []) rows"

definition legacy_clock_finding :: import_finding where
  "legacy_clock_finding =
     \<lparr>if_code = ''legacy_as_of_projection'', if_severity = ''partial'',
      if_message = ''one or more explicit capital clocks were projected from legacy as_of_utc'', if_record_type = None,
      if_record_number = None, if_field = None, if_record_id = None\<rparr>"

definition time_dict :: "import_time_semantics \<Rightarrow> jdict" where
  "time_dict ts =
     [(''effective_at_utc'', PStr (ts_effective_at_utc ts)), (''observed_at_utc'', PStr (ts_observed_at_utc ts)),
      (''valued_at_utc'', opt_json (ts_valued_at_utc ts)), (''ingested_at_utc'', PStr (ts_ingested_at_utc ts)),
      (''recorded_at_utc'', PStr (ts_recorded_at_utc ts))]"

definition time_contract ::
  "'e env_scheme \<Rightarrow> csv_row list \<Rightarrow> string \<Rightarrow> (import_time_semantics \<times> import_finding list) res" where
  "time_contract e rows ingested_at_utc =
     rbind (single_as_of rows) (\<lambda>as_of.
     let findings = (if list_ex (clock_missing rows) [''effective_at_utc'', ''observed_at_utc'', ''valued_at_utc'']
                     then [legacy_clock_finding] else []) in
     rbind (single_clock rows ''effective_at_utc'' as_of) (\<lambda>effective_at.
     rbind (single_clock rows ''observed_at_utc'' as_of) (\<lambda>observed_at.
     rbind (single_clock rows ''valued_at_utc'' as_of) (\<lambda>valued_at.
     case build_time_semantics e effective_at observed_at (Some valued_at) ingested_at_utc None of
       Inl f \<Rightarrow> export_error (if_message f)
     | Inr (semantics, time_findings) \<Rightarrow> Inr (semantics, findings @ time_findings)))))"

section \<open>Payloads\<close>

definition record_counts :: "csv_row list \<Rightarrow> jdict" where
  "record_counts rows =
     List.map_filter (\<lambda>(k, _). let n = length (filter (\<lambda>row. row_type row = k) rows) in
       if n = 0 then None else Some (k, PInt (int n))) RECORD_TYPE_COLUMNS"

definition export_receipt ::
  "'e ingest_env_scheme \<Rightarrow> string \<Rightarrow> string \<Rightarrow> string \<Rightarrow> string \<Rightarrow> nat \<Rightarrow> string \<Rightarrow> jdict \<Rightarrow> jdict" where
  "export_receipt e receipt_id source_path source_hash as_of_utc row_count snapshot_id counts =
     [(''receipt_id'', PStr receipt_id), (''kind'', PStr EXPORT_KIND), (''adapter_version'', PStr ADAPTER_VERSION),
      (''created_at_utc'', PStr as_of_utc), (''source_ref'', PStr (shown_path e source_path)),
      (''source_sha256'', PStr source_hash), (''row_count'', PInt (int row_count)), (''record_counts'', PDict counts),
      (''snapshot_id'', PStr snapshot_id), (''non_claims'', texts_json NON_CLAIMS), (''execution_allowed'', PBool False)]"

definition position_currencies :: "csv_row list \<Rightarrow> string list res" where
  "position_currencies rows =
     rbind (map_res (\<lambda>(n, row). currency_cell row n) (filter (\<lambda>(n, row). row_type row = ''position'') (enumerate 1 rows)))
       (\<lambda>cs. Inr (sort (remdups cs)))"

definition payload_for_snapshot ::
  "'e ingest_env_scheme \<Rightarrow> csv_row list \<Rightarrow> string \<Rightarrow> jdict \<Rightarrow> import_finding list \<Rightarrow> string \<Rightarrow> jdict res" where
  "payload_for_snapshot e rows source_path time_semantics findings coverage_mode =
     rbind (position_currencies rows) (\<lambda>currencies.
     Inr [(''source'', PStr EXPORT_KIND), (''source_ref'', PStr (shown_path e source_path)),
          (''adapter_version'', PStr ADAPTER_VERSION), (''row_count'', PInt (int (length rows))),
          (''record_counts'', PDict (record_counts rows)),
          (''supported_record_types'', texts_json (sort (map fst RECORD_TYPE_COLUMNS))),
          (''position_currencies'', texts_json currencies), (''coverage_mode'', PStr coverage_mode),
          (''completeness_status'', PStr (completeness_status findings)), (''time_semantics'', PDict time_semantics),
          (''findings'', PList (map (PDict \<circ> finding_dict) findings)), (''non_claims'', texts_json NON_CLAIMS)])"

section \<open>Records from rows\<close>

record ingest_context =
  cx_snapshot_id :: string
  cx_as_of_utc :: string
  cx_source_refs :: "string list"
  cx_accounts :: "account_row list"
  cx_account_identities :: "account_identity list"
  cx_instrument_identities :: "instrument_identity list"
  cx_aliases :: "identity_alias list"
  cx_source_namespace :: string

text \<open>\<^verbatim>\<open>dict.setdefault\<close> on a dictionary of rows by their key, in the order of insertion.\<close>

definition set_default :: "('r \<Rightarrow> 'k) \<Rightarrow> 'r \<Rightarrow> 'r list \<Rightarrow> 'r list" where
  "set_default key r rows = (if tbl_has key rows (key r) then rows else rows @ [r])"

definition resolve_instrument ::
  "'e ingest_env_scheme \<Rightarrow> csv_row \<Rightarrow> string \<Rightarrow> string \<Rightarrow> string \<Rightarrow> string list \<Rightarrow>
   (instrument_identity \<times> identity_alias) option res" where
  "resolve_instrument e row symbol quote_currency namespace source_refs =
     (case (optional_cell row ''instrument_type'', optional_cell row ''instrument_venue'') of
        (Some t, Some v) \<Rightarrow>
          rbind (mk_instrument_identity e symbol t v quote_currency namespace None source_refs) (\<lambda>r. Inr (Some r))
      | _ \<Rightarrow> Inr None)"

definition export_account ::
  "'e ingest_env_scheme \<Rightarrow> ingest_context \<Rightarrow> string \<Rightarrow> csv_row \<Rightarrow> nat \<Rightarrow> account_row res" where
  "export_account e ctx account_id row n =
     rbind (required_cell row ''account_kind'' n) (\<lambda>kind.
     rbind (required_cell row ''venue'' n) (\<lambda>venue.
     rbind (required_cell row ''account_name'' n) (\<lambda>name.
     Inr \<lparr>sc_schema_version = STATE_CORE_SCHEMA_VERSION, sc_as_of_utc = cx_as_of_utc ctx, sc_authority_level = ''read_only'',
          ac_account_id = account_id, ac_canonical_account_id = Some account_id, ac_kind = kind, ac_venue = venue,
          ac_display_name = name, ac_source_refs = cx_source_refs ctx, ac_created_at_utc = clock e 0\<rparr>)))"

definition priced_evidence :: "'e ingest_env_scheme \<Rightarrow> csv_row \<Rightarrow> nat \<Rightarrow> valuation_evidence res" where
  "priced_evidence e row n =
     rbind (optional_decimal e row ''market_value'' n) (\<lambda>market_value.
     rbind (optional_decimal e row ''unit_price'' n) (\<lambda>unit_price.
     rbind (optional_currency row ''valuation_currency'' n) (\<lambda>valuation_currency.
     rbind (optional_currency row ''price_currency'' n) (\<lambda>price_currency.
     rbind (optional_decimal e row ''fx_rate'' n) (\<lambda>fx_rate.
     rbind (decimal_cell e row ''quantity'' n) (\<lambda>quantity.
     Inr \<lparr>ve_quantity = quantity, ve_market_value = market_value, ve_valuation_currency = valuation_currency,
          ve_unit_price = unit_price, ve_price_currency = price_currency,
          ve_valued_at_utc = optional_cell row ''valued_at_utc'', ve_price_source_ref = optional_cell row ''price_source_ref'',
          ve_fx_rate = fx_rate, ve_fx_as_of_utc = optional_cell row ''fx_as_of_utc'',
          ve_fx_source_ref = optional_cell row ''fx_source_ref''\<rparr>))))))"

definition position_of ::
  "ingest_context \<Rightarrow> string \<Rightarrow> string \<Rightarrow> string option \<Rightarrow> string \<Rightarrow> valuation_evidence \<Rightarrow> decimal option \<Rightarrow> string \<Rightarrow> position" where
  "position_of ctx position_id account_id instrument_id symbol ev cost_basis status =
     \<lparr>po_position_id = position_id, po_snapshot_id = cx_snapshot_id ctx, po_account_id = account_id,
      po_instrument_id = instrument_id, po_symbol = symbol, po_quantity = ve_quantity ev,
      po_market_value = ve_market_value ev, po_cost_basis = cost_basis, po_valuation_currency = ve_valuation_currency ev,
      po_unit_price = ve_unit_price ev, po_price_currency = ve_price_currency ev, po_valued_at_utc = ve_valued_at_utc ev,
      po_price_source_ref = ve_price_source_ref ev, po_fx_rate = ve_fx_rate ev, po_fx_as_of_utc = ve_fx_as_of_utc ev,
      po_fx_source_ref = ve_fx_source_ref ev, po_valuation_status = status, po_source_refs = cx_source_refs ctx,
      po_as_of_utc = cx_as_of_utc ctx\<rparr>"

definition build_position ::
  "'e ingest_env_scheme \<Rightarrow> csv_row \<Rightarrow> nat \<Rightarrow> ingest_context \<Rightarrow> (position \<times> ingest_context) res" where
  "build_position e row n ctx =
     rbind (required_cell row ''account_id'' n) (\<lambda>source_native_id.
     let namespace = or_else (optional_cell row ''source_namespace'') (cx_source_namespace ctx) in
     rbind (mk_account_identity e namespace source_native_id (cx_source_refs ctx) None) (\<lambda>(identity, account_alias).
     let account_id = ai_canonical_account_id identity in
     rbind (required_cell row ''symbol'' n) (\<lambda>raw_symbol.
     let symbol = py_upper raw_symbol in
     rbind (currency_cell row n) (\<lambda>quote_currency.
     rbind (resolve_instrument e row symbol quote_currency namespace (cx_source_refs ctx)) (\<lambda>instrument.
     rbind (export_account e ctx account_id row n) (\<lambda>account.
     rbind (priced_evidence e row n) (\<lambda>ev.
     let position_id = safe_fragment (''pos_'' @ cx_snapshot_id ctx @ ''_'' @ nat_str n @ ''_'' @ account_id @ ''_'' @ symbol);
         instruments = (case instrument of None \<Rightarrow> cx_instrument_identities ctx
           | Some (i, _) \<Rightarrow> set_default ii_instrument_id i (cx_instrument_identities ctx));
         aliases = (case instrument of None \<Rightarrow> cx_aliases ctx | Some (_, a) \<Rightarrow> set_default al_alias_id a (cx_aliases ctx)) in
     rbind (assess_position_valuation e ev (Some position_id) (Some (int n)) (cx_as_of_utc ctx) BASE_VALUATION_POLICY_V1
              False False) (\<lambda>provisional.
     rbind (optional_decimal e row ''cost_basis'' n) (\<lambda>cost_basis.
     Inr (position_of ctx position_id account_id (map_option (ii_instrument_id \<circ> fst) instrument) symbol ev cost_basis
            (status_value (va_status provisional)),
          ctx\<lparr>cx_instrument_identities := instruments,
              cx_account_identities := set_default ai_canonical_account_id identity (cx_account_identities ctx),
              cx_aliases := set_default al_alias_id account_alias aliases,
              cx_accounts := set_default ac_account_id account (cx_accounts ctx)\<rparr>))))))))))"

definition build_liability :: "'e ingest_env_scheme \<Rightarrow> csv_row \<Rightarrow> nat \<Rightarrow> ingest_context \<Rightarrow> liability res" where
  "build_liability e row n ctx =
     rbind (required_cell row ''liability_id'' n) (\<lambda>i.
     rbind (required_cell row ''name'' n) (\<lambda>name.
     rbind (required_cell row ''liability_type'' n) (\<lambda>t.
     rbind (decimal_cell e row ''balance'' n) (\<lambda>balance.
     rbind (currency_cell row n) (\<lambda>c.
     rbind (optional_decimal e row ''interest_rate'' n) (\<lambda>rate.
     Inr \<lparr>sc_schema_version = STATE_CORE_SCHEMA_VERSION, sc_as_of_utc = cx_as_of_utc ctx, sc_authority_level = ''read_only'',
          so_source = [], so_source_id = [], li_liability_id = i, li_name = name, li_liability_type = t,
          li_balance = balance, li_currency = c, li_account_id = optional_cell row ''account_id'',
          li_interest_rate = rate, li_due_date = optional_cell row ''due_date'', li_source_refs = cx_source_refs ctx\<rparr>))))))"

definition build_goal :: "'e ingest_env_scheme \<Rightarrow> csv_row \<Rightarrow> nat \<Rightarrow> ingest_context \<Rightarrow> financial_goal res" where
  "build_goal e row n ctx =
     rbind (required_cell row ''goal_id'' n) (\<lambda>i.
     rbind (required_cell row ''name'' n) (\<lambda>name.
     rbind (decimal_cell e row ''target_amount'' n) (\<lambda>target.
     rbind (decimal_cell e row ''current_amount'' n) (\<lambda>current.
     rbind (currency_cell row n) (\<lambda>c.
     Inr \<lparr>sc_schema_version = STATE_CORE_SCHEMA_VERSION, sc_as_of_utc = cx_as_of_utc ctx, sc_authority_level = ''read_only'',
          so_source = [], so_source_id = [], fg_goal_id = i, fg_name = name, fg_target_amount = target,
          fg_current_amount = current, fg_currency = c, fg_target_date = optional_cell row ''target_date'',
          fg_status = or_else (optional_cell row ''status'') ''active'', fg_source_refs = cx_source_refs ctx\<rparr>)))))"

definition build_cashflow :: "'e ingest_env_scheme \<Rightarrow> csv_row \<Rightarrow> nat \<Rightarrow> ingest_context \<Rightarrow> cashflow_event res" where
  "build_cashflow e row n ctx =
     rbind (required_cell row ''cashflow_id'' n) (\<lambda>i.
     rbind (required_cell row ''description'' n) (\<lambda>description.
     rbind (decimal_cell e row ''amount'' n) (\<lambda>amount.
     rbind (currency_cell row n) (\<lambda>c.
     rbind (required_cell row ''event_date'' n) (\<lambda>event_date.
     rbind (required_cell row ''category'' n) (\<lambda>category.
     Inr \<lparr>sc_schema_version = STATE_CORE_SCHEMA_VERSION, sc_as_of_utc = cx_as_of_utc ctx, sc_authority_level = ''read_only'',
          so_source = [], so_source_id = [], cf_cashflow_id = i, cf_description = description, cf_amount = amount,
          cf_currency = c, cf_event_date = event_date, cf_category = category,
          cf_account_id = optional_cell row ''account_id'', cf_frequency = optional_cell row ''frequency'',
          cf_source_refs = cx_source_refs ctx\<rparr>))))))"

definition build_tax_event :: "'e ingest_env_scheme \<Rightarrow> csv_row \<Rightarrow> nat \<Rightarrow> ingest_context \<Rightarrow> tax_event res" where
  "build_tax_event e row n ctx =
     rbind (required_cell row ''tax_event_id'' n) (\<lambda>i.
     rbind (required_cell row ''event_type'' n) (\<lambda>t.
     rbind (required_cell row ''jurisdiction'' n) (\<lambda>jurisdiction.
     rbind (required_cell row ''due_date'' n) (\<lambda>due_date.
     rbind (optional_decimal e row ''estimated_amount'' n) (\<lambda>amount.
     rbind (if optional_cell row ''estimated_amount'' \<noteq> None \<or> optional_cell row ''currency'' \<noteq> None
            then rbind (currency_cell row n) (\<lambda>c. Inr (Some c)) else Inr None) (\<lambda>c.
     Inr \<lparr>sc_schema_version = STATE_CORE_SCHEMA_VERSION, sc_as_of_utc = cx_as_of_utc ctx, sc_authority_level = ''read_only'',
          so_source = [], so_source_id = [], tx_tax_event_id = i, tx_event_type = t, tx_jurisdiction = jurisdiction,
          tx_due_date = due_date, tx_estimated_amount = amount, tx_currency = c,
          tx_status = or_else (optional_cell row ''status'') ''planned'', tx_source_refs = cx_source_refs ctx\<rparr>))))))"

definition build_insurance :: "'e ingest_env_scheme \<Rightarrow> csv_row \<Rightarrow> nat \<Rightarrow> ingest_context \<Rightarrow> insurance_policy res" where
  "build_insurance e row n ctx =
     rbind (required_cell row ''policy_id'' n) (\<lambda>i.
     rbind (required_cell row ''policy_type'' n) (\<lambda>t.
     rbind (required_cell row ''provider'' n) (\<lambda>provider.
     rbind (decimal_cell e row ''coverage_amount'' n) (\<lambda>coverage.
     rbind (optional_decimal e row ''premium_amount'' n) (\<lambda>premium.
     rbind (currency_cell row n) (\<lambda>c.
     Inr \<lparr>sc_schema_version = STATE_CORE_SCHEMA_VERSION, sc_as_of_utc = cx_as_of_utc ctx, sc_authority_level = ''read_only'',
          so_source = [], so_source_id = [], ip_policy_id = i, ip_policy_type = t, ip_provider = provider,
          ip_coverage_amount = coverage, ip_premium_amount = premium, ip_currency = c,
          ip_renewal_date = optional_cell row ''renewal_date'', ip_status = or_else (optional_cell row ''status'') ''active'',
          ip_source_refs = cx_source_refs ctx\<rparr>))))))"

definition build_document :: "csv_row \<Rightarrow> nat \<Rightarrow> ingest_context \<Rightarrow> document_ref res" where
  "build_document row n ctx =
     rbind (required_cell row ''document_id'' n) (\<lambda>i.
     rbind (required_cell row ''document_type'' n) (\<lambda>t.
     rbind (required_cell row ''title'' n) (\<lambda>title.
     rbind (required_cell row ''path'' n) (\<lambda>path.
     Inr \<lparr>sc_schema_version = STATE_CORE_SCHEMA_VERSION, sc_as_of_utc = cx_as_of_utc ctx, sc_authority_level = ''read_only'',
          so_source = [], so_source_id = [], dr_document_id = i, dr_document_type = t, dr_title = title, dr_path = path,
          dr_related_object_id = optional_cell row ''related_object_id'', dr_source_refs = cx_source_refs ctx\<rparr>))))"

primrec tag_source :: "string \<Rightarrow> owned_row \<Rightarrow> owned_row" where
  "tag_source i (OLiability r) = OLiability (r\<lparr>so_source := EXPORT_KIND, so_source_id := i\<rparr>)"
| "tag_source i (OGoal r) = OGoal (r\<lparr>so_source := EXPORT_KIND, so_source_id := i\<rparr>)"
| "tag_source i (OCashflow r) = OCashflow (r\<lparr>so_source := EXPORT_KIND, so_source_id := i\<rparr>)"
| "tag_source i (OTaxEvent r) = OTaxEvent (r\<lparr>so_source := EXPORT_KIND, so_source_id := i\<rparr>)"
| "tag_source i (OInsurance r) = OInsurance (r\<lparr>so_source := EXPORT_KIND, so_source_id := i\<rparr>)"
| "tag_source i (ODocument r) = ODocument (r\<lparr>so_source := EXPORT_KIND, so_source_id := i\<rparr>)"

text \<open>The builder of a row by its type; a type without a builder is a missing key.\<close>

definition own_record :: "ingest_context \<Rightarrow> ('r \<Rightarrow> owned_row) \<Rightarrow> 'r res \<Rightarrow> (import_record \<times> ingest_context) res" where
  "own_record ctx c r = rbind r (\<lambda>x. Inr (ROwned (c x), ctx))"

definition build_row ::
  "'e ingest_env_scheme \<Rightarrow> csv_row \<Rightarrow> nat \<Rightarrow> ingest_context \<Rightarrow> (import_record \<times> ingest_context) res" where
  "build_row e row n ctx =
     (let t = row_type row in
      if t = ''position'' then rbind (build_position e row n ctx) (\<lambda>(p, ctx'). Inr (RPosition p, ctx'))
      else if t = ''liability'' then own_record ctx OLiability (build_liability e row n ctx)
      else if t = ''goal'' then own_record ctx OGoal (build_goal e row n ctx)
      else if t = ''cashflow'' then own_record ctx OCashflow (build_cashflow e row n ctx)
      else if t = ''tax_event'' then own_record ctx OTaxEvent (build_tax_event e row n ctx)
      else if t = ''insurance'' then own_record ctx OInsurance (build_insurance e row n ctx)
      else if t = ''document'' then own_record ctx ODocument (build_document row n ctx)
      else Inl (KeyError t))"

fun build_rows ::
  "'e ingest_env_scheme \<Rightarrow> (nat \<times> csv_row) list \<Rightarrow> ingest_context \<Rightarrow> (import_record list \<times> ingest_context) res" where
  "build_rows e [] ctx = Inr ([], ctx)"
| "build_rows e ((n, row) # rows) ctx =
     rbind (build_row e row n ctx) (\<lambda>(r, ctx').
     rbind (build_rows e rows ctx') (\<lambda>(rs, ctx''). Inr (r # rs, ctx'')))"

definition tag_record :: "string \<Rightarrow> import_record \<Rightarrow> import_record" where
  "tag_record i r = (case r of ROwned x \<Rightarrow> ROwned (tag_source i x) | _ \<Rightarrow> r)"

definition empty_context :: "string \<Rightarrow> string \<Rightarrow> string list \<Rightarrow> string \<Rightarrow> ingest_context" where
  "empty_context snapshot_id as_of_utc source_refs stable_source_id =
     \<lparr>cx_snapshot_id = snapshot_id, cx_as_of_utc = as_of_utc, cx_source_refs = source_refs, cx_accounts = [],
      cx_account_identities = [], cx_instrument_identities = [], cx_aliases = [],
      cx_source_namespace = EXPORT_KIND @ '':'' @ stable_source_id\<rparr>"

definition records_from_rows ::
  "'e ingest_env_scheme \<Rightarrow> csv_row list \<Rightarrow> string list \<Rightarrow> string \<Rightarrow> string \<Rightarrow> string \<Rightarrow> string \<Rightarrow> jdict \<Rightarrow>
   import_finding list \<Rightarrow> string \<Rightarrow> import_record list res" where
  "records_from_rows e rows source_refs snapshot_id as_of_utc source_path stable_source_id time_semantics findings coverage_mode =
     rbind (build_rows e (enumerate 1 rows) (empty_context snapshot_id as_of_utc source_refs stable_source_id)) (\<lambda>(raw, ctx).
     let built = map (tag_record stable_source_id) raw in
     rbind (payload_for_snapshot e rows source_path time_semantics findings coverage_mode) (\<lambda>payload.
     let snapshot = \<lparr>sc_schema_version = STATE_CORE_SCHEMA_VERSION, sc_as_of_utc = as_of_utc, sc_authority_level = ''read_only'',
           sn_snapshot_id = snapshot_id, sn_kind = (if positions_of built \<noteq> [] then ''portfolio'' else ''personal_finance''),
           sn_payload = payload, sn_source_refs = source_refs\<rparr> in
     Inr (RSnapshot snapshot # map RAccountIdentity (cx_account_identities ctx) @
          map RInstrumentIdentity (cx_instrument_identities ctx) @ map RAlias (cx_aliases ctx) @
          map RAccount (cx_accounts ctx) @ built)))"

end
