(* ===== verification/Personal_Finance_Ingest.thy ===== *)
theory Personal_Finance_Ingest
  imports Personal_Finance
begin

text \<open>
  The ingestion of an export (\<^verbatim>\<open>personal_finance.py\<close>): valuation of the final positions, positions
  carried over by a delta, explicit deletions, and the whole of
  \<^verbatim>\<open>ingest_personal_finance_export\<close>.  Of the environments of one call, \<open>es 0\<close> to \<open>es 2\<close> serve the source
  evidence, \<open>es 3\<close> to \<open>es 5\<close> the projection, \<open>es 6\<close> to \<open>es 12\<close> the preparation, \<open>es 13\<close> the database
  transaction.
\<close>

section \<open>Final valuation\<close>

definition status_by_id :: "position list \<Rightarrow> valuation_assessment list \<Rightarrow> string \<Rightarrow> position option" where
  "status_by_id positions assessments =
     map_of (rev (map2 (\<lambda>p a. (po_position_id p, p\<lparr>po_valuation_status := status_value (va_status a)\<rparr>)) positions assessments))"

definition rewrite_position :: "(string \<Rightarrow> position option) \<Rightarrow> import_record \<Rightarrow> import_record" where
  "rewrite_position by_id r =
     (case r of
        RPosition p \<Rightarrow> (case by_id (po_position_id p) of Some q \<Rightarrow> RPosition q | None \<Rightarrow> r)
      | _ \<Rightarrow> r)"

definition prior_delta :: "import_record list \<Rightarrow> jdict" where
  "prior_delta records =
     (case snapshots_of records of
        [] \<Rightarrow> []
      | s # _ \<Rightarrow> map (\<lambda>k. (k, dict_get (sn_payload s) k))
          (filter (\<lambda>k. k \<in> fst ` set (sn_payload s)) [''delta_base_batch_id'', ''materialized_position_count'']))"

definition final_payload ::
  "'e ingest_env_scheme \<Rightarrow> csv_row list \<Rightarrow> string \<Rightarrow> jdict \<Rightarrow> import_finding list \<Rightarrow> string \<Rightarrow> jdict \<Rightarrow> nat \<Rightarrow>
   position list \<Rightarrow> string \<Rightarrow> jdict res" where
  "final_payload e rows source_path time_semantics findings coverage_mode prior count positions observed_at_utc =
     rbind (payload_for_snapshot e rows source_path time_semantics findings coverage_mode) (\<lambda>payload.
     let payload = dict_merge payload prior;
         counts = (case dict_get payload ''record_counts'' of PDict d \<Rightarrow> d | _ \<Rightarrow> []) in
     Inr (dict_merge payload
       [(''completeness_status'', PStr (completeness_status findings)),
        (''findings'', PList (map (PDict \<circ> finding_dict) findings)),
        (''record_counts'', PDict (dict_set counts ''position'' (PInt (int count)))),
        (''valuation_assessment'', PDict (valuation_assessment_summary positions observed_at_utc))]))"

definition put_payload :: "jdict res \<Rightarrow> import_record \<Rightarrow> import_record res" where
  "put_payload payload r =
     (case r of RSnapshot s \<Rightarrow> rbind payload (\<lambda>d. Inr (RSnapshot (s\<lparr>sn_payload := d\<rparr>))) | _ \<Rightarrow> Inr r)"

definition finalize_valuation_on_records ::
  "'e ingest_env_scheme \<Rightarrow> import_record list \<Rightarrow> import_finding list \<Rightarrow> string \<Rightarrow> jdict \<Rightarrow> string \<Rightarrow> csv_row list \<Rightarrow> string \<Rightarrow>
   (import_record list \<times> import_finding list \<times> string) res" where
  "finalize_valuation_on_records e records base_findings observed_at_utc time_semantics coverage_mode rows source_path =
     (let positions = positions_of records in
      rbind (assess_positions e positions observed_at_utc) (\<lambda>assessments.
      let rewritten = map (rewrite_position (status_by_id positions assessments)) records;
          findings = merge_valuation_findings base_findings assessments;
          count = length (remdups (map po_position_id positions)) in
      rbind (map_res (put_payload (final_payload e rows source_path time_semantics findings coverage_mode
               (prior_delta records) count (positions_of rewritten) observed_at_utc)) rewritten) (\<lambda>final.
      Inr (final, findings, completeness_status findings))))"

section \<open>Deltas and deletions\<close>

record import_deletion =
  de_record_type :: string
  de_record_id :: string
  de_reason :: string

definition latest_source_positions :: "import_db \<Rightarrow> string \<Rightarrow> string \<Rightarrow> string option \<times> position list" where
  "latest_source_positions db source_id exclude_batch_id =
     (let manifests = filter (\<lambda>m. case tbl_get ib_batch_id (db_batches db) (rm_batch_id m) of
            None \<Rightarrow> False
          | Some b \<Rightarrow> ib_source_kind b = EXPORT_KIND \<and> ib_source_id b = source_id \<and> ib_batch_id b \<noteq> exclude_batch_id)
          (db_manifests db) in
      case rev (sort_key rm_materialized_at_utc (sort_key rm_manifest_id manifests)) of
        [] \<Rightarrow> (None, [])
      | m # _ \<Rightarrow> (Some (rm_batch_id m), filter (\<lambda>p. po_snapshot_id p = rm_snapshot_id m) (db_positions db)))"

definition carried_id :: "string \<Rightarrow> position \<Rightarrow> string" where
  "carried_id snapshot_id p =
     safe_fragment (''pos_'' @ snapshot_id @ ''_carried_'' @ po_account_id p @ ''_'' @
       or_else (po_instrument_id p) (py_upper (po_symbol p)))"

definition carry_position :: "string \<Rightarrow> string \<Rightarrow> position \<Rightarrow> position" where
  "carry_position snapshot_id as_of_utc p =
     p\<lparr>po_position_id := carried_id snapshot_id p, po_snapshot_id := snapshot_id, po_as_of_utc := as_of_utc\<rparr>"

definition carried_positions ::
  "string \<Rightarrow> string \<Rightarrow> import_deletion list \<Rightarrow> position list \<Rightarrow> position list \<Rightarrow> position list" where
  "carried_positions snapshot_id as_of_utc deletions incoming previous =
     (let deleted = map de_record_id (filter (\<lambda>d. de_record_type d = ''Position'') deletions) in
      map (carry_position snapshot_id as_of_utc)
        (filter (\<lambda>p. po_position_id p \<notin> set deleted \<and> position_identity p \<notin> set (map position_identity incoming)) previous))"

definition materialize_delta_positions ::
  "import_record list \<Rightarrow> import_db \<Rightarrow> string \<Rightarrow> string \<Rightarrow> string \<Rightarrow> import_deletion list \<Rightarrow> string \<Rightarrow>
   import_record list \<times> string option" where
  "materialize_delta_positions records db source_id snapshot_id as_of_utc deletions exclude_batch_id =
     (let (base, previous) = latest_source_positions db source_id exclude_batch_id;
          incoming = positions_of records;
          carried = carried_positions snapshot_id as_of_utc deletions incoming previous in
      if carried = [] then (records, base)
      else (map (\<lambda>r. case r of
          RSnapshot s \<Rightarrow>
            if sn_snapshot_id s = snapshot_id
            then RSnapshot (s\<lparr>sn_payload := dict_merge (sn_payload s)
              [(''delta_base_batch_id'', opt_json base),
               (''materialized_position_count'', PInt (int (length incoming + length carried)))]\<rparr>)
            else r
        | _ \<Rightarrow> r) (records @ map RPosition carried), base))"

definition deletion_tombstone :: "'e io_env_scheme \<Rightarrow> import_batch \<Rightarrow> import_deletion \<Rightarrow> import_tombstone res" where
  "deletion_tombstone e b d =
     (if de_record_type d = [] \<or> de_record_id d = [] \<or> py_strip (de_reason d) = []
      then export_error ''import deletion requires record_type, record_id, and a non-empty reason''
      else Inr (mk_tombstone e b (de_record_type d) (de_record_id d) (py_strip (de_reason d))))"

definition identity_findings :: "csv_row list \<Rightarrow> import_finding list" where
  "identity_findings rows =
     List.map_filter (\<lambda>(n, row).
       let missing = filter (\<lambda>f. py_strip (cell row f) = []) [''instrument_type'', ''instrument_venue'']; 
           f = unresolved_instrument_finding (Some (''row:'' @ nat_str n)) missing in
       if row_type row \<noteq> ''position'' \<or> missing = [] then None
       else Some \<lparr>if_code = df_code f, if_severity = df_severity f, if_message = df_message f,
                  if_record_type = Some ''position'', if_record_number = Some (int n), if_field = Some (df_field f),
                  if_record_id = None\<rparr>) (enumerate 1 rows)"

section \<open>Ingestion\<close>

record ingest_args =
  ia_export_path :: string
  ia_receipt_root :: string
  ia_artifact_root :: "string option"
  ia_snapshot_id :: "string option"
  ia_coverage_mode :: string
  ia_supersedes_batch_id :: "string option"
  ia_correction_reason :: "string option"
  ia_tombstones :: "import_deletion list"
  ia_covered_domains :: "string list option"
  ia_source_id :: "string option"

definition deletion_domain :: "import_deletion \<Rightarrow> string res" where
  "deletion_domain d =
     (case map_of DELETION_RECORD_DOMAINS (de_record_type d) of
        None \<Rightarrow> export_error (''unsupported import deletion record type: '' @ de_record_type d)
      | Some domain \<Rightarrow> Inr domain)"

text \<open>\<^verbatim>\<open>Path.name\<close> of the path of a file.\<close>

definition path_name :: "string \<Rightarrow> string" where
  "path_name p = rev (takeWhile (\<lambda>c. c \<noteq> CHR ''/'') (dropWhile (\<lambda>c. c = CHR ''/'') (rev p)))"

text \<open>The checks before the first effect: the rows and the domains the import covers.\<close>

definition check_export :: "'e ingest_env_scheme \<Rightarrow> ingest_args \<Rightarrow> (csv_row list \<times> string list) res" where
  "check_export e a =
     (if ia_coverage_mode a \<notin> {''full'', ''delta''} then export_error ''coverage_mode must be full or delta''
      else rbind (read_rows e (ia_export_path a)) (\<lambda>rows.
        if rows = [] then export_error ''personal-finance export has no rows''
        else rbind (map_res deletion_domain (ia_tombstones a)) (\<lambda>deletion_domains.
          let domains = sort (remdups ((case ia_covered_domains a of Some ds \<Rightarrow> ds | None \<Rightarrow> map row_type rows) @ deletion_domains)) in
          if domains = [] \<or> \<not> set domains \<subseteq> set (map fst RECORD_TYPE_COLUMNS)
          then export_error ''covered_domains must use supported record types''
          else Inr (rows, domains))))"

record export_batch =
  xb_snapshot_id :: string
  xb_receipt_id :: string
  xb_receipt_ref :: string
  xb_batch_id :: string
  xb_as_of_utc :: string
  xb_records :: "import_record list"
  xb_record_counts :: jdict
  xb_receipt :: jdict
  xb_time_semantics :: jdict
  xb_findings :: "import_finding list"
  xb_completeness :: string
  xb_position_count :: nat

definition deletion_json :: "import_deletion \<Rightarrow> pyval" where
  "deletion_json d =
     PDict [(''record_type'', PStr (de_record_type d)), (''record_id'', PStr (de_record_id d)), (''reason'', PStr (de_reason d))]"

text \<open>
  The batch of an export, from the rows, the source and the clock of its evidence; of the database
  only the base of a delta is read.
\<close>

definition assemble_export ::
  "'e ingest_env_scheme \<Rightarrow> ingest_args \<Rightarrow> csv_row list \<Rightarrow> string \<Rightarrow> string \<Rightarrow> string \<Rightarrow> import_db \<Rightarrow> export_batch res" where
  "assemble_export e a rows source_id source_hash ingested_at_utc db =
     rbind (time_contract e rows ingested_at_utc) (\<lambda>(ts, time_findings).
     let findings = time_findings @ identity_findings rows;
         time_semantics = time_dict ts;
         as_of_utc = ts_observed_at_utc ts;
         base_id = safe_fragment (import_contract_fragment e source_id source_hash (ia_coverage_mode a)
           (ia_supersedes_batch_id a) (ia_correction_reason a));
         snapshot_id = or_else (ia_snapshot_id a) (''snap_personal_finance_'' @ base_id);
         receipt_id = ''receipt_personal_finance_export_'' @ base_id;
         receipt_ref = shown_path e (path_join (ia_receipt_root a) (receipt_id @ ''.json''));
         counts = record_counts rows;
         receipt = dict_set (dict_set (export_receipt e receipt_id (ia_export_path a) source_hash as_of_utc (length rows)
           snapshot_id counts) ''source_ref'' (PStr source_id)) ''deletions'' (PList (map deletion_json (ia_tombstones a)));
         batch_id = derive_import_batch_id e EXPORT_KIND source_id source_hash ADAPTER_VERSION (ia_coverage_mode a)
           (ia_supersedes_batch_id a) (ia_correction_reason a) in
     rbind (records_from_rows e rows [receipt_ref, shown_path e (ia_export_path a)] snapshot_id as_of_utc
              (ia_export_path a) source_id time_semantics findings (ia_coverage_mode a)) (\<lambda>records.
     rbind (if ia_coverage_mode a = ''delta''
            then (case materialize_delta_positions records db source_id snapshot_id as_of_utc (ia_tombstones a) batch_id of
                    (_, None) \<Rightarrow> export_error ''delta import requires a materialized base import''
                  | (rs, Some _) \<Rightarrow> Inr rs)
            else Inr records) (\<lambda>records.
     rbind (finalize_valuation_on_records e records findings as_of_utc time_semantics (ia_coverage_mode a) rows
              (ia_export_path a)) (\<lambda>(records, findings, completeness).
     let position_count = length (positions_of records);
         counts = dict_set counts ''position'' (PInt (int position_count)) in
     Inr \<lparr>xb_snapshot_id = snapshot_id, xb_receipt_id = receipt_id, xb_receipt_ref = receipt_ref, xb_batch_id = batch_id,
          xb_as_of_utc = as_of_utc, xb_records = records, xb_record_counts = counts,
          xb_receipt = dict_set (dict_set receipt ''record_counts'' (PDict counts)) ''valuation_assessment''
            (PDict (valuation_assessment_summary (positions_of records) as_of_utc)),
          xb_time_semantics = time_semantics, xb_findings = findings, xb_completeness = completeness,
          xb_position_count = position_count\<rparr>))))"

definition export_prepare_args ::
  "ingest_args \<Rightarrow> export_batch \<Rightarrow> string \<Rightarrow> string \<Rightarrow> string \<Rightarrow> string \<Rightarrow> string list \<Rightarrow> artifact_descriptor \<Rightarrow> jdict \<Rightarrow> prepare_args" where
  "export_prepare_args a x source_id content source_hash created_at_utc domains projection_descriptor projection =
     \<lparr>pr_source_kind = EXPORT_KIND, pr_source_id = source_id, pr_source_content = content, pr_source_sha256 = source_hash,
      pr_adapter_version = ADAPTER_VERSION, pr_coverage_mode = ia_coverage_mode a, pr_record_counts = xb_record_counts x,
      pr_snapshot_id = xb_snapshot_id x, pr_receipt_id = xb_receipt_id x, pr_receipt_root = ia_receipt_root a,
      pr_receipt_ref = xb_receipt_ref x, pr_receipt_payload = xb_receipt x, pr_created_at_utc = created_at_utc,
      pr_completeness_status = xb_completeness x, pr_time_semantics = xb_time_semantics x,
      pr_findings = map finding_dict (xb_findings x), pr_covered_domains = Some domains,
      pr_supersedes_batch_id = ia_supersedes_batch_id a, pr_correction_reason = ia_correction_reason a,
      pr_corporate_action_status = (if xb_position_count x \<noteq> 0 then ''unsupported_gap'' else ''not_applicable''),
      pr_corporate_action_gaps = None, pr_stable_source_id = Some source_id,
      pr_projection_artifact_id = Some (ad_artifact_id projection_descriptor),
      pr_projection_sha256 = Some (ad_content_sha256 projection_descriptor),
      pr_projection_schema_version = Some CAPITAL_PROJECTION_SCHEMA_VERSION, pr_projection_payload = projection\<rparr>"

definition export_index :: "'e ingest_env_scheme \<Rightarrow> ingest_args \<Rightarrow> export_batch \<Rightarrow> string \<Rightarrow> string \<Rightarrow> receipt_index_row" where
  "export_index e a x source_id created_at_utc =
     \<lparr>ri_receipt_id = xb_receipt_id x, ri_kind = EXPORT_KIND, ri_path = xb_receipt_ref x,
      ri_created_at_utc = created_at_utc, ri_source_refs = [xb_receipt_ref x, source_id],
      ri_refs = [shown_path e (ia_export_path a)]\<rparr>"

record staged_export =
  st_batch :: export_batch
  st_prepared :: prepared_import
  st_records :: "import_record list"

definition artifact_root :: "ingest_args \<Rightarrow> string" where
  "artifact_root a =
     (case ia_artifact_root a of Some r \<Rightarrow> r | None \<Rightarrow> path_join (ia_receipt_root a) ''artifact-store'')"

text \<open>From the source evidence to the records that go to the store.\<close>

definition stage_records ::
  "(nat \<Rightarrow> 'e ingest_env_scheme) \<Rightarrow> ingest_args \<Rightarrow> string \<Rightarrow> string \<Rightarrow> string \<Rightarrow> string list \<Rightarrow> artifact_descriptor \<Rightarrow>
   export_batch \<Rightarrow> evidence_files \<Rightarrow> staged_export res \<times> evidence_files" where
  "stage_records es a source_id content source_hash domains source x fs =
     (let projection = build_capital_projection (es 0) (xb_batch_id x) source_id EXPORT_KIND (ia_coverage_mode a) domains
            (xb_time_semantics x) (xb_records x) in
      case persist_capital_projection (\<lambda>n. es (n + 3)) (artifact_root a) projection (ad_artifact_id source)
             (ad_created_at_utc source) (ef_artifacts fs) of
        (Inl err, art) \<Rightarrow> (Inl err, fs\<lparr>ef_artifacts := art\<rparr>)
      | (Inr pd, art) \<Rightarrow>
          (case prepare_import (\<lambda>n. es (n + 6)) (artifact_root a)
                  (export_prepare_args a x source_id content source_hash (ad_created_at_utc source) domains pd projection)
                  (fs\<lparr>ef_artifacts := art\<rparr>) of
             (Inl err, fs') \<Rightarrow> (Inl err, fs')
           | (Inr p, fs') \<Rightarrow>
               if ib_batch_id (pi_batch p) \<noteq> xb_batch_id x
               then (export_error ''derived batch identity diverged from prepare_import batch_id'', fs')
               else (rbind (map_res (deletion_tombstone (es 0) (pi_batch p)) (ia_tombstones a)) (\<lambda>tombstones.
                  Inr \<lparr>st_batch = x, st_prepared = p,
                       st_records = RReceipt (export_index (es 0) a x source_id (ad_created_at_utc source)) #
                         xb_records x @ map RTombstone tombstones\<rparr>), fs')))"

definition stage_export ::
  "(nat \<Rightarrow> 'e ingest_env_scheme) \<Rightarrow> ingest_args \<Rightarrow> evidence_files \<Rightarrow> import_db \<Rightarrow>
   staged_export res \<times> evidence_files \<times> import_db" where
  "stage_export es a fs db =
     (let e = es 0 in
      case check_export e a of
        Inl err \<Rightarrow> (Inl err, fs, db)
      | Inr (rows, domains) \<Rightarrow>
          (case (file_bytes e (ia_export_path a), file_bytes (es 1) (ia_export_path a)) of
             (Some hashed, Some content) \<Rightarrow>
               let source_hash = sha256 e hashed in
               (case resolve_or_register_import_source e (uuid7 e) EXPORT_KIND ''path''
                       (canonical_path_alias e (ia_export_path a)) (ia_source_id a) (Some (path_name (ia_export_path a))) db of
                  (Inl err, db') \<Rightarrow> (Inl err, fs, db')
                | (Inr s, db') \<Rightarrow>
                    (case persist_source_evidence es (artifact_root a) EXPORT_KIND content source_hash (clock e 0)
                            (ef_artifacts fs) of
                       (Inl err, art) \<Rightarrow> (Inl err, fs\<lparr>ef_artifacts := art\<rparr>, db')
                     | (Inr source, art) \<Rightarrow>
                         let fs1 = fs\<lparr>ef_artifacts := art\<rparr> in
                         case assemble_export e a rows (ci_source_id s) source_hash (ad_created_at_utc source) db' of
                           Inl err \<Rightarrow> (Inl err, fs1, db')
                         | Inr x \<Rightarrow>
                             (case stage_records es a (ci_source_id s) content source_hash domains source x fs1 of
                                (r, fs2) \<Rightarrow> (r, fs2, db'))))
           | _ \<Rightarrow> (Inl (OsError (ia_export_path a)), fs, db)))"

record ingest_result =
  ir_batch_id :: string
  ir_manifest_id :: string
  ir_snapshot_id :: string
  ir_receipt_id :: string
  ir_receipt_ref :: string
  ir_account_count :: nat
  ir_position_count :: nat
  ir_liability_count :: nat
  ir_goal_count :: nat
  ir_cashflow_count :: nat
  ir_tax_event_count :: nat
  ir_insurance_policy_count :: nat
  ir_document_count :: nat
  ir_as_of_utc :: string
  ir_completeness_status :: string
  ir_execution_allowed :: bool

definition class_count :: "import_record list \<Rightarrow> string \<Rightarrow> nat" where
  "class_count records c = length (filter (\<lambda>r. record_class r = c) records)"

definition ingest_result_of :: "staged_export \<Rightarrow> ingest_result" where
  "ingest_result_of s =
     (let x = st_batch s; n = class_count (xb_records x) in
      \<lparr>ir_batch_id = ib_batch_id (pi_batch (st_prepared s)), ir_manifest_id = rm_manifest_id (pi_manifest (st_prepared s)),
       ir_snapshot_id = xb_snapshot_id x, ir_receipt_id = xb_receipt_id x, ir_receipt_ref = xb_receipt_ref x,
       ir_account_count = n ''Account'', ir_position_count = xb_position_count x, ir_liability_count = n ''Liability'',
       ir_goal_count = n ''FinancialGoal'', ir_cashflow_count = n ''CashflowEvent'', ir_tax_event_count = n ''TaxEvent'',
       ir_insurance_policy_count = n ''InsurancePolicy'', ir_document_count = n ''DocumentRef'',
       ir_as_of_utc = xb_as_of_utc x, ir_completeness_status = xb_completeness x, ir_execution_allowed = False\<rparr>)"

definition ingest_personal_finance_export ::
  "(nat \<Rightarrow> 'e ingest_env_scheme) \<Rightarrow> ingest_args \<Rightarrow> evidence_files \<Rightarrow> import_db \<Rightarrow>
   ingest_result res \<times> evidence_files \<times> import_db" where
  "ingest_personal_finance_export es a fs db =
     (case stage_export es a fs db of
        (Inl err, fs', db') \<Rightarrow> (Inl err, fs', db')
      | (Inr s, fs', db') \<Rightarrow>
          (case materialize_import_batch (es 13) (artifact_root a) (ef_artifacts fs') EXPORT_KIND (pi_batch (st_prepared s))
                  (pi_manifest (st_prepared s)) (st_records s) db' of
             (Inl err, db'') \<Rightarrow> (Inl err, fs', db'')
           | (Inr _, db'') \<Rightarrow> (Inr (ingest_result_of s), fs', db'')))"

end
