(* ===== verification/Personal_Finance_Laws.thy ===== *)
theory Personal_Finance_Laws
  imports Personal_Finance_Ingest Import_Findings Import_Properties Import_Evidence
begin

text \<open>
  Laws of the export adapter: the identifiers and the classes of the records it builds, what the
  final valuation rewrites, and how its payloads read back from the receipt.
\<close>

section \<open>Numbered identifiers\<close>

lemma nat_str_digits: "c \<in> set (nat_str n) \<Longrightarrow> 48 \<le> (of_char c :: nat) \<and> (of_char c :: nat) \<le> 57"
proof (induction n rule: nat_str.induct)
  case (1 n)
  show ?case
  proof (cases "n < 10")
    case True
    with 1(2) have "c = char_of (48 + n)" by (simp add: nat_str.simps)
    with True show ?thesis by (simp add: of_char_of)
  next
    case False
    with 1(2) have "c \<in> set (nat_str (n div 10)) \<or> c = char_of (48 + n mod 10)" by (subst (asm) nat_str.simps) auto
    then show ?thesis
    proof
      assume "c = char_of (48 + n mod 10)"
      moreover have "n mod 10 < 10" by simp
      ultimately show ?thesis by (simp add: of_char_of)
    qed (rule 1(1) [OF False])
  qed
qed

definition digits_value :: "string \<Rightarrow> nat" where
  "digits_value s = foldl (\<lambda>a c. 10 * a + (of_char c - 48)) 0 s"

lemma digits_value_nat_str: "digits_value (nat_str n) = n"
proof (induction n rule: nat_str.induct)
  case (1 n)
  show ?case
  proof (cases "n < 10")
    case True
    then show ?thesis by (simp add: nat_str.simps digits_value_def of_char_of)
  next
    case False
    have "(of_char (char_of (48 + n mod 10) :: char) :: nat) = 48 + n mod 10" by (simp add: of_char_of)
    then show ?thesis using 1 [OF False] False by (subst nat_str.simps) (simp add: digits_value_def)
  qed
qed

definition numbered_id :: "string \<Rightarrow> nat \<Rightarrow> string \<Rightarrow> bool" where
  "numbered_id snapshot_id n i \<longleftrightarrow> (\<exists>t. i = safe_fragment (''pos_'' @ snapshot_id @ ''_'' @ nat_str n @ ''_'' @ t))"

lemma safe_fragment_append [simp]: "safe_fragment (s @ t) = safe_fragment s @ safe_fragment t"
  by (simp add: safe_fragment_def)

lemma safe_digits: "safe_fragment (nat_str n) = nat_str n"
  unfolding safe_fragment_def by (rule map_idI) (use nat_str_digits in \<open>auto simp: py_isalnum_def Let_def\<close>)

lemma numbered_head:
  "takeWhile (\<lambda>c. c \<noteq> CHR ''_'') (drop (length (safe_fragment p)) (safe_fragment (p @ nat_str k @ ''_'' @ t))) = nat_str k"
proof -
  have under: "safe_fragment (''_'' @ t) = CHR ''_'' # safe_fragment t" by (simp add: safe_fragment_def py_isalnum_def)
  have "CHR ''_'' \<notin> set (nat_str k)" using nat_str_digits [of "CHR ''_''" k] by auto
  then have "takeWhile (\<lambda>c. c \<noteq> CHR ''_'') (nat_str k @ CHR ''_'' # safe_fragment t) = nat_str k"
    by (subst takeWhile_append2) auto
  moreover have "safe_fragment (p @ nat_str k @ ''_'' @ t) = safe_fragment p @ nat_str k @ CHR ''_'' # safe_fragment t"
    by (simp only: safe_fragment_append [of p] safe_fragment_append [of "nat_str k"] under safe_digits)
  ultimately show ?thesis by simp
qed

lemma numbered_id_inj:
  assumes "numbered_id snapshot_id n i" and "numbered_id snapshot_id m i"
  shows "n = m"
proof -
  have "\<exists>t. i = safe_fragment ((''pos_'' @ snapshot_id @ ''_'') @ nat_str k @ ''_'' @ t)" if "numbered_id snapshot_id k i" for k
    using that unfolding numbered_id_def append_assoc .
  with assms have "nat_str n = nat_str m" using numbered_head by metis
  then show ?thesis using digits_value_nat_str by metis
qed

section \<open>Classes of the built records\<close>

definition class_of_type :: "(string \<times> string) list" where
  "class_of_type = filter (\<lambda>(k, c). k \<in> set DIRECT_SOURCE_DOMAIN_KEYS) RECORD_COUNT_KEY_TO_CLASS"

definition row_record :: "string \<Rightarrow> nat \<Rightarrow> csv_row \<Rightarrow> import_record \<Rightarrow> bool" where
  "row_record snapshot_id n row r \<longleftrightarrow>
     map_of class_of_type (row_type row) = Some (record_class r) \<and>
     (case r of RPosition p \<Rightarrow> numbered_id snapshot_id n (po_position_id p) \<and> po_snapshot_id p = snapshot_id
      | ROwned q \<Rightarrow> True | _ \<Rightarrow> False)"

lemma class_codes:
  "class_of_type = [(''position'', ''Position''), (''cashflow'', ''CashflowEvent''), (''liability'', ''Liability''),
     (''tax_event'', ''TaxEvent''), (''insurance'', ''InsurancePolicy''), (''goal'', ''FinancialGoal''), (''document'', ''DocumentRef'')]"
  by code_simp

lemma class_inj: "map_of class_of_type k = Some c \<Longrightarrow> map_of class_of_type j = Some c \<Longrightarrow> j = k"
  by (auto simp: class_codes split: if_splits)

lemma build_position_fields:
  assumes "build_position e row n ctx = Inr (p, ctx')"
  shows "numbered_id (cx_snapshot_id ctx) n (po_position_id p) \<and> po_snapshot_id p = cx_snapshot_id ctx \<and>
    cx_snapshot_id ctx' = cx_snapshot_id ctx"
  using assms unfolding build_position_def Let_def numbered_id_def
  by (auto simp: position_of_def elim!: rbind_InrE)

lemma build_row_record:
  assumes "build_row e row n ctx = Inr (r, ctx')"
  shows "row_record (cx_snapshot_id ctx) n row r \<and> cx_snapshot_id ctx' = cx_snapshot_id ctx"
proof (cases "row_type row = ''position''")
  case True
  with assms obtain p where p: "build_position e row n ctx = Inr (p, ctx')" "r = RPosition p"
    by (auto simp: build_row_def Let_def elim!: rbind_InrE)
  with True build_position_fields [OF p(1)] show ?thesis by (simp add: row_record_def class_codes)
next
  case False
  with assms show ?thesis unfolding row_record_def class_codes
    by (auto simp: build_row_def Let_def own_record_def elim!: rbind_InrE split: if_splits)
qed

lemma build_rows_records:
  "build_rows e rows ctx = Inr (rs, ctx') \<Longrightarrow>
   list_all2 (\<lambda>(n, row) r. row_record (cx_snapshot_id ctx) n row r) rows rs"
proof (induction rows arbitrary: ctx rs)
  case (Cons nr rows)
  obtain n row where nr: "nr = (n, row)" by (rule prod.exhaust)
  from Cons.prems obtain r c qs where *: "build_row e row n ctx = Inr (r, c)" "build_rows e rows c = Inr (qs, ctx')" "rs = r # qs"
    by (auto simp: nr elim!: rbind_InrE)
  with Cons.IH [OF *(2)] build_row_record [OF *(1)] show ?case by (simp add: nr)
qed simp

lemma records_lists [simp]:
  "positions_of [] = []" "snapshots_of [] = []" "positions_of (rs @ qs) = positions_of rs @ positions_of qs"
  "snapshots_of (rs @ qs) = snapshots_of rs @ snapshots_of qs"
  "positions_of (r # rs) = (case r of RPosition p \<Rightarrow> [p] | _ \<Rightarrow> []) @ positions_of rs"
  "snapshots_of (r # rs) = (case r of RSnapshot s \<Rightarrow> [s] | _ \<Rightarrow> []) @ snapshots_of rs"
  by (cases r; simp add: positions_of_def snapshots_of_def List.map_filter_def)+

lemma rows_positions:
  assumes "list_all2 (\<lambda>(n, row) r. row_record sid n row r) rows rs" and "distinct (map fst rows)"
  shows "distinct (map po_position_id (positions_of rs))"
    and "list_all (\<lambda>p. po_snapshot_id p = sid) (positions_of rs)"
proof -
  have "distinct (map po_position_id (positions_of rs)) \<and> list_all (\<lambda>p. po_snapshot_id p = sid) (positions_of rs) \<and>
      (\<forall>p\<in>set (positions_of rs). \<exists>n\<in>fst ` set rows. numbered_id sid n (po_position_id p))"
    using assms
  proof (induction rows rs rule: list_all2_induct)
    case (Cons nr rows r rs)
    obtain n row where nr: "nr = (n, row)" by (rule prod.exhaust)
    have new: "n \<notin> fst ` set rows" using Cons.prems by (simp add: nr)
    show ?case
    proof (cases "\<exists>p. r = RPosition p")
      case True
      then obtain p where r: "r = RPosition p" ..
      have p: "numbered_id sid n (po_position_id p)" "po_snapshot_id p = sid"
        using Cons.hyps(1) by (simp_all add: nr r row_record_def)
      have other: "po_position_id q \<noteq> po_position_id p" if "q \<in> set (positions_of rs)" for q
      proof -
        have "distinct (map fst rows)" using Cons.prems by simp
        from Cons.IH [OF this] that obtain m where m: "m \<in> fst ` set rows" "numbered_id sid m (po_position_id q)" by blast
        show ?thesis
        proof
          assume "po_position_id q = po_position_id p"
          with m(2) numbered_id_inj [OF p(1)] have "n = m" by simp
          with m(1) new show False by simp
        qed
      qed
      then have "po_position_id p \<notin> po_position_id ` set (positions_of rs)" by (metis imageE)
      with p Cons.IH Cons.prems show ?thesis by (auto simp: nr r)
    next
      case False
      then have "positions_of (r # rs) = positions_of rs" by (cases r) simp_all
      with Cons.IH Cons.prems show ?thesis by auto
    qed
  qed simp
  then show "distinct (map po_position_id (positions_of rs))" "list_all (\<lambda>p. po_snapshot_id p = sid) (positions_of rs)"
    by blast+
qed

lemma rows_counts:
  assumes "list_all2 (\<lambda>(n, row) r. row_record sid n row r) rows rs" and "(k, c) \<in> set class_of_type"
  shows "class_count rs c = length (filter (\<lambda>(n, row). row_type row = k) rows)"
proof -
  have kc: "map_of class_of_type k = Some c" using assms(2) by (auto simp: class_codes)
  show ?thesis using assms(1)
  proof (induction rows rs rule: list_all2_induct)
    case (Cons nr rows r rs)
    obtain n row where nr: "nr = (n, row)" by (rule prod.exhaust)
    have "record_class r = c \<longleftrightarrow> row_type row = k"
      using Cons.hyps(1) kc class_inj [OF kc, of "row_type row"] by (auto simp: nr row_record_def)
    with Cons.IH show ?case by (simp add: class_count_def nr)
  qed (simp add: class_count_def)
qed

section \<open>The records of a file\<close>

definition plain_row :: "import_record \<Rightarrow> bool" where
  "plain_row r \<longleftrightarrow> (case r of RAccountIdentity _ \<Rightarrow> True | RInstrumentIdentity _ \<Rightarrow> True | RAlias _ \<Rightarrow> True
     | RAccount _ \<Rightarrow> True | RPosition _ \<Rightarrow> True | ROwned _ \<Rightarrow> True | _ \<Rightarrow> False)"

text \<open>What the rows of a file determine of the records below the snapshot.\<close>

definition built_from :: "string \<Rightarrow> csv_row list \<Rightarrow> import_record list \<Rightarrow> bool" where
  "built_from sid rows rs \<longleftrightarrow>
     list_all plain_row rs \<and> distinct (map po_position_id (positions_of rs)) \<and>
     list_all (\<lambda>p. po_snapshot_id p = sid) (positions_of rs) \<and>
     (\<forall>(k, c) \<in> set class_of_type. class_count rs c = length (filter (\<lambda>row. row_type row = k) rows))"

lemma class_count_simps [simp]:
  "class_count [] c = 0" "class_count (rs @ qs) c = class_count rs c + class_count qs c"
  "class_count (r # rs) c = (if record_class r = c then Suc (class_count rs c) else class_count rs c)"
  by (simp_all add: class_count_def)

lemma class_count_same: "(\<And>r. r \<in> set rs \<Longrightarrow> record_class (f r) = record_class r) \<Longrightarrow> class_count (map f rs) c = class_count rs c"
  by (induction rs) simp_all

lemma class_count_none: "(\<And>r. r \<in> set rs \<Longrightarrow> record_class r \<noteq> c) \<Longrightarrow> class_count rs c = 0"
  by (induction rs) simp_all

lemma tagged [simp]:
  "record_class (tag_record i r) = record_class r" "positions_of (map (tag_record i) rs) = positions_of rs"
proof -
  have "model_of (tag_source i q) = model_of q" for q by (cases q) simp_all
  then show "record_class (tag_record i r) = record_class r" by (cases r) (simp_all add: tag_record_def)
  show "positions_of (map (tag_record i) rs) = positions_of rs"
  proof (induction rs)
    case (Cons r rs)
    then show ?case by (cases r) (simp_all add: tag_record_def)
  qed simp
qed

lemma list_all2_in: "list_all2 P xs ys \<Longrightarrow> y \<in> set ys \<Longrightarrow> \<exists>x\<in>set xs. P x y"
  by (induction rule: list_all2_induct) auto

lemma count_enumerate: "length (filter (\<lambda>(n, row). P row) (enumerate k rows)) = length (filter P rows)"
  by (induction rows arbitrary: k) simp_all

lemma mapped_lists [simp]:
  "positions_of (map RAccountIdentity a) = []" "positions_of (map RInstrumentIdentity b) = []" "positions_of (map RAlias c) = []"
  "positions_of (map RAccount d) = []"
  by (induction a, simp_all) (induction b, simp_all, induction c, simp_all, induction d, simp_all)

lemma records_from_rows_built:
  assumes "records_from_rows e rows refs sid as_of path src ts fs mode = Inr records"
  obtains snap rest where "records = RSnapshot snap # rest" and "sn_snapshot_id snap = sid" and "built_from sid rows rest"
    and "payload_for_snapshot e rows path ts fs mode = Inr (sn_payload snap)"
proof -
  obtain raw ctx payload where raw: "build_rows e (enumerate 1 rows) (empty_context sid as_of refs src) = Inr (raw, ctx)"
      and payload: "payload_for_snapshot e rows path ts fs mode = Inr payload"
    using assms by (auto simp: records_from_rows_def elim!: rbind_InrE)
  define ids where "ids = map RAccountIdentity (cx_account_identities ctx) @ map RInstrumentIdentity (cx_instrument_identities ctx) @
    map RAlias (cx_aliases ctx) @ map RAccount (cx_accounts ctx)"
  define snap where "snap = \<lparr>sc_schema_version = STATE_CORE_SCHEMA_VERSION, sc_as_of_utc = as_of, sc_authority_level = ''read_only'',
           sn_snapshot_id = sid, sn_kind = (if positions_of raw \<noteq> [] then ''portfolio'' else ''personal_finance''),
           sn_payload = payload, sn_source_refs = refs\<rparr>"
  have records: "records = RSnapshot snap # ids @ map (tag_record src) raw"
    using assms raw payload by (simp add: records_from_rows_def snap_def ids_def Let_def)
  have rows: "list_all2 (\<lambda>(n, row) r. row_record sid n row r) (enumerate 1 rows) raw"
    using build_rows_records [OF raw] by (simp add: empty_context_def)
  have "plain_row (tag_record src r)" if "r \<in> set raw" for r :: import_record
  proof -
    from list_all2_in [OF rows that] obtain n row where "row_record sid n row r" by auto
    then show ?thesis by (cases r) (simp_all add: row_record_def plain_row_def tag_record_def)
  qed
  moreover have "class_count ids c = 0" if "(k, c) \<in> set class_of_type" for k c
    using that unfolding class_codes by (intro class_count_none) (auto simp: ids_def)
  ultimately have "built_from sid rows (ids @ map (tag_record src) raw)"
    using rows_positions [OF rows] rows_counts [OF rows]
    by (auto simp: built_from_def list_all_iff ids_def plain_row_def count_enumerate class_count_same simp del: enumerate_simps)
  moreover have "sn_snapshot_id snap = sid" "sn_payload snap = payload" by (simp_all add: snap_def)
  ultimately show thesis using that records payload by metis
qed

section \<open>The final valuation\<close>

lemma rewrite_lists:
  "positions_of (map (rewrite_position f) rs) = map (\<lambda>p. case f (po_position_id p) of Some q \<Rightarrow> q | None \<Rightarrow> p) (positions_of rs)"
proof (induction rs)
  case (Cons r rs)
  then show ?case by (cases r) (auto simp: rewrite_position_def split: option.splits)
qed simp

lemma rewrite_class [simp]:
  "record_class (rewrite_position f r) = record_class r" "plain_row (rewrite_position f r) = plain_row r"
  by (cases r; auto simp: rewrite_position_def plain_row_def split: option.splits)+

definition revalued :: "position list \<Rightarrow> valuation_assessment list \<Rightarrow> position list" where
  "revalued ps as = map2 (\<lambda>p a. p\<lparr>po_valuation_status := status_value (va_status a)\<rparr>) ps as"

lemma revalued_lookup:
  assumes "length ps = length as" and "distinct (map po_position_id ps)"
  shows "map (\<lambda>p. case status_by_id ps as (po_position_id p) of Some q \<Rightarrow> q | None \<Rightarrow> p) ps = revalued ps as"
proof (rule nth_equalityI)
  let ?kvs = "map2 (\<lambda>p a. (po_position_id p, p\<lparr>po_valuation_status := status_value (va_status a)\<rparr>)) ps as"
  fix i
  assume "i < length (map (\<lambda>p. case status_by_id ps as (po_position_id p) of Some q \<Rightarrow> q | None \<Rightarrow> p) ps)"
  then have i: "i < length ps" "i < length as" using assms(1) by simp_all
  have keys: "map fst ?kvs = map po_position_id ps" using assms(1) by (simp add: list_eq_iff_nth_eq)
  have "(ps ! i, as ! i) \<in> set (zip ps as)" using i by (auto simp: in_set_zip)
  then have "(po_position_id (ps ! i), revalued ps as ! i) \<in> set (rev ?kvs)" using i by (force simp: revalued_def)
  moreover have "distinct (map fst (rev ?kvs))" unfolding rev_map [symmetric] keys using assms(2) by simp
  ultimately have "map_of (rev ?kvs) (po_position_id (ps ! i)) = Some (revalued ps as ! i)" by simp
  then show "map (\<lambda>p. case status_by_id ps as (po_position_id p) of Some q \<Rightarrow> q | None \<Rightarrow> p) ps ! i = revalued ps as ! i"
    using i by (simp add: status_by_id_def)
qed (use assms(1) in \<open>simp add: revalued_def\<close>)

lemma put_payload_plain: "list_all plain_row rs \<Longrightarrow> map_res (put_payload m) rs = Inr rs"
proof (induction rs)
  case (Cons r rs)
  then show ?case by (cases r) (simp_all add: put_payload_def plain_row_def)
qed simp

lemma assess_positions_length: "assess_positions e ps t = Inr as \<Longrightarrow> length as = length ps"
  by (auto simp: assess_positions_def map_res_Inr_iff list_all2_lengthD)

lemma finalize_full:
  assumes "finalize_valuation_on_records e (RSnapshot snap # rest) fs observed ts mode rows path = Inr (final, findings, c)"
    and "built_from sid rows rest" and "prior_delta (RSnapshot snap # rest) = []"
  obtains as payload rest' where "assess_positions e (positions_of rest) observed = Inr as"
    and "final = RSnapshot (snap\<lparr>sn_payload := payload\<rparr>) # rest'" and "positions_of rest' = revalued (positions_of rest) as"
    and "findings = merge_valuation_findings fs as" and "c = completeness_status findings"
    and "final_payload e rows path ts findings mode [] (length (positions_of rest)) (positions_of rest') observed = Inr payload"
    and "list_all plain_row rest'" and "\<forall>k. class_count rest' k = class_count rest k"
proof -
  obtain as where as: "assess_positions e (positions_of rest) observed = Inr as"
    using assms(1) by (auto simp: finalize_valuation_on_records_def Let_def elim!: rbind_InrE)
  define rest' where "rest' = map (rewrite_position (status_by_id (positions_of rest) as)) rest"
  have dist: "distinct (map po_position_id (positions_of rest))" and plain: "list_all plain_row rest"
    using assms(2) by (simp_all add: built_from_def)
  have pos: "positions_of rest' = revalued (positions_of rest) as"
    using revalued_lookup [OF _ dist] assess_positions_length [OF as] by (simp add: rest'_def rewrite_lists)
  have plain': "list_all plain_row rest'" using plain by (simp add: rest'_def list_all_iff)
  have count: "length (remdups (map po_position_id (positions_of rest))) = length (positions_of rest)"
    using dist by (simp add: distinct_remdups_id)
  have head: "rewrite_position f (RSnapshot snap) = RSnapshot snap" for f by (simp add: rewrite_position_def)
  obtain payload where payload: "final_payload e rows path ts (merge_valuation_findings fs as) mode [] (length (positions_of rest))
      (positions_of rest') observed = Inr payload" and final: "final = RSnapshot (snap\<lparr>sn_payload := payload\<rparr>) # rest'"
      and rest: "findings = merge_valuation_findings fs as" "c = completeness_status findings"
    using assms(1) unfolding finalize_valuation_on_records_def Let_def
    by (auto simp: as assms(3) head count put_payload_plain [OF plain'] put_payload_def rest'_def [symmetric] elim!: rbind_InrE)
  have "class_count rest' k = class_count rest k" for k unfolding rest'_def by (rule class_count_same) simp
  with that [OF as final pos rest] payload rest plain' show thesis by blast
qed

end
