(* ===== verification/Personal_Finance_Contract.thy ===== *)
theory Personal_Finance_Contract
  imports Personal_Finance_Laws
begin

text \<open>
  What the adapter assembles from a full export agrees with itself on every surface that the
  valuation contract of the store compares: the positions, the snapshot, the batch and the receipt.
\<close>

section \<open>Assessments\<close>

lemma assess_same_calendar:
  assumes "fromisoformat e = fromisoformat e'"
  shows "assess_positions e ps t = assess_positions e' ps t"
proof -
  have clock: "read_clock e s = read_clock e' s" for s by (simp add: read_clock_def assms)
  have "assess_one e t = assess_one e' t"
    by (rule ext)
       (simp only: assess_one_def assess_position_valuation_def parse_valuation_evaluation_clock_def assess_parts_def
        stamp_reading_def clock)
  then show ?thesis by (simp add: assess_positions_def)
qed

lemma assess_policy:
  "assess_position_valuation e ev i n t policy fresh legacy = Inr a \<Longrightarrow> va_policy_id a = vp_policy_id policy"
  by (auto simp: assess_position_valuation_def Let_def rbind_def split: sum.splits prod.splits if_splits)

lemma policies_assessed: "assess_positions e ps t = Inr as \<Longrightarrow> policies_agree as"
  unfolding assess_positions_def map_res_Inr_iff policies_agree_def
  by (induction rule: list_all2_induct) (auto simp: assess_one_def dest: assess_policy)

lemma assess_revalued: "length ps = length as \<Longrightarrow> assess_positions e (revalued ps as) t = assess_positions e ps t"
proof (induction ps as rule: list_induct2)
  case (Cons p ps a as)
  have "assess_one e t (p\<lparr>po_valuation_status := s\<rparr>) = assess_one e t p" for s
    by (simp add: assess_one_def evidence_from_position_def)
  with Cons show ?case by (simp add: assess_positions_def revalued_def)
qed (simp add: assess_positions_def revalued_def)

lemma revalued_fields [simp]:
  "length ps = length as \<Longrightarrow> length (revalued ps as) = length as"
  "length ps = length as \<Longrightarrow> map po_position_id (revalued ps as) = map po_position_id ps"
  "length ps = length as \<Longrightarrow> map po_snapshot_id (revalued ps as) = map po_snapshot_id ps"
  "length ps = length as \<Longrightarrow> map po_valuation_status (revalued ps as) = map (status_value \<circ> va_status) as"
  by (simp_all add: revalued_def list_eq_iff_nth_eq)

lemma statuses_revalued:
  assumes "length ps = length as" and "distinct (map po_position_id ps)"
  shows "statuses_agree (revalued ps as) as"
proof -
  let ?qs = "revalued ps as"
  have keys: "map po_position_id ?qs = map po_position_id ps" using assms(1) by simp
  have "map_of (rev (zip (map po_position_id ?qs) as)) (po_position_id (?qs ! i)) = Some (as ! i) \<and>
      po_valuation_status (?qs ! i) = status_value (va_status (as ! i))" if "i < length as" for i
  proof -
    have i: "i < length ?qs" using assms(1) that by simp
    have "map fst (rev (zip (map po_position_id ps) as)) = rev (map po_position_id ps)"
      unfolding rev_map [symmetric] using assms(1) by simp
    then have "distinct (map fst (rev (zip (map po_position_id ps) as)))" using assms(2) by simp
    moreover have "po_position_id (?qs ! i) = map po_position_id ps ! i" using keys i by (metis nth_map)
    then have "(po_position_id (?qs ! i), as ! i) \<in> set (rev (zip (map po_position_id ps) as))"
      using that assms(1) in_set_zip by fastforce
    ultimately have "map_of (rev (zip (map po_position_id ps) as)) (po_position_id (?qs ! i)) = Some (as ! i)"
      by (rule map_of_is_SomeI)
    moreover have "po_valuation_status (?qs ! i) = status_value (va_status (as ! i))"
      using that assms(1) by (simp add: revalued_def)
    ultimately show ?thesis unfolding keys by blast
  qed
  then show ?thesis using assms(1) by (auto simp: statuses_agree_def list_all_length)
qed

lemma summary_revalued:
  assumes "length ps = length as"
  shows "valuation_assessment_summary (revalued ps as) t =
    [(''policy_id'', PStr (vp_policy_id BASE_VALUATION_POLICY_V1)), (''evaluated_at_utc'', PStr t),
     (''status_counts'', PDict (canonical_status_counts as))]"
proof -
  have "or_else (Some (status_value v)) ''unknown'' = status_value v" for v by (cases v) (simp_all add: or_else_def)
  note [simp] = this
  have "foldl (\<lambda>counts p. bump (or_else (Some (po_valuation_status p)) ''unknown'') counts) c (revalued ps as) =
      foldl (\<lambda>counts a. bump (status_value (va_status a)) counts) c as" for c
    using assms
  proof (induction ps as arbitrary: c rule: list_induct2)
    case (Cons p ps a as)
    then show ?case by (simp add: revalued_def)
  qed (simp add: revalued_def)
  then show ?thesis by (simp add: valuation_assessment_summary_def canonical_status_counts_def)
qed

section \<open>Plain values\<close>

lemma plain_dict: "json_plain (PDict d) \<longleftrightarrow> (\<forall>(k, v) \<in> set d. json_plain v)"
  by (auto simp: list_all_iff)

lemma plain_list: "json_plain (PList xs) \<longleftrightarrow> (\<forall>v \<in> set xs. json_plain v)"
  by (auto simp: list_all_iff)

lemma plain_set: "json_plain (PDict d) \<Longrightarrow> json_plain v \<Longrightarrow> json_plain (PDict (dict_set d k v))"
  unfolding plain_dict dict_set_def by (auto split: if_splits)

lemma plain_merge: "json_plain (PDict d) \<Longrightarrow> json_plain (PDict kvs) \<Longrightarrow> json_plain (PDict (dict_merge d kvs))"
proof (induction kvs arbitrary: d)
  case (Cons kv kvs)
  obtain k v where kv: "kv = (k, v)" by (rule prod.exhaust)
  with Cons.prems(2) have "json_plain v" "json_plain (PDict kvs)" by simp_all
  with Cons.IH [OF plain_set [OF Cons.prems(1)]] show ?case by (simp add: kv del: json_plain.simps)
qed simp

lemma plain_parts [simp]:
  "json_plain (texts_json xs)" "json_plain (opt_json x)" "json_plain (int_json n)" "json_plain (PDict (finding_dict f))"
  "json_plain (PDict (time_dict ts))" "json_plain (PDict (record_counts rows))" "json_plain (deletion_json d)"
  "json_plain (PDict (counts_json c))"
  by (auto simp: texts_json_def opt_json_def int_json_def finding_dict_def time_dict_def record_counts_def deletion_json_def
      counts_json_def list_all_iff List.map_filter_def split: option.splits)

section \<open>Counts\<close>

definition type_count :: "csv_row list \<Rightarrow> string \<Rightarrow> nat" where
  "type_count rows k = length (filter (\<lambda>row. row_type row = k) rows)"

lemma map_of_counts:
  "distinct (map fst kcs) \<Longrightarrow>
   map_of (List.map_filter (\<lambda>(k, _). let n = f k in if n = (0 :: nat) then None else Some (k, PInt (int n))) kcs) j =
     (if j \<in> fst ` set kcs \<and> f j \<noteq> 0 then Some (PInt (int (f j))) else None)"
proof (induction kcs)
  case (Cons kc kcs)
  then show ?case by (cases kc) (auto simp: List.map_filter_simps Let_def)
qed (simp add: List.map_filter_simps)

lemma record_types: "map fst RECORD_TYPE_COLUMNS = [''position'', ''liability'', ''goal'', ''cashflow'', ''tax_event'', ''insurance'', ''document'']"
  by code_simp

lemma map_of_record_counts:
  "map_of (record_counts rows) j =
     (if j \<in> fst ` set class_of_type \<and> type_count rows j \<noteq> 0 then Some (PInt (int (type_count rows j))) else None)"
proof -
  have "fst ` set RECORD_TYPE_COLUMNS = set (map fst RECORD_TYPE_COLUMNS)" by simp
  also have "\<dots> = fst ` set class_of_type" unfolding record_types class_codes by auto
  finally have keys: "fst ` set RECORD_TYPE_COLUMNS = fst ` set class_of_type" .
  have "distinct (map fst RECORD_TYPE_COLUMNS)" unfolding record_types by simp
  from map_of_counts [OF this, of "type_count rows" j] show ?thesis
    unfolding record_counts_def type_count_def [symmetric] keys .
qed

lemma positions_counted: "class_count rs ''Position'' = length (positions_of rs)"
proof (induction rs)
  case (Cons r rs)
  have "model_name m \<noteq> ''Position''" for m by (cases m) simp_all
  with Cons show ?case by (cases r) simp_all
qed simp

definition counts_for :: "import_record list \<Rightarrow> jdict \<Rightarrow> bool" where
  "counts_for rs counts \<longleftrightarrow>
     fst ` set counts \<subseteq> fst ` set class_of_type \<and>
     (\<forall>(k, c) \<in> set class_of_type. dict_get_or counts k (PInt 0) = PInt (int (class_count rs c)))"

lemma counts_for_final:
  assumes "built_from sid rows rest" and "\<And>k. class_count rest' k = class_count rest k"
  shows "counts_for rest' (dict_set (record_counts rows) ''position'' (PInt (int (length (positions_of rest)))))"
proof -
  have keys: "fst ` set (record_counts rows) \<subseteq> fst ` set class_of_type"
  proof
    fix k
    assume "k \<in> fst ` set (record_counts rows)"
    then have "map_of (record_counts rows) k \<noteq> None" by (simp add: map_of_eq_None_iff)
    then show "k \<in> fst ` set class_of_type" by (simp add: map_of_record_counts split: if_splits)
  qed
  have "''position'' \<in> fst ` set class_of_type" by (simp add: class_codes)
  with keys have "fst ` set (dict_set (record_counts rows) ''position'' (PInt (int (length (positions_of rest))))) \<subseteq> fst ` set class_of_type"
    by (simp only: dict_keys_set insert_subset simp_thms)
  moreover have "dict_get_or (dict_set (record_counts rows) ''position'' (PInt (int (length (positions_of rest))))) k (PInt 0) =
      PInt (int (class_count rest' c))" if kc: "(k, c) \<in> set class_of_type" for k c
  proof (cases "k = ''position''")
    case True
    with kc have "c = ''Position''" by (auto simp: class_codes)
    with True show ?thesis by (simp add: dict_get_or_def map_of_dict_set assms(2) positions_counted [of rest])
  next
    case False
    have "class_count rest c = type_count rows k" using assms(1) kc by (auto simp: built_from_def type_count_def)
    moreover have "k \<in> fst ` set class_of_type" using kc by force
    ultimately show ?thesis
      using False assms(2) by (simp add: dict_get_or_def map_of_dict_set map_of_record_counts)
  qed
  ultimately show ?thesis by (auto simp: counts_for_def)
qed

lemma counts_for_agree:
  assumes "counts_for rest counts" and "records = RReceipt i # RSnapshot s # rest @ map RTombstone ts"
  shows "counts_agree counts records"
proof -
  have count: "length (filter (\<lambda>r. record_class r = c) records) = class_count rest c" if "(k, c) \<in> set class_of_type" for k c
  proof -
    have "class_count (map RTombstone ts) c = 0" using that unfolding class_codes by (intro class_count_none) auto
    with that show ?thesis unfolding class_count_def [symmetric] assms(2) by (auto simp: class_codes)
  qed
  have kinds: "(k \<in> set DIRECT_SOURCE_DOMAIN_KEYS \<and> (k, c) \<in> set class_of_type) \<or>
      (k \<notin> set DIRECT_SOURCE_DOMAIN_KEYS \<and> k \<notin> fst ` set class_of_type)" if "(k, c) \<in> set RECORD_COUNT_KEY_TO_CLASS" for k c
    using that by (auto simp: class_of_type_def)
  show ?thesis unfolding counts_agree_def Let_def list_all_iff
  proof
    fix kc
    assume "kc \<in> set RECORD_COUNT_KEY_TO_CLASS"
    moreover obtain k c where kc: "kc = (k, c)" by (rule prod.exhaust)
    ultimately consider "k \<in> set DIRECT_SOURCE_DOMAIN_KEYS" "(k, c) \<in> set class_of_type"
      | "k \<notin> set DIRECT_SOURCE_DOMAIN_KEYS" "k \<notin> fst ` set class_of_type" using kinds by blast
    then show "case kc of (key, cls) \<Rightarrow>
      if key \<in> set DIRECT_SOURCE_DOMAIN_KEYS
      then py_eq (dict_get_or counts key (PInt 0)) (PInt (int (length (filter (\<lambda>r. record_class r = cls) records))))
      else key \<in> fst ` set counts \<longrightarrow>
        py_eq (dict_get counts key) (PInt (int (length (filter (\<lambda>r. record_class r = cls) records))))"
    proof cases
      case 1
      then have "dict_get_or counts k (PInt 0) = PInt (int (class_count rest c))" using assms(1) by (auto simp: counts_for_def)
      with 1 show ?thesis by (simp add: kc count [OF 1(2)])
    next
      case 2
      then have "k \<notin> fst ` set counts" using assms(1) unfolding counts_for_def by blast
      with 2 show ?thesis by (simp add: kc)
    qed
  qed
qed

section \<open>The assembled batch\<close>

text \<open>What the snapshot and the receipt say of a batch.\<close>

definition surface_of :: "export_batch \<Rightarrow> jdict \<Rightarrow> bool" where
  "surface_of x d \<longleftrightarrow>
     dict_get d ''findings'' = PList (map (PDict \<circ> finding_dict) (xb_findings x)) \<and>
     dict_get d ''completeness_status'' = PStr (xb_completeness x) \<and>
     dict_get d ''record_counts'' = PDict (xb_record_counts x) \<and>
     dict_get d ''valuation_assessment'' = PDict (valuation_assessment_summary (positions_of (xb_records x)) (xb_as_of_utc x))"

text \<open>A batch whose positions are valued at its observed time and whose surfaces state that valuation.\<close>

definition coherent :: "'e env_scheme \<Rightarrow> export_batch \<Rightarrow> bool" where
  "coherent e x \<longleftrightarrow>
     (\<exists>snap rest ps as base.
        xb_records x = RSnapshot snap # rest \<and> sn_snapshot_id snap = xb_snapshot_id x \<and> surface_of x (sn_payload snap) \<and>
        list_all plain_row rest \<and> positions_of rest = revalued ps as \<and> distinct (map po_position_id ps) \<and>
        list_all (\<lambda>p. po_snapshot_id p = xb_snapshot_id x) ps \<and> assess_positions e ps (xb_as_of_utc x) = Inr as \<and>
        xb_findings x = merge_valuation_findings base as \<and> xb_completeness x = completeness_status (xb_findings x) \<and>
        counts_for rest (xb_record_counts x))"

definition bound_receipt :: "export_batch \<Rightarrow> string \<Rightarrow> bool" where
  "bound_receipt x source_hash \<longleftrightarrow>
     dict_get (xb_receipt x) ''receipt_id'' = PStr (xb_receipt_id x) \<and>
     dict_get (xb_receipt x) ''source_sha256'' = PStr source_hash \<and>
     dict_get (xb_receipt x) ''adapter_version'' = PStr ADAPTER_VERSION \<and>
     dict_get (xb_receipt x) ''record_counts'' = PDict (xb_record_counts x) \<and>
     dict_get (xb_receipt x) ''valuation_assessment'' =
       PDict (valuation_assessment_summary (positions_of (xb_records x)) (xb_as_of_utc x)) \<and>
     json_plain (PDict (xb_receipt x)) \<and> json_plain (PDict (xb_record_counts x))"

lemma canonical_utc_Inr: "canonical_utc e v field rt n = Inr s \<Longrightarrow> \<exists>u. s = isoformat e u"
  by (auto simp: canonical_utc_def Let_def split: clock_reading.splits)

lemma build_time_observed:
  assumes "build_time_semantics e a b c d r = Inr (ts, fs)"
  shows "\<exists>u. ts_observed_at_utc ts = isoformat e u"
proof -
  obtain s where "canonical_utc e b ''observed_at_utc'' None None = Inr s" "ts_observed_at_utc ts = s"
    using assms by (auto simp: build_time_semantics_def Let_def split: sum.splits if_splits)
  with canonical_utc_Inr show ?thesis by metis
qed

lemma time_contract_observed:
  assumes "time_contract e rows t = Inr (ts, fs)"
  shows "\<exists>u. ts_observed_at_utc ts = isoformat e u"
  using assms unfolding time_contract_def Let_def export_error_def
  by (elim rbind_InrE) (auto dest: build_time_observed split: sum.splits prod.splits)

lemma payload_keys:
  "payload_for_snapshot e rows path ts fs mode = Inr d \<Longrightarrow>
   dict_get d ''record_counts'' = PDict (record_counts rows) \<and> ''delta_base_batch_id'' \<notin> fst ` set d \<and>
   ''materialized_position_count'' \<notin> fst ` set d"
  by (auto simp: payload_for_snapshot_def dict_get_def elim!: rbind_InrE)

lemma final_payload_surface:
  assumes "final_payload e rows path ts findings mode [] n ps observed = Inr d"
  shows "dict_get d ''findings'' = PList (map (PDict \<circ> finding_dict) findings)"
    and "dict_get d ''completeness_status'' = PStr (completeness_status findings)"
    and "dict_get d ''record_counts'' = PDict (dict_set (record_counts rows) ''position'' (PInt (int n)))"
    and "dict_get d ''valuation_assessment'' = PDict (valuation_assessment_summary ps observed)"
  using assms payload_keys by (fastforce simp: final_payload_def Let_def elim!: rbind_InrE)+

lemma summary_plain: "json_plain (PDict (valuation_assessment_summary ps t))"
  using plain_parts(8) by (simp add: valuation_assessment_summary_def)

lemma export_receipt_plain: "json_plain (PDict (export_receipt e i path h t n sid (record_counts rows)))"
  using plain_parts(6) [of rows] by (simp add: export_receipt_def)

lemma export_receipt_gets:
  "dict_get (export_receipt e i path h t n sid counts) ''receipt_id'' = PStr i"
  "dict_get (export_receipt e i path h t n sid counts) ''source_sha256'' = PStr h"
  "dict_get (export_receipt e i path h t n sid counts) ''adapter_version'' = PStr ADAPTER_VERSION"
  by (simp_all add: export_receipt_def dict_get_def)

lemma assemble_full:
  assumes "assemble_export e a rows src h t db = Inr x" and "ia_coverage_mode a = ''full''"
  shows "coherent e x" and "bound_receipt x h"
    and "\<exists>ts fs. time_contract e rows t = Inr (ts, fs) \<and> xb_time_semantics x = time_dict ts \<and> xb_as_of_utc x = ts_observed_at_utc ts"
proof -
  obtain ts tf records final fs c refs sid where time: "time_contract e rows t = Inr (ts, tf)"
      and recs: "records_from_rows e rows refs sid (ts_observed_at_utc ts) (ia_export_path a) src (time_dict ts)
        (tf @ identity_findings rows) ''full'' = Inr records"
      and fin: "finalize_valuation_on_records e records (tf @ identity_findings rows) (ts_observed_at_utc ts) (time_dict ts) ''full''
        rows (ia_export_path a) = Inr (final, fs, c)"
      and x: "xb_records x = final" "xb_findings x = fs" "xb_completeness x = c" "xb_time_semantics x = time_dict ts"
        "xb_as_of_utc x = ts_observed_at_utc ts" "xb_snapshot_id x = sid"
        "xb_record_counts x = dict_set (record_counts rows) ''position'' (PInt (int (length (positions_of final))))"
      and receipt: "xb_receipt x = dict_set (dict_set (dict_set (dict_set (export_receipt e (xb_receipt_id x) (ia_export_path a) h
           (ts_observed_at_utc ts) (length rows) sid (record_counts rows)) ''source_ref'' (PStr src)) ''deletions'' 
           (PList (map deletion_json (ia_tombstones a)))) ''record_counts'' (PDict (xb_record_counts x))) ''valuation_assessment''
           (PDict (valuation_assessment_summary (positions_of final) (ts_observed_at_utc ts)))"
    using assms unfolding assemble_export_def Let_def
    by (elim rbind_InrE) (auto elim!: rbind_InrE)
  from records_from_rows_built [OF recs] obtain snap rest where records: "records = RSnapshot snap # rest"
      and snap: "sn_snapshot_id snap = sid" and built: "built_from sid rows rest"
      and payload: "payload_for_snapshot e rows (ia_export_path a) (time_dict ts) (tf @ identity_findings rows) ''full'' = Inr (sn_payload snap)" .
  have prior: "prior_delta (RSnapshot snap # rest) = []" using payload_keys [OF payload] by (simp add: prior_delta_def)
  from finalize_full [OF fin [unfolded records] built prior] obtain as d rest'
    where as: "assess_positions e (positions_of rest) (ts_observed_at_utc ts) = Inr as"
      and final: "final = RSnapshot (snap\<lparr>sn_payload := d\<rparr>) # rest'" and pos: "positions_of rest' = revalued (positions_of rest) as"
      and fs: "fs = merge_valuation_findings (tf @ identity_findings rows) as" "c = completeness_status fs"
      and d: "final_payload e rows (ia_export_path a) (time_dict ts) fs ''full'' [] (length (positions_of rest)) (positions_of rest')
        (ts_observed_at_utc ts) = Inr d"
      and plain: "list_all plain_row rest'" and counts: "\<forall>k. class_count rest' k = class_count rest k" .
  have len: "length (positions_of final) = length (positions_of rest)"
    using assess_positions_length [OF as] by (simp add: final pos)
  have final_pos: "positions_of final = positions_of rest'" by (simp add: final)
  have "surface_of x d"
    using final_payload_surface [OF d] unfolding surface_of_def x fs(2) len by (simp add: final_pos)
  moreover have "counts_for rest' (xb_record_counts x)" using counts_for_final [OF built spec [OF counts]] by (simp add: x len)
  moreover have "distinct (map po_position_id (positions_of rest))" "list_all (\<lambda>p. po_snapshot_id p = sid) (positions_of rest)"
    using built by (simp_all add: built_from_def)
  ultimately show "coherent e x"
    unfolding coherent_def x(1-3,5,6) using final snap plain pos as fs by fastforce
  have "json_plain (PDict (xb_record_counts x))" unfolding x by (intro plain_set plain_parts) simp
  moreover from this have "json_plain (PDict (xb_receipt x))"
    unfolding receipt by (intro plain_set summary_plain export_receipt_plain) (auto simp: list_all_iff)
  ultimately show "bound_receipt x h"
    unfolding bound_receipt_def x(1,5) receipt by (simp add: export_receipt_gets del: json_plain.simps)
  show "\<exists>ts fs. time_contract e rows t = Inr (ts, fs) \<and> xb_time_semantics x = time_dict ts \<and> xb_as_of_utc x = ts_observed_at_utc ts"
    using time x by blast
qed

section \<open>The contract\<close>

lemma py_of_values [simp]:
  "py_list_of (PList xs) = Inr xs" "py_dict_of (PDict d) = Inr d" "py_object_of (PDict d) = Inr d"
  by (auto simp: py_list_of_def py_dict_of_def py_object_of_def pyval_truthy_def)

lemma tuples_read_back: "valuation_tuples (map (json_norm e \<circ> PDict \<circ> finding_dict) fs) = valuation_tuples (map (PDict \<circ> finding_dict) fs)"
proof (induction fs)
  case (Cons f fs)
  have get: "dict_get (json_object e (finding_dict f)) k = dict_get (finding_dict f) k" for k
    unfolding dict_get_json_object by (simp add: finding_dict_def dict_get_def opt_json_def int_json_def split: option.splits)
  then have "is_valuation_finding (PDict (json_object e (finding_dict f))) = is_valuation_finding (PDict (finding_dict f))"
      "normalize_tuple (json_object e (finding_dict f)) = normalize_tuple (finding_dict f)"
    by (simp_all add: is_valuation_finding_def normalize_tuple_def)
  note same = this
  show ?case using Cons by (simp add: json_object_PDict same del: json_norm.simps cong del: if_weak_cong)
qed simp

lemma completeness_stored: "stored_completeness (map finding_dict fs) = completeness_status fs"
proof -
  have "stored_severity (finding_dict f) = PStr ''blocking'' \<longleftrightarrow> if_severity f = ''blocking''" for f
    by (auto simp: stored_severity_def finding_dict_def dict_get_def or_text_def pyval_truthy_def)
  then show ?thesis by (simp add: stored_completeness_def completeness_status_def list_ex_iff)
qed

lemma counter_eq_refl [simp]: "counter_eq xs xs"
  by (simp add: counter_eq_def list_all_iff)

text \<open>The contract holds of a coherent batch whose receipt and snapshot state its surface.\<close>

lemma coherent_contract:
  fixes e :: "'e import_env_scheme"
  assumes "coherent e0 x" and "fromisoformat e = fromisoformat e0"
    and batch: "ib_findings b = map finding_dict (xb_findings x)" "ib_completeness_status b = xb_completeness x"
      "ib_record_counts b = xb_record_counts x" "dict_get (ib_time_semantics b) ''observed_at_utc'' = PStr (xb_as_of_utc x)"
    and manifest: "rm_record_counts m = xb_record_counts x" "rm_snapshot_id m = xb_snapshot_id x"
    and receipt: "read_artifact e root (rm_receipt_artifact_id m) fs = Inr content" "json_loads e content = Some (PDict (json_object e1 r))"
      "surface_of x r" "json_plain (PDict (xb_record_counts x))"
    and nonempty: "xb_as_of_utc x \<noteq> []" and records: "records = RReceipt i # xb_records x @ map RTombstone ts"
  shows "validate_import_valuation_contract e root fs source b m records = Inr ()"
proof -
  from assms(1) obtain snap rest ps as base where x: "xb_records x = RSnapshot snap # rest" "sn_snapshot_id snap = xb_snapshot_id x"
      "surface_of x (sn_payload snap)" "list_all plain_row rest" "positions_of rest = revalued ps as" "distinct (map po_position_id ps)"
      "list_all (\<lambda>p. po_snapshot_id p = xb_snapshot_id x) ps" "assess_positions e0 ps (xb_as_of_utc x) = Inr as"
      "xb_findings x = merge_valuation_findings base as" "xb_completeness x = completeness_status (xb_findings x)"
      "counts_for rest (xb_record_counts x)"
    unfolding coherent_def by blast
  have len: "length ps = length as" using assess_positions_length [OF x(8)] by simp
  have plain_lists: "snapshots_of rest = []" "snapshots_of (map RTombstone ts) = []" "positions_of (map RTombstone ts) = []"
  proof -
    show "snapshots_of rest = []" using x(4)
    proof (induction rest)
      case (Cons r rest)
      then show ?case by (cases r) (simp_all add: plain_row_def)
    qed simp
    show "snapshots_of (map RTombstone ts) = []" "positions_of (map RTombstone ts) = []" by (induction ts) simp_all
  qed
  have pos: "positions_of records = revalued ps as" and snaps: "snapshots_of records = [snap]"
    by (simp_all add: records x(1,5) plain_lists)
  have sn: "filter (\<lambda>s. sn_snapshot_id s = rm_snapshot_id m) (snapshots_of records) = [snap]"
    by (simp add: snaps manifest x(2))
  have assessed: "assess_positions e (revalued ps as) (xb_as_of_utc x) = Inr as"
    using x(8) assess_same_calendar [OF assms(2)] assess_revalued [OF len] by metis
  have observed: "observed_at_from_batch e b = Inr (xb_as_of_utc x)"
    using nonempty by (simp add: observed_at_from_batch_def batch(4) py_str_def pyval_truthy_def)
  note expected = merged_tuples [OF x(8), of base, folded x(9)]
  have read: "dict_get (json_object e1 r) k = json_norm e1 (dict_get r k)" for k by (rule dict_get_json_object)
  have "findings_agree b snap (json_object e1 r) as = Inr ()"
    using x(3) receipt(3) expected tuples_read_back [of e1 "xb_findings x"]
    by (simp add: findings_agree_def surface_of_def batch read comp_assoc rbind_unit_iff o_def)
  moreover have "surfaces_agree b m snap (json_object e1 r) records = Inr ()"
  proof -
    have same: "py_eq (json_norm e1 (PDict (xb_record_counts x))) (PDict (xb_record_counts x))"
      by (rule py_eq_json [OF receipt(4)])
    have "length (positions_of rest) = class_count rest ''Position''" by (simp add: positions_counted)
    moreover have "dict_get_or (xb_record_counts x) ''position'' (PInt 0) = PInt (int (class_count rest ''Position''))"
      using x(11) unfolding counts_for_def class_codes by simp
    ultimately have count: "dict_get_or (xb_record_counts x) ''position'' (PInt 0) = PInt (int (length (positions_of records)))"
      by (simp add: pos x(5))
    have "counts_agree (xb_record_counts x) records" using counts_for_agree [OF x(11)] records x(1) by simp
    moreover have "list_all (\<lambda>p. po_snapshot_id p = rm_snapshot_id m) (positions_of records)"
      using x(7) len unfolding pos manifest list_all_length by (simp add: revalued_def)
    ultimately show ?thesis
      using x(3,10) receipt(3) same
      by (simp add: surfaces_agree_def surface_of_def batch manifest read count snaps completeness_stored json_object_PDict
          rbind_unit_iff del: json_norm.simps(8))
  qed
  moreover have "assessment_agrees (xb_as_of_utc x) as (valuation_assessment_summary (revalued ps as) (xb_as_of_utc x)) = Inr ()"
      "assessment_agrees (xb_as_of_utc x) as (json_object e1 (valuation_assessment_summary (revalued ps as) (xb_as_of_utc x))) = Inr ()"
    using py_eq_json [of "PDict (canonical_status_counts as)" e1] plain_parts(8) unfolding summary_revalued [OF len]
    by (simp_all add: assessment_agrees_def dict_get_json_object rbind_unit_iff canonical_status_counts_def dict_get_def
        map_of_json_object del: json_norm.simps(8) json_plain.simps(8))
  ultimately show ?thesis
    using x(3) receipt(3) statuses_revalued [OF len x(6)] policies_assessed [OF x(8)]
    by (simp add: validate_import_valuation_contract_def sn observed assessed pos receipt(1,2) read surface_of_def x(1,5)
        plain_lists json_object_PDict rbind_unit_iff del: json_norm.simps(8))
qed

end
