(* ===== verification/Char_Code.thy ===== *)
theory Char_Code
  imports Authority_Models Import_Provenance
begin

text \<open>
  Equations for the evaluation of the character functions on the bits of a character, where the
  definitions count with natural numbers.
\<close>

section \<open>Bits and code points\<close>

lemma code_point:
  "(of_char (Char b0 b1 b2 b3 b4 b5 b6 b7) :: nat) =
     of_bool b0 + 2 * of_bool b1 + 4 * of_bool b2 + 8 * of_bool b3 + 16 * of_bool b4 + 32 * of_bool b5 + 64 * of_bool b6 + 128 * of_bool b7"
  by (simp add: of_char_def)

lemma high_bit: "(of_char c < (128 :: nat)) \<longleftrightarrow> \<not> digit7 c"
  by (cases c) (simp add: code_point of_bool_def)

lemma space_bits: "\<not> digit7 c \<Longrightarrow> ((32 :: nat) \<le> of_char c) \<longleftrightarrow> digit5 c \<or> digit6 c"
  by (cases c) (simp add: code_point of_bool_def)

lemma quoted_points: "(of_char c = (34 :: nat)) \<longleftrightarrow> c = CHR 0x22" "(of_char c = (92 :: nat)) \<longleftrightarrow> c = CHR 0x5C"
  "(of_char c = (127 :: nat)) \<longleftrightarrow> c = CHR 0x7F" "(of_char c = (32 :: nat)) \<longleftrightarrow> c = CHR '' ''"
  using of_char_eq_iff [of c "CHR 0x22", where 'a = nat] of_char_eq_iff [of c "CHR 0x5C", where 'a = nat]
    of_char_eq_iff [of c "CHR 0x7F", where 'a = nat] of_char_eq_iff [of c "CHR '' ''", where 'a = nat]
  by simp_all

section \<open>Texts\<close>

lemma utf8_bits [code]:
  "utf8 s = concat (map (\<lambda>c. if \<not> digit7 c then [c]
     else let n = (of_char c :: nat) in [char_of (192 + n div 64), char_of (128 + n mod 64)]) s)"
  unfolding utf8_def Let_def high_bit ..

definition printable :: "char \<Rightarrow> bool" where
  "printable c \<longleftrightarrow> \<not> digit7 c \<and> (digit5 c \<or> digit6 c) \<and> c \<noteq> CHR 0x22 \<and> c \<noteq> CHR 0x5C \<and> c \<noteq> CHR 0x7F"

lemma printable_point: "printable c \<longleftrightarrow> (32 :: nat) \<le> of_char c \<and> of_char c \<le> (126 :: nat) \<and> of_char c \<noteq> (34 :: nat) \<and> of_char c \<noteq> (92 :: nat)"
  unfolding printable_def quoted_points [symmetric] high_bit [symmetric] using space_bits [of c] high_bit [of c] by auto

lemma json_escape_bits [code]:
  "json_escape c = (if printable c then [c]
     else let n = (of_char c :: nat); b = CHR 0x5C in
      if n = 34 \<or> n = 92 then [b, c]
      else if n = 10 then [b, CHR ''n''] else if n = 13 then [b, CHR ''r'']
      else if n = 9 then [b, CHR ''t''] else if n = 8 then [b, CHR ''b'']
      else if n = 12 then [b, CHR ''f'']
      else [b, CHR ''u'', CHR ''0'', CHR ''0'', hex_digit (n div 16), hex_digit (n mod 16)])"
  unfolding json_escape_def Let_def by (auto simp: printable_point)

lemma json_raw_escape_bits [code]: "json_raw_escape c = (if printable c then [c] else if digit7 c \<or> c = CHR 0x7F then [c] else json_escape c)"
proof -
  have "(126 :: nat) < of_char c \<longleftrightarrow> digit7 c \<or> c = CHR 0x7F"
    using high_bit [of c] quoted_points(3) [of c] by auto
  moreover have "json_escape c = [c]" if "printable c" using that by (simp add: json_escape_bits)
  ultimately show ?thesis by (auto simp: json_raw_escape_def)
qed

lemma py_isspace_bits [code]:
  "py_isspace c = (if \<not> digit7 c \<and> (digit5 c \<or> digit6 c) then c = CHR '' ''
     else let n = (of_char c :: nat) in (9 \<le> n \<and> n \<le> 13) \<or> (28 \<le> n \<and> n \<le> 32) \<or> n = 133 \<or> n = 160)"
  using space_bits [of c] high_bit [of c] quoted_points(4) [of c] by (auto simp: py_isspace_def Let_def)

section \<open>Letters\<close>

definition letter_bits :: "char \<Rightarrow> bool" where
  "letter_bits c \<longleftrightarrow> \<not> digit7 c \<and> digit6 c \<and> (digit0 c \<or> digit1 c \<or> digit2 c \<or> digit3 c \<or> digit4 c) \<and>
     \<not> (digit4 c \<and> digit3 c \<and> (digit2 c \<or> digit1 c \<and> digit0 c))"

definition upper_point :: "char \<Rightarrow> bool" where
  "upper_point c \<longleftrightarrow> (65 :: nat) \<le> of_char c \<and> of_char c \<le> (90 :: nat)"

definition lower_point :: "char \<Rightarrow> bool" where
  "lower_point c \<longleftrightarrow> (97 :: nat) \<le> of_char c \<and> of_char c \<le> (122 :: nat)"

lemma letter_points [code]: "upper_point c \<longleftrightarrow> letter_bits c \<and> \<not> digit5 c" "lower_point c \<longleftrightarrow> letter_bits c \<and> digit5 c"
  by (cases c; simp add: code_point upper_point_def lower_point_def letter_bits_def of_bool_def)+

definition digit_point :: "char \<Rightarrow> bool" where
  "digit_point c \<longleftrightarrow> (48 :: nat) \<le> of_char c \<and> of_char c \<le> (57 :: nat)"

lemma digit_points [code]:
  "digit_point c \<longleftrightarrow> \<not> digit7 c \<and> \<not> digit6 c \<and> digit5 c \<and> digit4 c \<and> \<not> (digit3 c \<and> (digit2 c \<or> digit1 c))"
  by (cases c) (simp add: code_point digit_point_def of_bool_def)

lemma py_isalnum_bits [code]:
  "py_isalnum c = (if \<not> digit7 c then digit_point c \<or> letter_bits c
     else let n = (of_char c :: nat) in n = 170 \<or> n = 178 \<or> n = 179 \<or> n = 181 \<or> n = 185 \<or> n = 186
         \<or> (188 \<le> n \<and> n \<le> 190) \<or> (192 \<le> n \<and> n \<le> 214) \<or> (216 \<le> n \<and> n \<le> 246) \<or> (248 \<le> n \<and> n \<le> 255))"
proof -
  have letter: "letter_bits c \<longleftrightarrow> upper_point c \<or> lower_point c" unfolding letter_points by blast
  define n where "n = (of_char c :: nat)"
  show ?thesis
  proof (cases "digit7 c")
    case True
    then have "128 \<le> n" using high_bit [of c] by (simp add: n_def)
    then have "\<not> n \<le> 57 \<and> \<not> n \<le> 90 \<and> \<not> n \<le> 122" by simp
    with True show ?thesis unfolding py_isalnum_def Let_def n_def [symmetric] by simp
  next
    case False
    then have "n < 128" using high_bit [of c] by (simp add: n_def)
    then have "n \<noteq> 170 \<and> n \<noteq> 178 \<and> n \<noteq> 179 \<and> n \<noteq> 181 \<and> n \<noteq> 185 \<and> n \<noteq> 186 \<and> \<not> 188 \<le> n \<and> \<not> 192 \<le> n \<and> \<not> 216 \<le> n \<and> \<not> 248 \<le> n"
      by simp
    with False show ?thesis
      unfolding py_isalnum_def Let_def n_def [symmetric] letter digit_point_def upper_point_def lower_point_def by simp
  qed
qed

lemma py_lower_char_bits [code]:
  "py_lower_char c = (if \<not> digit7 c \<and> \<not> upper_point c then c
     else let n = (of_char c :: nat) in if n \<le> 90 \<or> (192 \<le> n \<and> n \<le> 214) \<or> (216 \<le> n \<and> n \<le> 222) then char_of (n + 32) else c)"
  using high_bit [of c] by (auto simp: py_lower_char_def Let_def upper_point_def)

lemma py_upper_char_bits [code]:
  "py_upper_char c = (if \<not> digit7 c \<and> \<not> lower_point c then [c]
     else if lower_point c then [Char (digit0 c) (digit1 c) (digit2 c) (digit3 c) (digit4 c) False (digit6 c) (digit7 c)]
     else let n = (of_char c :: nat) in if n = 223 then ''SS''
       else if (224 \<le> n \<and> n \<le> 246) \<or> (248 \<le> n \<and> n \<le> 254) then [char_of (n - 32)] else [c])"
proof (cases "lower_point c")
  case True
  obtain b0 b1 b2 b3 b4 b5 b6 b7 where c: "c = Char b0 b1 b2 b3 b4 b5 b6 b7" by (cases c)
  from True have b5 unfolding letter_points c by simp
  then have "(of_char c :: nat) - 32 = of_char (Char b0 b1 b2 b3 b4 False b6 b7)" by (simp add: c code_point)
  then have "char_of ((of_char c :: nat) - 32) = Char b0 b1 b2 b3 b4 False b6 b7" by (simp only: char_of_char)
  with True show ?thesis by (simp add: py_upper_char_def Let_def lower_point_def) (simp add: c)
next
  case False
  then show ?thesis using high_bit [of c] by (auto simp: py_upper_char_def Let_def lower_point_def)
qed

lemma ascii_alpha_bits [code]: "ascii_alpha c = letter_bits c"
proof -
  have "letter_bits c \<longleftrightarrow> upper_point c \<or> lower_point c" unfolding letter_points by blast
  then show ?thesis by (simp add: ascii_alpha_def Let_def upper_point_def lower_point_def)
qed

end
