(* ===== verification/Personal_Finance_Demo.thy ===== *)
theory Personal_Finance_Demo
  imports Personal_Finance_Ingest Artifact_Properties Char_Code
begin

text \<open>
  A concrete import for the examples: a file with one position and one liability and a delta with one more liability, on a disk whose
  digest tells the projection and the receipt from other texts, and those by their length.
\<close>

definition demo_digest :: "string \<Rightarrow> string" where
  "demo_digest c = replicate 64
     (if c \<noteq> [] \<and> hd c = CHR 0x7B then if hd (tl c) = CHR 0x22 then CHR ''b'' else CHR ''c''
      else ''0123456789'' ! (length c mod 10))"

definition demo_csv :: csv_file where
  "demo_csv = CsvTable
     [''record_type'', ''account_id'', ''account_name'', ''account_kind'', ''venue'', ''symbol'', ''quantity'', ''currency'', ''as_of_utc'',
      ''market_value'', ''valuation_currency'', ''unit_price'', ''price_currency'', ''valued_at_utc'', ''price_source_ref'',
      ''liability_id'', ''name'', ''liability_type'', ''balance'']
     [[(''account_id'', Some ''A''), (''account_name'', Some ''Main''), (''account_kind'', Some ''bank''), (''venue'', Some ''X''),
       (''symbol'', Some ''aaa''), (''quantity'', Some ''1''), (''currency'', Some ''usd''), (''as_of_utc'', Some ''tttt''),
       (''market_value'', Some ''1''), (''valuation_currency'', Some ''USD''), (''unit_price'', Some ''1''),
       (''price_currency'', Some ''USD''), (''valued_at_utc'', Some ''tttt''), (''price_source_ref'', Some ''feed'')],
      [(''record_type'', Some ''liability''), (''liability_id'', Some ''L1''), (''name'', Some ''Loan''),
       (''liability_type'', Some ''loan''), (''balance'', Some ''1''), (''currency'', Some ''USD''), (''as_of_utc'', Some ''tttt'')]]"

definition demo_delta_csv :: csv_file where
  "demo_delta_csv = CsvTable
     [''record_type'', ''liability_id'', ''name'', ''liability_type'', ''balance'', ''currency'', ''as_of_utc'']
     [[(''record_type'', Some ''liability''), (''liability_id'', Some ''L2''), (''name'', Some ''Card''),
       (''liability_type'', Some ''card''), (''balance'', Some ''1''), (''currency'', Some ''USD''), (''as_of_utc'', Some ''tttt'')]]"

definition demo_ingest_env :: "(string \<Rightarrow> pyval option) \<Rightarrow> ingest_env" where
  "demo_ingest_env loads =
     \<lparr>clock = (\<lambda>i. ''tttttt''), stamp = (\<lambda>i. ''S''), uuid8 = (\<lambda>i. ''0a1b2c3d''),
      fromisoformat = (\<lambda>s. Some (int (length s) - 1, Some 0)), isoformat = (\<lambda>t. replicate (nat t + 1) (CHR ''t'')),
      resolve_path = (\<lambda>ps. None), display_path = (\<lambda>p. p), write_fails = (\<lambda>p. False),
      commit_fails = (\<lambda>i. False), coerce_money = (\<lambda>v. None), py_repr = (\<lambda>v. ''value''), pick_row = (\<lambda>i n. 0),
      realpath = (\<lambda>p. p), sha256 = demo_digest, py_int = (\<lambda>v. None), is_symlink = (\<lambda>p. False),
      utc_now = 0, uuid_hex = ''0123456789abcdef0123456789abcdef'', io_fault = (\<lambda>p. False),
      json_loads = loads, csv_file_at = (\<lambda>p. if p = ''/p/e.csv'' then demo_csv else demo_delta_csv), file_bytes = (\<lambda>p. Some ''rows''),
      decimal_of = (\<lambda>s. Finite (Dec 1 0)), decimal_text = (\<lambda>d. ''1''), project_root = ''/p'', uuid7 = ''7''\<rparr>"

definition demo_ingest_args :: ingest_args where
  "demo_ingest_args =
     \<lparr>ia_export_path = ''/p/e.csv'', ia_receipt_root = ''/p/r'', ia_artifact_root = Some ''/s'', ia_snapshot_id = None,
      ia_coverage_mode = ''full'', ia_supersedes_batch_id = None, ia_correction_reason = None, ia_tombstones = [],
      ia_covered_domains = None, ia_source_id = None\<rparr>"

definition empty_import_db :: import_db where
  "empty_import_db =
     \<lparr>db_batches = [], db_manifests = [], db_tombstones = [], db_receipts = [], db_snapshots = [], db_positions = [],
      db_accounts = [], db_account_identities = [], db_instrument_identities = [], db_aliases = [], db_sources = [],
      db_source_aliases = [], db_owned = []\<rparr>"

definition no_evidence :: evidence_files where
  "no_evidence = \<lparr>ef_artifacts = empty_store, ef_receipts = Map.empty\<rparr>"

section \<open>Evidence without faults\<close>

definition quiet_calls :: "(nat \<Rightarrow> 'e io_env_scheme) \<Rightarrow> bool" where
  "quiet_calls es \<longleftrightarrow> (\<forall>n p. \<not> io_fault (es n) p) \<and> (\<forall>n. same_disk (es n) (es 0))"

lemma quiet_calls_put:
  assumes "quiet_calls es" and "put_descriptor (es 0) a = Inr d" and "descriptor_path (es 0) root (pa_artifact_id a) = Inr p"
    and "object_path (es 0) root (ad_content_sha256 d) = Inr hp"
    and "resolve_under (es 0) root [''index-entries'', index_entry_name (es 0) (ad_artifact_id d)] = Inr ip"
    and "map_of (fs_descriptors fs) p = None" and "map_of (fs_objects fs) (ad_content_sha256 d) = None"
  shows "put_artifact es root a fs =
    (Inr d, fs\<lparr>fs_descriptors := fs_descriptors fs @ [(p, Some d)],
      fs_objects := fs_objects fs @ [(ad_content_sha256 d, pa_content a)],
      fs_entries := AList.update ip (ValidIndex (ad_artifact_id d, ad_content_sha256 d)) (fs_entries fs)\<rparr>)"
proof -
  have disk: "same_disk (es n) (es 0)" and silent: "\<not> io_fault (es n) q" for n q using assms(1) unfolding quiet_calls_def by blast+
  let ?fs = "fs\<lparr>fs_descriptors := fs_descriptors fs @ [(p, Some d)], fs_objects := fs_objects fs @ [(ad_content_sha256 d, pa_content a)]\<rparr>"
  have link: "exclusive_link (es n) k v dir = (Inr True, dir @ [(k, v)])" if "map_of dir k = None" for n k v dir
    using that by (simp add: exclusive_link_def silent map_of_None_keys)
  have "descriptor (es 0) root (pa_artifact_id a) ?fs = Inr d" using assms(3,6) by (simp add: descriptor_def map_add_def)
  then have "read_artifact (es 0) root (pa_artifact_id a) ?fs = Inr (pa_content a)"
    using assms(4,7) put_descriptor_hash [OF assms(2)] by (simp add: read_artifact_def map_add_def)
  then have read: "read_artifact (es 1) root (pa_artifact_id a) ?fs = Inr (pa_content a)"
    using same_disk_read(2) [OF disk] by metis
  have bytes: "write_bytes_once (es 1) (ad_content_sha256 d) (pa_content a) (fs_objects fs) =
      (Inr (), fs_objects fs @ [(ad_content_sha256 d, pa_content a)])"
    using assms(7) by (simp add: write_bytes_once_def link map_add_def del: One_nat_def)
  have "resolve_under (es 2) root [''index-entries'', index_entry_name (es 2) (ad_artifact_id d)] = Inr ip"
    using assms(5) disk [of 2] unfolding index_entry_name_def same_disk_resolve [OF disk [of 2]] by (simp add: same_disk_def)
  then show ?thesis
    using assms(2-4,6) read
    by (simp add: put_artifact_def link publish_artifact_def bytes Let_def descriptors_compatible_def write_index_entry_def silent
        del: One_nat_def)
qed

text \<open>Evidence that is already there is verified and returned.\<close>

lemma present_evidence:
  assumes "descriptor (es 0) root i fs = Inr d" and "read_artifact (es 0) root i fs = Inr c" and "ad_artifact_schema d = schema"
    and "ad_owner_domain d = ''capital_imports''"
  shows "put_or_verify es root i c schema t refs meta fs = (Inr d, fs)"
  using assms by (simp add: put_or_verify_def)

lemma fresh_evidence:
  assumes "descriptor_path (es 0) root i = Inr p" and "map_of (fs_descriptors fs) p = None"
  shows "put_or_verify es root i c schema t refs meta fs = put_artifact es root (evidence_put i c schema t refs meta) fs"
  using assms by (simp add: put_or_verify_def descriptor_def)

section \<open>Heads of the written texts\<close>

lemma json_object_length: "length (json_object e d) = length d"
  by (simp add: json_object_def)

lemma projection_head: "d \<noteq> [] \<Longrightarrow> \<exists>t. canonical_projection_bytes e d = CHR 0x7B # CHR 0x22 # t"
proof -
  assume "d \<noteq> []"
  then obtain k v kvs where kvs: "json_object e d = (k, v) # kvs" using json_object_length [of e d] by (cases "json_object e d") auto
  have "\<exists>t. py_join '','' (map (\<lambda>(k, t). json_raw_str k @ '':'' @ t) (map (map_prod id json_compact) (json_object e d))) = CHR 0x22 # t"
    unfolding kvs by (cases kvs) (auto simp: json_raw_str_def)
  then show ?thesis
    by (auto simp: canonical_projection_bytes_def json_object_PDict utf8_def simp del: json_norm.simps)
qed

lemma receipt_head: "d \<noteq> [] \<Longrightarrow> \<exists>t. canonical_json_bytes e d = CHR 0x7B # CHR 0x0A # t"
proof -
  assume "d \<noteq> []"
  then have "json_object e d \<noteq> []" using json_object_length [of e d] by auto
  then show ?thesis
    by (auto simp: canonical_json_bytes_def json_object_PDict utf8_def indent_line_def simp del: json_norm.simps)
qed

section \<open>The import\<close>

definition demo_es :: "(string \<Rightarrow> pyval option) \<Rightarrow> nat \<Rightarrow> ingest_env" where
  "demo_es loads n = (if n < 13 then demo_ingest_env (\<lambda>_. None) else demo_ingest_env loads)"

abbreviation "demo_e0 \<equiv> demo_ingest_env (\<lambda>_. None)"

lemma demo_env_fields [simp]:
  "sha256 (demo_ingest_env loads) = demo_digest" "io_fault (demo_ingest_env loads) q = False" "clock (demo_ingest_env loads) k = ''tttttt''"
  "file_bytes (demo_ingest_env loads) p = Some ''rows''" "realpath (demo_ingest_env loads) p = p"
  "fromisoformat (demo_ingest_env loads) = (\<lambda>s. Some (int (length s) - 1, Some 0))" "isoformat (demo_ingest_env loads) t \<noteq> []"
  "json_loads (demo_ingest_env loads) = loads"
  by (simp_all add: demo_ingest_env_def)

lemma demo_es_fields [simp]:
  "io_fault (demo_es loads n) q = False" "realpath (demo_es loads n) p = p" "sha256 (demo_es loads n) = demo_digest"
  "demo_es loads 0 = demo_e0" "demo_es loads (Suc 0) = demo_e0" "demo_es loads 3 = demo_e0" "demo_es loads 6 = demo_e0"
  "demo_es loads 12 = demo_e0"
  by (simp_all add: demo_es_def demo_ingest_env_def)

lemma demo_es_quiet: "quiet_calls (\<lambda>n. demo_es loads (n + k))" "same_disk (demo_es loads n) (demo_es loads m)"
  unfolding quiet_calls_def same_disk_def by (simp_all add: fun_eq_iff)

definition segment :: "string \<Rightarrow> bool" where
  "segment x \<longleftrightarrow> x \<noteq> [] \<and> hd x \<noteq> CHR ''/'' \<and> last x \<noteq> CHR ''/''"

lemma demo_es_resolve:
  "segment x \<Longrightarrow> segment y \<Longrightarrow> resolve_under (demo_es loads n) ''/s'' [x, y] = Inr (''/s/'' @ x @ ''/'' @ y)"
  "segment x \<Longrightarrow> segment y \<Longrightarrow> segment z \<Longrightarrow>
     resolve_under (demo_es loads n) ''/s'' [x, y, z] = Inr (''/s/'' @ x @ ''/'' @ y @ ''/'' @ z)"
  by (auto simp: resolve_under_def segment_def path_join_def starts_with_def)

definition demo_rows :: "csv_row list" where
  "demo_rows = (case demo_csv of CsvTable _ rows \<Rightarrow> rows | _ \<Rightarrow> [])"

lemma demo_checked: "check_export demo_e0 demo_ingest_args = Inr (demo_rows, [''liability'', ''position''])"
  by code_simp

definition demo_registered_db :: import_db where
  "demo_registered_db = empty_import_db
     \<lparr>db_sources := [registered_source demo_e0 ''source_7'' EXPORT_KIND ''path'' ''/p/e.csv'' (Some ''e.csv'')],
      db_source_aliases := [registered_alias demo_e0 ''source_7'' ''path'' ''/p/e.csv'']\<rparr>"

lemma demo_registered:
  "resolve_or_register_import_source demo_e0 (uuid7 demo_e0) EXPORT_KIND ''path'' (canonical_path_alias demo_e0 (ia_export_path demo_ingest_args))
     (ia_source_id demo_ingest_args) (Some (path_name (ia_export_path demo_ingest_args))) empty_import_db =
   (Inr (registered_source demo_e0 ''source_7'' EXPORT_KIND ''path'' ''/p/e.csv'' (Some ''e.csv'')), demo_registered_db)"
  by code_simp

text \<open>What the preparation needs of a batch.\<close>

definition demo_ready :: "ingest_args \<Rightarrow> export_batch \<Rightarrow> bool" where
  "demo_ready a x \<longleftrightarrow>
     xb_completeness x \<in> {''complete'', ''partial'', ''blocked''} \<and> map fst (xb_time_semantics x) = REQUIRED_CLOCKS \<and>
     list_all (\<lambda>f. if_severity f \<in> {''partial'', ''blocking''}) (xb_findings x) \<and>
     xb_batch_id x = derive_import_batch_id demo_e0 EXPORT_KIND ''source_7'' (demo_digest ''rows'') ADAPTER_VERSION (ia_coverage_mode a) None None \<and>
     (case resolve_under demo_e0 (ia_receipt_root a) [xb_receipt_id x @ ''.json''] of Inl _ \<Rightarrow> False | Inr _ \<Rightarrow> True) \<and>
     ia_coverage_mode a \<in> {''full'', ''delta''} \<and> ia_artifact_root a = Some ''/s'' \<and> ia_tombstones a = [] \<and>
     ia_supersedes_batch_id a = None \<and> ia_correction_reason a = None"

definition demo_export :: "export_batch res" where
  "demo_export = assemble_export demo_e0 demo_ingest_args demo_rows ''source_7'' (demo_digest ''rows'') ''tttttt'' demo_registered_db"

lemma demo_assembled: "case demo_export of Inl _ \<Rightarrow> False | Inr x \<Rightarrow> demo_ready demo_ingest_args x"
  by code_simp

lemma demo_digest_hex: "\<exists>x. demo_digest c = replicate 64 x \<and> x \<in> set ''0123456789abc''"
proof -
  have "length c mod 10 < 10" by simp
  then have "''0123456789'' ! (length c mod 10) \<in> set ''0123456789''" using nth_mem [of "length c mod 10" "''0123456789''"] by simp
  then show ?thesis by (auto simp: demo_digest_def)
qed

lemma hex_segments:
  assumes "x \<in> set ''0123456789abc''"
  shows "is_sha256 (replicate 64 x)" "segment (replicate 64 x @ ''.bin'')" "segment (replicate 64 x @ ''.json'')"
    "segment (take 2 (replicate 64 x))"
proof -
  have x: "x \<in> set ''0123456789abcdef''" "x \<noteq> CHR ''/''" using assms by auto
  then show "is_sha256 (replicate 64 x)" unfolding is_sha256_def by (simp add: list_all_iff)
  show "segment (replicate 64 x @ ''.bin'')" "segment (replicate 64 x @ ''.json'')" "segment (take 2 (replicate 64 x))"
    using x(2) by (simp_all add: segment_def hd_append)
qed

lemma fixed_segments: "segment ''descriptors''" "segment ''index-entries''" "segment ''objects''" "py_strip ''capital_imports'' = ''capital_imports''"
  by (simp_all add: segment_def) code_simp

lemma demo_stored_put:
  assumes "segment i" and "segment (i @ ''.json'')" and "py_strip i = i" and "demo_digest c = replicate 64 x" and "x \<in> set ''0123456789abc''"
    and "map_of (fs_descriptors fs) (''/s/descriptors/'' @ i @ ''.json'') = None" and "map_of (fs_objects fs) (replicate 64 x) = None"
    and "a = \<lparr>pa_artifact_id = i, pa_content = c, pa_artifact_schema = schema, pa_artifact_schema_version = version, pa_media_type = media,
      pa_owner_domain = ''capital_imports'', pa_source_refs = refs, pa_metadata = meta, pa_created_at_utc = Some ''tttttt''\<rparr>"
    and "py_strip schema = schema" and "schema \<noteq> []" and "py_strip version = version" "version \<noteq> []" and "py_strip media = media" "media \<noteq> []"
  shows "\<exists>d entries. put_artifact (\<lambda>n. demo_es loads (n + k)) ''/s'' a fs =
      (Inr d, fs\<lparr>fs_descriptors := fs_descriptors fs @ [(''/s/descriptors/'' @ i @ ''.json'', Some d)],
        fs_objects := fs_objects fs @ [(replicate 64 x, c)], fs_entries := entries\<rparr>) \<and>
    ad_artifact_id d = i \<and> ad_artifact_schema d = schema \<and> ad_owner_domain d = ''capital_imports'' \<and>
    ad_content_sha256 d = replicate 64 x \<and> ad_created_at_utc d = ''tttttt''"
proof -
  let ?es = "\<lambda>n. demo_es loads (n + k)"
  let ?d = "\<lparr>ad_artifact_id = i, ad_artifact_schema = schema, ad_artifact_schema_version = version, ad_content_sha256 = replicate 64 x,
      ad_content_length = length c, ad_media_type = media, ad_owner_domain = ''capital_imports'', ad_created_at_utc = ''tttttt'',
      ad_source_refs = refs, ad_metadata = meta\<rparr>"
  have i: "i \<noteq> []" using assms(1) by (simp add: segment_def)
  have d: "put_descriptor (?es 0) a = Inr ?d"
    using assms(3,4,9-14) i hex_segments(1) [OF assms(5)] fixed_segments(4)
    by (simp add: put_descriptor_def mk_descriptor_def assms(8) or_else_def)
  obtain y where y: "demo_digest (utf8 i) = replicate 64 y" "y \<in> set ''0123456789abc''" using demo_digest_hex by blast
  have "index_entry_name (?es 0) (ad_artifact_id ?d) = replicate 64 y @ ''.json''" by (simp add: index_entry_name_def y(1))
  then have ip: "resolve_under (?es 0) ''/s'' [''index-entries'', index_entry_name (?es 0) (ad_artifact_id ?d)] =
      Inr (''/s/'' @ ''index-entries'' @ ''/'' @ replicate 64 y @ ''.json'')"
    using demo_es_resolve(1) [OF fixed_segments(2) hex_segments(3) [OF y(2)], of loads "0 + k"] by simp
  have dp: "descriptor_path (?es 0) ''/s'' (pa_artifact_id a) = Inr (''/s/descriptors/'' @ i @ ''.json'')"
    using demo_es_resolve(1) [OF fixed_segments(1) assms(2), of loads "0 + k"] by (simp add: descriptor_path_def assms(8))
  have op: "object_path (?es 0) ''/s'' (ad_content_sha256 ?d) =
      Inr (''/s/'' @ ''objects'' @ ''/'' @ take 2 (replicate 64 x) @ ''/'' @ replicate 64 x @ ''.bin'')"
    using demo_es_resolve(2) [OF fixed_segments(3) hex_segments(4,2) [OF assms(5)], of loads "0 + k"]
    unfolding object_path_def by simp
  from quiet_calls_put [OF demo_es_quiet(1) d dp op ip, of fs] assms(6,7)
  have "put_artifact ?es ''/s'' a fs = (Inr ?d, fs\<lparr>fs_descriptors := fs_descriptors fs @ [(''/s/descriptors/'' @ i @ ''.json'', Some ?d)],
      fs_objects := fs_objects fs @ [(replicate 64 x, c)],
      fs_entries := AList.update (''/s/'' @ ''index-entries'' @ ''/'' @ replicate 64 y @ ''.json'')
        (ValidIndex (ad_artifact_id ?d, ad_content_sha256 ?d)) (fs_entries fs)\<rparr>)"
    by (simp add: assms(8))
  then show ?thesis by (intro exI [of _ ?d] exI) (auto intro: refl)
qed

abbreviation "source_name \<equiv> source_artifact_name EXPORT_KIND (demo_digest ''rows'')"

lemma demo_names:
  "demo_digest ''rows'' = replicate 64 (CHR ''4'')" "source_name = ''import_source_personal_finance_export_'' @ replicate 24 (CHR ''4'')"
  "segment source_name \<and> segment (source_name @ ''.json'') \<and> py_strip source_name = source_name"
  "i \<in> {''capital_projection_'' @ replicate 24 (CHR ''b''), ''import_receipt_'' @ replicate 24 (CHR ''c'')} \<Longrightarrow>
     segment i \<and> segment (i @ ''.json'') \<and> py_strip i = i"
  "s \<in> {SOURCE_ARTIFACT_SCHEMA, RECEIPT_ARTIFACT_SCHEMA, CAPITAL_PROJECTION_SCHEMA, IMPORT_MANIFEST_SCHEMA_VERSION, CAPITAL_PROJECTION_SCHEMA_VERSION,
     ''application/json'', ''application/octet-stream''} \<Longrightarrow> py_strip s = s \<and> s \<noteq> []"
proof -
  have "list_all (\<lambda>i. segment i \<and> segment (i @ ''.json'') \<and> py_strip i = i)
      [''capital_projection_'' @ replicate 24 (CHR ''b''), ''import_receipt_'' @ replicate 24 (CHR ''c'')]"
    by code_simp
  then show "i \<in> {''capital_projection_'' @ replicate 24 (CHR ''b''), ''import_receipt_'' @ replicate 24 (CHR ''c'')} \<Longrightarrow>
     segment i \<and> segment (i @ ''.json'') \<and> py_strip i = i" unfolding list_all_iff by auto
  have "list_all (\<lambda>s. py_strip s = s \<and> s \<noteq> []) [SOURCE_ARTIFACT_SCHEMA, RECEIPT_ARTIFACT_SCHEMA, CAPITAL_PROJECTION_SCHEMA,
      IMPORT_MANIFEST_SCHEMA_VERSION, CAPITAL_PROJECTION_SCHEMA_VERSION, ''application/json'', ''application/octet-stream'']"
    by code_simp
  then show "s \<in> {SOURCE_ARTIFACT_SCHEMA, RECEIPT_ARTIFACT_SCHEMA, CAPITAL_PROJECTION_SCHEMA, IMPORT_MANIFEST_SCHEMA_VERSION,
     CAPITAL_PROJECTION_SCHEMA_VERSION, ''application/json'', ''application/octet-stream''} \<Longrightarrow> py_strip s = s \<and> s \<noteq> []"
    unfolding list_all_iff by (elim insertE) (simp_all del: list.set_intros)
qed code_simp+

text \<open>The store after the source evidence, and after any further artifacts beside it.\<close>

definition holds_source :: "artifact_descriptor \<Rightarrow> artifact_fs \<Rightarrow> bool" where
  "holds_source d fs \<longleftrightarrow>
     map_of (fs_descriptors fs) (''/s/descriptors/'' @ source_name @ ''.json'') = Some (Some d) \<and>
     map_of (fs_objects fs) (demo_digest ''rows'') = Some ''rows'' \<and>
     ad_artifact_id d = source_name \<and> ad_artifact_schema d = SOURCE_ARTIFACT_SCHEMA \<and> ad_owner_domain d = ''capital_imports'' \<and>
     ad_content_sha256 d = demo_digest ''rows'' \<and> ad_created_at_utc d = ''tttttt''"

lemma demo_source_evidence:
  "\<exists>d fs. persist_source_evidence (demo_es loads) ''/s'' EXPORT_KIND ''rows'' (demo_digest ''rows'') ''tttttt'' empty_store = (Inr d, fs) \<and>
     holds_source d fs \<and> map fst (fs_descriptors fs) = [''/s/descriptors/'' @ source_name @ ''.json''] \<and>
     map fst (fs_objects fs) = [replicate 64 (CHR ''4'')]"
proof -
  let ?a = "evidence_put source_name ''rows'' SOURCE_ARTIFACT_SCHEMA ''tttttt'' []
    [(''source_kind'', PStr EXPORT_KIND), (''source_sha256'', PStr (demo_digest ''rows''))]"
  have a: "?a = \<lparr>pa_artifact_id = source_name, pa_content = ''rows'', pa_artifact_schema = SOURCE_ARTIFACT_SCHEMA,
      pa_artifact_schema_version = IMPORT_MANIFEST_SCHEMA_VERSION, pa_media_type = ''application/octet-stream'',
      pa_owner_domain = ''capital_imports'', pa_source_refs = [], pa_metadata = [(''source_kind'', PStr EXPORT_KIND),
        (''source_sha256'', PStr (demo_digest ''rows''))], pa_created_at_utc = Some ''tttttt''\<rparr>"
    by (simp add: evidence_put_def)
  have path: "descriptor_path (demo_es loads 0) ''/s'' source_name = Inr (''/s/descriptors/'' @ source_name @ ''.json'')"
    using demo_es_resolve(1) [OF fixed_segments(1), of "source_name @ ''.json''" loads 0] demo_names(3) unfolding descriptor_path_def by simp
  have "persist_source_evidence (demo_es loads) ''/s'' EXPORT_KIND ''rows'' (demo_digest ''rows'') ''tttttt'' empty_store =
      put_artifact (demo_es loads) ''/s'' ?a empty_store"
    using fresh_evidence [where es = "demo_es loads", OF path, of empty_store] by (simp add: persist_source_evidence_def empty_store_def)
  with demo_stored_put [OF _ _ _ demo_names(1) _ _ _ a, of empty_store loads 0] demo_names(3,5)
  show ?thesis by (force simp: empty_store_def holds_source_def demo_names(1))
qed

lemma holds_source_put:
  assumes "holds_source d fs" and "descriptors' = fs_descriptors fs @ ds" and "objects' = fs_objects fs @ os"
  shows "holds_source d (fs\<lparr>fs_descriptors := descriptors', fs_objects := objects', fs_entries := entries\<rparr>)"
  using assms by (simp add: holds_source_def map_add_def)

lemma demo_projection_evidence:
  assumes "map_of (fs_descriptors fs) (''/s/descriptors/capital_projection_'' @ replicate 24 (CHR ''b'') @ ''.json'') = None"
    and "map_of (fs_objects fs) (replicate 64 (CHR ''b'')) = None" and "projection \<noteq> []"
  shows "\<exists>d entries. persist_capital_projection (\<lambda>n. demo_es loads (n + 3)) ''/s'' projection source_id ''tttttt'' fs =
    (Inr d, fs\<lparr>fs_descriptors := fs_descriptors fs @ [(''/s/descriptors/capital_projection_'' @ replicate 24 (CHR ''b'') @ ''.json'', Some d)],
      fs_objects := fs_objects fs @ [(replicate 64 (CHR ''b''), canonical_projection_bytes demo_e0 projection)], fs_entries := entries\<rparr>)"
proof -
  let ?i = "''capital_projection_'' @ replicate 24 (CHR ''b'')"
  from projection_head [OF assms(3), of demo_e0] have digest: "demo_digest (canonical_projection_bytes demo_e0 projection) = replicate 64 (CHR ''b'')"
    by (auto simp: demo_digest_def)
  have args: "persist_capital_projection (\<lambda>n. demo_es loads (n + 3)) ''/s'' projection source_id ''tttttt'' fs =
    put_artifact (\<lambda>n. demo_es loads (n + 3)) ''/s'' \<lparr>pa_artifact_id = ?i,
        pa_content = canonical_projection_bytes demo_e0 projection, pa_artifact_schema = CAPITAL_PROJECTION_SCHEMA,
        pa_artifact_schema_version = CAPITAL_PROJECTION_SCHEMA_VERSION, pa_media_type = ''application/json'',
        pa_owner_domain = ''capital_imports'', pa_source_refs = [source_id],
        pa_metadata = [(''batch_id'', PStr (text_field projection ''batch_id'')),
          (''stable_source_id'', PStr (text_field projection ''stable_source_id''))],
        pa_created_at_utc = Some ''tttttt''\<rparr> fs"
    by (simp add: persist_capital_projection_def projection_sha256_def digest)
  have name: "segment ?i" "segment (?i @ ''.json'')" "py_strip ?i = ?i" using demo_names(4) [of ?i] by blast+
  have strips: "py_strip CAPITAL_PROJECTION_SCHEMA = CAPITAL_PROJECTION_SCHEMA" "CAPITAL_PROJECTION_SCHEMA \<noteq> []"
      "py_strip CAPITAL_PROJECTION_SCHEMA_VERSION = CAPITAL_PROJECTION_SCHEMA_VERSION" "CAPITAL_PROJECTION_SCHEMA_VERSION \<noteq> []"
      "py_strip ''application/json'' = ''application/json''" "''application/json'' \<noteq> []"
    using demo_names(5) by blast+
  have free: "map_of (fs_descriptors fs) (''/s/descriptors/'' @ ?i @ ''.json'') = None" using assms(1) by simp
  have hex: "CHR ''b'' \<in> set ''0123456789abc''" by simp
  from demo_stored_put [where refs = "[source_id]" and loads = loads and k = 3 and
      meta = "[(''batch_id'', PStr (text_field projection ''batch_id'')), (''stable_source_id'', PStr (text_field projection ''stable_source_id''))]",
      OF name digest hex free assms(2) refl strips]
  show ?thesis unfolding args by auto
qed

lemma demo_receipt_evidence:
  assumes "map_of (fs_descriptors fs) (''/s/descriptors/import_receipt_'' @ replicate 24 (CHR ''c'') @ ''.json'') = None"
    and "map_of (fs_objects fs) (replicate 64 (CHR ''c'')) = None" and "payload \<noteq> []"
  shows "demo_digest (canonical_json_bytes demo_e0 payload) = replicate 64 (CHR ''c'')"
    and "\<exists>d fs'. put_or_verify (\<lambda>n. demo_es loads (n + 3 + 6)) ''/s'' (''import_receipt_'' @ replicate 24 (CHR ''c''))
      (canonical_json_bytes demo_e0 payload) RECEIPT_ARTIFACT_SCHEMA ''tttttt'' refs meta fs = (Inr d, fs')"
proof -
  let ?i = "''import_receipt_'' @ replicate 24 (CHR ''c'')" and ?es = "\<lambda>n. demo_es loads (n + 3 + 6)"
  obtain t where head: "canonical_json_bytes demo_e0 payload = CHR 0x7B # CHR 0x0A # t" using receipt_head [OF assms(3)] by blast
  then show digest: "demo_digest (canonical_json_bytes demo_e0 payload) = replicate 64 (CHR ''c'')" by (simp add: demo_digest_def)
  have name: "segment ?i" "segment (?i @ ''.json'')" "py_strip ?i = ?i" using demo_names(4) [of ?i] by blast+
  have strips: "py_strip RECEIPT_ARTIFACT_SCHEMA = RECEIPT_ARTIFACT_SCHEMA" "RECEIPT_ARTIFACT_SCHEMA \<noteq> []"
      "py_strip IMPORT_MANIFEST_SCHEMA_VERSION = IMPORT_MANIFEST_SCHEMA_VERSION" "IMPORT_MANIFEST_SCHEMA_VERSION \<noteq> []"
      "py_strip ''application/json'' = ''application/json''" "''application/json'' \<noteq> []"
    using demo_names(5) by blast+
  have free: "map_of (fs_descriptors fs) (''/s/descriptors/'' @ ?i @ ''.json'') = None" using assms(1) by simp
  have hex: "CHR ''c'' \<in> set ''0123456789abc''" by simp
  have path: "descriptor_path (?es 0) ''/s'' ?i = Inr (''/s/descriptors/'' @ ?i @ ''.json'')"
    using demo_es_resolve(1) [OF fixed_segments(1) name(2), of loads "0 + 3 + 6"] unfolding descriptor_path_def by simp
  have put: "put_or_verify ?es ''/s'' ?i (canonical_json_bytes demo_e0 payload) RECEIPT_ARTIFACT_SCHEMA ''tttttt'' refs meta fs =
      put_artifact ?es ''/s'' \<lparr>pa_artifact_id = ?i, pa_content = canonical_json_bytes demo_e0 payload,
        pa_artifact_schema = RECEIPT_ARTIFACT_SCHEMA, pa_artifact_schema_version = IMPORT_MANIFEST_SCHEMA_VERSION,
        pa_media_type = ''application/json'', pa_owner_domain = ''capital_imports'', pa_source_refs = refs, pa_metadata = meta,
        pa_created_at_utc = Some ''tttttt''\<rparr> fs"
    unfolding fresh_evidence [where es = ?es, OF path free] by (simp add: evidence_put_def head)
  from demo_stored_put [where refs = refs and meta = meta and loads = loads and k = 9, OF name digest hex free assms(2) refl strips]
  show "\<exists>d fs'. put_or_verify ?es ''/s'' ?i (canonical_json_bytes demo_e0 payload) RECEIPT_ARTIFACT_SCHEMA ''tttttt'' refs meta fs = (Inr d, fs')"
    unfolding put by (simp add: add.assoc) blast
qed

lemma demo_source_again:
  assumes "holds_source d fs"
  shows "persist_source_evidence (\<lambda>n. demo_es loads (n + 6)) ''/s'' EXPORT_KIND ''rows'' (demo_digest ''rows'') t fs = (Inr d, fs)"
proof -
  let ?es = "\<lambda>n. demo_es loads (n + 6)"
  have seg: "segment (source_name @ ''.json'')" using demo_names(3) by blast
  have "descriptor_path (?es 0) ''/s'' source_name = Inr (''/s/descriptors/'' @ source_name @ ''.json'')"
    using demo_es_resolve(1) [OF fixed_segments(1) seg, of loads "0 + 6"] unfolding descriptor_path_def by simp
  then have desc: "descriptor (?es 0) ''/s'' source_name fs = Inr d" using assms by (simp add: descriptor_def holds_source_def)
  have "CHR ''4'' \<in> set ''0123456789abc''" by simp
  from demo_es_resolve(2) [OF fixed_segments(3) hex_segments(4,2) [OF this], of loads "0 + 6"]
  have "\<exists>p. object_path (?es 0) ''/s'' (demo_digest ''rows'') = Inr p" unfolding object_path_def demo_names(1) by simp
  then have "read_artifact (?es 0) ''/s'' source_name fs = Inr ''rows''"
    using desc assms by (auto simp: read_artifact_def holds_source_def)
  from present_evidence [where es = ?es, OF desc this, of SOURCE_ARTIFACT_SCHEMA] assms show ?thesis
    by (simp add: persist_source_evidence_def holds_source_def)
qed

lemma ready_checked:
  assumes "demo_ready a x"
  shows "check_prepare_args (export_prepare_args a x src content h t domains pd projection) = Inr ()"
proof -
  have keys: "fst ` set (xb_time_semantics x) = set REQUIRED_CLOCKS" using assms unfolding demo_ready_def by (metis set_map)
  have "\<not> list_ex (\<lambda>f. dict_get f ''severity'' \<notin> {PStr ''partial'', PStr ''blocking''}) (map finding_dict (xb_findings x))"
    using assms by (auto simp: demo_ready_def list_ex_iff list_all_iff finding_dict_def dict_get_def)
  then show ?thesis
    using keys assms by (auto simp: demo_ready_def check_prepare_args_def export_prepare_args_def)
qed

lemma demo_prepared_import:
  assumes "demo_ready a x" and "holds_source d fs"
    and "map_of (fs_descriptors fs) (''/s/descriptors/import_receipt_'' @ replicate 24 (CHR ''c'') @ ''.json'') = None"
    and "map_of (fs_objects fs) (replicate 64 (CHR ''c'')) = None"
    and pa_def: "pa = export_prepare_args a x ''source_7'' ''rows'' (demo_digest ''rows'') ''tttttt'' domains pd projection"
  shows "\<exists>p fs'. prepare_import (\<lambda>n. demo_es loads (n + 6)) ''/s'' pa (no_evidence\<lparr>ef_artifacts := fs\<rparr>) = (Inr p, fs') \<and>
    ib_batch_id (pi_batch p) = xb_batch_id x \<and> ib_source_id (pi_batch p) = ''source_7''"
proof -
  have d: "ad_created_at_utc d = ''tttttt''" using assms(2) by (simp add: holds_source_def)
  let ?receipt = "complete_receipt pa (batch_id_of demo_e0 pa) (stable_id demo_e0 ''receipt_manifest'' [batch_id_of demo_e0 pa, pr_receipt_id pa]) d"
  have "dict_get ?receipt ''coverage_mode'' = PStr (pr_coverage_mode pa)" by (simp add: complete_receipt_def)
  then have receipt: "?receipt \<noteq> []" by (auto simp: dict_get_def)
  note digest = demo_receipt_evidence(1) [OF assms(3,4) receipt]
  obtain rd art where rd: "put_or_verify (\<lambda>n. demo_es loads (n + 3 + 6)) ''/s'' (''import_receipt_'' @ replicate 24 (CHR ''c''))
      (canonical_json_bytes demo_e0 ?receipt) RECEIPT_ARTIFACT_SCHEMA ''tttttt'' [ad_artifact_id d]
      [(''batch_id'', PStr (batch_id_of demo_e0 pa)), (''receipt_id'', PStr (pr_receipt_id pa))] fs = (Inr rd, art)"
    using demo_receipt_evidence(2) [where loads = loads and refs = "[ad_artifact_id d]" and
      meta = "[(''batch_id'', PStr (batch_id_of demo_e0 pa)), (''receipt_id'', PStr (pr_receipt_id pa))]", OF assms(3,4) receipt]
    by (elim exE) (rule that)
  have rd': "put_or_verify (\<lambda>n. demo_es loads (n + 3 + 6)) ''/s'' (''import_receipt_'' @ take 24 (demo_digest (canonical_json_bytes demo_e0 ?receipt)))
      (canonical_json_bytes demo_e0 ?receipt) RECEIPT_ARTIFACT_SCHEMA (ad_created_at_utc d) [ad_artifact_id d]
      [(''batch_id'', PStr (batch_id_of demo_e0 pa)), (''receipt_id'', PStr (pr_receipt_id pa))] fs = (Inr rd, art)"
    using rd unfolding digest d by simp
  have pa: "pr_source_kind pa = EXPORT_KIND" "pr_source_content pa = ''rows''" "pr_source_sha256 pa = demo_digest ''rows''"
      "pr_created_at_utc pa = ''tttttt''" "pr_receipt_id pa = xb_receipt_id x" "pr_receipt_root pa = ia_receipt_root a" "pr_source_id pa = ''source_7''"
    by (simp_all add: pa_def export_prepare_args_def)
  obtain path where path: "resolve_under demo_e0 (ia_receipt_root a) [xb_receipt_id x @ ''.json''] = Inr path"
    using assms(1) by (auto simp: demo_ready_def split: sum.splits)
  have batch: "batch_id_of demo_e0 pa = xb_batch_id x"
    using assms(1) by (simp add: batch_id_of_def pa_def export_prepare_args_def demo_ready_def)
  have checked: "check_prepare_args pa = Inr ()" unfolding pa_def by (rule ready_checked [OF assms(1)])
  have shift: "(\<lambda>n. demo_es loads (n + 3 + 6)) = (\<lambda>n. demo_es loads (9 + n))" by (simp add: add.commute)
  show ?thesis
    unfolding prepare_import_def checked pa Let_def
    by (simp add: demo_source_again [OF assms(2)] rd' [unfolded pa batch shift] path atomic_replace_def batch_of_def batch pa del: append.simps)
qed

lemma demo_stages:
  assumes checked: "check_export demo_e0 a = Inr (rows, domains)"
    and registered: "resolve_or_register_import_source demo_e0 (uuid7 demo_e0) EXPORT_KIND ''path''
      (canonical_path_alias demo_e0 (ia_export_path a)) (ia_source_id a) (Some (path_name (ia_export_path a))) db = (Inr c, db1)"
    and c: "ci_source_id c = ''source_7''"
    and x: "assemble_export demo_e0 a rows ''source_7'' (demo_digest ''rows'') ''tttttt'' db1 = Inr x" and ready: "demo_ready a x"
  shows "\<exists>s fs'. stage_export (demo_es loads) a no_evidence db = (Inr s, fs', db1) \<and>
    ib_batch_id (pi_batch (st_prepared s)) = xb_batch_id x \<and> ib_source_id (pi_batch (st_prepared s)) = ''source_7''"
proof -
  have args: "artifact_root a = ''/s''" "ia_tombstones a = []" using ready by (simp_all add: artifact_root_def demo_ready_def)
  obtain d fs1 where ev: "persist_source_evidence (demo_es loads) ''/s'' EXPORT_KIND ''rows'' (demo_digest ''rows'') ''tttttt'' empty_store = (Inr d, fs1)"
      "holds_source d fs1" "map fst (fs_descriptors fs1) = [''/s/descriptors/'' @ source_name @ ''.json'']"
      "map fst (fs_objects fs1) = [replicate 64 (CHR ''4'')]"
    using demo_source_evidence [of loads] by (elim exE conjE) (rule that)
  have d: "ad_created_at_utc d = ''tttttt''" using ev(2) by (simp add: holds_source_def)
  define projection where "projection = build_capital_projection demo_e0 (xb_batch_id x) ''source_7'' EXPORT_KIND (ia_coverage_mode a)
    domains (xb_time_semantics x) (xb_records x)"
  have proj: "projection \<noteq> []" by (simp add: projection_def build_capital_projection_def Let_def)
  have free: "map_of (fs_descriptors fs1) (''/s/descriptors/capital_projection_'' @ replicate 24 (CHR ''b'') @ ''.json'') = None"
      "map_of (fs_objects fs1) (replicate 64 (CHR ''b'')) = None"
      "map_of (fs_descriptors fs1) (''/s/descriptors/import_receipt_'' @ replicate 24 (CHR ''c'') @ ''.json'') = None"
      "map_of (fs_objects fs1) (replicate 64 (CHR ''c'')) = None"
    using ev(3,4) by (simp_all add: map_of_eq_None_iff demo_names(2) list.set_map [symmetric] del: list.set_map)
  obtain pd entries fs2 where pd: "persist_capital_projection (\<lambda>n. demo_es loads (n + 3)) ''/s'' projection (ad_artifact_id d) ''tttttt'' fs1 =
        (Inr pd, fs2)"
      and fs2: "fs2 = fs1\<lparr>fs_descriptors := fs_descriptors fs1 @
          [(''/s/descriptors/capital_projection_'' @ replicate 24 (CHR ''b'') @ ''.json'', Some pd)],
        fs_objects := fs_objects fs1 @ [(replicate 64 (CHR ''b''), canonical_projection_bytes demo_e0 projection)], fs_entries := entries\<rparr>"
    using demo_projection_evidence [OF free(1,2) proj, of loads "ad_artifact_id d"] by (elim exE) (rule that, assumption, rule refl)
  have held: "holds_source d fs2" unfolding fs2 by (rule holds_source_put [OF ev(2) refl refl])
  have free2: "map_of (fs_descriptors fs2) (''/s/descriptors/import_receipt_'' @ replicate 24 (CHR ''c'') @ ''.json'') = None"
      "map_of (fs_objects fs2) (replicate 64 (CHR ''c'')) = None"
    using free(3,4) by (simp_all add: fs2 map_add_def)
  obtain p fs' where prep: "prepare_import (\<lambda>n. demo_es loads (n + 6)) ''/s''
        (export_prepare_args a x ''source_7'' ''rows'' (demo_digest ''rows'') ''tttttt'' domains pd projection)
        (no_evidence\<lparr>ef_artifacts := fs2\<rparr>) = (Inr p, fs')"
      "ib_batch_id (pi_batch p) = xb_batch_id x" "ib_source_id (pi_batch p) = ''source_7''"
    using demo_prepared_import [where loads = loads and domains = domains and pd = pd and projection = projection, OF ready held free2 refl]
    by (elim exE conjE) (rule that)
  have "\<exists>s. stage_records (demo_es loads) a ''source_7'' ''rows'' (demo_digest ''rows'') domains d x
      (no_evidence\<lparr>ef_artifacts := fs1\<rparr>) = (Inr s, fs') \<and> st_prepared s = p"
    using prep pd unfolding stage_records_def Let_def by (simp add: args d projection_def)
  then obtain s where "stage_records (demo_es loads) a ''source_7'' ''rows'' (demo_digest ''rows'') domains d x
      (no_evidence\<lparr>ef_artifacts := fs1\<rparr>) = (Inr s, fs')" "st_prepared s = p" by blast
  then show ?thesis
    using prep(2,3) unfolding stage_export_def Let_def
    by (simp add: checked registered args ev(1) no_evidence_def d x c)
qed

lemma demo_stage: "\<exists>s fs'. stage_export (demo_es loads) demo_ingest_args no_evidence empty_import_db = (Inr s, fs', demo_registered_db)"
proof -
  obtain x where "demo_export = Inr x" "demo_ready demo_ingest_args x" using demo_assembled by (auto split: sum.splits)
  from demo_stages [OF demo_checked demo_registered _ this(1) [unfolded demo_export_def] this(2)]
  show ?thesis by (simp add: registered_source_def) blast
qed

end
