(* ===== verification/Personal_Finance_Properties.thy ===== *)
theory Personal_Finance_Properties
  imports Personal_Finance_Contract Personal_Finance_Demo
begin

text \<open>
  Properties of the import of a personal-finance export, from its file to the database.
\<close>

section \<open>A full export is accepted\<close>

lemma stage_okE:
  assumes "stage_export es a fs db = (Inr s, fs', db')"
  obtains rows content src source art x ts projection pd art2 domains
    where "persist_source_evidence es (artifact_root a) EXPORT_KIND content (sha256 (es 0) content) (clock (es 0) 0) (ef_artifacts fs) =
        (Inr source, art)"
      and "assemble_export (es 0) a rows src (sha256 (es 0) content) (ad_created_at_utc source) db' = Inr x"
      and "persist_capital_projection (\<lambda>n. es (n + 3)) (artifact_root a) projection (ad_artifact_id source)
        (ad_created_at_utc source) art = (Inr pd, art2)"
      and "prepare_import (\<lambda>n. es (n + 6)) (artifact_root a)
        (export_prepare_args a x src content (sha256 (es 0) content) (ad_created_at_utc source) domains pd projection)
        (fs\<lparr>ef_artifacts := art2\<rparr>) = (Inr (st_prepared s), fs')"
      and "st_records s = RReceipt (export_index (es 0) a x src (ad_created_at_utc source)) # xb_records x @ map RTombstone ts"
      and "check_export (es 0) a = Inr (rows, domains)" and "ib_batch_id (pi_batch (st_prepared s)) = xb_batch_id x"
proof -
  obtain rows domains hashed content where checked: "check_export (es 0) a = Inr (rows, domains)"
      "file_bytes (es 0) (ia_export_path a) = Some hashed" "file_bytes (es 1) (ia_export_path a) = Some content"
    using assms by (auto simp: stage_export_def Let_def split: sum.splits prod.splits option.splits)
  obtain c db1 where c: "resolve_or_register_import_source (es 0) (uuid7 (es 0)) EXPORT_KIND ''path''
      (canonical_path_alias (es 0) (ia_export_path a)) (ia_source_id a) (Some (path_name (ia_export_path a))) db = (Inr c, db1)"
    using assms checked by (auto simp: stage_export_def Let_def split: sum.splits prod.splits)
  obtain source art where ev: "persist_source_evidence es (artifact_root a) EXPORT_KIND content (sha256 (es 0) hashed) (clock (es 0) 0)
      (ef_artifacts fs) = (Inr source, art)"
    using assms checked c by (auto simp: stage_export_def Let_def split: sum.splits prod.splits)
  then have same: "sha256 (es 0) content = sha256 (es 0) hashed" by (auto simp: persist_source_evidence_def split: if_splits)
  obtain x where x: "assemble_export (es 0) a rows (ci_source_id c) (sha256 (es 0) hashed) (ad_created_at_utc source) db1 = Inr x"
    using assms checked c ev by (auto simp: stage_export_def Let_def split: sum.splits prod.splits)
  have run: "stage_records es a (ci_source_id c) content (sha256 (es 0) hashed) domains source x (fs\<lparr>ef_artifacts := art\<rparr>) = (Inr s, fs')"
      and db: "db1 = db'"
    using assms checked c ev x by (auto simp: stage_export_def Let_def split: prod.splits)
  show thesis
    using run that [OF ev [unfolded same [symmetric]] x [unfolded same [symmetric] db]] same checked(1)
    by (auto simp: stage_records_def Let_def export_error_def elim!: rbind_InrE split: sum.splits prod.splits if_splits)
qed


lemma receipt_completed_plain:
  assumes "json_plain (PDict (pr_receipt_payload a))" and "json_plain (PDict (pr_time_semantics a))"
    and "\<forall>f\<in>set (pr_findings a). json_plain (PDict f)"
  shows "json_plain (PDict (complete_receipt a batch_id manifest_id source))"
  using assms unfolding complete_receipt_def
  by (intro plain_merge) (auto simp: plain_list simp del: json_plain.simps(7) simp: plain_dict simp del: json_plain.simps(8))

lemma prepared_surface:
  assumes "surface_of x (sn_payload snap)" and "bound_receipt x h"
  shows "surface_of x (complete_receipt (export_prepare_args a x src content h t domains pd projection) batch_id manifest_id source)"
  using assms by (simp add: surface_of_def bound_receipt_def complete_receipt_def export_prepare_args_def)

lemma observed_clock: "dict_get (time_dict ts) ''observed_at_utc'' = PStr (ts_observed_at_utc ts)"
  by (simp add: time_dict_def dict_get_def)

lemma receipt_lists:
  "receipt_indexes_of (RReceipt i # rs) = i # receipt_indexes_of rs" "receipt_indexes_of (RSnapshot n # rs) = receipt_indexes_of rs"
  "list_all plain_row rs \<Longrightarrow> receipt_indexes_of (rs @ map RTombstone ts) = []"
proof -
  have "receipt_indexes_of (map RTombstone ts) = []" by (induction ts) (simp_all add: receipt_indexes_of_def List.map_filter_simps)
  moreover assume "list_all plain_row rs"
  ultimately show "receipt_indexes_of (rs @ map RTombstone ts) = []"
  proof (induction rs)
    case (Cons r rs)
    then show ?case by (cases r) (simp_all add: plain_row_def receipt_indexes_of_def List.map_filter_simps)
  qed simp
qed (simp_all add: receipt_indexes_of_def List.map_filter_simps)

lemma staged_source_named:
  assumes "persist_source_evidence es root kind content h t fs = (Inr source, art)" and "\<And>n. same_disk (es n) (es 0)"
    and "\<And>d. descriptor (es 0) root (source_artifact_name kind h) fs = Inr d \<Longrightarrow> ad_artifact_id d = source_artifact_name kind h"
    and "persist_capital_projection es' root projection i u art = (r, art2)"
    and "descriptor (es m) root (source_artifact_name kind h) art2 = Inr d"
  shows "ad_artifact_id d = source_artifact_name kind h"
proof -
  let ?name = "source_artifact_name kind h"
  have sha: "sha256 (es 0) content = h" using assms(1) by (auto simp: persist_source_evidence_def split: if_splits)
  with assms(1) have "put_or_verify es root ?name content SOURCE_ARTIFACT_SCHEMA t []
      [(''source_kind'', PStr kind), (''source_sha256'', PStr h)] fs = (Inr source, art)"
    by (simp add: persist_source_evidence_def)
  note put = put_or_verify_Inr [OF this assms(2) schema_strips(1)]
  have name: "ad_artifact_id source = ?name" using put assms(3) source_name_strip sha by auto
  obtain pa where "art2 = snd (put_artifact es' root pa art)"
    using assms(4) unfolding persist_capital_projection_def by (metis snd_conv)
  then have "descriptor (es 0) root ?name art2 = Inr source"
    using read_mono(1) [of art art2 "es 0" root ?name source] put_kept put by metis
  with assms(5) same_disk_read(1) [OF assms(2), of m root ?name art2] name show ?thesis by simp
qed

lemma export_args_facts:
  assumes "bound_receipt x h" and "xb_completeness x = completeness_status (xb_findings x)"
    and pa_def: "pa = export_prepare_args a x src content h t domains pd projection"
  shows "receipt_carries pa" and "pr_source_kind pa = EXPORT_KIND" and "pr_source_sha256 pa = h"
    and "pr_completeness_status pa \<noteq> ''legacy_unknown''" and "pr_source_kind pa \<in> {''personal_finance_export'', ''beancount_ledger''}"
    and "indexes_receipt pa (export_index (e :: 'e ingest_env_scheme) a x src t)"
    and "xb_time_semantics x = time_dict ts \<Longrightarrow> json_plain (PDict (complete_receipt pa b m source))"
proof -
  show "json_plain (PDict (complete_receipt pa b m source))" if "xb_time_semantics x = time_dict ts"
    by (rule receipt_completed_plain)
      (use assms(1) that in \<open>auto simp: pa_def export_prepare_args_def bound_receipt_def simp del: json_plain.simps\<close>)
qed (use assms in \<open>auto simp: pa_def receipt_carries_def bound_receipt_def export_prepare_args_def EXPORT_KIND_def completeness_status_def
    indexes_receipt_def export_index_def\<close>)

text \<open>
  Claim C26. A full export that is staged is accepted: when the adapter has read, registered, assembled
  and prepared a file in full mode, the records, the batch and the manifest it hands to the store pass
  both checks of \<^verbatim>\<open>materialize_import_batch\<close>, the import envelope and the valuation contract.  No
  disagreement between positions, snapshot, batch, manifest and receipt artifact can make the store
  refuse the file; what is left is the database transaction.  The calls share one disk, the calendar
  parses alike at both ends, instants print as non-empty texts, a stored source artifact carries its
  own name, and \<^verbatim>\<open>json.loads\<close> reads back what \<^verbatim>\<open>json.dumps\<close> wrote.
\<close>

theorem full_export_accepted:
  fixes es :: "nat \<Rightarrow> 'e ingest_env_scheme"
  assumes "stage_export es a fs db = (Inr s, fs', db')" and "ia_coverage_mode a = ''full''"
    and "\<And>n. same_disk (es n) (es 0)" and "fromisoformat (es 13) = fromisoformat (es 0)" and "\<And>t. isoformat (es 0) t \<noteq> []"
    and "\<And>h d. descriptor (es 0) (artifact_root a) (source_artifact_name EXPORT_KIND h) (ef_artifacts fs) = Inr d \<Longrightarrow>
      ad_artifact_id d = source_artifact_name EXPORT_KIND h"
    and "json_loads (es 13) (canonical_json_bytes (es 6) (pi_receipt_payload (st_prepared s))) =
      Some (json_norm (es 6) (PDict (pi_receipt_payload (st_prepared s))))"
  shows "validate_import_envelope (es 13) (artifact_root a) (ef_artifacts fs') EXPORT_KIND (pi_batch (st_prepared s))
      (pi_manifest (st_prepared s)) (st_records s) = Inr () \<and>
    validate_import_valuation_contract (es 13) (artifact_root a) (ef_artifacts fs') EXPORT_KIND (pi_batch (st_prepared s))
      (pi_manifest (st_prepared s)) (st_records s) = Inr ()"
proof -
  from stage_okE [OF assms(1)] obtain rows content src source art x ts projection pd art2 domains
    where ev: "persist_source_evidence es (artifact_root a) EXPORT_KIND content (sha256 (es 0) content) (clock (es 0) 0) (ef_artifacts fs) =
        (Inr source, art)"
      and x: "assemble_export (es 0) a rows src (sha256 (es 0) content) (ad_created_at_utc source) db' = Inr x"
      and pc: "persist_capital_projection (\<lambda>n. es (n + 3)) (artifact_root a) projection (ad_artifact_id source)
        (ad_created_at_utc source) art = (Inr pd, art2)"
      and pr: "prepare_import (\<lambda>n. es (n + 6)) (artifact_root a)
        (export_prepare_args a x src content (sha256 (es 0) content) (ad_created_at_utc source) domains pd projection)
        (fs\<lparr>ef_artifacts := art2\<rparr>) = (Inr (st_prepared s), fs')"
      and recs: "st_records s = RReceipt (export_index (es 0) a x src (ad_created_at_utc source)) # xb_records x @ map RTombstone ts"
      and "check_export (es 0) a = Inr (rows, domains)" and "ib_batch_id (pi_batch (st_prepared s)) = xb_batch_id x" .
  let ?pa = "export_prepare_args a x src content (sha256 (es 0) content) (ad_created_at_utc source) domains pd projection"
  let ?p = "st_prepared s"
  note full = assemble_full [OF x assms(2)]
  have disk: "same_disk (es (n + 6)) (es (0 + 6))" "same_disk (es 13) (es (0 + 6))" for n
    using assms(3) [of "n + 6"] assms(3) [of 6] assms(3) [of 13] by (simp_all add: same_disk_def)
  from prepare_okE [OF pr disk(1)] obtain source' h' i' where b: "pi_batch ?p = batch_of (es (0 + 6)) ?pa source'"
      and m: "pi_manifest ?p = manifest_of (es (0 + 6)) ?pa source' h' i'"
      and r: "pi_receipt_payload ?p = complete_receipt ?pa (batch_id_of (es (0 + 6)) ?pa) (rm_manifest_id (pi_manifest ?p)) source'"
    by metis
  obtain tsem tf where time: "time_contract (es 0) rows (ad_created_at_utc source) = Inr (tsem, tf)"
      "xb_time_semantics x = time_dict tsem" "xb_as_of_utc x = ts_observed_at_utc tsem" using full(3) by blast
  obtain snap rest where coh: "xb_records x = RSnapshot snap # rest" "list_all plain_row rest" "surface_of x (sn_payload snap)"
      "xb_completeness x = completeness_status (xb_findings x)"
    using full(1) unfolding coherent_def by blast
  have index: "receipt_indexes_of (st_records s) = [export_index (es 0) a x src (ad_created_at_utc source)]"
    using coh(2) by (simp add: recs coh(1) receipt_lists)
  note pa = export_args_facts [OF full(2) coh(4) refl, where a = a and src = src and content = content and t = "ad_created_at_utc source"
      and domains = domains and pd = pd and projection = projection]
  have plain: "json_plain (PDict (pi_receipt_payload ?p))" unfolding r by (rule pa(7) [OF time(2)])
  have named: "ad_artifact_id d = source_artifact_name (pr_source_kind ?pa) (pr_source_sha256 ?pa)"
    if "descriptor (es (0 + 6)) (artifact_root a) (source_artifact_name (pr_source_kind ?pa) (pr_source_sha256 ?pa))
      (ef_artifacts (fs\<lparr>ef_artifacts := art2\<rparr>)) = Inr d" for d
    using staged_source_named [OF ev assms(3,6) pc] that by (simp add: pa(2,3))
  have loads: "json_loads (es 13) (canonical_json_bytes (es (0 + 6)) (pi_receipt_payload ?p)) =
      Some (json_norm (es (0 + 6)) (PDict (pi_receipt_payload ?p)))"
    using assms(7) by (simp del: json_norm.simps)
  note env = prepared_envelope [OF pr disk named loads plain pa(1,5,4) index pa(6)]
  have "validate_import_valuation_contract (es 13) (artifact_root a) (ef_artifacts fs') EXPORT_KIND (pi_batch ?p) (pi_manifest ?p) (st_records s) = Inr ()"
  proof (rule coherent_contract [OF full(1) assms(4) _ _ _ _ _ _ env(2) loads [unfolded json_object_PDict] _ _ _ recs])
    show "surface_of x (pi_receipt_payload ?p)" unfolding r by (rule prepared_surface [OF coh(3) full(2)])
    show "json_plain (PDict (xb_record_counts x))" using full(2) by (simp add: bound_receipt_def)
    show "xb_as_of_utc x \<noteq> []" using time(3) time_contract_observed [OF time(1)] assms(5) by metis
  qed (simp_all add: b m batch_of_def manifest_of_def export_prepare_args_def time observed_clock)
  with env(1) show ?thesis unfolding pa(2) by blast
qed

text \<open>The reader of the last environment returns what the preparation has written.\<close>

definition demo_stage_payload :: jdict where
  "demo_stage_payload = pi_receipt_payload (st_prepared (projr (fst
     (stage_export (demo_es (\<lambda>_. None)) demo_ingest_args no_evidence empty_import_db))))"

lemma stage_cong:
  assumes "\<And>n. n < 13 \<Longrightarrow> es n = es' n"
  shows "stage_export es a fs db = stage_export es' a fs db"
proof -
  have es: "es 0 = es' 0" "es 1 = es' 1" "es 2 = es' 2" "es 3 = es' 3" "es 4 = es' 4" "es 5 = es' 5" "es 6 = es' 6" "es 7 = es' 7" "es 8 = es' 8"
      "es 9 = es' 9" "es 10 = es' 10" "es 11 = es' 11" "es 12 = es' 12"
    by (rule assms; simp)+
  have sums: "(0 :: nat) + n = n" "(1 :: nat) + 3 = 4" "(2 :: nat) + 3 = 5" "(1 :: nat) + 6 = 7" "(2 :: nat) + 6 = 8" "(3 :: nat) + 6 = 9"
      "(4 :: nat) + 6 = 10" "(5 :: nat) + 6 = 11" "(6 :: nat) + 6 = 12" for n
    by simp_all
  show ?thesis
    unfolding stage_export_def stage_records_def persist_capital_projection_def prepare_import_def persist_source_evidence_def
      put_or_verify_def put_artifact_def publish_artifact_def Let_def sums es ..
qed

lemma demo_stage_reader:
  "stage_export (demo_es loads) demo_ingest_args no_evidence empty_import_db =
   stage_export (demo_es (\<lambda>_. None)) demo_ingest_args no_evidence empty_import_db"
  by (rule stage_cong) (simp add: demo_es_def)

definition demo_receipt_reader :: "string \<Rightarrow> pyval option" where
  "demo_receipt_reader c = Some (json_norm demo_e0 (PDict demo_stage_payload))"

theorem full_export_accepted_witness:
  "\<exists>s fs'. stage_export (demo_es demo_receipt_reader) demo_ingest_args no_evidence empty_import_db = (Inr s, fs', demo_registered_db) \<and>
     validate_import_envelope (demo_es demo_receipt_reader 13) ''/s'' (ef_artifacts fs') EXPORT_KIND (pi_batch (st_prepared s))
       (pi_manifest (st_prepared s)) (st_records s) = Inr () \<and>
     validate_import_valuation_contract (demo_es demo_receipt_reader 13) ''/s'' (ef_artifacts fs') EXPORT_KIND (pi_batch (st_prepared s))
       (pi_manifest (st_prepared s)) (st_records s) = Inr ()"
proof -
  obtain s fs' where run: "stage_export (demo_es demo_receipt_reader) demo_ingest_args no_evidence empty_import_db = (Inr s, fs', demo_registered_db)"
    using demo_stage by blast
  then have payload: "pi_receipt_payload (st_prepared s) = demo_stage_payload"
    unfolding demo_stage_payload_def demo_stage_reader [of demo_receipt_reader, symmetric] by simp
  have root: "artifact_root demo_ingest_args = ''/s''" by (simp add: artifact_root_def demo_ingest_args_def)
  have "validate_import_envelope (demo_es demo_receipt_reader 13) (artifact_root demo_ingest_args) (ef_artifacts fs') EXPORT_KIND
       (pi_batch (st_prepared s)) (pi_manifest (st_prepared s)) (st_records s) = Inr () \<and>
     validate_import_valuation_contract (demo_es demo_receipt_reader 13) (artifact_root demo_ingest_args) (ef_artifacts fs') EXPORT_KIND
       (pi_batch (st_prepared s)) (pi_manifest (st_prepared s)) (st_records s) = Inr ()"
  proof (rule full_export_accepted [OF run _ demo_es_quiet(2)])
    show "ia_coverage_mode demo_ingest_args = ''full''" by (simp add: demo_ingest_args_def)
    show "fromisoformat (demo_es demo_receipt_reader 13) = fromisoformat (demo_es demo_receipt_reader 0)" by (simp add: demo_es_def)
    show "json_loads (demo_es demo_receipt_reader 13) (canonical_json_bytes (demo_es demo_receipt_reader 6) (pi_receipt_payload (st_prepared s))) =
        Some (json_norm (demo_es demo_receipt_reader 6) (PDict (pi_receipt_payload (st_prepared s))))"
      by (simp add: payload demo_es_def demo_receipt_reader_def del: json_norm.simps)
  qed (simp_all add: no_evidence_def empty_store_def descriptor_def rbind_def split: sum.splits)
  with run root show ?thesis by auto
qed

end
