(* ===== verification/Personal_Finance_Delta.thy ===== *)
theory Personal_Finance_Delta
  imports Personal_Finance_Properties
begin

text \<open>
  Deltas of personal-finance exports: the positions carried over from the last import, and a
  carry-over that the store can never accept.
\<close>

section \<open>Counting twice\<close>

lemma py_eq_dict_get:
  assumes "py_eq (PDict d) (PDict d')"
  shows "py_eq (dict_get d k) (dict_get d' k)"
proof -
  have norm: "map_of (sort_key fst (map (map_prod id eq_norm) d)) k = map_option eq_norm (map_of d k)" for d
    unfolding map_of_sort by (induction d) auto
  from assms have "map_of (sort_key fst (map (map_prod id eq_norm) d)) k = map_of (sort_key fst (map (map_prod id eq_norm) d')) k"
    by (simp add: py_eq_def)
  then show ?thesis unfolding norm by (auto simp: dict_get_def py_eq_def split: option.splits)
qed

lemma filtered_twice:
  assumes "i < j" and "j < length xs" and "P (xs ! i)" and "P (xs ! j)" and "f (xs ! i) = f (xs ! j)"
  shows "\<not> distinct (map f (filter P xs))"
proof -
  have split: "xs = take i xs @ xs ! i # drop (Suc i) xs" using assms(1,2) by (simp add: id_take_nth_drop)
  have "xs ! j = drop (Suc i) xs ! (j - Suc i)" using assms(1,2) by simp
  then have "xs ! j \<in> set (filter P (drop (Suc i) xs))" using assms(1,2,4) by (auto simp: in_set_conv_nth intro!: exI [of _ "j - Suc i"])
  then have "f (xs ! i) \<in> f ` set (filter P (drop (Suc i) xs))" using assms(5) by auto
  with assms(3) show ?thesis by (subst split) auto
qed

lemma carried_twice:
  assumes "i < j" and "j < length previous"
    and "po_account_id (previous ! i) = po_account_id (previous ! j)" and "po_instrument_id (previous ! i) = po_instrument_id (previous ! j)"
    and "po_symbol (previous ! i) = po_symbol (previous ! j)"
    and "\<forall>d\<in>set deletions. de_record_id d \<notin> {po_position_id (previous ! i), po_position_id (previous ! j)}"
  shows "\<not> distinct (map po_position_id (carried_positions sid as_of deletions [] previous))"
proof -
  let ?P = "\<lambda>p. po_position_id p \<notin> set (map de_record_id (filter (\<lambda>d. de_record_type d = ''Position'') deletions))"
  have "\<not> distinct (map (carried_id sid) (filter ?P previous))"
    by (rule filtered_twice [OF assms(1,2)]) (use assms(3-6) in \<open>auto simp: carried_id_def\<close>)
  then show ?thesis by (simp add: carried_positions_def carry_position_def o_def)
qed

section \<open>The batch of a delta\<close>

lemma no_positions:
  assumes "built_from sid rows rest" and "list_all (\<lambda>row. row_type row \<noteq> ''position'') rows"
  shows "positions_of rest = []"
proof -
  have "(''position'', ''Position'') \<in> set class_of_type" by (simp add: class_codes)
  then have "class_count rest ''Position'' = length (filter (\<lambda>row. row_type row = ''position'') rows)"
    using assms(1) by (auto simp: built_from_def)
  also have "\<dots> = 0" using assms(2) by (simp add: list_all_iff)
  finally show ?thesis by (simp add: positions_counted)
qed

lemma final_counts:
  assumes "final_payload e rows path ts findings mode (prior_delta rs) n ps observed = Inr d"
  shows "dict_get d ''record_counts'' = PDict (dict_set (record_counts rows) ''position'' (PInt (int n)))"
proof -
  have other: "dict_get (dict_merge p (prior_delta rs)) ''record_counts'' = dict_get p ''record_counts''" for p
    by (auto simp: prior_delta_def split: list.splits)
  obtain p where p: "payload_for_snapshot e rows path ts findings mode = Inr p" using assms by (auto simp: final_payload_def elim!: rbind_InrE)
  show ?thesis using assms payload_keys [OF p] by (auto simp: final_payload_def p Let_def other)
qed

lemma finalize_counts:
  assumes "finalize_valuation_on_records e rs fs observed ts mode rows path = Inr (final, findings, c)"
  shows "length (positions_of final) = length (positions_of rs)"
    and "RSnapshot s \<in> set final \<Longrightarrow> dict_get (sn_payload s) ''record_counts'' =
      PDict (dict_set (record_counts rows) ''position'' (PInt (int (length (remdups (map po_position_id (positions_of rs)))))))"
proof -
  obtain v where v: "map_res (put_payload (final_payload e rows path ts (merge_valuation_findings fs v) mode (prior_delta rs)
        (length (remdups (map po_position_id (positions_of rs))))
        (positions_of (map (rewrite_position (status_by_id (positions_of rs) v)) rs)) observed))
      (map (rewrite_position (status_by_id (positions_of rs) v)) rs) = Inr final"
    using assms unfolding finalize_valuation_on_records_def Let_def by (elim rbind_InrE) auto
  define f where "f = status_by_id (positions_of rs) v"
  define m where "m = final_payload e rows path ts (merge_valuation_findings fs v) mode (prior_delta rs)
    (length (remdups (map po_position_id (positions_of rs)))) (positions_of (map (rewrite_position f) rs)) observed"
  have final: "map_res (put_payload m) (map (rewrite_position f) rs) = Inr final" using v by (simp only: m_def f_def)
  have m: "dict_get d ''record_counts'' =
        PDict (dict_set (record_counts rows) ''position'' (PInt (int (length (remdups (map po_position_id (positions_of rs)))))))"
    if "m = Inr d" for d using final_counts that unfolding m_def by blast
  have all: "list_all2 (\<lambda>r r'. put_payload m r = Inr r') (map (rewrite_position f) rs) final"
    using final by (simp add: map_res_Inr_iff)
  then have "positions_of final = positions_of (map (rewrite_position f) rs)"
  proof (induction rule: list_all2_induct)
    case (Cons r rs r' rs')
    then show ?case by (cases r) (auto simp: put_payload_def elim!: rbind_InrE)
  qed simp
  then show "length (positions_of final) = length (positions_of rs)" by (simp add: rewrite_lists)
  assume "RSnapshot s \<in> set final"
  with list_all2_in [OF all] obtain r where "put_payload m r = Inr (RSnapshot s)" by blast
  then show "dict_get (sn_payload s) ''record_counts'' =
      PDict (dict_set (record_counts rows) ''position'' (PInt (int (length (remdups (map po_position_id (positions_of rs)))))))"
    using m by (cases r) (auto simp: put_payload_def elim!: rbind_InrE)
qed

lemma assemble_delta:
  assumes "assemble_export e a rows src h t db = Inr x" and "ia_coverage_mode a = ''delta''"
  obtains records rs base as_of where "\<exists>snap rest. records = RSnapshot snap # rest \<and> built_from (xb_snapshot_id x) rows rest"
    and "materialize_delta_positions records db src (xb_snapshot_id x) as_of (ia_tombstones a) (xb_batch_id x) = (rs, Some base)"
    and "\<exists>fs ts. finalize_valuation_on_records e rs fs as_of ts ''delta'' rows (ia_export_path a) = Inr (xb_records x, xb_findings x, xb_completeness x)"
    and "xb_record_counts x = dict_set (record_counts rows) ''position'' (PInt (int (length (positions_of (xb_records x)))))"
proof -
  obtain ts tf records rs base final fs c refs where recs: "records_from_rows e rows refs (xb_snapshot_id x) (ts_observed_at_utc ts)
        (ia_export_path a) src (time_dict ts) (tf @ identity_findings rows) ''delta'' = Inr records"
      and delta: "materialize_delta_positions records db src (xb_snapshot_id x) (ts_observed_at_utc ts) (ia_tombstones a) (xb_batch_id x) = (rs, Some base)"
      and fin: "finalize_valuation_on_records e rs (tf @ identity_findings rows) (ts_observed_at_utc ts) (time_dict ts) ''delta''
        rows (ia_export_path a) = Inr (final, fs, c)"
      and x: "xb_records x = final" "xb_findings x = fs" "xb_completeness x = c"
        "xb_record_counts x = dict_set (record_counts rows) ''position'' (PInt (int (length (positions_of final))))"
    using assms unfolding assemble_export_def Let_def export_error_def
    by (elim rbind_InrE) (auto elim!: rbind_InrE split: prod.splits option.splits)
  from records_from_rows_built [OF recs] have "\<exists>snap rest. records = RSnapshot snap # rest \<and> built_from (xb_snapshot_id x) rows rest" by metis
  then show thesis using that delta fin x by blast
qed

section \<open>Two lots in a delta\<close>

lemma delta_positions:
  "positions_of (map (\<lambda>r. case r of RSnapshot s \<Rightarrow> if sn_snapshot_id s = sid then RSnapshot (s\<lparr>sn_payload := g s\<rparr>) else r | _ \<Rightarrow> r)
     (records @ map RPosition ps)) = positions_of records @ ps"
proof -
  have "positions_of (map RPosition ps) = ps" by (induction ps) simp_all
  moreover have "positions_of (map (\<lambda>r. case r of RSnapshot s \<Rightarrow> if sn_snapshot_id s = sid then RSnapshot (s\<lparr>sn_payload := g s\<rparr>) else r | _ \<Rightarrow> r) rs) =
      positions_of rs" for rs
  proof (induction rs)
    case (Cons r rs)
    then show ?case by (cases r) simp_all
  qed simp
  ultimately show ?thesis by (simp only: records_lists)
qed

lemma refused_ingest:
  assumes "stage_export es a fs db = (Inr s, fs', db')"
    and "validate_import_valuation_contract (es 13) (artifact_root a) (ef_artifacts fs') EXPORT_KIND (pi_batch (st_prepared s))
      (pi_manifest (st_prepared s)) (st_records s) \<noteq> Inr ()"
  shows "\<exists>x. ingest_personal_finance_export es a fs db = (Inl x, fs', db')"
proof -
  obtain r db'' where m: "materialize_import_batch (es 13) (artifact_root a) (ef_artifacts fs') EXPORT_KIND (pi_batch (st_prepared s))
      (pi_manifest (st_prepared s)) (st_records s) db' = (r, db'')" by (rule prod.exhaust)
  then obtain x where r: "r = Inl x" using assms(2) by (cases r) (auto elim: materialize_okE)
  with m materialize_error [of "es 13"] have "db'' = db'" by blast
  with m r assms(1) show ?thesis by (simp add: ingest_personal_finance_export_def)
qed

lemma prepared_batch: "prepare_import es root a fs = (Inr p, fs') \<Longrightarrow> \<exists>source. pi_batch p = batch_of (es 0) a source"
  unfolding prepare_import_def Let_def by (fastforce split: sum.splits prod.splits)

lemma contract_counts:
  assumes "validate_import_valuation_contract e root fs source b m records = Inr ()" and "source \<in> set PRODUCTION_VALUATION_SOURCES"
  obtains s c where "s \<in> set (snapshots_of records)" and "py_dict_of (dict_get (sn_payload s) ''record_counts'') = Inr c"
    and "py_eq (PDict c) (PDict (ib_record_counts b))"
proof -
  from assms obtain s receipt where target: "filter (\<lambda>s. sn_snapshot_id s = rm_snapshot_id m) (snapshots_of records) = [s]"
      and surf: "surfaces_agree b m s receipt records = Inr ()"
    unfolding validate_import_valuation_contract_def
    by (auto split: list.splits elim!: rbind_InrE)
  have "s \<in> set (filter (\<lambda>s. sn_snapshot_id s = rm_snapshot_id m) (snapshots_of records))" unfolding target by simp
  then have "s \<in> set (snapshots_of records)" by simp
  with surf that show thesis unfolding surfaces_agree_def Let_def by (elim rbind_InrE) (auto simp: rbind_unit_iff)
qed

lemma snapshots_member: "s \<in> set (snapshots_of rs) \<longleftrightarrow> RSnapshot s \<in> set rs"
proof (induction rs)
  case (Cons r rs)
  then show ?case by (cases r) auto
qed simp

text \<open>The contract compares the two counts, so what it accepts has distinct position identifiers.\<close>

lemma accepted_distinct:
  assumes "validate_import_valuation_contract e root fs EXPORT_KIND b m (st_records s) = Inr ()"
    and "ib_record_counts b = xb_record_counts x"
    and fin: "finalize_valuation_on_records e' rs fs0 as_of ts0 mode rows path = Inr (xb_records x, xb_findings x, xb_completeness x)"
    and counts: "xb_record_counts x = dict_set (record_counts rows) ''position'' (PInt (int (length (positions_of (xb_records x)))))"
    and recs: "st_records s = RReceipt q # xb_records x @ map RTombstone ts"
  shows "distinct (map po_position_id (positions_of rs))"
proof -
  have "EXPORT_KIND \<in> set PRODUCTION_VALUATION_SOURCES" by (simp add: EXPORT_KIND_def PRODUCTION_VALUATION_SOURCES_def)
  then obtain snap c where snap: "snap \<in> set (snapshots_of (st_records s))"
      "py_dict_of (dict_get (sn_payload snap) ''record_counts'') = Inr c" "py_eq (PDict c) (PDict (xb_record_counts x))"
    using assms(1,2) by (metis contract_counts)
  then have "RSnapshot snap \<in> set (xb_records x)" by (auto simp: snapshots_member recs)
  from finalize_counts(2) [OF fin this] snap(2)
  have "c = dict_set (record_counts rows) ''position'' (PInt (int (length (remdups (map po_position_id (positions_of rs))))))" by simp
  with py_eq_dict_get [OF snap(3), of "''position''"] have "length (remdups (map po_position_id (positions_of rs))) = length (positions_of rs)"
    by (simp add: counts py_eq_def finalize_counts(1) [OF fin])
  then show ?thesis by (metis distinct_remdups length_map length_remdups_eq remdups_id_iff_distinct)
qed

text \<open>
  Claim C29. A delta after two lots is always refused: when the last import of a source left two
  positions of the same account, instrument and symbol, none of which is explicitly deleted, a
  delta without position rows gives both the same carried identifier; the snapshot then counts
  identifiers and the batch counts records, and the store refuses the disagreement.  However the
  environment behaves, the ingestion fails and the tables stay as the registration of the source
  left them, so no such delta can ever be imported.
\<close>

theorem delta_of_two_lots_refused:
  assumes "stage_export es a fs db = (Inr s, fs', db')" and "ia_coverage_mode a = ''delta''"
    and "check_export (es 0) a = Inr (rows, domains)" and "list_all (\<lambda>row. row_type row \<noteq> ''position'') rows"
    and "latest_source_positions db' (ib_source_id (pi_batch (st_prepared s))) (ib_batch_id (pi_batch (st_prepared s))) = (base, previous)"
    and "i < j" and "j < length previous" and "po_account_id (previous ! i) = po_account_id (previous ! j)"
    and "po_instrument_id (previous ! i) = po_instrument_id (previous ! j)" and "po_symbol (previous ! i) = po_symbol (previous ! j)"
    and "\<forall>d\<in>set (ia_tombstones a). de_record_id d \<notin> {po_position_id (previous ! i), po_position_id (previous ! j)}"
  shows "\<exists>x. ingest_personal_finance_export es a fs db = (Inl x, fs', db')"
proof -
  from stage_okE [OF assms(1)] obtain rows' content src source art x ts projection pd art2 domains'
    where "persist_source_evidence es (artifact_root a) EXPORT_KIND content (sha256 (es 0) content) (clock (es 0) 0) (ef_artifacts fs) =
        (Inr source, art)"
      and x': "assemble_export (es 0) a rows' src (sha256 (es 0) content) (ad_created_at_utc source) db' = Inr x"
      and "persist_capital_projection (\<lambda>n. es (n + 3)) (artifact_root a) projection (ad_artifact_id source)
        (ad_created_at_utc source) art = (Inr pd, art2)"
      and pr: "prepare_import (\<lambda>n. es (n + 6)) (artifact_root a)
        (export_prepare_args a x src content (sha256 (es 0) content) (ad_created_at_utc source) domains' pd projection)
        (fs\<lparr>ef_artifacts := art2\<rparr>) = (Inr (st_prepared s), fs')"
      and recs: "st_records s = RReceipt (export_index (es 0) a x src (ad_created_at_utc source)) # xb_records x @ map RTombstone ts"
      and checked: "check_export (es 0) a = Inr (rows', domains')"
      and id: "ib_batch_id (pi_batch (st_prepared s)) = xb_batch_id x" .
  have x: "assemble_export (es 0) a rows src (sha256 (es 0) content) (ad_created_at_utc source) db' = Inr x"
    using x' checked assms(3) by simp
  obtain source' where b: "pi_batch (st_prepared s) =
      batch_of (es (0 + 6)) (export_prepare_args a x src content (sha256 (es 0) content) (ad_created_at_utc source) domains' pd projection) source'"
    using prepared_batch [OF pr] by blast
  have fields: "ib_source_id (pi_batch (st_prepared s)) = src" "ib_record_counts (pi_batch (st_prepared s)) = xb_record_counts x"
    unfolding b by (simp_all add: batch_of_def export_prepare_args_def)
  from assemble_delta [OF x assms(2)] obtain records rs base' as_of fs0 ts0 snap rest
    where records: "records = RSnapshot snap # rest" "built_from (xb_snapshot_id x) rows rest"
      and delta: "materialize_delta_positions records db' src (xb_snapshot_id x) as_of (ia_tombstones a) (xb_batch_id x) = (rs, Some base')"
      and fin: "finalize_valuation_on_records (es 0) rs fs0 as_of ts0 ''delta'' rows (ia_export_path a) = Inr (xb_records x, xb_findings x, xb_completeness x)"
      and counts: "xb_record_counts x = dict_set (record_counts rows) ''position'' (PInt (int (length (positions_of (xb_records x)))))"
    by metis
  let ?carried = "carried_positions (xb_snapshot_id x) as_of (ia_tombstones a) [] previous"
  have none: "positions_of records = []" using no_positions [OF records(2) assms(4)] by (simp add: records(1))
  have twice: "\<not> distinct (map po_position_id ?carried)" by (rule carried_twice [OF assms(6-11)])
  have "latest_source_positions db' src (xb_batch_id x) = (base, previous)" using assms(5) by (simp only: fields(1) id)
  then have carried: "positions_of rs = ?carried"
    using delta none delta_positions [where records = records and ps = ?carried] twice
    by (auto simp: materialize_delta_positions_def Let_def split: if_splits)
  have "validate_import_valuation_contract (es 13) (artifact_root a) (ef_artifacts fs') EXPORT_KIND (pi_batch (st_prepared s))
      (pi_manifest (st_prepared s)) (st_records s) \<noteq> Inr ()"
    using accepted_distinct [OF _ fields(2) fin counts recs] twice carried by auto
  then show ?thesis
    using refused_ingest [OF assms(1)] by blast
qed

text \<open>The last import left two lots of one share; the delta brings one liability.\<close>

definition demo_lots_db :: import_db where
  "demo_lots_db = demo_registered_db\<lparr>db_batches := [demo_batch\<lparr>ib_source_id := ''source_7''\<rparr>], db_manifests := [demo_manifest],
     db_positions := [demo_position, demo_position\<lparr>po_position_id := ''p2''\<rparr>]\<rparr>"

definition demo_delta_args :: ingest_args where
  "demo_delta_args = demo_ingest_args\<lparr>ia_export_path := ''/p/dd.csv'', ia_coverage_mode := ''delta'', ia_source_id := Some ''source_7''\<rparr>"

definition demo_delta_rows :: "csv_row list" where
  "demo_delta_rows = (case demo_delta_csv of CsvTable _ rows \<Rightarrow> rows | _ \<Rightarrow> [])"

definition demo_delta_db :: import_db where
  "demo_delta_db = demo_lots_db\<lparr>db_source_aliases := db_source_aliases demo_lots_db @ [registered_alias demo_e0 ''source_7'' ''path'' ''/p/dd.csv'']\<rparr>"

lemma demo_delta_checked: "check_export demo_e0 demo_delta_args = Inr (demo_delta_rows, [''liability''])"
  by code_simp

lemma demo_delta_registered:
  "resolve_or_register_import_source demo_e0 (uuid7 demo_e0) EXPORT_KIND ''path'' (canonical_path_alias demo_e0 (ia_export_path demo_delta_args))
     (ia_source_id demo_delta_args) (Some (path_name (ia_export_path demo_delta_args))) demo_lots_db =
   (Inr (registered_source demo_e0 ''source_7'' EXPORT_KIND ''path'' ''/p/e.csv'' (Some ''e.csv'')), demo_delta_db)"
  by code_simp

lemma demo_delta_assembled:
  "case assemble_export demo_e0 demo_delta_args demo_delta_rows ''source_7'' (demo_digest ''rows'') ''tttttt'' demo_delta_db of
     Inl _ \<Rightarrow> False | Inr x \<Rightarrow> demo_ready demo_delta_args x \<and> length (positions_of (xb_records x)) = 2 \<and>
       latest_source_positions demo_delta_db ''source_7'' (xb_batch_id x) =
         (Some ''b1'', [demo_position, demo_position\<lparr>po_position_id := ''p2''\<rparr>])"
  by code_simp

theorem delta_of_two_lots_refused_witness:
  "\<exists>x fs'. ingest_personal_finance_export (demo_es (\<lambda>_. None)) demo_delta_args no_evidence demo_lots_db = (Inl x, fs', demo_delta_db)"
proof -
  let ?lots = "[demo_position, demo_position\<lparr>po_position_id := ''p2''\<rparr>]"
  obtain x where x: "assemble_export demo_e0 demo_delta_args demo_delta_rows ''source_7'' (demo_digest ''rows'') ''tttttt'' demo_delta_db = Inr x"
      "demo_ready demo_delta_args x" "latest_source_positions demo_delta_db ''source_7'' (xb_batch_id x) = (Some ''b1'', ?lots)"
    using demo_delta_assembled by (auto split: sum.splits)
  obtain s fs' where s: "stage_export (demo_es (\<lambda>_. None)) demo_delta_args no_evidence demo_lots_db = (Inr s, fs', demo_delta_db)"
      "ib_batch_id (pi_batch (st_prepared s)) = xb_batch_id x" "ib_source_id (pi_batch (st_prepared s)) = ''source_7''"
    using demo_stages [OF demo_delta_checked demo_delta_registered _ x(1,2), of "\<lambda>_. None"]
    by (auto simp: registered_source_def)
  have "\<exists>x. ingest_personal_finance_export (demo_es (\<lambda>_. None)) demo_delta_args no_evidence demo_lots_db = (Inl x, fs', demo_delta_db)"
  proof (rule delta_of_two_lots_refused [OF s(1), where i = 0 and j = 1 and previous = ?lots and rows = demo_delta_rows and base = "Some ''b1''"])
    show "check_export (demo_es (\<lambda>_. None) 0) demo_delta_args = Inr (demo_delta_rows, [''liability''])" by (simp add: demo_delta_checked)
    show "list_all (\<lambda>row. row_type row \<noteq> ''position'') demo_delta_rows" by code_simp
    show "latest_source_positions demo_delta_db (ib_source_id (pi_batch (st_prepared s))) (ib_batch_id (pi_batch (st_prepared s))) = (Some ''b1'', ?lots)"
      using x(3) s(2,3) by simp
  qed (simp_all add: demo_delta_args_def demo_ingest_args_def)
  then show ?thesis by blast
qed

end
