(* ===== verification/Source_Properties.thy ===== *)
theory Source_Properties
  imports Personal_Finance_Delta
begin

text \<open>
  The identity of external sources (\<^verbatim>\<open>statecore/capital_sources.py\<close>) along histories of
  registrations and imports: an instance of the locale \<open>write_once\<close>.
\<close>

section \<open>Registration\<close>

lemma find_append: "find P (xs @ ys) = (case find P xs of None \<Rightarrow> find P ys | r \<Rightarrow> r)"
  by (induction xs) auto

lemma bind_alias_grows:
  "bind_alias e existing i k v db = Inr db' \<Longrightarrow> \<exists>as. db_source_aliases db' = db_source_aliases db @ as"
  by (auto simp: bind_alias_def Let_def split: option.splits if_splits)

lemma registration_grows:
  "\<exists>as. db_source_aliases (snd (resolve_or_register_import_source e new_id kind ak av sid dn db)) = db_source_aliases db @ as"
proof -
  have reg: "\<exists>as. db_source_aliases db' = db_source_aliases db @ as"
    if "register_source e i k ak' av' dn existing db = Inr (s, db')" for i k ak' av' existing s db'
    using that bind_alias_grows
    by (fastforce simp: register_source_def Let_def split: option.splits if_splits elim!: rbind_InrE)
  show ?thesis
    unfolding resolve_or_register_import_source_def Let_def
    by (auto split: option.splits sum.splits prod.splits if_splits dest!: reg)
qed

definition bound_source :: "import_db \<Rightarrow> string \<times> string \<rightharpoonup> string" where
  "bound_source db kv = map_option ca_source_id (alias_bound db (fst kv) (snd kv))"

lemma bound_source_grows:
  "db_source_aliases db' = db_source_aliases db @ as \<Longrightarrow> bound_source db kv = Some i \<Longrightarrow> bound_source db' kv = Some i"
  by (auto simp: bound_source_def alias_bound_def find_append split: option.splits)

text \<open>A registration that returns binds its alias to the source it returns.\<close>

lemma registered_bound:
  assumes "resolve_or_register_import_source e new_id kind ak av sid dn db = (Inr s, db')"
  shows "bound_source db' (py_strip ak, py_strip av) = Some (ci_source_id s)"
proof -
  let ?k = "py_strip ak" and ?v = "py_strip av"
  have bind: "bound_source db2 (?k, ?v) = Some i"
    if "bind_alias e (alias_bound db ?k ?v) i ?k ?v db1 = Inr db2" "db_source_aliases db1 = db_source_aliases db" for i db1 db2
    using that
    by (auto simp: bind_alias_def bound_source_def alias_bound_def Let_def find_append registered_alias_def split: option.splits if_splits)
  have id: "ci_source_id s = i" if "tbl_get ci_source_id (db_sources db) i = Some s" for i
    using tbl_get_SomeD [OF that] by blast
  show ?thesis
    using assms bind id
    unfolding resolve_or_register_import_source_def register_source_def Let_def
    by (auto simp: bound_source_def registered_source_def split: option.splits sum.splits prod.splits if_splits elim!: rbind_InrE)
qed

section \<open>Imports between registrations\<close>

definition adapter_row :: "import_record \<Rightarrow> bool" where
  "adapter_row r \<longleftrightarrow> plain_row r \<or> (\<exists>s. r = RSnapshot s)"

lemma finalized_rows:
  assumes "finalize_valuation_on_records e rs fs observed ts mode rows path = Inr (final, findings, c)" and "list_all adapter_row rs"
  shows "list_all adapter_row final"
proof -
  obtain f m where "map_res (put_payload m) (map (rewrite_position f) rs) = Inr final"
    using assms(1) unfolding finalize_valuation_on_records_def Let_def by (elim rbind_InrE) auto
  then have all: "list_all2 (\<lambda>r r'. put_payload m r = Inr r') (map (rewrite_position f) rs) final" by (simp add: map_res_Inr_iff)
  have "adapter_row r'" if r': "r' \<in> set final" for r'
  proof -
    from list_all2_in [OF all r'] obtain r where r: "r \<in> set rs" "put_payload m (rewrite_position f r) = Inr r'" by auto
    have "adapter_row r" using assms(2) r(1) by (simp add: list_all_iff)
    with r(2) show ?thesis
      by (cases r) (auto simp: adapter_row_def plain_row_def put_payload_def rewrite_position_def split: option.splits elim!: rbind_InrE)
  qed
  then show ?thesis by (simp add: list_all_iff)
qed

lemma delta_rows:
  assumes "materialize_delta_positions records db src sid as_of ds b = (rs, base)" and "list_all adapter_row records"
  shows "list_all adapter_row rs"
proof -
  have same: "adapter_row (case r of RSnapshot s \<Rightarrow> if c s then RSnapshot (g s) else r | _ \<Rightarrow> r) = adapter_row r" for r c g
    by (cases r) (simp_all add: adapter_row_def plain_row_def)
  have "adapter_row (RPosition p)" for p by (simp add: adapter_row_def plain_row_def)
  with assms show ?thesis
    by (auto simp: materialize_delta_positions_def Let_def list_all_iff same split: prod.splits if_splits)
qed

lemma assembled_rows:
  assumes "assemble_export e a rows src h t db = Inr x" and "ia_coverage_mode a \<in> {''full'', ''delta''}"
  shows "list_all adapter_row (xb_records x)"
proof (cases "ia_coverage_mode a = ''full''")
  case True
  from assemble_full(1) [OF assms(1) True] obtain snap rest where "xb_records x = RSnapshot snap # rest" "list_all plain_row rest"
    unfolding coherent_def by blast
  then show ?thesis by (auto simp: adapter_row_def list_all_iff)
next
  case False
  with assms(2) have mode: "ia_coverage_mode a = ''delta''" by simp
  from assemble_delta [OF assms(1) mode] obtain records rs base as_of fs ts snap rest
    where records: "records = RSnapshot snap # rest" "built_from (xb_snapshot_id x) rows rest"
      and delta: "materialize_delta_positions records db src (xb_snapshot_id x) as_of (ia_tombstones a) (xb_batch_id x) = (rs, Some base)"
      and fin: "finalize_valuation_on_records e rs fs as_of ts ''delta'' rows (ia_export_path a) = Inr (xb_records x, xb_findings x, xb_completeness x)"
    by metis
  have "list_all adapter_row records" using records by (auto simp: built_from_def adapter_row_def list_all_iff)
  from finalized_rows [OF fin delta_rows [OF delta this]] show ?thesis .
qed

lemma check_export_mode: "check_export e a = Inr rd \<Longrightarrow> ia_coverage_mode a \<in> {''full'', ''delta''}"
  by (auto simp: check_export_def export_error_def split: if_splits)

lemma merged_aliases:
  "merge_records rs db = Inr db' \<Longrightarrow> \<forall>r\<in>set rs. \<forall>a. r \<noteq> RSourceAlias a \<Longrightarrow> db_source_aliases db' = db_source_aliases db"
proof (induction rs arbitrary: db)
  case (Cons r rs)
  from Cons.prems(1) have "merge_records rs (merge_record r db) = Inr db'" by (auto simp: rbind_unit_iff)
  from Cons.IH [OF this] Cons.prems(2) have "db_source_aliases db' = db_source_aliases (merge_record r db)" by simp
  moreover have "db_source_aliases (merge_record r db) = db_source_aliases db" using Cons.prems(2) by (cases r) simp_all
  ultimately show ?case by simp
qed simp

lemma staged_rows:
  assumes "stage_export es a fs db = (Inr s, fs', db')"
  shows "\<forall>r\<in>set (st_records s). \<forall>a. r \<noteq> RSourceAlias a"
  using assms
proof (rule stage_okE)
  fix rows content src source x ts domains
  assume "assemble_export (es 0) a rows src (sha256 (es 0) content) (ad_created_at_utc source) db' = Inr x"
    and recs: "st_records s = RReceipt (export_index (es 0) a x src (ad_created_at_utc source)) # xb_records x @ map RTombstone ts"
    and "check_export (es 0) a = Inr (rows, domains)"
  then have "list_all adapter_row (xb_records x)" using assembled_rows check_export_mode by blast
  then show ?thesis unfolding recs by (auto simp: list_all_iff adapter_row_def plain_row_def)
qed

lemma ingested_aliases:
  "\<exists>as. db_source_aliases (snd (snd (ingest_personal_finance_export es a fs db))) = db_source_aliases db @ as"
proof -
  obtain r fs' db' where st: "stage_export es a fs db = (r, fs', db')" by (rule prod_cases3)
  have grown: "\<exists>as. db_source_aliases db' = db_source_aliases db @ as"
    using st registration_grows [of "es 0" "uuid7 (es 0)" EXPORT_KIND "''path''" "canonical_path_alias (es 0) (ia_export_path a)"
        "ia_source_id a" "Some (path_name (ia_export_path a))" db]
    unfolding stage_export_def Let_def
    by (auto split: sum.splits prod.splits option.splits)
  show ?thesis
  proof (cases r)
    case (Inl x)
    with st grown show ?thesis by (simp add: ingest_personal_finance_export_def)
  next
    case (Inr s)
    obtain q db'' where m: "materialize_import_batch (es 13) (artifact_root a) (ef_artifacts fs') EXPORT_KIND (pi_batch (st_prepared s))
        (pi_manifest (st_prepared s)) (st_records s) db' = (q, db'')" by (rule prod.exhaust)
    have "db_source_aliases db'' = db_source_aliases db'"
    proof (cases q)
      case (Inl y)
      with m materialize_error [of "es 13"] show ?thesis by metis
    next
      case (Inr saved)
      from m [unfolded Inr] have tr: "import_transaction (es 13) EXPORT_KIND (pi_batch (st_prepared s)) (pi_manifest (st_prepared s))
          (st_records s) db' = Inr (saved, db'')" by (rule materialize_okE)
      have "\<forall>r\<in>set saved. \<forall>a. r \<noteq> RSourceAlias a" unfolding transaction_ok(2) [OF tr] using staged_rows [OF st [unfolded \<open>r = Inr s\<close>]] by auto
      from merged_aliases [OF transaction_ok(3) [OF tr] this] show ?thesis by simp
    qed
    with grown m st Inr show ?thesis by (auto simp: ingest_personal_finance_export_def split: sum.splits)
  qed
qed

text \<open>A step registers a source or imports a file, successfully or not.\<close>

inductive source_step :: "import_db \<Rightarrow> import_db \<Rightarrow> bool" where
  register_step: "source_step db (snd (resolve_or_register_import_source (e :: ingest_env) new_id kind ak av sid dn db))"
| ingest_step: "source_step db (snd (snd (ingest_personal_finance_export (es :: nat \<Rightarrow> ingest_env) a fs db)))"

interpretation stored_sources: write_once source_step bound_source
proof
  fix db db' kv i
  assume "source_step db db'" and bound: "bound_source db kv = Some i"
  from this(1) have "\<exists>as. db_source_aliases db' = db_source_aliases db @ as"
  proof cases
    case (register_step e new_id kind ak av sid dn)
    then show ?thesis using registration_grows by blast
  next
    case (ingest_step es a fs)
    then show ?thesis using ingested_aliases by blast
  qed
  then show "bound_source db' kv = Some i" using bound_source_grows bound by blast
qed

text \<open>
  Claim C28. The identity of a source is stable: once a path, or any alias, has been registered or
  resolved to a source, every later call for the same alias that returns, returns a source with the
  same identifier, whatever registrations and whole imports of files, failing ones included, came
  between them, and also when the later call names a source of its own.  A rebinding is refused.
\<close>

theorem source_identity_stable:
  assumes "resolve_or_register_import_source (e :: ingest_env) new_id kind ak av sid dn db = (Inr s, db1)"
    and "source_step\<^sup>*\<^sup>* db1 db2"
    and "resolve_or_register_import_source (e' :: ingest_env) new_id' kind' ak av sid' dn' db2 = (Inr s', db3)"
  shows "ci_source_id s' = ci_source_id s"
proof -
  have "source_step db2 db3" using register_step [of db2 e' new_id' kind' ak av sid' dn'] assms(3) by simp
  with assms(2) have "source_step\<^sup>*\<^sup>* db1 db3" by simp
  from stored_sources.agree [OF this registered_bound [OF assms(1)] registered_bound [OF assms(3)]] show ?thesis .
qed

text \<open>A file is registered, another one is registered, and the first is resolved again.\<close>

definition demo_first :: "capital_import_source res \<times> import_db" where
  "demo_first = resolve_or_register_import_source demo_e0 ''7'' EXPORT_KIND ''path'' ''/p/e.csv'' None None empty_import_db"

definition demo_second :: "capital_import_source res \<times> import_db" where
  "demo_second = resolve_or_register_import_source demo_e0 ''8'' EXPORT_KIND ''path'' ''/p/other.csv'' None None (snd demo_first)"

definition demo_third :: "capital_import_source res \<times> import_db" where
  "demo_third = resolve_or_register_import_source demo_e0 ''9'' EXPORT_KIND ''path'' ''/p/e.csv'' (Some ''source_7'') (Some ''renamed'') (snd demo_second)"

lemma demo_registrations:
  "case (fst demo_first, fst demo_second, fst demo_third) of
     (Inr s, Inr r, Inr _) \<Rightarrow> ci_source_id s = ''source_7'' \<and> ci_source_id r = ''source_8'' | _ \<Rightarrow> False"
  by code_simp

theorem source_identity_stable_witness:
  "\<exists>s s'. demo_first = (Inr s, snd demo_first) \<and> demo_third = (Inr s', snd demo_third) \<and> ci_source_id s = ''source_7'' \<and>
     ci_source_id s' = ci_source_id s"
proof -
  obtain s s' where s: "fst demo_first = Inr s" "fst demo_third = Inr s'" "ci_source_id s = ''source_7''"
    using demo_registrations by (auto split: sum.splits)
  then have runs: "demo_first = (Inr s, snd demo_first)" "demo_third = (Inr s', snd demo_third)" by (simp_all add: prod_eq_iff)
  have "source_step (snd demo_first) (snd demo_second)" unfolding demo_second_def by (rule register_step)
  then have "source_step\<^sup>*\<^sup>* (snd demo_first) (snd demo_second)" by blast
  from source_identity_stable [OF runs(1) [unfolded demo_first_def] this [unfolded demo_first_def] runs(2) [unfolded demo_third_def]]
  have "ci_source_id s' = ci_source_id s" .
  with runs s show ?thesis by blast
qed

end
