(* ===== verification/Personal_Finance_Types.thy ===== *)
theory Personal_Finance_Types
  imports Source_Properties
begin

text \<open>
  The types of the stored rows that a personal-finance export fills: identifiers are given,
  currencies are three capital letters, statuses are those of the valuation.
\<close>

section \<open>Types\<close>

definition currency_typed :: "string \<Rightarrow> bool" where
  "currency_typed c \<longleftrightarrow> length c = 3 \<and> list_all upper_point c"

primrec opt_currency_typed :: "string option \<Rightarrow> bool" where
  "opt_currency_typed None \<longleftrightarrow> True"
| "opt_currency_typed (Some c) \<longleftrightarrow> currency_typed c"

definition status_typed :: "string \<Rightarrow> bool" where
  "status_typed s \<longleftrightarrow> s \<in> set (map status_value [Valued, ValuedConverted, Unpriced, FxMissing, Stale, UnknownLegacy])"

definition position_typed :: "position \<Rightarrow> bool" where
  "position_typed p \<longleftrightarrow>
     po_position_id p \<noteq> [] \<and> po_symbol p \<noteq> [] \<and> status_typed (po_valuation_status p) \<and>
     opt_currency_typed (po_valuation_currency p) \<and> opt_currency_typed (po_price_currency p)"

primrec owned_typed :: "owned_row \<Rightarrow> bool" where
  "owned_typed (OLiability r) \<longleftrightarrow> li_liability_id r \<noteq> [] \<and> li_name r \<noteq> [] \<and> currency_typed (li_currency r)"
| "owned_typed (OGoal r) \<longleftrightarrow> fg_goal_id r \<noteq> [] \<and> fg_status r \<noteq> [] \<and> currency_typed (fg_currency r)"
| "owned_typed (OCashflow r) \<longleftrightarrow> cf_cashflow_id r \<noteq> [] \<and> cf_event_date r \<noteq> [] \<and> currency_typed (cf_currency r)"
| "owned_typed (OTaxEvent r) \<longleftrightarrow>
     tx_tax_event_id r \<noteq> [] \<and> tx_status r \<noteq> [] \<and> opt_currency_typed (tx_currency r) \<and> (tx_estimated_amount r \<noteq> None \<longrightarrow> tx_currency r \<noteq> None)"
| "owned_typed (OInsurance r) \<longleftrightarrow> ip_policy_id r \<noteq> [] \<and> ip_status r \<noteq> [] \<and> currency_typed (ip_currency r)"
| "owned_typed (ODocument r) \<longleftrightarrow> dr_document_id r \<noteq> [] \<and> dr_path r \<noteq> []"

definition typed_tables :: "import_db \<Rightarrow> bool" where
  "typed_tables db \<longleftrightarrow> list_all position_typed (db_positions db) \<and> list_all owned_typed (db_owned db)"

section \<open>Cells\<close>

lemma status_value_typed [simp]: "status_typed (status_value s)"
  by (cases s) (simp_all add: status_typed_def)

lemma upper_letters:
  assumes "c \<in> set (py_upper_char d)" and "ascii_alpha c"
  shows "upper_point c"
proof (cases "lower_point d")
  case True
  then have low: "(97 :: nat) \<le> of_char d" "of_char d \<le> (122 :: nat)" by (simp_all add: lower_point_def)
  then have "c = char_of ((of_char d :: nat) - 32)" using assms(1) by (auto simp: py_upper_char_def Let_def)
  moreover have "((of_char d :: nat) - 32) < 256" using low by simp
  ultimately have "(of_char c :: nat) = of_char d - 32" by (simp add: of_char_of)
  then show ?thesis using low unfolding upper_point_def by linarith
next
  case False
  then show ?thesis using assms
    by (auto simp: py_upper_char_def Let_def lower_point_def upper_point_def ascii_alpha_def of_char_of split: if_splits)
qed

lemma currency_code_typed:
  assumes "currency_code v field rt n = Inr c"
  shows "currency_typed c"
proof -
  have "length c = 3" "list_all ascii_alpha c" "\<exists>s. c = py_upper s"
    using assms by (auto simp: currency_code_def Let_def split: if_splits)
  then show ?thesis using upper_letters by (fastforce simp: currency_typed_def list_all_iff py_upper_def)
qed

lemma currency_cell_typed: "currency_cell row n = Inr c \<Longrightarrow> currency_typed c"
  by (auto simp: currency_cell_def export_error_def split: sum.splits dest: currency_code_typed)

lemma optional_currency_typed: "optional_currency row column n = Inr c \<Longrightarrow> opt_currency_typed c"
  by (auto simp: optional_currency_def export_error_def split: option.splits sum.splits dest: currency_code_typed)

lemma required_cell_given: "required_cell row column n = Inr v \<Longrightarrow> v \<noteq> []"
  by (auto simp: required_cell_def export_error_def Let_def split: if_splits)

lemma or_else_given: "d \<noteq> [] \<Longrightarrow> or_else v d \<noteq> []"
  by (auto simp: or_else_def split: option.splits)

section \<open>Rows\<close>

definition row_typed :: "import_record \<Rightarrow> bool" where
  "row_typed r \<longleftrightarrow> (case r of RPosition p \<Rightarrow> position_typed p | ROwned q \<Rightarrow> owned_typed q | _ \<Rightarrow> True)"

lemmas cell_types = currency_cell_typed optional_currency_typed required_cell_given

lemma owned_rows_typed:
  "build_liability e row n ctx = Inr l \<Longrightarrow> owned_typed (OLiability l)"
  "build_goal e row n ctx = Inr g \<Longrightarrow> owned_typed (OGoal g)"
  "build_cashflow e row n ctx = Inr c \<Longrightarrow> owned_typed (OCashflow c)"
  "build_tax_event e row n ctx = Inr x \<Longrightarrow> owned_typed (OTaxEvent x)"
  "build_insurance e row n ctx = Inr i \<Longrightarrow> owned_typed (OInsurance i)"
  "build_document row n ctx = Inr d \<Longrightarrow> owned_typed (ODocument d)"
proof -
  show "build_tax_event e row n ctx = Inr x \<Longrightarrow> owned_typed (OTaxEvent x)"
    unfolding build_tax_event_def
    by (elim rbind_InrE) (auto simp: or_else_given optional_cell_def truthy_def optional_decimal_def Let_def
        dest: cell_types split: if_splits elim!: rbind_InrE)
qed (auto simp: build_liability_def build_goal_def build_cashflow_def build_insurance_def build_document_def or_else_given
    dest: cell_types elim!: rbind_InrE)

lemma position_row_typed:
  assumes "build_position e row n ctx = Inr (p, ctx')"
  shows "position_typed p"
proof -
  have upper: "s \<noteq> [] \<Longrightarrow> py_upper s \<noteq> []" for s
    by (cases s) (auto simp: py_upper_def py_upper_char_def Let_def)
  have priced: "opt_currency_typed (ve_valuation_currency ev) \<and> opt_currency_typed (ve_price_currency ev)"
    if "priced_evidence e row n = Inr ev" for ev
    using that by (auto simp: priced_evidence_def elim!: rbind_InrE dest: cell_types)
  have "safe_fragment (''pos_'' @ s) \<noteq> []" for s by (simp add: safe_fragment_def)
  then show ?thesis
    using assms upper priced unfolding build_position_def Let_def
    by (elim rbind_InrE) (auto simp: position_of_def position_typed_def dest: cell_types elim!: rbind_InrE split: prod.splits)
qed

lemma build_row_typed: "build_row e row n ctx = Inr (r, ctx') \<Longrightarrow> row_typed r"
  by (auto simp: build_row_def Let_def own_record_def row_typed_def simp del: owned_typed.simps
      dest: owned_rows_typed position_row_typed elim!: rbind_InrE split: if_splits)

lemma build_rows_typed: "build_rows e rows ctx = Inr (rs, ctx') \<Longrightarrow> list_all row_typed rs"
proof (induction rows arbitrary: ctx rs)
  case (Cons nr rows)
  obtain n row where "nr = (n, row)" by (rule prod.exhaust)
  with Cons show ?case by (auto elim!: rbind_InrE dest: build_row_typed)
qed simp

lemma tag_typed: "row_typed (tag_record i r) = row_typed r"
proof -
  have "owned_typed (tag_source i q) = owned_typed q" for q by (cases q) simp_all
  then show ?thesis by (cases r) (simp_all add: tag_record_def row_typed_def)
qed

lemma records_typed:
  assumes "records_from_rows e rows refs sid as_of path src ts fs mode = Inr records"
  shows "list_all row_typed records"
proof -
  obtain raw ctx snap where raw: "build_rows e (enumerate 1 rows) (empty_context sid as_of refs src) = Inr (raw, ctx)"
      and records: "records = RSnapshot snap # map RAccountIdentity (cx_account_identities ctx) @
        map RInstrumentIdentity (cx_instrument_identities ctx) @ map RAlias (cx_aliases ctx) @
        map RAccount (cx_accounts ctx) @ map (tag_record src) raw"
    using assms unfolding records_from_rows_def Let_def by (auto elim!: rbind_InrE)
  have "list_all row_typed (map (tag_record src) raw)"
    using build_rows_typed [OF raw] by (simp add: list_all_iff tag_typed)
  moreover have "row_typed (RSnapshot v)" "row_typed (RAccountIdentity w)" "row_typed (RInstrumentIdentity x)" "row_typed (RAlias y)"
      "row_typed (RAccount z)" for v w x y z
    by (simp_all add: row_typed_def)
  ultimately show ?thesis unfolding records by (auto simp: list_all_iff)
qed

section \<open>Assembled batches\<close>

lemma status_by_id_typed:
  assumes "status_by_id ps as i = Some q" and "list_all position_typed ps"
  shows "position_typed q"
  using map_of_SomeD [OF assms(1) [unfolded status_by_id_def]] assms(2)
  by (auto simp: list_all_iff position_typed_def dest: set_zip_leftD)

lemma positions_row_typed: "list_all row_typed rs \<Longrightarrow> list_all position_typed (positions_of rs)"
proof (induction rs)
  case (Cons r rs)
  then show ?case by (cases r) (simp_all add: row_typed_def)
qed simp

lemma finalized_typed:
  assumes "finalize_valuation_on_records e rs fs observed ts mode rows path = Inr (final, findings, c)" and "list_all row_typed rs"
  shows "list_all row_typed final"
proof -
  obtain as m where "map_res (put_payload m) (map (rewrite_position (status_by_id (positions_of rs) as)) rs) = Inr final"
    using assms(1) unfolding finalize_valuation_on_records_def Let_def by (elim rbind_InrE) auto
  then have all: "list_all2 (\<lambda>r r'. put_payload m r = Inr r') (map (rewrite_position (status_by_id (positions_of rs) as)) rs) final"
    by (simp add: map_res_Inr_iff)
  have "row_typed r'" if r': "r' \<in> set final" for r'
  proof -
    from list_all2_in [OF all r'] obtain r where r: "r \<in> set rs" "put_payload m (rewrite_position (status_by_id (positions_of rs) as) r) = Inr r'"
      by auto
    have "row_typed r" using assms(2) r(1) by (simp add: list_all_iff)
    with r(2) status_by_id_typed [OF _ positions_row_typed [OF assms(2)], of as] show ?thesis
      by (cases r) (auto simp: row_typed_def put_payload_def rewrite_position_def split: option.splits elim!: rbind_InrE)
  qed
  then show ?thesis by (simp add: list_all_iff)
qed

lemma carry_typed: "position_typed p \<Longrightarrow> position_typed (carry_position sid as_of p)"
  by (simp add: carry_position_def position_typed_def carried_id_def safe_fragment_def)

lemma delta_typed:
  assumes "materialize_delta_positions records db src sid as_of ds b = (rs, base)" and "list_all row_typed records"
    and "list_all position_typed (db_positions db)"
  shows "list_all row_typed rs"
proof -
  have same: "row_typed (case r of RSnapshot s \<Rightarrow> if c s then RSnapshot (g s) else r | _ \<Rightarrow> r) = row_typed r" for r c g
    by (cases r) (simp_all add: row_typed_def)
  obtain b0 previous where latest: "latest_source_positions db src b = (b0, previous)" by (rule prod.exhaust)
  then have "list_all position_typed previous"
    using assms(3) by (auto simp: latest_source_positions_def Let_def list_all_iff split: list.splits)
  then have "list_all position_typed (carried_positions sid as_of ds incoming previous)" for incoming
    by (auto simp: carried_positions_def Let_def list_all_iff carry_typed)
  then have carried: "list_all row_typed (map RPosition (carried_positions sid as_of ds incoming previous))" for incoming
    by (simp add: list_all_iff row_typed_def)
  let ?all = "records @ map RPosition (carried_positions sid as_of ds (positions_of records) previous)"
  show ?thesis
  proof (cases "carried_positions sid as_of ds (positions_of records) previous = []")
    case True
    with assms(1,2) latest show ?thesis by (simp add: materialize_delta_positions_def Let_def)
  next
    case False
    with assms(1) latest have rs: "rs = map (\<lambda>r. case r of
        RSnapshot s \<Rightarrow> if sn_snapshot_id s = sid then RSnapshot (s\<lparr>sn_payload := dict_merge (sn_payload s)
          [(''delta_base_batch_id'', opt_json base), (''materialized_position_count'', PInt (int (length (positions_of records) +
            length (carried_positions sid as_of ds (positions_of records) previous))))]\<rparr>) else r
      | _ \<Rightarrow> r) ?all"
      by (auto simp: materialize_delta_positions_def Let_def simp del: map_append)
    show ?thesis
      using assms(2) carried unfolding rs by (simp only: list_all_iff set_map ball_simps same set_append ball_Un) blast
  qed
qed

lemma assembled_typed:
  assumes "assemble_export e a rows src h t db = Inr x" and "list_all position_typed (db_positions db)"
  shows "list_all row_typed (xb_records x)"
proof (cases "ia_coverage_mode a = ''delta''")
  case True
  obtain ts tf records rs base fs c refs where recs: "records_from_rows e rows refs (xb_snapshot_id x) (ts_observed_at_utc ts)
        (ia_export_path a) src (time_dict ts) (tf @ identity_findings rows) ''delta'' = Inr records"
      and delta: "materialize_delta_positions records db src (xb_snapshot_id x) (ts_observed_at_utc ts) (ia_tombstones a) (xb_batch_id x) = (rs, Some base)"
      and fin: "finalize_valuation_on_records e rs (tf @ identity_findings rows) (ts_observed_at_utc ts) (time_dict ts) ''delta''
        rows (ia_export_path a) = Inr (xb_records x, fs, c)"
    using assms(1) True unfolding assemble_export_def Let_def export_error_def
    by (elim rbind_InrE) (auto elim!: rbind_InrE split: prod.splits option.splits)
  from finalized_typed [OF fin delta_typed [OF delta records_typed [OF recs] assms(2)]] show ?thesis .
next
  case False
  obtain ts tf records fs c refs where recs: "records_from_rows e rows refs (xb_snapshot_id x) (ts_observed_at_utc ts)
        (ia_export_path a) src (time_dict ts) (tf @ identity_findings rows) (ia_coverage_mode a) = Inr records"
      and fin: "finalize_valuation_on_records e records (tf @ identity_findings rows) (ts_observed_at_utc ts) (time_dict ts)
        (ia_coverage_mode a) rows (ia_export_path a) = Inr (xb_records x, fs, c)"
    using assms(1) False unfolding assemble_export_def Let_def by (elim rbind_InrE) (auto elim!: rbind_InrE)
  from finalized_typed [OF fin records_typed [OF recs]] show ?thesis .
qed

section \<open>Stored tables\<close>

lemma owned_row_typed: "list_all row_typed rs \<Longrightarrow> list_all owned_typed (owned_of rs)"
proof (induction rs)
  case (Cons r rs)
  then show ?case by (cases r) (simp_all add: row_typed_def owned_of_def List.map_filter_simps)
qed (simp add: owned_of_def List.map_filter_simps)

lemma staged_typed:
  assumes "stage_export es a fs db = (Inr s, fs', db')" and "list_all position_typed (db_positions db')"
  shows "list_all row_typed (st_records s)"
  using assms(1)
proof (rule stage_okE)
  fix rows content src source x ts domains
  assume "assemble_export (es 0) a rows src (sha256 (es 0) content) (ad_created_at_utc source) db' = Inr x"
    and recs: "st_records s = RReceipt (export_index (es 0) a x src (ad_created_at_utc source)) # xb_records x @ map RTombstone ts"
  moreover have "row_typed (RReceipt q)" "row_typed (RTombstone t)" for q t by (simp_all add: row_typed_def)
  moreover have "list_all row_typed (xb_records x)" using calculation(1) assms(2) by (rule assembled_typed)
  ultimately show ?thesis unfolding recs by (auto simp: list_all_iff)
qed

lemma merged_typed: "list_all P rs \<Longrightarrow> list_all P t \<Longrightarrow> list_all P (merge_all key rs t)"
  using set_merge_all [of key rs t] by (auto simp: list_all_iff)

lemma materialized_typed:
  assumes "materialize_import_batch e root fs source b m records db = (r, db')" and "list_all row_typed records" and "typed_tables db"
  shows "typed_tables db'"
proof (cases r)
  case (Inl err)
  with assms(1,3) materialize_error [of e] show ?thesis by metis
next
  case (Inr saved)
  note tables = imported_tables [OF assms(1) [unfolded Inr]]
  have "list_all owned_typed (filter Q (db_owned db))" for Q using assms(3) by (auto simp: typed_tables_def list_all_iff)
  then show ?thesis
    using assms(3) positions_row_typed [OF assms(2)] owned_row_typed [OF assms(2)]
    by (simp add: typed_tables_def tables(5,6) merged_typed)
qed

lemma registered_tables:
  assumes "resolve_or_register_import_source e new_id kind ak av sid dn db = (r, db')"
  shows "db_positions db' = db_positions db \<and> db_owned db' = db_owned db"
proof -
  have bind: "db_positions db2 = db_positions db1 \<and> db_owned db2 = db_owned db1"
    if "bind_alias e existing i k v db1 = Inr db2" for existing i k v db1 db2
    using that by (auto simp: bind_alias_def Let_def split: option.splits if_splits)
  have reg: "db_positions db2 = db_positions db \<and> db_owned db2 = db_owned db"
    if "register_source e i k ak' av' dn existing db = Inr (s, db2)" for i k ak' av' existing s db2
    using that by (fastforce simp: register_source_def Let_def split: option.splits if_splits elim!: rbind_InrE dest!: bind)
  show ?thesis
    using assms unfolding resolve_or_register_import_source_def Let_def
    by (auto split: option.splits sum.splits prod.splits if_splits dest!: reg)
qed

lemma staged_tables: "stage_export es a fs db = (r, fs', db') \<Longrightarrow> typed_tables db \<Longrightarrow> typed_tables db'"
  unfolding stage_export_def Let_def typed_tables_def
  by (auto split: sum.splits prod.splits option.splits dest: registered_tables)

text \<open>
  Claim C27. The tables stay well typed: from tables whose positions and personal-finance rows are well
  typed, an ingestion of any export file, whatever its bytes, its arguments and the state of the
  evidence store, leaves tables in which every position and every row is.  Identifiers, names, dates
  and paths that the schema requires are given, currencies are three capital letters, a tax event with
  an amount has a currency, and the valuation status of a position, carried forward from an earlier import or
  new, is one of the enumeration's.  A cell that would break this fails its row and nothing is stored.
\<close>

theorem export_rows_typed:
  assumes "typed_tables db"
  shows "typed_tables (snd (snd (ingest_personal_finance_export es a fs db)))"
proof -
  obtain r fs' db' where st: "stage_export es a fs db = (r, fs', db')" by (rule prod_cases3)
  have typed: "typed_tables db'" by (rule staged_tables [OF st assms])
  show ?thesis
  proof (cases r)
    case (Inl err)
    with st typed show ?thesis by (simp add: ingest_personal_finance_export_def)
  next
    case (Inr s)
    have rows: "list_all row_typed (st_records s)"
      using staged_typed [OF st [unfolded Inr]] typed by (simp add: typed_tables_def)
    with typed st Inr materialized_typed [OF _ rows typed] show ?thesis
      by (auto simp: ingest_personal_finance_export_def split: prod.splits sum.splits)
  qed
qed

definition demo_typed_db :: import_db where
  "demo_typed_db = demo_import_db\<lparr>db_positions := [demo_position]\<rparr>"

theorem export_rows_typed_witness:
  "typed_tables demo_typed_db \<and> db_positions demo_typed_db \<noteq> [] \<and> length (db_owned demo_typed_db) = 2 \<and>
   typed_tables (snd (snd (ingest_personal_finance_export (demo_es demo_receipt_reader) demo_ingest_args no_evidence demo_typed_db)))"
proof -
  have typed: "typed_tables demo_typed_db" by code_simp
  moreover have "db_positions demo_typed_db \<noteq> [] \<and> length (db_owned demo_typed_db) = 2"
    by (simp add: demo_typed_db_def demo_import_db_def demo_owned_def)
  ultimately show ?thesis using export_rows_typed [OF typed, of "demo_es demo_receipt_reader" demo_ingest_args no_evidence] by simp
qed

end
