(* ===== verification/Spec2Isabelle.thy ===== *)
theory Spec2Isabelle
  imports Execution_Properties Authority_Properties Autonomy_Properties Identity_Properties Proposal_Properties
    Agent_Work_Properties Agent_Context_Properties Import_Evidence Import_Findings Import_Properties
    Personal_Finance_Types
begin

text \<open>
  A verification development for FinHarness, a governed personal-finance harness: an agent may
  propose, a human decides, and every effect leaves a receipt.  Paths below are relative to
  \<^verbatim>\<open>src/src/finharness\<close>.

  \<^bold>\<open>The program.\<close>  The core is the state store (SQLite tables beside a directory of JSON receipts)
  and the services on it.  Governed proposals (\<^verbatim>\<open>statecore/proposals.py\<close>) are created, revised,
  reviewed and attested, each write admitted against the current version of the proposal.  Capital
  mandates and agent authority grants (\<^verbatim>\<open>statecore/capital_mandates.py\<close>,
  \<^verbatim>\<open>statecore/agent_authority_grants.py\<close>) say what an agent may do; every change of them passes the
  administration check (\<^verbatim>\<open>authority_administration.py\<close>).  The agent runtime reads a mandate for itself
  from the stored grants (\<^verbatim>\<open>agent_autonomy_adapter.py\<close>) and asks the admission gate
  (\<^verbatim>\<open>autonomy_control.py\<close>).  The execution kernel (\<^verbatim>\<open>execution/\<close>) takes an order from a draft over a
  pre-trade check and an approval to a simulated broker.  Mutations of the API are idempotent by key
  (\<^verbatim>\<open>identity.py\<close>), on top of the durable receipt files (\<^verbatim>\<open>statecore/receipt_io.py\<close>).  A unit of agent
  work (\<^verbatim>\<open>agent_work_loop.py\<close>) freezes its context, asks a decision port for one tool at a time, passes
  each request through the admission gate and the tool runtime (\<^verbatim>\<open>agent_runtime.py\<close>), and closes with
  a run receipt.  An import (\<^verbatim>\<open>import_provenance.py\<close>, \<^verbatim>\<open>statecore/store.py\<close>) puts its source and its
  receipt into the evidence store (\<^verbatim>\<open>artifact_store.py\<close>) and then replaces the rows of its source in
  one transaction that checks the evidence, the lineage of batches and the valuation of positions.
  The adapter of personal-finance exports (\<^verbatim>\<open>personal_finance.py\<close>) drives such an import from a file:
  it registers the source (\<^verbatim>\<open>statecore/capital_sources.py\<close>), turns rows into records with canonical
  identities (\<^verbatim>\<open>statecore/identities.py\<close>), carries positions over in a delta, assesses them, and stores a
  projection of the records (\<^verbatim>\<open>capital_projection.py\<close>) beside source and receipt.

  \<^bold>\<open>How it is modelled.\<close>  A table is a list of rows with a key (\<open>tbl_get\<close>, \<open>tbl_merge\<close>), its
  constraints are checked where a write commits, and a failed transaction returns the old tables.
  Files are a map beside the tables and are not rolled back.  A service is a function from an
  environment, its arguments and the store to a result (\<open>Inl\<close> an exception of type \<open>exn\<close>, or \<open>Inr\<close>)
  and the new store, failing calls included.  The environment of a call carries what the code gets
  from outside: the clock, fresh identifiers, ISO parsing, path resolution, digests, and the points
  at which the operating system or the database refuses.  These are parameters; the theorems that
  need something of them say so in a hypothesis.  Dictionaries are association lists, Python
  values the datatype \<open>pyval\<close>, decimals exact numbers with the context rounding of twenty-eight
  digits, texts lists of characters below 256.

  \<^bold>\<open>The theories.\<close>
  \<^item> \<open>Fin_Prelude\<close>, \<open>Fin_Decimal\<close>, \<open>Fin_Json\<close>, \<open>State_Base\<close>: Python texts, results, tables, decimals,
    JSON values with their canonical text and base64; the locales \<open>row_store\<close> (laws of a keyed table)
    and \<open>guarded_system\<close> (an invariant kept by every call holds in every reachable store).
  \<^item> \<open>Execution_Models\<close>, \<open>Execution_Services\<close>, \<open>Execution_Commands\<close> model
    \<^verbatim>\<open>statecore/execution_models.py\<close>, \<^verbatim>\<open>execution/services.py\<close>, \<^verbatim>\<open>receipts.py\<close>, \<^verbatim>\<open>capabilities.py\<close>,
    \<^verbatim>\<open>broker.py\<close>, \<^verbatim>\<open>commands.py\<close> and the simulated adapter; \<open>Execution_Invariants\<close> decomposes every call
    into small changes and proves the invariant of all stores; \<open>Execution_Approvals\<close> logs the decisions
    along a run and shows that only approved drafts are staged; \<open>Execution_Properties\<close> states what
    backs an order, single submission, the verdict of checks, and two error paths that lose work.
  \<^item> \<open>Authority_Admin\<close> (operator contexts of \<^verbatim>\<open>identity.py\<close>, \<^verbatim>\<open>authority_administration.py\<close>),
    \<open>Authority_Models\<close> (tables and limits), \<open>Capital_Mandates\<close>, \<open>Authority_Grants\<close>: the authority services;
    \<open>Mandate_Resolution\<close> describes what resolution computes and \<open>Mandate_Specification\<close> says what the
    mandate of a principal is without the code's orders and tables and proves the two equal,
    \<open>Grant_Validation\<close> shows that scopes only shrink, \<open>Authority_Invariants\<close>, \<open>Authority_System\<close> and
    \<open>Authority_Usage\<close> prove the invariants of all reachable stores (series, versions, nonces, budgets),
    \<open>Mandate_Sessions\<close> lets the sessions of mandate writes interleave with other calls and keeps the
    invariant as long as overlapping writes share neither series nor principal, \<open>Authority_Demo\<close> is a
    concrete history, \<open>Authority_Properties\<close> states the results.
  \<^item> \<open>Autonomy_Control\<close>, \<open>Autonomy_Adapter\<close>, \<open>Authority_Transition\<close> model the admission gate, the
    derivation of runtime mandates with the capability profiles, and the eligibility records;
    \<open>Autonomy_Properties\<close> characterises admission and ties runtime mandates to stored grants.
  \<^item> \<open>Receipt_IO\<close> models exclusive creation and compare-and-swap of receipts with a fault at every
    system call; \<open>Identity_Mutations\<close> the keyed mutations and the browser binding; \<open>Identity_Claims\<close>
    any interleaving of processes as a transition system; \<open>Identity_Properties\<close> single execution,
    single closing, the decision table of retries and faithful replay.
  \<^item> \<open>Decision_Scaffold\<close>, \<open>Proposal_Revisions\<close>, \<open>Proposals\<close> model the written brakes
    (\<^verbatim>\<open>statecore/decision_scaffold.py\<close>, \<^verbatim>\<open>risk_classification.py\<close>), the receipt chains and the current
    version (\<^verbatim>\<open>proposal_revisions.py\<close>, \<^verbatim>\<open>proposal_version.py\<close>) and the writes; \<open>Proposal_Chains\<close> holds the
    declarative chain and the locale \<open>governed_operation\<close>, interpreted on the three operations on an
    existing proposal; \<open>Proposal_Properties\<close> shows that the walk computes the chain, that revisions
    extend it, that stale writers fail, and what an attestation is bound to.
  \<^item> \<open>Position_Valuation\<close> models \<^verbatim>\<open>position_valuation.py\<close> and \<^verbatim>\<open>capital_import_contract.py\<close>, a functional
    core of the import; \<open>Valuation_Properties\<close> gives the exact condition of admission and shows
    that a unified total is given exactly for admitted positions of one currency.
  \<^item> \<open>Agent_Context\<close> models the projection of context packs to character budgets
    (\<^verbatim>\<open>agent_context_projection.py\<close>, \<^verbatim>\<open>agent_evidence.py\<close>) and \<open>Agent_Context_Properties\<close> shows that a brief includes
    exactly the packs that fit its budget and names the others; \<open>Agent_Runtime\<close> the tool entries, the registry and dispatch,
    \<open>Agent_Receipts\<close> result envelopes and run receipts, \<open>Agent_Work_Loop\<close> and \<open>Agent_Work\<close> the dispatch
    loop and the whole unit of work; \<open>Agent_Work_Laws\<close> holds the invariants of one round and
    \<open>Agent_Work_Properties\<close> states termination, what a loop may call, and when work has succeeded.
    The decision port, the tool handlers and the context builders are arguments.
  \<^item> \<open>Write_Once\<close> is the locale of a step relation that never changes what is stored under a key,
    interpreted on the files of the evidence store, on the batches, manifests and aliases of the
    database, and on the aliases of import sources.  \<open>Artifact_Store\<close> models \<^verbatim>\<open>artifact_store.py\<close> with a fault at every system call;
    \<open>Artifact_Properties\<close> shows that evidence stays readable, that an interrupted put is completed by
    repeating it, and what the recovery of the index restores.
  \<^item> \<open>Import_Models\<close> (\<^verbatim>\<open>statecore/import_models.py\<close>, \<^verbatim>\<open>statecore/personal_finance_models.py\<close>,
    \<^verbatim>\<open>capital_import_registry.py\<close>), \<open>Import_Provenance\<close>, \<open>Import_Valuation\<close> and \<open>Import_Store\<close> (the import part of
    \<^verbatim>\<open>statecore/store.py\<close>) model an import from its evidence to the committed rows; \<open>Import_Laws\<close> holds
    the laws of the transaction, \<open>Import_Evidence\<close> shows that a prepared import is accepted and what an
    interruption does to it, \<open>Import_Findings\<close> that adapters and contract agree on findings,
    \<open>Import_Properties\<close> the replacement of rows, the tombstones, the immutable lineage, the evidence of
    every batch and the valuation of what is stored.
  \<^item> \<open>Import_Sources\<close> (canonical identities, the registry of sources), \<open>Capital_Projection\<close>, \<open>Personal_Finance\<close>
    (cells, clocks, row builders) and \<open>Personal_Finance_Ingest\<close> (deltas, valuation, staging, the whole
    ingestion) model the export adapter.  \<open>Personal_Finance_Laws\<close> describes the records that rows give,
    \<open>Personal_Finance_Contract\<close> that positions, snapshot, batch and receipt of a full export cohere;
    \<open>Personal_Finance_Properties\<close> shows that the store accepts every staged full export,
    \<open>Personal_Finance_Delta\<close> that it refuses every delta after two lots of one holding,
    \<open>Source_Properties\<close> that a source keeps its identity, and \<open>Personal_Finance_Types\<close> that the tables stay
    well typed.  \<open>Char_Code\<close> holds code equations on the bits of characters, with which the concrete
    export of \<open>Personal_Finance_Demo\<close> evaluates.

  \<^bold>\<open>Bounds and termination.\<close>  No fuel is used.  Every function is total: the walk of a receipt chain
  ends because a round either stops or reads one more of at most \<open>max_revisions\<close> receipts
  (one hundred in the code); a round of the dispatch loop that goes on uses up a step or a
  tool call of the work's budget, which is the measure of \<open>run_loop\<close>; the other loops recurse over
  lists.  Counters are Python integers, so
  they do not wrap; versions and uses are unbounded \<open>int\<close>.

  \<^bold>\<open>Hypotheses on the outside.\<close>  Instants print and parse back where a theorem needs it; different
  calls share digests and path resolution (\<open>shares\<close>); a displayed path resolves to the file it shows;
  a new receipt gets a name of its own.  Calls on the evidence store resolve paths and compute digests
  alike (\<open>same_disk\<close>), a later process reads JSON as an earlier one did (\<open>shares_evidence\<close>), and
  \<^verbatim>\<open>json.loads\<close> reads back a receipt that \<^verbatim>\<open>json.dumps\<close> has written.  For the acceptance of an export
  the calendar parses alike throughout the call, instants print as non-empty texts, and a stored source
  artifact carries its own name.

  \<^bold>\<open>Interleaving.\<close>  Processes on receipt files (\<open>Identity_Claims\<close>) and on the evidence store interleave
  at every file operation.  Lifecycle commands, revocations, proposal writes and the materialisation of
  an import run in one write transaction in the code and are one step here; a consumption validates before its
  transaction and again under the lock, and both are modelled.  A mandate write is taken apart into
  its sessions in \<open>Mandate_Sessions\<close>; that overlapping writes share neither series nor principal is
  an assumption there, which the code does not enforce.  The execution services, the creation
  of a grant and the ingestion of an export span several transactions and are one step each: theorems about them are about calls that
  follow one another.

  \<^bold>\<open>Not modelled.\<close>  The HTTP routes and middleware, the agent shell (sessions around a language
  model), the handlers of the agent tools, the readers of CSV files, and the adapters that read
  ledgers (on top of the beancount package) and broker receipts into records, schema migrations and backups, the read models (capital world, snapshot
  diffs, exposure, allocation, dashboards; they present binary floats), the analysis of the
  repository's own architecture, the Rust crate, the web frontend and the scripts.  Exception texts
  are kept up to the first interpolation that depends on a foreign message.

  \<^bold>\<open>What could follow.\<close>  The investment policy statement writer, the report on interrupted imports, and
  the agent tools that call the proposal services have rules of their own and would sit on the models
  above; the parts listed as not modelled are either presentation, or driven by libraries and
  services whose behaviour is not in the repository.
\<close>

end
